(* ===== verification/Py_Prelude.thy ===== *)
theory Py_Prelude
  imports Complex_Main "HOL-Library.Char_ord" "HOL-Library.List_Lexorder"
begin

text \<open>
  Prelude of the development: the part of the Python language and of its standard library that
  the StageForge control plane (\<^verbatim>\<open>src/backend/*.py\<close>) relies on.

  \<^item> \<open>pyval\<close> is a JSON-like Python value.  A \<open>dict\<close> with string keys is an association list in
    insertion order with distinct keys.
  \<^item> \<open>pyfloat\<close> is a float: a rational, an infinity or NaN.  Comparisons, \<open>min\<close>, \<open>max\<close>, truth and
    truncation are those of Python, NaN and the infinities included; rounding of the binary
    format is not modelled (arithmetic is exact), and \<open>-0.0\<close> is \<open>0\<close>.
  \<^item> A \<open>str\<close> is a list of code points below 256 (Latin-1), so that \<open>len\<close>, slicing, \<open>strip\<close>,
    \<open>lower\<close>, \<open>isspace\<close> and \<open>isalnum\<close> are those of Python on such strings.  A \<open>bytes\<close> value is
    a list of octets in the same type.
  \<^item> \<open>pyerr\<close> is the raised exception; a fallible expression has type \<open>pyerr + 'a\<close>.
\<close>

section \<open>Collections of facts\<close>

named_theorems py_simps \<open>computation rules of the Python layer\<close>
named_theorems py_bounds \<open>bounds that a clamp or a conversion gives\<close>

section \<open>Errors\<close>

datatype pyerr =
    TypeError
  | ValueError string
  | KeyError string
  | OverflowError
  | IndexError
  | OSError
  | AttributeError
  | RuntimeError string
  | PermissionError string
  | RevisionConflict int int string
  | StopIteration
  | StructError
  | ZeroDivisionError

definition is_type_or_value :: "pyerr \<Rightarrow> bool" where
  "is_type_or_value e = (case e of TypeError \<Rightarrow> True | ValueError _ \<Rightarrow> True | _ \<Rightarrow> False)"

definition is_key_type_or_value :: "pyerr \<Rightarrow> bool" where
  "is_key_type_or_value e = (case e of KeyError _ \<Rightarrow> True | _ \<Rightarrow> is_type_or_value e)"

definition ebind :: "'e + 'a \<Rightarrow> ('a \<Rightarrow> 'e + 'b) \<Rightarrow> 'e + 'b" where
  "ebind m f = (case m of Inl e \<Rightarrow> Inl e | Inr x \<Rightarrow> f x)"

text \<open>\<open>try: m except (caught): h\<close>, where the handler may raise again.\<close>

definition ecatch :: "('e \<Rightarrow> bool) \<Rightarrow> 'e + 'a \<Rightarrow> 'e + 'a \<Rightarrow> 'e + 'a" where
  "ecatch caught m h = (case m of Inl e \<Rightarrow> if caught e then h else Inl e | Inr x \<Rightarrow> Inr x)"

definition eguard :: "bool \<Rightarrow> 'e \<Rightarrow> 'e + unit" where
  "eguard b e = (if b then Inr () else Inl e)"

fun emap :: "('a \<Rightarrow> 'e + 'b) \<Rightarrow> 'a list \<Rightarrow> 'e + 'b list" where
  "emap f [] = Inr []"
| "emap f (x # xs) = ebind (f x) (\<lambda>y. ebind (emap f xs) (\<lambda>ys. Inr (y # ys)))"

text \<open>A \<open>for\<close> loop whose body may raise: the accumulator is the loop's local state.\<close>

fun efold :: "('a \<Rightarrow> 's \<Rightarrow> 'e + 's) \<Rightarrow> 'a list \<Rightarrow> 's \<Rightarrow> 'e + 's" where
  "efold f [] s = Inr s"
| "efold f (x # xs) s = ebind (f x s) (\<lambda>s'. efold f xs s')"

lemma ebind_simps [simp, py_simps]:
  "ebind (Inl e) f = Inl e"
  "ebind (Inr x) f = f x"
  by (simp_all add: ebind_def)

lemma ebind_eq_Inr: "(ebind m f = Inr y) = (\<exists>x. m = Inr x \<and> f x = Inr y)"
  by (cases m) auto

lemma ebind_eq_Inl: "(ebind m f = Inl e) = (m = Inl e \<or> (\<exists>x. m = Inr x \<and> f x = Inl e))"
  by (cases m) auto

lemma ebind_cong [fundef_cong]:
  "m = m' \<Longrightarrow> (\<And>x. m' = Inr x \<Longrightarrow> f x = f' x) \<Longrightarrow> ebind m f = ebind m' f'"
  by (cases m') auto

lemma ecatch_simps [simp, py_simps]:
  "ecatch c (Inr x) h = Inr x"
  "ecatch c (Inl e) h = (if c e then h else Inl e)"
  by (simp_all add: ecatch_def)

lemma ecatch_eq_Inr:
  "(ecatch c m h = Inr y) = (m = Inr y \<or> (\<exists>e. m = Inl e \<and> c e \<and> h = Inr y))"
  by (cases m) auto

lemma eguard_eq [simp]:
  "(eguard b e = Inr u) = b" "(eguard b e = Inl e') = (\<not> b \<and> e = e')"
  by (auto simp: eguard_def)

lemma emap_eq_Inr_length: "emap f xs = Inr ys \<Longrightarrow> length ys = length xs"
  by (induction xs arbitrary: ys) (auto simp: ebind_eq_Inr)

lemma emap_eq_Inr: "(emap f xs = Inr ys) = list_all2 (\<lambda>x y. f x = Inr y) xs ys"
  by (induction xs arbitrary: ys) (auto simp: ebind_eq_Inr list_all2_Cons1)

lemma efold_append: "efold f (xs @ ys) s = ebind (efold f xs s) (efold f ys)"
  by (induction xs arbitrary: s) (auto simp: ebind_def split: sum.splits)

text \<open>An invariant of the loop body is an invariant of the loop.\<close>

lemma efold_invariant:
  assumes "efold f xs s = Inr s'" and "I s"
    and "\<And>x s s'. x \<in> set xs \<Longrightarrow> I s \<Longrightarrow> f x s = Inr s' \<Longrightarrow> I s'"
  shows "I s'"
  using assms
proof (induction xs arbitrary: s)
  case Nil
  then show ?case by simp
next
  case (Cons x xs)
  then obtain t where "f x s = Inr t" and "efold f xs t = Inr s'"
    by (auto simp: ebind_eq_Inr)
  moreover from this Cons.prems have "I t" by auto
  ultimately show ?case using Cons.IH Cons.prems(3) by (meson list.set_intros(2))
qed

section \<open>Floats\<close>

datatype pyfloat = Fin rat | PInf | NInf | NaN

fun flt :: "pyfloat \<Rightarrow> pyfloat \<Rightarrow> bool" where
  "flt (Fin a) (Fin b) = (a < b)"
| "flt (Fin _) PInf = True"
| "flt NInf (Fin _) = True"
| "flt NInf PInf = True"
| "flt _ _ = False"

fun fle :: "pyfloat \<Rightarrow> pyfloat \<Rightarrow> bool" where
  "fle (Fin a) (Fin b) = (a \<le> b)"
| "fle (Fin _) PInf = True"
| "fle NInf (Fin _) = True"
| "fle NInf PInf = True"
| "fle PInf PInf = True"
| "fle NInf NInf = True"
| "fle _ _ = False"

definition feq :: "pyfloat \<Rightarrow> pyfloat \<Rightarrow> bool" where
  "feq a b = (a \<noteq> NaN \<and> a = b)"

text \<open>\<open>max(a, b)\<close> and \<open>min(a, b)\<close> return the first argument unless the second is strictly
  larger (smaller), so a NaN second argument is dropped.\<close>

definition fmax :: "pyfloat \<Rightarrow> pyfloat \<Rightarrow> pyfloat" where
  "fmax a b = (if flt a b then b else a)"

definition fmin :: "pyfloat \<Rightarrow> pyfloat \<Rightarrow> pyfloat" where
  "fmin a b = (if flt b a then b else a)"

fun fadd :: "pyfloat \<Rightarrow> pyfloat \<Rightarrow> pyfloat" where
  "fadd (Fin a) (Fin b) = Fin (a + b)"
| "fadd PInf NInf = NaN"
| "fadd NInf PInf = NaN"
| "fadd NaN _ = NaN"
| "fadd _ NaN = NaN"
| "fadd PInf _ = PInf"
| "fadd _ PInf = PInf"
| "fadd NInf _ = NInf"
| "fadd _ NInf = NInf"

fun fneg :: "pyfloat \<Rightarrow> pyfloat" where
  "fneg (Fin a) = Fin (- a)"
| "fneg PInf = NInf"
| "fneg NInf = PInf"
| "fneg NaN = NaN"

definition fsub :: "pyfloat \<Rightarrow> pyfloat \<Rightarrow> pyfloat" where
  "fsub a b = fadd a (fneg b)"

fun fscale :: "rat \<Rightarrow> pyfloat \<Rightarrow> pyfloat" where
  \<comment> \<open>multiplication by a positive constant\<close>
  "fscale c (Fin a) = Fin (c * a)"
| "fscale c x = x"

definition rtrunc :: "rat \<Rightarrow> int" where
  "rtrunc r = (if 0 \<le> r then \<lfloor>r\<rfloor> else \<lceil>r\<rceil>)"

definition round_half_even :: "rat \<Rightarrow> int" where
  "round_half_even r =
     (let f = \<lfloor>r\<rfloor>; d = r - of_int f
      in if d < 1 / 2 then f else if 1 / 2 < d then f + 1 else if even f then f else f + 1)"

text \<open>\<open>round(x, n)\<close> on floats, and \<open>int(x)\<close>.\<close>

fun fround :: "nat \<Rightarrow> pyfloat \<Rightarrow> pyfloat" where
  "fround n (Fin r) = Fin (of_int (round_half_even (r * 10 ^ n)) / 10 ^ n)"
| "fround n x = x"

fun int_of_float :: "pyfloat \<Rightarrow> pyerr + int" where
  "int_of_float (Fin r) = Inr (rtrunc r)"
| "int_of_float NaN = Inl (ValueError ''cannot convert float NaN to integer'')"
| "int_of_float _ = Inl OverflowError"

text \<open>\<open>clamp(value, low, high)\<close> of \<^verbatim>\<open>src/backend/state.py\<close> and \<^verbatim>\<open>src/backend/notation.py\<close>.\<close>

definition clamp :: "pyfloat \<Rightarrow> pyfloat \<Rightarrow> pyfloat \<Rightarrow> pyfloat" where
  "clamp value low high = fmax low (fmin high value)"

definition in_range :: "pyfloat \<Rightarrow> rat \<Rightarrow> rat \<Rightarrow> bool" where
  "in_range f lo hi = (case f of Fin r \<Rightarrow> lo \<le> r \<and> r \<le> hi | _ \<Rightarrow> False)"

lemma in_range_Fin [simp]: "in_range (Fin r) lo hi = (lo \<le> r \<and> r \<le> hi)"
  by (simp add: in_range_def)

lemma clamp_in_range [simp, py_bounds]:
  "lo \<le> hi \<Longrightarrow> in_range (clamp v (Fin lo) (Fin hi)) lo hi"
  by (cases v) (auto simp: clamp_def fmax_def fmin_def in_range_def)

lemma clamp_id: "in_range f lo hi \<Longrightarrow> clamp f (Fin lo) (Fin hi) = f"
  by (cases f) (auto simp: clamp_def fmax_def fmin_def in_range_def)

lemma clamp_idem: "lo \<le> hi \<Longrightarrow>
  clamp (clamp v (Fin lo) (Fin hi)) (Fin lo) (Fin hi) = clamp v (Fin lo) (Fin hi)"
  by (simp add: clamp_id)

lemma fmax_0_nonneg: "fmax (Fin 0) v = Fin r \<Longrightarrow> 0 \<le> r"
  by (cases v) (auto simp: fmax_def split: if_splits)

lemma rtrunc_of_int [simp]: "rtrunc (of_int i) = i"
  by (simp add: rtrunc_def)

end
