(* ===== verification/Py_Value.thy ===== *)
theory Py_Value
  imports Py_Prelude
begin

text \<open>
  Python values and the built-in functions the control plane applies to them: \<open>bool\<close>, \<open>int\<close>,
  \<open>float\<close>, \<open>str\<close>, \<open>repr\<close>, \<open>==\<close>, the string methods, the \<open>dict\<close> operations and
  \<open>json.dumps\<close>.
\<close>

datatype pyval =
    PNone
  | PBool bool
  | PInt int
  | PFloat pyfloat
  | PStr string
  | PList "pyval list"
  | PDict "(string \<times> pyval) list"

type_synonym pydict = "(string \<times> pyval) list"

section \<open>Dictionaries\<close>

definition dget :: "(string \<times> 'v) list \<Rightarrow> string \<Rightarrow> 'v option" where
  "dget d k = map_of d k"

text \<open>\<open>d.get(k, v)\<close>\<close>

definition dgetd :: "(string \<times> 'v) list \<Rightarrow> string \<Rightarrow> 'v \<Rightarrow> 'v" where
  "dgetd d k v = (case dget d k of None \<Rightarrow> v | Some w \<Rightarrow> w)"

text \<open>\<open>d.get(k)\<close>\<close>

definition dgetn :: "pydict \<Rightarrow> string \<Rightarrow> pyval" where
  "dgetn d k = dgetd d k PNone"

text \<open>\<open>d[k]\<close>\<close>

definition dindex :: "(string \<times> 'v) list \<Rightarrow> string \<Rightarrow> pyerr + 'v" where
  "dindex d k = (case dget d k of None \<Rightarrow> Inl (KeyError k) | Some v \<Rightarrow> Inr v)"

definition din :: "string \<Rightarrow> (string \<times> 'v) list \<Rightarrow> bool" where
  "din k d = (dget d k \<noteq> None)"

text \<open>\<open>d[k] = v\<close>: in place when the key is there, at the end otherwise.\<close>

fun dset :: "(string \<times> 'v) list \<Rightarrow> string \<Rightarrow> 'v \<Rightarrow> (string \<times> 'v) list" where
  "dset [] k v = [(k, v)]"
| "dset ((k', v') # d) k v = (if k' = k then (k, v) # d else (k', v') # dset d k v)"

text \<open>\<open>d.pop(k, None)\<close> as far as \<open>d\<close> is concerned, \<open>d.setdefault(k, v)\<close>, and
  \<open>{**a, **b}\<close> or \<open>a.update(b)\<close>.\<close>

definition ddel :: "(string \<times> 'v) list \<Rightarrow> string \<Rightarrow> (string \<times> 'v) list" where
  "ddel d k = filter (\<lambda>(k', _). k' \<noteq> k) d"

definition dsetdefault :: "(string \<times> 'v) list \<Rightarrow> string \<Rightarrow> 'v \<Rightarrow> (string \<times> 'v) list" where
  "dsetdefault d k v = (if din k d then d else dset d k v)"

definition dmerge :: "(string \<times> 'v) list \<Rightarrow> (string \<times> 'v) list \<Rightarrow> (string \<times> 'v) list" where
  "dmerge a b = fold (\<lambda>(k, v) d. dset d k v) b a"

definition dkeys :: "(string \<times> 'v) list \<Rightarrow> string list" where
  "dkeys d = map fst d"

definition dwf :: "(string \<times> 'v) list \<Rightarrow> bool" where
  "dwf d = distinct (dkeys d)"

lemma dget_Nil [simp]: "dget [] k = None"
  by (simp add: dget_def)

lemma dget_Cons [simp]: "dget ((k', v) # d) k = (if k = k' then Some v else dget d k)"
  by (simp add: dget_def)

lemma dget_append: "dget (a @ b) k = (case dget a k of None \<Rightarrow> dget b k | Some v \<Rightarrow> Some v)"
  by (auto simp: dget_def map_add_def split: option.splits)

lemma dget_dset [simp]: "dget (dset d k v) k' = (if k' = k then Some v else dget d k')"
  by (induction d k v rule: dset.induct) auto

lemma dget_ddel [simp]: "dget (ddel d k) k' = (if k' = k then None else dget d k')"
  by (induction d) (auto simp: ddel_def)

lemma dget_dsetdefault:
  "dget (dsetdefault d k v) k' = (if k' = k \<and> dget d k = None then Some v else dget d k')"
  by (auto simp: dsetdefault_def din_def)

lemma din_simps [simp]:
  "din k [] = False" "din k ((k', v) # d) = (k = k' \<or> din k d)"
  "din k (dset d k' v) = (k = k' \<or> din k d)"
  by (auto simp: din_def)

lemma din_iff: "din k d = (k \<in> set (dkeys d))"
  by (induction d) (auto simp: dkeys_def)

lemma dkeys_dset: "set (dkeys (dset d k v)) = insert k (set (dkeys d))"
  by (induction d k v rule: dset.induct) (auto simp: dkeys_def)

lemma dwf_Nil [simp]: "dwf []"
  by (simp add: dwf_def dkeys_def)

lemma dwf_dset [simp]: "dwf d \<Longrightarrow> dwf (dset d k v)"
proof (induction d k v rule: dset.induct)
  case (1 k v)
  then show ?case by (simp add: dwf_def dkeys_def)
next
  case (2 k' v' d k v)
  then show ?case
    using dkeys_dset [of d k v] by (auto simp: dwf_def dkeys_def)
qed

lemma dwf_ddel [simp]: "dwf d \<Longrightarrow> dwf (ddel d k)"
  by (induction d) (auto simp: dwf_def dkeys_def ddel_def)

lemma dwf_dmerge [simp]: "dwf a \<Longrightarrow> dwf (dmerge a b)"
  unfolding dmerge_def by (induction b arbitrary: a) auto

lemma dget_dmerge:
  "dwf b \<Longrightarrow> dget (dmerge a b) k = (case dget b k of None \<Rightarrow> dget a k | Some v \<Rightarrow> Some v)"
proof (induction b arbitrary: a)
  case Nil
  then show ?case by (simp add: dmerge_def)
next
  case (Cons x b)
  obtain k' v where x: "x = (k', v)" by (cases x)
  from Cons.prems x have "dwf b" and "dget b k' = None"
    by (auto simp: dwf_def dkeys_def dget_def map_of_eq_None_iff)
  moreover have "dmerge a (x # b) = dmerge (dset a k' v) b"
    by (simp add: dmerge_def x)
  ultimately show ?case
    using Cons.IH [of "dset a k' v"] by (auto simp: x split: option.splits)
qed

lemma dget_map_snd: "dget (map (\<lambda>(k, v). (k, f v)) d) k = map_option f (dget d k)"
  by (induction d) auto

section \<open>Strings\<close>

definition ord_of :: "char \<Rightarrow> nat" where
  "ord_of c = of_char c"

definition is_space :: "char \<Rightarrow> bool" where
  "is_space c = (let n = ord_of c in
     (9 \<le> n \<and> n \<le> 13) \<or> (28 \<le> n \<and> n \<le> 32) \<or> n = 133 \<or> n = 160)"

definition is_digit_char :: "char \<Rightarrow> bool" where
  "is_digit_char c = (48 \<le> ord_of c \<and> ord_of c \<le> 57)"

definition is_ascii :: "char \<Rightarrow> bool" where
  "is_ascii c = (ord_of c < 128)"

text \<open>\<open>str.isalnum\<close> of one Latin-1 character.\<close>

definition is_alnum :: "char \<Rightarrow> bool" where
  "is_alnum c = (let n = ord_of c in
     (48 \<le> n \<and> n \<le> 57) \<or> (65 \<le> n \<and> n \<le> 90) \<or> (97 \<le> n \<and> n \<le> 122) \<or>
     n \<in> {170, 178, 179, 181, 185, 186, 188, 189, 190} \<or>
     (192 \<le> n \<and> n \<noteq> 215 \<and> n \<noteq> 247))"

definition lower_char :: "char \<Rightarrow> char" where
  "lower_char c = (let n = ord_of c in
     if (65 \<le> n \<and> n \<le> 90) \<or> (192 \<le> n \<and> n \<le> 222 \<and> n \<noteq> 215) then char_of (n + 32) else c)"

definition py_lower :: "string \<Rightarrow> string" where
  "py_lower s = map lower_char s"

definition lstrip :: "string \<Rightarrow> string" where
  "lstrip s = dropWhile is_space s"

definition rstrip :: "string \<Rightarrow> string" where
  "rstrip s = rev (dropWhile is_space (rev s))"

definition strip :: "string \<Rightarrow> string" where
  "strip s = rstrip (lstrip s)"

definition rstrip_char :: "char \<Rightarrow> string \<Rightarrow> string" where
  "rstrip_char c s = rev (dropWhile (\<lambda>x. x = c) (rev s))"

definition strip_char :: "char \<Rightarrow> string \<Rightarrow> string" where
  "strip_char c s = rstrip_char c (dropWhile (\<lambda>x. x = c) s)"

definition startswith :: "string \<Rightarrow> string \<Rightarrow> bool" where
  "startswith s p = (take (length p) s = p)"

definition endswith :: "string \<Rightarrow> string \<Rightarrow> bool" where
  "endswith s p = (length p \<le> length s \<and> drop (length s - length p) s = p)"

fun join :: "string \<Rightarrow> string list \<Rightarrow> string" where
  "join sep [] = []"
| "join sep [x] = x"
| "join sep (x # y # xs) = x @ sep @ join sep (y # xs)"

text \<open>The test \<open>any(ch.isspace() for ch in s)\<close>.\<close>

definition has_space :: "string \<Rightarrow> bool" where
  "has_space s = list_ex is_space s"

lemma strip_Nil [simp]: "strip [] = []"
  by (simp add: strip_def lstrip_def rstrip_def)

lemma length_dropWhile_le': "length (dropWhile P xs) \<le> length xs"
  by (rule length_dropWhile_le)

lemma length_strip: "length (strip s) \<le> length s"
proof -
  have "length (strip s) \<le> length (dropWhile is_space s)"
    unfolding strip_def lstrip_def rstrip_def by (metis length_dropWhile_le length_rev)
  also have "\<dots> \<le> length s" by (rule length_dropWhile_le)
  finally show ?thesis .
qed

lemma strip_hd: "strip s \<noteq> [] \<Longrightarrow> \<not> is_space (hd (strip s))"
proof -
  assume ne: "strip s \<noteq> []"
  let ?t = "dropWhile is_space s"
  obtain zs where zs: "?t = strip s @ zs"
    unfolding strip_def lstrip_def rstrip_def
    by (metis append_Nil2 rev_append rev_rev_ident takeWhile_dropWhile_id)
  with ne have "hd ?t = hd (strip s)" and "?t \<noteq> []" by auto
  with hd_dropWhile [of is_space s] show ?thesis by simp
qed

lemma strip_last: "strip s \<noteq> [] \<Longrightarrow> \<not> is_space (last (strip s))"
proof -
  assume ne: "strip s \<noteq> []"
  let ?r = "dropWhile is_space (rev (dropWhile is_space s))"
  have "strip s = rev ?r" by (simp add: strip_def lstrip_def rstrip_def)
  with ne have "last (strip s) = hd ?r" and "?r \<noteq> []" by (auto simp: last_rev)
  with hd_dropWhile [of is_space "rev (dropWhile is_space s)"] show ?thesis by simp
qed

lemma strip_fixed: "s = [] \<or> (\<not> is_space (hd s) \<and> \<not> is_space (last s)) \<Longrightarrow> strip s = s"
proof -
  assume a: "s = [] \<or> (\<not> is_space (hd s) \<and> \<not> is_space (last s))"
  show "strip s = s"
  proof (cases s)
    case Nil
    then show ?thesis by simp
  next
    case (Cons c t)
    with a have h: "dropWhile is_space s = s" and l: "\<not> is_space (last s)" by auto
    have "dropWhile is_space (rev s) = rev s"
      using l Cons by (cases "rev s") (auto simp: hd_rev [symmetric] simp del: last.simps)
    then show ?thesis by (simp add: strip_def lstrip_def rstrip_def h)
  qed
qed

lemma strip_idem [simp]: "strip (strip s) = strip s"
  by (rule strip_fixed) (auto dest: strip_hd strip_last)

section \<open>Numbers as text\<close>

function show_digits :: "int \<Rightarrow> string" where
  "show_digits i =
     (if i < 10 then [char_of (48 + i)] else show_digits (i div 10) @ [char_of (48 + i mod 10)])"
  by pat_completeness auto
termination
  by (relation "measure nat") auto

declare show_digits.simps [simp del]

definition show_int :: "int \<Rightarrow> string" where
  "show_int i = (if i < 0 then CHR ''-'' # show_digits (- i) else show_digits i)"

text \<open>Decimal digits of a text with single underscores between digits, as \<open>int\<close> and \<open>float\<close>
  read them: the digits and the rest of the text.\<close>

fun take_digits :: "string \<Rightarrow> string \<times> string" where
  "take_digits [] = ([], [])"
| "take_digits (c # s) =
     (if is_digit_char c then
        (case s of
           u # c' # s' \<Rightarrow>
             if u = CHR ''_'' \<and> is_digit_char c'
             then (let (ds, r) = take_digits (c' # s') in (c # ds, r))
             else (let (ds, r) = take_digits s in (c # ds, r))
         | _ \<Rightarrow> (let (ds, r) = take_digits s in (c # ds, r)))
      else ([], c # s))"

definition digits_value :: "string \<Rightarrow> int" where
  "digits_value ds = foldl (\<lambda>a c. 10 * a + (int (ord_of c) - 48)) 0 ds"

definition take_sign :: "string \<Rightarrow> int \<times> string" where
  "take_sign s = (case s of
     c # t \<Rightarrow> if c = CHR ''-'' then (-1, t) else if c = CHR ''+'' then (1, t) else (1, s)
   | [] \<Rightarrow> (1, []))"

text \<open>\<open>int(s)\<close> of a string, with the interpreter's limit of 4300 digits.\<close>

definition parse_int :: "string \<Rightarrow> pyerr + int" where
  "parse_int s =
     (let (sg, t) = take_sign (strip s); (ds, r) = take_digits t
      in if ds \<noteq> [] \<and> r = [] \<and> length ds \<le> 4300 then Inr (sg * digits_value ds)
         else Inl (ValueError ''invalid literal for int()''))"

definition float_limit :: rat where
  "float_limit = 2 ^ 1024 - 2 ^ 970"

definition rat_to_float :: "rat \<Rightarrow> pyfloat" where
  "rat_to_float r = (if float_limit \<le> r then PInf else if r \<le> - float_limit then NInf else Fin r)"

text \<open>\<open>float(s)\<close> of a string.\<close>

definition parse_exponent :: "string \<Rightarrow> int option" where
  "parse_exponent s = (case s of
      [] \<Rightarrow> Some 0
    | c # t \<Rightarrow>
        if c = CHR ''e'' \<or> c = CHR ''E'' then
          (let (sg, u) = take_sign t; (ds, r) = take_digits u
           in if ds \<noteq> [] \<and> r = [] then Some (sg * digits_value ds) else None)
        else None)"

definition scale10 :: "rat \<Rightarrow> int \<Rightarrow> rat" where
  "scale10 r e = (if 0 \<le> e then r * 10 ^ nat e else r / 10 ^ nat (- e))"

definition parse_float :: "string \<Rightarrow> pyerr + pyfloat" where
  "parse_float s =
     (let (sg, t) = take_sign (strip s); low = py_lower t;
          bad = Inl (ValueError ''could not convert string to float'')
      in if low = ''inf'' \<or> low = ''infinity'' then Inr (if sg < 0 then NInf else PInf)
         else if low = ''nan'' then Inr NaN
         else
           (let (ds, r) = take_digits t;
                (fs, r') = (case r of c # u \<Rightarrow> if c = CHR ''.'' then take_digits u else ([], r)
                                    | [] \<Rightarrow> ([], []))
            in if ds = [] \<and> fs = [] then bad
               else (case parse_exponent r' of
                       None \<Rightarrow> bad
                     | Some e \<Rightarrow> Inr (rat_to_float
                         (of_int sg * scale10 (of_int (digits_value (ds @ fs))) (e - int (length fs)))))))"

text \<open>The \<open>n\<close> leading decimal digits of a positive rational, rounded half to even, and the
  decimal exponent of the first of them.\<close>

definition exp10_of :: "rat \<Rightarrow> int" where
  "exp10_of r =
     (let (p, q) = quotient_of r;
          e = int (length (show_digits p)) - int (length (show_digits q))
      in if scale10 1 e \<le> r then e else e - 1)"

definition sig_digits :: "nat \<Rightarrow> rat \<Rightarrow> int \<times> int" where
  "sig_digits n r =
     (let e = exp10_of r; d = round_half_even (scale10 r (int n - 1 - e))
      in if d = 10 ^ n then (10 ^ (n - 1), e + 1) else (d, e))"

definition strip_zeros :: "string \<Rightarrow> string" where
  "strip_zeros s = rstrip_char (CHR ''0'') s"

definition layout_exp :: "string \<Rightarrow> int \<Rightarrow> string" where
  "layout_exp ds e =
     (let body = (case ds of [] \<Rightarrow> ''0'' | c # t \<Rightarrow> if t = [] then [c] else c # CHR ''.'' # t);
          x = show_digits \<bar>e\<bar>; x' = (if length x < 2 then CHR ''0'' # x else x)
      in body @ ''e'' @ (if e < 0 then ''-'' else ''+'') @ x')"

definition layout_pos :: "string \<Rightarrow> int \<Rightarrow> string \<times> string" where
  \<comment> \<open>integer part and fraction of \<open>0.d1d2... * 10^(e+1)\<close>\<close>
  "layout_pos ds e =
     (if e < 0 then (''0'', replicate (nat (- e) - 1) (CHR ''0'') @ ds)
      else (let k = nat e + 1 in
        if length ds \<le> k then (ds @ replicate (k - length ds) (CHR ''0''), [])
        else (take k ds, drop k ds)))"

text \<open>The format \<open>:g\<close> (six significant digits) and \<open>repr\<close> of a positive finite float.\<close>

definition pos_g :: "rat \<Rightarrow> string" where
  "pos_g r =
     (let (d, e) = sig_digits 6 r; ds = strip_zeros (show_digits d)
      in if e < -4 \<or> 6 \<le> e then layout_exp ds e
         else (let (i, f) = layout_pos ds e in if f = [] then i else i @ ''.'' @ f))"

definition shortest_digits :: "rat \<Rightarrow> int \<times> int" where
  "shortest_digits r =
     (case find (\<lambda>n. let (d, e) = sig_digits n r in scale10 (of_int d) (e - int n + 1) = r) [1..<17]
      of Some n \<Rightarrow> sig_digits n r | None \<Rightarrow> sig_digits 17 r)"

definition pos_repr :: "rat \<Rightarrow> string" where
  "pos_repr r =
     (let (d, e) = shortest_digits r; ds = strip_zeros (show_digits d)
      in if e < -4 \<or> 16 \<le> e then layout_exp ds e
         else (let (i, f) = layout_pos ds e in i @ ''.'' @ (if f = [] then ''0'' else f)))"

fun float_text :: "(rat \<Rightarrow> string) \<Rightarrow> string \<Rightarrow> pyfloat \<Rightarrow> string" where
  "float_text pos zero (Fin r) =
     (if r = 0 then zero else if r < 0 then ''-'' @ pos (- r) else pos r)"
| "float_text pos zero PInf = ''inf''"
| "float_text pos zero NInf = ''-inf''"
| "float_text pos zero NaN = ''nan''"

definition float_g :: "pyfloat \<Rightarrow> string" where
  "float_g f = float_text pos_g ''0'' f"

definition float_repr :: "pyfloat \<Rightarrow> string" where
  "float_repr f = float_text pos_repr ''0.0'' f"


section \<open>Conversions\<close>

text \<open>\<open>bool(v)\<close>\<close>

fun truthy :: "pyval \<Rightarrow> bool" where
  "truthy PNone = False"
| "truthy (PBool b) = b"
| "truthy (PInt i) = (i \<noteq> 0)"
| "truthy (PFloat f) = (f \<noteq> Fin 0)"
| "truthy (PStr s) = (s \<noteq> [])"
| "truthy (PList xs) = (xs \<noteq> [])"
| "truthy (PDict d) = (d \<noteq> [])"

text \<open>\<open>v or w\<close>\<close>

definition por :: "pyval \<Rightarrow> pyval \<Rightarrow> pyval" where
  "por v w = (if truthy v then v else w)"

text \<open>\<open>int(v)\<close> and \<open>float(v)\<close>\<close>

fun py_int :: "pyval \<Rightarrow> pyerr + int" where
  "py_int (PBool b) = Inr (if b then 1 else 0)"
| "py_int (PInt i) = Inr i"
| "py_int (PFloat f) = int_of_float f"
| "py_int (PStr s) = parse_int s"
| "py_int _ = Inl TypeError"

fun py_float :: "pyval \<Rightarrow> pyerr + pyfloat" where
  "py_float (PBool b) = Inr (Fin (if b then 1 else 0))"
| "py_float (PInt i) = (if float_limit \<le> \<bar>of_int i\<bar> then Inl OverflowError else Inr (Fin (of_int i)))"
| "py_float (PFloat f) = Inr f"
| "py_float (PStr s) = parse_float s"
| "py_float _ = Inl TypeError"

text \<open>\<open>repr\<close> of a string: single quotes unless the text has one and no double quote.\<close>

definition hex_digit :: "nat \<Rightarrow> char" where
  "hex_digit n = (if n < 10 then char_of (48 + n) else char_of (87 + n))"

definition hex2 :: "nat \<Rightarrow> string" where
  "hex2 n = [hex_digit (n div 16 mod 16), hex_digit (n mod 16)]"

definition repr_char :: "char \<Rightarrow> char \<Rightarrow> string" where
  "repr_char q c =
     (let n = ord_of c in
      if c = q then [CHR 0x5C, c]
      else if n = 92 then [CHR 0x5C, CHR 0x5C]
      else if n = 9 then [CHR 0x5C, CHR ''t'']
      else if n = 10 then [CHR 0x5C, CHR ''n'']
      else if n = 13 then [CHR 0x5C, CHR ''r'']
      else if n < 32 \<or> (127 \<le> n \<and> n \<le> 160) \<or> n = 173 then CHR 0x5C # CHR ''x'' # hex2 n
      else [c])"

definition repr_str :: "string \<Rightarrow> string" where
  "repr_str s =
     (let q = (if CHR 0x27 \<in> set s \<and> CHR 0x22 \<notin> set s then CHR 0x22 else CHR 0x27)
      in q # concat (map (repr_char q) s) @ [q])"

primrec py_repr :: "pyval \<Rightarrow> string" where
  "py_repr PNone = ''None''"
| "py_repr (PBool b) = (if b then ''True'' else ''False'')"
| "py_repr (PInt i) = show_int i"
| "py_repr (PFloat f) = float_repr f"
| "py_repr (PStr s) = repr_str s"
| "py_repr (PList xs) = ''['' @ join '', '' (map py_repr xs) @ '']''"
| "py_repr (PDict d) = ''{'' @ join '', '' (map (\<lambda>(k, r). repr_str k @ '': '' @ r)
     (map (map_prod id py_repr) d)) @ ''}''"

text \<open>\<open>str(v)\<close>\<close>

definition py_str :: "pyval \<Rightarrow> string" where
  "py_str v = (case v of PStr s \<Rightarrow> s | _ \<Rightarrow> py_repr v)"

text \<open>\<open>str(v).strip()[:n]\<close>, the idiom that cleans every identifier.\<close>

definition clean_str :: "nat \<Rightarrow> pyval \<Rightarrow> string" where
  "clean_str n v = take n (strip (py_str v))"

text \<open>Type tests.  \<open>isinstance(v, int)\<close> holds of a bool as well.\<close>

definition is_dict :: "pyval \<Rightarrow> bool" where
  "is_dict v = (case v of PDict _ \<Rightarrow> True | _ \<Rightarrow> False)"

definition is_list :: "pyval \<Rightarrow> bool" where
  "is_list v = (case v of PList _ \<Rightarrow> True | _ \<Rightarrow> False)"

definition is_str :: "pyval \<Rightarrow> bool" where
  "is_str v = (case v of PStr _ \<Rightarrow> True | _ \<Rightarrow> False)"

definition is_bool :: "pyval \<Rightarrow> bool" where
  "is_bool v = (case v of PBool _ \<Rightarrow> True | _ \<Rightarrow> False)"

definition is_strict_int :: "pyval \<Rightarrow> bool" where
  "is_strict_int v = (case v of PInt _ \<Rightarrow> True | _ \<Rightarrow> False)"

definition dict_of :: "pyval \<Rightarrow> pydict" where
  \<comment> \<open>\<open>v if isinstance(v, dict) else {}\<close>\<close>
  "dict_of v = (case v of PDict d \<Rightarrow> d | _ \<Rightarrow> [])"

definition list_of :: "pyval \<Rightarrow> pyval list" where
  \<comment> \<open>\<open>v if isinstance(v, list) else []\<close>\<close>
  "list_of v = (case v of PList xs \<Rightarrow> xs | _ \<Rightarrow> [])"

definition as_dict :: "pyval \<Rightarrow> pyerr + pydict" where
  \<comment> \<open>the receiver of a \<open>.get\<close> call\<close>
  "as_dict v = (case v of PDict d \<Rightarrow> Inr d | _ \<Rightarrow> Inl AttributeError)"

text \<open>The elements a \<open>for\<close> loop visits.\<close>

definition py_iter :: "pyval \<Rightarrow> pyerr + pyval list" where
  "py_iter v = (case v of
      PList xs \<Rightarrow> Inr xs
    | PDict d \<Rightarrow> Inr (map (\<lambda>(k, _). PStr k) d)
    | PStr s \<Rightarrow> Inr (map (\<lambda>c. PStr [c]) s)
    | _ \<Rightarrow> Inl TypeError)"

definition strs :: "string list \<Rightarrow> pyval" where
  "strs xs = PList (map PStr xs)"

definition opt_str :: "string \<Rightarrow> pyval" where
  \<comment> \<open>\<open>s or None\<close>\<close>
  "opt_str s = (if s = [] then PNone else PStr s)"

definition opt_int :: "int option \<Rightarrow> pyval" where
  "opt_int i = (case i of None \<Rightarrow> PNone | Some n \<Rightarrow> PInt n)"

lemma length_clean_str [simp, py_bounds]: "length (clean_str n v) \<le> n"
  by (simp add: clean_str_def)

lemma dict_of_simps [simp]: "dict_of (PDict d) = d" "dict_of PNone = []"
  by (simp_all add: dict_of_def)

lemma as_dict_simps [simp]: "as_dict (PDict d) = Inr d"
  by (simp add: as_dict_def)

lemma type_test_simps [simp]:
  "is_dict (PDict d)" "is_list (PList xs)" "is_str (PStr s)" "is_bool (PBool b)"
  "is_strict_int (PInt i)"
  "\<not> is_dict (PStr s)" "\<not> is_dict PNone" "\<not> is_dict (PInt i)" "\<not> is_dict (PList xs)"
  "\<not> is_strict_int (PBool b)" "\<not> is_strict_int (PStr s)" "\<not> is_strict_int PNone"
  by (simp_all add: is_dict_def is_list_def is_str_def is_bool_def is_strict_int_def)

lemma py_str_PStr [simp]: "py_str (PStr s) = s"
  by (simp add: py_str_def)

section \<open>Reading fields\<close>

definition iclamp :: "int \<Rightarrow> int \<Rightarrow> int \<Rightarrow> int" where
  \<comment> \<open>\<open>max(low, min(high, value))\<close>\<close>
  "iclamp low high i = max low (min high i)"

definition get_int :: "pydict \<Rightarrow> string \<Rightarrow> pyval \<Rightarrow> pyerr + int" where
  "get_int d k dflt = py_int (dgetd d k dflt)"

definition get_float :: "pydict \<Rightarrow> string \<Rightarrow> pyval \<Rightarrow> pyerr + pyfloat" where
  "get_float d k dflt = py_float (dgetd d k dflt)"

definition get_bool :: "pydict \<Rightarrow> string \<Rightarrow> bool \<Rightarrow> bool" where
  "get_bool d k dflt = truthy (dgetd d k (PBool dflt))"

definition as_int :: "pyval \<Rightarrow> int \<Rightarrow> pyerr + int" where
  "as_int v dflt = ecatch is_type_or_value (py_int v) (Inr dflt)"

definition sorted_set :: "string list \<Rightarrow> string list" where
  "sorted_set xs = sort (remdups xs)"

definition ints :: "int list \<Rightarrow> pyval" where
  "ints xs = PList (map PInt xs)"

definition sub_dict :: "pydict \<Rightarrow> string \<Rightarrow> pyerr + pydict" where
  \<comment> \<open>\<open>d.get(k) or {}\<close>, used as a dictionary\<close>
  "sub_dict d k = as_dict (por (dgetn d k) (PDict []))"

lemma sorted_set_cong: "set xs = set ys \<Longrightarrow> sorted_set xs = sorted_set ys"
  unfolding sorted_set_def by (metis sorted_list_of_set_sort_remdups)

lemma as_int_PInt [simp]: "as_int (PInt i) dflt = Inr i"
  by (simp add: as_int_def)

lemma iclamp_bounds: "lo \<le> hi \<Longrightarrow> lo \<le> iclamp lo hi i \<and> iclamp lo hi i \<le> hi"
  by (simp add: iclamp_def)

lemma iclamp_id: "lo \<le> i \<Longrightarrow> i \<le> hi \<Longrightarrow> iclamp lo hi i = i"
  by (simp add: iclamp_def)

section \<open>Equality\<close>

text \<open>The numeric value that \<open>==\<close> compares: \<open>True == 1 == 1.0\<close>.\<close>

definition num_of :: "pyval \<Rightarrow> pyfloat option" where
  "num_of v = (case v of
      PBool b \<Rightarrow> Some (Fin (if b then 1 else 0))
    | PInt i \<Rightarrow> Some (Fin (of_int i))
    | PFloat f \<Rightarrow> Some f
    | _ \<Rightarrow> None)"

fun py_eq :: "nat \<Rightarrow> pyval \<Rightarrow> pyval \<Rightarrow> bool" where
  "py_eq 0 v w = False"
| "py_eq (Suc n) v w =
     (case (num_of v, num_of w) of
        (Some a, Some b) \<Rightarrow> feq a b
      | _ \<Rightarrow>
        (case (v, w) of
           (PList xs, PList ys) \<Rightarrow> length xs = length ys \<and> list_all2 (py_eq n) xs ys
         | (PDict d, PDict e) \<Rightarrow> length d = length e \<and>
             list_all (\<lambda>(k, x). case dget e k of None \<Rightarrow> False | Some y \<Rightarrow> py_eq n x y) d
         | _ \<Rightarrow> v = w))"

text \<open>\<open>v == w\<close>: the nesting of \<open>v\<close> bounds the recursion.\<close>

definition veq :: "pyval \<Rightarrow> pyval \<Rightarrow> bool" where
  "veq v w = py_eq (Suc (size v)) v w"

lemma veq_PStr [simp]: "veq (PStr s) w = (w = PStr s)" "veq w (PStr s) = (w = PStr s)"
  by (auto simp: veq_def num_of_def split: pyval.splits)

lemma veq_PNone [simp]: "veq PNone w = (w = PNone)" "veq w PNone = (w = PNone)"
  by (auto simp: veq_def num_of_def split: pyval.splits)

lemma veq_PInt [simp]: "veq (PInt i) (PInt j) = (i = j)"
  by (auto simp: veq_def num_of_def feq_def)

section \<open>JSON\<close>

text \<open>\<open>json.dumps(v, sort_keys=True, separators=(",", ":"), ensure_ascii=False)\<close> encoded as
  UTF-8: the canonical form every digest and signature of the control plane is taken of.\<close>

definition json_char :: "char \<Rightarrow> string" where
  "json_char c =
     (let n = ord_of c in
      if n = 34 then [CHR 0x5C, c]
      else if n = 92 then [CHR 0x5C, c]
      else if n = 8 then [CHR 0x5C, CHR ''b'']
      else if n = 9 then [CHR 0x5C, CHR ''t'']
      else if n = 10 then [CHR 0x5C, CHR ''n'']
      else if n = 12 then [CHR 0x5C, CHR ''f'']
      else if n = 13 then [CHR 0x5C, CHR ''r'']
      else if n < 32 then CHR 0x5C # ''u00'' @ hex2 n
      else [c])"

definition json_string :: "string \<Rightarrow> string" where
  "json_string s = CHR 0x22 # concat (map json_char s) @ [CHR 0x22]"

definition json_float :: "pyfloat \<Rightarrow> string" where
  "json_float f = (case f of Fin r \<Rightarrow> float_repr f | PInf \<Rightarrow> ''Infinity''
     | NInf \<Rightarrow> ''-Infinity'' | NaN \<Rightarrow> ''NaN'')"

primrec json_dumps :: "pyval \<Rightarrow> string" where
  "json_dumps PNone = ''null''"
| "json_dumps (PBool b) = (if b then ''true'' else ''false'')"
| "json_dumps (PInt i) = show_int i"
| "json_dumps (PFloat f) = json_float f"
| "json_dumps (PStr s) = json_string s"
| "json_dumps (PList xs) = ''['' @ join '','' (map json_dumps xs) @ '']''"
| "json_dumps (PDict d) = ''{'' @ join '','' (map (\<lambda>(k, r). json_string k @ '':'' @ r)
     (sort_key fst (map (map_prod id json_dumps) d))) @ ''}''"

definition utf8 :: "string \<Rightarrow> string" where
  "utf8 s = concat (map (\<lambda>c. let n = ord_of c in
     if n < 128 then [c] else [char_of (192 + n div 64), char_of (128 + n mod 64)]) s)"

definition canonical :: "pyval \<Rightarrow> string" where
  "canonical v = utf8 (json_dumps v)"

end
