(* ===== verification/Py_Monad.thy ===== *)
theory Py_Monad
  imports Py_Value
begin

text \<open>
  Methods of a Python object: a state transformer that either returns or raises.  What a method
  assigned before it raised stays assigned, so the state is returned in both cases; a claim that
  a failed call changes nothing is therefore a theorem about the method, not a property of the
  monad.  \<open>keeps\<close> is the small Hoare logic of the development: an invariant that survives a call
  whether it returns or raises.
\<close>

type_synonym ('s, 'a) pymethod = "'s \<Rightarrow> (pyerr + 'a) \<times> 's"

definition sreturn :: "'a \<Rightarrow> ('s, 'a) pymethod" where
  "sreturn x = (\<lambda>s. (Inr x, s))"

definition sraise :: "pyerr \<Rightarrow> ('s, 'a) pymethod" where
  "sraise e = (\<lambda>s. (Inl e, s))"

definition sbind :: "('s, 'a) pymethod \<Rightarrow> ('a \<Rightarrow> ('s, 'b) pymethod) \<Rightarrow> ('s, 'b) pymethod" where
  "sbind m f = (\<lambda>s. case m s of (Inl e, s') \<Rightarrow> (Inl e, s') | (Inr x, s') \<Rightarrow> f x s')"

definition sthen :: "('s, 'a) pymethod \<Rightarrow> ('s, 'b) pymethod \<Rightarrow> ('s, 'b) pymethod" where
  "sthen m m' = sbind m (\<lambda>_. m')"

definition slift :: "pyerr + 'a \<Rightarrow> ('s, 'a) pymethod" where
  \<comment> \<open>an expression that reads no state\<close>
  "slift r = (\<lambda>s. (r, s))"

definition sgets :: "('s \<Rightarrow> 'a) \<Rightarrow> ('s, 'a) pymethod" where
  "sgets f = (\<lambda>s. (Inr (f s), s))"

definition sgete :: "('s \<Rightarrow> pyerr + 'a) \<Rightarrow> ('s, 'a) pymethod" where
  \<comment> \<open>an expression that reads the state and may raise\<close>
  "sgete f = (\<lambda>s. (f s, s))"

definition smodify :: "('s \<Rightarrow> 's) \<Rightarrow> ('s, unit) pymethod" where
  "smodify f = (\<lambda>s. (Inr (), f s))"

definition sguard :: "bool \<Rightarrow> pyerr \<Rightarrow> ('s, unit) pymethod" where
  "sguard b e = (if b then sreturn () else sraise e)"

definition swhen :: "bool \<Rightarrow> ('s, unit) pymethod \<Rightarrow> ('s, unit) pymethod" where
  "swhen b m = (if b then m else sreturn ())"

fun sfold :: "('a \<Rightarrow> 'b \<Rightarrow> ('s, 'b) pymethod) \<Rightarrow> 'a list \<Rightarrow> 'b \<Rightarrow> ('s, 'b) pymethod" where
  "sfold f [] b = sreturn b"
| "sfold f (x # xs) b = sbind (f x b) (\<lambda>b'. sfold f xs b')"

lemma method_simps [simp]:
  "sreturn x s = (Inr x, s)"
  "sraise e s = (Inl e, s)"
  "slift r s = (r, s)"
  "sgets g s = (Inr (g s), s)"
  "sgete h s = (h s, s)"
  "smodify u s = (Inr (), u s)"
  by (simp_all add: sreturn_def sraise_def slift_def sgets_def sgete_def smodify_def)

lemma sbind_run: "sbind m f s = (case m s of (Inl e, s') \<Rightarrow> (Inl e, s') | (Inr x, s') \<Rightarrow> f x s')"
  by (simp add: sbind_def)

lemma sthen_run: "sthen m m' s = (case m s of (Inl e, s') \<Rightarrow> (Inl e, s') | (Inr x, s') \<Rightarrow> m' s')"
  by (simp add: sthen_def sbind_def)

lemma sguard_run: "sguard b e s = (if b then (Inr (), s) else (Inl e, s))"
  by (simp add: sguard_def)

lemma swhen_run: "swhen b m s = (if b then m s else (Inr (), s))"
  by (simp add: swhen_def)

lemma sthen_sguard: "sthen (sguard b e) m = (if b then m else sraise e)"
  by (auto simp: fun_eq_iff sthen_run sguard_run)

lemma sbind_assoc:
  "sbind (sbind m f) g = sbind m (\<lambda>x. sbind (f x) g)"
  "sthen (sbind m f) n = sbind m (\<lambda>x. sthen (f x) n)"
  "sbind (sthen m k) g = sthen m (sbind k g)"
  "sthen (sthen m k) n = sthen m (sthen k n)"
  by (auto simp: fun_eq_iff sthen_def sbind_def split: prod.splits sum.splits)

lemmas method_run = sbind_run sthen_run sguard_run swhen_run

text \<open>The state after a call, and whether it raised.\<close>

definition sexec :: "('s, 'a) pymethod \<Rightarrow> 's \<Rightarrow> 's" where
  "sexec m s = snd (m s)"

definition sresult :: "('s, 'a) pymethod \<Rightarrow> 's \<Rightarrow> pyerr + 'a" where
  "sresult m s = fst (m s)"

section \<open>Invariants of methods\<close>

named_theorems keeps_intro \<open>rules that push an invariant through the combinators\<close>

definition keeps :: "('s \<Rightarrow> bool) \<Rightarrow> ('s, 'a) pymethod \<Rightarrow> bool" where
  "keeps I m = (\<forall>s. I s \<longrightarrow> I (snd (m s)))"

lemma keepsI: "(\<And>s. I s \<Longrightarrow> I (snd (m s))) \<Longrightarrow> keeps I m"
  by (simp add: keeps_def)

lemma keepsD: "keeps I m \<Longrightarrow> I s \<Longrightarrow> I (snd (m s))"
  by (simp add: keeps_def)

lemma keeps_sexec: "keeps I m \<Longrightarrow> I s \<Longrightarrow> I (sexec m s)"
  by (simp add: keeps_def sexec_def)

lemma keeps_pure [keeps_intro]:
  "keeps I (sreturn x)" "keeps I (sraise e)" "keeps I (slift r)" "keeps I (sgets g)"
  "keeps I (sgete h)" "keeps I (sguard b e)"
  by (simp_all add: keeps_def sguard_def)

lemma keeps_sbind [keeps_intro]:
  "keeps I m \<Longrightarrow> (\<And>x. keeps I (f x)) \<Longrightarrow> keeps I (sbind m f)"
  by (fastforce simp: keeps_def sbind_def split: prod.splits sum.splits)

lemma keeps_sthen [keeps_intro]: "keeps I m \<Longrightarrow> keeps I m' \<Longrightarrow> keeps I (sthen m m')"
  unfolding sthen_def by (intro keeps_sbind)

lemma keeps_swhen [keeps_intro]: "(b \<Longrightarrow> keeps I m) \<Longrightarrow> keeps I (swhen b m)"
  by (auto simp: swhen_def intro: keeps_intro)

lemma keeps_if [keeps_intro]:
  "(b \<Longrightarrow> keeps I m) \<Longrightarrow> (\<not> b \<Longrightarrow> keeps I m') \<Longrightarrow> keeps I (if b then m else m')"
  by simp

lemma keeps_option [keeps_intro]:
  "(x = None \<Longrightarrow> keeps I m) \<Longrightarrow> (\<And>y. x = Some y \<Longrightarrow> keeps I (f y)) \<Longrightarrow>
   keeps I (case x of None \<Rightarrow> m | Some y \<Rightarrow> f y)"
  by (cases x) auto

lemma keeps_sfold [keeps_intro]:
  assumes "\<And>x b. keeps I (f x b)"
  shows "keeps I (sfold f xs b)"
proof (induction xs arbitrary: b)
  case Nil
  show ?case by (simp add: keeps_def)
next
  case (Cons x xs)
  with assms show ?case by (auto intro: keeps_sbind)
qed

lemma keeps_modify: "(\<And>s. I s \<Longrightarrow> I (u s)) \<Longrightarrow> keeps I (smodify u)"
  by (simp add: keeps_def)

text \<open>What a method returns, whatever state it starts in.\<close>

definition returns :: "('a \<Rightarrow> bool) \<Rightarrow> ('s, 'a) pymethod \<Rightarrow> bool" where
  "returns Q m = (\<forall>s x. fst (m s) = Inr x \<longrightarrow> Q x)"

lemma returns_return: "Q x \<Longrightarrow> returns Q (sreturn x)"
  by (simp add: returns_def)

lemma returns_slift_bind: "(\<And>x. r = Inr x \<Longrightarrow> returns Q (f x)) \<Longrightarrow> returns Q (sbind (slift r) f)"
  by (cases r) (auto simp: returns_def sbind_run)

lemma returns_sthen: "returns Q m' \<Longrightarrow> returns Q (sthen m m')"
  by (fastforce simp: returns_def sthen_run split: prod.splits sum.splits)

lemma keeps_sbind_returns:
  assumes "keeps I m" and "returns Q m" and "\<And>x. Q x \<Longrightarrow> keeps I (f x)"
  shows "keeps I (sbind m f)"
proof (rule keepsI)
  fix s assume s: "I s"
  obtain r s' where m: "m s = (r, s')" by fastforce
  with assms(1) s have s': "I s'" using keepsD by fastforce
  show "I (snd (sbind m f s))"
  proof (cases r)
    case (Inl e)
    with m s' show ?thesis by (simp add: sbind_run)
  next
    case (Inr x)
    with m assms(2) have "Q x" unfolding returns_def by (metis fst_conv)
    then have "keeps I (f x)" by (rule assms(3))
    then have "I (snd (f x s'))" using s' by (rule keepsD)
    with m Inr show ?thesis by (simp add: sbind_run)
  qed
qed

text \<open>A method that leaves a given part of the state alone, whatever it returns.\<close>

definition frame :: "('s \<Rightarrow> 'p) \<Rightarrow> ('s, 'a) pymethod \<Rightarrow> bool" where
  "frame g m = (\<forall>p. keeps (\<lambda>s. g s = p) m)"

lemma frameD: "frame g m \<Longrightarrow> g (snd (m s)) = g s"
  by (auto simp: frame_def keeps_def)

lemma frameI: "(\<And>p. keeps (\<lambda>s. g s = p) m) \<Longrightarrow> frame g m"
  by (simp add: frame_def)

section \<open>Normalisers\<close>

text \<open>The functions that turn an untrusted JSON value into a configuration: what comes out is
  valid, and a valid value that is written out is read back unchanged, as long as it is \<open>stable\<close>
  (cutting an identifier to its maximal length may leave a blank at its end, which the next
  reading strips).\<close>

locale normalizer =
  fixes norm :: "'r \<Rightarrow> pyerr + 'n" and emb :: "'n \<Rightarrow> 'r"
    and valid :: "'n \<Rightarrow> bool" and stable :: "'n \<Rightarrow> bool"
  assumes norm_valid: "norm r = Inr n \<Longrightarrow> valid n"
    and norm_emb: "valid n \<Longrightarrow> stable n \<Longrightarrow> norm (emb n) = Inr n"
begin

lemma norm_idem: "norm r = Inr n \<Longrightarrow> stable n \<Longrightarrow> norm (emb n) = Inr n"
  by (rule norm_emb [OF norm_valid])

lemma norm_fixed_iff: "stable n \<Longrightarrow> norm (emb n) = Inr n \<longleftrightarrow> valid n"
  using norm_valid norm_emb by blast

end

end
