(* ===== verification/Py_Crypto.thy ===== *)
theory Py_Crypto
  imports Py_Value "HOL-Library.Word"
begin

text \<open>
  The two functions of \<open>hashlib\<close> and \<open>hmac\<close> that the control plane calls: SHA-256 (FIPS 180-4)
  on octet strings, as a lower-case hexadecimal digest, and HMAC-SHA-256 (RFC 2104).  They are
  written out so that every digest of the model is a closed executable term; no proof below
  depends on a property of them beyond being functions.
\<close>

unbundle bit_operations_syntax

type_synonym u32 = "32 word"

definition ror32 :: "nat \<Rightarrow> u32 \<Rightarrow> u32" where
  "ror32 n x = (drop_bit n x) OR (push_bit (32 - n) x)"

text \<open>The round constants are the first 32 fractional bits of the cube roots of the first 64
  primes, the initial state those of the square roots of the first eight.\<close>

definition primes_to :: "int \<Rightarrow> int list" where
  "primes_to m = filter (\<lambda>p. list_all (\<lambda>d. p mod d \<noteq> 0) [2..p - 1]) [2..m]"

fun root_bits :: "nat \<Rightarrow> nat \<Rightarrow> int \<Rightarrow> int \<Rightarrow> int" where
  "root_bits k 0 n acc = acc"
| "root_bits k (Suc b) n acc =
     (let c = acc + 2 ^ b in root_bits k b n (if c ^ k \<le> n then c else acc))"

definition root_fraction :: "nat \<Rightarrow> int \<Rightarrow> u32" where
  "root_fraction k p = word_of_int (root_bits k 37 (p * 2 ^ (32 * k)) 0)"

definition sha_k :: "u32 list" where
  "sha_k = map (root_fraction 3) (primes_to 311)"

definition sha_init :: "u32 list" where
  "sha_init = map (root_fraction 2) (primes_to 19)"

text \<open>Padding to whole blocks of 64 octets with the bit length in the last eight.\<close>

definition be_octets :: "nat \<Rightarrow> int \<Rightarrow> string" where
  "be_octets n x = map (\<lambda>i. char_of (x div 256 ^ (n - 1 - i) mod 256)) [0..<n]"

definition sha_pad :: "string \<Rightarrow> string" where
  "sha_pad m = m @ [char_of (128 :: int)]
     @ replicate ((119 - length m mod 64) mod 64) (char_of (0 :: int)) @ be_octets 8 (8 * int (length m))"

definition octet :: "char \<Rightarrow> int" where
  "octet c = of_char c"

fun words_of :: "string \<Rightarrow> u32 list" where
  "words_of (a # b # c # d # s) =
     word_of_int (((octet a * 256 + octet b) * 256 + octet c) * 256 + octet d) # words_of s"
| "words_of _ = []"

fun chunks16 :: "nat \<Rightarrow> u32 list \<Rightarrow> u32 list list" where
  "chunks16 0 ws = []"
| "chunks16 (Suc n) ws = take 16 ws # chunks16 n (drop 16 ws)"

text \<open>The message schedule, newest word first.\<close>

fun sha_schedule :: "nat \<Rightarrow> u32 list \<Rightarrow> u32 list" where
  "sha_schedule 0 ws = ws"
| "sha_schedule (Suc n) ws =
     (let w2 = ws ! 1; w7 = ws ! 6; w15 = ws ! 14; w16 = ws ! 15;
          s0 = ror32 7 w15 XOR ror32 18 w15 XOR drop_bit 3 w15;
          s1 = ror32 17 w2 XOR ror32 19 w2 XOR drop_bit 10 w2
      in sha_schedule n ((w16 + s0 + w7 + s1) # ws))"

fun sha_round :: "u32 list \<Rightarrow> u32 \<times> u32 \<Rightarrow> u32 list" where
  "sha_round [a, b, c, d, e, f, g, h] (k, w) =
     (let s1 = ror32 6 e XOR ror32 11 e XOR ror32 25 e;
          ch = (e AND f) XOR (NOT e AND g);
          t1 = h + s1 + ch + k + w;
          s0 = ror32 2 a XOR ror32 13 a XOR ror32 22 a;
          maj = (a AND b) XOR (a AND c) XOR (b AND c)
      in [t1 + s0 + maj, a, b, c, d + t1, e, f, g])"
| "sha_round st _ = st"

definition sha_block :: "u32 list \<Rightarrow> u32 list \<Rightarrow> u32 list" where
  "sha_block st ws =
     map2 (+) st (foldl sha_round st (zip sha_k (rev (sha_schedule 48 (rev ws)))))"

definition sha_words :: "string \<Rightarrow> u32 list" where
  "sha_words m = (let ws = words_of (sha_pad m)
     in foldl sha_block sha_init (chunks16 (length ws div 16) ws))"

text \<open>\<open>hashlib.sha256(m).digest()\<close> and \<open>.hexdigest()\<close>\<close>

definition sha256_digest :: "string \<Rightarrow> string" where
  "sha256_digest m = concat (map (\<lambda>w. be_octets 4 (uint w)) (sha_words m))"

definition hex_of :: "string \<Rightarrow> string" where
  "hex_of s = concat (map (\<lambda>c. hex2 (ord_of c)) s)"

definition sha256_hex :: "string \<Rightarrow> string" where
  "sha256_hex m = hex_of (sha256_digest m)"

text \<open>\<open>hmac.new(key, m, hashlib.sha256)\<close>, its \<open>digest()\<close> and \<open>hexdigest()\<close>\<close>

definition xor_octet :: "int \<Rightarrow> char \<Rightarrow> char" where
  "xor_octet x c = char_of (x XOR octet c)"

definition hmac_sha256_digest :: "string \<Rightarrow> string \<Rightarrow> string" where
  "hmac_sha256_digest key m =
     (let k0 = (if 64 < length key then sha256_digest key else key);
          k = k0 @ replicate (64 - length k0) (char_of (0 :: int))
      in sha256_digest (map (xor_octet 0x5c) k @ sha256_digest (map (xor_octet 0x36) k @ m)))"

definition hmac_sha256_hex :: "string \<Rightarrow> string \<Rightarrow> string" where
  "hmac_sha256_hex key m = hex_of (hmac_sha256_digest key m)"

text \<open>A digest has 32 octets.\<close>

lemma length_sha_words: "length (sha_words m) = 8"
proof -
  have r: "length (sha_round st kw) = length st" for st kw
    by (induction st kw rule: sha_round.induct) (auto simp: Let_def)
  have f: "length (foldl sha_round st kws) = length st" for st kws
    by (induction kws arbitrary: st) (auto simp: r)
  have b: "length (sha_block st ws) = length st" for st ws
    by (simp add: sha_block_def f)
  have g: "length (foldl sha_block st bs) = length st" for st bs
    by (induction bs arbitrary: st) (auto simp: b)
  have "length sha_init = 8" by code_simp
  then show ?thesis by (simp add: sha_words_def Let_def g)
qed

lemma length_be_octets [simp]: "length (be_octets n x) = n"
  by (simp add: be_octets_def)

lemma length_concat_const: "length (concat (map f xs)) = n * length xs" if "\<And>x. length (f x) = n"
  by (induction xs) (simp_all add: that)

lemma length_sha256_digest [simp]: "length (sha256_digest m) = 32"
  by (simp add: sha256_digest_def length_concat_const [of _ 4] length_sha_words)

lemma length_hmac_digest [simp]: "length (hmac_sha256_digest k m) = 32"
  by (simp add: hmac_sha256_digest_def Let_def)

lemma length_hex_of [simp]: "length (hex_of s) = 2 * length s"
  by (simp add: hex_of_def length_concat_const [of _ 2] hex2_def)

text \<open>\<open>hashlib.sha256(canonical(v)).hexdigest()\<close> and the tag over a hexadecimal digest.\<close>

definition digest_of :: "pyval \<Rightarrow> string" where
  "digest_of v = sha256_hex (canonical v)"

text \<open>A collision of the digest on canonical forms: what a successful substitution of a
  document exhibits.\<close>

definition digest_collision :: "pyval \<Rightarrow> pyval \<Rightarrow> bool" where
  "digest_collision v w = (canonical v \<noteq> canonical w \<and> digest_of v = digest_of w)"

end
