(* ===== verification/Cluster_Secrets.thy ===== *)
theory Cluster_Secrets
  imports Py_Monad Py_Crypto
begin

text \<open>
  \<^verbatim>\<open>src/backend/cluster_secrets.py\<close>: bounded HMAC keyrings.  A keyring document that is accepted
  has one to sixteen valid, pairwise different secrets and an active key among them; resolving a
  key identifier yields a secret of the snapshot or raises.  Reading the private file is outside
  the model: \<open>keyring_snapshot\<close> takes the parsed document, or \<open>None\<close> when the file is unreadable
  or is not JSON.
\<close>

definition unique_pairs :: "(string \<times> pyval) list \<Rightarrow> pyerr + pydict" where
  "unique_pairs pairs =
     efold (\<lambda>(k, v) d. if din k d then Inl (ValueError ''duplicate JSON key'') else Inr (dset d k v))
       pairs []"

definition valid_key_id :: "pyval \<Rightarrow> bool" where
  "valid_key_id v = (case v of
      PStr s \<Rightarrow> 1 \<le> length s \<and> length s \<le> 64 \<and> list_all is_ascii s \<and>
        list_all (\<lambda>c. is_alnum c \<or> c \<in> set ''._-'') s
    | _ \<Rightarrow> False)"

definition secret_bytes :: "pyval \<Rightarrow> pyerr + string" where
  "secret_bytes v = (case v of
      PStr s \<Rightarrow>
        if 32 \<le> length s \<and> length s \<le> 512 \<and> list_all is_ascii s \<and>
           \<not> list_ex (\<lambda>c. ord_of c < 33 \<or> 126 < ord_of c) s
        then Inr (utf8 s) else Inl (ValueError ''invalid HMAC secret'')
    | _ \<Rightarrow> Inl (ValueError ''invalid HMAC secret''))"

record hmac_snapshot =
  hk_active :: "string option"
  hk_keys :: "(string \<times> string) list"
  hk_keyring_mode :: bool

definition hk_configured :: "hmac_snapshot \<Rightarrow> bool" where
  "hk_configured k = (hk_keys k \<noteq> [])"

definition active_secret :: "hmac_snapshot \<Rightarrow> pyerr + string" where
  "active_secret k =
     (if \<not> hk_configured k then Inr []
      else if hk_keyring_mode k then
        (case hk_active k of
           None \<Rightarrow> Inl (PermissionError ''cluster keyring has no active key'')
         | Some a \<Rightarrow>
             if a = [] \<or> \<not> din a (hk_keys k)
             then Inl (PermissionError ''cluster keyring has no active key'')
             else dindex (hk_keys k) a)
      else Inr (snd (hd (hk_keys k))))"

definition resolve :: "hmac_snapshot \<Rightarrow> pyval \<Rightarrow> pyerr + string" where
  "resolve k key_id =
     (if \<not> hk_keyring_mode k then
        (if key_id \<noteq> PNone \<and> key_id \<noteq> PStr []
         then Inl (PermissionError ''key identifiers require keyring mode'')
         else active_secret k)
      else if \<not> valid_key_id key_id then Inl (PermissionError ''cluster key identifier required'')
      else (case dget (hk_keys k) (py_str key_id) of
              None \<Rightarrow> Inl (PermissionError ''unknown cluster key identifier'')
            | Some s \<Rightarrow> Inr s))"

record hmac_keyring =
  kr_path :: "string option"
  kr_legacy_secret :: string

definition keyring_mode :: "hmac_keyring \<Rightarrow> bool" where
  "keyring_mode kr = (kr_path kr \<noteq> None)"

definition keyring_configured :: "hmac_keyring \<Rightarrow> bool" where
  "keyring_configured kr = (keyring_mode kr \<or> kr_legacy_secret kr \<noteq> [])"

text \<open>The body of \<open>snapshot\<close> after the file is parsed.\<close>

definition keyring_document :: "pyval \<Rightarrow> pyerr + hmac_snapshot" where
  "keyring_document doc =
     ebind (eguard (is_dict doc \<and>
                    set (dkeys (dict_of doc)) = {''version'', ''activeKeyId'', ''keys''})
              (ValueError ''invalid keyring document'')) (\<lambda>_.
     ebind (dindex (dict_of doc) ''version'') (\<lambda>version.
     ebind (eguard (version = PInt 1) (ValueError ''unsupported keyring version'')) (\<lambda>_.
     ebind (dindex (dict_of doc) ''activeKeyId'') (\<lambda>active.
     ebind (dindex (dict_of doc) ''keys'') (\<lambda>entries.
     ebind (eguard (valid_key_id active \<and> is_dict entries \<and>
                    1 \<le> length (dict_of entries) \<and> length (dict_of entries) \<le> 16)
              (ValueError ''invalid keyring fields'')) (\<lambda>_.
     ebind (efold (\<lambda>(key_id, secret) keys.
              ebind (eguard (valid_key_id (PStr key_id)) (ValueError ''invalid key identifier'')) (\<lambda>_.
              ebind (secret_bytes secret) (\<lambda>b. Inr (dset keys key_id b))))
            (dict_of entries) []) (\<lambda>keys.
     ebind (eguard (din (py_str active) keys \<and> distinct (map snd keys))
              (ValueError ''ambiguous or missing active key'')) (\<lambda>_.
     Inr \<lparr>hk_active = Some (py_str active), hk_keys = keys, hk_keyring_mode = True\<rparr>))))))))"

definition keyring_snapshot :: "hmac_keyring \<Rightarrow> pyval option \<Rightarrow> pyerr + hmac_snapshot" where
  "keyring_snapshot kr file =
     (if kr_path kr = None then
        Inr \<lparr>hk_active = None,
             hk_keys = (if kr_legacy_secret kr = [] then [] else [(''legacy'', kr_legacy_secret kr)]),
             hk_keyring_mode = False\<rparr>
      else (case file of
              None \<Rightarrow> Inl (PermissionError ''cluster keyring unavailable or invalid'')
            | Some doc \<Rightarrow>
                (case keyring_document doc of
                   Inl _ \<Rightarrow> Inl (PermissionError ''cluster keyring unavailable or invalid'')
                 | Inr k \<Rightarrow> Inr k)))"

section \<open>What an accepted keyring guarantees\<close>

definition secret_ok :: "string \<Rightarrow> bool" where
  "secret_ok s = (32 \<le> length s \<and> length s \<le> 512 \<and> list_all (\<lambda>c. 33 \<le> ord_of c \<and> ord_of c \<le> 126) s)"

definition keyring_ok :: "hmac_snapshot \<Rightarrow> bool" where
  "keyring_ok k =
     (hk_keyring_mode k \<and> 1 \<le> length (hk_keys k) \<and> length (hk_keys k) \<le> 16 \<and>
      dwf (hk_keys k) \<and> distinct (map snd (hk_keys k)) \<and>
      list_all (\<lambda>(i, s). valid_key_id (PStr i) \<and> secret_ok s) (hk_keys k) \<and>
      (\<exists>a. hk_active k = Some a \<and> din a (hk_keys k)))"

lemma utf8_ascii: "list_all is_ascii s \<Longrightarrow> utf8 s = s"
  by (induction s) (auto simp: utf8_def is_ascii_def)

lemma secret_bytes_ok: "secret_bytes v = Inr b \<Longrightarrow> secret_ok b"
  by (auto simp: secret_bytes_def secret_ok_def utf8_ascii list_all_iff list_ex_iff
           split: pyval.splits if_splits)

lemma length_dset: "length (dset d k v) = (if din k d then length d else Suc (length d))"
  by (induction d k v rule: dset.induct) auto

lemma set_dset: "set (dset d k v) \<subseteq> insert (k, v) (set d)"
  by (induction d k v rule: dset.induct) auto

lemma dset_nonempty: "dset d k v \<noteq> []"
  by (induction d k v rule: dset.induct) auto

text \<open>One loop over the entries: the accumulator stays well formed and never outgrows them.\<close>

lemma keyring_entries:
  assumes "efold (\<lambda>(key_id, secret) keys.
              ebind (eguard (valid_key_id (PStr key_id)) e) (\<lambda>_.
              ebind (secret_bytes secret) (\<lambda>b. Inr (dset keys key_id b)))) es acc = Inr keys"
    and "dwf acc" and "list_all (\<lambda>(i, s). valid_key_id (PStr i) \<and> secret_ok s) acc"
  shows "dwf keys \<and> list_all (\<lambda>(i, s). valid_key_id (PStr i) \<and> secret_ok s) keys \<and>
         length keys \<le> length acc + length es \<and> (es \<noteq> [] \<or> acc \<noteq> [] \<longrightarrow> keys \<noteq> [])"
  using assms
proof (induction es arbitrary: acc)
  case Nil
  then show ?case by simp
next
  case (Cons x es)
  obtain i v where x: "x = (i, v)" by (cases x)
  with Cons.prems(1) obtain b where i: "valid_key_id (PStr i)" and b: "secret_bytes v = Inr b"
    and rest: "efold (\<lambda>(key_id, secret) keys.
              ebind (eguard (valid_key_id (PStr key_id)) e) (\<lambda>_.
              ebind (secret_bytes secret) (\<lambda>b. Inr (dset keys key_id b)))) es (dset acc i b) = Inr keys"
    by (auto simp: ebind_eq_Inr)
  have "list_all (\<lambda>(i, s). valid_key_id (PStr i) \<and> secret_ok s) (dset acc i b)"
    using Cons.prems(3) i secret_bytes_ok [OF b] set_dset [of acc i b] by (fastforce simp: list_all_iff)
  with Cons.IH [OF rest] Cons.prems(2) show ?case
    by (auto simp: length_dset dset_nonempty split: if_splits)
qed

lemma keyring_document_ok: "keyring_document doc = Inr k \<Longrightarrow> keyring_ok k"
proof -
  assume a: "keyring_document doc = Inr k"
  then obtain active entries keys where
      len: "1 \<le> length (dict_of entries)" "length (dict_of entries) \<le> 16"
    and fold: "efold (\<lambda>(key_id, secret) keys.
              ebind (eguard (valid_key_id (PStr key_id)) (ValueError ''invalid key identifier'')) (\<lambda>_.
              ebind (secret_bytes secret) (\<lambda>b. Inr (dset keys key_id b)))) (dict_of entries) [] = Inr keys"
    and fin: "din (py_str active) keys" "distinct (map snd keys)"
    and k: "k = \<lparr>hk_active = Some (py_str active), hk_keys = keys, hk_keyring_mode = True\<rparr>"
    unfolding keyring_document_def by (simp only: ebind_eq_Inr eguard_eq) blast
  from keyring_entries [OF fold] len have "dwf keys" "keys \<noteq> []" "length keys \<le> 16"
    "list_all (\<lambda>(i, s). valid_key_id (PStr i) \<and> secret_ok s) keys" by auto
  with fin k show ?thesis by (auto simp: keyring_ok_def Suc_le_eq)
qed

lemma resolve_mem:
  "hk_keyring_mode k \<Longrightarrow> resolve k i = Inr s \<Longrightarrow> (py_str i, s) \<in> set (hk_keys k)"
  by (auto simp: resolve_def dget_def dest: map_of_SomeD split: if_splits option.splits)

lemma resolve_active:
  assumes "keyring_ok k" and "hk_active k = Some a"
  shows "\<exists>s. resolve k (PStr a) = Inr s \<and> active_secret k = Inr s \<and> secret_ok s"
proof -
  from assms have m: "hk_keyring_mode k" and din: "din a (hk_keys k)"
    and all: "list_all (\<lambda>(i, s). valid_key_id (PStr i) \<and> secret_ok s) (hk_keys k)"
    by (auto simp: keyring_ok_def)
  from din obtain s where s: "dget (hk_keys k) a = Some s" by (auto simp: din_def)
  then have "(a, s) \<in> set (hk_keys k)" by (auto simp: dget_def dest: map_of_SomeD)
  with all have "valid_key_id (PStr a)" and "secret_ok s" by (auto simp: list_all_iff)
  with assms m din s show ?thesis
    by (auto simp: resolve_def active_secret_def hk_configured_def dindex_def valid_key_id_def)
qed

end
