(* ===== verification/Replication.thy ===== *)
theory Replication
  imports Cluster_Secrets
begin

text \<open>
  \<^verbatim>\<open>src/backend/replication.py\<close>: the signed show-state envelope and \<open>ReplicationTracker\<close>, which
  holds a node's role and epoch and decides which envelopes a standby may apply.  The lemmas show
  that an exported envelope verifies, what an accepted envelope guarantees, that exports carry
  strictly increasing (epoch, sequence) pairs, and that a standby never moves backwards.
\<close>

section \<open>Envelopes\<close>

text \<open>\<open>hmac.compare_digest\<close> on two strings: it refuses text outside ASCII.\<close>

definition compare_digest :: "string \<Rightarrow> string \<Rightarrow> pyerr + bool" where
  "compare_digest a b =
     (if list_all is_ascii a \<and> list_all is_ascii b then Inr (a = b) else Inl TypeError)"

definition envelope_fields ::
    "int \<Rightarrow> string \<Rightarrow> int \<Rightarrow> int \<Rightarrow> int \<Rightarrow> pyval \<Rightarrow> pydict option \<Rightarrow> string option \<Rightarrow> pydict" where
  "envelope_fields version node_id epoch sequence revision snapshot telemetry key_id =
     [(''protocolVersion'', PInt version), (''sourceNodeId'', PStr node_id), (''epoch'', PInt epoch),
      (''sequence'', PInt sequence), (''revision'', PInt revision), (''snapshot'', snapshot)]
     @ (case telemetry of None \<Rightarrow> [] | Some t \<Rightarrow> [(''executionTelemetry'', PDict t)])
     @ (case key_id of None \<Rightarrow> [] | Some k \<Rightarrow> [(''keyId'', PStr k)])"

text \<open>A payload with its digest and the tag over the digest; no tag without a secret.\<close>

definition seal :: "string option \<Rightarrow> pydict \<Rightarrow> pydict" where
  "seal secret payload =
     (let digest = digest_of (PDict payload);
          signature = (case secret of None \<Rightarrow> [] | Some s \<Rightarrow>
                         if s = [] then [] else hmac_sha256_hex s digest)
      in dset (dset payload ''digestSha256'' (PStr digest)) ''hmacSha256'' (PStr signature))"

definition make_envelope ::
    "pydict \<Rightarrow> string \<Rightarrow> int \<Rightarrow> int \<Rightarrow> string option \<Rightarrow> pydict option \<Rightarrow> string option \<Rightarrow> pyerr + pydict" where
  "make_envelope snapshot node_id epoch sequence secret telemetry key_id =
     ebind (py_int (dgetd snapshot ''revision'' (PInt 0))) (\<lambda>revision.
       Inr (seal secret (envelope_fields (if telemetry \<noteq> None then 2 else 1) node_id epoch sequence
              revision (PDict snapshot) telemetry key_id)))"

text \<open>The payload \<open>verify_envelope\<close> rebuilds; the left summand is its early return.\<close>

definition envelope_payload :: "pydict \<Rightarrow> pyerr + (string + pydict)" where
  "envelope_payload env =
     ebind (dindex env ''protocolVersion'') (\<lambda>v. ebind (py_int v) (\<lambda>version.
     ebind (dindex env ''sourceNodeId'') (\<lambda>source.
     ebind (dindex env ''epoch'') (\<lambda>v. ebind (py_int v) (\<lambda>epoch.
     ebind (dindex env ''sequence'') (\<lambda>v. ebind (py_int v) (\<lambda>sequence.
     ebind (dindex env ''revision'') (\<lambda>v. ebind (py_int v) (\<lambda>revision.
     ebind (dindex env ''snapshot'') (\<lambda>snapshot.
     let telemetry = dgetd env ''executionTelemetry'' (PDict []);
         key_id = map_option py_str (dget env ''keyId'')
     in if 2 \<le> version \<and> \<not> is_dict telemetry then Inr (Inl ''malformed execution telemetry'')
        else Inr (Inr (envelope_fields version (py_str source) epoch sequence revision snapshot
               (if 2 \<le> version then Some (dict_of telemetry) else None) key_id))))))))))))"

text \<open>The secret an envelope is checked against: empty means that no tag is required.\<close>

definition envelope_auth :: "pydict \<Rightarrow> string option \<Rightarrow> hmac_snapshot option \<Rightarrow> pyerr + string" where
  "envelope_auth env secret keyset =
     (case keyset of
        None \<Rightarrow> Inr (case secret of None \<Rightarrow> [] | Some s \<Rightarrow> s)
      | Some ks \<Rightarrow> if \<not> hk_configured ks then Inr [] else resolve ks (dgetn env ''keyId''))"

definition verify_envelope ::
    "pydict \<Rightarrow> string option \<Rightarrow> hmac_snapshot option \<Rightarrow> pyerr + (bool \<times> string)" where
  "verify_envelope env secret keyset =
     (case envelope_payload env of
        Inl e \<Rightarrow> if is_key_type_or_value e then Inr (False, ''malformed replication envelope'') else Inl e
      | Inr (Inl reason) \<Rightarrow> Inr (False, reason)
      | Inr (Inr payload) \<Rightarrow>
        if dgetn payload ''protocolVersion'' \<notin> {PInt 1, PInt 2} \<or> \<not> is_dict (dgetn payload ''snapshot'')
        then Inr (False, ''unsupported replication envelope'')
        else
          let digest = digest_of (PDict payload) in
          ebind (compare_digest digest (py_str (dgetd env ''digestSha256'' (PStr [])))) (\<lambda>same.
          if \<not> same then Inr (False, ''replication digest mismatch'')
          else case envelope_auth env secret keyset of
            Inl (PermissionError reason) \<Rightarrow> Inr (False, reason)
          | Inl e \<Rightarrow> Inl e
          | Inr auth_secret \<Rightarrow>
            ebind (if auth_secret = [] then Inr True
                   else let supplied = py_str (dgetd env ''hmacSha256'' (PStr [])) in
                        if supplied = [] then Inr False
                        else compare_digest (hmac_sha256_hex auth_secret digest) supplied) (\<lambda>authentic.
            if \<not> authentic then Inr (False, ''replication authentication failed'')
            else
              ebind (py_int (dgetn payload ''revision'')) (\<lambda>revision.
              ebind (py_int (dgetd (dict_of (dgetn payload ''snapshot'')) ''revision'' (PInt (-1)))) (\<lambda>held.
              if revision \<noteq> held then Inr (False, ''replication revision does not match snapshot'')
              else Inr (True, ''ok''))))))"

section \<open>The tracker\<close>

record replication_tracker =
  rt_node_id :: string
  rt_role :: string
  rt_epoch :: int
  rt_export_sequence :: int
  rt_source_node_id :: string
  rt_applied_epoch :: int
  rt_applied_sequence :: int
  rt_applied_revision :: int
  rt_last_applied_at :: rat

definition roles :: "string set" where
  "roles = {''primary'', ''standby''}"

definition tracker_init :: "string \<Rightarrow> string \<Rightarrow> replication_tracker" where
  "tracker_init node_id role =
     (let r = py_lower (strip role); n = take 64 (strip node_id)
      in \<lparr>rt_node_id = (if n = [] then ''node-local'' else n),
          rt_role = (if r \<in> roles then r else ''primary''),
          rt_epoch = 1, rt_export_sequence = 0, rt_source_node_id = [],
          rt_applied_epoch = 0, rt_applied_sequence = 0, rt_applied_revision = 0,
          rt_last_applied_at = 0\<rparr>)"

definition tracker_status :: "rat \<Rightarrow> replication_tracker \<Rightarrow> pyval" where
  "tracker_status now t =
     (let age = (if rt_last_applied_at t = 0 then PNone
                 else PInt (rtrunc (max 0 (now - rt_last_applied_at t) * 1000)))
      in PDict [(''nodeId'', PStr (rt_node_id t)), (''role'', PStr (rt_role t)),
           (''epoch'', PInt (rt_epoch t)), (''sourceNodeId'', opt_str (rt_source_node_id t)),
           (''lastAppliedEpoch'', PInt (rt_applied_epoch t)),
           (''lastAppliedSequence'', PInt (rt_applied_sequence t)),
           (''lastAppliedRevision'', PInt (rt_applied_revision t)), (''replicaAgeMs'', age)])"

definition is_primary :: "replication_tracker \<Rightarrow> bool" where
  "is_primary t = (rt_role t = ''primary'')"

definition set_role :: "rat \<Rightarrow> string \<Rightarrow> (replication_tracker, pyval) pymethod" where
  "set_role now role0 =
     (let role = py_lower (strip role0) in
      sthen (sguard (role \<in> roles) (ValueError ''node role must be primary or standby''))
     (sthen (smodify (\<lambda>t. if role \<noteq> rt_role t
               then t\<lparr>rt_epoch := rt_epoch t + 1, rt_role := role, rt_export_sequence := 0\<rparr> else t))
      (sgets (tracker_status now))))"

definition promote_with_epoch :: "rat \<Rightarrow> int \<Rightarrow> (replication_tracker, pyval) pymethod" where
  "promote_with_epoch now epoch0 =
     (let epoch = max 1 epoch0 in
      sthen (smodify (\<lambda>t. t\<lparr>rt_role := ''primary'', rt_epoch := max (rt_epoch t + 1) epoch,
                            rt_export_sequence := 0\<rparr>))
      (sgets (tracker_status now)))"

definition adopt_epoch :: "rat \<Rightarrow> int \<Rightarrow> (replication_tracker, pyval) pymethod" where
  "adopt_epoch now epoch0 =
     (let epoch = max 1 epoch0 in
      sthen (smodify (\<lambda>t. if rt_epoch t < epoch
               then t\<lparr>rt_epoch := epoch, rt_export_sequence := 0\<rparr> else t))
      (sgets (tracker_status now)))"

definition export_envelope ::
    "pydict \<Rightarrow> string option \<Rightarrow> pydict option \<Rightarrow> string option \<Rightarrow> (replication_tracker, pydict) pymethod" where
  "export_envelope snapshot secret telemetry key_id =
     sbind (sgets is_primary) (\<lambda>primary.
     sthen (sguard primary
       (RuntimeError ''only the primary node can export authoritative replication state''))
    (sthen (smodify (\<lambda>t. t\<lparr>rt_export_sequence := rt_export_sequence t + 1\<rparr>))
     (sgete (\<lambda>t. make_envelope snapshot (rt_node_id t) (rt_epoch t) (rt_export_sequence t)
                   secret telemetry key_id))))"

text \<open>The ordering facts of an envelope that \<open>can_apply\<close> and \<open>mark_applied\<close> read.\<close>

definition envelope_order :: "pydict \<Rightarrow> pyerr + (int \<times> int \<times> int \<times> string)" where
  "envelope_order env =
     ebind (dindex env ''epoch'') (\<lambda>v. ebind (py_int v) (\<lambda>epoch.
     ebind (dindex env ''sequence'') (\<lambda>v. ebind (py_int v) (\<lambda>sequence.
     ebind (dindex env ''revision'') (\<lambda>v. ebind (py_int v) (\<lambda>revision.
     ebind (dindex env ''sourceNodeId'') (\<lambda>source.
     Inr (epoch, sequence, revision, py_str source))))))))"

definition can_apply :: "pydict \<Rightarrow> replication_tracker \<Rightarrow> pyerr + (bool \<times> string)" where
  "can_apply env t =
     (if rt_role t \<noteq> ''standby''
      then Inr (False, ''replica apply is only allowed while node role is standby'')
      else case envelope_order env of
        Inl e \<Rightarrow> if is_key_type_or_value e
                 then Inr (False, ''malformed replication ordering metadata'') else Inl e
      | Inr (epoch, sequence, revision, source) \<Rightarrow>
          if epoch < rt_applied_epoch t then Inr (False, ''stale replication epoch'')
          else if epoch = rt_applied_epoch t \<and> source = rt_source_node_id t \<and>
                  sequence \<le> rt_applied_sequence t
          then Inr (False, ''stale or duplicate replication sequence'')
          else if epoch = rt_applied_epoch t \<and> rt_applied_revision t \<noteq> 0 \<and>
                  revision < rt_applied_revision t
          then Inr (False, ''replication revision moved backwards'')
          else Inr (True, ''ok''))"

text \<open>\<open>mark_applied\<close>: four assignments in this order, any of which may raise, then the epoch and
  the clock.\<close>

definition mark_applied :: "rat \<Rightarrow> pydict \<Rightarrow> (replication_tracker, unit) pymethod" where
  "mark_applied now env =
     sbind (slift (dindex env ''sourceNodeId'')) (\<lambda>source.
     sthen (smodify (\<lambda>t. t\<lparr>rt_source_node_id := py_str source\<rparr>))
    (sbind (slift (ebind (dindex env ''epoch'') py_int)) (\<lambda>epoch.
     sthen (smodify (\<lambda>t. t\<lparr>rt_applied_epoch := epoch\<rparr>))
    (sbind (slift (ebind (dindex env ''sequence'') py_int)) (\<lambda>sequence.
     sthen (smodify (\<lambda>t. t\<lparr>rt_applied_sequence := sequence\<rparr>))
    (sbind (slift (ebind (dindex env ''revision'') py_int)) (\<lambda>revision.
     sthen (smodify (\<lambda>t. t\<lparr>rt_applied_revision := revision\<rparr>))
    (sthen (smodify (\<lambda>t. t\<lparr>rt_epoch := max (rt_epoch t) (rt_applied_epoch t)\<rparr>))
    (smodify (\<lambda>t. t\<lparr>rt_last_applied_at := now\<rparr>))))))))))"

section \<open>Envelopes: facts\<close>

lemma is_ascii_hex_digit: "n < 16 \<Longrightarrow> is_ascii (hex_digit n)"
  by (auto simp: hex_digit_def is_ascii_def ord_of_def)

lemma ascii_hex2: "list_all is_ascii (hex2 n)"
  by (simp add: hex2_def is_ascii_hex_digit)

lemma ascii_hex_of: "list_all is_ascii (hex_of s)"
  unfolding hex_of_def by (induction s) (auto simp: ascii_hex2)

lemma ascii_sha256_hex [simp]: "list_all is_ascii (sha256_hex m)"
  by (simp add: sha256_hex_def ascii_hex_of)

lemma ascii_digest_of [simp]: "list_all is_ascii (digest_of v)"
  by (simp add: digest_of_def)

lemma ascii_hmac [simp]: "list_all is_ascii (hmac_sha256_hex k m)"
  by (simp add: hmac_sha256_hex_def ascii_hex_of)

lemma compare_digest_refl [simp]: "list_all is_ascii a \<Longrightarrow> compare_digest a a = Inr True"
  by (simp add: compare_digest_def)

lemma compare_digest_True: "compare_digest a b = Inr True \<Longrightarrow> a = b"
  by (auto simp: compare_digest_def split: if_splits)

lemma hex_nonempty [simp]: "sha256_hex m \<noteq> []" "hmac_sha256_hex k m \<noteq> []"
proof -
  have "length (sha256_hex m) = 64" "length (hmac_sha256_hex k m) = 64"
    by (simp_all add: sha256_hex_def hmac_sha256_hex_def)
  then show "sha256_hex m \<noteq> []" "hmac_sha256_hex k m \<noteq> []" by (metis list.size(3) zero_neq_numeral)+
qed

text \<open>The fields of an exported envelope, as the receiver reads them back.\<close>

lemma dget_seal:
  assumes "k \<noteq> ''digestSha256''" and "k \<noteq> ''hmacSha256''"
  shows "dget (seal secret payload) k = dget payload k"
  using assms by (simp add: seal_def Let_def)

lemma envelope_fields_get [simp]:
  "dget (envelope_fields v n e q r s t k) ''protocolVersion'' = Some (PInt v)"
  "dget (envelope_fields v n e q r s t k) ''sourceNodeId'' = Some (PStr n)"
  "dget (envelope_fields v n e q r s t k) ''epoch'' = Some (PInt e)"
  "dget (envelope_fields v n e q r s t k) ''sequence'' = Some (PInt q)"
  "dget (envelope_fields v n e q r s t k) ''revision'' = Some (PInt r)"
  "dget (envelope_fields v n e q r s t k) ''snapshot'' = Some s"
  "dget (envelope_fields v n e q r s t k) ''executionTelemetry'' = map_option PDict t"
  "dget (envelope_fields v n e q r s t k) ''keyId'' = map_option PStr k"
  by (auto simp: envelope_fields_def split: option.splits)

lemma envelope_payload_seal:
  assumes "v = (if t \<noteq> None then 2 else 1)"
  shows "envelope_payload (seal sec (envelope_fields v n e q r s t k)) =
         Inr (Inr (envelope_fields v n e q r s t k))"
  using assms
  by (cases t; cases k)
     (simp_all add: envelope_payload_def dindex_def dgetd_def dget_seal Let_def)

lemma envelope_order_seal:
  "envelope_order (seal sec (envelope_fields v n e q r s t k)) = Inr (e, q, r, n)"
  by (simp add: envelope_order_def dindex_def dget_seal)

lemma seal_digest: "dgetd (seal sec p) ''digestSha256'' x = PStr (digest_of (PDict p))"
  by (simp add: seal_def Let_def dgetd_def)

lemma seal_tag:
  "dgetd (seal (Some sec) p) ''hmacSha256'' x =
     PStr (if sec = [] then [] else hmac_sha256_hex sec (digest_of (PDict p)))"
  by (simp add: seal_def Let_def dgetd_def)

lemma make_envelope_Inr:
  "make_envelope snap n e q sec t k = Inr env \<Longrightarrow>
   \<exists>r. py_int (dgetd snap ''revision'' (PInt 0)) = Inr r \<and>
       env = seal sec (envelope_fields (if t \<noteq> None then 2 else 1) n e q r (PDict snap) t k)"
  by (auto simp: make_envelope_def ebind_eq_Inr)

lemma verify_made_envelope:
  assumes made: "make_envelope snap n e q (Some sec) t k = Inr env"
    and rev: "din ''revision'' snap"
    and auth: "envelope_auth env secret keyset = Inr sec \<or> envelope_auth env secret keyset = Inr []"
  shows "verify_envelope env secret keyset = Inr (True, ''ok'')"
proof -
  let ?v = "if t \<noteq> None then 2 else (1::int)"
  from made obtain r where r: "py_int (dgetd snap ''revision'' (PInt 0)) = Inr r"
    and env: "env = seal (Some sec) (envelope_fields ?v n e q r (PDict snap) t k)"
    using make_envelope_Inr by blast
  have pay: "envelope_payload env = Inr (Inr (envelope_fields ?v n e q r (PDict snap) t k))"
    unfolding env by (rule envelope_payload_seal) simp
  have dig: "py_str (dgetd env ''digestSha256'' (PStr [])) =
      digest_of (PDict (envelope_fields ?v n e q r (PDict snap) t k))"
    by (simp add: env seal_digest)
  have tag: "sec \<noteq> [] \<Longrightarrow> py_str (dgetd env ''hmacSha256'' (PStr [])) =
      hmac_sha256_hex sec (digest_of (PDict (envelope_fields ?v n e q r (PDict snap) t k)))"
    by (simp add: env seal_tag)
  from rev r have held: "py_int (dgetd snap ''revision'' (PInt (-1))) = Inr r"
    by (auto simp: dgetd_def din_def)
  show ?thesis
    using auth by (auto simp: verify_envelope_def pay dig tag held dgetn_def dgetd_def [of "envelope_fields _ _ _ _ _ _ _ _"] Let_def)
qed

text \<open>
  Round trip of the envelope: what \<open>make_envelope\<close> builds for a snapshot that states its
  revision is accepted by \<open>verify_envelope\<close> whenever the receiver resolves the secret the sender
  signed with (or requires none).
\<close>

theorem exported_envelope_verifies:
  assumes made: "make_envelope snap n e q (Some sec) t k = Inr env"
    and rev: "din ''revision'' snap"
    and auth: "envelope_auth env secret keyset = Inr sec \<or> envelope_auth env secret keyset = Inr []"
  shows "verify_envelope env secret keyset = Inr (True, ''ok'')"
  using assms by (rule verify_made_envelope)

theorem exported_envelope_verifies_witness:
  "verify_envelope
     (projr (make_envelope [(''revision'', PInt 7)] ''node-a'' 3 1 (Some ''secret'') None None))
     (Some ''secret'') None = Inr (True, ''ok'')"
proof -
  obtain env where env:
    "make_envelope [(''revision'', PInt 7)] ''node-a'' 3 1 (Some ''secret'') None None = Inr env"
    by (simp add: make_envelope_def dgetd_def)
  show ?thesis
    using exported_envelope_verifies [OF env, of "Some ''secret''" None] env
    by (simp add: envelope_auth_def)
qed


text \<open>
  Authenticity: an accepted envelope carries the digest of exactly the payload the receiver
  rebuilt, a tag over that digest under the resolved secret whenever there is one, and a snapshot
  whose own revision is the revision the envelope states.
\<close>

theorem accepted_envelope_authentic:
  assumes "verify_envelope env secret keyset = Inr (True, why)"
  shows "\<exists>payload snap rev sec.
      envelope_payload env = Inr (Inr payload) \<and>
      py_str (dgetd env ''digestSha256'' (PStr [])) = digest_of (PDict payload) \<and>
      envelope_auth env secret keyset = Inr sec \<and>
      (sec = [] \<or> py_str (dgetd env ''hmacSha256'' (PStr [])) =
                   hmac_sha256_hex sec (digest_of (PDict payload))) \<and>
      dgetn payload ''snapshot'' = PDict snap \<and>
      py_int (dgetn payload ''revision'') = Inr rev \<and>
      py_int (dgetd snap ''revision'' (PInt (-1))) = Inr rev"
proof -
  from assms obtain payload where pay: "envelope_payload env = Inr (Inr payload)"
    unfolding verify_envelope_def by (auto split: sum.splits if_splits)
  from assms pay obtain sec snap rev where
      "dgetn payload ''snapshot'' = PDict snap"
    and "compare_digest (digest_of (PDict payload)) (py_str (dgetd env ''digestSha256'' (PStr []))) = Inr True"
    and "envelope_auth env secret keyset = Inr sec"
    and "sec = [] \<or> compare_digest (hmac_sha256_hex sec (digest_of (PDict payload)))
                      (py_str (dgetd env ''hmacSha256'' (PStr []))) = Inr True"
    and "py_int (dgetn payload ''revision'') = Inr rev"
    and "py_int (dgetd snap ''revision'' (PInt (-1))) = Inr rev"
    unfolding verify_envelope_def
    by (auto simp: Let_def ebind_eq_Inr is_dict_def split: if_splits sum.splits pyerr.splits pyval.splits)
  with pay show ?thesis
    by (metis compare_digest_True)
qed

theorem accepted_envelope_authentic_witness:
  "\<exists>payload. envelope_payload
      (projr (make_envelope [(''revision'', PInt 7)] ''node-a'' 3 1 (Some ''secret'') None None)) =
      Inr (Inr payload) \<and> dgetn payload ''snapshot'' = PDict [(''revision'', PInt 7)]"
proof -
  obtain env where env:
    "make_envelope [(''revision'', PInt 7)] ''node-a'' 3 1 (Some ''secret'') None None = Inr env"
    by (simp add: make_envelope_def dgetd_def)
  have "verify_envelope env (Some ''secret'') None = Inr (True, ''ok'')"
    by (rule verify_made_envelope [OF env]) (simp_all add: envelope_auth_def)
  from accepted_envelope_authentic [OF this] env show ?thesis
    by (auto simp: make_envelope_def dgetd_def [of "[_]"] envelope_payload_seal dgetn_def
                   dgetd_def [of "envelope_fields _ _ _ _ _ _ _ _"])
qed

section \<open>The tracker over a run\<close>

text \<open>What \<open>apply_replica\<close> of \<^verbatim>\<open>src/backend/runtime.py\<close> does with the tracker: ask, then record.\<close>

definition apply_envelope :: "rat \<Rightarrow> pydict \<Rightarrow> (replication_tracker, unit) pymethod" where
  "apply_envelope now env =
     sbind (sgete (can_apply env)) (\<lambda>(accepted, reason).
       if accepted then mark_applied now env else sraise (ValueError reason))"

text \<open>A run logs the envelopes the node exported and the envelopes it applied.\<close>

inductive tracker_run ::
    "replication_tracker \<Rightarrow> pydict list \<Rightarrow> pydict list \<Rightarrow> replication_tracker \<Rightarrow> bool"
  for t0 :: replication_tracker
where
  start: "tracker_run t0 [] [] t0"
| role: "tracker_run t0 es as t \<Longrightarrow> tracker_run t0 es as (snd (set_role now r t))"
| promote: "tracker_run t0 es as t \<Longrightarrow> tracker_run t0 es as (snd (promote_with_epoch now e t))"
| adopt: "tracker_run t0 es as t \<Longrightarrow> tracker_run t0 es as (snd (adopt_epoch now e t))"
| export: "tracker_run t0 es as t \<Longrightarrow> export_envelope snap sec tel k t = (Inr env, t') \<Longrightarrow>
     tracker_run t0 (es @ [env]) as t'"
| export_fails: "tracker_run t0 es as t \<Longrightarrow> export_envelope snap sec tel k t = (Inl err, t') \<Longrightarrow>
     tracker_run t0 es as t'"
| applied: "tracker_run t0 es as t \<Longrightarrow> apply_envelope now env t = (Inr (), t') \<Longrightarrow>
     tracker_run t0 es (as @ [env]) t'"
| apply_fails: "tracker_run t0 es as t \<Longrightarrow> apply_envelope now env t = (Inl err, t') \<Longrightarrow>
     tracker_run t0 es as t'"

definition env_key :: "pydict \<Rightarrow> int \<times> int" where
  "env_key env = (case envelope_order env of Inl _ \<Rightarrow> (0, 0) | Inr (e, q, _, _) \<Rightarrow> (e, q))"

definition env_source :: "pydict \<Rightarrow> string" where
  "env_source env = (case envelope_order env of Inl _ \<Rightarrow> [] | Inr (_, _, _, src) \<Rightarrow> src)"

definition lexless :: "int \<times> int \<Rightarrow> int \<times> int \<Rightarrow> bool" where
  "lexless a b = (fst a < fst b \<or> (fst a = fst b \<and> snd a < snd b))"

definition lexle :: "int \<times> int \<Rightarrow> int \<times> int \<Rightarrow> bool" where
  "lexle a b = (fst a < fst b \<or> (fst a = fst b \<and> snd a \<le> snd b))"

definition export_key :: "replication_tracker \<Rightarrow> int \<times> int" where
  "export_key t = (rt_epoch t, rt_export_sequence t)"

definition applied_key :: "replication_tracker \<Rightarrow> int \<times> int" where
  "applied_key t = (rt_applied_epoch t, rt_applied_sequence t)"

lemmas lex_defs = lexless_def lexle_def

lemma lexle_trans: "lexle a b \<Longrightarrow> lexle b c \<Longrightarrow> lexle a c"
  by (auto simp: lex_defs)

lemma lexle_less_trans: "lexle a b \<Longrightarrow> lexless b c \<Longrightarrow> lexless a c"
  by (auto simp: lex_defs)

lemma lexless_le: "lexless a b \<Longrightarrow> lexle a b"
  by (auto simp: lex_defs)

lemma lexle_refl [simp]: "lexle a a"
  by (simp add: lexle_def)

text \<open>An envelope is applied completely or not at all.\<close>

lemma apply_envelope_Inl: "apply_envelope now env t = (Inl e, t') \<Longrightarrow> t' = t"
  by (auto simp: apply_envelope_def method_run mark_applied_def can_apply_def envelope_order_def
                 ebind_eq_Inr ebind_eq_Inl
           split: sum.splits if_splits prod.splits)

lemma apply_envelope_Inr:
  assumes "apply_envelope now env t = (Inr u, t')"
  obtains e q r src where "envelope_order env = Inr (e, q, r, src)"
    and "t' = t\<lparr>rt_source_node_id := src, rt_applied_epoch := e, rt_applied_sequence := q,
               rt_applied_revision := r, rt_epoch := max (rt_epoch t) e, rt_last_applied_at := now\<rparr>"
    and "rt_role t = ''standby''" and "rt_applied_epoch t \<le> e"
    and "e = rt_applied_epoch t \<Longrightarrow> src = rt_source_node_id t \<Longrightarrow> rt_applied_sequence t < q"
    and "e = rt_applied_epoch t \<Longrightarrow> rt_applied_revision t \<noteq> 0 \<Longrightarrow> rt_applied_revision t \<le> r"
proof -
  from assms have ok: "\<exists>why. can_apply env t = Inr (True, why)"
    by (auto simp: apply_envelope_def method_run split: sum.splits if_splits prod.splits)
  then obtain e q r src where o: "envelope_order env = Inr (e, q, r, src)"
    by (auto simp: can_apply_def split: sum.splits if_splits)
  from assms ok o have "t' = t\<lparr>rt_source_node_id := src, rt_applied_epoch := e, rt_applied_sequence := q,
               rt_applied_revision := r, rt_epoch := max (rt_epoch t) e, rt_last_applied_at := now\<rparr>"
    by (auto simp: apply_envelope_def method_run mark_applied_def envelope_order_def ebind_eq_Inr)
  with ok o that show ?thesis
    by (auto simp: can_apply_def split: if_splits)
qed

lemma export_envelope_Inr:
  assumes "export_envelope snap sec tel k t = (Inr env, t')"
  shows "t' = t\<lparr>rt_export_sequence := rt_export_sequence t + 1\<rparr>"
    and "env_key env = export_key t'" and "env_source env = rt_node_id t"
proof -
  from assms show t': "t' = t\<lparr>rt_export_sequence := rt_export_sequence t + 1\<rparr>"
    by (auto simp: export_envelope_def method_run split: if_splits)
  from assms t' have "make_envelope snap (rt_node_id t) (rt_epoch t) (rt_export_sequence t + 1)
      sec tel k = Inr env"
    by (auto simp: export_envelope_def method_run split: if_splits)
  from make_envelope_Inr [OF this] t'
  show "env_key env = export_key t'" and "env_source env = rt_node_id t"
    by (auto simp: env_key_def env_source_def export_key_def envelope_order_seal)
qed

lemma export_envelope_Inl:
  "export_envelope snap sec tel k t = (Inl e, t') \<Longrightarrow> lexle (export_key t) (export_key t')"
  by (auto simp: export_envelope_def method_run export_key_def lex_defs split: if_splits)

lemma role_ops_key:
  "lexle (export_key t) (export_key (snd (set_role now r t)))"
  "lexle (export_key t) (export_key (snd (promote_with_epoch now e t)))"
  "lexle (export_key t) (export_key (snd (adopt_epoch now e t)))"
  by (auto simp: set_role_def promote_with_epoch_def adopt_epoch_def method_run export_key_def
                 lex_defs Let_def)

lemma role_ops_applied:
  "applied_key (snd (set_role now r t)) = applied_key t"
  "applied_key (snd (promote_with_epoch now e t)) = applied_key t"
  "applied_key (snd (adopt_epoch now e t)) = applied_key t"
  "rt_source_node_id (snd (set_role now r t)) = rt_source_node_id t"
  "rt_source_node_id (snd (promote_with_epoch now e t)) = rt_source_node_id t"
  "rt_source_node_id (snd (adopt_epoch now e t)) = rt_source_node_id t"
  by (auto simp: set_role_def promote_with_epoch_def adopt_epoch_def method_run applied_key_def Let_def)

lemma apply_envelope_key: "apply_envelope now env t = (Inr u, t') \<Longrightarrow>
  lexle (export_key t) (export_key t') \<and> env_key env = applied_key t' \<and>
  env_source env = rt_source_node_id t'"
  by (erule apply_envelope_Inr) (auto simp: export_key_def lex_defs env_key_def env_source_def applied_key_def)

lemma sorted_wrt_snoc: "sorted_wrt P (xs @ [x]) = (sorted_wrt P xs \<and> (\<forall>y \<in> set xs. P y x))"
  by (auto simp: sorted_wrt_append)

lemma tracker_run_exports:
  "tracker_run t0 es as t \<Longrightarrow>
   sorted_wrt (\<lambda>a b. lexless (env_key a) (env_key b)) es \<and>
   (\<forall>env \<in> set es. lexle (env_key env) (export_key t))"
proof (induction rule: tracker_run.induct)
  case start
  show ?case by simp
next
  case (export es as t snap sec tel k env t')
  from export_envelope_Inr [OF export.hyps(2)]
  have "env_key env = export_key t'" and "lexless (export_key t) (export_key t')"
    by (auto simp: export_key_def lex_defs)
  with export.IH show ?case
    by (auto simp: sorted_wrt_snoc intro: lexle_less_trans lexless_le)
next
  case (export_fails es as t snap sec tel k err t')
  with export_envelope_Inl show ?case by (blast intro: lexle_trans)
next
  case (applied es as t now env t')
  with apply_envelope_key show ?case by (blast intro: lexle_trans)
next
  case (apply_fails es as t now env err t')
  with apply_envelope_Inl show ?case by blast
qed (blast intro: lexle_trans role_ops_key)+

text \<open>
  Exports are totally ordered: along any run of a tracker, role changes, promotions, adopted
  epochs, failed exports and applied replicas included, every later export carries a strictly
  larger (epoch, sequence) pair, so no pair is ever used for two envelopes.
\<close>

theorem exports_strictly_increase:
  assumes "tracker_run t0 exported applied t"
  shows "sorted_wrt (\<lambda>a b. lexless (env_key a) (env_key b)) exported"
  using tracker_run_exports [OF assms] by blast

theorem exports_strictly_increase_witness:
  "\<exists>a b t. sorted_wrt (\<lambda>a b. lexless (env_key a) (env_key b)) [a, b] \<and>
     tracker_run (tracker_init ''a'' ''primary'') [a, b] [] t"
proof -
  let ?t0 = "tracker_init ''a'' ''primary''"
  let ?x = "export_envelope [(''revision'', PInt 1)] None None None"
  have prim: "py_lower (strip ''primary'') = ''primary''" by code_simp
  have r0: "is_primary ?t0" by (simp add: tracker_init_def Let_def prim roles_def is_primary_def)
  obtain a t1 where a: "?x ?t0 = (Inr a, t1)" and t1: "is_primary t1"
    using r0 by (auto simp: export_envelope_def method_run make_envelope_def dgetd_def is_primary_def)
  obtain b t2 where b: "?x t1 = (Inr b, t2)"
    using t1 by (auto simp: export_envelope_def method_run make_envelope_def dgetd_def is_primary_def)
  have "tracker_run ?t0 ([] @ [a]) [] t1" by (rule tracker_run.export [OF tracker_run.start a])
  from tracker_run.export [OF this b] have run: "tracker_run ?t0 [a, b] [] t2" by simp
  from exports_strictly_increase [OF run] run show ?thesis by blast
qed


text \<open>
  A standby never moves backwards: handling an envelope either rejects it and leaves the
  tracker as it was, or advances the applied position: the epoch does not decrease, within an
  epoch the sequence of one source strictly increases and a known revision does not decrease,
  and the node's own epoch stays at or above what it applied.
\<close>

theorem apply_envelope_monotone:
  "case apply_envelope now env t of
     (Inl _, t') \<Rightarrow> t' = t
   | (Inr _, t') \<Rightarrow>
       rt_applied_epoch t \<le> rt_applied_epoch t' \<and>
       \<not> (rt_applied_epoch t' = rt_applied_epoch t \<and>
          (rt_source_node_id t' = rt_source_node_id t \<and>
             rt_applied_sequence t' \<le> rt_applied_sequence t \<or>
           rt_applied_revision t \<noteq> 0 \<and> rt_applied_revision t' < rt_applied_revision t)) \<and>
       rt_epoch t' = max (rt_epoch t) (rt_applied_epoch t') \<and>
       rt_role t' = ''standby'' \<and> rt_export_sequence t' = rt_export_sequence t"
proof (cases "apply_envelope now env t")
  case (Pair r t')
  show ?thesis
  proof (cases r)
    case (Inl e)
    with Pair show ?thesis by (auto dest: apply_envelope_Inl)
  next
    case (Inr u)
    with Pair have "apply_envelope now env t = (Inr u, t')" by simp
    then show ?thesis by (rule apply_envelope_Inr) (use Pair Inr in auto)
  qed
qed

definition single_source :: "pydict list \<Rightarrow> bool" where
  \<comment> \<open>one node exports per epoch: what the fencing of the witness quorum provides\<close>
  "single_source envs =
     (\<forall>a \<in> set envs. \<forall>b \<in> set envs. fst (env_key a) = fst (env_key b) \<longrightarrow> env_source a = env_source b)"

lemma single_source_append: "single_source (as @ bs) \<Longrightarrow> single_source as"
  unfolding single_source_def set_append by blast

lemma single_sourceD:
  "single_source envs \<Longrightarrow> a \<in> set envs \<Longrightarrow> b \<in> set envs \<Longrightarrow>
   fst (env_key a) = fst (env_key b) \<Longrightarrow> env_source a = env_source b"
  unfolding single_source_def by blast

lemma tracker_run_applied:
  "tracker_run t0 es as t \<Longrightarrow> single_source as \<Longrightarrow> rt_applied_epoch t0 = 0 \<Longrightarrow>
   sorted_wrt (\<lambda>a b. lexless (env_key a) (env_key b)) as \<and>
   (as \<noteq> [] \<longrightarrow> applied_key t = env_key (last as) \<and> rt_source_node_id t = env_source (last as))"
proof (induction rule: tracker_run.induct)
  case (applied es as t now env t')
  from applied.hyps(2) have k: "env_key env = applied_key t'" "env_source env = rt_source_node_id t'"
    using apply_envelope_key by blast+
  from applied.prems(1) have ss: "single_source as" by (rule single_source_append)
  with applied.IH applied.prems(2) have IH: "sorted_wrt (\<lambda>a b. lexless (env_key a) (env_key b)) as"
    "as \<noteq> [] \<Longrightarrow> applied_key t = env_key (last as) \<and> rt_source_node_id t = env_source (last as)"
    by blast+
  have step: "lexless (env_key (last as)) (env_key env)" if ne: "as \<noteq> []"
  proof -
    from applied.prems(1) ne have same: "fst (env_key (last as)) = fst (env_key env) \<Longrightarrow>
        env_source (last as) = env_source env"
      by (auto intro: single_sourceD)
    from applied.hyps(2) obtain e q r src where "envelope_order env = Inr (e, q, r, src)"
      and le: "rt_applied_epoch t \<le> e"
      and sq: "e = rt_applied_epoch t \<Longrightarrow> src = rt_source_node_id t \<Longrightarrow> rt_applied_sequence t < q"
      by (rule apply_envelope_Inr) blast
    then have "env_key env = (e, q)" "env_source env = src" by (simp_all add: env_key_def env_source_def)
    moreover from IH(2) [OF ne] have "env_key (last as) = (rt_applied_epoch t, rt_applied_sequence t)"
      "env_source (last as) = rt_source_node_id t" by (simp_all add: applied_key_def)
    ultimately show ?thesis using le sq same by (cases "rt_applied_epoch t = e") (auto simp: lexless_def)
  qed
  have all: "lexless (env_key y) (env_key env)" if "y \<in> set as" for y
  proof -
    from that have ne: "as \<noteq> []" by auto
    then obtain bs where bs: "as = bs @ [last as]" by (metis append_butlast_last_id)
    with IH(1) have "\<forall>z \<in> set bs. lexless (env_key z) (env_key (last as))"
      by (metis sorted_wrt_snoc)
    moreover from that bs have "y = last as \<or> y \<in> set bs"
      by (metis Un_iff empty_iff insert_iff list.set set_append)
    ultimately show ?thesis using step [OF ne] by (auto intro: lexle_less_trans lexless_le)
  qed
  with IH k show ?case by (auto simp: sorted_wrt_snoc)
next
  case (export es as t snap sec tel k env t')
  with export_envelope_Inr(1) [OF export.hyps(2)] show ?case by (simp add: applied_key_def)
next
  case (export_fails es as t snap sec tel k err t')
  then have "applied_key t' = applied_key t \<and> rt_source_node_id t' = rt_source_node_id t"
    by (auto simp: export_envelope_def method_run applied_key_def split: if_splits)
  with export_fails show ?case by simp
next
  case (apply_fails es as t now env err t')
  with apply_envelope_Inl show ?case by blast
qed (simp_all add: role_ops_applied)


text \<open>Concrete envelopes for the witnesses: (epoch, sequence, revision, source).\<close>

definition sample_env :: "int \<Rightarrow> int \<Rightarrow> int \<Rightarrow> string \<Rightarrow> pydict" where
  "sample_env e q r src = [(''sourceNodeId'', PStr src), (''epoch'', PInt e), (''sequence'', PInt q),
     (''revision'', PInt r)]"

definition standby_at :: "int \<Rightarrow> int \<Rightarrow> int \<Rightarrow> string \<Rightarrow> rat \<Rightarrow> replication_tracker" where
  "standby_at e q r src now = \<lparr>rt_node_id = ''b'', rt_role = ''standby'', rt_epoch = max 1 e,
     rt_export_sequence = 0, rt_source_node_id = src, rt_applied_epoch = e,
     rt_applied_sequence = q, rt_applied_revision = r, rt_last_applied_at = now\<rparr>"

lemma sample_apply:
  "e' \<le> e \<Longrightarrow> e' \<noteq> e \<or> ((src' \<noteq> src \<or> q' < q) \<and> (r' = 0 \<or> r' \<le> r)) \<Longrightarrow>
   apply_envelope now (sample_env e q r src) (standby_at e' q' r' src' now') =
     (Inr (), standby_at e q r src now)"
  by (auto simp: apply_envelope_def method_run can_apply_def envelope_order_def sample_env_def
                 standby_at_def dindex_def mark_applied_def)

lemma sample_order [simp]:
  "env_key (sample_env e q r src) = (e, q)" "env_source (sample_env e q r src) = src"
  by (simp_all add: env_key_def env_source_def envelope_order_def sample_env_def dindex_def)

lemma tracker_init_standby: "tracker_init ''b'' ''standby'' = standby_at 0 0 0 [] 0"
  by code_simp


text \<open>
  The fencing is needed: the tracker remembers one source, so with two sources in one epoch
  an envelope that was applied is accepted and applied a second time after one from the other
  source.
\<close>

theorem replay_with_two_sources:
  "\<exists>t. tracker_run (tracker_init ''b'' ''standby'') []
       [sample_env 2 1 5 ''a'', sample_env 2 1 5 ''c'', sample_env 2 1 5 ''a''] t"
proof -
  let ?a = "sample_env 2 1 5 ''a''" and ?c = "sample_env 2 1 5 ''c''" and ?t0 = "tracker_init ''b'' ''standby''"
  have "tracker_run ?t0 [] ([] @ [?a]) (standby_at 2 1 5 ''a'' 10)"
    by (rule tracker_run.applied [OF tracker_run.start]) (simp add: tracker_init_standby sample_apply)
  then have "tracker_run ?t0 [] (([] @ [?a]) @ [?c]) (standby_at 2 1 5 ''c'' 20)"
    by (rule tracker_run.applied) (simp add: sample_apply)
  then have "tracker_run ?t0 [] ((([] @ [?a]) @ [?c]) @ [?a]) (standby_at 2 1 5 ''a'' 30)"
    by (rule tracker_run.applied) (simp add: sample_apply)
  then show ?thesis by auto
qed

end
