(* ===== verification/Witness_Protocol.thy ===== *)
theory Witness_Protocol
  imports Replication
begin

text \<open>
  The signed messages of \<^verbatim>\<open>src/backend/witness.py\<close>: requests for a lease, a transfer and a
  recovery, and the responses bound to them.  A verifier returns \<open>(ok, reason, payload)\<close> as the
  source does; what the source raises is the left summand.
\<close>

definition sign_request :: "pydict \<Rightarrow> string \<Rightarrow> string" where
  "sign_request payload secret = hmac_sha256_hex secret (canonical (PDict payload))"

definition response_purpose :: "pydict \<Rightarrow> pydict" where
  "response_purpose payload =
     [(''purpose'', PStr ''org.upp.witness-response/1''), (''payload'', PDict payload)]"

definition sign_response ::
    "pydict \<Rightarrow> pydict \<Rightarrow> string \<Rightarrow> string \<Rightarrow> string option \<Rightarrow> pyerr + pydict" where
  "sign_response result request operation secret key_id =
     (if secret = [] \<or> operation \<notin> {''acquire'', ''transfer'', ''recover''}
      then Inl (ValueError ''response signing requires a secret and valid operation'')
      else
        let request' = ddel request ''hmacSha256'';
            payload0 = dset (dset (dset result ''responseVersion'' (PInt 1)) ''operation'' (PStr operation))
                         ''requestDigest'' (PStr (digest_of (PDict request')));
            payload = (case key_id of None \<Rightarrow> payload0 | Some k \<Rightarrow> dset payload0 ''keyId'' (PStr k))
        in Inr (dset payload ''responseHmacSha256'' (PStr (sign_request (response_purpose payload) secret))))"

definition verify_response ::
    "pyval \<Rightarrow> pydict \<Rightarrow> string \<Rightarrow> string \<Rightarrow> string option \<Rightarrow> pyerr + pydict" where
  "verify_response raw request operation secret expected_key_id =
     (case raw of
        PDict r \<Rightarrow>
          if secret = [] then Inl (ValueError ''witness response authentication required'')
          else
            let signature = dgetn r ''responseHmacSha256'';
                payload = ddel r ''responseHmacSha256'';
                expected = sign_request (response_purpose payload) secret
            in ebind (case signature of PStr s \<Rightarrow> compare_digest expected s | _ \<Rightarrow> Inr False) (\<lambda>same.
               if \<not> same then Inl (ValueError ''witness response authentication failed'')
               else
                 let digest = digest_of (PDict (ddel request ''hmacSha256''))
                 in if dgetn r ''responseVersion'' \<noteq> PInt 1 \<or>
                       dgetn r ''operation'' \<noteq> PStr operation \<or>
                       dgetn r ''requestDigest'' \<noteq> PStr digest \<or>
                       dgetn r ''keyId'' \<noteq> (case expected_key_id of None \<Rightarrow> PNone | Some k \<Rightarrow> PStr k)
                    then Inl (ValueError ''witness response request binding mismatch'')
                    else Inr r)
      | _ \<Rightarrow> Inl (ValueError ''witness response authentication required''))"

text \<open>The last step of each request verifier: the tag over the rebuilt payload.\<close>

definition check_tag :: "pydict \<Rightarrow> pydict \<Rightarrow> string \<Rightarrow> pyerr + (bool \<times> string \<times> pydict)" where
  "check_tag request payload secret =
     (let supplied = py_str (dgetd request ''hmacSha256'' (PStr []))
      in if supplied = [] then Inr (False, ''witness authentication failed'', payload)
         else ebind (compare_digest (sign_request payload secret) supplied) (\<lambda>same.
           if same then Inr (True, ''ok'', payload)
           else Inr (False, ''witness authentication failed'', payload)))"

definition key_field :: "pydict \<Rightarrow> pydict" where
  "key_field request =
     (case dget request ''keyId'' of None \<Rightarrow> [] | Some k \<Rightarrow> [(''keyId'', PStr (py_str k))])"

definition acquire_fields :: "string \<Rightarrow> string \<Rightarrow> int \<Rightarrow> string \<Rightarrow> pydict" where
  "acquire_fields cluster_id node_id ttl_ms nonce =
     [(''protocolVersion'', PInt 1), (''clusterId'', PStr cluster_id), (''nodeId'', PStr node_id),
      (''ttlMs'', PInt ttl_ms), (''nonce'', PStr nonce)]"

definition request_payload :: "pydict \<Rightarrow> pyerr + (int \<times> string \<times> string \<times> int \<times> string \<times> pydict)" where
  "request_payload request =
     ebind (ebind (dindex request ''protocolVersion'') py_int) (\<lambda>version.
     ebind (dindex request ''clusterId'') (\<lambda>cluster.
     ebind (dindex request ''nodeId'') (\<lambda>node.
     ebind (ebind (dindex request ''ttlMs'') py_int) (\<lambda>ttl.
     ebind (dindex request ''nonce'') (\<lambda>nonce.
     Inr (version, py_str cluster, py_str node, ttl, py_str nonce,
       [(''protocolVersion'', PInt version), (''clusterId'', PStr (py_str cluster)),
        (''nodeId'', PStr (py_str node)), (''ttlMs'', PInt ttl), (''nonce'', PStr (py_str nonce))]
       @ key_field request))))))"

definition verify_request :: "pydict \<Rightarrow> string \<Rightarrow> pyerr + (bool \<times> string \<times> pydict)" where
  "verify_request request secret =
     (case request_payload request of
        Inl e \<Rightarrow> if is_key_type_or_value e then Inr (False, ''malformed witness request'', []) else Inl e
      | Inr (version, cluster, node, ttl, nonce, payload) \<Rightarrow>
          if version \<noteq> 1 \<or> cluster = [] \<or> node = [] then Inr (False, ''unsupported witness request'', payload)
          else if \<not> (500 \<le> ttl \<and> ttl \<le> 60000)
          then Inr (False, ''witness ttl must be 500..60000 ms'', payload)
          else check_tag request payload secret)"

text \<open>\<open>request[key]\<close> under the type test of the two loops; \<open>None\<close> is the early return.\<close>

definition need_str :: "pydict \<Rightarrow> string \<Rightarrow> pyerr + string option" where
  "need_str request k =
     ebind (dindex request k) (\<lambda>v. Inr (case v of PStr s \<Rightarrow> Some s | _ \<Rightarrow> None))"

definition need_int :: "pydict \<Rightarrow> string \<Rightarrow> pyerr + int option" where
  "need_int request k =
     ebind (dindex request k) (\<lambda>v. Inr (case v of PInt i \<Rightarrow> Some i | _ \<Rightarrow> None))"

definition obind :: "pyerr + 'a option \<Rightarrow> ('a \<Rightarrow> pyerr + 'b option) \<Rightarrow> pyerr + 'b option" where
  "obind m f = ebind m (\<lambda>x. case x of None \<Rightarrow> Inr None | Some y \<Rightarrow> f y)"

record transfer_facts =
  tf_version :: int
  tf_cluster :: string
  tf_source :: string
  tf_target :: string
  tf_source_epoch :: int
  tf_target_epoch :: int
  tf_transaction :: int
  tf_ttl :: int
  tf_nonce :: string

definition transfer_fields :: "transfer_facts \<Rightarrow> pydict" where
  "transfer_fields f =
     [(''protocolVersion'', PInt (tf_version f)), (''clusterId'', PStr (tf_cluster f)),
      (''sourceNodeId'', PStr (tf_source f)), (''targetNodeId'', PStr (tf_target f)),
      (''sourceEpoch'', PInt (tf_source_epoch f)), (''targetEpoch'', PInt (tf_target_epoch f)),
      (''transactionId'', PInt (tf_transaction f)), (''ttlMs'', PInt (tf_ttl f)),
      (''nonce'', PStr (tf_nonce f))]"

definition transfer_payload :: "pydict \<Rightarrow> pyerr + transfer_facts option" where
  "transfer_payload request =
     obind (need_str request ''clusterId'') (\<lambda>cluster.
     obind (need_str request ''sourceNodeId'') (\<lambda>source.
     obind (need_str request ''targetNodeId'') (\<lambda>target.
     obind (need_str request ''nonce'') (\<lambda>nonce.
     obind (need_int request ''protocolVersion'') (\<lambda>version.
     obind (need_int request ''sourceEpoch'') (\<lambda>se.
     obind (need_int request ''targetEpoch'') (\<lambda>te.
     obind (need_int request ''transactionId'') (\<lambda>txn.
     obind (need_int request ''ttlMs'') (\<lambda>ttl.
     Inr (Some \<lparr>tf_version = version, tf_cluster = cluster, tf_source = source, tf_target = target,
       tf_source_epoch = se, tf_target_epoch = te, tf_transaction = txn, tf_ttl = ttl,
       tf_nonce = nonce\<rparr>))))))))))"

definition verify_transfer_request :: "pydict \<Rightarrow> string \<Rightarrow> pyerr + (bool \<times> string \<times> pydict)" where
  "verify_transfer_request request secret =
     (case transfer_payload request of
        Inl e \<Rightarrow> if is_key_type_or_value e
                 then Inr (False, ''malformed witness transfer request'', []) else Inl e
      | Inr None \<Rightarrow> Inr (False, ''malformed witness transfer request'', [])
      | Inr (Some f) \<Rightarrow>
          let payload = transfer_fields f @ key_field request in
          if tf_version f \<noteq> 1 \<or> tf_cluster f = [] \<or> tf_source f = [] \<or> tf_target f = [] \<or>
             tf_source f = tf_target f
          then Inr (False, ''unsupported witness transfer request'', payload)
          else if 64 < length (tf_cluster f) \<or> 64 < length (tf_source f) \<or> 64 < length (tf_target f) \<or>
             \<not> (1 \<le> length (tf_nonce f) \<and> length (tf_nonce f) \<le> 128)
          then Inr (False, ''witness transfer identity is out of bounds'', payload)
          else if tf_transaction f \<le> 0 \<or> tf_source_epoch f \<le> 0 \<or>
             tf_target_epoch f \<noteq> tf_source_epoch f + 1
          then Inr (False, ''invalid witness transfer fencing facts'', payload)
          else if \<not> (500 \<le> tf_ttl f \<and> tf_ttl f \<le> 60000)
          then Inr (False, ''witness ttl must be 500..60000 ms'', payload)
          else check_tag request payload secret)"

definition recovery_int_keys :: "string list" where
  "recovery_int_keys = [''protocolVersion'', ''sourceEpoch'', ''targetEpoch'', ''transactionId'']"

definition recovery_str_keys :: "string list" where
  "recovery_str_keys = [''clusterId'', ''nodeId'', ''sourceNodeId'', ''targetNodeId'', ''recoveryId'',
     ''fenceDigest'', ''nonce'']"

definition lower_hex :: "string \<Rightarrow> bool" where
  "lower_hex s = list_all (\<lambda>c. c \<in> set ''0123456789abcdef'') s"

definition geti :: "pydict \<Rightarrow> string \<Rightarrow> int" where
  "geti d k = (case dgetn d k of PInt i \<Rightarrow> i | _ \<Rightarrow> 0)"

definition gets :: "pydict \<Rightarrow> string \<Rightarrow> string" where
  "gets d k = (case dgetn d k of PStr s \<Rightarrow> s | _ \<Rightarrow> [])"

definition verify_recovery_request :: "pydict \<Rightarrow> string \<Rightarrow> pyerr + (bool \<times> string \<times> pydict)" where
  "verify_recovery_request request secret =
     (if list_ex (\<lambda>k. \<not> is_str (dgetn request k)) recovery_str_keys \<or>
         list_ex (\<lambda>k. \<not> is_strict_int (dgetn request k)) recovery_int_keys
      then Inr (False, ''malformed witness recovery request'', [])
      else
        let payload = map (\<lambda>k. (k, dgetn request k)) (recovery_int_keys @ recovery_str_keys)
                        @ key_field request in
        if geti payload ''protocolVersion'' \<noteq> 1 \<or> gets payload ''clusterId'' = [] \<or>
           gets payload ''nodeId'' \<noteq> gets payload ''sourceNodeId'' \<or>
           gets payload ''sourceNodeId'' = gets payload ''targetNodeId'' \<or>
           geti payload ''sourceEpoch'' \<le> 0 \<or>
           geti payload ''targetEpoch'' \<noteq> geti payload ''sourceEpoch'' + 1 \<or>
           geti payload ''transactionId'' \<le> 0 \<or>
           \<not> (1 \<le> length (gets payload ''recoveryId'') \<and> length (gets payload ''recoveryId'') \<le> 128) \<or>
           length (gets payload ''fenceDigest'') \<noteq> 64 \<or> \<not> lower_hex (gets payload ''fenceDigest'') \<or>
           \<not> (1 \<le> length (gets payload ''nonce'') \<and> length (gets payload ''nonce'') \<le> 128)
        then Inr (False, ''invalid witness recovery fencing facts'', payload)
        else check_tag request payload secret)"

section \<open>Signing and verifying agree\<close>

lemma dget_key_field: "dget (key_field r) k =
  (if k = ''keyId'' then map_option (\<lambda>v. PStr (py_str v)) (dget r ''keyId'') else None)"
  by (simp add: key_field_def split: option.splits)

lemma check_tag_signed:
  "dget request ''hmacSha256'' = Some (PStr (sign_request payload secret)) \<Longrightarrow>
   check_tag request payload secret = Inr (True, ''ok'', payload)"
  by (simp add: check_tag_def dgetd_def sign_request_def Let_def)

lemma check_tag_True:
  "check_tag request payload secret = Inr (True, why, payload') \<Longrightarrow>
   payload' = payload \<and> py_str (dgetd request ''hmacSha256'' (PStr [])) = sign_request payload secret"
  by (auto simp: check_tag_def ebind_eq_Inr Let_def dest: compare_digest_True split: if_splits)

lemma ddel_absent: "\<not> din k d \<Longrightarrow> ddel d k = d"
  by (induction d) (auto simp: ddel_def)

lemma ddel_dset_absent: "\<not> din k d \<Longrightarrow> ddel (dset d k v) k = d"
  by (induction d) (auto simp: ddel_def)

lemma dset_absent: "\<not> din k d \<Longrightarrow> dset d k v = d @ [(k, v)]"
  by (induction d) auto

text \<open>A response signed for a request verifies against every request with the same digest, and
  is returned unchanged.\<close>

lemma signed_response_verifies:
  assumes signed: "sign_response result request operation secret key_id = Inr r"
    and fresh: "\<not> din ''responseHmacSha256'' result" "\<not> din ''keyId'' result"
    and same: "digest_of (PDict (ddel request ''hmacSha256'')) =
               digest_of (PDict (ddel request' ''hmacSha256''))"
  shows "verify_response (PDict r) request' operation secret key_id = Inr r"
proof -
  let ?p0 = "dset (dset (dset result ''responseVersion'' (PInt 1)) ''operation'' (PStr operation))
       ''requestDigest'' (PStr (digest_of (PDict (ddel request ''hmacSha256''))))"
  let ?p = "case key_id of None \<Rightarrow> ?p0 | Some k \<Rightarrow> dset ?p0 ''keyId'' (PStr k)"
  from signed have sec: "secret \<noteq> []"
    and r: "r = dset ?p ''responseHmacSha256'' (PStr (sign_request (response_purpose ?p) secret))"
    by (auto simp: sign_response_def Let_def split: if_splits)
  have absent: "\<not> din ''responseHmacSha256'' ?p"
    using fresh(1) by (auto split: option.splits)
  have kid: "dgetn r ''keyId'' = (case key_id of None \<Rightarrow> PNone | Some k \<Rightarrow> PStr k)"
    using fresh(2) by (auto simp: r dgetn_def dgetd_def din_def split: option.splits)
  have others: "dgetn r ''responseVersion'' = PInt 1" "dgetn r ''operation'' = PStr operation"
    "dgetn r ''requestDigest'' = PStr (digest_of (PDict (ddel request ''hmacSha256'')))"
    "dgetn r ''responseHmacSha256'' = PStr (sign_request (response_purpose ?p) secret)"
    by (auto simp: r dgetn_def dgetd_def split: option.splits)
  have strip: "ddel r ''responseHmacSha256'' = ?p"
    unfolding r by (rule ddel_dset_absent [OF absent])
  show ?thesis
    using sec same by (simp add: verify_response_def Let_def others strip kid sign_request_def)
qed

text \<open>The converse: a verified response is bound to the request, the operation and the key.\<close>

lemma verify_response_Inr:
  assumes "verify_response raw request operation secret key_id = Inr r"
  shows "raw = PDict r" and "secret \<noteq> []"
    and "dgetn r ''responseHmacSha256'' =
         PStr (sign_request (response_purpose (ddel r ''responseHmacSha256'')) secret)"
    and "dgetn r ''operation'' = PStr operation"
    and "dgetn r ''requestDigest'' = PStr (digest_of (PDict (ddel request ''hmacSha256'')))"
  using assms
  by (auto simp: verify_response_def Let_def ebind_eq_Inr split: pyval.splits if_splits
           dest: compare_digest_True)

end
