(* ===== verification/Witness_Store.thy ===== *)
theory Witness_Store
  imports Witness_Protocol
begin

text \<open>
  \<open>WitnessLeaseStore\<close> of \<^verbatim>\<open>src/backend/witness.py\<close>: one witness, which grants at most one node an
  unexpired lease per cluster.  The store keeps the JSON object of each lease and its file; the
  clock reading \<open>now_ms = int(time() * 1000)\<close> is an argument.  \<open>lease_cell\<close> is the interface a
  quorum of witnesses relies on, and the store is shown to provide it for every cluster.
\<close>

record witness_store =
  ws_path :: bool \<comment> \<open>whether the store has a file\<close>
  ws_file :: "pyval option" \<comment> \<open>the parsed content of the file, \<open>None\<close> when there is none or it is not JSON\<close>
  ws_leases :: "(string \<times> pydict) list"

definition load_leases :: "bool \<Rightarrow> pyval option \<Rightarrow> (string \<times> pydict) list" where
  "load_leases path file =
     (if \<not> path then []
      else case file of
        Some (PDict raw) \<Rightarrow>
          concat (map (\<lambda>(k, v). case v of PDict d \<Rightarrow> [(k, d)] | _ \<Rightarrow> []) raw)
      | _ \<Rightarrow> [])"

definition open_store :: "bool \<Rightarrow> pyval option \<Rightarrow> witness_store" where
  "open_store path file = \<lparr>ws_path = path, ws_file = file, ws_leases = load_leases path file\<rparr>"

text \<open>\<open>_save\<close>: the temporary file replaces the old one, or the write fails before that.\<close>

definition save :: "bool \<Rightarrow> (witness_store, unit) pymethod" where
  "save disk_ok = (\<lambda>s.
     if \<not> ws_path s then (Inr (), s)
     else if disk_ok then (Inr (), s\<lparr>ws_file := Some (PDict (map (\<lambda>(k, d). (k, PDict d)) (ws_leases s)))\<rparr>)
     else (Inl OSError, s))"

definition lease_of :: "string \<Rightarrow> witness_store \<Rightarrow> pydict" where
  "lease_of cluster_id s = dgetd (ws_leases s) cluster_id []"

definition lease_int :: "pydict \<Rightarrow> string \<Rightarrow> pyerr + int" where
  \<comment> \<open>\<open>int(lease.get(k, 0) or 0)\<close>\<close>
  "lease_int lease k = py_int (por (dgetd lease k (PInt 0)) (PInt 0))"

definition lease_str :: "pydict \<Rightarrow> string \<Rightarrow> string" where
  "lease_str lease k = py_str (dgetd lease k (PStr []))"

definition clamp_ttl :: "int \<Rightarrow> int" where
  "clamp_ttl ttl_ms = max 500 (min ttl_ms 60000)"

definition set_lease :: "string \<Rightarrow> pydict \<Rightarrow> witness_store \<Rightarrow> witness_store" where
  "set_lease cluster_id lease s = s\<lparr>ws_leases := dset (ws_leases s) cluster_id lease\<rparr>"

definition store_acquire ::
    "bool \<Rightarrow> int \<Rightarrow> string \<Rightarrow> string \<Rightarrow> int \<Rightarrow> (witness_store, pydict) pymethod" where
  "store_acquire disk_ok now_ms cluster_id node_id ttl_ms0 =
     (let ttl_ms = clamp_ttl ttl_ms0 in
      sbind (sgets (lease_of cluster_id)) (\<lambda>lease.
      let holder = lease_str lease ''holderNodeId'' in
      sbind (slift (lease_int lease ''expiresAtUnixMs'')) (\<lambda>expires.
      sbind (slift (lease_int lease ''epoch'')) (\<lambda>epoch0.
      let epoch = max 0 epoch0 in
      if holder \<noteq> [] \<and> holder \<noteq> node_id \<and> now_ms < expires then
        sreturn [(''granted'', PBool False), (''clusterId'', PStr cluster_id),
          (''holderNodeId'', PStr holder), (''epoch'', PInt epoch), (''expiresAtUnixMs'', PInt expires),
          (''serverUnixMs'', PInt now_ms), (''reason'', PStr ''lease-held-by-other-node'')]
      else
        let epoch' = (if holder \<noteq> node_id then epoch + 1 else epoch);
            expires' = now_ms + ttl_ms in
        sthen (smodify (set_lease cluster_id
                 [(''holderNodeId'', PStr node_id), (''epoch'', PInt (max 1 epoch')),
                  (''expiresAtUnixMs'', PInt expires')]))
       (sthen (save disk_ok)
       (sreturn [(''granted'', PBool True), (''clusterId'', PStr cluster_id),
          (''holderNodeId'', PStr node_id), (''epoch'', PInt (max 1 epoch')),
          (''expiresAtUnixMs'', PInt expires'), (''serverUnixMs'', PInt now_ms),
          (''reason'', PStr ''granted'')]))))))"

definition store_transfer ::
    "bool \<Rightarrow> int \<Rightarrow> string \<Rightarrow> string \<Rightarrow> string \<Rightarrow> int \<Rightarrow> int \<Rightarrow> int \<Rightarrow> int \<Rightarrow> (witness_store, pydict) pymethod" where
  "store_transfer disk_ok now_ms cluster_id source target source_epoch target_epoch transaction_id ttl_ms0 =
     (let ttl_ms = clamp_ttl ttl_ms0 in
      sbind (sgets (lease_of cluster_id)) (\<lambda>lease.
      sbind (slift (lease_int lease ''lastTransferTransactionId'')) (\<lambda>last_txn.
      sbind (slift (if last_txn = transaction_id \<and> lease_str lease ''lastTransferSourceNodeId'' = source \<and>
                       lease_str lease ''holderNodeId'' = target
                    then ebind (lease_int lease ''epoch'') (\<lambda>e. Inr (e = target_epoch)) else Inr False)) (\<lambda>replay.
      if replay then
        sbind (slift (lease_int lease ''expiresAtUnixMs'')) (\<lambda>expires.
        sreturn [(''granted'', PBool True), (''idempotent'', PBool True), (''clusterId'', PStr cluster_id),
          (''holderNodeId'', PStr target), (''epoch'', PInt target_epoch),
          (''expiresAtUnixMs'', PInt expires), (''serverUnixMs'', PInt now_ms),
          (''transactionId'', PInt transaction_id), (''reason'', PStr ''already-transferred'')])
      else
        let holder = lease_str lease ''holderNodeId'' in
        sbind (slift (lease_int lease ''epoch'')) (\<lambda>epoch.
        sbind (slift (lease_int lease ''expiresAtUnixMs'')) (\<lambda>expires.
        if holder \<noteq> source \<or> epoch \<noteq> source_epoch \<or> expires \<le> now_ms then
          sreturn [(''granted'', PBool False), (''clusterId'', PStr cluster_id),
            (''holderNodeId'', opt_str holder), (''epoch'', PInt epoch),
            (''expiresAtUnixMs'', if expires = 0 then PNone else PInt expires),
            (''serverUnixMs'', PInt now_ms), (''transactionId'', PInt transaction_id),
            (''reason'', PStr ''source-lease-fencing-mismatch'')]
        else if target_epoch \<noteq> source_epoch + 1 then
          sreturn [(''granted'', PBool False), (''clusterId'', PStr cluster_id),
            (''holderNodeId'', PStr holder), (''epoch'', PInt epoch), (''expiresAtUnixMs'', PInt expires),
            (''serverUnixMs'', PInt now_ms), (''transactionId'', PInt transaction_id),
            (''reason'', PStr ''target-epoch-not-next'')]
        else
          sthen (smodify (set_lease cluster_id
                   [(''holderNodeId'', PStr target), (''epoch'', PInt target_epoch),
                    (''expiresAtUnixMs'', PInt (now_ms + ttl_ms)),
                    (''lastTransferTransactionId'', PInt transaction_id),
                    (''lastTransferSourceNodeId'', PStr source)]))
         (sthen (save disk_ok)
         (sreturn [(''granted'', PBool True), (''idempotent'', PBool False), (''clusterId'', PStr cluster_id),
            (''holderNodeId'', PStr target), (''epoch'', PInt target_epoch),
            (''expiresAtUnixMs'', PInt (now_ms + ttl_ms)), (''serverUnixMs'', PInt now_ms),
            (''transactionId'', PInt transaction_id), (''reason'', PStr ''transferred'')]))))))))"

definition store_status :: "int \<Rightarrow> string \<Rightarrow> witness_store \<Rightarrow> pyerr + pydict" where
  "store_status now_ms cluster_id s =
     (let lease = lease_of cluster_id s; holder = lease_str lease ''holderNodeId'' in
      ebind (lease_int lease ''expiresAtUnixMs'') (\<lambda>expires.
      ebind (lease_int lease ''epoch'') (\<lambda>epoch.
      Inr [(''clusterId'', PStr cluster_id), (''holderNodeId'', opt_str holder), (''epoch'', PInt epoch),
        (''expiresAtUnixMs'', if expires = 0 then PNone else PInt expires),
        (''expired'', PBool (holder = [] \<or> expires \<le> now_ms)), (''serverUnixMs'', PInt now_ms)])))"

definition authorize_recovery ::
    "int \<Rightarrow> string \<Rightarrow> string \<Rightarrow> string \<Rightarrow> int \<Rightarrow> int \<Rightarrow> int \<Rightarrow> string \<Rightarrow> string \<Rightarrow> witness_store \<Rightarrow> pyerr + pydict" where
  "authorize_recovery now_ms cluster_id node_id target source_epoch target_epoch transaction_id
       recovery_id fence_digest s =
     (let lease = lease_of cluster_id s in
      ebind (if node_id \<noteq> target \<and> lease_str lease ''holderNodeId'' = target
             then ebind (lease_int lease ''epoch'') (\<lambda>e.
               if e = target_epoch
               then ebind (lease_int lease ''lastTransferTransactionId'') (\<lambda>x.
                 Inr (x = transaction_id \<and> lease_str lease ''lastTransferSourceNodeId'' = node_id \<and>
                      target_epoch = source_epoch + 1))
               else Inr False)
             else Inr False) (\<lambda>authorized.
      Inr [(''authorized'', PBool authorized), (''clusterId'', PStr cluster_id), (''nodeId'', PStr node_id),
        (''targetNodeId'', PStr target), (''sourceEpoch'', PInt source_epoch),
        (''targetEpoch'', PInt target_epoch), (''transactionId'', PInt transaction_id),
        (''recoveryId'', PStr recovery_id), (''fenceDigest'', PStr fence_digest),
        (''serverUnixMs'', PInt now_ms),
        (''reason'', PStr (if authorized then ''authorized-standby-rejoin''
                           else ''recovery-fence-not-current''))]))"

section \<open>The lease a store holds\<close>

text \<open>The lease of a cluster as the operations read it: holder, epoch and expiry, with the
  defaults of a store that has never granted one.\<close>

definition int_or_0 :: "pyerr + int \<Rightarrow> int" where
  "int_or_0 r = (case r of Inl _ \<Rightarrow> 0 | Inr i \<Rightarrow> i)"

definition ls_holder :: "string \<Rightarrow> witness_store \<Rightarrow> string" where
  "ls_holder c s = lease_str (lease_of c s) ''holderNodeId''"

definition ls_epoch :: "string \<Rightarrow> witness_store \<Rightarrow> int" where
  "ls_epoch c s = int_or_0 (lease_int (lease_of c s) ''epoch'')"

definition ls_expires :: "string \<Rightarrow> witness_store \<Rightarrow> int" where
  "ls_expires c s = int_or_0 (lease_int (lease_of c s) ''expiresAtUnixMs'')"

text \<open>Every lease was written by the store itself, so that its fields are integers.\<close>

definition lease_wf :: "pydict \<Rightarrow> bool" where
  "lease_wf l = (\<exists>h e x. dget l ''holderNodeId'' = Some (PStr h) \<and> dget l ''epoch'' = Some (PInt e) \<and>
     1 \<le> e \<and> dget l ''expiresAtUnixMs'' = Some (PInt x) \<and>
     (dget l ''lastTransferTransactionId'' = None \<or>
      (\<exists>t. dget l ''lastTransferTransactionId'' = Some (PInt t))))"

definition store_wf :: "witness_store \<Rightarrow> bool" where
  "store_wf s = (dwf (ws_leases s) \<and> (\<forall>(c, l) \<in> set (ws_leases s). lease_wf l))"

lemma lease_int_PInt: "dget l k = Some (PInt i) \<Longrightarrow> lease_int l k = Inr i"
  by (simp add: lease_int_def dgetd_def por_def)

lemma lease_int_None: "dget l k = None \<Longrightarrow> lease_int l k = Inr 0"
  by (simp add: lease_int_def dgetd_def por_def)

lemma lease_int_Nil [simp]: "lease_int [] k = Inr 0"
  by (simp add: lease_int_None)

lemma lease_str_Nil [simp]: "lease_str [] k = []"
  by (simp add: lease_str_def dgetd_def)

lemma store_lease_cases:
  assumes "store_wf s"
  obtains "lease_of c s = []" | "lease_wf (lease_of c s)"
proof (cases "dget (ws_leases s) c")
  case None
  with that show ?thesis by (simp add: lease_of_def dgetd_def)
next
  case (Some l)
  then have "(c, l) \<in> set (ws_leases s)" by (auto simp: dget_def dest: map_of_SomeD)
  with assms have "lease_wf l" by (auto simp: store_wf_def)
  with Some that show ?thesis by (simp add: lease_of_def dgetd_def)
qed

lemma lease_wf_reads:
  assumes "lease_wf l"
  shows "\<exists>e. lease_int l ''epoch'' = Inr e \<and> 1 \<le> e"
    and "\<exists>x. lease_int l ''expiresAtUnixMs'' = Inr x"
    and "\<exists>t. lease_int l ''lastTransferTransactionId'' = Inr t"
  using assms by (auto simp: lease_wf_def lease_int_PInt lease_int_None)

lemma store_reads:
  assumes "store_wf s"
  shows "lease_int (lease_of c s) ''epoch'' = Inr (ls_epoch c s)"
    and "lease_int (lease_of c s) ''expiresAtUnixMs'' = Inr (ls_expires c s)"
    and "\<exists>t. lease_int (lease_of c s) ''lastTransferTransactionId'' = Inr t"
    and "0 \<le> ls_epoch c s"
proof -
  consider "lease_of c s = []" | "lease_wf (lease_of c s)" by (rule store_lease_cases [OF assms])
  then have "lease_int (lease_of c s) ''epoch'' = Inr (ls_epoch c s) \<and>
    lease_int (lease_of c s) ''expiresAtUnixMs'' = Inr (ls_expires c s) \<and>
    (\<exists>t. lease_int (lease_of c s) ''lastTransferTransactionId'' = Inr t) \<and> 0 \<le> ls_epoch c s"
  proof cases
    case 1
    then show ?thesis by (simp add: ls_epoch_def ls_expires_def int_or_0_def)
  next
    case 2
    from lease_wf_reads [OF this] show ?thesis
      by (auto simp: ls_epoch_def ls_expires_def int_or_0_def)
  qed
  then show "lease_int (lease_of c s) ''epoch'' = Inr (ls_epoch c s)"
    and "lease_int (lease_of c s) ''expiresAtUnixMs'' = Inr (ls_expires c s)"
    and "\<exists>t. lease_int (lease_of c s) ''lastTransferTransactionId'' = Inr t"
    and "0 \<le> ls_epoch c s" by auto
qed

lemma set_dset_keep: "(k', w) \<in> set (dset d k v) \<Longrightarrow> (k', w) = (k, v) \<or> (k', w) \<in> set d"
  by (induction d k v rule: dset.induct) (auto split: if_splits)

lemma store_wf_set_lease: "store_wf s \<Longrightarrow> lease_wf l \<Longrightarrow> store_wf (set_lease c l s)"
  by (auto simp: store_wf_def set_lease_def dest!: set_dset_keep)

lemma save_leases [simp]: "ws_leases (snd (save ok s)) = ws_leases s"
  by (simp add: save_def)

lemma save_cases: "save ok s = (r, s') \<Longrightarrow> ws_leases s' = ws_leases s \<and> ws_path s' = ws_path s"
  by (auto simp: save_def split: if_splits)

lemma store_wf_save [simp]: "store_wf (snd (save ok s)) = store_wf s"
  by (simp add: store_wf_def)

lemma lease_of_set_lease: "lease_of c' (set_lease c l s) = (if c' = c then l else lease_of c' s)"
  by (simp add: lease_of_def set_lease_def dgetd_def)

lemma lease_of_leases: "ws_leases s = ws_leases s' \<Longrightarrow> lease_of c s = lease_of c s'"
  by (simp add: lease_of_def)


section \<open>What the operations do\<close>

definition held_by_other :: "int \<Rightarrow> string \<Rightarrow> string \<Rightarrow> witness_store \<Rightarrow> bool" where
  "held_by_other now c n s = (ls_holder c s \<noteq> [] \<and> ls_holder c s \<noteq> n \<and> now < ls_expires c s)"

definition granted_lease :: "string \<Rightarrow> int \<Rightarrow> int \<Rightarrow> pydict" where
  "granted_lease n e x = [(''holderNodeId'', PStr n), (''epoch'', PInt e), (''expiresAtUnixMs'', PInt x)]"

definition next_epoch :: "string \<Rightarrow> string \<Rightarrow> witness_store \<Rightarrow> int" where
  "next_epoch c n s = max 1 (if ls_holder c s \<noteq> n then ls_epoch c s + 1 else ls_epoch c s)"

text \<open>The grant a response carries, and the lease a store holds.\<close>

record lease_view =
  lv_holder :: string
  lv_epoch :: int
  lv_expires :: int

definition grant_of :: "pyerr + pydict \<Rightarrow> lease_view option" where
  "grant_of r = (case r of
      Inl _ \<Rightarrow> None
    | Inr d \<Rightarrow> if dgetn d ''granted'' = PBool True
               then Some \<lparr>lv_holder = gets d ''holderNodeId'', lv_epoch = geti d ''epoch'',
                         lv_expires = geti d ''expiresAtUnixMs''\<rparr> else None)"

definition ls_view :: "string \<Rightarrow> witness_store \<Rightarrow> lease_view" where
  "ls_view c s = \<lparr>lv_holder = ls_holder c s, lv_epoch = ls_epoch c s, lv_expires = ls_expires c s\<rparr>"

lemma lease_wf_granted [simp]: "1 \<le> e \<Longrightarrow> lease_wf (granted_lease n e x)"
  by (simp add: lease_wf_def granted_lease_def)

lemma store_acquire_denied:
  assumes "store_wf s" and "held_by_other now c n s"
  shows "\<exists>d. store_acquire ok now c n ttl s = (Inr d, s) \<and> dgetn d ''granted'' = PBool False"
  using assms store_reads [OF assms(1), of c]
  by (simp add: store_acquire_def held_by_other_def ls_holder_def method_run Let_def dgetn_def dgetd_def)

lemma store_acquire_granted:
  assumes "store_wf s" and "\<not> held_by_other now c n s"
  shows "store_acquire ok now c n ttl s =
    (let s' = set_lease c (granted_lease n (next_epoch c n s) (now + clamp_ttl ttl)) s in
     (ebind (fst (save ok s')) (\<lambda>_. Inr [(''granted'', PBool True), (''clusterId'', PStr c),
        (''holderNodeId'', PStr n), (''epoch'', PInt (next_epoch c n s)),
        (''expiresAtUnixMs'', PInt (now + clamp_ttl ttl)), (''serverUnixMs'', PInt now),
        (''reason'', PStr ''granted'')]), snd (save ok s')))"
  using assms store_reads [OF assms(1), of c]
  by (auto simp: store_acquire_def held_by_other_def ls_holder_def method_run Let_def next_epoch_def
                 granted_lease_def ebind_def max_def split: prod.splits sum.splits)

lemma ls_granted:
  assumes "ws_leases s' = ws_leases (set_lease c (granted_lease n e x) s)"
  shows "ls_holder c s' = n" "ls_epoch c s' = e" "ls_expires c s' = x"
  using lease_of_leases [OF assms, of c] lease_of_set_lease [of c c "granted_lease n e x" s]
  by (simp_all add: ls_holder_def ls_epoch_def ls_expires_def granted_lease_def lease_str_def dgetd_def
        lease_int_PInt int_or_0_def)

lemma store_acquire_cases:
  assumes wf: "store_wf s" and run: "store_acquire ok now c n ttl s = (r, s')"
  obtains (denied) "held_by_other now c n s" "s' = s" "grant_of r = None"
  | (granted) "\<not> held_by_other now c n s" "store_wf s'"
      "s' = snd (save ok (set_lease c (granted_lease n (next_epoch c n s) (now + clamp_ttl ttl)) s))"
      "ok \<or> \<not> ws_path s \<or> grant_of r = None" "ls_holder c s' = n"
      "ls_epoch c s' = next_epoch c n s" "ls_expires c s' = now + clamp_ttl ttl"
      "grant_of r = None \<or> grant_of r = Some (ls_view c s')"
proof (cases "held_by_other now c n s")
  case True
  from store_acquire_denied [OF wf True, of ok ttl] obtain d
    where "store_acquire ok now c n ttl s = (Inr d, s)" "dgetn d ''granted'' = PBool False" by blast
  with run have "s' = s" "grant_of r = None" by (auto simp: grant_of_def)
  with True denied show ?thesis by blast
next
  case False
  let ?t = "set_lease c (granted_lease n (next_epoch c n s) (now + clamp_ttl ttl)) s"
  have s': "s' = snd (save ok ?t)"
    using store_acquire_granted [OF wf False] run by (simp add: Let_def)
  have wf': "store_wf s'"
    unfolding s' by (simp add: store_wf_set_lease wf next_epoch_def)
  have "ws_leases s' = ws_leases ?t" by (simp add: s')
  note ls = ls_granted [OF this]
  have "grant_of r = None \<or> grant_of r = Some (ls_view c s')"
    using store_acquire_granted [OF wf False] run ls
    by (cases "fst (save ok ?t)") (auto simp: Let_def grant_of_def ls_view_def dgetn_def dgetd_def geti_def gets_def)
  moreover have "ok \<or> \<not> ws_path s \<or> grant_of r = None"
    using store_acquire_granted [OF wf False, of ok ttl] run
    by (auto simp: Let_def grant_of_def save_def set_lease_def)
  ultimately show ?thesis using False wf' s' ls granted by blast
qed

text \<open>Clusters do not interfere.\<close>

lemma lease_of_save [simp]: "lease_of c (snd (save ok s)) = lease_of c s"
  by (simp add: lease_of_def)

lemma keeps_lease_of:
  "keeps (\<lambda>s. lease_of c' s = p) (save ok)"
  "c' \<noteq> c \<Longrightarrow> keeps (\<lambda>s. lease_of c' s = p) (smodify (set_lease c l))"
  by (simp_all add: keeps_def lease_of_set_lease)

lemma store_acquire_other:
  assumes "c' \<noteq> c"
  shows "lease_of c' (snd (store_acquire ok now c n ttl s)) = lease_of c' s"
  unfolding store_acquire_def Let_def
  by (rule frameD) (intro frameI keeps_intro keeps_lease_of assms)

definition transferred_lease :: "string \<Rightarrow> string \<Rightarrow> int \<Rightarrow> int \<Rightarrow> int \<Rightarrow> pydict" where
  "transferred_lease src tgt te txn x =
     [(''holderNodeId'', PStr tgt), (''epoch'', PInt te), (''expiresAtUnixMs'', PInt x),
      (''lastTransferTransactionId'', PInt txn), (''lastTransferSourceNodeId'', PStr src)]"

lemma store_transfer_cases:
  assumes wf: "store_wf s"
    and run: "store_transfer ok now c src tgt se te txn ttl s = (r, s')"
  obtains (unchanged) "s' = s"
      "\<not> (ls_holder c s = src \<and> ls_epoch c s = se \<and> now < ls_expires c s \<and> te = se + 1)"
      "grant_of r = None \<or>
      ls_holder c s = tgt \<and> ls_epoch c s = te \<and> grant_of r = Some (ls_view c s)"
  | (moved) "ls_holder c s = src" "ls_epoch c s = se" "now < ls_expires c s" "te = se + 1"
      "s' = snd (save ok (set_lease c (transferred_lease src tgt te txn (now + clamp_ttl ttl)) s))"
      "grant_of r = None \<or> grant_of r = Some \<lparr>lv_holder = tgt, lv_epoch = te, lv_expires = now + clamp_ttl ttl\<rparr>"
proof -
  note reads = store_reads [OF wf, of c]
  from reads(3) obtain t where t: "lease_int (lease_of c s) ''lastTransferTransactionId'' = Inr t" by blast
  let ?replay = "t = txn \<and> lease_str (lease_of c s) ''lastTransferSourceNodeId'' = src \<and>
      ls_holder c s = tgt \<and> ls_epoch c s = te"
  let ?move = "\<not> (ls_holder c s \<noteq> src \<or> ls_epoch c s \<noteq> se \<or> ls_expires c s \<le> now) \<and> te = se + 1"
  consider (replay) ?replay | (deny) "\<not> ?replay" "\<not> ?move" | (move) "\<not> ?replay" ?move by blast
  then show ?thesis
  proof cases
    case replay
    with run t reads have "s' = s" "grant_of r = Some (ls_view c s)"
      by (auto simp: store_transfer_def method_run Let_def ls_holder_def grant_of_def geti_def gets_def ls_view_def
          dgetn_def dgetd_def)
    moreover from replay have "\<not> (ls_epoch c s = se \<and> te = se + 1)" by simp
    ultimately show ?thesis using replay unchanged by blast
  next
    case deny
    with run t reads have "s' = s" "grant_of r = None"
      by (auto simp: store_transfer_def method_run Let_def ls_holder_def grant_of_def geti_def gets_def ls_view_def
          dgetn_def dgetd_def split: if_splits)
    moreover from deny have "\<not> (ls_holder c s = src \<and> ls_epoch c s = se \<and> now < ls_expires c s \<and> te = se + 1)"
      by auto
    ultimately show ?thesis using unchanged by blast
  next
    case move
    let ?t = "set_lease c (transferred_lease src tgt te txn (now + clamp_ttl ttl)) s"
    have "s' = snd (save ok ?t) \<and> (grant_of r = None \<or> grant_of r = Some \<lparr>lv_holder = tgt, lv_epoch = te, lv_expires = now + clamp_ttl ttl\<rparr>)"
      using run t reads move
      by (cases "save ok ?t"; cases "fst (save ok ?t)")
         (auto simp: store_transfer_def method_run Let_def ls_holder_def grant_of_def geti_def gets_def ls_view_def
          dgetn_def dgetd_def transferred_lease_def split: if_splits)
    with move moved show ?thesis by simp
  qed
qed

lemma ls_transferred:
  assumes "ws_leases s' = ws_leases (set_lease c (transferred_lease src tgt te txn x) s)"
  shows "ls_holder c s' = tgt" "ls_epoch c s' = te" "ls_expires c s' = x"
  using lease_of_leases [OF assms, of c] lease_of_set_lease [of c c "transferred_lease src tgt te txn x" s]
  by (simp_all add: ls_holder_def ls_epoch_def ls_expires_def transferred_lease_def lease_str_def dgetd_def
        lease_int_PInt int_or_0_def)

lemma store_wf_leases: "ws_leases s = ws_leases s' \<Longrightarrow> store_wf s = store_wf s'"
  by (simp add: store_wf_def)

lemma store_transfer_wf:
  assumes "store_wf s" and "store_transfer ok now c src tgt se te txn ttl s = (r, s')"
  shows "store_wf s'"
  using assms
proof (cases rule: store_transfer_cases)
  case unchanged
  with assms show ?thesis by simp
next
  case moved
  have "1 \<le> te" using moved(2,4) store_reads(4) [OF assms(1), of c] by simp
  then have "lease_wf (transferred_lease src tgt te txn (now + clamp_ttl ttl))"
    by (auto simp: lease_wf_def transferred_lease_def)
  with assms(1) have "store_wf (set_lease c (transferred_lease src tgt te txn (now + clamp_ttl ttl)) s)"
    by (rule store_wf_set_lease)
  with moved(5) show ?thesis by simp
qed

lemma store_transfer_other:
  assumes "c' \<noteq> c"
  shows "lease_of c' (snd (store_transfer ok now c src tgt se te txn ttl s)) = lease_of c' s"
  unfolding store_transfer_def Let_def
  by (rule frameD) (intro frameI keeps_intro keeps_lease_of assms)

lemma clamp_ttl_bounds: "500 \<le> clamp_ttl t" "clamp_ttl t \<le> 60000"
  by (auto simp: clamp_ttl_def)

section \<open>The abstract lease\<close>

text \<open>What a witness promises, without JSON, files and errors.\<close>

definition spec_blocked :: "int \<Rightarrow> string \<Rightarrow> lease_view \<Rightarrow> bool" where
  "spec_blocked now n v = (lv_holder v \<noteq> [] \<and> lv_holder v \<noteq> n \<and> now < lv_expires v)"

definition spec_acquire :: "int \<Rightarrow> string \<Rightarrow> int \<Rightarrow> lease_view \<Rightarrow> lease_view" where
  "spec_acquire now n ttl v =
     (if spec_blocked now n v then v
      else \<lparr>lv_holder = n, lv_epoch = max 1 (if lv_holder v \<noteq> n then lv_epoch v + 1 else lv_epoch v),
            lv_expires = now + ttl\<rparr>)"

definition spec_transfer :: "int \<Rightarrow> string \<Rightarrow> string \<Rightarrow> int \<Rightarrow> int \<Rightarrow> int \<Rightarrow> lease_view \<Rightarrow> lease_view" where
  "spec_transfer now src tgt se te ttl v =
     (if lv_holder v = src \<and> lv_epoch v = se \<and> now < lv_expires v \<and> te = se + 1
      then \<lparr>lv_holder = tgt, lv_epoch = te, lv_expires = now + ttl\<rparr> else v)"

definition secured :: "int \<Rightarrow> string \<Rightarrow> int \<Rightarrow> lease_view \<Rightarrow> bool" where
  \<comment> \<open>a grant to \<open>n\<close> until \<open>x\<close> is over, or the lease still protects it\<close>
  "secured now n x v = (x \<le> now \<or> (lv_holder v = n \<and> x \<le> lv_expires v))"

definition epoch_advances :: "lease_view \<Rightarrow> lease_view \<Rightarrow> bool" where
  \<comment> \<open>an epoch belongs to one holder\<close>
  "epoch_advances v v' = (0 \<le> lv_epoch v' \<and> lv_epoch v \<le> lv_epoch v' \<and>
     (lv_epoch v = lv_epoch v' \<longrightarrow> lv_epoch v = 0 \<or> lv_holder v = lv_holder v'))"

lemma spec_acquire_epoch: "0 \<le> lv_epoch v \<Longrightarrow> epoch_advances v (spec_acquire now n ttl v)"
  by (auto simp: epoch_advances_def spec_acquire_def max_def)

lemma spec_transfer_epoch: "0 \<le> lv_epoch v \<Longrightarrow> epoch_advances v (spec_transfer now src tgt se te ttl v)"
  by (auto simp: epoch_advances_def spec_transfer_def)

text \<open>The interface between one witness and everything that relies on a quorum of them.  The
  witness keeps a lease, may lose its memory (\<open>reopen\<close>), and reports a grant only together with
  the lease it has made durable.\<close>

locale lease_cell =
  fixes wf :: "'s \<Rightarrow> bool"
    and lease :: "'s \<Rightarrow> lease_view"
    and acq :: "bool \<Rightarrow> int \<Rightarrow> string \<Rightarrow> int \<Rightarrow> 's \<Rightarrow> lease_view option \<times> 's"
    and trn :: "bool \<Rightarrow> int \<Rightarrow> string \<Rightarrow> string \<Rightarrow> int \<Rightarrow> int \<Rightarrow> int \<Rightarrow> int \<Rightarrow> 's \<Rightarrow> lease_view option \<times> 's"
  assumes acq_wf: "wf s \<Longrightarrow> acq ok now n ttl s = (g, s') \<Longrightarrow> wf s'"
    and acq_lease: "wf s \<Longrightarrow> acq ok now n ttl s = (g, s') \<Longrightarrow>
      lease s' = spec_acquire now n (clamp_ttl ttl) (lease s)"
    and acq_grant: "wf s \<Longrightarrow> acq ok now n ttl s = (Some v, s') \<Longrightarrow>
      \<not> spec_blocked now n (lease s) \<and> v = lease s'"
    and trn_wf: "wf s \<Longrightarrow> trn ok now src tgt se te txn ttl s = (g, s') \<Longrightarrow> wf s'"
    and trn_lease: "wf s \<Longrightarrow> trn ok now src tgt se te txn ttl s = (g, s') \<Longrightarrow>
      lease s' = spec_transfer now src tgt se te (clamp_ttl ttl) (lease s)"
    and trn_grant: "wf s \<Longrightarrow> trn ok now src tgt se te txn ttl s = (Some v, s') \<Longrightarrow>
      v = lease s' \<and> lv_holder v = tgt \<and> lv_epoch v = te"
begin

lemma acq_holder_grant:
  "wf s \<Longrightarrow> acq ok now n ttl s = (Some v, s') \<Longrightarrow> lv_holder v = n \<and> lv_expires v = now + clamp_ttl ttl"
  using acq_grant acq_lease by (fastforce simp: spec_acquire_def)

lemma acq_secures_grant:
  "wf s \<Longrightarrow> acq ok now n ttl s = (Some v, s') \<Longrightarrow> secured now n (lv_expires v) (lease s')"
  using acq_grant acq_holder_grant by (fastforce simp: secured_def)

text \<open>No acquisition endangers a grant: other nodes are refused while it runs, and the holder can
  only prolong it, because its time to live is fixed and the clock does not go back.\<close>

lemma acq_secured:
  assumes "wf s" and "acq ok now m ttl s = (g, s')"
    and "secured now n x (lease s)" and "n \<noteq> []" and "m = n \<Longrightarrow> x \<le> now + clamp_ttl ttl"
  shows "secured now n x (lease s')"
  using assms acq_lease [OF assms(1,2)]
  by (auto simp: secured_def spec_acquire_def spec_blocked_def)

text \<open>A transfer endangers only the grants of its source.\<close>

lemma trn_secured:
  assumes "wf s" and "trn ok now src tgt se te txn ttl s = (g, s')"
    and "secured now n x (lease s)" and "n \<noteq> src"
  shows "secured now n x (lease s')"
  using assms trn_lease [OF assms(1,2)] by (auto simp: secured_def spec_transfer_def)

lemma epoch_mono:
  assumes "wf s" and "0 \<le> lv_epoch (lease s)"
  shows "acq ok now n ttl s = (g, s') \<Longrightarrow> epoch_advances (lease s) (lease s')"
    and "trn ok now src tgt se te txn ttl s = (g, s') \<Longrightarrow> epoch_advances (lease s) (lease s')"
  using assms acq_lease trn_lease spec_acquire_epoch spec_transfer_epoch by metis+

end

locale durable_lease_cell = lease_cell +
  fixes reopen :: "'a \<Rightarrow> 'a"
  assumes reopen_wf: "wf s \<Longrightarrow> wf (reopen s)"
    and reopen_twice: "wf s \<Longrightarrow> lease (reopen (reopen s)) = lease (reopen s)"
    and acq_durable: "wf s \<Longrightarrow> acq ok now n ttl s = (g, s') \<Longrightarrow>
      g = None \<and> lease (reopen s') = lease (reopen s) \<or> lease (reopen s') = lease s' \<or> s' = s"
    and acq_grant_durable: "wf s \<Longrightarrow> acq ok now n ttl s = (Some v, s') \<Longrightarrow> lease (reopen s') = lease s'"
    and trn_durable: "wf s \<Longrightarrow> trn ok now src tgt se te txn ttl s = (g, s') \<Longrightarrow>
      lease (reopen s') = lease (reopen s) \<or> lease (reopen s') = lease s'"
begin

definition safe :: "int \<Rightarrow> string \<Rightarrow> int \<Rightarrow> 'a \<Rightarrow> bool" where
  \<comment> \<open>a grant that is protected by the lease in memory and by the one on disk\<close>
  "safe now n x s = (secured now n x (lease s) \<and> secured now n x (lease (reopen s)))"

lemma safe_reopen: "wf s \<Longrightarrow> safe now n x s \<Longrightarrow> safe now n x (reopen s)"
  by (simp add: safe_def reopen_twice)

lemma safe_later: "safe now n x s \<Longrightarrow> now \<le> now' \<Longrightarrow> safe now' n x s"
  by (auto simp: safe_def secured_def)

lemma safe_acq:
  assumes "wf s" and "acq ok now m ttl s = (g, s')" and "safe now n x s" and "n \<noteq> []"
    and "m = n \<Longrightarrow> x \<le> now + clamp_ttl ttl"
  shows "safe now n x s'"
proof -
  have "secured now n x (lease s')"
    using acq_secured [OF assms(1,2) _ assms(4,5)] assms(3) by (simp add: safe_def)
  with acq_durable [OF assms(1,2)] assms(3) show ?thesis by (auto simp: safe_def)
qed

lemma safe_trn:
  assumes "wf s" and "trn ok now src tgt se te txn ttl s = (g, s')" and "safe now n x s" and "n \<noteq> src"
  shows "safe now n x s'"
proof -
  have "secured now n x (lease s')"
    using trn_secured [OF assms(1,2) _ assms(4)] assms(3) by (simp add: safe_def)
  with trn_durable [OF assms(1,2)] assms(3) show ?thesis by (auto simp: safe_def)
qed

lemma safe_grant:
  assumes "wf s" and "acq ok now n ttl s = (Some v, s')"
  shows "safe now n (lv_expires v) s'"
  using acq_secures_grant [OF assms] acq_grant_durable [OF assms] by (simp add: safe_def)

text \<open>Two grants of one witness to different nodes are never both running.\<close>

lemma safe_exclusive: "safe now n x s \<Longrightarrow> safe now m y s \<Longrightarrow> n \<noteq> m \<Longrightarrow> x \<le> now \<or> y \<le> now"
  by (auto simp: safe_def secured_def)

end

lemma ls_view_simps [simp]:
  "lv_holder (ls_view c s) = ls_holder c s" "lv_epoch (ls_view c s) = ls_epoch c s"
  "lv_expires (ls_view c s) = ls_expires c s"
  by (simp_all add: ls_view_def)

section \<open>The store provides the interface\<close>

definition reopen :: "witness_store \<Rightarrow> witness_store" where
  \<comment> \<open>a new \<open>WitnessLeaseStore\<close> on the file of the old one\<close>
  "reopen s = open_store (ws_path s) (ws_file s)"

definition cell_ok :: "witness_store \<Rightarrow> bool" where
  "cell_ok s = (store_wf s \<and> ws_path s \<and> store_wf (reopen s))"

definition cell_acquire ::
    "string \<Rightarrow> bool \<Rightarrow> int \<Rightarrow> string \<Rightarrow> int \<Rightarrow> witness_store \<Rightarrow> lease_view option \<times> witness_store" where
  "cell_acquire c ok now n ttl s = map_prod grant_of id (store_acquire ok now c n ttl s)"

definition cell_transfer ::
    "string \<Rightarrow> bool \<Rightarrow> int \<Rightarrow> string \<Rightarrow> string \<Rightarrow> int \<Rightarrow> int \<Rightarrow> int \<Rightarrow> int \<Rightarrow> witness_store \<Rightarrow>
     lease_view option \<times> witness_store" where
  "cell_transfer c ok now src tgt se te txn ttl s =
     map_prod grant_of id (store_transfer ok now c src tgt se te txn ttl s)"

lemma load_saved: "load_leases True (Some (PDict (map (\<lambda>(k, d). (k, PDict d)) ls))) = ls"
  by (induction ls) (auto simp: load_leases_def)

lemma reopen_simps [simp]:
  "ws_path (reopen s) = ws_path s" "ws_file (reopen s) = ws_file s" "reopen (reopen s) = reopen s"
  "reopen (set_lease c l s) = reopen s"
  by (simp_all add: reopen_def open_store_def set_lease_def)

lemma save_path [simp]: "ws_path (snd (save ok s)) = ws_path s"
  by (simp add: save_def)

lemma reopen_save:
  "ws_path s \<Longrightarrow> ws_leases (reopen (snd (save ok s))) = ws_leases (if ok then s else reopen s)"
  by (simp add: save_def reopen_def open_store_def load_saved)

lemma ls_view_leases: "ws_leases s = ws_leases s' \<Longrightarrow> ls_view c s = ls_view c s'"
  using lease_of_leases [of s s'] by (simp add: ls_view_def ls_holder_def ls_epoch_def ls_expires_def)

lemma ls_view_reopen_save:
  assumes "ws_path s"
  shows "ls_view c (reopen (snd (save ok s))) = (if ok then ls_view c (snd (save ok s)) else ls_view c (reopen s))"
  using ls_view_leases [OF reopen_save [OF assms, of ok], of c] ls_view_leases [OF save_leases, of c ok s]
  by (cases ok) auto

lemma cell_ok_save: "ws_path s \<Longrightarrow> store_wf s \<Longrightarrow> store_wf (reopen s) \<Longrightarrow> cell_ok (snd (save ok s))"
  using store_wf_leases [OF reopen_save [of s ok]] by (simp add: cell_ok_def)

lemma set_lease_path [simp]: "ws_path (set_lease c l s) = ws_path s"
  by (simp add: set_lease_def)

lemma cell_acquire_run:
  assumes "cell_ok s" and "cell_acquire c ok now n ttl s = (g, s')"
  shows "cell_ok s' \<and> ls_view c s' = spec_acquire now n (clamp_ttl ttl) (ls_view c s) \<and>
    (g = None \<or> \<not> spec_blocked now n (ls_view c s) \<and> g = Some (ls_view c s') \<and>
       ls_view c (reopen s') = ls_view c s') \<and>
    (s' = s \<or> g = None \<and> ls_view c (reopen s') = ls_view c (reopen s) \<or>
       ls_view c (reopen s') = ls_view c s')"
proof -
  from assms(1) have wf: "store_wf s" "ws_path s" "store_wf (reopen s)" by (auto simp: cell_ok_def)
  from assms(2) obtain r where run: "store_acquire ok now c n ttl s = (r, s')" and g: "g = grant_of r"
    by (cases "store_acquire ok now c n ttl s") (auto simp: cell_acquire_def)
  from wf(1) run show ?thesis
  proof (cases rule: store_acquire_cases)
    case denied
    with assms(1) g show ?thesis
      by (simp add: spec_acquire_def spec_blocked_def held_by_other_def ls_view_def)
  next
    case granted
    let ?l = "granted_lease n (next_epoch c n s) (now + clamp_ttl ttl)"
    have "store_wf (set_lease c ?l s)" using wf(1) by (simp add: store_wf_set_lease next_epoch_def)
    then have "cell_ok s'" using wf granted(3) by (auto intro!: cell_ok_save)
    moreover have "ls_view c (reopen s') = (if ok then ls_view c s' else ls_view c (reopen s))"
      using ls_view_reopen_save [of "set_lease c ?l s" c ok] wf(2) granted(3) by simp
    moreover have "ls_view c s' = spec_acquire now n (clamp_ttl ttl) (ls_view c s)"
      using granted(1,5-7)
      by (auto simp: spec_acquire_def spec_blocked_def held_by_other_def ls_view_def next_epoch_def)
    moreover have "\<not> spec_blocked now n (ls_view c s)"
      using granted(1) by (simp add: spec_blocked_def held_by_other_def ls_view_def)
    ultimately show ?thesis using granted(4,8) g wf(2) by auto
  qed
qed

lemma cell_transfer_run:
  assumes "cell_ok s" and "cell_transfer c ok now src tgt se te txn ttl s = (g, s')"
  shows "cell_ok s' \<and> ls_view c s' = spec_transfer now src tgt se te (clamp_ttl ttl) (ls_view c s) \<and>
    (g = None \<or> g = Some (ls_view c s') \<and> ls_holder c s' = tgt \<and> ls_epoch c s' = te) \<and>
    (ls_view c (reopen s') = ls_view c (reopen s) \<or> ls_view c (reopen s') = ls_view c s')"
proof -
  from assms(1) have wf: "store_wf s" "ws_path s" "store_wf (reopen s)" by (auto simp: cell_ok_def)
  from assms(2) obtain r where run: "store_transfer ok now c src tgt se te txn ttl s = (r, s')"
    and g: "g = grant_of r"
    by (cases "store_transfer ok now c src tgt se te txn ttl s") (auto simp: cell_transfer_def)
  from wf(1) run show ?thesis
  proof (cases rule: store_transfer_cases)
    case unchanged
    with assms(1) g show ?thesis
      by (auto simp: spec_transfer_def ls_view_def)
  next
    case moved
    let ?t = "set_lease c (transferred_lease src tgt te txn (now + clamp_ttl ttl)) s"
    have "ws_leases s' = ws_leases ?t" using moved(5) by simp
    note ls = ls_transferred [OF this]
    have "ls_view c (reopen s') = (if ok then ls_view c s' else ls_view c (reopen s))"
      using ls_view_reopen_save [of ?t c ok] wf(2) moved(5) by simp
    moreover have "cell_ok s'"
      unfolding moved(5)
      by (rule cell_ok_save) (use wf store_transfer_wf [OF wf(1) run] moved(5) in simp_all)
    moreover have "ls_view c s' = spec_transfer now src tgt se te (clamp_ttl ttl) (ls_view c s)"
      using moved ls by (simp add: spec_transfer_def ls_view_def)
    ultimately show ?thesis using moved ls g by (auto simp: ls_view_def)
  qed
qed

interpretation witness_cell: durable_lease_cell cell_ok "ls_view c" "cell_acquire c" "cell_transfer c" reopen
  for c
proof unfold_locales
  fix s s' :: witness_store and ok now n ttl g v src tgt se te txn
  assume ok: "cell_ok s"
  note acq = cell_acquire_run [OF ok, of c ok now n ttl] and trn = cell_transfer_run [OF ok]
  show "cell_acquire c ok now n ttl s = (g, s') \<Longrightarrow> cell_ok s'"
    and "cell_acquire c ok now n ttl s = (g, s') \<Longrightarrow>
         ls_view c s' = spec_acquire now n (clamp_ttl ttl) (ls_view c s)"
    and "cell_acquire c ok now n ttl s = (Some v, s') \<Longrightarrow>
         \<not> spec_blocked now n (ls_view c s) \<and> v = ls_view c s'"
    and "cell_acquire c ok now n ttl s = (g, s') \<Longrightarrow>
         g = None \<and> ls_view c (reopen s') = ls_view c (reopen s) \<or>
         ls_view c (reopen s') = ls_view c s' \<or> s' = s"
    and "cell_acquire c ok now n ttl s = (Some v, s') \<Longrightarrow> ls_view c (reopen s') = ls_view c s'"
    using acq by blast+
  show "cell_transfer c ok now src tgt se te txn ttl s = (g, s') \<Longrightarrow> cell_ok s'"
    and "cell_transfer c ok now src tgt se te txn ttl s = (g, s') \<Longrightarrow>
         ls_view c s' = spec_transfer now src tgt se te (clamp_ttl ttl) (ls_view c s)"
    and "cell_transfer c ok now src tgt se te txn ttl s = (g, s') \<Longrightarrow>
         ls_view c (reopen s') = ls_view c (reopen s) \<or> ls_view c (reopen s') = ls_view c s'"
    using trn by blast+
  show "cell_transfer c ok now src tgt se te txn ttl s = (Some v, s') \<Longrightarrow>
         v = ls_view c s' \<and> lv_holder v = tgt \<and> lv_epoch v = te"
    using trn [of c ok now src tgt se te txn ttl "Some v" s'] by (auto simp: ls_view_def)
  show "cell_ok (reopen s)" using ok by (simp add: cell_ok_def)
  show "ls_view c (reopen (reopen s)) = ls_view c (reopen s)" by simp
qed

section \<open>Runs of one witness\<close>

text \<open>The grants a witness reports for one cluster, in order.  Clock readings and failing writes
  are arbitrary; a transfer request has passed \<open>verify_transfer_request\<close>, so its target epoch is
  positive; a restart finds the last lease in the file.\<close>

inductive store_run :: "string \<Rightarrow> witness_store \<Rightarrow> lease_view list \<Rightarrow> witness_store \<Rightarrow> bool"
  for c s0 where
  run_start: "store_run c s0 [] s0"
| run_acquire: "store_run c s0 gs s \<Longrightarrow> cell_acquire c ok now n ttl s = (g, s') \<Longrightarrow>
    store_run c s0 (gs @ (case g of None \<Rightarrow> [] | Some v \<Rightarrow> [v])) s'"
| run_transfer: "store_run c s0 gs s \<Longrightarrow> 0 < te \<Longrightarrow>
    cell_transfer c ok now src tgt se te txn ttl s = (g, s') \<Longrightarrow>
    store_run c s0 (gs @ (case g of None \<Rightarrow> [] | Some v \<Rightarrow> [v])) s'"
| run_restart: "store_run c s0 gs s \<Longrightarrow> ls_view c (reopen s) = ls_view c s \<Longrightarrow> store_run c s0 gs (reopen s)"

definition fenced :: "lease_view list \<Rightarrow> bool" where
  "fenced gs = (sorted (map lv_epoch gs) \<and>
     (\<forall>v \<in> set gs. \<forall>v' \<in> set gs. lv_epoch v = lv_epoch v' \<longrightarrow> lv_holder v = lv_holder v'))"

definition run_inv :: "string \<Rightarrow> lease_view list \<Rightarrow> witness_store \<Rightarrow> bool" where
  "run_inv c gs s = (cell_ok s \<and> 0 \<le> lv_epoch (ls_view c s) \<and> fenced gs \<and>
     (\<forall>v \<in> set gs. 1 \<le> lv_epoch v \<and> epoch_advances v (ls_view c s)))"

lemma epoch_advances_trans:
  "1 \<le> lv_epoch u \<Longrightarrow> epoch_advances u v \<Longrightarrow> epoch_advances v w \<Longrightarrow> epoch_advances u w"
  by (auto simp: epoch_advances_def)

lemma fenced_snoc:
  assumes "fenced gs" and "\<forall>v \<in> set gs. 1 \<le> lv_epoch v \<and> epoch_advances v w"
  shows "fenced (gs @ [w])"
proof -
  have new: "lv_epoch v \<le> lv_epoch w" "lv_epoch v = lv_epoch w \<Longrightarrow> lv_holder v = lv_holder w"
    if "v \<in> set gs" for v using assms(2) that by (auto simp: epoch_advances_def)
  have old: "sorted (map lv_epoch gs)" "lv_holder v = lv_holder v'"
    if "v \<in> set gs" "v' \<in> set gs" "lv_epoch v = lv_epoch v'" for v v'
    using assms(1) that unfolding fenced_def by blast+
  have srt: "sorted (map lv_epoch (gs @ [w]))"
    using new(1) assms(1) unfolding fenced_def by (simp only: sorted_append map_append) auto
  have eq: "lv_holder v = lv_holder v'"
    if "v \<in> insert w (set gs)" "v' \<in> insert w (set gs)" "lv_epoch v = lv_epoch v'" for v v'
  proof (cases "v = w"; cases "v' = w")
    assume "v = w" and "v' \<noteq> w"
    then show ?thesis using that new(2) [of v'] by simp
  next
    assume "v \<noteq> w" and "v' = w"
    then show ?thesis using that new(2) [of v] by simp
  next
    assume "v \<noteq> w" and "v' \<noteq> w"
    then show ?thesis using that old(2) [of v v'] by simp
  qed simp
  show ?thesis
    unfolding fenced_def by (intro conjI ballI impI srt eq) (simp_all only: set_append set_simps Un_insert_right Un_empty_right)
qed

lemma run_inv_step:
  assumes "run_inv c gs s" and "cell_ok s'" and "epoch_advances (ls_view c s) (ls_view c s')"
    and "g = None \<or> g = Some (ls_view c s') \<and> 1 \<le> lv_epoch (ls_view c s')"
  shows "run_inv c (gs @ (case g of None \<Rightarrow> [] | Some v \<Rightarrow> [v])) s'"
proof -
  have old: "\<forall>v \<in> set gs. 1 \<le> lv_epoch v \<and> epoch_advances v (ls_view c s')"
    using assms(1,3) epoch_advances_trans by (fastforce simp: run_inv_def)
  moreover have f: "fenced gs" using assms(1) by (simp add: run_inv_def)
  moreover have "epoch_advances (ls_view c s') (ls_view c s')" and "0 \<le> lv_epoch (ls_view c s')"
    using assms(3) by (auto simp: epoch_advances_def)
  moreover have "fenced (gs @ [ls_view c s'])" by (rule fenced_snoc [OF f old])
  ultimately show ?thesis using assms(2,4) unfolding run_inv_def by (cases g) auto
qed

lemma store_run_inv:
  assumes "store_run c s0 gs s" and "cell_ok s0"
  shows "run_inv c gs s"
  using assms
proof (induction rule: store_run.induct)
  case run_start
  then show ?case
    using store_reads(4) [of s0 c] by (simp add: run_inv_def fenced_def ls_view_def cell_ok_def)
next
  case (run_acquire gs s ok now n ttl g s')
  then have inv: "run_inv c gs s" and ok: "cell_ok s" and e: "0 \<le> lv_epoch (ls_view c s)"
    by (auto simp: run_inv_def)
  note run = cell_acquire_run [OF ok run_acquire.hyps(2)]
  have "g = None \<or> g = Some (ls_view c s') \<and> 1 \<le> lv_epoch (ls_view c s')"
    using run by (auto simp: spec_acquire_def)
  with inv run witness_cell.epoch_mono(1) [OF ok e run_acquire.hyps(2)] show ?case
    by (intro run_inv_step) auto
next
  case (run_transfer gs s te ok now src tgt se txn ttl g s')
  then have inv: "run_inv c gs s" and ok: "cell_ok s" and e: "0 \<le> lv_epoch (ls_view c s)"
    by (auto simp: run_inv_def)
  note run = cell_transfer_run [OF ok run_transfer.hyps(3)]
  have "g = None \<or> g = Some (ls_view c s') \<and> 1 \<le> lv_epoch (ls_view c s')"
    using run run_transfer.hyps(2) by (metis add_0 ls_view_simps(2) zless_imp_add1_zle)
  with inv run witness_cell.epoch_mono(2) [OF ok e run_transfer.hyps(3)] show ?case
    by (intro run_inv_step) auto
next
  case (run_restart gs s)
  then show ?case using witness_cell.reopen_wf by (auto simp: run_inv_def)
qed

text \<open>
  C39. Refinement of a witness: on a store that is backed by a file, an acquisition and a transfer
  change the lease of their cluster exactly as the abstract lease prescribes, whether the write
  to the file succeeds or not, and leave the leases of the other clusters alone.
\<close>

theorem store_refines_lease:
  assumes "cell_ok s"
  shows "ls_view c (snd (store_acquire ok now c n ttl s)) = spec_acquire now n (clamp_ttl ttl) (ls_view c s) \<and>
    ls_view c (snd (store_transfer ok now c src tgt se te txn ttl s)) =
      spec_transfer now src tgt se te (clamp_ttl ttl) (ls_view c s) \<and>
    (c' \<noteq> c \<longrightarrow> ls_view c' (snd (store_acquire ok now c n ttl s)) = ls_view c' s) \<and>
    (c' \<noteq> c \<longrightarrow> ls_view c' (snd (store_transfer ok now c src tgt se te txn ttl s)) = ls_view c' s)"
proof (intro conjI)
  show "ls_view c (snd (store_acquire ok now c n ttl s)) = spec_acquire now n (clamp_ttl ttl) (ls_view c s)"
    using witness_cell.acq_lease [OF assms surjective_pairing, of c ok now n ttl]
    by (simp add: cell_acquire_def)
  show "ls_view c (snd (store_transfer ok now c src tgt se te txn ttl s)) =
         spec_transfer now src tgt se te (clamp_ttl ttl) (ls_view c s)"
    using witness_cell.trn_lease [OF assms surjective_pairing, of c ok now src tgt se te txn ttl]
    by (simp add: cell_transfer_def)
  show "c' \<noteq> c \<longrightarrow> ls_view c' (snd (store_acquire ok now c n ttl s)) = ls_view c' s"
    and "c' \<noteq> c \<longrightarrow> ls_view c' (snd (store_transfer ok now c src tgt se te txn ttl s)) = ls_view c' s"
    by (simp_all add: ls_view_def ls_holder_def ls_epoch_def ls_expires_def store_acquire_other
          store_transfer_other)
qed

definition empty_store :: witness_store where
  "empty_store = open_store True None"

lemma empty_store_ok [simp]: "cell_ok empty_store"
  by (simp add: cell_ok_def store_wf_def empty_store_def reopen_def open_store_def load_leases_def)

theorem store_refines_lease_witness:
  "ls_view ''show'' (snd (store_acquire True 1000 ''show'' ''a'' 3000 empty_store)) =
     \<lparr>lv_holder = ''a'', lv_epoch = 1, lv_expires = 4000\<rparr>"
  using store_refines_lease [OF empty_store_ok, of "''show''" True 1000 "''a''" 3000]
  by (simp add: spec_acquire_def spec_blocked_def ls_view_def ls_holder_def ls_epoch_def ls_expires_def
      lease_of_def empty_store_def open_store_def load_leases_def dgetd_def int_or_0_def clamp_ttl_def)

text \<open>
  Fencing at one witness: along every run from a well-formed store the epochs of the reported
  grants never decrease, and two grants with the same epoch are to the same node.  No assumption
  on the clock is needed.
\<close>

theorem store_grants_fenced:
  assumes "cell_ok s0" and "store_run c s0 gs s"
  shows "sorted (map lv_epoch gs) \<and>
    (\<forall>v \<in> set gs. \<forall>v' \<in> set gs. lv_epoch v = lv_epoch v' \<longrightarrow> lv_holder v = lv_holder v')"
  using store_run_inv [OF assms(2,1)] unfolding run_inv_def fenced_def by blast

theorem store_grants_fenced_witness:
  "sorted (map lv_epoch [\<lparr>lv_holder = ''a'', lv_epoch = 1, lv_expires = 4000\<rparr>,
                         \<lparr>lv_holder = ''b'', lv_epoch = 2, lv_expires = 7000\<rparr>])"
proof -
  let ?s1 = "snd (cell_acquire ''c'' True 1000 ''a'' 3000 empty_store)"
  let ?s2 = "snd (cell_transfer ''c'' True 1500 ''a'' ''b'' 1 2 7 5500 ?s1)"
  have 1: "cell_acquire ''c'' True 1000 ''a'' 3000 empty_store =
      (Some \<lparr>lv_holder = ''a'', lv_epoch = 1, lv_expires = 4000\<rparr>, ?s1)" by code_simp
  have 2: "cell_transfer ''c'' True 1500 ''a'' ''b'' 1 2 7 5500 ?s1 =
      (Some \<lparr>lv_holder = ''b'', lv_epoch = 2, lv_expires = 7000\<rparr>, ?s2)" by code_simp
  have "store_run ''c'' empty_store [\<lparr>lv_holder = ''a'', lv_epoch = 1, lv_expires = 4000\<rparr>,
      \<lparr>lv_holder = ''b'', lv_epoch = 2, lv_expires = 7000\<rparr>] ?s2"
    using run_transfer [OF run_acquire [OF run_start 1] _ 2] by simp
  then show ?thesis by (rule store_grants_fenced [OF empty_store_ok, THEN conjunct1])
qed

text \<open>
  A gap in the durability of transfers: when the write of a transfer fails, its exact retry is
  answered as granted from memory without another write; a restart then finds the old lease, and
  the epoch that was reported for the target is granted to a third node.
\<close>

theorem transfer_replay_not_durable:
  "\<exists>s1 s2 s3 s4 s5 r1 r2 r3 r4.
     store_acquire True 1000 ''c'' ''a'' 3000 empty_store = (r1, s1) \<and>
     store_transfer False 1500 ''c'' ''a'' ''b'' 1 2 7 3000 s1 = (r2, s2) \<and> r2 = Inl OSError \<and>
     store_transfer True 1600 ''c'' ''a'' ''b'' 1 2 7 3000 s2 = (r3, s3) \<and>
     grant_of r3 = Some \<lparr>lv_holder = ''b'', lv_epoch = 2, lv_expires = 4500\<rparr> \<and>
     s4 = reopen s3 \<and>
     store_acquire True 4100 ''c'' ''d'' 3000 s4 = (r4, s5) \<and>
     grant_of r4 = Some \<lparr>lv_holder = ''d'', lv_epoch = 2, lv_expires = 7100\<rparr>"
proof -
  let ?s1 = "snd (store_acquire True 1000 ''c'' ''a'' 3000 empty_store)"
  let ?s2 = "snd (store_transfer False 1500 ''c'' ''a'' ''b'' 1 2 7 3000 ?s1)"
  let ?s3 = "snd (store_transfer True 1600 ''c'' ''a'' ''b'' 1 2 7 3000 ?s2)"
  have "fst (store_transfer False 1500 ''c'' ''a'' ''b'' 1 2 7 3000 ?s1) = Inl OSError"
    and "grant_of (fst (store_transfer True 1600 ''c'' ''a'' ''b'' 1 2 7 3000 ?s2)) =
         Some \<lparr>lv_holder = ''b'', lv_epoch = 2, lv_expires = 4500\<rparr>"
    and "grant_of (fst (store_acquire True 4100 ''c'' ''d'' 3000 (reopen ?s3))) =
         Some \<lparr>lv_holder = ''d'', lv_epoch = 2, lv_expires = 7100\<rparr>"
    by code_simp+
  then show ?thesis by (metis prod.collapse)
qed

end
