(* ===== verification/Witness_Server.thy ===== *)
theory Witness_Server
  imports Witness_Store
begin

text \<open>
  \<^verbatim>\<open>src/backend/witness_server.py\<close>: the HTTP handler in front of one witness.  A request passes the
  configuration checks, key resolution and the verifier of its route before the store is touched,
  and the answer is bound to the verified request.  Parsing of the HTTP body is outside the model:
  the handler takes the JSON value, or \<open>None\<close> when it is not JSON.
\<close>

record witness_config =
  sv_secret :: string
  sv_explicit_keyring :: string
  sv_keyring :: hmac_keyring
  sv_witness_id :: string
  sv_failure_domain :: string
  sv_independent :: bool

definition independent_configuration_error :: "witness_config \<Rightarrow> string option" where
  "independent_configuration_error cfg =
     (if \<not> sv_independent cfg then None
      else if sv_witness_id cfg = [] \<or> sv_failure_domain cfg = []
      then Some ''independent witness requires STAGEFORGE_WITNESS_ID and STAGEFORGE_WITNESS_FAILURE_DOMAIN''
      else if sv_explicit_keyring cfg = []
      then Some ''independent witness requires its own STAGEFORGE_WITNESS_KEYRING_FILE''
      else if sv_secret cfg \<noteq> []
      then Some ''independent witness forbids environment/shared-secret fallback''
      else None)"

definition server_auth :: "witness_config \<Rightarrow> pyval option \<Rightarrow> pyerr + hmac_snapshot" where
  "server_auth cfg keyfile =
     (if keyring_mode (sv_keyring cfg) then keyring_snapshot (sv_keyring cfg) keyfile
      else keyring_snapshot \<lparr>kr_path = None, kr_legacy_secret = sv_secret cfg\<rparr> None)"

text \<open>The store operation of a verified request.\<close>

definition serve_operation ::
    "bool \<Rightarrow> int \<Rightarrow> string \<Rightarrow> pydict \<Rightarrow> (witness_store, pydict) pymethod" where
  "serve_operation disk_ok now_ms operation p =
     (if operation = ''transfer'' then
        store_transfer disk_ok now_ms (gets p ''clusterId'') (gets p ''sourceNodeId'')
          (gets p ''targetNodeId'') (geti p ''sourceEpoch'') (geti p ''targetEpoch'')
          (geti p ''transactionId'') (geti p ''ttlMs'')
      else if operation = ''recover'' then
        sgete (authorize_recovery now_ms (gets p ''clusterId'') (gets p ''nodeId'')
          (gets p ''targetNodeId'') (geti p ''sourceEpoch'') (geti p ''targetEpoch'')
          (geti p ''transactionId'') (gets p ''recoveryId'') (gets p ''fenceDigest''))
      else store_acquire disk_ok now_ms (gets p ''clusterId'') (gets p ''nodeId'') (geti p ''ttlMs''))"

definition verifier :: "string \<Rightarrow> pydict \<Rightarrow> string \<Rightarrow> pyerr + (bool \<times> string \<times> pydict)" where
  "verifier operation =
     (if operation = ''transfer'' then verify_transfer_request
      else if operation = ''recover'' then verify_recovery_request else verify_request)"

definition error_body :: "string \<Rightarrow> pydict" where
  "error_body text = [(''error'', PStr text)]"

definition do_POST ::
    "witness_config \<Rightarrow> pyval option \<Rightarrow> bool \<Rightarrow> int \<Rightarrow> string \<Rightarrow> pyval option \<Rightarrow>
     (witness_store, int \<times> pydict) pymethod" where
  "do_POST cfg keyfile disk_ok now_ms path body =
     (if path \<notin> {''/api/v1/lease/acquire'', ''/api/v1/lease/transfer'', ''/api/v1/lease/recover''}
      then sreturn (404, error_body ''route not found'')
      else case independent_configuration_error cfg of
        Some e \<Rightarrow> sreturn (503, error_body e)
      | None \<Rightarrow>
        if \<not> (keyring_mode (sv_keyring cfg) \<or> sv_secret cfg \<noteq> [])
        then sreturn (503, error_body ''witness authentication not configured'')
        else case body of
          None \<Rightarrow> sreturn (400, error_body ''invalid JSON'')
        | Some raw \<Rightarrow>
          (case ebind (server_auth cfg keyfile) (\<lambda>auth.
                ebind (as_dict raw) (\<lambda>request.
                ebind (resolve auth (dgetn request ''keyId'')) (\<lambda>secret. Inr (auth, request, secret)))) of
             Inl (PermissionError m) \<Rightarrow> sreturn (403, error_body m)
           | Inl e \<Rightarrow> sraise e
           | Inr (auth, request, secret) \<Rightarrow>
             (let operation = (if endswith path ''/transfer'' then ''transfer''
                               else if endswith path ''/recover'' then ''recover'' else ''acquire'')
              in sbind (slift (verifier operation request secret)) (\<lambda>(ok, reason, payload).
                 if \<not> ok then sreturn (403, error_body reason)
                 else sbind (serve_operation disk_ok now_ms operation payload) (\<lambda>result.
                   let result' = dset (dset result ''witnessId'' (opt_str (sv_witness_id cfg)))
                                   ''failureDomain'' (opt_str (sv_failure_domain cfg)) in
                   sbind (slift (sign_response result' payload operation secret
                            (if hk_keyring_mode auth then Some (py_str (dgetn request ''keyId'')) else None)))
                     (\<lambda>signed. sreturn (200, signed)))))))"

definition do_GET :: "witness_config \<Rightarrow> int \<Rightarrow> string \<Rightarrow> string \<Rightarrow> witness_store \<Rightarrow> pyerr + (int \<times> pydict)" where
  "do_GET cfg now_ms path cluster s =
     (if path = ''/health'' then
        (let e = independent_configuration_error cfg in
         Inr (if e = None then 200 else 503,
           [(''ok'', PBool (e = None)), (''service'', PStr ''stageforge-witness''),
            (''witnessId'', opt_str (sv_witness_id cfg)), (''failureDomain'', opt_str (sv_failure_domain cfg)),
            (''independentMode'', PBool (sv_independent cfg)),
            (''error'', case e of None \<Rightarrow> PNone | Some m \<Rightarrow> PStr m)]))
      else if path = ''/api/v1/lease/status'' then
        ebind (store_status now_ms cluster s) (\<lambda>d. Inr (200, d))
      else Inr (404, error_body ''route not found''))"

section \<open>What reaches the store\<close>

definition route_operation :: "string \<Rightarrow> string" where
  "route_operation path = (if endswith path ''/transfer'' then ''transfer''
     else if endswith path ''/recover'' then ''recover'' else ''acquire'')"

lemma verify_request_tag:
  "verify_request r secret = Inr (True, why, p) \<Longrightarrow> check_tag r p secret = Inr (True, why, p)"
  by (auto simp: verify_request_def check_tag_def Let_def ebind_eq_Inr split: sum.splits prod.splits if_splits)

lemma verify_transfer_tag:
  "verify_transfer_request r secret = Inr (True, why, p) \<Longrightarrow> check_tag r p secret = Inr (True, why, p)"
  by (auto simp: verify_transfer_request_def check_tag_def Let_def ebind_eq_Inr
           split: sum.splits option.splits if_splits)

lemma verify_recovery_tag:
  "verify_recovery_request r secret = Inr (True, why, p) \<Longrightarrow> check_tag r p secret = Inr (True, why, p)"
  by (auto simp: verify_recovery_request_def check_tag_def Let_def ebind_eq_Inr split: if_splits)

lemma verifier_tag:
  "verifier op r secret = Inr (True, why, p) \<Longrightarrow>
   py_str (dgetd r ''hmacSha256'' (PStr [])) = sign_request p secret"
  by (auto simp: verifier_def dest!: verify_request_tag verify_transfer_tag verify_recovery_tag check_tag_True
           split: if_splits)

lemma do_POST_cases:
  assumes run: "do_POST cfg keyfile ok now path body s = (res, s')"
  obtains (refused) "s' = s" "\<And>r. res \<noteq> Inr (200, r)"
  | (served) auth request secret why payload where
      "body = Some (PDict request)" "server_auth cfg keyfile = Inr auth"
      "resolve auth (dgetn request ''keyId'') = Inr secret"
      "verifier (route_operation path) request secret = Inr (True, why, payload)"
      "s' = snd (serve_operation ok now (route_operation path) payload s)"
proof -
  let ?auth = "\<lambda>raw. ebind (server_auth cfg keyfile) (\<lambda>auth. ebind (as_dict raw) (\<lambda>request.
      ebind (resolve auth (dgetn request ''keyId'')) (\<lambda>secret. Inr (auth, request, secret))))"
  show ?thesis
  proof (cases "\<exists>raw x. body = Some raw \<and> ?auth raw = Inr x \<and>
      independent_configuration_error cfg = None \<and> (keyring_mode (sv_keyring cfg) \<or> sv_secret cfg \<noteq> []) \<and>
      path \<in> {''/api/v1/lease/acquire'', ''/api/v1/lease/transfer'', ''/api/v1/lease/recover''}")
    case False
    with run have "s' = s \<and> (\<forall>r. res \<noteq> Inr (200, r))"
      by (auto simp: do_POST_def split: if_splits option.splits sum.splits pyerr.splits)
    with refused show ?thesis by blast
  next
    case True
    then obtain raw y where b: "body = Some raw" and y: "?auth raw = Inr y"
      and pre: "independent_configuration_error cfg = None" "keyring_mode (sv_keyring cfg) \<or> sv_secret cfg \<noteq> []"
        "path \<in> {''/api/v1/lease/acquire'', ''/api/v1/lease/transfer'', ''/api/v1/lease/recover''}"
      by blast
    obtain auth request secret where "y = (auth, request, secret)" by (cases y)
    with y have a: "server_auth cfg keyfile = Inr auth" and r: "raw = PDict request"
      and sec: "resolve auth (dgetn request ''keyId'') = Inr secret"
      by (auto simp: ebind_eq_Inr as_dict_def split: pyval.splits)
    show ?thesis
    proof (cases "\<exists>why payload. verifier (route_operation path) request secret = Inr (True, why, payload)")
      case True
      then obtain why payload where
        v: "verifier (route_operation path) request secret = Inr (True, why, payload)" by blast
      have "s' = snd (serve_operation ok now (route_operation path) payload s)"
        using run pre b a r sec v
        by (auto simp: do_POST_def method_run Let_def route_operation_def [symmetric] split: prod.splits sum.splits)
      with b r a sec v served show ?thesis by blast
    next
      case False
      then have "s' = s \<and> (\<forall>r. res \<noteq> Inr (200, r))"
        using run pre b a r sec
        by (auto simp: do_POST_def method_run Let_def route_operation_def [symmetric] split: prod.splits sum.splits)
      with refused show ?thesis by blast
    qed
  qed
qed

definition keyed :: "string option \<Rightarrow> pydict" where
  "keyed key_id = (case key_id of None \<Rightarrow> [] | Some k \<Rightarrow> [(''keyId'', PStr k)])"

lemma verify_request_signed:
  fixes p c n ttl nonce key_id secret
  defines "p \<equiv> acquire_fields c n ttl nonce @ keyed key_id"
  assumes "c \<noteq> []" "n \<noteq> []" "500 \<le> ttl" "ttl \<le> 60000"
  shows "verify_request (p @ [(''hmacSha256'', PStr (sign_request p secret))]) secret = Inr (True, ''ok'', p)"
proof -
  let ?r = "p @ [(''hmacSha256'', PStr (sign_request p secret))]"
  have pay: "request_payload ?r = Inr (1, c, n, ttl, nonce, p)"
    by (simp add: request_payload_def p_def acquire_fields_def dindex_def key_field_def keyed_def dget_append
         split: option.splits)
  have "dget ?r ''hmacSha256'' = Some (PStr (sign_request p secret))"
    by (simp add: p_def dget_append acquire_fields_def keyed_def split: option.splits)
  from check_tag_signed [OF this] pay assms(2-) show ?thesis by (simp add: verify_request_def)
qed

text \<open>The answer of the handler to a signed request, for either kind of authentication.\<close>

definition witness_answers :: "witness_config \<Rightarrow> pyval option \<Rightarrow> string \<Rightarrow> string option \<Rightarrow> bool" where
  \<comment> \<open>the witness is configured and resolves the key of the client to the same secret\<close>
  "witness_answers cfg keyfile secret key_id =
     (independent_configuration_error cfg = None \<and> (keyring_mode (sv_keyring cfg) \<or> sv_secret cfg \<noteq> []) \<and>
      secret \<noteq> [] \<and>
      (case server_auth cfg keyfile of
         Inl _ \<Rightarrow> False
       | Inr auth \<Rightarrow> hk_keyring_mode auth = (key_id \<noteq> None) \<and>
           resolve auth (case key_id of None \<Rightarrow> PNone | Some k \<Rightarrow> PStr k) = Inr secret))"

lemma do_POST_acquire:
  fixes key_id
  assumes body: "body = p @ [(''hmacSha256'', PStr (sign_request p secret))]"
    and p: "p = acquire_fields c n ttl nonce @ keyed key_id"
    and ok: "c \<noteq> []" "n \<noteq> []" "500 \<le> ttl" "ttl \<le> 60000" "witness_answers cfg keyfile secret key_id"
    and run: "store_acquire disk now c n ttl s = (Inr result, s')"
  shows "\<exists>r. do_POST cfg keyfile disk now ''/api/v1/lease/acquire'' (Some (PDict body)) s = (Inr (200, r), s') \<and>
    sign_response (dset (dset result ''witnessId'' (opt_str (sv_witness_id cfg))) ''failureDomain''
      (opt_str (sv_failure_domain cfg))) p ''acquire'' secret key_id = Inr r"
proof -
  from ok(5) obtain auth where auth: "server_auth cfg keyfile = Inr auth" "hk_keyring_mode auth = (key_id \<noteq> None)"
    "resolve auth (case key_id of None \<Rightarrow> PNone | Some k \<Rightarrow> PStr k) = Inr secret"
    and cfg: "independent_configuration_error cfg = None" "keyring_mode (sv_keyring cfg) \<or> sv_secret cfg \<noteq> []"
      "secret \<noteq> []"
    by (auto simp: witness_answers_def split: sum.splits)
  have kid: "dgetn body ''keyId'' = (case key_id of None \<Rightarrow> PNone | Some k \<Rightarrow> PStr k)"
    by (simp add: body p dgetn_def dgetd_def acquire_fields_def keyed_def split: option.splits)
  then have sign: "(if hk_keyring_mode auth then Some (py_str (dgetn body ''keyId'')) else None) = key_id"
    using auth(2) by (cases key_id) auto
  have ver: "verify_request body secret = Inr (True, ''ok'', p)"
    unfolding body p by (rule verify_request_signed [OF ok(1-4)])
  have op: "serve_operation disk now ''acquire'' p s = (Inr result, s')"
    using run by (simp add: serve_operation_def p acquire_fields_def gets_def geti_def dgetn_def dgetd_def)
  obtain r where r: "sign_response (dset (dset result ''witnessId'' (opt_str (sv_witness_id cfg))) ''failureDomain''
      (opt_str (sv_failure_domain cfg))) p ''acquire'' secret key_id = Inr r"
    using cfg(3) by (simp add: sign_response_def Let_def)
  have "do_POST cfg keyfile disk now ''/api/v1/lease/acquire'' (Some (PDict body)) s = (Inr (200, r), s')"
    using cfg auth kid sign ver op r
    by (simp add: do_POST_def method_run Let_def verifier_def endswith_def)
  with r show ?thesis by blast
qed

text \<open>
  Nothing unauthenticated reaches the leases: if the handler of a witness changes its store, or
  answers 200, then the body is a JSON object whose tag is the HMAC, under the secret its key
  identifier resolves to, of the payload that was served.
\<close>

theorem post_authenticated:
  assumes "do_POST cfg keyfile ok now path body s = (res, s')"
    and "s' \<noteq> s \<or> res = Inr (200, answer)"
  shows "\<exists>auth request secret payload. body = Some (PDict request) \<and> server_auth cfg keyfile = Inr auth \<and>
    resolve auth (dgetn request ''keyId'') = Inr secret \<and>
    py_str (dgetd request ''hmacSha256'' (PStr [])) = sign_request payload secret \<and>
    s' = snd (serve_operation ok now (route_operation path) payload s)"
  using assms(1)
proof (cases rule: do_POST_cases)
  case refused
  with assms(2) show ?thesis by blast
next
  case (served auth request secret why payload)
  with verifier_tag [OF served(4)] show ?thesis by blast
qed

definition demo_config :: witness_config where
  "demo_config = \<lparr>sv_secret = ''shared'', sv_explicit_keyring = [],
     sv_keyring = \<lparr>kr_path = None, kr_legacy_secret = ''shared''\<rparr>, sv_witness_id = ''w1'',
     sv_failure_domain = ''rack1'', sv_independent = False\<rparr>"

lemma demo_answers: "witness_answers demo_config None ''shared'' None"
  by (simp add: witness_answers_def demo_config_def independent_configuration_error_def server_auth_def
      keyring_mode_def keyring_snapshot_def resolve_def active_secret_def hk_configured_def)

theorem post_authenticated_witness:
  "\<exists>body s' res secret request payload. do_POST demo_config None True 1000 ''/api/v1/lease/acquire'' body empty_store =
     (Inr (200, res), s') \<and> body = Some (PDict request) \<and>
     py_str (dgetd request ''hmacSha256'' (PStr [])) = sign_request payload secret"
proof -
  let ?p = "acquire_fields ''show'' ''a'' 3000 ''nonce'' @ keyed None"
  obtain result s' where "store_acquire True 1000 ''show'' ''a'' 3000 empty_store = (Inr result, s')"
    by (simp add: store_acquire_def empty_store_def open_store_def load_leases_def lease_of_def method_run Let_def
        save_def set_lease_def dgetd_def)
  with do_POST_acquire [OF refl refl _ _ _ _ demo_answers, of "''show''" "''a''" 3000 True 1000 empty_store]
  obtain r where post: "do_POST demo_config None True 1000 ''/api/v1/lease/acquire''
      (Some (PDict (?p @ [(''hmacSha256'', PStr (sign_request ?p ''shared''))]))) empty_store = (Inr (200, r), s')"
    by fastforce
  from post_authenticated [OF post disjI2 [OF refl]] post show ?thesis by blast
qed

end
