(* ===== verification/Witness_Client.thy ===== *)
theory Witness_Client
  imports Witness_Server
begin

text \<open>
  \<open>WitnessQuorumClient\<close> of \<^verbatim>\<open>src/backend/witness.py\<close>: a node asks every witness for the lease and
  relies on a quorum of the answers.  What the network and the disk do is an argument of each
  operation: per witness the nonce, the reply to the signed body and the clock reading at its
  arrival, and for the fence file whether a write succeeds.
\<close>

section \<open>State\<close>

record witness_result =
  wr_url :: string
  wr_granted :: bool
  wr_epoch :: int
  wr_expires :: int
  wr_holder :: "string option"
  wr_error :: "string option"
  wr_witness_id :: "string option"
  wr_failure_domain :: "string option"
  wr_server_ms :: int
  wr_skew :: "int option"

definition failed_result :: "string \<Rightarrow> string \<Rightarrow> witness_result" where
  "failed_result url text =
     \<lparr>wr_url = url, wr_granted = False, wr_epoch = 0, wr_expires = 0, wr_holder = None,
      wr_error = Some text, wr_witness_id = None, wr_failure_domain = None, wr_server_ms = 0, wr_skew = None\<rparr>"

record endpoint_meta =
  em_witness_id :: string
  em_failure_domain :: string
  em_keyring :: hmac_keyring

text \<open>The fence file: its bytes, what they parse to, and the facts \<open>fstat\<close> and \<open>open\<close> report.\<close>

record fence_file =
  ff_raw :: string
  ff_json :: "pyval option"
  ff_readable :: bool
  ff_regular :: bool
  ff_identity :: "int \<times> int"

record witness_client =
  wc_independent :: bool
  wc_urls :: "string list"
  wc_configured_quorum :: int
  wc_max_skew :: int
  wc_meta :: "(string \<times> endpoint_meta) list"
  wc_cluster :: string
  wc_node :: string
  wc_secret :: string
  wc_keyring :: "hmac_keyring option"
  wc_ttl :: int
  wc_results :: "witness_result list"
  wc_lease_epoch :: int
  wc_lease_expires :: int
  wc_last_attempt :: int
  wc_fence_path :: bool
  wc_fence :: "fence_file option"
  wc_receipt :: "pyval option"
  wc_suspended :: bool

definition fence_present :: "bool \<Rightarrow> fence_file option \<Rightarrow> bool" where
  \<comment> \<open>an inaccessible file counts as present\<close>
  "fence_present path fence = (path \<and> fence \<noteq> None)"

text \<open>\<open>files\<close> gives the parsed content of a keyring file.  Opening a keyring reads it once.\<close>

definition read_keyring :: "(string \<Rightarrow> pyval option) \<Rightarrow> hmac_keyring \<Rightarrow> pyerr + hmac_snapshot" where
  "read_keyring files kr = keyring_snapshot kr (case kr_path kr of None \<Rightarrow> None | Some p \<Rightarrow> files p)"

definition open_keyring :: "(string \<Rightarrow> pyval option) \<Rightarrow> string \<Rightarrow> string \<Rightarrow> pyerr + hmac_keyring" where
  "open_keyring files path legacy_secret =
     (let text = strip path;
          kr = \<lparr>kr_path = (if text = [] then None else Some text), kr_legacy_secret = legacy_secret\<rparr>
      in if kr_path kr = None then Inr kr else ebind (read_keyring files kr) (\<lambda>_. Inr kr))"

definition endpoint_url :: "pyval \<Rightarrow> pyerr + string" where
  "endpoint_url item = ebind (as_dict item) (\<lambda>d. ebind (dindex d ''url'') (\<lambda>url.
     Inr (rstrip_char (CHR ''/'') (py_str url))))"

definition topology_entry :: "(string \<Rightarrow> pyval option) \<Rightarrow> pyval \<Rightarrow> pyerr + (string \<times> endpoint_meta)" where
  "topology_entry files item =
     ebind (endpoint_url item) (\<lambda>url.
     ebind (as_dict item) (\<lambda>d.
     ebind (dindex d ''witnessId'') (\<lambda>w.
     ebind (dindex d ''failureDomain'') (\<lambda>f.
     ebind (dindex d ''keyringFile'') (\<lambda>k.
     ebind (open_keyring files (py_str k) []) (\<lambda>kr.
       Inr (url, \<lparr>em_witness_id = py_str w, em_failure_domain = py_str f, em_keyring = kr\<rparr>)))))))"

definition client_endpoints ::
    "(string \<Rightarrow> pyval option) \<Rightarrow> string list \<Rightarrow> pydict option \<Rightarrow>
     pyerr + (string list \<times> int \<times> int \<times> (string \<times> endpoint_meta) list)" where
  "client_endpoints files urls topology =
     (case topology of
        None \<Rightarrow> Inr (map (rstrip_char (CHR ''/''))
                       (filter (\<lambda>u. startswith u ''http://'' \<or> startswith u ''https://'') urls), 0, 0, [])
      | Some t \<Rightarrow>
          ebind (py_iter (por (dgetn t ''witnesses'') (PList []))) (\<lambda>items.
          ebind (emap endpoint_url items) (\<lambda>us.
          ebind (ebind (dindex t ''quorum'') py_int) (\<lambda>quorum.
          ebind (ebind (dindex t ''maxClockSkewMs'') py_int) (\<lambda>skew.
          ebind (emap (topology_entry files) items) (\<lambda>entries.
            Inr (us, quorum, skew, dmerge [] entries)))))))"

definition witness_client_init ::
    "(string \<Rightarrow> pyval option) \<Rightarrow> string list \<Rightarrow> string \<Rightarrow> string \<Rightarrow> string \<Rightarrow> int \<Rightarrow> bool \<Rightarrow>
     fence_file option \<Rightarrow> pyval option \<Rightarrow> hmac_keyring option \<Rightarrow> pydict option \<Rightarrow> pyerr + witness_client" where
  "witness_client_init files urls cluster_id node_id secret ttl_ms path fence receipt keyring topology =
     ebind (client_endpoints files urls topology) (\<lambda>(us, quorum, skew, meta).
     ebind (eguard (distinct us) (ValueError ''duplicate witness URLs cannot count as independent votes'')) (\<lambda>_.
     let c = take 64 (strip cluster_id); n = take 64 (strip node_id) in
     Inr \<lparr>wc_independent = (topology \<noteq> None), wc_urls = us, wc_configured_quorum = quorum,
          wc_max_skew = skew, wc_meta = meta,
          wc_cluster = (if c = [] then ''stageforge-local'' else c),
          wc_node = (if n = [] then ''node-local'' else n),
          wc_secret = secret, wc_keyring = keyring, wc_ttl = clamp_ttl ttl_ms, wc_results = [],
          wc_lease_epoch = 0, wc_lease_expires = 0, wc_last_attempt = 0, wc_fence_path = path,
          wc_fence = fence, wc_receipt = receipt, wc_suspended = fence_present path fence\<rparr>))"

definition client_configured :: "witness_client \<Rightarrow> bool" where
  "client_configured c =
     (if wc_urls c = [] then False
      else if wc_independent c
      then length (wc_meta c) = length (wc_urls c) \<and> list_all (\<lambda>(_, m). keyring_configured (em_keyring m)) (wc_meta c)
      else (case wc_keyring c of Some kr \<Rightarrow> keyring_configured kr | None \<Rightarrow> wc_secret c \<noteq> []))"

definition quorum_size :: "witness_client \<Rightarrow> int" where
  "quorum_size c =
     (if wc_independent c then wc_configured_quorum c
      else if wc_urls c = [] then 0 else int (length (wc_urls c) div 2) + 1)"

section \<open>Authentication\<close>

definition auth_snapshot :: "(string \<Rightarrow> pyval option) \<Rightarrow> witness_client \<Rightarrow> pyerr + hmac_snapshot" where
  "auth_snapshot files c =
     (case wc_keyring c of
        Some kr \<Rightarrow> read_keyring files kr
      | None \<Rightarrow> Inr \<lparr>hk_active = None,
                    hk_keys = (if wc_secret c = [] then [] else [(''legacy'', wc_secret c)]),
                    hk_keyring_mode = False\<rparr>)"

text \<open>\<open>_pin_operation_auth\<close>: the snapshot of every witness, taken once per operation.\<close>

definition pin_operation_auth ::
    "(string \<Rightarrow> pyval option) \<Rightarrow> witness_client \<Rightarrow> pyerr + (string \<times> hmac_snapshot) list" where
  "pin_operation_auth files c =
     (if wc_independent c then
        emap (\<lambda>url. ebind (dindex (wc_meta c) url) (\<lambda>m.
                ebind (read_keyring files (em_keyring m)) (\<lambda>k. Inr (url, k)))) (wc_urls c)
      else ebind (auth_snapshot files c) (\<lambda>k. Inr (map (\<lambda>url. (url, k)) (wc_urls c))))"

definition signed_body :: "pydict \<Rightarrow> hmac_snapshot \<Rightarrow> pyerr + (pydict \<times> string \<times> string option)" where
  "signed_body payload auth =
     (if \<not> hk_configured auth then Inl (PermissionError ''witness authentication required'')
      else
        let key_id = (if hk_keyring_mode auth then hk_active auth else None);
            body = (case key_id of None \<Rightarrow> payload | Some k \<Rightarrow> dset payload ''keyId'' (PStr k)) in
        ebind (active_secret auth) (\<lambda>secret.
          Inr (dset body ''hmacSha256'' (PStr (sign_request body secret)), secret, key_id)))"

section \<open>One witness\<close>

datatype wire_reply =
    Reply pyval \<comment> \<open>a body that is JSON\<close>
  | HttpStatus int
  | NoReply string \<comment> \<open>an unreachable witness, a timeout or a body that is not JSON\<close>

record exchange =
  ex_nonce :: string
  ex_reply :: "pydict \<Rightarrow> wire_reply"
  ex_now :: int

definition response_identity ::
    "witness_client \<Rightarrow> int \<Rightarrow> string \<Rightarrow> pydict \<Rightarrow> pyerr + (string option \<times> string option \<times> int \<times> int option)" where
  "response_identity c now_ms url raw =
     (let server = dgetn raw ''serverUnixMs''; witness = dgetn raw ''witnessId'';
          domain = dgetn raw ''failureDomain'';
          text = (\<lambda>v. if v = PNone then None else Some (py_str v)) in
      if wc_independent c then
        (case server of
           PInt ms \<Rightarrow>
             if ms \<le> 0 then Inl (ValueError ''witness response missing server clock'')
             else ebind (dindex (wc_meta c) url) (\<lambda>m.
               if witness \<noteq> PStr (em_witness_id m) \<or> domain \<noteq> PStr (em_failure_domain m)
               then Inl (ValueError ''witness identity/failure-domain mismatch'')
               else if wc_max_skew c < \<bar>ms - now_ms\<bar>
               then Inl (ValueError ''witness clock skew exceeds configured bound'')
               else Inr (Some (py_str witness), Some (py_str domain), ms, Some \<bar>ms - now_ms\<bar>))
         | _ \<Rightarrow> Inl (ValueError ''witness response missing server clock''))
      else
        (case server of
           PInt ms \<Rightarrow> if 0 < ms then Inr (text witness, text domain, ms, Some \<bar>ms - now_ms\<bar>)
                      else Inr (text witness, text domain, 0, None)
         | _ \<Rightarrow> Inr (text witness, text domain, 0, None)))"

definition parse_result ::
    "witness_client \<Rightarrow> int \<Rightarrow> string \<Rightarrow> pydict \<Rightarrow> string \<Rightarrow> int option \<Rightarrow> pyerr + witness_result" where
  "parse_result c now_ms url raw holder transaction_id =
     (case dgetn raw ''granted'' of
        PBool granted \<Rightarrow>
          if dgetn raw ''clusterId'' \<noteq> PStr (wc_cluster c) then Inl (ValueError ''witness cluster mismatch'')
          else ebind (response_identity c now_ms url raw) (\<lambda>(witness, domain, server_ms, skew).
            if \<not> granted then
              Inr \<lparr>wr_url = url, wr_granted = False, wr_epoch = 0, wr_expires = 0, wr_holder = None,
                   wr_error = Some (take 200 (py_str (dgetd raw ''reason'' (PStr ''denied'')))),
                   wr_witness_id = witness, wr_failure_domain = domain, wr_server_ms = server_ms, wr_skew = skew\<rparr>
            else if dgetn raw ''holderNodeId'' \<noteq> PStr holder then Inl (ValueError ''witness holder mismatch'')
            else (case (dgetn raw ''epoch'', dgetn raw ''expiresAtUnixMs'') of
                (PInt epoch, PInt expires) \<Rightarrow>
                  if epoch \<le> 0 \<or> expires \<le> 0 then Inl (ValueError ''malformed witness fencing value'')
                  else if (case transaction_id of None \<Rightarrow> False | Some t \<Rightarrow> dgetn raw ''transactionId'' \<noteq> PInt t)
                  then Inl (ValueError ''witness transaction mismatch'')
                  else Inr \<lparr>wr_url = url, wr_granted = True, wr_epoch = epoch, wr_expires = expires,
                        wr_holder = Some holder, wr_error = None, wr_witness_id = witness,
                        wr_failure_domain = domain, wr_server_ms = server_ms, wr_skew = skew\<rparr>
              | _ \<Rightarrow> Inl (ValueError ''malformed witness fencing value'')))
      | _ \<Rightarrow> Inl (ValueError ''malformed witness grant''))"

text \<open>\<open>str(exc)\<close> of what the two handlers at the end of each exchange catch.\<close>

definition caught_text :: "pyerr \<Rightarrow> string option" where
  "caught_text e = (case e of
      ValueError m \<Rightarrow> Some m
    | TypeError \<Rightarrow> Some ''comparing strings with non-ASCII characters is not supported''
    | OSError \<Rightarrow> Some ''I/O error''
    | _ \<Rightarrow> None)"

definition settle :: "string \<Rightarrow> pyerr + witness_result \<Rightarrow> pyerr + witness_result" where
  "settle url r = (case r of
      Inr x \<Rightarrow> Inr x
    | Inl e \<Rightarrow> (case caught_text e of Some m \<Rightarrow> Inr (failed_result url (take 200 m)) | None \<Rightarrow> Inl e))"

definition run_exchange ::
    "exchange \<Rightarrow> string \<Rightarrow> string \<Rightarrow> pydict \<Rightarrow> string \<Rightarrow> string option \<Rightarrow> (pydict \<Rightarrow> pyerr + witness_result) \<Rightarrow>
     pyerr + witness_result" where
  "run_exchange ex url operation body secret key_id accept =
     (case ex_reply ex body of
        HttpStatus code \<Rightarrow> Inr (failed_result url (''HTTP '' @ show_int code))
      | NoReply m \<Rightarrow> Inr (failed_result url (take 200 m))
      | Reply raw \<Rightarrow> settle url (ebind (verify_response raw body operation secret key_id) accept))"

definition one :: "witness_client \<Rightarrow> (string \<times> hmac_snapshot) list \<Rightarrow> (string \<Rightarrow> exchange) \<Rightarrow> string \<Rightarrow> pyerr + witness_result" where
  "one c auths exs url =
     ebind (dindex auths url) (\<lambda>auth.
     ebind (signed_body (acquire_fields (wc_cluster c) (wc_node c) (wc_ttl c) (ex_nonce (exs url))) auth)
       (\<lambda>(body, secret, key_id).
       run_exchange (exs url) url ''acquire'' body secret key_id
         (\<lambda>raw. parse_result c (ex_now (exs url)) url raw (wc_node c) None)))"

text \<open>Asking every witness: a \<open>PermissionError\<close> before the first reply refuses all of them.\<close>

definition ask_all ::
    "witness_client \<Rightarrow> (string \<Rightarrow> pyval option) \<Rightarrow>
     ((string \<times> hmac_snapshot) list \<Rightarrow> string \<Rightarrow> pyerr + witness_result) \<Rightarrow> pyerr + witness_result list" where
  "ask_all c files f =
     (case ebind (pin_operation_auth files c) (\<lambda>auths. emap (f auths) (wc_urls c)) of
        Inl (PermissionError m) \<Rightarrow> Inr (map (\<lambda>url. failed_result url m) (wc_urls c))
      | r \<Rightarrow> r)"

section \<open>Acquiring\<close>

definition usable_grants :: "witness_client \<Rightarrow> int \<Rightarrow> witness_result list \<Rightarrow> witness_result list" where
  "usable_grants c now_ms results =
     filter (\<lambda>r. wr_granted r \<and> wr_holder r = Some (wc_node c) \<and> now_ms < wr_expires r) results"

definition selected_grants :: "int \<Rightarrow> witness_result list \<Rightarrow> witness_result list" where
  \<comment> \<open>the \<open>quorum\<close> longest grants\<close>
  "selected_grants quorum grants = take (nat quorum) (sort_key (\<lambda>r. - wr_expires r) grants)"

definition result_dict :: "witness_result \<Rightarrow> pyval" where
  "result_dict r =
     (let text = (\<lambda>x. case x of None \<Rightarrow> PNone | Some t \<Rightarrow> PStr t) in
      PDict [(''url'', PStr (wr_url r)), (''granted'', PBool (wr_granted r)), (''epoch'', PInt (wr_epoch r)),
        (''expires_at_unix_ms'', PInt (wr_expires r)), (''holder_node_id'', text (wr_holder r)),
        (''error'', text (wr_error r)), (''witness_id'', text (wr_witness_id r)),
        (''failure_domain'', text (wr_failure_domain r)), (''server_unix_ms'', PInt (wr_server_ms r)),
        (''clock_skew_ms'', opt_int (wr_skew r))])"

definition client_status :: "int \<Rightarrow> witness_client \<Rightarrow> pydict" where
  "client_status now_ms c =
     [(''configured'', PBool (client_configured c)), (''independentMode'', PBool (wc_independent c)),
      (''independentWitnessIds'', strs (if wc_independent c
         then map (\<lambda>u. case dget (wc_meta c) u of Some m \<Rightarrow> em_witness_id m | None \<Rightarrow> []) (wc_urls c) else [])),
      (''declaredFailureDomains'', strs (if wc_independent c
         then map (\<lambda>u. case dget (wc_meta c) u of Some m \<Rightarrow> em_failure_domain m | None \<Rightarrow> []) (wc_urls c) else [])),
      (''maxClockSkewMs'', if wc_independent c then PInt (wc_max_skew c) else PNone),
      (''physicalIndependenceQualified'', PBool False), (''clusterId'', PStr (wc_cluster c)),
      (''nodeId'', PStr (wc_node c)), (''witnesses'', PInt (int (length (wc_urls c)))),
      (''quorum'', PInt (quorum_size c)),
      (''leaseValid'', PBool (\<not> wc_suspended c \<and> now_ms < wc_lease_expires c)),
      (''acquisitionSuspended'', PBool (wc_suspended c)),
      (''recoveryReceiptPresent'', PBool (wc_fence_path c \<and> wc_receipt c \<noteq> None)),
      (''leaseEpoch'', PInt (wc_lease_epoch c)),
      (''leaseExpiresInMs'', if wc_lease_expires c \<noteq> 0 then PInt (max 0 (wc_lease_expires c - now_ms)) else PNone),
      (''lastAttemptAgeMs'', if wc_last_attempt c \<noteq> 0 then PInt (max 0 (now_ms - wc_last_attempt c)) else PNone),
      (''results'', PList (map result_dict (wc_results c)))]"

text \<open>The end of \<open>_acquire_locked\<close>: the lease is taken when a quorum granted it.\<close>

definition record_acquire :: "int \<Rightarrow> witness_result list \<Rightarrow> witness_client \<Rightarrow> witness_client" where
  "record_acquire now_ms results c =
     (let grants = usable_grants c now_ms results; quorum = quorum_size c;
          granted = (quorum \<le> int (length grants) \<and> 0 < quorum);
          selected = selected_grants quorum grants;
          c' = c\<lparr>wc_results := results, wc_last_attempt := now_ms\<rparr>
      in if granted
         then c'\<lparr>wc_lease_expires := Min (wr_expires ` set selected),
                 wc_lease_epoch := max (wc_lease_epoch c) (Max (wr_epoch ` set selected))\<rparr>
         else c')"

definition client_acquire ::
    "(string \<Rightarrow> pyval option) \<Rightarrow> (string \<Rightarrow> exchange) \<Rightarrow> int \<Rightarrow> (witness_client, pydict) pymethod" where
  "client_acquire files exs now_ms =
     sbind (sgets wc_suspended) (\<lambda>suspended.
     if suspended then sgets (client_status now_ms)
     else sbind (sgete (\<lambda>c. ask_all c files (\<lambda>auths. one c auths exs))) (\<lambda>results.
       sthen (smodify (record_acquire now_ms results)) (sgets (client_status now_ms))))"

definition client_valid :: "int \<Rightarrow> int \<Rightarrow> witness_client \<Rightarrow> bool" where
  "client_valid safety_margin_ms now_ms c =
     (client_configured c \<and> \<not> wc_suspended c \<and> now_ms + max 0 safety_margin_ms < wc_lease_expires c)"

section \<open>Handing over\<close>

text \<open>\<open>json.dump\<close> with its default separators, as the fence file is written.\<close>

definition json_text_char :: "char \<Rightarrow> string" where
  "json_text_char c = (if ord_of c < 127 then json_char c
     else if ord_of c = 127 then [c] else CHR 0x5C # ''u00'' @ hex2 (ord_of c))"

definition json_text_str :: "string \<Rightarrow> string" where
  "json_text_str s = CHR 0x22 # concat (map json_text_char s) @ [CHR 0x22]"

primrec json_text :: "pyval \<Rightarrow> string" where
  "json_text PNone = ''null''"
| "json_text (PBool b) = (if b then ''true'' else ''false'')"
| "json_text (PInt i) = show_int i"
| "json_text (PFloat f) = json_float f"
| "json_text (PStr s) = json_text_str s"
| "json_text (PList xs) = ''['' @ join '', '' (map json_text xs) @ '']''"
| "json_text (PDict d) = ''{'' @ join '', '' (map (\<lambda>(k, r). json_text_str k @ '': '' @ r)
     (map (map_prod id json_text) d)) @ ''}''"

datatype disk_outcome =
    DiskOk "int \<times> int" \<comment> \<open>the identity of the new file\<close>
  | DiskRefused \<comment> \<open>the file cannot be created\<close>
  | DiskPartial string "int \<times> int" \<comment> \<open>created, but only this much of it was written\<close>

definition persist_transfer_fence :: "disk_outcome \<Rightarrow> pydict \<Rightarrow> (witness_client, unit) pymethod" where
  "persist_transfer_fence disk payload = (\<lambda>c.
     let marker = PDict (dmerge [(''documentType'', PStr ''org.upp.handoff-acquisition-fence'')] payload) in
     if \<not> wc_fence_path c then (Inr (), c)
     else if wc_fence c \<noteq> None
     then (Inl (RuntimeError ''persistent handoff fence already exists; recovery required''), c)
     else case disk of
       DiskOk i \<Rightarrow> (Inr (), c\<lparr>wc_fence := Some \<lparr>ff_raw = json_text marker, ff_json = Some marker,
                       ff_readable = True, ff_regular = True, ff_identity = i\<rparr>\<rparr>)
     | DiskRefused \<Rightarrow> (Inl OSError, c)
     | DiskPartial t i \<Rightarrow> (Inl OSError, c\<lparr>wc_fence := Some \<lparr>ff_raw = t, ff_json = None,
                       ff_readable = True, ff_regular = True, ff_identity = i\<rparr>\<rparr>))"

definition transfer_one ::
    "witness_client \<Rightarrow> pydict \<Rightarrow> (string \<times> hmac_snapshot) list \<Rightarrow> (string \<Rightarrow> exchange) \<Rightarrow> string \<Rightarrow> pyerr + witness_result" where
  "transfer_one c payload auths exs url =
     ebind (dindex auths url) (\<lambda>auth.
     ebind (signed_body (dset payload ''nonce'' (PStr (ex_nonce (exs url)))) auth) (\<lambda>(body, secret, key_id).
       run_exchange (exs url) url ''transfer'' body secret key_id
         (\<lambda>raw. parse_result c (ex_now (exs url)) url raw (gets payload ''targetNodeId'')
                  (Some (geti payload ''transactionId'')))))"

definition client_transfer_payload :: "witness_client \<Rightarrow> string \<Rightarrow> int \<Rightarrow> int \<Rightarrow> int \<Rightarrow> pydict" where
  "client_transfer_payload c target source_epoch target_epoch transaction_id =
     [(''protocolVersion'', PInt 1), (''clusterId'', PStr (wc_cluster c)), (''sourceNodeId'', PStr (wc_node c)),
      (''targetNodeId'', PStr target), (''sourceEpoch'', PInt source_epoch), (''targetEpoch'', PInt target_epoch),
      (''transactionId'', PInt transaction_id), (''ttlMs'', PInt (wc_ttl c))]"

definition transfer_grants :: "string \<Rightarrow> int \<Rightarrow> int \<Rightarrow> witness_result list \<Rightarrow> witness_result list" where
  "transfer_grants target target_epoch now_ms results =
     filter (\<lambda>r. wr_granted r \<and> wr_holder r = Some target \<and> wr_epoch r = target_epoch \<and> now_ms < wr_expires r) results"

text \<open>The source gives up its lease and leaves its fence before any witness hears of the transfer.\<close>

definition begin_transfer :: "disk_outcome \<Rightarrow> string \<Rightarrow> int \<Rightarrow> int \<Rightarrow> int \<Rightarrow> (witness_client, pydict) pymethod" where
  "begin_transfer disk target source_epoch target_epoch transaction_id =
     sbind (sgets (\<lambda>c. client_transfer_payload c target source_epoch target_epoch transaction_id)) (\<lambda>payload.
     sthen (smodify (\<lambda>c. c\<lparr>wc_suspended := True, wc_lease_expires := 0\<rparr>))
    (sthen (persist_transfer_fence disk payload) (sreturn payload)))"

definition record_transfer :: "int \<Rightarrow> witness_result list \<Rightarrow> witness_client \<Rightarrow> witness_client" where
  "record_transfer now_ms results c = c\<lparr>wc_results := results, wc_last_attempt := now_ms\<rparr>"

definition client_transfer ::
    "(string \<Rightarrow> pyval option) \<Rightarrow> (string \<Rightarrow> exchange) \<Rightarrow> disk_outcome \<Rightarrow> int \<Rightarrow> int \<Rightarrow>
     string \<Rightarrow> int \<Rightarrow> int \<Rightarrow> int \<Rightarrow> (witness_client, pydict) pymethod" where
  "client_transfer files exs disk now_ms now_ms' target source_epoch target_epoch transaction_id =
     sbind (begin_transfer disk target source_epoch target_epoch transaction_id) (\<lambda>payload.
     sbind (sgete (\<lambda>c. ask_all c files (\<lambda>auths. transfer_one c payload auths exs))) (\<lambda>results.
     let grants = transfer_grants target target_epoch now_ms results in
     sthen (smodify (record_transfer now_ms' results))
    (sgets (\<lambda>c.
      [(''transferred'', PBool (quorum_size c \<le> int (length grants) \<and> 0 < quorum_size c)),
       (''clusterId'', PStr (wc_cluster c)), (''sourceNodeId'', PStr (wc_node c)),
       (''targetNodeId'', PStr target), (''sourceEpoch'', PInt source_epoch), (''targetEpoch'', PInt target_epoch),
       (''transactionId'', PInt transaction_id), (''witnesses'', PInt (int (length (wc_urls c)))),
       (''quorum'', PInt (quorum_size c)), (''grants'', PInt (int (length grants))),
       (''results'', PList (map result_dict results))]))))"

section \<open>Recovering\<close>

definition recovery_facts :: "witness_client \<Rightarrow> pyerr + (pydict \<times> string \<times> int \<times> int)" where
  "recovery_facts c =
     (if \<not> wc_fence_path c then Inl (RuntimeError ''persistent recovery requires a configured fence path'')
      else case wc_fence c of
        None \<Rightarrow> Inl (RuntimeError ''recovery fence is unreadable or malformed'')
      | Some f \<Rightarrow>
        if \<not> ff_readable f then Inl (RuntimeError ''recovery fence is unreadable or malformed'')
        else if \<not> ff_regular f \<or> 65536 < length (ff_raw f)
        then Inl (RuntimeError ''recovery fence must be a bounded regular file'')
        else case ff_json f of
          None \<Rightarrow> Inl (RuntimeError ''recovery fence is unreadable or malformed'')
        | Some v \<Rightarrow> ebind (as_dict v) (\<lambda>marker.
            if dgetn marker ''documentType'' \<noteq> PStr ''org.upp.handoff-acquisition-fence'' \<or>
               list_ex (\<lambda>k. \<not> din k marker) [''clusterId'', ''sourceNodeId'', ''targetNodeId'', ''sourceEpoch'',
                 ''targetEpoch'', ''transactionId''] \<or>
               dgetn marker ''clusterId'' \<noteq> PStr (wc_cluster c) \<or>
               dgetn marker ''sourceNodeId'' \<noteq> PStr (wc_node c)
            then Inl (RuntimeError ''recovery fence identity does not match this node'')
            else Inr (marker, sha256_hex (ff_raw f), ff_identity f)))"

definition recovery_payload ::
    "witness_client \<Rightarrow> pydict \<Rightarrow> string \<Rightarrow> string \<Rightarrow> pyerr + pydict" where
  "recovery_payload c marker recovery_id digest =
     ebind (py_int (dgetn marker ''sourceEpoch'')) (\<lambda>se.
     ebind (py_int (dgetn marker ''targetEpoch'')) (\<lambda>te.
     ebind (py_int (dgetn marker ''transactionId'')) (\<lambda>txn.
     Inr [(''protocolVersion'', PInt 1), (''clusterId'', PStr (wc_cluster c)), (''nodeId'', PStr (wc_node c)),
       (''sourceNodeId'', dgetn marker ''sourceNodeId''), (''targetNodeId'', dgetn marker ''targetNodeId''),
       (''sourceEpoch'', PInt se), (''targetEpoch'', PInt te), (''transactionId'', PInt txn),
       (''recoveryId'', PStr recovery_id), (''fenceDigest'', PStr digest)])))"

definition parse_recovery ::
    "witness_client \<Rightarrow> int \<Rightarrow> string \<Rightarrow> pydict \<Rightarrow> pydict \<Rightarrow> pyerr + witness_result" where
  "parse_recovery c now_ms url payload raw =
     (case dgetn raw ''authorized'' of
        PBool authorized \<Rightarrow>
          if dgetn raw ''clusterId'' \<noteq> PStr (wc_cluster c) \<or> dgetn raw ''nodeId'' \<noteq> PStr (wc_node c) \<or>
             dgetn raw ''recoveryId'' \<noteq> dgetn payload ''recoveryId'' \<or>
             dgetn raw ''fenceDigest'' \<noteq> dgetn payload ''fenceDigest''
          then Inl (ValueError ''malformed witness recovery authorization'')
          else ebind (response_identity c now_ms url raw) (\<lambda>(witness, domain, server_ms, skew).
            ebind (lease_int raw ''targetEpoch'') (\<lambda>epoch.
            Inr \<lparr>wr_url = url, wr_granted = authorized, wr_epoch = epoch, wr_expires = 0,
              wr_holder = Some (wc_node c),
              wr_error = (if authorized then None
                          else Some (take 200 (py_str (dgetd raw ''reason'' (PStr ''denied''))))),
              wr_witness_id = witness, wr_failure_domain = domain, wr_server_ms = server_ms, wr_skew = skew\<rparr>))
      | _ \<Rightarrow> Inl (ValueError ''malformed witness recovery authorization''))"

definition recover_one ::
    "witness_client \<Rightarrow> pydict \<Rightarrow> (string \<times> hmac_snapshot) list \<Rightarrow> (string \<Rightarrow> exchange) \<Rightarrow> string \<Rightarrow> pyerr + witness_result" where
  "recover_one c payload auths exs url =
     ebind (dindex auths url) (\<lambda>auth.
     ebind (signed_body (dset payload ''nonce'' (PStr (ex_nonce (exs url)))) auth) (\<lambda>(body, secret, key_id).
       run_exchange (exs url) url ''recover'' body secret key_id
         (\<lambda>raw. parse_recovery c (ex_now (exs url)) url payload raw)))"

text \<open>The end of \<open>recover\<close>: the receipt, the second look at the fence, its removal.  \<open>fence_now\<close> is
  the fence file as it is found again.\<close>

definition lift_fence ::
    "bool \<Rightarrow> fence_file option \<Rightarrow> string \<Rightarrow> int \<times> int \<Rightarrow> pyval \<Rightarrow> (witness_client, unit) pymethod" where
  "lift_fence disk_ok fence_now digest identity receipt =
     sthen (sguard disk_ok OSError)
    (sthen (smodify (\<lambda>c. c\<lparr>wc_receipt := Some receipt\<rparr>))
    (case fence_now of
       None \<Rightarrow> sraise OSError
     | Some f \<Rightarrow>
         sthen (sguard (ff_readable f) OSError)
        (sthen (sguard (ff_identity f = identity \<and> sha256_hex (take 65537 (ff_raw f)) = digest)
                  (RuntimeError ''recovery fence changed before removal''))
         (smodify (\<lambda>c. c\<lparr>wc_fence := None\<rparr>)))))"

definition client_recover ::
    "(string \<Rightarrow> pyval option) \<Rightarrow> (string \<Rightarrow> exchange) \<Rightarrow> bool \<Rightarrow> fence_file option \<Rightarrow> int \<Rightarrow> pyval \<Rightarrow>
     (witness_client, pydict) pymethod" where
  "client_recover files exs disk_ok fence_now now_ms recovery_id0 =
     (let recovery_id = strip (py_str recovery_id0) in
     sthen (sguard (recovery_id \<noteq> [] \<and> length recovery_id \<le> 128)
              (ValueError ''recoveryId must contain 1..128 characters''))
    (sbind (sgets (\<lambda>c. c)) (\<lambda>c.
     sthen (sguard (wc_suspended c) (RuntimeError ''node has no active acquisition fence''))
    (sthen (sguard (client_configured c) (RuntimeError ''authorized recovery requires configured witness quorum''))
    (sbind (slift (recovery_facts c)) (\<lambda>(marker, digest, identity).
     sbind (slift (recovery_payload c marker recovery_id digest)) (\<lambda>payload.
     sbind (slift (ask_all c files (\<lambda>auths. recover_one c payload auths exs))) (\<lambda>results.
     let grants = filter (\<lambda>r. wr_granted r \<and> wr_epoch r = geti payload ''targetEpoch'') results;
         facts = [(''grants'', PInt (int (length grants))), (''quorum'', PInt (quorum_size c))] in
     if int (length grants) < quorum_size c then
       sreturn ([(''recovered'', PBool False), (''recoveryId'', PStr recovery_id)] @ facts @
         [(''results'', PList (map result_dict results)), (''acquisitionSuspended'', PBool True),
          (''physicalOutputsArmed'', PBool False)])
     else
       sthen (lift_fence disk_ok fence_now digest identity
         (PDict ([(''documentType'', PStr ''org.upp.handoff-recovery-receipt''), (''schemaVersion'', PInt 1)]
                 @ payload @ facts @ [(''results'', PList (map result_dict results))])))
      (sthen (smodify (\<lambda>c. c\<lparr>wc_suspended := False, wc_lease_epoch := 0, wc_lease_expires := 0,
                             wc_results := results, wc_last_attempt := now_ms\<rparr>))
       (sreturn ([(''recovered'', PBool True), (''recoveryId'', PStr recovery_id)] @ facts @
         [(''receiptPersisted'', PBool True), (''startsAsStandby'', PBool True),
          (''acquisitionSuspended'', PBool False), (''physicalOutputsArmed'', PBool False)])))))))))))"

section \<open>A lease needs a quorum\<close>

lemma settle_Inr: "settle url r = Inr x \<Longrightarrow> r = Inr x \<or> wr_url x = url \<and> \<not> wr_granted x"
  by (auto simp: settle_def failed_result_def split: sum.splits option.splits)

lemma response_identity_ok: "response_identity c now url raw = Inr x \<Longrightarrow> \<exists>a b d e. x = (a, b, d, e)"
  by (cases x) auto

lemma parse_result_Inr:
  assumes "parse_result c now url raw holder txn = Inr r"
  shows "wr_url r = url" and "wr_granted r \<Longrightarrow> dgetn raw ''granted'' = PBool True \<and>
      dgetn raw ''clusterId'' = PStr (wc_cluster c) \<and> dgetn raw ''holderNodeId'' = PStr holder \<and>
      dgetn raw ''epoch'' = PInt (wr_epoch r) \<and> dgetn raw ''expiresAtUnixMs'' = PInt (wr_expires r) \<and>
      wr_holder r = Some holder \<and> 0 < wr_epoch r \<and> 0 < wr_expires r"
  using assms
  by (auto simp: parse_result_def ebind_eq_Inr split: pyval.splits if_splits option.splits)

text \<open>The answer of a witness counts only when it is authentic and bound to the request.\<close>

definition authentic_grant :: "witness_client \<Rightarrow> string \<Rightarrow> exchange \<Rightarrow> pydict \<Rightarrow> int \<Rightarrow> int \<Rightarrow> bool" where
  "authentic_grant c secret ex body epoch expires =
     (\<exists>raw. ex_reply ex body = Reply (PDict raw) \<and>
        dgetn raw ''responseHmacSha256'' =
          PStr (sign_request (response_purpose (ddel raw ''responseHmacSha256'')) secret) \<and>
        dgetn raw ''operation'' = PStr ''acquire'' \<and>
        dgetn raw ''requestDigest'' = PStr (digest_of (PDict (ddel body ''hmacSha256''))) \<and>
        dgetn raw ''granted'' = PBool True \<and> dgetn raw ''clusterId'' = PStr (wc_cluster c) \<and>
        dgetn raw ''holderNodeId'' = PStr (wc_node c) \<and>
        dgetn raw ''epoch'' = PInt epoch \<and> dgetn raw ''expiresAtUnixMs'' = PInt expires)"

lemma run_exchange_Inr:
  assumes "run_exchange ex url operation body secret key_id
      (\<lambda>raw. parse_result c now url raw (wc_node c) None) = Inr r" and "operation = ''acquire''"
  shows "wr_url r = url" and "wr_granted r \<Longrightarrow> authentic_grant c secret ex body (wr_epoch r) (wr_expires r)"
    and "wr_granted r \<Longrightarrow> wr_holder r = Some (wc_node c)"
proof -
  have "wr_url r = url \<and> (wr_granted r \<longrightarrow> authentic_grant c secret ex body (wr_epoch r) (wr_expires r) \<and>
      wr_holder r = Some (wc_node c))"
  proof (cases "ex_reply ex body")
    case (Reply raw)
    let ?r = "ebind (verify_response raw body operation secret key_id)
        (\<lambda>raw. parse_result c now url raw (wc_node c) None)"
    from assms(1) Reply have "settle url ?r = Inr r" by (simp add: run_exchange_def)
    from settle_Inr [OF this] show ?thesis
    proof
      assume "?r = Inr r"
      then obtain d where v: "verify_response raw body operation secret key_id = Inr d"
        and p: "parse_result c now url d (wc_node c) None = Inr r" by (auto simp: ebind_eq_Inr)
      show ?thesis
        using parse_result_Inr [OF p] verify_response_Inr [OF v] Reply assms(2)
        unfolding authentic_grant_def by blast
    next
      assume "wr_url r = url \<and> \<not> wr_granted r"
      then show ?thesis by blast
    qed
  qed (use assms(1) in \<open>auto simp: run_exchange_def failed_result_def\<close>)
  then show "wr_url r = url" and "wr_granted r \<Longrightarrow> authentic_grant c secret ex body (wr_epoch r) (wr_expires r)"
    and "wr_granted r \<Longrightarrow> wr_holder r = Some (wc_node c)" by blast+
qed

definition signed_acquire :: "witness_client \<Rightarrow> hmac_snapshot \<Rightarrow> string \<Rightarrow> pyerr + (pydict \<times> string \<times> string option)" where
  "signed_acquire c auth nonce = signed_body (acquire_fields (wc_cluster c) (wc_node c) (wc_ttl c) nonce) auth"

lemma one_Inr:
  assumes "one c auths exs url = Inr r"
  shows "wr_url r = url" and "wr_granted r \<Longrightarrow> \<exists>auth body secret key_id. dget auths url = Some auth \<and>
    signed_acquire c auth (ex_nonce (exs url)) = Inr (body, secret, key_id) \<and>
    authentic_grant c secret (exs url) body (wr_epoch r) (wr_expires r)"
proof -
  from assms obtain auth body secret key_id where
    a: "dget auths url = Some auth" "signed_acquire c auth (ex_nonce (exs url)) = Inr (body, secret, key_id)"
    and r: "run_exchange (exs url) url ''acquire'' body secret key_id
         (\<lambda>raw. parse_result c (ex_now (exs url)) url raw (wc_node c) None) = Inr r"
    by (auto simp: one_def ebind_eq_Inr dindex_def signed_acquire_def split: option.splits)
  from run_exchange_Inr [OF r] a show "wr_url r = url" and
    "wr_granted r \<Longrightarrow> \<exists>auth body secret key_id. dget auths url = Some auth \<and>
      signed_acquire c auth (ex_nonce (exs url)) = Inr (body, secret, key_id) \<and>
      authentic_grant c secret (exs url) body (wr_epoch r) (wr_expires r)" by blast+
qed

lemma ask_all_Inr:
  assumes "ask_all c files f = Inr results"
  obtains (refused) m where "results = map (\<lambda>url. failed_result url m) (wc_urls c)"
  | (asked) auths where "pin_operation_auth files c = Inr auths"
      "list_all2 (\<lambda>url r. f auths url = Inr r) (wc_urls c) results"
proof (cases "ebind (pin_operation_auth files c) (\<lambda>auths. emap (f auths) (wc_urls c))")
  case (Inl e)
  with assms have "\<exists>m. results = map (\<lambda>url. failed_result url m) (wc_urls c)"
    by (cases e) (auto simp: ask_all_def)
  with refused show ?thesis by blast
next
  case (Inr rs)
  with assms have "results = rs" by (simp add: ask_all_def)
  with Inr asked show ?thesis by (auto simp: ebind_eq_Inr emap_eq_Inr)
qed

lemma ask_all_urls:
  assumes "ask_all c files f = Inr results" and "\<And>auths url r. f auths url = Inr r \<Longrightarrow> wr_url r = url"
  shows "map wr_url results = wc_urls c"
  using assms(1)
proof (cases rule: ask_all_Inr)
  case (refused m)
  then show ?thesis by (simp add: failed_result_def comp_def)
next
  case (asked auths)
  from asked(2) assms(2) show ?thesis
    by (induction rule: list_all2_induct) auto
qed

text \<open>What the selection relies on: as many grants as the quorum asks for, each at least as long as
  the lease that is recorded.\<close>

lemma selected_grants_props:
  assumes "q \<le> int (length gs)"
  shows "length (selected_grants q gs) = nat q" and "set (selected_grants q gs) \<subseteq> set gs"
    and "distinct (map wr_url gs) \<Longrightarrow> distinct (map wr_url (selected_grants q gs))"
proof -
  show "length (selected_grants q gs) = nat q"
    using assms by (auto simp: selected_grants_def min_def)
  show "set (selected_grants q gs) \<subseteq> set gs"
    unfolding selected_grants_def using set_take_subset by fastforce
  assume "distinct (map wr_url gs)"
  then have "distinct (map wr_url (sort_key (\<lambda>r. - wr_expires r) gs))"
    by (simp add: distinct_map)
  then show "distinct (map wr_url (selected_grants q gs))"
    unfolding selected_grants_def by (simp add: take_map [symmetric])
qed

definition lease_quorum :: "witness_client \<Rightarrow> int \<Rightarrow> witness_result list \<Rightarrow> int \<Rightarrow> string set \<Rightarrow> bool" where
  "lease_quorum c now results x Q =
     (quorum_size c \<le> int (card Q) \<and> 0 < quorum_size c \<and>
      (\<forall>url \<in> Q. \<exists>r \<in> set results. wr_url r = url \<and> wr_granted r \<and> wr_holder r = Some (wc_node c) \<and>
         now < wr_expires r \<and> x \<le> wr_expires r))"

lemma record_acquire_lease:
  assumes "distinct (map wr_url results)"
  shows "wc_lease_expires (record_acquire now results c) = wc_lease_expires c \<or>
    (\<exists>Q \<subseteq> wr_url ` set results. lease_quorum c now results (wc_lease_expires (record_acquire now results c)) Q)"
proof (cases "quorum_size c \<le> int (length (usable_grants c now results)) \<and> 0 < quorum_size c")
  case False
  then show ?thesis by (auto simp: record_acquire_def Let_def)
next
  case True
  let ?g = "usable_grants c now results" and ?q = "quorum_size c"
  let ?s = "selected_grants ?q ?g"
  have u: "set ?g \<subseteq> {r \<in> set results. wr_granted r \<and> wr_holder r = Some (wc_node c) \<and> now < wr_expires r}"
    by (auto simp: usable_grants_def)
  have d: "distinct (map wr_url ?g)" using assms by (auto simp: usable_grants_def distinct_map intro: inj_on_subset)
  note sel = selected_grants_props [OF conjunct1 [OF True]]
  have x: "wc_lease_expires (record_acquire now results c) = Min (wr_expires ` set ?s)"
    using True by (simp add: record_acquire_def Let_def)
  have "card (wr_url ` set ?s) = nat ?q"
    using distinct_card [OF sel(3) [OF d]] sel(1) by simp
  moreover have "Min (wr_expires ` set ?s) \<le> wr_expires r" if "r \<in> set ?s" for r
    using that by simp
  ultimately have "lease_quorum c now results (Min (wr_expires ` set ?s)) (wr_url ` set ?s)"
    using sel(2) u True unfolding lease_quorum_def by fastforce
  moreover have "wr_url ` set ?s \<subseteq> wr_url ` set results" using sel(2) u by blast
  ultimately show ?thesis using x by metis
qed

section \<open>An exchange with a live witness\<close>

lemma acquire_fields_absent:
  "\<not> din ''keyId'' (acquire_fields c n ttl nonce)" "\<not> din ''hmacSha256'' (acquire_fields c n ttl nonce)"
  by (simp_all add: acquire_fields_def)

lemma signed_acquire_Inr:
  assumes "signed_acquire c auth nonce = Inr (body, secret, key_id)"
  shows "body = (acquire_fields (wc_cluster c) (wc_node c) (wc_ttl c) nonce @ keyed key_id) @
       [(''hmacSha256'', PStr (sign_request (acquire_fields (wc_cluster c) (wc_node c) (wc_ttl c) nonce @ keyed key_id) secret))]"
    and "active_secret auth = Inr secret" and "key_id = (if hk_keyring_mode auth then hk_active auth else None)"
    and "hk_configured auth"
  using assms
  by (auto simp: signed_acquire_def signed_body_def Let_def ebind_eq_Inr keyed_def dset_absent
        acquire_fields_def split: if_splits option.splits)

definition answer :: "bool \<Rightarrow> string \<Rightarrow> string \<Rightarrow> int \<Rightarrow> int \<Rightarrow> int \<Rightarrow> string \<Rightarrow> pydict" where
  "answer granted c h e x now why =
     [(''granted'', PBool granted), (''clusterId'', PStr c), (''holderNodeId'', PStr h), (''epoch'', PInt e),
      (''expiresAtUnixMs'', PInt x), (''serverUnixMs'', PInt now), (''reason'', PStr why)]"

lemma store_acquire_answer:
  assumes "store_wf s"
  shows "\<exists>b h e x why s'. store_acquire True now c n ttl s = (Inr (answer b c h e x now why), s') \<and>
    (b \<longrightarrow> h = n \<and> 1 \<le> e \<and> x = now + clamp_ttl ttl)"
proof (cases "held_by_other now c n s")
  case True
  with store_reads [OF assms, of c] have "store_acquire True now c n ttl s =
      (Inr (answer False c (ls_holder c s) (max 0 (ls_epoch c s)) (ls_expires c s) now ''lease-held-by-other-node''), s)"
    by (simp add: store_acquire_def held_by_other_def ls_holder_def method_run Let_def answer_def)
  then show ?thesis by blast
next
  case False
  from store_acquire_granted [OF assms False, of True ttl] show ?thesis
    by (auto simp: Let_def answer_def save_def next_epoch_def)
qed

definition client_expects :: "witness_client \<Rightarrow> witness_config \<Rightarrow> string \<Rightarrow> int \<Rightarrow> int \<Rightarrow> bool" where
  \<comment> \<open>an independent client knows the witness by its identity and within the skew bound\<close>
  "client_expects c cfg url now now' =
     (wc_independent c \<longrightarrow> 0 < now \<and> \<bar>now - now'\<bar> \<le> wc_max_skew c \<and>
       (case dget (wc_meta c) url of None \<Rightarrow> False
        | Some m \<Rightarrow> em_witness_id m = sv_witness_id cfg \<and> em_failure_domain m = sv_failure_domain cfg \<and>
            em_witness_id m \<noteq> [] \<and> em_failure_domain m \<noteq> []))"

lemma parse_result_answer:
  assumes raw: "\<And>k v. dget (answer b (wc_cluster c) h e x now why) k = Some v \<Longrightarrow> dget raw k = Some v"
    and ids: "dgetn raw ''witnessId'' = opt_str (sv_witness_id cfg)"
      "dgetn raw ''failureDomain'' = opt_str (sv_failure_domain cfg)"
    and exp: "client_expects c cfg url now now'" and h: "b \<longrightarrow> h = wc_node c \<and> 1 \<le> e \<and> 0 < x"
  shows "\<exists>r. parse_result c now' url raw (wc_node c) None = Inr r \<and> wr_granted r = b \<and>
    (b \<longrightarrow> wr_epoch r = e \<and> wr_expires r = x)"
proof -
  have f: "dgetn raw ''granted'' = PBool b" "dgetn raw ''clusterId'' = PStr (wc_cluster c)"
    "dgetn raw ''holderNodeId'' = PStr h" "dgetn raw ''epoch'' = PInt e" "dgetn raw ''expiresAtUnixMs'' = PInt x"
    "dgetn raw ''serverUnixMs'' = PInt now"
    by (simp_all add: dgetn_def dgetd_def answer_def raw [OF _])
  have "\<exists>i. response_identity c now' url raw = Inr i"
  proof (cases "wc_independent c")
    case True
    with exp ids f(6) show ?thesis
      by (auto simp: response_identity_def client_expects_def Let_def dindex_def opt_str_def split: option.splits)
  next
    case False
    with f(6) show ?thesis by (auto simp: response_identity_def Let_def)
  qed
  then obtain i where "response_identity c now' url raw = Inr i" by blast
  with f h show ?thesis by (cases i) (auto simp: parse_result_def)
qed

lemma acquire_exchange_run:
  assumes sig: "signed_acquire c auth nonce = Inr (body, secret, key_id)"
    and c: "wc_cluster c \<noteq> []" "wc_node c \<noteq> []" "500 \<le> wc_ttl c" "wc_ttl c \<le> 60000"
    and w: "witness_answers cfg keyfile secret key_id" "client_expects c cfg url now now'"
    and s: "store_wf s" "0 \<le> now"
  shows "\<exists>r x s'. do_POST cfg keyfile True now ''/api/v1/lease/acquire'' (Some (PDict body)) s = (Inr (200, r), s') \<and>
    run_exchange \<lparr>ex_nonce = nonce, ex_reply = (\<lambda>_. Reply (PDict r)), ex_now = now'\<rparr> url ''acquire'' body secret key_id
      (\<lambda>raw. parse_result c now' url raw (wc_node c) None) = Inr x \<and>
    wr_granted x = (\<not> held_by_other now (wc_cluster c) (wc_node c) s) \<and>
    (wr_granted x \<longrightarrow> ls_holder (wc_cluster c) s' = wc_node c \<and> ls_epoch (wc_cluster c) s' = wr_epoch x \<and>
       ls_expires (wc_cluster c) s' = wr_expires x \<and> wr_expires x = now + clamp_ttl (wc_ttl c))"
proof -
  let ?p = "acquire_fields (wc_cluster c) (wc_node c) (wc_ttl c) nonce @ keyed key_id"
  obtain b h e x why s' where run: "store_acquire True now (wc_cluster c) (wc_node c) (wc_ttl c) s =
      (Inr (answer b (wc_cluster c) h e x now why), s')"
    and g: "b \<longrightarrow> h = wc_node c \<and> 1 \<le> e \<and> x = now + clamp_ttl (wc_ttl c)"
    using store_acquire_answer [OF s(1)] by blast
  note body = signed_acquire_Inr(1) [OF sig]
  let ?res = "dset (dset (answer b (wc_cluster c) h e x now why) ''witnessId'' (opt_str (sv_witness_id cfg)))
      ''failureDomain'' (opt_str (sv_failure_domain cfg))"
  obtain r where post: "do_POST cfg keyfile True now ''/api/v1/lease/acquire'' (Some (PDict body)) s = (Inr (200, r), s')"
    and sign: "sign_response ?res ?p ''acquire'' secret key_id = Inr r"
    using do_POST_acquire [OF body refl c w(1) run] by blast
  have "ddel body ''hmacSha256'' = ?p" and "ddel ?p ''hmacSha256'' = ?p"
    by (auto simp: body ddel_def acquire_fields_def keyed_def split: option.splits)
  then have ver: "verify_response (PDict r) body ''acquire'' secret key_id = Inr r"
    by (intro signed_response_verifies [OF sign]) (simp_all add: answer_def)
  have raw: "dget r k = Some v" if "dget (answer b (wc_cluster c) h e x now why) k = Some v" for k v
    using sign that by (auto simp: sign_response_def Let_def answer_def split: if_splits option.splits)
  have ids: "dgetn r ''witnessId'' = opt_str (sv_witness_id cfg)" "dgetn r ''failureDomain'' = opt_str (sv_failure_domain cfg)"
    using sign by (auto simp: sign_response_def Let_def dgetn_def dgetd_def split: if_splits option.splits)
  have "b \<longrightarrow> h = wc_node c \<and> 1 \<le> e \<and> 0 < x" using g s(2) clamp_ttl_bounds(1) [of "wc_ttl c"] by auto
  from parse_result_answer [OF raw ids w(2) this] obtain y where
    y: "parse_result c now' url r (wc_node c) None = Inr y" "wr_granted y = b" "b \<longrightarrow> wr_epoch y = e \<and> wr_expires y = x"
    by blast
  have ex: "run_exchange \<lparr>ex_nonce = nonce, ex_reply = (\<lambda>_. Reply (PDict r)), ex_now = now'\<rparr> url ''acquire'' body secret key_id
      (\<lambda>raw. parse_result c now' url raw (wc_node c) None) = Inr y"
    using ver y(1) by (simp add: run_exchange_def settle_def)
  have dec: "b = (\<not> held_by_other now (wc_cluster c) (wc_node c) s) \<and>
      (b \<longrightarrow> ls_holder (wc_cluster c) s' = wc_node c \<and> ls_epoch (wc_cluster c) s' = e \<and> ls_expires (wc_cluster c) s' = x)"
    using s(1) run
  proof (cases rule: store_acquire_cases)
    case denied
    then show ?thesis by (simp add: grant_of_def answer_def dgetn_def dgetd_def split: if_splits)
  next
    case granted
    from store_acquire_granted [OF s(1) granted(1), of True "wc_ttl c"] run have b
      by (auto simp: Let_def answer_def save_def split: if_splits)
    with granted show ?thesis
      by (auto simp: grant_of_def answer_def dgetn_def dgetd_def ls_view_def gets_def geti_def)
  qed
  from post ex y(2,3) dec g show ?thesis by metis
qed

text \<open>
  Client and witness agree: the request a client signs is accepted by the handler of every
  witness that resolves its key, the answer passes the client's authentication and binding checks,
  and the client reads from it exactly the decision the witness has stored: a grant is counted if
  and only if the lease is now held by this node, with the stored epoch and expiry.
\<close>

theorem acquire_exchange:
  assumes sig: "signed_acquire c auth nonce = Inr (body, secret, key_id)"
    and c: "wc_cluster c \<noteq> []" "wc_node c \<noteq> []" "500 \<le> wc_ttl c" "wc_ttl c \<le> 60000"
    and w: "witness_answers cfg keyfile secret key_id" "client_expects c cfg url now now'"
    and s: "store_wf s" "0 \<le> now"
  shows "\<exists>r x s'. do_POST cfg keyfile True now ''/api/v1/lease/acquire'' (Some (PDict body)) s = (Inr (200, r), s') \<and>
    run_exchange \<lparr>ex_nonce = nonce, ex_reply = (\<lambda>_. Reply (PDict r)), ex_now = now'\<rparr> url ''acquire'' body secret key_id
      (\<lambda>raw. parse_result c now' url raw (wc_node c) None) = Inr x \<and>
    wr_granted x = (\<not> held_by_other now (wc_cluster c) (wc_node c) s) \<and>
    (wr_granted x \<longrightarrow> ls_holder (wc_cluster c) s' = wc_node c \<and> ls_epoch (wc_cluster c) s' = wr_epoch x \<and>
       ls_expires (wc_cluster c) s' = wr_expires x \<and> wr_expires x = now + clamp_ttl (wc_ttl c))"
  using assms by (rule acquire_exchange_run)

definition demo_client :: "string \<Rightarrow> string list \<Rightarrow> witness_client" where
  \<comment> \<open>a node with a shared secret and a fence file\<close>
  "demo_client node urls =
     \<lparr>wc_independent = False, wc_urls = urls, wc_configured_quorum = 0, wc_max_skew = 0, wc_meta = [],
      wc_cluster = ''show'', wc_node = node, wc_secret = ''shared'', wc_keyring = None, wc_ttl = 3000,
      wc_results = [], wc_lease_epoch = 0, wc_lease_expires = 0, wc_last_attempt = 0, wc_fence_path = True,
      wc_fence = None, wc_receipt = None, wc_suspended = False\<rparr>"

definition demo_auth :: hmac_snapshot where
  "demo_auth = \<lparr>hk_active = None, hk_keys = [(''legacy'', ''shared'')], hk_keyring_mode = False\<rparr>"

lemma demo_signed:
  "\<exists>body. signed_acquire (demo_client node urls) demo_auth nonce = Inr (body, ''shared'', None)"
  by (simp add: signed_acquire_def signed_body_def demo_auth_def hk_configured_def active_secret_def Let_def)

text \<open>The demo node and the demo witness complete an exchange.\<close>

lemma demo_run:
  assumes "signed_acquire (demo_client ''a'' [''u'']) demo_auth ''nonce'' = Inr (body, ''shared'', None)"
  shows "\<exists>r x s'. do_POST demo_config None True 1000 ''/api/v1/lease/acquire'' (Some (PDict body)) empty_store = (Inr (200, r), s') \<and>
    run_exchange \<lparr>ex_nonce = ''nonce'', ex_reply = (\<lambda>_. Reply (PDict r)), ex_now = 1000\<rparr> ''u'' ''acquire'' body ''shared'' None
      (\<lambda>raw. parse_result (demo_client ''a'' [''u'']) 1000 ''u'' raw ''a'' None) = Inr x \<and> wr_granted x \<and>
    wr_url x = ''u'' \<and> wr_expires x = 4000 \<and> wr_holder x = Some ''a''"
proof -
  let ?c = "demo_client ''a'' [''u'']"
  have f: "wc_cluster ?c = ''show''" "wc_node ?c = ''a''" "wc_ttl ?c = 3000" by (simp_all add: demo_client_def)
  have "\<not> held_by_other 1000 ''show'' ''a'' empty_store" "store_wf empty_store"
    by (simp_all add: held_by_other_def ls_holder_def lease_of_def empty_store_def open_store_def load_leases_def
        dgetd_def store_wf_def)
  moreover have "client_expects ?c demo_config ''u'' 1000 1000" by (simp add: client_expects_def demo_client_def)
  ultimately obtain r x s' where
    post: "do_POST demo_config None True 1000 ''/api/v1/lease/acquire'' (Some (PDict body)) empty_store = (Inr (200, r), s')"
    and ex: "run_exchange \<lparr>ex_nonce = ''nonce'', ex_reply = (\<lambda>_. Reply (PDict r)), ex_now = 1000\<rparr> ''u'' ''acquire'' body ''shared'' None
      (\<lambda>raw. parse_result ?c 1000 ''u'' raw ''a'' None) = Inr x" and g: "wr_granted x"
    and "wr_expires x = 1000 + clamp_ttl 3000"
    using acquire_exchange_run [OF assms _ _ _ _ demo_answers, of "''u''" 1000 1000 empty_store] f by auto
  moreover have "clamp_ttl 3000 = 3000" by (simp add: clamp_ttl_def)
  moreover have "wr_url x = ''u''" "wr_holder x = Some ''a''"
    using run_exchange_Inr(1,3) [of _ _ _ _ _ _ ?c, unfolded f(2), OF ex refl] g by blast+
  ultimately show ?thesis by auto
qed

theorem acquire_exchange_witness:
  "\<exists>body r (x :: witness_result) s'. do_POST demo_config None True 1000 ''/api/v1/lease/acquire''
     (Some (PDict body)) empty_store = (Inr (200, r), s') \<and> wr_granted x \<and> ls_holder ''show'' s' = ''a'' \<and> ls_epoch ''show'' s' = wr_epoch x"
proof -
  let ?c = "demo_client ''a'' [''u'']"
  obtain body where sig: "signed_acquire ?c demo_auth ''nonce'' = Inr (body, ''shared'', None)"
    using demo_signed by blast
  have f: "wc_cluster ?c = ''show''" "wc_node ?c = ''a''" "wc_ttl ?c = 3000" by (simp_all add: demo_client_def)
  have "\<not> held_by_other 1000 ''show'' ''a'' empty_store" "store_wf empty_store"
    by (simp_all add: held_by_other_def ls_holder_def lease_of_def empty_store_def open_store_def load_leases_def
        dgetd_def store_wf_def)
  moreover have "client_expects ?c demo_config ''u'' 1000 1000" by (simp add: client_expects_def demo_client_def)
  ultimately obtain r x s' where "do_POST demo_config None True 1000 ''/api/v1/lease/acquire'' (Some (PDict body)) empty_store =
     (Inr (200, r), s')" "run_exchange \<lparr>ex_nonce = ''nonce'', ex_reply = (\<lambda>_. Reply (PDict r)), ex_now = 1000\<rparr> ''u'' ''acquire'' body ''shared'' None
      (\<lambda>raw. parse_result ?c 1000 ''u'' raw ''a'' None) = Inr x"
      "wr_granted x" "ls_holder ''show'' s' = ''a''" "ls_epoch ''show'' s' = wr_epoch x"
    using acquire_exchange [OF sig _ _ _ _ demo_answers, of "''u''" 1000 1000 empty_store] f by auto
  then show ?thesis by blast
qed

text \<open>
  C9. A node takes a lease only from a quorum: when an acquisition changes the recorded expiry, a
  set of distinct witnesses as large as the configured quorum has answered this very request with
  an authentic grant to this node of its cluster, none of which ends before the recorded expiry,
  and none of which had ended when the answers were counted.
\<close>

theorem lease_from_quorum:
  assumes run: "client_acquire files exs now c = (res, c')" and urls: "distinct (wc_urls c)"
    and changed: "wc_lease_expires c' \<noteq> wc_lease_expires c"
  shows "\<exists>Q auths. Q \<subseteq> set (wc_urls c) \<and> quorum_size c \<le> int (card Q) \<and> 0 < quorum_size c \<and>
    pin_operation_auth files c = Inr auths \<and>
    (\<forall>url \<in> Q. \<exists>auth body secret key_id epoch expires. dget auths url = Some auth \<and>
       signed_acquire c auth (ex_nonce (exs url)) = Inr (body, secret, key_id) \<and>
       authentic_grant c secret (exs url) body epoch expires \<and>
       now < expires \<and> wc_lease_expires c' \<le> expires)"
proof -
  from run changed obtain results where
    ask: "ask_all c files (\<lambda>auths. one c auths exs) = Inr results" and c': "c' = record_acquire now results c"
    by (cases "ask_all c files (\<lambda>auths. one c auths exs)")
       (auto simp: client_acquire_def method_run split: if_splits)
  have url: "map wr_url results = wc_urls c" by (rule ask_all_urls [OF ask]) (rule one_Inr(1))
  with urls have dist: "distinct (map wr_url results)" by simp
  from record_acquire_lease [OF this, of now c] changed c' obtain Q where
    Q: "Q \<subseteq> wr_url ` set results" "lease_quorum c now results (wc_lease_expires c') Q" by auto
  from ask show ?thesis
  proof (cases rule: ask_all_Inr)
    case (refused m)
    with Q(2) have "Q = {}" by (auto simp: lease_quorum_def failed_result_def)
    with Q(2) have False by (auto simp: lease_quorum_def)
    then show ?thesis ..
  next
    case (asked auths)
    have grant: "\<exists>auth body secret key_id epoch expires. dget auths url = Some auth \<and>
       signed_acquire c auth (ex_nonce (exs url)) = Inr (body, secret, key_id) \<and>
       authentic_grant c secret (exs url) body epoch expires \<and>
       now < expires \<and> wc_lease_expires c' \<le> expires" if "url \<in> Q" for url
    proof -
      from Q(2) that obtain r where r: "r \<in> set results" "wr_url r = url" "wr_granted r"
        "now < wr_expires r" "wc_lease_expires c' \<le> wr_expires r" by (auto simp: lease_quorum_def)
      from asked(2) r(1) obtain u where "one c auths exs u = Inr r"
        by (auto simp: list_all2_conv_all_nth in_set_conv_nth)
      with one_Inr [OF this] r show ?thesis by blast
    qed
    have "Q \<subseteq> set (wc_urls c)" using Q(1) url by (metis image_set)
    moreover have "quorum_size c \<le> int (card Q)" "0 < quorum_size c"
      using Q(2) unfolding lease_quorum_def by blast+
    ultimately show ?thesis
      by (intro exI [of _ Q] exI [of _ auths] conjI ballI grant asked(1))
  qed
qed

theorem lease_from_quorum_witness:
  "\<exists>exs res c'. client_acquire (\<lambda>_. None) exs 1000 (demo_client ''a'' [''u'']) = (res, c') \<and>
     wc_lease_expires c' = 4000 \<and> (\<exists>Q \<subseteq> {''u''}. 1 \<le> int (card Q))"
proof -
  let ?c = "demo_client ''a'' [''u'']"
  obtain body where sig: "signed_acquire ?c demo_auth ''nonce'' = Inr (body, ''shared'', None)"
    using demo_signed by blast
  from demo_run [OF sig] obtain r x where
    ex: "run_exchange \<lparr>ex_nonce = ''nonce'', ex_reply = (\<lambda>_. Reply (PDict r)), ex_now = 1000\<rparr> ''u'' ''acquire'' body ''shared'' None
      (\<lambda>raw. parse_result ?c 1000 ''u'' raw ''a'' None) = Inr x"
    and x: "wr_granted x" "wr_url x = ''u''" "wr_expires x = 4000" "wr_holder x = Some ''a''" by blast
  let ?exs = "\<lambda>_. \<lparr>ex_nonce = ''nonce'', ex_reply = (\<lambda>_. Reply (PDict r)), ex_now = 1000\<rparr> :: exchange"
  have f: "wc_urls ?c = [''u'']" "wc_node ?c = ''a''" "\<not> wc_suspended ?c" "wc_lease_expires ?c = 0"
    "quorum_size ?c = 1" "wc_lease_expires (record_acquire 1000 rs ?c) = wc_lease_expires (record_acquire 1000 rs ?c)" for rs
    by (simp_all add: demo_client_def quorum_size_def)
  have pin: "pin_operation_auth (\<lambda>_. None) ?c = Inr [(''u'', demo_auth)]"
    by (simp add: pin_operation_auth_def demo_client_def auth_snapshot_def demo_auth_def)
  have "one ?c [(''u'', demo_auth)] ?exs ''u'' = Inr x"
    using sig ex f by (simp add: one_def dindex_def signed_acquire_def)
  then have ask: "ask_all ?c (\<lambda>_. None) (\<lambda>auths. one ?c auths ?exs) = Inr [x]"
    by (simp add: ask_all_def pin f(1))
  have lease: "wc_lease_expires (record_acquire 1000 [x] ?c) = 4000"
    using x f by (simp add: record_acquire_def usable_grants_def selected_grants_def Let_def)
  obtain res where run: "client_acquire (\<lambda>_. None) ?exs 1000 ?c = (res, record_acquire 1000 [x] ?c)"
    using ask f(3) by (simp add: client_acquire_def method_run)
  have "\<exists>Q \<subseteq> {''u''}. 1 \<le> int (card Q)"
    using lease_from_quorum [OF run] lease f(1,4,5) by auto
  with run lease show ?thesis by blast
qed

end
