(* ===== verification/Witness_Cluster.thy ===== *)
theory Witness_Cluster
  imports Witness_Client
begin

text \<open>
  The nodes of a cluster and their witnesses as one transition system.  Every step runs an
  operation of the code: a witness serves an acquisition or a transfer, a node finishes an
  acquisition, begins or records a transfer, recovers or restarts, a witness restarts from its
  file, a clock advances.  Requests are served at any time and in any order, repeatedly or never;
  answers may be lost.  Writes of a witness may fail.  The main theorem is that two nodes never
  hold a valid lease at once.

  What the steps take for granted is stated in their premises: an answer that passes the checks
  of a node was given by that witness to that node since the node last started (the tag cannot be
  forged and the nonce is fresh), a node recovers only when none of its transfer requests is still
  under way, and a node that restarts has a fence file.
\<close>

section \<open>Quorums\<close>

locale quorum_system =
  fixes quorum :: "'w set \<Rightarrow> bool"
  assumes meet: "quorum P \<Longrightarrow> quorum Q \<Longrightarrow> P \<inter> Q \<noteq> {}"
begin

text \<open>Whatever excludes two parties at each member excludes them at the quorum.\<close>

lemma exclusive:
  assumes "quorum P" and "quorum Q" and "\<And>w. w \<in> P \<Longrightarrow> holds w n" and "\<And>w. w \<in> Q \<Longrightarrow> holds w m"
    and "\<And>w. holds w n \<Longrightarrow> holds w m \<Longrightarrow> n = m"
  shows "n = m"
  using meet [OF assms(1,2)] assms(3-5) by blast

end

definition majority :: "string list \<Rightarrow> string set \<Rightarrow> bool" where
  "majority urls Q = (distinct urls \<and> Q \<subseteq> set urls \<and> length urls < 2 * card Q)"

interpretation majorities: quorum_system "majority urls" for urls
proof
  fix P Q assume P: "majority urls P" and Q: "majority urls Q"
  then have fin: "finite P" "finite Q" by (auto simp: majority_def intro: finite_subset)
  show "P \<inter> Q \<noteq> {}"
  proof
    assume "P \<inter> Q = {}"
    then have "card P + card Q = card (P \<union> Q)" using fin by (simp add: card_Un_disjoint)
    also have "\<dots> \<le> card (set urls)" using P Q by (intro card_mono) (auto simp: majority_def)
    also have "\<dots> = length urls" using P by (simp add: majority_def distinct_card)
    finally show False using P Q by (simp add: majority_def)
  qed
qed

text \<open>The quorum of a client without a topology file is a majority of its witnesses.\<close>

lemma quorum_size_majority:
  assumes "distinct (wc_urls c)" and "\<not> wc_independent c" and "wc_urls c \<noteq> []"
    and "Q \<subseteq> set (wc_urls c)" and "quorum_size c \<le> int (card Q)"
  shows "majority (wc_urls c) Q"
  using assms by (auto simp: majority_def quorum_size_def)

section \<open>The system\<close>

record transfer_request =
  tr_source :: string
  tr_target :: string
  tr_source_epoch :: int
  tr_target_epoch :: int
  tr_transaction :: int
  tr_ttl :: int

record cluster =
  cl_store :: "string \<Rightarrow> witness_store"
  cl_clock :: "string \<Rightarrow> int"
  cl_client :: "string \<Rightarrow> witness_client"
  cl_issued :: "(string \<times> string \<times> int) set" \<comment> \<open>witness, node, expiry of each usable grant\<close>
  cl_moving :: "transfer_request set" \<comment> \<open>transfer requests that may still arrive\<close>

definition set_store :: "string \<Rightarrow> witness_store \<Rightarrow> cluster \<Rightarrow> cluster" where
  "set_store u s cl = cl\<lparr>cl_store := (cl_store cl)(u := s)\<rparr>"

definition set_client :: "string \<Rightarrow> witness_client \<Rightarrow> cluster \<Rightarrow> cluster" where
  "set_client n c cl = cl\<lparr>cl_client := (cl_client cl)(n := c)\<rparr>"

definition forget :: "string \<Rightarrow> cluster \<Rightarrow> cluster" where
  "forget n cl = cl\<lparr>cl_issued := {(u, m, x) \<in> cl_issued cl. m \<noteq> n}\<rparr>"

definition restart_client :: "witness_client \<Rightarrow> witness_client" where
  "restart_client c = c\<lparr>wc_results := [], wc_lease_epoch := 0, wc_lease_expires := 0, wc_last_attempt := 0,
     wc_suspended := fence_present (wc_fence_path c) (wc_fence c)\<rparr>"

inductive cluster_step :: "string \<Rightarrow> cluster \<Rightarrow> cluster \<Rightarrow> bool" for cid where
  tick: "cl_clock cl u \<le> t \<Longrightarrow> cluster_step cid cl (cl\<lparr>cl_clock := (cl_clock cl)(u := t)\<rparr>)"
| serve_acquire:
    "cell_acquire cid disk_ok (cl_clock cl u) n (wc_ttl (cl_client cl n)) (cl_store cl u) = (g, s') \<Longrightarrow>
     cluster_step cid cl
       ((set_store u s' cl)\<lparr>cl_issued := cl_issued cl \<union> (case g of None \<Rightarrow> {} | Some v \<Rightarrow> {(u, n, lv_expires v)})\<rparr>)"
| serve_transfer:
    "t \<in> cl_moving cl \<Longrightarrow>
     cell_transfer cid disk_ok (cl_clock cl u) (tr_source t) (tr_target t) (tr_source_epoch t) (tr_target_epoch t)
       (tr_transaction t) (tr_ttl t) (cl_store cl u) = (g, s') \<Longrightarrow>
     cluster_step cid cl (set_store u s' cl)"
| finish_acquire:
    "client_acquire files exs now (cl_client cl n) = (res, c') \<Longrightarrow>
     (\<And>auths u r. one (cl_client cl n) auths exs u = Inr r \<Longrightarrow> wr_granted r \<Longrightarrow> (u, n, wr_expires r) \<in> cl_issued cl) \<Longrightarrow>
     cluster_step cid cl (set_client n c' cl)"
| start_transfer:
    "begin_transfer disk target se te txn (cl_client cl n) = (res, c') \<Longrightarrow>
     cluster_step cid cl ((set_client n c' cl)\<lparr>cl_moving := cl_moving cl \<union>
       (case res of Inl _ \<Rightarrow> {}
        | Inr _ \<Rightarrow> {\<lparr>tr_source = n, tr_target = target, tr_source_epoch = se, tr_target_epoch = te,
                    tr_transaction = txn, tr_ttl = wc_ttl (cl_client cl n)\<rparr>})\<rparr>)"
| end_transfer:
    "cluster_step cid cl (set_client n (record_transfer now results (cl_client cl n)) cl)"
| lose_transfer: "M \<subseteq> cl_moving cl \<Longrightarrow> cluster_step cid cl (cl\<lparr>cl_moving := M\<rparr>)"
| recover:
    "client_recover files exs disk_ok fence_now now rid (cl_client cl n) = (res, c') \<Longrightarrow>
     (\<And>t. t \<in> cl_moving cl \<Longrightarrow> tr_source t \<noteq> n) \<Longrightarrow>
     cluster_step cid cl
       ((if wc_suspended (cl_client cl n) then forget n else (\<lambda>x. x)) (set_client n c' cl))"
| restart_node:
    "wc_fence_path (cl_client cl n) \<Longrightarrow>
     cluster_step cid cl (forget n (set_client n (restart_client (cl_client cl n)) cl))"
| restart_witness: "cluster_step cid cl (set_store u (reopen (cl_store cl u)) cl)"

inductive cluster_reachable :: "string \<Rightarrow> cluster \<Rightarrow> cluster \<Rightarrow> bool" for cid cl0 where
  reach_start: "cluster_reachable cid cl0 cl0"
| reach_step: "cluster_reachable cid cl0 cl \<Longrightarrow> cluster_step cid cl cl' \<Longrightarrow> cluster_reachable cid cl0 cl'"

text \<open>Nodes that are configured alike and have just started, and well-formed witnesses.\<close>

definition node_config :: "string list \<Rightarrow> string \<Rightarrow> witness_client \<Rightarrow> bool" where
  "node_config urls n c =
     (n \<noteq> [] \<and> wc_node c = n \<and> wc_urls c = urls \<and> int (length urls) < 2 * quorum_size c)"

definition cluster_start :: "string list \<Rightarrow> string set \<Rightarrow> cluster \<Rightarrow> bool" where
  "cluster_start urls nodes cl =
     (distinct urls \<and> (\<forall>u. cell_ok (cl_store cl u) \<and> 0 \<le> cl_clock cl u) \<and>
      (\<forall>n \<in> nodes. node_config urls n (cl_client cl n) \<and> wc_lease_expires (cl_client cl n) \<le> 0) \<and>
      cl_issued cl = {} \<and> cl_moving cl = {})"

section \<open>What the operations of a node leave alone\<close>

definition config_of :: "witness_client \<Rightarrow> string \<times> string list \<times> int \<times> int \<times> bool" where
  "config_of c = (wc_node c, wc_urls c, wc_ttl c, quorum_size c, wc_fence_path c)"

lemma config_of_updates [simp]:
  "config_of (c\<lparr>wc_results := rs\<rparr>) = config_of c" "config_of (c\<lparr>wc_last_attempt := t\<rparr>) = config_of c"
  "config_of (c\<lparr>wc_lease_expires := x\<rparr>) = config_of c" "config_of (c\<lparr>wc_lease_epoch := e\<rparr>) = config_of c"
  "config_of (c\<lparr>wc_suspended := b\<rparr>) = config_of c" "config_of (c\<lparr>wc_fence := f\<rparr>) = config_of c"
  "config_of (c\<lparr>wc_receipt := r\<rparr>) = config_of c"
  by (simp_all add: config_of_def quorum_size_def)

lemma config_of_record:
  "config_of (record_acquire now rs c) = config_of c" "config_of (record_transfer now rs c) = config_of c"
  "config_of (restart_client c) = config_of c"
  by (simp_all add: record_acquire_def record_transfer_def restart_client_def Let_def)

lemma config_of_acquire:
  assumes "client_acquire files exs now c = (res, c')"
  shows "config_of c' = config_of c"
proof -
  have "frame config_of (client_acquire files exs now)"
    unfolding client_acquire_def by (intro frameI keeps_intro keeps_modify) (simp add: config_of_record)
  from frameD [OF this, of c] assms show ?thesis by simp
qed

lemma begin_transfer_effect:
  assumes "begin_transfer disk target se te txn c = (res, c')"
  shows "config_of c' = config_of c \<and> wc_suspended c' \<and> wc_lease_expires c' = 0 \<and>
    (wc_fence c \<noteq> None \<longrightarrow> wc_fence c' = wc_fence c) \<and>
    (\<forall>p. res = Inr p \<longrightarrow> wc_fence_path c' \<longrightarrow> wc_fence c' \<noteq> None)"
  using assms
  by (auto simp: begin_transfer_def method_run persist_transfer_fence_def Let_def
           split: if_splits disk_outcome.splits)

lemma keeps_lift_fence:
  assumes "\<And>c f. I c \<Longrightarrow> I (c\<lparr>wc_fence := f\<rparr>)" and "\<And>c r. I c \<Longrightarrow> I (c\<lparr>wc_receipt := r\<rparr>)"
  shows "keeps I (lift_fence ok fence_now digest identity receipt)"
  unfolding lift_fence_def by (intro keeps_intro keeps_modify assms)

lemma client_recover_unsuspended:
  "client_recover files exs ok fence_now now rid c = (res, c') \<Longrightarrow> \<not> wc_suspended c \<Longrightarrow> c' = c"
  by (auto simp: client_recover_def method_run Let_def split: if_splits)

lemma keeps_case_prod3 [keeps_intro]:
  "(\<And>a b d. keeps I (f a b d)) \<Longrightarrow> keeps I (case x of (a, b, d) \<Rightarrow> f a b d)"
  by (cases x) auto

lemma client_recover_keeps:
  assumes "\<And>c f. I c \<Longrightarrow> I (c\<lparr>wc_fence := f\<rparr>)" and "\<And>c r. I c \<Longrightarrow> I (c\<lparr>wc_receipt := r\<rparr>)"
    and "\<And>c rs t. I c \<Longrightarrow> I (c\<lparr>wc_suspended := False, wc_lease_epoch := 0, wc_lease_expires := 0,
                             wc_results := rs, wc_last_attempt := t\<rparr>)"
  shows "keeps I (client_recover files exs ok fence_now now rid)"
  unfolding client_recover_def Let_def
  by (intro keeps_intro keeps_modify keeps_lift_fence assms)

lemma client_recover_effect:
  assumes "client_recover files exs ok fence_now now rid c = (res, c')"
  shows "config_of c' = config_of c \<and> (wc_lease_expires c \<le> 0 \<longrightarrow> wc_lease_expires c' \<le> 0)"
proof -
  have "keeps (\<lambda>c'. config_of c' = config_of c \<and> (wc_lease_expires c \<le> 0 \<longrightarrow> wc_lease_expires c' \<le> 0))
      (client_recover files exs ok fence_now now rid)"
    by (rule client_recover_keeps) auto
  from keepsD [OF this, of c] assms show ?thesis by simp
qed

section \<open>The invariant\<close>

definition protects :: "string \<Rightarrow> cluster \<Rightarrow> string \<Rightarrow> string \<Rightarrow> int \<Rightarrow> bool" where
  \<comment> \<open>the witness at \<open>u\<close> protects a grant to \<open>n\<close> until \<open>x\<close>\<close>
  "protects cid cl u n x = witness_cell.safe cid (cl_clock cl u) n x (cl_store cl u)"

definition issued_ok :: "string \<Rightarrow> string set \<Rightarrow> cluster \<Rightarrow> bool" where
  "issued_ok cid nodes cl = (\<forall>u n x. (u, n, x) \<in> cl_issued cl \<longrightarrow> n \<in> nodes \<longrightarrow>
     x \<le> cl_clock cl u + clamp_ttl (wc_ttl (cl_client cl n)) \<and>
     (\<not> wc_suspended (cl_client cl n) \<longrightarrow> protects cid cl u n x))"

definition leases_ok :: "string list \<Rightarrow> string set \<Rightarrow> cluster \<Rightarrow> bool" where
  "leases_ok urls nodes cl = (\<forall>n \<in> nodes.
     wc_lease_expires (cl_client cl n) \<le> 0 \<or>
     \<not> wc_suspended (cl_client cl n) \<and>
     (\<exists>Q. majority urls Q \<and> (\<forall>u \<in> Q. \<exists>x. (u, n, x) \<in> cl_issued cl \<and> wc_lease_expires (cl_client cl n) \<le> x)))"

definition moving_ok :: "string set \<Rightarrow> cluster \<Rightarrow> bool" where
  "moving_ok nodes cl = (\<forall>t \<in> cl_moving cl. tr_source t \<in> nodes \<longrightarrow>
     wc_suspended (cl_client cl (tr_source t)) \<and>
     (wc_fence_path (cl_client cl (tr_source t)) \<longrightarrow> wc_fence (cl_client cl (tr_source t)) \<noteq> None))"

definition witnesses_ok :: "cluster \<Rightarrow> bool" where
  "witnesses_ok cl = (\<forall>u. cell_ok (cl_store cl u) \<and> 0 \<le> cl_clock cl u)"

definition nodes_ok :: "string list \<Rightarrow> string set \<Rightarrow> cluster \<Rightarrow> bool" where
  "nodes_ok urls nodes cl = (distinct urls \<and> (\<forall>n \<in> nodes. node_config urls n (cl_client cl n)))"

definition cluster_inv :: "string \<Rightarrow> string list \<Rightarrow> string set \<Rightarrow> cluster \<Rightarrow> bool" where
  "cluster_inv cid urls nodes cl =
     (witnesses_ok cl \<and> nodes_ok urls nodes cl \<and> issued_ok cid nodes cl \<and> leases_ok urls nodes cl \<and> moving_ok nodes cl)"

lemma cluster_start_inv: "cluster_start urls nodes cl \<Longrightarrow> cluster_inv cid urls nodes cl"
  by (auto simp: cluster_start_def cluster_inv_def witnesses_ok_def nodes_ok_def issued_ok_def leases_ok_def moving_ok_def)

lemma node_config_of: "config_of c' = config_of c \<Longrightarrow> node_config urls n c' = node_config urls n c"
  by (simp add: node_config_def config_of_def)

text \<open>Changing the client of one node.\<close>

lemma inv_set_client:
  assumes inv: "cluster_inv cid urls nodes cl" and cfg: "config_of c' = config_of (cl_client cl n)"
    and susp: "wc_suspended c' = wc_suspended (cl_client cl n)" "wc_fence c' = wc_fence (cl_client cl n)"
    and lease: "n \<in> nodes \<Longrightarrow> wc_lease_expires c' \<le> 0 \<or> \<not> wc_suspended c' \<and>
      (\<exists>Q. majority urls Q \<and> (\<forall>u \<in> Q. \<exists>x. (u, n, x) \<in> cl_issued cl \<and> wc_lease_expires c' \<le> x))"
  shows "cluster_inv cid urls nodes (set_client n c' cl)"
proof -
  have t: "wc_ttl c' = wc_ttl (cl_client cl n)" "wc_fence_path c' = wc_fence_path (cl_client cl n)"
    using cfg by (simp_all add: config_of_def)
  from inv have i: "witnesses_ok cl" "nodes_ok urls nodes cl" "issued_ok cid nodes cl" "leases_ok urls nodes cl"
    "moving_ok nodes cl" by (auto simp: cluster_inv_def)
  have "witnesses_ok (set_client n c' cl)" using i(1) by (simp add: witnesses_ok_def set_client_def)
  moreover have "nodes_ok urls nodes (set_client n c' cl)"
    using i(2) node_config_of [OF cfg] by (auto simp: nodes_ok_def set_client_def)
  moreover have "issued_ok cid nodes (set_client n c' cl)"
    using i(3) susp t by (auto simp: issued_ok_def set_client_def protects_def)
  moreover have "leases_ok urls nodes (set_client n c' cl)"
    using i(4) lease by (auto simp: leases_ok_def set_client_def)
  moreover have "moving_ok nodes (set_client n c' cl)"
    using i(5) susp t by (auto simp: moving_ok_def set_client_def)
  ultimately show ?thesis by (simp add: cluster_inv_def)
qed

text \<open>Changing the state of one witness: its grants stay protected.\<close>

lemma inv_set_store:
  assumes inv: "cluster_inv cid urls nodes cl" and ok: "cell_ok s'"
    and safe: "\<And>n x. (u, n, x) \<in> cl_issued cl \<Longrightarrow> n \<in> nodes \<Longrightarrow> \<not> wc_suspended (cl_client cl n) \<Longrightarrow>
      protects cid cl u n x \<Longrightarrow> witness_cell.safe cid (cl_clock cl u) n x s'"
  shows "cluster_inv cid urls nodes (set_store u s' cl)"
proof -
  from inv have i: "witnesses_ok cl" "nodes_ok urls nodes cl" "issued_ok cid nodes cl" "leases_ok urls nodes cl"
    "moving_ok nodes cl" by (auto simp: cluster_inv_def)
  have "issued_ok cid nodes (set_store u s' cl)"
    using i(3) safe by (auto simp: issued_ok_def set_store_def protects_def)
  with i ok show ?thesis
    by (simp add: cluster_inv_def witnesses_ok_def nodes_ok_def leases_ok_def moving_ok_def set_store_def)
qed

lemma inv_tick:
  assumes "cluster_inv cid urls nodes cl" and "cl_clock cl u \<le> t"
  shows "cluster_inv cid urls nodes (cl\<lparr>cl_clock := (cl_clock cl)(u := t)\<rparr>)"
proof -
  have "issued_ok cid nodes (cl\<lparr>cl_clock := (cl_clock cl)(u := t)\<rparr>)"
    using assms witness_cell.safe_later [OF _ assms(2)]
    by (fastforce simp: cluster_inv_def issued_ok_def protects_def)
  moreover have "witnesses_ok (cl\<lparr>cl_clock := (cl_clock cl)(u := t)\<rparr>)"
  proof -
    have "0 \<le> cl_clock cl u" using assms(1) by (simp add: cluster_inv_def witnesses_ok_def)
    then have "0 \<le> t" using assms(2) by simp
    with assms(1) show ?thesis by (simp add: cluster_inv_def witnesses_ok_def)
  qed
  ultimately show ?thesis using assms(1)
    by (simp add: cluster_inv_def nodes_ok_def leases_ok_def moving_ok_def)
qed

lemma inv_issue:
  assumes "cluster_inv cid urls nodes cl"
    and "\<And>v. g = Some v \<Longrightarrow> n \<in> nodes \<Longrightarrow> x \<le> cl_clock cl u + clamp_ttl (wc_ttl (cl_client cl n)) \<and> protects cid cl u n (lv_expires v)"
    and "\<And>v. g = Some v \<Longrightarrow> lv_expires v = x"
  shows "cluster_inv cid urls nodes (cl\<lparr>cl_issued := cl_issued cl \<union> (case g of None \<Rightarrow> {} | Some v \<Rightarrow> {(u, n, lv_expires v)})\<rparr>)"
proof (cases g)
  case None
  then show ?thesis using assms(1) by simp
next
  case (Some v)
  from assms have i: "witnesses_ok cl" "nodes_ok urls nodes cl" "issued_ok cid nodes cl" "leases_ok urls nodes cl"
    "moving_ok nodes cl" by (auto simp: cluster_inv_def)
  let ?cl = "cl\<lparr>cl_issued := insert (u, n, x) (cl_issued cl)\<rparr>"
  have "issued_ok cid nodes ?cl"
    using i(3) assms(2) [OF Some] assms(3) [OF Some] by (auto simp: issued_ok_def protects_def)
  moreover have "leases_ok urls nodes ?cl"
    using i(4) unfolding leases_ok_def by simp blast
  ultimately have "cluster_inv cid urls nodes ?cl"
    using i by (simp add: cluster_inv_def witnesses_ok_def nodes_ok_def moving_ok_def)
  with Some assms(3) show ?thesis by simp
qed

lemma inv_serve_acquire:
  assumes inv: "cluster_inv cid urls nodes cl"
    and run: "cell_acquire cid disk_ok (cl_clock cl u) n (wc_ttl (cl_client cl n)) (cl_store cl u) = (g, s')"
  shows "cluster_inv cid urls nodes ((set_store u s' cl)\<lparr>cl_issued := cl_issued cl \<union>
      (case g of None \<Rightarrow> {} | Some v \<Rightarrow> {(u, n, lv_expires v)})\<rparr>)"
proof -
  have ok: "cell_ok (cl_store cl u)" using inv by (simp add: cluster_inv_def witnesses_ok_def)
  have inv': "cluster_inv cid urls nodes (set_store u s' cl)"
  proof (rule inv_set_store [OF inv witness_cell.acq_wf [OF ok run]])
    fix m x
    assume m: "(u, m, x) \<in> cl_issued cl" "m \<in> nodes" "\<not> wc_suspended (cl_client cl m)" and p: "protects cid cl u m x"
    have "m \<noteq> []" using inv m(2) by (auto simp: cluster_inv_def nodes_ok_def node_config_def)
    moreover have "x \<le> cl_clock cl u + clamp_ttl (wc_ttl (cl_client cl m))"
      using inv m by (auto simp: cluster_inv_def issued_ok_def)
    ultimately show "witness_cell.safe cid (cl_clock cl u) m x s'"
      using p unfolding protects_def by (intro witness_cell.safe_acq [OF ok run]) auto
  qed
  have g: "lv_expires v = cl_clock cl u + clamp_ttl (wc_ttl (cl_client cl n)) \<and>
      witness_cell.safe cid (cl_clock cl u) n (lv_expires v) s'" if "g = Some v" for v
    using witness_cell.acq_holder_grant [OF ok] witness_cell.safe_grant [OF ok] run that by blast
  have "cluster_inv cid urls nodes ((set_store u s' cl)\<lparr>cl_issued := cl_issued (set_store u s' cl) \<union>
      (case g of None \<Rightarrow> {} | Some v \<Rightarrow> {(u, n, lv_expires v)})\<rparr>)"
    using g by (intro inv_issue [OF inv', where x = "cl_clock cl u + clamp_ttl (wc_ttl (cl_client cl n))"])
      (auto simp: set_store_def protects_def)
  then show ?thesis by (simp add: set_store_def)
qed

lemma inv_serve_transfer:
  assumes inv: "cluster_inv cid urls nodes cl" and t: "t \<in> cl_moving cl"
    and run: "cell_transfer cid disk_ok (cl_clock cl u) (tr_source t) (tr_target t) (tr_source_epoch t)
       (tr_target_epoch t) (tr_transaction t) (tr_ttl t) (cl_store cl u) = (g, s')"
  shows "cluster_inv cid urls nodes (set_store u s' cl)"
proof -
  have ok: "cell_ok (cl_store cl u)" using inv by (simp add: cluster_inv_def witnesses_ok_def)
  show ?thesis
  proof (rule inv_set_store [OF inv witness_cell.trn_wf [OF ok run]])
    fix m x
    assume m: "m \<in> nodes" "\<not> wc_suspended (cl_client cl m)" and p: "protects cid cl u m x"
    have "m \<noteq> tr_source t" using inv t m by (auto simp: cluster_inv_def moving_ok_def)
    with p show "witness_cell.safe cid (cl_clock cl u) m x s'"
      unfolding protects_def by (intro witness_cell.safe_trn [OF ok run])
  qed
qed

lemma inv_finish_acquire:
  assumes inv: "cluster_inv cid urls nodes cl"
    and run: "client_acquire files exs now (cl_client cl n) = (res, c')"
    and auth: "\<And>auths u r. one (cl_client cl n) auths exs u = Inr r \<Longrightarrow> wr_granted r \<Longrightarrow> (u, n, wr_expires r) \<in> cl_issued cl"
  shows "cluster_inv cid urls nodes (set_client n c' cl)"
proof (cases "c' = cl_client cl n")
  case True
  then show ?thesis using inv by (simp add: set_client_def)
next
  case False
  let ?c = "cl_client cl n"
  from run False obtain results where ask: "ask_all ?c files (\<lambda>auths. one ?c auths exs) = Inr results"
    and c': "c' = record_acquire now results ?c" and susp: "\<not> wc_suspended ?c"
    by (cases "ask_all ?c files (\<lambda>auths. one ?c auths exs)")
       (auto simp: client_acquire_def method_run split: if_splits)
  have same: "wc_suspended c' = wc_suspended ?c" "wc_fence c' = wc_fence ?c"
    by (simp_all add: c' record_acquire_def Let_def)
  show ?thesis
  proof (rule inv_set_client [OF inv config_of_acquire [OF run] same])
    assume n: "n \<in> nodes"
    with inv have cfg: "wc_urls ?c = urls" "distinct urls" "int (length urls) < 2 * quorum_size ?c"
      by (auto simp: cluster_inv_def nodes_ok_def node_config_def)
    have url: "map wr_url results = urls" using ask_all_urls [OF ask one_Inr(1)] cfg by simp
    with cfg have "distinct (map wr_url results)" by simp
    from record_acquire_lease [OF this, of now ?c] consider
      "wc_lease_expires c' = wc_lease_expires ?c"
    | Q where "Q \<subseteq> wr_url ` set results" "lease_quorum ?c now results (wc_lease_expires c') Q"
      unfolding c' by blast
    then show "wc_lease_expires c' \<le> 0 \<or> \<not> wc_suspended c' \<and>
      (\<exists>Q. majority urls Q \<and> (\<forall>u \<in> Q. \<exists>x. (u, n, x) \<in> cl_issued cl \<and> wc_lease_expires c' \<le> x))"
    proof cases
      case 1
      with inv n same(1) show ?thesis by (simp add: cluster_inv_def leases_ok_def)
    next
      case 2
      have sub: "Q \<subseteq> set urls" using 2(1) url by (metis image_set)
      with 2(2) cfg have "majority urls Q" by (auto simp: majority_def lease_quorum_def)
      moreover have "\<exists>x. (u, n, x) \<in> cl_issued cl \<and> wc_lease_expires c' \<le> x" if "u \<in> Q" for u
      proof -
        from 2(2) that obtain r where r: "r \<in> set results" "wr_url r = u" "wr_granted r" "wc_lease_expires c' \<le> wr_expires r"
          by (auto simp: lease_quorum_def)
        from ask have "\<exists>auths. one ?c auths exs u = Inr r"
        proof (cases rule: ask_all_Inr)
          case (refused m)
          with r show ?thesis by (auto simp: failed_result_def)
        next
          case (asked auths)
          from asked(2) r(1) obtain u' where "one ?c auths exs u' = Inr r"
            by (auto simp: list_all2_conv_all_nth in_set_conv_nth)
          with one_Inr(1) [OF this] r(2) show ?thesis by blast
        qed
        with auth r show ?thesis by blast
      qed
      ultimately show ?thesis using susp same(1) by blast
    qed
  qed
qed

text \<open>A node that gives up its lease, with or without new transfer requests.\<close>

lemma inv_start_transfer:
  assumes inv: "cluster_inv cid urls nodes cl"
    and run: "begin_transfer disk target se te txn (cl_client cl n) = (res, c')"
  shows "cluster_inv cid urls nodes ((set_client n c' cl)\<lparr>cl_moving := cl_moving cl \<union>
       (case res of Inl _ \<Rightarrow> {}
        | Inr _ \<Rightarrow> {\<lparr>tr_source = n, tr_target = target, tr_source_epoch = se, tr_target_epoch = te,
                    tr_transaction = txn, tr_ttl = wc_ttl (cl_client cl n)\<rparr>})\<rparr>)"
    (is "cluster_inv _ _ _ ?cl")
proof -
  note eff = begin_transfer_effect [OF run]
  then have t: "wc_ttl c' = wc_ttl (cl_client cl n)" "wc_fence_path c' = wc_fence_path (cl_client cl n)"
    by (simp_all add: config_of_def)
  from inv have i: "witnesses_ok cl" "nodes_ok urls nodes cl" "issued_ok cid nodes cl" "leases_ok urls nodes cl"
    "moving_ok nodes cl" by (auto simp: cluster_inv_def)
  have "nodes_ok urls nodes ?cl"
    using i(2) node_config_of [of c' "cl_client cl n"] eff by (auto simp: nodes_ok_def set_client_def)
  moreover have "issued_ok cid nodes ?cl"
    using i(3) eff t by (auto simp: issued_ok_def set_client_def protects_def)
  moreover have "leases_ok urls nodes ?cl"
    using i(4) eff by (simp add: leases_ok_def set_client_def)
  moreover have "moving_ok nodes ?cl"
    using i(5) eff t by (cases res) (auto simp: moving_ok_def set_client_def)
  ultimately show ?thesis using i(1) by (simp add: cluster_inv_def witnesses_ok_def set_client_def)
qed

lemma inv_forget:
  assumes inv: "cluster_inv cid urls nodes cl" and cfg: "config_of c' = config_of (cl_client cl n)"
    and lease: "n \<in> nodes \<Longrightarrow> wc_lease_expires c' \<le> 0"
    and mov: "\<And>t. t \<in> cl_moving cl \<Longrightarrow> tr_source t = n \<Longrightarrow> n \<in> nodes \<Longrightarrow>
      wc_suspended c' \<and> (wc_fence_path c' \<longrightarrow> wc_fence c' \<noteq> None)"
  shows "cluster_inv cid urls nodes (forget n (set_client n c' cl))"
proof -
  let ?cl = "forget n (set_client n c' cl)"
  from inv have i: "witnesses_ok cl" "nodes_ok urls nodes cl" "issued_ok cid nodes cl" "leases_ok urls nodes cl"
    "moving_ok nodes cl" by (auto simp: cluster_inv_def)
  have "nodes_ok urls nodes ?cl"
    using i(2) node_config_of [OF cfg] by (auto simp: nodes_ok_def set_client_def forget_def)
  moreover have "issued_ok cid nodes ?cl"
    using i(3) by (auto simp: issued_ok_def set_client_def forget_def protects_def)
  moreover have "leases_ok urls nodes ?cl"
    unfolding leases_ok_def
  proof
    fix m assume "m \<in> nodes"
    then show "wc_lease_expires (cl_client ?cl m) \<le> 0 \<or> \<not> wc_suspended (cl_client ?cl m) \<and>
      (\<exists>Q. majority urls Q \<and> (\<forall>u \<in> Q. \<exists>x. (u, m, x) \<in> cl_issued ?cl \<and> wc_lease_expires (cl_client ?cl m) \<le> x))"
      using i(4) lease by (cases "m = n") (auto simp: leases_ok_def set_client_def forget_def)
  qed
  moreover have "moving_ok nodes ?cl"
    using i(5) mov by (auto simp: moving_ok_def set_client_def forget_def)
  ultimately show ?thesis using i(1) by (simp add: cluster_inv_def witnesses_ok_def set_client_def forget_def)
qed

lemma cluster_step_inv:
  assumes "cluster_step cid cl cl'" and inv: "cluster_inv cid urls nodes cl"
  shows "cluster_inv cid urls nodes cl'"
  using assms(1)
proof cases
  case (tick u t)
  with inv_tick [OF inv] show ?thesis by simp
next
  case (serve_acquire disk_ok u n g s')
  with inv_serve_acquire [OF inv] show ?thesis by simp
next
  case (serve_transfer t disk_ok u g s')
  with inv_serve_transfer [OF inv] show ?thesis by simp
next
  case (finish_acquire files exs now n res c')
  with inv_finish_acquire [OF inv] show ?thesis by blast
next
  case (start_transfer disk target se te txn n res c')
  with inv_start_transfer [OF inv] show ?thesis by simp
next
  case (end_transfer n now results)
  have "wc_lease_expires (cl_client cl n) \<le> 0 \<or> \<not> wc_suspended (cl_client cl n) \<and>
      (\<exists>Q. majority urls Q \<and> (\<forall>u \<in> Q. \<exists>x. (u, n, x) \<in> cl_issued cl \<and> wc_lease_expires (cl_client cl n) \<le> x))"
    if "n \<in> nodes" using inv that by (auto simp: cluster_inv_def leases_ok_def)
  then show ?thesis
    unfolding end_transfer by (intro inv_set_client [OF inv]) (auto simp: config_of_record, auto simp: record_transfer_def)
next
  case (lose_transfer M)
  then show ?thesis using inv
    by (auto simp: cluster_inv_def witnesses_ok_def nodes_ok_def issued_ok_def leases_ok_def moving_ok_def protects_def)
next
  case (recover files exs disk_ok fence_now now rid n res c')
  note eff = client_recover_effect [OF recover(2)]
  show ?thesis
  proof (cases "wc_suspended (cl_client cl n)")
    case False
    with client_recover_unsuspended [OF recover(2)] recover(1) inv show ?thesis by (simp add: set_client_def)
  next
    case True
    then have "n \<in> nodes \<Longrightarrow> wc_lease_expires (cl_client cl n) \<le> 0"
      using inv by (auto simp: cluster_inv_def leases_ok_def)
    with True recover(1,3) eff show ?thesis by (auto intro!: inv_forget [OF inv])
  qed
next
  case (restart_node n)
  have "wc_suspended (restart_client (cl_client cl n)) \<and> wc_fence (restart_client (cl_client cl n)) \<noteq> None"
    if "t \<in> cl_moving cl" "tr_source t = n" "n \<in> nodes" for t
    using inv that restart_node(2) by (auto simp: cluster_inv_def moving_ok_def restart_client_def fence_present_def)
  moreover have "wc_lease_expires (restart_client (cl_client cl n)) \<le> 0" by (simp add: restart_client_def)
  ultimately show ?thesis
    unfolding restart_node(1) by (intro inv_forget [OF inv config_of_record(3)]) blast+
next
  case (restart_witness u)
  have ok: "cell_ok (cl_store cl u)" using inv by (simp add: cluster_inv_def witnesses_ok_def)
  show ?thesis
    unfolding restart_witness
    by (rule inv_set_store [OF inv witness_cell.reopen_wf [OF ok]])
       (simp add: protects_def witness_cell.safe_reopen [OF ok])
qed

lemma reachable_inv:
  "cluster_reachable cid cl0 cl \<Longrightarrow> cluster_start urls nodes cl0 \<Longrightarrow> cluster_inv cid urls nodes cl"
  by (induction rule: cluster_reachable.induct) (auto intro: cluster_start_inv cluster_step_inv)

lemma inv_exclusive:
  assumes inv: "cluster_inv cid urls nodes cl" and n: "n \<in> nodes" and m: "m \<in> nodes"
    and vn: "client_valid margin_n now_n (cl_client cl n)" and vm: "client_valid margin_m now_m (cl_client cl m)"
    and clk: "\<And>u. u \<in> set urls \<Longrightarrow> cl_clock cl u \<le> now_n + max 0 margin_n \<and> cl_clock cl u \<le> now_m + max 0 margin_m"
  shows "n = m"
proof -
  have quorum: "\<exists>Q. majority urls Q \<and> (\<forall>u \<in> Q. \<exists>x. cl_clock cl u < x \<and> protects cid cl u k x)"
    if k: "k \<in> nodes" and v: "client_valid margin now (cl_client cl k)"
      and c: "\<And>u. u \<in> set urls \<Longrightarrow> cl_clock cl u \<le> now + max 0 margin" for k margin now
  proof -
    from v have susp: "\<not> wc_suspended (cl_client cl k)" and conf: "wc_urls (cl_client cl k) \<noteq> []"
      and lease: "now + max 0 margin < wc_lease_expires (cl_client cl k)"
      by (auto simp: client_valid_def client_configured_def split: if_splits)
    from inv k conf obtain u where u: "u \<in> set urls"
      by (cases urls) (auto simp: cluster_inv_def nodes_ok_def node_config_def)
    have "0 \<le> cl_clock cl u" using inv by (simp add: cluster_inv_def witnesses_ok_def)
    with c [OF u] lease have pos: "0 < wc_lease_expires (cl_client cl k)" by simp
    from inv k have "wc_lease_expires (cl_client cl k) \<le> 0 \<or> \<not> wc_suspended (cl_client cl k) \<and>
      (\<exists>Q. majority urls Q \<and> (\<forall>u \<in> Q. \<exists>x. (u, k, x) \<in> cl_issued cl \<and> wc_lease_expires (cl_client cl k) \<le> x))"
      unfolding cluster_inv_def leases_ok_def by blast
    with pos obtain Q where
      Q: "majority urls Q" "\<And>u. u \<in> Q \<Longrightarrow> \<exists>x. (u, k, x) \<in> cl_issued cl \<and> wc_lease_expires (cl_client cl k) \<le> x"
      by auto
    have "\<exists>x. cl_clock cl u < x \<and> protects cid cl u k x" if "u \<in> Q" for u
    proof -
      from Q(2) [OF that] obtain x where x: "(u, k, x) \<in> cl_issued cl" "wc_lease_expires (cl_client cl k) \<le> x" by blast
      with inv k susp have "protects cid cl u k x" by (auto simp: cluster_inv_def issued_ok_def)
      moreover have "cl_clock cl u < x" using c [of u] that Q(1) x(2) lease by (auto simp: majority_def)
      ultimately show ?thesis by blast
    qed
    with Q(1) show ?thesis by blast
  qed
  from quorum [OF n vn] clk obtain P where P: "majority urls P" "\<And>u. u \<in> P \<Longrightarrow> \<exists>x. cl_clock cl u < x \<and> protects cid cl u n x"
    by blast
  from quorum [OF m vm] clk obtain Q where Q: "majority urls Q" "\<And>u. u \<in> Q \<Longrightarrow> \<exists>x. cl_clock cl u < x \<and> protects cid cl u m x"
    by blast
  show ?thesis
  proof (rule majorities.exclusive [OF P(1) Q(1), where holds = "\<lambda>u k. \<exists>x. cl_clock cl u < x \<and> protects cid cl u k x"])
    fix u assume "\<exists>x. cl_clock cl u < x \<and> protects cid cl u n x" and "\<exists>x. cl_clock cl u < x \<and> protects cid cl u m x"
    then obtain x y where "cl_clock cl u < x" "protects cid cl u n x" "cl_clock cl u < y" "protects cid cl u m y" by blast
    then show "n = m" using witness_cell.safe_exclusive [of cid "cl_clock cl u" n x "cl_store cl u" m y]
      unfolding protects_def by fastforce
  qed (use P(2) Q(2) in auto)
qed

text \<open>
  C1. No split brain: in every reachable state of the cluster, two nodes that both consider their
  quorum lease valid are the same node.  The nodes share the list of distinct witnesses, each
  nodes' quorum is a majority, and no witness clock is ahead of the clock of a node by more than
  the safety margin that \<open>valid\<close> subtracts.  Lost and repeated requests, failing writes, restarts
  of nodes and witnesses, planned transfers and recoveries are all part of the runs.
\<close>

theorem no_split_brain:
  assumes "cluster_start urls nodes cl0" and "cluster_reachable cid cl0 cl"
    and "n \<in> nodes" and "m \<in> nodes"
    and "client_valid margin_n now_n (cl_client cl n)" and "client_valid margin_m now_m (cl_client cl m)"
    and "\<And>u. u \<in> set urls \<Longrightarrow> cl_clock cl u \<le> now_n + max 0 margin_n \<and> cl_clock cl u \<le> now_m + max 0 margin_m"
  shows "n = m"
  using inv_exclusive [OF reachable_inv [OF assms(2,1)] assms(3-6)] assms(7) by blast

definition demo_cluster :: cluster where
  "demo_cluster = \<lparr>cl_store = (\<lambda>_. empty_store), cl_clock = (\<lambda>_. 1000),
     cl_client = (\<lambda>n. demo_client n [''u'']), cl_issued = {}, cl_moving = {}\<rparr>"

lemma demo_cluster_start: "cluster_start [''u''] {''a'', ''b''} demo_cluster"
  by (simp add: cluster_start_def demo_cluster_def node_config_def demo_client_def quorum_size_def)

lemma demo_cluster_lease:
  "\<exists>cl. cluster_reachable ''show'' demo_cluster cl \<and> client_valid 100 1000 (cl_client cl ''a'') \<and>
        cl_clock cl = (\<lambda>_. 1000)"
proof -
  let ?c = "demo_client ''a'' [''u'']"
  obtain body where sig: "signed_acquire ?c demo_auth ''nonce'' = Inr (body, ''shared'', None)"
    using demo_signed by blast
  from demo_run [OF sig] obtain r x where
    ex: "run_exchange \<lparr>ex_nonce = ''nonce'', ex_reply = (\<lambda>_. Reply (PDict r)), ex_now = 1000\<rparr> ''u'' ''acquire'' body ''shared'' None
      (\<lambda>raw. parse_result ?c 1000 ''u'' raw ''a'' None) = Inr x"
    and x: "wr_granted x" "wr_url x = ''u''" "wr_expires x = 4000" "wr_holder x = Some ''a''" by blast
  let ?exs = "\<lambda>u. if u = ''u'' then \<lparr>ex_nonce = ''nonce'', ex_reply = (\<lambda>_. Reply (PDict r)), ex_now = 1000\<rparr>
      else \<lparr>ex_nonce = [], ex_reply = (\<lambda>_. NoReply []), ex_now = 0\<rparr> :: exchange"
  have f: "wc_urls ?c = [''u'']" "wc_node ?c = ''a''" "\<not> wc_suspended ?c" "quorum_size ?c = 1"
    "wc_cluster ?c = ''show''" "wc_ttl ?c = 3000"
    by (simp_all add: demo_client_def quorum_size_def)
  have r: "dgetn r ''expiresAtUnixMs'' = PInt 4000"
    using run_exchange_Inr(2) [of _ _ _ _ _ _ ?c, unfolded f(2), OF ex refl x(1)] x(3) by (simp add: authentic_grant_def)
  let ?cl = "demo_cluster\<lparr>cl_store := (cl_store demo_cluster)(''u'' := snd (cell_acquire ''show'' True 1000 ''a'' 3000 empty_store)),
      cl_issued := {(''u'', ''a'', 4000)}\<rparr>"
  have acq: "cell_acquire ''show'' True 1000 ''a'' 3000 empty_store = (Some \<lparr>lv_holder = ''a'', lv_epoch = 1, lv_expires = 4000\<rparr>,
      snd (cell_acquire ''show'' True 1000 ''a'' 3000 empty_store))" by code_simp
  have d: "cl_clock demo_cluster ''u'' = 1000" "wc_ttl (cl_client demo_cluster ''a'') = 3000"
    "cl_store demo_cluster ''u'' = empty_store" "cl_issued demo_cluster = {}"
    using f(6) by (simp_all add: demo_cluster_def)
  have step1: "cluster_step ''show'' demo_cluster ?cl"
    using cluster_step.serve_acquire [of "''show''" True demo_cluster "''u''" "''a''", unfolded d(1-3), OF acq]
    by (simp add: d(4) set_store_def)
  have one: "one ?c [(''u'', demo_auth)] ?exs ''u'' = Inr x"
    using sig ex f by (simp add: one_def dindex_def signed_acquire_def)
  have pin: "pin_operation_auth (\<lambda>_. None) ?c = Inr [(''u'', demo_auth)]"
    by (simp add: pin_operation_auth_def demo_client_def auth_snapshot_def demo_auth_def)
  have ask: "ask_all ?c (\<lambda>_. None) (\<lambda>auths. one ?c auths ?exs) = Inr [x]"
    using one by (simp add: ask_all_def pin f(1))
  let ?c' = "record_acquire 1000 [x] ?c"
  have run: "\<exists>res. client_acquire (\<lambda>_. None) ?exs 1000 ?c = (res, ?c')"
    using ask f(3) by (simp add: client_acquire_def method_run)
  have auth: "(u, ''a'', wr_expires y) \<in> cl_issued ?cl" if "one ?c auths ?exs u = Inr y" "wr_granted y" for auths u y
    using one_Inr(2) [OF that] r by (auto simp: authentic_grant_def split: if_splits)
  have c: "cl_client ?cl ''a'' = ?c" by (simp add: demo_cluster_def)
  have step2: "cluster_step ''show'' ?cl (set_client ''a'' ?c' ?cl)"
    using run auth unfolding c [symmetric] by (blast intro: cluster_step.finish_acquire)
  have "client_valid 100 1000 ?c'"
    using x f by (simp add: client_valid_def client_configured_def record_acquire_def usable_grants_def
        selected_grants_def Let_def demo_client_def)
  with reach_step [OF reach_step [OF reach_start step1] step2] show ?thesis
    by (intro exI [of _ "set_client ''a'' ?c' ?cl"]) (simp add: set_client_def demo_cluster_def)
qed

theorem no_split_brain_witness:
  "\<exists>cl. cluster_reachable ''show'' demo_cluster cl \<and> client_valid 100 1000 (cl_client cl ''a'') \<and>
        \<not> client_valid 100 1000 (cl_client cl ''b'')"
proof -
  obtain cl where cl: "cluster_reachable ''show'' demo_cluster cl" "client_valid 100 1000 (cl_client cl ''a'')"
    "cl_clock cl = (\<lambda>_. 1000)" using demo_cluster_lease by blast
  have "''a'' = ''b''" if "client_valid 100 1000 (cl_client cl ''b'')"
    using no_split_brain [OF demo_cluster_start cl(1) _ _ cl(2) that] cl(3) by simp
  with cl show ?thesis by auto
qed

end
