(* ===== verification/Planned_Handoff.thy ===== *)
theory Planned_Handoff
  imports Replication
begin

text \<open>
  \<^verbatim>\<open>src/backend/planned_handoff.py\<close>: the signed offer of a planned handoff and the target's
  readiness receipt.  Both are payloads with a digest and a tag over the digest; \<open>sealed_document\<close>
  is what the two have in common.  The clock \<open>time_ns()\<close> is an argument.
\<close>

section \<open>Sealed documents\<close>

definition key_entry :: "string option \<Rightarrow> pydict" where
  "key_entry key_id = (case key_id of None \<Rightarrow> [] | Some k \<Rightarrow> [(''keyId'', PStr k)])"

text \<open>The end of both verifiers: digest, key and tag, with the texts of the two documents.\<close>

definition check_seal ::
    "string \<Rightarrow> pydict \<Rightarrow> pydict \<Rightarrow> string \<Rightarrow> hmac_snapshot option \<Rightarrow> pyerr + (bool \<times> string)" where
  "check_seal what document payload secret keyset =
     (let digest = digest_of (PDict payload) in
      ebind (compare_digest digest (py_str (dgetd document ''digestSha256'' (PStr [])))) (\<lambda>same.
      if \<not> same then Inr (False, what @ '' digest mismatch'')
      else
        case (case keyset of None \<Rightarrow> Inr secret | Some ks \<Rightarrow> resolve ks (dgetn document ''keyId'')) of
          Inl (PermissionError m) \<Rightarrow> Inr (False, m)
        | Inl e \<Rightarrow> Inl e
        | Inr auth_secret \<Rightarrow>
            if auth_secret = [] then Inr (False, what @ '' authentication failed'')
            else ebind (compare_digest (hmac_sha256_hex auth_secret digest)
                         (py_str (dgetd document ''hmacSha256'' (PStr [])))) (\<lambda>authentic.
              Inr (if authentic then (True, ''ok'') else (False, what @ '' authentication failed'')))))"

section \<open>Offers\<close>

record handoff_offer =
  ho_transaction :: int
  ho_source :: string
  ho_target :: string
  ho_source_epoch :: int
  ho_target_epoch :: int
  ho_show_ns :: int
  ho_degraded :: bool
  ho_issued :: int
  ho_key :: "string option"

definition offer_fields :: "handoff_offer \<Rightarrow> pydict" where
  "offer_fields f =
     [(''protocolVersion'', PInt 1), (''transactionId'', PInt (ho_transaction f)),
      (''sourceNodeId'', PStr (ho_source f)), (''targetNodeId'', PStr (ho_target f)),
      (''sourceEpoch'', PInt (ho_source_epoch f)), (''targetEpoch'', PInt (ho_target_epoch f)),
      (''targetShowNs'', PInt (ho_show_ns f)), (''allowDegradedProgram'', PBool (ho_degraded f)),
      (''issuedAtUnixNs'', PInt (ho_issued f))] @ key_entry (ho_key f)"

definition offer_facts_ok :: "handoff_offer \<Rightarrow> bool" where
  "offer_facts_ok f = (0 < ho_transaction f \<and> ho_source_epoch f < ho_target_epoch f \<and> 0 < ho_show_ns f)"

definition make_offer :: "handoff_offer \<Rightarrow> string \<Rightarrow> pyerr + pydict" where
  "make_offer f secret =
     (if secret = [] then Inl (RuntimeError ''planned handoff requires authenticated replication'')
      else if ho_transaction f \<le> 0 \<or> ho_source f = [] \<or> ho_target f = []
      then Inl (ValueError ''planned handoff identities are required'')
      else if ho_target_epoch f \<le> ho_source_epoch f \<or> ho_show_ns f \<le> 0
      then Inl (ValueError ''planned handoff epoch or Show-Time boundary is invalid'')
      else Inr (seal (Some secret) (offer_fields f)))"

text \<open>The payload a verifier rebuilds: the version and the facts.\<close>

definition read_offer :: "pydict \<Rightarrow> pyerr + (int \<times> handoff_offer)" where
  "read_offer d =
     ebind (dindex d ''protocolVersion'') (\<lambda>v1. ebind (dindex d ''transactionId'') (\<lambda>v2.
     ebind (dindex d ''sourceNodeId'') (\<lambda>v3. ebind (dindex d ''targetNodeId'') (\<lambda>v4.
     ebind (dindex d ''sourceEpoch'') (\<lambda>v5. ebind (dindex d ''targetEpoch'') (\<lambda>v6.
     ebind (dindex d ''targetShowNs'') (\<lambda>v7. ebind (dindex d ''allowDegradedProgram'') (\<lambda>v8.
     ebind (dindex d ''issuedAtUnixNs'') (\<lambda>v9.
     ebind (py_int v1) (\<lambda>version. ebind (py_int v2) (\<lambda>txn. ebind (py_int v5) (\<lambda>se.
     ebind (py_int v6) (\<lambda>te. ebind (py_int v7) (\<lambda>ns. ebind (py_int v9) (\<lambda>issued.
     Inr (version, \<lparr>ho_transaction = txn, ho_source = py_str v3, ho_target = py_str v4,
       ho_source_epoch = se, ho_target_epoch = te, ho_show_ns = ns, ho_degraded = truthy v8,
       ho_issued = issued, ho_key = map_option py_str (dget d ''keyId'')\<rparr>))))))))))))))))"

definition verify_offer ::
    "pydict \<Rightarrow> string \<Rightarrow> hmac_snapshot option \<Rightarrow> string \<Rightarrow> pyerr + (bool \<times> string)" where
  "verify_offer offer secret keyset expected_target =
     (case read_offer offer of
        Inl e \<Rightarrow> if is_key_type_or_value e then Inr (False, ''malformed planned handoff offer'') else Inl e
      | Inr (version, f) \<Rightarrow>
          if version \<noteq> 1 \<or> ho_target f \<noteq> expected_target
          then Inr (False, ''planned handoff target or protocol mismatch'')
          else if \<not> offer_facts_ok f then Inr (False, ''invalid planned handoff fencing facts'')
          else check_seal ''planned handoff'' offer (offer_fields f) secret keyset)"

section \<open>Readiness receipts\<close>

record ready_receipt =
  rr_type :: string
  rr_transaction :: int
  rr_source :: string
  rr_target :: string
  rr_source_epoch :: int
  rr_target_epoch :: int
  rr_show_ns :: int
  rr_ready :: bool
  rr_issued :: int
  rr_key :: "string option"

definition receipt_fields :: "ready_receipt \<Rightarrow> pydict" where
  "receipt_fields r =
     [(''protocolVersion'', PInt 1), (''receiptType'', PStr (rr_type r)),
      (''transactionId'', PInt (rr_transaction r)), (''sourceNodeId'', PStr (rr_source r)),
      (''targetNodeId'', PStr (rr_target r)), (''sourceEpoch'', PInt (rr_source_epoch r)),
      (''targetEpoch'', PInt (rr_target_epoch r)), (''targetShowNs'', PInt (rr_show_ns r)),
      (''programReady'', PBool (rr_ready r)), (''issuedAtUnixNs'', PInt (rr_issued r))] @ key_entry (rr_key r)"

definition make_ready_receipt ::
    "pydict \<Rightarrow> bool \<Rightarrow> int \<Rightarrow> string \<Rightarrow> string option \<Rightarrow> pyerr + pydict" where
  "make_ready_receipt offer program_ready now_ns secret key_id =
     (if secret = [] then Inl (RuntimeError ''planned handoff requires authenticated replication'')
      else
        ebind (ebind (dindex offer ''transactionId'') py_int) (\<lambda>txn.
        ebind (dindex offer ''sourceNodeId'') (\<lambda>source.
        ebind (dindex offer ''targetNodeId'') (\<lambda>target.
        ebind (ebind (dindex offer ''sourceEpoch'') py_int) (\<lambda>se.
        ebind (ebind (dindex offer ''targetEpoch'') py_int) (\<lambda>te.
        ebind (ebind (dindex offer ''targetShowNs'') py_int) (\<lambda>ns.
        Inr (seal (Some secret) (receipt_fields
          \<lparr>rr_type = ''target-ready'', rr_transaction = txn, rr_source = py_str source, rr_target = py_str target,
           rr_source_epoch = se, rr_target_epoch = te, rr_show_ns = ns, rr_ready = program_ready,
           rr_issued = now_ns, rr_key = key_id\<rparr>)))))))))"

text \<open>The left summand is the early return for a readiness flag that is not a bool.\<close>

definition read_receipt :: "pydict \<Rightarrow> pyerr + (unit + (int \<times> ready_receipt))" where
  "read_receipt d =
     ebind (dindex d ''protocolVersion'') (\<lambda>v1. ebind (dindex d ''receiptType'') (\<lambda>v2.
     ebind (dindex d ''transactionId'') (\<lambda>v3. ebind (dindex d ''sourceNodeId'') (\<lambda>v4.
     ebind (dindex d ''targetNodeId'') (\<lambda>v5. ebind (dindex d ''sourceEpoch'') (\<lambda>v6.
     ebind (dindex d ''targetEpoch'') (\<lambda>v7. ebind (dindex d ''targetShowNs'') (\<lambda>v8.
     ebind (dindex d ''programReady'') (\<lambda>v9. ebind (dindex d ''issuedAtUnixNs'') (\<lambda>v10.
     case v9 of
       PBool ready \<Rightarrow>
         ebind (py_int v1) (\<lambda>version. ebind (py_int v3) (\<lambda>txn. ebind (py_int v6) (\<lambda>se.
         ebind (py_int v7) (\<lambda>te. ebind (py_int v8) (\<lambda>ns. ebind (py_int v10) (\<lambda>issued.
         Inr (Inr (version, \<lparr>rr_type = py_str v2, rr_transaction = txn, rr_source = py_str v4,
           rr_target = py_str v5, rr_source_epoch = se, rr_target_epoch = te, rr_show_ns = ns,
           rr_ready = ready, rr_issued = issued, rr_key = map_option py_str (dget d ''keyId'')\<rparr>))))))))
     | _ \<Rightarrow> Inr (Inl ())))))))))))"

definition receipt_matches :: "ready_receipt \<Rightarrow> pydict \<Rightarrow> bool" where
  "receipt_matches r offer =
     (veq (PInt (rr_transaction r)) (dgetn offer ''transactionId'') \<and>
      veq (PStr (rr_source r)) (dgetn offer ''sourceNodeId'') \<and>
      veq (PStr (rr_target r)) (dgetn offer ''targetNodeId'') \<and>
      veq (PInt (rr_source_epoch r)) (dgetn offer ''sourceEpoch'') \<and>
      veq (PInt (rr_target_epoch r)) (dgetn offer ''targetEpoch'') \<and>
      veq (PInt (rr_show_ns r)) (dgetn offer ''targetShowNs''))"

definition verify_ready_receipt ::
    "pydict \<Rightarrow> string \<Rightarrow> hmac_snapshot option \<Rightarrow> string \<Rightarrow> pydict \<Rightarrow> pyerr + (bool \<times> string)" where
  "verify_ready_receipt receipt secret keyset expected_source offer =
     (case read_receipt receipt of
        Inl e \<Rightarrow> if is_key_type_or_value e
                 then Inr (False, ''malformed planned handoff readiness receipt'') else Inl e
      | Inr (Inl _) \<Rightarrow> Inr (False, ''malformed planned handoff readiness receipt'')
      | Inr (Inr (version, r)) \<Rightarrow>
          if version \<noteq> 1 \<or> rr_type r \<noteq> ''target-ready'' \<or> rr_source r \<noteq> expected_source
          then Inr (False, ''planned handoff readiness target or protocol mismatch'')
          else if \<not> receipt_matches r offer then Inr (False, ''planned handoff readiness fencing mismatch'')
          else if \<not> veq (dgetn receipt ''keyId'') (dgetn offer ''keyId'')
          then Inr (False, ''planned handoff readiness key mismatch'')
          else ebind (py_int (dgetd offer ''issuedAtUnixNs'' (PInt 0))) (\<lambda>issued.
            if rr_issued r < issued then Inr (False, ''planned handoff readiness predates offer'')
            else check_seal ''planned handoff readiness'' receipt (receipt_fields r) secret keyset))"

section \<open>What sealing gives\<close>

lemma check_seal_made:
  assumes "sec \<noteq> []"
    and "(case keyset of None \<Rightarrow> Inr secret | Some ks \<Rightarrow> resolve ks (dgetn (seal (Some sec) p) ''keyId'')) = Inr sec"
  shows "check_seal what (seal (Some sec) p) p secret keyset = Inr (True, ''ok'')"
  using assms by (simp add: check_seal_def seal_digest seal_tag Let_def)

lemma check_seal_True:
  assumes "check_seal what d p secret keyset = Inr (True, why)"
  shows "\<exists>sec. (case keyset of None \<Rightarrow> Inr secret | Some ks \<Rightarrow> resolve ks (dgetn d ''keyId'')) = Inr sec \<and> sec \<noteq> [] \<and>
    py_str (dgetd d ''digestSha256'' (PStr [])) = digest_of (PDict p) \<and>
    py_str (dgetd d ''hmacSha256'' (PStr [])) = hmac_sha256_hex sec (digest_of (PDict p))"
  using assms
  by (auto simp: check_seal_def Let_def ebind_eq_Inr split: if_splits sum.splits pyerr.splits
           dest!: compare_digest_True)

text \<open>A kind of sealed document: its fields are read back from the sealed form, and what a verifier
  accepts has been sealed with the secret it resolves.\<close>

locale sealed_document =
  fixes fields :: "'d \<Rightarrow> pydict" and read :: "pydict \<Rightarrow> pyerr + 'd" and ok :: "pydict \<Rightarrow> 'd \<Rightarrow> bool"
    and verify :: "pydict \<Rightarrow> string \<Rightarrow> hmac_snapshot option \<Rightarrow> pyerr + (bool \<times> string)" and what :: string
  assumes read_sealed: "read (seal (Some sec) (fields d)) = Inr d"
    and verify_reads: "verify doc secret keyset = Inr (True, why) \<Longrightarrow> \<exists>d. read doc = Inr d \<and> ok doc d"
    and verify_check: "read doc = Inr d \<Longrightarrow> ok doc d \<Longrightarrow>
      verify doc secret keyset = check_seal what doc (fields d) secret keyset"
begin

lemma made_verifies:
  assumes "ok (seal (Some sec) (fields d)) d" and "sec \<noteq> []"
    and "(case keyset of None \<Rightarrow> Inr secret
          | Some ks \<Rightarrow> resolve ks (dgetn (seal (Some sec) (fields d)) ''keyId'')) = Inr sec"
  shows "verify (seal (Some sec) (fields d)) secret keyset = Inr (True, ''ok'')"
  using verify_check [OF read_sealed assms(1)] check_seal_made [OF assms(2,3)] by simp

text \<open>What a verifier accepts has been sealed, over the facts it read, with the secret it resolves.\<close>

lemma verified_sealed:
  assumes "verify doc secret keyset = Inr (True, why)"
  obtains d sec where "read doc = Inr d" "ok doc d" "sec \<noteq> []"
    "(case keyset of None \<Rightarrow> Inr secret | Some ks \<Rightarrow> resolve ks (dgetn doc ''keyId'')) = Inr sec"
    "py_str (dgetd doc ''hmacSha256'' (PStr [])) = hmac_sha256_hex sec (digest_of (PDict (fields d)))"
proof -
  from verify_reads [OF assms] obtain d where d: "read doc = Inr d" "ok doc d" by blast
  with assms verify_check have "check_seal what doc (fields d) secret keyset = Inr (True, why)" by simp
  from check_seal_True [OF this] d that show ?thesis by blast
qed

end

lemma read_offer_sealed: "read_offer (seal (Some sec) (offer_fields f)) = Inr (1, f)"
  by (cases "ho_key f")
     (simp_all add: read_offer_def dindex_def dget_seal offer_fields_def key_entry_def)

lemma read_receipt_sealed: "read_receipt (seal (Some sec) (receipt_fields r)) = Inr (Inr (1, r))"
  by (cases "rr_key r")
     (simp_all add: read_receipt_def dindex_def dget_seal receipt_fields_def key_entry_def)

definition offer_of :: "pydict \<Rightarrow> pyerr + handoff_offer" where
  "offer_of d = ebind (read_offer d) (\<lambda>(version, f). if version = 1 then Inr f else Inl (ValueError ''version''))"

definition receipt_of :: "pydict \<Rightarrow> pyerr + ready_receipt" where
  "receipt_of d = ebind (read_receipt d) (\<lambda>x. case x of
     Inr (version, r) \<Rightarrow> if version = 1 then Inr r else Inl (ValueError ''version'')
   | Inl _ \<Rightarrow> Inl (ValueError ''malformed''))"

lemma receipt_of_Inr: "receipt_of d = Inr r \<Longrightarrow> read_receipt d = Inr (Inr (1, r))"
  by (cases "read_receipt d") (auto simp: receipt_of_def split: sum.splits if_splits)

definition receipt_ok :: "string \<Rightarrow> pydict \<Rightarrow> pydict \<Rightarrow> ready_receipt \<Rightarrow> bool" where
  "receipt_ok source offer doc r =
     (rr_type r = ''target-ready'' \<and> rr_source r = source \<and> receipt_matches r offer \<and>
      veq (dgetn doc ''keyId'') (dgetn offer ''keyId'') \<and>
      (\<exists>issued. py_int (dgetd offer ''issuedAtUnixNs'' (PInt 0)) = Inr issued \<and> issued \<le> rr_issued r))"

interpretation offers: sealed_document offer_fields offer_of "\<lambda>_ f. ho_target f = target \<and> offer_facts_ok f"
    "\<lambda>doc secret keyset. verify_offer doc secret keyset target" "''planned handoff''"
  for target
proof
  show "offer_of (seal (Some sec) (offer_fields d)) = Inr d" for sec d
    by (simp add: offer_of_def read_offer_sealed)
  show "\<exists>d. offer_of doc = Inr d \<and> ho_target d = target \<and> offer_facts_ok d"
    if "verify_offer doc secret keyset target = Inr (True, why)" for doc secret keyset why
    using that by (auto simp: verify_offer_def offer_of_def split: sum.splits if_splits prod.splits)
  show "verify_offer doc secret keyset target = check_seal ''planned handoff'' doc (offer_fields d) secret keyset"
    if "offer_of doc = Inr d" "ho_target d = target \<and> offer_facts_ok d" for doc d secret keyset
    using that by (auto simp: verify_offer_def offer_of_def ebind_eq_Inr split: if_splits)
qed

interpretation receipts: sealed_document receipt_fields receipt_of "receipt_ok source offer"
    "\<lambda>doc secret keyset. verify_ready_receipt doc secret keyset source offer" "''planned handoff readiness''"
  for source offer
proof
  show "receipt_of (seal (Some sec) (receipt_fields d)) = Inr d" for sec d
    by (simp add: receipt_of_def read_receipt_sealed)
  show "\<exists>d. receipt_of doc = Inr d \<and> receipt_ok source offer doc d"
    if "verify_ready_receipt doc secret keyset source offer = Inr (True, why)" for doc secret keyset why
  proof -
    from that obtain r where "read_receipt doc = Inr (Inr (1, r))" "receipt_ok source offer doc r"
      by (auto simp: verify_ready_receipt_def receipt_ok_def ebind_eq_Inr not_less
          split: sum.splits if_splits prod.splits)
    then show ?thesis by (simp add: receipt_of_def)
  qed
  show "verify_ready_receipt doc secret keyset source offer =
      check_seal ''planned handoff readiness'' doc (receipt_fields d) secret keyset"
    if "receipt_of doc = Inr d" "receipt_ok source offer doc d" for doc d secret keyset
  proof -
    from that(1) have "read_receipt doc = Inr (Inr (1, d))" by (rule receipt_of_Inr)
    with that(2) show ?thesis by (auto simp: verify_ready_receipt_def receipt_ok_def)
  qed
qed

section \<open>The exchange\<close>

lemma veq_PInt_py_int: "veq (PInt i) v \<Longrightarrow> py_int v = Inr i"
  by (cases v) (auto simp: veq_def num_of_def feq_def split: if_splits)

lemma veq_sym_str: "veq v v' \<Longrightarrow> v = PStr s \<Longrightarrow> v' = PStr s"
  by simp

text \<open>
  Round trip of a planned handoff: an offer that \<open>make_offer\<close> signs is accepted by its target,
  and the receipt the target signs for it with the same key, not before the offer was issued, is
  accepted by the source.
\<close>

theorem handoff_exchange:
  assumes offer: "make_offer f secret = Inr offer"
    and receipt: "make_ready_receipt offer ready now secret (ho_key f) = Inr receipt"
    and now: "ho_issued f \<le> now"
  shows "verify_offer offer secret None (ho_target f) = Inr (True, ''ok'') \<and>
    verify_ready_receipt receipt secret None (ho_source f) offer = Inr (True, ''ok'')"
proof
  from offer have sec: "secret \<noteq> []" and ok: "offer_facts_ok f" and o: "offer = seal (Some secret) (offer_fields f)"
    by (auto simp: make_offer_def offer_facts_ok_def split: if_splits)
  show "verify_offer offer secret None (ho_target f) = Inr (True, ''ok'')"
    unfolding o using sec ok by (intro offers.made_verifies) simp_all
  let ?r = "\<lparr>rr_type = ''target-ready'', rr_transaction = ho_transaction f, rr_source = ho_source f, rr_target = ho_target f,
      rr_source_epoch = ho_source_epoch f, rr_target_epoch = ho_target_epoch f, rr_show_ns = ho_show_ns f,
      rr_ready = ready, rr_issued = now, rr_key = ho_key f\<rparr>"
  have g: "dget offer k = dget (offer_fields f) k" if "k \<noteq> ''digestSha256''" "k \<noteq> ''hmacSha256''" for k
    unfolding o using that by (rule dget_seal)
  have r: "receipt = seal (Some secret) (receipt_fields ?r)"
    using receipt sec by (simp add: make_ready_receipt_def dindex_def g offer_fields_def)
  have "receipt_ok (ho_source f) offer receipt ?r"
    by (cases "ho_key f")
       (simp_all add: receipt_ok_def receipt_matches_def r dget_seal dgetn_def dgetd_def g offer_fields_def
          receipt_fields_def key_entry_def now)
  then show "verify_ready_receipt receipt secret None (ho_source f) offer = Inr (True, ''ok'')"
    unfolding r using sec by (intro receipts.made_verifies) simp_all
qed

definition demo_offer :: handoff_offer where
  "demo_offer = \<lparr>ho_transaction = 7, ho_source = ''a'', ho_target = ''b'', ho_source_epoch = 1, ho_target_epoch = 2,
     ho_show_ns = 5000, ho_degraded = False, ho_issued = 10, ho_key = None\<rparr>"

theorem handoff_exchange_witness:
  "\<exists>offer receipt. make_offer demo_offer ''k'' = Inr offer \<and>
     verify_offer offer ''k'' None ''b'' = Inr (True, ''ok'') \<and>
     verify_ready_receipt receipt ''k'' None ''a'' offer = Inr (True, ''ok'')"
proof -
  have o: "make_offer demo_offer ''k'' = Inr (seal (Some ''k'') (offer_fields demo_offer))"
    by (simp add: make_offer_def demo_offer_def)
  obtain receipt where "make_ready_receipt (seal (Some ''k'') (offer_fields demo_offer)) True 20 ''k'' (ho_key demo_offer) = Inr receipt"
    by (simp add: make_ready_receipt_def dindex_def dget_seal offer_fields_def)
  from handoff_exchange [OF o this] o show ?thesis by (auto simp: demo_offer_def)
qed

text \<open>
  C10. A receipt binds the offer: when a source has an offer that verifies and accepts a receipt for
  it, the receipt states the transaction, the nodes, the epochs and the Show-Time of that offer,
  is not older than the offer, and carries a tag over exactly these facts under the secret the
  source resolves for it.
\<close>

theorem receipt_binds_offer:
  assumes "verify_offer offer secret keyset target = Inr (True, why)"
    and "verify_ready_receipt receipt secret' keyset' source offer = Inr (True, why')"
  shows "\<exists>f r sec. offer_of offer = Inr f \<and> receipt_of receipt = Inr r \<and>
    rr_transaction r = ho_transaction f \<and> rr_source r = ho_source f \<and> rr_source r = source \<and>
    rr_target r = target \<and> rr_target r = ho_target f \<and>
    rr_source_epoch r = ho_source_epoch f \<and> rr_target_epoch r = ho_target_epoch f \<and>
    rr_show_ns r = ho_show_ns f \<and> ho_issued f \<le> rr_issued r \<and>
    (case keyset' of None \<Rightarrow> Inr secret' | Some ks \<Rightarrow> resolve ks (dgetn receipt ''keyId'')) = Inr sec \<and>
    py_str (dgetd receipt ''hmacSha256'' (PStr [])) = hmac_sha256_hex sec (digest_of (PDict (receipt_fields r)))"
proof -
  from assms(1) obtain f where f: "offer_of offer = Inr f" "ho_target f = target"
    by (rule offers.verified_sealed) blast
  from assms(2) obtain r sec where r: "receipt_of receipt = Inr r" "receipt_ok source offer receipt r"
    "(case keyset' of None \<Rightarrow> Inr secret' | Some ks \<Rightarrow> resolve ks (dgetn receipt ''keyId'')) = Inr sec"
    "py_str (dgetd receipt ''hmacSha256'' (PStr [])) = hmac_sha256_hex sec (digest_of (PDict (receipt_fields r)))"
    by (rule receipts.verified_sealed) blast
  from f(1) obtain v2 v3 v4 v5 v6 v7 v9 where
    d: "dget offer ''transactionId'' = Some v2" "dget offer ''sourceNodeId'' = Some v3" "dget offer ''targetNodeId'' = Some v4"
      "dget offer ''sourceEpoch'' = Some v5" "dget offer ''targetEpoch'' = Some v6" "dget offer ''targetShowNs'' = Some v7"
      "dget offer ''issuedAtUnixNs'' = Some v9"
    and i: "py_int v2 = Inr (ho_transaction f)" "py_int v5 = Inr (ho_source_epoch f)" "py_int v6 = Inr (ho_target_epoch f)"
      "py_int v7 = Inr (ho_show_ns f)" "py_int v9 = Inr (ho_issued f)" "py_str v3 = ho_source f" "py_str v4 = ho_target f"
    by (auto simp: offer_of_def read_offer_def ebind_eq_Inr dindex_def split: option.splits if_splits)
  from r(2) d have "veq (PInt (rr_transaction r)) v2" "v3 = PStr (rr_source r)" "v4 = PStr (rr_target r)"
    "veq (PInt (rr_source_epoch r)) v5" "veq (PInt (rr_target_epoch r)) v6" "veq (PInt (rr_show_ns r)) v7"
    "rr_source r = source" "\<exists>issued. py_int v9 = Inr issued \<and> issued \<le> rr_issued r"
    by (auto simp: receipt_ok_def receipt_matches_def dgetn_def dgetd_def)
  with i f(2) have "rr_transaction r = ho_transaction f \<and> rr_source r = ho_source f \<and> rr_source r = source \<and>
    rr_target r = target \<and> rr_target r = ho_target f \<and> rr_source_epoch r = ho_source_epoch f \<and>
    rr_target_epoch r = ho_target_epoch f \<and> rr_show_ns r = ho_show_ns f \<and> ho_issued f \<le> rr_issued r"
    by (auto dest!: veq_PInt_py_int)
  with f(1) r show ?thesis by blast
qed

theorem receipt_binds_offer_witness:
  "\<exists>offer receipt f r. verify_ready_receipt receipt ''k'' None ''a'' offer = Inr (True, ''ok'') \<and>
     offer_of offer = Inr f \<and> receipt_of receipt = Inr r \<and> rr_transaction r = ho_transaction f"
proof -
  let ?o = "seal (Some ''k'') (offer_fields demo_offer)"
  let ?r = "\<lparr>rr_type = ''target-ready'', rr_transaction = 7, rr_source = ''a'', rr_target = ''b'', rr_source_epoch = 1,
      rr_target_epoch = 2, rr_show_ns = 5000, rr_ready = True, rr_issued = 20, rr_key = None\<rparr>"
  have o: "verify_offer ?o ''k'' None ''b'' = Inr (True, ''ok'')"
    by (rule offers.made_verifies) (simp_all add: demo_offer_def offer_facts_ok_def)
  have r: "verify_ready_receipt (seal (Some ''k'') (receipt_fields ?r)) ''k'' None ''a'' ?o = Inr (True, ''ok'')"
    by (rule receipts.made_verifies)
       (simp_all add: receipt_ok_def receipt_matches_def dget_seal dgetn_def dgetd_def offer_fields_def demo_offer_def
          receipt_fields_def key_entry_def)
  from receipt_binds_offer [OF o r] r show ?thesis by blast
qed

end
