(* ===== verification/Session_Channel.thy ===== *)
theory Session_Channel
  imports Replication
begin

text \<open>
  \<^verbatim>\<open>src/backend/session_channel.py\<close>: authenticated frames between two participants of a session.  A frame
  is a packed header of 52 octets, a tag of 32 and the payload; a channel derives one key per epoch
  and direction, counts the frames it sends and accepts only increasing sequence numbers.  Octet strings are strings of
  characters below 256.
\<close>

section \<open>Octets\<close>

fun be_value :: "string \<Rightarrow> int" where
  "be_value [] = 0"
| "be_value (c # cs) = octet c * 256 ^ length cs + be_value cs"

definition part :: "nat \<Rightarrow> nat \<Rightarrow> string \<Rightarrow> string" where
  "part a b s = take (b - a) (drop a s)"

definition hex_value :: "char \<Rightarrow> int option" where
  "hex_value c =
     (let n = octet c in
      if 48 \<le> n \<and> n \<le> 57 then Some (n - 48) else if 97 \<le> n \<and> n \<le> 102 then Some (n - 87)
      else if 65 \<le> n \<and> n \<le> 70 then Some (n - 55) else None)"

definition hex_error :: "nat \<Rightarrow> pyerr" where
  "hex_error i = ValueError (''non-hexadecimal number found in fromhex() arg at position '' @ show_int (int i))"

definition hex_blank :: "char \<Rightarrow> bool" where
  "hex_blank c = (octet c = 32 \<or> 9 \<le> octet c \<and> octet c \<le> 13)"

fun hex_pairs :: "nat \<Rightarrow> string \<Rightarrow> pyerr + string" where
  "hex_pairs i [] = Inr []"
| "hex_pairs i [c] = (if hex_blank c then Inr [] else Inl (hex_error (if hex_value c = None then i else i + 1)))"
| "hex_pairs i (c # d # s) =
     (if hex_blank c then hex_pairs (i + 1) (d # s)
      else (case (hex_value c, hex_value d) of
        (None, _) \<Rightarrow> Inl (hex_error i)
      | (Some _, None) \<Rightarrow> Inl (hex_error (i + 1))
      | (Some h, Some l) \<Rightarrow> ebind (hex_pairs (i + 2) s) (\<lambda>r. Inr (char_of (16 * h + l) # r))))"

text \<open>\<open>bytes.fromhex\<close>\<close>

definition from_hex :: "string \<Rightarrow> pyerr + string" where
  "from_hex s =
     (if list_all is_ascii s then hex_pairs 0 s else Inl (hex_error (length (takeWhile is_ascii s))))"

section \<open>Keys and headers\<close>

definition channel_version :: int where
  "channel_version = 1"

definition max_payload :: int where
  "max_payload = 4096"

definition prefix_size :: nat where
  "prefix_size = 52"

definition header_size :: nat where
  "header_size = prefix_size + 32"

definition is_value_error :: "pyerr \<Rightarrow> bool" where
  "is_value_error e = (case e of ValueError _ \<Rightarrow> True | _ \<Rightarrow> False)"

definition session_bytes :: "string \<Rightarrow> pyerr + string" where
  "session_bytes session_id =
     (let e = ValueError ''session id must be 32 hexadecimal characters'' in
      ebind (ecatch is_value_error (from_hex session_id) (Inl e)) (\<lambda>v. if length v \<noteq> 16 then Inl e else Inr v))"

definition derive_direction_key :: "string \<Rightarrow> string \<Rightarrow> int \<Rightarrow> string \<Rightarrow> pyerr + string" where
  "derive_direction_key root_key transcript key_epoch direction =
     (if root_key = [] \<or> length transcript \<noteq> 64 \<or> key_epoch < 1 \<or> direction = [] then Inl (ValueError ''invalid channel key inputs'')
      else
        ebind (from_hex transcript) (\<lambda>t.
        if 2 ^ 64 \<le> key_epoch then Inl OverflowError
        else Inr (hmac_sha256_digest root_key
          (''UPP-SESSION-CHANNEL-V1'' @ [char_of (0 :: int)] @ t @ be_octets 8 key_epoch @ utf8 direction))))"

record frame_header =
  fh_magic :: string
  fh_version :: int
  fh_flags :: int
  fh_header_size :: int
  fh_session :: string
  fh_epoch :: int
  fh_sequence :: int
  fh_capability :: int
  fh_size :: int

definition fits :: "nat \<Rightarrow> int \<Rightarrow> bool" where
  "fits n x = (0 \<le> x \<and> x < 256 ^ n)"

text \<open>\<open>struct.Struct(">4sBBH16sQQQI")\<close>\<close>

definition pack_prefix :: "frame_header \<Rightarrow> pyerr + string" where
  "pack_prefix h =
     (if fits 1 (fh_version h) \<and> fits 1 (fh_flags h) \<and> fits 2 (fh_header_size h) \<and> fits 8 (fh_epoch h) \<and>
         fits 8 (fh_sequence h) \<and> fits 8 (fh_capability h) \<and> fits 4 (fh_size h)
      then Inr (fh_magic h @ be_octets 1 (fh_version h) @ be_octets 1 (fh_flags h) @ be_octets 2 (fh_header_size h) @
                fh_session h @ be_octets 8 (fh_epoch h) @ be_octets 8 (fh_sequence h) @ be_octets 8 (fh_capability h) @
                be_octets 4 (fh_size h))
      else Inl StructError)"

definition unpack_prefix :: "string \<Rightarrow> frame_header" where
  "unpack_prefix s =
     \<lparr>fh_magic = part 0 4 s, fh_version = be_value (part 4 5 s), fh_flags = be_value (part 5 6 s),
      fh_header_size = be_value (part 6 8 s), fh_session = part 8 24 s, fh_epoch = be_value (part 24 32 s),
      fh_sequence = be_value (part 32 40 s), fh_capability = be_value (part 40 48 s), fh_size = be_value (part 48 52 s)\<rparr>"

section \<open>The channel\<close>

record session_channel =
  sc_root_key :: string
  sc_session_id :: string
  sc_session_bytes :: string
  sc_transcript :: string
  sc_allowed :: "int list"
  sc_send :: string
  sc_receive :: string
  sc_epoch :: int
  sc_previous_epoch :: int
  sc_grace :: int
  sc_previous_until :: int
  sc_outbound :: int
  sc_inbound :: int
  sc_accepted :: int
  sc_rejected :: int

definition open_channel ::
    "string \<Rightarrow> string \<Rightarrow> string \<Rightarrow> int list \<Rightarrow> string \<Rightarrow> string \<Rightarrow> int \<Rightarrow> int \<Rightarrow> pyerr + session_channel" where
  "open_channel root_key session_id transcript allowed send receive key_epoch grace =
     ebind (session_bytes session_id) (\<lambda>bytes.
     ebind (derive_direction_key root_key transcript key_epoch send) (\<lambda>_.
     Inr \<lparr>sc_root_key = root_key, sc_session_id = session_id, sc_session_bytes = bytes, sc_transcript = transcript,
          sc_allowed = remdups (filter (\<lambda>v. 0 < v) allowed), sc_send = send, sc_receive = receive, sc_epoch = key_epoch,
          sc_previous_epoch = 0, sc_grace = iclamp 0 1024 grace, sc_previous_until = 0,
          sc_outbound = 0, sc_inbound = 0, sc_accepted = 0, sc_rejected = 0\<rparr>))"

definition scope_error :: pyerr where
  "scope_error = PermissionError ''capability is outside the negotiated session scope''"

definition header_of :: "session_channel \<Rightarrow> int \<Rightarrow> string \<Rightarrow> frame_header" where
  "header_of c capability payload =
     \<lparr>fh_magic = ''UPPF'', fh_version = channel_version, fh_flags = 0, fh_header_size = int header_size,
      fh_session = sc_session_bytes c, fh_epoch = sc_epoch c, fh_sequence = sc_outbound c, fh_capability = capability,
      fh_size = int (length payload)\<rparr>"

definition encode :: "int \<Rightarrow> string \<Rightarrow> (session_channel, string) pymethod" where
  "encode capability payload =
     sthen (sgete (\<lambda>c. if capability \<in> set (sc_allowed c) then Inr () else Inl scope_error))
    (sthen (sguard (int (length payload) \<le> max_payload) (ValueError ''session payload exceeds 4096 bytes''))
    (sthen (smodify (\<lambda>c. c\<lparr>sc_outbound := sc_outbound c + 1\<rparr>))
    (sbind (sgete (\<lambda>c. pack_prefix (header_of c capability payload))) (\<lambda>prefix.
     sbind (sgete (\<lambda>c. derive_direction_key (sc_root_key c) (sc_transcript c) (sc_epoch c) (sc_send c))) (\<lambda>key.
     sreturn (prefix @ hmac_sha256_digest key (prefix @ payload) @ payload))))))"

text \<open>The checks of \<open>decode\<close>, in its order, and the exceptions it counts as rejections.\<close>

definition check_frame :: "session_channel \<Rightarrow> string \<Rightarrow> pyerr + frame_header" where
  "check_frame c wire =
     ebind (eguard (header_size \<le> length wire) (ValueError ''truncated session frame'')) (\<lambda>_.
     let h = unpack_prefix (take prefix_size wire) in
     ebind (eguard (fh_magic h = ''UPPF'' \<and> fh_version h = channel_version \<and> fh_flags h = 0 \<and> fh_header_size h = int header_size)
       (ValueError ''unsupported session frame header'')) (\<lambda>_.
     ebind (eguard (fh_session h = sc_session_bytes c) (ValueError ''session frame identity mismatch'')) (\<lambda>_.
     ebind (eguard (fh_size h \<le> max_payload \<and> int (length wire) = int header_size + fh_size h)
       (ValueError ''session frame size mismatch'')) (\<lambda>_.
     ebind (eguard (fh_capability h \<in> set (sc_allowed c)) scope_error) (\<lambda>_.
     ebind (eguard (sc_inbound c < fh_sequence h) (ValueError ''replayed or reordered session frame'')) (\<lambda>_.
     ebind (eguard (fh_epoch h = sc_epoch c \<or> fh_epoch h = sc_previous_epoch c \<and> fh_sequence h \<le> sc_previous_until c)
       (ValueError ''session key epoch is not accepted'')) (\<lambda>_.
     ebind (derive_direction_key (sc_root_key c) (sc_transcript c) (fh_epoch h) (sc_receive c)) (\<lambda>key.
     ebind (eguard (part prefix_size header_size wire =
             hmac_sha256_digest key (take prefix_size wire @ drop header_size wire))
       (ValueError ''session frame authentication failed'')) (\<lambda>_.
     Inr h)))))))))"

definition is_rejection :: "pyerr \<Rightarrow> bool" where
  "is_rejection e = (case e of ValueError _ \<Rightarrow> True | PermissionError _ \<Rightarrow> True | StructError \<Rightarrow> True | _ \<Rightarrow> False)"

record decoded_frame =
  df_session_id :: string
  df_epoch :: int
  df_sequence :: int
  df_capability :: int
  df_payload :: string

definition decode :: "string \<Rightarrow> (session_channel, decoded_frame) pymethod" where
  "decode wire c =
     (case check_frame c wire of
        Inl e \<Rightarrow> (Inl e, if is_rejection e then c\<lparr>sc_rejected := sc_rejected c + 1\<rparr> else c)
      | Inr h \<Rightarrow>
          (Inr \<lparr>df_session_id = sc_session_id c, df_epoch = fh_epoch h, df_sequence = fh_sequence h,
                df_capability = fh_capability h, df_payload = drop header_size wire\<rparr>,
           c\<lparr>sc_inbound := fh_sequence h, sc_accepted := sc_accepted c + 1\<rparr>))"

definition rotate :: "int \<Rightarrow> (session_channel, unit) pymethod" where
  "rotate new_epoch =
     sthen (sgete (\<lambda>c. if new_epoch \<le> sc_epoch c then Inl (ValueError ''session key epoch must advance'') else Inr ()))
     (smodify (\<lambda>c. c\<lparr>sc_previous_epoch := sc_epoch c, sc_epoch := new_epoch, sc_previous_until := sc_inbound c + sc_grace c\<rparr>))"

section \<open>Checkpoints\<close>

definition checkpoint_payload :: "session_channel \<Rightarrow> pydict" where
  "checkpoint_payload c =
     [(''documentType'', PStr ''org.upp.session-channel-checkpoint''), (''schemaVersion'', PInt 1),
      (''sessionId'', PStr (sc_session_id c)), (''transcriptSha256'', PStr (sc_transcript c)), (''keyEpoch'', PInt (sc_epoch c)),
      (''previousKeyEpoch'', PInt (sc_previous_epoch c)), (''previousAcceptUntil'', PInt (sc_previous_until c)),
      (''outboundSequence'', PInt (sc_outbound c)), (''inboundSequence'', PInt (sc_inbound c)),
      (''allowedCapabilities'', ints (sort (sc_allowed c)))]"

definition checkpoint :: "session_channel \<Rightarrow> pydict" where
  "checkpoint c =
     dset (checkpoint_payload c) ''hmacSha256''
       (PStr (hmac_sha256_hex (sc_root_key c) (canonical (PDict (checkpoint_payload c)))))"

definition checkpoint_check :: "pydict \<Rightarrow> session_channel \<Rightarrow> pyerr + unit" where
  "checkpoint_check doc c =
     (let payload = ddel doc ''hmacSha256'';
          expected = hmac_sha256_hex (sc_root_key c) (canonical (PDict payload)) in
      ebind (compare_digest expected (py_str (dgetd doc ''hmacSha256'' (PStr [])))) (\<lambda>same.
      ebind (eguard same (ValueError ''channel checkpoint authentication failed'')) (\<lambda>_.
      ebind (eguard (veq (dgetn payload ''sessionId'') (PStr (sc_session_id c)) \<and>
                     veq (dgetn payload ''transcriptSha256'') (PStr (sc_transcript c)))
        (ValueError ''channel checkpoint identity mismatch'')) (\<lambda>_.
      ebind (ebind (py_iter (dgetd payload ''allowedCapabilities'' (PList []))) (emap py_int)) (\<lambda>caps.
      eguard (set caps = set (sc_allowed c)) (ValueError ''channel checkpoint capability scope mismatch''))))))"

definition restore_int :: "pydict \<Rightarrow> string \<Rightarrow> (int \<Rightarrow> session_channel \<Rightarrow> session_channel) \<Rightarrow> (session_channel, unit) pymethod" where
  "restore_int payload k upd = sbind (slift (ebind (dindex payload k) py_int)) (\<lambda>i. smodify (upd i))"

definition restore_channel :: "pydict \<Rightarrow> (session_channel, unit) pymethod" where
  "restore_channel doc =
     (let payload = ddel doc ''hmacSha256'' in
      sthen (sgete (checkpoint_check doc))
     (sthen (restore_int payload ''keyEpoch'' (\<lambda>i c. c\<lparr>sc_epoch := i\<rparr>))
     (sthen (restore_int payload ''previousKeyEpoch'' (\<lambda>i c. c\<lparr>sc_previous_epoch := i\<rparr>))
     (sthen (restore_int payload ''previousAcceptUntil'' (\<lambda>i c. c\<lparr>sc_previous_until := i\<rparr>))
     (sthen (restore_int payload ''outboundSequence'' (\<lambda>i c. c\<lparr>sc_outbound := i\<rparr>))
      (restore_int payload ''inboundSequence'' (\<lambda>i c. c\<lparr>sc_inbound := i\<rparr>)))))))"

definition channel_status :: "session_channel \<Rightarrow> pydict" where
  "channel_status c =
     [(''sessionId'', PStr (sc_session_id c)), (''keyEpoch'', PInt (sc_epoch c)), (''previousKeyEpoch'', PInt (sc_previous_epoch c)),
      (''outboundSequence'', PInt (sc_outbound c)), (''inboundSequence'', PInt (sc_inbound c)), (''accepted'', PInt (sc_accepted c)),
      (''rejected'', PInt (sc_rejected c)), (''capabilityCount'', PInt (int (length (sc_allowed c)))),
      (''authenticated'', PBool True), (''confidential'', PBool False), (''physicalOutputsArmed'', PBool False)]"

section \<open>Packing\<close>

lemma octet_char_of [simp]: "octet (char_of x) = x mod 256"
  by (simp add: octet_def)

lemma be_octets_Suc: "be_octets (Suc n) x = char_of (x div 256 ^ n mod 256) # be_octets n x"
  unfolding be_octets_def by (simp add: upt_conv_Cons map_Suc_upt [symmetric] del: upt_Suc)

lemma be_value_octets: "fits n x \<Longrightarrow> be_value (be_octets n x) = x"
proof -
  have "be_value (be_octets n x) = x mod 256 ^ n" for x
  proof (induction n)
    case 0
    show ?case by (simp add: be_octets_def)
  next
    case (Suc n)
    have "x mod 256 ^ Suc n = x div 256 ^ n mod 256 * 256 ^ n + x mod 256 ^ n"
      using zmod_zmult2_eq [of 256 x "256 ^ n"] by (simp add: mult.commute)
    with Suc show ?case by (simp add: be_octets_Suc)
  qed
  then show "fits n x \<Longrightarrow> ?thesis" by (simp add: fits_def)
qed

definition header_ok :: "frame_header \<Rightarrow> bool" where
  "header_ok h = (length (fh_magic h) = 4 \<and> length (fh_session h) = 16)"

lemma pack_unpack:
  assumes "pack_prefix h = Inr s" and "header_ok h"
  shows "unpack_prefix s = h" and "length s = prefix_size"
proof -
  from assms have s: "s = fh_magic h @ be_octets 1 (fh_version h) @ be_octets 1 (fh_flags h) @ be_octets 2 (fh_header_size h) @
      fh_session h @ be_octets 8 (fh_epoch h) @ be_octets 8 (fh_sequence h) @ be_octets 8 (fh_capability h) @ be_octets 4 (fh_size h)"
    and fit: "fits 1 (fh_version h)" "fits 1 (fh_flags h)" "fits 2 (fh_header_size h)" "fits 8 (fh_epoch h)"
      "fits 8 (fh_sequence h)" "fits 8 (fh_capability h)" "fits 4 (fh_size h)"
    by (auto simp: pack_prefix_def split: if_splits)
  from assms(2) have len: "length (fh_magic h) = 4" "length (fh_session h) = 16" by (auto simp: header_ok_def)
  show "length s = prefix_size" by (simp add: s len prefix_size_def)
  show "unpack_prefix s = h"
    unfolding unpack_prefix_def s part_def using be_value_octets [OF fit(1)] be_value_octets [OF fit(2)]
    by (simp add: len be_value_octets fit(3-))
qed

lemma check_frame_header:
  assumes "check_frame c wire = Inr h"
  shows "h = unpack_prefix (take prefix_size wire)" and "sc_inbound c < fh_sequence h" and "fh_capability h \<in> set (sc_allowed c)"
    and "fh_session h = sc_session_bytes c" and "header_size \<le> length wire"
    and "\<exists>key. derive_direction_key (sc_root_key c) (sc_transcript c) (fh_epoch h) (sc_receive c) = Inr key \<and>
      part prefix_size header_size wire = hmac_sha256_digest key (take prefix_size wire @ drop header_size wire)"
  using assms by (auto simp: check_frame_def Let_def ebind_eq_Inr)

section \<open>A stream arrives as it was sent\<close>

text \<open>Two ends of one direction.\<close>

definition paired :: "session_channel \<Rightarrow> session_channel \<Rightarrow> bool" where
  "paired a b =
     (sc_root_key b = sc_root_key a \<and> sc_session_bytes b = sc_session_bytes a \<and> sc_transcript b = sc_transcript a \<and>
      sc_receive b = sc_send a \<and> sc_epoch b = sc_epoch a \<and> sc_inbound b \<le> sc_outbound a \<and> 0 \<le> sc_outbound a \<and>
      length (sc_session_bytes a) = 16 \<and> \<not> isl (derive_direction_key (sc_root_key a) (sc_transcript a) (sc_epoch a) (sc_send a)))"

definition sendable :: "session_channel \<Rightarrow> session_channel \<Rightarrow> int \<times> string \<Rightarrow> bool" where
  "sendable a b = (\<lambda>(capability, payload). capability \<in> set (sc_allowed a) \<and> capability \<in> set (sc_allowed b) \<and>
     fits 8 capability \<and> length payload \<le> 4096)"

lemma derive_fits: "derive_direction_key r t e d = Inr k \<Longrightarrow> fits 8 e"
  by (auto simp: derive_direction_key_def ebind_eq_Inr fits_def split: if_splits)

lemma encode_run:
  assumes "paired a b" and "sendable a b (capability, payload)" and "sc_outbound a + 1 < 2 ^ 64"
  obtains wire h where "encode capability payload a = (Inr wire, a\<lparr>sc_outbound := sc_outbound a + 1\<rparr>)"
    and "check_frame b wire = Inr h" and "fh_sequence h = sc_outbound a + 1" and "fh_capability h = capability"
    and "fh_epoch h = sc_epoch a" and "drop header_size wire = payload"
proof -
  let ?a = "a\<lparr>sc_outbound := sc_outbound a + 1\<rparr>"
  let ?h = "header_of ?a capability payload"
  from assms(1) obtain key where key: "derive_direction_key (sc_root_key a) (sc_transcript a) (sc_epoch a) (sc_send a) = Inr key"
    by (cases "derive_direction_key (sc_root_key a) (sc_transcript a) (sc_epoch a) (sc_send a)") (auto simp: paired_def)
  have p: "length payload \<le> 4096" and caps: "capability \<in> set (sc_allowed a)" "capability \<in> set (sc_allowed b)" "fits 8 capability"
    using assms(2) by (auto simp: sendable_def)
  have "fits 8 (sc_outbound a + 1)" "fits 4 (int (length payload))" using assms(1,3) p by (auto simp: fits_def paired_def)
  with derive_fits [OF key] caps(3) obtain prefix where prefix: "pack_prefix ?h = Inr prefix"
    by (simp add: pack_prefix_def header_of_def channel_version_def header_size_def prefix_size_def fits_def)
  have ok: "header_ok ?h" using assms(1) by (simp add: header_ok_def header_of_def paired_def)
  note up = pack_unpack [OF prefix ok]
  define wire where "wire = prefix @ hmac_sha256_digest key (prefix @ payload) @ payload"
  have tk: "take prefix_size wire = prefix" "drop header_size wire = payload" "part prefix_size header_size wire = hmac_sha256_digest key (prefix @ payload)"
    and len: "length wire = header_size + length payload"
    using up(2) by (simp_all add: wire_def header_size_def part_def)
  have "encode capability payload a = (Inr wire, ?a)"
    using caps p key prefix by (simp add: encode_def method_run max_payload_def wire_def)
  moreover have "check_frame b wire = Inr ?h"
    unfolding check_frame_def tk up(1) Let_def
    using assms(1) caps p len key
    by (simp add: header_of_def eguard_def ebind_def paired_def max_payload_def)
  ultimately show ?thesis using that tk(2) by (simp add: header_of_def)
qed

fun encode_all :: "(int \<times> string) list \<Rightarrow> (session_channel, string list) pymethod" where
  "encode_all [] = sreturn []"
| "encode_all (m # ms) = sbind (encode (fst m) (snd m)) (\<lambda>f. sbind (encode_all ms) (\<lambda>fs. sreturn (f # fs)))"

fun decode_all :: "string list \<Rightarrow> (session_channel, decoded_frame list) pymethod" where
  "decode_all [] = sreturn []"
| "decode_all (f # fs) = sbind (decode f) (\<lambda>d. sbind (decode_all fs) (\<lambda>ds. sreturn (d # ds)))"

text \<open>
  Whatever one end of a session sends arrives at the other: for any list of messages within the
  negotiated capabilities and sizes, encoding all of them succeeds, decoding the frames in order
  succeeds, returns the capabilities and payloads that were sent, in order, and leaves the two ends
  paired for the next message.
\<close>

theorem stream_roundtrip:
  assumes "paired a b" and "list_all (sendable a b) ms" and "sc_outbound a + int (length ms) < 2 ^ 64"
  shows "\<exists>frames a' ds b'. encode_all ms a = (Inr frames, a') \<and> decode_all frames b = (Inr ds, b') \<and>
     map (\<lambda>d. (df_capability d, df_payload d)) ds = ms \<and> paired a' b' \<and>
     sc_outbound a' = sc_outbound a + int (length ms) \<and> sc_accepted b' = sc_accepted b + int (length ms)"
  using assms
proof (induction ms arbitrary: a b)
  case Nil
  then show ?case by simp
next
  case (Cons m ms)
  obtain capability payload where m: "m = (capability, payload)" by fastforce
  let ?a = "a\<lparr>sc_outbound := sc_outbound a + 1\<rparr>"
  from Cons.prems m obtain wire h where e: "encode capability payload a = (Inr wire, ?a)" and c: "check_frame b wire = Inr h"
    and h: "fh_sequence h = sc_outbound a + 1" "fh_capability h = capability" "drop header_size wire = payload"
    by (auto elim: encode_run [of a b capability payload])
  let ?b = "b\<lparr>sc_inbound := fh_sequence h, sc_accepted := sc_accepted b + 1\<rparr>"
  have "paired ?a ?b" using Cons.prems(1) h(1) by (simp add: paired_def)
  moreover have "list_all (sendable ?a ?b) ms" using Cons.prems(2) by (simp add: sendable_def)
  moreover have "sc_outbound ?a + int (length ms) < 2 ^ 64" using Cons.prems(3) by simp
  ultimately obtain frames a' ds b' where "encode_all ms ?a = (Inr frames, a')" "decode_all frames ?b = (Inr ds, b')"
      "map (\<lambda>d. (df_capability d, df_payload d)) ds = ms" "paired a' b'"
      "sc_outbound a' = sc_outbound ?a + int (length ms)" "sc_accepted b' = sc_accepted ?b + int (length ms)"
    using Cons.IH by blast
  with e c h m show ?case by (simp add: sbind_run decode_def)
qed

text \<open>Two channels of a demonstration session.\<close>

definition demo_channel :: "string \<Rightarrow> string \<Rightarrow> pyerr + session_channel" where
  "demo_channel send receive = open_channel ''key'' (replicate 32 (CHR ''0'')) (replicate 64 (CHR ''a'')) [1, 2] send receive 1 32"

lemma demo_paired: "paired (projr (demo_channel ''host'' ''guest'')) (projr (demo_channel ''guest'' ''host''))"
proof -
  have "from_hex (replicate 32 (CHR ''0'')) = Inr (replicate 16 (char_of (0 :: int)))" by code_simp
  moreover have "from_hex (replicate 64 (CHR ''a'')) = Inr (replicate 32 (char_of (170 :: int)))" by code_simp
  ultimately show ?thesis
    by (simp add: demo_channel_def open_channel_def session_bytes_def derive_direction_key_def paired_def ecatch_def)
qed

theorem stream_roundtrip_witness:
  "\<exists>frames a' ds b'. encode_all [(1, ''go''), (2, [])] (projr (demo_channel ''host'' ''guest'')) = (Inr frames, a') \<and>
     decode_all frames (projr (demo_channel ''guest'' ''host'')) = (Inr ds, b') \<and> map df_payload ds = [''go'', []]"
proof -
  let ?a = "projr (demo_channel ''host'' ''guest'')" and ?b = "projr (demo_channel ''guest'' ''host'')"
  have "session_bytes (replicate 32 (CHR ''0'')) = Inr (replicate 16 (char_of (0 :: int)))" by code_simp
  moreover have "from_hex (replicate 64 (CHR ''a'')) = Inr (replicate 32 (char_of (170 :: int)))" by code_simp
  ultimately have "sc_allowed ?a = [1, 2]" "sc_allowed ?b = [1, 2]" "sc_outbound ?a = 0"
    by (simp_all add: demo_channel_def open_channel_def derive_direction_key_def)
  then have "list_all (sendable ?a ?b) [(1, ''go''), (2, [])]" "sc_outbound ?a + int (length [(1, ''go''), (2, [])]) < 2 ^ 64"
    by (simp_all add: sendable_def fits_def)
  from stream_roundtrip [OF demo_paired this] show ?thesis by fastforce
qed

section \<open>No frame is accepted twice\<close>

datatype channel_op = Send int string | Receive string | Rotate int

fun run_op :: "channel_op \<Rightarrow> session_channel \<Rightarrow> session_channel" where
  "run_op (Send capability payload) c = sexec (encode capability payload) c"
| "run_op (Receive wire) c = sexec (decode wire) c"
| "run_op (Rotate n) c = sexec (rotate n) c"

text \<open>The frames a channel accepts along a sequence of calls, in order.\<close>

fun accepted_frames :: "channel_op list \<Rightarrow> session_channel \<Rightarrow> string list" where
  "accepted_frames [] c = []"
| "accepted_frames (x # xs) c =
     (case x of Receive wire \<Rightarrow> if isl (sresult (decode wire) c) then [] else [wire] | _ \<Rightarrow> []) @ accepted_frames xs (run_op x c)"

definition frame_sequence :: "string \<Rightarrow> int" where
  "frame_sequence wire = fh_sequence (unpack_prefix (take prefix_size wire))"

definition frame_authentic :: "session_channel \<Rightarrow> string \<Rightarrow> bool" where
  \<comment> \<open>of this session, within its capabilities and tagged with the key of its epoch and direction\<close>
  "frame_authentic c wire =
     (let h = unpack_prefix (take prefix_size wire) in
      fh_session h = sc_session_bytes c \<and> fh_capability h \<in> set (sc_allowed c) \<and>
      (\<exists>key. derive_direction_key (sc_root_key c) (sc_transcript c) (fh_epoch h) (sc_receive c) = Inr key \<and>
         part prefix_size header_size wire = hmac_sha256_digest key (take prefix_size wire @ drop header_size wire)))"

definition identity_of :: "session_channel \<Rightarrow> string \<times> string \<times> string \<times> string \<times> int list" where
  "identity_of c = (sc_root_key c, sc_session_bytes c, sc_transcript c, sc_receive c, sc_allowed c)"

lemma run_op_identity: "identity_of (run_op x c) = identity_of c"
  by (cases x) (auto simp: identity_of_def sexec_def encode_def decode_def rotate_def method_run split: sum.split prod.split)

lemma run_op_inbound: "sc_inbound c \<le> sc_inbound (run_op x c)"
proof (cases x)
  case (Receive wire)
  then show ?thesis
    by (auto simp: sexec_def decode_def split: sum.split dest: check_frame_header(2))
qed (auto simp: sexec_def encode_def rotate_def method_run split: sum.split prod.split)

lemma decode_accepts:
  assumes "\<not> isl (sresult (decode wire) c)"
  shows "sc_inbound c < frame_sequence wire" and "sc_inbound (sexec (decode wire) c) = frame_sequence wire" and "frame_authentic c wire"
proof -
  from assms obtain h where h: "check_frame c wire = Inr h"
    by (auto simp: sresult_def decode_def split: sum.splits)
  note facts = check_frame_header [OF h]
  from facts(1,2) show "sc_inbound c < frame_sequence wire" by (simp add: frame_sequence_def)
  from h facts(1) show "sc_inbound (sexec (decode wire) c) = frame_sequence wire"
    by (simp add: sexec_def decode_def frame_sequence_def)
  from facts(1,3,4,6) show "frame_authentic c wire" by (simp add: frame_authentic_def)
qed

lemma frame_authentic_cong: "identity_of c = identity_of d \<Longrightarrow> frame_authentic c wire = frame_authentic d wire"
  by (simp add: identity_of_def frame_authentic_def)

text \<open>
  C5. Along any sequence of sending, receiving and key rotation, whatever frames an attacker presents,
  the frames a channel accepts have strictly increasing sequence numbers above the last one it had
  seen, so no frame is accepted twice or out of order, and each of them belongs to the session, is
  within the negotiated capabilities and carries the tag of the key derived for its epoch and direction.
\<close>

theorem frames_accepted_once:
  "sorted_wrt (<) (sc_inbound c # map frame_sequence (accepted_frames ops c)) \<and> list_all (frame_authentic c) (accepted_frames ops c)"
proof (induction ops arbitrary: c)
  case Nil
  show ?case by simp
next
  case (Cons x xs)
  let ?c = "run_op x c"
  have a: "list_all (frame_authentic c) (accepted_frames xs ?c)"
    using Cons [of ?c] frame_authentic_cong [OF run_op_identity] by (simp add: list_all_iff)
  show ?case
  proof (cases "\<exists>wire. x = Receive wire \<and> \<not> isl (sresult (decode wire) c)")
    case True
    then obtain wire where "x = Receive wire" "\<not> isl (sresult (decode wire) c)" by blast
    with Cons [of ?c] decode_accepts [of wire c] a show ?thesis by fastforce
  next
    case False
    then have "accepted_frames (x # xs) c = accepted_frames xs ?c" by (auto split: channel_op.split)
    with Cons [of ?c] run_op_inbound [of c x] a show ?thesis by fastforce
  qed
qed

section \<open>A checkpoint restores the channel\<close>

lemma checkpoint_body: "ddel (checkpoint c) ''hmacSha256'' = checkpoint_payload c"
  by (simp add: checkpoint_def checkpoint_payload_def ddel_def)

lemma emap_py_int: "emap py_int (map PInt xs) = Inr xs"
  by (induction xs) (simp_all add: ebind_def)

lemma checkpoint_restores:
  assumes "sc_root_key d = sc_root_key c" and "sc_session_id d = sc_session_id c" and "sc_transcript d = sc_transcript c"
    and "set (sc_allowed d) = set (sc_allowed c)"
  shows "restore_channel (checkpoint c) d =
    (Inr (), d\<lparr>sc_epoch := sc_epoch c, sc_previous_epoch := sc_previous_epoch c, sc_previous_until := sc_previous_until c,
               sc_outbound := sc_outbound c, sc_inbound := sc_inbound c\<rparr>)"
proof -
  have tag: "dgetd (checkpoint c) ''hmacSha256'' (PStr []) = PStr (hmac_sha256_hex (sc_root_key c) (canonical (PDict (checkpoint_payload c))))"
    by (simp add: checkpoint_def dgetd_def)
  have "checkpoint_check (checkpoint c) d = Inr ()"
    unfolding checkpoint_check_def Let_def checkpoint_body tag
    by (simp add: assms ebind_def eguard_def checkpoint_payload_def dgetn_def dgetd_def dget_def py_iter_def ints_def emap_py_int)
  then show ?thesis
    unfolding restore_channel_def Let_def checkpoint_body
    by (simp add: method_run restore_int_def checkpoint_payload_def dindex_def dget_def ebind_def)
qed

end
