(* ===== verification/Punch_Capture.thy ===== *)
theory Punch_Capture
  imports Py_Monad
begin

text \<open>
  \<^verbatim>\<open>src/backend/punch_capture.py\<close>: the gate that selects, from the blocks a capture adapter delivers,
  the frames between punch-in and punch-out, cut at the boundaries of loop passes.  The loop of
  \<open>select\<close> is a partial function: it is proved to end for every gate the constructor builds.
\<close>

section \<open>The gate\<close>

record capture_slice =
  cs_offset :: int
  cs_frames :: int
  cs_start :: int
  cs_pass :: int

record punch_gate =
  pg_generation :: int
  pg_punch_in :: int
  pg_pre_roll :: int
  pg_latency :: int
  pg_loop_start :: "int option"
  pg_loop_end :: "int option"
  pg_maximum_passes :: int
  pg_capture_start :: int
  pg_capture_end :: "int option"
  pg_selected :: int
  pg_discarded :: int
  pg_stale :: int
  pg_passes :: "int list"
  pg_complete :: bool

definition max_pre_roll_frames :: int where
  "max_pre_roll_frames = 65536"

definition max_loop_passes :: int where
  "max_loop_passes = 128"

definition loop_range_ok :: "int option \<Rightarrow> int option \<Rightarrow> bool" where
  "loop_range_ok loop_start loop_end =
     (case (loop_start, loop_end) of
        (None, None) \<Rightarrow> True
      | (Some a, Some b) \<Rightarrow> 0 \<le> a \<and> a < b
      | _ \<Rightarrow> False)"

definition capture_end_of :: "int option \<Rightarrow> int option \<Rightarrow> int option \<Rightarrow> int \<Rightarrow> int option" where
  "capture_end_of loop_start loop_end punch_out passes =
     (case (loop_start, loop_end) of (Some a, Some b) \<Rightarrow> Some (a + (b - a) * passes) | _ \<Rightarrow> punch_out)"

definition open_gate ::
    "int \<Rightarrow> int \<Rightarrow> int option \<Rightarrow> int \<Rightarrow> int \<Rightarrow> int option \<Rightarrow> int option \<Rightarrow> int \<Rightarrow> pyerr + punch_gate" where
  "open_gate generation punch_in punch_out pre_roll latency loop_start loop_end passes =
     ebind (eguard (1 \<le> generation) (ValueError ''capture generation must be positive'')) (\<lambda>_.
     ebind (eguard (0 \<le> pre_roll \<and> pre_roll \<le> max_pre_roll_frames) (ValueError ''pre-roll exceeds bounded capacity'')) (\<lambda>_.
     ebind (eguard (0 \<le> latency \<and> latency \<le> max_pre_roll_frames)
       (ValueError ''latency compensation exceeds bounded capacity'')) (\<lambda>_.
     ebind (eguard (0 \<le> punch_in \<and> (case punch_out of None \<Rightarrow> True | Some b \<Rightarrow> punch_in < b)) (ValueError ''invalid punch range'')) (\<lambda>_.
     ebind (eguard (loop_range_ok loop_start loop_end) (ValueError ''invalid loop capture range'')) (\<lambda>_.
     ebind (eguard (1 \<le> passes \<and> passes \<le> max_loop_passes) (ValueError ''loop capture pass count is out of range'')) (\<lambda>_.
     Inr \<lparr>pg_generation = generation, pg_punch_in = punch_in, pg_pre_roll = pre_roll, pg_latency = latency,
          pg_loop_start = loop_start, pg_loop_end = loop_end, pg_maximum_passes = passes,
          pg_capture_start = max 0 (punch_in - pre_roll),
          pg_capture_end = capture_end_of loop_start loop_end punch_out passes,
          pg_selected = 0, pg_discarded = 0, pg_stale = 0, pg_passes = [], pg_complete = False\<rparr>))))))"

section \<open>Selecting frames\<close>

text \<open>The pass and the end of the slice that starts at the cursor; the pass is recorded inside the loop
  range only.\<close>

definition slice_step :: "int option \<Rightarrow> int option \<Rightarrow> int \<Rightarrow> int \<Rightarrow> int \<times> int \<times> bool" where
  "slice_step loop_start loop_end finish cursor =
     (case (loop_start, loop_end) of
        (Some a, Some b) \<Rightarrow>
          if cursor < a then (0, min finish a, False)
          else (let len = b - a; loop_pass = (cursor - a) div len in
                (loop_pass, min finish (a + (loop_pass + 1) * len), True))
      | _ \<Rightarrow> (0, finish, False))"

definition add_pass :: "int \<Rightarrow> int list \<Rightarrow> int list" where
  "add_pass p ps = (if p \<in> set ps then ps else ps @ [p])"

partial_function (option) slice_loop ::
    "int option \<Rightarrow> int option \<Rightarrow> int \<Rightarrow> int \<Rightarrow> int \<Rightarrow> capture_slice list \<Rightarrow> int list \<Rightarrow> (capture_slice list \<times> int list) option" where
  "slice_loop loop_start loop_end start finish cursor slices passes =
     (if cursor < finish then
        (let (loop_pass, boundary, looped) = slice_step loop_start loop_end finish cursor in
         slice_loop loop_start loop_end start finish boundary
           (slices @ [\<lparr>cs_offset = cursor - start, cs_frames = boundary - cursor, cs_start = cursor, cs_pass = loop_pass\<rparr>])
           (if looped then add_pass loop_pass passes else passes))
      else Some (slices, passes))"

record capture_block =
  cb_generation :: int
  cb_frames :: int
  cb_show_frame :: int

definition read_block :: "punch_gate \<Rightarrow> pydict \<Rightarrow> pyerr + capture_block" where
  "read_block g block =
     ebind (get_int block ''generation'' (PInt (pg_generation g))) (\<lambda>generation.
     if generation \<noteq> pg_generation g then Inr \<lparr>cb_generation = generation, cb_frames = 0, cb_show_frame = 0\<rparr>
     else
       ebind (get_int block ''frames'' (PInt 0)) (\<lambda>frames.
       ebind (get_int block ''showFrame'' (PInt 0)) (\<lambda>raw_start.
       Inr \<lparr>cb_generation = generation, cb_frames = frames, cb_show_frame = raw_start\<rparr>)))"

definition block_start :: "punch_gate \<Rightarrow> capture_block \<Rightarrow> int" where
  "block_start g b = max 0 (cb_show_frame b - pg_latency g)"

definition block_end :: "punch_gate \<Rightarrow> capture_block \<Rightarrow> int" where
  "block_end g b = block_start g b + cb_frames b"

definition window_begin :: "punch_gate \<Rightarrow> capture_block \<Rightarrow> int" where
  "window_begin g b = max (block_start g b) (pg_capture_start g)"

definition window_finish :: "punch_gate \<Rightarrow> capture_block \<Rightarrow> int" where
  "window_finish g b = min (block_end g b) (case pg_capture_end g of Some e \<Rightarrow> e | None \<Rightarrow> block_end g b)"

definition reached_end :: "punch_gate \<Rightarrow> capture_block \<Rightarrow> bool" where
  "reached_end g b = (case pg_capture_end g of Some e \<Rightarrow> e \<le> block_end g b | None \<Rightarrow> False)"

definition select_block :: "capture_block \<Rightarrow> punch_gate \<Rightarrow> (capture_slice list \<times> punch_gate) option" where
  "select_block b g =
     (let begin = window_begin g b; finish = window_finish g b in
      if finish \<le> begin then
        Some ([], g\<lparr>pg_discarded := pg_discarded g + cb_frames b, pg_complete := reached_end g b\<rparr>)
      else
        (case slice_loop (pg_loop_start g) (pg_loop_end g) (block_start g b) finish begin [] (pg_passes g) of
           None \<Rightarrow> None
         | Some (slices, passes) \<Rightarrow>
             let selected = sum_list (map cs_frames slices) in
             Some (slices, g\<lparr>pg_passes := passes, pg_selected := pg_selected g + selected,
                             pg_discarded := pg_discarded g + (cb_frames b - selected), pg_complete := reached_end g b\<rparr>)))"

text \<open>A call that does not return is \<open>None\<close>.\<close>

definition select :: "pydict \<Rightarrow> punch_gate \<Rightarrow> ((pyerr + capture_slice list) \<times> punch_gate) option" where
  "select block g =
     (case read_block g block of
        Inl e \<Rightarrow> Some (Inl e, g)
      | Inr b \<Rightarrow>
          if cb_generation b \<noteq> pg_generation g then Some (Inr [], g\<lparr>pg_stale := pg_stale g + 1\<rparr>)
          else map_option (\<lambda>(slices, g'). (Inr slices, g')) (select_block b g))"

definition gate_status :: "punch_gate \<Rightarrow> pydict" where
  "gate_status g =
     (let opt = (\<lambda>x. case x of Some i \<Rightarrow> PInt i | None \<Rightarrow> PNone) in
      [(''generation'', PInt (pg_generation g)), (''punchInFrame'', PInt (pg_punch_in g)), (''punchOutFrame'', opt (pg_capture_end g)),
       (''captureStartFrame'', PInt (pg_capture_start g)), (''preRollFrames'', PInt (pg_pre_roll g)),
       (''latencyCompensationFrames'', PInt (pg_latency g)), (''loopStartFrame'', opt (pg_loop_start g)),
       (''loopEndFrame'', opt (pg_loop_end g)), (''maximumPasses'', PInt (pg_maximum_passes g)),
       (''completedPasses'', PInt (int (length (pg_passes g)))), (''selectedFrames'', PInt (pg_selected g)),
       (''discardedFrames'', PInt (pg_discarded g)), (''staleBlocks'', PInt (pg_stale g)),
       (''punchComplete'', PBool (pg_complete g)), (''frameDomain'', PStr ''capture-adapter''), (''physicalOutputsArmed'', PBool False)])"

section \<open>The loop ends and tiles the window\<close>

definition passes_ok :: "int \<Rightarrow> int list \<Rightarrow> bool" where
  "passes_ok n ps = (distinct ps \<and> (\<forall>p \<in> set ps. 0 \<le> p \<and> p < n))"

definition gate_ok :: "punch_gate \<Rightarrow> bool" where
  "gate_ok g =
     (loop_range_ok (pg_loop_start g) (pg_loop_end g) \<and> 1 \<le> pg_maximum_passes g \<and> 0 \<le> pg_capture_start g \<and>
      (case (pg_loop_start g, pg_loop_end g) of
         (Some a, Some b) \<Rightarrow> pg_capture_end g = Some (a + (b - a) * pg_maximum_passes g)
       | _ \<Rightarrow> True) \<and>
      passes_ok (pg_maximum_passes g) (pg_passes g))"

lemma gate_ok_updates [simp]:
  "gate_ok (g\<lparr>pg_selected := i\<rparr>) = gate_ok g" "gate_ok (g\<lparr>pg_discarded := i\<rparr>) = gate_ok g"
  "gate_ok (g\<lparr>pg_complete := c\<rparr>) = gate_ok g"
  by (simp_all add: gate_ok_def split: option.split)

lemma gate_ok_passes: "gate_ok g \<Longrightarrow> passes_ok (pg_maximum_passes g) ps \<Longrightarrow> gate_ok (g\<lparr>pg_passes := ps\<rparr>)"
  by (simp add: gate_ok_def split: option.splits)

lemma open_gate_ok: "open_gate generation punch_in punch_out pre_roll latency ls le passes = Inr g \<Longrightarrow> gate_ok g"
  by (auto simp: open_gate_def ebind_eq_Inr gate_ok_def loop_range_ok_def capture_end_of_def passes_ok_def split: option.splits)

text \<open>The slices follow each other from one frame to another, each at its offset in the block.\<close>

fun tiles :: "int \<Rightarrow> int \<Rightarrow> int \<Rightarrow> capture_slice list \<Rightarrow> bool" where
  "tiles start a b [] = (a = b)"
| "tiles start a b (s # ss) =
     (cs_start s = a \<and> cs_offset s = a - start \<and> 0 < cs_frames s \<and> tiles start (a + cs_frames s) b ss)"

definition in_pass :: "int option \<Rightarrow> int option \<Rightarrow> capture_slice \<Rightarrow> bool" where
  \<comment> \<open>a slice lies before the loop range or within one pass of it\<close>
  "in_pass ls le s =
     (case (ls, le) of
        (Some a, Some b) \<Rightarrow>
          cs_start s + cs_frames s \<le> a \<and> cs_pass s = 0 \<or>
          a + cs_pass s * (b - a) \<le> cs_start s \<and> cs_start s + cs_frames s \<le> a + (cs_pass s + 1) * (b - a)
      | _ \<Rightarrow> cs_pass s = 0)"

lemma tiles_append: "tiles start a b ss \<Longrightarrow> tiles start b c ss' \<Longrightarrow> tiles start a c (ss @ ss')"
  by (induction ss arbitrary: a) auto

lemma tiles_sum: "tiles start a b ss \<Longrightarrow> sum_list (map cs_frames ss) = b - a"
  by (induction ss arbitrary: a) fastforce+

lemma div_bounds: "0 < (len :: int) \<Longrightarrow> x div len * len \<le> x \<and> x < (x div len + 1) * len"
proof -
  assume len: "0 < len"
  have "x = x div len * len + x mod len" by simp
  with len have "x div len * len \<le> x" "x < x div len * len + len"
    using pos_mod_bound [of len x] pos_mod_sign [of len x] by linarith+
  then show ?thesis by (simp add: distrib_right)
qed

lemma slice_step_ok:
  assumes "loop_range_ok ls le" and "cursor < finish" and "slice_step ls le finish cursor = (p, boundary, looped)"
  shows "cursor < boundary \<and> boundary \<le> finish \<and>
    in_pass ls le \<lparr>cs_offset = cursor - start, cs_frames = boundary - cursor, cs_start = cursor, cs_pass = p\<rparr>"
proof (cases "\<exists>a b. ls = Some a \<and> le = Some b \<and> a \<le> cursor")
  case True
  then obtain a b where ab: "ls = Some a" "le = Some b" "a \<le> cursor" by blast
  with assms have len: "0 < b - a" and p: "p = (cursor - a) div (b - a)" and bd: "boundary = min finish (a + (p + 1) * (b - a))"
    by (auto simp: loop_range_ok_def slice_step_def Let_def)
  from div_bounds [OF len, of "cursor - a"] have "a + p * (b - a) \<le> cursor" "cursor < a + (p + 1) * (b - a)"
    unfolding p by linarith+
  with assms(2) bd ab show ?thesis by (simp add: in_pass_def)
next
  case False
  with assms show ?thesis
    by (auto simp: loop_range_ok_def slice_step_def in_pass_def split: option.splits)
qed

lemma slice_step_pass:
  assumes "loop_range_ok ls le" and "slice_step ls le finish cursor = (p, boundary, True)" and "cursor < finish"
    and "\<And>a b. ls = Some a \<Longrightarrow> le = Some b \<Longrightarrow> finish \<le> a + (b - a) * n"
  shows "0 \<le> p \<and> p < n"
proof -
  from assms(2) obtain a b where ab: "ls = Some a" "le = Some b" "a \<le> cursor" and p: "p = (cursor - a) div (b - a)"
    by (auto simp: slice_step_def Let_def split: option.splits if_splits)
  with assms(1) have len: "0 < b - a" by (simp add: loop_range_ok_def)
  from assms(3,4) ab have "cursor - a < n * (b - a)" by (fastforce simp: mult.commute)
  with div_bounds [OF len, of "cursor - a"] have "p * (b - a) < n * (b - a)" unfolding p by linarith
  with len have "p < n" by simp
  moreover have "0 \<le> p" unfolding p using ab(3) len by (simp add: pos_imp_zdiv_nonneg_iff)
  ultimately show ?thesis by simp
qed

lemma add_pass_ok: "passes_ok n ps \<Longrightarrow> 0 \<le> p \<Longrightarrow> p < n \<Longrightarrow> passes_ok n (add_pass p ps)"
  by (auto simp: passes_ok_def add_pass_def)

lemma slice_loop_ends:
  assumes range: "loop_range_ok ls le" and last_pass: "\<And>a b. ls = Some a \<Longrightarrow> le = Some b \<Longrightarrow> finish \<le> a + (b - a) * n"
  shows "cursor \<le> finish \<Longrightarrow> tiles start begin cursor ss \<Longrightarrow> list_all (in_pass ls le) ss \<Longrightarrow> passes_ok n ps \<Longrightarrow>
    \<exists>ss' ps'. slice_loop ls le start finish cursor ss ps = Some (ss', ps') \<and> tiles start begin finish ss' \<and>
      list_all (in_pass ls le) ss' \<and> passes_ok n ps'"
proof (induction "nat (finish - cursor)" arbitrary: cursor ss ps rule: less_induct)
  case less
  show ?case
  proof (cases "cursor < finish")
    case False
    with less.prems show ?thesis by (subst slice_loop.simps) auto
  next
    case True
    obtain p boundary looped where st: "slice_step ls le finish cursor = (p, boundary, looped)" by (metis prod_cases3)
    let ?s = "\<lparr>cs_offset = cursor - start, cs_frames = boundary - cursor, cs_start = cursor, cs_pass = p\<rparr>"
    let ?ps = "if looped then add_pass p ps else ps"
    from slice_step_ok [OF range True st, of start]
    have b: "cursor < boundary" "boundary \<le> finish" "in_pass ls le ?s" by auto
    have "passes_ok n ?ps"
      using less.prems(4) slice_step_pass [OF range _ True last_pass, of p boundary] st by (auto intro: add_pass_ok)
    moreover have "tiles start begin boundary (ss @ [?s])"
      using less.prems(2) b(1) by (intro tiles_append) auto
    moreover have "list_all (in_pass ls le) (ss @ [?s])" using less.prems(3) b(3) by simp
    ultimately have "\<exists>ss' ps'. slice_loop ls le start finish boundary (ss @ [?s]) ?ps = Some (ss', ps') \<and>
        tiles start begin finish ss' \<and> list_all (in_pass ls le) ss' \<and> passes_ok n ps'"
      using b by (intro less.hyps) auto
    then show ?thesis using True st by (subst slice_loop.simps) simp
  qed
qed

section \<open>The gate selects exactly the window\<close>

text \<open>
  C6. Selecting from a block of the current generation always returns, for every gate the
  constructor builds: the slices tile, without gap or overlap and each at its offset in the block, exactly the
  frames of the block that lie in the capture window, no slice crosses the boundary of a loop
  pass, every frame of the block is counted once as selected or discarded, and the gate stays
  valid, with its passes below the configured maximum.
\<close>

theorem punch_capture_exact:
  assumes "gate_ok g" and "read_block g block = Inr b" and "cb_generation b = pg_generation g"
  shows "\<exists>slices g'. select block g = Some (Inr slices, g') \<and>
     (if window_begin g b < window_finish g b
      then tiles (block_start g b) (window_begin g b) (window_finish g b) slices else slices = []) \<and>
     list_all (in_pass (pg_loop_start g) (pg_loop_end g)) slices \<and>
     pg_selected g' = pg_selected g + sum_list (map cs_frames slices) \<and>
     pg_selected g' + pg_discarded g' = pg_selected g + pg_discarded g + cb_frames b \<and> gate_ok g'"
proof (cases "window_finish g b \<le> window_begin g b")
  case True
  with assms show ?thesis by (simp add: select_def select_block_def)
next
  case False
  let ?n = "pg_maximum_passes g"
  have range: "loop_range_ok (pg_loop_start g) (pg_loop_end g)" and ps: "passes_ok ?n (pg_passes g)"
    using assms(1) by (auto simp: gate_ok_def)
  have "window_finish g b \<le> x + (y - x) * ?n" if "pg_loop_start g = Some x" "pg_loop_end g = Some y" for x y
    using assms(1) that by (simp add: gate_ok_def window_finish_def)
  from slice_loop_ends [OF range this, of "window_begin g b" "block_start g b" "window_begin g b" "[]" "pg_passes g"] False ps
  obtain slices passes where l: "slice_loop (pg_loop_start g) (pg_loop_end g) (block_start g b) (window_finish g b) (window_begin g b) [] (pg_passes g)
      = Some (slices, passes)" "tiles (block_start g b) (window_begin g b) (window_finish g b) slices"
    "list_all (in_pass (pg_loop_start g) (pg_loop_end g)) slices" "passes_ok ?n passes"
    by auto
  with assms False show ?thesis
    by (auto simp: select_def select_block_def Let_def gate_ok_passes)
qed

definition demo_gate :: punch_gate where
  "demo_gate = projr (open_gate 1 4 None 2 0 (Some 10) (Some 14) 3)"

theorem punch_capture_exact_witness:
  "\<exists>slices g'. select [(''frames'', PInt 20), (''showFrame'', PInt 0)] demo_gate = Some (Inr slices, g') \<and> sum_list (map cs_frames slices) = 18 \<and> gate_ok g'"
proof -
  let ?b = "\<lparr>cb_generation = 1, cb_frames = 20, cb_show_frame = 0\<rparr>"
  have "\<not> isl (open_gate 1 4 None 2 0 (Some 10) (Some 14) 3)" by code_simp
  then have "open_gate 1 4 None 2 0 (Some 10) (Some 14) 3 = Inr demo_gate" by (simp add: demo_gate_def)
  then have ok: "gate_ok demo_gate" by (rule open_gate_ok)
  have b: "read_block demo_gate [(''frames'', PInt 20), (''showFrame'', PInt 0)] = Inr ?b"
    "cb_generation ?b = pg_generation demo_gate" "window_begin demo_gate ?b = 2" "window_finish demo_gate ?b = 20"
    by code_simp+
  from punch_capture_exact [OF ok b(1,2)] show ?thesis using tiles_sum b(3,4) by fastforce
qed

end
