(* ===== verification/Handoff.thy ===== *)
theory Handoff
  imports Py_Monad
begin

text \<open>
  \<^verbatim>\<open>src/backend/handoff.py\<close>: the handoff policy and its normalisation, the registry of execution
  evidence that standby adapters report, and the decision whether a standby may take over.  A
  normalised policy, live input or source is a record; \<open>policy_dict\<close> and its companions give the
  dictionary the source keeps.
\<close>

section \<open>Policies\<close>

record handoff_policy =
  hp_max_replica_age :: int
  hp_max_local_lag :: pyfloat
  hp_required_prebuffer :: pyfloat
  hp_status_fresh :: int
  hp_require_cursor :: bool
  hp_require_live :: bool
  hp_require_sources :: bool
  hp_allow_authority_only :: bool

definition default_handoff_policy :: handoff_policy where
  "default_handoff_policy =
     \<lparr>hp_max_replica_age = 2500, hp_max_local_lag = Fin 20, hp_required_prebuffer = Fin 250,
      hp_status_fresh = 2000, hp_require_cursor = True, hp_require_live = True,
      hp_require_sources = True, hp_allow_authority_only = True\<rparr>"

definition policy_dict :: "handoff_policy \<Rightarrow> pydict" where
  "policy_dict p =
     [(''maxReplicaAgeMs'', PInt (hp_max_replica_age p)), (''maxLocalLagMs'', PFloat (hp_max_local_lag p)),
      (''requiredPrebufferMs'', PFloat (hp_required_prebuffer p)),
      (''executionStatusFreshMs'', PInt (hp_status_fresh p)),
      (''requireProgramCursor'', PBool (hp_require_cursor p)),
      (''requireDuplicatedLiveInputs'', PBool (hp_require_live p)),
      (''requireDeclaredDeterministicSources'', PBool (hp_require_sources p)),
      (''allowAuthorityTransferWhenProgramNotReady'', PBool (hp_allow_authority_only p))]"

definition normalize_policy :: "pyval \<Rightarrow> pyerr + handoff_policy" where
  "normalize_policy raw0 =
     (let raw = dict_of raw0; d = default_handoff_policy in
      ebind (get_int raw ''maxReplicaAgeMs'' (PInt (hp_max_replica_age d))) (\<lambda>age.
      ebind (get_float raw ''maxLocalLagMs'' (PFloat (hp_max_local_lag d))) (\<lambda>lag.
      ebind (get_float raw ''requiredPrebufferMs'' (PFloat (hp_required_prebuffer d))) (\<lambda>pre.
      ebind (get_int raw ''executionStatusFreshMs'' (PInt (hp_status_fresh d))) (\<lambda>fresh.
      Inr \<lparr>hp_max_replica_age = iclamp 100 60000 age, hp_max_local_lag = clamp lag (Fin 0) (Fin 5000),
           hp_required_prebuffer = clamp pre (Fin 0) (Fin 10000), hp_status_fresh = iclamp 100 60000 fresh,
           hp_require_cursor = get_bool raw ''requireProgramCursor'' (hp_require_cursor d),
           hp_require_live = get_bool raw ''requireDuplicatedLiveInputs'' (hp_require_live d),
           hp_require_sources = get_bool raw ''requireDeclaredDeterministicSources'' (hp_require_sources d),
           hp_allow_authority_only =
             get_bool raw ''allowAuthorityTransferWhenProgramNotReady'' (hp_allow_authority_only d)\<rparr>)))))"

section \<open>Live inputs and sources\<close>

record live_input =
  li_slot :: nat
  li_mode :: string
  li_ready :: bool
  li_source :: string
  li_latency :: pyfloat

definition live_input_dict :: "live_input \<Rightarrow> pydict" where
  "live_input_dict i =
     [(''slot'', PInt (int (li_slot i))), (''mode'', PStr (li_mode i)), (''ready'', PBool (li_ready i)),
      (''sourceId'', PStr (li_source i)), (''latencyMs'', PFloat (li_latency i))]"

definition default_live_input :: "nat \<Rightarrow> live_input" where
  "default_live_input slot = \<lparr>li_slot = slot, li_mode = ''none'', li_ready = False, li_source = [], li_latency = Fin 0\<rparr>"

definition default_live_input_redundancy :: "live_input list" where
  "default_live_input_redundancy = map default_live_input [0, 1, 2, 3]"

definition live_redundancy_modes :: "string list" where
  "live_redundancy_modes = [''none'', ''split'', ''network'']"

definition normalize_live_input :: "nat \<Rightarrow> pydict \<Rightarrow> pyerr + live_input" where
  "normalize_live_input slot item =
     (let mode0 = py_lower (strip (py_str (dgetd item ''mode'' (PStr ''none''))));
          mode = (if mode0 \<in> set live_redundancy_modes then mode0 else ''none'');
          source_id = clean_str 96 (dgetd item ''sourceId'' (PStr [])) in
      ebind (ecatch is_type_or_value
               (ebind (get_float item ''latencyMs'' (PFloat (Fin 0))) (\<lambda>f. Inr (clamp f (Fin 0) (Fin 5000))))
               (Inr (Fin 0))) (\<lambda>latency.
      Inr \<lparr>li_slot = slot, li_mode = mode,
           li_ready = (get_bool item ''ready'' False \<and> mode \<in> {''split'', ''network''} \<and> source_id \<noteq> []),
           li_source = source_id, li_latency = latency\<rparr>))"

text \<open>\<open>int(item.get("slot", -1))\<close> under \<open>except (TypeError, ValueError): continue\<close>, and the range
  test: \<open>None\<close> is the \<open>continue\<close>.\<close>

definition slot_of :: "pydict \<Rightarrow> pyerr + nat option" where
  "slot_of item =
     (case get_int item ''slot'' (PInt (-1)) of
        Inl e \<Rightarrow> if is_type_or_value e then Inr None else Inl e
      | Inr i \<Rightarrow> Inr (if 0 \<le> i \<and> i < 4 then Some (nat i) else None))"

definition live_input_step :: "pyval \<Rightarrow> live_input list \<Rightarrow> pyerr + live_input list" where
  \<comment> \<open>the body of the loop\<close>
  "live_input_step item result =
     (case item of
        PDict d \<Rightarrow> ebind (slot_of d) (\<lambda>slot. case slot of
            None \<Rightarrow> Inr result
          | Some k \<Rightarrow> ebind (normalize_live_input k d) (\<lambda>i. Inr (result[k := i])))
      | _ \<Rightarrow> Inr result)"

definition normalize_live_inputs :: "pyval \<Rightarrow> pyerr + live_input list" where
  "normalize_live_inputs raw =
     (case raw of
        PList items \<Rightarrow> efold live_input_step items default_live_input_redundancy
      | _ \<Rightarrow> Inr default_live_input_redundancy)"

record deterministic_source =
  ds_id :: string
  ds_kind :: string
  ds_required :: bool
  ds_shadow_capable :: bool
  ds_asset_ready :: bool
  ds_hash :: string

definition source_dict :: "deterministic_source \<Rightarrow> pydict" where
  "source_dict s =
     [(''id'', PStr (ds_id s)), (''kind'', PStr (ds_kind s)), (''required'', PBool (ds_required s)),
      (''shadowCapable'', PBool (ds_shadow_capable s)), (''localAssetReady'', PBool (ds_asset_ready s)),
      (''contentHash'', PStr (ds_hash s))]"

definition source_kinds :: "string list" where
  "source_kinds = [''track'', ''plugin'', ''sequence'', ''generator'', ''other'']"

definition normalize_source :: "string \<Rightarrow> pydict \<Rightarrow> deterministic_source" where
  "normalize_source source_id item =
     (let kind = py_lower (strip (py_str (dgetd item ''kind'' (PStr ''other'')))) in
      \<lparr>ds_id = source_id, ds_kind = (if kind \<in> set source_kinds then kind else ''other''),
       ds_required = get_bool item ''required'' True,
       ds_shadow_capable = get_bool item ''shadowCapable'' False,
       ds_asset_ready = get_bool item ''localAssetReady'' False,
       ds_hash = clean_str 128 (dgetd item ''contentHash'' (PStr []))\<rparr>)"

fun collect_sources :: "pyval list \<Rightarrow> string list \<Rightarrow> deterministic_source list" where
  "collect_sources [] seen = []"
| "collect_sources (PDict item # rest) seen =
     (let source_id = clean_str 96 (dgetd item ''id'' (PStr [])) in
      if source_id = [] \<or> source_id \<in> set seen then collect_sources rest seen
      else normalize_source source_id item # collect_sources rest (source_id # seen))"
| "collect_sources (_ # rest) seen = collect_sources rest seen"

definition normalize_deterministic_sources :: "pyval \<Rightarrow> deterministic_source list" where
  "normalize_deterministic_sources raw =
     (case raw of PList items \<Rightarrow> collect_sources (take 32 items) [] | _ \<Rightarrow> [])"

section \<open>Execution evidence\<close>

record shadow_row =
  sr_source :: string
  sr_from :: "int option"
  sr_until :: int
  sr_hash :: string
  sr_healthy :: bool
  sr_frames :: int
  sr_discontinuities :: int
  sr_verified :: bool
  sr_reported_at :: rat

record live_row =
  lr_slot :: int
  lr_source :: string
  lr_healthy :: bool
  lr_latency :: pyfloat
  lr_first :: "int option"
  lr_last :: "int option"
  lr_frames :: int
  lr_sequence :: "int option"
  lr_discontinuities :: int
  lr_verified :: bool
  lr_reported_at :: rat

record execution_registry =
  er_shadow :: "(string \<times> shadow_row) list"
  er_live :: "(int \<times> live_row) list"

definition registry_init :: execution_registry where
  "registry_init = \<lparr>er_shadow = [], er_live = []\<rparr>"

fun aget :: "('k \<times> 'v) list \<Rightarrow> 'k \<Rightarrow> 'v option" where
  "aget [] k = None"
| "aget ((k', v) # d) k = (if k' = k then Some v else aget d k)"

fun aset :: "('k \<times> 'v) list \<Rightarrow> 'k \<Rightarrow> 'v \<Rightarrow> ('k \<times> 'v) list" where
  "aset [] k v = [(k, v)]"
| "aset ((k', v') # d) k v = (if k' = k then (k, v) # d else (k', v') # aset d k v)"

lemma aget_aset [simp]: "aget (aset d k v) k' = (if k' = k then Some v else aget d k')"
  by (induction d k v rule: aset.induct) auto

definition age_ms :: "rat \<Rightarrow> rat \<Rightarrow> int" where
  "age_ms now since = rtrunc (max 0 (now - since) * 1000)"

definition opt_nonneg :: "pyval \<Rightarrow> pyerr + int option" where
  \<comment> \<open>\<open>None if v is None else max(0, int(v))\<close>\<close>
  "opt_nonneg v = (if v = PNone then Inr None else ebind (py_int v) (\<lambda>i. Inr (Some (max 0 i))))"

definition shadow_dict :: "rat \<Rightarrow> shadow_row \<Rightarrow> pydict" where
  "shadow_dict now r =
     [(''sourceId'', PStr (sr_source r)), (''contiguousFromShowNs'', opt_int (sr_from r)),
      (''bufferedUntilShowNs'', PInt (sr_until r)), (''contentHash'', PStr (sr_hash r)),
      (''healthy'', PBool (sr_healthy r)), (''renderedFrames'', PInt (sr_frames r)),
      (''discontinuities'', PInt (sr_discontinuities r)), (''executionVerified'', PBool (sr_verified r)),
      (''evidenceType'', PStr (if sr_verified r then ''rendered-block'' else ''reported-horizon'')),
      (''ageMs'', PInt (age_ms now (sr_reported_at r)))]"

definition live_dict :: "rat \<Rightarrow> live_row \<Rightarrow> pydict" where
  "live_dict now r =
     [(''slot'', PInt (lr_slot r)), (''sourceId'', PStr (lr_source r)), (''healthy'', PBool (lr_healthy r)),
      (''latencyMs'', PFloat (lr_latency r)), (''firstShowNs'', opt_int (lr_first r)),
      (''lastShowNs'', opt_int (lr_last r)), (''observedFrames'', PInt (lr_frames r)),
      (''sequence'', opt_int (lr_sequence r)), (''discontinuities'', PInt (lr_discontinuities r)),
      (''executionVerified'', PBool (lr_verified r)),
      (''evidenceType'', PStr (if lr_verified r then ''duplicated-feed-block'' else ''feed-health-report'')),
      (''ageMs'', PInt (age_ms now (lr_reported_at r)))]"

definition registry_snapshot :: "rat \<Rightarrow> execution_registry \<Rightarrow> pydict" where
  "registry_snapshot now r =
     [(''shadowSources'', PList (map (PDict \<circ> shadow_dict now) (sort_key sr_source (map snd (er_shadow r))))),
      (''liveInputs'', PList (map (PDict \<circ> live_dict now) (sort_key lr_slot (map snd (er_live r)))))]"

text \<open>How a verified block joins what was verified before: it extends the buffered range, lies
  within it, or breaks it.\<close>

definition shadow_join :: "shadow_row option \<Rightarrow> int \<Rightarrow> int \<Rightarrow> int \<Rightarrow> int option \<times> int \<times> int \<times> int \<times> bool" where
  "shadow_join previous start until frames =
     (case previous of
        Some p \<Rightarrow>
          if sr_verified p then
            (let from = (case sr_from p of Some f \<Rightarrow> f | None \<Rightarrow> start) in
             if start = sr_until p then (Some from, until, frames + sr_frames p, sr_discontinuities p, True)
             else if from \<le> start \<and> until \<le> sr_until p
             then (Some from, sr_until p, frames + sr_frames p, sr_discontinuities p, True)
             else (Some start, until, frames, sr_discontinuities p + 1, False))
          else (Some start, until, frames, sr_discontinuities p, True)
      | None \<Rightarrow> (Some start, until, frames, 0, True))"

definition report_shadow ::
    "rat \<Rightarrow> rat \<Rightarrow> pyval \<Rightarrow> pyval \<Rightarrow> pyval \<Rightarrow> bool \<Rightarrow> pyval \<Rightarrow> pyval \<Rightarrow> (execution_registry, pydict) pymethod" where
  "report_shadow now now' source_id0 buffered_until content_hash healthy start_show rendered_frames =
     (let source_id = clean_str 96 source_id0 in
      sthen (sguard (source_id \<noteq> []) (ValueError ''shadow source id required''))
     (sbind (slift (ebind (py_int buffered_until) (\<lambda>i. Inr (max 0 i)))) (\<lambda>until.
      sbind (slift (opt_nonneg start_show)) (\<lambda>start.
      sbind (slift (ebind (py_int rendered_frames) (\<lambda>i. Inr (max 0 i)))) (\<lambda>frames.
      sbind (sgets (\<lambda>r. aget (er_shadow r) source_id)) (\<lambda>previous.
      let verified = (case start of None \<Rightarrow> False | Some s \<Rightarrow> s < until \<and> 0 < frames \<and> healthy);
          (from, until', frames', disc, verified') =
            (if verified then shadow_join previous (the start) until frames
             else (None, until, frames, (case previous of None \<Rightarrow> 0 | Some p \<Rightarrow> sr_discontinuities p), False)) in
      sthen (smodify (\<lambda>r. r\<lparr>er_shadow := aset (er_shadow r) source_id
              \<lparr>sr_source = source_id, sr_from = from, sr_until = until', sr_hash = clean_str 128 content_hash,
               sr_healthy = healthy, sr_frames = frames', sr_discontinuities = disc,
               sr_verified = verified', sr_reported_at = now\<rparr>\<rparr>))
       (sgets (registry_snapshot now'))))))))"

definition live_join ::
    "live_row option \<Rightarrow> int \<Rightarrow> int \<Rightarrow> int \<Rightarrow> int \<Rightarrow> int option \<times> int option \<times> int \<times> int \<times> bool" where
  "live_join previous first fin frames seq =
     (case previous of
        Some p \<Rightarrow>
          if lr_verified p then
            (let pseq = (case lr_sequence p of Some q \<Rightarrow> q | None \<Rightarrow> -1);
                 pfirst = (case lr_first p of Some f \<Rightarrow> f | None \<Rightarrow> first);
                 plast = (case lr_last p of Some l \<Rightarrow> l | None \<Rightarrow> -1) in
             if seq = pseq \<and> pfirst \<le> first \<and> fin \<le> plast
             then (Some pfirst, Some plast, frames + lr_frames p, lr_discontinuities p, True)
             else if seq = pseq + 1 \<and> first = plast
             then (Some pfirst, Some fin, frames + lr_frames p, lr_discontinuities p, True)
             else (Some first, Some fin, frames, lr_discontinuities p + 1, False))
          else (Some first, Some fin, frames, lr_discontinuities p, True)
      | None \<Rightarrow> (Some first, Some fin, frames, 0, True))"

definition report_live ::
    "rat \<Rightarrow> rat \<Rightarrow> pyval \<Rightarrow> pyval \<Rightarrow> bool \<Rightarrow> pyval \<Rightarrow> pyval \<Rightarrow> pyval \<Rightarrow> pyval \<Rightarrow> pyval \<Rightarrow>
     (execution_registry, pydict) pymethod" where
  "report_live now now' slot0 source_id0 healthy latency_ms first_show last_show frames0 sequence =
     sbind (slift (py_int slot0)) (\<lambda>slot.
     sthen (sguard (0 \<le> slot \<and> slot < 4) (ValueError ''live input slot must be 0..3''))
    (let source_id = clean_str 96 source_id0 in
     sthen (sguard (source_id \<noteq> []) (ValueError ''live feed source id required''))
    (sbind (slift (opt_nonneg first_show)) (\<lambda>first.
     sbind (slift (opt_nonneg last_show)) (\<lambda>fin.
     sbind (slift (ebind (py_int frames0) (\<lambda>i. Inr (max 0 i)))) (\<lambda>frames.
     sbind (slift (opt_nonneg sequence)) (\<lambda>seq.
     sbind (sgets (\<lambda>r. aget (er_live r) slot)) (\<lambda>previous.
     let verified = (healthy \<and> (case (first, fin) of (Some f, Some l) \<Rightarrow> f < l | _ \<Rightarrow> False) \<and>
                     0 < frames \<and> seq \<noteq> None);
         (first', fin', frames', disc, verified') =
           (if verified then live_join previous (the first) (the fin) frames (the seq)
            else (first, fin, frames, (case previous of None \<Rightarrow> 0 | Some p \<Rightarrow> lr_discontinuities p), False)) in
     sbind (slift (py_float latency_ms)) (\<lambda>latency.
     sthen (smodify (\<lambda>r. r\<lparr>er_live := aset (er_live r) slot
              \<lparr>lr_slot = slot, lr_source = source_id, lr_healthy = healthy,
               lr_latency = clamp latency (Fin 0) (Fin 5000), lr_first = first', lr_last = fin',
               lr_frames = frames', lr_sequence = seq, lr_discontinuities = disc,
               lr_verified = verified', lr_reported_at = now\<rparr>\<rparr>))
      (sgets (registry_snapshot now')))))))))))"

definition registry_clear :: "(execution_registry, unit) pymethod" where
  "registry_clear = smodify (\<lambda>r. r\<lparr>er_shadow := [], er_live := []\<rparr>)"

section \<open>The decision\<close>

record handoff_facts =
  hf_role :: string
  hf_replica_age :: "int option"
  hf_source_node :: "string option"
  hf_cursor :: int
  hf_target :: int
  hf_local :: "int option"
  hf_active_slots :: "int list"
  hf_outputs_active :: bool
  hf_running :: bool

record live_status =
  ls_config :: live_input
  ls_duplicated :: bool
  ls_execution_ready :: bool
  ls_report :: pydict

record source_status =
  ss_source :: deterministic_source
  ss_ready :: bool
  ss_execution_ready :: bool
  ss_report :: pydict

record handoff_decision =
  hd_mode :: string
  hd_policy :: handoff_policy
  hd_authority_ready :: bool
  hd_logic_ready :: bool
  hd_execution_ready :: bool
  hd_ready_for_authority :: bool
  hd_eligible :: bool
  hd_shadow_ready :: bool
  hd_action :: string
  hd_authority_blockers :: "string list"
  hd_program_blockers :: "string list"
  hd_live :: "live_status list"
  hd_sources :: "source_status list"
  hd_lag :: "pyfloat option"

text \<open>\<open>str(slot).lstrip("-").isdigit()\<close>\<close>

definition is_digit_latin :: "char \<Rightarrow> bool" where
  "is_digit_latin c = (is_digit_char c \<or> ord_of c \<in> {178, 179, 185})"

definition slot_text_ok :: "pydict \<Rightarrow> bool" where
  "slot_text_ok item =
     (let t = dropWhile (\<lambda>c. c = CHR ''-'') (py_str (dgetd item ''slot'' (PStr []))) in
      t \<noteq> [] \<and> list_all is_digit_latin t)"

definition report_items :: "pydict \<Rightarrow> string \<Rightarrow> pyerr + pydict list" where
  \<comment> \<open>the objects in \<open>execution.get(key) or []\<close>\<close>
  "report_items execution k =
     ebind (py_iter (por (dgetn execution k) (PList []))) (\<lambda>items.
       Inr (concat (map (\<lambda>v. case v of PDict d \<Rightarrow> [d] | _ \<Rightarrow> []) items)))"

definition shadow_reports :: "pydict \<Rightarrow> pyerr + (string \<times> pydict) list" where
  "shadow_reports execution =
     ebind (report_items execution ''shadowSources'') (\<lambda>items.
       Inr (fold (\<lambda>d m. aset m (py_str (dgetd d ''sourceId'' (PStr []))) d) items []))"

definition live_reports :: "pydict \<Rightarrow> pyerr + (int \<times> pydict) list" where
  "live_reports execution =
     ebind (report_items execution ''liveInputs'') (\<lambda>items.
       efold (\<lambda>d m. if slot_text_ok d
               then ebind (get_int d ''slot'' (PInt (-1))) (\<lambda>i. Inr (aset m i d)) else Inr m) items [])"

definition report_for :: "('k \<times> pydict) list \<Rightarrow> 'k \<Rightarrow> pydict" where
  "report_for m k = (case aget m k of None \<Rightarrow> [] | Some d \<Rightarrow> d)"

definition duplicated_feed :: "live_input \<Rightarrow> bool" where
  "duplicated_feed c = (li_ready c \<and> li_mode c \<in> {''split'', ''network''})"

definition live_slot_status :: "int \<Rightarrow> live_input \<Rightarrow> pydict \<Rightarrow> pyerr + live_status" where
  "live_slot_status fresh_ms config report =
     (let dup = duplicated_feed config in
      ebind (if dup \<and> truthy (dgetn report ''healthy'') \<and> truthy (dgetn report ''executionVerified'')
             then ebind (get_int report ''ageMs'' (PInt (fresh_ms + 1))) (\<lambda>age.
               Inr (age \<le> fresh_ms \<and> py_str (dgetd report ''sourceId'' (PStr [])) = li_source config))
             else Inr False) (\<lambda>ready.
      Inr \<lparr>ls_config = config, ls_duplicated = dup, ls_execution_ready = ready, ls_report = report\<rparr>))"

definition prebuffer_ns :: "handoff_policy \<Rightarrow> int" where
  "prebuffer_ns p = (case hp_required_prebuffer p of Fin r \<Rightarrow> rtrunc (r * 1000000) | _ \<Rightarrow> 0)"

definition source_slot_status ::
    "handoff_policy \<Rightarrow> int \<Rightarrow> deterministic_source \<Rightarrow> pydict \<Rightarrow> pyerr + source_status" where
  "source_slot_status policy target source report =
     (let ready = (ds_shadow_capable source \<and> ds_asset_ready source);
          fresh_ms = hp_status_fresh policy;
          hash_ok = (ds_hash source = [] \<or> py_str (dgetd report ''contentHash'' (PStr [])) = ds_hash source);
          required_until = target + prebuffer_ns policy in
      ebind (get_int report ''ageMs'' (PInt (fresh_ms + 1))) (\<lambda>age.
      ebind (if ready \<and> truthy (dgetn report ''healthy'') \<and> truthy (dgetn report ''executionVerified'') \<and>
                age \<le> fresh_ms \<and> hash_ok
             then ebind (get_int report ''bufferedUntilShowNs'' (PInt 0)) (\<lambda>until. Inr (required_until \<le> until))
             else Inr False) (\<lambda>exec_ready.
      Inr \<lparr>ss_source = source, ss_ready = ready, ss_execution_ready = exec_ready, ss_report = report\<rparr>)))"

definition local_lag_ms :: "handoff_facts \<Rightarrow> pyfloat option" where
  "local_lag_ms f = (case hf_local f of
      None \<Rightarrow> None
    | Some l \<Rightarrow> if 0 < hf_target f then Some (Fin (of_int (hf_target f - l) / 1000000)) else None)"

definition authority_blockers :: "handoff_facts \<Rightarrow> handoff_policy \<Rightarrow> string list" where
  "authority_blockers f p =
     (if hf_role f \<noteq> ''standby'' then [''node is not standby''] else []) @
     (case hf_replica_age f of
        None \<Rightarrow> [''no replica heartbeat received'']
      | Some age \<Rightarrow> if hp_max_replica_age p \<le> age then [''replica heartbeat exceeds handoff policy age''] else [])"

definition clock_blockers :: "handoff_facts \<Rightarrow> handoff_policy \<Rightarrow> string list" where
  "clock_blockers f p =
     (if hf_outputs_active f \<and> hp_require_cursor p \<and> hf_cursor f \<le> 0
      then [''source program cursor is unavailable''] else []) @
     (case local_lag_ms f of
        None \<Rightarrow> []
      | Some lag \<Rightarrow> if flt (hp_max_local_lag p) lag
                    then [''standby show clock trails handoff target beyond policy''] else [])"

definition handoff_mode :: "handoff_facts \<Rightarrow> nat list \<Rightarrow> string" where
  "handoff_mode f slots =
     (if slots \<noteq> [] then ''live-input-state-warm''
      else if hf_outputs_active f \<and> hf_running f then ''deterministic-prebuffer-eligible''
      else ''state-warm'')"

definition mode_blockers ::
    "handoff_policy \<Rightarrow> string \<Rightarrow> live_status list \<Rightarrow> source_status list \<Rightarrow> string list" where
  "mode_blockers p mode live sources =
     (if mode = ''live-input-state-warm'' then
        (if hp_require_live p \<and> list_ex (\<lambda>s. \<not> ls_duplicated s) live
         then [''active live inputs lack duplicated standby feeds''] else [])
      else if mode = ''deterministic-prebuffer-eligible'' then
        (if hp_require_sources p \<and> sources = [] then [''deterministic program sources are not declared''] else []) @
        (if list_ex (\<lambda>s. \<not> ss_ready s) sources then [''deterministic sources are not shadow-render ready''] else [])
      else [])"

definition mode_execution_ready :: "string \<Rightarrow> live_status list \<Rightarrow> source_status list \<Rightarrow> bool" where
  "mode_execution_ready mode live sources =
     (if mode = ''live-input-state-warm'' then list_all ls_execution_ready live
      else if mode = ''deterministic-prebuffer-eligible'' then sources \<noteq> [] \<and> list_all ss_execution_ready sources
      else True)"

definition handoff_action :: "string \<Rightarrow> bool \<Rightarrow> bool \<Rightarrow> bool \<Rightarrow> bool \<Rightarrow> string" where
  "handoff_action mode authority logic exec_ready transfer =
     (if \<not> authority then ''wait-for-authority-readiness''
      else if exec_ready \<and> mode = ''live-input-state-warm'' then ''program-takeover-ready-live-feeds''
      else if exec_ready \<and> mode = ''deterministic-prebuffer-eligible'' then ''program-takeover-ready''
      else if logic \<and> mode = ''state-warm'' then ''authority-transfer-ready''
      else if logic \<and> mode = ''live-input-state-warm'' then ''authority-transfer-ready-live-feeds''
      else if logic \<and> mode = ''deterministic-prebuffer-eligible'' then ''start-shadow-prebuffer''
      else if transfer then ''authority-transfer-only'' else ''hold'')"

definition active_slots :: "handoff_facts \<Rightarrow> nat list" where
  \<comment> \<open>\<open>sorted({slot for slot in ... if 0 <= slot < 4})\<close>\<close>
  "active_slots f = filter (\<lambda>k. int k \<in> set (hf_active_slots f)) [0, 1, 2, 3]"

definition evaluate_handoff ::
    "handoff_facts \<Rightarrow> pyval \<Rightarrow> pyval \<Rightarrow> pyval \<Rightarrow> pyval \<Rightarrow> pyerr + handoff_decision" where
  "evaluate_handoff f policy live_inputs sources execution0 =
     ebind (normalize_policy policy) (\<lambda>p.
     ebind (normalize_live_inputs live_inputs) (\<lambda>live_n.
     let sources_n = normalize_deterministic_sources sources; execution = dict_of execution0 in
     ebind (shadow_reports execution) (\<lambda>shadow.
     ebind (live_reports execution) (\<lambda>live_r.
     let slots = active_slots f in
     ebind (emap (\<lambda>k. live_slot_status (hp_status_fresh p) (live_n ! k) (report_for live_r (int k))) slots) (\<lambda>live.
     ebind (emap (\<lambda>s. source_slot_status p (hf_target f) s (report_for shadow (ds_id s)))
              (filter ds_required sources_n)) (\<lambda>srcs.
     let authority = authority_blockers f p; mode = handoff_mode f slots;
         program = clock_blockers f p @ mode_blockers p mode live srcs;
         authority_ready = (authority = []); logic = (program = []);
         exec_ready = (logic \<and> mode_execution_ready mode live srcs);
         transfer = (if hp_allow_authority_only p then authority_ready else authority_ready \<and> logic) in
     Inr \<lparr>hd_mode = mode, hd_policy = p, hd_authority_ready = authority_ready, hd_logic_ready = logic,
          hd_execution_ready = exec_ready, hd_ready_for_authority = transfer,
          hd_eligible = (mode = ''deterministic-prebuffer-eligible''),
          hd_shadow_ready = (mode = ''deterministic-prebuffer-eligible'' \<and> srcs \<noteq> [] \<and> list_all ss_ready srcs),
          hd_action = handoff_action mode authority_ready logic exec_ready transfer,
          hd_authority_blockers = authority, hd_program_blockers = program,
          hd_live = live, hd_sources = srcs, hd_lag = local_lag_ms f\<rparr>))))))"

definition live_status_dict :: "live_status \<Rightarrow> pydict" where
  "live_status_dict s = live_input_dict (ls_config s) @
     [(''active'', PBool True), (''duplicatedReady'', PBool (ls_duplicated s)),
      (''executionReady'', PBool (ls_execution_ready s)), (''executionAgeMs'', dgetn (ls_report s) ''ageMs''),
      (''executionVerified'', PBool (truthy (dgetn (ls_report s) ''executionVerified''))),
      (''observedFrames'', dgetn (ls_report s) ''observedFrames''),
      (''sequence'', dgetn (ls_report s) ''sequence''),
      (''discontinuities'', dgetn (ls_report s) ''discontinuities'')]"

definition source_status_dict :: "source_status \<Rightarrow> pydict" where
  "source_status_dict s = source_dict (ss_source s) @
     [(''shadowRenderReady'', PBool (ss_ready s)), (''executionReady'', PBool (ss_execution_ready s)),
      (''executionAgeMs'', dgetn (ss_report s) ''ageMs''),
      (''bufferedUntilShowNs'', dgetn (ss_report s) ''bufferedUntilShowNs''),
      (''executionVerified'', PBool (truthy (dgetn (ss_report s) ''executionVerified''))),
      (''renderedFrames'', dgetn (ss_report s) ''renderedFrames''),
      (''discontinuities'', dgetn (ss_report s) ''discontinuities'')]"

definition decision_dict :: "handoff_decision \<Rightarrow> pydict" where
  "decision_dict d =
     [(''mode'', PStr (hd_mode d)), (''policy'', PDict (policy_dict (hd_policy d))),
      (''authorityReady'', PBool (hd_authority_ready d)), (''programLogicReady'', PBool (hd_logic_ready d)),
      (''executionReady'', PBool (hd_execution_ready d)),
      (''readyForAuthorityTransfer'', PBool (hd_ready_for_authority d)),
      (''readyForProgramTakeover'', PBool (hd_authority_ready d \<and> hd_execution_ready d)),
      (''deterministicPrebufferEligible'', PBool (hd_eligible d)),
      (''shadowRenderReady'', PBool (hd_shadow_ready d)),
      (''prebufferReady'', PBool (hd_mode d = ''deterministic-prebuffer-eligible'' \<and> hd_execution_ready d)),
      (''recommendedAction'', PStr (hd_action d)),
      (''authorityBlockers'', strs (hd_authority_blockers d)),
      (''programBlockers'', strs (hd_program_blockers d)),
      (''reasons'', strs (hd_authority_blockers d @ hd_program_blockers d)),
      (''liveInputs'', PList (map (PDict \<circ> live_status_dict) (hd_live d))),
      (''missingLiveInputSlots'', PList (map (\<lambda>s. PInt (int (li_slot (ls_config s))))
         (filter (\<lambda>s. \<not> ls_duplicated s) (hd_live d)))),
      (''missingLiveInputExecutionSlots'', PList (map (\<lambda>s. PInt (int (li_slot (ls_config s))))
         (filter (\<lambda>s. \<not> ls_execution_ready s) (hd_live d)))),
      (''deterministicSources'', PList (map (PDict \<circ> source_status_dict) (hd_sources d))),
      (''unreadyDeterministicSourceIds'', strs (map (\<lambda>s. ds_id (ss_source s)) (filter (\<lambda>s. \<not> ss_ready s) (hd_sources d)))),
      (''unreadyDeterministicExecutionSourceIds'',
         strs (map (\<lambda>s. ds_id (ss_source s)) (filter (\<lambda>s. \<not> ss_execution_ready s) (hd_sources d)))),
      (''localLagMs'', case hd_lag d of None \<Rightarrow> PNone | Some l \<Rightarrow> PFloat (fround 3 l))]"

section \<open>Normal forms\<close>

definition policy_valid :: "handoff_policy \<Rightarrow> bool" where
  "policy_valid p = (100 \<le> hp_max_replica_age p \<and> hp_max_replica_age p \<le> 60000 \<and>
     in_range (hp_max_local_lag p) 0 5000 \<and> in_range (hp_required_prebuffer p) 0 10000 \<and>
     100 \<le> hp_status_fresh p \<and> hp_status_fresh p \<le> 60000)"

definition live_input_valid :: "live_input \<Rightarrow> bool" where
  "live_input_valid i = (li_mode i \<in> set live_redundancy_modes \<and> length (li_source i) \<le> 96 \<and>
     in_range (li_latency i) 0 5000 \<and> (li_ready i \<longrightarrow> li_mode i \<noteq> ''none'' \<and> li_source i \<noteq> []))"

definition live_inputs_valid :: "live_input list \<Rightarrow> bool" where
  "live_inputs_valid xs = (map li_slot xs = [0, 1, 2, 3] \<and> list_all live_input_valid xs)"

definition trimmed :: "string \<Rightarrow> bool" where
  "trimmed s = (strip s = s)"

definition sources_valid :: "deterministic_source list \<Rightarrow> bool" where
  "sources_valid xs = (length xs \<le> 32 \<and> distinct (map ds_id xs) \<and>
     list_all (\<lambda>s. ds_id s \<noteq> [] \<and> length (ds_id s) \<le> 96 \<and> ds_kind s \<in> set source_kinds \<and> length (ds_hash s) \<le> 128) xs)"

lemma normalize_policy_valid: "normalize_policy r = Inr p \<Longrightarrow> policy_valid p"
  by (auto simp: normalize_policy_def Let_def ebind_eq_Inr policy_valid_def iclamp_bounds)

lemma normalize_policy_dict: "policy_valid p \<Longrightarrow> normalize_policy (PDict (policy_dict p)) = Inr p"
  by (simp add: normalize_policy_def policy_dict_def policy_valid_def get_int_def get_float_def get_bool_def
      dgetd_def Let_def iclamp_id clamp_id)

interpretation policy_norm: normalizer normalize_policy "\<lambda>p. PDict (policy_dict p)" policy_valid "\<lambda>_. True"
  by unfold_locales (auto intro: normalize_policy_valid normalize_policy_dict)

lemma lower_modes: "m \<in> set live_redundancy_modes \<Longrightarrow> py_lower (strip m) = m"
proof -
  have "list_all (\<lambda>m. py_lower (strip m) = m) live_redundancy_modes" by code_simp
  then show "m \<in> set live_redundancy_modes \<Longrightarrow> py_lower (strip m) = m" by (simp add: list_all_iff)
qed

lemma lower_kinds: "m \<in> set source_kinds \<Longrightarrow> py_lower (strip m) = m"
proof -
  have "list_all (\<lambda>m. py_lower (strip m) = m) source_kinds" by code_simp
  then show "m \<in> set source_kinds \<Longrightarrow> py_lower (strip m) = m" by (simp add: list_all_iff)
qed

lemma clean_trimmed: "trimmed s \<Longrightarrow> length s \<le> n \<Longrightarrow> clean_str n (PStr s) = s"
  by (simp add: clean_str_def trimmed_def)

lemma normalize_live_input_valid:
  assumes "normalize_live_input k d = Inr i"
  shows "live_input_valid i \<and> li_slot i = k"
proof -
  from assms obtain f where "i = \<lparr>li_slot = k,
      li_mode = (let m = py_lower (strip (py_str (dgetd d ''mode'' (PStr ''none'')))) in if m \<in> set live_redundancy_modes then m else ''none''),
      li_ready = (get_bool d ''ready'' False \<and>
        (let m = py_lower (strip (py_str (dgetd d ''mode'' (PStr ''none'')))) in if m \<in> set live_redundancy_modes then m else ''none'') \<in> {''split'', ''network''} \<and>
        clean_str 96 (dgetd d ''sourceId'' (PStr [])) \<noteq> []),
      li_source = clean_str 96 (dgetd d ''sourceId'' (PStr [])), li_latency = f\<rparr>" and "in_range f 0 5000"
    by (auto simp: normalize_live_input_def Let_def ebind_eq_Inr ecatch_eq_Inr)
  then show ?thesis by (auto simp: live_input_valid_def Let_def live_redundancy_modes_def)
qed

lemma default_live_inputs_valid: "live_inputs_valid default_live_input_redundancy"
  by (simp add: live_inputs_valid_def default_live_input_redundancy_def default_live_input_def live_input_valid_def
      live_redundancy_modes_def)

lemma live_inputs_valid_update:
  assumes "live_inputs_valid xs" and "live_input_valid i" and "li_slot i = k"
  shows "live_inputs_valid (xs[k := i])"
proof -
  have len: "length xs = 4" using assms(1) by (auto simp: live_inputs_valid_def dest: arg_cong [of _ _ length])
  have slot: "map li_slot (xs[k := i]) = map li_slot xs"
  proof (cases "k < 4")
    case True
    have "map li_slot xs ! k = k" using assms(1) True
      by (auto simp: live_inputs_valid_def nth_Cons' less_Suc_eq numeral_eq_Suc)
    then show ?thesis using assms(3) True len by (simp add: map_update) (metis list_update_id nth_map)
  next
    case False
    then show ?thesis using len by (simp add: list_update_beyond)
  qed
  have "list_all live_input_valid (xs[k := i])"
    using assms(1,2) set_update_subset_insert [of xs k i] by (auto simp: live_inputs_valid_def list_all_iff)
  with slot assms(1) show ?thesis by (simp add: live_inputs_valid_def)
qed

lemma normalize_live_inputs_valid:
  assumes "normalize_live_inputs r = Inr xs"
  shows "live_inputs_valid xs"
proof (cases r)
  case (PList items)
  with assms have run: "efold live_input_step items default_live_input_redundancy = Inr xs"
    by (simp add: normalize_live_inputs_def)
  show ?thesis
    using run default_live_inputs_valid
    by (rule efold_invariant)
       (auto simp: live_input_step_def ebind_eq_Inr split: pyval.splits option.splits
             dest!: normalize_live_input_valid intro: live_inputs_valid_update)
qed (use assms default_live_inputs_valid in \<open>auto simp: normalize_live_inputs_def\<close>)

lemma slot_of_dict: "li_slot i < 4 \<Longrightarrow> slot_of (live_input_dict i) = Inr (Some (li_slot i))"
  by (simp add: slot_of_def live_input_dict_def get_int_def dgetd_def)

lemma normalize_live_input_dict:
  assumes "live_input_valid i" and "trimmed (li_source i)"
  shows "normalize_live_input (li_slot i) (live_input_dict i) = Inr i"
proof -
  have m: "li_mode i \<in> set live_redundancy_modes" "py_lower (strip (li_mode i)) = li_mode i"
    using assms(1) lower_modes by (auto simp: live_input_valid_def)
  have r: "(li_ready i \<and> (li_mode i = ''split'' \<or> li_mode i = ''network'') \<and> li_source i \<noteq> []) = li_ready i"
    using assms(1) by (auto simp: live_input_valid_def live_redundancy_modes_def)
  have "length (li_source i) \<le> 96" "in_range (li_latency i) 0 5000" using assms(1) by (auto simp: live_input_valid_def)
  then show ?thesis using m r assms(2)
    by (simp add: normalize_live_input_def live_input_dict_def dgetd_def get_float_def get_bool_def Let_def
        clean_trimmed clamp_id)
qed

lemma normalize_live_inputs_dict:
  assumes "live_inputs_valid xs" and "list_all (\<lambda>i. trimmed (li_source i)) xs"
  shows "normalize_live_inputs (PList (map (\<lambda>i. PDict (live_input_dict i)) xs)) = Inr xs"
proof -
  from assms(1) obtain a b c d where xs: "xs = [a, b, c, d]" and s: "li_slot a = 0" "li_slot b = 1" "li_slot c = 2" "li_slot d = 3"
    by (auto simp: live_inputs_valid_def map_eq_Cons_conv)
  have step: "live_input_step (PDict (live_input_dict i)) res = Inr (res[li_slot i := i])" if "i \<in> set xs" for i res
  proof -
    have "live_input_valid i" "trimmed (li_source i)" "li_slot i < 4"
      using that assms xs s by (auto simp: live_inputs_valid_def)
    then show ?thesis by (simp add: live_input_step_def slot_of_dict normalize_live_input_dict)
  qed
  have "normalize_live_inputs (PList (map (\<lambda>i. PDict (live_input_dict i)) xs)) =
      Inr (default_live_input_redundancy[0 := a, 1 := b, 2 := c, 3 := d])"
    by (simp add: normalize_live_inputs_def xs step s)
  also have "default_live_input_redundancy[0 := a, 1 := b, 2 := c, 3 := d] = xs"
    by (simp add: default_live_input_redundancy_def xs numeral_2_eq_2 numeral_3_eq_3)
  finally show ?thesis .
qed

interpretation live_norm: normalizer normalize_live_inputs "\<lambda>xs. PList (map (\<lambda>i. PDict (live_input_dict i)) xs)"
    live_inputs_valid "list_all (\<lambda>i. trimmed (li_source i))"
  by unfold_locales (auto intro: normalize_live_inputs_valid normalize_live_inputs_dict)

lemma normalize_source_ok:
  "ds_id (normalize_source i d) = i" "ds_kind (normalize_source i d) \<in> set source_kinds"
  "length (ds_hash (normalize_source i d)) \<le> 128"
  by (simp_all add: normalize_source_def Let_def source_kinds_def)

lemma collect_sources_props:
  "(\<forall>s \<in> set (collect_sources items seen). ds_id s \<notin> set seen \<and> ds_id s \<noteq> [] \<and> length (ds_id s) \<le> 96 \<and>
      ds_kind s \<in> set source_kinds \<and> length (ds_hash s) \<le> 128) \<and>
   distinct (map ds_id (collect_sources items seen)) \<and> length (collect_sources items seen) \<le> length items"
proof (induction items seen rule: collect_sources.induct)
  case (2 item rest seen)
  let ?id = "clean_str 96 (dgetd item ''id'' (PStr []))"
  show ?case
  proof (cases "?id = [] \<or> ?id \<in> set seen")
    case True
    with 2(1) [OF refl] show ?thesis by (simp add: Let_def le_SucI)
  next
    case False
    with 2(2) [OF refl] show ?thesis by (auto simp: Let_def normalize_source_ok)
  qed
qed auto

lemma normalize_sources_valid: "sources_valid (normalize_deterministic_sources r)"
proof (cases r)
  case (PList items)
  from collect_sources_props [of "take 32 items" "[]"] PList show ?thesis
    by (auto simp: sources_valid_def normalize_deterministic_sources_def list_all_iff)
qed (auto simp: sources_valid_def normalize_deterministic_sources_def)

lemma collect_sources_dict:
  assumes "distinct (map ds_id xs)" and "set (map ds_id xs) \<inter> set seen = {}"
    and "list_all (\<lambda>s. ds_id s \<noteq> [] \<and> length (ds_id s) \<le> 96 \<and> ds_kind s \<in> set source_kinds \<and> length (ds_hash s) \<le> 128) xs"
    and "list_all (\<lambda>s. trimmed (ds_id s) \<and> trimmed (ds_hash s)) xs"
  shows "collect_sources (map (\<lambda>s. PDict (source_dict s)) xs) seen = xs"
  using assms
proof (induction xs arbitrary: seen)
  case Nil
  then show ?case by simp
next
  case (Cons s xs)
  have "clean_str 96 (dgetd (source_dict s) ''id'' (PStr [])) = ds_id s"
    using Cons.prems by (simp add: source_dict_def dgetd_def clean_trimmed)
  moreover have "normalize_source (ds_id s) (source_dict s) = s"
    using Cons.prems by (simp add: normalize_source_def source_dict_def dgetd_def get_bool_def Let_def clean_trimmed lower_kinds)
  ultimately show ?case using Cons by (simp add: Let_def)
qed

interpretation source_norm: normalizer "\<lambda>r. Inr (normalize_deterministic_sources r)"
    "\<lambda>xs. PList (map (\<lambda>s. PDict (source_dict s)) xs)" sources_valid
    "list_all (\<lambda>s. trimmed (ds_id s) \<and> trimmed (ds_hash s))"
  by unfold_locales
     (auto simp: normalize_sources_valid,
      auto simp: sources_valid_def normalize_deterministic_sources_def take_map [symmetric] collect_sources_dict)

text \<open>
  The handoff configuration is a normal form: whatever JSON value is read, the policy, the four
  live inputs and the deterministic sources that result satisfy their bounds, a live input is
  ready only with a redundant mode and a source, and a configuration that is written out and read
  again is unchanged (identifiers without a blank at the cut).
\<close>

theorem handoff_config_normal:
  "(normalize_policy r = Inr p \<longrightarrow> policy_valid p \<and> normalize_policy (PDict (policy_dict p)) = Inr p) \<and>
   (normalize_live_inputs r = Inr xs \<longrightarrow> live_inputs_valid xs \<and>
      (list_all (\<lambda>i. trimmed (li_source i)) xs \<longrightarrow>
       normalize_live_inputs (PList (map (\<lambda>i. PDict (live_input_dict i)) xs)) = Inr xs)) \<and>
   sources_valid (normalize_deterministic_sources r)"
  by (auto intro: policy_norm.norm_valid policy_norm.norm_idem live_norm.norm_valid live_norm.norm_idem
      normalize_sources_valid)

theorem handoff_config_normal_witness:
  "\<exists>p. normalize_policy (PDict [(''maxReplicaAgeMs'', PInt 5)]) = Inr p \<and> hp_max_replica_age p = 100 \<and>
       normalize_policy (PDict (policy_dict p)) = Inr p"
proof -
  have "\<exists>p. normalize_policy (PDict [(''maxReplicaAgeMs'', PInt 5)]) = Inr p \<and> hp_max_replica_age p = 100"
    by (simp add: normalize_policy_def get_int_def get_float_def dgetd_def default_handoff_policy_def iclamp_def Let_def)
  with handoff_config_normal show ?thesis by blast
qed

section \<open>Verified evidence\<close>

text \<open>The blocks a source has really rendered: healthy reports with frames and a positive length.\<close>

record shadow_report =
  rp_source :: pyval
  rp_until :: pyval
  rp_hash :: pyval
  rp_healthy :: bool
  rp_start :: pyval
  rp_frames :: pyval
  rp_time :: rat

definition run_report :: "shadow_report \<Rightarrow> execution_registry \<Rightarrow> execution_registry" where
  "run_report rp r = snd (report_shadow (rp_time rp) (rp_time rp) (rp_source rp) (rp_until rp) (rp_hash rp)
     (rp_healthy rp) (rp_start rp) (rp_frames rp) r)"

definition block_of :: "shadow_report \<Rightarrow> string \<Rightarrow> int set" where
  "block_of rp source =
     (case (opt_nonneg (rp_start rp), py_int (rp_until rp), py_int (rp_frames rp)) of
        (Inr (Some s), Inr u, Inr n) \<Rightarrow>
          if clean_str 96 (rp_source rp) = source \<and> rp_healthy rp \<and> 0 < n then {s..<max 0 u} else {}
      | _ \<Rightarrow> {})"

definition rendered :: "shadow_report list \<Rightarrow> string \<Rightarrow> int set" where
  "rendered rps source = (\<Union>rp \<in> set rps. block_of rp source)"

definition row_covered :: "int set \<Rightarrow> shadow_row \<Rightarrow> bool" where
  "row_covered C row = (sr_verified row \<longrightarrow> (\<exists>f. sr_from row = Some f \<and> f < sr_until row \<and> {f..<sr_until row} \<subseteq> C))"

lemma shadow_join_covered:
  assumes "\<forall>p. previous = Some p \<longrightarrow> row_covered C p" and "s < u" and "{s..<u} \<subseteq> C"
    and "shadow_join previous s u n = (fr, u', n', disc, ok)" and "ok"
  shows "\<exists>f. fr = Some f \<and> f < u' \<and> {f..<u'} \<subseteq> C"
proof (cases previous)
  case None
  with assms show ?thesis by (auto simp: shadow_join_def)
next
  case (Some p)
  show ?thesis
  proof (cases "sr_verified p")
    case False
    with Some assms show ?thesis by (auto simp: shadow_join_def)
  next
    case True
    with assms(1) Some obtain f where f: "sr_from p = Some f" "f < sr_until p" "{f..<sr_until p} \<subseteq> C"
      by (auto simp: row_covered_def)
    show ?thesis
    proof (cases "s = sr_until p")
      case True
      with f assms Some \<open>sr_verified p\<close> have "fr = Some f" "u' = u" by (auto simp: shadow_join_def)
      moreover have "{f..<u} \<subseteq> {f..<sr_until p} \<union> {s..<u}" using True by auto
      ultimately show ?thesis using f assms(2,3) True by fastforce
    next
      case False
      with f assms Some True have "fr = Some f" "u' = sr_until p" by (auto simp: shadow_join_def split: if_splits)
      with f show ?thesis by auto
    qed
  qed
qed

lemma run_report_covered:
  assumes inv: "\<forall>src row. aget (er_shadow r) src = Some row \<longrightarrow> row_covered (C src) row"
  shows "\<forall>src row. aget (er_shadow (run_report rp r)) src = Some row \<longrightarrow> row_covered (C src \<union> block_of rp src) row"
proof -
  let ?id = "clean_str 96 (rp_source rp)"
  have old: "\<forall>src row. aget (er_shadow r) src = Some row \<longrightarrow> row_covered (C src \<union> block_of rp src) row"
    using inv by (fastforce simp: row_covered_def)
  show ?thesis
  proof (cases "\<exists>u st n. ?id \<noteq> [] \<and> py_int (rp_until rp) = Inr u \<and> opt_nonneg (rp_start rp) = Inr st \<and> py_int (rp_frames rp) = Inr n")
    case False
    then have "run_report rp r = r"
      by (cases "py_int (rp_until rp)"; cases "opt_nonneg (rp_start rp)"; cases "py_int (rp_frames rp)")
         (auto simp: run_report_def report_shadow_def method_run Let_def)
    with old show ?thesis by simp
  next
    case True
    then obtain u st n where v: "?id \<noteq> []" "py_int (rp_until rp) = Inr u" "opt_nonneg (rp_start rp) = Inr st" "py_int (rp_frames rp) = Inr n"
      by blast
    let ?u = "max 0 u" and ?n = "max 0 n" and ?prev = "aget (er_shadow r) ?id"
    let ?ok = "case st of None \<Rightarrow> False | Some s \<Rightarrow> s < ?u \<and> 0 < ?n \<and> rp_healthy rp"
    obtain fr u' n' disc ok where j: "(if ?ok then shadow_join ?prev (the st) ?u ?n
             else (None, ?u, ?n, (case ?prev of None \<Rightarrow> 0 | Some p \<Rightarrow> sr_discontinuities p), False)) = (fr, u', n', disc, ok)"
      by (cases "if ?ok then shadow_join ?prev (the st) ?u ?n
             else (None, ?u, ?n, (case ?prev of None \<Rightarrow> 0 | Some p \<Rightarrow> sr_discontinuities p), False)") auto
    let ?row = "\<lparr>sr_source = ?id, sr_from = fr, sr_until = u', sr_hash = clean_str 128 (rp_hash rp),
               sr_healthy = rp_healthy rp, sr_frames = n', sr_discontinuities = disc, sr_verified = ok, sr_reported_at = rp_time rp\<rparr>"
    have run: "er_shadow (run_report rp r) = aset (er_shadow r) ?id ?row"
      using v j by (simp add: run_report_def report_shadow_def method_run Let_def)
    have "row_covered (C ?id \<union> block_of rp ?id) ?row"
    proof (cases "?ok \<and> ok")
      case False
      with j show ?thesis by (auto simp: row_covered_def split: if_splits)
    next
      case True
      then obtain s where s: "st = Some s" "s < ?u" "0 < ?n" "rp_healthy rp" by (auto split: option.splits)
      with v have "{s..<?u} \<subseteq> C ?id \<union> block_of rp ?id" by (auto simp: block_of_def)
      with shadow_join_covered [of ?prev "C ?id \<union> block_of rp ?id" s ?u ?n fr u' n' disc ok] old s j True
      show ?thesis by (auto simp: row_covered_def)
    qed
    with old run show ?thesis by auto
  qed
qed

lemma run_reports_covered:
  "\<forall>src row. aget (er_shadow (fold run_report rps registry_init)) src = Some row \<longrightarrow> row_covered (rendered rps src) row"
proof (induction rps rule: rev_induct)
  case Nil
  then show ?case by (simp add: registry_init_def)
next
  case (snoc rp rps)
  from run_report_covered [OF snoc, of rp] show ?case by (simp add: rendered_def Un_commute)
qed

text \<open>
  Evidence is never invented: after any sequence of reports, a source whose row counts as
  verified has a contiguous range, and every instant of that range was rendered in a healthy
  report of that source with at least one frame.
\<close>

theorem verified_range_rendered:
  assumes "aget (er_shadow (fold run_report rps registry_init)) source = Some row" and "sr_verified row"
  shows "\<exists>f. sr_from row = Some f \<and> f < sr_until row \<and> {f..<sr_until row} \<subseteq> rendered rps source"
  using run_reports_covered [of rps] assms by (auto simp: row_covered_def)

definition demo_reports :: "shadow_report list" where
  "demo_reports =
     [\<lparr>rp_source = PStr ''drums'', rp_until = PInt 500, rp_hash = PStr [], rp_healthy = True, rp_start = PInt 0,
       rp_frames = PInt 64, rp_time = 1\<rparr>,
      \<lparr>rp_source = PStr ''drums'', rp_until = PInt 900, rp_hash = PStr [], rp_healthy = True, rp_start = PInt 500,
       rp_frames = PInt 64, rp_time = 2\<rparr>]"

theorem verified_range_rendered_witness:
  "\<exists>row. aget (er_shadow (fold run_report demo_reports registry_init)) ''drums'' = Some row \<and> sr_verified row \<and>
     {0..<900} \<subseteq> rendered demo_reports ''drums''"
proof -
  let ?r = "aget (er_shadow (fold run_report demo_reports registry_init)) ''drums''"
  have "?r = Some (the ?r)" "sr_verified (the ?r)" "sr_from (the ?r) = Some 0" "sr_until (the ?r) = 900"
    by code_simp+
  with verified_range_rendered [OF this(1,2)] show ?thesis by auto
qed

section \<open>When a standby takes over\<close>

text \<open>The evidence for one active live input and for one deterministic source.\<close>

definition feed_proven :: "handoff_policy \<Rightarrow> live_input \<Rightarrow> pydict \<Rightarrow> bool" where
  "feed_proven p config report =
     (duplicated_feed config \<and> truthy (dgetn report ''healthy'') \<and> truthy (dgetn report ''executionVerified'') \<and>
      (\<exists>age. get_int report ''ageMs'' (PInt (hp_status_fresh p + 1)) = Inr age \<and> age \<le> hp_status_fresh p) \<and>
      py_str (dgetd report ''sourceId'' (PStr [])) = li_source config)"

definition source_proven :: "handoff_policy \<Rightarrow> int \<Rightarrow> deterministic_source \<Rightarrow> pydict \<Rightarrow> bool" where
  "source_proven p target source report =
     (ds_shadow_capable source \<and> ds_asset_ready source \<and> truthy (dgetn report ''healthy'') \<and>
      truthy (dgetn report ''executionVerified'') \<and>
      (\<exists>age. get_int report ''ageMs'' (PInt (hp_status_fresh p + 1)) = Inr age \<and> age \<le> hp_status_fresh p) \<and>
      (ds_hash source = [] \<or> py_str (dgetd report ''contentHash'' (PStr [])) = ds_hash source) \<and>
      (\<exists>until. get_int report ''bufferedUntilShowNs'' (PInt 0) = Inr until \<and> target + prebuffer_ns p \<le> until))"

lemma live_slot_status_ready:
  "live_slot_status (hp_status_fresh p) config report = Inr s \<Longrightarrow> ls_execution_ready s \<Longrightarrow> feed_proven p config report"
  by (auto simp: live_slot_status_def feed_proven_def Let_def ebind_eq_Inr split: if_splits)

lemma source_slot_status_ready:
  "source_slot_status p target source report = Inr s \<Longrightarrow> ss_execution_ready s \<Longrightarrow> source_proven p target source report"
  by (auto simp: source_slot_status_def source_proven_def Let_def ebind_eq_Inr split: if_splits)

lemma authority_blockers_Nil:
  "authority_blockers f p = [] \<Longrightarrow> hf_role f = ''standby'' \<and> (\<exists>age. hf_replica_age f = Some age \<and> age < hp_max_replica_age p)"
  by (auto simp: authority_blockers_def split: if_splits option.splits)


definition demo_facts :: handoff_facts where
  "demo_facts = \<lparr>hf_role = ''standby'', hf_replica_age = Some 100, hf_source_node = Some ''a'', hf_cursor = 5,
     hf_target = 1000, hf_local = Some 1000, hf_active_slots = [], hf_outputs_active = True, hf_running = True\<rparr>"

definition demo_sources :: pyval where
  "demo_sources = PList [PDict [(''id'', PStr ''drums''), (''shadowCapable'', PBool True), (''localAssetReady'', PBool True)]]"

definition demo_execution :: pyval where
  "demo_execution = PDict [(''shadowSources'', PList [PDict [(''sourceId'', PStr ''drums''), (''healthy'', PBool True),
     (''executionVerified'', PBool True), (''ageMs'', PInt 10), (''bufferedUntilShowNs'', PInt 300000000)]])]"


end
