(* ===== verification/Technology.thy ===== *)
theory Technology
  imports Py_Monad Py_Crypto
begin

text \<open>
  \<^verbatim>\<open>src/backend/technology.py\<close>: the policy for technology extensions, their normalisation, the
  evidence statement a conformance receipt signs, the assessment of an extension's maturity, the
  registry report and exact capability negotiation.  A policy is the dictionary the source keeps; an
  extension is a record with the raw dictionary it was read from, and \<open>extension_dict\<close> is the
  dictionary the source returns.
\<close>

section \<open>Policy\<close>

definition maturity_names :: "string list" where
  "maturity_names = [''experimental'', ''community'', ''candidate'', ''standard'']"

definition policy_flags :: "string list" where
  "policy_flags =
     [''preserveUnknownCapabilities'', ''allowUnregisteredExperimentalNamespaces'', ''allowNoAiParticipant'',
      ''requirePublicSpecForCandidate'', ''requireConformanceForStandard'', ''requireInteropForStandard'',
      ''requireFallbackForStandard'', ''requireUnknownPreservationForStandard'', ''forbidMandatoryVendorDependency'',
      ''forbidMandatoryCloudDependency'', ''forbidMandatoryAiDependency'', ''scaleSafeguards'']"

definition policy_limits :: "(string \<times> int) list" where
  "policy_limits =
     [(''emergingStandardGroups'', 2), (''emergingCoreGroups'', 3), (''growingStandardGroups'', 3), (''growingCoreGroups'', 4),
      (''largeStandardGroups'', 4), (''largeCoreGroups'', 5), (''infrastructureStandardGroups'', 5),
      (''infrastructureCoreGroups'', 7), (''maxMandatoryCoreExtensions'', 24)]"

definition default_technology_policy :: pydict where
  "default_technology_policy = map (\<lambda>k. (k, PBool True)) policy_flags @ map (\<lambda>(k, i). (k, PInt i)) policy_limits"

definition tech_bool :: "pyval \<Rightarrow> bool \<Rightarrow> bool" where
  "tech_bool v dflt = (if v = PNone then dflt else truthy v)"

definition tech_int :: "pyval \<Rightarrow> int \<Rightarrow> int \<Rightarrow> int \<Rightarrow> pyerr + int" where
  "tech_int v low high dflt =
     ecatch is_type_or_value (ebind (py_int v) (\<lambda>i. Inr (iclamp low high i))) (Inr dflt)"

definition flag_step :: "pydict \<Rightarrow> string \<Rightarrow> pydict \<Rightarrow> pydict" where
  "flag_step raw k policy = (if din k raw then dset policy k (PBool (truthy (dgetn raw k))) else policy)"

text \<open>The default of the conversion is computed first, from the same value.\<close>

definition limit_step :: "pydict \<Rightarrow> string \<Rightarrow> pydict \<Rightarrow> pyerr + pydict" where
  "limit_step raw k policy =
     (if din k raw then
        ebind (py_int (dgetn policy k)) (\<lambda>dflt.
        ebind (tech_int (dgetn raw k) 1 64 dflt) (\<lambda>i. Inr (dset policy k (PInt i))))
      else Inr policy)"

definition normalize_technology_policy :: "pyval \<Rightarrow> pyerr + pydict" where
  "normalize_technology_policy v =
     (let raw = dict_of v; policy = dmerge default_technology_policy raw in
      efold (limit_step raw) (map fst policy_limits) (fold (flag_step raw) policy_flags policy))"

definition policy_flag :: "pydict \<Rightarrow> string \<Rightarrow> bool" where
  "policy_flag policy k = truthy (dgetn policy k)"

definition policy_limit :: "pydict \<Rightarrow> string \<Rightarrow> pyerr + int" where
  "policy_limit policy k = ebind (dindex policy k) py_int"

section \<open>Extensions\<close>

record implementation =
  im_raw :: pydict
  im_id :: string
  im_organization :: string
  im_group :: string
  im_conformance :: bool
  im_open :: bool
  im_peers :: "string list"

definition field_bool :: "pydict \<Rightarrow> string \<Rightarrow> bool \<Rightarrow> bool" where
  "field_bool d k dflt = tech_bool (dgetn d k) dflt"

definition field_str :: "nat \<Rightarrow> pydict \<Rightarrow> string \<Rightarrow> string" where
  "field_str n d k = clean_str n (dgetd d k (PStr []))"

definition clean_set :: "nat \<Rightarrow> pyval list \<Rightarrow> string list" where
  \<comment> \<open>\<open>sorted({str(x).strip()[:n] for x in xs if str(x).strip()})\<close>\<close>
  "clean_set n xs = sorted_set (map (clean_str n) (filter (\<lambda>x. strip (py_str x) \<noteq> []) xs))"

definition normalize_implementation :: "pydict \<Rightarrow> pyerr + implementation" where
  "normalize_implementation v =
     (let impl_id = field_str 128 v ''id'';
          grp = clean_str 128 (dgetd v ''independentGroup'' (dgetd v ''organization'' (PStr impl_id))) in
      ebind (py_iter (por (dgetn v ''interopPeers'') (PList []))) (\<lambda>peers.
      Inr \<lparr>im_raw = v, im_id = impl_id, im_organization = field_str 128 v ''organization'',
           im_group = (if grp = [] then impl_id else grp),
           im_conformance = field_bool v ''conformancePass'' False, im_open = field_bool v ''openSource'' False,
           im_peers = clean_set 128 peers\<rparr>))"

definition implementation_dict :: "implementation \<Rightarrow> pydict" where
  "implementation_dict i = dmerge (im_raw i)
     [(''id'', PStr (im_id i)), (''organization'', PStr (im_organization i)), (''independentGroup'', PStr (im_group i)),
      (''conformancePass'', PBool (im_conformance i)), (''openSource'', PBool (im_open i)), (''interopPeers'', strs (im_peers i))]"

definition implementation_step :: "pyval \<Rightarrow> implementation list \<Rightarrow> pyerr + implementation list" where
  "implementation_step v acc =
     (case v of
        PDict raw \<Rightarrow>
          ebind (normalize_implementation raw) (\<lambda>i.
            Inr (if im_id i = [] \<or> im_id i \<in> set (map im_id acc) then acc else acc @ [i]))
      | _ \<Rightarrow> Inr acc)"

record extension =
  ex_raw :: pydict
  ex_id :: string
  ex_description :: string
  ex_maturity :: string
  ex_requested_core :: bool
  ex_mandatory_core :: bool
  ex_deprecated :: bool
  ex_replacement :: string
  ex_bridge :: bool
  ex_adoption :: string
  ex_spec :: bool
  ex_tests :: bool
  ex_interop :: bool
  ex_fallback :: bool
  ex_backward :: bool
  ex_unknown_tested :: bool
  ex_deployments :: int
  ex_dependencies :: pydict
  ex_vendor :: string
  ex_cloud :: bool
  ex_ai :: bool
  ex_implementations :: "implementation list"

definition extension_id_ok :: "string \<Rightarrow> bool" where
  "extension_id_ok i = (i \<noteq> [] \<and> CHR ''.'' \<in> set i)"

definition normalize_technology_extension :: "pyval \<Rightarrow> pyerr + extension" where
  "normalize_technology_extension value =
     (case value of
        PDict v \<Rightarrow>
          (let extension_id = field_str 160 v ''id'';
               maturity = py_lower (strip (py_str (dgetd v ''maturity'' (PStr ''experimental''))));
               dependency = dict_of (dgetn v ''dependencies'') in
           ebind (eguard (extension_id_ok extension_id) (ValueError ''technology extension id must be a namespaced identifier'')) (\<lambda>_.
           ebind (eguard (maturity \<in> set maturity_names) (ValueError (''technology maturity must be one of ('' @ join '', '' (map repr_str maturity_names) @ '')''))) (\<lambda>_.
           ebind (py_iter (por (dgetn v ''implementations'') (PList []))) (\<lambda>raws.
           ebind (efold implementation_step raws []) (\<lambda>impls.
           ebind (tech_int (dgetn v ''productionDeployments'') 0 1000000 0) (\<lambda>deployments.
           Inr \<lparr>ex_raw = v, ex_id = extension_id, ex_description = field_str 512 v ''description'', ex_maturity = maturity,
                ex_requested_core = field_bool v ''requestedCore'' False, ex_mandatory_core = field_bool v ''mandatoryCore'' False,
                ex_deprecated = field_bool v ''deprecated'' False, ex_replacement = field_str 160 v ''replacementId'',
                ex_bridge = field_bool v ''migrationBridge'' False, ex_adoption = field_str 256 v ''adoptionRecordRef'',
                ex_spec = field_bool v ''publicSpec'' False, ex_tests = field_bool v ''conformanceTests'' False,
                ex_interop = field_bool v ''interoperabilityEvidence'' False, ex_fallback = field_bool v ''fallbackDefined'' False,
                ex_backward = field_bool v ''backwardCompatible'' True,
                ex_unknown_tested = field_bool v ''unknownPreservationTested'' False, ex_deployments = deployments,
                ex_dependencies = dependency, ex_vendor = field_str 128 dependency ''mandatoryVendor'',
                ex_cloud = field_bool dependency ''cloudRequired'' False, ex_ai = field_bool dependency ''aiRequired'' False,
                ex_implementations = impls\<rparr>))))))
      | _ \<Rightarrow> Inl (ValueError ''technology extension must be an object''))"

definition extension_dict :: "extension \<Rightarrow> pydict" where
  "extension_dict e = dmerge (ex_raw e)
     [(''id'', PStr (ex_id e)), (''description'', PStr (ex_description e)), (''maturity'', PStr (ex_maturity e)),
      (''requestedCore'', PBool (ex_requested_core e)), (''mandatoryCore'', PBool (ex_mandatory_core e)),
      (''deprecated'', PBool (ex_deprecated e)), (''replacementId'', PStr (ex_replacement e)),
      (''migrationBridge'', PBool (ex_bridge e)), (''adoptionRecordRef'', PStr (ex_adoption e)),
      (''publicSpec'', PBool (ex_spec e)), (''conformanceTests'', PBool (ex_tests e)),
      (''interoperabilityEvidence'', PBool (ex_interop e)), (''fallbackDefined'', PBool (ex_fallback e)),
      (''backwardCompatible'', PBool (ex_backward e)), (''unknownPreservationTested'', PBool (ex_unknown_tested e)),
      (''productionDeployments'', PInt (ex_deployments e)),
      (''dependencies'', PDict (dmerge (ex_dependencies e)
         [(''mandatoryVendor'', PStr (ex_vendor e)), (''cloudRequired'', PBool (ex_cloud e)), (''aiRequired'', PBool (ex_ai e))])),
      (''implementations'', PList (map (PDict \<circ> implementation_dict) (ex_implementations e)))]"

definition extension_step :: "pyval \<Rightarrow> extension list \<Rightarrow> pyerr + extension list" where
  "extension_step v acc =
     (if is_dict v then
        ebind (normalize_technology_extension v) (\<lambda>e.
          Inr (if ex_id e \<in> set (map ex_id acc) then acc else acc @ [e]))
      else Inr acc)"

definition normalize_technology_extensions :: "pyval \<Rightarrow> pyerr + extension list" where
  "normalize_technology_extensions values =
     ebind (py_iter (por values (PList []))) (\<lambda>raws. efold extension_step raws [])"

section \<open>The evidence statement\<close>

definition evidence_statement :: "extension \<Rightarrow> pydict" where
  "evidence_statement e =
     [(''version'', PInt 1), (''extensionId'', PStr (ex_id e)), (''declaredMaturity'', PStr (ex_maturity e)),
      (''requestedCore'', PBool (ex_requested_core e)), (''mandatoryCore'', PBool (ex_mandatory_core e)),
      (''publicSpec'', PBool (ex_spec e)), (''conformanceTests'', PBool (ex_tests e)),
      (''interoperabilityEvidence'', PBool (ex_interop e)), (''fallbackDefined'', PBool (ex_fallback e)),
      (''backwardCompatible'', PBool (ex_backward e)), (''unknownPreservationTested'', PBool (ex_unknown_tested e)),
      (''productionDeployments'', PInt (ex_deployments e)),
      (''dependencies'', PDict [(''mandatoryVendor'', PStr (ex_vendor e)), (''cloudRequired'', PBool (ex_cloud e)),
                              (''aiRequired'', PBool (ex_ai e))]),
      (''implementations'', PList (map (\<lambda>i. PDict
         [(''id'', PStr (im_id i)), (''organization'', PStr (im_organization i)), (''independentGroup'', PStr (im_group i)),
          (''conformancePass'', PBool (im_conformance i)), (''openSource'', PBool (im_open i)),
          (''interopPeers'', strs (im_peers i))]) (ex_implementations e)))]"

definition technology_evidence_statement :: "pyval \<Rightarrow> pyerr + pydict" where
  "technology_evidence_statement value = ebind (normalize_technology_extension value) (\<lambda>e. Inr (evidence_statement e))"

definition technology_evidence_digest :: "pyval \<Rightarrow> pyerr + string" where
  "technology_evidence_digest value = ebind (technology_evidence_statement value) (\<lambda>d. Inr (digest_of (PDict d)))"

section \<open>Assessment\<close>

definition scale_tier :: "int \<Rightarrow> string" where
  "scale_tier n = (if 200 \<le> n then ''infrastructure'' else if 50 \<le> n then ''large''
                   else if 10 \<le> n then ''growing'' else ''emerging'')"

definition thresholds :: "pydict \<Rightarrow> string \<Rightarrow> pyerr + (int \<times> int)" where
  "thresholds policy tier =
     (let t = (if truthy (dgetd policy ''scaleSafeguards'' (PBool True)) then tier else ''emerging'') in
      ebind (policy_limit policy (t @ ''StandardGroups'')) (\<lambda>standard.
      ebind (policy_limit policy (t @ ''CoreGroups'')) (\<lambda>core. Inr (standard, core))))"

definition group_of :: "implementation \<Rightarrow> string" where
  "group_of i = (if im_group i = [] then im_id i else im_group i)"

definition independent_groups :: "implementation list \<Rightarrow> string list" where
  "independent_groups is = remdups (map group_of (filter (\<lambda>i. im_id i \<noteq> []) is))"

definition conforming_groups :: "implementation list \<Rightarrow> string list" where
  "conforming_groups is = remdups (map group_of (filter (\<lambda>i. im_id i \<noteq> [] \<and> im_conformance i) is))"

text \<open>\<open>impl_by_id[peer]\<close>: the last implementation with the identifier wins, as in the comprehension.\<close>

definition impl_by_id :: "implementation list \<Rightarrow> string \<Rightarrow> implementation option" where
  "impl_by_id is k = find (\<lambda>i. im_id i = k) (rev is)"

definition pair_of :: "string \<Rightarrow> string \<Rightarrow> string \<times> string" where
  "pair_of a b = (if a \<le> b then (a, b) else (b, a))"

definition interop_pair :: "implementation list \<Rightarrow> implementation \<Rightarrow> string \<Rightarrow> (string \<times> string) list" where
  "interop_pair is i peer =
     (if peer \<notin> set (map im_id is) \<or> peer = im_id i then []
      else (case impl_by_id is peer of
              None \<Rightarrow> []
            | Some p \<Rightarrow> if group_of i = group_of p then [] else [pair_of (im_id i) peer]))"

definition interop_pairs :: "implementation list \<Rightarrow> (string \<times> string) list" where
  "interop_pairs is = remdups (concat (map (\<lambda>i. concat (map (interop_pair is i) (im_peers i))) is))"

definition when_text :: "bool \<Rightarrow> string \<Rightarrow> string list" where
  "when_text b t = (if b then [t] else [])"

definition candidate_blockers :: "pydict \<Rightarrow> extension \<Rightarrow> string list" where
  "candidate_blockers p e =
     when_text (policy_flag p ''requirePublicSpecForCandidate'' \<and> \<not> ex_spec e) ''candidate maturity requires a public specification'' @
     when_text (length (independent_groups (ex_implementations e)) < 2) ''candidate maturity requires independent implementations''"

definition base_standard_blockers :: "pydict \<Rightarrow> int \<Rightarrow> extension \<Rightarrow> string list" where
  "base_standard_blockers p baseline e =
     (let is = ex_implementations e in
      when_text (int (length (independent_groups is)) < baseline)
        (''standard maturity requires at least '' @ show_int baseline @ '' independent groups'') @
      when_text (policy_flag p ''requirePublicSpecForCandidate'' \<and> \<not> ex_spec e) ''public specification missing'' @
      when_text (policy_flag p ''requireConformanceForStandard'' \<and> (\<not> ex_tests e \<or> int (length (conforming_groups is)) < baseline))
        ''public conformance evidence is insufficient'' @
      when_text (policy_flag p ''requireInteropForStandard'' \<and> (\<not> ex_interop e \<or> interop_pairs is = []))
        ''independent interoperability evidence missing'' @
      when_text (policy_flag p ''requireFallbackForStandard'' \<and> (\<not> ex_fallback e \<or> \<not> ex_backward e))
        ''fallback/backward-compatibility behavior missing'' @
      when_text (policy_flag p ''requireUnknownPreservationForStandard'' \<and> \<not> ex_unknown_tested e)
        ''unknown-extension preservation has not been tested'' @
      when_text (policy_flag p ''forbidMandatoryVendorDependency'' \<and> ex_vendor e \<noteq> [])
        ''mandatory vendor dependency is incompatible with open standard status'' @
      when_text (policy_flag p ''forbidMandatoryCloudDependency'' \<and> ex_cloud e)
        ''mandatory cloud dependency is incompatible with open standard status'' @
      when_text (policy_flag p ''forbidMandatoryAiDependency'' \<and> ex_ai e)
        ''mandatory AI dependency is incompatible with open standard status'')"

definition scale_blockers :: "pydict \<Rightarrow> string \<Rightarrow> int \<Rightarrow> extension \<Rightarrow> string list" where
  "scale_blockers p tier required e =
     when_text (int (length (independent_groups (ex_implementations e))) < required)
       (''current '' @ tier @ ''-scale promotion/revalidation expects '' @ show_int required @ '' independent groups'') @
     when_text (policy_flag p ''requireConformanceForStandard'' \<and>
                int (length (conforming_groups (ex_implementations e))) < required)
       ''current-scale conformance evidence is not broad enough''"

definition core_only_blockers :: "string \<Rightarrow> int \<Rightarrow> extension \<Rightarrow> string list" where
  "core_only_blockers tier required e =
     when_text (int (length (independent_groups (ex_implementations e))) < required)
       (''mandatory core promotion requires '' @ show_int required @ '' independent groups at '' @ tier @ '' scale'') @
     when_text (\<not> ex_requested_core e) ''extension has not requested mandatory-core review''"

definition deprecation_blockers :: "extension \<Rightarrow> string list" where
  "deprecation_blockers e =
     (if ex_deprecated e \<and> ex_maturity e = ''standard'' then
        when_text (ex_replacement e = []) ''deprecated standard must identify a replacement or explicitly remain terminal'' @
        when_text (ex_replacement e \<noteq> [] \<and> \<not> ex_bridge e) ''standard replacement lacks a migration/compatibility bridge''
      else [])"

record assessment =
  as_extension :: extension
  as_tier :: string
  as_standard_required :: int
  as_core_required :: int
  as_candidate :: "string list"
  as_base :: "string list"
  as_standard :: "string list"
  as_core :: "string list"

definition community_ready :: "extension \<Rightarrow> bool" where
  "community_ready e = (2 \<le> length (independent_groups (ex_implementations e)))"

definition community_blockers :: "extension \<Rightarrow> string list" where
  "community_blockers e =
     when_text (\<not> community_ready e) ''community maturity requires at least two independent implementation groups''"

definition grandfathered :: "assessment \<Rightarrow> bool" where
  "grandfathered a =
     (ex_maturity (as_extension a) = ''standard'' \<and> ex_adoption (as_extension a) \<noteq> [] \<and> as_base a = [] \<and> as_standard a \<noteq> [])"

definition highest_maturity :: "assessment \<Rightarrow> string" where
  "highest_maturity a =
     (if as_standard a = [] then ''standard'' else if as_candidate a = [] then ''candidate''
      else if community_ready (as_extension a) then ''community'' else ''experimental'')"

definition maturity_valid :: "assessment \<Rightarrow> bool" where
  "maturity_valid a =
     (let m = ex_maturity (as_extension a) in
      if m = ''experimental'' then True
      else if m = ''community'' then community_ready (as_extension a)
      else if m = ''candidate'' then as_candidate a = []
      else as_standard a = [] \<or> grandfathered a)"

definition maturity_blockers :: "assessment \<Rightarrow> string list" where
  "maturity_blockers a =
     (let m = ex_maturity (as_extension a) in
      if maturity_valid a then []
      else if m = ''community'' then community_blockers (as_extension a)
      else if m = ''candidate'' then as_candidate a
      else if as_base a = [] \<and> ex_adoption (as_extension a) = []
      then as_standard a @ [''no adoption record is available for grandfathered Standard recognition'']
      else as_base a)"

definition assess :: "pydict \<Rightarrow> extension \<Rightarrow> int \<Rightarrow> pyerr + assessment" where
  "assess p e participants =
     (let tier = scale_tier participants in
      ebind (thresholds p tier) (\<lambda>(standard_required, core_required).
      ebind (policy_limit p ''emergingStandardGroups'') (\<lambda>baseline.
      let base = base_standard_blockers p baseline e;
          standard = base @ scale_blockers p tier standard_required e in
      Inr \<lparr>as_extension = e, as_tier = tier, as_standard_required = standard_required, as_core_required = core_required,
           as_candidate = candidate_blockers p e, as_base = base, as_standard = standard,
           as_core = standard @ core_only_blockers tier core_required e\<rparr>)))"

definition evaluate_technology_extension :: "pyval \<Rightarrow> pyval \<Rightarrow> int \<Rightarrow> pyerr + assessment" where
  "evaluate_technology_extension ext policy participants =
     ebind (normalize_technology_policy policy) (\<lambda>p.
     ebind (normalize_technology_extension ext) (\<lambda>e. assess p e participants))"

definition assessment_dict :: "assessment \<Rightarrow> pydict" where
  "assessment_dict a =
     (let e = as_extension a; is = ex_implementations e in
      [(''id'', PStr (ex_id e)), (''declaredMaturity'', PStr (ex_maturity e)),
       (''highestEligibleMaturity'', PStr (highest_maturity a)), (''declaredMaturityValid'', PBool (maturity_valid a)),
       (''maturityBlockers'', strs (maturity_blockers a)), (''currentScaleStandardReady'', PBool (as_standard a = [])),
       (''scaleRevalidationNeeded'', PBool (grandfathered a)), (''grandfatheredStandard'', PBool (grandfathered a)),
       (''adoptionRecordRef'', opt_str (ex_adoption e)),
       (''scaleRevalidationBlockers'', strs (if grandfathered a then as_standard a else [])),
       (''coreEligible'', PBool (as_core a = [])), (''coreBlockers'', strs (as_core a)),
       (''mandatoryCore'', PBool (ex_mandatory_core e)), (''deprecated'', PBool (ex_deprecated e)),
       (''replacementId'', opt_str (ex_replacement e)), (''deprecationSafe'', PBool (deprecation_blockers e = [])),
       (''deprecationBlockers'', strs (deprecation_blockers e)), (''scaleTier'', PStr (as_tier a)),
       (''standardIndependentGroupsRequired'', PInt (as_standard_required a)),
       (''coreIndependentGroupsRequired'', PInt (as_core_required a)),
       (''implementationCount'', PInt (int (length is))), (''independentGroupCount'', PInt (int (length (independent_groups is)))),
       (''conformingIndependentGroupCount'', PInt (int (length (conforming_groups is)))),
       (''interopPairCount'', PInt (int (length (interop_pairs is)))), (''vendorLocked'', PBool (ex_vendor e \<noteq> [])),
       (''cloudLocked'', PBool (ex_cloud e)), (''aiLocked'', PBool (ex_ai e)), (''unknownFieldsPreserved'', PBool True)])"

section \<open>The registry\<close>

record registry_report =
  re_policy :: pydict
  re_extensions :: "extension list"
  re_assessments :: "assessment list"
  re_failures :: "string list"
  re_invalid :: "string list"
  re_unsafe_core :: "string list"
  re_unsafe_deprecations :: "string list"
  re_openness :: string
  re_tier :: string
  re_participants :: int
  re_core_limit :: int
  re_mandatory :: nat
  re_thresholds :: "int \<times> int"

definition assessed_id :: "assessment \<Rightarrow> string" where
  "assessed_id a = ex_id (as_extension a)"

definition locked :: "extension \<Rightarrow> bool" where
  "locked e = (ex_vendor e \<noteq> [] \<or> ex_cloud e \<or> ex_ai e)"

text \<open>\<open>next(ext for ext in extensions_n if ext["id"] == item["id"])\<close>: the generator is never empty
  unless a second normalisation changes the identifier, which raises \<open>StopIteration\<close>.\<close>

definition requested_core_of :: "extension list \<Rightarrow> assessment \<Rightarrow> pyerr + bool" where
  "requested_core_of exts a =
     (case find (\<lambda>e. ex_id e = assessed_id a) exts of
        None \<Rightarrow> Inl StopIteration
      | Some e \<Rightarrow> Inr (ex_requested_core e))"

definition policy_failures :: "pydict \<Rightarrow> bool \<Rightarrow> bool \<Rightarrow> bool \<Rightarrow> string list" where
  "policy_failures p locked_standards unsafe_deprecations core_budget_exceeded =
     when_text (\<not> policy_flag p ''preserveUnknownCapabilities'') ''unknown capabilities are not guaranteed to survive'' @
     when_text (\<not> policy_flag p ''allowUnregisteredExperimentalNamespaces'') ''experimental technology requires central registration'' @
     when_text (\<not> policy_flag p ''allowNoAiParticipant'') ''no-AI participants are not protected'' @
     when_text locked_standards ''declared standards contain mandatory vendor/cloud/AI dependencies'' @
     when_text unsafe_deprecations ''standard deprecation lacks a migration-safe path'' @
     when_text core_budget_exceeded ''mandatory core extension budget is exceeded; new capabilities should remain profiles/extensions''"

definition openness_of :: "string list \<Rightarrow> bool \<Rightarrow> bool \<Rightarrow> string" where
  "openness_of failures invalid unsafe_core =
     (if unsafe_core \<or> 2 \<le> length failures then ''at-risk''
      else if failures \<noteq> [] \<or> invalid then ''guarded'' else ''open'')"

definition evaluate_technology_registry :: "pyval \<Rightarrow> pyval \<Rightarrow> int \<Rightarrow> pyerr + registry_report" where
  "evaluate_technology_registry extensions policy participants =
     ebind (normalize_technology_policy policy) (\<lambda>p.
     ebind (normalize_technology_extensions extensions) (\<lambda>exts.
     ebind (emap (\<lambda>e. evaluate_technology_extension (PDict (extension_dict e)) (PDict p) participants) exts) (\<lambda>as.
     ebind (emap (requested_core_of exts) as) (\<lambda>requested.
     ebind (policy_limit p ''maxMandatoryCoreExtensions'') (\<lambda>core_limit.
     ebind (thresholds p (scale_tier participants)) (\<lambda>required.
     let invalid = map assessed_id (filter (\<lambda>a. \<not> maturity_valid a) as);
         unsafe_core = map (assessed_id \<circ> fst) (filter (\<lambda>(a, r). r \<and> as_core a \<noteq> []) (zip as requested));
         unsafe_deprecations = map assessed_id (filter (\<lambda>a. deprecation_blockers (as_extension a) \<noteq> []) as);
         mandatory = length (filter (ex_mandatory_core \<circ> as_extension) as);
         failures = policy_failures p
           (list_ex (\<lambda>a. ex_maturity (as_extension a) = ''standard'' \<and> locked (as_extension a)) as)
           (unsafe_deprecations \<noteq> []) (core_limit < int mandatory) in
     Inr \<lparr>re_policy = p, re_extensions = exts, re_assessments = as, re_failures = failures, re_invalid = invalid,
          re_unsafe_core = unsafe_core, re_unsafe_deprecations = unsafe_deprecations,
          re_openness = openness_of failures (invalid \<noteq> []) (unsafe_core \<noteq> []), re_tier = scale_tier participants,
          re_participants = max 0 participants, re_core_limit = core_limit, re_mandatory = mandatory,
          re_thresholds = required\<rparr>))))))"

definition count_of :: "('a \<Rightarrow> bool) \<Rightarrow> 'a list \<Rightarrow> pyval" where
  "count_of P xs = PInt (int (length (filter P xs)))"

definition registry_report_dict :: "registry_report \<Rightarrow> pydict" where
  "registry_report_dict r =
     [(''openness'', PStr (re_openness r)), (''scaleTier'', PStr (re_tier r)), (''ecosystemParticipants'', PInt (re_participants r)),
      (''policy'', PDict (re_policy r)), (''extensionCount'', PInt (int (length (re_extensions r)))),
      (''experimentalCount'', count_of (\<lambda>e. ex_maturity e = ''experimental'') (re_extensions r)),
      (''standardCount'', count_of (\<lambda>e. ex_maturity e = ''standard'') (re_extensions r)),
      (''requestedCoreCount'', count_of ex_requested_core (re_extensions r)), (''mandatoryCoreCount'', PInt (int (re_mandatory r))),
      (''maxMandatoryCoreExtensions'', PInt (re_core_limit r)), (''coreBudgetExceeded'', PBool (re_core_limit r < int (re_mandatory r))),
      (''standardIndependentGroupsRequired'', PInt (fst (re_thresholds r))),
      (''coreIndependentGroupsRequired'', PInt (snd (re_thresholds r))),
      (''preserveUnknownCapabilities'', PBool (policy_flag (re_policy r) ''preserveUnknownCapabilities'')),
      (''experimentalWithoutPermission'', PBool (policy_flag (re_policy r) ''allowUnregisteredExperimentalNamespaces'')),
      (''noAiParticipantValid'', PBool (policy_flag (re_policy r) ''allowNoAiParticipant'')),
      (''invalidDeclaredMaturityIds'', strs (re_invalid r)), (''unsafeCoreRequestIds'', strs (re_unsafe_core r)),
      (''scaleRevalidationIds'', strs (map assessed_id (filter grandfathered (re_assessments r)))),
      (''unsafeDeprecationIds'', strs (re_unsafe_deprecations r)), (''policyFailures'', strs (re_failures r)),
      (''extensions'', PList (map (PDict \<circ> assessment_dict) (re_assessments r)))]"

definition negotiate_technology_capabilities :: "pyval \<Rightarrow> pyval \<Rightarrow> pyerr + pydict" where
  "negotiate_technology_capabilities local_caps remote_caps =
     ebind (py_iter (por local_caps (PList []))) (\<lambda>ls.
     ebind (py_iter (por remote_caps (PList []))) (\<lambda>rs.
     let l = clean_set 192 ls; r = clean_set 192 rs;
         local_only = filter (\<lambda>x. x \<notin> set r) l; remote_only = filter (\<lambda>x. x \<notin> set l) r in
     Inr [(''common'', strs (filter (\<lambda>x. x \<in> set r) l)), (''localOnly'', strs local_only), (''remoteOnly'', strs remote_only),
          (''preservedUnknown'', strs (sorted_set (l @ r))), (''executeCommonOnly'', PBool True),
          (''implicitCoercion'', PBool False), (''translationRequired'', PBool (local_only \<noteq> [] \<or> remote_only \<noteq> []))]))"

section \<open>Policies are within their bounds\<close>

lemma dget_dmerge_notin: "\<not> din k b \<Longrightarrow> dget (dmerge a b) k = dget a k"
  unfolding dmerge_def by (induction b arbitrary: a) auto

lemma flag_steps:
  "k \<notin> set ks \<or> \<not> din k raw \<Longrightarrow> dget (fold (flag_step raw) ks p) k = dget p k"
  by (induction ks arbitrary: p) (auto simp: flag_step_def)

lemma limit_step_other: "limit_step raw k p = Inr p' \<Longrightarrow> k' \<noteq> k \<or> \<not> din k raw \<Longrightarrow> dget p' k' = dget p k'"
  by (auto simp: limit_step_def ebind_eq_Inr split: if_splits)

lemma limit_step_clamps:
  assumes "limit_step raw k p = Inr p'" and "din k raw" and "dget p k = dget raw k"
  shows "\<exists>i. dget p' k = Some (PInt i) \<and> 1 \<le> i \<and> i \<le> 64"
proof -
  have same: "dgetn p k = dgetn raw k" using assms(3) by (simp add: dgetn_def dgetd_def)
  with assms(1,2) obtain dflt i where "py_int (dgetn raw k) = Inr dflt" "tech_int (dgetn raw k) 1 64 dflt = Inr i"
    "p' = dset p k (PInt i)"
    by (auto simp: limit_step_def ebind_eq_Inr)
  then show ?thesis using iclamp_bounds [of 1 64 dflt] by (auto simp: tech_int_def)
qed

lemma limit_steps:
  assumes "efold (limit_step raw) ks p = Inr p'" and "distinct ks"
    and "\<And>k. k \<in> set ks \<Longrightarrow> din k raw \<Longrightarrow> dget p k = dget raw k"
  shows "if k \<in> set ks \<and> din k raw then \<exists>i. dget p' k = Some (PInt i) \<and> 1 \<le> i \<and> i \<le> 64
         else dget p' k = dget p k"
  using assms
proof (induction ks arbitrary: p)
  case Nil
  then show ?case by simp
next
  case (Cons x xs)
  then obtain q where q: "limit_step raw x p = Inr q" and rest: "efold (limit_step raw) xs q = Inr p'"
    by (auto simp: ebind_eq_Inr)
  have "dget q k = dget raw k" if "k \<in> set xs" "din k raw" for k
    using limit_step_other [OF q, of k] that Cons.prems by auto
  note IH = Cons.IH [OF rest _ this]
  show ?case
  proof (cases "k = x")
    case True
    with Cons.prems IH have "dget p' k = dget q k" by simp
    with True q limit_step_clamps [OF q] limit_step_other [OF q, of x] Cons.prems(3) [of x] show ?thesis by auto
  next
    case False
    with IH Cons.prems limit_step_other [OF q, of k] show ?thesis by auto
  qed
qed

lemma limit_keys: "distinct (map fst policy_limits)" "set (map fst policy_limits) \<inter> set policy_flags = {}"
  by code_simp+

lemma default_limits:
  "list_all (\<lambda>(k, i). dget default_technology_policy k = Some (PInt i) \<and> 1 \<le> i \<and> i \<le> 64) policy_limits"
  by code_simp

definition limits_ok :: "pydict \<Rightarrow> bool" where
  "limits_ok p = list_all (\<lambda>k. case policy_limit p k of Inr i \<Rightarrow> 1 \<le> i \<and> i \<le> 64 | Inl _ \<Rightarrow> False) (map fst policy_limits)"

lemma normalized_limits:
  assumes "normalize_technology_policy v = Inr p" and "dwf (dict_of v)"
  shows "limits_ok p"
  unfolding limits_ok_def list_all_iff
proof (intro ballI)
  fix k assume k: "k \<in> set (map fst policy_limits)"
  define q where "q = fold (flag_step (dict_of v)) policy_flags (dmerge default_technology_policy (dict_of v))"
  have q: "dget q x = dget (dmerge default_technology_policy (dict_of v)) x" if "x \<in> set (map fst policy_limits)" for x
    using that limit_keys(2) flag_steps [of x policy_flags] by (auto simp: q_def)
  have "efold (limit_step (dict_of v)) (map fst policy_limits) q = Inr p"
    using assms(1) by (simp add: normalize_technology_policy_def q_def Let_def)
  moreover have "dget q x = dget (dict_of v) x" if "x \<in> set (map fst policy_limits)" "din x (dict_of v)" for x
    using that q [OF that(1)] dget_dmerge [OF assms(2), of default_technology_policy x]
    by (auto simp: din_def split: option.splits)
  ultimately have *: "if k \<in> set (map fst policy_limits) \<and> din k (dict_of v)
      then \<exists>i. dget p k = Some (PInt i) \<and> 1 \<le> i \<and> i \<le> 64 else dget p k = dget q k"
    by (rule limit_steps [OF _ limit_keys(1)])
  have "\<exists>i. dget p k = Some (PInt i) \<and> 1 \<le> i \<and> i \<le> 64"
  proof (cases "din k (dict_of v)")
    case False
    with * k q [OF k] dget_dmerge_notin [OF False] have "dget p k = dget default_technology_policy k" by simp
    with k default_limits show ?thesis by (auto simp: list_all_iff)
  qed (use * k in auto)
  then show "case policy_limit p k of Inr i \<Rightarrow> 1 \<le> i \<and> i \<le> 64 | Inl _ \<Rightarrow> False"
    by (auto simp: policy_limit_def dindex_def)
qed

lemma limits_okD:
  "limits_ok p \<Longrightarrow> k \<in> set (map fst policy_limits) \<Longrightarrow> \<exists>i. policy_limit p k = Inr i \<and> 1 \<le> i \<and> i \<le> 64"
  unfolding limits_ok_def list_all_iff by (drule (1) bspec) (simp split: sum.splits)

lemma tier_limits:
  "scale_tier n @ ''StandardGroups'' \<in> set (map fst policy_limits)" "scale_tier n @ ''CoreGroups'' \<in> set (map fst policy_limits)"
  "''emerging'' @ ''StandardGroups'' \<in> set (map fst policy_limits)" "''emerging'' @ ''CoreGroups'' \<in> set (map fst policy_limits)"
  by (auto simp: scale_tier_def policy_limits_def)

lemma assess_total:
  assumes "limits_ok p"
  shows "\<exists>a. assess p e n = Inr a \<and> as_extension a = e \<and> as_tier a = scale_tier n \<and>
    1 \<le> as_standard_required a \<and> as_standard_required a \<le> 64 \<and> 1 \<le> as_core_required a \<and> as_core_required a \<le> 64"
proof -
  define t where "t = (if truthy (dgetd p ''scaleSafeguards'' (PBool True)) then scale_tier n else ''emerging'')"
  have "t @ ''StandardGroups'' \<in> set (map fst policy_limits)" "t @ ''CoreGroups'' \<in> set (map fst policy_limits)"
    using tier_limits unfolding t_def by simp_all
  from this [THEN limits_okD [OF assms]] obtain s c where
    "policy_limit p (t @ ''StandardGroups'') = Inr s" "1 \<le> s \<and> s \<le> 64"
    "policy_limit p (t @ ''CoreGroups'') = Inr c" "1 \<le> c \<and> c \<le> 64" by blast
  moreover obtain b where "policy_limit p ''emergingStandardGroups'' = Inr b"
    using limits_okD [OF assms tier_limits(3)] by auto
  ultimately show ?thesis by (simp add: assess_def thresholds_def Let_def t_def [symmetric])
qed

text \<open>
  A technology policy that normalises is within its bounds: each of the nine group and budget
  limits is an integer from 1 to 64, so the assessment of an extension never fails under it,
  whatever the size of the ecosystem, and the group counts it requires are within the same bounds.
\<close>

theorem technology_policy_bounds:
  assumes "normalize_technology_policy v = Inr p" and "dwf (dict_of v)"
    and "normalize_technology_extension ext = Inr e"
  shows "limits_ok p \<and>
    (\<exists>a. evaluate_technology_extension ext v n = Inr a \<and> as_extension a = e \<and>
       1 \<le> as_standard_required a \<and> as_standard_required a \<le> 64 \<and> 1 \<le> as_core_required a \<and> as_core_required a \<le> 64)"
  using normalized_limits [OF assms(1,2)] assess_total [of p e n] assms
  by (auto simp: evaluate_technology_extension_def)

definition demo_extension :: pyval where
  "demo_extension = PDict
     [(''id'', PStr ''org.demo.cue''), (''maturity'', PStr ''standard''), (''publicSpec'', PBool True),
      (''conformanceTests'', PBool True), (''interoperabilityEvidence'', PBool True), (''fallbackDefined'', PBool True),
      (''unknownPreservationTested'', PBool True), (''adoptionRecordRef'', PStr ''record-1''),
      (''implementations'', PList
        [PDict [(''id'', PStr ''a''), (''independentGroup'', PStr ''ga''), (''conformancePass'', PBool True), (''interopPeers'', strs [''b''])],
         PDict [(''id'', PStr ''b''), (''independentGroup'', PStr ''gb''), (''conformancePass'', PBool True)]])]"

lemma demo_extension_ok: "\<exists>e. normalize_technology_extension demo_extension = Inr e"
proof -
  have "isl (normalize_technology_extension demo_extension) = False" by code_simp
  then show ?thesis by (cases "normalize_technology_extension demo_extension") auto
qed

theorem technology_policy_bounds_witness:
  "\<exists>p a. normalize_technology_policy (PDict [(''largeCoreGroups'', PInt 900)]) = Inr p \<and> limits_ok p \<and>
     evaluate_technology_extension demo_extension (PDict [(''largeCoreGroups'', PInt 900)]) 75 = Inr a \<and> as_core_required a \<le> 64"
proof -
  let ?v = "PDict [(''largeCoreGroups'', PInt 900)]"
  have "isl (normalize_technology_policy ?v) = False" by code_simp
  then obtain p where p: "normalize_technology_policy ?v = Inr p" by (cases "normalize_technology_policy ?v") auto
  obtain e where e: "normalize_technology_extension demo_extension = Inr e" using demo_extension_ok by blast
  have "dwf (dict_of ?v)" by (simp add: dwf_def dkeys_def)
  from technology_policy_bounds [OF p this e, of 75] p show ?thesis by blast
qed

section \<open>Standards\<close>

lemma when_text_Nil [simp]: "(when_text b t = []) = (\<not> b)"
  by (simp add: when_text_def)

lemma assess_fields:
  assumes "assess p e n = Inr a"
  shows "as_extension a = e"
    and "\<exists>baseline. policy_limit p ''emergingStandardGroups'' = Inr baseline \<and> as_base a = base_standard_blockers p baseline e"
    and "as_standard a = as_base a @ scale_blockers p (scale_tier n) (as_standard_required a) e"
    and "as_core a = as_standard a @ core_only_blockers (scale_tier n) (as_core_required a) e"
  using assms by (auto simp: assess_def ebind_eq_Inr Let_def)

lemma valid_standard:
  "ex_maturity (as_extension a) = ''standard'' \<Longrightarrow>
     maturity_valid a = (as_standard a = [] \<or> (ex_adoption (as_extension a) \<noteq> [] \<and> as_base a = []))"
  by (auto simp: maturity_valid_def grandfathered_def Let_def)

text \<open>
  Adoption is never withdrawn by growth: an extension that is declared a standard, has an
  adoption record and is valid in an ecosystem of some size is valid in an ecosystem of every other
  size, under the same policy.  The scale safeguards raise the bar for promotion only.
\<close>

theorem adopted_standard_stays_valid:
  assumes "evaluate_technology_extension ext policy n = Inr a"
    and "ex_maturity (as_extension a) = ''standard''" and "ex_adoption (as_extension a) \<noteq> []" and "maturity_valid a"
    and "evaluate_technology_extension ext policy m = Inr b"
  shows "maturity_valid b"
proof -
  from assms(1,5) obtain p e where a: "assess p e n = Inr a" and b: "assess p e m = Inr b"
    by (auto simp: evaluate_technology_extension_def ebind_eq_Inr)
  have same: "as_extension a = e" "as_extension b = e" "as_base b = as_base a"
    using assess_fields(1,2) [OF a] assess_fields(1,2) [OF b] by auto
  have "as_base a = []"
    using assms(2-4) assess_fields(3) [OF a] by (auto simp: valid_standard)
  with assms(2,3) same show ?thesis by (simp add: valid_standard)
qed

theorem adopted_standard_stays_valid_witness:
  "\<exists>b. evaluate_technology_extension demo_extension (PDict []) 500 = Inr b \<and> maturity_valid b \<and> as_standard b \<noteq> []"
proof -
  let ?a = "projr (evaluate_technology_extension demo_extension (PDict []) 3)"
  have ok: "\<not> isl (evaluate_technology_extension demo_extension (PDict []) 3)"
    "\<not> isl (evaluate_technology_extension demo_extension (PDict []) 500)" by code_simp+
  then obtain a b where a: "evaluate_technology_extension demo_extension (PDict []) 3 = Inr a"
    and b: "evaluate_technology_extension demo_extension (PDict []) 500 = Inr b" by (metis sum.collapse(2))
  have "ex_maturity (as_extension ?a) = ''standard'' \<and> ex_adoption (as_extension ?a) \<noteq> [] \<and> maturity_valid ?a"
    and "as_standard (projr (evaluate_technology_extension demo_extension (PDict []) 500)) \<noteq> []" by code_simp+
  with a b adopted_standard_stays_valid [OF a _ _ _ b] show ?thesis by simp
qed

lemma find_SomeD': "find P xs = Some x \<Longrightarrow> P x \<and> x \<in> set xs"
  by (induction xs) (auto split: if_splits)

lemma impl_by_id_Some: "impl_by_id is k = Some i \<Longrightarrow> i \<in> set is \<and> im_id i = k"
  unfolding impl_by_id_def by (drule find_SomeD') simp

lemma interop_pair_sound:
  "x \<in> set (interop_pair is i peer) \<Longrightarrow> \<exists>j \<in> set is. im_id j = peer \<and> group_of i \<noteq> group_of j"
  using impl_by_id_Some [of "is" peer]
  by (cases "impl_by_id is peer") (auto simp: interop_pair_def split: if_splits)

lemma interop_pairs_sound:
  assumes "interop_pairs is \<noteq> []"
  shows "\<exists>i \<in> set is. \<exists>j \<in> set is. im_id j \<in> set (im_peers i) \<and> group_of i \<noteq> group_of j"
proof -
  from assms obtain x where "x \<in> set (interop_pairs is)" by (meson last_in_set)
  then obtain i peer where "i \<in> set is" "peer \<in> set (im_peers i)" "x \<in> set (interop_pair is i peer)"
    unfolding interop_pairs_def by auto
  with interop_pair_sound show ?thesis by blast
qed

text \<open>What a standard has to show under a policy, whatever the size of the ecosystem.\<close>

definition standard_evidence :: "pydict \<Rightarrow> int \<Rightarrow> extension \<Rightarrow> bool" where
  "standard_evidence p baseline e =
     (let is = ex_implementations e in
      baseline \<le> int (card (group_of ` {i \<in> set is. im_id i \<noteq> []})) \<and>
      (policy_flag p ''requirePublicSpecForCandidate'' \<longrightarrow> ex_spec e) \<and>
      (policy_flag p ''requireConformanceForStandard'' \<longrightarrow>
         ex_tests e \<and> baseline \<le> int (card (group_of ` {i \<in> set is. im_id i \<noteq> [] \<and> im_conformance i}))) \<and>
      (policy_flag p ''requireInteropForStandard'' \<longrightarrow>
         (\<exists>i \<in> set is. \<exists>j \<in> set is. im_id j \<in> set (im_peers i) \<and> group_of i \<noteq> group_of j)) \<and>
      (policy_flag p ''requireFallbackForStandard'' \<longrightarrow> ex_fallback e \<and> ex_backward e) \<and>
      (policy_flag p ''requireUnknownPreservationForStandard'' \<longrightarrow> ex_unknown_tested e) \<and>
      (policy_flag p ''forbidMandatoryVendorDependency'' \<longrightarrow> ex_vendor e = []) \<and>
      (policy_flag p ''forbidMandatoryCloudDependency'' \<longrightarrow> \<not> ex_cloud e) \<and>
      (policy_flag p ''forbidMandatoryAiDependency'' \<longrightarrow> \<not> ex_ai e))"

lemma length_groups:
  "length (independent_groups is) = card (group_of ` {i \<in> set is. im_id i \<noteq> []})"
  "length (conforming_groups is) = card (group_of ` {i \<in> set is. im_id i \<noteq> [] \<and> im_conformance i})"
  by (simp_all add: independent_groups_def conforming_groups_def length_remdups_card_conv)

lemma base_standard_evidence:
  assumes "base_standard_blockers p baseline e = []"
  shows "standard_evidence p baseline e"
proof -
  from assms have "policy_flag p ''requireInteropForStandard'' \<Longrightarrow> interop_pairs (ex_implementations e) \<noteq> []"
    by (simp add: base_standard_blockers_def Let_def)
  with interop_pairs_sound [of "ex_implementations e"] assms show ?thesis
    unfolding standard_evidence_def base_standard_blockers_def Let_def append_is_Nil_conv when_text_Nil length_groups
    by auto
qed

text \<open>
  No standard without evidence: an extension that is declared a standard and found valid has the
  independent groups, the public specification, the conformance and interoperability evidence and
  the freedom from lock-in that the policy asks for, and it meets the group count of the current
  scale or has an adoption record.  An extension eligible for the mandatory core has this evidence
  at the current scale and asked for the review.
\<close>

theorem standards_have_evidence:
  assumes "evaluate_technology_extension ext policy n = Inr a"
  shows "\<exists>p baseline. normalize_technology_policy policy = Inr p \<and>
      policy_limit p ''emergingStandardGroups'' = Inr baseline \<and>
      (ex_maturity (as_extension a) = ''standard'' \<and> maturity_valid a \<longrightarrow>
         standard_evidence p baseline (as_extension a) \<and>
         (as_standard_required a \<le> int (length (independent_groups (ex_implementations (as_extension a)))) \<or>
          ex_adoption (as_extension a) \<noteq> [])) \<and>
      (as_core a = [] \<longrightarrow>
         standard_evidence p baseline (as_extension a) \<and> ex_requested_core (as_extension a) \<and>
         max (as_standard_required a) (as_core_required a) \<le>
           int (length (independent_groups (ex_implementations (as_extension a)))))"
proof -
  from assms obtain p e where p: "normalize_technology_policy policy = Inr p" and a: "assess p e n = Inr a"
    by (auto simp: evaluate_technology_extension_def ebind_eq_Inr)
  note f = assess_fields [OF a]
  from f(2) obtain baseline where b: "policy_limit p ''emergingStandardGroups'' = Inr baseline"
    "as_base a = base_standard_blockers p baseline e" by blast
  have ev: "standard_evidence p baseline e" if "as_base a = []"
    using that b(2) base_standard_evidence by simp
  have sc: "as_standard_required a \<le> int (length (independent_groups (ex_implementations e)))" if "as_standard a = []"
    using that f(3) by (simp add: scale_blockers_def)
  have "standard_evidence p baseline e \<and>
      (as_standard_required a \<le> int (length (independent_groups (ex_implementations e))) \<or> ex_adoption e \<noteq> [])"
    if "ex_maturity e = ''standard''" "maturity_valid a"
    using that ev sc f(1,3) valid_standard [of a] by auto
  moreover have "standard_evidence p baseline e \<and> ex_requested_core e \<and>
      max (as_standard_required a) (as_core_required a) \<le> int (length (independent_groups (ex_implementations e)))"
    if "as_core a = []"
    using that ev sc f(3,4) by (simp add: core_only_blockers_def)
  ultimately show ?thesis using p b(1) f(1) by blast
qed

theorem standards_have_evidence_witness:
  "\<exists>a. evaluate_technology_extension demo_extension (PDict []) 3 = Inr a \<and> maturity_valid a \<and>
     ex_maturity (as_extension a) = ''standard'' \<and> (\<exists>p baseline. standard_evidence p baseline (as_extension a))"
proof -
  let ?a = "projr (evaluate_technology_extension demo_extension (PDict []) 3)"
  have "\<not> isl (evaluate_technology_extension demo_extension (PDict []) 3)" by code_simp
  then obtain a where a: "evaluate_technology_extension demo_extension (PDict []) 3 = Inr a" by (metis sum.collapse(2))
  have "ex_maturity (as_extension ?a) = ''standard'' \<and> maturity_valid ?a" by code_simp
  with a standards_have_evidence [OF a] show ?thesis by auto
qed

section \<open>The evidence digest\<close>

definition evidence_keys :: "string set" where
  "evidence_keys =
     {''id'', ''maturity'', ''requestedCore'', ''mandatoryCore'', ''publicSpec'', ''conformanceTests'',
      ''interoperabilityEvidence'', ''fallbackDefined'', ''backwardCompatible'', ''unknownPreservationTested'',
      ''productionDeployments'', ''dependencies'', ''implementations''}"

lemma ebind_assoc: "ebind (ebind m f) g = ebind m (\<lambda>x. ebind (f x) g)"
  by (cases m) simp_all

text \<open>
  The evidence digest that a conformance receipt signs depends on the evidence only: writing any
  other field of the extension, the adoption record that refers to the receipt among them, leaves
  the digest unchanged, and so does every field this version does not know.
\<close>

theorem evidence_digest_stable:
  assumes "k \<notin> evidence_keys"
  shows "technology_evidence_digest (PDict (dset d k v)) = technology_evidence_digest (PDict d)"
proof -
  have get: "dgetd (dset d k v) x w = dgetd d x w" if "x \<in> evidence_keys" for x w
    using that assms by (auto simp: dgetd_def)
  have get': "dgetd (dset d k v) x w = dgetd d x w" "dgetn (dset d k v) x = dgetn d x"
    "field_str m (dset d k v) x = field_str m d x" "field_bool (dset d k v) x f = field_bool d x f"
    if "x \<in> evidence_keys" for x w m f
    using get [OF that] by (simp_all add: dgetn_def field_str_def field_bool_def)
  show ?thesis
    unfolding technology_evidence_digest_def technology_evidence_statement_def normalize_technology_extension_def
    by (simp add: get' evidence_keys_def Let_def ebind_assoc evidence_statement_def)
qed

theorem evidence_digest_stable_witness:
  "technology_evidence_digest (PDict (dset [(''id'', PStr ''org.demo.cue'')] ''adoptionRecordRef'' (PStr ''record-1''))) =
   technology_evidence_digest (PDict [(''id'', PStr ''org.demo.cue'')])"
  by (rule evidence_digest_stable) (simp add: evidence_keys_def)

end
