(* ===== verification/Compatibility.thy ===== *)
theory Compatibility
  imports Py_Monad "HOL-Library.Multiset"
begin

text \<open>
  \<^verbatim>\<open>src/backend/compatibility.py\<close>: reading show states of other versions, merging a current
  document over one with unknown fields, and negotiating capabilities between participants.
\<close>

section \<open>Versions\<close>

definition show_state_type :: string where
  "show_state_type = ''org.upp.show-state''"

definition compatibility_metadata :: "int option \<Rightarrow> string list \<Rightarrow> pydict" where
  "compatibility_metadata source_api_version migrations =
     [(''documentType'', PStr show_state_type), (''schemaVersion'', PInt 1),
      (''minimumReaderApiVersion'', PInt 1), (''unknownFieldsPreserved'', PBool True)] @
     (case source_api_version of None \<Rightarrow> [] | Some v \<Rightarrow> if v \<noteq> 1 then [(''sourceApiVersion'', PInt v)] else []) @
     (if migrations \<noteq> [] then [(''migrations'', strs migrations)] else [])"

definition version_facts :: "int \<Rightarrow> int \<Rightarrow> pydict" where
  "version_facts incoming minimum_reader =
     [(''incomingApiVersion'', PInt incoming), (''minimumReaderApiVersion'', PInt minimum_reader),
      (''readerApiVersion'', PInt 1)]"

definition inspect_show_state :: "pyval \<Rightarrow> pyerr + pydict" where
  "inspect_show_state snapshot =
     (case snapshot of
        PDict d \<Rightarrow>
          ebind (as_int (dgetd d ''apiVersion'' (PInt 0)) 0) (\<lambda>incoming.
          let meta = dict_of (dgetn d ''compatibility''); dflt = (if 0 < incoming then incoming else 1) in
          ebind (as_int (dgetd meta ''minimumReaderApiVersion'' (PInt dflt)) dflt) (\<lambda>minimum_reader.
          let document_type = py_str (dgetd meta ''documentType'' (PStr show_state_type)) in
          if document_type \<noteq> show_state_type then
            Inr ([(''readable'', PBool False), (''mode'', PStr ''wrong-document-type''),
                  (''reason'', PStr (''unsupported document type: '' @ document_type))] @ version_facts incoming minimum_reader)
          else if incoming \<le> 0 then
            Inr ([(''readable'', PBool True), (''mode'', PStr ''legacy-migration'')] @
                 version_facts incoming minimum_reader @ [(''preserveUnknown'', PBool True)])
          else if 1 < minimum_reader then
            Inr ([(''readable'', PBool False), (''mode'', PStr ''reader-too-old''),
                  (''reason'', PStr (''document requires reader API '' @ show_int minimum_reader @
                                     '', this core supports 1''))] @ version_facts incoming minimum_reader)
          else
            Inr ([(''readable'', PBool True),
                  (''mode'', PStr (if incoming = 1 then ''exact'' else ''forward-compatible''))] @
                 version_facts incoming minimum_reader @ [(''preserveUnknown'', PBool True)])))
      | _ \<Rightarrow> Inr [(''readable'', PBool False), (''mode'', PStr ''invalid''),
                (''reason'', PStr ''show state must be an object''), (''readerApiVersion'', PInt 1)])"

text \<open>One renamed field of a section: the new name is added when only the old one is there.\<close>

definition rename_field :: "string \<Rightarrow> string \<Rightarrow> pydict \<Rightarrow> pydict" where
  "rename_field old new d = (if din old d \<and> \<not> din new d then dset d new (dgetn d old) else d)"

definition migrate_section :: "string \<Rightarrow> (string \<times> string) list \<Rightarrow> pydict \<times> string list \<Rightarrow> pydict \<times> string list" where
  "migrate_section section renames acc =
     (let (source, migrations) = acc;
          d = dict_of (dgetn source section);
          d' = fold (\<lambda>(old, new) x. rename_field old new x) renames d;
          done = concat (map (\<lambda>(old, new). if din old d \<and> \<not> din new d
                     then [section @ ''.'' @ old @ ''->'' @ section @ ''.'' @ new] else []) renames)
      in (if d' \<noteq> [] then dset source section (PDict d') else source, migrations @ done))"

text \<open>The sections of a legacy document under their current names, with the log of the renames, and
  the compatibility block written over the one the document has.\<close>

definition migrated_sections :: "int \<Rightarrow> pydict \<Rightarrow> pydict \<times> string list" where
  "migrated_sections incoming d =
     (if incoming \<le> 0 then
        migrate_section ''audio'' [(''outputDeviceId'', ''deviceId'')]
         (migrate_section ''system'' [(''resourceCapacity'', ''capacity'')]
          (migrate_section ''transport'' [(''tempo'', ''bpm''), (''positionSeconds'', ''seconds'')] (d, [])))
      else (d, []))"

definition migrated_metadata :: "int \<Rightarrow> string list \<Rightarrow> pydict \<Rightarrow> pyerr + pydict" where
  "migrated_metadata incoming migrations existing_meta =
     (let meta = dmerge existing_meta (compatibility_metadata (Some incoming) migrations) in
      if 1 < incoming then
        ebind (as_int (dgetd existing_meta ''minimumReaderApiVersion'' (PInt 1)) 1) (\<lambda>declared.
          Inr (dset (dset meta ''minimumReaderApiVersion'' (PInt (min declared 1)))
                 ''sourceApiVersion'' (PInt incoming)))
      else Inr meta)"

definition migrate_show_state :: "pyval \<Rightarrow> pyerr + (pydict \<times> pydict)" where
  "migrate_show_state snapshot =
     ebind (inspect_show_state snapshot) (\<lambda>report.
     if \<not> truthy (dgetn report ''readable'')
     then Inl (ValueError (py_str (dgetd report ''reason'' (PStr ''show state is not readable by this core''))))
     else
       ebind (as_int (dgetd (dict_of snapshot) ''apiVersion'' (PInt 0)) 0) (\<lambda>incoming.
       let (sections, migrations) = migrated_sections incoming (dict_of snapshot);
           source = dset sections ''apiVersion'' (PInt 1) in
       ebind (migrated_metadata incoming migrations (dict_of (dgetn source ''compatibility''))) (\<lambda>meta.
       Inr (dset source ''compatibility'' (PDict meta),
            dset (dset report ''migrations'' (strs migrations)) ''normalizedApiVersion'' (PInt 1)))))"

section \<open>Merging\<close>

function merge_items :: "pydict \<Rightarrow> pydict \<Rightarrow> pydict" where
  "merge_items m [] = m"
| "merge_items m ((k, v) # rest) =
     merge_items
       (dset m k (case v of
          PDict c \<Rightarrow> (case dget m k of Some (PDict b) \<Rightarrow> PDict (merge_items b c) | _ \<Rightarrow> PDict c)
        | _ \<Rightarrow> v)) rest"
  by pat_completeness auto
termination
  by (relation "measure (\<lambda>(m, c). size (PDict c))") auto

definition merge_preserving_unknown :: "pyval \<Rightarrow> pyval \<Rightarrow> pyval" where
  "merge_preserving_unknown base current =
     (case base of
        PDict b \<Rightarrow> (case current of PDict c \<Rightarrow> PDict (merge_items b c) | _ \<Rightarrow> current)
      | _ \<Rightarrow> current)"

section \<open>Participants\<close>

definition quality_order :: "(string \<times> int) list" where
  "quality_order = [(''direct'', 100), (''equivalent'', 95), (''acceptable'', 80), (''degraded'', 60), (''unavailable'', 0)]"

definition quality_score :: "string \<Rightarrow> int" where
  "quality_score q = (case dget quality_order q of Some n \<Rightarrow> n | None \<Rightarrow> 0)"

definition known_quality :: "string \<Rightarrow> string \<Rightarrow> string" where
  "known_quality dflt q = (if din q quality_order then q else dflt)"

definition capability_set :: "pyval \<Rightarrow> pyerr + string list" where
  "capability_set values =
     ebind (py_iter values) (\<lambda>items.
       Inr (sorted_set (filter (\<lambda>s. s \<noteq> []) (map (\<lambda>v. strip (py_str v)) items))))"

definition version_step :: "pyval \<Rightarrow> int list \<Rightarrow> pyerr + int list" where
  "version_step v acc =
     (case py_int v of
        Inl e \<Rightarrow> if is_type_or_value e then Inr acc else Inl e
      | Inr i \<Rightarrow> Inr (if 0 \<le> i then i # acc else acc))"

definition normalize_versions :: "pyval \<Rightarrow> pyerr + int list" where
  "normalize_versions values =
     (case values of
        PList items \<Rightarrow> ebind (efold version_step items []) (\<lambda>vs. Inr (sort (remdups vs)))
      | _ \<Rightarrow> Inr [])"

record adapter =
  ad_raw :: pydict
  ad_from :: string
  ad_to :: string
  ad_quality :: string

definition ad_score :: "adapter \<Rightarrow> int" where
  "ad_score a = quality_score (ad_quality a)"

definition adapter_dict :: "adapter \<Rightarrow> pydict" where
  "adapter_dict a = dmerge (ad_raw a)
     [(''from'', PStr (ad_from a)), (''to'', PStr (ad_to a)), (''quality'', PStr (ad_quality a)),
      (''qualityScore'', PInt (ad_score a)), (''explicit'', PBool True)]"

definition normalize_adapters :: "pyval \<Rightarrow> adapter list" where
  "normalize_adapters values =
     concat (map (\<lambda>v. case v of
         PDict raw \<Rightarrow>
           (let source = strip (py_str (dgetd raw ''from'' (PStr [])));
                target = strip (py_str (dgetd raw ''to'' (PStr []))) in
            if source = [] \<or> target = [] then []
            else [\<lparr>ad_raw = raw, ad_from = source, ad_to = target,
                   ad_quality = known_quality ''acceptable''
                     (py_lower (strip (py_str (dgetd raw ''quality'' (PStr ''acceptable'')))))\<rparr>])
       | _ \<Rightarrow> []) (list_of values))"

record participant =
  pt_raw :: pydict
  pt_id :: string
  pt_api :: "int list"
  pt_schemas :: "(string \<times> int list) list"
  pt_capabilities :: "string list"
  pt_required :: "string list"
  pt_adapters :: "adapter list"
  pt_preserves :: bool
  pt_offline :: bool

definition schema_step :: "string \<times> pyval \<Rightarrow> (string \<times> int list) list \<Rightarrow> pyerr + (string \<times> int list) list" where
  "schema_step entry acc =
     ebind (normalize_versions (snd entry)) (\<lambda>vs. Inr (if vs \<noteq> [] then dset acc (fst entry) vs else acc))"

definition normalize_participant :: "pydict \<Rightarrow> pyerr + participant" where
  "normalize_participant raw =
     ebind (normalize_versions (dgetn raw ''apiVersions'')) (\<lambda>vs.
     ebind (efold schema_step (dict_of (dgetn raw ''schemaVersions'')) []) (\<lambda>schemas.
     ebind (capability_set (por (dgetn raw ''capabilities'') (PList []))) (\<lambda>caps.
     ebind (capability_set (por (dgetn raw ''requiredCapabilities'') (PList []))) (\<lambda>required.
     let i = clean_str 128 (dgetd raw ''id'' (PStr ''participant'')) in
     Inr \<lparr>pt_raw = raw, pt_id = (if i = [] then ''participant'' else i),
          pt_api = (if vs = [] then [1] else vs),
          pt_schemas = dsetdefault schemas show_state_type [1],
          pt_capabilities = caps, pt_required = required, pt_adapters = normalize_adapters (dgetn raw ''adapters''),
          pt_preserves = truthy (dgetd raw ''preservesUnknown'' (PBool True)),
          pt_offline = truthy (dgetd raw ''offlineCapable'' (PBool True))\<rparr>))))"

definition participant_dict :: "participant \<Rightarrow> pydict" where
  "participant_dict p = dmerge (pt_raw p)
     [(''id'', PStr (pt_id p)), (''apiVersions'', ints (pt_api p)),
      (''schemaVersions'', PDict (map (\<lambda>(k, vs). (k, ints vs)) (pt_schemas p))),
      (''capabilities'', strs (pt_capabilities p)), (''requiredCapabilities'', strs (pt_required p)),
      (''adapters'', PList (map (PDict \<circ> adapter_dict) (pt_adapters p))),
      (''preservesUnknown'', PBool (pt_preserves p)), (''offlineCapable'', PBool (pt_offline p))]"

section \<open>The report on two participants\<close>

datatype direction = LocalToRemote | RemoteToLocal

definition direction_text :: "direction \<Rightarrow> string" where
  "direction_text d = (case d of LocalToRemote \<Rightarrow> ''local-to-remote'' | RemoteToLocal \<Rightarrow> ''remote-to-local'')"

definition translation_of :: "string list \<Rightarrow> string list \<Rightarrow> adapter \<Rightarrow> (adapter \<times> direction) list" where
  "translation_of local_caps remote_caps a =
     (if ad_from a \<in> set local_caps \<and> ad_to a \<in> set remote_caps then [(a, LocalToRemote)]
      else if ad_from a \<in> set remote_caps \<and> ad_to a \<in> set local_caps then [(a, RemoteToLocal)] else [])"

definition translated_local :: "(adapter \<times> direction) list \<Rightarrow> string list" where
  "translated_local ts = map (\<lambda>(a, d). if d = LocalToRemote then ad_from a else ad_to a) ts"

definition translated_remote :: "(adapter \<times> direction) list \<Rightarrow> string list" where
  "translated_remote ts = map (\<lambda>(a, d). if d = LocalToRemote then ad_to a else ad_from a) ts"

definition minus_sorted :: "string list \<Rightarrow> string list \<Rightarrow> string list" where
  "minus_sorted xs ys = sorted_set (filter (\<lambda>x. x \<notin> set ys) xs)"

definition common_ints :: "int list \<Rightarrow> int list \<Rightarrow> int list" where
  "common_ints xs ys = sort (remdups (filter (\<lambda>x. x \<in> set ys) xs))"

definition selected :: "int list \<Rightarrow> int option" where
  "selected xs = (if xs = [] then None else Some (last xs))"

definition schema_versions :: "participant \<Rightarrow> string \<Rightarrow> int list" where
  "schema_versions p name = dgetd (pt_schemas p) name []"

record compat_report =
  cr_local :: participant
  cr_remote :: participant
  cr_common :: "int list"
  cr_schemas :: "(string \<times> int list \<times> int list \<times> int list) list"
  cr_direct :: "string list"
  cr_translations :: "(adapter \<times> direction) list"
  cr_local_only :: "string list"
  cr_remote_only :: "string list"
  cr_missing_local :: "string list"
  cr_missing_remote :: "string list"
  cr_blockers :: "string list"
  cr_quality :: pyfloat
  cr_grade :: string

definition report_quality :: "string list \<Rightarrow> string list \<Rightarrow> string list \<Rightarrow> (adapter \<times> direction) list \<Rightarrow> pyfloat" where
  "report_quality local_caps remote_caps direct ts =
     (let qs = replicate (length direct) 100 @ map (\<lambda>(a, _). ad_score a) ts in
      if qs \<noteq> [] then fround 1 (Fin (of_int (sum_list qs) / of_nat (length qs)))
      else if local_caps = [] \<and> remote_caps = [] then Fin 100 else Fin 0)"

definition translation_grade :: "(adapter \<times> direction) list \<Rightarrow> string" where
  "translation_grade ts =
     (let m = Min (set (map (\<lambda>(a, _). ad_score a) ts)) in
      if 95 \<le> m then ''equivalent'' else if 80 \<le> m then ''acceptable'' else ''degraded'')"

definition report_blockers ::
    "int option \<Rightarrow> int option \<Rightarrow> string list \<Rightarrow> string list \<Rightarrow> bool \<Rightarrow> bool \<Rightarrow> string list" where
  "report_blockers api schema missing_local missing_remote some_only preserving =
     (if api = None then [''no common API version''] else []) @
     (if schema = None then [''no common show-state schema version''] else []) @
     (if missing_local \<noteq> [] then [''remote lacks local required capabilities: '' @ join '', '' missing_local] else []) @
     (if missing_remote \<noteq> [] then [''local lacks remote required capabilities: '' @ join '', '' missing_remote] else []) @
     (if some_only \<and> \<not> preserving then [''unknown capability preservation is not supported by both participants''] else [])"

definition participants_report :: "participant \<Rightarrow> participant \<Rightarrow> compat_report" where
  "participants_report l r =
     (let common = common_ints (pt_api l) (pt_api r);
          names = sorted_set (dkeys (pt_schemas l) @ dkeys (pt_schemas r));
          schemas = map (\<lambda>n. (n, common_ints (schema_versions l n) (schema_versions r n),
                              schema_versions l n, schema_versions r n)) names;
          lc = pt_capabilities l; rc = pt_capabilities r;
          direct = sorted_set (filter (\<lambda>x. x \<in> set rc) lc);
          ts = concat (map (translation_of lc rc) (pt_adapters l @ pt_adapters r));
          tl = translated_local ts; tr = translated_remote ts;
          missing_local = minus_sorted (pt_required l) (rc @ tl);
          missing_remote = minus_sorted (pt_required r) (lc @ tr);
          local_only = minus_sorted lc (rc @ tl);
          remote_only = minus_sorted rc (lc @ tr);
          blockers = report_blockers (selected common)
            (selected (common_ints (schema_versions l show_state_type) (schema_versions r show_state_type)))
            missing_local missing_remote (local_only \<noteq> [] \<or> remote_only \<noteq> []) (pt_preserves l \<and> pt_preserves r);
          grade = (if blockers \<noteq> [] then ''blocked''
                   else if ts \<noteq> [] then translation_grade ts
                   else if local_only \<noteq> [] \<or> remote_only \<noteq> [] then ''partial-preserved'' else ''direct'')
      in \<lparr>cr_local = l, cr_remote = r, cr_common = common, cr_schemas = schemas, cr_direct = direct,
          cr_translations = ts, cr_local_only = local_only, cr_remote_only = remote_only,
          cr_missing_local = missing_local, cr_missing_remote = missing_remote, cr_blockers = blockers,
          cr_quality = report_quality lc rc direct ts, cr_grade = grade\<rparr>)"

definition compatibility_report :: "pydict \<Rightarrow> pydict \<Rightarrow> pyerr + compat_report" where
  "compatibility_report local_data remote_data =
     ebind (normalize_participant local_data) (\<lambda>l.
     ebind (normalize_participant remote_data) (\<lambda>r. Inr (participants_report l r)))"

definition compat_report_dict :: "compat_report \<Rightarrow> pydict" where
  "compat_report_dict c =
     [(''compatible'', PBool (cr_blockers c = [])), (''grade'', PStr (cr_grade c)),
      (''selectedApiVersion'', opt_int (selected (cr_common c))), (''commonApiVersions'', ints (cr_common c)),
      (''schemas'', PDict (map (\<lambda>(n, cm, l, r). (n, PDict [(''selected'', opt_int (selected cm)), (''common'', ints cm),
          (''local'', ints l), (''remote'', ints r)])) (cr_schemas c))),
      (''directCapabilities'', strs (cr_direct c)),
      (''translations'', PList (map (\<lambda>(a, d). PDict (dset (adapter_dict a) ''direction'' (PStr (direction_text d))))
          (cr_translations c))),
      (''localOnlyPreserved'', strs (cr_local_only c)), (''remoteOnlyPreserved'', strs (cr_remote_only c)),
      (''missingForLocal'', strs (cr_missing_local c)), (''missingForRemote'', strs (cr_missing_remote c)),
      (''capabilityQuality'', PFloat (cr_quality c)),
      (''unknownPreservation'', PBool (pt_preserves (cr_local c) \<and> pt_preserves (cr_remote c))),
      (''offlineCompatible'', PBool (pt_offline (cr_local c) \<and> pt_offline (cr_remote c))),
      (''blockers'', strs (cr_blockers c)), (''local'', PDict (participant_dict (cr_local c))),
      (''remote'', PDict (participant_dict (cr_remote c)))]"

section \<open>Requirements\<close>

datatype choice_mode = Direct | ViaAdapter adapter | Fallback

record choice =
  ch_capability :: string
  ch_mode :: choice_mode
  ch_quality :: string

definition ch_score :: "choice \<Rightarrow> int" where
  "ch_score c = quality_score (ch_quality c)"

definition direct_choice :: "string list \<Rightarrow> string \<Rightarrow> choice option" where
  "direct_choice caps preferred =
     (if preferred \<noteq> [] \<and> preferred \<in> set caps
      then Some \<lparr>ch_capability = preferred, ch_mode = Direct, ch_quality = ''direct''\<rparr> else None)"

text \<open>The first adapter that bridges one of the participant's capabilities to the preferred one.\<close>

fun adapter_choice :: "string list \<Rightarrow> string \<Rightarrow> adapter list \<Rightarrow> choice option" where
  "adapter_choice caps preferred [] = None"
| "adapter_choice caps preferred (a # as) =
     (if ad_to a = preferred \<and> ad_from a \<in> set caps
      then Some \<lparr>ch_capability = ad_from a, ch_mode = ViaAdapter a, ch_quality = ad_quality a\<rparr>
      else if ad_from a = preferred \<and> ad_to a \<in> set caps
      then Some \<lparr>ch_capability = ad_to a, ch_mode = ViaAdapter a, ch_quality = ad_quality a\<rparr>
      else adapter_choice caps preferred as)"

definition alternative_capability :: "pydict \<Rightarrow> string" where
  "alternative_capability alt = strip (py_str (dgetd alt ''capability'' (PStr [])))"

fun fallback_choice :: "string list \<Rightarrow> pyval list \<Rightarrow> choice option" where
  "fallback_choice caps [] = None"
| "fallback_choice caps (v # vs) =
     (case v of
        PDict alt \<Rightarrow>
          if alternative_capability alt \<in> set caps
          then Some \<lparr>ch_capability = alternative_capability alt, ch_mode = Fallback,
                     ch_quality = known_quality ''degraded'' (py_lower (py_str (dgetd alt ''quality'' (PStr ''degraded''))))\<rparr>
          else fallback_choice caps vs
      | _ \<Rightarrow> fallback_choice caps vs)"

definition orelse :: "'a option \<Rightarrow> 'a option \<Rightarrow> 'a option" where
  "orelse a b = (case a of None \<Rightarrow> b | Some x \<Rightarrow> Some x)"

record requirement_decision =
  rd_raw :: pydict
  rd_id :: string
  rd_preferred :: string
  rd_required :: bool
  rd_choice :: "choice option"

definition decide_requirement :: "participant \<Rightarrow> pydict \<Rightarrow> requirement_decision" where
  "decide_requirement p raw =
     (let preferred = strip (py_str (dgetd raw ''preferred'' (PStr []))); caps = pt_capabilities p in
      \<lparr>rd_raw = raw,
       rd_id = strip (py_str (por (dgetn raw ''id'') (por (dgetn raw ''preferred'') (PStr ''requirement'')))),
       rd_preferred = preferred, rd_required = truthy (dgetd raw ''required'' (PBool True)),
       rd_choice =
         orelse (direct_choice caps preferred)
          (orelse (if preferred \<noteq> [] then adapter_choice caps preferred (pt_adapters p) else None)
            (fallback_choice caps (list_of (dgetn raw ''alternatives''))))\<rparr>)"

definition decision_blocked :: "requirement_decision \<Rightarrow> bool" where
  "decision_blocked d = (rd_required d \<and> rd_choice d = None)"

definition decision_score :: "requirement_decision \<Rightarrow> int" where
  "decision_score d = (case rd_choice d of None \<Rightarrow> if rd_required d then 0 else 100 | Some c \<Rightarrow> ch_score c)"

record requirements_result =
  rr_participant :: participant
  rr_decisions :: "requirement_decision list"
  rr_blocked :: nat
  rr_minimum :: int

text \<open>One round of the loop: the decision, the counter and the minimum of the required scores.\<close>

definition requirement_step :: "participant \<Rightarrow> pyval \<Rightarrow> requirements_result \<Rightarrow> requirements_result" where
  "requirement_step p v acc =
     (case v of
        PDict raw \<Rightarrow>
          (let d = decide_requirement p raw in
           acc\<lparr>rr_decisions := rr_decisions acc @ [d],
               rr_blocked := (if decision_blocked d then rr_blocked acc + 1 else rr_blocked acc),
               rr_minimum := (if decision_blocked d then 0
                              else if rd_required d then min (rr_minimum acc) (decision_score d) else rr_minimum acc)\<rparr>)
      | _ \<Rightarrow> acc)"

definition resolve_for :: "participant \<Rightarrow> pyval list \<Rightarrow> requirements_result" where
  "resolve_for p requirements =
     fold (requirement_step p) requirements
       \<lparr>rr_participant = p, rr_decisions = [], rr_blocked = 0, rr_minimum = 100\<rparr>"

definition resolve_requirements :: "pydict \<Rightarrow> pyval list \<Rightarrow> pyerr + requirements_result" where
  "resolve_requirements participant_data requirements =
     ebind (normalize_participant participant_data) (\<lambda>p. Inr (resolve_for p requirements))"

definition requirements_grade :: "requirements_result \<Rightarrow> string" where
  "requirements_grade r =
     (if rr_blocked r \<noteq> 0 then ''blocked'' else if 100 \<le> rr_minimum r then ''direct''
      else if 95 \<le> rr_minimum r then ''equivalent'' else if 80 \<le> rr_minimum r then ''acceptable'' else ''degraded'')"

definition choice_dict :: "choice \<Rightarrow> pydict" where
  "choice_dict c =
     [(''capability'', PStr (ch_capability c)),
      (''mode'', PStr (case ch_mode c of Direct \<Rightarrow> ''direct'' | ViaAdapter _ \<Rightarrow> ''adapter'' | Fallback \<Rightarrow> ''fallback''))] @
     (case ch_mode c of ViaAdapter a \<Rightarrow> [(''adapter'', PDict (adapter_dict a))] | _ \<Rightarrow> []) @
     [(''quality'', PStr (ch_quality c)), (''qualityScore'', PInt (ch_score c))]"

definition requirement_dict :: "requirement_decision \<Rightarrow> pydict" where
  "requirement_dict d =
     [(''id'', PStr (rd_id d)), (''preferred'', PStr (rd_preferred d)), (''required'', PBool (rd_required d))] @
     (case rd_choice d of
        None \<Rightarrow> [(''status'', PStr (if rd_required d then ''blocked'' else ''optional-unavailable'')),
                 (''quality'', PStr (if rd_required d then ''unavailable'' else ''optional'')),
                 (''qualityScore'', PInt (decision_score d)),
                 (''reason'', PStr ''no exact capability, explicit adapter, or declared fallback available'')]
      | Some c \<Rightarrow> (''status'', dgetn (choice_dict c) ''mode'') # choice_dict c)"

definition requirements_dict :: "requirements_result \<Rightarrow> pydict" where
  "requirements_dict r =
     [(''compatible'', PBool (rr_blocked r = 0)), (''grade'', PStr (requirements_grade r)),
      (''minimumQualityScore'', PInt (rr_minimum r)), (''blockedRequirements'', PInt (int (rr_blocked r))),
      (''requirements'', PList (map (PDict \<circ> requirement_dict) (rr_decisions r))),
      (''participant'', PDict (participant_dict (rr_participant r)))]"

section \<open>Requirements of a show\<close>

definition timing_dict :: "rat \<Rightarrow> rat \<Rightarrow> bool \<Rightarrow> pyval" where
  "timing_dict latency jitter timestamped =
     PDict [(''maxLatencyMs'', PFloat (Fin latency)), (''maxJitterMs'', PFloat (Fin jitter)), (''timestamped'', PBool timestamped)]"

definition requirement_item :: "string \<Rightarrow> string \<Rightarrow> bool \<Rightarrow> string \<Rightarrow> pydict \<Rightarrow> pyval" where
  "requirement_item i preferred required domain rest =
     PDict ([(''id'', PStr i), (''preferred'', PStr preferred), (''required'', PBool required), (''domain'', PStr domain)] @ rest)"

definition alternative_item :: "string \<Rightarrow> string \<Rightarrow> pyval" where
  "alternative_item capability quality = PDict [(''capability'', PStr capability), (''quality'', PStr quality)]"

text \<open>\<open>any(str(item.get("deviceId", "")).strip() for item in xs if isinstance(item, dict))\<close>\<close>

definition any_device :: "pyval \<Rightarrow> bool" where
  "any_device xs = list_ex (\<lambda>v. case v of PDict d \<Rightarrow> strip (py_str (dgetd d ''deviceId'' (PStr []))) \<noteq> [] | _ \<Rightarrow> False)
     (list_of xs)"

definition lighting_requirement :: "pydict \<Rightarrow> pyval list" where
  "lighting_requirement lighting =
     (if strip (py_str (dgetd lighting ''target'' (PStr []))) = [] then []
      else (let sacn = (py_lower (strip (py_str (dgetd lighting ''protocol'' (PStr ''artnet'')))) = ''sacn'') in
        [requirement_item ''lighting-output'' (if sacn then ''lighting.sacn.send'' else ''lighting.artnet.send'') True ''lighting''
           [(''patchKey'', PStr ''lighting.primary''),
            (''alternatives'', PList
              [alternative_item (if sacn then ''lighting.artnet.send'' else ''lighting.sacn.send'') ''equivalent'',
               alternative_item ''lighting.schedule'' ''acceptable'', alternative_item ''lighting.state'' ''degraded'']),
            (''timing'', timing_dict 100 25 False)]]))"

definition show_requirements_from_snapshot :: "pydict \<Rightarrow> pyerr + pyval list" where
  "show_requirements_from_snapshot snapshot =
     ebind (sub_dict snapshot ''audio'') (\<lambda>audio.
     ebind (sub_dict snapshot ''lighting'') (\<lambda>lit.
     ebind (sub_dict lit ''network'') (\<lambda>lighting.
     ebind (sub_dict snapshot ''midi'') (\<lambda>midi.
     Inr ([requirement_item ''transport'' ''audio.transport'' True ''audio'' [(''timing'', timing_dict 20 5 True)],
           requirement_item ''authority-fence'' ''authority.fence'' True ''core'' []] @
          (if any_device (dgetn audio ''outputs'') then
             [requirement_item ''audio-output'' ''audio.output.multi'' True ''audio''
               [(''patchKey'', PStr ''audio.foh''), (''alternatives'', PList [alternative_item ''audio.mix'' ''acceptable'']),
                (''timing'', timing_dict 30 5 False)]] else []) @
          (if any_device (dgetn audio ''inputs'') then
             [requirement_item ''live-audio-input'' ''audio.input.capture'' True ''audio''
               [(''patchKey'', PStr ''audio.live-input''), (''timing'', timing_dict 15 3 False)]] else []) @
          (if is_dict (dgetn midi ''bindings'') \<and> truthy (dgetn midi ''bindings'') then
             [requirement_item ''mapped-midi'' ''midi.read'' True ''midi''
               [(''patchKey'', PStr ''midi.performance''), (''timing'', timing_dict 20 5 True)]] else []) @
          lighting_requirement lighting @
          [requirement_item ''personal-monitoring'' ''audio.monitor'' False ''audio'' [(''patchKey'', PStr ''audio.monitor'')]])))))"

section \<open>What a merge keeps\<close>

primrec pv_wf :: "pyval \<Rightarrow> bool" where
  "pv_wf PNone = True"
| "pv_wf (PBool b) = True"
| "pv_wf (PInt i) = True"
| "pv_wf (PFloat f) = True"
| "pv_wf (PStr s) = True"
| "pv_wf (PList xs) = list_all id (map pv_wf xs)"
| "pv_wf (PDict d) = (dwf d \<and> list_all snd (map (map_prod id pv_wf) d))"

text \<open>The value at a path of keys, and whether a value ends the path before its last key.\<close>

fun lookup_path :: "pyval \<Rightarrow> string list \<Rightarrow> pyval option" where
  "lookup_path v [] = Some v"
| "lookup_path (PDict d) (k # ks) = (case dget d k of None \<Rightarrow> None | Some w \<Rightarrow> lookup_path w ks)"
| "lookup_path _ (k # ks) = None"

fun ends_path :: "pyval \<Rightarrow> string list \<Rightarrow> bool" where
  "ends_path v [] = False"
| "ends_path (PDict d) (k # ks) = (case dget d k of None \<Rightarrow> False | Some w \<Rightarrow> ends_path w ks)"
| "ends_path _ (k # ks) = True"

lemma pv_wf_PDict: "pv_wf (PDict d) \<Longrightarrow> dwf d \<and> (\<forall>k v. dget d k = Some v \<longrightarrow> pv_wf v)"
proof -
  assume a: "pv_wf (PDict d)"
  have "pv_wf v" if "dget d k = Some v" for k v
    using a that by (auto simp: list_all_iff dget_def dest!: map_of_SomeD)
  with a show ?thesis by simp
qed

definition merge_value :: "pyval option \<Rightarrow> pyval \<Rightarrow> pyval" where
  "merge_value b v = (case b of None \<Rightarrow> v | Some w \<Rightarrow> merge_preserving_unknown w v)"

lemma merge_items_Cons:
  "merge_items m ((k, v) # rest) = merge_items (dset m k (merge_value (dget m k) v)) rest"
  by (simp add: merge_value_def merge_preserving_unknown_def split: pyval.splits option.splits)

lemma dget_merge_items:
  "dwf c \<Longrightarrow> dget (merge_items b c) k =
     (case dget c k of None \<Rightarrow> dget b k | Some v \<Rightarrow> Some (merge_value (dget b k) v))"
proof (induction c arbitrary: b)
  case Nil
  then show ?case by simp
next
  case (Cons x c)
  obtain k' v where x: "x = (k', v)" by (cases x)
  from Cons.prems x have wf: "dwf c" and new: "dget c k' = None"
    by (auto simp: dwf_def dkeys_def dget_def map_of_eq_None_iff)
  show ?case
    unfolding x merge_items_Cons using Cons.IH [OF wf] new by (auto split: option.splits)
qed

lemma merge_value_dict: "merge_value (Some (PDict b)) (PDict c) = PDict (merge_items b c)"
  by (simp add: merge_value_def merge_preserving_unknown_def)

lemma merge_other: "\<not> is_dict b \<or> \<not> is_dict c \<Longrightarrow> merge_preserving_unknown b c = c"
  by (auto simp: merge_preserving_unknown_def is_dict_def split: pyval.splits)

lemma lookup_path_other: "\<not> is_dict b \<Longrightarrow> lookup_path b (k # ks) = None"
  by (cases b) auto

lemma ends_path_lookup: "ends_path c p \<Longrightarrow> lookup_path c p = None"
  by (induction c p rule: ends_path.induct) (auto split: option.splits)

text \<open>
  Overlaying a current document on an older one loses nothing: at every path of keys the
  merged document has the current value if there is one (merged with the older value when both are
  dictionaries), and otherwise the older value, unless the current document has a value that is not
  a dictionary on the way.
\<close>

theorem merge_lookup:
  assumes "pv_wf current"
  shows "lookup_path (merge_preserving_unknown base current) p =
    (case lookup_path current p of
       Some v \<Rightarrow> Some (merge_value (lookup_path base p) v)
     | None \<Rightarrow> if ends_path current p then None else lookup_path base p)"
  using assms
proof (induction p arbitrary: base current)
  case Nil
  then show ?case by (simp add: merge_value_def)
next
  case (Cons k ks)
  show ?case
  proof (cases "is_dict base \<and> is_dict current")
    case False
    then show ?thesis
      using lookup_path_other [of base k ks] lookup_path_other [of current k ks]
      by (cases "is_dict base"; cases current)
         (auto simp: merge_other merge_value_def split: option.splits)
  next
    case True
    then obtain b c where bc: "base = PDict b" "current = PDict c"
      by (auto simp: is_dict_def split: pyval.splits)
    with Cons.prems pv_wf_PDict [of c] have wf: "dwf c" and wfv: "\<And>v. dget c k = Some v \<Longrightarrow> pv_wf v"
      by auto
    show ?thesis
    proof (cases "dget c k")
      case None
      then show ?thesis
        by (simp add: bc merge_preserving_unknown_def dget_merge_items [OF wf])
    next
      case (Some v)
      note IH = Cons.IH [OF wfv [OF Some]]
      show ?thesis
      proof (cases "dget b k")
        case None
        have "ends_path v ks \<Longrightarrow> lookup_path v ks = None" by (rule ends_path_lookup)
        with Some None show ?thesis
          by (auto simp: bc merge_preserving_unknown_def dget_merge_items [OF wf] merge_value_def
              split: option.splits)
      next
        case (Some w)
        with \<open>dget c k = Some v\<close> IH [of w] show ?thesis
          by (auto simp: bc merge_preserving_unknown_def [of "PDict b"] dget_merge_items [OF wf]
              merge_value_def [of "Some w"] split: option.splits)
      qed
    qed
  qed
qed

theorem merge_lookup_witness:
  "lookup_path (merge_preserving_unknown
      (PDict [(''audio'', PDict [(''gain'', PInt 1), (''future'', PStr ''x'')])])
      (PDict [(''audio'', PDict [(''gain'', PInt 2)])])) [''audio'', ''future''] = Some (PStr ''x'')"
  using merge_lookup [of "PDict [(''audio'', PDict [(''gain'', PInt 2)])]"
      "PDict [(''audio'', PDict [(''gain'', PInt 1), (''future'', PStr ''x'')])]" "[''audio'', ''future'']"]
  by (simp add: dwf_def dkeys_def)

section \<open>Resolution never guesses\<close>

text \<open>A choice is justified by what the participant or the requirement declares.\<close>

definition choice_justified :: "participant \<Rightarrow> requirement_decision \<Rightarrow> choice \<Rightarrow> bool" where
  "choice_justified p d c =
     (ch_capability c \<in> set (pt_capabilities p) \<and>
      (case ch_mode c of
         Direct \<Rightarrow> ch_capability c = rd_preferred d \<and> ch_score c = 100
       | ViaAdapter a \<Rightarrow> a \<in> set (pt_adapters p) \<and> ch_quality c = ad_quality a \<and>
           (ad_from a = ch_capability c \<and> ad_to a = rd_preferred d \<or>
            ad_to a = ch_capability c \<and> ad_from a = rd_preferred d)
       | Fallback \<Rightarrow> (\<exists>alt. PDict alt \<in> set (list_of (dgetn (rd_raw d) ''alternatives'')) \<and>
           alternative_capability alt = ch_capability c)))"

lemma direct_choice_Some:
  "direct_choice caps preferred = Some c \<Longrightarrow>
     ch_capability c = preferred \<and> preferred \<in> set caps \<and> ch_mode c = Direct \<and> ch_score c = 100"
  by (auto simp: direct_choice_def ch_score_def quality_score_def quality_order_def split: if_splits)

lemma adapter_choice_Some:
  "adapter_choice caps preferred as = Some c \<Longrightarrow>
     \<exists>a. ch_mode c = ViaAdapter a \<and> a \<in> set as \<and> ch_quality c = ad_quality a \<and> ch_capability c \<in> set caps \<and>
       (ad_from a = ch_capability c \<and> ad_to a = preferred \<or> ad_to a = ch_capability c \<and> ad_from a = preferred)"
  by (induction caps preferred as rule: adapter_choice.induct) (auto split: if_splits)

lemma fallback_choice_Some:
  "fallback_choice caps vs = Some c \<Longrightarrow>
     ch_mode c = Fallback \<and> ch_capability c \<in> set caps \<and>
     (\<exists>alt. PDict alt \<in> set vs \<and> alternative_capability alt = ch_capability c)"
  by (induction caps vs rule: fallback_choice.induct) (auto split: if_splits pyval.splits)

lemma orelse_Some: "orelse a b = Some x \<Longrightarrow> a = Some x \<or> (a = None \<and> b = Some x)"
  by (auto simp: orelse_def split: option.splits)

lemma decide_justified:
  assumes "rd_choice (decide_requirement p raw) = Some c"
  shows "choice_justified p (decide_requirement p raw) c"
proof -
  define preferred where "preferred = strip (py_str (dgetd raw ''preferred'' (PStr [])))"
  have facts: "rd_preferred (decide_requirement p raw) = preferred" "rd_raw (decide_requirement p raw) = raw"
    by (simp_all add: decide_requirement_def preferred_def Let_def)
  from assms consider "direct_choice (pt_capabilities p) preferred = Some c"
    | "adapter_choice (pt_capabilities p) preferred (pt_adapters p) = Some c"
    | "fallback_choice (pt_capabilities p) (list_of (dgetn raw ''alternatives'')) = Some c"
    by (auto simp: decide_requirement_def preferred_def Let_def dest!: orelse_Some split: if_splits)
  then show ?thesis
  proof cases
    case 1
    from direct_choice_Some [OF this] show ?thesis by (simp add: choice_justified_def facts)
  next
    case 2
    from adapter_choice_Some [OF this] show ?thesis by (auto simp: choice_justified_def facts)
  next
    case 3
    from fallback_choice_Some [OF this] show ?thesis by (auto simp: choice_justified_def facts)
  qed
qed

definition requirement_dicts :: "pyval list \<Rightarrow> pydict list" where
  "requirement_dicts vs = concat (map (\<lambda>v. case v of PDict d \<Rightarrow> [d] | _ \<Rightarrow> []) vs)"

lemma resolve_fold:
  "rr_decisions (fold (requirement_step p) vs acc) = rr_decisions acc @ map (decide_requirement p) (requirement_dicts vs)"
  "rr_blocked (fold (requirement_step p) vs acc) =
     rr_blocked acc + length (filter decision_blocked (map (decide_requirement p) (requirement_dicts vs)))"
  "rr_participant (fold (requirement_step p) vs acc) = rr_participant acc"
  by (induction vs arbitrary: acc)
     (simp_all add: requirement_step_def requirement_dicts_def Let_def split: pyval.splits)

lemma decision_score_blocked: "decision_blocked d \<Longrightarrow> decision_score d = 0"
  by (simp add: decision_blocked_def decision_score_def)

lemma quality_score_range: "0 \<le> quality_score q" "quality_score q \<le> 100"
  by (auto simp: quality_score_def quality_order_def)

lemma decision_score_range: "0 \<le> decision_score d" "decision_score d \<le> 100"
  using quality_score_range
  by (auto simp: decision_score_def ch_score_def split: option.splits)

text \<open>While scores are not negative, the loop's minimum is the least required score.\<close>

lemma resolve_minimum:
  assumes "0 \<le> rr_minimum acc"
  shows "(m' \<le> rr_minimum (fold (requirement_step p) vs acc)) =
    (m' \<le> rr_minimum acc \<and>
     (\<forall>d \<in> set (map (decide_requirement p) (requirement_dicts vs)). rd_required d \<longrightarrow> m' \<le> decision_score d))"
  using assms
proof (induction vs arbitrary: acc)
  case Nil
  then show ?case by (simp add: requirement_dicts_def)
next
  case (Cons v vs)
  have nn: "0 \<le> rr_minimum (requirement_step p v acc)"
    using Cons.prems decision_score_range(1) by (cases v) (simp_all add: requirement_step_def Let_def)
  have step: "(m' \<le> rr_minimum (requirement_step p v acc)) =
      (m' \<le> rr_minimum acc \<and> (\<forall>raw. v = PDict raw \<longrightarrow> rd_required (decide_requirement p raw) \<longrightarrow>
         m' \<le> decision_score (decide_requirement p raw)))"
    using Cons.prems decision_score_blocked
    by (cases v) (auto simp: requirement_step_def Let_def decision_blocked_def)
  show ?case
    unfolding fold_Cons comp_def Cons.IH [OF nn] step
    by (cases v) (auto simp: requirement_dicts_def)
qed

text \<open>
  Resolving the requirements of a show against a participant answers every requirement and
  never guesses: a chosen capability is one the participant has, and it is the preferred one, or
  bridged to it by an adapter the participant declares, or a fallback the requirement lists.  The
  result is compatible exactly when every required requirement has a choice, and its score is the
  least score of the required ones (100 when there is none).
\<close>

theorem resolve_never_guesses:
  assumes "resolve_requirements participant_data requirements = Inr r"
  shows "map rd_raw (rr_decisions r) = requirement_dicts requirements \<and>
    (\<forall>d \<in> set (rr_decisions r). \<forall>c. rd_choice d = Some c \<longrightarrow> choice_justified (rr_participant r) d c) \<and>
    (rr_blocked r = 0 \<longleftrightarrow> (\<forall>d \<in> set (rr_decisions r). rd_required d \<longrightarrow> rd_choice d \<noteq> None)) \<and>
    (\<forall>m. m \<le> rr_minimum r \<longleftrightarrow>
       m \<le> 100 \<and> (\<forall>d \<in> set (rr_decisions r). rd_required d \<longrightarrow> m \<le> decision_score d))"
proof -
  from assms obtain p where p: "r = resolve_for p requirements"
    by (auto simp: resolve_requirements_def ebind_eq_Inr)
  define init where "init = \<lparr>rr_participant = p, rr_decisions = [], rr_blocked = 0, rr_minimum = 100\<rparr>"
  have r: "r = fold (requirement_step p) requirements init" by (simp add: p resolve_for_def init_def)
  have decisions: "rr_decisions r = map (decide_requirement p) (requirement_dicts requirements)"
    and blocked: "rr_blocked r = length (filter decision_blocked (rr_decisions r))"
    and part: "rr_participant r = p"
    using resolve_fold [of p requirements init] by (simp_all add: r init_def)
  have "rd_raw (decide_requirement p raw) = raw" for raw by (simp add: decide_requirement_def Let_def)
  then have raws: "map rd_raw (rr_decisions r) = requirement_dicts requirements"
    by (simp add: decisions comp_def)
  have "m \<le> rr_minimum r \<longleftrightarrow> m \<le> 100 \<and> (\<forall>d \<in> set (rr_decisions r). rd_required d \<longrightarrow> m \<le> decision_score d)" for m
    using resolve_minimum [of init m p requirements] resolve_fold(1) [of p requirements init] by (simp add: r init_def)
  moreover have "\<forall>d \<in> set (rr_decisions r). \<forall>c. rd_choice d = Some c \<longrightarrow> choice_justified (rr_participant r) d c"
    using decide_justified by (auto simp: decisions part)
  moreover have "rr_blocked r = 0 \<longleftrightarrow> (\<forall>d \<in> set (rr_decisions r). rd_required d \<longrightarrow> rd_choice d \<noteq> None)"
    by (auto simp: blocked filter_empty_conv decision_blocked_def)
  ultimately show ?thesis using raws by blast
qed

definition demo_participant :: pydict where
  "demo_participant =
     [(''id'', PStr ''desk''), (''capabilities'', strs [''audio.mix'', ''authority.fence'', ''transport.legacy'']),
      (''adapters'', PList [PDict [(''from'', PStr ''transport.legacy''), (''to'', PStr ''audio.transport''),
                                 (''quality'', PStr ''equivalent'')]])]"

theorem resolve_never_guesses_witness:
  "\<exists>r. resolve_requirements demo_participant
      [PDict [(''preferred'', PStr ''audio.transport'')], PDict [(''preferred'', PStr ''video'')]] = Inr r \<and>
     (\<forall>m. m \<le> rr_minimum r \<longleftrightarrow> m \<le> 100 \<and> (\<forall>d \<in> set (rr_decisions r). rd_required d \<longrightarrow> m \<le> decision_score d)) \<and>
     map (map_option ch_capability \<circ> rd_choice) (rr_decisions r) = [Some ''transport.legacy'', None]"
proof -
  let ?q = "[PDict [(''preferred'', PStr ''audio.transport'')], PDict [(''preferred'', PStr ''video'')]]"
  obtain r where r: "resolve_requirements demo_participant ?q = Inr r"
    by (simp add: resolve_requirements_def normalize_participant_def demo_participant_def dgetn_def dgetd_def
        normalize_versions_def capability_set_def py_iter_def strs_def por_def Let_def)
  have "projr (ebind (resolve_requirements demo_participant ?q) (\<lambda>r. Inr (map (map_option ch_capability \<circ> rd_choice) (rr_decisions r)))) =
      [Some ''transport.legacy'', None]"
    by code_simp
  with r have "map (map_option ch_capability \<circ> rd_choice) (rr_decisions r) = [Some ''transport.legacy'', None]" by simp
  with r resolve_never_guesses [OF r] show ?thesis by (intro exI [of _ r]) simp
qed

section \<open>Negotiation is symmetric\<close>

definition flip_direction :: "direction \<Rightarrow> direction" where
  "flip_direction d = (case d of LocalToRemote \<Rightarrow> RemoteToLocal | RemoteToLocal \<Rightarrow> LocalToRemote)"

lemma set_minus_sorted [simp]: "set (minus_sorted xs ys) = set xs - set ys"
  by (auto simp: minus_sorted_def sorted_set_def)

lemma minus_sorted_cong: "set ys = set zs \<Longrightarrow> minus_sorted xs ys = minus_sorted xs zs"
  by (simp add: minus_sorted_def)

lemma common_ints_comm: "common_ints xs ys = common_ints ys xs"
proof -
  have "set (filter (\<lambda>x. x \<in> set ys) xs) = set (filter (\<lambda>x. x \<in> set xs) ys)" by auto
  then show ?thesis unfolding common_ints_def by (metis sorted_list_of_set_sort_remdups)
qed

text \<open>The adapters that bridge the two sides are the same in both orders.\<close>

lemma translation_adapters:
  "map fst (translation_of lc rc a) =
     (if ad_from a \<in> set lc \<and> ad_to a \<in> set rc \<or> ad_from a \<in> set rc \<and> ad_to a \<in> set lc then [a] else [])"
  by (simp add: translation_of_def)

lemma translations_adapters:
  "map fst (concat (map (translation_of lc rc) as)) =
     filter (\<lambda>a. ad_from a \<in> set lc \<and> ad_to a \<in> set rc \<or> ad_from a \<in> set rc \<and> ad_to a \<in> set lc) as"
  by (induction as) (simp_all add: translation_adapters)

lemma translated_append [simp]:
  "translated_local (x @ y) = translated_local x @ translated_local y"
  "translated_remote (x @ y) = translated_remote x @ translated_remote y"
  by (simp_all add: translated_local_def translated_remote_def)

lemma translated_one:
  "set rc \<union> set (translated_local (translation_of lc rc a)) = set rc \<union> set (translated_remote (translation_of rc lc a))"
  by (auto simp: translated_local_def translated_remote_def translation_of_def)

lemma translated_swap:
  "set rc \<union> set (translated_local (concat (map (translation_of lc rc) as))) =
   set rc \<union> set (translated_remote (concat (map (translation_of rc lc) as)))"
proof (induction as)
  case Nil
  show ?case by (simp add: translated_local_def translated_remote_def)
next
  case (Cons a as)
  with translated_one [of rc lc a] show ?case by auto
qed

lemma scores_of_translations:
  "map (\<lambda>(a, _). ad_score a) (concat (map (translation_of lc rc) as)) =
   map ad_score (filter (\<lambda>a. ad_from a \<in> set lc \<and> ad_to a \<in> set rc \<or> ad_from a \<in> set rc \<and> ad_to a \<in> set lc) as)"
  unfolding translations_adapters [symmetric] by (simp add: comp_def split_beta)

lemma scores_swap:
  "mset (map (\<lambda>(a, _). ad_score a) (concat (map (translation_of lc rc) (as @ bs)))) =
   mset (map (\<lambda>(a, _). ad_score a) (concat (map (translation_of rc lc) (bs @ as))))"
proof -
  let ?P = "\<lambda>a. ad_from a \<in> set lc \<and> ad_to a \<in> set rc \<or> ad_from a \<in> set rc \<and> ad_to a \<in> set lc"
  have swap: "?P = (\<lambda>a. ad_from a \<in> set rc \<and> ad_to a \<in> set lc \<or> ad_from a \<in> set lc \<and> ad_to a \<in> set rc)"
    by (rule ext) (rule disj_commute)
  show ?thesis unfolding scores_of_translations swap by (simp only: filter_append map_append mset_append union_commute)
qed

lemma report_quality_swap:
  assumes "mset (map (\<lambda>(a, _). ad_score a) ts) = mset (map (\<lambda>(a, _). ad_score a) ts')"
  shows "report_quality lc rc direct ts = report_quality rc lc direct ts'"
proof -
  let ?s = "map (\<lambda>(a, _). ad_score a)"
  have "sum_list (?s ts) = sum_list (?s ts')" using assms by (metis sum_mset_sum_list)
  moreover have "length (?s ts) = length (?s ts')" using assms by (rule mset_eq_length)
  ultimately show ?thesis by (auto simp: report_quality_def Let_def)
qed

lemma translation_grade_swap:
  assumes "mset (map (\<lambda>(a, _). ad_score a) ts) = mset (map (\<lambda>(a, _). ad_score a) ts')"
  shows "translation_grade ts = translation_grade ts'" "(ts = []) = (ts' = [])"
proof -
  show "translation_grade ts = translation_grade ts'"
    unfolding translation_grade_def mset_eq_setD [OF assms] ..
  show "(ts = []) = (ts' = [])" using mset_eq_length [OF assms] by auto
qed

lemma report_blockers_empty:
  "(report_blockers api schema ml mr some_only preserving = []) =
     (api \<noteq> None \<and> schema \<noteq> None \<and> ml = [] \<and> mr = [] \<and> (some_only \<longrightarrow> preserving))"
  by (auto simp: report_blockers_def)

text \<open>
  Two participants that negotiate reach the same verdict whichever of them is local: the same
  compatibility, grade, quality and common versions, with what each side misses and keeps to itself
  exchanged.
\<close>

theorem report_symmetric:
  "let c = participants_report l r; c' = participants_report r l in
     (cr_blockers c = []) = (cr_blockers c' = []) \<and> cr_grade c = cr_grade c' \<and> cr_quality c = cr_quality c' \<and>
     cr_common c = cr_common c' \<and> cr_direct c = cr_direct c' \<and>
     cr_missing_local c = cr_missing_remote c' \<and> cr_missing_remote c = cr_missing_local c' \<and>
     cr_local_only c = cr_remote_only c' \<and> cr_remote_only c = cr_local_only c'"
proof -
  define lc where "lc = pt_capabilities l"
  define rc where "rc = pt_capabilities r"
  define ts where "ts = concat (map (translation_of lc rc) (pt_adapters l @ pt_adapters r))"
  define ts' where "ts' = concat (map (translation_of rc lc) (pt_adapters r @ pt_adapters l))"
  have scores: "mset (map (\<lambda>(a, _). ad_score a) ts) = mset (map (\<lambda>(a, _). ad_score a) ts')"
    unfolding ts_def ts'_def by (rule scores_swap)
  have "set (rc @ translated_local ts) = set (rc @ translated_remote ts')"
    using translated_swap [of rc lc "pt_adapters l @ pt_adapters r"]
    by (simp add: ts_def ts'_def Un_ac)
  then have l: "minus_sorted xs (rc @ translated_local ts) = minus_sorted xs (rc @ translated_remote ts')" for xs
    by (rule minus_sorted_cong)
  have "set (lc @ translated_remote ts) = set (lc @ translated_local ts')"
    using translated_swap [of lc rc "pt_adapters l @ pt_adapters r"]
    by (simp add: ts_def ts'_def Un_ac)
  then have r: "minus_sorted xs (lc @ translated_remote ts) = minus_sorted xs (lc @ translated_local ts')" for xs
    by (rule minus_sorted_cong)
  have direct: "sorted_set (filter (\<lambda>x. x \<in> set rc) lc) = sorted_set (filter (\<lambda>x. x \<in> set lc) rc)"
    by (rule sorted_set_cong) auto
  note swap = common_ints_comm [of "pt_api l" "pt_api r"]
    common_ints_comm [of "schema_versions l show_state_type" "schema_versions r show_state_type"]
    report_quality_swap [OF scores, of lc rc] translation_grade_swap [OF scores]
  show ?thesis
    unfolding participants_report_def Let_def compat_report.select_convs
      lc_def [symmetric] rc_def [symmetric] ts_def [symmetric] ts'_def [symmetric] l r direct swap report_blockers_empty
    by (auto simp: conj_commute disj_commute)
qed

section \<open>Migration keeps what it does not know\<close>

lemma rename_field_keeps: "dget d k = Some v \<Longrightarrow> dget (rename_field old new d) k = Some v"
  by (auto simp: rename_field_def din_def)

lemma rename_fields_keep:
  "dget d k = Some v \<Longrightarrow> dget (fold (\<lambda>(old, new) x. rename_field old new x) renames d) k = Some v"
  by (induction renames arbitrary: d) (auto intro: rename_field_keeps)

definition section_fields :: "pydict \<Rightarrow> string \<Rightarrow> string \<Rightarrow> pyval option" where
  "section_fields d section k = dget (dict_of (dgetn d section)) k"

text \<open>\<open>keeps_fields ks d d'\<close>: the top-level fields outside \<open>ks\<close> are unchanged, and no field of any
  section of \<open>ks\<close> is lost.\<close>

definition keeps_fields :: "string set \<Rightarrow> pydict \<Rightarrow> pydict \<Rightarrow> bool" where
  "keeps_fields ks d d' =
     ((\<forall>k. k \<notin> ks \<longrightarrow> dget d' k = dget d k) \<and>
      (\<forall>section k v. section_fields d section k = Some v \<longrightarrow> section_fields d' section k = Some v))"

lemma keeps_fields_refl: "keeps_fields ks d d"
  by (simp add: keeps_fields_def)

lemma keeps_fields_trans: "keeps_fields ks d d' \<Longrightarrow> keeps_fields ks' d' d'' \<Longrightarrow> keeps_fields (ks \<union> ks') d d''"
  by (auto simp: keeps_fields_def)

lemma migrate_section_keeps: "keeps_fields {section} (fst acc) (fst (migrate_section section renames acc))"
proof -
  obtain d m where acc: "acc = (d, m)" by (cases acc)
  have "dget (fold (\<lambda>(old, new) x. rename_field old new x) renames (dict_of (dgetn d section))) k = Some v"
    if "section_fields d section k = Some v" for k v
    using that by (auto simp: section_fields_def intro: rename_fields_keep)
  then show ?thesis
    by (auto simp: keeps_fields_def migrate_section_def acc Let_def section_fields_def dgetn_def dgetd_def)
qed

lemma dset_keeps_scalar:
  assumes "\<not> is_dict (dgetn d k)"
  shows "keeps_fields {k} d (dset d k v)"
proof -
  have "section_fields d k x = None" for x
    using assms by (auto simp: section_fields_def dict_of_def is_dict_def split: pyval.splits)
  then show ?thesis
    by (auto simp: keeps_fields_def section_fields_def dgetn_def dgetd_def)
qed

definition metadata_keys :: "string set" where
  "metadata_keys = {''documentType'', ''schemaVersion'', ''minimumReaderApiVersion'', ''unknownFieldsPreserved'',
                    ''sourceApiVersion'', ''migrations''}"

lemma dget_compatibility_metadata: "k \<notin> metadata_keys \<Longrightarrow> dget (compatibility_metadata v ms) k = None"
  by (auto simp: metadata_keys_def compatibility_metadata_def split: option.splits)

lemma dwf_compatibility_metadata: "dwf (compatibility_metadata v ms)"
  by (auto simp: dwf_def dkeys_def compatibility_metadata_def split: option.splits)

lemma compatibility_metadata_fields:
  "dget (compatibility_metadata v ms) ''documentType'' = Some (PStr show_state_type)"
  "dget (compatibility_metadata v ms) ''minimumReaderApiVersion'' = Some (PInt 1)"
  by (simp_all add: compatibility_metadata_def)

lemma inspect_exact:
  assumes "dget d ''apiVersion'' = Some (PInt 1)" and "dgetn d ''compatibility'' = PDict meta"
    and "dget meta ''documentType'' = Some (PStr show_state_type)"
    and "dget meta ''minimumReaderApiVersion'' = Some (PInt m)" and "m \<le> 1"
  shows "\<exists>rep. inspect_show_state (PDict d) = Inr rep \<and> dgetn rep ''mode'' = PStr ''exact''"
  using assms by (simp add: inspect_show_state_def Let_def dgetd_def [of d] dgetd_def [of meta] dgetn_def dgetd_def)

lemma migrated_sections_keep: "keeps_fields {''transport'', ''system'', ''audio''} d (fst (migrated_sections incoming d))"
proof (cases "incoming \<le> 0")
  case True
  let ?t = "migrate_section ''transport'' [(''tempo'', ''bpm''), (''positionSeconds'', ''seconds'')] (d, [])"
  let ?s = "migrate_section ''system'' [(''resourceCapacity'', ''capacity'')] ?t"
  have "keeps_fields ({''transport''} \<union> {''system''} \<union> {''audio''}) d
      (fst (migrate_section ''audio'' [(''outputDeviceId'', ''deviceId'')] ?s))"
    by (rule keeps_fields_trans [OF keeps_fields_trans
          [OF migrate_section_keeps [of "''transport''" "(d, [])", simplified fst_conv] migrate_section_keeps]
          migrate_section_keeps])
  with True show ?thesis by (simp add: migrated_sections_def insert_commute)
next
  case False
  then show ?thesis by (simp add: migrated_sections_def keeps_fields_refl)
qed

lemma migrated_metadata_fields:
  assumes "migrated_metadata incoming ms em = Inr meta"
  shows "dget meta ''documentType'' = Some (PStr show_state_type)"
    and "\<exists>m \<le> 1. dget meta ''minimumReaderApiVersion'' = Some (PInt m)"
    and "k \<notin> metadata_keys \<Longrightarrow> dget meta k = dget em k"
proof -
  define meta0 where "meta0 = dmerge em (compatibility_metadata (Some incoming) ms)"
  have meta0: "dget meta0 ''documentType'' = Some (PStr show_state_type)"
    "dget meta0 ''minimumReaderApiVersion'' = Some (PInt 1)"
    "k \<notin> metadata_keys \<Longrightarrow> dget meta0 k = dget em k" for k
    by (simp_all add: meta0_def dget_dmerge dwf_compatibility_metadata compatibility_metadata_fields
        dget_compatibility_metadata)
  have m: "meta = meta0 \<or> (\<exists>x \<le> 1. meta = dset (dset meta0 ''minimumReaderApiVersion'' (PInt x)) ''sourceApiVersion'' (PInt incoming))"
  proof (cases "1 < incoming")
    case True
    with assms obtain x where "meta = dset (dset meta0 ''minimumReaderApiVersion'' (PInt (min x 1))) ''sourceApiVersion'' (PInt incoming)"
      unfolding migrated_metadata_def Let_def meta0_def [symmetric] by (auto simp: ebind_eq_Inr)
    then show ?thesis by (intro disjI2 exI [of _ "min x 1"]) simp
  next
    case False
    with assms show ?thesis unfolding migrated_metadata_def Let_def meta0_def [symmetric] by simp
  qed
  show "dget meta ''documentType'' = Some (PStr show_state_type)"
    using m meta0(1) by auto
  show "\<exists>m \<le> 1. dget meta ''minimumReaderApiVersion'' = Some (PInt m)"
    using m meta0(2) by auto
  show "dget meta k = dget em k" if "k \<notin> metadata_keys"
    using m meta0(3) [OF that] that by (auto simp: metadata_keys_def)
qed

lemma migrate_result:
  assumes "migrate_show_state (PDict d) = Inr (d', rep)"
  obtains incoming meta s where "s = fst (migrated_sections incoming d)"
    and "d' = dset (dset s ''apiVersion'' (PInt 1)) ''compatibility'' (PDict meta)"
    and "\<exists>ms. migrated_metadata incoming ms (dict_of (dgetn s ''compatibility'')) = Inr meta"
proof -
  have frame: "dgetn (dset s ''apiVersion'' v) ''compatibility'' = dgetn s ''compatibility''" for s v
    by (simp add: dgetn_def dgetd_def)
  from assms that show thesis
    by (auto simp: migrate_show_state_def ebind_eq_Inr Let_def frame split_beta simp del: dget_dset split: if_splits)
qed

text \<open>
  C40. A show state that migrates is readable afterwards: its version is the one this core writes and
  inspecting it again reports an exact match.  No data is lost on the way: top-level fields the
  migration does not know are unchanged, no field of the transport, system or audio section is lost
  or overwritten, and unknown fields of the compatibility block stay.
\<close>

theorem migration_lossless:
  assumes "migrate_show_state (PDict d) = Inr (d', rep)"
  shows "dget d' ''apiVersion'' = Some (PInt 1) \<and>
    (\<exists>rep'. inspect_show_state (PDict d') = Inr rep' \<and> dgetn rep' ''mode'' = PStr ''exact'') \<and>
    (\<forall>k. k \<notin> {''transport'', ''system'', ''audio'', ''apiVersion'', ''compatibility''} \<longrightarrow> dget d' k = dget d k) \<and>
    (\<forall>section k v. section \<notin> {''apiVersion'', ''compatibility''} \<longrightarrow>
       section_fields d section k = Some v \<longrightarrow> section_fields d' section k = Some v) \<and>
    (\<forall>k. k \<notin> metadata_keys \<longrightarrow> section_fields d' ''compatibility'' k = section_fields d ''compatibility'' k)"
proof -
  from assms obtain incoming meta s ms where s: "s = fst (migrated_sections incoming d)"
    and d': "d' = dset (dset s ''apiVersion'' (PInt 1)) ''compatibility'' (PDict meta)"
    and meta: "migrated_metadata incoming ms (dict_of (dgetn s ''compatibility'')) = Inr meta"
    by (rule migrate_result) blast
  have keep: "keeps_fields {''transport'', ''system'', ''audio''} d s"
    unfolding s by (rule migrated_sections_keep)
  then have top: "dget s k = dget d k" if "k \<notin> {''transport'', ''system'', ''audio''}" for k
    using that unfolding keeps_fields_def by blast
  have frame: "section_fields d' x k = section_fields s x k" if "x \<notin> {''apiVersion'', ''compatibility''}" for x k
    using that by (auto simp: d' section_fields_def dgetn_def dgetd_def)
  note fields = migrated_metadata_fields [OF meta]
  obtain m where "m \<le> 1" and m: "dget meta ''minimumReaderApiVersion'' = Some (PInt m)" using fields(2) by blast
  have exact: "\<exists>rep'. inspect_show_state (PDict d') = Inr rep' \<and> dgetn rep' ''mode'' = PStr ''exact''"
    by (rule inspect_exact [OF _ _ fields(1) m \<open>m \<le> 1\<close>]) (simp_all add: d' dgetn_def dgetd_def)
  have "section_fields d' ''compatibility'' k = section_fields d ''compatibility'' k" if "k \<notin> metadata_keys" for k
    using fields(3) [OF that] top [of "''compatibility''"] by (simp add: d' section_fields_def dgetn_def dgetd_def)
  moreover have "section_fields d' x k = Some v"
    if "x \<notin> {''apiVersion'', ''compatibility''}" "section_fields d x k = Some v" for x k v
    using keep that frame [OF that(1)] unfolding keeps_fields_def by simp
  moreover have "dget d' k = dget d k" if "k \<notin> {''transport'', ''system'', ''audio'', ''apiVersion'', ''compatibility''}" for k
    using that top by (simp add: d')
  ultimately show ?thesis using exact by (simp add: d')
qed

definition legacy_show :: pydict where
  "legacy_show = [(''transport'', PDict [(''tempo'', PInt 90), (''swing'', PInt 3)]), (''future'', PStr ''kept'')]"

theorem migration_lossless_witness:
  "\<exists>d' rep. migrate_show_state (PDict legacy_show) = Inr (d', rep) \<and>
     dget d' ''future'' = Some (PStr ''kept'') \<and> section_fields d' ''transport'' ''swing'' = Some (PInt 3) \<and>
     section_fields d' ''transport'' ''bpm'' = Some (PInt 90)"
proof -
  have "isl (migrate_show_state (PDict legacy_show)) = False" by code_simp
  then obtain d' rep where r: "migrate_show_state (PDict legacy_show) = Inr (d', rep)"
    by (cases "migrate_show_state (PDict legacy_show)") auto
  have "section_fields (fst (projr (migrate_show_state (PDict legacy_show)))) ''transport'' ''bpm'' = Some (PInt 90)"
    by code_simp
  with r migration_lossless [OF r] show ?thesis
    by (auto simp: legacy_show_def section_fields_def dgetn_def dgetd_def)
qed

end
