(* ===== verification/Notation.thy ===== *)
theory Notation
  imports Py_Monad "HOL-Library.Product_Lexorder" "HOL-Library.Multiset"
begin

text \<open>
  \<^verbatim>\<open>src/backend/notation.py\<close>: per-player capture of a MIDI performance and the notation view derived
  from it.  A part is a record with the settings, the captured notes, the sounding notes per pitch in
  the order they were struck, and the next identifier; the registry is a dictionary of parts.
  Arithmetic on times is exact.
\<close>

section \<open>Values\<close>

fun fmul :: "pyfloat \<Rightarrow> pyfloat \<Rightarrow> pyfloat" where
  "fmul (Fin a) (Fin b) = Fin (a * b)"
| "fmul NaN _ = NaN"
| "fmul _ NaN = NaN"
| "fmul (Fin a) PInf = (if a = 0 then NaN else if 0 < a then PInf else NInf)"
| "fmul (Fin a) NInf = (if a = 0 then NaN else if 0 < a then NInf else PInf)"
| "fmul PInf (Fin b) = (if b = 0 then NaN else if 0 < b then PInf else NInf)"
| "fmul NInf (Fin b) = (if b = 0 then NaN else if 0 < b then NInf else PInf)"
| "fmul PInf PInf = PInf"
| "fmul PInf NInf = NInf"
| "fmul NInf PInf = NInf"
| "fmul NInf NInf = PInf"

fun floor_float :: "pyfloat \<Rightarrow> pyerr + int" where
  "floor_float (Fin r) = Inr \<lfloor>r\<rfloor>"
| "floor_float NaN = Inl (ValueError ''cannot convert float NaN to integer'')"
| "floor_float _ = Inl OverflowError"

definition substring :: "string \<Rightarrow> string \<Rightarrow> bool" where
  "substring k s = list_ex (\<lambda>i. take (length k) (drop i s) = k) [0..<Suc (length s)]"

text \<open>\<open>k in v\<close> and \<open>v[k]\<close> for a string \<open>k\<close> and any value \<open>v\<close>.\<close>

definition vin :: "string \<Rightarrow> pyval \<Rightarrow> pyerr + bool" where
  "vin k v = (case v of
      PDict d \<Rightarrow> Inr (din k d)
    | PList xs \<Rightarrow> Inr (PStr k \<in> set xs)
    | PStr s \<Rightarrow> Inr (substring k s)
    | _ \<Rightarrow> Inl TypeError)"

definition vindex :: "pyval \<Rightarrow> string \<Rightarrow> pyerr + pyval" where
  "vindex v k = (case v of PDict d \<Rightarrow> dindex d k | _ \<Rightarrow> Inl TypeError)"

lemma vin_PDict [simp]: "vin k (PDict d) = Inr (din k d)" "vindex (PDict d) k = dindex d k"
  by (simp_all add: vin_def vindex_def)

text \<open>\<open>if k in data: f(data[k])\<close>\<close>

definition on_field :: "pyval \<Rightarrow> string \<Rightarrow> (pyval \<Rightarrow> ('s, unit) pymethod) \<Rightarrow> ('s, unit) pymethod" where
  "on_field data k f =
     sbind (slift (vin k data)) (\<lambda>present.
       if present then sbind (slift (vindex data k)) f else sreturn ())"

lemma keeps_on_field [keeps_intro]: "(\<And>v. keeps I (f v)) \<Longrightarrow> keeps I (on_field data k f)"
  unfolding on_field_def by (intro keeps_intro)

section \<open>Quantisation and spelling\<close>

definition quantize_grids :: "(string \<times> rat) list" where
  "quantize_grids = [(''1/4'', 1), (''1/8'', 1 / 2), (''1/16'', 1 / 4), (''1/32'', 1 / 8)]"

definition grid_error :: pyerr where
  "grid_error = ValueError (''quantize must be one of '' @ py_repr (strs (sort (dkeys quantize_grids))))"

definition quantize_beats :: "pyfloat \<Rightarrow> string \<Rightarrow> pyerr + rat" where
  "quantize_beats beats grid =
     (case dget quantize_grids grid of
        None \<Rightarrow> Inl grid_error
      | Some step \<Rightarrow>
          ebind (floor_float (fadd (fscale (1 / step) (fmax (Fin 0) beats)) (Fin (1 / 2)))) (\<lambda>n.
            Inr (of_int n * step)))"

definition sharp_names :: "string list" where
  "sharp_names = [''C'', ''C#'', ''D'', ''D#'', ''E'', ''F'', ''F#'', ''G'', ''G#'', ''A'', ''A#'', ''B'']"

definition flat_names :: "string list" where
  "flat_names = [''C'', ''Db'', ''D'', ''Eb'', ''E'', ''F'', ''Gb'', ''G'', ''Ab'', ''A'', ''Bb'', ''B'']"

definition flat_keys :: "string list" where
  "flat_keys = [''F'', ''Bb'', ''Eb'', ''Ab'', ''Db'', ''Gb'', ''Cb'', ''Fm'', ''Bbm'', ''Ebm'', ''Abm'']"

definition spelled :: "string list \<Rightarrow> int \<Rightarrow> string \<times> int \<times> int" where
  "spelled names pitch =
     (let token = names ! nat (pitch mod 12); octave = pitch div 12 - 1 in
      if length token = 1 then (token, octave, 0)
      else (take 1 token, octave, if CHR ''b'' \<in> set token then - 1 else 1))"

definition midi_pitch_name :: "int \<Rightarrow> string \<Rightarrow> pyerr + (string \<times> int \<times> int)" where
  "midi_pitch_name pitch key =
     (if pitch < 0 \<or> 127 < pitch then Inl (ValueError ''pitch must be 0..127'')
      else Inr (spelled (if key \<in> set flat_keys \<or> CHR ''b'' \<in> set key then flat_names else sharp_names) pitch))"

section \<open>Settings\<close>

record notation_settings =
  ns_enabled :: bool
  ns_source :: string
  ns_quantize :: string
  ns_preserve :: bool
  ns_spell :: bool

definition settings_init :: notation_settings where
  "settings_init = \<lparr>ns_enabled = True, ns_source = ''midi'', ns_quantize = ''1/16'', ns_preserve = True, ns_spell = True\<rparr>"

definition settings_patch :: "pyval \<Rightarrow> (notation_settings, unit) pymethod" where
  "settings_patch data =
     sthen (on_field data ''enabled'' (\<lambda>v. smodify (\<lambda>s. s\<lparr>ns_enabled := truthy v\<rparr>)))
    (sthen (on_field data ''source'' (\<lambda>v.
       let source = py_lower (strip (py_str v)) in
       sthen (sguard (source \<in> {''midi'', ''manual''}) (ValueError ''notation source must be midi or manual''))
             (smodify (\<lambda>s. s\<lparr>ns_source := source\<rparr>))))
    (sthen (on_field data ''quantize'' (\<lambda>v.
       let grid = strip (py_str v) in
       sthen (sguard (din grid quantize_grids) grid_error) (smodify (\<lambda>s. s\<lparr>ns_quantize := grid\<rparr>))))
    (sthen (on_field data ''preservePerformance'' (\<lambda>v.
       sthen (sguard (truthy v) (ValueError ''preservePerformance must remain true in notation v1''))
             (smodify (\<lambda>s. s\<lparr>ns_preserve := True\<rparr>))))
     (on_field data ''spellByProjectKey'' (\<lambda>v. smodify (\<lambda>s. s\<lparr>ns_spell := truthy v\<rparr>))))))"

definition settings_dict :: "notation_settings \<Rightarrow> pydict" where
  "settings_dict s =
     [(''enabled'', PBool (ns_enabled s)), (''source'', PStr (ns_source s)), (''quantize'', PStr (ns_quantize s)),
      (''preservePerformance'', PBool (ns_preserve s)), (''spellByProjectKey'', PBool (ns_spell s))]"

section \<open>Capture\<close>

record captured_note =
  cn_id :: int
  cn_pitch :: int
  cn_velocity :: int
  cn_start :: pyfloat
  cn_stop :: pyfloat
  cn_start_beats :: pyfloat
  cn_duration :: pyfloat

record sounding =
  so_id :: int
  so_velocity :: int
  so_start :: pyfloat
  so_beat :: pyfloat

record notation_part =
  np_player :: string
  np_settings :: notation_settings
  np_notes :: "captured_note list"
  np_active :: "(int \<times> sounding list) list"
  np_next :: int

definition part_init :: "string \<Rightarrow> notation_part" where
  "part_init player_id =
     \<lparr>np_player = player_id, np_settings = settings_init, np_notes = [], np_active = [], np_next = 1\<rparr>"

definition pitch_ok :: "int \<Rightarrow> bool" where
  "pitch_ok p = (0 \<le> p \<and> p \<le> 127)"

definition pitch_error :: pyerr where
  "pitch_error = ValueError ''pitch must be 0..127''"

definition beat_of :: "pyfloat \<Rightarrow> pyfloat \<Rightarrow> pyfloat" where
  "beat_of seconds bpm = fscale (1 / 60) (fmul seconds bpm)"

definition active_of :: "notation_part \<Rightarrow> int \<Rightarrow> sounding list" where
  "active_of p pitch = (case map_of (np_active p) pitch of None \<Rightarrow> [] | Some xs \<Rightarrow> xs)"

text \<open>\<open>self._active.setdefault(pitch, []).append(x)\<close>, and the dictionary after \<open>pop(0)\<close>.\<close>

fun active_add :: "(int \<times> sounding list) list \<Rightarrow> int \<Rightarrow> sounding \<Rightarrow> (int \<times> sounding list) list" where
  "active_add [] pitch x = [(pitch, [x])]"
| "active_add ((q, xs) # rest) pitch x =
     (if q = pitch then (q, xs @ [x]) # rest else (q, xs) # active_add rest pitch x)"

fun active_set :: "(int \<times> sounding list) list \<Rightarrow> int \<Rightarrow> sounding list \<Rightarrow> (int \<times> sounding list) list" where
  "active_set [] pitch xs = []"
| "active_set ((q, ys) # rest) pitch xs =
     (if q = pitch then (if xs = [] then rest else (q, xs) # rest) else (q, ys) # active_set rest pitch xs)"

definition note_on :: "int \<Rightarrow> int \<Rightarrow> pyfloat \<Rightarrow> pyfloat \<Rightarrow> (notation_part, unit) pymethod" where
  "note_on pitch velocity seconds0 bpm =
     sthen (sguard (pitch_ok pitch) pitch_error)
    (sbind (slift (ebind (py_float (PInt velocity)) (\<lambda>v. int_of_float (clamp v (Fin 1) (Fin 127))))) (\<lambda>velocity'.
     let seconds = fmax (Fin 0) seconds0 in
     smodify (\<lambda>p. p\<lparr>np_active := active_add (np_active p) pitch
                      \<lparr>so_id = np_next p, so_velocity = velocity', so_start = seconds, so_beat = beat_of seconds bpm\<rparr>,
                    np_next := np_next p + 1\<rparr>)))"

definition frank :: "pyfloat \<Rightarrow> nat \<times> rat" where
  \<comment> \<open>the order of floats that are not NaN\<close>
  "frank f = (case f of NInf \<Rightarrow> (0, 0) | Fin r \<Rightarrow> (1, r) | PInf \<Rightarrow> (2, 0) | NaN \<Rightarrow> (3, 0))"

definition note_key :: "captured_note \<Rightarrow> (nat \<times> rat) \<times> int" where
  "note_key n = (frank (cn_start n), cn_id n)"

definition keep_last :: "nat \<Rightarrow> 'a list \<Rightarrow> 'a list" where
  \<comment> \<open>\<open>xs[-n:]\<close> for positive \<open>n\<close>\<close>
  "keep_last n xs = drop (length xs - n) xs"

definition captured :: "int \<Rightarrow> sounding \<Rightarrow> pyfloat \<Rightarrow> pyfloat \<Rightarrow> captured_note" where
  "captured pitch x seconds bpm =
     (let stop = fmax (so_start x) seconds in
      \<lparr>cn_id = so_id x, cn_pitch = pitch, cn_velocity = so_velocity x, cn_start = so_start x, cn_stop = stop,
       cn_start_beats = so_beat x, cn_duration = fmax (Fin 0) (fsub (beat_of stop bpm) (so_beat x))\<rparr>)"

definition note_off :: "int \<Rightarrow> pyfloat \<Rightarrow> pyfloat \<Rightarrow> (notation_part, unit) pymethod" where
  "note_off pitch seconds bpm =
     sthen (sguard (pitch_ok pitch) pitch_error)
    (sbind (sgets (\<lambda>p. active_of p pitch)) (\<lambda>active.
     case active of
       [] \<Rightarrow> sraise (ValueError (''no active note for pitch '' @ show_int pitch))
     | x # rest \<Rightarrow>
         smodify (\<lambda>p. p\<lparr>np_active := active_set (np_active p) pitch rest,
                        np_notes := keep_last 4096 (sort_key note_key (np_notes p @ [captured pitch x seconds bpm]))\<rparr>)))"

definition part_clear :: "(notation_part, unit) pymethod" where
  "part_clear = smodify (\<lambda>p. p\<lparr>np_notes := [], np_active := [], np_next := 1\<rparr>)"

definition part_patch :: "pyval \<Rightarrow> (notation_part, unit) pymethod" where
  "part_patch data p =
     (let (r, s) = settings_patch data (np_settings p) in (r, p\<lparr>np_settings := s\<rparr>))"

section \<open>Restoring a part\<close>

definition restored_note :: "pyval \<Rightarrow> pyerr + captured_note" where
  "restored_note raw =
     ebind (ebind (vindex raw ''id'') py_int) (\<lambda>i.
     ebind (ebind (vindex raw ''pitch'') py_int) (\<lambda>pitch.
     ebind (get_int (dict_of raw) ''velocity'' (PInt 100)) (\<lambda>velocity.
     ebind (ebind (vindex raw ''rawStartSeconds'') py_float) (\<lambda>start.
     ebind (ebind (vindex raw ''rawEndSeconds'') py_float) (\<lambda>stop.
     ebind (get_float (dict_of raw) ''rawStartBeats'' (PFloat (Fin 0))) (\<lambda>beats.
     ebind (get_float (dict_of raw) ''rawDurationBeats'' (PFloat (Fin 0))) (\<lambda>duration.
     Inr \<lparr>cn_id = max 1 i, cn_pitch = pitch, cn_velocity = velocity, cn_start = fmax (Fin 0) start,
          cn_stop = fmax (Fin 0) stop, cn_start_beats = fmax (Fin 0) beats, cn_duration = fmax (Fin 0) duration\<rparr>)))))))"

definition restore_step :: "pyval \<Rightarrow> notation_part \<times> int \<Rightarrow> pyerr + (notation_part \<times> int)" where
  "restore_step raw acc =
     (case restored_note raw of
        Inl e \<Rightarrow> if is_key_type_or_value e then Inr acc else Inl e
      | Inr n \<Rightarrow>
          Inr (if pitch_ok (cn_pitch n) \<and> fle (cn_start n) (cn_stop n)
               then ((fst acc)\<lparr>np_notes := np_notes (fst acc) @ [n]\<rparr>, max (snd acc) (cn_id n)) else acc))"

definition part_restore :: "string \<Rightarrow> pyval \<Rightarrow> pyerr + notation_part" where
  "part_restore player_id snapshot =
     (if \<not> truthy snapshot then Inr (part_init player_id)
      else
        ebind (as_dict snapshot) (\<lambda>d.
        let (r, p) = part_patch (por (dgetn d ''settings'') (PDict [])) (part_init player_id) in
        ebind r (\<lambda>_.
        ebind (py_iter (por (dgetn d ''rawNotes'') (PList []))) (\<lambda>raws.
        ebind (efold restore_step raws (p, 0)) (\<lambda>(q, highest). Inr (q\<lparr>np_next := highest + 1\<rparr>))))))"

section \<open>The derived view\<close>

record derived_note =
  dn_note :: captured_note
  dn_start :: rat
  dn_duration :: rat
  dn_step :: string
  dn_octave :: int
  dn_alter :: int

definition rround :: "nat \<Rightarrow> rat \<Rightarrow> rat" where
  "rround n r = of_int (round_half_even (r * 10 ^ n)) / 10 ^ n"

definition derived_note_of :: "notation_settings \<Rightarrow> string \<Rightarrow> captured_note \<Rightarrow> pyerr + derived_note" where
  "derived_note_of s key n =
     ebind (dindex quantize_grids (ns_quantize s)) (\<lambda>minimum_duration.
     ebind (quantize_beats (cn_start_beats n) (ns_quantize s)) (\<lambda>start.
     ebind (quantize_beats (cn_duration n) (ns_quantize s)) (\<lambda>duration.
     ebind (midi_pitch_name (cn_pitch n) (if ns_spell s then key else ''C'')) (\<lambda>(step, octave, alter).
     Inr \<lparr>dn_note = n, dn_start = rround 6 start, dn_duration = rround 6 (max minimum_duration duration),
          dn_step = step, dn_octave = octave, dn_alter = alter\<rparr>))))"

definition derived_notes :: "notation_part \<Rightarrow> string \<Rightarrow> pyerr + derived_note list" where
  "derived_notes p key =
     ebind (dindex quantize_grids (ns_quantize (np_settings p))) (\<lambda>_.
       emap (derived_note_of (np_settings p) key) (np_notes p))"

definition note_name :: "derived_note \<Rightarrow> string" where
  "note_name d = dn_step d @ (if 0 < dn_alter d then ''#'' else if dn_alter d < 0 then ''b'' else []) @ show_int (dn_octave d)"

definition raw_note_dict :: "captured_note \<Rightarrow> pydict" where
  "raw_note_dict n =
     [(''id'', PInt (cn_id n)), (''pitch'', PInt (cn_pitch n)), (''velocity'', PInt (cn_velocity n)),
      (''rawStartSeconds'', PFloat (fround 6 (cn_start n))), (''rawEndSeconds'', PFloat (fround 6 (cn_stop n))),
      (''rawStartBeats'', PFloat (fround 6 (cn_start_beats n))), (''rawDurationBeats'', PFloat (fround 6 (cn_duration n)))]"

definition derived_note_dict :: "derived_note \<Rightarrow> pydict" where
  "derived_note_dict d = raw_note_dict (dn_note d) @
     [(''startBeats'', PFloat (Fin (dn_start d))), (''durationBeats'', PFloat (Fin (dn_duration d))),
      (''step'', PStr (dn_step d)), (''alter'', PInt (dn_alter d)), (''octave'', PInt (dn_octave d)), (''name'', PStr (note_name d))]"

text \<open>\<open>derived[-max(0, n):]\<close>: a limit of zero keeps the whole list.\<close>

definition limit_notes :: "nat option \<Rightarrow> 'a list \<Rightarrow> 'a list" where
  "limit_notes limit xs = (case limit of None \<Rightarrow> xs | Some n \<Rightarrow> if n = 0 then xs else keep_last n xs)"

definition part_snapshot :: "notation_part \<Rightarrow> string \<Rightarrow> bool \<Rightarrow> nat option \<Rightarrow> pyerr + pydict" where
  "part_snapshot p key include_raw note_limit =
     ebind (derived_notes p key) (\<lambda>derived.
     Inr ([(''playerId'', PStr (np_player p)), (''settings'', PDict (settings_dict (np_settings p))),
           (''activeNotes'', PInt (int (sum_list (map (length \<circ> snd) (np_active p))))),
           (''rawNoteCount'', PInt (int (length (np_notes p)))),
           (''notes'', PList (map (PDict \<circ> derived_note_dict) (limit_notes note_limit derived)))] @
          (if include_raw then [(''rawNotes'', PList (map (PDict \<circ> raw_note_dict) (np_notes p)))] else [])))"

section \<open>MusicXML\<close>

definition measure_of :: "derived_note \<Rightarrow> int" where
  "measure_of d = \<lfloor>dn_start d / 4\<rfloor> + 1"

definition fifths_by_key :: "(string \<times> int) list" where
  "fifths_by_key =
     [(''C'', 0), (''G'', 1), (''D'', 2), (''A'', 3), (''E'', 4), (''B'', 5), (''F#'', 6), (''C#'', 7),
      (''F'', -1), (''Bb'', -2), (''Eb'', -3), (''Ab'', -4), (''Db'', -5), (''Gb'', -6), (''Cb'', -7)]"

definition escape_char :: "char \<Rightarrow> string" where
  "escape_char c =
     (if c = CHR 0x26 then ''&amp;'' else if c = CHR 0x3C then ''&lt;'' else if c = CHR 0x3E then ''&gt;''
      else if c = CHR 0x22 then ''&quot;'' else if c = CHR 0x27 then ''&#x27;'' else [c])"

definition escape :: "string \<Rightarrow> string" where
  "escape s = concat (map escape_char s)"

definition rest_lines :: "int \<Rightarrow> string list" where
  "rest_lines duration =
     [''      <note>'', ''        <rest/>'', ''        <duration>'' @ show_int duration @ ''</duration>'', ''      </note>'']"

definition divisions_of :: "rat \<Rightarrow> int" where
  \<comment> \<open>\<open>max(1, int(round(beats * divisions)))\<close> with eight divisions per beat\<close>
  "divisions_of beats = max 1 (round_half_even (beats * 8))"

definition note_lines :: "bool \<Rightarrow> derived_note \<Rightarrow> string list" where
  "note_lines chord d =
     [''      <note>''] @ (if chord then [''        <chord/>''] else []) @
     [''        <pitch>'', ''          <step>'' @ dn_step d @ ''</step>''] @
     (if dn_alter d \<noteq> 0 then [''          <alter>'' @ show_int (dn_alter d) @ ''</alter>''] else []) @
     [''          <octave>'' @ show_int (dn_octave d) @ ''</octave>'', ''        </pitch>'',
      ''        <duration>'' @ show_int (divisions_of (dn_duration d)) @ ''</duration>'', ''      </note>'']"

text \<open>One round of the loop over the notes of a measure: the lines, the cursor and the last start.\<close>

definition measure_step :: "derived_note \<Rightarrow> string list \<times> rat \<times> rat option \<Rightarrow> string list \<times> rat \<times> rat option" where
  "measure_step d acc =
     (let (lines, cursor, last_start) = acc;
          chord = (case last_start of None \<Rightarrow> False | Some s \<Rightarrow> \<bar>dn_start d - s\<bar> < 1 / 10 ^ 9);
          gap = (if chord then 0 else max 0 (dn_start d - cursor));
          (lines1, cursor1) = (if 1 / 10 ^ 9 < gap
             then (lines @ rest_lines (divisions_of gap), cursor + of_int (divisions_of gap) / 8) else (lines, cursor))
      in (lines1 @ note_lines chord d, if chord then cursor1 else max cursor1 (dn_start d + dn_duration d), Some (dn_start d)))"

definition measure_head :: "pyfloat \<Rightarrow> string \<Rightarrow> string list" where
  \<open>measure_head bpm key =
     [''      <attributes>'', ''        <divisions>8</divisions>'',
      ''        <key><fifths>'' @ show_int (dgetd fifths_by_key key 0) @ ''</fifths></key>'',
      ''        <time><beats>4</beats><beat-type>4</beat-type></time>'', ''        <clef><sign>G</sign><line>2</line></clef>'',
      ''      </attributes>'', ''      <direction placement="above"><sound tempo="'' @ float_g bpm @ ''"/></direction>'']\<close>

definition measure_lines :: "pyfloat \<Rightarrow> string \<Rightarrow> derived_note list \<Rightarrow> int \<Rightarrow> string list" where
  \<open>measure_lines bpm key notes measure_no =
     (let own = sort_key (\<lambda>d. (dn_start d, cn_pitch (dn_note d))) (filter (\<lambda>d. measure_of d = measure_no) notes);
          (lines, cursor, _) = fold measure_step own ([], of_int (measure_no - 1) * 4, None);
          remaining = of_int measure_no * 4 - cursor in
      [''    <measure number="'' @ show_int measure_no @ ''">''] @
      (if measure_no = 1 then measure_head bpm key else []) @ lines @
      (if 1 / 10 ^ 9 < remaining then rest_lines (divisions_of remaining) else []) @ [''    </measure>''])\<close>

definition newline :: string where
  "newline = [char_of (10 :: nat)]"

definition part_musicxml :: "notation_part \<Rightarrow> string \<Rightarrow> pyfloat \<Rightarrow> string \<Rightarrow> pyerr + string" where
  \<open>part_musicxml p part_name bpm key =
     ebind (derived_notes p key) (\<lambda>notes.
     let final = Max (set (if notes = [] then [1] else map measure_of notes)) in
     Inr (join newline
       ([''<?xml version="1.0" encoding="UTF-8" standalone="no"?>'',
         ''<!DOCTYPE score-partwise PUBLIC "-//Recordare//DTD MusicXML 4.0 Partwise//EN" "http://www.musicxml.org/dtds/partwise.dtd">'',
         ''<score-partwise version="4.0">'', ''  <part-list>'',
         ''    <score-part id="P1"><part-name>'' @ escape part_name @ ''</part-name></score-part>'',
         ''  </part-list>'', ''  <part id="P1">''] @
        concat (map (measure_lines bpm key notes) [1..final]) @
        [''  </part>'', ''</score-partwise>'', []])))\<close>

section \<open>The registry\<close>

type_synonym notation_registry = "(string \<times> notation_part) list"

definition registry_open :: "string list \<Rightarrow> pyval \<Rightarrow> pyerr + notation_registry" where
  "registry_open player_ids snapshot =
     efold (\<lambda>pid acc.
       ebind (as_dict (por snapshot (PDict []))) (\<lambda>d.
       ebind (part_restore pid (dgetn d pid)) (\<lambda>p. Inr (dset acc pid p)))) player_ids []"

definition ensure :: "string \<Rightarrow> notation_registry \<Rightarrow> notation_registry" where
  "ensure pid r = dsetdefault r pid (part_init pid)"

definition part_of :: "string \<Rightarrow> notation_registry \<Rightarrow> notation_part" where
  "part_of pid r = dgetd r pid (part_init pid)"

text \<open>A method of the player's part, run inside the registry.\<close>

definition on_part :: "string \<Rightarrow> (notation_part, 'a) pymethod \<Rightarrow> (notation_registry, 'a) pymethod" where
  "on_part pid m r = (let (x, p) = m (part_of pid r) in (x, dset (ensure pid r) pid p))"

definition registry_notes :: "notation_registry \<Rightarrow> string \<Rightarrow> bool \<Rightarrow> nat option \<Rightarrow> pyerr + pydict" where
  "registry_notes r key include_raw note_limit =
     emap (\<lambda>(pid, p). ebind (part_snapshot p key include_raw note_limit) (\<lambda>d. Inr (pid, PDict d))) r"

definition registry_part_snapshot :: "string \<Rightarrow> string \<Rightarrow> bool \<Rightarrow> nat option \<Rightarrow> (notation_registry, pydict) pymethod" where
  "registry_part_snapshot pid key include_raw note_limit =
     on_part pid (sgete (\<lambda>p. part_snapshot p key include_raw note_limit))"

definition registry_patch :: "string \<Rightarrow> pyval \<Rightarrow> (notation_registry, unit) pymethod" where
  "registry_patch pid data = on_part pid (part_patch data)"

definition registry_note ::
    "string \<Rightarrow> string \<Rightarrow> int \<Rightarrow> int \<Rightarrow> pyfloat \<Rightarrow> pyfloat \<Rightarrow> (notation_registry, unit) pymethod" where
  "registry_note pid action0 pitch velocity seconds bpm =
     (let action = py_lower (strip action0) in
      on_part pid
        (if action = ''on'' then note_on pitch velocity seconds bpm
         else if action = ''off'' then note_off pitch seconds bpm
         else sraise (ValueError ''notation note action must be on or off'')))"

definition registry_clear_part :: "string \<Rightarrow> (notation_registry, unit) pymethod" where
  "registry_clear_part pid = on_part pid part_clear"

definition registry_musicxml :: "string \<Rightarrow> string \<Rightarrow> pyfloat \<Rightarrow> string \<Rightarrow> (notation_registry, string) pymethod" where
  "registry_musicxml pid part_name bpm key = on_part pid (sgete (\<lambda>p. part_musicxml p part_name bpm key))"

section \<open>Spelling and quantisation are right\<close>

definition semitone :: "string \<Rightarrow> int" where
  "semitone step = dgetd [(''C'', 0), (''D'', 2), (''E'', 4), (''F'', 5), (''G'', 7), (''A'', 9), (''B'', 11)] step 0"

definition sounds_as :: "string \<times> int \<times> int \<Rightarrow> int \<Rightarrow> bool" where
  "sounds_as spelling pitch =
     (case spelling of (step, octave, alter) \<Rightarrow>
        step \<in> {''C'', ''D'', ''E'', ''F'', ''G'', ''A'', ''B''} \<and> - 1 \<le> alter \<and> alter \<le> 1 \<and>
        semitone step + alter + 12 * (octave + 1) = pitch)"

lemma spelled_sounds:
  "list_all (\<lambda>p. sounds_as (spelled sharp_names p) p \<and> sounds_as (spelled flat_names p) p) [0..127]"
  by code_simp

text \<open>
  Every MIDI pitch is spelled in every key by a note that sounds at that pitch: the step, its
  alteration and the octave add up to the pitch.
\<close>

theorem spelling_sounds_as_pitch:
  assumes "pitch_ok pitch"
  shows "\<exists>spelling. midi_pitch_name pitch key = Inr spelling \<and> sounds_as spelling pitch"
proof -
  from assms have "pitch \<in> set [0..127]" by (auto simp: pitch_ok_def)
  with spelled_sounds have "sounds_as (spelled sharp_names pitch) pitch" "sounds_as (spelled flat_names pitch) pitch"
    unfolding list_all_iff by blast+
  with assms show ?thesis by (simp add: midi_pitch_name_def pitch_ok_def)
qed

theorem spelling_sounds_as_pitch_witness:
  "\<exists>spelling. midi_pitch_name 61 ''Eb'' = Inr spelling \<and> sounds_as spelling 61 \<and> spelling = (''D'', 4, - 1)"
proof -
  have "midi_pitch_name 61 ''Eb'' = Inr (''D'', 4, - 1)" by code_simp
  with spelling_sounds_as_pitch [of 61 "''Eb''"] show ?thesis by (auto simp: pitch_ok_def)
qed

lemma grid_step_pos: "dget quantize_grids grid = Some step \<Longrightarrow> 0 < step"
  by (auto simp: quantize_grids_def split: if_splits)

lemma floor_half: "0 \<le> r \<Longrightarrow> (0 :: int) \<le> \<lfloor>r + 1 / 2\<rfloor>" "\<bar>of_int \<lfloor>r + 1 / 2\<rfloor> - r\<bar> \<le> 1 / (2 :: rat)"
proof -
  show "(0 :: int) \<le> \<lfloor>r + 1 / 2\<rfloor>" if "0 \<le> r" using that by simp
  have "of_int \<lfloor>r + 1 / 2\<rfloor> \<le> r + 1 / 2" "r + 1 / 2 < of_int \<lfloor>r + 1 / 2\<rfloor> + 1"
    by (rule of_int_floor_le) linarith
  then show "\<bar>of_int \<lfloor>r + 1 / 2\<rfloor> - r\<bar> \<le> 1 / 2" by linarith
qed

text \<open>
  Quantisation moves a beat position to the grid and to the nearest point of it: the result is a
  multiple of the grid step, at most half a step away, and quantising it again changes nothing.
\<close>

theorem quantize_nearest:
  assumes "dget quantize_grids grid = Some step" and "0 \<le> b"
  shows "\<exists>k q. quantize_beats (Fin b) grid = Inr q \<and> q = of_int k * step \<and> 0 \<le> k \<and> \<bar>q - b\<bar> \<le> step / 2 \<and>
    quantize_beats (Fin q) grid = Inr q"
proof -
  have pos: "0 < step" using grid_step_pos [OF assms(1)] .
  define k where "k = \<lfloor>b / step + 1 / 2\<rfloor>"
  have f: "fmax (Fin 0) (Fin r) = Fin r" if "0 \<le> r" for r :: rat using that by (simp add: fmax_def)
  have q: "quantize_beats (Fin r) grid = Inr (of_int \<lfloor>r / step + 1 / 2\<rfloor> * step)" if "0 \<le> r" for r
    using that assms(1) by (simp add: quantize_beats_def f)
  have k0: "0 \<le> k" using assms(2) pos unfolding k_def by (intro floor_half(1)) simp
  have "\<bar>of_int k - b / step\<bar> \<le> 1 / 2" unfolding k_def by (rule floor_half(2))
  then have "\<bar>of_int k - b / step\<bar> * step \<le> 1 / 2 * step" using pos by (intro mult_right_mono) auto
  moreover have "\<bar>of_int k - b / step\<bar> * step = \<bar>of_int k * step - b\<bar>"
    using pos by (metis abs_mult_pos less_imp_le left_diff_distrib nonzero_eq_divide_eq less_numeral_extra(3))
  ultimately have near: "\<bar>of_int k * step - b\<bar> \<le> step / 2" by simp
  have "0 \<le> of_int k * step" using k0 pos by simp
  then have "quantize_beats (Fin (of_int k * step)) grid = Inr (of_int k * step)"
    using q [of "of_int k * step"] pos by (simp add: floor_eq_iff)
  with near k0 q [OF assms(2)] show ?thesis unfolding k_def by blast
qed

theorem quantize_nearest_witness:
  "\<exists>k q. quantize_beats (Fin (7 / 10)) ''1/8'' = Inr q \<and> q = of_int k * (1 / 2) \<and> \<bar>q - 7 / 10\<bar> \<le> 1 / 2 / 2"
  using quantize_nearest [of "''1/8''" "1 / 2" "7 / 10"] by (auto simp: quantize_grids_def)

section \<open>The capture is sound\<close>

definition note_ok :: "captured_note \<Rightarrow> bool" where
  "note_ok n = (pitch_ok (cn_pitch n) \<and> 1 \<le> cn_velocity n \<and> cn_velocity n \<le> 127 \<and>
                fle (Fin 0) (cn_start n) \<and> fle (cn_start n) (cn_stop n))"

definition sounding_ok :: "sounding \<Rightarrow> bool" where
  "sounding_ok x = (1 \<le> so_velocity x \<and> so_velocity x \<le> 127 \<and> fle (Fin 0) (so_start x))"

definition active_ids :: "(int \<times> sounding list) list \<Rightarrow> int multiset" where
  "active_ids a = mset (concat (map (map so_id \<circ> snd) a))"

definition part_ids :: "notation_part \<Rightarrow> int multiset" where
  "part_ids p = mset (map cn_id (np_notes p)) + active_ids (np_active p)"

definition settings_ok :: "notation_settings \<Rightarrow> bool" where
  "settings_ok s = (din (ns_quantize s) quantize_grids \<and> ns_source s \<in> {''midi'', ''manual''} \<and> ns_preserve s)"

definition part_ok :: "notation_part \<Rightarrow> bool" where
  "part_ok p =
     (settings_ok (np_settings p) \<and> list_all note_ok (np_notes p) \<and> sorted (map note_key (np_notes p)) \<and>
      length (np_notes p) \<le> 4096 \<and> distinct (map fst (np_active p)) \<and>
      list_all (\<lambda>(pitch, xs). pitch_ok pitch \<and> xs \<noteq> [] \<and> list_all sounding_ok xs) (np_active p) \<and>
      (\<forall>i. count (part_ids p) i \<le> (if 1 \<le> i \<and> i < np_next p then 1 else 0)) \<and> 1 \<le> np_next p)"

lemma active_add_ids: "active_ids (active_add a pitch x) = add_mset (so_id x) (active_ids a)"
  by (induction a pitch x rule: active_add.induct) (auto simp: active_ids_def)

lemma active_add_keys: "set (map fst (active_add a pitch x)) = insert pitch (set (map fst a))"
  by (induction a pitch x rule: active_add.induct) auto

lemma active_add_distinct: "distinct (map fst a) \<Longrightarrow> distinct (map fst (active_add a pitch x))"
proof (induction a pitch x rule: active_add.induct)
  case (2 q xs rest pitch x)
  then show ?case using active_add_keys [of rest pitch x] by auto
qed simp

lemma active_add_ok:
  "list_all (\<lambda>(pitch, xs). pitch_ok pitch \<and> xs \<noteq> [] \<and> list_all sounding_ok xs) a \<Longrightarrow> pitch_ok pitch \<Longrightarrow> sounding_ok x \<Longrightarrow>
   list_all (\<lambda>(pitch, xs). pitch_ok pitch \<and> xs \<noteq> [] \<and> list_all sounding_ok xs) (active_add a pitch x)"
  by (induction a pitch x rule: active_add.induct) auto

lemma active_set_ids:
  "map_of a pitch = Some (x # rest) \<Longrightarrow> active_ids a = add_mset (so_id x) (active_ids (active_set a pitch rest))"
  by (induction a pitch rest rule: active_set.induct) (auto simp: active_ids_def split: if_splits)

lemma active_set_keys: "set (map fst (active_set a pitch xs)) \<subseteq> set (map fst a)"
  by (induction a pitch xs rule: active_set.induct) auto

lemma active_set_distinct: "distinct (map fst a) \<Longrightarrow> distinct (map fst (active_set a pitch xs))"
proof (induction a pitch xs rule: active_set.induct)
  case (2 q ys rest pitch xs)
  then show ?case using active_set_keys [of rest pitch xs] by auto
qed simp

lemma active_set_ok:
  "list_all (\<lambda>(pitch, xs). pitch_ok pitch \<and> xs \<noteq> [] \<and> list_all sounding_ok xs) a \<Longrightarrow> list_all sounding_ok xs \<Longrightarrow>
   list_all (\<lambda>(pitch, xs). pitch_ok pitch \<and> xs \<noteq> [] \<and> list_all sounding_ok xs) (active_set a pitch xs)"
  by (induction a pitch xs rule: active_set.induct) auto

lemma active_of_ok:
  assumes "list_all (\<lambda>(pitch, xs). pitch_ok pitch \<and> xs \<noteq> [] \<and> list_all sounding_ok xs) (np_active p)"
  shows "list_all sounding_ok (active_of p pitch)"
proof (cases "map_of (np_active p) pitch")
  case (Some xs)
  from map_of_SomeD [OF this] assms show ?thesis by (auto simp: active_of_def Some list_all_iff)
qed (simp add: active_of_def)

lemma fmax_ge: "fle (Fin 0) a \<Longrightarrow> fle a (fmax a b)" "fle (Fin 0) (fmax (Fin 0) b)"
  by (cases a; cases b; auto simp: fmax_def)+

lemma keep_last_subseq: "mset (keep_last n xs) \<subseteq># mset xs" "set (keep_last n xs) \<subseteq> set xs"
  unfolding keep_last_def by (metis append_take_drop_id mset_append mset_subset_eq_add_right) (rule set_drop_subset)

lemma velocity_clamped:
  "ebind (py_float (PInt velocity)) (\<lambda>v. int_of_float (clamp v (Fin 1) (Fin 127))) = Inr v' \<Longrightarrow> 1 \<le> v' \<and> v' \<le> 127"
  by (auto simp: clamp_def fmin_def fmax_def rtrunc_def floor_le_iff le_floor_iff split: if_splits)

lemma note_on_ok: "keeps part_ok (note_on pitch velocity seconds bpm)"
proof (rule keepsI)
  fix p assume ok: "part_ok p"
  show "part_ok (snd (note_on pitch velocity seconds bpm p))"
  proof (cases "pitch_ok pitch")
    case False
    then show ?thesis using ok by (simp add: note_on_def method_run)
  next
    case pitch: True
    show ?thesis
    proof (cases "ebind (py_float (PInt velocity)) (\<lambda>v. int_of_float (clamp v (Fin 1) (Fin 127)))")
      case (Inl e)
      then show ?thesis using ok pitch by (simp add: note_on_def method_run)
    next
      case (Inr v)
      let ?x = "\<lparr>so_id = np_next p, so_velocity = v, so_start = fmax (Fin 0) seconds, so_beat = beat_of (fmax (Fin 0) seconds) bpm\<rparr>"
      have x: "sounding_ok ?x" using velocity_clamped [OF Inr] fmax_ge(2) by (simp add: sounding_ok_def)
      have "snd (note_on pitch velocity seconds bpm p) =
          p\<lparr>np_active := active_add (np_active p) pitch ?x, np_next := np_next p + 1\<rparr>"
        using pitch Inr by (simp add: note_on_def method_run Let_def)
      moreover have "part_ids (p\<lparr>np_active := active_add (np_active p) pitch ?x, np_next := np_next p + 1\<rparr>) =
          add_mset (np_next p) (part_ids p)"
        by (simp add: part_ids_def active_add_ids)
      moreover have "count (add_mset (np_next p) (part_ids p)) i \<le> (if 1 \<le> i \<and> i < np_next p + 1 then 1 else 0)" for i
      proof -
        from ok have "count (part_ids p) i \<le> (if 1 \<le> i \<and> i < np_next p then 1 else 0)" "1 \<le> np_next p"
          unfolding part_ok_def by blast+
        then show ?thesis by (cases "i = np_next p") (auto split: if_splits)
      qed
      ultimately show ?thesis
        using ok x pitch unfolding part_ok_def by (simp add: active_add_distinct active_add_ok)
    qed
  qed
qed

lemma note_off_ok: "keeps part_ok (note_off pitch seconds bpm)"
proof (rule keepsI)
  fix p assume ok: "part_ok p"
  show "part_ok (snd (note_off pitch seconds bpm p))"
  proof (cases "pitch_ok pitch \<and> active_of p pitch \<noteq> []")
    case False
    then show ?thesis using ok by (auto simp: note_off_def method_run split: list.splits)
  next
    case True
    then obtain x rest where a: "active_of p pitch = x # rest" and pitch: "pitch_ok pitch"
      by (cases "active_of p pitch") auto
    then have m: "map_of (np_active p) pitch = Some (x # rest)" by (auto simp: active_of_def split: option.splits)
    let ?n = "captured pitch x seconds bpm"
    let ?ns = "sort_key note_key (np_notes p @ [?n])"
    have run: "snd (note_off pitch seconds bpm p) =
        p\<lparr>np_active := active_set (np_active p) pitch rest, np_notes := keep_last 4096 ?ns\<rparr>"
      using a pitch by (simp add: note_off_def method_run)
    have s: "sounding_ok x" "list_all sounding_ok rest"
      using active_of_ok [of p pitch] ok a by (auto simp: part_ok_def)
    then have n: "note_ok ?n"
      using pitch fmax_ge(1) [of "so_start x" seconds] by (simp add: note_ok_def captured_def sounding_ok_def Let_def)
    have kept: "list_all note_ok (keep_last 4096 ?ns)"
      using keep_last_subseq(2) [of 4096 ?ns] ok n by (auto simp: list_all_iff part_ok_def)
    have "sorted (map note_key (keep_last 4096 ?ns))"
      unfolding keep_last_def by (simp add: drop_map [symmetric] sorted_wrt_drop)
    moreover have "length (keep_last 4096 ?ns) \<le> 4096" by (simp add: keep_last_def)
    moreover have "part_ids (snd (note_off pitch seconds bpm p)) \<subseteq># part_ids p"
    proof -
      have "mset (map cn_id (keep_last 4096 ?ns)) \<subseteq># mset (map cn_id ?ns)"
        using image_mset_subseteq_mono [OF keep_last_subseq(1) [of 4096 ?ns]] by (simp del: mset_sort)
      also have "\<dots> = add_mset (so_id x) (mset (map cn_id (np_notes p)))" by (simp add: captured_def Let_def)
      finally show ?thesis unfolding run part_ids_def by (simp add: active_set_ids [OF m] subset_mset.add_right_mono)
    qed
    then have "count (part_ids (snd (note_off pitch seconds bpm p))) i \<le> (if 1 \<le> i \<and> i < np_next p then 1 else 0)" for i
      using ok mset_subset_eq_count order_trans unfolding part_ok_def by meson
    ultimately show ?thesis
      using ok kept s(2) unfolding part_ok_def run by (simp add: active_set_distinct active_set_ok)
  qed
qed

lemma settings_patch_ok: "keeps settings_ok (settings_patch data)"
  unfolding settings_patch_def Let_def sthen_sguard
  by (intro keeps_intro) (auto intro!: keepsI simp: settings_ok_def method_run split: if_splits)

lemma part_patch_ok: "keeps part_ok (part_patch data)"
proof (rule keepsI)
  fix p assume ok: "part_ok p"
  then have "settings_ok (snd (settings_patch data (np_settings p)))"
    using keepsD [OF settings_patch_ok] by (simp add: part_ok_def)
  with ok show "part_ok (snd (part_patch data p))"
    by (simp add: part_patch_def part_ok_def part_ids_def split_beta)
qed

lemma part_clear_ok: "keeps part_ok part_clear"
  by (rule keepsI) (simp add: part_clear_def part_ok_def part_ids_def active_ids_def)

lemma part_init_ok: "part_ok (part_init pid)"
  by (simp add: part_init_def part_ok_def part_ids_def active_ids_def settings_ok_def settings_init_def quantize_grids_def)

datatype part_op =
    OpOn int int pyfloat pyfloat
  | OpOff int pyfloat pyfloat
  | OpClear
  | OpPatch pyval

fun part_run :: "part_op \<Rightarrow> (notation_part, unit) pymethod" where
  "part_run (OpOn pitch velocity seconds bpm) = note_on pitch velocity seconds bpm"
| "part_run (OpOff pitch seconds bpm) = note_off pitch seconds bpm"
| "part_run OpClear = part_clear"
| "part_run (OpPatch data) = part_patch data"

lemma part_run_ok: "keeps part_ok (part_run cmd)"
  by (cases cmd) (simp_all add: note_on_ok note_off_ok part_clear_ok part_patch_ok)

text \<open>
  C11. Whatever sequence of note, clear and settings calls reaches a part, refused ones included, its
  capture stays sound: identifiers are never reused among the captured and the sounding notes,
  pitches and velocities are MIDI values, no note ends before it starts, the notes are in order of
  their start and at most 4096 are kept.
\<close>

theorem capture_invariant: "part_ok (fold (\<lambda>cmd p. sexec (part_run cmd) p) cmds (part_init pid))"
proof -
  have "part_ok p \<Longrightarrow> part_ok (fold (\<lambda>cmd p. sexec (part_run cmd) p) cmds p)" for p
    by (induction cmds arbitrary: p) (simp_all add: keeps_sexec [OF part_run_ok])
  then show ?thesis using part_init_ok by blast
qed

text \<open>
  A note is captured as it was played: striking a pitch that is not sounding and releasing it
  later appends exactly one note with the pitch, the clamped velocity and the two times, and the
  settings and the other captured notes are untouched as long as the capture is not full.
\<close>

theorem note_captured:
  assumes "part_ok p" and "pitch_ok pitch" and "active_of p pitch = []" and "0 \<le> s" and "s \<le> t"
    and "1 \<le> velocity" and "velocity \<le> 127" and "length (np_notes p) < 4096"
  shows "\<exists>q n. sexec (note_off pitch (Fin t) bpm) (sexec (note_on pitch velocity (Fin s) bpm) p) = q \<and>
    mset (np_notes q) = add_mset n (mset (np_notes p)) \<and> np_active q = np_active p \<and> np_settings q = np_settings p \<and>
    cn_id n = np_next p \<and> cn_pitch n = pitch \<and> cn_velocity n = velocity \<and> cn_start n = Fin s \<and> cn_stop n = Fin t"
proof -
  have small: "\<not> float_limit \<le> \<bar>of_int velocity\<bar>"
  proof -
    have "(127 :: rat) < float_limit" by (simp add: float_limit_def)
    then show ?thesis using assms(6,7) by simp
  qed
  let ?x = "\<lparr>so_id = np_next p, so_velocity = velocity, so_start = Fin s, so_beat = beat_of (Fin s) bpm\<rparr>"
  have "1 \<le> (of_int velocity :: rat)" "(of_int velocity :: rat) \<le> 127" using assms(6,7) by simp_all
  then have "clamp (Fin (of_int velocity)) (Fin 1) (Fin 127) = Fin (of_int velocity)" by (intro clamp_id) simp
  then have q1: "sexec (note_on pitch velocity (Fin s) bpm) p =
      p\<lparr>np_active := active_add (np_active p) pitch ?x, np_next := np_next p + 1\<rparr>" (is "_ = ?q1")
    using assms(2,4) small by (simp add: sexec_def note_on_def method_run Let_def fmax_def)
  have new: "map_of (np_active p) pitch = None"
  proof (cases "map_of (np_active p) pitch")
    case (Some xs)
    with assms(1,3) map_of_SomeD [OF Some] show ?thesis by (auto simp: part_ok_def active_of_def list_all_iff)
  qed
  have add: "map_of a pitch = None \<Longrightarrow> active_add a pitch ?x = a @ [(pitch, [?x])]" for a
    by (induction a pitch ?x rule: active_add.induct) (auto split: if_splits)
  have del: "map_of a pitch = None \<Longrightarrow> active_set (a @ [(pitch, [?x])]) pitch [] = a" for a
    by (induction a) (auto split: if_splits)
  have act: "active_of ?q1 pitch = [?x]"
    using new by (simp add: active_of_def add [OF new] map_add_def)
  let ?n = "captured pitch ?x (Fin t) bpm"
  have "keep_last 4096 (sort_key note_key (np_notes p @ [?n])) = sort_key note_key (np_notes p @ [?n])"
    using assms(8) by (simp add: keep_last_def)
  then have "sexec (note_off pitch (Fin t) bpm) ?q1 =
      ?q1\<lparr>np_active := np_active p, np_notes := sort_key note_key (np_notes p @ [?n])\<rparr>"
    using assms(2) act by (simp add: sexec_def note_off_def method_run add [OF new] del [OF new])
  then have q: "sexec (note_off pitch (Fin t) bpm) (sexec (note_on pitch velocity (Fin s) bpm) p) =
      ?q1\<lparr>np_active := np_active p, np_notes := sort_key note_key (np_notes p @ [?n])\<rparr>" unfolding q1 .
  have n: "cn_id ?n = np_next p" "cn_pitch ?n = pitch" "cn_velocity ?n = velocity" "cn_start ?n = Fin s" "cn_stop ?n = Fin t"
    using assms(5) by (auto simp: captured_def Let_def fmax_def)
  show ?thesis unfolding q by (intro exI [of _ ?n] exI conjI, rule refl) (simp_all add: n)
qed

theorem note_captured_witness:
  "\<exists>n. np_notes (sexec (note_off 60 (Fin 2) (Fin 120)) (sexec (note_on 60 90 (Fin 1) (Fin 120)) (part_init ''alex''))) = [n] \<and>
     cn_pitch n = 60 \<and> cn_velocity n = 90 \<and> cn_start n = Fin 1 \<and> cn_stop n = Fin 2"
  using note_captured [OF part_init_ok, of 60 "''alex''" 1 2 90 "Fin 120"]
  by (auto simp: pitch_ok_def active_of_def part_init_def)

end
