(* ===== verification/Show_State.thy ===== *)
theory Show_State
  imports Handoff Technology Compatibility Notation
begin

text \<open>
  \<^verbatim>\<open>src/backend/state.py\<close>, the data of \<open>ShowState\<close>: players and their monitor mixes, the audio inputs
  and outputs, the state record, the clock, the event log and the revisions.  Readings of the
  monotonic and the wall clock are arguments of the operations.
\<close>

section \<open>Monitor mixes and players\<close>

definition monitor_keys :: "string list" where
  "monitor_keys = [''master'', ''self'', ''vocals'', ''band'', ''click'', ''talkback'', ''ambient'']"

definition system_modes :: "string list" where
  "system_modes = [''full'', ''reduced'', ''safe'', ''audio'']"

record monitor_mix =
  mm_levels :: "(string \<times> pyfloat) list"
  mm_muted :: bool
  mm_output :: string

definition monitor_init :: monitor_mix where
  "monitor_init = \<lparr>mm_levels = [(''master'', Fin 72), (''self'', Fin 76), (''vocals'', Fin 58), (''band'', Fin 62),
      (''click'', Fin 38), (''talkback'', Fin 45), (''ambient'', Fin 28)], mm_muted = False, mm_output = ''IEM A''\<rparr>"

definition level_patch :: "pyval \<Rightarrow> string \<Rightarrow> (monitor_mix, unit) pymethod" where
  "level_patch data k = on_field data k (\<lambda>v.
     sbind (slift (py_float v)) (\<lambda>f. smodify (\<lambda>m. m\<lparr>mm_levels := dset (mm_levels m) k (clamp f (Fin 0) (Fin 100))\<rparr>)))"

definition monitor_patch :: "pyval \<Rightarrow> (monitor_mix, unit) pymethod" where
  "monitor_patch data =
     sthen (sfold (\<lambda>k _. level_patch data k) monitor_keys ())
    (sthen (on_field data ''muted'' (\<lambda>v. smodify (\<lambda>m. m\<lparr>mm_muted := truthy v\<rparr>)))
     (on_field data ''output'' (\<lambda>v.
        let value = strip (py_str v) in
        if value \<noteq> [] then smodify (\<lambda>m. m\<lparr>mm_output := take 64 value\<rparr>) else sreturn ())))"

definition monitor_dict :: "monitor_mix \<Rightarrow> pydict" where
  "monitor_dict m = map (\<lambda>(k, f). (k, PFloat f)) (mm_levels m) @ [(''muted'', PBool (mm_muted m)), (''output'', PStr (mm_output m))]"

record player =
  pl_id :: string
  pl_name :: string
  pl_role :: string
  pl_monitor :: monitor_mix
  pl_mode :: string
  pl_available :: bool

definition player_dict :: "player \<Rightarrow> pydict" where
  "player_dict p =
     [(''id'', PStr (pl_id p)), (''name'', PStr (pl_name p)), (''role'', PStr (pl_role p)),
      (''monitor'', PDict (monitor_dict (pl_monitor p))), (''mode'', PStr (pl_mode p)), (''available'', PBool (pl_available p))]"

definition default_player :: "string \<Rightarrow> string \<Rightarrow> string \<Rightarrow> (string \<times> rat) list \<Rightarrow> string \<Rightarrow> string \<times> player" where
  "default_player i name role levels mode =
     (i, \<lparr>pl_id = i, pl_name = name, pl_role = role,
          pl_monitor = monitor_init\<lparr>mm_levels := fold (\<lambda>(k, r) d. dset d k (Fin r)) levels (mm_levels monitor_init)\<rparr>,
          pl_mode = mode, pl_available = True\<rparr>)"

definition default_players :: "(string \<times> player) list" where
  "default_players =
     [default_player ''alex'' ''Alex'' ''Drums'' [(''self'', 82), (''click'', 42)] ''local'',
      default_player ''sam'' ''Sam'' ''Bass'' [(''self'', 74), (''click'', 28)] ''local'',
      default_player ''maya'' ''Maya'' ''Keys'' [(''vocals'', 70), (''ambient'', 36)] ''remote'',
      default_player ''jordan'' ''Jordan'' ''Lead Vocal'' [(''self'', 84), (''band'', 52), (''click'', 22)] ''local'']"

section \<open>Audio slots\<close>

record audio_input =
  ai_slot :: nat
  ai_device :: string
  ai_player :: string
  ai_rate :: pyfloat
  ai_output :: int
  ai_gain :: pyfloat

record audio_output =
  ao_slot :: nat
  ao_device :: string
  ao_purpose :: string
  ao_player :: string
  ao_graph :: int
  ao_master :: pyfloat
  ao_ceiling :: pyfloat
  ao_drift :: bool
  ao_max_ppm :: pyfloat
  ao_gain_ppm :: pyfloat

definition default_input :: "pyfloat \<Rightarrow> nat \<Rightarrow> audio_input" where
  "default_input rate slot = \<lparr>ai_slot = slot, ai_device = [], ai_player = [], ai_rate = rate, ai_output = 0, ai_gain = Fin 0\<rparr>"

definition default_output :: "nat \<Rightarrow> audio_output" where
  "default_output slot =
     \<lparr>ao_slot = slot, ao_device = (if slot = 0 then ''null-audio'' else []),
      ao_purpose = (if slot = 0 then ''foh'' else if slot \<in> {1, 2} then ''monitor'' else ''broadcast''),
      ao_player = [], ao_graph = int slot, ao_master = Fin 1, ao_ceiling = Fin (-1),
      ao_drift = True, ao_max_ppm = Fin 2000, ao_gain_ppm = Fin 1000\<rparr>"

definition slots :: "nat list" where
  "slots = [0, 1, 2, 3]"

definition route_dict :: "int \<Rightarrow> pyfloat \<Rightarrow> pydict" where
  "route_dict out gain = [(''output'', PInt out), (''gain'', PFloat gain)]"

definition input_dict :: "audio_input \<Rightarrow> pydict" where
  "input_dict i =
     [(''slot'', PInt (int (ai_slot i))), (''deviceId'', PStr (ai_device i)), (''playerId'', PStr (ai_player i)),
      (''sampleRate'', PFloat (ai_rate i)), (''route'', PDict (route_dict (ai_output i) (ai_gain i)))]"

definition drift_dict :: "audio_output \<Rightarrow> pydict" where
  "drift_dict x = [(''enabled'', PBool (ao_drift x)), (''maxCorrectionPpm'', PFloat (ao_max_ppm x)), (''queueGainPpm'', PFloat (ao_gain_ppm x))]"

definition output_dict :: "audio_output \<Rightarrow> pydict" where
  "output_dict x =
     [(''slot'', PInt (int (ao_slot x))), (''deviceId'', PStr (ao_device x)), (''purpose'', PStr (ao_purpose x)),
      (''playerId'', PStr (ao_player x)), (''graphOutput'', PInt (ao_graph x)), (''master'', PFloat (ao_master x)),
      (''limiterCeilingDb'', PFloat (ao_ceiling x)), (''driftCompensation'', PDict (drift_dict x))]"

section \<open>The state\<close>

record show_state =
  sh_running :: bool
  sh_elapsed :: pyfloat
  sh_started :: rat
  sh_bpm :: pyfloat
  sh_key :: string
  sh_capacity :: pyfloat
  sh_mode :: string
  sh_venue :: string
  sh_manager :: string
  sh_device :: string
  sh_in_device :: string
  sh_in_player :: string
  sh_in_output :: int
  sh_in_gain :: pyfloat
  sh_inputs :: "audio_input list"
  sh_outputs :: "audio_output list"
  sh_rate :: pyfloat
  sh_frames :: int
  sh_ceiling :: pyfloat
  sh_protocol :: string
  sh_target :: string
  sh_port :: int
  sh_universe :: int
  sh_policy :: handoff_policy
  sh_live :: "live_input list"
  sh_sources :: "deterministic_source list"
  sh_tech_policy :: pydict
  sh_participants :: int
  sh_extensions :: "extension list"
  sh_overlay :: pydict
  sh_report :: pydict
  sh_revision :: int
  sh_resources :: "(string \<times> int) list"
  sh_next_event :: int
  sh_events :: "pydict list"
  sh_players :: "(string \<times> player) list"
  sh_bindings :: "(string \<times> string) list"
  sh_received :: int
  sh_activity :: "pydict list"
  sh_notation :: notation_registry

text \<open>The clock readings of one call: the monotonic clock in the body, at the event and at the
  snapshot, and the wall clock in milliseconds.\<close>

record clock =
  ck_now :: rat
  ck_event :: rat
  ck_wall :: int
  ck_snapshot :: rat

definition clock_seconds :: "rat \<Rightarrow> show_state \<Rightarrow> pyfloat" where
  "clock_seconds now s = (if sh_running s then fadd (sh_elapsed s) (Fin (now - sh_started s)) else sh_elapsed s)"

section \<open>Events and revisions\<close>

definition event_dict :: "clock \<Rightarrow> string \<Rightarrow> string \<Rightarrow> pydict \<Rightarrow> show_state \<Rightarrow> pydict" where
  "event_dict c category text payload s =
     [(''eventId'', PInt (sh_next_event s)), (''category'', PStr category), (''text'', PStr text),
      (''showTimeSeconds'', PFloat (fround 3 (clock_seconds (ck_event c) s))), (''wallTimeUnixMs'', PInt (ck_wall c)),
      (''revision'', PInt (sh_revision s)), (''payload'', PDict payload)]"

definition record_event :: "clock \<Rightarrow> string \<Rightarrow> string \<Rightarrow> pydict \<Rightarrow> (show_state, unit) pymethod" where
  "record_event c category text payload =
     smodify (\<lambda>s. s\<lparr>sh_events := take 100 (event_dict c category text payload s # sh_events s),
                    sh_next_event := sh_next_event s + 1\<rparr>)"

fun bump_all :: "string list \<Rightarrow> (string \<times> int) list \<Rightarrow> (string \<times> int) list" where
  "bump_all [] r = r"
| "bump_all (k # ks) r = bump_all ks (dset r k (dgetd r k 1 + 1))"

text \<open>\<open>dict.fromkeys(keys)\<close>: the first occurrence of every key, in order.\<close>

definition unique_keys :: "string list \<Rightarrow> string list" where
  "unique_keys ks = rev (remdups (rev ks))"

definition touch_resources :: "string list \<Rightarrow> (show_state, unit) pymethod" where
  "touch_resources ks =
     smodify (\<lambda>s. s\<lparr>sh_revision := sh_revision s + 1, sh_resources := bump_all (unique_keys ks) (sh_resources s)\<rparr>)"

definition touch :: "string \<Rightarrow> (show_state, unit) pymethod" where
  "touch k = touch_resources [k]"

definition check_revision :: "int option \<Rightarrow> string \<Rightarrow> int option \<Rightarrow> (show_state, unit) pymethod" where
  "check_revision expected k expected_resource =
     sgete (\<lambda>s. case expected_resource of
        Some e \<Rightarrow> (let actual = dgetd (sh_resources s) k 1 in
                   if e \<noteq> actual then Inl (RevisionConflict e actual k) else Inr ())
      | None \<Rightarrow> (case expected of
          Some e \<Rightarrow> if e \<noteq> sh_revision s then Inl (RevisionConflict e (sh_revision s) ''global'') else Inr ()
        | None \<Rightarrow> Inr ()))"

definition latest_event :: "show_state \<Rightarrow> pydict option" where
  "latest_event s = (case sh_events s of [] \<Rightarrow> None | e # _ \<Rightarrow> Some e)"

fun newer_events :: "int \<Rightarrow> pydict list \<Rightarrow> pyerr + pydict list" where
  "newer_events i [] = Inr []"
| "newer_events i (e # es) =
     ebind (get_int e ''eventId'' (PInt 0)) (\<lambda>n.
     ebind (newer_events i es) (\<lambda>rest. Inr (if i < n then e # rest else rest)))"

definition events_since :: "int \<Rightarrow> show_state \<Rightarrow> pyerr + pydict list" where
  "events_since i s = newer_events i (rev (sh_events s))"

definition record_external_event :: "clock \<Rightarrow> string \<Rightarrow> string \<Rightarrow> pydict \<Rightarrow> (show_state, pydict) pymethod" where
  "record_external_event c category text payload =
     sthen (record_event c (take 64 category) (take 240 text) payload) (sgets (\<lambda>s. hd (sh_events s)))"

text \<open>The common end of a patch: a touched resource and one event when something changed.\<close>

definition commit :: "clock \<Rightarrow> string \<Rightarrow> string \<Rightarrow> string \<Rightarrow> string list \<Rightarrow> (show_state, unit) pymethod" where
  "commit c k category prefix changes =
     swhen (changes \<noteq> []) (sthen (touch k)
       (record_event c category (prefix @ join '', '' changes) [(''changes'', strs changes)]))"

section \<open>Snapshots\<close>

definition quality_base :: "pyfloat \<Rightarrow> string \<Rightarrow> pyfloat" where
  "quality_base capacity mode =
     (let base = fmin (Fin 100) (fadd capacity (Fin 18)) in
      if mode = ''reduced'' then fmax base (Fin 90) else if mode = ''safe'' then fmax base (Fin 94)
      else if mode = ''audio'' then Fin 100 else base)"

definition show_quality :: "show_state \<Rightarrow> int" where
  \<comment> \<open>the clamped value is finite\<close>
  "show_quality s = (case clamp (quality_base (sh_capacity s) (sh_mode s)) (Fin 0) (Fin 100) of
      Fin r \<Rightarrow> round_half_even r | _ \<Rightarrow> 0)"

definition audio_dict :: "show_state \<Rightarrow> pydict" where
  "audio_dict s =
     [(''deviceId'', PStr (sh_device s)), (''inputDeviceId'', PStr (sh_in_device s)), (''inputPlayerId'', PStr (sh_in_player s)),
      (''inputRoute'', PDict (route_dict (sh_in_output s) (sh_in_gain s))),
      (''inputs'', PList (map (PDict \<circ> input_dict) (sh_inputs s))), (''outputs'', PList (map (PDict \<circ> output_dict) (sh_outputs s))),
      (''sampleRate'', PFloat (sh_rate s)), (''engineSampleRate'', PFloat (Fin 192000)), (''engineSampleFormat'', PStr ''float32''),
      (''bufferFrames'', PInt (sh_frames s)), (''limiterCeilingDb'', PFloat (sh_ceiling s))]"

definition handoff_dict :: "show_state \<Rightarrow> pydict" where
  "handoff_dict s =
     [(''policy'', PDict (policy_dict (sh_policy s))), (''liveInputs'', PList (map (PDict \<circ> live_input_dict) (sh_live s))),
      (''deterministicSources'', PList (map (PDict \<circ> source_dict) (sh_sources s)))]"

definition extensions_value :: "extension list \<Rightarrow> pyval" where
  "extensions_value exts = PList (map (PDict \<circ> extension_dict) exts)"

definition technology_dict :: "bool \<Rightarrow> show_state \<Rightarrow> pydict" where
  "technology_dict detail s =
     [(''policy'', PDict (sh_tech_policy s)), (''ecosystemParticipants'', PInt (sh_participants s)),
      (''extensionCount'', PInt (int (length (sh_extensions s))))] @
     (if detail then [(''extensions'', extensions_value (sh_extensions s))] else [])"

definition network_dict :: "show_state \<Rightarrow> pydict" where
  "network_dict s =
     [(''protocol'', PStr (sh_protocol s)), (''target'', PStr (sh_target s)), (''port'', PInt (sh_port s)),
      (''universeBase'', PInt (sh_universe s)), (''armed'', PBool False)]"

definition generated_state :: "rat \<Rightarrow> bool \<Rightarrow> bool \<Rightarrow> show_state \<Rightarrow> pyerr + pydict" where
  "generated_state now notation_detail technology_detail s =
     ebind (registry_notes (sh_notation s) (sh_key s) notation_detail (if notation_detail then None else Some 16)) (\<lambda>parts.
     Inr [(''apiVersion'', PInt 1), (''compatibility'', PDict (compatibility_metadata None [])), (''revision'', PInt (sh_revision s)),
          (''resourceRevisions'', PDict (map (\<lambda>(k, i). (k, PInt i)) (sh_resources s))),
          (''transport'', PDict [(''running'', PBool (sh_running s)), (''seconds'', PFloat (fround 3 (clock_seconds now s))),
             (''bpm'', PFloat (sh_bpm s)), (''key'', PStr (sh_key s))]),
          (''system'', PDict [(''capacity'', PFloat (sh_capacity s)), (''mode'', PStr (sh_mode s)), (''quality'', PInt (show_quality s)),
             (''venue'', PStr (sh_venue s)), (''productionManager'', PStr (sh_manager s))]),
          (''audio'', PDict (audio_dict s)), (''handoff'', PDict (handoff_dict s)),
          (''technology'', PDict (technology_dict technology_detail s)),
          (''lighting'', PDict [(''network'', PDict (network_dict s))]),
          (''players'', PList (map (PDict \<circ> player_dict \<circ> snd) (sh_players s))),
          (''midi'', PDict [(''bindings'', PDict (map (\<lambda>(d, p). (d, PStr p)) (sh_bindings s))), (''received'', PInt (sh_received s)),
             (''activity'', PList (map PDict (keep_last (if notation_detail then 512 else 16) (sh_activity s))))]),
          (''notation'', PDict parts), (''events'', PList (map PDict (sh_events s)))])"

definition show_snapshot :: "rat \<Rightarrow> bool \<Rightarrow> bool \<Rightarrow> show_state \<Rightarrow> pyerr + pydict" where
  "show_snapshot now notation_detail technology_detail s =
     ebind (generated_state now notation_detail technology_detail s) (\<lambda>generated.
     let merged = merge_items (sh_overlay s) generated;
         forward = (dgetn (sh_report s) ''mode'' = PStr ''forward-compatible'') in
     ebind (if forward then get_int (sh_report s) ''incomingApiVersion'' (PInt 1) else Inr 1) (\<lambda>version.
     let meta0 = dmerge (dict_of (dgetn merged ''compatibility'')) (compatibility_metadata None []);
         meta1 = (if forward then dset meta0 ''sourceApiVersion'' (PInt version) else meta0);
         migrations = por (dgetn (sh_report s) ''migrations'') (PList []);
         meta2 = (if truthy migrations then dset meta1 ''migrations'' migrations else meta1) in
     Inr (dset (dset merged ''apiVersion'' (PInt (max 1 version))) ''compatibility'' (PDict meta2))))"

definition persistence_snapshot :: "rat \<Rightarrow> show_state \<Rightarrow> pyerr + pydict" where
  "persistence_snapshot now s = show_snapshot now True True s"

definition replication_snapshot :: "rat \<Rightarrow> show_state \<Rightarrow> pyerr + pydict" where
  "replication_snapshot now s =
     ebind (show_snapshot now True False s) (\<lambda>d.
     let d' = ddel d ''technology'' in
     Inr (case dgetn d' ''resourceRevisions'' of
            PDict r \<Rightarrow> dset d' ''resourceRevisions'' (PDict (ddel r ''technology''))
          | _ \<Rightarrow> d'))"

definition technology_snapshot :: "show_state \<Rightarrow> pydict" where
  "technology_snapshot s =
     technology_dict True s @ [(''resourceRevision'', PInt (dgetd (sh_resources s) ''technology'' 1))]"

definition compatibility_status :: "show_state \<Rightarrow> pydict" where
  "compatibility_status s = dmerge (sh_report s)
     [(''documentType'', PStr ''org.upp.show-state''), (''currentApiVersion'', PInt 1), (''unknownFieldsPreserved'', PBool True)]"

text \<open>\<open>return self.snapshot()\<close> at the end of an operation.\<close>

definition returning :: "clock \<Rightarrow> bool \<Rightarrow> (show_state, unit) pymethod \<Rightarrow> (show_state, pydict) pymethod" where
  "returning c technology_detail m = sthen m (sgete (show_snapshot (ck_snapshot c) False technology_detail))"

lemma keeps_returning [keeps_intro]: "keeps I m \<Longrightarrow> keeps I (returning c td m)"
  unfolding returning_def by (intro keeps_intro)

section \<open>The initial state\<close>

definition player_resources :: "string list \<Rightarrow> string list" where
  "player_resources ids = concat (map (\<lambda>i. [''monitor:'' @ i, ''midi:'' @ i, ''notation:'' @ i]) ids)"

definition fresh_state :: "rat \<Rightarrow> show_state" where
  "fresh_state now =
     \<lparr>sh_running = False, sh_elapsed = Fin 0, sh_started = now, sh_bpm = Fin 120, sh_key = ''C'', sh_capacity = Fin 78,
      sh_mode = ''full'', sh_venue = ''Small Club'', sh_manager = ''Touring Default'', sh_device = ''null-audio'',
      sh_in_device = [], sh_in_player = [], sh_in_output = 0, sh_in_gain = Fin 0,
      sh_inputs = map (default_input (Fin 192000)) slots, sh_outputs = map default_output slots, sh_rate = Fin 192000,
      sh_frames = 256, sh_ceiling = Fin (-1), sh_protocol = ''artnet'', sh_target = [], sh_port = 6454, sh_universe = 1,
      sh_policy = default_handoff_policy, sh_live = default_live_input_redundancy, sh_sources = [],
      sh_tech_policy = default_technology_policy, sh_participants = 1, sh_extensions = [], sh_overlay = [],
      sh_report = [(''readable'', PBool True), (''mode'', PStr ''new''), (''readerApiVersion'', PInt 1)],
      sh_revision = 1,
      sh_resources = map (\<lambda>k. (k, 1)) ([''transport'', ''show'', ''system'', ''midi-bindings'', ''audio'', ''lighting-network'',
        ''handoff'', ''technology''] @ player_resources (dkeys default_players)),
      sh_next_event = 1, sh_events = [], sh_players = default_players, sh_bindings = [], sh_received = 0, sh_activity = [],
      sh_notation = map (\<lambda>i. (i, part_init i)) (dkeys default_players)\<rparr>"

end
