(* ===== verification/Show_Ops.thy ===== *)
theory Show_Ops
  imports Show_State
begin

text \<open>
  \<^verbatim>\<open>src/backend/state.py\<close>, the operations of \<open>ShowState\<close> other than the audio patch and recovery.
  An operation checks the expected revision, applies the fields of the patch one after the other,
  each of which may raise after earlier ones have been assigned, and ends with a touched resource, an
  event and a snapshot.
\<close>

section \<open>Patches\<close>

type_synonym patch_step = "string list \<Rightarrow> (show_state, string list) pymethod"

definition patch_field :: "pydict \<Rightarrow> string \<Rightarrow> (pyval \<Rightarrow> patch_step) \<Rightarrow> patch_step" where
  \<comment> \<open>\<open>if k in data: ...\<close>\<close>
  "patch_field data k body = (\<lambda>changes. if din k data then body (dgetn data k) changes else sreturn changes)"

definition changed :: "(show_state \<Rightarrow> show_state) \<Rightarrow> string \<Rightarrow> patch_step" where
  "changed u t = (\<lambda>changes. sthen (smodify u) (sreturn (changes @ [t])))"

definition changed_if :: "(show_state \<Rightarrow> bool) \<Rightarrow> (show_state \<Rightarrow> show_state) \<Rightarrow> string \<Rightarrow> patch_step" where
  "changed_if b u t = (\<lambda>changes. sbind (sgets b) (\<lambda>x. if x then changed u t changes else sreturn changes))"

definition run_patch ::
    "clock \<Rightarrow> string \<Rightarrow> string \<Rightarrow> string \<Rightarrow> int option \<Rightarrow> int option \<Rightarrow> bool \<Rightarrow> patch_step list \<Rightarrow> (show_state, pydict) pymethod" where
  "run_patch c k category prefix expected expected_resource technology_detail steps =
     returning c technology_detail
       (sthen (check_revision expected k expected_resource)
         (sbind (sfold (\<lambda>f changes. f changes) steps []) (commit c k category prefix)))"

section \<open>Transport\<close>

definition transport_event :: "clock \<Rightarrow> string \<Rightarrow> string \<Rightarrow> (show_state, unit) pymethod" where
  "transport_event c action text =
     sthen (touch ''transport'') (record_event c ''transport'' text [(''action'', PStr action)])"

definition transport_action :: "clock \<Rightarrow> string \<Rightarrow> (show_state, unit) pymethod" where
  "transport_action c action =
     (if action = ''play'' then
        sbind (sgets sh_running) (\<lambda>running. swhen (\<not> running)
          (sthen (smodify (\<lambda>s. s\<lparr>sh_running := True, sh_started := ck_now c\<rparr>)) (transport_event c action ''Play'')))
      else if action = ''pause'' then
        sbind (sgets sh_running) (\<lambda>running. swhen running
          (sthen (smodify (\<lambda>s. s\<lparr>sh_elapsed := clock_seconds (ck_now c) s, sh_running := False\<rparr>)) (transport_event c action ''Pause'')))
      else if action = ''stop'' then
        sthen (smodify (\<lambda>s. s\<lparr>sh_running := False, sh_elapsed := Fin 0, sh_started := ck_now c\<rparr>)) (transport_event c action ''Stop'')
      else if action = ''rewind'' then
        sthen (smodify (\<lambda>s. s\<lparr>sh_elapsed := Fin 0, sh_started := ck_now c\<rparr>)) (transport_event c action ''Rewind'')
      else sraise (ValueError ''action must be play, pause, stop, or rewind''))"

definition transport :: "clock \<Rightarrow> string \<Rightarrow> int option \<Rightarrow> int option \<Rightarrow> (show_state, pydict) pymethod" where
  "transport c action expected expected_resource =
     returning c False (sthen (check_revision expected ''transport'' expected_resource)
       (transport_action c (strip (py_lower action))))"

section \<open>Show and system\<close>

definition patch_show :: "clock \<Rightarrow> pydict \<Rightarrow> int option \<Rightarrow> int option \<Rightarrow> (show_state, pydict) pymethod" where
  "patch_show c data expected expected_resource =
     run_patch c ''show'' ''show'' ''Updated '' expected expected_resource False
       [patch_field data ''bpm'' (\<lambda>v changes.
          sbind (slift (py_float v)) (\<lambda>f. let bpm = clamp f (Fin 30) (Fin 300) in
            changed (\<lambda>s. s\<lparr>sh_bpm := bpm\<rparr>) (''BPM '' @ float_g bpm) changes)),
        patch_field data ''key'' (\<lambda>v changes.
          let key = strip (py_str v) in
          if key \<noteq> [] then changed (\<lambda>s. s\<lparr>sh_key := take 12 key\<rparr>) (''key '' @ take 12 key) changes else sreturn changes)]"

definition name_change :: "(string \<Rightarrow> show_state \<Rightarrow> show_state) \<Rightarrow> (show_state \<Rightarrow> string) \<Rightarrow> string \<Rightarrow> pyval \<Rightarrow> patch_step" where
  \<comment> \<open>\<open>self._x = str(v).strip()[:80] or self._x\<close>, which is reported in any case\<close>
  "name_change upd get label v = (\<lambda>changes.
     sbind (sgets (\<lambda>s. let n = clean_str 80 v in if n = [] then get s else n)) (\<lambda>n.
       changed (upd n) (label @ n) changes))"

definition mode_error :: pyerr where
  "mode_error = ValueError (''mode must be one of '' @ py_repr (strs (sort system_modes)))"

definition patch_system :: "clock \<Rightarrow> pydict \<Rightarrow> int option \<Rightarrow> int option \<Rightarrow> (show_state, pydict) pymethod" where
  "patch_system c data expected expected_resource =
     run_patch c ''system'' ''system'' ''Updated '' expected expected_resource False
       [patch_field data ''capacity'' (\<lambda>v changes.
          sbind (slift (py_float v)) (\<lambda>f. let capacity = clamp f (Fin 0) (Fin 100) in
            changed (\<lambda>s. s\<lparr>sh_capacity := capacity\<rparr>) (''capacity '' @ float_g capacity @ ''%'') changes)),
        patch_field data ''mode'' (\<lambda>v changes.
          let mode = strip (py_lower (py_str v)) in
          sthen (sguard (mode \<in> set system_modes) mode_error)
            (changed (\<lambda>s. s\<lparr>sh_mode := mode\<rparr>) (''mode '' @ mode) changes)),
        patch_field data ''venue'' (name_change (\<lambda>n s. s\<lparr>sh_venue := n\<rparr>) sh_venue ''venue ''),
        patch_field data ''productionManager'' (name_change (\<lambda>n s. s\<lparr>sh_manager := n\<rparr>) sh_manager ''manager '')]"

section \<open>Handoff\<close>

definition int_or_error :: "string \<Rightarrow> pyerr + int \<Rightarrow> pyerr + int" where
  \<comment> \<open>\<open>except (TypeError, ValueError) as exc: raise ValueError(message) from exc\<close>\<close>
  "int_or_error message r = ecatch is_type_or_value r (Inl (ValueError message))"

definition as_list :: "string \<Rightarrow> pyval \<Rightarrow> pyerr + pyval list" where
  "as_list message v = (case v of PList xs \<Rightarrow> Inr xs | _ \<Rightarrow> Inl (ValueError message))"

definition as_object :: "string \<Rightarrow> pyval \<Rightarrow> pyerr + pydict" where
  "as_object message v = (case v of PDict d \<Rightarrow> Inr d | _ \<Rightarrow> Inl (ValueError message))"

definition slot_in_range :: "string \<Rightarrow> int \<Rightarrow> pyerr + nat" where
  "slot_in_range message slot = (if 0 \<le> slot \<and> slot < 4 then Inr (nat slot) else Inl (ValueError message))"

definition slot_field :: "string \<Rightarrow> pydict \<Rightarrow> pyerr + nat" where
  "slot_field what raw =
     ebind (int_or_error (what @ '' slot must be an integer'') (get_int raw ''slot'' (PInt (-1)))) (\<lambda>i.
       slot_in_range (what @ '' slot must be 0..3'') i)"

definition merge_live_input :: "pyval \<Rightarrow> pydict list \<Rightarrow> pyerr + pydict list" where
  "merge_live_input v merged =
     ebind (as_object ''each handoff live input must be an object'' v) (\<lambda>raw.
     ebind (slot_field ''handoff live input'' raw) (\<lambda>slot.
     Inr (merged[slot := dset (dmerge (merged ! slot) raw) ''slot'' (PInt (int slot))])))"

definition patch_handoff :: "clock \<Rightarrow> pydict \<Rightarrow> int option \<Rightarrow> int option \<Rightarrow> (show_state, pydict) pymethod" where
  "patch_handoff c data expected expected_resource =
     run_patch c ''handoff'' ''handoff'' ''Updated '' expected expected_resource False
       [patch_field data ''policy'' (\<lambda>v changes.
          sbind (sgete (\<lambda>s. ebind (as_object ''handoff policy must be an object'' v) (\<lambda>d.
            normalize_policy (PDict (dmerge (policy_dict (sh_policy s)) d))))) (\<lambda>policy.
          changed_if (\<lambda>s. policy \<noteq> sh_policy s) (\<lambda>s. s\<lparr>sh_policy := policy\<rparr>) ''policy'' changes)),
        patch_field data ''liveInputs'' (\<lambda>v changes.
          sbind (sgete (\<lambda>s. ebind (as_list ''handoff liveInputs must be an array'' v) (\<lambda>items.
            ebind (efold merge_live_input items (map live_input_dict (sh_live s))) (\<lambda>merged.
            normalize_live_inputs (PList (map PDict merged)))))) (\<lambda>live.
          changed_if (\<lambda>s. live \<noteq> sh_live s) (\<lambda>s. s\<lparr>sh_live := live\<rparr>) ''live-input redundancy'' changes)),
        patch_field data ''deterministicSources'' (\<lambda>v changes.
          sbind (slift (as_list ''handoff deterministicSources must be an array'' v)) (\<lambda>_.
          let sources = normalize_deterministic_sources v in
          changed_if (\<lambda>s. sources \<noteq> sh_sources s) (\<lambda>s. s\<lparr>sh_sources := sources\<rparr>) ''deterministic sources'' changes))]"

section \<open>Technology\<close>

definition merge_extension :: "pyval \<Rightarrow> (string \<times> pydict) list \<Rightarrow> pyerr + (string \<times> pydict) list" where
  "merge_extension v by_id =
     ebind (as_object ''each technology extension must be an object'' v) (\<lambda>raw.
     let extension_id = field_str 160 raw ''id''; existing = dgetd by_id extension_id [];
         merged = dset (dmerge existing raw) ''id'' (PStr extension_id) in
     if extension_id = [] then Inl (ValueError ''technology extension id required'')
     else Inr (dset by_id extension_id
       (case (dgetn existing ''dependencies'', dgetn raw ''dependencies'') of
          (PDict a, PDict b) \<Rightarrow> dset merged ''dependencies'' (PDict (dmerge a b))
        | _ \<Rightarrow> merged)))"

definition removal_ids :: "pyval list \<Rightarrow> string list" where
  "removal_ids xs = map (clean_str 160) (filter (\<lambda>x. strip (py_str x) \<noteq> []) xs)"

definition protected_extension :: "extension \<Rightarrow> bool" where
  "protected_extension e = (ex_maturity e = ''standard'' \<or> ex_mandatory_core e)"

definition remove_extensions :: "string list \<Rightarrow> extension list \<Rightarrow> pyerr + extension list" where
  "remove_extensions ids exts =
     (let protected = map ex_id (filter (\<lambda>e. ex_id e \<in> set ids \<and> protected_extension e) exts) in
      if protected \<noteq> [] then
        Inl (ValueError (''standard/core technology cannot be deleted; deprecate or supersede it instead: '' @ join '', '' protected))
      else Inr (filter (\<lambda>e. ex_id e \<notin> set ids) exts))"

definition patch_technology :: "clock \<Rightarrow> pydict \<Rightarrow> int option \<Rightarrow> int option \<Rightarrow> (show_state, pydict) pymethod" where
  "patch_technology c data expected expected_resource =
     run_patch c ''technology'' ''technology'' ''Updated '' expected expected_resource True
       [patch_field data ''policy'' (\<lambda>v changes.
          sbind (sgete (\<lambda>s. ebind (as_object ''technology policy must be an object'' v) (\<lambda>d.
            normalize_technology_policy (PDict (dmerge (sh_tech_policy s) d))))) (\<lambda>policy.
          changed_if (\<lambda>s. \<not> veq (PDict policy) (PDict (sh_tech_policy s))) (\<lambda>s. s\<lparr>sh_tech_policy := policy\<rparr>) ''openness policy'' changes)),
        patch_field data ''ecosystemParticipants'' (\<lambda>v changes.
          sbind (slift (int_or_error ''technology ecosystemParticipants must be an integer''
                  (ebind (py_int v) (\<lambda>i. Inr (iclamp 1 1000000 i))))) (\<lambda>n.
          changed_if (\<lambda>s. n \<noteq> sh_participants s) (\<lambda>s. s\<lparr>sh_participants := n\<rparr>) (''ecosystem participants '' @ show_int n) changes)),
        patch_field data ''extensions'' (\<lambda>v changes.
          sbind (sgete (\<lambda>s. ebind (as_list ''technology extensions must be an array'' v) (\<lambda>items.
            ebind (efold merge_extension items (map (\<lambda>e. (ex_id e, extension_dict e)) (sh_extensions s))) (\<lambda>by_id.
            normalize_technology_extensions (PList (map (PDict \<circ> snd) by_id)))))) (\<lambda>exts.
          changed_if (\<lambda>s. \<not> veq (extensions_value exts) (extensions_value (sh_extensions s)))
            (\<lambda>s. s\<lparr>sh_extensions := exts\<rparr>) ''technology registry'' changes)),
        patch_field data ''removeExtensionIds'' (\<lambda>v changes.
          sbind (sgete (\<lambda>s. ebind (as_list ''removeExtensionIds must be an array'' v) (\<lambda>ids.
            remove_extensions (removal_ids ids) (sh_extensions s)))) (\<lambda>kept.
          changed_if (\<lambda>s. length kept \<noteq> length (sh_extensions s)) (\<lambda>s. s\<lparr>sh_extensions := kept\<rparr>)
            ''technology registry removals'' changes))]"

section \<open>Lighting\<close>

text \<open>\<open>IPv4Address(text)\<close>: four decimal octets without leading zeros.\<close>

fun split_on :: "char \<Rightarrow> string \<Rightarrow> string list" where
  "split_on c [] = [[]]"
| "split_on c (x # xs) =
     (if x = c then [] # split_on c xs
      else (case split_on c xs of [] \<Rightarrow> [[x]] | w # ws \<Rightarrow> (x # w) # ws))"

definition ipv4_octet :: "string \<Rightarrow> int option" where
  "ipv4_octet w =
     (if w = [] \<or> 3 < length w \<or> \<not> list_all is_digit_char w \<or> (hd w = CHR ''0'' \<and> 1 < length w) then None
      else if digits_value w \<le> 255 then Some (digits_value w) else None)"

definition ipv4 :: "string \<Rightarrow> int list option" where
  "ipv4 t =
     (let ws = map ipv4_octet (split_on (CHR ''.'') t) in
      if length ws = 4 \<and> None \<notin> set ws then Some (map the ws) else None)"

definition ipv4_unicast :: "int list \<Rightarrow> bool" where
  \<comment> \<open>neither multicast, unspecified nor the limited broadcast address\<close>
  "ipv4_unicast a = (\<not> (224 \<le> hd a \<and> hd a \<le> 239) \<and> a \<noteq> [0, 0, 0, 0] \<and> a \<noteq> [255, 255, 255, 255])"

definition default_port :: "string \<Rightarrow> int" where
  "default_port protocol = (if protocol = ''sacn'' then 5568 else 6454)"

definition patch_protocol :: "pydict \<Rightarrow> pyval \<Rightarrow> patch_step" where
  "patch_protocol data v = (\<lambda>changes.
     let protocol = py_lower (strip (py_str v)) in
     sthen (sguard (protocol \<in> {''artnet'', ''sacn''}) (ValueError ''lighting protocol must be artnet or sacn''))
     (sbind (sgets (\<lambda>s. (sh_protocol s, sh_port s))) (\<lambda>(old, port).
      if protocol = old then sreturn changes
      else
        sbind (changed (\<lambda>s. s\<lparr>sh_protocol := protocol\<rparr>) ''protocol'' changes) (\<lambda>changes'.
        if \<not> din ''port'' data \<and> port = default_port old
        then changed (\<lambda>s. s\<lparr>sh_port := default_port protocol\<rparr>) ''port'' changes'
        else sreturn changes'))))"

definition target_check :: "string \<Rightarrow> pyerr + unit" where
  "target_check target =
     (if target = [] then Inr ()
      else (case ipv4 target of
              None \<Rightarrow> Inl (ValueError ''lighting target must be an IPv4 address'')
            | Some a \<Rightarrow> if ipv4_unicast a then Inr () else Inl (ValueError ''lighting target must be unicast IPv4'')))"

definition ranged_int :: "string \<Rightarrow> int \<Rightarrow> pyval \<Rightarrow> pyerr + int" where
  "ranged_int what high v =
     ebind (int_or_error (what @ '' must be an integer'') (py_int v)) (\<lambda>i.
     if 1 \<le> i \<and> i \<le> high then Inr i else Inl (ValueError (what @ '' must be 1..'' @ show_int high)))"

definition patch_lighting_network :: "clock \<Rightarrow> pydict \<Rightarrow> int option \<Rightarrow> int option \<Rightarrow> (show_state, pydict) pymethod" where
  "patch_lighting_network c data expected expected_resource =
     run_patch c ''lighting-network'' ''lighting'' ''Lighting network desired state updated: '' expected expected_resource False
       [patch_field data ''protocol'' (patch_protocol data),
        patch_field data ''target'' (\<lambda>v changes.
          let target = clean_str 64 v in
          sbind (slift (target_check target)) (\<lambda>_.
          changed_if (\<lambda>s. target \<noteq> sh_target s) (\<lambda>s. s\<lparr>sh_target := target\<rparr>) ''target'' changes)),
        patch_field data ''port'' (\<lambda>v changes.
          sbind (slift (ranged_int ''lighting port'' 65535 v)) (\<lambda>port.
          changed_if (\<lambda>s. port \<noteq> sh_port s) (\<lambda>s. s\<lparr>sh_port := port\<rparr>) ''port'' changes)),
        patch_field data ''universeBase'' (\<lambda>v changes.
          sbind (slift (ranged_int ''lighting universeBase'' 63984 v)) (\<lambda>base.
          changed_if (\<lambda>s. base \<noteq> sh_universe s) (\<lambda>s. s\<lparr>sh_universe := base\<rparr>) ''universeBase'' changes))]"

section \<open>Monitors and MIDI bindings\<close>

definition find_player :: "string \<Rightarrow> (show_state, player) pymethod" where
  "find_player pid = sgete (\<lambda>s. dindex (sh_players s) pid)"

definition patch_monitor :: "clock \<Rightarrow> string \<Rightarrow> pydict \<Rightarrow> int option \<Rightarrow> int option \<Rightarrow> (show_state, pydict) pymethod" where
  "patch_monitor c pid data expected expected_resource =
     returning c False
      (sthen (check_revision expected (''monitor:'' @ pid) expected_resource)
       (sbind (find_player pid) (\<lambda>p.
          let (r, m) = monitor_patch (PDict data) (pl_monitor p) in
          sthen (smodify (\<lambda>s. s\<lparr>sh_players := dset (sh_players s) pid (p\<lparr>pl_monitor := m\<rparr>)\<rparr>))
         (sthen (slift r)
         (sthen (touch (''monitor:'' @ pid))
           (record_event c ''monitor'' (pl_name p @ '' personal monitor updated; FOH unchanged'')
             [(''playerId'', PStr pid),
              (''fields'', strs (sorted_set (filter (\<lambda>k. k \<in> set (monitor_keys @ [''muted'', ''output''])) (dkeys data))))]))))))"

definition bind_midi_device :: "clock \<Rightarrow> pyval \<Rightarrow> string \<Rightarrow> int option \<Rightarrow> int option \<Rightarrow> (show_state, pydict) pymethod" where
  "bind_midi_device c device pid expected expected_resource =
     returning c False
      (sthen (check_revision expected ''midi-bindings'' expected_resource)
       (let device_id = clean_str 96 device in
        sthen (sguard (device_id \<noteq> [] \<and> \<not> has_space device_id) (ValueError ''MIDI device id must be a non-empty token''))
       (sbind (find_player pid) (\<lambda>p.
        sbind (sgets (\<lambda>s. dget (sh_bindings s) device_id = Some pid)) (\<lambda>bound.
        swhen (\<not> bound)
          (sthen (smodify (\<lambda>s. s\<lparr>sh_bindings := dset (sh_bindings s) device_id pid\<rparr>))
          (sthen (touch ''midi-bindings'')
            (record_event c ''midi'' (''MIDI device '' @ device_id @ '' bound to '' @ pl_name p)
              [(''deviceId'', PStr device_id), (''playerId'', PStr pid)]))))))))"

definition unbind_midi_device :: "clock \<Rightarrow> pyval \<Rightarrow> int option \<Rightarrow> int option \<Rightarrow> (show_state, pydict) pymethod" where
  "unbind_midi_device c device expected expected_resource =
     returning c False
      (sthen (check_revision expected ''midi-bindings'' expected_resource)
       (let device_id = clean_str 96 device in
        sbind (sgets (\<lambda>s. dget (sh_bindings s) device_id)) (\<lambda>previous.
        case previous of
          None \<Rightarrow> sreturn ()
        | Some pid \<Rightarrow>
            sthen (smodify (\<lambda>s. s\<lparr>sh_bindings := ddel (sh_bindings s) device_id\<rparr>))
           (sthen (touch ''midi-bindings'')
             (record_event c ''midi'' (''MIDI device '' @ device_id @ '' unbound'')
               [(''deviceId'', PStr device_id), (''playerId'', PStr pid)])))))"

section \<open>Notation and MIDI input\<close>

definition on_notation :: "(notation_registry, 'a) pymethod \<Rightarrow> (show_state, 'a) pymethod" where
  "on_notation m s = (let (r, n) = m (sh_notation s) in (r, s\<lparr>sh_notation := n\<rparr>))"

text \<open>\<open>self._notation.part_snapshot(player_id, self._key)["settings"]\<close>\<close>

definition part_settings :: "string \<Rightarrow> (show_state, notation_settings) pymethod" where
  "part_settings pid =
     sbind (sgets sh_key) (\<lambda>key.
     sbind (on_notation (registry_part_snapshot pid key True None)) (\<lambda>_.
     sgets (\<lambda>s. np_settings (part_of pid (sh_notation s)))))"

definition notation_snapshot :: "string \<Rightarrow> (show_state, pydict) pymethod" where
  "notation_snapshot pid =
     sbind (find_player pid) (\<lambda>_. sbind (sgets sh_key) (\<lambda>key. on_notation (registry_part_snapshot pid key True None)))"

definition patch_notation_settings :: "clock \<Rightarrow> string \<Rightarrow> pydict \<Rightarrow> int option \<Rightarrow> int option \<Rightarrow> (show_state, pydict) pymethod" where
  "patch_notation_settings c pid data expected expected_resource =
     returning c False
      (sthen (check_revision expected (''notation:'' @ pid) expected_resource)
       (sbind (find_player pid) (\<lambda>p.
        sthen (on_notation (registry_patch pid (PDict data)))
       (sthen (touch (''notation:'' @ pid))
       (sbind (part_settings pid) (\<lambda>settings.
        record_event c ''notation'' (pl_name p @ '' notation settings updated; performance capture preserved'')
          [(''playerId'', PStr pid), (''settings'', PDict (settings_dict settings))]))))))"

definition event_seconds :: "clock \<Rightarrow> pydict \<Rightarrow> (show_state, pyfloat) pymethod" where
  "event_seconds c data =
     (case dgetn data ''showTimeSeconds'' of
        PNone \<Rightarrow> sgets (clock_seconds (ck_now c))
      | v \<Rightarrow> slift (ebind (py_float v) (\<lambda>f. Inr (fmax (Fin 0) f))))"

definition capture_note :: "string \<Rightarrow> string \<Rightarrow> int \<Rightarrow> int \<Rightarrow> pyfloat \<Rightarrow> (show_state, unit) pymethod" where
  "capture_note pid action pitch velocity seconds =
     sbind (sgets sh_bpm) (\<lambda>bpm. on_notation (registry_note pid action pitch velocity seconds bpm))"

definition notation_note :: "clock \<Rightarrow> string \<Rightarrow> pydict \<Rightarrow> int option \<Rightarrow> int option \<Rightarrow> (show_state, pydict) pymethod" where
  "notation_note c pid data expected expected_resource =
     returning c False
      (sthen (check_revision expected (''notation:'' @ pid) expected_resource)
       (sbind (find_player pid) (\<lambda>p.
        sbind (part_settings pid) (\<lambda>settings.
        swhen (ns_enabled settings)
          (let action = py_lower (strip (py_str (dgetd data ''action'' (PStr [])))) in
           sthen (sguard (din ''pitch'' data) (ValueError ''pitch is required''))
          (sbind (slift (py_int (dgetn data ''pitch''))) (\<lambda>pitch.
           sbind (slift (get_int data ''velocity'' (PInt 100))) (\<lambda>velocity.
           sbind (event_seconds c data) (\<lambda>seconds.
           sthen (capture_note pid action pitch velocity seconds)
          (sthen (touch (''notation:'' @ pid))
            (record_event c ''notation'' (pl_name p @ '' note '' @ action @ '' captured for auto notation'')
              [(''playerId'', PStr pid), (''action'', PStr action), (''pitch'', PInt pitch), (''velocity'', PInt velocity)])))))))))))"

definition clear_notation :: "clock \<Rightarrow> string \<Rightarrow> int option \<Rightarrow> int option \<Rightarrow> (show_state, pydict) pymethod" where
  "clear_notation c pid expected expected_resource =
     returning c False
      (sthen (check_revision expected (''notation:'' @ pid) expected_resource)
       (sbind (find_player pid) (\<lambda>p.
        sthen (on_notation (registry_clear_part pid))
       (sthen (touch (''notation:'' @ pid))
         (record_event c ''notation'' (pl_name p @ '' notation capture cleared'') [(''playerId'', PStr pid)])))))"

record midi_message =
  md_status :: int
  md_data1 :: int
  md_data2 :: int

definition midi_bytes :: "pydict \<Rightarrow> pyerr + midi_message" where
  "midi_bytes data =
     ebind (ecatch is_key_type_or_value
       (ebind (ebind (dindex data ''status'') py_int) (\<lambda>status.
        ebind (ebind (dindex data ''data1'') py_int) (\<lambda>d1.
        ebind (get_int data ''data2'' (PInt 0)) (\<lambda>d2.
        Inr \<lparr>md_status = status, md_data1 = d1, md_data2 = d2\<rparr>))))
       (Inl (ValueError ''MIDI input requires integer status, data1 and optional data2''))) (\<lambda>m.
     if 0 \<le> md_status m \<and> md_status m \<le> 255 \<and> pitch_ok (md_data1 m) \<and> pitch_ok (md_data2 m) then Inr m
     else Inl (ValueError ''MIDI bytes out of range''))"

definition midi_action :: "midi_message \<Rightarrow> string option" where
  "midi_action m =
     (let message = md_status m div 16 * 16 in
      if message = 144 \<and> 0 < md_data2 m then Some ''on''
      else if message = 128 \<or> (message = 144 \<and> md_data2 m = 0) then Some ''off'' else None)"

definition midi_activity :: "string \<Rightarrow> string \<Rightarrow> pyfloat \<Rightarrow> midi_message \<Rightarrow> bool \<Rightarrow> pydict" where
  "midi_activity pid device_id seconds m observed =
     [(''playerId'', PStr pid), (''deviceId'', PStr device_id), (''showTimeSeconds'', PFloat (fround 6 seconds)),
      (''status'', PInt (md_status m)),
      (''channel'', if md_status m < 240 then PInt (md_status m mod 16 + 1) else PNone),
      (''data1'', PInt (md_data1 m)), (''data2'', PInt (md_data2 m)), (''notationObserved'', PBool observed)]"

text \<open>The notation observer: it runs before the message is journalled, and what it raises ends the call.\<close>

definition observe_note :: "string \<Rightarrow> midi_message \<Rightarrow> pyfloat \<Rightarrow> (show_state, bool) pymethod" where
  "observe_note pid m seconds =
     (case midi_action m of
        None \<Rightarrow> sreturn False
      | Some action \<Rightarrow>
          sbind (part_settings pid) (\<lambda>settings.
          if ns_enabled settings then
            sthen (capture_note pid action (md_data1 m) (if action = ''on'' then max 1 (md_data2 m) else 0) seconds) (sreturn True)
          else sreturn False))"

definition ingest_midi :: "clock \<Rightarrow> string \<Rightarrow> pydict \<Rightarrow> int option \<Rightarrow> int option \<Rightarrow> (show_state, pydict) pymethod" where
  "ingest_midi c pid data expected expected_resource =
     returning c False
      (sthen (check_revision expected (''midi:'' @ pid) expected_resource)
       (sbind (find_player pid) (\<lambda>p.
        sbind (slift (midi_bytes data)) (\<lambda>m.
        sbind (event_seconds c data) (\<lambda>seconds.
        sbind (observe_note pid m seconds) (\<lambda>observed.
        let cleaned = clean_str 96 (dgetd data ''deviceId'' (PStr ''direct''));
            device_id = (if cleaned = [] then ''direct'' else cleaned);
            activity = midi_activity pid device_id seconds m observed in
        sthen (smodify (\<lambda>s. s\<lparr>sh_received := sh_received s + 1, sh_activity := keep_last 512 (sh_activity s @ [activity])\<rparr>))
       (sthen (touch_resources ([''midi:'' @ pid] @ (if observed then [''notation:'' @ pid] else [])))
         (record_event c ''midi''
           (pl_name p @ '' MIDI input received'' @
            (case midi_action m of Some action \<Rightarrow> if observed then ''; auto notation observed note '' @ action else [] | None \<Rightarrow> []))
           activity))))))))"

definition notation_musicxml :: "string \<Rightarrow> (show_state, string) pymethod" where
  "notation_musicxml pid =
     sbind (find_player pid) (\<lambda>p.
     sbind (sgets (\<lambda>s. (sh_bpm s, sh_key s))) (\<lambda>(bpm, key).
     on_notation (registry_musicxml pid (pl_name p @ '' - '' @ pl_role p) bpm key)))"

end
