(* ===== verification/Show_Audio.thy ===== *)
theory Show_Audio
  imports Show_Ops
begin

text \<open>
  \<^verbatim>\<open>src/backend/state.py\<close>, \<open>ShowState.patch_audio\<close>: the four output and input slots and the legacy
  top-level fields that mirror slot 0.  The slots are updated one by one, so a slot that raises leaves
  the ones before it changed.
\<close>

section \<open>Slots\<close>

definition allowed_purposes :: "string list" where
  "allowed_purposes = [''foh'', ''monitor'', ''broadcast'', ''record'', ''aux'']"

definition purpose_error :: pyerr where
  "purpose_error = ValueError (''audio output purpose must be one of '' @ py_repr (strs (sort allowed_purposes)))"

definition token_or_empty :: "string \<Rightarrow> string \<Rightarrow> pyerr + unit" where
  "token_or_empty what device_id =
     (if device_id \<noteq> [] \<and> has_space device_id
      then Inl (ValueError (what @ '' device id must be an empty value or non-empty token'')) else Inr ())"

definition known_player :: "string \<Rightarrow> (string \<times> player) list \<Rightarrow> string \<Rightarrow> pyerr + unit" where
  "known_player what players pid =
     (if pid \<noteq> [] \<and> \<not> din pid players
      then Inl (ValueError (what @ '' must reference an existing player or be empty'')) else Inr ())"

definition clamped :: "pydict \<Rightarrow> string \<Rightarrow> pyfloat \<Rightarrow> rat \<Rightarrow> rat \<Rightarrow> pyerr + pyfloat" where
  "clamped d k current low high = ebind (get_float d k (PFloat current)) (\<lambda>f. Inr (clamp f (Fin low) (Fin high)))"

definition clamped_int :: "pydict \<Rightarrow> string \<Rightarrow> int \<Rightarrow> int \<Rightarrow> int \<Rightarrow> pyerr + int" where
  "clamped_int d k current low high = ebind (get_int d k (PInt current)) (\<lambda>i. Inr (iclamp low high i))"

definition updated_output :: "(string \<times> player) list \<Rightarrow> nat \<Rightarrow> pydict \<Rightarrow> audio_output \<Rightarrow> pyerr + audio_output" where
  "updated_output players slot raw current =
     (let device_id = clean_str 96 (dgetd raw ''deviceId'' (PStr (ao_device current)));
          purpose = py_lower (strip (py_str (dgetd raw ''purpose'' (PStr (ao_purpose current)))));
          player_id = clean_str 64 (dgetd raw ''playerId'' (PStr (ao_player current))) in
      ebind (token_or_empty ''audio output'' device_id) (\<lambda>_.
      ebind (eguard (purpose \<in> set allowed_purposes) purpose_error) (\<lambda>_.
      ebind (known_player ''audio output playerId'' players player_id) (\<lambda>_.
      ebind (clamped_int raw ''graphOutput'' (ao_graph current) 0 15) (\<lambda>graph.
      ebind (clamped raw ''master'' (ao_master current) 0 4) (\<lambda>master.
      ebind (clamped raw ''limiterCeilingDb'' (ao_ceiling current) (-24) 0) (\<lambda>ceiling.
      ebind (as_object ''audio driftCompensation must be an object'' (dgetd raw ''driftCompensation'' (PDict (drift_dict current)))) (\<lambda>drift.
      ebind (clamped drift ''maxCorrectionPpm'' (ao_max_ppm current) 0 10000) (\<lambda>max_ppm.
      ebind (clamped drift ''queueGainPpm'' (ao_gain_ppm current) 0 10000) (\<lambda>gain_ppm.
      Inr \<lparr>ao_slot = slot, ao_device = device_id, ao_purpose = purpose, ao_player = player_id, ao_graph = graph,
           ao_master = master, ao_ceiling = ceiling, ao_drift = get_bool drift ''enabled'' (ao_drift current),
           ao_max_ppm = max_ppm, ao_gain_ppm = gain_ppm\<rparr>))))))))))"

definition updated_input :: "(string \<times> player) list \<Rightarrow> nat \<Rightarrow> pydict \<Rightarrow> audio_input \<Rightarrow> pyerr + audio_input" where
  "updated_input players slot raw current =
     (let device_id = clean_str 96 (dgetd raw ''deviceId'' (PStr (ai_device current)));
          player_id = clean_str 64 (dgetd raw ''playerId'' (PStr (ai_player current))) in
      ebind (token_or_empty ''audio input'' device_id) (\<lambda>_.
      ebind (known_player ''audio input playerId'' players player_id) (\<lambda>_.
      ebind (as_object ''audio input route must be an object'' (dgetd raw ''route'' (PDict (route_dict (ai_output current) (ai_gain current))))) (\<lambda>route.
      ebind (clamped_int route ''output'' (ai_output current) 0 15) (\<lambda>out.
      ebind (clamped route ''gain'' (ai_gain current) 0 4) (\<lambda>gain.
      ebind (clamped raw ''sampleRate'' (ai_rate current) 8000 768000) (\<lambda>rate.
      Inr \<lparr>ai_slot = slot, ai_device = device_id, ai_player = player_id, ai_rate = rate, ai_output = out, ai_gain = gain\<rparr>)))))))"

definition patch_output_slot :: "pyval \<Rightarrow> patch_step" where
  "patch_output_slot v = (\<lambda>changes.
     sbind (sgete (\<lambda>s.
       ebind (as_object ''each audio output must be an object'' v) (\<lambda>raw.
       ebind (slot_field ''audio output'' raw) (\<lambda>slot.
       ebind (updated_output (sh_players s) slot raw (sh_outputs s ! slot)) (\<lambda>x. Inr (slot, x)))))) (\<lambda>(slot, x).
     changed_if (\<lambda>s. x \<noteq> sh_outputs s ! slot) (\<lambda>s. s\<lparr>sh_outputs := (sh_outputs s)[slot := x]\<rparr>)
       (''output slot '' @ show_int (int slot)) changes))"

definition patch_input_slot :: "pyval \<Rightarrow> patch_step" where
  "patch_input_slot v = (\<lambda>changes.
     sbind (sgete (\<lambda>s.
       ebind (as_object ''each audio input must be an object'' v) (\<lambda>raw.
       ebind (slot_field ''audio input'' raw) (\<lambda>slot.
       ebind (updated_input (sh_players s) slot raw (sh_inputs s ! slot)) (\<lambda>x. Inr (slot, x)))))) (\<lambda>(slot, x).
     changed_if (\<lambda>s. x \<noteq> sh_inputs s ! slot) (\<lambda>s. s\<lparr>sh_inputs := (sh_inputs s)[slot := x]\<rparr>)
       (''input slot '' @ show_int (int slot)) changes))"

text \<open>The top-level fields take the values of slot 0.\<close>

definition mirror_outputs :: "show_state \<Rightarrow> show_state" where
  "mirror_outputs s =
     (let x = sh_outputs s ! 0 in
      s\<lparr>sh_device := (if ao_device x = [] then ''null-audio'' else ao_device x), sh_ceiling := ao_ceiling x\<rparr>)"

definition mirror_inputs :: "show_state \<Rightarrow> show_state" where
  "mirror_inputs s =
     (let x = sh_inputs s ! 0 in
      s\<lparr>sh_in_device := ai_device x, sh_in_player := ai_player x, sh_in_output := ai_output x, sh_in_gain := ai_gain x\<rparr>)"

definition patch_slots :: "string \<Rightarrow> (pyval \<Rightarrow> patch_step) \<Rightarrow> (show_state \<Rightarrow> show_state) \<Rightarrow> pyval \<Rightarrow> patch_step" where
  "patch_slots message step mirror v = (\<lambda>changes.
     sbind (slift (as_list message v)) (\<lambda>items.
     sbind (sfold step items changes) (\<lambda>changes'.
     sthen (smodify mirror) (sreturn changes'))))"

definition set_input :: "(audio_input \<Rightarrow> audio_input) \<Rightarrow> show_state \<Rightarrow> show_state" where
  "set_input f s = s\<lparr>sh_inputs := (sh_inputs s)[0 := f (sh_inputs s ! 0)]\<rparr>"

definition set_output :: "(audio_output \<Rightarrow> audio_output) \<Rightarrow> show_state \<Rightarrow> show_state" where
  "set_output f s = s\<lparr>sh_outputs := (sh_outputs s)[0 := f (sh_outputs s ! 0)]\<rparr>"

section \<open>The patch\<close>

definition audio_device_step :: "pyval \<Rightarrow> patch_step" where
  "audio_device_step v = (\<lambda>changes.
     let device_id = clean_str 96 v in
     sthen (sguard (device_id \<noteq> [] \<and> \<not> has_space device_id) (ValueError ''audio device id must be a non-empty token''))
       (changed_if (\<lambda>s. device_id \<noteq> sh_device s)
          (\<lambda>s. set_output (\<lambda>x. x\<lparr>ao_device := device_id\<rparr>) (s\<lparr>sh_device := device_id\<rparr>)) (''device '' @ device_id) changes))"

definition input_device_step :: "pyval \<Rightarrow> patch_step" where
  "input_device_step v = (\<lambda>changes.
     let device_id = clean_str 96 v in
     sbind (slift (token_or_empty ''audio input'' device_id)) (\<lambda>_.
       changed_if (\<lambda>s. device_id \<noteq> sh_in_device s)
         (\<lambda>s. set_input (\<lambda>x. x\<lparr>ai_device := device_id\<rparr>) (s\<lparr>sh_in_device := device_id\<rparr>))
         (''input device '' @ (if device_id = [] then ''none'' else device_id)) changes))"

definition input_player_step :: "pyval \<Rightarrow> patch_step" where
  "input_player_step v = (\<lambda>changes.
     let player_id = clean_str 64 v in
     sbind (sgete (\<lambda>s. known_player ''audio inputPlayerId'' (sh_players s) player_id)) (\<lambda>_.
       changed_if (\<lambda>s. player_id \<noteq> sh_in_player s)
         (\<lambda>s. set_input (\<lambda>x. x\<lparr>ai_player := player_id\<rparr>) (s\<lparr>sh_in_player := player_id\<rparr>))
         (''input player '' @ (if player_id = [] then ''unassigned'' else player_id)) changes))"

definition input_route_step :: "pyval \<Rightarrow> patch_step" where
  "input_route_step v = (\<lambda>changes.
     sbind (sgete (\<lambda>s.
       ebind (as_object ''audio inputRoute must be an object'' v) (\<lambda>route.
       ebind (clamped_int route ''output'' (sh_in_output s) 0 15) (\<lambda>out.
       ebind (clamped route ''gain'' (sh_in_gain s) 0 4) (\<lambda>gain. Inr (out, gain)))))) (\<lambda>(out, gain).
     changed_if (\<lambda>s. out \<noteq> sh_in_output s \<or> gain \<noteq> sh_in_gain s)
       (\<lambda>s. set_input (\<lambda>x. x\<lparr>ai_output := out, ai_gain := gain\<rparr>) (s\<lparr>sh_in_output := out, sh_in_gain := gain\<rparr>))
       (''input route source 24 -> output '' @ show_int out @ '' gain '' @ float_g gain) changes))"

definition sample_rate_step :: "bool \<Rightarrow> pyval \<Rightarrow> patch_step" where
  "sample_rate_step inputs_given v = (\<lambda>changes.
     sbind (slift (ebind (py_float v) (\<lambda>f. Inr (clamp f (Fin 8000) (Fin 768000))))) (\<lambda>rate.
     changed_if (\<lambda>s. rate \<noteq> sh_rate s)
       (\<lambda>s. s\<lparr>sh_inputs := (if inputs_given then sh_inputs s
                            else map (\<lambda>x. if ai_rate x = sh_rate s then x\<lparr>ai_rate := rate\<rparr> else x) (sh_inputs s)),
              sh_rate := rate\<rparr>)
       (''sample rate '' @ float_g rate) changes))"

definition buffer_step :: "pyval \<Rightarrow> patch_step" where
  "buffer_step v = (\<lambda>changes.
     sbind (slift (ebind (py_int v) (\<lambda>i. Inr (iclamp 16 8192 i)))) (\<lambda>frames.
     changed_if (\<lambda>s. frames \<noteq> sh_frames s) (\<lambda>s. s\<lparr>sh_frames := frames\<rparr>) (''buffer '' @ show_int frames) changes))"

definition ceiling_step :: "pyval \<Rightarrow> patch_step" where
  "ceiling_step v = (\<lambda>changes.
     sbind (slift (ebind (py_float v) (\<lambda>f. Inr (clamp f (Fin (-24)) (Fin 0))))) (\<lambda>ceiling.
     changed_if (\<lambda>s. ceiling \<noteq> sh_ceiling s)
       (\<lambda>s. set_output (\<lambda>x. x\<lparr>ao_ceiling := ceiling\<rparr>) (s\<lparr>sh_ceiling := ceiling\<rparr>))
       (''limiter '' @ float_g ceiling @ '' dBFS'') changes))"

definition patch_audio :: "clock \<Rightarrow> pydict \<Rightarrow> int option \<Rightarrow> int option \<Rightarrow> (show_state, pydict) pymethod" where
  "patch_audio c data expected expected_resource =
     run_patch c ''audio'' ''audio'' ''Audio desired state updated: '' expected expected_resource False
       [patch_field data ''outputs'' (patch_slots ''audio outputs must be an array'' patch_output_slot mirror_outputs),
        patch_field data ''inputs'' (patch_slots ''audio inputs must be an array'' patch_input_slot mirror_inputs),
        patch_field data ''deviceId'' audio_device_step,
        patch_field data ''inputDeviceId'' input_device_step,
        patch_field data ''inputPlayerId'' input_player_step,
        patch_field data ''inputRoute'' input_route_step,
        patch_field data ''sampleRate'' (sample_rate_step (din ''inputs'' data)),
        patch_field data ''bufferFrames'' buffer_step,
        patch_field data ''limiterCeilingDb'' ceiling_step]"

end
