(* ===== verification/Show_Recovery.thy ===== *)
theory Show_Recovery
  imports Show_Audio
begin

text \<open>
  \<^verbatim>\<open>src/backend/state.py\<close>, recovery of a \<open>ShowState\<close> from a persisted or replicated document:
  \<open>_restore\<close>, the constructor and \<open>apply_replica_snapshot\<close>.  \<open>_restore\<close> assigns section after
  section, so a section that raises leaves the earlier ones assigned; it is the sequence of its
  sections here.
\<close>

section \<open>Transport, system, handoff and technology\<close>

definition or_text :: "nat \<Rightarrow> pyval \<Rightarrow> string \<Rightarrow> string" where
  \<comment> \<open>\<open>str(v).strip()[:n] or dflt\<close>\<close>
  "or_text n v dflt = (let t = clean_str n v in if t = [] then dflt else t)"

definition set_clamped :: "pydict \<Rightarrow> string \<Rightarrow> rat \<Rightarrow> rat \<Rightarrow> rat \<Rightarrow> (pyfloat \<Rightarrow> show_state \<Rightarrow> show_state) \<Rightarrow> (show_state, unit) pymethod" where
  "set_clamped d k dflt low high upd = sbind (slift (clamped d k (Fin dflt) low high)) (\<lambda>f. smodify (upd f))"

definition restore_transport :: "rat \<Rightarrow> bool \<Rightarrow> pydict \<Rightarrow> (show_state, unit) pymethod" where
  "restore_transport now hold snap =
     sbind (slift (sub_dict snap ''transport'')) (\<lambda>t.
     sthen (set_clamped t ''seconds'' 0 0 604800 (\<lambda>f s. s\<lparr>sh_elapsed := f\<rparr>))
    (sthen (smodify (\<lambda>s. s\<lparr>sh_running := (if hold then False else truthy (dgetd t ''running'' (PBool False))), sh_started := now\<rparr>))
    (sthen (set_clamped t ''bpm'' 120 30 300 (\<lambda>f s. s\<lparr>sh_bpm := f\<rparr>))
     (smodify (\<lambda>s. s\<lparr>sh_key := or_text 12 (dgetd t ''key'' (PStr ''C'')) ''C''\<rparr>)))))"

definition restore_system :: "pydict \<Rightarrow> (show_state, unit) pymethod" where
  "restore_system snap =
     sbind (slift (sub_dict snap ''system'')) (\<lambda>t.
     sthen (set_clamped t ''capacity'' 78 0 100 (\<lambda>f s. s\<lparr>sh_capacity := f\<rparr>))
     (let mode = py_lower (strip (py_str (dgetd t ''mode'' (PStr ''full'')))) in
      smodify (\<lambda>s. s\<lparr>sh_mode := (if mode \<in> set system_modes then mode else ''safe''),
                     sh_venue := or_text 80 (dgetd t ''venue'' (PStr ''Small Club'')) ''Small Club'',
                     sh_manager := or_text 80 (dgetd t ''productionManager'' (PStr ''Touring Default'')) ''Touring Default''\<rparr>)))"

definition restore_handoff :: "pydict \<Rightarrow> (show_state, unit) pymethod" where
  "restore_handoff snap =
     (let h = dict_of (por (dgetn snap ''handoff'') (PDict [])) in
      sbind (slift (normalize_policy (dgetn h ''policy''))) (\<lambda>p.
      sthen (smodify (\<lambda>s. s\<lparr>sh_policy := p\<rparr>))
     (sbind (slift (normalize_live_inputs (dgetn h ''liveInputs''))) (\<lambda>live.
      smodify (\<lambda>s. s\<lparr>sh_live := live, sh_sources := normalize_deterministic_sources (dgetn h ''deterministicSources'')\<rparr>)))))"

definition restore_technology :: "pydict \<Rightarrow> (show_state, unit) pymethod" where
  "restore_technology snap =
     (let t = dict_of (dgetn snap ''technology'') in
      sthen (swhen (din ''policy'' t)
        (sbind (slift (normalize_technology_policy (dgetn t ''policy''))) (\<lambda>p. smodify (\<lambda>s. s\<lparr>sh_tech_policy := p\<rparr>))))
     (sthen (swhen (din ''ecosystemParticipants'' t)
        (sbind (sgete (\<lambda>s. ecatch is_type_or_value
            (ebind (py_int (dgetn t ''ecosystemParticipants'')) (\<lambda>i. Inr (iclamp 1 1000000 i))) (Inr (sh_participants s)))) (\<lambda>n.
         smodify (\<lambda>s. s\<lparr>sh_participants := n\<rparr>))))
      (swhen (din ''extensions'' t)
        (sbind (slift (normalize_technology_extensions (dgetn t ''extensions''))) (\<lambda>exts. smodify (\<lambda>s. s\<lparr>sh_extensions := exts\<rparr>))))))"

section \<open>Audio\<close>

definition token_or :: "string \<Rightarrow> string \<Rightarrow> string" where
  \<comment> \<open>a device identifier with a blank in it is replaced\<close>
  "token_or fallback device_id = (if device_id \<noteq> [] \<and> has_space device_id then fallback else device_id)"

definition route_values :: "pyval \<Rightarrow> pyerr + (int \<times> pyfloat)" where
  "route_values v =
     ebind (as_dict v) (\<lambda>route.
     ebind (clamped_int route ''output'' 0 0 15) (\<lambda>out.
     ebind (clamped route ''gain'' (Fin 0) 0 4) (\<lambda>gain. Inr (out, gain))))"

definition route_or_zero :: "pyval \<Rightarrow> pyerr + (int \<times> pyfloat)" where
  "route_or_zero v = ecatch is_type_or_value (route_values (por v (PDict []))) (Inr (0, Fin 0))"

definition restored_input :: "pydict \<Rightarrow> nat \<Rightarrow> pydict \<Rightarrow> pyerr + audio_input" where
  "restored_input audio slot raw =
     ebind (route_or_zero (dgetn raw ''route'')) (\<lambda>(out, gain).
     ebind (py_float (dgetd raw ''sampleRate'' (dgetd audio ''sampleRate'' (PFloat (Fin 192000))))) (\<lambda>f.
     Inr \<lparr>ai_slot = slot, ai_device = token_or [] (field_str 96 raw ''deviceId''), ai_player = field_str 64 raw ''playerId'',
          ai_rate = clamp f (Fin 8000) (Fin 768000), ai_output = out, ai_gain = gain\<rparr>))"

definition restore_input_step :: "pydict \<Rightarrow> pyval \<Rightarrow> audio_input list \<Rightarrow> pyerr + audio_input list" where
  "restore_input_step audio v acc =
     (case v of
        PDict raw \<Rightarrow>
          ebind (slot_of raw) (\<lambda>slot.
          case slot of
            None \<Rightarrow> Inr acc
          | Some i \<Rightarrow> ebind (restored_input audio i raw) (\<lambda>x. Inr (acc[i := x])))
      | _ \<Rightarrow> Inr acc)"

text \<open>The legacy fields of an older document give slot 0; in a current one they override it.\<close>

definition legacy_input :: "pydict \<Rightarrow> pyfloat \<Rightarrow> pyerr + audio_input" where
  "legacy_input audio rate =
     ebind (route_or_zero (dgetn audio ''inputRoute'')) (\<lambda>(out, gain).
     Inr \<lparr>ai_slot = 0, ai_device = token_or [] (field_str 96 audio ''inputDeviceId''), ai_player = field_str 64 audio ''inputPlayerId'',
          ai_rate = rate, ai_output = out, ai_gain = gain\<rparr>)"

definition alias_input :: "pydict \<Rightarrow> audio_input \<Rightarrow> pyerr + audio_input" where
  "alias_input audio x =
     (let x1 = (if din ''inputDeviceId'' audio then x\<lparr>ai_device := token_or (ai_device x) (field_str 96 audio ''inputDeviceId'')\<rparr> else x);
          x2 = (if din ''inputPlayerId'' audio then x1\<lparr>ai_player := field_str 64 audio ''inputPlayerId''\<rparr> else x1) in
      if din ''inputRoute'' audio \<and> is_dict (dgetn audio ''inputRoute'') then
        ebind (ecatch is_type_or_value (route_values (dgetn audio ''inputRoute'')) (Inr (ai_output x2, ai_gain x2))) (\<lambda>(out, gain).
        Inr (x2\<lparr>ai_output := out, ai_gain := gain\<rparr>))
      else Inr x2)"

definition restored_inputs :: "pydict \<Rightarrow> pyerr + audio_input list" where
  "restored_inputs audio =
     ebind (clamped audio ''sampleRate'' (Fin 192000) 8000 768000) (\<lambda>rate.
     let xs = map (default_input rate) slots in
     (case dgetn audio ''inputs'' of
        PList raws \<Rightarrow>
          ebind (efold (restore_input_step audio) (take 16 raws) xs) (\<lambda>ys.
          ebind (alias_input audio (ys ! 0)) (\<lambda>y. Inr (ys[0 := y])))
      | _ \<Rightarrow> ebind (legacy_input audio rate) (\<lambda>x. Inr (xs[0 := x]))))"

definition output_numbers :: "pydict \<Rightarrow> pydict \<Rightarrow> audio_output \<Rightarrow> pyerr + audio_output" where
  "output_numbers raw drift x =
     ebind (clamped_int raw ''graphOutput'' (ao_graph x) 0 15) (\<lambda>graph.
     ebind (clamped raw ''master'' (ao_master x) 0 4) (\<lambda>master.
     ebind (clamped raw ''limiterCeilingDb'' (ao_ceiling x) (-24) 0) (\<lambda>ceiling.
     ebind (clamped drift ''maxCorrectionPpm'' (ao_max_ppm x) 0 10000) (\<lambda>max_ppm.
     ebind (clamped drift ''queueGainPpm'' (ao_gain_ppm x) 0 10000) (\<lambda>gain_ppm.
     Inr (x\<lparr>ao_graph := graph, ao_master := master, ao_ceiling := ceiling,
             ao_drift := get_bool drift ''enabled'' (ao_drift x), ao_max_ppm := max_ppm, ao_gain_ppm := gain_ppm\<rparr>))))))"

definition restored_output :: "pydict \<Rightarrow> audio_output \<Rightarrow> pyerr + audio_output" where
  "restored_output raw current =
     (let purpose = py_lower (strip (py_str (dgetd raw ''purpose'' (PStr (ao_purpose current)))));
          drift = (case dgetd raw ''driftCompensation'' (PDict (drift_dict current)) of PDict d \<Rightarrow> d | _ \<Rightarrow> drift_dict current);
          x = current\<lparr>ao_device := token_or (ao_device current) (clean_str 96 (dgetd raw ''deviceId'' (PStr (ao_device current)))),
                      ao_purpose := (if purpose \<in> set allowed_purposes then purpose else ao_purpose current),
                      ao_player := clean_str 64 (dgetd raw ''playerId'' (PStr (ao_player current)))\<rparr> in
      ecatch is_type_or_value (output_numbers raw drift x) (Inr x))"

definition restore_output_step :: "pyval \<Rightarrow> audio_output list \<Rightarrow> pyerr + audio_output list" where
  "restore_output_step v acc =
     (case v of
        PDict raw \<Rightarrow>
          ebind (slot_of raw) (\<lambda>slot.
          case slot of
            None \<Rightarrow> Inr acc
          | Some i \<Rightarrow> ebind (restored_output raw (acc ! i)) (\<lambda>x. Inr (acc[i := x])))
      | _ \<Rightarrow> Inr acc)"

definition restored_outputs :: "pydict \<Rightarrow> string \<Rightarrow> pyfloat \<Rightarrow> pyerr + audio_output list" where
  "restored_outputs audio device level =
     (let xs = map default_output slots; listed = is_list (dgetn audio ''outputs'') in
      ebind (efold restore_output_step (take 16 (list_of (dgetn audio ''outputs''))) xs) (\<lambda>ys.
      let y0 = ys ! 0;
          y1 = (if \<not> listed \<or> din ''deviceId'' audio then y0\<lparr>ao_device := device\<rparr> else y0);
          y2 = (if \<not> listed \<or> din ''limiterCeilingDb'' audio then y1\<lparr>ao_ceiling := level\<rparr> else y1) in
      Inr (ys[0 := y2])))"

text \<open>The inputs are computed here and assigned once the players are known.\<close>

definition restore_audio :: "pydict \<Rightarrow> (show_state, audio_input list) pymethod" where
  "restore_audio snap =
     sbind (slift (sub_dict snap ''audio'')) (\<lambda>audio.
     let d = clean_str 96 (dgetd audio ''deviceId'' (PStr ''null-audio''));
         device = (if d \<noteq> [] \<and> \<not> has_space d then d else ''null-audio'') in
     sthen (smodify (\<lambda>s. s\<lparr>sh_device := device\<rparr>))
    (sbind (slift (restored_inputs audio)) (\<lambda>inputs.
     sthen (set_clamped audio ''sampleRate'' 192000 8000 768000 (\<lambda>f s. s\<lparr>sh_rate := f\<rparr>))
    (sbind (slift (ecatch is_type_or_value (clamped_int audio ''bufferFrames'' 256 16 8192) (Inr 256))) (\<lambda>frames.
     sthen (smodify (\<lambda>s. s\<lparr>sh_frames := frames\<rparr>))
    (sbind (slift (clamped audio ''limiterCeilingDb'' (Fin (-1)) (-24) 0)) (\<lambda>ceiling.
     sthen (smodify (\<lambda>s. s\<lparr>sh_ceiling := ceiling\<rparr>))
    (sbind (slift (restored_outputs audio device ceiling)) (\<lambda>outputs.
     sthen (smodify (\<lambda>s. mirror_outputs (s\<lparr>sh_outputs := outputs\<rparr>)))
     (sreturn inputs))))))))))"

section \<open>Lighting and revisions\<close>

definition restored_target :: "string \<Rightarrow> string" where
  "restored_target target = (case target_check target of Inr _ \<Rightarrow> target | Inl _ \<Rightarrow> [])"

definition clamped_or :: "pydict \<Rightarrow> string \<Rightarrow> int \<Rightarrow> int \<Rightarrow> pyerr + int" where
  "clamped_or d k dflt high = ecatch is_type_or_value (clamped_int d k dflt 1 high) (Inr dflt)"

definition restore_lighting :: "pydict \<Rightarrow> (show_state, unit) pymethod" where
  "restore_lighting snap =
     sbind (slift (ebind (sub_dict snap ''lighting'') (\<lambda>l. sub_dict l ''network''))) (\<lambda>n.
     let protocol = py_lower (strip (py_str (dgetd n ''protocol'' (PStr ''artnet'')))) in
     sthen (smodify (\<lambda>s. s\<lparr>sh_protocol := (if protocol \<in> {''artnet'', ''sacn''} then protocol else ''artnet''),
                           sh_target := restored_target (field_str 64 n ''target'')\<rparr>))
    (sbind (slift (clamped_or n ''port'' 6454 65535)) (\<lambda>port.
     sthen (smodify (\<lambda>s. s\<lparr>sh_port := port\<rparr>))
    (sbind (slift (clamped_or n ''universeBase'' 1 63984)) (\<lambda>base.
     smodify (\<lambda>s. s\<lparr>sh_universe := base\<rparr>))))))"

definition revision_step :: "string \<times> pyval \<Rightarrow> unit \<Rightarrow> (show_state, unit) pymethod" where
  "revision_step entry _ =
     (case py_int (snd entry) of
        Inl e \<Rightarrow> if is_type_or_value e then sreturn () else sraise e
      | Inr i \<Rightarrow> smodify (\<lambda>s. s\<lparr>sh_resources := dset (sh_resources s) (fst entry) (max 1 i)\<rparr>))"

definition restore_revisions :: "pydict \<Rightarrow> (show_state, unit) pymethod" where
  "restore_revisions snap =
     sbind (slift (get_int snap ''revision'' (PInt 1))) (\<lambda>i.
     sthen (smodify (\<lambda>s. s\<lparr>sh_revision := max 1 i\<rparr>))
     (sfold revision_step (dict_of (por (dgetn snap ''resourceRevisions'') (PDict []))) ()))"

section \<open>Players, MIDI, notation and events\<close>

definition restored_player :: "pyval \<Rightarrow> pyerr + (string \<times> player)" where
  "restored_player v =
     ebind (vindex v ''id'') (\<lambda>i.
     let pid = strip (py_str i); raw = dict_of v;
         (r, m) = monitor_patch (por (dgetn raw ''monitor'') (PDict [])) monitor_init in
     ebind r (\<lambda>_.
     Inr (pid, \<lparr>pl_id = pid, pl_name = take 80 (py_str (dgetd raw ''name'' (PStr pid))),
                pl_role = take 80 (py_str (dgetd raw ''role'' (PStr ''Player''))), pl_monitor = m,
                pl_mode = take 32 (py_str (dgetd raw ''mode'' (PStr ''local''))),
                pl_available = truthy (dgetd raw ''available'' (PBool True))\<rparr>)))"

definition player_step :: "pyval \<Rightarrow> (string \<times> player) list \<Rightarrow> pyerr + (string \<times> player) list" where
  "player_step v acc =
     (case restored_player v of
        Inl e \<Rightarrow> if is_key_type_or_value e then Inr acc else Inl e
      | Inr (pid, p) \<Rightarrow> Inr (dset acc pid p))"

definition drop_unknown :: "(string \<times> player) list \<Rightarrow> string \<Rightarrow> string" where
  "drop_unknown players pid = (if pid \<noteq> [] \<and> \<not> din pid players then [] else pid)"

definition restore_players :: "pydict \<Rightarrow> audio_input list \<Rightarrow> (show_state, unit) pymethod" where
  "restore_players snap inputs =
     sbind (slift (ebind (py_iter (por (dgetn snap ''players'') (PList []))) (\<lambda>raws. efold player_step raws []))) (\<lambda>players.
     sthen (swhen (players \<noteq> []) (smodify (\<lambda>s. s\<lparr>sh_players := players\<rparr>)))
     (smodify (\<lambda>s. mirror_inputs
        (s\<lparr>sh_inputs := map (\<lambda>x. x\<lparr>ai_player := drop_unknown (sh_players s) (ai_player x)\<rparr>) inputs,
           sh_outputs := map (\<lambda>x. x\<lparr>ao_player := drop_unknown (sh_players s) (ao_player x)\<rparr>) (sh_outputs s)\<rparr>))))"

definition restored_bindings :: "(string \<times> player) list \<Rightarrow> pydict \<Rightarrow> (string \<times> string) list" where
  "restored_bindings players raw =
     fold (\<lambda>(d, v) acc. if strip d \<noteq> [] \<and> din (py_str v) players then dset acc (take 96 d) (take 64 (py_str v)) else acc) raw []"

definition dicts_of :: "pyval list \<Rightarrow> pydict list" where
  "dicts_of vs = concat (map (\<lambda>v. case v of PDict d \<Rightarrow> [d] | _ \<Rightarrow> []) vs)"

definition restore_midi :: "pydict \<Rightarrow> (show_state, unit) pymethod" where
  "restore_midi snap =
     sbind (slift (sub_dict snap ''midi'')) (\<lambda>midi.
     sthen (case por (dgetn midi ''bindings'') (por (dgetn snap ''midiBindings'') (PDict [])) of
              PDict raw \<Rightarrow> smodify (\<lambda>s. s\<lparr>sh_bindings := restored_bindings (sh_players s) raw\<rparr>)
            | _ \<Rightarrow> sreturn ())
    (sbind (slift (ecatch is_type_or_value (ebind (get_int midi ''received'' (PInt 0)) (\<lambda>i. Inr (max 0 i))) (Inr 0))) (\<lambda>n.
     sthen (smodify (\<lambda>s. s\<lparr>sh_received := n\<rparr>))
     (case por (dgetn midi ''activity'') (PList []) of
        PList items \<Rightarrow> smodify (\<lambda>s. s\<lparr>sh_activity := dicts_of (keep_last 512 items)\<rparr>)
      | _ \<Rightarrow> sreturn ()))))"

definition restore_notation :: "pydict \<Rightarrow> (show_state, unit) pymethod" where
  "restore_notation snap =
     sbind (sgete (\<lambda>s. registry_open (dkeys (sh_players s)) (por (dgetn snap ''notation'') (PDict [])))) (\<lambda>r.
     smodify (\<lambda>s. s\<lparr>sh_notation := r,
       sh_resources := fold (\<lambda>k d. dsetdefault d k 1) (player_resources (dkeys (sh_players s))) (sh_resources s)\<rparr>))"

definition event_step :: "pyval \<Rightarrow> pydict list \<times> int \<Rightarrow> pyerr + (pydict list \<times> int)" where
  "event_step v acc =
     (case v of
        PDict e \<Rightarrow>
          (case get_int e ''eventId'' (PInt 0) of
             Inl x \<Rightarrow> if is_type_or_value x then Inr acc else Inl x
           | Inr i \<Rightarrow> Inr (fst acc @ [e], max (snd acc) i))
      | _ \<Rightarrow> Inr acc)"

definition restore_events :: "pydict \<Rightarrow> (show_state, unit) pymethod" where
  "restore_events snap =
     sbind (slift (ebind (py_iter (por (dgetn snap ''events'') (PList []))) (\<lambda>raws. efold event_step raws ([], 0)))) (\<lambda>(events, highest).
     smodify (\<lambda>s. s\<lparr>sh_events := take 100 events, sh_next_event := max (highest + 1) 1\<rparr>))"

section \<open>Recovery\<close>

definition restore :: "rat \<Rightarrow> bool \<Rightarrow> pydict \<Rightarrow> (show_state, unit) pymethod" where
  "restore now hold_transport snap =
     sthen (restore_transport now hold_transport snap)
    (sthen (restore_system snap)
    (sthen (restore_handoff snap)
    (sthen (restore_technology snap)
    (sbind (restore_audio snap) (\<lambda>inputs.
     sthen (restore_lighting snap)
    (sthen (restore_revisions snap)
    (sthen (restore_players snap inputs)
    (sthen (restore_midi snap)
    (sthen (restore_notation snap)
     (restore_events snap))))))))))"

definition adopt_document :: "pydict \<times> pydict \<Rightarrow> show_state \<Rightarrow> show_state" where
  "adopt_document doc s = s\<lparr>sh_overlay := fst doc, sh_report := snd doc\<rparr>"

definition open_show :: "clock \<Rightarrow> pyval \<Rightarrow> pyerr + show_state" where
  "open_show c snapshot =
     (if truthy snapshot then
        ebind (migrate_show_state snapshot) (\<lambda>doc.
        let (r, s) = sthen (restore (ck_now c) True (fst doc))
              (record_event c ''recovery'' ''Recovered persisted show state; transport held paused'' []) (adopt_document doc (fresh_state (ck_now c))) in
        ebind r (\<lambda>_. Inr s))
      else Inr (sexec (record_event c ''system'' ''Development show state initialized'' []) (fresh_state (ck_now c))))"

definition replica_revision :: "pydict \<Rightarrow> pyerr + int" where
  "replica_revision d =
     ecatch is_key_type_or_value (ebind (dindex d ''revision'') py_int) (Inl (ValueError ''replica state requires an integer revision''))"

definition apply_replica_snapshot :: "clock \<Rightarrow> pyval \<Rightarrow> (show_state, pydict) pymethod" where
  "apply_replica_snapshot c snapshot =
     returning c False
      (sthen (sguard (is_dict snapshot) (ValueError ''unsupported replica show state''))
       (sbind (slift (migrate_show_state snapshot)) (\<lambda>doc.
        sbind (slift (replica_revision (fst doc))) (\<lambda>incoming.
        sthen (sgete (\<lambda>s. if incoming < sh_revision s then Inl (RevisionConflict incoming (sh_revision s) ''replica'') else Inr ()))
       (sthen (smodify (adopt_document doc))
        (restore (ck_now c) False (fst doc)))))))"

end
