(* ===== verification/Show_Invariants.thy ===== *)
theory Show_Invariants
  imports Show_Recovery
begin

text \<open>
  Invariants of the show state.  \<open>slot_bank\<close> is the contract of a bank of four audio slots: the
  default slots are valid and an update with a valid slot keeps the bank valid; it is interpreted by
  the input and the output slots.  \<open>show_ok\<close> collects the bounds of every field; each operation keeps
  it whether it returns or raises.
\<close>

section \<open>Banks of slots\<close>

definition bank_ok :: "(nat \<Rightarrow> 'x \<Rightarrow> bool) \<Rightarrow> 'x list \<Rightarrow> bool" where
  "bank_ok ok xs = (length xs = 4 \<and> (\<forall>i < 4. ok i (xs ! i)))"

locale slot_bank =
  fixes ok :: "nat \<Rightarrow> 'x \<Rightarrow> bool" and dflt :: "nat \<Rightarrow> 'x"
  assumes dflt_ok: "i < 4 \<Longrightarrow> ok i (dflt i)"
begin

lemma bank_init: "bank_ok ok (map dflt slots)"
proof -
  have "ok i (map dflt slots ! i)" if "i < 4" for i
  proof -
    from that have "i \<in> {0, 1, 2, 3}" by auto
    with that dflt_ok [of i] show ?thesis by (auto simp: slots_def numeral_2_eq_2 numeral_3_eq_3)
  qed
  then show ?thesis by (simp add: bank_ok_def slots_def)
qed

lemma bank_update: "bank_ok ok xs \<Longrightarrow> ok i x \<Longrightarrow> bank_ok ok (xs[i := x])"
  unfolding bank_ok_def by (metis length_list_update nth_list_update_eq nth_list_update_neq)

lemma bank_nth: "bank_ok ok xs \<Longrightarrow> i < 4 \<Longrightarrow> ok i (xs ! i)"
  by (simp add: bank_ok_def)

lemma bank_map: "bank_ok ok xs \<Longrightarrow> (\<And>i x. ok i x \<Longrightarrow> ok i (f x)) \<Longrightarrow> bank_ok ok (map f xs)"
  by (simp add: bank_ok_def)

lemma bank_fold:
  assumes "efold step vs xs = Inr ys" and "bank_ok ok xs"
    and "\<And>v zs zs'. bank_ok ok zs \<Longrightarrow> step v zs = Inr zs' \<Longrightarrow> bank_ok ok zs'"
  shows "bank_ok ok ys"
  using efold_invariant [OF assms(1), of "bank_ok ok"] assms(2,3) by blast

end

definition token :: "nat \<Rightarrow> string \<Rightarrow> bool" where
  "token n d = (\<not> has_space d \<and> length d \<le> n)"

definition input_ok :: "nat \<Rightarrow> audio_input \<Rightarrow> bool" where
  "input_ok i x = (ai_slot x = i \<and> token 96 (ai_device x) \<and> length (ai_player x) \<le> 64 \<and>
     in_range (ai_rate x) 8000 768000 \<and> 0 \<le> ai_output x \<and> ai_output x \<le> 15 \<and> in_range (ai_gain x) 0 4)"

definition output_ok :: "nat \<Rightarrow> audio_output \<Rightarrow> bool" where
  "output_ok i x = (ao_slot x = i \<and> token 96 (ao_device x) \<and> ao_purpose x \<in> set allowed_purposes \<and> length (ao_player x) \<le> 64 \<and>
     0 \<le> ao_graph x \<and> ao_graph x \<le> 15 \<and> in_range (ao_master x) 0 4 \<and> in_range (ao_ceiling x) (-24) 0 \<and>
     in_range (ao_max_ppm x) 0 10000 \<and> in_range (ao_gain_ppm x) 0 10000)"

lemma token_Nil [simp]: "token n []"
  by (simp add: token_def has_space_def)

lemma token_null [simp]: "token 96 ''null-audio''"
  by code_simp

interpretation inputs: slot_bank input_ok "default_input (Fin 192000)"
  by unfold_locales (simp add: input_ok_def default_input_def)

interpretation outputs: slot_bank output_ok default_output
  by unfold_locales (auto simp: output_ok_def default_output_def allowed_purposes_def)

section \<open>Valid slots come out of every request\<close>

lemma clamped_range: "clamped d k cur low high = Inr f \<Longrightarrow> low \<le> high \<Longrightarrow> in_range f low high"
  by (auto simp: clamped_def ebind_eq_Inr)

lemma clamped_int_range: "clamped_int d k cur low high = Inr i \<Longrightarrow> low \<le> high \<Longrightarrow> low \<le> i \<and> i \<le> high"
  using iclamp_bounds by (auto simp: clamped_int_def ebind_eq_Inr)

lemma token_or_empty_token: "token_or_empty what (clean_str 96 v) = Inr u \<Longrightarrow> token 96 (clean_str 96 v)"
  by (auto simp: token_or_empty_def token_def has_space_def split: if_splits)

lemma updated_output_ok: "updated_output players slot raw current = Inr x \<Longrightarrow> output_ok slot x"
proof -
  assume a: "updated_output players slot raw current = Inr x"
  then obtain d g m ce mp gp dev pl where
    "token_or_empty ''audio output'' (clean_str 96 dev) = Inr ()"
    "clamped_int raw ''graphOutput'' (ao_graph current) 0 15 = Inr g" "clamped raw ''master'' (ao_master current) 0 4 = Inr m"
    "clamped raw ''limiterCeilingDb'' (ao_ceiling current) (-24) 0 = Inr ce"
    "clamped d ''maxCorrectionPpm'' (ao_max_ppm current) 0 10000 = Inr mp"
    "clamped d ''queueGainPpm'' (ao_gain_ppm current) 0 10000 = Inr gp"
    and x: "ao_slot x = slot" "ao_device x = clean_str 96 dev" "ao_purpose x \<in> set allowed_purposes" "ao_player x = clean_str 64 pl"
      "ao_graph x = g" "ao_master x = m" "ao_ceiling x = ce" "ao_max_ppm x = mp" "ao_gain_ppm x = gp"
    unfolding updated_output_def Let_def by (auto simp: ebind_eq_Inr)
  then show ?thesis
    using clamped_range clamped_int_range token_or_empty_token by (simp add: output_ok_def)
qed

lemma updated_input_ok: "updated_input players slot raw current = Inr x \<Longrightarrow> input_ok slot x"
proof -
  assume a: "updated_input players slot raw current = Inr x"
  then obtain route out gain rate dev pl where
    "token_or_empty ''audio input'' (clean_str 96 dev) = Inr ()"
    "clamped_int route ''output'' (ai_output current) 0 15 = Inr out" "clamped route ''gain'' (ai_gain current) 0 4 = Inr gain"
    "clamped raw ''sampleRate'' (ai_rate current) 8000 768000 = Inr rate"
    and x: "x = \<lparr>ai_slot = slot, ai_device = clean_str 96 dev, ai_player = clean_str 64 pl, ai_rate = rate, ai_output = out, ai_gain = gain\<rparr>"
    unfolding updated_input_def Let_def by (auto simp: ebind_eq_Inr)
  then show ?thesis
    using clamped_range clamped_int_range token_or_empty_token by (simp add: input_ok_def)
qed

lemma slot_of_range: "slot_of raw = Inr (Some i) \<Longrightarrow> i < 4"
  by (auto simp: slot_of_def split: sum.splits if_splits)

lemma slot_field_range: "slot_field what raw = Inr i \<Longrightarrow> i < 4"
  by (auto simp: slot_field_def slot_in_range_def ebind_eq_Inr split: if_splits)

lemma token_token_or: "token 96 f \<Longrightarrow> length d \<le> 96 \<Longrightarrow> token 96 (token_or f d)"
  by (auto simp: token_or_def token_def has_space_def)

lemma length_field_str [simp]: "length (field_str n d k) \<le> n"
  by (simp add: field_str_def)

lemma route_values_ok: "route_values v = Inr (out, gain) \<Longrightarrow> 0 \<le> out \<and> out \<le> 15 \<and> in_range gain 0 4"
  using clamped_range clamped_int_range by (fastforce simp: route_values_def ebind_eq_Inr)

lemma route_or_zero_ok: "route_or_zero v = Inr (out, gain) \<Longrightarrow> 0 \<le> out \<and> out \<le> 15 \<and> in_range gain 0 4"
  using route_values_ok by (auto simp: route_or_zero_def ecatch_eq_Inr)

lemma restored_input_ok: "restored_input audio slot raw = Inr x \<Longrightarrow> input_ok slot x"
  using route_or_zero_ok by (auto simp: restored_input_def ebind_eq_Inr input_ok_def token_token_or)

lemma legacy_input_ok: "legacy_input audio rate = Inr x \<Longrightarrow> in_range rate 8000 768000 \<Longrightarrow> input_ok 0 x"
  using route_or_zero_ok by (auto simp: legacy_input_def ebind_eq_Inr input_ok_def token_token_or)

lemma alias_input_ok:
  assumes "alias_input audio x = Inr y" and "input_ok 0 x"
  shows "input_ok 0 y"
proof -
  define z where "z = (let x1 = (if din ''inputDeviceId'' audio then x\<lparr>ai_device := token_or (ai_device x) (field_str 96 audio ''inputDeviceId'')\<rparr> else x)
    in if din ''inputPlayerId'' audio then x1\<lparr>ai_player := field_str 64 audio ''inputPlayerId''\<rparr> else x1)"
  have z: "input_ok 0 z" using assms(2) by (auto simp: z_def Let_def input_ok_def token_token_or)
  consider "y = z" | out gain where "y = z\<lparr>ai_output := out, ai_gain := gain\<rparr>" "route_values (dgetn audio ''inputRoute'') = Inr (out, gain)"
    using assms(1) unfolding alias_input_def z_def
    by (auto simp: Let_def ebind_eq_Inr ecatch_eq_Inr split: if_splits)
  then show ?thesis
  proof cases
    case 1
    with z show ?thesis by simp
  next
    case 2
    with z route_values_ok show ?thesis by (fastforce simp: input_ok_def)
  qed
qed

lemma restore_input_step_ok:
  assumes "bank_ok input_ok zs" and "restore_input_step audio v zs = Inr zs'"
  shows "bank_ok input_ok zs'"
proof -
  from assms(2) consider "zs' = zs" | raw i x where "restored_input audio i raw = Inr x" "zs' = zs[i := x]"
    by (auto simp: restore_input_step_def ebind_eq_Inr split: pyval.splits option.splits)
  then show ?thesis
    using assms(1) by cases (auto intro: inputs.bank_update restored_input_ok)
qed

lemma restored_inputs_ok:
  assumes "restored_inputs audio = Inr xs"
  shows "bank_ok input_ok xs"
proof -
  from assms obtain rate where r: "clamped audio ''sampleRate'' (Fin 192000) 8000 768000 = Inr rate"
    by (auto simp: restored_inputs_def ebind_eq_Inr)
  then have rate: "in_range rate 8000 768000" by (rule clamped_range) simp
  let ?ds = "map (default_input rate) slots"
  have ds: "bank_ok input_ok ?ds"
    by (rule slot_bank.bank_init) (unfold_locales, simp add: input_ok_def default_input_def rate)
  show ?thesis
  proof (cases "\<exists>raws. dgetn audio ''inputs'' = PList raws")
    case True
    then obtain raws ys y where f: "efold (restore_input_step audio) (take 16 raws) ?ds = Inr ys"
      and y: "alias_input audio (ys ! 0) = Inr y" "xs = ys[0 := y]"
      using assms r by (auto simp: restored_inputs_def ebind_eq_Inr Let_def)
    from f ds have "bank_ok input_ok ys"
    proof (rule inputs.bank_fold)
      fix v zs zs' assume "bank_ok input_ok zs" "restore_input_step audio v zs = Inr zs'"
      then show "bank_ok input_ok zs'" by (rule restore_input_step_ok)
    qed
    moreover from this have "input_ok 0 (ys ! 0)" by (rule inputs.bank_nth) simp
    ultimately show ?thesis unfolding y(2) using alias_input_ok [OF y(1)] by (intro inputs.bank_update)
  next
    case False
    then obtain x where "legacy_input audio rate = Inr x" "xs = ?ds[0 := x]"
      using assms r by (auto simp: restored_inputs_def ebind_eq_Inr Let_def split: pyval.splits)
    with ds rate show ?thesis by (auto intro!: inputs.bank_update legacy_input_ok)
  qed
qed

lemma output_numbers_ok: "output_numbers raw drift x = Inr y \<Longrightarrow> output_ok i x \<Longrightarrow> output_ok i y"
proof -
  assume a: "output_numbers raw drift x = Inr y" and x: "output_ok i x"
  then obtain g m ce mp gp where
    "clamped_int raw ''graphOutput'' (ao_graph x) 0 15 = Inr g" "clamped raw ''master'' (ao_master x) 0 4 = Inr m"
    "clamped raw ''limiterCeilingDb'' (ao_ceiling x) (-24) 0 = Inr ce"
    "clamped drift ''maxCorrectionPpm'' (ao_max_ppm x) 0 10000 = Inr mp"
    "clamped drift ''queueGainPpm'' (ao_gain_ppm x) 0 10000 = Inr gp"
    and "y = x\<lparr>ao_graph := g, ao_master := m, ao_ceiling := ce, ao_drift := get_bool drift ''enabled'' (ao_drift x),
      ao_max_ppm := mp, ao_gain_ppm := gp\<rparr>"
    by (auto simp: output_numbers_def ebind_eq_Inr)
  with x show ?thesis using clamped_range clamped_int_range by (simp add: output_ok_def)
qed

lemma restored_output_ok:
  assumes "restored_output raw x = Inr y" and "output_ok i x"
  shows "output_ok i y"
proof -
  let ?p = "py_lower (strip (py_str (dgetd raw ''purpose'' (PStr (ao_purpose x)))))"
  define z where "z = x\<lparr>ao_device := token_or (ao_device x) (clean_str 96 (dgetd raw ''deviceId'' (PStr (ao_device x)))),
    ao_purpose := (if ?p \<in> set allowed_purposes then ?p else ao_purpose x),
    ao_player := clean_str 64 (dgetd raw ''playerId'' (PStr (ao_player x)))\<rparr>"
  have "output_ok i z" using assms(2) by (simp add: z_def output_ok_def token_token_or)
  moreover have "y = z \<or> (\<exists>drift. output_numbers raw drift z = Inr y)"
    using assms(1) unfolding restored_output_def Let_def z_def [symmetric] by (auto simp: ecatch_eq_Inr)
  ultimately show ?thesis using output_numbers_ok by blast
qed

lemma restore_output_step_ok:
  assumes "bank_ok output_ok zs" and "restore_output_step v zs = Inr zs'"
  shows "bank_ok output_ok zs'"
proof -
  have "zs' = zs \<or> (\<exists>raw i x. slot_of raw = Inr (Some i) \<and> restored_output raw (zs ! i) = Inr x \<and> zs' = zs[i := x])"
  proof (cases "\<exists>raw i. v = PDict raw \<and> slot_of raw = Inr (Some i)")
    case True
    then obtain raw i where "v = PDict raw" "slot_of raw = Inr (Some i)" by blast
    with assms(2) show ?thesis unfolding restore_output_step_def by (simp add: ebind_eq_Inr) blast
  next
    case False
    with assms(2) show ?thesis
      by (auto simp: restore_output_step_def ebind_eq_Inr split: pyval.splits option.splits)
  qed
  then show ?thesis
    using assms(1) outputs.bank_update restored_output_ok outputs.bank_nth slot_of_range by metis
qed

lemma restored_outputs_ok:
  assumes "restored_outputs audio device level = Inr xs" and "token 96 device" and "in_range level (-24) 0"
  shows "bank_ok output_ok xs"
proof -
  from assms(1) obtain ys y where f: "efold restore_output_step (take 16 (list_of (dgetn audio ''outputs''))) (map default_output slots) = Inr ys"
    and xs: "xs = ys[0 := y]" and y: "y = ys ! 0 \<or> y = (ys ! 0)\<lparr>ao_device := device\<rparr> \<or> y = (ys ! 0)\<lparr>ao_ceiling := level\<rparr> \<or>
      y = (ys ! 0)\<lparr>ao_device := device, ao_ceiling := level\<rparr>"
    by (auto simp: restored_outputs_def ebind_eq_Inr Let_def)
  from f outputs.bank_init have ys: "bank_ok output_ok ys"
  proof (rule outputs.bank_fold)
    fix v zs zs' assume "bank_ok output_ok zs" "restore_output_step v zs = Inr zs'"
    then show "bank_ok output_ok zs'" by (rule restore_output_step_ok)
  qed
  then have "output_ok 0 (ys ! 0)" by (rule outputs.bank_nth) simp
  with y assms(2,3) have "output_ok 0 y" by (auto simp: output_ok_def)
  with ys show ?thesis unfolding xs by (rule outputs.bank_update)
qed

section \<open>The invariant\<close>

definition show_ok :: "show_state \<Rightarrow> bool" where
  "show_ok s =
     ((\<exists>r. sh_elapsed s = Fin r) \<and> in_range (sh_bpm s) 30 300 \<and> in_range (sh_capacity s) 0 100 \<and>
      sh_mode s \<in> set system_modes \<and>
      (sh_key s \<noteq> [] \<and> length (sh_key s) \<le> 12) \<and> (sh_venue s \<noteq> [] \<and> length (sh_venue s) \<le> 80) \<and>
      (sh_manager s \<noteq> [] \<and> length (sh_manager s) \<le> 80) \<and>
      bank_ok input_ok (sh_inputs s) \<and> bank_ok output_ok (sh_outputs s) \<and>
      in_range (sh_rate s) 8000 768000 \<and> (16 \<le> sh_frames s \<and> sh_frames s \<le> 8192) \<and> in_range (sh_ceiling s) (-24) 0 \<and>
      token 96 (sh_device s) \<and> sh_protocol s \<in> {''artnet'', ''sacn''} \<and> target_check (sh_target s) = Inr () \<and>
      (1 \<le> sh_port s \<and> sh_port s \<le> 65535) \<and> (1 \<le> sh_universe s \<and> sh_universe s \<le> 63984) \<and>
      policy_valid (sh_policy s) \<and> live_inputs_valid (sh_live s) \<and> sources_valid (sh_sources s) \<and>
      (1 \<le> sh_participants s \<and> sh_participants s \<le> 1000000) \<and> 1 \<le> sh_revision s \<and> 1 \<le> sh_next_event s \<and>
      length (sh_events s) \<le> 100 \<and> 0 \<le> sh_received s \<and> length (sh_activity s) \<le> 512)"

lemmas show_ok_parts = show_ok_def

text \<open>Rules that remember where a bound value comes from.\<close>

lemma keeps_slift_bind: "(\<And>x. r = Inr x \<Longrightarrow> keeps I (f x)) \<Longrightarrow> keeps I (sbind (slift r) f)"
  by (cases r) (auto simp: keeps_def sbind_run)

lemma keeps_sgete_bind: "(\<And>x s. I s \<Longrightarrow> h s = Inr x \<Longrightarrow> keeps I (f x)) \<Longrightarrow> keeps I (sbind (sgete h) f)"
  unfolding keeps_def sbind_run by (auto split: sum.splits)

lemma keeps_sgets_bind: "(\<And>x s. I s \<Longrightarrow> g s = x \<Longrightarrow> keeps I (f x)) \<Longrightarrow> keeps I (sbind (sgets g) f)"
  by (auto simp: keeps_def sbind_run)

lemma keeps_field: "(\<And>changes. keeps I (body (dgetn data k) changes)) \<Longrightarrow> keeps I (patch_field data k body changes)"
  by (auto simp: patch_field_def intro: keeps_intro)

lemma keeps_changed: "(\<And>s. I s \<Longrightarrow> I (u s)) \<Longrightarrow> keeps I (changed u t changes)"
  unfolding changed_def by (intro keeps_intro keeps_modify)

lemma keeps_changed_if: "(\<And>s. I s \<Longrightarrow> I (u s)) \<Longrightarrow> keeps I (changed_if b u t changes)"
  unfolding changed_if_def by (intro keeps_intro keeps_changed)

lemma keeps_steps:
  "list_all (\<lambda>f. \<forall>changes. keeps I (f changes)) steps \<Longrightarrow> keeps I (sfold (\<lambda>f changes. f changes) steps changes)"
  by (induction steps arbitrary: changes) (auto intro: keeps_intro)

lemma keeps_check [keeps_intro]: "keeps I (check_revision e k er)"
  unfolding check_revision_def by (rule keeps_pure)

lemma show_ok_touch [keeps_intro]: "keeps show_ok (touch_resources ks)" "keeps show_ok (touch k)"
  unfolding touch_def touch_resources_def by (auto intro!: keeps_modify simp: show_ok_def)

lemma show_ok_event [keeps_intro]: "keeps show_ok (record_event c category t payload)"
  unfolding record_event_def by (auto intro!: keeps_modify simp: show_ok_def)

lemma show_ok_commit [keeps_intro]: "keeps show_ok (commit c k category prefix changes)"
  unfolding commit_def by (intro keeps_intro)

lemma show_ok_patch:
  "list_all (\<lambda>f. \<forall>changes. keeps show_ok (f changes)) steps \<Longrightarrow>
   keeps show_ok (run_patch c k category prefix e er td steps)"
  unfolding run_patch_def by (intro keeps_intro keeps_steps)

section \<open>Every operation keeps the invariant\<close>

lemmas keeps_patch = conjI allI keeps_field keeps_slift_bind keeps_sgete_bind keeps_sgets_bind keeps_changed keeps_changed_if
  keeps_sthen keeps_pure keeps_if

lemma list_all_steps: "list_all P [] = True" "list_all P (x # xs) = (P x \<and> list_all P xs)"
  by simp_all

lemma clock_finite: "sh_elapsed s = Fin r \<Longrightarrow> \<exists>r'. clock_seconds now s = Fin r'"
  by (simp add: clock_seconds_def)

lemma transport_ok: "keeps show_ok (transport c action e er)"
proof -
  have pause: "show_ok s \<Longrightarrow> show_ok (s\<lparr>sh_elapsed := clock_seconds now s, sh_running := False\<rparr>)" for now s
    using clock_finite by (auto simp: show_ok_def)
  have "keeps show_ok (transport_event c a t)" for a t
    unfolding transport_event_def by (intro keeps_intro)
  then have "keeps show_ok (transport_action c a)" for a
    unfolding transport_action_def using pause
    by (intro keeps_intro keeps_modify) (auto simp: show_ok_def)
  then show ?thesis unfolding transport_def by (intro keeps_intro)
qed

lemma patch_show_ok: "keeps show_ok (patch_show c data e er)"
  unfolding patch_show_def Let_def
  by (rule show_ok_patch, unfold list_all_steps, intro keeps_patch) (auto simp: show_ok_def)

lemma name_ok: "show_ok s \<Longrightarrow> (let n = clean_str 80 v in if n = [] then sh_venue s else n) = x \<Longrightarrow> x \<noteq> [] \<and> length x \<le> 80"
    "show_ok s \<Longrightarrow> (let n = clean_str 80 v in if n = [] then sh_manager s else n) = x \<Longrightarrow> x \<noteq> [] \<and> length x \<le> 80"
  by (auto simp: show_ok_def Let_def split: if_splits)

lemma patch_system_ok: "keeps show_ok (patch_system c data e er)"
proof -
  have 1: "keeps show_ok (name_change (\<lambda>n s. s\<lparr>sh_venue := n\<rparr>) sh_venue l v changes)" for l v changes
    unfolding name_change_def by (rule keeps_sgets_bind, drule (1) name_ok(1), rule keeps_changed) (simp add: show_ok_def)
  have 2: "keeps show_ok (name_change (\<lambda>n s. s\<lparr>sh_manager := n\<rparr>) sh_manager l v changes)" for l v changes
    unfolding name_change_def by (rule keeps_sgets_bind, drule (1) name_ok(2), rule keeps_changed) (simp add: show_ok_def)
  show ?thesis
    unfolding patch_system_def Let_def sthen_sguard
    by (rule show_ok_patch, unfold list_all_steps, intro keeps_patch 1 2) (auto simp: show_ok_def)
qed

lemma patch_handoff_ok: "keeps show_ok (patch_handoff c data e er)"
  unfolding patch_handoff_def Let_def
  by (rule show_ok_patch, unfold list_all_steps, intro keeps_patch)
     (auto simp: show_ok_def normalize_sources_valid ebind_eq_Inr dest!: normalize_policy_valid live_norm.norm_valid)

lemma patch_technology_ok: "keeps show_ok (patch_technology c data e er)"
proof -
  have "int_or_error t (ebind (py_int v) (\<lambda>i. Inr (iclamp 1 1000000 i))) = Inr n \<Longrightarrow> 1 \<le> n \<and> n \<le> 1000000" for t v n
    using iclamp_bounds [of 1 1000000] by (auto simp: int_or_error_def ecatch_eq_Inr ebind_eq_Inr)
  then show ?thesis
    unfolding patch_technology_def
    by (intro show_ok_patch, unfold list_all_steps, intro keeps_patch) (auto simp: show_ok_def)
qed

lemma patch_protocol_ok: "keeps show_ok (patch_protocol data v changes)"
  unfolding patch_protocol_def Let_def sthen_sguard split_beta
  by (intro keeps_intro keeps_changed) (auto simp: show_ok_def default_port_def)

lemma ranged_int_range: "ranged_int what high v = Inr i \<Longrightarrow> 1 \<le> i \<and> i \<le> high"
  by (auto simp: ranged_int_def ebind_eq_Inr split: if_splits)

lemma patch_lighting_ok: "keeps show_ok (patch_lighting_network c data e er)"
  unfolding patch_lighting_network_def Let_def
  by (rule show_ok_patch, unfold list_all_steps, intro keeps_patch patch_protocol_ok)
     (auto simp: show_ok_def dest!: ranged_int_range)

lemma patch_monitor_ok: "keeps show_ok (patch_monitor c pid data e er)"
  unfolding patch_monitor_def find_player_def split_beta Let_def
  by (intro keeps_intro keeps_modify) (auto simp: show_ok_def)

lemma bind_midi_ok: "keeps show_ok (bind_midi_device c device pid e er)"
  unfolding bind_midi_device_def find_player_def Let_def
  by (intro keeps_intro keeps_modify) (auto simp: show_ok_def)

lemma unbind_midi_ok: "keeps show_ok (unbind_midi_device c device e er)"
  unfolding unbind_midi_device_def Let_def
  by (intro keeps_intro keeps_modify) (auto simp: show_ok_def)

lemma on_notation_ok [keeps_intro]: "keeps show_ok (on_notation m)"
  by (rule keepsI) (simp add: on_notation_def show_ok_def split_beta)

lemma part_settings_ok [keeps_intro]: "keeps show_ok (part_settings pid)"
  unfolding part_settings_def by (intro keeps_intro)

lemma event_seconds_keeps [keeps_intro]: "keeps I (event_seconds c data)"
  unfolding event_seconds_def by (cases "dgetn data ''showTimeSeconds''") (simp_all add: keeps_pure)

lemma capture_note_ok [keeps_intro]: "keeps show_ok (capture_note pid action pitch velocity seconds)"
  unfolding capture_note_def by (intro keeps_intro)

lemma notation_ops_ok:
  "keeps show_ok (patch_notation_settings c pid data e er)" "keeps show_ok (notation_note c pid data e er)"
  "keeps show_ok (clear_notation c pid e er)" "keeps show_ok (notation_snapshot pid)" "keeps show_ok (notation_musicxml pid)"
  unfolding patch_notation_settings_def notation_note_def clear_notation_def notation_snapshot_def notation_musicxml_def
    find_player_def Let_def split_beta
  by (intro keeps_intro)+

lemma ingest_midi_ok: "keeps show_ok (ingest_midi c pid data e er)"
proof -
  have "keeps show_ok (observe_note pid m seconds)" for m seconds
    unfolding observe_note_def by (intro keeps_intro)
  then show ?thesis
    unfolding ingest_midi_def find_player_def Let_def
    by (intro keeps_intro keeps_modify) (auto simp: show_ok_def keep_last_def)
qed

section \<open>The audio patch\<close>

lemma patch_output_slot_ok: "keeps show_ok (patch_output_slot v changes)"
  unfolding patch_output_slot_def
proof (rule keeps_sgete_bind)
  fix x s
  assume "ebind (as_object ''each audio output must be an object'' v) (\<lambda>raw.
       ebind (slot_field ''audio output'' raw) (\<lambda>slot.
       ebind (updated_output (sh_players s) slot raw (sh_outputs s ! slot)) (\<lambda>x. Inr (slot, x)))) = Inr x"
  then obtain slot y where x: "x = (slot, y)" and y: "output_ok slot y"
    by (auto simp: ebind_eq_Inr dest: updated_output_ok)
  show "keeps show_ok (case x of (slot, x) \<Rightarrow> changed_if (\<lambda>s. x \<noteq> sh_outputs s ! slot)
      (\<lambda>s. s\<lparr>sh_outputs := (sh_outputs s)[slot := x]\<rparr>) (''output slot '' @ show_int (int slot)) changes)"
    unfolding x prod.case
    by (rule keeps_changed_if) (simp add: show_ok_def outputs.bank_update y)
qed

lemma patch_input_slot_ok: "keeps show_ok (patch_input_slot v changes)"
  unfolding patch_input_slot_def
proof (rule keeps_sgete_bind)
  fix x s
  assume "ebind (as_object ''each audio input must be an object'' v) (\<lambda>raw.
       ebind (slot_field ''audio input'' raw) (\<lambda>slot.
       ebind (updated_input (sh_players s) slot raw (sh_inputs s ! slot)) (\<lambda>x. Inr (slot, x)))) = Inr x"
  then obtain slot y where x: "x = (slot, y)" and y: "input_ok slot y"
    by (auto simp: ebind_eq_Inr dest: updated_input_ok)
  show "keeps show_ok (case x of (slot, x) \<Rightarrow> changed_if (\<lambda>s. x \<noteq> sh_inputs s ! slot)
      (\<lambda>s. s\<lparr>sh_inputs := (sh_inputs s)[slot := x]\<rparr>) (''input slot '' @ show_int (int slot)) changes)"
    unfolding x prod.case
    by (rule keeps_changed_if) (simp add: show_ok_def inputs.bank_update y)
qed

lemma show_ok_output0: "show_ok s \<Longrightarrow> output_ok 0 (sh_outputs s ! 0)"
  by (auto simp: show_ok_def intro: outputs.bank_nth)

lemma show_ok_input0: "show_ok s \<Longrightarrow> input_ok 0 (sh_inputs s ! 0)"
  by (auto simp: show_ok_def intro: inputs.bank_nth)

lemma mirror_ok: "show_ok s \<Longrightarrow> show_ok (mirror_outputs s)" "show_ok s \<Longrightarrow> show_ok (mirror_inputs s)"
  using show_ok_output0 [of s]
  by (auto simp: mirror_outputs_def mirror_inputs_def show_ok_def output_ok_def Let_def)

lemma set_output_ok: "show_ok s \<Longrightarrow> output_ok 0 (f (sh_outputs s ! 0)) \<Longrightarrow> show_ok (set_output f s)"
  unfolding set_output_def show_ok_def using outputs.bank_update by auto

lemma set_input_ok: "show_ok s \<Longrightarrow> input_ok 0 (f (sh_inputs s ! 0)) \<Longrightarrow> show_ok (set_input f s)"
  unfolding set_input_def show_ok_def using inputs.bank_update by auto

lemma keeps_slots:
  "(\<And>v changes. keeps show_ok (step v changes)) \<Longrightarrow> (\<And>s. show_ok s \<Longrightarrow> show_ok (mirror s)) \<Longrightarrow>
   keeps show_ok (patch_slots message step mirror v changes)"
  unfolding patch_slots_def by (intro keeps_intro keeps_modify)

lemma audio_device_step_ok: "keeps show_ok (audio_device_step v changes)"
proof -
  have "show_ok (set_output (\<lambda>x. x\<lparr>ao_device := clean_str 96 v\<rparr>) (s\<lparr>sh_device := clean_str 96 v\<rparr>))"
    if "\<not> has_space (clean_str 96 v)" "show_ok s" for s
    using that show_ok_output0 [of s] by (intro set_output_ok) (auto simp: show_ok_def output_ok_def token_def)
  then show ?thesis unfolding audio_device_step_def Let_def sthen_sguard
    by (intro keeps_if keeps_changed_if keeps_pure) auto
qed

lemma input_device_step_ok: "keeps show_ok (input_device_step v changes)"
proof -
  have "show_ok (set_input (\<lambda>x. x\<lparr>ai_device := clean_str 96 v\<rparr>) (s\<lparr>sh_in_device := clean_str 96 v\<rparr>))"
    if "token 96 (clean_str 96 v)" "show_ok s" for s
    using that show_ok_input0 [of s] by (intro set_input_ok) (auto simp: show_ok_def input_ok_def)
  then show ?thesis unfolding input_device_step_def Let_def
    by (intro keeps_slift_bind keeps_changed_if) (blast dest: token_or_empty_token)
qed

lemma input_player_step_ok: "keeps show_ok (input_player_step v changes)"
proof -
  have "show_ok (set_input (\<lambda>x. x\<lparr>ai_player := clean_str 64 v\<rparr>) (s\<lparr>sh_in_player := clean_str 64 v\<rparr>))"
    if "show_ok s" for s
    using that show_ok_input0 [of s] by (intro set_input_ok) (auto simp: show_ok_def input_ok_def)
  then show ?thesis unfolding input_player_step_def Let_def
    by (intro keeps_sgete_bind keeps_changed_if)
qed

lemma input_route_step_ok: "keeps show_ok (input_route_step v changes)"
  unfolding input_route_step_def
proof (rule keeps_sgete_bind)
  fix x s
  assume "ebind (as_object ''audio inputRoute must be an object'' v) (\<lambda>route.
       ebind (clamped_int route ''output'' (sh_in_output s) 0 15) (\<lambda>out.
       ebind (clamped route ''gain'' (sh_in_gain s) 0 4) (\<lambda>gain. Inr (out, gain)))) = Inr x"
  then obtain out gain route where x: "x = (out, gain)" and c: "clamped_int route ''output'' (sh_in_output s) 0 15 = Inr out"
    "clamped route ''gain'' (sh_in_gain s) 0 4 = Inr gain" by (auto simp: ebind_eq_Inr)
  have r: "0 \<le> out \<and> out \<le> 15" "in_range gain 0 4" using clamped_int_range [OF c(1)] clamped_range [OF c(2)] by auto
  have "show_ok (set_input (\<lambda>x. x\<lparr>ai_output := out, ai_gain := gain\<rparr>) (s\<lparr>sh_in_output := out, sh_in_gain := gain\<rparr>))"
    if "show_ok s" for s
    using that r show_ok_input0 [of s] by (intro set_input_ok) (auto simp: show_ok_def input_ok_def)
  then show "keeps show_ok (case x of (out, gain) \<Rightarrow>
      changed_if (\<lambda>s. out \<noteq> sh_in_output s \<or> gain \<noteq> sh_in_gain s)
       (\<lambda>s. set_input (\<lambda>x. x\<lparr>ai_output := out, ai_gain := gain\<rparr>) (s\<lparr>sh_in_output := out, sh_in_gain := gain\<rparr>))
       (''input route source 24 -> output '' @ show_int out @ '' gain '' @ float_g gain) changes)"
    unfolding x prod.case by (rule keeps_changed_if)
qed

lemma sample_rate_step_ok: "keeps show_ok (sample_rate_step given v changes)"
  unfolding sample_rate_step_def
proof (rule keeps_slift_bind)
  fix rate assume "ebind (py_float v) (\<lambda>f. Inr (clamp f (Fin 8000) (Fin 768000))) = Inr rate"
  then have r: "in_range rate 8000 768000" by (auto simp: ebind_eq_Inr)
  have m: "bank_ok input_ok (map (\<lambda>x. if ai_rate x = q then x\<lparr>ai_rate := rate\<rparr> else x) xs)" if "bank_ok input_ok xs" for q xs
    using that by (rule inputs.bank_map) (auto simp: input_ok_def r)
  show "keeps show_ok (changed_if (\<lambda>s. rate \<noteq> sh_rate s)
       (\<lambda>s. s\<lparr>sh_inputs := (if given then sh_inputs s
                            else map (\<lambda>x. if ai_rate x = sh_rate s then x\<lparr>ai_rate := rate\<rparr> else x) (sh_inputs s)),
              sh_rate := rate\<rparr>)
       (''sample rate '' @ float_g rate) changes)"
    by (rule keeps_changed_if) (simp add: show_ok_def m r)
qed

lemma buffer_step_ok: "keeps show_ok (buffer_step v changes)"
  unfolding buffer_step_def using iclamp_bounds [of 16 8192]
  by (intro keeps_slift_bind keeps_changed_if) (auto simp: show_ok_def ebind_eq_Inr)

lemma ceiling_step_ok: "keeps show_ok (ceiling_step v changes)"
  unfolding ceiling_step_def
proof (rule keeps_slift_bind)
  fix level assume "ebind (py_float v) (\<lambda>f. Inr (clamp f (Fin (-24)) (Fin 0))) = Inr level"
  then have r: "in_range level (-24) 0" by (auto simp: ebind_eq_Inr)
  have "show_ok (set_output (\<lambda>x. x\<lparr>ao_ceiling := level\<rparr>) (s\<lparr>sh_ceiling := level\<rparr>))" if "show_ok s" for s
    using that r show_ok_output0 [of s] by (intro set_output_ok) (auto simp: show_ok_def output_ok_def)
  then show "keeps show_ok (changed_if (\<lambda>s. level \<noteq> sh_ceiling s)
       (\<lambda>s. set_output (\<lambda>x. x\<lparr>ao_ceiling := level\<rparr>) (s\<lparr>sh_ceiling := level\<rparr>))
       (''limiter '' @ float_g level @ '' dBFS'') changes)"
    by (rule keeps_changed_if)
qed

lemma patch_audio_ok: "keeps show_ok (patch_audio c data e er)"
  unfolding patch_audio_def
  by (rule show_ok_patch, unfold list_all_steps,
      intro conjI allI keeps_field keeps_slots patch_output_slot_ok patch_input_slot_ok mirror_ok audio_device_step_ok
        input_device_step_ok input_player_step_ok input_route_step_ok sample_rate_step_ok buffer_step_ok ceiling_step_ok) simp_all

section \<open>Recovery\<close>

lemma set_clamped_ok:
  "low \<le> high \<Longrightarrow> (\<And>f s. in_range f low high \<Longrightarrow> show_ok s \<Longrightarrow> show_ok (upd f s)) \<Longrightarrow> keeps show_ok (set_clamped d k dflt low high upd)"
  unfolding set_clamped_def by (intro keeps_slift_bind keeps_modify) (auto dest: clamped_range)

lemma or_text_ok: "dflt \<noteq> [] \<Longrightarrow> length dflt \<le> n \<Longrightarrow> or_text n v dflt \<noteq> [] \<and> length (or_text n v dflt) \<le> n"
  by (auto simp: or_text_def Let_def)

lemma in_range_finite: "in_range f lo hi \<Longrightarrow> \<exists>r. f = Fin r"
  by (cases f) (auto simp: in_range_def)

lemma restore_transport_ok: "keeps show_ok (restore_transport now hold snap)"
proof -
  have key: "or_text 12 v ''C'' \<noteq> []" "length (or_text 12 v ''C'') \<le> 12" for v
    using or_text_ok [of "''C''" 12 v] by simp_all
  show ?thesis unfolding restore_transport_def
    by (intro keeps_slift_bind keeps_sthen set_clamped_ok keeps_modify)
       (auto simp: show_ok_def key dest: in_range_finite)
qed

lemma restore_system_ok: "keeps show_ok (restore_system snap)"
proof -
  have t: "or_text 80 v ''Small Club'' \<noteq> []" "length (or_text 80 v ''Small Club'') \<le> 80"
    "or_text 80 v ''Touring Default'' \<noteq> []" "length (or_text 80 v ''Touring Default'') \<le> 80" for v
    using or_text_ok [of "''Small Club''" 80 v] or_text_ok [of "''Touring Default''" 80 v] by simp_all
  have "''safe'' \<in> set system_modes" by (simp add: system_modes_def)
  then show ?thesis unfolding restore_system_def Let_def
    by (intro keeps_slift_bind keeps_sthen set_clamped_ok keeps_modify) (auto simp: show_ok_def t)
qed

lemma restore_handoff_ok: "keeps show_ok (restore_handoff snap)"
  unfolding restore_handoff_def Let_def
  by (intro keeps_slift_bind keeps_sthen keeps_modify)
     (auto simp: show_ok_def normalize_sources_valid dest!: normalize_policy_valid live_norm.norm_valid)

lemma show_ok_updates:
  "show_ok s \<Longrightarrow> show_ok (s\<lparr>sh_tech_policy := tp\<rparr>)"
  "show_ok s \<Longrightarrow> show_ok (s\<lparr>sh_extensions := exts\<rparr>)"
  "show_ok s \<Longrightarrow> 1 \<le> n \<and> n \<le> 1000000 \<Longrightarrow> show_ok (s\<lparr>sh_participants := n\<rparr>)"
  "show_ok s \<Longrightarrow> token 96 d \<Longrightarrow> show_ok (s\<lparr>sh_device := d\<rparr>)"
  "show_ok s \<Longrightarrow> in_range f 8000 768000 \<Longrightarrow> show_ok (s\<lparr>sh_rate := f\<rparr>)"
  "show_ok s \<Longrightarrow> 16 \<le> n \<and> n \<le> 8192 \<Longrightarrow> show_ok (s\<lparr>sh_frames := n\<rparr>)"
  "show_ok s \<Longrightarrow> in_range f (-24) 0 \<Longrightarrow> show_ok (s\<lparr>sh_ceiling := f\<rparr>)"
  by (simp_all add: show_ok_def)

lemma participants_range:
  assumes "show_ok s"
    and "ecatch is_type_or_value (ebind (py_int v) (\<lambda>i. Inr (iclamp 1 1000000 i))) (Inr (sh_participants s)) = Inr n"
  shows "1 \<le> n \<and> n \<le> 1000000"
proof -
  have "1 \<le> sh_participants s \<and> sh_participants s \<le> 1000000" using assms(1) unfolding show_ok_def by blast
  with assms(2) iclamp_bounds [of 1 1000000] show ?thesis by (auto simp: ecatch_eq_Inr ebind_eq_Inr)
qed

lemma restore_technology_ok: "keeps show_ok (restore_technology snap)"
  unfolding restore_technology_def Let_def
  by (intro keeps_sthen keeps_swhen keeps_slift_bind keeps_sgete_bind keeps_modify)
     (auto intro!: show_ok_updates dest: participants_range)

lemma mirror_outputs_ok:
  "show_ok s \<Longrightarrow> bank_ok output_ok xs \<Longrightarrow> show_ok (mirror_outputs (s\<lparr>sh_outputs := xs\<rparr>))"
  by (rule mirror_ok(1)) (simp add: show_ok_def)

lemma buffer_range:
  "ecatch is_type_or_value (clamped_int a ''bufferFrames'' 256 16 8192) (Inr 256) = Inr n \<Longrightarrow> 16 \<le> n \<and> n \<le> 8192"
  using clamped_int_range [of a "''bufferFrames''" 256 16 8192] by (auto simp: ecatch_eq_Inr)

lemma device_token:
  "token 96 (if clean_str 96 v \<noteq> [] \<and> \<not> has_space (clean_str 96 v) then clean_str 96 v else ''null-audio'')"
proof (cases "clean_str 96 v \<noteq> [] \<and> \<not> has_space (clean_str 96 v)")
  case True
  then show ?thesis unfolding if_P [OF True] by (simp add: token_def)
next
  case False
  show ?thesis unfolding if_not_P [OF False] by (rule token_null)
qed

lemma restore_audio_ok: "keeps show_ok (restore_audio snap)"
  unfolding restore_audio_def Let_def
proof (intro keeps_slift_bind keeps_sthen keeps_pure keeps_modify set_clamped_ok)
  fix audio inputs frames level outs s
  let ?d = "if clean_str 96 (dgetd audio ''deviceId'' (PStr ''null-audio'')) \<noteq> [] \<and>
      \<not> has_space (clean_str 96 (dgetd audio ''deviceId'' (PStr ''null-audio'')))
    then clean_str 96 (dgetd audio ''deviceId'' (PStr ''null-audio'')) else ''null-audio''"
  assume s: "show_ok s"
  then show "show_ok (s\<lparr>sh_device := ?d\<rparr>)" by (rule show_ok_updates(4)) (rule device_token)
  show "show_ok (s\<lparr>sh_rate := f\<rparr>)" if "in_range f 8000 768000" for f
    using s that by (rule show_ok_updates(5))
  show "show_ok (s\<lparr>sh_frames := frames\<rparr>)"
    if "ecatch is_type_or_value (clamped_int audio ''bufferFrames'' 256 16 8192) (Inr 256) = Inr frames"
    using s buffer_range [OF that] by (rule show_ok_updates(6))
  assume "clamped audio ''limiterCeilingDb'' (Fin (- 1)) (- 24) 0 = Inr level"
  then have level: "in_range level (-24) 0" by (rule clamped_range) simp
  with s show "show_ok (s\<lparr>sh_ceiling := level\<rparr>)" by (rule show_ok_updates(7))
  assume "restored_outputs audio ?d level = Inr outs"
  then have "bank_ok output_ok outs" using device_token level by (rule restored_outputs_ok)
  with s show "show_ok (mirror_outputs (s\<lparr>sh_outputs := outs\<rparr>))" by (rule mirror_outputs_ok)
qed simp

lemma restore_audio_inputs: "returns (bank_ok input_ok) (restore_audio snap)"
  unfolding restore_audio_def Let_def
  by (intro returns_slift_bind returns_sthen returns_return, erule restored_inputs_ok)

lemma clamped_or_range: "clamped_or d k dflt high = Inr n \<Longrightarrow> 1 \<le> dflt \<Longrightarrow> dflt \<le> high \<Longrightarrow> 1 \<le> n \<and> n \<le> high"
  using clamped_int_range [of d k dflt 1 high n] by (auto simp: clamped_or_def ecatch_eq_Inr)

lemma restored_target_ok: "target_check (restored_target t) = Inr ()"
  by (auto simp: restored_target_def target_check_def split: sum.splits)

lemma restore_lighting_ok: "keeps show_ok (restore_lighting snap)"
  unfolding restore_lighting_def Let_def
  by (intro keeps_slift_bind keeps_sthen keeps_modify)
     (auto simp: show_ok_def restored_target_ok dest!: clamped_or_range)

lemma revision_step_ok: "keeps show_ok (revision_step v u)"
  unfolding revision_step_def by (auto split: sum.splits intro!: keeps_if keeps_pure keeps_modify simp: show_ok_def)

lemma restore_revisions_ok: "keeps show_ok (restore_revisions snap)"
  unfolding restore_revisions_def
  by (intro keeps_slift_bind keeps_sthen keeps_modify keeps_sfold revision_step_ok) (auto simp: show_ok_def)

lemma drop_unknown_length: "length p \<le> n \<Longrightarrow> length (drop_unknown players p) \<le> n"
  by (simp add: drop_unknown_def)

lemma restore_players_ok: "bank_ok input_ok inputs \<Longrightarrow> keeps show_ok (restore_players snap inputs)"
proof -
  assume i: "bank_ok input_ok inputs"
  have bi: "bank_ok input_ok (map (\<lambda>x. x\<lparr>ai_player := drop_unknown ps (ai_player x)\<rparr>) inputs)" for ps
    using i by (rule inputs.bank_map) (auto simp: input_ok_def intro: drop_unknown_length)
  have bo: "bank_ok output_ok (map (\<lambda>x. x\<lparr>ao_player := drop_unknown ps (ao_player x)\<rparr>) xs)" if "bank_ok output_ok xs" for ps xs
    using that by (rule outputs.bank_map) (auto simp: output_ok_def intro: drop_unknown_length)
  show ?thesis unfolding restore_players_def
    by (intro keeps_slift_bind keeps_sthen keeps_swhen keeps_modify mirror_ok) (auto simp: show_ok_def bi bo)
qed

lemma restore_midi_ok: "keeps show_ok (restore_midi snap)"
proof -
  have d: "length (dicts_of vs) \<le> length vs" for vs
    by (induction vs) (auto simp: dicts_of_def split: pyval.split)
  have "length (keep_last n vs) \<le> n" for n and vs :: "pyval list" by (auto simp: keep_last_def)
  with d have a: "length (dicts_of (keep_last 512 vs)) \<le> 512" for vs by (meson order_trans)
  have n: "ecatch is_type_or_value (ebind r (\<lambda>i. Inr (max 0 i))) (Inr 0) = Inr i \<Longrightarrow> 0 \<le> i" for r and i :: int
    by (auto simp: ecatch_eq_Inr ebind_eq_Inr)
  have "keeps show_ok (case v of PDict raw \<Rightarrow> smodify (\<lambda>s. s\<lparr>sh_bindings := restored_bindings (sh_players s) raw\<rparr>) | _ \<Rightarrow> sreturn ())"
    "keeps show_ok (case v of PList items \<Rightarrow> smodify (\<lambda>s. s\<lparr>sh_activity := dicts_of (keep_last 512 items)\<rparr>) | _ \<Rightarrow> sreturn ())" for v
    by (auto split: pyval.split intro!: keeps_pure keeps_modify simp: show_ok_def a)
  with n show ?thesis unfolding restore_midi_def
    by (intro keeps_slift_bind keeps_sthen keeps_modify) (auto simp: show_ok_def)
qed

lemma restore_notation_ok: "keeps show_ok (restore_notation snap)"
  unfolding restore_notation_def by (intro keeps_sgete_bind keeps_modify) (simp add: show_ok_def)

lemma restore_events_ok: "keeps show_ok (restore_events snap)"
  unfolding restore_events_def split_beta
  by (intro keeps_slift_bind keeps_modify) (simp add: show_ok_def)

lemma restore_ok: "keeps show_ok (restore now hold snap)"
  unfolding restore_def
  by (intro keeps_sthen restore_transport_ok restore_system_ok restore_handoff_ok restore_technology_ok
      keeps_sbind_returns [OF restore_audio_ok restore_audio_inputs] restore_lighting_ok restore_revisions_ok
      restore_players_ok restore_midi_ok restore_notation_ok restore_events_ok)

lemma fresh_ok: "show_ok (fresh_state now)"
proof -
  have "policy_valid default_handoff_policy" by code_simp
  with default_live_inputs_valid show ?thesis
    unfolding show_ok_def fresh_state_def
    by (auto simp: inputs.bank_init outputs.bank_init system_modes_def target_check_def sources_valid_def)
qed

lemma adopt_ok: "show_ok s \<Longrightarrow> show_ok (adopt_document doc s)"
  by (simp add: show_ok_def adopt_document_def)

lemma open_show_ok: "open_show c snapshot = Inr s \<Longrightarrow> show_ok s"
proof (cases "truthy snapshot")
  case True
  assume "open_show c snapshot = Inr s"
  with True obtain doc where "s = snd (sthen (restore (ck_now c) True (fst doc))
      (record_event c ''recovery'' ''Recovered persisted show state; transport held paused'' [])
      (adopt_document doc (fresh_state (ck_now c))))"
    unfolding open_show_def by (auto simp: ebind_eq_Inr split_beta Let_def)
  then show ?thesis using keepsD [OF keeps_sthen [OF restore_ok show_ok_event] adopt_ok [OF fresh_ok]] by simp
next
  case False
  assume "open_show c snapshot = Inr s"
  with False show ?thesis unfolding open_show_def using keeps_sexec [OF show_ok_event fresh_ok] by auto
qed

lemma apply_replica_ok: "keeps show_ok (apply_replica_snapshot c snapshot)"
  unfolding apply_replica_snapshot_def
  by (intro keeps_returning keeps_sthen keeps_slift_bind keeps_pure keeps_modify adopt_ok restore_ok)

lemma external_event_ok: "keeps show_ok (record_external_event c category t payload)"
  unfolding record_external_event_def by (intro keeps_intro)

end
