(* ===== verification/Show_History.thy ===== *)
theory Show_History
  imports Show_Invariants
begin

text \<open>
  Histories of a show: the requests a client may send, in any order and with any clock readings,
  requests that raise included, replicas and recovery.  \<open>log_ok\<close> is the audit contract of a
  request: either the revisions and the event log are as before, or the revision has grown by one and
  exactly one event was recorded under the next event id.
\<close>

section \<open>Requests\<close>

datatype show_request =
    Transport string
  | PatchShow pydict
  | PatchSystem pydict
  | PatchHandoff pydict
  | PatchTechnology pydict
  | PatchLighting pydict
  | PatchAudio pydict
  | PatchMonitor string pydict
  | BindMidi pyval string
  | UnbindMidi pyval
  | PatchNotation string pydict
  | NotationNote string pydict
  | ClearNotation string
  | IngestMidi string pydict

fun run_request :: "clock \<Rightarrow> int option \<Rightarrow> int option \<Rightarrow> show_request \<Rightarrow> (show_state, pydict) pymethod" where
  "run_request c e er (Transport action) = transport c action e er"
| "run_request c e er (PatchShow d) = patch_show c d e er"
| "run_request c e er (PatchSystem d) = patch_system c d e er"
| "run_request c e er (PatchHandoff d) = patch_handoff c d e er"
| "run_request c e er (PatchTechnology d) = patch_technology c d e er"
| "run_request c e er (PatchLighting d) = patch_lighting_network c d e er"
| "run_request c e er (PatchAudio d) = patch_audio c d e er"
| "run_request c e er (PatchMonitor pid d) = patch_monitor c pid d e er"
| "run_request c e er (BindMidi device pid) = bind_midi_device c device pid e er"
| "run_request c e er (UnbindMidi device) = unbind_midi_device c device e er"
| "run_request c e er (PatchNotation pid d) = patch_notation_settings c pid d e er"
| "run_request c e er (NotationNote pid d) = notation_note c pid d e er"
| "run_request c e er (ClearNotation pid) = clear_notation c pid e er"
| "run_request c e er (IngestMidi pid d) = ingest_midi c pid d e er"

fun request_resource :: "show_request \<Rightarrow> string" where
  "request_resource (Transport action) = ''transport''"
| "request_resource (PatchShow d) = ''show''"
| "request_resource (PatchSystem d) = ''system''"
| "request_resource (PatchHandoff d) = ''handoff''"
| "request_resource (PatchTechnology d) = ''technology''"
| "request_resource (PatchLighting d) = ''lighting-network''"
| "request_resource (PatchAudio d) = ''audio''"
| "request_resource (PatchMonitor pid d) = ''monitor:'' @ pid"
| "request_resource (BindMidi device pid) = ''midi-bindings''"
| "request_resource (UnbindMidi device) = ''midi-bindings''"
| "request_resource (PatchNotation pid d) = ''notation:'' @ pid"
| "request_resource (NotationNote pid d) = ''notation:'' @ pid"
| "request_resource (ClearNotation pid) = ''notation:'' @ pid"
| "request_resource (IngestMidi pid d) = ''midi:'' @ pid"

lemmas patch_defs = patch_show_def patch_system_def patch_handoff_def patch_technology_def patch_lighting_network_def patch_audio_def

lemmas request_defs = transport_def patch_defs patch_monitor_def bind_midi_device_def unbind_midi_device_def
  patch_notation_settings_def notation_note_def clear_notation_def ingest_midi_def

lemma request_ok: "keeps show_ok (run_request c e er r)"
  by (cases r) (simp_all add: transport_ok patch_show_ok patch_system_ok patch_handoff_ok patch_technology_ok patch_lighting_ok
      patch_audio_ok patch_monitor_ok bind_midi_ok unbind_midi_ok notation_ops_ok ingest_midi_ok)

section \<open>Reachable states\<close>

inductive show_reachable :: "show_state \<Rightarrow> bool" where
  opened: "open_show c snapshot = Inr s \<Longrightarrow> show_reachable s"
| requested: "show_reachable s \<Longrightarrow> show_reachable (sexec (run_request c e er r) s)"
| replicated: "show_reachable s \<Longrightarrow> show_reachable (sexec (apply_replica_snapshot c snapshot) s)"
| external: "show_reachable s \<Longrightarrow> show_reachable (sexec (record_external_event c category t payload) s)"
| viewed: "show_reachable s \<Longrightarrow> show_reachable (sexec (notation_snapshot pid) s)"
| exported: "show_reachable s \<Longrightarrow> show_reachable (sexec (notation_musicxml pid) s)"


definition clock0 :: clock where
  "clock0 = \<lparr>ck_now = 0, ck_event = 0, ck_wall = 0, ck_snapshot = 0\<rparr>"


section \<open>Stale requests\<close>

definition stale :: "int option \<Rightarrow> int option \<Rightarrow> show_request \<Rightarrow> show_state \<Rightarrow> bool" where
  \<comment> \<open>the expected revision of the resource, or of the whole show when none is given, is not the current one\<close>
  "stale e er r s =
     (case er of Some n \<Rightarrow> n \<noteq> dgetd (sh_resources s) (request_resource r) 1
      | None \<Rightarrow> (case e of Some n \<Rightarrow> n \<noteq> sh_revision s | None \<Rightarrow> False))"

definition conflict :: "int option \<Rightarrow> int option \<Rightarrow> show_request \<Rightarrow> show_state \<Rightarrow> pyerr" where
  "conflict e er r s =
     (case er of Some n \<Rightarrow> RevisionConflict n (dgetd (sh_resources s) (request_resource r) 1) (request_resource r)
      | None \<Rightarrow> RevisionConflict (the e) (sh_revision s) ''global'')"

lemma check_stale: "stale e er r s \<Longrightarrow> check_revision e (request_resource r) er s = (Inl (conflict e er r s), s)"
  by (auto simp: stale_def conflict_def check_revision_def Let_def split: option.splits)

lemma check_fresh: "\<not> stale e er r s \<Longrightarrow> check_revision e (request_resource r) er s = (Inr (), s)"
  by (auto simp: stale_def check_revision_def Let_def split: option.splits)

lemma request_shape: "\<exists>td m. run_request c e er r = returning c td (sthen (check_revision e (request_resource r) er) m)"
  by (cases r) (simp_all add: request_defs run_patch_def, blast+)

text \<open>
  C8. A request whose expected revision is stale, of the resource or of the whole show, raises
  \<open>RevisionConflict\<close> with the expected and the actual revision and changes nothing at all.\<close>

theorem stale_request_rejected:
  assumes "stale e er r s"
  shows "run_request c e er r s = (Inl (conflict e er r s), s)"
proof -
  obtain td m where "run_request c e er r = returning c td (sthen (check_revision e (request_resource r) er) m)"
    using request_shape by blast
  then show ?thesis by (simp add: returning_def sthen_run check_stale [OF assms])
qed

theorem stale_request_rejected_witness:
  "run_request clock0 (Some 7) None (Transport ''play'') (fresh_state 0) =
     (Inl (RevisionConflict 7 1 ''global''), fresh_state 0)"
proof -
  have "stale (Some 7) None (Transport ''play'') (fresh_state 0)" by (simp add: stale_def fresh_state_def)
  from stale_request_rejected [OF this, of clock0] show ?thesis by (simp add: conflict_def fresh_state_def)
qed

section \<open>The audit log\<close>

definition log_of :: "show_state \<Rightarrow> int \<times> (string \<times> int) list \<times> int \<times> pydict list" where
  "log_of s = (sh_revision s, sh_resources s, sh_next_event s, sh_events s)"

definition log_ok :: "show_state \<Rightarrow> show_state \<Rightarrow> bool" where
  "log_ok s s' =
     (log_of s' = log_of s \<or>
      sh_revision s' = sh_revision s + 1 \<and> sh_next_event s' = sh_next_event s + 1 \<and>
      (\<exists>ev. sh_events s' = take 100 (ev # sh_events s) \<and>
        dget ev ''eventId'' = Some (PInt (sh_next_event s)) \<and> dget ev ''revision'' = Some (PInt (sh_revision s'))))"

definition logged :: "(show_state, 'a) pymethod \<Rightarrow> bool" where
  "logged m = (\<forall>s. log_ok s (snd (m s)))"

named_theorems logged_intro \<open>rules for the audit log\<close>

lemma logged_same: "(\<And>p. keeps (\<lambda>s. log_of s = p) m) \<Longrightarrow> logged m"
  by (simp add: logged_def log_ok_def keeps_def)

lemma logged_sbind [logged_intro]:
  assumes "\<And>p. keeps (\<lambda>s. log_of s = p) m" and "\<And>x. logged (f x)"
  shows "logged (sbind m f)"
  unfolding logged_def
proof
  fix s
  obtain r s' where m: "m s = (r, s')" by fastforce
  then have l: "log_of s' = log_of s" using keepsD [OF assms(1), of s "log_of s"] by simp
  show "log_ok s (snd (sbind m f s))"
  proof (cases r)
    case (Inl e)
    then show ?thesis using m l by (simp add: sbind_run log_ok_def)
  next
    case (Inr x)
    have "log_ok s' (snd (f x s'))" using assms(2) by (simp add: logged_def)
    with l show ?thesis using m Inr by (simp add: sbind_run log_ok_def log_of_def)
  qed
qed

lemma logged_sthen [logged_intro]: "(\<And>p. keeps (\<lambda>s. log_of s = p) m) \<Longrightarrow> logged m' \<Longrightarrow> logged (sthen m m')"
  unfolding sthen_def by (intro logged_sbind)

lemma logged_swhen [logged_intro]: "logged m \<Longrightarrow> logged (swhen b m)"
  by (auto simp: swhen_def logged_def log_ok_def)

lemma logged_if [logged_intro]: "logged m \<Longrightarrow> logged m' \<Longrightarrow> logged (if b then m else m')"
  by simp

lemma logged_option [logged_intro]: "logged m \<Longrightarrow> (\<And>y. logged (f y)) \<Longrightarrow> logged (case x of None \<Rightarrow> m | Some y \<Rightarrow> f y)"
  by (cases x) auto

lemma logged_pure [logged_intro]: "logged (sreturn x)" "logged (sraise e)"
  by (simp_all add: logged_def log_ok_def)

definition audit :: "string list \<Rightarrow> clock \<Rightarrow> string \<Rightarrow> string \<Rightarrow> pydict \<Rightarrow> (show_state, unit) pymethod" where
  \<comment> \<open>the end of every request that changes something\<close>
  "audit ks c category t payload = sthen (touch_resources ks) (record_event c category t payload)"

lemma logged_audit [logged_intro]: "logged (audit ks c category t payload)"
  by (simp add: logged_def log_ok_def audit_def sthen_run touch_resources_def record_event_def event_dict_def)

lemma logged_returning [logged_intro]:
  assumes "logged m" shows "logged (returning c td m)"
  unfolding logged_def
proof
  fix s
  have "snd (returning c td m s) = snd (m s)"
    by (simp add: returning_def sthen_run split: prod.split sum.split)
  with assms show "log_ok s (snd (returning c td m s))" by (simp add: logged_def)
qed

lemma logged_commit [logged_intro]: "logged (commit c k category prefix changes)"
  unfolding commit_def touch_def audit_def [symmetric] by (intro logged_intro)

lemma logged_patch:
  assumes "\<And>p. list_all (\<lambda>f. \<forall>changes. keeps (\<lambda>s. log_of s = p) (f changes)) steps"
  shows "logged (run_patch c k category prefix e er td steps)"
  unfolding run_patch_def by (intro logged_intro keeps_check keeps_steps assms)

lemma log_of_updates [simp]:
  "log_of (s\<lparr>sh_running := b\<rparr>) = log_of s" "log_of (s\<lparr>sh_elapsed := f\<rparr>) = log_of s" "log_of (s\<lparr>sh_started := r\<rparr>) = log_of s"
  "log_of (s\<lparr>sh_bpm := f\<rparr>) = log_of s" "log_of (s\<lparr>sh_key := t\<rparr>) = log_of s" "log_of (s\<lparr>sh_capacity := f\<rparr>) = log_of s"
  "log_of (s\<lparr>sh_mode := t\<rparr>) = log_of s" "log_of (s\<lparr>sh_venue := t\<rparr>) = log_of s" "log_of (s\<lparr>sh_manager := t\<rparr>) = log_of s"
  "log_of (s\<lparr>sh_policy := po\<rparr>) = log_of s" "log_of (s\<lparr>sh_live := l\<rparr>) = log_of s" "log_of (s\<lparr>sh_sources := so\<rparr>) = log_of s"
  "log_of (s\<lparr>sh_tech_policy := tp\<rparr>) = log_of s" "log_of (s\<lparr>sh_participants := i\<rparr>) = log_of s"
  "log_of (s\<lparr>sh_extensions := ex\<rparr>) = log_of s" "log_of (s\<lparr>sh_protocol := t\<rparr>) = log_of s" "log_of (s\<lparr>sh_port := i\<rparr>) = log_of s"
  "log_of (s\<lparr>sh_target := t\<rparr>) = log_of s" "log_of (s\<lparr>sh_universe := i\<rparr>) = log_of s" "log_of (s\<lparr>sh_players := pl\<rparr>) = log_of s"
  "log_of (s\<lparr>sh_bindings := bi\<rparr>) = log_of s" "log_of (s\<lparr>sh_received := i\<rparr>) = log_of s" "log_of (s\<lparr>sh_activity := ac\<rparr>) = log_of s"
  "log_of (s\<lparr>sh_notation := no\<rparr>) = log_of s" "log_of (s\<lparr>sh_inputs := xs\<rparr>) = log_of s" "log_of (s\<lparr>sh_outputs := ys\<rparr>) = log_of s"
  "log_of (s\<lparr>sh_device := t\<rparr>) = log_of s" "log_of (s\<lparr>sh_in_device := t\<rparr>) = log_of s" "log_of (s\<lparr>sh_in_player := t\<rparr>) = log_of s"
  "log_of (s\<lparr>sh_in_output := i\<rparr>) = log_of s" "log_of (s\<lparr>sh_in_gain := f\<rparr>) = log_of s" "log_of (s\<lparr>sh_rate := f\<rparr>) = log_of s"
  "log_of (s\<lparr>sh_frames := i\<rparr>) = log_of s" "log_of (s\<lparr>sh_ceiling := f\<rparr>) = log_of s"
  by (simp_all add: log_of_def)

lemma log_of_audio [simp]:
  "log_of (mirror_outputs s) = log_of s" "log_of (mirror_inputs s) = log_of s"
  "log_of (set_input g s) = log_of s" "log_of (set_output h s) = log_of s"
  by (simp_all add: mirror_outputs_def mirror_inputs_def set_input_def set_output_def Let_def)

lemma keeps_log_modify: "(\<And>s. log_of (u s) = log_of s) \<Longrightarrow> keeps (\<lambda>s. log_of s = p) (smodify u)"
  by (simp add: keeps_def)

lemma keeps_log_changed: "(\<And>s. log_of (u s) = log_of s) \<Longrightarrow> keeps (\<lambda>s. log_of s = p) (changed u t changes)"
  by (rule keeps_changed) simp

lemma keeps_log_changed_if: "(\<And>s. log_of (u s) = log_of s) \<Longrightarrow> keeps (\<lambda>s. log_of s = p) (changed_if b u t changes)"
  by (rule keeps_changed_if) simp

lemma keeps_prod: "(\<And>x y. v = (x, y) \<Longrightarrow> keeps I (f x y)) \<Longrightarrow> keeps I (case v of (x, y) \<Rightarrow> f x y)"
  by (cases v) simp

lemmas keeps_log = conjI allI keeps_field keeps_prod keeps_log_modify keeps_log_changed keeps_log_changed_if keeps_sbind keeps_sthen
  keeps_pure keeps_if keeps_swhen keeps_option keeps_check

lemma logged_patches:
  "logged (patch_show c d e er)" "logged (patch_system c d e er)" "logged (patch_handoff c d e er)"
  "logged (patch_technology c d e er)" "logged (patch_lighting_network c d e er)"
  unfolding patch_defs Let_def patch_protocol_def name_change_def
  by (rule logged_patch, unfold list_all_steps, intro keeps_log, simp_all)+

lemma log_slots:
  assumes "\<And>v changes. keeps (\<lambda>s. log_of s = p) (step v changes)" and "\<And>s. log_of (mirror s) = log_of s"
  shows "keeps (\<lambda>s. log_of s = p) (patch_slots message step mirror v changes)"
  unfolding patch_slots_def by (intro keeps_log keeps_sfold assms)

lemma log_audio_slots:
  "keeps (\<lambda>s. log_of s = p) (patch_output_slot v changes)" "keeps (\<lambda>s. log_of s = p) (patch_input_slot v changes)"
  unfolding patch_output_slot_def patch_input_slot_def by (intro keeps_log, simp)+

lemma logged_patch_audio: "logged (patch_audio c d e er)"
  unfolding patch_audio_def audio_device_step_def input_device_step_def input_player_step_def input_route_step_def
    sample_rate_step_def buffer_step_def ceiling_step_def Let_def
  by (rule logged_patch, unfold list_all_steps, intro keeps_log log_slots log_audio_slots) simp_all

lemma log_notation:
  "keeps (\<lambda>s. log_of s = p) (on_notation m)" "keeps (\<lambda>s. log_of s = p) (find_player pid)"
  "keeps (\<lambda>s. log_of s = p) (event_seconds c d)"
  by (auto simp: keeps_def on_notation_def split_beta find_player_def event_seconds_def split: pyval.split)

lemma log_parts:
  "keeps (\<lambda>s. log_of s = p) (part_settings pid)" "keeps (\<lambda>s. log_of s = p) (capture_note pid a pitch ve se)"
  "keeps (\<lambda>s. log_of s = p) (observe_note pid mm se)"
  unfolding part_settings_def capture_note_def observe_note_def by (intro keeps_log log_notation)+

lemma logged_others:
  "logged (transport c a e er)" "logged (patch_monitor c pid d e er)" "logged (bind_midi_device c dev pid e er)"
  "logged (unbind_midi_device c dev e er)"
  "logged (notation_note c pid d e er)" "logged (clear_notation c pid e er)" "logged (ingest_midi c pid d e er)"
  unfolding request_defs transport_action_def transport_event_def touch_def audit_def [symmetric] Let_def split_beta
  by (intro logged_intro keeps_log log_notation log_parts; simp)+

text \<open>Changing notation settings touches the resource before it reads the settings back for the event.\<close>

definition unaudited :: "show_state \<Rightarrow> show_state \<Rightarrow> bool" where
  "unaudited s s' = (sh_revision s' = sh_revision s + 1 \<and> sh_next_event s' = sh_next_event s \<and> sh_events s' = sh_events s)"

lemma run_after:
  assumes "\<And>p. keeps (\<lambda>s. log_of s = p) m"
    and "\<And>x s'. log_of s' = log_of s \<Longrightarrow> Q (f x s')" and "\<And>e s'. log_of s' = log_of s \<Longrightarrow> Q (Inl e, s')"
  shows "Q (sbind m f s)"
proof -
  obtain r s' where m: "m s = (r, s')" by fastforce
  then have "log_of s' = log_of s" using keepsD [OF assms(1), of s "log_of s"] by simp
  with m assms(2,3) show ?thesis by (cases r) (auto simp: sbind_run)
qed

definition audit_outcome :: "show_state \<Rightarrow> (pyerr + 'a) \<times> show_state \<Rightarrow> bool" where
  "audit_outcome s out = (log_ok s (snd out) \<or> isl (fst out) \<and> unaudited s (snd out))"

lemma audit_outcome_cong: "log_of s' = log_of s \<Longrightarrow> audit_outcome s' = audit_outcome s"
  by (auto simp: audit_outcome_def fun_eq_iff log_ok_def unaudited_def log_of_def)

lemma audit_outcome_same: "log_of s' = log_of s \<Longrightarrow> audit_outcome s (r, s')"
  by (simp add: audit_outcome_def log_ok_def)

lemma patch_notation_audit: "audit_outcome s (patch_notation_settings c pid d e er s)"
proof -
  define k where "k = ''notation:'' @ pid"
  let ?rec = "\<lambda>p settings. record_event c ''notation'' (pl_name p @ '' notation settings updated; performance capture preserved'')
          [(''playerId'', PStr pid), (''settings'', PDict (settings_dict settings))]"
  let ?snap = "sgete (show_snapshot (ck_snapshot c) False False)"
  let ?tail = "\<lambda>p. sthen (touch k) (sbind (part_settings pid) (\<lambda>st. sthen (?rec p st) ?snap))"
  have tail: "audit_outcome s (?tail p s)" for p s
  proof -
    obtain t where t: "touch k s = (Inr (), t)" by (simp add: touch_def touch_resources_def)
    have "audit_outcome s (sbind (part_settings pid) (\<lambda>st. sthen (?rec p st) ?snap) t)"
    proof (rule run_after [OF log_parts(1)])
      fix st s' assume "log_of s' = log_of t"
      then have "log_ok s (snd (?rec p st s'))" using t
        by (auto simp: log_ok_def record_event_def event_dict_def log_of_def touch_def touch_resources_def)
      then show "audit_outcome s (sthen (?rec p st) ?snap s')"
        by (simp add: audit_outcome_def sthen_run record_event_def)
    next
      fix err s' assume "log_of s' = log_of t"
      then show "audit_outcome s (Inl err, s')" using t
        by (auto simp: audit_outcome_def unaudited_def log_of_def touch_def touch_resources_def)
    qed
    then show ?thesis by (simp add: sthen_run [of "touch k"] t)
  qed
  have "audit_outcome s (sbind (check_revision e k er) (\<lambda>_. sbind (find_player pid) (\<lambda>p.
      sbind (on_notation (registry_patch pid (PDict d))) (\<lambda>_. ?tail p))) s)"
  proof (rule run_after [OF keeps_check])
    fix u s1 assume 1: "log_of s1 = log_of s"
    show "audit_outcome s (sbind (find_player pid) (\<lambda>p. sbind (on_notation (registry_patch pid (PDict d))) (\<lambda>_. ?tail p)) s1)"
    proof (rule run_after [OF log_notation(2)])
      fix p s2 assume 2: "log_of s2 = log_of s1"
      show "audit_outcome s (sbind (on_notation (registry_patch pid (PDict d))) (\<lambda>_. ?tail p) s2)"
      proof (rule run_after [OF log_notation(1)])
        fix u s3 assume "log_of s3 = log_of s2"
        with 1 2 have "log_of s3 = log_of s" by simp
        then show "audit_outcome s (?tail p s3)" using tail [of s3 p] by (simp only: audit_outcome_cong [of s3 s])
      qed (use 1 2 in \<open>simp add: audit_outcome_same\<close>)
    qed (use 1 in \<open>simp add: audit_outcome_same\<close>)
  qed (simp add: audit_outcome_same)
  then show ?thesis
    unfolding patch_notation_settings_def returning_def sbind_assoc k_def by (simp only: sthen_def)
qed

text \<open>
  C4. Every change a client makes is audited: a request, whether it returns or raises, leaves the
  revision, the resource revisions and the event log as they were, or grows the revision by exactly
  one and records exactly one event, which carries the next event id and the new revision.  The
  only exception is a change of notation settings that raises while the settings are read back: it
  has grown the revision without an event.\<close>

theorem requests_are_audited:
  "log_ok s (sexec (run_request c e er r) s) \<or>
     (\<exists>pid d. r = PatchNotation pid d) \<and> isl (sresult (run_request c e er r) s) \<and> unaudited s (sexec (run_request c e er r) s)"
proof (cases "\<exists>pid d. r = PatchNotation pid d")
  case True
  then show ?thesis using patch_notation_audit unfolding audit_outcome_def sexec_def sresult_def by fastforce
next
  case False
  then have "logged (run_request c e er r)"
    by (cases r) (simp_all add: logged_patches logged_patch_audio logged_others)
  then show ?thesis by (simp add: logged_def sexec_def)
qed

section \<open>The transport clock\<close>

lemma touch_event_clock: "clock_seconds now (snd (transport_event c a t s)) = clock_seconds now s"
  by (simp add: transport_event_def sthen_run touch_def touch_resources_def record_event_def clock_seconds_def)

lemma transport_run:
  assumes "check_revision e ''transport'' er s = (Inr (), s)"
  shows "sexec (transport c a e er) s = snd (transport_action c (strip (py_lower a)) s)"
  using assms by (simp add: sexec_def transport_def returning_def sthen_run split: prod.split sum.split)

text \<open>
  The show clock of an accepted transport command: play and pause do not make it jump, whether
  or not the show was already running, and stop and rewind set it to zero; while the show runs the
  clock advances with the monotonic clock, and it stands still otherwise.\<close>

theorem transport_clock:
  assumes "\<not> stale e er (Transport a) s" and "show_ok s"
  shows "let s' = sexec (transport c a e er) s; act = strip (py_lower a); now = ck_now c in
     (act \<in> {''play'', ''pause''} \<longrightarrow> clock_seconds now s' = clock_seconds now s) \<and>
     (act \<in> {''stop'', ''rewind''} \<longrightarrow> clock_seconds now s' = Fin 0) \<and>
     (act \<in> {''play'', ''pause'', ''stop''} \<longrightarrow> sh_running s' = (act = ''play'')) \<and>
     (act = ''rewind'' \<longrightarrow> sh_running s' = sh_running s) \<and>
     (act \<notin> {''play'', ''pause'', ''stop'', ''rewind''} \<longrightarrow> s' = s \<and> isl (sresult (transport c a e er) s)) \<and>
     (\<forall>d. clock_seconds (now + d) s' = (if sh_running s' then fadd (clock_seconds now s') (Fin d) else clock_seconds now s'))"
proof -
  obtain q where q: "sh_elapsed s = Fin q" using assms(2) by (auto simp: show_ok_def)
  define act where "act = strip (py_lower a)"
  let ?s = "snd (transport_action c act s)"
  have chk: "check_revision e ''transport'' er s = (Inr (), s)" using check_fresh [OF assms(1)] by simp
  have s': "sexec (transport c a e er) s = ?s" using transport_run [OF chk] by (simp add: act_def)
  have fin: "\<exists>q. sh_elapsed ?s = Fin q"
    using q by (auto simp: transport_action_def method_run transport_event_def touch_def touch_resources_def record_event_def clock_seconds_def)
  note run = transport_action_def method_run transport_event_def touch_def touch_resources_def record_event_def clock_seconds_def
  have "clock_seconds (ck_now c) ?s = clock_seconds (ck_now c) s" if "act \<in> {''play'', ''pause''}"
    using that q by (auto simp: run)
  moreover have "clock_seconds (ck_now c) ?s = Fin 0" if "act \<in> {''stop'', ''rewind''}"
    using that by (auto simp: run)
  moreover have "sh_running ?s = (act = ''play'')" if "act \<in> {''play'', ''pause'', ''stop''}"
    using that by (auto simp: run)
  moreover have "sh_running ?s = sh_running s" if "act = ''rewind''"
    using that by (auto simp: run)
  moreover have "?s = s \<and> isl (sresult (transport c a e er) s)" if "act \<notin> {''play'', ''pause'', ''stop'', ''rewind''}"
    using that chk by (simp add: transport_def returning_def sresult_def sthen_run act_def [symmetric] transport_action_def)
  moreover have "clock_seconds (ck_now c + d) ?s = (if sh_running ?s then fadd (clock_seconds (ck_now c) ?s) (Fin d) else clock_seconds (ck_now c) ?s)" for d
    using fin by (auto simp: clock_seconds_def)
  ultimately show ?thesis unfolding Let_def s' act_def [symmetric] by blast
qed

theorem transport_clock_witness:
  "let c = \<lparr>ck_now = 5, ck_event = 5, ck_wall = 0, ck_snapshot = 5\<rparr>; s' = sexec (transport c ''play'' None None) (fresh_state 0) in
     clock_seconds 8 s' = Fin 3 \<and> sh_running s'"
proof -
  let ?c = "\<lparr>ck_now = 5, ck_event = 5, ck_wall = 0, ck_snapshot = 5\<rparr>"
  have a: "strip (py_lower ''play'') = ''play''" by code_simp
  define s' where "s' = sexec (transport ?c ''play'' None None) (fresh_state 0)"
  have "\<not> stale None None (Transport ''play'') (fresh_state 0)" by (simp add: stale_def)
  note t = transport_clock [OF this fresh_ok, of ?c, unfolded Let_def a, folded s'_def]
  have "clock_seconds 5 s' = Fin 0"
    using t [THEN conjunct1] by (simp add: clock_seconds_def fresh_state_def)
  moreover have "sh_running s'" using t [THEN conjunct2, THEN conjunct2, THEN conjunct1] by simp
  moreover have "clock_seconds (ck_now ?c + 3) s' =
      (if sh_running s' then fadd (clock_seconds (ck_now ?c) s') (Fin 3) else clock_seconds (ck_now ?c) s')"
    by (rule t [THEN conjunct2, THEN conjunct2, THEN conjunct2, THEN conjunct2, THEN conjunct2, THEN spec])
  ultimately show ?thesis unfolding Let_def s'_def [symmetric] by simp
qed

section \<open>What a refused request may leave behind\<close>

text \<open>
  A refused patch is not rolled back: a system patch that sets the capacity and then names an
  unknown mode raises, and the capacity has changed under the old revision and without an event.
  This holds in every state and for every capacity.\<close>

theorem refused_patch_leaves_change:
  "patch_system c [(''capacity'', PFloat f), (''mode'', PStr ''panic'')] None None s =
     (Inl mode_error, s\<lparr>sh_capacity := clamp f (Fin 0) (Fin 100)\<rparr>)"
proof -
  have "strip (py_lower (py_str (PStr ''panic''))) \<notin> set system_modes" by code_simp
  then show ?thesis
    by (simp add: patch_system_def run_patch_def returning_def method_run check_revision_def patch_field_def
        din_def changed_def Let_def dgetn_def dgetd_def)
qed

text \<open>
  A MIDI note-off that matches no sounding note is refused by the notation observer before the
  message is counted and journalled: the received counter and the activity list are as before.\<close>

theorem unmatched_note_off_is_dropped:
  "let m = ingest_midi clock0 ''alex'' [(''status'', PInt 128), (''data1'', PInt 60)] None None; s = fresh_state 0 in
     sresult m s = Inl (ValueError ''no active note for pitch 60'') \<and> sh_received (sexec m s) = 0 \<and> sh_activity (sexec m s) = []"
  by code_simp

definition bad_replica :: pyval where
  "bad_replica = PDict [(''apiVersion'', PInt 1), (''revision'', PInt 9),
     (''transport'', PDict [(''bpm'', PInt 200)]), (''system'', PDict [(''capacity'', PList [])])]"

text \<open>
  A replica is not applied atomically: a document whose \<open>system\<close> section raises has already set
  the tempo of its \<open>transport\<close> section, while the revision is still the old one.\<close>

theorem replica_half_applied:
  "let m = apply_replica_snapshot clock0 bad_replica; s = fresh_state 0 in
     isl (sresult m s) \<and> sh_bpm (sexec m s) = Fin 200 \<and> sh_bpm s = Fin 120 \<and> sh_revision (sexec m s) = 1"
proof -
  let ?t = "[(''bpm'', PInt 200)]" and ?y = "[(''capacity'', PList [])]"
  define doc where "doc = projr (migrate_show_state bad_replica)"
  have "\<not> isl (migrate_show_state bad_replica)" by code_simp
  then have doc: "migrate_show_state bad_replica = Inr doc" by (simp add: doc_def)
  have d: "replica_revision (fst doc) = Inr 9" "sub_dict (fst doc) ''transport'' = Inr ?t" "sub_dict (fst doc) ''system'' = Inr ?y"
    "is_dict bad_replica"
    unfolding doc_def by code_simp+
  have v: "clamped ?t ''seconds'' (Fin 0) 0 604800 = Inr (Fin 0)" "clamped ?t ''bpm'' (Fin 120) 30 300 = Inr (Fin 200)"
    "isl (clamped ?y ''capacity'' (Fin 78) 0 100)"
    by code_simp+
  then obtain err where err: "clamped ?y ''capacity'' (Fin 78) 0 100 = Inl err" by (auto simp: isl_def)
  have r: "sh_revision (fresh_state 0) = 1" "sh_bpm (fresh_state 0) = Fin 120" by (simp_all add: fresh_state_def)
  have "\<exists>s'. apply_replica_snapshot clock0 bad_replica (fresh_state 0) = (Inl err, s') \<and> sh_bpm s' = Fin 200 \<and> sh_revision s' = 1"
    by (simp add: apply_replica_snapshot_def returning_def method_run doc d restore_def restore_transport_def restore_system_def
        set_clamped_def v err r adopt_document_def)
  with r show ?thesis by (auto simp: sresult_def sexec_def)
qed

lemma infinite_note_breaks_snapshot:
  "let s = sexec (notation_note clock0 ''alex'' [(''action'', PStr ''on''), (''pitch'', PInt 60), (''showTimeSeconds'', PFloat PInf)] None None)
       (fresh_state 0);
       s' = sexec (notation_note clock0 ''alex'' [(''action'', PStr ''off''), (''pitch'', PInt 60), (''showTimeSeconds'', PFloat PInf)] None None) s in
     isl (show_snapshot 0 False False s')"
  by code_simp

end
