(* ===== verification/Authority_Leases.thy ===== *)
theory Authority_Leases
  imports Py_Monad "HOL-Library.Multiset"
begin

text \<open>
  \<^verbatim>\<open>src/backend/authority_leases.py\<close>: leases by which an operator owns a patch, a department or a
  resource for a while.  Readings of the clocks and the fresh identifier of a lease are arguments.
  A lease of a scope that is granted anew revokes the active one, so a scope has at most one owner.
\<close>

section \<open>Leases\<close>

datatype revocation = Replaced string | Revoked "string option" | Unattributed

record authority_lease =
  al_id :: string
  al_kind :: string
  al_scope :: string
  al_context :: string
  al_grantee :: string
  al_granted_by :: string
  al_reason :: string
  al_issued :: string
  al_ttl :: pyfloat
  al_expires :: pyfloat
  al_revocation :: "(string \<times> revocation) option"

type_synonym lease_registry = "(string \<times> authority_lease) list"

definition scope_kinds :: "string list" where
  "scope_kinds = [''patch'', ''department'', ''resource'']"

definition lease_contexts :: "string list" where
  "lease_contexts = [''venue'', ''runtime'']"

definition context_error :: pyerr where
  "context_error = ValueError ''authority lease context must be venue or runtime''"

text \<open>The readings of one call: the monotonic clock when leases are tested (one reading for all tests of the
  call), when the new lease is issued and when the answer is made, and the wall clock as text.\<close>

record lease_clock =
  lk_test :: rat
  lk_issue :: rat
  lk_answer :: rat
  lk_stamp :: string

definition lease_active :: "rat \<Rightarrow> authority_lease \<Rightarrow> bool" where
  "lease_active now l = (al_revocation l = None \<and> flt (Fin now) (al_expires l))"

definition lease_clean :: "pyval \<Rightarrow> nat \<Rightarrow> pyerr + string" where
  "lease_clean v limit =
     (let t = clean_str limit (por v (PStr [])) in
      if list_ex (\<lambda>c. ord_of c < 32 \<or> ord_of c = 127) t
      then Inl (ValueError ''authority lease identifiers cannot contain control characters'') else Inr t)"

definition clear_leases :: "(lease_registry, unit) pymethod" where
  "clear_leases = smodify (\<lambda>_. [])"

definition revoke_with :: "string \<Rightarrow> revocation \<Rightarrow> authority_lease \<Rightarrow> authority_lease" where
  "revoke_with stamp r l = l\<lparr>al_revocation := Some (stamp, r)\<rparr>"

definition revoke_where :: "(authority_lease \<Rightarrow> bool) \<Rightarrow> string \<Rightarrow> revocation \<Rightarrow> lease_registry \<Rightarrow> lease_registry" where
  "revoke_where p stamp r = map (\<lambda>(k, l). (k, if p l then revoke_with stamp r l else l))"

definition clear_context :: "lease_clock \<Rightarrow> pyval \<Rightarrow> (lease_registry, int) pymethod" where
  "clear_context c context0 =
     (let context = py_lower (strip (py_str context0));
          hit = (\<lambda>l. al_context l = context \<and> lease_active (lk_test c) l) in
      sthen (sguard (context \<in> set lease_contexts) context_error)
     (sbind (sgets (\<lambda>reg. int (length (filter (hit \<circ> snd) reg)))) (\<lambda>cleared.
      sthen (smodify (revoke_where hit (lk_stamp c) (Revoked (Some ''context-change'')))) (sreturn cleared))))"

section \<open>Views\<close>

record lease_report =
  lv_lease :: authority_lease
  lv_active :: bool
  lv_remaining :: pyfloat

definition public_lease :: "rat \<Rightarrow> authority_lease \<Rightarrow> lease_report" where
  "public_lease now l =
     (let remaining = fmax (Fin 0) (fsub (al_expires l) (Fin now)) in
      \<lparr>lv_lease = l, lv_active = (al_revocation l = None \<and> flt (Fin 0) remaining), lv_remaining = fround 3 remaining\<rparr>)"

definition text_or_none :: "string \<Rightarrow> pyval" where
  "text_or_none t = (if t = [] then PNone else PStr t)"

definition revocation_dict :: "string \<times> revocation \<Rightarrow> pydict" where
  "revocation_dict x =
     (''revokedAt'', PStr (fst x)) #
     (case snd x of Replaced i \<Rightarrow> [(''replacedBy'', PStr i)]
      | Revoked b \<Rightarrow> [(''revokedBy'', case b of Some t \<Rightarrow> PStr t | None \<Rightarrow> PNone)]
      | Unattributed \<Rightarrow> [])"

definition view_dict :: "lease_report \<Rightarrow> pydict" where
  "view_dict v =
     (let l = lv_lease v in
      [(''leaseId'', PStr (al_id l)), (''scopeKind'', PStr (al_kind l)), (''scope'', PStr (al_scope l)), (''context'', PStr (al_context l)),
       (''grantee'', PStr (al_grantee l)), (''grantedBy'', text_or_none (al_granted_by l)), (''reason'', text_or_none (al_reason l)),
       (''issuedAt'', PStr (al_issued l)), (''ttlSeconds'', PFloat (al_ttl l)), (''revoked'', PBool (al_revocation l \<noteq> None))] @
      (case al_revocation l of None \<Rightarrow> [] | Some x \<Rightarrow> revocation_dict x) @
      [(''active'', PBool (lv_active v)), (''remainingSeconds'', PFloat (lv_remaining v))])"

text \<open>Newest first; leases issued at the same time keep their order.\<close>

definition lease_views :: "rat \<Rightarrow> lease_registry \<Rightarrow> lease_report list" where
  "lease_views now reg = rev (sort_key (al_issued \<circ> lv_lease) (rev (map (public_lease now \<circ> snd) reg)))"

definition active_views :: "rat \<Rightarrow> lease_registry \<Rightarrow> lease_report list" where
  "active_views now reg = filter lv_active (lease_views now reg)"

definition lease_snapshot :: "rat \<Rightarrow> lease_registry \<Rightarrow> pydict" where
  "lease_snapshot now reg =
     [(''leases'', PList (map (PDict \<circ> view_dict) (lease_views now reg))),
      (''active'', PList (map (PDict \<circ> view_dict) (active_views now reg))),
      (''activeByKind'', PDict (map (\<lambda>k. (k, PList (map (PDict \<circ> view_dict) (filter (\<lambda>v. al_kind (lv_lease v) = k) (active_views now reg)))))
         (sort scope_kinds)))]"

section \<open>Operations\<close>

record lease_request =
  lr_kind :: string
  lr_scope :: string
  lr_context :: string
  lr_grantee :: string
  lr_granted_by :: string
  lr_reason :: string
  lr_ttl :: pyfloat

definition read_request :: "pydict \<Rightarrow> pyerr + lease_request" where
  "read_request data =
     ebind (lease_clean (dgetn data ''scope'') 160) (\<lambda>scope.
     ebind (lease_clean (dgetn data ''grantee'') 160) (\<lambda>grantee.
     ebind (lease_clean (dgetn data ''grantedBy'') 160) (\<lambda>granted_by.
     ebind (lease_clean (dgetn data ''reason'') 320) (\<lambda>reason.
     ebind (lease_clean (dgetd data ''scopeKind'' (PStr ''department'')) 24) (\<lambda>kind0.
     ebind (lease_clean (dgetd data ''context'' (PStr ''venue'')) 24) (\<lambda>context0.
     let kind = py_lower kind0; context = py_lower context0 in
     ebind (eguard (scope \<noteq> [] \<and> grantee \<noteq> []) (ValueError ''authority lease requires scope and grantee'')) (\<lambda>_.
     ebind (eguard (kind \<in> set scope_kinds) (ValueError ''authority lease scopeKind must be patch, department, or resource'')) (\<lambda>_.
     ebind (eguard (context \<in> set lease_contexts) context_error) (\<lambda>_.
     ebind (ecatch is_type_or_value (get_float data ''ttlSeconds'' (PFloat (Fin 300))) (Inl (ValueError ''ttlSeconds must be numeric''))) (\<lambda>ttl.
     Inr \<lparr>lr_kind = kind, lr_scope = scope, lr_context = context, lr_grantee = grantee, lr_granted_by = granted_by,
          lr_reason = reason, lr_ttl = clamp ttl (Fin 1) (Fin 43200)\<rparr>))))))))))"

definition new_lease :: "lease_clock \<Rightarrow> string \<Rightarrow> lease_request \<Rightarrow> authority_lease" where
  "new_lease c lease_id r =
     \<lparr>al_id = lease_id, al_kind = lr_kind r, al_scope = lr_scope r, al_context = lr_context r, al_grantee = lr_grantee r,
      al_granted_by = lr_granted_by r, al_reason = lr_reason r, al_issued = lk_stamp c, al_ttl = lr_ttl r,
      al_expires = fadd (Fin (lk_issue c)) (lr_ttl r), al_revocation = None\<rparr>"

definition conflicting :: "rat \<Rightarrow> lease_request \<Rightarrow> authority_lease \<Rightarrow> bool" where
  "conflicting now r l = (al_kind l = lr_kind r \<and> al_scope l = lr_scope r \<and> lease_active now l)"

definition grant_lease :: "lease_clock \<Rightarrow> string \<Rightarrow> pydict \<Rightarrow> (lease_registry, lease_report) pymethod" where
  "grant_lease c lease_id data =
     sbind (slift (read_request data)) (\<lambda>r.
     sthen (smodify (revoke_where (conflicting (lk_test c) r) (lk_stamp c) (Replaced lease_id)))
    (sthen (smodify (\<lambda>reg. dset reg lease_id (new_lease c lease_id r)))
     (sreturn (public_lease (lk_answer c) (new_lease c lease_id r)))))"

definition set_revocation :: "string \<Rightarrow> string \<Rightarrow> revocation \<Rightarrow> (lease_registry, unit) pymethod" where
  "set_revocation lease_id stamp r =
     smodify (\<lambda>reg. case dget reg lease_id of Some l \<Rightarrow> dset reg lease_id (revoke_with stamp r l) | None \<Rightarrow> reg)"

text \<open>A requester with control characters is refused after the lease has been marked.\<close>

definition revoke_lease :: "lease_clock \<Rightarrow> string \<Rightarrow> pyval \<Rightarrow> (lease_registry, lease_report) pymethod" where
  "revoke_lease c lease_id requested_by =
     sbind (sgete (\<lambda>reg. dindex reg lease_id)) (\<lambda>l.
     sthen (swhen (al_revocation l = None)
        (sthen (set_revocation lease_id (lk_stamp c) Unattributed)
        (sbind (slift (lease_clean requested_by 160)) (\<lambda>who.
         set_revocation lease_id (lk_stamp c) (Revoked (if who = [] then None else Some who))))))
     (sgete (\<lambda>reg. ebind (dindex reg lease_id) (\<lambda>l'. Inr (public_lease (lk_answer c) l')))))"

definition authority_map :: "rat \<Rightarrow> lease_registry \<Rightarrow> (string \<times> string) list" where
  "authority_map now reg =
     fold (\<lambda>v acc. if al_kind (lv_lease v) \<in> {''patch'', ''department''} then dset acc (al_scope (lv_lease v)) (al_grantee (lv_lease v)) else acc)
       (rev (active_views now reg)) []"

definition owner_of :: "lease_report list \<Rightarrow> string \<Rightarrow> string \<Rightarrow> string option" where
  "owner_of active kind scope =
     (if scope = [] then None
      else map_option (al_grantee \<circ> lv_lease) (find (\<lambda>v. al_kind (lv_lease v) = kind \<and> al_scope (lv_lease v) = scope) active))"

definition resolve_authority :: "rat \<Rightarrow> pyval \<Rightarrow> pyval \<Rightarrow> string option \<Rightarrow> lease_registry \<Rightarrow> pyerr + string option" where
  "resolve_authority now resource0 department0 fallback reg =
     ebind (lease_clean resource0 160) (\<lambda>resource.
     ebind (lease_clean department0 160) (\<lambda>department.
     let active = active_views now reg in
     Inr (case owner_of active ''resource'' resource of
            Some g \<Rightarrow> Some g
          | None \<Rightarrow> (case owner_of active ''department'' department of Some g \<Rightarrow> Some g | None \<Rightarrow> fallback))))"

section \<open>A scope has one owner\<close>

definition scope_of :: "authority_lease \<Rightarrow> string \<times> string" where
  "scope_of l = (al_kind l, al_scope l)"

definition exclusive_scopes :: "rat \<Rightarrow> lease_registry \<Rightarrow> bool" where
  "exclusive_scopes now reg =
     (dwf reg \<and> (\<forall>i l j m. dget reg i = Some l \<and> dget reg j = Some m \<and> lease_active now l \<and> lease_active now m \<and>
        scope_of l = scope_of m \<longrightarrow> i = j))"

text \<open>What a registry goes through: time passes and calls are made, those that raise included.\<close>

inductive lease_reach :: "rat \<Rightarrow> lease_registry \<Rightarrow> bool" where
  start: "lease_reach now []"
| later: "lease_reach now reg \<Longrightarrow> now \<le> now' \<Longrightarrow> lease_reach now' reg"
| granted: "lease_reach (lk_test c) reg \<Longrightarrow> lk_test c \<le> lk_issue c \<Longrightarrow> lease_reach (lk_issue c) (sexec (grant_lease c i data) reg)"
| revoked: "lease_reach now reg \<Longrightarrow> lease_reach now (sexec (revoke_lease c i who) reg)"
| cleared: "lease_reach now reg \<Longrightarrow> lease_reach now (sexec clear_leases reg)"
| context_left: "lease_reach now reg \<Longrightarrow> lease_reach now (sexec (clear_context c v) reg)"

lemma active_earlier: "lease_active now' l \<Longrightarrow> now \<le> now' \<Longrightarrow> lease_active now l"
  by (cases "al_expires l") (auto simp: lease_active_def)

lemma revoke_with_simps [simp]: "lease_active now (revoke_with stamp r l) = False" "scope_of (revoke_with stamp r l) = scope_of l"
  by (simp_all add: lease_active_def revoke_with_def scope_of_def)

lemma dget_revoke_where: "dget (revoke_where p stamp r reg) i = map_option (\<lambda>l. if p l then revoke_with stamp r l else l) (dget reg i)"
  unfolding revoke_where_def by (rule dget_map_snd)

lemma dwf_revoke_where: "dwf (revoke_where p stamp r reg) = dwf reg"
  by (simp add: dwf_def dkeys_def revoke_where_def comp_def split_beta)

lemma scopes_later: "exclusive_scopes now reg \<Longrightarrow> now \<le> now' \<Longrightarrow> exclusive_scopes now' reg"
  unfolding exclusive_scopes_def by (meson active_earlier)

lemma scopes_revoke_where: "exclusive_scopes now reg \<Longrightarrow> exclusive_scopes now (revoke_where p stamp r reg)"
  unfolding exclusive_scopes_def dget_revoke_where dwf_revoke_where by (auto split: if_splits)

lemma scopes_set_revocation: "exclusive_scopes now reg \<Longrightarrow> exclusive_scopes now (sexec (set_revocation i stamp r) reg)"
  by (auto simp: exclusive_scopes_def sexec_def set_revocation_def split: option.splits if_splits)

lemma keeps_set_revocation: "keeps (exclusive_scopes now) (set_revocation i stamp r)"
  using scopes_set_revocation by (simp add: keeps_def sexec_def)

lemma revoke_lease_ok: "keeps (exclusive_scopes now) (revoke_lease c i who)"
  unfolding revoke_lease_def by (intro keeps_intro keeps_set_revocation)

lemma clear_context_ok: "keeps (exclusive_scopes now) (clear_context c v)"
  unfolding clear_context_def Let_def by (intro keeps_intro keeps_modify scopes_revoke_where)

lemma grant_scopes:
  assumes "exclusive_scopes (lk_test c) reg" and "lk_test c \<le> lk_issue c"
  shows "exclusive_scopes (lk_issue c) (sexec (grant_lease c i data) reg)"
proof (cases "read_request data")
  case (Inl e)
  with assms show ?thesis by (simp add: sexec_def grant_lease_def sbind_run scopes_later)
next
  case (Inr r)
  let ?reg = "revoke_where (conflicting (lk_test c) r) (lk_stamp c) (Replaced i) reg"
  have run: "sexec (grant_lease c i data) reg = dset ?reg i (new_lease c i r)"
    using Inr by (simp add: sexec_def grant_lease_def method_run)
  have ex: "exclusive_scopes (lk_issue c) ?reg"
    using assms by (intro scopes_later [OF scopes_revoke_where])
  have free: "scope_of m \<noteq> scope_of (new_lease c i r)" if "dget ?reg j = Some m" "lease_active (lk_issue c) m" for j m
  proof
    assume s: "scope_of m = scope_of (new_lease c i r)"
    from that(1) obtain l where l: "m = (if conflicting (lk_test c) r l then revoke_with (lk_stamp c) (Replaced i) l else l)"
      by (auto simp: dget_revoke_where)
    with that(2) have m: "m = l" "\<not> conflicting (lk_test c) r l" by (auto split: if_splits)
    moreover have "lease_active (lk_test c) l" using that(2) m(1) assms(2) by (auto intro: active_earlier)
    ultimately show False using s by (simp add: conflicting_def scope_of_def new_lease_def)
  qed
  show ?thesis unfolding run exclusive_scopes_def
  proof (intro conjI allI impI)
    show "dwf (dset ?reg i (new_lease c i r))" using ex by (simp add: exclusive_scopes_def)
  next
    fix j l k m
    assume "dget (dset ?reg i (new_lease c i r)) j = Some l \<and> dget (dset ?reg i (new_lease c i r)) k = Some m \<and>
      lease_active (lk_issue c) l \<and> lease_active (lk_issue c) m \<and> scope_of l = scope_of m"
    with ex free show "j = k" unfolding exclusive_scopes_def by (auto split: if_splits)
  qed
qed

lemma reach_scopes: "lease_reach now reg \<Longrightarrow> exclusive_scopes now reg"
proof (induction rule: lease_reach.induct)
  case (start now)
  show ?case by (simp add: exclusive_scopes_def)
next
  case (later now reg now')
  from later.IH later.hyps(2) show ?case by (rule scopes_later)
next
  case (granted c reg i data)
  then show ?case by (intro grant_scopes)
next
  case (revoked now reg c i who)
  from revoked.IH show ?case by (rule keeps_sexec [OF revoke_lease_ok])
next
  case (cleared now reg)
  show ?case by (simp add: sexec_def clear_leases_def exclusive_scopes_def)
next
  case (context_left now reg c v)
  from context_left.IH show ?case by (rule keeps_sexec [OF clear_context_ok])
qed

lemma public_active: "lv_active (public_lease now l) = lease_active now l"
  by (cases "al_expires l") (auto simp: public_lease_def lease_active_def fsub_def fmax_def Let_def)

lemma public_lease_lease [simp]: "lv_lease (public_lease now l) = l"
  by (simp add: public_lease_def Let_def)

lemma active_views_mset: "mset (map lv_lease (active_views now reg)) = mset (filter (lease_active now) (map snd reg))"
proof -
  have "filter lv_active (map (public_lease now \<circ> snd) reg) = map (public_lease now) (filter (lease_active now) (map snd reg))"
    by (simp add: filter_map comp_def public_active)
  then have "mset (active_views now reg) = mset (map (public_lease now) (filter (lease_active now) (map snd reg)))"
    by (metis active_views_def lease_views_def mset_filter mset_rev mset_sort)
  then have "mset (map lv_lease (active_views now reg)) = mset (map lv_lease (map (public_lease now) (filter (lease_active now) (map snd reg))))"
    by (simp only: mset_map)
  then show ?thesis by (simp only: map_map comp_def public_lease_lease map_ident list.map_id0 id_apply)
qed

lemma scopes_same:
  "exclusive_scopes now reg \<Longrightarrow> dget reg i = Some l \<Longrightarrow> dget reg j = Some m \<Longrightarrow> lease_active now l \<Longrightarrow> lease_active now m \<Longrightarrow>
   scope_of l = scope_of m \<Longrightarrow> i = j"
  unfolding exclusive_scopes_def by blast

lemma scopes_distinct: "exclusive_scopes now reg \<Longrightarrow> distinct (map scope_of (filter (lease_active now) (map snd reg)))"
proof (induction reg)
  case Nil
  show ?case by simp
next
  case (Cons x reg)
  obtain i l where x: "x = (i, l)" by fastforce
  from Cons.prems have i: "i \<notin> set (dkeys reg)" and w: "dwf reg" by (auto simp: exclusive_scopes_def dwf_def dkeys_def x)
  have g: "dget (x # reg) j = Some m" if "dget reg j = Some m" for j m
    using that i by (auto simp: x din_iff [symmetric] din_def)
  then have "exclusive_scopes now reg" using Cons.prems w unfolding exclusive_scopes_def by blast
  moreover have "scope_of l \<noteq> scope_of m" if "lease_active now l" "(j, m) \<in> set reg" "lease_active now m" for j m
  proof
    assume "scope_of l = scope_of m"
    moreover from that(2) w have m: "dget reg j = Some m" by (simp add: dget_def dwf_def dkeys_def)
    moreover have "dget (x # reg) i = Some l" by (simp add: x)
    ultimately have "i = j" using scopes_same [OF Cons.prems _ g [OF m]] that(1,3) by blast
    with m i show False by (auto simp: din_iff [symmetric] din_def)
  qed
  ultimately show ?case using Cons.IH by (force simp: x)
qed


definition lease_demo :: "string \<Rightarrow> rat \<Rightarrow> lease_clock" where
  "lease_demo stamp now = \<lparr>lk_test = now, lk_issue = now, lk_answer = now, lk_stamp = stamp\<rparr>"

definition demo_registry :: lease_registry where
  "demo_registry =
     sexec (grant_lease (lease_demo ''b'' 10) ''lease-2'' [(''scope'', PStr ''mix''), (''grantee'', PStr ''sam''), (''scopeKind'', PStr ''resource'')])
       (sexec (grant_lease (lease_demo ''a'' 0) ''lease-1'' [(''scope'', PStr ''mix''), (''grantee'', PStr ''alex''), (''scopeKind'', PStr ''resource'')]) [])"


end
