(* ===== verification/Reconciliation.thy ===== *)
theory Reconciliation
  imports Py_Monad
begin

text \<open>
  \<^verbatim>\<open>src/backend/reconciliation.py\<close>: evidence that adapters report for the active venue patch, and the
  comparison of the committed mappings with the current plan and that evidence.  Clock readings are
  arguments; the time stamps of the answers are texts.
\<close>

section \<open>Evidence\<close>

record realization_evidence =
  re_payload :: pydict
  re_observed :: rat

type_synonym evidence_registry = "(string \<times> realization_evidence) list"

definition text_value :: "nat \<Rightarrow> pydict \<Rightarrow> string \<Rightarrow> pyval" where
  \<comment> \<open>\<open>str(data.get(k, '')).strip()[:n] or None\<close>\<close>
  "text_value n d k = (let t = clean_str n (dgetd d k (PStr [])) in if t = [] then PNone else PStr t)"

definition evidence_payload :: "string \<Rightarrow> string \<Rightarrow> pydict \<Rightarrow> pydict" where
  "evidence_payload stamp patch_key data =
     [(''patchKey'', PStr patch_key), (''providerId'', text_value 160 data ''providerId''), (''providerType'', text_value 64 data ''providerType''),
      (''target'', text_value 320 data ''target''), (''healthy'', PBool (truthy (dgetd data ''healthy'' (PBool True)))),
      (''authorityHolder'', text_value 160 data ''authorityHolder''),
      (''executionState'', let t = clean_str 64 (dgetd data ''executionState'' (PStr ''active'')) in PStr (if t = [] then ''active'' else t)),
      (''detail'', case dgetn data ''detail'' of PDict d \<Rightarrow> PDict d | _ \<Rightarrow> PDict []), (''reportedAt'', PStr stamp)]"

definition report_evidence :: "rat \<Rightarrow> string \<Rightarrow> pydict \<Rightarrow> (evidence_registry, pydict) pymethod" where
  "report_evidence now stamp data =
     (let patch_key = clean_str 160 (dgetd data ''patchKey'' (PStr [])); payload = evidence_payload stamp patch_key data in
      sthen (sguard (patch_key \<noteq> []) (ValueError ''patchKey required''))
     (sthen (smodify (\<lambda>reg. dset reg patch_key \<lparr>re_payload = payload, re_observed = now\<rparr>))
      (sreturn payload)))"

definition clear_evidence :: "(evidence_registry, unit) pymethod" where
  "clear_evidence = smodify (\<lambda>_. [])"

definition evidence_age :: "rat \<Rightarrow> realization_evidence \<Rightarrow> rat" where
  "evidence_age now e = max 0 ((now - re_observed e) * 1000)"

definition evidence_report :: "rat \<Rightarrow> int \<Rightarrow> realization_evidence \<Rightarrow> pydict" where
  "evidence_report now freshness e =
     dset (dset (re_payload e) ''ageMs'' (PFloat (fround 3 (Fin (evidence_age now e)))))
       ''fresh'' (PBool (evidence_age now e \<le> of_int freshness))"

definition evidence_snapshot :: "rat \<Rightarrow> pyval \<Rightarrow> evidence_registry \<Rightarrow> pyerr + pydict" where
  "evidence_snapshot now freshness0 reg =
     ebind (py_int freshness0) (\<lambda>i.
     let freshness = iclamp 100 120000 i;
         reports = sort_key (\<lambda>d. py_str (dgetd d ''patchKey'' (PStr []))) (map (evidence_report now freshness \<circ> snd) reg) in
     Inr [(''freshnessMs'', PInt freshness), (''reports'', PList (map PDict reports))])"

section \<open>One mapping\<close>

fun before_dot :: "string \<Rightarrow> string" where
  "before_dot [] = []"
| "before_dot (c # cs) = (if c = CHR ''.'' then [] else c # before_dot cs)"

definition domain_from_patch_key :: "string \<Rightarrow> string" where
  "domain_from_patch_key k = (if CHR ''.'' \<in> set k then before_dot k else ''other'')"

definition dict_field :: "pydict \<Rightarrow> string \<Rightarrow> pydict option" where
  \<comment> \<open>\<open>d.get(k) if isinstance(d.get(k), dict) else None\<close>\<close>
  "dict_field d k = (case dgetn d k of PDict x \<Rightarrow> Some x | _ \<Rightarrow> None)"

definition or_empty :: "pydict option \<Rightarrow> pydict" where
  "or_empty x = (case x of Some d \<Rightarrow> d | None \<Rightarrow> [])"

definition provider_key :: "pydict option \<Rightarrow> string \<times> string" where
  "provider_key p =
     (case p of None \<Rightarrow> ([], [])
      | Some d \<Rightarrow> (py_str (dgetd d ''type'' (PStr [])), py_str (dgetd d ''id'' (PStr []))))"

definition or_text_value :: "pyval \<Rightarrow> string" where
  \<comment> \<open>\<open>str(v or '')\<close>\<close>
  "or_text_value v = py_str (por v (PStr []))"

definition target_of :: "pydict option \<Rightarrow> string" where
  "target_of m = (case m of None \<Rightarrow> [] | Some d \<Rightarrow> or_text_value (dgetn d ''target''))"

definition current_row :: "(string \<times> pydict) list \<Rightarrow> pydict \<Rightarrow> string" where
  "current_row by_req item =
     (let req_id = py_str (dgetd item ''id'' (PStr [])) in
      py_str (por (dgetn (dgetd by_req req_id []) ''patchKey'') (PStr req_id)))"

definition objects :: "pyval list \<Rightarrow> pydict list" where
  "objects vs = concat (map (\<lambda>v. case v of PDict d \<Rightarrow> [d] | _ \<Rightarrow> []) vs)"

definition current_rows :: "pydict \<Rightarrow> pyval list \<Rightarrow> pyerr + (string \<times> pydict) list" where
  "current_rows plan requirements =
     (let by_req = fold (\<lambda>d acc. dset acc (py_str (dgetn d ''id'')) d) (objects requirements) [] in
      ebind (py_iter (por (dgetd plan ''devicePlan'' (PList [])) (PList []))) (\<lambda>items.
      Inr (fold (\<lambda>d acc. dset acc (current_row by_req d) d) (objects items) [])))"

definition first_text :: "string list \<Rightarrow> string option" where
  \<comment> \<open>\<open>a or b or ... or None\<close>\<close>
  "first_text ts = find (\<lambda>t. t \<noteq> []) ts"

definition expected_authority :: "(string \<times> string) list \<Rightarrow> string \<Rightarrow> pydict \<Rightarrow> string option" where
  "expected_authority authority patch_key expected =
     first_text [dgetd authority patch_key [], dgetd authority (domain_from_patch_key patch_key) [],
       strip (py_str (dgetd (or_empty (dict_field expected ''patch'')) ''authority'' (PStr []))),
       strip (py_str (dgetd expected ''authority'' (PStr [])))]"

text \<open>A status and the reasons collected so far; a later check may overwrite the status.\<close>

type_synonym finding = "string \<times> string list"

definition noted :: "bool \<Rightarrow> string \<Rightarrow> string \<Rightarrow> finding \<Rightarrow> finding" where
  "noted b status reason x = (if b then (status, snd x @ [reason]) else x)"

definition plan_blocked :: "pydict \<Rightarrow> bool" where
  "plan_blocked row =
     (dgetn (or_empty (dict_field row ''decision'')) ''status'' = PStr ''blocked'' \<or>
      dgetn (or_empty (dict_field row ''timing'')) ''status'' = PStr ''blocked'' \<or> dict_field row ''provider'' = None)"

definition differing :: "string \<Rightarrow> string \<Rightarrow> bool" where
  "differing a b = (a \<noteq> [] \<and> b \<noteq> [] \<and> a \<noteq> b)"

definition plan_finding :: "pydict option \<Rightarrow> pydict \<Rightarrow> finding" where
  "plan_finding current expected =
     (case current of
        None \<Rightarrow> (''blocked'', [''current venue plan no longer contains this mapping''])
      | Some row \<Rightarrow>
          if plan_blocked row then (''blocked'', [''current venue provider or timing is unavailable''])
          else noted (differing (target_of (dict_field row ''patch'')) (target_of (Some expected)))
                 ''drift'' ''venue patch target changed since commit''
              (noted (provider_key (dict_field row ''provider'') \<noteq> provider_key (dict_field expected ''provider''))
                 ''drift'' ''resolved provider changed since commit'' (''compatible'', [])))"

definition evidence_text :: "pydict \<Rightarrow> string \<Rightarrow> string" where
  "evidence_text e k = (if truthy (dgetn e k) then py_str (dgetn e k) else [])"

definition evidence_finding :: "pydict \<Rightarrow> pydict \<Rightarrow> string option \<Rightarrow> finding \<Rightarrow> finding" where
  "evidence_finding e expected owner x =
     noted (owner \<noteq> None \<and> differing (evidence_text e ''authorityHolder'') (the owner))
       ''blocked'' ''authority holder differs from committed ownership''
    (noted (differing (evidence_text e ''target'') (target_of (Some expected)))
       ''drift'' ''execution target differs from committed target''
    (noted (differing (evidence_text e ''providerId'') (or_text_value (dgetn (or_empty (dict_field expected ''provider'')) ''id'')))
       ''drift'' ''execution provider differs from committed provider''
    (noted (\<not> truthy (dgetn e ''healthy''))
       ''blocked'' ''execution adapter reports unhealthy realization'' x)))"

record mapping_report =
  mr_key :: string
  mr_domain :: string
  mr_expected :: pydict
  mr_provider :: "pydict option"
  mr_timing :: pydict
  mr_status :: string
  mr_realized :: bool
  mr_evidence_status :: string
  mr_evidence :: "pydict option"
  mr_authority :: "string option"
  mr_reasons :: "string list"

definition fresh_evidence :: "pydict option \<Rightarrow> pydict option" where
  "fresh_evidence evidence = (case evidence of Some e \<Rightarrow> if truthy (dgetn e ''fresh'') then Some e else None | None \<Rightarrow> None)"

definition assess_mapping ::
    "(string \<times> pydict) list \<Rightarrow> (string \<times> pydict) list \<Rightarrow> (string \<times> string) list \<Rightarrow> string \<times> pyval \<Rightarrow> mapping_report" where
  "assess_mapping rows evidence_by_key authority m =
     (let patch_key = fst m; expected = dict_of (snd m); current = dget rows patch_key; evidence = dget evidence_by_key patch_key;
          owner = expected_authority authority patch_key expected; x = plan_finding current expected;
          (status, reasons) = (case fresh_evidence evidence of
             None \<Rightarrow> (fst x, snd x @ [''fresh execution evidence unavailable''])
           | Some e \<Rightarrow> evidence_finding e expected owner x) in
      \<lparr>mr_key = patch_key, mr_domain = domain_from_patch_key patch_key, mr_expected = expected,
       mr_provider = (case current of Some row \<Rightarrow> dict_field row ''provider'' | None \<Rightarrow> None),
       mr_timing = (case current of Some row \<Rightarrow> or_empty (dict_field row ''timing'') | None \<Rightarrow> []),
       mr_status = status,
       mr_realized = (case fresh_evidence evidence of None \<Rightarrow> False | Some e \<Rightarrow> status = ''compatible'' \<and> truthy (dgetn e ''healthy'')),
       mr_evidence_status = (case fresh_evidence evidence of None \<Rightarrow> ''unverified''
          | Some e \<Rightarrow> if truthy (dgetn e ''healthy'') then ''healthy'' else ''unhealthy''),
       mr_evidence = evidence, mr_authority = owner, mr_reasons = reasons\<rparr>)"

section \<open>The whole patch\<close>

definition summary_line :: "mapping_report \<Rightarrow> string" where
  "summary_line r = mr_key r @ '': '' @ join ''; '' (mr_reasons r)"

record realization =
  rl_status :: string
  rl_suggested :: string
  rl_mappings :: "mapping_report list"
  rl_blockers :: "string list"
  rl_warnings :: "string list"

definition summarize :: "mapping_report list \<Rightarrow> realization" where
  "summarize rs =
     (let blockers = map summary_line (filter (\<lambda>r. mr_status r = ''blocked'') rs);
          (status, suggested) =
            (if blockers \<noteq> [] then (''blocked'', ''rollback-or-repair'')
             else if list_ex (\<lambda>r. mr_status r = ''drift'') rs then (''drift'', ''propose-repair'')
             else if list_ex (\<lambda>r. mr_evidence_status r = ''unverified'') rs then (''unverified'', ''verify-execution'')
             else (''realized'', ''none'')) in
      \<lparr>rl_status = status, rl_suggested = suggested, rl_mappings = rs, rl_blockers = blockers,
       rl_warnings = map summary_line (filter (\<lambda>r. mr_status r \<noteq> ''blocked'' \<and> (mr_status r = ''drift'' \<or> \<not> mr_realized r)) rs)\<rparr>)"

definition safe_to_continue :: "realization \<Rightarrow> bool" where
  "safe_to_continue r = (rl_blockers r = [])"

text \<open>\<open>None\<close> stands for a call without an active patch.\<close>

definition evaluate_realization ::
    "pyval \<Rightarrow> pydict \<Rightarrow> pyval list \<Rightarrow> pydict \<Rightarrow> (string \<times> string) list \<Rightarrow> pyerr + realization option" where
  "evaluate_realization active plan requirements evidence authority =
     (case active of
        PDict doc \<Rightarrow>
          ebind (current_rows plan requirements) (\<lambda>rows.
          ebind (py_iter (dgetd evidence ''reports'' (PList []))) (\<lambda>reports.
          let evidence_by_key = fold (\<lambda>d acc. dset acc (py_str (dgetn d ''patchKey'')) d) (objects reports) [] in
          ebind (as_dict (por (dgetn doc ''mappings'') (PDict []))) (\<lambda>mappings.
          Inr (Some (summarize (map (assess_mapping rows evidence_by_key authority) (sort_key fst mappings)))))))
      | _ \<Rightarrow> Inr None)"

definition option_value :: "pydict option \<Rightarrow> pyval" where
  "option_value x = (case x of Some d \<Rightarrow> PDict d | None \<Rightarrow> PNone)"

definition mapping_dict :: "mapping_report \<Rightarrow> pydict" where
  "mapping_dict r =
     [(''patchKey'', PStr (mr_key r)), (''domain'', PStr (mr_domain r)), (''expected'', PDict (mr_expected r)),
      (''currentProvider'', option_value (mr_provider r)), (''currentTiming'', PDict (mr_timing r)), (''status'', PStr (mr_status r)),
      (''realized'', PBool (mr_realized r)), (''evidenceStatus'', PStr (mr_evidence_status r)), (''evidence'', option_value (mr_evidence r)),
      (''expectedAuthority'', case mr_authority r of Some t \<Rightarrow> PStr t | None \<Rightarrow> PNone), (''reasons'', strs (mr_reasons r))]"

definition realization_dict :: "string \<Rightarrow> pydict \<Rightarrow> pydict \<Rightarrow> realization option \<Rightarrow> pydict" where
  "realization_dict stamp doc plan x =
     (case x of
        None \<Rightarrow> [(''active'', PBool False), (''status'', PStr ''no-active-patch''), (''safeToContinue'', PBool True), (''realized'', PBool False),
          (''checkedAt'', PStr stamp), (''mappings'', PList []), (''blockers'', PList []), (''warnings'', PList []), (''suggestedAction'', PStr ''none'')]
      | Some r \<Rightarrow>
          [(''active'', PBool True), (''transactionId'', dgetn doc ''transactionId''), (''patchRevision'', dgetn doc ''patchRevision''),
           (''venueId'', dgetn doc ''venueId''), (''venueName'', dgetn doc ''venueName''), (''status'', PStr (rl_status r)),
           (''safeToContinue'', PBool (safe_to_continue r)), (''realized'', PBool (rl_status r = ''realized'')), (''checkedAt'', PStr stamp),
           (''planReadiness'', dgetn plan ''readiness''), (''planGrade'', dgetn plan ''grade''),
           (''mappings'', PList (map (PDict \<circ> mapping_dict) (rl_mappings r))), (''blockers'', strs (rl_blockers r)),
           (''warnings'', strs (rl_warnings r)), (''suggestedAction'', PStr (rl_suggested r))])"

section \<open>Realized means proven\<close>

definition agrees :: "string \<Rightarrow> string \<Rightarrow> bool" where
  "agrees a b = (a = [] \<or> b = [] \<or> a = b)"

text \<open>What the code means by a realized mapping: the plan still has it, unblocked and with the committed
  provider and target, and fresh, healthy evidence names the committed provider, target and owner, as far
  as they are named.\<close>

definition mapping_proven :: "(string \<times> pydict) list \<Rightarrow> (string \<times> pydict) list \<Rightarrow> (string \<times> string) list \<Rightarrow> string \<times> pyval \<Rightarrow> bool" where
  "mapping_proven rows evidence_by_key authority m =
     (case (dget rows (fst m), dget evidence_by_key (fst m)) of
        (Some row, Some e) \<Rightarrow>
          (let expected = dict_of (snd m) in
           \<not> plan_blocked row \<and> provider_key (dict_field row ''provider'') = provider_key (dict_field expected ''provider'') \<and>
           agrees (target_of (dict_field row ''patch'')) (target_of (Some expected)) \<and>
           truthy (dgetn e ''fresh'') \<and> truthy (dgetn e ''healthy'') \<and>
           agrees (evidence_text e ''providerId'') (or_text_value (dgetn (or_empty (dict_field expected ''provider'')) ''id'')) \<and>
           agrees (evidence_text e ''target'') (target_of (Some expected)) \<and>
           (\<forall>owner. expected_authority authority (fst m) expected = Some owner \<longrightarrow> agrees (evidence_text e ''authorityHolder'') owner))
      | _ \<Rightarrow> False)"

lemma differing_agrees: "differing a b = (\<not> agrees a b)"
  by (auto simp: differing_def agrees_def)

lemma noted_compatible:
  assumes "s \<noteq> ''compatible''"
  shows "fst (noted b s t x) = ''compatible'' \<longleftrightarrow> \<not> b \<and> fst x = ''compatible''"
  using assms by (auto simp: noted_def)

lemma compatible_iff [simp]:
  "fst (noted b ''drift'' t x) = ''compatible'' \<longleftrightarrow> \<not> b \<and> fst x = ''compatible''"
  "fst (noted b ''blocked'' t x) = ''compatible'' \<longleftrightarrow> \<not> b \<and> fst x = ''compatible''"
  by (auto intro!: noted_compatible)

lemma plan_compatible:
  "fst (plan_finding current expected) = ''compatible'' \<longleftrightarrow>
     (\<exists>row. current = Some row \<and> \<not> plan_blocked row \<and>
        provider_key (dict_field row ''provider'') = provider_key (dict_field expected ''provider'') \<and>
        agrees (target_of (dict_field row ''patch'')) (target_of (Some expected)))"
  by (auto simp: plan_finding_def differing_agrees split: option.split)

lemma evidence_compatible:
  "fst (evidence_finding e expected owner x) = ''compatible'' \<longleftrightarrow>
     fst x = ''compatible'' \<and> truthy (dgetn e ''healthy'') \<and>
     agrees (evidence_text e ''providerId'') (or_text_value (dgetn (or_empty (dict_field expected ''provider'')) ''id'')) \<and>
     agrees (evidence_text e ''target'') (target_of (Some expected)) \<and>
     (\<forall>t. owner = Some t \<longrightarrow> agrees (evidence_text e ''authorityHolder'') t)"
  by (cases owner) (auto simp: evidence_finding_def differing_agrees)

lemma assess_status:
  "mr_status (assess_mapping rows ev au m) =
     (case fresh_evidence (dget ev (fst m)) of
        None \<Rightarrow> fst (plan_finding (dget rows (fst m)) (dict_of (snd m)))
      | Some e \<Rightarrow> fst (evidence_finding e (dict_of (snd m)) (expected_authority au (fst m) (dict_of (snd m)))
          (plan_finding (dget rows (fst m)) (dict_of (snd m)))))"
  by (simp add: assess_mapping_def Let_def split_beta split: option.split)

lemma assess_realized: "mr_realized (assess_mapping rows ev au m) = mapping_proven rows ev au m"
proof (cases "fresh_evidence (dget ev (fst m))")
  case None
  then have "\<not> mr_realized (assess_mapping rows ev au m)"
    by (simp add: assess_mapping_def Let_def split_beta)
  moreover have "\<not> mapping_proven rows ev au m"
    using None by (auto simp: mapping_proven_def fresh_evidence_def Let_def split: option.splits if_splits)
  ultimately show ?thesis by simp
next
  case (Some e)
  then have e: "dget ev (fst m) = Some e" "truthy (dgetn e ''fresh'')"
    by (auto simp: fresh_evidence_def split: option.splits if_splits)
  have "mr_realized (assess_mapping rows ev au m) =
      (mr_status (assess_mapping rows ev au m) = ''compatible'' \<and> truthy (dgetn e ''healthy''))"
    using Some by (simp add: assess_mapping_def Let_def split_beta)
  with Some e show ?thesis
    by (auto simp: assess_status evidence_compatible plan_compatible mapping_proven_def Let_def split: option.split)
qed

lemma status_cases: "mr_status (assess_mapping rows ev au m) \<in> {''compatible'', ''drift'', ''blocked''}"
  unfolding assess_status by (auto simp: plan_finding_def evidence_finding_def noted_def split: option.split)

lemma summarize_realized:
  assumes "\<forall>r \<in> set rs. mr_status r \<in> {''compatible'', ''drift'', ''blocked''}"
  shows "rl_status (summarize rs) = ''realized'' \<longleftrightarrow>
    list_all (\<lambda>r. mr_status r = ''compatible'' \<and> mr_evidence_status r \<noteq> ''unverified'') rs"
proof -
  have "rl_status (summarize rs) = ''realized'' \<longleftrightarrow>
      \<not> (\<exists>r \<in> set rs. mr_status r = ''blocked'') \<and> \<not> (\<exists>r \<in> set rs. mr_status r = ''drift'') \<and>
      \<not> (\<exists>r \<in> set rs. mr_evidence_status r = ''unverified'')"
    by (simp add: summarize_def Let_def list_ex_iff filter_empty_conv)
  moreover have "mr_status r = ''compatible'' \<longleftrightarrow> mr_status r \<noteq> ''blocked'' \<and> mr_status r \<noteq> ''drift''" if "r \<in> set rs" for r
    using assms that by auto
  ultimately show ?thesis unfolding list_all_iff by blast
qed

lemma verified_realized:
  "mr_realized (assess_mapping rows ev au m) \<longleftrightarrow>
     mr_status (assess_mapping rows ev au m) = ''compatible'' \<and> mr_evidence_status (assess_mapping rows ev au m) \<noteq> ''unverified''"
proof (cases "fresh_evidence (dget ev (fst m))")
  case None
  then show ?thesis by (simp add: assess_mapping_def Let_def split_beta)
next
  case (Some e)
  then show ?thesis by (auto simp: assess_mapping_def Let_def split_beta evidence_compatible)
qed


definition demo_patch :: pydict where
  "demo_patch = [(''mappings'', PDict [(''audio.main'', PDict [(''provider'', PDict [(''type'', PStr ''device''), (''id'', PStr ''desk'')]), (''target'', PStr ''L/R'')])])]"

definition demo_plan :: pydict where
  "demo_plan = [(''devicePlan'', PList [PDict [(''id'', PStr ''audio.main''), (''provider'', PDict [(''type'', PStr ''device''), (''id'', PStr ''desk'')])]])]"

definition demo_evidence :: "string \<Rightarrow> bool \<Rightarrow> pydict" where
  "demo_evidence provider healthy =
     [(''reports'', PList [PDict [(''patchKey'', PStr ''audio.main''), (''providerId'', PStr provider), (''healthy'', PBool healthy), (''fresh'', PBool True)]])]"


section \<open>A failing adapter that is also the wrong one\<close>

text \<open>
  The later checks overwrite the status of the earlier ones: when fresh evidence is unhealthy and,
  besides, comes from another provider than the committed one, the mapping is reported as
  \<open>drift\<close> and not as \<open>blocked\<close>, unless the owner differs too; so it does not stop the show from
  continuing, while the same unhealthy report of the committed provider does.
\<close>

theorem unhealthy_evidence_masked:
  assumes "dget evidence_by_key (fst m) = Some e" and "truthy (dgetn e ''fresh'')" and "\<not> truthy (dgetn e ''healthy'')"
    and "expected_authority authority (fst m) (dict_of (snd m)) = None"
  shows "mr_status (assess_mapping rows evidence_by_key authority m) =
    (if differing (evidence_text e ''providerId'') (or_text_value (dgetn (or_empty (dict_field (dict_of (snd m)) ''provider'')) ''id'')) \<or>
        differing (evidence_text e ''target'') (target_of (Some (dict_of (snd m))))
     then ''drift'' else ''blocked'')"
  using assms by (auto simp: assess_status fresh_evidence_def evidence_finding_def noted_def)

theorem unhealthy_evidence_masked_witness:
  "mr_status (assess_mapping [] [(''audio.main'', [(''providerId'', PStr ''spare''), (''healthy'', PBool False), (''fresh'', PBool True)])] []
      (''audio.main'', PDict [(''provider'', PDict [(''id'', PStr ''desk'')])])) = ''drift''"
proof -
  let ?e = "[(''providerId'', PStr ''spare''), (''healthy'', PBool False), (''fresh'', PBool True)]"
  let ?m = "(''audio.main'', PDict [(''provider'', PDict [(''id'', PStr ''desk'')])])"
  have "dget [(''audio.main'', ?e)] (fst ?m) = Some ?e" "truthy (dgetn ?e ''fresh'')" "\<not> truthy (dgetn ?e ''healthy'')"
    "expected_authority [] (fst ?m) (dict_of (snd ?m)) = None"
    "differing (evidence_text ?e ''providerId'') (or_text_value (dgetn (or_empty (dict_field (dict_of (snd ?m)) ''provider'')) ''id''))"
    by code_simp+
  with unhealthy_evidence_masked [of "[(''audio.main'', ?e)]" ?m ?e "[]" "[]"] show ?thesis by simp
qed

end
