(* ===== verification/Py_Json.thy ===== *)
theory Py_Json
  imports Py_Monad Py_Crypto
begin

text \<open>
  Documents that are written with sorted keys and read again, as the stores of the control plane do with
  their files: lookups commute with sorting, and sorting does not change the canonical form.
\<close>

text \<open>What \<open>json.loads\<close> gives for a text of \<open>json.dumps(v, sort_keys=True)\<close>.\<close>

primrec json_sorted :: "pyval \<Rightarrow> pyval" where
  "json_sorted PNone = PNone"
| "json_sorted (PBool b) = PBool b"
| "json_sorted (PInt i) = PInt i"
| "json_sorted (PFloat f) = PFloat f"
| "json_sorted (PStr s) = PStr s"
| "json_sorted (PList xs) = PList (map json_sorted xs)"
| "json_sorted (PDict d) = PDict (sort_key fst (map (map_prod id json_sorted) d))"

lemma dgetn_dset [simp]: "dgetn (dset d k v) k' = (if k' = k then v else dgetn d k')"
  by (simp add: dgetn_def dgetd_def)

lemma dset_dset [simp]: "dset (dset d k v) k w = dset d k w"
  by (induction d k v rule: dset.induct) auto

lemma dget_sorted: "dwf d \<Longrightarrow> dget (sort_key fst d) k = dget d k"
proof -
  assume "dwf d"
  then have "distinct (map fst d)" "distinct (map fst (sort_key fst d))"
    by (auto simp: dwf_def dkeys_def distinct_map)
  then have "map_of (sort_key fst d) = map_of d" by (simp add: map_of_inject_set)
  then show ?thesis by (simp add: dget_def)
qed

lemma dwf_sorted: "dwf d \<Longrightarrow> dwf (sort_key fst d)"
  by (auto simp: dwf_def dkeys_def distinct_map)

definition sorted_dict :: "pydict \<Rightarrow> pydict" where
  "sorted_dict d = sort_key fst (map (map_prod id json_sorted) d)"

lemma json_sorted_PDict: "json_sorted (PDict d) = PDict (sorted_dict d)"
  by (simp add: sorted_dict_def)

lemma dwf_sorted_dict: "dwf d \<Longrightarrow> dwf (sorted_dict d)"
  unfolding sorted_dict_def by (rule dwf_sorted) (simp add: dwf_def dkeys_def comp_def)

lemma dget_sorted_dict: "dwf d \<Longrightarrow> dget (sorted_dict d) k = map_option json_sorted (dget d k)"
proof -
  assume "dwf d"
  then have "dwf (map (map_prod id json_sorted) d)" by (simp add: dwf_def dkeys_def comp_def)
  then have "dget (sorted_dict d) k = dget (map (map_prod id json_sorted) d) k" unfolding sorted_dict_def by (rule dget_sorted)
  also have "\<dots> = map_option json_sorted (dget d k)" by (induction d) auto
  finally show ?thesis .
qed

lemma dgetn_sorted_dict: "dwf d \<Longrightarrow> dgetn (sorted_dict d) k = json_sorted (dgetn d k)"
  by (simp add: dgetn_def dgetd_def dget_sorted_dict split: option.split)

lemma sort_key_Nil: "sort_key f xs = [] \<longleftrightarrow> xs = []"
  by (metis length_0_conv length_sort)

lemma json_sorted_simps [simp]:
  "json_sorted v = PStr s \<longleftrightarrow> v = PStr s" "json_sorted v = PNone \<longleftrightarrow> v = PNone"
  "truthy (json_sorted v) = truthy v"
  by (cases v; force simp: sort_key_Nil)+

lemma json_sorted_por [simp]: "json_sorted (por v w) = por (json_sorted v) (json_sorted w)"
  by (simp add: por_def)

declare json_sorted.simps(7) [simp del]

lemma dict_of_sorted: "dict_of (json_sorted v) = sorted_dict (dict_of v)"
  by (cases v) (auto simp: json_sorted_PDict dict_of_def sorted_dict_def)

section \<open>The canonical form of a document read back\<close>

lemma sort_key_map: "(\<And>x. x \<in> set xs \<Longrightarrow> f (h x) = g x) \<Longrightarrow> sort_key f (map h xs) = map h (sort_key g xs)"
proof (induction xs)
  case (Cons x xs)
  have "insort_key f (h x) (map h ys) = map h (insort_key g x ys)" if "set ys \<subseteq> set xs" for ys
    using that Cons.prems by (induction ys) auto
  then show ?case using Cons by simp
qed simp

lemma sort_key_idem: "sort_key f (sort_key f xs) = sort_key f xs"
  by (metis sort_key_id_if_sorted sorted_sort_key)

lemma json_dumps_sorted [simp]: "json_dumps (json_sorted v) = json_dumps v"
proof (induction v)
  case (PList xs)
  then show ?case by (simp cong: map_cong)
next
  case (PDict d)
  have fix_snd: "map (map_prod id json_dumps) (map (map_prod id json_sorted) d) = map (map_prod id json_dumps) d"
    using PDict by (auto simp: Basic_BNFs.snds.simps)
  let ?s = "sort_key fst (map (map_prod id json_sorted) d)"
  have "map (map_prod id json_dumps) ?s = sort_key fst (map (map_prod id json_dumps) (map (map_prod id json_sorted) d))"
    by (rule sort_key_map [symmetric]) simp
  then have "sort_key fst (map (map_prod id json_dumps) ?s) = sort_key fst (map (map_prod id json_dumps) d)"
    unfolding fix_snd by (metis sort_key_idem)
  then show ?case by (simp add: json_sorted.simps(7))
qed simp_all

lemma canonical_sorted [simp]: "canonical (json_sorted v) = canonical v"
  by (simp add: canonical_def)

section \<open>Loops over known elements\<close>

lemma keeps_sfold_set:
  assumes "\<And>x b. x \<in> set xs \<Longrightarrow> keeps I (f x b)"
  shows "keeps I (sfold f xs b)"
  using assms
proof (induction xs arbitrary: b)
  case Nil
  show ?case by (simp add: keeps_def)
next
  case (Cons x xs)
  then show ?case by (auto intro: keeps_sbind)
qed

end
