(* ===== verification/Adaptation.thy ===== *)
theory Adaptation
  imports Reconciliation Py_Json
begin

text \<open>
  \<^verbatim>\<open>src/backend/adaptation.py\<close>: transactions that adapt a show to a venue.  A transaction is proposed from a
  compatibility plan, validated against the current plan, committed at once, at the next bar or at a
  cue, and rolled back; the manager persists its state after every change.  A transaction is kept
  as the document the code keeps.  One reading of the wall clock stands for the time stamps of a call;
  fresh identifiers and the outcome of every write are read from an environment, which is indexed by the
  revision that is written.
\<close>

section \<open>Fingerprints\<close>

definition fingerprint :: "pyval \<Rightarrow> string" where
  "fingerprint v = ''sha256:'' @ sha256_hex (canonical v)"

definition requirements_fingerprint :: "pyval list \<Rightarrow> string" where
  "requirements_fingerprint reqs = fingerprint (PList reqs)"

definition plan_fingerprint :: "pydict \<Rightarrow> string" where
  "plan_fingerprint plan =
     fingerprint (PDict (map (\<lambda>k. (k, dgetn plan k))
       [''venue'', ''grade'', ''readiness'', ''devicePlan'', ''blockers'', ''unmappedRequired'', ''discoveryWarnings'']))"

definition assert_reader_safe :: "pydict \<Rightarrow> int \<Rightarrow> pyerr + unit" where
  "assert_reader_safe doc supported =
     ebind (ecatch is_type_or_value (ebind (get_int doc ''minimumReaderSchemaVersion'' (PInt 1)) (\<lambda>i. Inr (max 1 i))) (Inr (supported + 1))) (\<lambda>m.
     eguard (m \<le> supported) (ValueError (''venue adaptation document requires schema reader '' @ show_int m @ '', this core supports '' @ show_int supported)))"

section \<open>Transactions\<close>

definition proposed_mapping :: "pydict \<Rightarrow> pydict \<Rightarrow> string \<Rightarrow> pyerr + pydict" where
  "proposed_mapping item decision patch_key =
     (let provider = dict_field item ''provider''; patch = or_empty (dict_field item ''patch'') in
      ebind (py_int (por (dgetd decision ''qualityScore'' (PInt 0)) (PInt 0))) (\<lambda>score.
      Inr [(''patchKey'', PStr patch_key), (''target'', if patch = [] then PNone else dgetn patch ''target''),
           (''patch'', if patch = [] then PNone else PDict patch), (''provider'', option_value provider),
           (''capability'', por (dgetn decision ''capability'') (dgetn decision ''preferred'')),
           (''resolution'', PStr (py_str (dgetd decision ''status'' (PStr ''blocked'')))),
           (''quality'', dgetn decision ''quality''), (''qualityScore'', PInt score),
           (''timing'', por (dgetn item ''timing'') (PDict []))]))"

definition change_of :: "pydict \<Rightarrow> pydict \<Rightarrow> string \<Rightarrow> pydict \<Rightarrow> pydict" where
  "change_of requirement decision requirement_id proposed =
     [(''capability'', PStr (py_str (por (dgetn decision ''capability'') (por (dgetn decision ''preferred'')
         (por (dgetn requirement ''preferred'') (PStr requirement_id)))))),
      (''requirementId'', PStr requirement_id), (''domain'', PStr (py_str (dgetd requirement ''domain'' (PStr ''other'')))),
      (''required'', PBool (truthy (dgetd decision ''required'' (dgetd requirement ''required'' (PBool True))))),
      (''from'', PDict [(''logicalRequirement'', PStr requirement_id)]), (''to'', PDict proposed),
      (''reason'', PStr ''venue compatibility resolution''), (''reversible'', PBool True)]"

definition change_step :: "(string \<times> pydict) list \<Rightarrow> pyval \<Rightarrow> pydict list \<times> pydict \<Rightarrow> pyerr + pydict list \<times> pydict" where
  "change_step by_req v acc =
     (case v of
        PDict item \<Rightarrow>
          (let requirement_id = py_str (dgetd item ''id'' (PStr [])); requirement = dgetd by_req requirement_id [];
               decision = or_empty (dict_field item ''decision'');
               patch_key = py_str (por (dgetn requirement ''patchKey'') (PStr requirement_id)) in
           ebind (proposed_mapping item decision patch_key) (\<lambda>proposed.
           Inr (fst acc @ [change_of requirement decision requirement_id proposed],
                if or_empty (dict_field item ''provider'') \<noteq> [] \<or> or_empty (dict_field item ''patch'') \<noteq> []
                then dset (snd acc) patch_key (PDict proposed) else snd acc)))
      | _ \<Rightarrow> Inr acc)"

definition requirement_entry :: "pyval \<Rightarrow> (string \<times> pydict) list \<Rightarrow> pyerr + (string \<times> pydict) list" where
  "requirement_entry v by_req = ebind (as_dict v) (\<lambda>d. Inr (dset by_req (py_str (dgetn d ''id'')) d))"

definition transaction_changes :: "pydict \<Rightarrow> pyval list \<Rightarrow> pyerr + pydict list \<times> pydict" where
  "transaction_changes plan reqs =
     ebind (efold requirement_entry reqs []) (\<lambda>by_req.
     ebind (py_iter (dgetd plan ''devicePlan'' (PList []))) (\<lambda>items.
     efold (change_step by_req) items ([], [])))"

definition unresolved :: "pyval \<Rightarrow> pyerr + pyval list" where
  \<comment> \<open>the blockers for \<open>plan.get('unmappedRequired') or []\<close>\<close>
  "unresolved v =
     ebind (py_iter (por v (PList []))) (\<lambda>items.
     Inr (map (\<lambda>x. PStr (''required venue patch unresolved: '' @ py_str x)) items))"

record adaptation_env =
  ae_now :: string
  ae_id :: string
  ae_receipt :: "int \<Rightarrow> string"
  ae_write :: "int \<Rightarrow> bool"

definition transaction_id :: "adaptation_env \<Rightarrow> string" where
  "transaction_id env = ''adapt-'' @ ae_id env"

definition build_transaction :: "adaptation_env \<Rightarrow> pydict \<Rightarrow> pyval list \<Rightarrow> bool \<Rightarrow> pyerr + pydict" where
  "build_transaction env plan reqs live =
     (let venue = or_empty (dict_field plan ''venue'') in
      ebind (transaction_changes plan reqs) (\<lambda>(changes, mappings).
      ebind (py_iter (por (dgetn plan ''blockers'') (PList []))) (\<lambda>blocked.
      ebind (unresolved (dgetn plan ''unmappedRequired'')) (\<lambda>missing.
      let blockers = PList (blocked @ missing) in
      Inr [(''documentType'', PStr ''org.upp.venue-adaptation-transaction''), (''schemaVersion'', PInt 1),
           (''minimumReaderSchemaVersion'', PInt 1), (''unknownFieldsPreserved'', PBool True),
           (''transactionId'', PStr (transaction_id env)), (''status'', PStr ''proposed''),
           (''createdAt'', PStr (ae_now env)), (''updatedAt'', PStr (ae_now env)),
           (''venueId'', PStr (py_str (dgetd venue ''id'' (PStr ''venue'')))),
           (''venueName'', PStr (py_str (por (dgetn venue ''name'') (por (dgetn venue ''id'') (PStr ''Venue''))))),
           (''discoveryMode'', PStr (if live then ''live'' else ''profile'')),
           (''requirementsHash'', PStr (requirements_fingerprint reqs)), (''planHash'', PStr (plan_fingerprint plan)),
           (''grade'', PStr (py_str (dgetd plan ''grade'' (PStr ''blocked'')))),
           (''readiness'', PStr (py_str (dgetd plan ''readiness'' (PStr ''blocked'')))),
           (''changes'', PList (map PDict changes)), (''mappings'', PDict mappings),
           (''departments'', por (dgetn plan ''departments'') (PList [])), (''actions'', por (dgetn plan ''actions'') (PList [])),
           (''blockers'', blockers), (''reversible'', PBool True),
           (''validation'', PDict [(''valid'', PBool False), (''checkedAt'', PNone), (''blockers'', blockers)]),
           (''commit'', PNone), (''receipt'', PNone)]))))"

section \<open>The manager\<close>

record adaptation_state =
  va_revision :: int
  va_active :: pyval
  va_transactions :: pydict
  va_cue_sequence :: int
  va_last_cue :: pyval
  va_file :: "pyval option"

definition initial_adaptation :: "pyval option \<Rightarrow> adaptation_state" where
  "initial_adaptation file =
     \<lparr>va_revision = 1, va_active = PNone, va_transactions = [], va_cue_sequence = 0, va_last_cue = PNone, va_file = file\<rparr>"

definition state_document :: "adaptation_state \<Rightarrow> pydict" where
  "state_document s =
     [(''revision'', PInt (va_revision s)), (''active'', va_active s), (''transactions'', PDict (va_transactions s)),
      (''cueSequence'', PInt (va_cue_sequence s)), (''lastCue'', va_last_cue s)]"

definition keep_dict :: "pyval \<Rightarrow> pyval" where
  "keep_dict v = (if is_dict v then v else PNone)"

text \<open>\<open>dict(v)\<close> of a value read from JSON: a list must consist of pairs, of which the model keeps those with
  a text as key.\<close>

definition entry_of :: "pyval \<Rightarrow> pyerr + string \<times> pyval" where
  "entry_of v =
     (case v of PList [PStr k, x] \<Rightarrow> Inr (k, x) | PStr [a, b] \<Rightarrow> Inr ([a], PStr [b])
      | PList _ \<Rightarrow> Inl (ValueError ''dictionary update sequence'') | PStr _ \<Rightarrow> Inl (ValueError ''dictionary update sequence'')
      | _ \<Rightarrow> Inl TypeError)"

definition dict_from :: "pyval \<Rightarrow> pyerr + pydict" where
  "dict_from v = (case v of PDict d \<Rightarrow> Inr d | _ \<Rightarrow> ebind (py_iter v) (\<lambda>xs. ebind (emap entry_of xs) (\<lambda>ps. Inr (dmerge [] ps))))"

definition read_state :: "pyval \<Rightarrow> pyval option \<Rightarrow> pyerr + adaptation_state" where
  "read_state raw file =
     (case raw of
        PDict d \<Rightarrow>
          ebind (get_int d ''revision'' (PInt 1)) (\<lambda>revision.
          ebind (dict_from (por (dgetn d ''transactions'') (PDict []))) (\<lambda>txs.
          ebind (get_int d ''cueSequence'' (PInt 0)) (\<lambda>cues.
          Inr \<lparr>va_revision = max 1 revision, va_active = keep_dict (dgetn d ''active''), va_transactions = txs,
               va_cue_sequence = max 0 cues, va_last_cue = keep_dict (dgetn d ''lastCue''), va_file = file\<rparr>)))
      | _ \<Rightarrow> Inr (initial_adaptation file))"

definition is_load_error :: "pyerr \<Rightarrow> bool" where
  "is_load_error e = (e = OSError \<or> is_type_or_value e)"

text \<open>A new manager on a file: absent, unreadable, or with a document.\<close>

definition open_adaptation :: "(pyerr + pyval) option \<Rightarrow> pyval option \<Rightarrow> pyerr + adaptation_state" where
  "open_adaptation content file =
     (case content of
        None \<Rightarrow> Inr (initial_adaptation file)
      | Some r \<Rightarrow> ecatch is_load_error (ebind r (\<lambda>raw. read_state raw file)) (Inr (initial_adaptation file)))"

definition persist :: "adaptation_env \<Rightarrow> (adaptation_state, unit) pymethod" where
  "persist env =
     sbind (sgets va_revision) (\<lambda>r.
     sthen (sguard (ae_write env r) OSError)
     (smodify (\<lambda>s. s\<lparr>va_file := Some (json_sorted (PDict (state_document s)))\<rparr>)))"

definition touch_adaptation :: "(adaptation_state, unit) pymethod" where
  "touch_adaptation = smodify (\<lambda>s. s\<lparr>va_revision := va_revision s + 1\<rparr>)"

definition save_adaptation :: "adaptation_env \<Rightarrow> (adaptation_state, unit) pymethod" where
  \<comment> \<open>\<open>self._touch(); self._persist()\<close>\<close>
  "save_adaptation env = sthen touch_adaptation (persist env)"

definition check_adaptation_revision :: "pyval \<Rightarrow> (adaptation_state, unit) pymethod" where
  "check_adaptation_revision expected =
     sgete (\<lambda>s. if expected = PNone then Inr ()
       else ebind (py_int expected) (\<lambda>e. eguard (e = va_revision s) (RevisionConflict e (va_revision s) ''venue adaptation'')))"

definition find_tx :: "string \<Rightarrow> (adaptation_state, pydict) pymethod" where
  "find_tx k = sgete (\<lambda>s. case dget (va_transactions s) k of Some (PDict d) \<Rightarrow> Inr d | _ \<Rightarrow> Inl (KeyError k))"

definition put_tx :: "string \<Rightarrow> pydict \<Rightarrow> (adaptation_state, unit) pymethod" where
  "put_tx k d = smodify (\<lambda>s. s\<lparr>va_transactions := dset (va_transactions s) k (PDict d)\<rparr>)"

definition get_tx :: "string \<Rightarrow> (adaptation_state, pydict) pymethod" where
  "get_tx k = find_tx k"

definition adaptation_snapshot :: "adaptation_state \<Rightarrow> pyerr + pydict" where
  "adaptation_snapshot s =
     ebind (emap as_dict (map snd (va_transactions s))) (\<lambda>docs.
     Inr [(''revision'', PInt (va_revision s)), (''active'', va_active s),
          (''transactions'', PList (map PDict (rev (sort_key (\<lambda>d. py_str (dgetd d ''createdAt'' (PStr []))) (rev docs))))),
          (''lastCue'', va_last_cue s)])"

section \<open>Operations\<close>

definition is_status :: "pydict \<Rightarrow> string \<Rightarrow> bool" where
  "is_status d s = (dgetn d ''status'' = PStr s)"

definition commit_field :: "pydict \<Rightarrow> string \<Rightarrow> pyerr + pyval" where
  \<comment> \<open>\<open>(tx.get('commit') or {}).get(k)\<close>\<close>
  "commit_field d k = ebind (sub_dict d ''commit'') (\<lambda>c. Inr (dgetn c k))"

definition pending_in_mode :: "string \<Rightarrow> pydict \<Rightarrow> pyerr + bool" where
  "pending_in_mode m d =
     (if is_status d ''pending-commit'' then ebind (commit_field d ''mode'') (\<lambda>v. Inr (v = PStr m)) else Inr False)"

fun any_pending_bar :: "pyval list \<Rightarrow> pyerr + bool" where
  "any_pending_bar [] = Inr False"
| "any_pending_bar (v # vs) =
     (case v of PDict d \<Rightarrow> ebind (pending_in_mode ''next-bar'' d) (\<lambda>b. if b then Inr True else any_pending_bar vs)
      | _ \<Rightarrow> any_pending_bar vs)"

definition has_pending_bar_commit :: "adaptation_state \<Rightarrow> pyerr + bool" where
  "has_pending_bar_commit s = any_pending_bar (map snd (va_transactions s))"

definition attach_receipt_evidence :: "adaptation_env \<Rightarrow> string \<Rightarrow> pydict \<Rightarrow> (adaptation_state, pydict) pymethod" where
  "attach_receipt_evidence env k evidence =
     sbind (find_tx k) (\<lambda>tx.
     case dict_field tx ''receipt'' of
       None \<Rightarrow> sraise (ValueError ''venue adaptation receipt is not committed'')
     | Some receipt \<Rightarrow>
         sthen (sguard (is_status tx ''committed'') (ValueError ''venue adaptation receipt is not committed''))
        (sthen (swhen (dict_field receipt ''publicRecord'' = None)
           (sthen (put_tx k (dset tx ''receipt'' (PDict (dset receipt ''publicRecord'' (PDict evidence))))) (save_adaptation env)))
         (find_tx k)))"

text \<open>\<open>k in v\<close> for a text \<open>k\<close>, and the previous mapping of a patch key in a value that should be a dictionary.\<close>

definition infix_of :: "string \<Rightarrow> string \<Rightarrow> bool" where
  "infix_of k s = list_ex (\<lambda>i. take (length k) (drop i s) = k) [0..<Suc (length s)]"

definition previous_mapping :: "pyval \<Rightarrow> string \<Rightarrow> pyerr + pyval" where
  "previous_mapping v k =
     (case v of
        PDict d \<Rightarrow> Inr (dgetn d k)
      | PList xs \<Rightarrow> if PStr k \<in> set xs then Inl AttributeError else Inr PNone
      | PStr s \<Rightarrow> if infix_of k s then Inl AttributeError else Inr PNone
      | _ \<Rightarrow> Inl TypeError)"

definition relate_change :: "pyval \<Rightarrow> pyval \<Rightarrow> pyerr + pyval" where
  "relate_change active_mappings v =
     ebind (as_dict v) (\<lambda>change.
     let proposed = or_empty (dict_field change ''to'');
         patch_key = py_str (por (dgetn proposed ''patchKey'') (por (dgetn change ''requirementId'') (PStr []))) in
     ebind (previous_mapping active_mappings patch_key) (\<lambda>previous.
     Inr (PDict (dset (dset change ''from'' previous) ''changeType''
       (PStr (if previous = PNone then ''add'' else if veq previous (PDict proposed) then ''unchanged'' else ''replace''))))))"

definition mappings_of :: "pyval \<Rightarrow> pyval" where
  \<comment> \<open>\<open>active.get('mappings') or {}\<close> of an active layer, an empty dictionary without one\<close>
  "mappings_of active = por (dgetn (dict_of active) ''mappings'') (PDict [])"

definition propose :: "adaptation_env \<Rightarrow> pydict \<Rightarrow> pyval list \<Rightarrow> bool \<Rightarrow> pyval \<Rightarrow> pyval \<Rightarrow> (adaptation_state, pydict) pymethod" where
  "propose env plan reqs live show_venue expected =
     sbind (slift (build_transaction env plan reqs live)) (\<lambda>tx0.
     let tx1 = dset tx0 ''previousShowVenue'' (opt_str (clean_str 160 show_venue)) in
     sthen (check_adaptation_revision expected)
    (sbind (sgets va_active) (\<lambda>active.
     sbind (slift (emap (relate_change (mappings_of active)) (list_of (dgetn tx1 ''changes'')))) (\<lambda>changes.
     let tx = dset (dset tx1 ''changes'' (PList changes)) ''previousActiveTransactionId'' (dgetn (dict_of active) ''transactionId'') in
     sthen (put_tx (transaction_id env) tx) (sthen (save_adaptation env) (sreturn tx))))))"

definition status_in :: "pydict \<Rightarrow> string list \<Rightarrow> pyerr + bool" where
  \<comment> \<open>membership in a set, which hashes the value\<close>
  "status_in d ss =
     (let v = dgetn d ''status'' in if is_list v \<or> is_dict v then Inl TypeError else Inr (list_ex (\<lambda>s. v = PStr s) ss))"

definition validation_blockers :: "pydict \<Rightarrow> pydict \<Rightarrow> pyval list \<Rightarrow> pyerr + string list" where
  "validation_blockers tx plan reqs =
     ebind (status_in tx [''committed'', ''rolled-back'']) (\<lambda>closed.
     ebind (py_iter (por (dgetn plan ''blockers'') (PList []))) (\<lambda>blocked.
     ebind (py_iter (por (dgetn plan ''unmappedRequired'') (PList []))) (\<lambda>missing.
     Inr ((if closed then [''transaction already '' @ py_str (dgetn tx ''status'')] else []) @
          (if PStr (requirements_fingerprint reqs) \<noteq> dgetn tx ''requirementsHash'' then [''show requirements changed since proposal''] else []) @
          (if PStr (plan_fingerprint plan) \<noteq> dgetn tx ''planHash'' then [''venue compatibility plan changed since proposal''] else []) @
          map py_str blocked @ map (\<lambda>x. ''required venue patch unresolved: '' @ py_str x) missing))))"

definition validated_doc :: "adaptation_env \<Rightarrow> bool \<Rightarrow> string list \<Rightarrow> pydict \<Rightarrow> pydict" where
  "validated_doc env valid blockers tx =
     dset (dset (dset tx ''validation'' (PDict [(''valid'', PBool valid), (''checkedAt'', PStr (ae_now env)), (''blockers'', strs (sorted_set blockers))]))
       ''status'' (PStr (if valid then ''validated'' else ''proposed''))) ''updatedAt'' (PStr (ae_now env))"

definition validate :: "adaptation_env \<Rightarrow> string \<Rightarrow> pydict \<Rightarrow> pyval list \<Rightarrow> pyval \<Rightarrow> (adaptation_state, pydict) pymethod" where
  "validate env k plan reqs expected =
     sthen (check_adaptation_revision expected)
    (sbind (find_tx k) (\<lambda>tx.
     sthen (slift (assert_reader_safe tx 1))
    (sbind (slift (validation_blockers tx plan reqs)) (\<lambda>blockers.
     let valid = (blockers = [] \<and> truthy (dgetn plan ''compatible'') \<and> dgetn plan ''readiness'' = PStr ''ready'') in
     sthen (put_tx k (validated_doc env valid blockers tx)) (sthen (save_adaptation env) (find_tx k))))))"

text \<open>The next bar line of four beats after the current position.\<close>

definition bar_target :: "pyfloat \<Rightarrow> pyfloat \<Rightarrow> pyerr + pyfloat" where
  "bar_target show_seconds bpm =
     (case fmax (Fin 1) bpm of
        Fin b \<Rightarrow>
          (let bar = 60 / b * 4 in
           case fmax (Fin 0) show_seconds of
             Fin current \<Rightarrow>
               (let target = of_int \<lfloor>current / bar + 1\<rfloor> * bar in
                Inr (fround 9 (Fin (if target \<le> current + 1 / 10 ^ 9 then target + bar else target))))
           | _ \<Rightarrow> Inl OverflowError)
      | _ \<Rightarrow> Inl ZeroDivisionError)"

definition commit_target :: "string \<Rightarrow> pyfloat \<Rightarrow> pyfloat \<Rightarrow> string \<Rightarrow> pyerr + pyval \<times> pyval" where
  \<comment> \<open>\<open>targetShowSeconds\<close> and \<open>cueId\<close> of the commit\<close>
  "commit_target mode show_seconds bpm cue_id =
     (if mode = ''next-bar'' then ebind (bar_target show_seconds bpm) (\<lambda>t. Inr (PFloat t, PNone))
      else if mode = ''cue'' then
        (let cue = clean_str 128 (PStr cue_id) in
         ebind (eguard (cue \<noteq> []) (ValueError ''cue commit requires cueId'')) (\<lambda>_. Inr (PNone, PStr cue)))
      else Inr (PNone, PNone))"

definition commit_dict :: "adaptation_env \<Rightarrow> string \<Rightarrow> string \<Rightarrow> pyfloat \<Rightarrow> pyval \<times> pyval \<Rightarrow> pydict" where
  "commit_dict env mode requested_by show_seconds x =
     [(''mode'', PStr mode), (''requestedAt'', PStr (ae_now env)), (''requestedBy'', PStr (take 128 requested_by)),
      (''requestedShowSeconds'', PFloat show_seconds), (''targetShowSeconds'', fst x), (''cueId'', snd x)]"

definition scheduled_doc :: "adaptation_env \<Rightarrow> string \<Rightarrow> pydict \<Rightarrow> pydict \<Rightarrow> pydict" where
  "scheduled_doc env mode commit tx =
     dset (dset (dset tx ''commit'' (PDict commit)) ''status'' (PStr (if mode = ''immediate'' then ''validated'' else ''pending-commit'')))
       ''updatedAt'' (PStr (ae_now env))"

definition patch_layer :: "adaptation_env \<Rightarrow> pydict \<Rightarrow> pyval \<Rightarrow> pyfloat \<Rightarrow> pyerr + pydict" where
  "patch_layer env tx previous show_seconds =
     ebind (as_dict (por previous (PDict []))) (\<lambda>p.
     ebind (get_int p ''patchRevision'' (PInt 0)) (\<lambda>r.
     ebind (dindex tx ''transactionId'') (\<lambda>i.
     Inr [(''documentType'', PStr ''org.upp.venue-patch-layer''), (''schemaVersion'', PInt 1), (''minimumReaderSchemaVersion'', PInt 1),
          (''unknownFieldsPreserved'', PBool True), (''patchRevision'', PInt (r + 1)), (''transactionId'', i),
          (''venueId'', dgetn tx ''venueId''), (''venueName'', dgetn tx ''venueName''), (''activatedAt'', PStr (ae_now env)),
          (''activatedShowSeconds'', PFloat (fround 6 show_seconds)), (''grade'', dgetn tx ''grade''),
          (''mappings'', por (dgetn tx ''mappings'') (PDict [])), (''departments'', por (dgetn tx ''departments'') (PList [])),
          (''discoveryMode'', dgetn tx ''discoveryMode'')])))"

definition committed_doc :: "adaptation_env \<Rightarrow> pydict \<Rightarrow> pyval \<Rightarrow> pydict \<Rightarrow> pydict" where
  "committed_doc env boundary previous tx =
     dset (dset (dset (dset (dset tx ''status'' (PStr ''committed'')) ''updatedAt'' (PStr (ae_now env))) ''committedAt'' (PStr (ae_now env)))
       ''commitBoundary'' (PDict boundary)) ''previousActive'' previous"

definition commit_receipt :: "adaptation_env \<Rightarrow> int \<Rightarrow> pydict \<Rightarrow> pyval \<Rightarrow> pydict \<Rightarrow> pydict \<Rightarrow> pyerr + pydict" where
  "commit_receipt env revision boundary previous active tx =
     ebind (as_dict (dgetd tx ''commit'' (PDict []))) (\<lambda>commit.
     ebind (as_dict (por previous (PDict []))) (\<lambda>p.
     let approver = dgetn commit ''requestedBy'' in
     Inr [(''receiptId'', PStr (''receipt-'' @ ae_receipt env revision)), (''reason'', PStr ''venue adaptation''), (''intentPreserved'', PBool True),
          (''changes'', por (dgetn tx ''changes'') (PList [])), (''approvedBy'', PList (if truthy approver then [approver] else [])),
          (''aiAssisted'', PBool False), (''reversible'', PBool True), (''transactionId'', dgetn tx ''transactionId''),
          (''venueId'', dgetn tx ''venueId''), (''boundary'', PDict boundary), (''previousPatchRevision'', dgetn p ''patchRevision''),
          (''newPatchRevision'', dgetn active ''patchRevision''), (''committedAt'', PStr (ae_now env))]))"

definition commit_locked :: "adaptation_env \<Rightarrow> string \<Rightarrow> pyfloat \<Rightarrow> pydict \<Rightarrow> (adaptation_state, pydict) pymethod" where
  "commit_locked env k show_seconds boundary =
     sbind (find_tx k) (\<lambda>tx.
     sbind (sgets va_active) (\<lambda>previous.
     sbind (slift (patch_layer env tx previous show_seconds)) (\<lambda>active.
     sthen (smodify (\<lambda>s. s\<lparr>va_active := PDict active\<rparr>))
    (let tx' = committed_doc env boundary previous tx in
     sthen (put_tx k tx')
    (sbind (sgets va_revision) (\<lambda>r.
     sbind (slift (commit_receipt env r boundary previous active tx')) (\<lambda>receipt.
     sthen (put_tx k (dset tx' ''receipt'' (PDict receipt))) (sthen (save_adaptation env) (find_tx k)))))))))"

definition pending_others :: "string \<Rightarrow> pydict \<Rightarrow> pyval list" where
  "pending_others k txs =
     map (\<lambda>d. dgetn d ''transactionId'') (filter (\<lambda>d. is_status d ''pending-commit'' \<and> dgetn d ''transactionId'' \<noteq> PStr k) (objects (map snd txs)))"

definition schedule_commit ::
    "adaptation_env \<Rightarrow> string \<Rightarrow> pyval \<Rightarrow> pyfloat \<Rightarrow> pyfloat \<Rightarrow> string \<Rightarrow> string \<Rightarrow> pyval \<Rightarrow> (adaptation_state, pydict) pymethod" where
  "schedule_commit env k mode0 show_seconds bpm cue_id requested_by expected =
     (let mode = py_lower (strip (py_str (por mode0 (PStr ''immediate'')))) in
      sthen (sguard (mode \<in> {''immediate'', ''next-bar'', ''cue''}) (ValueError ''commit mode must be immediate, next-bar, or cue''))
     (sthen (check_adaptation_revision expected)
     (sbind (find_tx k) (\<lambda>tx.
      sthen (slift (assert_reader_safe tx 1))
     (sbind (slift (sub_dict tx ''validation'')) (\<lambda>validation.
      sthen (sguard (truthy (dgetn validation ''valid'')) (ValueError ''transaction must validate before commit''))
     (if is_status tx ''committed'' then sreturn tx
      else
        sbind (sgets (\<lambda>s. pending_others k (va_transactions s))) (\<lambda>others.
        sthen (sguard (others = []) (ValueError (''another venue adaptation commit is already pending: '' @ py_str (hd others))))
       (sbind (slift (commit_target mode show_seconds bpm cue_id)) (\<lambda>x.
        sthen (put_tx k (scheduled_doc env mode (commit_dict env mode requested_by show_seconds x) tx))
       (sthen (save_adaptation env)
        (if mode = ''immediate'' then commit_locked env k show_seconds [(''type'', PStr ''immediate'')] else find_tx k))))))))))))"

text \<open>The pending transactions that are due, with their keys.\<close>

definition bar_due :: "pyfloat \<Rightarrow> pydict \<Rightarrow> pyerr + bool" where
  "bar_due show_seconds d =
     ebind (pending_in_mode ''next-bar'' d) (\<lambda>b.
     if b then
       ebind (commit_field d ''targetShowSeconds'') (\<lambda>v.
       ebind (py_float (por v (PFloat PInf))) (\<lambda>t. Inr (fle t show_seconds)))
     else Inr False)"

definition cue_due :: "string \<Rightarrow> pydict \<Rightarrow> pyerr + bool" where
  "cue_due cue_id d =
     ebind (pending_in_mode ''cue'' d) (\<lambda>b. if b then ebind (commit_field d ''cueId'') (\<lambda>v. Inr (v = PStr cue_id)) else Inr False)"

fun due_keys :: "(pydict \<Rightarrow> pyerr + bool) \<Rightarrow> pydict \<Rightarrow> pyerr + string list" where
  "due_keys due [] = Inr []"
| "due_keys due ((k, v) # txs) =
     ebind (case v of PDict d \<Rightarrow> due d | _ \<Rightarrow> Inr False) (\<lambda>b.
     ebind (due_keys due txs) (\<lambda>ks. Inr (if b then k # ks else ks)))"

fun insert_due :: "pyfloat \<times> string \<Rightarrow> (pyfloat \<times> string) list \<Rightarrow> (pyfloat \<times> string) list" where
  "insert_due x [] = [x]"
| "insert_due x (y # ys) = (if flt (fst x) (fst y) then x # y # ys else y # insert_due x ys)"

definition due_order :: "(pyfloat \<times> string) list \<Rightarrow> string list" where
  \<comment> \<open>the stable sort by target\<close>
  "due_order xs = map snd (fold insert_due xs [])"

definition due_target :: "pydict \<Rightarrow> string \<Rightarrow> pyerr + pyfloat \<times> string" where
  "due_target txs k =
     ebind (commit_field (dict_of (dgetn txs k)) ''targetShowSeconds'') (\<lambda>v. ebind (py_float (por v (PFloat (Fin 0)))) (\<lambda>t. Inr (t, k)))"

definition tick_commit :: "adaptation_env \<Rightarrow> pyfloat \<Rightarrow> string \<Rightarrow> pydict list \<Rightarrow> (adaptation_state, pydict list) pymethod" where
  "tick_commit env show_seconds k committed =
     sbind (find_tx k) (\<lambda>tx.
     sbind (slift (commit_field tx ''targetShowSeconds'')) (\<lambda>target.
     sbind (commit_locked env k show_seconds
       [(''type'', PStr ''bar''), (''targetShowSeconds'', target), (''actualShowSeconds'', PFloat (fround 6 show_seconds))]) (\<lambda>tx'.
     sreturn (committed @ [tx']))))"

definition tick :: "adaptation_env \<Rightarrow> pyfloat \<Rightarrow> (adaptation_state, pydict list) pymethod" where
  "tick env show_seconds =
     sbind (sgete (\<lambda>s. ebind (due_keys (bar_due show_seconds) (va_transactions s)) (\<lambda>ks. emap (due_target (va_transactions s)) ks))) (\<lambda>due.
     sfold (tick_commit env show_seconds) (due_order due) [])"

definition cue_commit :: "adaptation_env \<Rightarrow> pyfloat \<Rightarrow> string \<Rightarrow> int \<Rightarrow> string \<Rightarrow> pydict list \<Rightarrow> (adaptation_state, pydict list) pymethod" where
  "cue_commit env show_seconds cue_id sequence k committed =
     sbind (commit_locked env k show_seconds [(''type'', PStr ''cue''), (''cueId'', PStr cue_id), (''sequence'', PInt sequence)]) (\<lambda>tx'.
     sreturn (committed @ [tx']))"

definition record_cue :: "adaptation_env \<Rightarrow> pyfloat \<Rightarrow> string \<Rightarrow> adaptation_state \<Rightarrow> adaptation_state" where
  "record_cue env show_seconds cue_id s =
     s\<lparr>va_cue_sequence := va_cue_sequence s + 1,
       va_last_cue := PDict [(''cueId'', PStr cue_id), (''sequence'', PInt (va_cue_sequence s + 1)),
         (''showSeconds'', PFloat (fround 6 show_seconds)), (''triggeredAt'', PStr (ae_now env))]\<rparr>"

definition trigger_cue :: "adaptation_env \<Rightarrow> pyval \<Rightarrow> pyfloat \<Rightarrow> pyval \<Rightarrow> (adaptation_state, pydict list) pymethod" where
  "trigger_cue env cue0 show_seconds expected =
     (let cue_id = clean_str 128 cue0 in
      sthen (sguard (cue_id \<noteq> []) (ValueError ''cueId required''))
     (sthen (check_adaptation_revision expected)
     (sthen (smodify (record_cue env show_seconds cue_id))
     (sbind (sgete (\<lambda>s. due_keys (cue_due cue_id) (va_transactions s))) (\<lambda>due.
      sbind (sgets va_cue_sequence) (\<lambda>n.
      sbind (sfold (cue_commit env show_seconds cue_id n) due []) (\<lambda>committed.
      sthen (swhen (due = []) (save_adaptation env)) (sreturn committed))))))))"

definition cancelled_doc :: "adaptation_env \<Rightarrow> string \<Rightarrow> pyfloat \<Rightarrow> pydict \<Rightarrow> pydict" where
  "cancelled_doc env requested_by show_seconds tx =
     dset (dset (dset tx ''status'' (PStr ''rolled-back'')) ''rolledBackAt'' (PStr (ae_now env)))
       ''rollback'' (PDict [(''requestedBy'', PStr (take 128 requested_by)), (''showSeconds'', PFloat (fround 6 show_seconds)),
         (''cancelledPendingCommit'', PBool True)])"

definition rollback_dict :: "string \<Rightarrow> pyfloat \<Rightarrow> pydict \<Rightarrow> pydict \<Rightarrow> pydict" where
  "rollback_dict requested_by show_seconds restored tx =
     [(''requestedBy'', PStr (take 128 requested_by)), (''showSeconds'', PFloat (fround 6 show_seconds)),
      (''restoredTransactionId'', dgetn restored ''transactionId''),
      (''restoredVenueName'', por (dgetn restored ''venueName'') (dgetn tx ''previousShowVenue''))]"

definition rollback :: "adaptation_env \<Rightarrow> string \<Rightarrow> pyfloat \<Rightarrow> string \<Rightarrow> pyval \<Rightarrow> (adaptation_state, pydict) pymethod" where
  "rollback env k show_seconds requested_by expected =
     sthen (check_adaptation_revision expected)
    (sbind (find_tx k) (\<lambda>tx.
     sthen (slift (assert_reader_safe tx 1))
    (if is_status tx ''pending-commit'' then
       sthen (put_tx k (cancelled_doc env requested_by show_seconds tx)) (sthen (save_adaptation env) (find_tx k))
     else
       sthen (sguard (is_status tx ''committed'') (ValueError ''only committed or pending transactions can be rolled back''))
      (sbind (sgets va_active) (\<lambda>active.
       sthen (sguard (is_dict active \<and> dgetn (dict_of active) ''transactionId'' = PStr k)
         (ValueError ''transaction is not the currently active venue patch layer''))
      (let previous = dgetn tx ''previousActive'';
           tx' = dset (dset tx ''status'' (PStr ''rolled-back'')) ''rolledBackAt'' (PStr (ae_now env)) in
       sthen (smodify (\<lambda>s. s\<lparr>va_active := previous\<rparr>))
      (sthen (put_tx k tx')
      (sbind (slift (as_dict (por previous (PDict [])))) (\<lambda>restored.
       sthen (put_tx k (dset tx' ''rollback'' (PDict (rollback_dict requested_by show_seconds restored tx))))
      (sthen (save_adaptation env) (find_tx k)))))))))))"

section \<open>The calls of the runtime\<close>

text \<open>\<open>StageForgeRuntime.venue_adaptation_commit\<close> up to the commit of the manager: the transaction is validated
  against the current plan and scheduled.\<close>

definition venue_adaptation_commit ::
    "adaptation_env \<Rightarrow> bool \<Rightarrow> string \<Rightarrow> pydict \<Rightarrow> pyval list \<Rightarrow> pyfloat \<Rightarrow> pyfloat \<Rightarrow> pydict \<Rightarrow> (adaptation_state, pydict) pymethod" where
  "venue_adaptation_commit env authority k plan reqs show_seconds bpm data =
     sthen (sguard authority (RuntimeError ''venue adaptation commit requires current node authority''))
    (sthen (find_tx k)
    (sbind (validate env k plan reqs (dgetn data ''expectedAdaptationRevision'')) (\<lambda>tx.
     sbind (slift (sub_dict tx ''validation'')) (\<lambda>validation.
     sbind (slift (py_iter (por (dgetn validation ''blockers'') (PList [])))) (\<lambda>blockers.
     sthen (sguard (truthy (dgetn validation ''valid''))
       (ValueError (''venue adaptation no longer validates: '' @ join ''; '' (map py_str blockers))))
     (schedule_commit env k (PStr (py_str (dgetd data ''mode'' (PStr ''immediate'')))) show_seconds bpm
        (py_str (dgetd data ''cueId'' (PStr []))) (py_str (dgetd data ''requestedBy'' (PStr []))) PNone))))))"

definition venue_adaptation_rollback ::
    "adaptation_env \<Rightarrow> bool \<Rightarrow> string \<Rightarrow> pyfloat \<Rightarrow> pydict \<Rightarrow> (adaptation_state, pydict) pymethod" where
  \<comment> \<open>the call of the manager\<close>
  "venue_adaptation_rollback env authority k show_seconds data =
     sthen (sguard authority (RuntimeError ''venue adaptation rollback requires current node authority''))
     (rollback env k show_seconds (py_str (dgetd data ''requestedBy'' (PStr []))) (dgetn data ''expectedAdaptationRevision''))"

section \<open>The invariant\<close>

text \<open>A transaction whose last validation succeeded; a layer that belongs to a stored transaction.\<close>

definition proven :: "pydict \<Rightarrow> bool" where
  "proven d = truthy (dgetn (dict_of (dgetn d ''validation'')) ''valid'')"

definition layer_ok :: "pydict \<Rightarrow> pyval \<Rightarrow> bool" where
  "layer_ok txs v = (v = PNone \<or> (\<exists>a t d. v = PDict a \<and> dwf a \<and> (\<exists>r. dgetn a ''patchRevision'' = PInt r) \<and> dgetn a ''transactionId'' = PStr t \<and>
     dget txs t = Some (PDict d) \<and> dgetn a ''mappings'' = por (dgetn d ''mappings'') (PDict [])))"

definition tx_ok :: "pydict \<Rightarrow> string \<Rightarrow> pyval \<Rightarrow> bool" where
  "tx_ok txs k v = (\<exists>d. v = PDict d \<and> dwf d \<and> dwf (dict_of (dgetn d ''validation'')) \<and> dgetn d ''transactionId'' = PStr k \<and>
     (is_status d ''pending-commit'' \<or> is_status d ''committed'' \<longrightarrow> proven d) \<and> layer_ok txs (dgetn d ''previousActive''))"

definition one_pending :: "pydict \<Rightarrow> bool" where
  "one_pending txs = (\<forall>k d k' d'. dget txs k = Some (PDict d) \<and> dget txs k' = Some (PDict d') \<and>
     is_status d ''pending-commit'' \<and> is_status d' ''pending-commit'' \<longrightarrow> k = k')"

definition adaptation_ok :: "adaptation_state \<Rightarrow> bool" where
  "adaptation_ok s = (dwf (va_transactions s) \<and> (\<forall>k v. dget (va_transactions s) k = Some v \<longrightarrow> tx_ok (va_transactions s) k v) \<and>
     layer_ok (va_transactions s) (va_active s) \<and> one_pending (va_transactions s))"

definition adaptation_inv :: "adaptation_state \<Rightarrow> bool" where
  "adaptation_inv s = (adaptation_ok s \<and>
     (\<forall>v. va_file s = Some v \<longrightarrow> (\<exists>s'. adaptation_ok s' \<and> v = json_sorted (PDict (state_document s')))))"

definition edits :: "pydict \<Rightarrow> pydict \<Rightarrow> bool" where
  \<comment> \<open>a change of a transaction that keeps what it is about\<close>
  "edits d d' = ((dwf d \<longrightarrow> dwf d') \<and> (dwf (dict_of (dgetn d ''validation'')) \<longrightarrow> dwf (dict_of (dgetn d' ''validation''))) \<and> dgetn d' ''transactionId'' = dgetn d ''transactionId'' \<and> dgetn d' ''mappings'' = dgetn d ''mappings'')"

lemma edits_dset:
  "k \<noteq> ''transactionId'' \<Longrightarrow> k \<noteq> ''mappings'' \<Longrightarrow> k = ''validation'' \<longrightarrow> dwf (dict_of v) \<Longrightarrow> edits d d' \<Longrightarrow> edits d (dset d' k v)"
  by (simp add: edits_def)

lemma edits_refl: "edits d d"
  by (simp add: edits_def)

lemmas edits_intro = edits_dset edits_refl

lemma layer_ok_put:
  assumes "layer_ok txs v" and "dget txs k = Some (PDict d)" and "dgetn d' ''mappings'' = dgetn d ''mappings''"
  shows "layer_ok (dset txs k (PDict d')) v"
  using assms unfolding layer_ok_def by (metis dget_dset option.inject pyval.inject(6))

lemma layer_ok_new: "layer_ok txs v \<Longrightarrow> dget txs k = None \<Longrightarrow> layer_ok (dset txs k w) v"
  unfolding layer_ok_def by (metis dget_dset option.distinct(1))

lemma tx_okD:
  assumes "adaptation_ok s" and "dget (va_transactions s) k = Some (PDict d)"
  shows "dwf d" "dgetn d ''transactionId'' = PStr k" "is_status d ''pending-commit'' \<or> is_status d ''committed'' \<Longrightarrow> proven d"
    "layer_ok (va_transactions s) (dgetn d ''previousActive'')" "dwf (dict_of (dgetn d ''validation''))"
proof -
  from assms have "tx_ok (va_transactions s) k (PDict d)" by (simp add: adaptation_ok_def)
  then show "dwf d" "dgetn d ''transactionId'' = PStr k" "is_status d ''pending-commit'' \<or> is_status d ''committed'' \<Longrightarrow> proven d"
    "layer_ok (va_transactions s) (dgetn d ''previousActive'')" "dwf (dict_of (dgetn d ''validation''))"
    by (auto simp: tx_ok_def)
qed

lemma pending_others_Nil:
  assumes "adaptation_ok s" and "pending_others k (va_transactions s) = []"
    and "dget (va_transactions s) k' = Some (PDict d)" and "k' \<noteq> k"
  shows "\<not> is_status d ''pending-commit''"
proof
  assume p: "is_status d ''pending-commit''"
  have "(k', PDict d) \<in> set (va_transactions s)"
    using assms(3) by (simp add: dget_def map_of_SomeD)
  then have "d \<in> set (objects (map snd (va_transactions s)))"
    by (force simp: objects_def)
  with p tx_okD(2) [OF assms(1,3)] assms(2,4) show False
    by (auto simp: pending_others_def filter_empty_conv)
qed

lemma put_ok:
  assumes s: "adaptation_ok s" and d: "dget (va_transactions s) k = Some (PDict d)" and e: "edits d d'"
    and p: "is_status d' ''pending-commit'' \<or> is_status d' ''committed'' \<Longrightarrow> proven d'"
    and l: "layer_ok (va_transactions s) (dgetn d' ''previousActive'')"
    and a: "layer_ok (dset (va_transactions s) k (PDict d')) act"
    and o: "is_status d' ''pending-commit'' \<Longrightarrow> pending_others k (va_transactions s) = []"
  shows "adaptation_ok (s\<lparr>va_active := act, va_transactions := dset (va_transactions s) k (PDict d')\<rparr>)"
proof -
  let ?txs = "va_transactions s" and ?new = "dset (va_transactions s) k (PDict d')"
  have m: "dgetn d' ''mappings'' = dgetn d ''mappings''" using e by (simp add: edits_def)
  have "tx_ok ?new k' v" if "dget ?new k' = Some v" for k' v
  proof (cases "k' = k")
    case True
    with that have "v = PDict d'" by simp
    with True p e tx_okD(1,2,5) [OF s d] layer_ok_put [OF l d m] show ?thesis by (auto simp: tx_ok_def edits_def)
  next
    case False
    with that s have "tx_ok ?txs k' v" by (simp add: adaptation_ok_def)
    then show ?thesis unfolding tx_ok_def using layer_ok_put [OF _ d m] by blast
  qed
  moreover have "one_pending ?new"
  proof -
    have "x = k" if "is_status d' ''pending-commit''" "dget ?txs x = Some (PDict y)" "is_status y ''pending-commit''" for x y
      using pending_others_Nil [OF s o [OF that(1)] that(2)] that(3) by blast
    moreover have "one_pending ?txs" using s by (simp add: adaptation_ok_def)
    ultimately show ?thesis unfolding one_pending_def by (smt (verit, best) dget_dset option.inject pyval.inject(6))
  qed
  ultimately show ?thesis using s a by (simp add: adaptation_ok_def)
qed

lemma put_inv:
  assumes "adaptation_inv s" and "dget (va_transactions s) k = Some (PDict d)" and "edits d d'"
    and "is_status d' ''pending-commit'' \<or> is_status d' ''committed'' \<Longrightarrow> proven d'"
    and "layer_ok (va_transactions s) (dgetn d' ''previousActive'')"
    and "is_status d' ''pending-commit'' \<Longrightarrow> pending_others k (va_transactions s) = []"
  shows "adaptation_inv (s\<lparr>va_transactions := dset (va_transactions s) k (PDict d')\<rparr>)"
proof -
  have ok: "adaptation_ok s" using assms(1) by (simp add: adaptation_inv_def)
  then have "layer_ok (dset (va_transactions s) k (PDict d')) (va_active s)"
    using layer_ok_put [OF _ assms(2)] assms(3) by (simp add: adaptation_ok_def edits_def)
  from put_ok [OF ok assms(2-5) this assms(6)] assms(1) show ?thesis by (simp add: adaptation_inv_def)
qed

lemma run_put: "sthen (put_tx k d) m s = m (s\<lparr>va_transactions := dset (va_transactions s) k (PDict d)\<rparr>)"
  by (simp add: put_tx_def sthen_run)

lemma keeps_save: "keeps adaptation_inv (save_adaptation env)"
  unfolding save_adaptation_def touch_adaptation_def persist_def
  by (intro keeps_intro keeps_modify) (auto simp: adaptation_inv_def adaptation_ok_def)

lemma keeps_pure_adaptation: "keeps I (check_adaptation_revision e)" "keeps I (find_tx k)"
  unfolding check_adaptation_revision_def find_tx_def by (intro keeps_intro)+

lemmas adaptation_intro = keeps_intro keeps_save keeps_pure_adaptation

lemma keeps_found:
  assumes "\<And>s d. I s \<Longrightarrow> dget (va_transactions s) k = Some (PDict d) \<Longrightarrow> I (snd (f d s))"
  shows "keeps I (sbind (find_tx k) f)"
  using assms by (auto simp: keeps_def sbind_run find_tx_def split: option.splits pyval.splits)

lemma invD: "adaptation_inv s \<Longrightarrow> adaptation_ok s"
  by (simp add: adaptation_inv_def)

lemma after_put:
  assumes "adaptation_inv s" and "dget (va_transactions s) k = Some (PDict d)" and "edits d d'"
    and "is_status d' ''pending-commit'' \<or> is_status d' ''committed'' \<Longrightarrow> proven d'"
    and "dgetn d' ''previousActive'' = dgetn d ''previousActive''"
    and "is_status d' ''pending-commit'' \<Longrightarrow> pending_others k (va_transactions s) = []"
    and "keeps adaptation_inv m"
  shows "adaptation_inv (snd (sthen (put_tx k d') m s))"
  unfolding run_put
  using keepsD [OF assms(7) put_inv [OF assms(1-4) _ assms(6)]] tx_okD(4) [OF invD [OF assms(1)] assms(2)] assms(5) by simp

text \<open>Steps of a method up to the first write: what is read stays as it is.\<close>

lemma run_read:
  "snd (sthen (slift r) m s) = (if isl r then s else snd (m s))"
  "snd (sbind (slift q) f s) = (case q of Inl e \<Rightarrow> s | Inr x \<Rightarrow> snd (f x s))"
  "snd (sthen (sguard b e) m s) = (if b then snd (m s) else s)"
  "sbind (sgets g) h s = h (g s) s"
  by (auto simp: sthen_run sbind_run sguard_run split: sum.splits)

lemma proven_dset [simp]: "k \<noteq> ''validation'' \<Longrightarrow> proven (dset d k v) = proven d"
  by (simp add: proven_def)

lemma is_status_dset [simp]: "is_status (dset d k v) t = (if k = ''status'' then v = PStr t else is_status d t)"
  by (auto simp: is_status_def)

lemma validate_inv: "keeps adaptation_inv (validate env k plan reqs expected)"
  unfolding validate_def
proof (intro keeps_sthen keeps_pure_adaptation keeps_found)
  fix s d
  assume s: "adaptation_inv s" and d: "dget (va_transactions s) k = Some (PDict d)"
  have m: "keeps adaptation_inv (sthen (save_adaptation env) (find_tx k))" by (intro adaptation_intro)
  have put: "adaptation_inv (snd (sthen (put_tx k (validated_doc env valid bs d)) (sthen (save_adaptation env) (find_tx k)) s))" for valid bs
    by (rule after_put [OF s d _ _ _ _ m]) (auto simp: validated_doc_def dwf_def dkeys_def intro!: edits_intro split: if_splits)
  show "adaptation_inv (snd (sthen (slift (assert_reader_safe d 1)) (sbind (slift (validation_blockers d plan reqs)) (\<lambda>blockers.
      let valid = (blockers = [] \<and> truthy (dgetn plan ''compatible'') \<and> dgetn plan ''readiness'' = PStr ''ready'') in
      sthen (put_tx k (validated_doc env valid blockers d)) (sthen (save_adaptation env) (find_tx k)))) s))"
    using s put by (auto simp: run_read Let_def split: sum.split)
qed

lemma run_then_find: "snd (sthen m (find_tx k) s) = snd (m s)"
  by (auto simp: sthen_run find_tx_def split: prod.split sum.split)

lemma attach_inv: "keeps adaptation_inv (attach_receipt_evidence env k evidence)"
  unfolding attach_receipt_evidence_def
proof (intro keeps_found)
  fix s d
  assume s: "adaptation_inv s" and d: "dget (va_transactions s) k = Some (PDict d)"
  have put: "adaptation_inv (snd (sthen (put_tx k (dset d ''receipt'' v)) (save_adaptation env) s))" if "is_status d ''committed''" for v
    by (rule after_put [OF s d _ _ _ _ keeps_save])
      (use tx_okD(3) [OF invD [OF s] d] that in \<open>auto simp: is_status_def intro!: edits_intro\<close>)
  show "adaptation_inv (snd ((case dict_field d ''receipt'' of None \<Rightarrow> sraise (ValueError ''venue adaptation receipt is not committed'')
      | Some receipt \<Rightarrow> sthen (sguard (is_status d ''committed'') (ValueError ''venue adaptation receipt is not committed''))
          (sthen (swhen (dict_field receipt ''publicRecord'' = None)
             (sthen (put_tx k (dset d ''receipt'' (PDict (dset receipt ''publicRecord'' (PDict evidence))))) (save_adaptation env)))
           (find_tx k))) s))"
    using s put by (auto simp: run_read run_then_find swhen_run split: option.split)
qed

section \<open>Commits and rollbacks keep it\<close>

definition proven_at :: "string \<Rightarrow> adaptation_state \<Rightarrow> bool" where
  "proven_at k s = (\<exists>d. dget (va_transactions s) k = Some (PDict d) \<and> proven d)"

definition commit_inv :: "string set \<Rightarrow> adaptation_state \<Rightarrow> bool" where
  "commit_inv K s = (adaptation_inv s \<and> (\<forall>k \<in> K. proven_at k s))"

lemma keeps_commit_save: "keeps (commit_inv K) (save_adaptation env)"
proof -
  have "keeps (\<lambda>s. \<forall>k \<in> K. proven_at k s) (save_adaptation env)"
    unfolding save_adaptation_def touch_adaptation_def persist_def proven_at_def by (intro keeps_intro keeps_modify) auto
  with keeps_save [of env] show ?thesis by (simp add: keeps_def commit_inv_def)
qed

lemma patch_layer_facts:
  assumes "patch_layer env tx previous sec = Inr a" and "dgetn tx ''transactionId'' = PStr k"
  shows "dwf a" "\<exists>r. dgetn a ''patchRevision'' = PInt r" "dgetn a ''transactionId'' = PStr k"
    "dgetn a ''mappings'' = por (dgetn tx ''mappings'') (PDict [])"
proof -
  have "dindex tx ''transactionId'' = Inr (PStr k)"
    using assms(2) by (auto simp: dindex_def dgetn_def dgetd_def split: option.splits)
  then show "dwf a" "\<exists>r. dgetn a ''patchRevision'' = PInt r" "dgetn a ''transactionId'' = PStr k"
    "dgetn a ''mappings'' = por (dgetn tx ''mappings'') (PDict [])"
    using assms(1) by (auto simp: patch_layer_def ebind_eq_Inr dwf_def dkeys_def dgetn_def dgetd_def)
qed

lemma patch_layer_ok:
  assumes "patch_layer env tx previous sec = Inr a" and "dgetn tx ''transactionId'' = PStr k" and "dget txs k = Some (PDict d)"
    and "dgetn d ''mappings'' = dgetn tx ''mappings''"
  shows "layer_ok txs (PDict a)"
  using patch_layer_facts [OF assms(1,2)] assms(3,4) by (auto simp: layer_ok_def)

lemma commit_put:
  assumes K: "commit_inv K s" and d: "dget (va_transactions s) k = Some (PDict d)" and p: "proven d"
    and a: "patch_layer env d (va_active s) sec = Inr a"
    and d': "d' = committed_doc env b (va_active s) d \<or> d' = dset (committed_doc env b (va_active s) d) ''receipt'' v"
  shows "commit_inv K (s\<lparr>va_active := PDict a, va_transactions := dset (va_transactions s) k (PDict d')\<rparr>)"
proof -
  have inv: "adaptation_inv s" and ok: "adaptation_ok s" using K by (simp_all add: commit_inv_def adaptation_inv_def)
  have e: "edits d d'" and s': "is_status d' ''committed''" "proven d'" "dgetn d' ''previousActive'' = va_active s"
    using d' p by (auto simp: committed_doc_def intro!: edits_intro)
  have "dgetn d' ''mappings'' = dgetn d ''mappings''" using e by (simp add: edits_def)
  then have l: "layer_ok (dset (va_transactions s) k (PDict d')) (PDict a)"
    by (intro patch_layer_ok [OF a tx_okD(2) [OF ok d], where d = d']) simp_all
  have "adaptation_ok (s\<lparr>va_active := PDict a, va_transactions := dset (va_transactions s) k (PDict d')\<rparr>)"
    by (rule put_ok [OF ok d e _ _ l]) (use s' ok in \<open>auto simp: is_status_def adaptation_ok_def\<close>)
  with inv K s'(2) show ?thesis by (auto simp: commit_inv_def adaptation_inv_def proven_at_def)
qed

lemma commit_locked_inv:
  assumes "k \<in> K"
  shows "keeps (commit_inv K) (commit_locked env k sec b)"
  unfolding commit_locked_def
proof (intro keeps_found)
  fix s d
  assume K: "commit_inv K s" and d: "dget (va_transactions s) k = Some (PDict d)"
  with assms have p: "proven d" by (auto simp: commit_inv_def proven_at_def)
  have m: "keeps (commit_inv K) (sthen (save_adaptation env) (find_tx k))"
    by (intro keeps_sthen keeps_commit_save keeps_pure_adaptation)
  show "commit_inv K (snd (sbind (sgets va_active) (\<lambda>previous.
      sbind (slift (patch_layer env d previous sec)) (\<lambda>active.
      sthen (smodify (\<lambda>s. s\<lparr>va_active := PDict active\<rparr>))
        (let tx' = committed_doc env b previous d in
         sthen (put_tx k tx')
           (sbind (sgets va_revision) (\<lambda>r.
            sbind (slift (commit_receipt env r b previous active tx')) (\<lambda>receipt.
            sthen (put_tx k (dset tx' ''receipt'' (PDict receipt))) (sthen (save_adaptation env) (find_tx k)))))))) s))"
  proof (cases "patch_layer env d (va_active s) sec")
    case (Inl e)
    with K show ?thesis by (simp add: run_read)
  next
    case (Inr a)
    let ?d = "committed_doc env b (va_active s) d"
    let ?put = "\<lambda>d'. s\<lparr>va_active := PDict a, va_transactions := dset (va_transactions s) k (PDict d')\<rparr>"
    have one: "commit_inv K (?put ?d)" by (rule commit_put [OF K d p Inr]) blast
    have two: "commit_inv K (snd (sthen (save_adaptation env) (find_tx k) (?put (dset ?d ''receipt'' v))))" for v
      by (rule keepsD [OF m commit_put [OF K d p Inr]]) blast
    have [simp]: "sthen (smodify f) n s = n (f s)" for f n and s :: adaptation_state by (simp add: sthen_run)
    show ?thesis
      using Inr one two by (auto simp: run_read run_put Let_def dset_dset split: sum.split)
  qed
qed

lemma commit_inv_inv: "commit_inv K s \<Longrightarrow> adaptation_inv s"
  by (simp add: commit_inv_def)

lemma schedule_commit_inv: "keeps adaptation_inv (schedule_commit env k mode0 sec bpm cue who expected)"
  unfolding schedule_commit_def Let_def
proof (intro keeps_sthen keeps_pure_adaptation keeps_found keeps_pure)
  fix s d
  let ?mode = "py_lower (strip (py_str (por mode0 (PStr ''immediate''))))"
  assume s: "adaptation_inv s" and d: "dget (va_transactions s) k = Some (PDict d)"
  let ?doc = "\<lambda>x. scheduled_doc env ?mode (commit_dict env ?mode who sec x) d"
  let ?s = "\<lambda>x. s\<lparr>va_transactions := dset (va_transactions s) k (PDict (?doc x))\<rparr>"
  have put: "commit_inv {k} (?s x)"
    if v: "sub_dict d ''validation'' = Inr v" "truthy (dgetn v ''valid'')" and o: "pending_others k (va_transactions s) = []" for v x
  proof -
    have p: "proven d"
      using v by (auto simp: proven_def sub_dict_def por_def as_dict_def dgetn_def dgetd_def split: if_splits pyval.splits)
    then have "adaptation_inv (?s x)"
      by (intro put_inv [OF s d]) (use tx_okD(4) [OF invD [OF s] d] o in \<open>auto simp: scheduled_doc_def intro!: edits_intro\<close>)
    with p show ?thesis by (simp add: commit_inv_def proven_at_def scheduled_doc_def)
  qed
  have m: "keeps (commit_inv {k}) (sthen (save_adaptation env) (if ?mode = ''immediate'' then commit_locked env k sec [(''type'', PStr ''immediate'')] else find_tx k))"
    by (intro keeps_sthen keeps_commit_save keeps_if commit_locked_inv keeps_pure_adaptation) simp_all
  have committed: "adaptation_inv (snd (sthen (save_adaptation env)
      (if ?mode = ''immediate'' then commit_locked env k sec [(''type'', PStr ''immediate'')] else find_tx k) (?s x)))"
    if "sub_dict d ''validation'' = Inr v" "truthy (dgetn v ''valid'')" "pending_others k (va_transactions s) = []" for v x
    by (rule commit_inv_inv, rule keepsD [OF m], rule put [OF that])
  show "adaptation_inv (snd (sthen (slift (assert_reader_safe d 1)) (sbind (slift (sub_dict d ''validation'')) (\<lambda>validation.
      sthen (sguard (truthy (dgetn validation ''valid'')) (ValueError ''transaction must validate before commit''))
        (if is_status d ''committed'' then sreturn d
         else sbind (sgets (\<lambda>s. pending_others k (va_transactions s))) (\<lambda>others.
           sthen (sguard (others = []) (ValueError (''another venue adaptation commit is already pending: '' @ py_str (hd others))))
             (sbind (slift (commit_target ?mode sec bpm cue)) (\<lambda>x.
              sthen (put_tx k (?doc x)) (sthen (save_adaptation env)
               (if ?mode = ''immediate'' then commit_locked env k sec [(''type'', PStr ''immediate'')] else find_tx k)))))))) s))"
    using s committed by (auto simp: run_read run_put split: sum.split)
qed

lemma due_keys_pending:
  assumes "due_keys due txs = Inr ks" and "k \<in> set ks" and "\<And>d. due d = Inr True \<Longrightarrow> is_status d ''pending-commit''"
  shows "\<exists>d. (k, PDict d) \<in> set txs \<and> is_status d ''pending-commit''"
  using assms
proof (induction due txs arbitrary: ks rule: due_keys.induct)
  case (2 due k' v txs)
  from "2.prems"(1) obtain b ks' where b: "(case v of PDict d \<Rightarrow> due d | _ \<Rightarrow> Inr False) = Inr b" and ks': "due_keys due txs = Inr ks'"
    and ks: "ks = (if b then k' # ks' else ks')"
    by (auto simp: ebind_eq_Inr)
  show ?case
  proof (cases "k \<in> set ks'")
    case True
    with "2.IH" [OF _ ks'] b "2.prems"(3) show ?thesis by (metis list.set_intros(2))
  next
    case False
    with "2.prems"(2) ks have "b" "k = k'" by (auto split: if_splits)
    with b "2.prems"(3) show ?thesis by (auto split: pyval.splits)
  qed
qed simp

lemma due_pending:
  "bar_due sec d = Inr True \<Longrightarrow> is_status d ''pending-commit''" "cue_due cue d = Inr True \<Longrightarrow> is_status d ''pending-commit''"
  by (auto simp: bar_due_def cue_due_def pending_in_mode_def ebind_eq_Inr split: if_splits)

lemma due_commit_inv:
  assumes "adaptation_inv s" and "due_keys due (va_transactions s) = Inr ks" and "\<And>d. due d = Inr True \<Longrightarrow> is_status d ''pending-commit''"
  shows "commit_inv (set ks) s"
proof -
  have "proven_at k s" if k: "k \<in> set ks" for k
  proof -
    obtain d where d: "(k, PDict d) \<in> set (va_transactions s)" "is_status d ''pending-commit''"
      using due_keys_pending [OF assms(2) k assms(3)] by blast
    have "dget (va_transactions s) k = Some (PDict d)"
      using d(1) invD [OF assms(1)] by (simp add: adaptation_ok_def dget_def dwf_def dkeys_def)
    with tx_okD(3) [OF invD [OF assms(1)]] d(2) show ?thesis by (auto simp: proven_at_def)
  qed
  with assms(1) show ?thesis by (simp add: commit_inv_def)
qed

lemma set_insert_due: "set (insert_due x xs) = insert x (set xs)"
  by (induction x xs rule: insert_due.induct) auto

lemma set_due_order: "set (due_order xs) = snd ` set xs"
proof -
  have "set (fold insert_due xs acc) = set xs \<union> set acc" for acc
    by (induction xs arbitrary: acc) (auto simp: set_insert_due)
  then show ?thesis by (simp add: due_order_def)
qed

lemma due_targets: "emap (due_target txs) ks = Inr xs \<Longrightarrow> map snd xs = ks"
  by (induction ks arbitrary: xs) (auto simp: ebind_eq_Inr due_target_def)

lemma tick_inv: "keeps adaptation_inv (tick env sec)"
proof (rule keepsI)
  fix s assume s: "adaptation_inv s"
  let ?txs = "va_transactions s"
  show "adaptation_inv (snd (tick env sec s))"
  proof (cases "ebind (due_keys (bar_due sec) ?txs) (emap (due_target ?txs))")
    case (Inl e)
    with s show ?thesis by (simp add: tick_def sbind_run)
  next
    case (Inr xs)
    then obtain ks where ks: "due_keys (bar_due sec) ?txs = Inr ks" "emap (due_target ?txs) ks = Inr xs" by (auto simp: ebind_eq_Inr)
    have k: "set (due_order xs) = set ks" using due_targets [OF ks(2)] set_due_order [of xs] by (metis list.set_map)
    have "keeps (commit_inv (set ks)) (sfold (tick_commit env sec) (due_order xs) [])"
      unfolding tick_commit_def by (intro keeps_sfold_set keeps_sbind keeps_pure_adaptation keeps_pure commit_locked_inv) (simp add: k)
    then have "commit_inv (set ks) (snd (sfold (tick_commit env sec) (due_order xs) [] s))"
      by (rule keepsD) (rule due_commit_inv [OF s ks(1) due_pending(1)])
    with Inr show ?thesis by (simp add: tick_def sbind_run commit_inv_def)
  qed
qed

lemma trigger_cue_inv: "keeps adaptation_inv (trigger_cue env cue0 sec expected)"
  unfolding trigger_cue_def Let_def
proof (intro keeps_sthen keeps_pure keeps_pure_adaptation)
  show "keeps adaptation_inv (smodify (record_cue env sec (clean_str 128 cue0)))"
    by (rule keeps_modify) (simp add: record_cue_def adaptation_inv_def adaptation_ok_def)
  let ?rest = "\<lambda>due. sbind (sgets va_cue_sequence) (\<lambda>n. sbind (sfold (cue_commit env sec (clean_str 128 cue0) n) due []) (\<lambda>committed.
      sthen (swhen (due = []) (save_adaptation env)) (sreturn committed)))"
  have k: "keeps (commit_inv (set due)) (?rest due)" for due
    unfolding cue_commit_def
    by (intro keeps_sbind keeps_sthen keeps_swhen keeps_sfold_set keeps_pure commit_locked_inv keeps_commit_save)
  show "keeps adaptation_inv (sbind (sgete (\<lambda>s. due_keys (cue_due (clean_str 128 cue0)) (va_transactions s))) ?rest)"
  proof (rule keepsI)
    fix s assume s: "adaptation_inv s"
    show "adaptation_inv (snd (sbind (sgete (\<lambda>s. due_keys (cue_due (clean_str 128 cue0)) (va_transactions s))) ?rest s))"
    proof (cases "due_keys (cue_due (clean_str 128 cue0)) (va_transactions s)")
      case (Inl e)
      with s show ?thesis by (simp add: sbind_run)
    next
      case (Inr due)
      have "commit_inv (set due) (snd (?rest due s))"
        by (rule keepsD [OF k]) (rule due_commit_inv [OF s Inr due_pending(2)])
      with Inr show ?thesis by (simp add: sbind_run [of "sgete _"] commit_inv_def)
    qed
  qed
qed

lemma rollback_inv: "keeps adaptation_inv (rollback env k sec who expected)"
  unfolding rollback_def
proof (intro keeps_sthen keeps_pure_adaptation keeps_found)
  fix s d
  assume s: "adaptation_inv s" and d: "dget (va_transactions s) k = Some (PDict d)"
  have m: "keeps adaptation_inv (sthen (save_adaptation env) (find_tx k))" by (intro adaptation_intro)
  have cancel: "adaptation_inv (snd (sthen (put_tx k (cancelled_doc env who sec d)) (sthen (save_adaptation env) (find_tx k)) s))"
    by (rule after_put [OF s d _ _ _ _ m]) (auto simp: cancelled_doc_def intro!: edits_intro)
  let ?d = "dset (dset d ''status'' (PStr ''rolled-back'')) ''rolledBackAt'' (PStr (ae_now env))"
  let ?prev = "dgetn d ''previousActive''"
  let ?s = "\<lambda>d'. s\<lparr>va_active := ?prev, va_transactions := dset (va_transactions s) k (PDict d')\<rparr>"
  have put: "adaptation_inv (?s d')" if "d' = ?d \<or> d' = dset ?d ''rollback'' v" for d' v
  proof -
    note l = tx_okD(4) [OF invD [OF s] d]
    have e: "edits d d'" "dgetn d' ''mappings'' = dgetn d ''mappings''" "dgetn d' ''previousActive'' = ?prev" "is_status d' ''rolled-back''"
      using that by (auto intro!: edits_intro)
    then have "adaptation_ok (?s d')"
      by (intro put_ok [OF invD [OF s] d]) (use l layer_ok_put [OF l d e(2)] in \<open>auto simp: is_status_def\<close>)
    with s show ?thesis by (simp add: adaptation_inv_def)
  qed
  have [simp]: "sthen (smodify f) n s = n (f s)" for f n and s :: adaptation_state by (simp add: sthen_run)
  have two: "adaptation_inv (snd (sthen (save_adaptation env) (find_tx k) (?s (dset ?d ''rollback'' v))))" for v
    by (rule keepsD [OF m], rule put, blast)
  have one: "adaptation_inv (?s ?d)" by (rule put) blast
  show "adaptation_inv (snd (sthen (slift (assert_reader_safe d 1))
    (if is_status d ''pending-commit'' then
       sthen (put_tx k (cancelled_doc env who sec d)) (sthen (save_adaptation env) (find_tx k))
     else
       sthen (sguard (is_status d ''committed'') (ValueError ''only committed or pending transactions can be rolled back''))
      (sbind (sgets va_active) (\<lambda>active.
       sthen (sguard (is_dict active \<and> dgetn (dict_of active) ''transactionId'' = PStr k)
         (ValueError ''transaction is not the currently active venue patch layer''))
      (let previous = dgetn d ''previousActive'';
           tx' = dset (dset d ''status'' (PStr ''rolled-back'')) ''rolledBackAt'' (PStr (ae_now env)) in
       sthen (smodify (\<lambda>s. s\<lparr>va_active := previous\<rparr>))
      (sthen (put_tx k tx')
      (sbind (slift (as_dict (por previous (PDict [])))) (\<lambda>restored.
       sthen (put_tx k (dset tx' ''rollback'' (PDict (rollback_dict who sec restored d))))
      (sthen (save_adaptation env) (find_tx k))))))))) s))"
    using s cancel one two by (auto simp: run_read run_put Let_def split: sum.split)
qed

text \<open>A proposal adds a transaction under a fresh identifier.\<close>

lemma build_ok:
  assumes "build_transaction env plan reqs live = Inr d"
  shows "dwf d" "dgetn d ''transactionId'' = PStr (transaction_id env)" "is_status d ''proposed''"
    "dwf (dict_of (dgetn d ''validation''))" "dgetn d ''previousActive'' = PNone"
  using assms by (auto simp: build_transaction_def ebind_eq_Inr Let_def dwf_def dkeys_def dgetn_def dgetd_def is_status_def)

lemma new_inv:
  assumes s: "adaptation_inv s" and k: "dget (va_transactions s) k = None"
    and d: "dwf d" "dgetn d ''transactionId'' = PStr k" "is_status d ''proposed''" "dwf (dict_of (dgetn d ''validation''))"
      "dgetn d ''previousActive'' = PNone"
  shows "adaptation_inv (s\<lparr>va_transactions := dset (va_transactions s) k (PDict d)\<rparr>)"
proof -
  let ?txs = "va_transactions s" and ?new = "dset (va_transactions s) k (PDict d)"
  have "tx_ok ?new k' v" if "dget ?new k' = Some v" for k' v
  proof (cases "k' = k")
    case True
    with that have "v = PDict d" by simp
    with True d show ?thesis by (auto simp: tx_ok_def is_status_def layer_ok_def)
  next
    case False
    with that invD [OF s] have "tx_ok ?txs k' v" by (simp add: adaptation_ok_def)
    with layer_ok_new [OF _ k] show ?thesis unfolding tx_ok_def by blast
  qed
  moreover have "one_pending ?new"
  proof -
    have "\<not> is_status d ''pending-commit''" using d(3) by (simp add: is_status_def)
    moreover have "one_pending ?txs" using invD [OF s] by (simp add: adaptation_ok_def)
    ultimately show ?thesis unfolding one_pending_def by (smt (verit, best) dget_dset option.inject pyval.inject(6))
  qed
  ultimately have "adaptation_ok (s\<lparr>va_transactions := ?new\<rparr>)"
    using invD [OF s] layer_ok_new [OF _ k] by (simp add: adaptation_ok_def)
  with s show ?thesis by (simp add: adaptation_inv_def)
qed

lemma propose_inv:
  assumes s: "adaptation_inv s" and k: "dget (va_transactions s) (transaction_id env) = None"
  shows "adaptation_inv (sexec (propose env plan reqs live venue expected) s)"
proof (cases "build_transaction env plan reqs live")
  case (Inl e)
  with s show ?thesis by (simp add: sexec_def propose_def sbind_run)
next
  case (Inr d)
  note b = build_ok [OF Inr]
  let ?d = "\<lambda>cs i. dset (dset (dset d ''previousShowVenue'' (opt_str (clean_str 160 venue))) ''changes'' (PList cs)) ''previousActiveTransactionId'' i"
  have m: "keeps adaptation_inv (sthen (save_adaptation env) (sreturn x))" for x by (intro adaptation_intro)
  have put: "adaptation_inv (snd (sthen (put_tx (transaction_id env) (?d cs i)) (sthen (save_adaptation env) (sreturn x)) s))" for cs i x
    unfolding run_put by (rule keepsD [OF m new_inv [OF s k]]) (use b in simp_all)
  have check: "snd (sthen (check_adaptation_revision e) n s) = s \<or> snd (sthen (check_adaptation_revision e) n s) = snd (n s)" for e n
    by (auto simp: sthen_run check_adaptation_revision_def split: prod.split sum.split)
  let ?d1 = "dset d ''previousShowVenue'' (opt_str (clean_str 160 venue))"
  let ?n = "sbind (sgets va_active) (\<lambda>active.
      sbind (slift (emap (relate_change (mappings_of active)) (list_of (dgetn ?d1 ''changes'')))) (\<lambda>changes.
      sthen (put_tx (transaction_id env) (?d changes (dgetn (dict_of active) ''transactionId'')))
        (sthen (save_adaptation env) (sreturn (?d changes (dgetn (dict_of active) ''transactionId''))))))"
  have n: "adaptation_inv (snd (?n s))"
    unfolding run_read using s by (simp only: split: sum.split) (intro conjI allI impI TrueI put)
  have "sexec (propose env plan reqs live venue expected) s = snd (sthen (check_adaptation_revision expected) ?n s)"
    using Inr by (simp add: sexec_def propose_def sbind_run [of "slift (Inr d)"] Let_def)
  with check [of expected ?n] s n show ?thesis by (elim disjE ssubst) (simp_all only:)
qed

section \<open>Reading the file back\<close>

lemma layer_ok_sorted:
  assumes "dwf txs" and "\<And>t d. dget txs t = Some (PDict d) \<Longrightarrow> dwf d" and "layer_ok txs v"
  shows "layer_ok (sorted_dict txs) (json_sorted v)"
proof (cases "v = PNone")
  case True
  then show ?thesis by (simp add: layer_ok_def)
next
  case False
  with assms(3) obtain a t d r where v: "v = PDict a" "dwf a" "dgetn a ''transactionId'' = PStr t" "dget txs t = Some (PDict d)"
    "dgetn a ''mappings'' = por (dgetn d ''mappings'') (PDict [])" "dgetn a ''patchRevision'' = PInt r"
    by (auto simp: layer_ok_def)
  have "dgetn (sorted_dict a) ''mappings'' = por (dgetn (sorted_dict d) ''mappings'') (PDict [])"
    using v(2,5) assms(2) [OF v(4)] by (simp add: dgetn_sorted_dict) (simp add: json_sorted_PDict sorted_dict_def)
  with v assms(1) show ?thesis
    unfolding layer_ok_def by (auto simp: json_sorted_PDict dwf_sorted_dict dgetn_sorted_dict dget_sorted_dict)
qed

lemma sorted_ok:
  assumes "adaptation_ok s" and "va_transactions s' = sorted_dict (va_transactions s)" and "va_active s' = json_sorted (va_active s)"
  shows "adaptation_ok s'"
proof -
  let ?txs = "va_transactions s"
  from assms(1) have w: "dwf ?txs" and tx: "\<And>k v. dget ?txs k = Some v \<Longrightarrow> tx_ok ?txs k v" and a: "layer_ok ?txs (va_active s)" and o: "one_pending ?txs"
    by (auto simp: adaptation_ok_def)
  have wd: "dwf d" if "dget ?txs t = Some (PDict d)" for t d using tx [OF that] by (auto simp: tx_ok_def)
  have sorted: "layer_ok (sorted_dict ?txs) (json_sorted v)" if "layer_ok ?txs v" for v
    by (rule layer_ok_sorted [OF w _ that]) (rule wd)
  have t: "tx_ok (sorted_dict ?txs) k v" if "dget (sorted_dict ?txs) k = Some v" for k v
  proof -
    from that w obtain v0 where v0: "dget ?txs k = Some v0" "v = json_sorted v0" by (auto simp: dget_sorted_dict)
    from tx [OF v0(1)] v0(2) show ?thesis
      by (auto simp: tx_ok_def json_sorted_PDict dwf_sorted_dict dgetn_sorted_dict is_status_def proven_def dict_of_sorted sorted)
  qed
  have "\<exists>d0. dget ?txs k = Some (PDict d0) \<and> is_status d0 ''pending-commit''"
    if "dget (sorted_dict ?txs) k = Some (PDict d)" "is_status d ''pending-commit''" for k d
  proof -
    from that(1) w obtain v0 where v0: "dget ?txs k = Some v0" "PDict d = json_sorted v0" by (auto simp: dget_sorted_dict)
    then obtain d0 where d0: "v0 = PDict d0" "dwf d0" using tx [OF v0(1)] by (auto simp: tx_ok_def)
    with v0 that(2) show ?thesis by (auto simp: json_sorted_PDict is_status_def dgetn_sorted_dict)
  qed
  with o have "one_pending (sorted_dict ?txs)" unfolding one_pending_def by blast
  with t sorted [OF a] dwf_sorted_dict [OF w] assms(2,3) show ?thesis by (simp add: adaptation_ok_def)
qed

text \<open>What a manager reads from the file of another one is what was written, with sorted keys.\<close>

lemma read_state_written:
  assumes "adaptation_ok s" and "read_state (json_sorted (PDict (state_document s))) file = Inr s'"
  shows "va_transactions s' = sorted_dict (va_transactions s) \<and> va_active s' = json_sorted (va_active s) \<and> va_file s' = file"
proof -
  have w: "dwf (state_document s)" by (simp add: state_document_def dwf_def dkeys_def)
  have g: "dgetn (sorted_dict (state_document s)) k = json_sorted (dgetn (state_document s) k)" for k
    by (rule dgetn_sorted_dict [OF w])
  have d: "dgetn (state_document s) ''active'' = va_active s" "dgetn (state_document s) ''transactions'' = PDict (va_transactions s)"
    by (simp_all add: state_document_def dgetn_def dgetd_def)
  have "keep_dict (json_sorted (va_active s)) = json_sorted (va_active s)"
    using assms(1) by (auto simp: adaptation_ok_def layer_ok_def keep_dict_def json_sorted_PDict)
  moreover have "dict_from (por (json_sorted (PDict (va_transactions s))) (PDict [])) = Inr (sorted_dict (va_transactions s))"
    by (cases "va_transactions s = []") (simp_all add: json_sorted_PDict por_def dict_from_def sorted_dict_def)
  ultimately show ?thesis
    using assms(2) by (auto simp: json_sorted_PDict [of "state_document s"] read_state_def ebind_eq_Inr g d)
qed

lemma reopen_inv:
  assumes "adaptation_inv s" and "open_adaptation (map_option Inr (va_file s)) (va_file s) = Inr s'"
  shows "adaptation_inv s'"
proof -
  have init: "adaptation_ok (initial_adaptation f)" for f
    by (simp add: adaptation_ok_def initial_adaptation_def layer_ok_def one_pending_def)
  show ?thesis
  proof (cases "va_file s")
    case None
    with assms(2) init show ?thesis by (auto simp: open_adaptation_def adaptation_inv_def initial_adaptation_def)
  next
    case (Some v)
    with assms(1) obtain s0 where s0: "adaptation_ok s0" "v = json_sorted (PDict (state_document s0))" by (auto simp: adaptation_inv_def)
    have ok: "adaptation_ok t \<and> va_file t = Some v" if "read_state v (Some v) = Inr t" for t
      using read_state_written [OF s0(1)] sorted_ok [OF s0(1)] that unfolding s0(2) by metis
    have "adaptation_ok s' \<and> va_file s' = Some v"
    proof (cases "read_state v (Some v)")
      case (Inl e)
      with assms(2) Some init show ?thesis by (auto simp: open_adaptation_def ecatch_def initial_adaptation_def split: if_splits)
    next
      case (Inr t)
      with assms(2) Some ok show ?thesis by (auto simp: open_adaptation_def ecatch_def)
    qed
    with s0 show ?thesis by (auto simp: adaptation_inv_def)
  qed
qed

section \<open>Histories\<close>

text \<open>A manager is opened without a file and goes through calls, whether they return or raise and whether
  their writes succeed, and through restarts on its own file.\<close>

inductive adaptation_reach :: "adaptation_state \<Rightarrow> bool" where
  opened: "open_adaptation None None = Inr s \<Longrightarrow> adaptation_reach s"
| reopened: "adaptation_reach s \<Longrightarrow> open_adaptation (map_option Inr (va_file s)) (va_file s) = Inr s' \<Longrightarrow> adaptation_reach s'"
| proposed: "adaptation_reach s \<Longrightarrow> dget (va_transactions s) (transaction_id env) = None \<Longrightarrow>
    adaptation_reach (sexec (propose env plan reqs live venue expected) s)"
| validated: "adaptation_reach s \<Longrightarrow> adaptation_reach (sexec (validate env k plan reqs expected) s)"
| scheduled: "adaptation_reach s \<Longrightarrow> adaptation_reach (sexec (schedule_commit env k mode sec bpm cue who expected) s)"
| ticked: "adaptation_reach s \<Longrightarrow> adaptation_reach (sexec (tick env sec) s)"
| cued: "adaptation_reach s \<Longrightarrow> adaptation_reach (sexec (trigger_cue env cue0 sec expected) s)"
| rolled_back: "adaptation_reach s \<Longrightarrow> adaptation_reach (sexec (rollback env k sec who expected) s)"
| attached: "adaptation_reach s \<Longrightarrow> adaptation_reach (sexec (attach_receipt_evidence env k evidence) s)"

lemma reach_inv: "adaptation_reach s \<Longrightarrow> adaptation_inv s"
proof (induction rule: adaptation_reach.induct)
  case (opened s)
  then show ?case
    by (auto simp: open_adaptation_def initial_adaptation_def adaptation_inv_def adaptation_ok_def layer_ok_def one_pending_def)
qed (auto intro: reopen_inv propose_inv keeps_sexec [OF validate_inv] keeps_sexec [OF schedule_commit_inv] keeps_sexec [OF tick_inv]
    keeps_sexec [OF trigger_cue_inv] keeps_sexec [OF rollback_inv] keeps_sexec [OF attach_inv])

text \<open>
  C13. In every state a venue adaptation manager can reach, through any calls, failed writes and restarts:
  the live patch layer, if there is one, carries the mappings of a transaction of the store under
  that transaction's identifier; at most one transaction waits for its boundary; and every transaction that
  waits or is committed has passed its last validation.
\<close>

theorem live_patch_is_proposed:
  assumes "adaptation_reach s"
  shows "(va_active s = PNone \<or> (\<exists>a t d. va_active s = PDict a \<and> dgetn a ''transactionId'' = PStr t \<and>
      dget (va_transactions s) t = Some (PDict d) \<and> dgetn d ''transactionId'' = PStr t \<and>
      dgetn a ''mappings'' = por (dgetn d ''mappings'') (PDict []))) \<and>
    (\<forall>k d. dget (va_transactions s) k = Some (PDict d) \<and> (is_status d ''pending-commit'' \<or> is_status d ''committed'') \<longrightarrow>
      truthy (dgetn (dict_of (dgetn d ''validation'')) ''valid'')) \<and>
    (\<forall>k d k' d'. dget (va_transactions s) k = Some (PDict d) \<and> dget (va_transactions s) k' = Some (PDict d') \<and>
      is_status d ''pending-commit'' \<and> is_status d' ''pending-commit'' \<longrightarrow> k = k')"
proof -
  note ok = invD [OF reach_inv [OF assms]]
  have "va_active s = PNone \<or> (\<exists>a t d. va_active s = PDict a \<and> dgetn a ''transactionId'' = PStr t \<and>
      dget (va_transactions s) t = Some (PDict d) \<and> dgetn d ''transactionId'' = PStr t \<and>
      dgetn a ''mappings'' = por (dgetn d ''mappings'') (PDict []))"
    using ok tx_okD(2) [OF ok] unfolding adaptation_ok_def layer_ok_def by blast
  moreover have "truthy (dgetn (dict_of (dgetn d ''validation'')) ''valid'')"
    if "dget (va_transactions s) k = Some (PDict d)" "is_status d ''pending-commit'' \<or> is_status d ''committed''" for k d
    using tx_okD(3) [OF ok that] by (simp add: proven_def)
  moreover have "one_pending (va_transactions s)" using ok by (simp add: adaptation_ok_def)
  ultimately show ?thesis unfolding one_pending_def by blast
qed

section \<open>Commit and rollback\<close>

text \<open>The runs of the parts, when the writes succeed.\<close>

definition writes :: "adaptation_env \<Rightarrow> bool" where
  "writes env = (\<forall>r. ae_write env r)"

definition saved :: "adaptation_state \<Rightarrow> adaptation_state" where
  "saved s = (let t = s\<lparr>va_revision := va_revision s + 1\<rparr> in t\<lparr>va_file := Some (json_sorted (PDict (state_document t)))\<rparr>)"

lemma save_run: "writes env \<Longrightarrow> save_adaptation env s = (Inr (), saved s)"
  by (simp add: save_adaptation_def touch_adaptation_def persist_def method_run writes_def saved_def Let_def)

lemma save_returns: "save_adaptation env s = (Inr (), s') \<Longrightarrow> s' = saved s"
  by (auto simp: save_adaptation_def touch_adaptation_def persist_def method_run saved_def Let_def split: if_splits)

lemma saved_simps [simp]: "va_transactions (saved s) = va_transactions s" "va_active (saved s) = va_active s"
  by (simp_all add: saved_def Let_def)

lemma find_run: "dget (va_transactions s) k = Some (PDict d) \<Longrightarrow> find_tx k s = (Inr d, s)"
  by (simp add: find_tx_def)

lemma find_returns: "find_tx k s = (Inr d, s') \<longleftrightarrow> dget (va_transactions s) k = Some (PDict d) \<and> s' = s"
  by (auto simp: find_tx_def split: option.splits pyval.splits)

lemma sbind_returns:
  "sbind m f s = (Inr y, s') \<longleftrightarrow> (\<exists>x t. m s = (Inr x, t) \<and> f x t = (Inr y, s'))"
  "sthen m n s = (Inr y, s') \<longleftrightarrow> (\<exists>x t. m s = (Inr x, t) \<and> n t = (Inr y, s'))"
  by (auto simp: sbind_run sthen_run split: prod.splits sum.splits)

lemma read_returns:
  "slift r s = (Inr x, t) \<longleftrightarrow> r = Inr x \<and> t = s" "sguard b e s = (Inr u, t) \<longleftrightarrow> b \<and> t = s"
  "check_adaptation_revision v s = (Inr u, t) \<Longrightarrow> t = s"
  by (auto simp: sguard_run check_adaptation_revision_def)

lemma commit_locked_returns:
  assumes "commit_locked env k sec b s = (Inr tx, s')" and "dget (va_transactions s) k = Some (PDict d)"
  shows "\<exists>a receipt. patch_layer env d (va_active s) sec = Inr a \<and> tx = dset (committed_doc env b (va_active s) d) ''receipt'' (PDict receipt) \<and>
    va_active s' = PDict a \<and> va_transactions s' = dset (va_transactions s) k (PDict tx)"
  using assms
  by (auto simp: commit_locked_def sbind_returns read_returns find_returns put_tx_def Let_def dest!: save_returns)

lemma schedule_returns:
  assumes "schedule_commit env k mode0 sec bpm cue who expected s = (Inr tx, s')" and "dget (va_transactions s) k = Some (PDict d)"
    and "\<not> is_status d ''committed''" and "mode = py_lower (strip (py_str (por mode0 (PStr ''immediate''))))"
  shows "\<exists>x t. assert_reader_safe d 1 = Inr () \<and> commit_target mode sec bpm cue = Inr x \<and> pending_others k (va_transactions s) = [] \<and>
    t = saved (s\<lparr>va_transactions := dset (va_transactions s) k (PDict (scheduled_doc env mode (commit_dict env mode who sec x) d))\<rparr>) \<and>
    (if mode = ''immediate'' then commit_locked env k sec [(''type'', PStr ''immediate'')] t else find_tx k t) = (Inr tx, s')"
  using assms
  by (auto simp: schedule_commit_def sbind_returns read_returns find_returns put_tx_def Let_def dest!: save_returns read_returns(3) split: if_splits)

lemma reader_safe_dset: "k \<noteq> ''minimumReaderSchemaVersion'' \<Longrightarrow> assert_reader_safe (dset d k v) n = assert_reader_safe d n"
  by (simp add: assert_reader_safe_def get_int_def dgetd_def)

lemma rollback_run:
  assumes "dget (va_transactions s) k = Some (PDict d)" and "assert_reader_safe d 1 = Inr ()" and "is_status d ''committed''"
    and "va_active s = PDict a" and "dgetn a ''transactionId'' = PStr k" and "layer_ok txs (dgetn d ''previousActive'')" and "writes env"
  shows "\<exists>tx s'. rollback env k sec who PNone s = (Inr tx, s') \<and> va_active s' = dgetn d ''previousActive'' \<and> is_status tx ''rolled-back''"
proof -
  have "\<exists>p. as_dict (por (dgetn d ''previousActive'') (PDict [])) = Inr p"
    using assms(6) by (auto simp: layer_ok_def por_def)
  then obtain p where p: "as_dict (por (dgetn d ''previousActive'') (PDict [])) = Inr p" ..
  have n: "\<not> is_status d ''pending-commit''" using assms(3) by (simp add: is_status_def)
  show ?thesis
    using assms(1-5) p n
    by (simp add: rollback_def check_adaptation_revision_def method_run find_tx_def put_tx_def save_run [OF assms(7)] Let_def)
qed

text \<open>
  C14. A committed venue patch can be taken back: after an immediate commit in any reachable state, a
  rollback of the same transaction returns, marks the transaction as rolled back, and leaves exactly the
  patch layer that was live before the commit.
\<close>

theorem rollback_restores:
  assumes "adaptation_reach s" and "dget (va_transactions s) k = Some (PDict d)" and "\<not> is_status d ''committed''"
    and "schedule_commit env k (PStr ''immediate'') sec bpm cue who expected s = (Inr tx, s1)" and "\<forall>r. ae_write env' r"
  shows "\<exists>tx' s2. rollback env' k sec' who' PNone s1 = (Inr tx', s2) \<and> va_active s2 = va_active s \<and> is_status tx' ''rolled-back''"
proof -
  have mode: "''immediate'' = py_lower (strip (py_str (por (PStr ''immediate'') (PStr ''immediate''))))"
    by (simp add: por_def py_lower_def strip_def lstrip_def rstrip_def is_space_def ord_of_def lower_char_def)
  from schedule_returns [OF assms(4,2,3) mode] obtain x t where safe: "assert_reader_safe d 1 = Inr ()"
    and t: "t = saved (s\<lparr>va_transactions := dset (va_transactions s) k (PDict (scheduled_doc env ''immediate'' (commit_dict env ''immediate'' who sec x) d))\<rparr>)"
    and run: "commit_locked env k sec [(''type'', PStr ''immediate'')] t = (Inr tx, s1)"
    unfolding if_P [OF refl] by blast
  let ?d = "scheduled_doc env ''immediate'' (commit_dict env ''immediate'' who sec x) d"
  have dt: "dget (va_transactions t) k = Some (PDict ?d)" and at: "va_active t = va_active s" unfolding t by simp_all
  from commit_locked_returns [OF run dt, unfolded at] obtain a receipt where a: "patch_layer env ?d (va_active s) sec = Inr a"
    and tx: "tx = dset (committed_doc env [(''type'', PStr ''immediate'')] (va_active s) ?d) ''receipt'' (PDict receipt)"
    and s1: "va_active s1 = PDict a" "va_transactions s1 = dset (va_transactions t) k (PDict tx)"
    by blast
  have d1: "dget (va_transactions s1) k = Some (PDict tx)" unfolding s1 by simp
  note ok = invD [OF reach_inv [OF assms(1)]]
  have "dgetn ?d ''transactionId'' = PStr k" using tx_okD(2) [OF ok assms(2)] by (simp add: scheduled_doc_def)
  then have i: "dgetn a ''transactionId'' = PStr k" by (rule patch_layer_facts(3) [OF a])
  have tx': "assert_reader_safe tx 1 = Inr ()" "is_status tx ''committed''" "dgetn tx ''previousActive'' = va_active s"
    using safe unfolding tx committed_doc_def scheduled_doc_def by (simp_all add: reader_safe_dset)
  have l: "layer_ok (va_transactions s) (dgetn tx ''previousActive'')" unfolding tx' using ok by (simp add: adaptation_ok_def)
  have w: "writes env'" unfolding writes_def by (rule assms(5))
  from rollback_run [OF d1 tx'(1,2) s1(1) i l w] show ?thesis unfolding tx' by blast
qed

text \<open>
  Asking twice for a commit takes the way back away.  When a transaction is committed and its patch
  layer is live, a second commit request of the runtime is refused, as it should be, but the validation
  it starts with resets the status of the transaction to \<open>proposed\<close>: the layer stays live and a
  rollback of it is now refused.
\<close>

theorem recommit_disarms_rollback:
  assumes "dget (va_transactions s) k = Some (PDict d)" and "is_status d ''committed''" and "assert_reader_safe d 1 = Inr ()"
    and "validation_blockers d plan reqs = Inr bs" and "dgetn data ''expectedAdaptationRevision'' = PNone" and "\<forall>r. ae_write env r"
  shows "\<exists>message s1. venue_adaptation_commit env True k plan reqs sec bpm data s = (Inl (ValueError message), s1) \<and>
    va_active s1 = va_active s \<and>
    venue_adaptation_rollback env' True k sec' [] s1 = (Inl (ValueError ''only committed or pending transactions can be rolled back''), s1)"
proof -
  have w: "writes env" using assms(6) by (simp add: writes_def)
  have ne: "bs \<noteq> []"
    using assms(2,4) by (auto simp: validation_blockers_def status_in_def is_status_def is_list_def is_dict_def ebind_eq_Inr)
  let ?d = "validated_doc env False bs d"
  let ?s = "saved (s\<lparr>va_transactions := dset (va_transactions s) k (PDict ?d)\<rparr>)"
  have v: "validate env k plan reqs PNone s = (Inr ?d, ?s)"
    using assms(1,3,4) ne
    by (simp add: validate_def check_adaptation_revision_def method_run find_tx_def put_tx_def save_run [OF w] Let_def)
  have d: "sub_dict ?d ''validation'' = Inr [(''valid'', PBool False), (''checkedAt'', PStr (ae_now env)), (''blockers'', strs (sorted_set bs))]"
    by (simp add: validated_doc_def sub_dict_def por_def)
  have b: "py_iter (por (strs (sorted_set bs)) (PList [])) = Inr (map PStr (sorted_set bs))"
    by (simp add: strs_def por_def py_iter_def)
  have "\<exists>message. venue_adaptation_commit env True k plan reqs sec bpm data s = (Inl (ValueError message), ?s)"
    using assms(1,5) by (simp add: venue_adaptation_commit_def method_run find_tx_def v d b dgetn_def dgetd_def)
  moreover have "venue_adaptation_rollback env' True k sec' [] ?s = (Inl (ValueError ''only committed or pending transactions can be rolled back''), ?s)"
    using assms(3)
    by (simp add: venue_adaptation_rollback_def rollback_def check_adaptation_revision_def method_run find_tx_def validated_doc_def reader_safe_dset
        dgetn_def [of "[]"] dgetd_def [of "[]"])
  moreover have "va_active ?s = va_active s" by simp
  ultimately show ?thesis by blast
qed

section \<open>Scheduled commits happen\<close>

lemma round_half_even_error: "\<bar>of_int (round_half_even r) - r\<bar> \<le> 1 / 2"
proof -
  have "of_int \<lfloor>r\<rfloor> \<le> r" "r < of_int \<lfloor>r\<rfloor> + 1" by linarith+
  then show ?thesis unfolding round_half_even_def Let_def
    by (simp only: of_int_add of_int_1 split: if_split) (intro conjI impI; linarith)
qed

lemma fround_error: "\<bar>of_int (round_half_even (x * 10 ^ n)) / 10 ^ n - x\<bar> \<le> (1 / 10 ^ n :: rat)"
proof -
  have "of_int (round_half_even (x * 10 ^ n)) / 10 ^ n - x = (of_int (round_half_even (x * 10 ^ n)) - x * 10 ^ n) / 10 ^ n"
    by (simp add: diff_divide_distrib)
  moreover have "\<bar>of_int (round_half_even (x * 10 ^ n)) - x * 10 ^ n\<bar> \<le> 1"
    using round_half_even_error [of "x * 10 ^ n"] by linarith
  ultimately show ?thesis by (simp add: abs_divide divide_right_mono)
qed

lemma bar_target_bounds:
  assumes "bar_target (Fin c) (Fin b) = Inr t" and "1 \<le> b" and "b \<le> 300" and "0 \<le> c"
  shows "\<exists>r n. t = Fin r \<and> 0 < r \<and> \<bar>r - of_int n * (240 / b)\<bar> \<le> 1 / 10 ^ 9 \<and> c < of_int n * (240 / b) \<and> of_int n * (240 / b) \<le> c + 2 * (240 / b)"
proof -
  let ?bar = "240 / b" and ?n = "\<lfloor>c / (240 / b) + 1\<rfloor>"
  have bar: "8 / 10 \<le> ?bar" and pos: "0 < ?bar" using assms(2,3) by (simp_all add: field_simps)
  have f: "fmax (Fin 1) (Fin b) = Fin b" "fmax (Fin 0) (Fin c) = Fin c" using assms(2,4) by (auto simp: fmax_def)
  have n1: "1 \<le> ?n" using assms(4) pos by (simp add: le_floor_iff)
  have lo: "c < of_int ?n * ?bar"
  proof -
    have "c / ?bar < of_int ?n" by linarith
    with pos show ?thesis by (simp add: field_simps)
  qed
  have hi: "of_int ?n * ?bar \<le> c + ?bar"
  proof -
    have "of_int ?n \<le> c / ?bar + 1" by linarith
    with pos have "of_int ?n * ?bar \<le> (c / ?bar + 1) * ?bar" by (intro mult_right_mono) auto
    with pos show ?thesis by (simp add: field_simps)
  qed
  define m where "m = (if of_int ?n * ?bar \<le> c + 1 / 10 ^ 9 then ?n + 1 else ?n)"
  have t: "t = fround 9 (Fin (of_int m * ?bar))"
  proof -
    have "60 / b * 4 = ?bar" by simp
    moreover have "of_int m * ?bar = (if of_int ?n * ?bar \<le> c + 1 / 10 ^ 9 then of_int ?n * ?bar + ?bar else of_int ?n * ?bar)"
      unfolding m_def by (simp only: of_int_add of_int_1 distrib_right mult_1 split: if_split) blast
    ultimately show ?thesis using assms(1) unfolding bar_target_def f by (simp only: Let_def pyfloat.case sum.inject)
  qed
  define r where "r = (of_int (round_half_even (of_int m * ?bar * 10 ^ 9)) / 10 ^ 9 :: rat)"
  have err: "\<bar>r - of_int m * ?bar\<bar> \<le> 1 / 10 ^ 9"
    unfolding r_def by (rule fround_error)
  define T where "T = of_int ?n * ?bar"
  define B where "B = ?bar"
  have "of_int m * B = T \<or> of_int m * B = T + B" unfolding m_def T_def B_def by (simp only: of_int_add of_int_1 distrib_right mult_1 split: if_split) blast
  moreover have "c < T" "T \<le> c + B" "0 < B" unfolding T_def B_def by (fact lo hi pos)+
  moreover have "B \<le> T" unfolding T_def B_def using mult_right_mono [of 1 "of_int ?n" ?bar] n1 pos by simp
  ultimately have "c < of_int m * B" "of_int m * B \<le> c + 2 * B" "B \<le> of_int m * B" by linarith+
  then have m: "c < of_int m * ?bar" "of_int m * ?bar \<le> c + 2 * ?bar" "?bar \<le> of_int m * ?bar" unfolding B_def by blast+
  have "0 < r"
  proof -
    have "of_int m * ?bar - 1 / 10 ^ 9 \<le> r" using err by (simp only: abs_le_iff) linarith
    moreover have "(1 / 10 ^ 9 :: rat) < 8 / 10" by simp
    ultimately show ?thesis using m(3) bar by linarith
  qed
  moreover have "t = Fin r" unfolding t r_def by (rule fround.simps)
  ultimately show ?thesis using err m by blast
qed

lemma due_keys_none:
  "(\<And>k v. (k, v) \<in> set txs \<Longrightarrow> \<exists>d. v = PDict d \<and> due d = Inr False) \<Longrightarrow> due_keys due txs = Inr []"
proof (induction due txs rule: due_keys.induct)
  case (2 due k v txs)
  obtain d where "v = PDict d" "due d = Inr False" using "2.prems" [of k v] by auto
  moreover have "due_keys due txs = Inr []" by (rule "2.IH") (use calculation "2.prems" in auto)
  ultimately show ?case by (simp add: ebind_def)
qed simp

lemma due_keys_single:
  assumes "dwf txs" and "(k, PDict d) \<in> set txs" and "due d = Inr b"
    and "\<And>k' v. (k', v) \<in> set txs \<Longrightarrow> k' \<noteq> k \<Longrightarrow> \<exists>d'. v = PDict d' \<and> due d' = Inr False"
  shows "due_keys due txs = Inr (if b then [k] else [])"
  using assms
proof (induction due txs rule: due_keys.induct)
  case (2 due k' v txs)
  have w: "dwf txs" "k' \<notin> set (dkeys txs)" using "2.prems"(1) by (simp_all add: dwf_def dkeys_def)
  show ?case
  proof (cases "k' = k")
    case True
    with w "2.prems"(2) have "v = PDict d" by (force simp: dkeys_def)
    moreover have "due_keys due txs = Inr []"
      by (rule due_keys_none) (use "2.prems"(4) w(2) True in \<open>force simp: dkeys_def\<close>)
    ultimately show ?thesis using True "2.prems"(3) by (simp add: ebind_def)
  next
    case False
    then obtain d' where "v = PDict d'" "due d' = Inr False" using "2.prems"(4) [of k' v] by auto
    moreover have "due_keys due txs = Inr (if b then [k] else [])"
      by (rule "2.IH") (use calculation False w(1) "2.prems" in auto)
    ultimately show ?thesis by (simp add: ebind_def)
  qed
qed simp

lemma layer_readable:
  assumes "layer_ok txs v"
  shows "\<exists>p r. as_dict (por v (PDict [])) = Inr p \<and> get_int p ''patchRevision'' (PInt 0) = Inr r"
proof (cases "v = PNone")
  case True
  then show ?thesis by (simp add: por_def get_int_def dgetd_def)
next
  case False
  with assms obtain a r where a: "v = PDict a" "dgetn a ''patchRevision'' = PInt r" by (auto simp: layer_ok_def)
  then have "a \<noteq> []" "dgetd a ''patchRevision'' (PInt 0) = PInt r" by (auto simp: dgetn_def dgetd_def split: option.splits)
  with a(1) show ?thesis by (simp add: por_def get_int_def)
qed

lemma commit_locked_run:
  assumes "dget (va_transactions s) k = Some (PDict d)" and "dgetn d ''transactionId'' = PStr k" and "dgetn d ''commit'' = PDict c"
    and "layer_ok txs (va_active s)" and "writes env"
  shows "\<exists>tx s' a. commit_locked env k sec b s = (Inr tx, s') \<and> is_status tx ''committed'' \<and> va_active s' = PDict a \<and>
    dgetn a ''transactionId'' = PStr k \<and> dgetn a ''mappings'' = por (dgetn d ''mappings'') (PDict [])"
proof -
  obtain p where p: "as_dict (por (va_active s) (PDict [])) = Inr p" "\<exists>r. get_int p ''patchRevision'' (PInt 0) = Inr r"
    using layer_readable [OF assms(4)] by blast
  have "dindex d ''transactionId'' = Inr (PStr k)"
    using assms(2) by (auto simp: dindex_def dgetn_def dgetd_def split: option.splits)
  with p obtain a where a: "patch_layer env d (va_active s) sec = Inr a" by (auto simp: patch_layer_def ebind_def)
  let ?d = "committed_doc env b (va_active s) d"
  have "dgetd ?d ''commit'' (PDict []) = PDict c"
    using assms(3) by (auto simp: committed_doc_def dgetn_def dgetd_def split: option.splits)
  with p(1) obtain r where r: "commit_receipt env (va_revision s) b (va_active s) a ?d = Inr r"
    by (auto simp: commit_receipt_def ebind_def Let_def)
  have "\<exists>tx s'. commit_locked env k sec b s = (Inr tx, s') \<and> is_status tx ''committed'' \<and> va_active s' = PDict a"
    using assms(1) a r
    by (simp add: commit_locked_def method_run find_tx_def put_tx_def save_run [OF assms(5)] Let_def)
      (simp add: committed_doc_def)
  with patch_layer_facts(3,4) [OF a assms(2)] show ?thesis by blast
qed

lemma tick_run:
  assumes ok: "adaptation_ok s" and d: "dget (va_transactions s) k = Some (PDict d)" and p: "is_status d ''pending-commit''"
    and c: "dgetn d ''commit'' = PDict c" "dgetn c ''mode'' = PStr ''next-bar''" "dgetn c ''targetShowSeconds'' = PFloat (Fin r)" and r: "0 < r"
    and w: "writes env"
  shows "sec < r \<Longrightarrow> tick env (Fin sec) s = (Inr [], s)"
    and "r \<le> sec \<Longrightarrow> \<exists>tx s' a. tick env (Fin sec) s = (Inr [tx], s') \<and> is_status tx ''committed'' \<and> va_active s' = PDict a \<and>
      dgetn a ''transactionId'' = PStr k \<and> dgetn a ''mappings'' = por (dgetn d ''mappings'') (PDict [])"
proof -
  have ne: "c \<noteq> []" using c(2) by (auto simp: dgetn_def dgetd_def)
  have f: "commit_field d x = Inr (dgetn c x)" for x using c(1) ne by (simp add: commit_field_def sub_dict_def por_def)
  have due: "bar_due (Fin sec) d = Inr (r \<le> sec)"
    using p c r by (simp add: bar_due_def pending_in_mode_def f por_def)
  have other: "\<exists>d'. v = PDict d' \<and> bar_due (Fin sec) d' = Inr False" if "(k', v) \<in> set (va_transactions s)" "k' \<noteq> k" for k' v
  proof -
    have g: "dget (va_transactions s) k' = Some v"
      using that(1) ok by (simp add: adaptation_ok_def dget_def dwf_def dkeys_def)
    with ok obtain d' where d': "v = PDict d'" by (auto simp: adaptation_ok_def tx_ok_def)
    with g d p that(2) ok have "\<not> is_status d' ''pending-commit''" by (auto simp: adaptation_ok_def one_pending_def)
    with d' show ?thesis by (simp add: bar_due_def pending_in_mode_def)
  qed
  have keys: "due_keys (bar_due (Fin sec)) (va_transactions s) = Inr (if r \<le> sec then [k] else [])"
    by (rule due_keys_single [OF _ _ due other]) (use ok d in \<open>auto simp: adaptation_ok_def dget_def intro: map_of_SomeD\<close>)
  show "tick env (Fin sec) s = (Inr [], s)" if "sec < r"
    using that keys by (simp add: tick_def method_run due_order_def)
  show "\<exists>tx s' a. tick env (Fin sec) s = (Inr [tx], s') \<and> is_status tx ''committed'' \<and> va_active s' = PDict a \<and>
      dgetn a ''transactionId'' = PStr k \<and> dgetn a ''mappings'' = por (dgetn d ''mappings'') (PDict [])" if "r \<le> sec"
  proof -
    let ?b = "[(''type'', PStr ''bar''), (''targetShowSeconds'', PFloat (Fin r)), (''actualShowSeconds'', PFloat (fround 6 (Fin sec)))]"
    have "layer_ok (va_transactions s) (va_active s)" using ok by (simp add: adaptation_ok_def)
    from commit_locked_run [OF d tx_okD(2) [OF ok d] c(1) this w, of "Fin sec" ?b] obtain tx s' a
      where run: "commit_locked env k (Fin sec) ?b s = (Inr tx, s')" and rest: "is_status tx ''committed''" "va_active s' = PDict a"
        "dgetn a ''transactionId'' = PStr k" "dgetn a ''mappings'' = por (dgetn d ''mappings'') (PDict [])"
      by blast
    have "due_target (va_transactions s) k = Inr (Fin r, k)"
      using d c(3) r f by (simp add: due_target_def dgetn_def [of "va_transactions s"] dgetd_def [of "va_transactions s"] por_def)
    with keys that d c(3) run have "tick env (Fin sec) s = (Inr [tx], s')"
      by (simp add: tick_def tick_commit_def sbind_run find_run f due_order_def)
    with rest show ?thesis by blast
  qed
qed

text \<open>
  C15. A commit that is scheduled for the next bar happens: in every reachable state such a request sets
  a target on a bar line of the tempo (to nine decimals) after the current position and within two bars of it; a tick
  before the target changes nothing, and the first tick at or after it makes the mappings of the transaction live, as
  long as the writes succeed.
\<close>

theorem scheduled_commit_happens:
  assumes "adaptation_reach s" and "dget (va_transactions s) k = Some (PDict d)" and "\<not> is_status d ''committed''"
    and "schedule_commit env k (PStr ''next-bar'') (Fin c) (Fin b) cue who expected s = (Inr tx, s1)"
    and "1 \<le> b" and "b \<le> 300" and "0 \<le> c" and "\<forall>r. ae_write env' r"
  shows "\<exists>r n. dgetn (dict_of (dgetn tx ''commit'')) ''targetShowSeconds'' = PFloat (Fin r) \<and> \<bar>r - of_int n * (240 / b)\<bar> \<le> 1 / 10 ^ 9 \<and>
      c < of_int n * (240 / b) \<and> of_int n * (240 / b) \<le> c + 2 * (240 / b) \<and>
    (\<forall>sec < r. tick env' (Fin sec) s1 = (Inr [], s1)) \<and>
    (\<forall>sec \<ge> r. \<exists>tx' s2 a. tick env' (Fin sec) s1 = (Inr [tx'], s2) \<and> is_status tx' ''committed'' \<and> va_active s2 = PDict a \<and>
      dgetn a ''transactionId'' = PStr k \<and> dgetn a ''mappings'' = por (dgetn d ''mappings'') (PDict []))"
proof -
  have mode: "''next-bar'' = py_lower (strip (py_str (por (PStr ''next-bar'') (PStr ''immediate''))))"
    by (simp add: por_def py_lower_def strip_def lstrip_def rstrip_def is_space_def ord_of_def lower_char_def)
  have neq: "(''next-bar'' = ''immediate'') = False" by simp
  from schedule_returns [OF assms(4,2,3) mode, unfolded neq if_False] obtain x where x: "commit_target ''next-bar'' (Fin c) (Fin b) cue = Inr x"
    and f: "find_tx k (saved (s\<lparr>va_transactions := dset (va_transactions s) k (PDict (scheduled_doc env ''next-bar'' (commit_dict env ''next-bar'' who (Fin c) x) d))\<rparr>)) = (Inr tx, s1)"
    by blast
  let ?c = "commit_dict env ''next-bar'' who (Fin c) x"
  have tx: "tx = scheduled_doc env ''next-bar'' ?c d" and d1: "dget (va_transactions s1) k = Some (PDict tx)"
    using f by (simp_all add: find_returns)
  from x obtain t where t: "bar_target (Fin c) (Fin b) = Inr t" "x = (PFloat t, PNone)" by (auto simp: commit_target_def ebind_eq_Inr)
  from bar_target_bounds [OF t(1) assms(5-7)] obtain r n where r: "t = Fin r" "0 < r" "\<bar>r - of_int n * (240 / b)\<bar> \<le> 1 / 10 ^ 9"
    "c < of_int n * (240 / b)" "of_int n * (240 / b) \<le> c + 2 * (240 / b)"
    by blast
  have "adaptation_inv (sexec (schedule_commit env k (PStr ''next-bar'') (Fin c) (Fin b) cue who expected) s)"
    by (rule keeps_sexec [OF schedule_commit_inv reach_inv [OF assms(1)]])
  then have ok: "adaptation_ok s1" using assms(4) invD by (simp add: sexec_def)
  have p: "is_status tx ''pending-commit''" "dgetn tx ''commit'' = PDict ?c" "dgetn tx ''mappings'' = dgetn d ''mappings''"
    unfolding tx by (simp_all add: scheduled_doc_def)
  have c: "dgetn ?c ''mode'' = PStr ''next-bar''" "dgetn ?c ''targetShowSeconds'' = PFloat (Fin r)"
    using t(2) r(1) by (simp_all add: commit_dict_def dgetn_def dgetd_def)
  have w: "writes env'" unfolding writes_def by (rule assms(8))
  note run = tick_run [OF ok d1 p(1,2) c r(2) w, unfolded p(3)]
  have "dgetn (dict_of (dgetn tx ''commit'')) ''targetShowSeconds'' = PFloat (Fin r)" using p(2) c(2) by simp
  with r(3-5) run show ?thesis by blast
qed

section \<open>A history\<close>

definition demo_env :: adaptation_env where
  "demo_env = \<lparr>ae_now = ''now'', ae_id = ''1'', ae_receipt = (\<lambda>_. ''1''), ae_write = (\<lambda>_. True)\<rparr>"

definition demo_venue_plan :: pydict where
  "demo_venue_plan = [(''compatible'', PBool True), (''readiness'', PStr ''ready'')]"

definition demo_proposed :: adaptation_state where
  "demo_proposed = sexec (propose demo_env demo_venue_plan [] False (PStr []) PNone) (initial_adaptation None)"

definition demo_validated :: adaptation_state where
  "demo_validated = sexec (validate demo_env ''adapt-1'' demo_venue_plan [] PNone) demo_proposed"

lemma demo_validated_reach: "adaptation_reach demo_validated"
  unfolding demo_validated_def demo_proposed_def
  by (intro validated proposed opened) (simp_all add: open_adaptation_def initial_adaptation_def)

lemma demo_writes: "\<forall>r. ae_write demo_env r" "writes demo_env"
  by (simp_all add: demo_env_def writes_def)

lemma demo_build: "\<exists>d. build_transaction demo_env demo_venue_plan [] False = Inr d \<and> list_of (dgetn d ''changes'') = [] \<and>
    dgetn d ''requirementsHash'' = PStr (requirements_fingerprint []) \<and> dgetn d ''planHash'' = PStr (plan_fingerprint demo_venue_plan) \<and>
    assert_reader_safe d 1 = Inr ()"
  by (simp add: build_transaction_def transaction_changes_def demo_venue_plan_def unresolved_def ebind_def Let_def por_def py_iter_def
      list_of_def dgetn_def dgetd_def assert_reader_safe_def get_int_def ecatch_def eguard_def)

lemma demo_proposed_tx: "\<exists>d. dget (va_transactions demo_proposed) ''adapt-1'' = Some (PDict d) \<and> is_status d ''proposed'' \<and> assert_reader_safe d 1 = Inr () \<and>
    dgetn d ''requirementsHash'' = PStr (requirements_fingerprint []) \<and> dgetn d ''planHash'' = PStr (plan_fingerprint demo_venue_plan) \<and>
    va_transactions demo_proposed = [(''adapt-1'', PDict d)] \<and> va_active demo_proposed = PNone"
proof -
  obtain d where d: "build_transaction demo_env demo_venue_plan [] False = Inr d" "list_of (dgetn d ''changes'') = []"
    "dgetn d ''requirementsHash'' = PStr (requirements_fingerprint [])" "dgetn d ''planHash'' = PStr (plan_fingerprint demo_venue_plan)"
    "assert_reader_safe d 1 = Inr ()"
    using demo_build by blast
  have i: "transaction_id demo_env = ''adapt-1''" by (simp add: transaction_id_def demo_env_def)
  show ?thesis
    using d build_ok(3) [OF d(1)]
    by (simp add: demo_proposed_def sexec_def propose_def check_adaptation_revision_def method_run put_tx_def save_run [OF demo_writes(2)] Let_def
        initial_adaptation_def i reader_safe_dset)
qed

lemma demo_validated_tx: "\<exists>d. dget (va_transactions demo_validated) ''adapt-1'' = Some (PDict d) \<and> is_status d ''validated'' \<and> assert_reader_safe d 1 = Inr () \<and>
    (\<exists>v. sub_dict d ''validation'' = Inr v \<and> truthy (dgetn v ''valid'')) \<and> va_transactions demo_validated = [(''adapt-1'', PDict d)] \<and> va_active demo_validated = PNone"
proof -
  obtain d where d: "dget (va_transactions demo_proposed) ''adapt-1'' = Some (PDict d)" "is_status d ''proposed''" "assert_reader_safe d 1 = Inr ()"
    "dgetn d ''requirementsHash'' = PStr (requirements_fingerprint [])" "dgetn d ''planHash'' = PStr (plan_fingerprint demo_venue_plan)"
    "va_transactions demo_proposed = [(''adapt-1'', PDict d)]" "va_active demo_proposed = PNone"
    using demo_proposed_tx by blast
  have b: "validation_blockers d demo_venue_plan [] = Inr []"
    using d(2,4,5) by (simp add: validation_blockers_def status_in_def is_status_def is_list_def is_dict_def ebind_def
        demo_venue_plan_def dgetn_def [of "[_, _]"] dgetd_def por_def py_iter_def)
  have p: "truthy (dgetn demo_venue_plan ''compatible'')" "dgetn demo_venue_plan ''readiness'' = PStr ''ready''"
    by (simp_all add: demo_venue_plan_def dgetn_def dgetd_def)
  show ?thesis
    using d(1,3,6,7) b p
    by (simp add: demo_validated_def sexec_def validate_def check_adaptation_revision_def method_run find_tx_def put_tx_def save_run [OF demo_writes(2)] Let_def
        reader_safe_dset validated_doc_def sub_dict_def por_def) (simp add: dgetn_def dgetd_def)
qed

lemma schedule_run:
  assumes "dget (va_transactions s) k = Some (PDict d)" and "assert_reader_safe d 1 = Inr ()"
    and "sub_dict d ''validation'' = Inr v" and "truthy (dgetn v ''valid'')" and "\<not> is_status d ''committed''"
    and "pending_others k (va_transactions s) = []" and "mode = py_lower (strip (py_str (por mode0 (PStr ''immediate''))))"
    and "mode \<in> {''immediate'', ''next-bar'', ''cue''}" and "commit_target mode sec bpm cue = Inr x" and "writes env"
    and "t = saved (s\<lparr>va_transactions := dset (va_transactions s) k (PDict (scheduled_doc env mode (commit_dict env mode who sec x) d))\<rparr>)"
  shows "schedule_commit env k mode0 sec bpm cue who PNone s =
    (if mode = ''immediate'' then commit_locked env k sec [(''type'', PStr ''immediate'')] t else find_tx k t)"
  using assms(1-6,8,9)
  unfolding assms(11) schedule_commit_def Let_def assms(7) [symmetric]
  by (simp add: method_run check_adaptation_revision_def find_run put_tx_def save_run [OF assms(10)] if_distribR split del: if_split)

lemma demo_immediate: "\<exists>tx s1 a. schedule_commit demo_env ''adapt-1'' (PStr ''immediate'') (Fin 0) (Fin 120) [] [] PNone demo_validated = (Inr tx, s1) \<and>
    va_active s1 = PDict a \<and> is_status tx ''committed'' \<and> assert_reader_safe tx 1 = Inr () \<and> dget (va_transactions s1) ''adapt-1'' = Some (PDict tx)"
proof -
  obtain d v where d: "dget (va_transactions demo_validated) ''adapt-1'' = Some (PDict d)" "is_status d ''validated''" "assert_reader_safe d 1 = Inr ()"
    "sub_dict d ''validation'' = Inr v" "truthy (dgetn v ''valid'')" "va_transactions demo_validated = [(''adapt-1'', PDict d)]" "va_active demo_validated = PNone"
    using demo_validated_tx by blast
  note ok = invD [OF reach_inv [OF demo_validated_reach]]
  let ?d = "scheduled_doc demo_env ''immediate'' (commit_dict demo_env ''immediate'' [] (Fin 0) (PNone, PNone)) d"
  let ?t = "saved (demo_validated\<lparr>va_transactions := dset (va_transactions demo_validated) ''adapt-1'' (PDict ?d)\<rparr>)"
  have mode: "''immediate'' = py_lower (strip (py_str (por (PStr ''immediate'') (PStr ''immediate''))))"
    by (simp add: por_def py_lower_def strip_def lstrip_def rstrip_def is_space_def ord_of_def lower_char_def)
  have nc: "\<not> is_status d ''committed''" "pending_others ''adapt-1'' (va_transactions demo_validated) = []"
    using d(2,6) by (simp_all add: is_status_def pending_others_def objects_def)
  have run: "schedule_commit demo_env ''adapt-1'' (PStr ''immediate'') (Fin 0) (Fin 120) [] [] PNone demo_validated =
      commit_locked demo_env ''adapt-1'' (Fin 0) [(''type'', PStr ''immediate'')] ?t"
    by (subst schedule_run [where x = "(PNone, PNone)", OF d(1,3,4,5) nc mode _ _ demo_writes(2) refl]) (simp_all add: commit_target_def)
  have t: "dget (va_transactions ?t) ''adapt-1'' = Some (PDict ?d)" "dgetn ?d ''transactionId'' = PStr ''adapt-1''"
    "dgetn ?d ''commit'' = PDict (commit_dict demo_env ''immediate'' [] (Fin 0) (PNone, PNone))" "layer_ok [] (va_active ?t)"
    using tx_okD(2) [OF ok d(1)] d(7) by (simp_all add: scheduled_doc_def layer_ok_def)
  from commit_locked_run [OF t demo_writes(2)] obtain tx s1 a
    where c: "commit_locked demo_env ''adapt-1'' (Fin 0) [(''type'', PStr ''immediate'')] ?t = (Inr tx, s1)" "is_status tx ''committed''" "va_active s1 = PDict a"
    by blast
  from commit_locked_returns [OF c(1) t(1)] have "assert_reader_safe tx 1 = Inr ()" "dget (va_transactions s1) ''adapt-1'' = Some (PDict tx)"
    using d(3) by (auto simp: committed_doc_def scheduled_doc_def reader_safe_dset)
  with c run show ?thesis by auto
qed

theorem live_patch_is_proposed_witness:
  "\<exists>s a t d. adaptation_reach s \<and> va_active s = PDict a \<and> dgetn a ''transactionId'' = PStr t \<and>
     dget (va_transactions s) t = Some (PDict d) \<and> dgetn a ''mappings'' = por (dgetn d ''mappings'') (PDict [])"
proof -
  let ?s = "sexec (schedule_commit demo_env ''adapt-1'' (PStr ''immediate'') (Fin 0) (Fin 120) [] [] PNone) demo_validated"
  have r: "adaptation_reach ?s" by (rule scheduled [OF demo_validated_reach])
  have "va_active ?s \<noteq> PNone" using demo_immediate by (auto simp: sexec_def)
  with live_patch_is_proposed [OF r] r show ?thesis by blast
qed

theorem rollback_restores_witness:
  "\<exists>s1 tx' s2. rollback demo_env ''adapt-1'' (Fin 1) [] PNone s1 = (Inr tx', s2) \<and> va_active s1 \<noteq> PNone \<and> va_active s2 = PNone \<and> is_status tx' ''rolled-back''"
proof -
  obtain d where d: "dget (va_transactions demo_validated) ''adapt-1'' = Some (PDict d)" "\<not> is_status d ''committed''" "va_active demo_validated = PNone"
    using demo_validated_tx by (auto simp: is_status_def)
  obtain tx s1 a where c: "schedule_commit demo_env ''adapt-1'' (PStr ''immediate'') (Fin 0) (Fin 120) [] [] PNone demo_validated = (Inr tx, s1)"
    "va_active s1 = PDict a"
    using demo_immediate by blast
  from rollback_restores [OF demo_validated_reach d(1,2) c(1) demo_writes(1)] c(2) d(3) show ?thesis
    by (metis pyval.distinct(11))
qed

theorem recommit_disarms_rollback_witness:
  "\<exists>s message s1. venue_adaptation_commit demo_env True ''adapt-1'' demo_venue_plan [] (Fin 1) (Fin 120) [] s = (Inl (ValueError message), s1) \<and>
     va_active s \<noteq> PNone \<and> va_active s1 = va_active s \<and>
     venue_adaptation_rollback demo_env True ''adapt-1'' (Fin 2) [] s1 = (Inl (ValueError ''only committed or pending transactions can be rolled back''), s1)"
proof -
  obtain tx a and s :: adaptation_state where c: "va_active s = PDict a" "is_status tx ''committed''" "assert_reader_safe tx 1 = Inr ()" "dget (va_transactions s) ''adapt-1'' = Some (PDict tx)"
    using demo_immediate by blast
  obtain bs where b: "validation_blockers tx demo_venue_plan [] = Inr bs"
    using c(2) by (simp add: validation_blockers_def status_in_def is_status_def is_list_def is_dict_def ebind_def
        demo_venue_plan_def dgetn_def [of "[_, _]"] dgetd_def por_def py_iter_def)
  have e: "dgetn [] ''expectedAdaptationRevision'' = PNone" by (simp add: dgetn_def dgetd_def)
  from recommit_disarms_rollback [OF c(4,2,3) b e demo_writes(1), of "Fin 1" "Fin 120" demo_env "Fin 2"] c(1) show ?thesis by force
qed

theorem scheduled_commit_happens_witness:
  "\<exists>s1 r. (\<forall>sec < r. tick demo_env (Fin sec) s1 = (Inr [], s1)) \<and> (\<forall>sec \<ge> r. \<exists>tx s2. tick demo_env (Fin sec) s1 = (Inr [tx], s2) \<and> is_status tx ''committed'')"
proof -
  obtain d v where d: "dget (va_transactions demo_validated) ''adapt-1'' = Some (PDict d)" "is_status d ''validated''" "assert_reader_safe d 1 = Inr ()"
    "sub_dict d ''validation'' = Inr v" "truthy (dgetn v ''valid'')" "va_transactions demo_validated = [(''adapt-1'', PDict d)]"
    using demo_validated_tx by blast
  have mode: "''next-bar'' = py_lower (strip (py_str (por (PStr ''next-bar'') (PStr ''immediate''))))"
    by (simp add: por_def py_lower_def strip_def lstrip_def rstrip_def is_space_def ord_of_def lower_char_def)
  have nc: "\<not> is_status d ''committed''" "pending_others ''adapt-1'' (va_transactions demo_validated) = []"
    using d(2,6) by (simp_all add: is_status_def pending_others_def objects_def)
  have "\<exists>t. bar_target (Fin 1) (Fin 120) = Inr t" by (simp add: bar_target_def fmax_def Let_def)
  then obtain x where x: "commit_target ''next-bar'' (Fin 1) (Fin 120) [] = Inr x" by (auto simp: commit_target_def ebind_def)
  have "\<exists>tx s1. schedule_commit demo_env ''adapt-1'' (PStr ''next-bar'') (Fin 1) (Fin 120) [] [] PNone demo_validated = (Inr tx, s1)"
    by (subst schedule_run [OF d(1,3,4,5) nc mode _ x demo_writes(2) refl]) (simp_all add: find_tx_def)
  then obtain tx s1 where c: "schedule_commit demo_env ''adapt-1'' (PStr ''next-bar'') (Fin 1) (Fin 120) [] [] PNone demo_validated = (Inr tx, s1)" by blast
  from scheduled_commit_happens [OF demo_validated_reach d(1) nc(1) c _ _ _ demo_writes(1)] show ?thesis by (simp del: ex_simps) blast
qed

end
