(* ===== verification/Public_Record.thy ===== *)
theory Public_Record
  imports Replication Py_Json
begin

text \<open>
  \<^verbatim>\<open>src/backend/public_record.py\<close>: the append-only record of operations.  Every record is linked to the one
  before by a hash and signed by the node; witnesses submit attestations for records, which form a second
  linked ledger.  A ledger file is a list of lines; the private witness policy is read by a function that is
  a parameter; readings of the clock and fresh identifiers are arguments.
\<close>

section \<open>Hashes and tags\<close>

definition zero_hash :: string where
  "zero_hash = replicate 64 (CHR ''0'')"

definition is_hex :: "string \<Rightarrow> bool" where
  "is_hex s = list_all (\<lambda>c. c \<in> set ''0123456789abcdef'') s"

definition record_signature :: "string \<Rightarrow> string \<Rightarrow> string \<Rightarrow> string" where
  "record_signature record_hash signer_id secret =
     hmac_sha256_hex secret (canonical (PDict
       [(''purpose'', PStr ''org.upp.public-record-signature/1''), (''recordHash'', PStr record_hash), (''signerId'', PStr signer_id)]))"

definition attestation_payload :: "string \<Rightarrow> string \<Rightarrow> int \<Rightarrow> pydict" where
  "attestation_payload witness_id record_hash issued_at_ns =
     [(''version'', PInt 1), (''witnessId'', PStr witness_id), (''recordHash'', PStr record_hash), (''issuedAtNs'', PInt issued_at_ns)]"

definition attestation_tag :: "string \<Rightarrow> string \<Rightarrow> string \<Rightarrow> int \<Rightarrow> string" where
  "attestation_tag secret witness_id record_hash issued_at_ns =
     hmac_sha256_hex secret (canonical (PDict
       [(''purpose'', PStr ''org.upp.public-record-witness/1''), (''payload'', PDict (attestation_payload witness_id record_hash issued_at_ns))]))"

definition make_witness_attestation :: "string \<Rightarrow> pyval \<Rightarrow> string \<Rightarrow> int \<Rightarrow> pyerr + pydict" where
  "make_witness_attestation record_hash witness0 secret issued_at_ns =
     ebind (eguard (length record_hash = 64 \<and> is_hex record_hash) (ValueError ''invalid public-record hash'')) (\<lambda>_.
     let witness_id = strip (py_str witness0) in
     ebind (eguard (witness_id \<noteq> [] \<and> length witness_id \<le> 64) (ValueError ''invalid witness id'')) (\<lambda>_.
     Inr (attestation_payload witness_id record_hash issued_at_ns @
          [(''hmacSha256'', PStr (attestation_tag secret witness_id record_hash issued_at_ns))])))"

definition chain_input :: "string \<Rightarrow> pyval \<Rightarrow> string" where
  "chain_input previous v = previous @ [CHR 0x0A] @ canonical v"

definition chain_hash :: "string \<Rightarrow> pyval \<Rightarrow> string" where
  "chain_hash previous v = sha256_hex (chain_input previous v)"

section \<open>The witness policy\<close>

record witness_policy =
  wp_quorum :: int
  wp_witnesses :: "(string \<times> string) list"

definition policy_error :: pyerr where
  "policy_error = PermissionError ''public-record witness policy unavailable or invalid''"

definition policy_witness :: "string \<times> pyval \<Rightarrow> (string \<times> string) list \<Rightarrow> pyerr + (string \<times> string) list" where
  "policy_witness x acc =
     (case snd x of
        PStr secret \<Rightarrow>
          if 1 \<le> length (fst x) \<and> length (fst x) \<le> 64 \<and> list_all is_ascii (fst x) \<and>
             list_all (\<lambda>c. is_alnum c \<or> c \<in> set ''._-'') (fst x) \<and> 32 \<le> length secret \<and> length secret \<le> 512 \<and>
             list_all (\<lambda>c. 33 \<le> ord_of c \<and> ord_of c \<le> 126) secret
          then Inr (dset acc (fst x) secret) else Inl policy_error
      | _ \<Rightarrow> Inl policy_error)"

text \<open>The policy file, when one is configured: unreadable, or a JSON value.\<close>

definition read_policy :: "(pyerr + pyval) option \<Rightarrow> pyerr + witness_policy" where
  "read_policy file =
     (case file of
        None \<Rightarrow> Inr \<lparr>wp_quorum = 0, wp_witnesses = []\<rparr>
      | Some (Inl e) \<Rightarrow> Inl policy_error
      | Some (Inr (PDict d)) \<Rightarrow>
          if set (dkeys d) = {''version'', ''quorum'', ''witnesses''} \<and> veq (dgetn d ''version'') (PInt 1) then
            (case (dgetn d ''quorum'', dgetn d ''witnesses'') of
               (PInt q, PDict ws) \<Rightarrow>
                 if 1 \<le> length ws \<and> length ws \<le> 16 \<and> 1 \<le> q \<and> q \<le> int (length ws)
                 then ebind (efold policy_witness ws []) (\<lambda>secrets. Inr \<lparr>wp_quorum = q, wp_witnesses = secrets\<rparr>)
                 else Inl policy_error
             | _ \<Rightarrow> Inl policy_error)
          else Inl policy_error
      | _ \<Rightarrow> Inl policy_error)"

section \<open>Ledgers\<close>

datatype ledger_line = Blank | Garbled | Document pyval

text \<open>What an append leaves behind: the line is durable, it is in the file but the call failed, or it is not
  in the file.\<close>

datatype append_outcome = Durable | Unsynced | Lost

record public_record =
  pr_signer :: string
  pr_secret :: string
  pr_records :: "ledger_line list option"
  pr_witnesses :: "ledger_line list option"

definition filled :: "ledger_line list option \<Rightarrow> ledger_line list" where
  \<comment> \<open>the lines a loop over the file does not skip\<close>
  "filled file = filter (\<lambda>l. l \<noteq> Blank) (case file of Some ls \<Rightarrow> ls | None \<Rightarrow> [])"

definition open_record :: "pyval \<Rightarrow> string \<Rightarrow> (pyerr + pyval) option \<Rightarrow> ledger_line list option \<Rightarrow> ledger_line list option \<Rightarrow> pyerr + public_record" where
  "open_record signer0 secret policy records witnesses =
     (let signer = clean_str 64 signer0 in
      ebind (eguard (signer \<noteq> [] \<and> 32 \<le> length secret) (ValueError ''public record signer identity and secret are required'')) (\<lambda>_.
      ebind (read_policy policy) (\<lambda>_.
      Inr \<lparr>pr_signer = signer, pr_secret = secret, pr_records = records, pr_witnesses = witnesses\<rparr>)))"

definition last_hash :: "ledger_line list option \<Rightarrow> string" where
  "last_hash file =
     (if filled file = [] then zero_hash
      else (case last (filled file) of
        Document (PDict d) \<Rightarrow> (case dget d ''hash'' of Some v \<Rightarrow> py_str v | None \<Rightarrow> ''INVALID'')
      | _ \<Rightarrow> ''INVALID''))"

definition append_line :: "append_outcome \<Rightarrow> pydict \<Rightarrow> ledger_line list option \<Rightarrow> ledger_line list option" where
  "append_line w value file =
     (if w = Lost then file else Some ((case file of Some ls \<Rightarrow> ls | None \<Rightarrow> []) @ [Document (json_sorted (PDict value))]))"

definition encodable :: "string \<Rightarrow> pyerr + unit" where
  \<comment> \<open>\<open>s.encode("ascii")\<close> raises a \<open>UnicodeEncodeError\<close>, which is a \<open>ValueError\<close>\<close>
  "encodable s = eguard (list_all is_ascii s) (ValueError ''ordinal not in range(128)'')"

definition record_core :: "int \<Rightarrow> string \<Rightarrow> string \<Rightarrow> int \<Rightarrow> pydict \<Rightarrow> string \<Rightarrow> pydict" where
  "record_core sequence record_id record_type timestamp_ns payload previous =
     [(''sequence'', PInt sequence), (''recordId'', PStr record_id), (''recordType'', PStr record_type),
      (''timestampNs'', PInt timestamp_ns), (''payload'', PDict payload), (''previousHash'', PStr previous)]"

definition signed_record :: "string \<Rightarrow> string \<Rightarrow> pydict \<Rightarrow> string \<Rightarrow> pydict" where
  "signed_record signer secret core digest =
     core @ [(''hash'', PStr digest), (''signerId'', PStr signer), (''signatureAlgorithm'', PStr ''hmac-sha256''),
             (''signatureHmacSha256'', PStr (record_signature digest signer secret))]"

definition record_reference :: "string \<Rightarrow> string \<Rightarrow> int \<Rightarrow> string \<Rightarrow> string \<Rightarrow> pydict" where
  "record_reference signer secret sequence record_id digest =
     [(''recordId'', PStr record_id), (''sequence'', PInt sequence), (''recordHash'', PStr digest), (''signerId'', PStr signer),
      (''signatureAlgorithm'', PStr ''hmac-sha256''), (''signatureHmacSha256'', PStr (record_signature digest signer secret))]"

definition append_record :: "append_outcome \<Rightarrow> int \<Rightarrow> string \<Rightarrow> pyval \<Rightarrow> pyval \<Rightarrow> (public_record, pydict) pymethod" where
  "append_record w timestamp_ns uid type0 payload0 =
     (let record_type = clean_str 96 type0; record_id = ''record-'' @ uid in
      sthen (sguard (record_type \<noteq> [] \<and> is_dict payload0) (ValueError ''public record requires record type and object payload''))
     (sbind (sgets id) (\<lambda>s.
      let previous = last_hash (pr_records s); sequence = int (length (filled (pr_records s))) + 1;
          core = record_core sequence record_id record_type timestamp_ns (dict_of payload0) previous;
          digest = chain_hash previous (PDict core) in
      sthen (sguard (previous \<noteq> ''INVALID'') OSError)
     (sthen (slift (encodable previous))
     (sthen (smodify (\<lambda>s. s\<lparr>pr_records := append_line w (signed_record (pr_signer s) (pr_secret s) core digest) (pr_records s)\<rparr>))
     (sthen (sguard (w = Durable) OSError)
      (sreturn (record_reference (pr_signer s) (pr_secret s) sequence record_id digest))))))))"

definition reference_ok :: "string \<Rightarrow> string \<Rightarrow> bool" where
  "reference_ok record_id record_hash = (startswith record_id ''record-'' \<and> length record_hash = 64 \<and> is_hex record_hash)"

definition reference_uri :: "pydict \<Rightarrow> pyerr + string" where
  "reference_uri reference =
     (case (dget reference ''recordId'', dget reference ''recordHash'') of
        (Some i, Some h) \<Rightarrow>
          if reference_ok (py_str i) (py_str h) then Inr (''upp-public-record:'' @ py_str i @ '':'' @ py_str h)
          else Inl (ValueError ''invalid public-record reference'')
      | _ \<Rightarrow> Inl (ValueError ''invalid public-record reference''))"

section \<open>Verification\<close>

text \<open>Why a ledger is refused: a check fails, or reading it raises an exception that is caught.\<close>

datatype refusal = Mismatch string | Unreadable pyerr

record ledger_failure =
  lf_records :: int
  lf_line :: "nat option"
  lf_witness_records :: "int option"
  lf_reason :: refusal

record chain_state =
  cs_previous :: string
  cs_hashes :: "string list"

definition cs_count :: "chain_state \<Rightarrow> int" where
  "cs_count c = int (length (cs_hashes c))"

definition field_of :: "pyval \<Rightarrow> string \<Rightarrow> pyerr + pyval" where
  \<comment> \<open>\<open>v[k]\<close>\<close>
  "field_of v k = (case v of PDict d \<Rightarrow> dindex d k | _ \<Rightarrow> Inl TypeError)"

definition core_keys :: "string list" where
  "core_keys = [''sequence'', ''recordId'', ''recordType'', ''timestampNs'', ''payload'', ''previousHash'']"

definition core_of :: "pyval \<Rightarrow> pyerr + pydict" where
  "core_of v = emap (\<lambda>k. ebind (field_of v k) (\<lambda>x. Inr (k, x))) core_keys"

text \<open>One record: the exception that reading it raises, the check that fails, or its digest.\<close>

definition check_record :: "string \<Rightarrow> string \<Rightarrow> string \<Rightarrow> int \<Rightarrow> pyval \<Rightarrow> pyerr + (string + string)" where
  "check_record signer secret previous count v =
     ebind (core_of v) (\<lambda>core.
     let digest = chain_hash previous (PDict core); d = dict_of v in
     if dgetn core ''previousHash'' \<noteq> PStr previous \<or> \<not> veq (dgetn core ''sequence'') (PInt (count + 1)) then Inr (Inl ''record chain mismatch'')
     else if dgetn d ''hash'' \<noteq> PStr digest then Inr (Inl ''record hash mismatch'')
     else if dgetn d ''signerId'' \<noteq> PStr signer \<or> dgetn d ''signatureAlgorithm'' \<noteq> PStr ''hmac-sha256'' then Inr (Inl ''record signature mismatch'')
     else
       ebind (compare_digest (record_signature digest signer secret) (py_str (dgetd d ''signatureHmacSha256'' (PStr [])))) (\<lambda>same.
       Inr (if same then Inr digest else Inl ''record signature mismatch'')))"

fun scan_records :: "string \<Rightarrow> string \<Rightarrow> nat \<Rightarrow> ledger_line list \<Rightarrow> chain_state \<Rightarrow> ledger_failure + chain_state" where
  "scan_records signer secret n [] c = Inr c"
| "scan_records signer secret n (l # ls) c =
     (case l of
        Blank \<Rightarrow> scan_records signer secret (n + 1) ls c
      | Garbled \<Rightarrow> Inl \<lparr>lf_records = cs_count c, lf_line = None, lf_witness_records = None, lf_reason = Unreadable (ValueError ''JSONDecodeError'')\<rparr>
      | Document v \<Rightarrow>
          (case check_record signer secret (cs_previous c) (cs_count c) v of
             Inl e \<Rightarrow> Inl \<lparr>lf_records = cs_count c, lf_line = None, lf_witness_records = None, lf_reason = Unreadable e\<rparr>
           | Inr (Inl message) \<Rightarrow> Inl \<lparr>lf_records = cs_count c, lf_line = Some n, lf_witness_records = None, lf_reason = Mismatch message\<rparr>
           | Inr (Inr digest) \<Rightarrow>
               scan_records signer secret (n + 1) ls \<lparr>cs_previous = digest, cs_hashes = cs_hashes c @ [digest]\<rparr>))"

record witness_scan =
  wn_previous :: string
  wn_accepted :: "(string \<times> string) list"

definition check_witness :: "witness_policy \<Rightarrow> string list \<Rightarrow> string \<Rightarrow> pyval \<Rightarrow> pyerr + (string + string \<times> string \<times> string)" where
  \<comment> \<open>the hash of the row, the record and the witness it is accepted for\<close>
  "check_witness policy hashes previous row =
     ebind (field_of row ''event'') (\<lambda>event.
     let expected_row = chain_hash previous event; d = dict_of row in
     if dgetn d ''previousHash'' \<noteq> PStr previous \<or> dgetn d ''hash'' \<noteq> PStr expected_row then Inr (Inl ''witness chain mismatch'')
     else
       ebind (field_of event ''witnessId'') (\<lambda>w.
       ebind (field_of event ''recordHash'') (\<lambda>h.
       case dget (wp_witnesses policy) (py_str w) of
         None \<Rightarrow> Inr (Inl ''witness identity or record unavailable'')
       | Some secret \<Rightarrow>
           if py_str h \<notin> set hashes then Inr (Inl ''witness identity or record unavailable'')
           else
             ebind (ebind (field_of event ''issuedAtNs'') py_int) (\<lambda>issued.
             ebind (compare_digest (attestation_tag secret (py_str w) (py_str h) issued) (py_str (dgetd (dict_of event) ''hmacSha256'' (PStr [])))) (\<lambda>same.
             Inr (if same then Inr (expected_row, py_str h, py_str w) else Inl ''witness authentication mismatch''))))))"

fun scan_witnesses :: "witness_policy \<Rightarrow> chain_state \<Rightarrow> nat \<Rightarrow> ledger_line list \<Rightarrow> witness_scan \<Rightarrow> pyerr + (ledger_failure + witness_scan)" where
  "scan_witnesses policy c n [] x = Inr (Inr x)"
| "scan_witnesses policy c n (l # ls) x =
     (case l of
        Blank \<Rightarrow> scan_witnesses policy c (n + 1) ls x
      | Garbled \<Rightarrow> Inr (Inl \<lparr>lf_records = cs_count c, lf_line = None, lf_witness_records = Some (int (length (wn_accepted x))), lf_reason = Unreadable (ValueError ''JSONDecodeError'')\<rparr>)
      | Document row \<Rightarrow>
          (case check_witness policy (cs_hashes c) (wn_previous x) row of
             Inl e \<Rightarrow> if is_key_type_or_value e
               then Inr (Inl \<lparr>lf_records = cs_count c, lf_line = None, lf_witness_records = Some (int (length (wn_accepted x))), lf_reason = Unreadable e\<rparr>) else Inl e
           | Inr (Inl message) \<Rightarrow> Inr (Inl \<lparr>lf_records = cs_count c,
               lf_line = (if message = ''witness chain mismatch'' then Some n else None), lf_witness_records = Some (int (length (wn_accepted x))), lf_reason = Mismatch message\<rparr>)
           | Inr (Inr (h, a)) \<Rightarrow> scan_witnesses policy c (n + 1) ls \<lparr>wn_previous = h, wn_accepted = wn_accepted x @ [a]\<rparr>))"

record record_report =
  vr_records :: int
  vr_head :: string
  vr_configured :: bool
  vr_quorum :: int
  vr_witness_records :: int
  vr_witnessed :: int

definition witnesses_of :: "(string \<times> string) list \<Rightarrow> string \<Rightarrow> string list" where
  "witnesses_of accepted digest = remdups (map snd (filter (\<lambda>a. fst a = digest) accepted))"

definition witnessed_hashes :: "witness_policy \<Rightarrow> chain_state \<Rightarrow> witness_scan \<Rightarrow> string list" where
  "witnessed_hashes policy c x =
     (if wp_quorum policy = 0 then []
      else filter (\<lambda>h. wp_quorum policy \<le> int (length (witnesses_of (wn_accepted x) h))) (remdups (cs_hashes c)))"

definition lines_of :: "ledger_line list option \<Rightarrow> ledger_line list" where
  "lines_of file = (case file of Some ls \<Rightarrow> ls | None \<Rightarrow> [])"

definition verify_record :: "(pyerr + pyval) option \<Rightarrow> public_record \<Rightarrow> pyerr + (ledger_failure + record_report)" where
  "verify_record policy_file s =
     (case scan_records (pr_signer s) (pr_secret s) 1 (lines_of (pr_records s)) \<lparr>cs_previous = zero_hash, cs_hashes = []\<rparr> of
        Inl f \<Rightarrow> Inr (Inl f)
      | Inr c \<Rightarrow>
          ebind (read_policy policy_file) (\<lambda>policy.
          ebind (scan_witnesses policy c 1 (lines_of (pr_witnesses s)) \<lparr>wn_previous = zero_hash, wn_accepted = []\<rparr>) (\<lambda>r.
          Inr (case r of
                 Inl f \<Rightarrow> Inl f
               | Inr x \<Rightarrow> Inr \<lparr>vr_records = cs_count c, vr_head = cs_previous c, vr_configured = (wp_witnesses policy \<noteq> []),
                   vr_quorum = wp_quorum policy, vr_witness_records = int (length (wn_accepted x)),
                   vr_witnessed = int (length (witnessed_hashes policy c x))\<rparr>))))"

definition all_witnessed :: "record_report \<Rightarrow> bool" where
  "all_witnessed r = (vr_records r \<noteq> 0 \<and> vr_quorum r \<noteq> 0 \<and> vr_witnessed r = vr_records r)"

definition record_report_dict :: "string \<Rightarrow> record_report \<Rightarrow> pydict" where
  "record_report_dict signer r =
     [(''ok'', PBool True), (''records'', PInt (vr_records r)), (''head'', PStr (vr_head r)), (''signerId'', PStr signer),
      (''signatureAlgorithm'', PStr ''hmac-sha256''), (''externalWitnessConfigured'', PBool (vr_configured r)), (''witnessQuorum'', PInt (vr_quorum r)),
      (''witnessRecords'', PInt (vr_witness_records r)), (''quorumWitnessedRecords'', PInt (vr_witnessed r)),
      (''allRecordsWitnessed'', PBool (all_witnessed r))]"

text \<open>The text parts between the first two colons, as \<open>split(":", 2)\<close> gives them when there are three.\<close>

definition uri_parts :: "string \<Rightarrow> (string \<times> string \<times> string) option" where
  "uri_parts s =
     (let a = takeWhile (\<lambda>c. c \<noteq> CHR '':'') s; r = dropWhile (\<lambda>c. c \<noteq> CHR '':'') s in
      if r = [] then None
      else (let b = takeWhile (\<lambda>c. c \<noteq> CHR '':'') (tl r); t = dropWhile (\<lambda>c. c \<noteq> CHR '':'') (tl r) in
        if t = [] then None else Some (a, b, tl t)))"

fun find_record :: "string \<Rightarrow> string \<Rightarrow> pyval \<Rightarrow> ledger_line list \<Rightarrow> pyerr + pydict" where
  "find_record i h record_type [] = Inl (KeyError ''public-record reference not found'')"
| "find_record i h record_type (l # ls) =
     (case l of
        Document (PDict d) \<Rightarrow>
          if dgetn d ''recordId'' \<noteq> PStr i \<or> dgetn d ''hash'' \<noteq> PStr h then find_record i h record_type ls
          else if record_type \<noteq> PNone \<and> \<not> veq (dgetn d ''recordType'') record_type
          then Inl (ValueError ''public-record reference has unexpected record type'') else Inr d
      | Document _ \<Rightarrow> Inl AttributeError
      | Garbled \<Rightarrow> Inl OSError
      | Blank \<Rightarrow> find_record i h record_type ls)"

definition resolve_reference :: "(pyerr + pyval) option \<Rightarrow> pyval \<Rightarrow> pyval \<Rightarrow> public_record \<Rightarrow> pyerr + pydict" where
  "resolve_reference policy_file uri record_type s =
     (case uri_parts (strip (py_str uri)) of
        Some (scheme, i, h) \<Rightarrow>
          if scheme \<noteq> ''upp-public-record'' \<or> \<not> reference_ok i h then Inl (ValueError ''invalid public-record reference URI'')
          else
            ebind (verify_record policy_file s) (\<lambda>r.
            case r of Inl _ \<Rightarrow> Inl OSError | Inr _ \<Rightarrow> find_record i h record_type (lines_of (pr_records s)))
      | None \<Rightarrow> Inl (ValueError ''invalid public-record reference URI''))"

section \<open>Attestations\<close>

fun known_hashes :: "ledger_line list \<Rightarrow> pyerr + string list" where
  "known_hashes [] = Inr []"
| "known_hashes (l # ls) =
     (case l of
        Blank \<Rightarrow> known_hashes ls
      | Garbled \<Rightarrow> Inl (ValueError ''JSONDecodeError'')
      | Document v \<Rightarrow> ebind (as_dict v) (\<lambda>d. ebind (known_hashes ls) (\<lambda>hs. Inr (py_str (dgetd d ''hash'' (PStr [])) # hs))))"

fun previous_attestation :: "string \<Rightarrow> string \<Rightarrow> ledger_line list \<Rightarrow> pyerr + pydict option" where
  "previous_attestation w h [] = Inr None"
| "previous_attestation w h (l # ls) =
     (case l of
        Blank \<Rightarrow> previous_attestation w h ls
      | Garbled \<Rightarrow> Inl (ValueError ''JSONDecodeError'')
      | Document v \<Rightarrow>
          ebind (ebind (as_dict v) (\<lambda>row. sub_dict row ''event'')) (\<lambda>event.
          if dgetn event ''witnessId'' = PStr w \<and> dgetn event ''recordHash'' = PStr h then Inr (Some event) else previous_attestation w h ls))"

definition read_attestation :: "pydict \<Rightarrow> pyerr + string \<times> string \<times> int \<times> string" where
  "read_attestation a =
     ecatch is_key_type_or_value
       (ebind (dindex a ''witnessId'') (\<lambda>w. ebind (dindex a ''recordHash'') (\<lambda>h.
        ebind (ebind (dindex a ''issuedAtNs'') py_int) (\<lambda>i. ebind (dindex a ''hmacSha256'') (\<lambda>t. Inr (py_str w, py_str h, i, py_str t))))))
       (Inl (PermissionError ''invalid public-record witness attestation''))"

definition attestation_event :: "string \<Rightarrow> string \<Rightarrow> int \<Rightarrow> string \<Rightarrow> pydict" where
  "attestation_event w h issued supplied = attestation_payload w h issued @ [(''hmacSha256'', PStr supplied)]"

definition attestation_row :: "pydict \<Rightarrow> string \<Rightarrow> pydict" where
  "attestation_row event previous =
     [(''event'', PDict event), (''previousHash'', PStr previous), (''hash'', PStr (chain_hash previous (PDict event)))]"

definition accepted_answer :: "bool \<Rightarrow> pydict \<Rightarrow> pydict" where
  "accepted_answer deduplicated event = dset (dset event ''accepted'' (PBool True)) ''deduplicated'' (PBool deduplicated)"

definition authentic_attestation :: "(pyerr + pyval) option \<Rightarrow> pydict \<Rightarrow> pyerr + string \<times> string \<times> int \<times> string" where
  "authentic_attestation policy_file attestation =
     ebind (read_policy policy_file) (\<lambda>policy.
     ebind (eguard (wp_witnesses policy \<noteq> []) (PermissionError ''public-record external witnesses are not configured'')) (\<lambda>_.
     ebind (read_attestation attestation) (\<lambda>(w, h, issued, supplied).
     case dget (wp_witnesses policy) w of
       None \<Rightarrow> Inl (PermissionError ''unknown public-record witness'')
     | Some secret \<Rightarrow>
         ebind (if supplied = [] then Inr False else compare_digest (attestation_tag secret w h issued) supplied) (\<lambda>authentic.
         if authentic then Inr (w, h, issued, supplied) else Inl (PermissionError ''public-record witness authentication failed'')))))"

definition attest :: "append_outcome \<Rightarrow> (pyerr + pyval) option \<Rightarrow> pydict \<Rightarrow> (public_record, pydict) pymethod" where
  "attest out policy_file attestation =
     sbind (slift (authentic_attestation policy_file attestation)) (\<lambda>(w, h, issued, supplied).
     sbind (sgete (\<lambda>s. known_hashes (lines_of (pr_records s)))) (\<lambda>hashes.
     sthen (sguard (h \<in> set hashes) (ValueError ''public-record witness references an unknown record''))
    (sbind (sgete (\<lambda>s. previous_attestation w h (lines_of (pr_witnesses s)))) (\<lambda>known.
     case known of
       Some event \<Rightarrow> sreturn (accepted_answer True event)
     | None \<Rightarrow>
         sbind (sgets (\<lambda>s. last_hash (pr_witnesses s))) (\<lambda>previous.
         let event = attestation_event w h issued supplied in
         sthen (slift (encodable previous))
        (sthen (smodify (\<lambda>s. s\<lparr>pr_witnesses := append_line out (attestation_row event previous) (pr_witnesses s)\<rparr>))
        (sthen (sguard (out = Durable) OSError) (sreturn (accepted_answer False event)))))))))"

section \<open>Ledgers that are only appended to verify\<close>

lemma scan_records_append:
  "scan_records signer secret n (ls @ ms) c =
     (case scan_records signer secret n ls c of Inl f \<Rightarrow> Inl f | Inr c' \<Rightarrow> scan_records signer secret (n + length ls) ms c')"
  by (induction signer secret n ls c rule: scan_records.induct) (auto split: ledger_line.split sum.split)

lemma scan_witnesses_append:
  "scan_witnesses p c n (ls @ ms) x =
     (case scan_witnesses p c n ls x of Inr (Inr x') \<Rightarrow> scan_witnesses p c (n + length ls) ms x' | r \<Rightarrow> r)"
  by (induction p c n ls x rule: scan_witnesses.induct) (auto split: ledger_line.split sum.split)

text \<open>When a row of the witness ledger is accepted.\<close>

definition row_accepts :: "witness_policy \<Rightarrow> string \<Rightarrow> pyval \<Rightarrow> string \<Rightarrow> string \<Rightarrow> bool" where
  "row_accepts p previous row h w =
     (\<exists>event secret issued v. field_of row ''event'' = Inr event \<and> dgetn (dict_of row) ''previousHash'' = PStr previous \<and>
        dgetn (dict_of row) ''hash'' = PStr (chain_hash previous event) \<and>
        ebind (field_of event ''witnessId'') (\<lambda>x. Inr (py_str x)) = Inr w \<and> ebind (field_of event ''recordHash'') (\<lambda>x. Inr (py_str x)) = Inr h \<and>
        dget (wp_witnesses p) w = Some secret \<and> field_of event ''issuedAtNs'' = Inr v \<and> py_int v = Inr issued \<and>
        compare_digest (attestation_tag secret w h issued) (py_str (dgetd (dict_of event) ''hmacSha256'' (PStr []))) = Inr True)"

lemma check_witness_accepts:
  "check_witness p hs previous row = Inr (Inr (r, h, w)) \<longleftrightarrow>
     h \<in> set hs \<and> row_accepts p previous row h w \<and> dgetn (dict_of row) ''hash'' = PStr r"
proof
  assume "check_witness p hs previous row = Inr (Inr (r, h, w))"
  then show "h \<in> set hs \<and> row_accepts p previous row h w \<and> dgetn (dict_of row) ''hash'' = PStr r"
    unfolding check_witness_def row_accepts_def Let_def
    by (auto simp: ebind_eq_Inr split: if_splits option.splits)
next
  assume "h \<in> set hs \<and> row_accepts p previous row h w \<and> dgetn (dict_of row) ''hash'' = PStr r"
  then show "check_witness p hs previous row = Inr (Inr (r, h, w))"
    unfolding check_witness_def row_accepts_def Let_def by (auto simp: ebind_eq_Inr)
qed

lemma check_witness_more:
  "check_witness p hs previous row = Inr (Inr a) \<Longrightarrow> set hs \<subseteq> set hs' \<Longrightarrow> check_witness p hs' previous row = Inr (Inr a)"
  by (cases a) (auto simp: check_witness_accepts)

lemma scan_witnesses_more:
  assumes "scan_witnesses p c n ls x = Inr (Inr y)" and "set (cs_hashes c) \<subseteq> set (cs_hashes c')"
  shows "scan_witnesses p c' n ls x = Inr (Inr y)"
  using assms
proof (induction p c n ls x rule: scan_witnesses.induct)
  case (2 p c n l ls x)
  show ?case
  proof (cases l)
    case (Document row)
    with "2.prems"(1) obtain h a where ok: "check_witness p (cs_hashes c) (wn_previous x) row = Inr (Inr (h, a))"
      by (auto split: sum.splits if_splits)
    with "2.IH"(2) [OF Document ok refl] "2.prems" Document check_witness_more [OF ok "2.prems"(2)] show ?thesis by simp
  qed (use "2.IH"(1) "2.prems" in simp_all)
qed simp

lemma canonical_PDict_sorted: "canonical (PDict (map (map_prod id json_sorted) d)) = canonical (PDict d)"
  by (simp add: canonical_def comp_def prod.map_comp) (simp add: map_prod_def split_beta)

definition appendable :: "pydict \<Rightarrow> bool" where
  "appendable core = (map fst core = core_keys)"

lemma core_of_written:
  assumes "appendable core"
  shows "core_of (json_sorted (PDict (signed_record signer secret core digest))) = Inr (map (map_prod id json_sorted) core)"
proof -
  have w: "dwf (signed_record signer secret core digest)"
    using assms by (simp add: appendable_def signed_record_def dwf_def dkeys_def core_keys_def)
  obtain a b c d e f where core: "core = [(''sequence'', a), (''recordId'', b), (''recordType'', c), (''timestampNs'', d), (''payload'', e), (''previousHash'', f)]"
    using assms by (auto simp: appendable_def core_keys_def)
  show ?thesis
    unfolding json_sorted_PDict core_of_def core_keys_def
    by (simp add: field_of_def dindex_def dget_sorted_dict [OF w] ebind_def) (simp add: signed_record_def core)
qed

lemma written_fields:
  assumes "appendable core"
  shows "dgetn (dict_of (json_sorted (PDict (signed_record signer secret core digest)))) ''hash'' = PStr digest"
    "dgetn (dict_of (json_sorted (PDict (signed_record signer secret core digest)))) ''signerId'' = PStr signer"
    "dgetn (dict_of (json_sorted (PDict (signed_record signer secret core digest)))) ''signatureAlgorithm'' = PStr ''hmac-sha256''"
    "dgetd (dict_of (json_sorted (PDict (signed_record signer secret core digest)))) ''signatureHmacSha256'' v = PStr (record_signature digest signer secret)"
proof -
  have w: "dwf (signed_record signer secret core digest)"
    using assms by (simp add: appendable_def signed_record_def dwf_def dkeys_def core_keys_def)
  have n: "dget core k = None" if "k \<notin> set core_keys" for k
    using that assms by (metis appendable_def dget_def list.set_map map_of_eq_None_iff)
  have g: "dget (signed_record signer secret core digest) ''hash'' = Some (PStr digest)"
    "dget (signed_record signer secret core digest) ''signerId'' = Some (PStr signer)"
    "dget (signed_record signer secret core digest) ''signatureAlgorithm'' = Some (PStr ''hmac-sha256'')"
    "dget (signed_record signer secret core digest) ''signatureHmacSha256'' = Some (PStr (record_signature digest signer secret))"
    by (simp_all add: signed_record_def dget_append n core_keys_def)
  show "dgetn (dict_of (json_sorted (PDict (signed_record signer secret core digest)))) ''hash'' = PStr digest"
    "dgetn (dict_of (json_sorted (PDict (signed_record signer secret core digest)))) ''signerId'' = PStr signer"
    "dgetn (dict_of (json_sorted (PDict (signed_record signer secret core digest)))) ''signatureAlgorithm'' = PStr ''hmac-sha256''"
    "dgetd (dict_of (json_sorted (PDict (signed_record signer secret core digest)))) ''signatureHmacSha256'' v = PStr (record_signature digest signer secret)"
    by (simp_all add: json_sorted_PDict dgetn_def dgetd_def dget_sorted_dict [OF w] g)
qed

lemma ascii_record_signature [simp]: "list_all is_ascii (record_signature h signer secret)"
  by (simp add: record_signature_def)

lemma check_written:
  assumes "core = record_core (count + 1) i t ts payload previous" and "digest = chain_hash previous (PDict core)"
  shows "check_record signer secret previous count (json_sorted (PDict (signed_record signer secret core digest))) = Inr (Inr digest)"
proof -
  have a: "appendable core" by (simp add: assms(1) appendable_def record_core_def core_keys_def)
  let ?core = "map (map_prod id json_sorted) core"
  have "dgetn ?core ''previousHash'' = PStr previous" "dgetn ?core ''sequence'' = PInt (count + 1)"
    by (simp_all add: assms(1) record_core_def dgetn_def dgetd_def)
  moreover have "chain_hash previous (PDict ?core) = digest"
    unfolding assms(2) chain_hash_def chain_input_def by (simp only: canonical_PDict_sorted)
  ultimately show ?thesis
    unfolding check_record_def core_of_written [OF a]
    by (simp add: ebind_def Let_def written_fields [OF a] del: json_sorted.simps)
qed

text \<open>The histories of a store under one witness policy.\<close>

inductive record_reach :: "(pyerr + pyval) option \<Rightarrow> public_record \<Rightarrow> bool" for policy_file where
  start: "pr_records s = None \<Longrightarrow> pr_witnesses s = None \<Longrightarrow> record_reach policy_file s"
| appended: "record_reach policy_file s \<Longrightarrow> record_reach policy_file (sexec (append_record out ts uid type0 payload) s)"
| attested: "record_reach policy_file s \<Longrightarrow> record_reach policy_file (sexec (attest out policy_file a) s)"

definition ledger_ok :: "witness_policy \<Rightarrow> public_record \<Rightarrow> chain_state \<Rightarrow> witness_scan \<Rightarrow> bool" where
  "ledger_ok p s c x =
     (scan_records (pr_signer s) (pr_secret s) 1 (lines_of (pr_records s)) \<lparr>cs_previous = zero_hash, cs_hashes = []\<rparr> = Inr c \<and>
      last_hash (pr_records s) = cs_previous c \<and> length (filled (pr_records s)) = length (cs_hashes c) \<and>
      scan_witnesses p c 1 (lines_of (pr_witnesses s)) \<lparr>wn_previous = zero_hash, wn_accepted = []\<rparr> = Inr (Inr x) \<and>
      last_hash (pr_witnesses s) = wn_previous x \<and> known_hashes (lines_of (pr_records s)) = Inr (cs_hashes c))"

lemma lines_append: "out \<noteq> Lost \<Longrightarrow> lines_of (append_line out v file) = lines_of file @ [Document (json_sorted (PDict v))]"
  by (simp add: append_line_def lines_of_def)

lemma filled_lines: "filled file = filter (\<lambda>l. l \<noteq> Blank) (lines_of file)"
  by (simp add: filled_def lines_of_def)

lemma last_hash_append:
  assumes "out \<noteq> Lost" and "dgetn (dict_of (json_sorted (PDict v))) ''hash'' = PStr h"
  shows "last_hash (append_line out v file) = h"
proof -
  have "dget (sorted_dict v) ''hash'' = Some (PStr h)"
    using assms(2) by (auto simp: json_sorted_PDict dgetn_def dgetd_def split: option.splits)
  with assms(1) show ?thesis by (simp add: last_hash_def filled_lines lines_append json_sorted_PDict)
qed

lemma known_hashes_append:
  "known_hashes ls = Inr hs \<Longrightarrow> dgetd d ''hash'' (PStr []) = PStr h \<Longrightarrow> known_hashes (ls @ [Document (PDict d)]) = Inr (hs @ [h])"
  by (induction ls arbitrary: hs rule: known_hashes.induct) (auto simp: ebind_def split: ledger_line.splits sum.splits)

lemma append_ok:
  assumes ok: "ledger_ok p s c x"
  shows "\<exists>c x. ledger_ok p (sexec (append_record out ts uid type0 payload) s) c x"
proof (cases "out = Lost \<or> clean_str 96 type0 = [] \<or> \<not> is_dict payload \<or> last_hash (pr_records s) = ''INVALID'' \<or> \<not> list_all is_ascii (last_hash (pr_records s))")
  case True
  then have "sexec (append_record out ts uid type0 payload) s = s"
    by (auto simp: sexec_def append_record_def method_run Let_def encodable_def eguard_def append_line_def)
  with ok show ?thesis by auto
next
  case False
  then have lost: "out \<noteq> Lost" by simp
  let ?prev = "cs_previous c"
  let ?core = "record_core (cs_count c + 1) (''record-'' @ uid) (clean_str 96 type0) ts (dict_of payload) ?prev"
  let ?h = "chain_hash ?prev (PDict ?core)"
  let ?rec = "signed_record (pr_signer s) (pr_secret s) ?core ?h"
  let ?c = "\<lparr>cs_previous = ?h, cs_hashes = cs_hashes c @ [?h]\<rparr>"
  from ok have facts: "last_hash (pr_records s) = ?prev" "length (filled (pr_records s)) = length (cs_hashes c)" by (simp_all add: ledger_ok_def)
  have run: "sexec (append_record out ts uid type0 payload) s = s\<lparr>pr_records := append_line out ?rec (pr_records s)\<rparr>"
    using False facts by (simp add: sexec_def append_record_def method_run Let_def encodable_def eguard_def cs_count_def)
  have a: "appendable ?core" by (simp add: appendable_def record_core_def core_keys_def)
  note hash = written_fields(1) [OF a, of "pr_signer s" "pr_secret s" ?h]
  have "scan_records (pr_signer s) (pr_secret s) 1 (lines_of (append_line out ?rec (pr_records s))) \<lparr>cs_previous = zero_hash, cs_hashes = []\<rparr> = Inr ?c"
    using ok check_written [OF refl refl] unfolding lines_append [OF lost] scan_records_append by (simp add: ledger_ok_def)
  moreover have "scan_witnesses p ?c 1 (lines_of (pr_witnesses s)) \<lparr>wn_previous = zero_hash, wn_accepted = []\<rparr> = Inr (Inr x)"
    by (rule scan_witnesses_more [of p c]) (use ok in \<open>auto simp: ledger_ok_def\<close>)
  moreover have "known_hashes (lines_of (append_line out ?rec (pr_records s))) = Inr (cs_hashes ?c)"
    using ok hash unfolding lines_append [OF lost] json_sorted_PDict
    by (auto intro!: known_hashes_append simp: ledger_ok_def dgetn_def dgetd_def split: option.splits)
  moreover have "length (filled (append_line out ?rec (pr_records s))) = length (cs_hashes ?c)"
    using facts(2) by (simp add: filled_lines lines_append [OF lost])
  ultimately have "ledger_ok p (s\<lparr>pr_records := append_line out ?rec (pr_records s)\<rparr>) ?c x"
    using ok last_hash_append [OF lost hash] by (simp add: ledger_ok_def)
  then show ?thesis unfolding run by blast
qed

lemma row_written:
  assumes "dget (wp_witnesses p) w = Some secret" and "compare_digest (attestation_tag secret w h issued) supplied = Inr True"
    and "event = attestation_event w h issued supplied"
  shows "row_accepts p previous (json_sorted (PDict (attestation_row event previous))) h w"
    "dgetn (dict_of (json_sorted (PDict (attestation_row event previous)))) ''hash'' = PStr (chain_hash previous (PDict event))"
proof -
  have we: "dwf event" by (simp add: assms(3) attestation_event_def attestation_payload_def dwf_def dkeys_def)
  have wr: "dwf (attestation_row event previous)" by (simp add: attestation_row_def dwf_def dkeys_def)
  have r: "dget (sorted_dict (attestation_row event previous)) ''event'' = Some (json_sorted (PDict event))"
    "dget (sorted_dict (attestation_row event previous)) ''previousHash'' = Some (PStr previous)"
    "dget (sorted_dict (attestation_row event previous)) ''hash'' = Some (PStr (chain_hash previous (PDict event)))"
    by (simp_all add: dget_sorted_dict [OF wr]) (simp_all add: attestation_row_def)
  have e: "dget (sorted_dict event) ''witnessId'' = Some (PStr w)" "dget (sorted_dict event) ''recordHash'' = Some (PStr h)"
    "dget (sorted_dict event) ''issuedAtNs'' = Some (PInt issued)" "dget (sorted_dict event) ''hmacSha256'' = Some (PStr supplied)"
    by (simp_all add: dget_sorted_dict [OF we]) (simp_all add: assms(3) attestation_event_def attestation_payload_def)
  have c: "chain_hash previous (json_sorted (PDict event)) = chain_hash previous (PDict event)"
    by (simp add: chain_hash_def chain_input_def)
  show "dgetn (dict_of (json_sorted (PDict (attestation_row event previous)))) ''hash'' = PStr (chain_hash previous (PDict event))"
    by (simp add: json_sorted_PDict dgetn_def dgetd_def r)
  show "row_accepts p previous (json_sorted (PDict (attestation_row event previous))) h w"
    unfolding row_accepts_def
  proof (intro exI conjI)
    show "field_of (json_sorted (PDict (attestation_row event previous))) ''event'' = Inr (json_sorted (PDict event))"
      by (simp add: json_sorted_PDict [of "attestation_row event previous"] field_of_def dindex_def r)
    show "dget (wp_witnesses p) w = Some secret" by (rule assms(1))
    show "py_int (PInt issued) = Inr issued" by simp
  qed (use assms(2) in \<open>simp_all add: json_sorted_PDict dgetn_def dgetd_def r field_of_def dindex_def e c [unfolded json_sorted_PDict] ebind_def\<close>)
qed

lemma attest_ok:
  assumes ok: "ledger_ok p s c x" and p: "read_policy policy_file = Inr p"
  shows "\<exists>c x. ledger_ok p (sexec (attest out policy_file a) s) c x"
proof (cases "sexec (attest out policy_file a) s = s")
  case True
  with ok show ?thesis by auto
next
  case False
  let ?prev = "last_hash (pr_witnesses s)"
  from False obtain w h issued supplied where auth: "authentic_attestation policy_file a = Inr (w, h, issued, supplied)"
    by (cases "authentic_attestation policy_file a") (auto simp: sexec_def attest_def sbind_run)
  have known: "known_hashes (lines_of (pr_records s)) = Inr (cs_hashes c)" using ok by (simp add: ledger_ok_def)
  have h: "h \<in> set (cs_hashes c)"
    by (rule ccontr) (use False in \<open>simp add: sexec_def attest_def method_run auth known\<close>)
  have prior: "previous_attestation w h (lines_of (pr_witnesses s)) = Inr None"
    by (cases "previous_attestation w h (lines_of (pr_witnesses s))")
      (use False h in \<open>auto simp: sexec_def attest_def method_run auth known split: option.splits\<close>)
  have enc: "encodable ?prev = Inr ()"
    by (cases "encodable ?prev") (use False h in \<open>simp_all add: sexec_def attest_def method_run auth known prior Let_def\<close>)
  have run: "sexec (attest out policy_file a) s =
      s\<lparr>pr_witnesses := append_line out (attestation_row (attestation_event w h issued supplied) ?prev) (pr_witnesses s)\<rparr>"
    using h by (simp add: sexec_def attest_def method_run auth known prior enc Let_def)
  have lost: "out \<noteq> Lost" using False unfolding run by (auto simp: append_line_def)
  from auth p obtain secret where w: "dget (wp_witnesses p) w = Some secret" and tag: "compare_digest (attestation_tag secret w h issued) supplied = Inr True"
    by (auto simp: authentic_attestation_def ebind_eq_Inr split: option.splits if_splits)
  let ?event = "attestation_event w h issued supplied"
  let ?row = "attestation_row ?event ?prev"
  let ?h = "chain_hash ?prev (PDict ?event)"
  let ?x = "\<lparr>wn_previous = ?h, wn_accepted = wn_accepted x @ [(h, w)]\<rparr>"
  note row = row_written [OF w tag refl, of ?prev]
  have prev: "?prev = wn_previous x" using ok by (simp add: ledger_ok_def)
  have "check_witness p (cs_hashes c) (wn_previous x) (json_sorted (PDict ?row)) = Inr (Inr (?h, h, w))"
    using h row unfolding prev by (simp add: check_witness_accepts)
  then have "scan_witnesses p c 1 (lines_of (append_line out ?row (pr_witnesses s))) \<lparr>wn_previous = zero_hash, wn_accepted = []\<rparr> = Inr (Inr ?x)"
    using ok unfolding lines_append [OF lost] scan_witnesses_append by (simp add: ledger_ok_def)
  then have "ledger_ok p (s\<lparr>pr_witnesses := append_line out ?row (pr_witnesses s)\<rparr>) c ?x"
    using ok last_hash_append [OF lost row(2)] by (simp add: ledger_ok_def)
  then show ?thesis unfolding run by blast
qed

lemma reach_ok:
  assumes "record_reach policy_file s" and "read_policy policy_file = Inr p"
  shows "\<exists>c x. ledger_ok p s c x"
  using assms
proof (induction rule: record_reach.induct)
  case (start s)
  then show ?case
    by (intro exI [of _ "\<lparr>cs_previous = zero_hash, cs_hashes = []\<rparr>"] exI [of _ "\<lparr>wn_previous = zero_hash, wn_accepted = []\<rparr>"])
      (simp add: ledger_ok_def lines_of_def last_hash_def filled_def)
next
  case (appended s out ts uid type0 payload)
  then show ?case using append_ok by blast
next
  case (attested s out a)
  then show ?case using attest_ok by blast
qed


text \<open>A store with one record, and the same store with a blank line at its end.\<close>

definition first_core :: pydict where
  "first_core = record_core 1 ''record-a'' ''event'' 7 [] zero_hash"

definition first_hash :: string where
  "first_hash = chain_hash zero_hash (PDict first_core)"

definition bare_store :: public_record where
  "bare_store = \<lparr>pr_signer = ''node'', pr_secret = replicate 32 (CHR ''k''), pr_records = None, pr_witnesses = None\<rparr>"

definition first_store :: public_record where
  "first_store = bare_store\<lparr>pr_records := Some [Document (json_sorted (PDict (signed_record ''node'' (replicate 32 (CHR ''k'')) first_core first_hash)))]\<rparr>"

lemma first_store_run: "sexec (append_record Durable 7 ''a'' (PStr ''event'') (PDict [])) bare_store = first_store"
proof -
  have "strip ''event'' = ''event''" by code_simp
  then have "clean_str 96 (PStr ''event'') = ''event''" by (simp add: clean_str_def)
  moreover have "list_all is_ascii zero_hash" "zero_hash \<noteq> ''INVALID''" by code_simp+
  ultimately show ?thesis
    by (simp add: sexec_def append_record_def method_run Let_def encodable_def eguard_def last_hash_def filled_def bare_store_def
        first_store_def first_core_def first_hash_def append_line_def del: json_sorted.simps)
qed

lemma first_store_reach: "record_reach policy_file first_store"
  unfolding first_store_run [symmetric] by (intro record_reach.intros) (simp_all add: bare_store_def)


section \<open>Tampering is evident\<close>

text \<open>The octets whose hashes link the records of a ledger.\<close>

fun chain_inputs :: "string \<Rightarrow> ledger_line list \<Rightarrow> string list" where
  "chain_inputs previous [] = []"
| "chain_inputs previous (l # ls) =
     (case l of
        Document v \<Rightarrow>
          (case core_of v of
             Inr core \<Rightarrow> (let i = chain_input previous (PDict core) in i # chain_inputs (sha256_hex i) ls)
           | Inl _ \<Rightarrow> chain_inputs previous ls)
      | _ \<Rightarrow> chain_inputs previous ls)"

definition record_inputs :: "public_record \<Rightarrow> string list" where
  "record_inputs s = chain_inputs zero_hash (lines_of (pr_records s))"

text \<open>A list of hash inputs in which each begins with the hash of the one before.\<close>

fun linked :: "string \<Rightarrow> string list \<Rightarrow> bool" where
  "linked p [] = True"
| "linked p (x # xs) = (take 64 x = p \<and> linked (sha256_hex x) xs)"

definition link_head :: "string \<Rightarrow> string list \<Rightarrow> string" where
  "link_head p xs = (if xs = [] then p else sha256_hex (last xs))"

lemma length_sha256_hex [simp]: "length (sha256_hex m) = 64"
  by (simp add: sha256_hex_def)

lemma linked_snoc: "linked p (xs @ [x]) \<longleftrightarrow> linked p xs \<and> take 64 x = link_head p xs"
  by (induction p xs rule: linked.induct) (auto simp: link_head_def)

lemma linked_unique:
  assumes "linked p xs" and "linked p ys" and "link_head p xs = link_head p ys"
  shows "xs = ys \<or> (\<exists>x \<in> set xs. \<exists>y \<in> set ys. x \<noteq> y \<and> sha256_hex x = sha256_hex y) \<or> (\<exists>x \<in> set xs \<union> set ys. sha256_hex x = p)"
  using assms
proof (induction xs arbitrary: ys rule: rev_induct)
  case Nil
  then show ?case by (cases ys rule: rev_cases) (auto simp: link_head_def)
next
  case (snoc x xs)
  show ?case
  proof (cases ys rule: rev_cases)
    case Nil
    with snoc.prems show ?thesis by (auto simp: link_head_def)
  next
    case (snoc ys' y)
    show ?thesis
    proof (cases "x = y")
      case True
      with snoc.prems snoc have "link_head p xs = link_head p ys'" "linked p xs" "linked p ys'" by (auto simp: linked_snoc)
      with snoc.IH [of ys'] True snoc show ?thesis by auto
    next
      case False
      with snoc.prems snoc show ?thesis by (auto simp: link_head_def)
    qed
  qed
qed

lemma verify_recordE:
  assumes "verify_record policy_file s = Inr (Inr r)"
  obtains p c x where "read_policy policy_file = Inr p"
    "scan_records (pr_signer s) (pr_secret s) 1 (lines_of (pr_records s)) \<lparr>cs_previous = zero_hash, cs_hashes = []\<rparr> = Inr c"
    "scan_witnesses p c 1 (lines_of (pr_witnesses s)) \<lparr>wn_previous = zero_hash, wn_accepted = []\<rparr> = Inr (Inr x)"
    "vr_records r = cs_count c" "vr_head r = cs_previous c" "vr_witnessed r = int (length (witnessed_hashes p c x))"
  using assms by (auto simp: verify_record_def ebind_def split: sum.splits)

lemma check_record_digest:
  assumes "check_record signer secret previous count v = Inr (Inr digest)"
  shows "\<exists>core. core_of v = Inr core \<and> digest = chain_hash previous (PDict core) \<and>
    compare_digest (record_signature digest signer secret) (py_str (dgetd (dict_of v) ''signatureHmacSha256'' (PStr []))) = Inr True"
  using assms by (auto simp: check_record_def ebind_eq_Inr Let_def split: if_splits)

lemma scan_linked:
  assumes "scan_records signer secret n ls c = Inr c'" and "length (cs_previous c) = 64"
  shows "linked (cs_previous c) (chain_inputs (cs_previous c) ls) \<and> cs_previous c' = link_head (cs_previous c) (chain_inputs (cs_previous c) ls)"
  using assms
proof (induction signer secret n ls c rule: scan_records.induct)
  case (1 signer secret n c)
  then show ?case by (simp add: link_head_def)
next
  case (2 signer secret n l ls c)
  show ?case
  proof (cases l)
    case (Document v)
    with "2.prems"(1) obtain digest where ok: "check_record signer secret (cs_previous c) (cs_count c) v = Inr (Inr digest)"
      by (auto split: sum.splits)
    from check_record_digest [OF ok] obtain core where core: "core_of v = Inr core" "digest = chain_hash (cs_previous c) (PDict core)" by blast
    let ?i = "chain_input (cs_previous c) (PDict core)"
    have "take 64 ?i = cs_previous c" using "2.prems"(2) by (simp add: chain_input_def)
    moreover have "sha256_hex ?i = digest" by (simp add: core(2) chain_hash_def)
    moreover have "linked digest (chain_inputs digest ls) \<and> cs_previous c' = link_head digest (chain_inputs digest ls)"
      using "2.IH"(2) [OF Document ok refl] "2.prems"(1) Document ok by (simp add: core(2) chain_hash_def)
    ultimately show ?thesis using Document core(1) by (auto simp: Let_def link_head_def)
  qed (use 2 in simp_all)
qed

text \<open>
  C17. Tampering with the public record is evident from its head: two records that verify and report
  the same head hash were linked from the same octets, record by record, so that they have the same
  number of records with the same contents; otherwise the two ledgers themselves exhibit a collision of
  SHA-256 or an input that hashes to zero.
\<close>

theorem record_tamper_evident:
  assumes "verify_record policy_file s = Inr (Inr r)" and "verify_record policy_file' s' = Inr (Inr r')" and "vr_head r = vr_head r'"
  shows "record_inputs s = record_inputs s' \<or>
    (\<exists>x \<in> set (record_inputs s). \<exists>y \<in> set (record_inputs s'). x \<noteq> y \<and> sha256_hex x = sha256_hex y) \<or>
    (\<exists>x \<in> set (record_inputs s) \<union> set (record_inputs s'). sha256_hex x = zero_hash)"
proof -
  have link: "linked zero_hash (record_inputs t) \<and> vr_head q = link_head zero_hash (record_inputs t)"
    if "verify_record f t = Inr (Inr q)" for f t q
  proof -
    from that obtain c where c: "scan_records (pr_signer t) (pr_secret t) 1 (lines_of (pr_records t)) \<lparr>cs_previous = zero_hash, cs_hashes = []\<rparr> = Inr c"
      "vr_head q = cs_previous c"
      by (rule verify_recordE)
    with scan_linked [OF c(1)] show ?thesis by (simp add: record_inputs_def zero_hash_def)
  qed
  show ?thesis
    using link [OF assms(1)] link [OF assms(2)] assms(3) by (intro linked_unique) simp_all
qed

lemma verify_blank:
  "verify_record policy_file (s\<lparr>pr_records := Some (lines_of (pr_records s) @ [Blank])\<rparr>) = verify_record policy_file s"
  by (simp add: verify_record_def lines_of_def [of "Some _"] scan_records_append split: sum.split)

theorem record_tamper_evident_witness:
  "\<exists>r t. t = first_store\<lparr>pr_records := Some (lines_of (pr_records first_store) @ [Blank])\<rparr> \<and>
    verify_record None first_store = Inr (Inr r) \<and> verify_record None t = Inr (Inr r) \<and>
    (record_inputs first_store = record_inputs t \<or>
     (\<exists>x \<in> set (record_inputs first_store). \<exists>y \<in> set (record_inputs t). x \<noteq> y \<and> sha256_hex x = sha256_hex y) \<or>
     (\<exists>x \<in> set (record_inputs first_store) \<union> set (record_inputs t). sha256_hex x = zero_hash))"
proof -
  have "read_policy None = Inr \<lparr>wp_quorum = 0, wp_witnesses = []\<rparr>" by (simp add: read_policy_def)
  from reach_ok [OF first_store_reach this] obtain r where r: "verify_record None first_store = Inr (Inr r)"
    by (auto simp: verify_record_def ledger_ok_def ebind_def read_policy_def)
  let ?t = "first_store\<lparr>pr_records := Some (lines_of (pr_records first_store) @ [Blank])\<rparr>"
  have t: "verify_record None ?t = Inr (Inr r)" by (simp only: verify_blank r)
  show ?thesis using r t record_tamper_evident [OF r t refl] by blast
qed

section \<open>Witnessed records\<close>

lemma scan_accepted:
  assumes "scan_witnesses p c n ls x = Inr (Inr y)" and "(h, w) \<in> set (wn_accepted y)" and "(h, w) \<notin> set (wn_accepted x)"
  shows "\<exists>previous row. Document row \<in> set ls \<and> row_accepts p previous row h w"
  using assms
proof (induction p c n ls x rule: scan_witnesses.induct)
  case (2 p c n l ls x)
  show ?case
  proof (cases l)
    case (Document row)
    with "2.prems"(1) obtain r a where ok: "check_witness p (cs_hashes c) (wn_previous x) row = Inr (Inr (r, a))"
      by (auto split: sum.splits if_splits)
    show ?thesis
    proof (cases "a = (h, w)")
      case True
      with ok Document show ?thesis by (auto simp: check_witness_accepts)
    next
      case False
      have "\<exists>previous row. Document row \<in> set ls \<and> row_accepts p previous row h w"
        by (rule "2.IH"(2) [OF Document ok refl]) (use "2.prems" Document ok False in auto)
      then show ?thesis by auto
    qed
  qed (use 2 in auto)
qed simp

text \<open>
  C20. A public record that claims to be fully witnessed is: every record of it carries
  attestations of at least the quorum of distinct configured witnesses, each a row of the witness ledger
  whose tag verifies under the secret of that witness for that record.
\<close>

theorem witnessed_by_quorum:
  assumes "verify_record policy_file s = Inr (Inr r)" and "all_witnessed r"
  shows "\<exists>p c. read_policy policy_file = Inr p \<and>
    scan_records (pr_signer s) (pr_secret s) 1 (lines_of (pr_records s)) \<lparr>cs_previous = zero_hash, cs_hashes = []\<rparr> = Inr c \<and>
    distinct (cs_hashes c) \<and>
    (\<forall>h \<in> set (cs_hashes c). \<exists>ws. distinct ws \<and> wp_quorum p \<le> int (length ws) \<and>
      (\<forall>w \<in> set ws. \<exists>previous row. Document row \<in> set (lines_of (pr_witnesses s)) \<and> row_accepts p previous row h w))"
proof -
  from assms(1) obtain p c x where p: "read_policy policy_file = Inr p"
    and c: "scan_records (pr_signer s) (pr_secret s) 1 (lines_of (pr_records s)) \<lparr>cs_previous = zero_hash, cs_hashes = []\<rparr> = Inr c"
    and x: "scan_witnesses p c 1 (lines_of (pr_witnesses s)) \<lparr>wn_previous = zero_hash, wn_accepted = []\<rparr> = Inr (Inr x)"
    and r: "vr_records r = cs_count c" "vr_witnessed r = int (length (witnessed_hashes p c x))"
    by (rule verify_recordE)
  let ?f = "\<lambda>h. wp_quorum p \<le> int (length (witnesses_of (wn_accepted x) h))"
  have "length (witnessed_hashes p c x) = length (cs_hashes c)" using assms(2) r by (simp add: all_witnessed_def cs_count_def)
  moreover have "length (witnessed_hashes p c x) \<le> length (filter ?f (remdups (cs_hashes c)))" by (simp add: witnessed_hashes_def)
  ultimately have full: "length (cs_hashes c) \<le> length (filter ?f (remdups (cs_hashes c)))" by simp
  have d: "distinct (cs_hashes c)"
    using full length_filter_le [of ?f "remdups (cs_hashes c)"] length_remdups_leq [of "cs_hashes c"]
    by (metis le_antisym le_trans length_remdups_eq remdups_id_iff_distinct)
  then have all: "?f h" if "h \<in> set (cs_hashes c)" for h
    using full that length_filter_less [of h "cs_hashes c" ?f] by (fastforce simp: distinct_remdups_id)
  have "\<exists>ws. distinct ws \<and> wp_quorum p \<le> int (length ws) \<and>
      (\<forall>w \<in> set ws. \<exists>previous row. Document row \<in> set (lines_of (pr_witnesses s)) \<and> row_accepts p previous row h w)"
    if "h \<in> set (cs_hashes c)" for h
    by (rule exI [of _ "witnesses_of (wn_accepted x) h"])
      (use all [OF that] scan_accepted [OF x] in \<open>force simp: witnesses_of_def\<close>)
  with p c d show ?thesis by blast
qed

text \<open>The store with one record, attested by the only witness of a policy.\<close>

definition one_witness :: "(pyerr + pyval) option" where
  "one_witness = Some (Inr (PDict [(''version'', PInt 1), (''quorum'', PInt 1), (''witnesses'', PDict [(''w'', PStr (replicate 32 (CHR ''s'')))])]))"

definition first_event :: pydict where
  "first_event = attestation_event ''w'' first_hash 9 (attestation_tag (replicate 32 (CHR ''s'')) ''w'' first_hash 9)"

definition attested_store :: public_record where
  "attested_store = first_store\<lparr>pr_witnesses := Some [Document (json_sorted (PDict (attestation_row first_event zero_hash)))]\<rparr>"

lemma one_witness_policy: "read_policy one_witness = Inr \<lparr>wp_quorum = 1, wp_witnesses = [(''w'', replicate 32 (CHR ''s''))]\<rparr>"
proof -
  have "list_all is_ascii ''w''" "list_all is_alnum ''w''" "33 \<le> ord_of (CHR ''s'') \<and> ord_of (CHR ''s'') \<le> 126" by code_simp+
  then show ?thesis
    by (auto simp: read_policy_def one_witness_def policy_witness_def dgetn_def dgetd_def dkeys_def ebind_def list_all_iff)
qed

lemma attested_verifies:
  "verify_record one_witness attested_store = Inr (Inr \<lparr>vr_records = 1, vr_head = first_hash, vr_configured = True,
     vr_quorum = 1, vr_witness_records = 1, vr_witnessed = 1\<rparr>)"
proof -
  let ?s = "replicate 32 (CHR ''s'')" and ?k = "replicate 32 (CHR ''k'')"
  let ?p = "\<lparr>wp_quorum = 1, wp_witnesses = [(''w'', ?s)]\<rparr>"
  have r: "check_record ''node'' ?k zero_hash 0 (json_sorted (PDict (signed_record ''node'' ?k first_core first_hash))) = Inr (Inr first_hash)"
    by (rule check_written) (simp_all add: first_core_def first_hash_def)
  have tag: "compare_digest (attestation_tag ?s ''w'' first_hash 9) (attestation_tag ?s ''w'' first_hash 9) = Inr True"
    by (simp add: attestation_tag_def)
  have d: "dget (wp_witnesses ?p) ''w'' = Some ?s" by simp
  have w: "check_witness ?p [first_hash] zero_hash (json_sorted (PDict (attestation_row first_event zero_hash))) =
      Inr (Inr (chain_hash zero_hash (PDict first_event), first_hash, ''w''))"
    using row_written [OF d tag refl, of zero_hash] by (simp add: check_witness_accepts first_event_def del: json_sorted.simps)
  show ?thesis
    by (simp add: verify_record_def attested_store_def first_store_def bare_store_def lines_of_def r w one_witness_policy ebind_def cs_count_def
        witnessed_hashes_def witnesses_of_def del: json_sorted.simps)
qed

theorem witnessed_by_quorum_witness:
  "\<exists>p c. read_policy one_witness = Inr p \<and>
    scan_records (pr_signer attested_store) (pr_secret attested_store) 1 (lines_of (pr_records attested_store)) \<lparr>cs_previous = zero_hash, cs_hashes = []\<rparr> = Inr c \<and>
    distinct (cs_hashes c) \<and>
    (\<forall>h \<in> set (cs_hashes c). \<exists>ws. distinct ws \<and> wp_quorum p \<le> int (length ws) \<and>
      (\<forall>w \<in> set ws. \<exists>previous row. Document row \<in> set (lines_of (pr_witnesses attested_store)) \<and> row_accepts p previous row h w))"
  by (rule witnessed_by_quorum [OF attested_verifies]) (simp add: all_witnessed_def)

end
