(* ===== verification/Audit_Log.thy ===== *)
theory Audit_Log
  imports Public_Record "HOL-Library.Sublist"
begin

text \<open>
  \<^verbatim>\<open>src/backend/persistence.py\<close>: the checkpoint of the show state, the ledger of events, and the audit of
  authorisation decisions, a hash-linked file that is rotated into numbered segments.  Old segments are
  pruned after an anchor has committed their head and count.  The files are part of the state, and the
  outcome of every file operation is an argument, so that a failure may strike between any two of them.
\<close>

section \<open>Files\<close>

text \<open>The lines of a file, whether the last of them ends with a newline, and what \<open>stat\<close> gives: its size, and
  a number for device, inode and modification time.\<close>

record audit_file =
  af_lines :: "ledger_line list"
  af_closed :: bool
  af_size :: int
  af_stamp :: int

text \<open>An entry of the segment directory: a file named by its sequence number (of at most twenty digits), or
  anything else.\<close>

datatype dir_entry = Foreign | Segment int audit_file

text \<open>The outcome of appending a line: durable; in the file while the call failed; in the file but for its
  newline; a proper part of it in the file; nothing in the file; the file could not be opened.\<close>

datatype line_write = Written | Written_unsynced | Unterminated | Torn | Unwritten | Unopened

text \<open>What a successful scan leaves for the following appends.\<close>

record audit_cache =
  ac_head :: string
  ac_initial :: string
  ac_records :: int
  ac_bytes :: int
  ac_next :: int
  ac_active_sig :: "(int \<times> int) option"
  ac_retention_sig :: "int option"
  ac_segment_sigs :: "(int \<times> int \<times> int) list"

record repository =
  rp_snapshot :: "ledger_line option"
  rp_ledger :: "audit_file option"
  rp_active :: "audit_file option"
  rp_segments :: "dir_entry list"
  rp_anchor :: "(ledger_line \<times> int) option"
  rp_rotate_bytes :: int
  rp_retain :: int
  rp_cache :: "audit_cache option"

definition bounded_env_int :: "string \<Rightarrow> int \<Rightarrow> int \<Rightarrow> int \<Rightarrow> pyerr + int" where
  "bounded_env_int raw0 fallback minimum maximum =
     (let raw = strip raw0 in
      if raw = [] then Inr fallback
      else if \<not> (list_all is_ascii raw \<and> list_all is_digit_char raw) then Inl (ValueError ''invalid'')
      else ebind (parse_int raw) (\<lambda>v. if minimum \<le> v \<and> v \<le> maximum then Inr v else Inl (ValueError ''invalid'')))"

definition open_repository :: "string \<Rightarrow> string \<Rightarrow> repository \<Rightarrow> pyerr + repository" where
  \<comment> \<open>on the files of a directory, with the two settings of the environment\<close>
  "open_repository rotate0 retain0 files =
     ebind (bounded_env_int rotate0 (4 * 1024 * 1024) (64 * 1024) (256 * 1024 * 1024)) (\<lambda>r.
     ebind (bounded_env_int retain0 8 1 256) (\<lambda>n.
     Inr (files\<lparr>rp_rotate_bytes := r, rp_retain := n, rp_cache := None\<rparr>)))"

definition load_snapshot :: "repository \<Rightarrow> pydict option" where
  "load_snapshot s = (case rp_snapshot s of Some (Document (PDict d)) \<Rightarrow> Some d | _ \<Rightarrow> None)"

definition save_snapshot :: "append_outcome \<Rightarrow> pydict \<Rightarrow> (repository, unit) pymethod" where
  "save_snapshot out snapshot =
     sthen (swhen (out \<noteq> Lost) (smodify (\<lambda>s. s\<lparr>rp_snapshot := Some (Document (json_sorted (PDict snapshot)))\<rparr>)))
           (sguard (out = Durable) OSError)"

section \<open>Linked files\<close>

definition ascii_replace :: "string \<Rightarrow> string" where
  "ascii_replace s = map (\<lambda>c. if is_ascii c then c else CHR ''?'') s"

definition linked_record :: "string \<Rightarrow> pydict \<Rightarrow> pydict" where
  "linked_record previous event =
     [(''event'', PDict event), (''previousHash'', PStr previous),
      (''hash'', PStr (chain_hash (ascii_replace previous) (PDict event)))]"

definition encoded_size :: "pydict \<Rightarrow> int" where
  "encoded_size r = int (length (canonical (PDict r))) + 1"

text \<open>A text of one record behind a line without newline: only behind blanks is it still a JSON value.\<close>

fun merge_line :: "ledger_line \<Rightarrow> ledger_line \<Rightarrow> ledger_line" where
  "merge_line Blank l = l"
| "merge_line _ l = Garbled"

definition add_line :: "ledger_line \<Rightarrow> audit_file \<Rightarrow> ledger_line list" where
  "add_line l f = (if af_closed f \<or> af_lines f = [] then af_lines f @ [l]
                   else butlast (af_lines f) @ [merge_line (last (af_lines f)) l])"

definition empty_file :: "int \<Rightarrow> audit_file" where
  "empty_file stamp = \<lparr>af_lines = [], af_closed = True, af_size = 0, af_stamp = stamp\<rparr>"

text \<open>The file after an append; \<open>part\<close> octets of a torn line are written.\<close>

definition write_line :: "line_write \<Rightarrow> int \<Rightarrow> int \<Rightarrow> pydict \<Rightarrow> audit_file option \<Rightarrow> audit_file option" where
  "write_line w part stamp r file =
     (let f = (case file of Some f \<Rightarrow> f | None \<Rightarrow> empty_file stamp); l = Document (json_sorted (PDict r)) in
      case w of
        Unopened \<Rightarrow> file
      | Unwritten \<Rightarrow> Some f
      | Torn \<Rightarrow> Some (f\<lparr>af_lines := add_line Garbled f, af_closed := False, af_size := af_size f + part, af_stamp := stamp\<rparr>)
      | Unterminated \<Rightarrow> Some (f\<lparr>af_lines := add_line l f, af_closed := False, af_size := af_size f + encoded_size r - 1, af_stamp := stamp\<rparr>)
      | _ \<Rightarrow> Some (f\<lparr>af_lines := add_line l f, af_closed := True, af_size := af_size f + encoded_size r, af_stamp := stamp\<rparr>))"

definition last_hash_from :: "string \<Rightarrow> audit_file option \<Rightarrow> string" where
  "last_hash_from initial file =
     (if filled (map_option af_lines file) = [] then initial else last_hash (map_option af_lines file))"

definition append_event :: "line_write \<Rightarrow> int \<Rightarrow> int \<Rightarrow> pydict \<Rightarrow> (repository, pydict) pymethod" where
  "append_event w part stamp event =
     sbind (sgets (\<lambda>s. linked_record (last_hash_from zero_hash (rp_ledger s)) event)) (\<lambda>r.
     sthen (smodify (\<lambda>s. s\<lparr>rp_ledger := write_line w part stamp r (rp_ledger s)\<rparr>))
    (sthen (sguard (w = Written) OSError) (sreturn r)))"

record linked_report =
  lr_records :: int
  lr_head :: string

definition check_linked :: "string \<Rightarrow> pyval \<Rightarrow> pyerr + (string + string)" where
  "check_linked previous v =
     ebind (field_of v ''event'') (\<lambda>event.
     let expected = chain_hash previous event; d = dict_of v in
     Inr (if dgetn d ''previousHash'' \<noteq> PStr previous then Inl ''previous hash mismatch''
          else if dgetn d ''hash'' \<noteq> PStr expected then Inl ''record hash mismatch'' else Inr expected))"

fun verify_lines :: "nat \<Rightarrow> ledger_line list \<Rightarrow> linked_report \<Rightarrow> ledger_failure + linked_report" where
  "verify_lines n [] r = Inr r"
| "verify_lines n (l # ls) r =
     (case l of
        Blank \<Rightarrow> verify_lines (n + 1) ls r
      | Garbled \<Rightarrow> Inl \<lparr>lf_records = lr_records r, lf_line = None, lf_witness_records = None, lf_reason = Unreadable (ValueError ''JSONDecodeError'')\<rparr>
      | Document v \<Rightarrow>
          (case check_linked (lr_head r) v of
             Inl e \<Rightarrow> Inl \<lparr>lf_records = lr_records r, lf_line = None, lf_witness_records = None, lf_reason = Unreadable e\<rparr>
           | Inr (Inl message) \<Rightarrow> Inl \<lparr>lf_records = lr_records r, lf_line = Some n, lf_witness_records = None, lf_reason = Mismatch message\<rparr>
           | Inr (Inr h) \<Rightarrow> verify_lines (n + 1) ls \<lparr>lr_records = lr_records r + 1, lr_head = h\<rparr>))"

definition verify_hash_linked :: "string \<Rightarrow> audit_file option \<Rightarrow> ledger_failure + linked_report" where
  "verify_hash_linked initial file = verify_lines 1 (lines_of (map_option af_lines file)) \<lparr>lr_records = 0, lr_head = initial\<rparr>"

definition verify_ledger :: "repository \<Rightarrow> ledger_failure + linked_report" where
  "verify_ledger s = verify_hash_linked zero_hash (rp_ledger s)"

section \<open>The retention anchor and the segments\<close>

record retention_anchor =
  ra_head :: string
  ra_next :: int
  ra_segments :: int
  ra_records :: int

definition first_anchor :: retention_anchor where
  "first_anchor = \<lparr>ra_head = zero_hash, ra_next = 1, ra_segments = 0, ra_records = 0\<rparr>"

definition anchor_dict :: "retention_anchor \<Rightarrow> pydict" where
  "anchor_dict a = [(''version'', PInt 1), (''previousHead'', PStr (ra_head a)), (''nextSequence'', PInt (ra_next a)),
     (''prunedSegments'', PInt (ra_segments a)), (''prunedRecords'', PInt (ra_records a))]"

definition int_instance :: "pyval \<Rightarrow> int option" where
  \<comment> \<open>\<open>isinstance(v, int)\<close>, with the value; a \<open>bool\<close> is an \<open>int\<close>\<close>
  "int_instance v = (case v of PInt i \<Rightarrow> Some i | PBool b \<Rightarrow> Some (of_bool b) | _ \<Rightarrow> None)"

definition read_anchor :: "(ledger_line \<times> int) option \<Rightarrow> pyerr + retention_anchor" where
  "read_anchor file =
     (case file of
        None \<Rightarrow> Inr first_anchor
      | Some (Document (PDict d), _) \<Rightarrow>
          (case (dgetn d ''previousHead'', int_instance (dgetn d ''nextSequence''), int_instance (dgetn d ''prunedSegments''), int_instance (dgetn d ''prunedRecords'')) of
             (PStr h, Some n, Some p, Some q) \<Rightarrow>
               if set (dkeys d) = {''version'', ''previousHead'', ''nextSequence'', ''prunedSegments'', ''prunedRecords''} \<and>
                  veq (dgetn d ''version'') (PInt 1) \<and> length h = 64 \<and> is_hex h \<and> 1 \<le> n \<and> 0 \<le> p \<and> 0 \<le> q
               then Inr \<lparr>ra_head = h, ra_next = n, ra_segments = p, ra_records = q\<rparr> else Inl OSError
           | _ \<Rightarrow> Inl OSError)
      | _ \<Rightarrow> Inl OSError)"

definition segment_files :: "dir_entry list \<Rightarrow> (int \<times> audit_file) list" where
  "segment_files es = List.map_filter (\<lambda>e. case e of Segment n f \<Rightarrow> Some (n, f) | Foreign \<Rightarrow> None) es"

definition segment_paths :: "dir_entry list \<Rightarrow> pyerr + (int \<times> audit_file) list" where
  "segment_paths es = (if Foreign \<in> set es then Inl OSError else Inr (sort_key fst (segment_files es)))"

record segment_scan =
  sg_head :: string
  sg_next :: int
  sg_records :: int
  sg_retained :: int
  sg_stale :: int

datatype audit_failure = AuditUnavailable | SegmentGap int string int int | LinkBroken "int option" ledger_failure

fun scan_segments :: "(int \<times> audit_file) list \<Rightarrow> segment_scan \<Rightarrow> audit_failure + segment_scan" where
  "scan_segments [] g = Inr g"
| "scan_segments ((n, f) # fs) g =
     (if n < sg_next g then scan_segments fs (g\<lparr>sg_stale := sg_stale g + 1\<rparr>)
      else if n \<noteq> sg_next g then Inl (SegmentGap (sg_records g) (sg_head g) (sg_next g) n)
      else (case verify_hash_linked (sg_head g) (Some f) of
              Inl e \<Rightarrow> Inl (LinkBroken (Some n) (e\<lparr>lf_records := sg_records g + lf_records e\<rparr>))
            | Inr r \<Rightarrow> scan_segments fs (g\<lparr>sg_head := lr_head r, sg_next := n + 1, sg_records := sg_records g + lr_records r, sg_retained := sg_retained g + 1\<rparr>)))"

definition file_sig :: "audit_file \<Rightarrow> int \<times> int" where
  "file_sig f = (af_size f, af_stamp f)"

definition segment_sigs :: "(int \<times> audit_file) list \<Rightarrow> (int \<times> int \<times> int) list" where
  "segment_sigs fs = map (\<lambda>(n, f). (n, file_sig f)) fs"

record audit_report =
  ar_records :: int
  ar_total :: int
  ar_head :: string
  ar_retained :: int
  ar_active :: int
  ar_active_bytes :: int
  ar_retained_bytes :: int
  ar_rotate_bytes :: int
  ar_retain :: int
  ar_anchor :: retention_anchor
  ar_stale :: int

definition active_size :: "repository \<Rightarrow> int" where
  "active_size s = (case rp_active s of Some f \<Rightarrow> af_size f | None \<Rightarrow> 0)"

definition scan_audit :: "repository \<Rightarrow> audit_failure + audit_report \<times> audit_cache" where
  "scan_audit s =
     (case (read_anchor (rp_anchor s), segment_paths (rp_segments s)) of
        (Inr a, Inr fs) \<Rightarrow>
          (case scan_segments fs \<lparr>sg_head = ra_head a, sg_next = ra_next a, sg_records = 0, sg_retained = 0, sg_stale = 0\<rparr> of
             Inl e \<Rightarrow> Inl e
           | Inr g \<Rightarrow>
               (case verify_hash_linked (sg_head g) (rp_active s) of
                  Inl e \<Rightarrow> Inl (LinkBroken None (e\<lparr>lf_records := sg_records g + lf_records e\<rparr>))
                | Inr r \<Rightarrow> Inr
                    (\<lparr>ar_records = sg_records g + lr_records r, ar_total = sg_records g + lr_records r + ra_records a, ar_head = lr_head r,
                      ar_retained = sg_retained g, ar_active = lr_records r, ar_active_bytes = active_size s,
                      ar_retained_bytes = active_size s + sum_list (map (af_size \<circ> snd) (filter (\<lambda>x. ra_next a \<le> fst x) fs)),
                      ar_rotate_bytes = rp_rotate_bytes s, ar_retain = rp_retain s, ar_anchor = a, ar_stale = sg_stale g\<rparr>,
                     \<lparr>ac_head = lr_head r, ac_initial = sg_head g, ac_records = lr_records r, ac_bytes = active_size s, ac_next = sg_next g,
                      ac_active_sig = map_option file_sig (rp_active s), ac_retention_sig = map_option snd (rp_anchor s),
                      ac_segment_sigs = segment_sigs fs\<rparr>)))
      | _ \<Rightarrow> Inl AuditUnavailable)"

definition matches_disk :: "audit_cache \<Rightarrow> repository \<Rightarrow> bool" where
  "matches_disk c s =
     (case segment_paths (rp_segments s) of
        Inl _ \<Rightarrow> False
      | Inr fs \<Rightarrow> ac_active_sig c = map_option file_sig (rp_active s) \<and> ac_retention_sig c = map_option snd (rp_anchor s) \<and>
          ac_segment_sigs c = segment_sigs fs)"

definition ensure_audit_state :: "(repository, audit_cache) pymethod" where
  "ensure_audit_state =
     sbind (sgets id) (\<lambda>s.
     case rp_cache s of
       None \<Rightarrow> (case scan_audit s of
          Inl _ \<Rightarrow> sraise OSError
        | Inr (_, c) \<Rightarrow> sthen (smodify (\<lambda>s. s\<lparr>rp_cache := Some c\<rparr>)) (sreturn c))
     | Some c \<Rightarrow> if matches_disk c s then sreturn c else sraise OSError)"

section \<open>Retention and rotation\<close>

text \<open>The outcomes of the file operations of one call: moving the active file, writing the anchor, how many
  files are removed before a removal fails, whether the directory is synced, the append itself, and the
  stamps of new files.\<close>

record audit_io =
  io_replace :: append_outcome
  io_anchor :: append_outcome
  io_unlink :: "nat option"
  io_sync :: bool
  io_write :: line_write
  io_part :: int
  io_stamp :: int
  io_anchor_stamp :: int

definition remove_segments :: "audit_io \<Rightarrow> int list \<Rightarrow> (repository, unit) pymethod" where
  \<comment> \<open>the loop of \<open>path.unlink()\<close> over the given sequence numbers\<close>
  "remove_segments io ns =
     (let gone = (case io_unlink io of None \<Rightarrow> ns | Some k \<Rightarrow> take k ns) in
      sthen (smodify (\<lambda>s. s\<lparr>rp_segments := filter (\<lambda>e. case e of Segment n _ \<Rightarrow> n \<notin> set gone | Foreign \<Rightarrow> True) (rp_segments s)\<rparr>))
            (sguard (length gone = length ns) OSError))"

record prune_scan =
  ps_head :: string
  ps_records :: int
  ps_last :: int

definition prune_step :: "int \<times> audit_file \<Rightarrow> prune_scan \<Rightarrow> pyerr + prune_scan" where
  "prune_step x p =
     (if fst x \<noteq> ps_last p + 1 then Inl OSError
      else (case verify_hash_linked (ps_head p) (Some (snd x)) of
              Inl _ \<Rightarrow> Inl OSError
            | Inr r \<Rightarrow> Inr \<lparr>ps_head = lr_head r, ps_records = ps_records p + lr_records r, ps_last = fst x\<rparr>))"

definition pruned_anchor :: "retention_anchor \<Rightarrow> nat \<Rightarrow> prune_scan \<Rightarrow> retention_anchor" where
  "pruned_anchor a k p = \<lparr>ra_head = ps_head p, ra_next = ps_last p + 1, ra_segments = ra_segments a + int k, ra_records = ra_records a + ps_records p\<rparr>"

definition write_anchor :: "audit_io \<Rightarrow> retention_anchor \<Rightarrow> (repository, unit) pymethod" where
  "write_anchor io a =
     sthen (swhen (io_anchor io \<noteq> Lost) (smodify (\<lambda>s. s\<lparr>rp_anchor := Some (Document (json_sorted (PDict (anchor_dict a))), io_anchor_stamp io)\<rparr>)))
           (sguard (io_anchor io = Durable) OSError)"

definition prune_segments :: "audit_io \<Rightarrow> (repository, unit) pymethod" where
  "prune_segments io =
     sbind (sgete (\<lambda>s. read_anchor (rp_anchor s))) (\<lambda>a.
     sbind (sgete (\<lambda>s. segment_paths (rp_segments s))) (\<lambda>fs.
     sbind (sgets rp_retain) (\<lambda>retain.
     let live = filter (\<lambda>x. ra_next a \<le> fst x) fs; stale = map fst (filter (\<lambda>x. fst x < ra_next a) fs) in
     if int (length live) \<le> retain
     then sthen (remove_segments io stale) (sguard (stale = [] \<or> io_sync io) OSError)
     else
       (let k = nat (int (length live) - retain) in
        sbind (slift (efold prune_step (take k live) \<lparr>ps_head = ra_head a, ps_records = 0, ps_last = ra_next a - 1\<rparr>)) (\<lambda>p.
        sthen (write_anchor io (pruned_anchor a k p))
       (sthen (remove_segments io (stale @ map fst (take k live)))
              (sguard (io_sync io) OSError)))))))"

definition move_active :: "audit_io \<Rightarrow> int \<Rightarrow> (repository, unit) pymethod" where
  "move_active io n =
     sthen (swhen (io_replace io \<noteq> Lost) (smodify (\<lambda>s. case rp_active s of
              Some f \<Rightarrow> s\<lparr>rp_active := None, rp_segments := rp_segments s @ [Segment n f]\<rparr> | None \<Rightarrow> s)))
           (sguard (io_replace io = Durable) OSError)"

definition rotate_audit :: "audit_io \<Rightarrow> (repository, unit) pymethod" where
  "rotate_audit io =
     sbind ensure_audit_state (\<lambda>c.
     sbind (sgets id) (\<lambda>s.
     if rp_active s = None \<or> ac_bytes c = 0 then sreturn ()
     else
       sthen (sguard (ac_next c \<notin> fst ` set (segment_files (rp_segments s))) OSError)
      (sthen (move_active io (ac_next c))
      (sthen (smodify (\<lambda>s. s\<lparr>rp_cache := None\<rparr>))
      (sthen (prune_segments io)
      (sbind (sgets scan_audit) (\<lambda>r.
       case r of
         Inl _ \<Rightarrow> sraise OSError
       | Inr (_, c') \<Rightarrow> smodify (\<lambda>s. s\<lparr>rp_cache := Some c'\<rparr>))))))))"

section \<open>Appending\<close>

definition cached_append :: "int \<Rightarrow> pydict \<Rightarrow> repository \<Rightarrow> repository" where
  "cached_append octets r s =
     s\<lparr>rp_cache := map_option (\<lambda>c. c\<lparr>ac_head := py_str (dgetn r ''hash''), ac_records := ac_records c + 1, ac_bytes := ac_bytes c + octets,
         ac_active_sig := map_option file_sig (rp_active s)\<rparr>) (rp_cache s)\<rparr>"

definition write_audit :: "audit_io \<Rightarrow> pydict \<Rightarrow> (repository, pydict) pymethod" where
  "write_audit io r =
     sthen (smodify (\<lambda>s. s\<lparr>rp_active := write_line (io_write io) (io_part io) (io_stamp io) r (rp_active s)\<rparr>))
    (if io_write io = Written
     then sthen (smodify (cached_append (encoded_size r) r)) (sreturn r)
     else sthen (smodify (\<lambda>s. s\<lparr>rp_cache := None\<rparr>)) (sraise OSError))"

definition append_authorization_audit :: "audit_io \<Rightarrow> pydict \<Rightarrow> (repository, pydict) pymethod" where
  "append_authorization_audit io event =
     sthen (sguard (length (canonical (PDict event)) \<le> 8192) OSError)
    (sbind ensure_audit_state (\<lambda>c.
     sbind (sgets rp_rotate_bytes) (\<lambda>limit.
     let r = linked_record (ac_head c) event in
     if ac_bytes c \<noteq> 0 \<and> limit < ac_bytes c + encoded_size r
     then sthen (rotate_audit io) (sbind ensure_audit_state (\<lambda>c'. write_audit io (linked_record (ac_head c') event)))
     else write_audit io r)))"

definition verify_authorization_audit :: "(repository, audit_failure + audit_report) pymethod" where
  "verify_authorization_audit =
     sbind (sgets scan_audit) (\<lambda>r.
     case r of
       Inl e \<Rightarrow> sreturn (Inl e)
     | Inr (report, c) \<Rightarrow> sthen (smodify (\<lambda>s. s\<lparr>rp_cache := Some c\<rparr>)) (sreturn (Inr report)))"

section \<open>Linked files: what is appended verifies\<close>

definition hex64 :: "string \<Rightarrow> bool" where
  "hex64 h = (length h = 64 \<and> is_hex h)"

lemma hex_digit_in: "n < 16 \<Longrightarrow> hex_digit n \<in> set ''0123456789abcdef''"
proof -
  have "\<forall>m \<in> set [0..<16]. hex_digit m \<in> set ''0123456789abcdef''" by code_simp
  then show "n < 16 \<Longrightarrow> hex_digit n \<in> set ''0123456789abcdef''" by (simp only: set_upt) simp
qed

lemma hex64_sha256 [simp]: "hex64 (sha256_hex m)"
proof -
  have "is_hex (hex_of s)" for s
    by (induction s) (simp_all add: is_hex_def hex_of_def hex2_def hex_digit_in del: list.set)
  then show ?thesis by (simp add: hex64_def sha256_hex_def)
qed

lemma hex64_zero [simp]: "hex64 zero_hash"
  by (simp add: hex64_def zero_hash_def is_hex_def list_all_iff)

lemma hex64_chain [simp]: "hex64 (chain_hash p v)"
  by (simp add: chain_hash_def)

lemma hex64_ascii: "hex64 h \<Longrightarrow> ascii_replace h = h"
proof -
  assume "hex64 h"
  moreover have "is_ascii c" if "c \<in> set ''0123456789abcdef''" for c
    using that by (auto simp: is_ascii_def ord_of_def)
  ultimately have "\<forall>c \<in> set h. is_ascii c" by (simp add: hex64_def is_hex_def list_all_iff)
  then show "ascii_replace h = h" unfolding ascii_replace_def by (intro map_idI) simp
qed

lemma verify_lines_append:
  "verify_lines n (ls @ ms) r = (case verify_lines n ls r of Inl f \<Rightarrow> Inl f | Inr r' \<Rightarrow> verify_lines (n + length ls) ms r')"
  by (induction n ls r rule: verify_lines.induct) (auto split: ledger_line.split sum.split)

lemma verify_lines_hex:
  "verify_lines n ls r = Inr r' \<Longrightarrow> hex64 (lr_head r) \<Longrightarrow> hex64 (lr_head r') \<and> lr_records r \<le> lr_records r'"
proof (induction n ls r rule: verify_lines.induct)
  case (2 n l ls r)
  show ?case
  proof (cases l)
    case (Document v)
    with "2.prems"(1) obtain h where ok: "check_linked (lr_head r) v = Inr (Inr h)"
      by (auto split: sum.splits)
    then have "hex64 h" by (auto simp: check_linked_def ebind_eq_Inr Let_def split: if_splits)
    with "2.IH"(2) [OF Document ok refl] "2.prems" Document ok show ?thesis by simp
  qed (use 2 in simp_all)
qed simp

lemma check_linked_record:
  assumes "hex64 h"
  shows "check_linked h (json_sorted (PDict (linked_record h event))) = Inr (Inr (chain_hash h (PDict event)))"
proof -
  have w: "dwf (linked_record h event)" by (simp add: linked_record_def dwf_def dkeys_def)
  have c: "chain_hash h (json_sorted (PDict event)) = chain_hash h (PDict event)"
    by (simp add: chain_hash_def chain_input_def)
  have d: "dget (linked_record h event) ''event'' = Some (PDict event)" "dget (linked_record h event) ''previousHash'' = Some (PStr h)"
    "dget (linked_record h event) ''hash'' = Some (PStr (chain_hash h (PDict event)))"
    by (simp_all add: linked_record_def hex64_ascii [OF assms])
  show ?thesis
    unfolding json_sorted_PDict [of "linked_record h event"] check_linked_def field_of_def dindex_def
    by (simp add: dget_sorted_dict [OF w] d c Let_def dgetn_def dgetd_def)
qed

lemma verify_linked_extend:
  assumes "verify_hash_linked i file = Inr r" and "hex64 (lr_head r)"
    and "lines_of (map_option af_lines file') = lines_of (map_option af_lines file) @ [Document (json_sorted (PDict (linked_record (lr_head r) event)))]"
  shows "verify_hash_linked i file' = Inr \<lparr>lr_records = lr_records r + 1, lr_head = chain_hash (lr_head r) (PDict event)\<rparr>"
  using assms(1) check_linked_record [OF assms(2)]
  unfolding verify_hash_linked_def assms(3) verify_lines_append by (simp del: json_sorted.simps)

section \<open>The chain of the live segments\<close>

fun live_chain :: "(int \<times> audit_file) list \<Rightarrow> string \<times> int \<times> int \<Rightarrow> (string \<times> int \<times> int) option" where
  "live_chain [] c = Some c"
| "live_chain ((n, f) # fs) (h, m, k) =
     (if n \<noteq> m then None
      else case verify_hash_linked h (Some f) of Inl _ \<Rightarrow> None | Inr r \<Rightarrow> live_chain fs (lr_head r, n + 1, k + lr_records r))"

lemma live_chain_append: "live_chain (xs @ ys) c = Option.bind (live_chain xs c) (live_chain ys)"
  by (induction xs c rule: live_chain.induct) (auto split: sum.split)

lemma live_chain_shift: "live_chain fs (h, m, k + j) = map_option (\<lambda>(h, m, k). (h, m, k + j)) (live_chain fs (h, m, k))"
proof (induction fs arbitrary: h m k)
  case (Cons x fs)
  obtain n f where x: "x = (n, f)" by (cases x)
  have "live_chain fs (lr_head r, n + 1, k + j + lr_records r) =
      map_option (\<lambda>(h, m, k). (h, m, k + j)) (live_chain fs (lr_head r, n + 1, k + lr_records r))" for r
    using Cons.IH [of "lr_head r" "n + 1" "k + lr_records r"] by (simp add: ac_simps)
  then show ?case by (auto simp: x split: sum.split)
qed simp

lemma live_chain_next:
  "live_chain fs (h, m, k) = Some (h', m', k') \<Longrightarrow> hex64 h \<Longrightarrow>
   m' = m + int (length fs) \<and> k \<le> k' \<and> hex64 h' \<and> (\<forall>x \<in> set fs. m \<le> fst x \<and> fst x < m')"
proof (induction fs arbitrary: h m k)
  case (Cons x fs)
  obtain n f where x: "x = (n, f)" by (cases x)
  with Cons.prems obtain r where r: "n = m" "verify_hash_linked h (Some f) = Inr r"
    "live_chain fs (lr_head r, m + 1, k + lr_records r) = Some (h', m', k')"
    by (auto split: if_splits sum.splits)
  from r(2) Cons.prems(2) have "hex64 (lr_head r)" "0 \<le> lr_records r"
    using verify_lines_hex unfolding verify_hash_linked_def by fastforce+
  with Cons.IH [OF r(3)] show ?case by (auto simp: x r(1))
qed simp

lemma scan_chain:
  assumes "sorted_wrt (<) (map fst fs)"
  shows "(\<exists>g'. scan_segments fs g = Inr g' \<and> (sg_head g', sg_next g', sg_records g') = c) \<longleftrightarrow>
    live_chain (filter (\<lambda>x. sg_next g \<le> fst x) fs) (sg_head g, sg_next g, sg_records g) = Some c"
  using assms
proof (induction fs arbitrary: g)
  case (Cons x fs)
  obtain n f where x: "x = (n, f)" by (cases x)
  show ?case
  proof (cases "n < sg_next g")
    case True
    with Cons.IH [of "g\<lparr>sg_stale := sg_stale g + 1\<rparr>"] Cons.prems show ?thesis by (simp add: x)
  next
    case False
    show ?thesis
    proof (cases "n = sg_next g")
      case eq: True
      have all: "\<forall>y \<in> set fs. n < fst y" using Cons.prems by (auto simp: x)
      have "filter (\<lambda>y. n + 1 \<le> fst y) fs = fs" "filter (\<lambda>y. n \<le> fst y) fs = fs" using all by (fastforce intro!: filter_True)+
      with Cons.IH Cons.prems eq show ?thesis by (auto simp: x split: sum.split)
    qed (use False in \<open>simp add: x\<close>)
  qed
qed simp

section \<open>The view of a scan\<close>

definition live :: "retention_anchor \<Rightarrow> dir_entry list \<Rightarrow> (int \<times> audit_file) list" where
  "live a es = filter (\<lambda>x. ra_next a \<le> fst x) (sort_key fst (segment_files es))"

text \<open>What a scan finds: the anchor, head, next number and records of the live segments, records of the active
  file, and the head.\<close>

definition audit_view :: "repository \<Rightarrow> retention_anchor \<Rightarrow> string \<Rightarrow> int \<Rightarrow> int \<Rightarrow> int \<Rightarrow> string \<Rightarrow> bool" where
  "audit_view s a h1 n1 k1 k2 h =
     (read_anchor (rp_anchor s) = Inr a \<and> Foreign \<notin> set (rp_segments s) \<and> distinct (map fst (segment_files (rp_segments s))) \<and>
      live_chain (live a (rp_segments s)) (ra_head a, ra_next a, 0) = Some (h1, n1, k1) \<and>
      verify_hash_linked h1 (rp_active s) = Inr \<lparr>lr_records = k2, lr_head = h\<rparr>)"

definition view_cache :: "repository \<Rightarrow> string \<Rightarrow> int \<Rightarrow> int \<Rightarrow> string \<Rightarrow> audit_cache" where
  "view_cache s h1 n1 k2 h =
     \<lparr>ac_head = h, ac_initial = h1, ac_records = k2, ac_bytes = active_size s, ac_next = n1,
      ac_active_sig = map_option file_sig (rp_active s), ac_retention_sig = map_option snd (rp_anchor s),
      ac_segment_sigs = segment_sigs (sort_key fst (segment_files (rp_segments s)))\<rparr>"

lemma strict_sort_key: "distinct (map fst xs) \<Longrightarrow> sorted_wrt (<) (map fst (sort_key fst xs))"
  by (auto simp: strict_sorted_iff distinct_map)

lemma scan_view:
  assumes "audit_view s a h1 n1 k1 k2 h"
  shows "\<exists>rep. scan_audit s = Inr (rep, view_cache s h1 n1 k2 h) \<and> ar_head rep = h \<and> ar_total rep = ra_records a + k1 + k2"
proof -
  let ?fs = "sort_key fst (segment_files (rp_segments s))"
  let ?g = "\<lparr>sg_head = ra_head a, sg_next = ra_next a, sg_records = 0, sg_retained = 0, sg_stale = 0\<rparr>"
  have "live_chain (filter (\<lambda>x. sg_next ?g \<le> fst x) ?fs) (sg_head ?g, sg_next ?g, sg_records ?g) = Some (h1, n1, k1)"
    using assms by (simp add: audit_view_def live_def)
  with scan_chain [OF strict_sort_key, of "segment_files (rp_segments s)" ?g "(h1, n1, k1)"] assms
  obtain g where g: "scan_segments ?fs ?g = Inr g" "sg_head g = h1" "sg_next g = n1" "sg_records g = k1"
    by (auto simp: audit_view_def)
  then show ?thesis using assms
    by (simp add: scan_audit_def audit_view_def segment_paths_def view_cache_def)
qed

definition anchor_ok :: "retention_anchor \<Rightarrow> bool" where
  "anchor_ok a = (hex64 (ra_head a) \<and> 1 \<le> ra_next a \<and> 0 \<le> ra_segments a \<and> 0 \<le> ra_records a)"

lemma read_anchor_document:
  assumes "read_anchor (Some (Document (PDict d), stamp)) = Inr a"
  shows "anchor_ok a"
proof -
  from assms obtain h n p q where f: "dgetn d ''previousHead'' = PStr h" "int_instance (dgetn d ''nextSequence'') = Some n"
    "int_instance (dgetn d ''prunedSegments'') = Some p" "int_instance (dgetn d ''prunedRecords'') = Some q"
    unfolding read_anchor_def
    by (cases "dgetn d ''previousHead''"; cases "int_instance (dgetn d ''nextSequence'')"; cases "int_instance (dgetn d ''prunedSegments'')";
        cases "int_instance (dgetn d ''prunedRecords'')") simp_all
  define c where "c = (set (dkeys d) = {''version'', ''previousHead'', ''nextSequence'', ''prunedSegments'', ''prunedRecords''} \<and>
    veq (dgetn d ''version'') (PInt 1) \<and> length h = 64 \<and> is_hex h \<and> 1 \<le> n \<and> 0 \<le> p \<and> 0 \<le> q)"
  have r: "read_anchor (Some (Document (PDict d), stamp)) =
      (if c then Inr \<lparr>ra_head = h, ra_next = n, ra_segments = p, ra_records = q\<rparr> else Inl OSError)"
    unfolding read_anchor_def c_def by (simp only: f option.case prod.case ledger_line.case pyval.case)
  with assms have c by (cases c) simp_all
  then have "hex64 h \<and> 1 \<le> n \<and> 0 \<le> p \<and> 0 \<le> q" unfolding c_def hex64_def by blast
  moreover have "a = \<lparr>ra_head = h, ra_next = n, ra_segments = p, ra_records = q\<rparr>" using r assms \<open>c\<close> by simp
  ultimately show ?thesis by (simp add: anchor_ok_def)
qed

lemma read_anchor_valid:
  assumes "read_anchor file = Inr a"
  shows "anchor_ok a"
proof (cases "file")
  case None
  with assms show ?thesis by (auto simp: read_anchor_def first_anchor_def anchor_ok_def)
next
  case (Some x)
  with assms obtain d stamp where "file = Some (Document (PDict d), stamp)"
    by (cases x, cases "fst x") (auto simp: read_anchor_def split: pyval.splits)
  with assms read_anchor_document show ?thesis by blast
qed

lemma anchor_roundtrip:
  assumes "hex64 (ra_head a)" and "1 \<le> ra_next a" and "0 \<le> ra_segments a" and "0 \<le> ra_records a"
  shows "read_anchor (Some (Document (json_sorted (PDict (anchor_dict a))), stamp)) = Inr a"
proof -
  have w: "dwf (anchor_dict a)" by (simp add: anchor_dict_def dwf_def dkeys_def)
  have k: "set (dkeys (sorted_dict (anchor_dict a))) = {''version'', ''previousHead'', ''nextSequence'', ''prunedSegments'', ''prunedRecords''}"
    by (auto simp: sorted_dict_def dkeys_def anchor_dict_def)
  have d: "dgetn (sorted_dict (anchor_dict a)) ''previousHead'' = PStr (ra_head a)" "dgetn (sorted_dict (anchor_dict a)) ''version'' = PInt 1"
    "dgetn (sorted_dict (anchor_dict a)) ''nextSequence'' = PInt (ra_next a)" "dgetn (sorted_dict (anchor_dict a)) ''prunedSegments'' = PInt (ra_segments a)"
    "dgetn (sorted_dict (anchor_dict a)) ''prunedRecords'' = PInt (ra_records a)"
    by (simp_all add: dgetn_sorted_dict [OF w]) (simp_all add: anchor_dict_def dgetn_def dgetd_def)
  show ?thesis
    using assms by (simp add: json_sorted_PDict read_anchor_def d k int_instance_def hex64_def)
qed

lemma view_bounds:
  assumes "audit_view s a h1 n1 k1 k2 h"
  shows "hex64 h1" "hex64 h" "ra_next a \<le> n1" "0 \<le> k1" "0 \<le> k2" "\<forall>x \<in> set (segment_files (rp_segments s)). fst x < n1"
proof -
  note v = assms [unfolded audit_view_def]
  have a: "hex64 (ra_head a)" using read_anchor_valid v unfolding anchor_ok_def by blast
  with live_chain_next v have l: "n1 = ra_next a + int (length (live a (rp_segments s)))" "0 \<le> k1" "hex64 h1"
    "\<forall>x \<in> set (live a (rp_segments s)). fst x < n1" by fastforce+
  then show "hex64 h1" "ra_next a \<le> n1" "0 \<le> k1" by simp_all
  show "\<forall>x \<in> set (segment_files (rp_segments s)). fst x < n1"
    using l(1,4) unfolding live_def by fastforce
  show "hex64 h" "0 \<le> k2"
    using v verify_lines_hex [of 1 "lines_of (map_option af_lines (rp_active s))" "\<lparr>lr_records = 0, lr_head = h1\<rparr>"] l(3)
    unfolding verify_hash_linked_def by fastforce+
qed

section \<open>Rotation and pruning keep the view\<close>

lemma insort_snoc: "f x \<le> f y \<Longrightarrow> insort_key f x (zs @ [y]) = insort_key f x zs @ [y]"
  by (induction zs) auto

lemma sort_snoc: "\<forall>x \<in> set xs. f x \<le> f y \<Longrightarrow> sort_key f (xs @ [y]) = sort_key f xs @ [y]"
  by (induction xs) (simp_all add: insort_snoc)

lemma segment_files_simps [simp]:
  "segment_files [] = []" "segment_files (es @ es') = segment_files es @ segment_files es'"
  "segment_files [Segment n f] = [(n, f)]"
  by (simp_all add: segment_files_def map_filter_def)

lemma segment_files_filter:
  "segment_files (filter (\<lambda>e. case e of Segment n _ \<Rightarrow> n \<notin> g | Foreign \<Rightarrow> True) es) = filter (\<lambda>x. fst x \<notin> g) (segment_files es)"
  by (induction es) (auto simp: segment_files_def map_filter_def split: dir_entry.splits)

lemma view_moved:
  assumes "audit_view s a h1 n1 k1 k2 h" and "rp_active s = Some f"
  shows "audit_view (s\<lparr>rp_active := None, rp_segments := rp_segments s @ [Segment n1 f]\<rparr>) a h (n1 + 1) (k1 + k2) 0 h"
proof -
  note v = assms(1) [unfolded audit_view_def] and b = view_bounds [OF assms(1)]
  have "sort_key fst (segment_files (rp_segments s) @ [(n1, f)]) = sort_key fst (segment_files (rp_segments s)) @ [(n1, f)]"
    by (rule sort_snoc) (use b(6) in fastforce)
  then have "live a (rp_segments s @ [Segment n1 f]) = live a (rp_segments s) @ [(n1, f)]" using b(3) by (simp add: live_def)
  with v assms(2) b(6) show ?thesis
    by (auto simp: audit_view_def live_chain_append verify_hash_linked_def [of h None] lines_of_def)
qed

lemma prune_chain:
  "(efold prune_step fs p = Inr q) \<Longrightarrow> live_chain fs (ps_head p, ps_last p + 1, ps_records p) = Some (ps_head q, ps_last q + 1, ps_records q)"
proof (induction fs arbitrary: p)
  case (Cons x fs)
  obtain n f where x: "x = (n, f)" by (cases x)
  from Cons.prems obtain t where t: "prune_step x p = Inr t" "efold prune_step fs t = Inr q" by (auto simp: ebind_eq_Inr)
  from t(1) obtain r where "n = ps_last p + 1" "verify_hash_linked (ps_head p) (Some f) = Inr r"
    "t = \<lparr>ps_head = lr_head r, ps_records = ps_records p + lr_records r, ps_last = n\<rparr>"
    by (auto simp: prune_step_def x split: if_splits sum.splits)
  with Cons.IH [OF t(2)] show ?case by (simp add: x)
qed simp

lemma live_removed:
  assumes "\<forall>n \<in> g. n < ra_next a"
  shows "live a (filter (\<lambda>e. case e of Segment n _ \<Rightarrow> n \<notin> g | Foreign \<Rightarrow> True) es) = live a es"
proof -
  have "filter (\<lambda>x. fst x \<notin> g \<and> ra_next a \<le> fst x) xs = filter (\<lambda>x. ra_next a \<le> fst x) xs" for xs :: "(int \<times> audit_file) list"
    by (rule filter_cong) (use assms in auto)
  then show ?thesis by (simp add: live_def segment_files_filter filter_sort [symmetric])
qed

lemma view_removed:
  assumes "audit_view s a h1 n1 k1 k2 h" and "\<forall>n \<in> set ns. n < ra_next a"
  shows "audit_view (snd (remove_segments io ns s)) a h1 n1 k1 k2 h"
proof -
  let ?gone = "set (case io_unlink io of None \<Rightarrow> ns | Some k \<Rightarrow> take k ns)"
  have "?gone \<subseteq> set ns" by (auto split: option.splits dest: in_set_takeD)
  then have g: "\<forall>n \<in> ?gone. n < ra_next a" using assms(2) by blast
  let ?es = "filter (\<lambda>e. case e of Segment n _ \<Rightarrow> n \<notin> ?gone | Foreign \<Rightarrow> True) (rp_segments s)"
  have "audit_view (s\<lparr>rp_segments := ?es\<rparr>) a h1 n1 k1 k2 h"
    using assms(1) live_removed [OF g] by (auto simp: audit_view_def segment_files_filter distinct_map_filter)
  then show ?thesis by (simp add: remove_segments_def Let_def method_run)
qed

lemma view_pruned:
  assumes v: "audit_view s a h1 n1 k1 k2 h" and p: "efold prune_step (take k (live a (rp_segments s))) \<lparr>ps_head = ra_head a, ps_records = 0, ps_last = ra_next a - 1\<rparr> = Inr p"
  shows "audit_view (s\<lparr>rp_anchor := Some (Document (json_sorted (PDict (anchor_dict (pruned_anchor a k p)))), stamp)\<rparr>) (pruned_anchor a k p) h1 n1 (k1 - ps_records p) k2 h \<and>
    ra_next a \<le> ra_next (pruned_anchor a k p) \<and> (\<forall>x \<in> set (take k (live a (rp_segments s))). fst x < ra_next (pruned_anchor a k p))"
proof -
  note w = v [unfolded audit_view_def]
  let ?l = "live a (rp_segments s)"
  have a: "hex64 (ra_head a)" "1 \<le> ra_next a" "0 \<le> ra_segments a" "0 \<le> ra_records a" using read_anchor_valid w unfolding anchor_ok_def by blast+
  have t: "live_chain (take k ?l) (ra_head a, ra_next a, 0) = Some (ps_head p, ps_last p + 1, ps_records p)"
    using prune_chain [OF p] by simp
  note tn = live_chain_next [OF t a(1)]
  have "live_chain (take k ?l @ drop k ?l) (ra_head a, ra_next a, 0) = Some (h1, n1, k1)" using w by simp
  then have d: "live_chain (drop k ?l) (ps_head p, ps_last p + 1, 0 + ps_records p) = Some (h1, n1, k1)"
    unfolding live_chain_append t by simp
  then have d0: "live_chain (drop k ?l) (ps_head p, ps_last p + 1, 0) = Some (h1, n1, k1 - ps_records p)"
    unfolding live_chain_shift by (auto simp: algebra_simps)
  have ge: "\<forall>x \<in> set (drop k ?l). ps_last p + 1 \<le> fst x" using live_chain_next [OF d0] tn by blast
  have "live (pruned_anchor a k p) (rp_segments s) = filter (\<lambda>x. ps_last p + 1 \<le> fst x) ?l"
    unfolding live_def pruned_anchor_def filter_filter by (rule filter_cong [OF refl]) (use tn in auto)
  also have "\<dots> = filter (\<lambda>x. ps_last p + 1 \<le> fst x) (take k ?l) @ filter (\<lambda>x. ps_last p + 1 \<le> fst x) (drop k ?l)"
    by (metis append_take_drop_id filter_append)
  also have "\<dots> = drop k ?l" using tn ge by (auto simp: filter_empty_conv)
  finally have l: "live (pruned_anchor a k p) (rp_segments s) = drop k ?l" .
  have "read_anchor (Some (Document (json_sorted (PDict (anchor_dict (pruned_anchor a k p)))), stamp)) = Inr (pruned_anchor a k p)"
    by (rule anchor_roundtrip) (use tn a in \<open>auto simp: pruned_anchor_def\<close>)
  with w l d0 show ?thesis using tn by (auto simp: audit_view_def pruned_anchor_def)
qed

section \<open>Every call keeps the commitment\<close>

text \<open>A repository commits to a head and a number of records: a scan finds them, the active file ends with a
  newline, and a cache is that of a scan or is refused.\<close>

definition active_closed :: "repository \<Rightarrow> bool" where
  "active_closed s = (case rp_active s of None \<Rightarrow> True | Some f \<Rightarrow> af_closed f)"

definition cache_ok :: "repository \<Rightarrow> bool" where
  "cache_ok s = (\<forall>c. rp_cache s = Some c \<longrightarrow> (\<exists>rep. scan_audit s = Inr (rep, c)) \<or> rp_active s = None \<and> ac_active_sig c \<noteq> None)"

definition commits :: "repository \<Rightarrow> string \<times> int \<Rightarrow> bool" where
  "commits s c = ((\<exists>a h1 n1 k1 k2. audit_view s a h1 n1 k1 k2 (fst c) \<and> snd c = ra_records a + k1 + k2) \<and> active_closed s \<and> cache_ok s)"

definition stopped :: "repository \<Rightarrow> bool" where
  "stopped s = (rp_cache s = None \<and> (\<exists>e. scan_audit s = Inl e))"

lemma commitsI:
  "audit_view s a h1 n1 k1 k2 h \<Longrightarrow> t = ra_records a + k1 + k2 \<Longrightarrow> active_closed s \<Longrightarrow> cache_ok s \<Longrightarrow> commits s (h, t)"
  unfolding commits_def fst_conv snd_conv by blast

lemma cache_irrelevant [simp]:
  "audit_view (s\<lparr>rp_cache := x\<rparr>) = audit_view s" "scan_audit (s\<lparr>rp_cache := x\<rparr>) = scan_audit s"
  "active_closed (s\<lparr>rp_cache := x\<rparr>) = active_closed s" "view_cache (s\<lparr>rp_cache := x\<rparr>) = view_cache s"
  by (simp_all add: fun_eq_iff audit_view_def scan_audit_def active_closed_def view_cache_def active_size_def split: sum.split)

lemma cache_ok_None [simp]: "rp_cache s = None \<Longrightarrow> cache_ok s"
  by (simp add: cache_ok_def)

lemma cache_ok_view: "audit_view s a h1 n1 k1 k2 h \<Longrightarrow> rp_cache s = Some (view_cache s h1 n1 k2 h) \<Longrightarrow> cache_ok s"
  unfolding cache_ok_def using scan_view by fastforce

lemma ensure_runs:
  assumes v: "audit_view s a h1 n1 k1 k2 h" and "cache_ok s"
  shows "ensure_audit_state s = (Inl OSError, s) \<or>
    ensure_audit_state s = (Inr (view_cache s h1 n1 k2 h), s\<lparr>rp_cache := Some (view_cache s h1 n1 k2 h)\<rparr>)"
proof (cases "rp_cache s")
  case None
  with scan_view [OF v] show ?thesis by (auto simp: ensure_audit_state_def method_run)
next
  case (Some c)
  show ?thesis
  proof (cases "\<exists>rep. scan_audit s = Inr (rep, c)")
    case True
    with scan_view [OF v] have c: "c = view_cache s h1 n1 k2 h" by auto
    have "matches_disk c s" using v by (simp add: matches_disk_def c view_cache_def segment_paths_def audit_view_def)
    moreover have "s\<lparr>rp_cache := Some c\<rparr> = s" using Some by simp
    ultimately show ?thesis using Some c by (simp add: ensure_audit_state_def method_run)
  next
    case False
    with assms(2) Some have "\<not> matches_disk c s" by (auto simp: cache_ok_def matches_disk_def split: sum.splits)
    with Some show ?thesis by (simp add: ensure_audit_state_def method_run)
  qed
qed

lemma written_file:
  assumes "case file of None \<Rightarrow> True | Some f \<Rightarrow> af_closed f" and "w = Written \<or> w = Written_unsynced"
  obtains f where "write_line w part stamp r file = Some f" "af_closed f"
    "af_lines f = lines_of (map_option af_lines file) @ [Document (json_sorted (PDict r))]"
    "af_size f = (case file of Some g \<Rightarrow> af_size g | None \<Rightarrow> 0) + encoded_size r"
  using assms by (cases "file") (auto simp: write_line_def Let_def add_line_def lines_of_def empty_file_def)

lemma write_commits:
  assumes v: "audit_view s a h1 n1 k1 k2 h" and closed: "active_closed s" and cache: "rp_cache s = Some (view_cache s h1 n1 k2 h)"
    and w: "io_write io = Written \<or> io_write io = Written_unsynced"
  shows "commits (snd (write_audit io (linked_record h event) s)) (chain_hash h (PDict event), ra_records a + k1 + k2 + 1)"
proof -
  let ?r = "linked_record h event"
  from closed w obtain f where f: "write_line (io_write io) (io_part io) (io_stamp io) ?r (rp_active s) = Some f" "af_closed f"
    "af_lines f = lines_of (map_option af_lines (rp_active s)) @ [Document (json_sorted (PDict ?r))]" "af_size f = active_size s + encoded_size ?r"
    unfolding active_closed_def active_size_def by (rule written_file)
  let ?s = "s\<lparr>rp_active := Some f\<rparr>"
  have "verify_hash_linked h1 (Some f) = Inr \<lparr>lr_records = k2 + 1, lr_head = chain_hash h (PDict event)\<rparr>"
    using verify_linked_extend [of h1 "rp_active s" "\<lparr>lr_records = k2, lr_head = h\<rparr>" "Some f" event] v view_bounds(2) [OF v] f(3)
    by (simp add: audit_view_def lines_of_def [of "Some _"])
  then have v': "audit_view ?s a h1 n1 k1 (k2 + 1) (chain_hash h (PDict event))" using v by (simp add: audit_view_def)
  have closed': "active_closed ?s" using f(2) by (simp add: active_closed_def)
  have hash: "py_str (dgetn ?r ''hash'') = chain_hash h (PDict event)"
    by (simp add: linked_record_def dgetn_def dgetd_def hex64_ascii [OF view_bounds(2) [OF v]])
  show ?thesis
  proof (cases "io_write io = Written")
    case True
    let ?t = "cached_append (encoded_size ?r) ?r ?s"
    have "?t = ?s\<lparr>rp_cache := Some (view_cache ?s h1 n1 (k2 + 1) (chain_hash h (PDict event)))\<rparr>"
      using cache f(4) by (simp add: cached_append_def view_cache_def hash active_size_def)
    then have "commits ?t (chain_hash h (PDict event), ra_records a + k1 + k2 + 1)"
      using v' closed' by (intro commitsI) (auto intro: cache_ok_view)
    then show ?thesis using True f(1) by (simp add: write_audit_def method_run)
  next
    case False
    with v' closed' show ?thesis
      by (simp add: write_audit_def method_run f(1)) (rule commitsI, auto)
  qed
qed

lemma write_nothing:
  assumes v: "audit_view s a h1 n1 k1 k2 h" and closed: "active_closed s" and w: "io_write io = Unwritten \<or> io_write io = Unopened"
  shows "commits (snd (write_audit io r s)) (h, ra_records a + k1 + k2)"
proof -
  let ?f = "write_line (io_write io) (io_part io) (io_stamp io) r (rp_active s)"
  have "lines_of (map_option af_lines ?f) = lines_of (map_option af_lines (rp_active s))" "case ?f of None \<Rightarrow> True | Some f \<Rightarrow> af_closed f"
    using w closed by (auto simp: write_line_def Let_def active_closed_def lines_of_def empty_file_def split: option.splits)
  then have "audit_view (s\<lparr>rp_active := ?f\<rparr>) a h1 n1 k1 k2 h" "active_closed (s\<lparr>rp_active := ?f\<rparr>)"
    using v by (simp_all add: audit_view_def verify_hash_linked_def active_closed_def)
  with w show ?thesis by (auto simp: write_audit_def method_run intro!: commitsI)
qed

lemma write_torn:
  assumes v: "audit_view s a h1 n1 k1 k2 h" and closed: "active_closed s" and w: "io_write io = Torn"
  shows "stopped (snd (write_audit io r s))"
proof -
  let ?f = "write_line Torn (io_part io) (io_stamp io) r (rp_active s)"
  have l: "lines_of (map_option af_lines ?f) = lines_of (map_option af_lines (rp_active s)) @ [Garbled]"
    using closed by (auto simp: write_line_def Let_def active_closed_def lines_of_def empty_file_def add_line_def split: option.splits)
  have "\<exists>e. verify_hash_linked h1 ?f = Inl e"
    using v unfolding verify_hash_linked_def l verify_lines_append by (simp add: audit_view_def verify_hash_linked_def)
  moreover obtain rep where "scan_audit s = Inr (rep, view_cache s h1 n1 k2 h)" using scan_view [OF v] by blast
  ultimately have "\<exists>e. scan_audit (s\<lparr>rp_active := ?f\<rparr>) = Inl e"
    by (auto simp: scan_audit_def view_cache_def split: sum.splits)
  with w show ?thesis by (simp add: stopped_def write_audit_def method_run)
qed

lemma write_raises: "io_write io \<noteq> Written \<Longrightarrow> fst (write_audit io r s) = Inl OSError"
  by (simp add: write_audit_def method_run)

lemma snd_guard: "snd (sthen m (sguard b e) s) = snd (m s)"
  by (auto simp: method_run split: prod.split sum.split)

lemma view_prune:
  assumes v: "audit_view s a h1 n1 k1 k2 h"
  shows "\<exists>a' k1'. audit_view (snd (prune_segments io s)) a' h1 n1 k1' k2 h \<and> ra_records a' + k1' = ra_records a + k1"
proof -
  let ?l = "live a (rp_segments s)" and ?fs = "sort_key fst (segment_files (rp_segments s))"
  let ?stale = "map fst (filter (\<lambda>x. fst x < ra_next a) ?fs)"
  have r: "read_anchor (rp_anchor s) = Inr a" "segment_paths (rp_segments s) = Inr ?fs" using v by (simp_all add: audit_view_def segment_paths_def)
  show ?thesis
  proof (cases "int (length ?l) \<le> rp_retain s")
    case True
    then have "snd (prune_segments io s) = snd (remove_segments io ?stale s)"
      by (simp add: prune_segments_def sbind_run r Let_def live_def [symmetric] snd_guard)
    with view_removed [OF v, of ?stale io] show ?thesis by auto
  next
    case False
    let ?k = "nat (int (length ?l) - rp_retain s)"
    let ?p = "efold prune_step (take ?k ?l) \<lparr>ps_head = ra_head a, ps_records = 0, ps_last = ra_next a - 1\<rparr>"
    show ?thesis
    proof (cases ?p)
      case (Inl e)
      then have "snd (prune_segments io s) = s" using False
        by (simp add: prune_segments_def sbind_run r Let_def live_def [symmetric])
      with v show ?thesis by auto
    next
      case (Inr p)
      let ?a = "pruned_anchor a ?k p"
      let ?s = "s\<lparr>rp_anchor := Some (Document (json_sorted (PDict (anchor_dict ?a))), io_anchor_stamp io)\<rparr>"
      let ?gone = "?stale @ map fst (take ?k ?l)"
      have run: "snd (prune_segments io s) = (if io_anchor io = Lost then s else if io_anchor io = Durable then snd (remove_segments io ?gone ?s) else ?s)"
        using False Inr by (cases "io_anchor io") (simp_all add: prune_segments_def sbind_run r Let_def live_def [symmetric] write_anchor_def snd_guard sthen_run sguard_run swhen_run split: prod.split sum.split)
      note p = view_pruned [OF v Inr, of "io_anchor_stamp io"]
      then have v': "audit_view ?s ?a h1 n1 (k1 - ps_records p) k2 h" by blast
      have "\<forall>n \<in> set ?gone. n < ra_next ?a" using p by auto
      from view_removed [OF v' this] v v' have "audit_view (snd (prune_segments io s)) a h1 n1 k1 k2 h \<or>
          audit_view (snd (prune_segments io s)) ?a h1 n1 (k1 - ps_records p) k2 h" unfolding run by simp
      moreover have "ra_records ?a + (k1 - ps_records p) = ra_records a + k1" by (simp add: pruned_anchor_def)
      ultimately show ?thesis by blast
    qed
  qed
qed

lemma prune_frame: "frame (\<lambda>s. (rp_active s, rp_cache s)) (prune_segments io)"
  unfolding prune_segments_def remove_segments_def write_anchor_def Let_def
  by (intro frameI keeps_intro keeps_modify) auto

lemma rotate_commits:
  assumes "commits s (h, t)"
  shows "commits (snd (rotate_audit io s)) (h, t)"
proof -
  from assms obtain a h1 n1 k1 k2 where v: "audit_view s a h1 n1 k1 k2 h" and t: "t = ra_records a + k1 + k2"
    and closed: "active_closed s" and cache: "cache_ok s" by (auto simp: commits_def)
  let ?c = "view_cache s h1 n1 k2 h"
  let ?s0 = "s\<lparr>rp_cache := Some ?c\<rparr>"
  have c0: "commits ?s0 (h, t)" using v closed by (intro commitsI) (auto intro: cache_ok_view simp: t)
  consider "ensure_audit_state s = (Inl OSError, s)" | "ensure_audit_state s = (Inr ?c, ?s0)" using ensure_runs [OF v cache] by blast
  then show ?thesis
  proof cases
    case 1
    with assms show ?thesis by (simp add: rotate_audit_def sbind_run)
  next
    case 2
    show ?thesis
    proof (cases "rp_active s = None \<or> ac_bytes ?c = 0 \<or> io_replace io = Lost")
      case True
      then have "snd (rotate_audit io s) = ?s0" using 2 view_bounds(6) [OF v]
        by (auto simp: rotate_audit_def method_run move_active_def view_cache_def)
      with c0 show ?thesis by simp
    next
      case False
      then obtain f where f: "rp_active s = Some f" by (cases "rp_active s") auto
      have fresh: "ac_next ?c \<notin> fst ` set (segment_files (rp_segments s))" using view_bounds(6) [OF v] by (auto simp: view_cache_def)
      let ?s1 = "s\<lparr>rp_active := None, rp_segments := rp_segments s @ [Segment n1 f]\<rparr>"
      note v1 = view_moved [OF v f]
      have closed1: "active_closed (?s1\<lparr>rp_cache := x\<rparr>)" for x by (simp add: active_closed_def)
      show ?thesis
      proof (cases "io_replace io = Durable")
        case no: False
        then have "snd (rotate_audit io s) = ?s1\<lparr>rp_cache := Some ?c\<rparr>" using 2 False f fresh
          by (auto simp: rotate_audit_def method_run move_active_def view_cache_def)
        moreover have "cache_ok (?s1\<lparr>rp_cache := Some ?c\<rparr>)" by (simp add: cache_ok_def view_cache_def f)
        ultimately show ?thesis using v1 closed1 by (auto intro!: commitsI simp: t)
      next
        case yes: True
        let ?s2 = "?s1\<lparr>rp_cache := None\<rparr>"
        obtain r3 s3 where s3: "prune_segments io ?s2 = (r3, s3)" by fastforce
        from view_prune [of ?s2 a h "n1 + 1" "k1 + k2" 0 h io] v1 obtain a' k1' where
          v3: "audit_view s3 a' h (n1 + 1) k1' 0 h" "ra_records a' + k1' = ra_records a + (k1 + k2)"
          by (auto simp: s3)
        have fr: "rp_active s3 = None" "rp_cache s3 = None" using frameD [OF prune_frame, of io ?s2] by (simp_all add: s3)
        have run: "snd (rotate_audit io s) = (case r3 of Inl _ \<Rightarrow> s3 | Inr _ \<Rightarrow> (case scan_audit s3 of Inl _ \<Rightarrow> s3 | Inr (_, c') \<Rightarrow> s3\<lparr>rp_cache := Some c'\<rparr>))"
          using 2 False f fresh yes s3
          by (auto simp: rotate_audit_def method_run move_active_def view_cache_def split: sum.split prod.split)
        obtain rep where rep: "scan_audit s3 = Inr (rep, view_cache s3 h (n1 + 1) 0 h)" using scan_view [OF v3(1)] by blast
        have "commits s3 (h, t)" "commits (s3\<lparr>rp_cache := Some (view_cache s3 h (n1 + 1) 0 h)\<rparr>) (h, t)"
          using v3 fr by (auto intro!: commitsI intro: cache_ok_view simp: t active_closed_def)
        then show ?thesis unfolding run rep by (simp split: sum.split)
      qed
    qed
  qed
qed

lemma write_step:
  assumes "audit_view s a h1 n1 k1 k2 h" and "active_closed s" and "rp_cache s = Some (view_cache s h1 n1 k2 h)"
    and "io_write io \<noteq> Unterminated" and "write_audit io (linked_record h event) s = (r, s')"
  shows "commits s' (chain_hash h (PDict event), ra_records a + k1 + k2 + 1) \<or>
    (\<exists>e. r = Inl e) \<and> (commits s' (h, ra_records a + k1 + k2) \<or> stopped s' \<and> io_write io = Torn)"
  using assms(4) write_commits [OF assms(1-3), of io event] write_nothing [OF assms(1,2), of io "linked_record h event"]
    write_torn [OF assms(1,2), of io "linked_record h event"] write_raises [of io "linked_record h event" s] assms(5)
  by (cases "io_write io") auto

lemma append_step:
  assumes c: "commits s (h, t)" and io: "io_write io \<noteq> Unterminated" and run: "append_authorization_audit io event s = (r, s')"
  shows "commits s' (chain_hash h (PDict event), t + 1) \<or> (\<exists>e. r = Inl e) \<and> (commits s' (h, t) \<or> stopped s' \<and> io_write io = Torn)"
proof -
  have put: "commits s2 (chain_hash h (PDict event), t + 1) \<or> (\<exists>e. r2 = Inl e) \<and> (commits s2 (h, t) \<or> stopped s2 \<and> io_write io = Torn)"
    if "commits s1 (h, t)" and "sbind ensure_audit_state (\<lambda>c. write_audit io (linked_record (ac_head c) event)) s1 = (r2, s2)" for s1 r2 s2
  proof -
    from that(1) obtain a h1 n1 k1 k2 where v: "audit_view s1 a h1 n1 k1 k2 h" and t: "t = ra_records a + k1 + k2"
      and closed: "active_closed s1" and cache: "cache_ok s1" by (auto simp: commits_def)
    from ensure_runs [OF v cache] show ?thesis
    proof
      assume "ensure_audit_state s1 = (Inl OSError, s1)"
      with that show ?thesis by (auto simp: sbind_run)
    next
      let ?c = "view_cache s1 h1 n1 k2 h"
      assume "ensure_audit_state s1 = (Inr ?c, s1\<lparr>rp_cache := Some ?c\<rparr>)"
      with that(2) have "write_audit io (linked_record h event) (s1\<lparr>rp_cache := Some ?c\<rparr>) = (r2, s2)" by (simp add: sbind_run view_cache_def)
      from write_step [OF _ _ _ io this, of a h1 n1 k1 k2] v closed show ?thesis unfolding t by simp
    qed
  qed
  from c obtain a h1 n1 k1 k2 where v: "audit_view s a h1 n1 k1 k2 h" and t: "t = ra_records a + k1 + k2"
    and closed: "active_closed s" and cache: "cache_ok s" by (auto simp: commits_def)
  let ?c = "view_cache s h1 n1 k2 h"
  let ?s0 = "s\<lparr>rp_cache := Some ?c\<rparr>"
  show ?thesis
  proof (cases "length (canonical (PDict event)) \<le> 8192 \<and> ensure_audit_state s = (Inr ?c, ?s0)")
    case False
    with ensure_runs [OF v cache] have "r = Inl OSError \<and> s' = s" using run
      by (auto simp: append_authorization_audit_def sthen_run sbind_run sguard_run split: if_splits)
    with c show ?thesis by blast
  next
    case True
    have c0: "commits ?s0 (h, t)" using v closed by (intro commitsI) (auto intro: cache_ok_view simp: t)
    have e0: "ensure_audit_state ?s0 = (Inr ?c, ?s0)"
      using ensure_runs [of ?s0 a h1 n1 k1 k2 h] v cache_ok_view [of ?s0 a h1 n1 k1 k2 h] True
      by (auto simp: ensure_audit_state_def sbind_run matches_disk_def view_cache_def segment_paths_def audit_view_def)
    show ?thesis
    proof (cases "ac_bytes ?c \<noteq> 0 \<and> rp_rotate_bytes s < ac_bytes ?c + encoded_size (linked_record (ac_head ?c) event)")
      case yes: True
      obtain r1 s1 where s1: "rotate_audit io ?s0 = (r1, s1)" by fastforce
      have c1: "commits s1 (h, t)" using rotate_commits [OF c0, of io] by (simp add: s1)
      from run True yes s1 have "(case r1 of Inl e \<Rightarrow> (Inl e, s1) | Inr _ \<Rightarrow>
          sbind ensure_audit_state (\<lambda>c'. write_audit io (linked_record (ac_head c') event)) s1) = (r, s')"
        by (auto simp: append_authorization_audit_def sthen_run sbind_run [of "ensure_audit_state" _ s] sbind_run [of "sgets _"] sguard_run Let_def split: sum.splits)
      with c1 put [OF c1, of r s'] show ?thesis by (cases r1) auto
    next
      case no: False
      from run True no have "sbind ensure_audit_state (\<lambda>c. write_audit io (linked_record (ac_head c) event)) ?s0 = (r, s')"
        by (auto simp: append_authorization_audit_def sthen_run sbind_run e0 sguard_run Let_def)
      from put [OF c0 this] show ?thesis .
    qed
  qed
qed
section \<open>Logs that commit to what they accepted\<close>

text \<open>The calls that were accepted, and the state after a list of calls.\<close>

fun run_ops :: "('op \<Rightarrow> 's \<Rightarrow> bool \<times> 's) \<Rightarrow> 'op list \<Rightarrow> 's \<Rightarrow> 'op list \<times> 's" where
  "run_ops run [] s = ([], s)"
| "run_ops run (op # ops) s =
     (let (ok, s1) = run op s; (accepted, s2) = run_ops run ops s1 in (if ok then op # accepted else accepted, s2))"

text \<open>The contract of a log with a commitment to its contents: an accepted call extends the commitment, a refused
  one may have extended it, and only a harmful call stops the log, after which nothing is accepted.\<close>

locale commitment_log =
  fixes run :: "'op \<Rightarrow> 's \<Rightarrow> bool \<times> 's" and commit :: "'s \<Rightarrow> 'c \<Rightarrow> bool" and halted :: "'s \<Rightarrow> bool"
    and ext :: "'op \<Rightarrow> 'c \<Rightarrow> 'c" and sound :: "'op \<Rightarrow> bool" and harmless :: "'op \<Rightarrow> bool"
  assumes step: "commit s c \<Longrightarrow> sound op \<Longrightarrow> run op s = (ok, s') \<Longrightarrow>
      commit s' (ext op c) \<or> \<not> ok \<and> (commit s' c \<or> halted s' \<and> \<not> harmless op)"
    and stuck: "halted s \<Longrightarrow> run op s = (ok, s') \<Longrightarrow> \<not> ok \<and> halted s'"
begin

lemma halted_run: "halted s \<Longrightarrow> run_ops run ops s = (accepted, s') \<Longrightarrow> accepted = [] \<and> halted s'"
proof (induction ops arbitrary: s accepted s')
  case (Cons op ops)
  obtain ok s1 where s1: "run op s = (ok, s1)" by fastforce
  obtain acc2 s2 where s2: "run_ops run ops s1 = (acc2, s2)" by fastforce
  from stuck [OF Cons.prems(1) s1] Cons.IH [OF _ s2] Cons.prems(2) show ?case by (auto simp: s1 s2)
qed simp

lemma run_commits:
  "commit s c \<Longrightarrow> \<forall>op \<in> set ops. sound op \<Longrightarrow> run_ops run ops s = (accepted, s') \<Longrightarrow>
   \<exists>kept. subseq accepted kept \<and> subseq kept ops \<and> (commit s' (fold ext kept c) \<or> halted s' \<and> (\<exists>op \<in> set ops. \<not> harmless op))"
proof (induction ops arbitrary: s c accepted s')
  case Nil
  then show ?case by auto
next
  case (Cons op ops)
  obtain ok s1 where s1: "run op s = (ok, s1)" by fastforce
  obtain acc2 s2 where s2: "run_ops run ops s1 = (acc2, s2)" by fastforce
  have out: "accepted = (if ok then op # acc2 else acc2)" "s' = s2" using Cons.prems(3) by (auto simp: s1 s2)
  from step [OF Cons.prems(1) _ s1] Cons.prems(2)
  consider "commit s1 (ext op c)" | "\<not> ok" "commit s1 c" | "\<not> ok" "halted s1" "\<not> harmless op" by auto
  then show ?case
  proof cases
    case 1
    from Cons.IH [OF 1 _ s2] Cons.prems(2) obtain kept where k: "subseq acc2 kept" "subseq kept ops"
      "commit s2 (fold ext kept (ext op c)) \<or> halted s2 \<and> (\<exists>op \<in> set ops. \<not> harmless op)" by auto
    from k show ?thesis by (intro exI [of _ "op # kept"]) (auto simp: out intro: subseq_Cons')
  next
    case 2
    from Cons.IH [OF 2(2) _ s2] Cons.prems(2) obtain kept where "subseq acc2 kept" "subseq kept ops"
      "commit s2 (fold ext kept c) \<or> halted s2 \<and> (\<exists>op \<in> set ops. \<not> harmless op)" by auto
    with 2(1) show ?thesis by (intro exI [of _ kept]) (auto simp: out)
  next
    case 3
    with halted_run [OF 3(2) s2] show ?thesis by (intro exI [of _ "[]"]) (auto simp: out)
  qed
qed

end

text \<open>The calls on a repository: an append, a new process on the same files, a verification.\<close>

datatype audit_op = Append audit_io pydict | Reopen string string | Verify

fun audit_call :: "audit_op \<Rightarrow> repository \<Rightarrow> bool \<times> repository" where
  "audit_call (Append io event) s = (case append_authorization_audit io event s of (r, s') \<Rightarrow> (\<not> isl r, s'))"
| "audit_call (Reopen bytes segments) s = (False, case open_repository bytes segments s of Inr s' \<Rightarrow> s' | Inl _ \<Rightarrow> s)"
| "audit_call Verify s = (False, sexec verify_authorization_audit s)"

fun audit_ext :: "audit_op \<Rightarrow> string \<times> int \<Rightarrow> string \<times> int" where
  "audit_ext (Append io event) c = (chain_hash (fst c) (PDict event), snd c + 1)"
| "audit_ext _ c = c"

definition op_writes :: "line_write \<Rightarrow> audit_op \<Rightarrow> bool" where
  "op_writes w op = (case op of Append io _ \<Rightarrow> io_write io = w | _ \<Rightarrow> False)"

lemma commits_uncached: "commits s c \<Longrightarrow> commits (s\<lparr>rp_rotate_bytes := x, rp_retain := y, rp_cache := None\<rparr>) c"
  by (auto simp: commits_def audit_view_def active_closed_def)

lemma commits_verify: "commits s c \<Longrightarrow> commits (sexec verify_authorization_audit s) c"
proof -
  assume "commits s c"
  then obtain a h1 n1 k1 k2 where v: "audit_view s a h1 n1 k1 k2 (fst c)" and t: "snd c = ra_records a + k1 + k2"
    and closed: "active_closed s" by (auto simp: commits_def)
  let ?c = "view_cache s h1 n1 k2 (fst c)"
  obtain rep where "scan_audit s = Inr (rep, ?c)" using scan_view [OF v] by blast
  then have "sexec verify_authorization_audit s = s\<lparr>rp_cache := Some ?c\<rparr>" by (simp add: sexec_def verify_authorization_audit_def method_run)
  moreover have "commits (s\<lparr>rp_cache := Some ?c\<rparr>) (fst c, snd c)" using v closed t by (intro commitsI) (auto intro: cache_ok_view)
  ultimately show ?thesis by simp
qed

lemma stopped_calls: "stopped s \<Longrightarrow> audit_call op s = (ok, s') \<Longrightarrow> \<not> ok \<and> stopped s'"
proof (cases op)
  case (Append io event)
  assume s: "stopped s" and run: "audit_call op s = (ok, s')"
  then have "append_authorization_audit io event s = (Inl OSError, s)"
    by (auto simp: append_authorization_audit_def method_run ensure_audit_state_def stopped_def)
  with s run Append show ?thesis by simp
next
  case (Reopen bytes segments)
  assume s: "stopped s" and run: "audit_call op s = (ok, s')"
  have e: "\<exists>e. scan_audit (s\<lparr>rp_rotate_bytes := x, rp_retain := y, rp_cache := None\<rparr>) = Inl e" for x y
    using s by (auto simp: stopped_def scan_audit_def split: sum.splits)
  have "stopped (case open_repository bytes segments s of Inr s' \<Rightarrow> s' | Inl _ \<Rightarrow> s)"
    using s e by (auto simp: open_repository_def ebind_def stopped_def split: sum.split)
  with run Reopen show ?thesis by auto
next
  case Verify
  assume "stopped s" and "audit_call op s = (ok, s')"
  with Verify show ?thesis by (auto simp: stopped_def sexec_def verify_authorization_audit_def method_run)
qed

interpretation audit: commitment_log audit_call commits stopped audit_ext "\<lambda>op. \<not> op_writes Unterminated op" "\<lambda>op. \<not> op_writes Torn op"
proof
  fix s c op ok s'
  assume c: "commits s c" and op: "\<not> op_writes Unterminated op" and run: "audit_call op s = (ok, s')"
  show "commits s' (audit_ext op c) \<or> \<not> ok \<and> (commits s' c \<or> stopped s' \<and> \<not> \<not> op_writes Torn op)"
  proof (cases op)
    case (Append io event)
    with run obtain r where "append_authorization_audit io event s = (r, s')" "ok = (\<not> isl r)" by (auto split: prod.splits)
    with append_step [of s "fst c" "snd c" io event r s'] c op Append show ?thesis by (auto simp: op_writes_def)
  next
    case (Reopen bytes segments)
    have "commits (case open_repository bytes segments s of Inr s' \<Rightarrow> s' | Inl _ \<Rightarrow> s) c"
      using c commits_uncached by (auto simp: open_repository_def ebind_def split: sum.split)
    with Reopen run show ?thesis by auto
  next
    case Verify
    with run commits_verify [OF c] show ?thesis by auto
  qed
next
  fix s op ok s'
  assume "stopped s" and "audit_call op s = (ok, s')"
  then show "\<not> ok \<and> stopped s'" by (rule stopped_calls)
qed
definition op_events :: "audit_op list \<Rightarrow> pydict list" where
  "op_events ops = concat (map (\<lambda>op. case op of Append _ e \<Rightarrow> [e] | _ \<Rightarrow> []) ops)"

definition chain_events :: "pydict list \<Rightarrow> string" where
  "chain_events es = foldl (\<lambda>h e. chain_hash h (PDict e)) zero_hash es"

definition fresh_repository :: "repository \<Rightarrow> bool" where
  "fresh_repository s = (rp_active s = None \<and> rp_segments s = [] \<and> rp_anchor s = None \<and> rp_cache s = None)"

lemma subseq_events: "subseq xs ys \<Longrightarrow> subseq (op_events xs) (op_events ys)"
  unfolding op_events_def
proof (induction rule: list_emb.induct)
  case (list_emb_Cons xs ys y)
  then show ?case by (simp add: list_emb_append2)
next
  case (list_emb_Cons2 x y xs ys)
  then show ?case by (simp add: list_emb_append_mono)
qed simp

lemma fold_events: "fold audit_ext ops (h, n) = (foldl (\<lambda>h e. chain_hash h (PDict e)) h (op_events ops), n + int (length (op_events ops)))"
  by (induction ops arbitrary: h n) (auto simp: op_events_def split: audit_op.split)

lemma fresh_view: "fresh_repository s \<Longrightarrow> audit_view s first_anchor zero_hash 1 0 0 zero_hash"
  by (simp add: fresh_repository_def audit_view_def read_anchor_def live_def verify_hash_linked_def lines_of_def first_anchor_def)


definition plain_io :: audit_io where
  "plain_io = \<lparr>io_replace = Durable, io_anchor = Durable, io_unlink = None, io_sync = True, io_write = Written, io_part = 0, io_stamp = 1, io_anchor_stamp = 1\<rparr>"

definition fresh_dir :: repository where
  "fresh_dir = \<lparr>rp_snapshot = None, rp_ledger = None, rp_active = None, rp_segments = [], rp_anchor = None, rp_rotate_bytes = 65536, rp_retain = 1, rp_cache = None\<rparr>"


section \<open>A line without its newline\<close>

lemma ensure_uncached:
  "audit_view s a h1 n1 k1 k2 h \<Longrightarrow> rp_cache s = None \<Longrightarrow>
   ensure_audit_state s = (Inr (view_cache s h1 n1 k2 h), s\<lparr>rp_cache := Some (view_cache s h1 n1 k2 h)\<rparr>)"
  using scan_view by (fastforce simp: ensure_audit_state_def method_run)

text \<open>
  A write that lacks only its newline loses the next decision: it is reported as failed, the following append
  is accepted, and its record shares the line of the first, so that from then on the audit does not verify.
\<close>

theorem unterminated_audit_lost:
  assumes "fresh_repository s" and "io_write io1 = Unterminated" and "io_write io2 = Written"
    and "length (canonical (PDict e1)) \<le> 8192" and "length (canonical (PDict e2)) \<le> 8192"
    and "encoded_size (linked_record zero_hash e1) + encoded_size (linked_record (chain_hash zero_hash (PDict e1)) e2) \<le> rp_rotate_bytes s"
  shows "\<exists>s1 s2 r e. append_authorization_audit io1 e1 s = (Inl OSError, s1) \<and> append_authorization_audit io2 e2 s1 = (Inr r, s2) \<and> scan_audit s2 = Inl e"
proof -
  let ?r1 = "linked_record zero_hash e1" and ?h = "chain_hash zero_hash (PDict e1)"
  let ?l = "Document (json_sorted (PDict ?r1))"
  let ?f = "(empty_file (io_stamp io1))\<lparr>af_lines := [?l], af_closed := False, af_size := encoded_size ?r1 - 1, af_stamp := io_stamp io1\<rparr>"
  let ?s1 = "s\<lparr>rp_active := Some ?f, rp_cache := None\<rparr>"
  note v = fresh_view [OF assms(1)]
  have none: "rp_active s = None" "rp_cache s = None" using assms(1) by (simp_all add: fresh_repository_def)
  have run1: "append_authorization_audit io1 e1 s = (Inl OSError, ?s1)"
    using assms(2,4) ensure_uncached [OF v none(2)] none
    by (simp add: append_authorization_audit_def method_run Let_def view_cache_def active_size_def write_audit_def write_line_def add_line_def empty_file_def)
  have "verify_hash_linked zero_hash (Some ?f) = Inr \<lparr>lr_records = 1, lr_head = ?h\<rparr>"
    using verify_linked_extend [of zero_hash None "\<lparr>lr_records = 0, lr_head = zero_hash\<rparr>" "Some ?f" e1]
    by (simp add: verify_hash_linked_def [of zero_hash None] lines_of_def)
  then have v1: "audit_view ?s1 first_anchor zero_hash 1 0 1 ?h" using v by (simp add: audit_view_def)
  let ?r2 = "linked_record ?h e2" and ?c = "view_cache ?s1 zero_hash 1 1 ?h"
  let ?g = "?f\<lparr>af_lines := [Garbled], af_closed := True, af_size := encoded_size ?r1 - 1 + encoded_size ?r2, af_stamp := io_stamp io2\<rparr>"
  let ?s2 = "cached_append (encoded_size ?r2) ?r2 (?s1\<lparr>rp_cache := Some ?c, rp_active := Some ?g\<rparr>)"
  have run2: "append_authorization_audit io2 e2 ?s1 = (Inr ?r2, ?s2)"
    using assms(3,5,6) ensure_uncached [OF v1] none
    by (simp add: append_authorization_audit_def method_run Let_def view_cache_def active_size_def write_audit_def write_line_def add_line_def empty_file_def)
  have "\<exists>e. verify_hash_linked zero_hash (rp_active ?s2) = Inl e"
    by (simp add: cached_append_def verify_hash_linked_def lines_of_def)
  then have "\<exists>e. scan_audit ?s2 = Inl e"
    using v by (auto simp: scan_audit_def cached_append_def audit_view_def fresh_repository_def segment_paths_def first_anchor_def
        assms(1) [unfolded fresh_repository_def])
  with run1 run2 show ?thesis by blast
qed

theorem unterminated_audit_lost_witness:
  "\<exists>n s1 s2 r e. append_authorization_audit (plain_io\<lparr>io_write := Unterminated\<rparr>) [] (fresh_dir\<lparr>rp_rotate_bytes := n\<rparr>) = (Inl OSError, s1) \<and>
    append_authorization_audit plain_io [] s1 = (Inr r, s2) \<and> scan_audit s2 = Inl e"
proof -
  let ?n = "encoded_size (linked_record zero_hash []) + encoded_size (linked_record (chain_hash zero_hash (PDict [])) [])"
  have "length (canonical (PDict [])) \<le> 8192" by code_simp
  then show ?thesis
    using unterminated_audit_lost [of "fresh_dir\<lparr>rp_rotate_bytes := ?n\<rparr>" "plain_io\<lparr>io_write := Unterminated\<rparr>" plain_io "[]" "[]"]
    by (intro exI [of _ ?n]) (simp add: fresh_repository_def fresh_dir_def plain_io_def)
qed

end
