(* ===== verification/Planners.thy ===== *)
theory Planners
  imports Py_Monad
begin

text \<open>
  Four planners without state: \<^verbatim>\<open>src/backend/timing.py\<close> (when to dispatch a cue), \<^verbatim>\<open>plugin_latency.py\<close>
  (delay compensation of parallel paths), \<^verbatim>\<open>overload_policy.py\<close> (which effects to shed) and
  \<^verbatim>\<open>audio_conversion.py\<close> (which conversions a device needs).
\<close>

section \<open>Timing\<close>

definition max_u64 :: int where
  "max_u64 = 2 ^ 64 - 1"

definition u64 :: "pyval \<Rightarrow> string \<Rightarrow> pyerr + int" where
  "u64 v name =
     ebind (ecatch is_type_or_value (py_int v) (Inl (ValueError (name @ '' must be an integer'')))) (\<lambda>i.
     if i < 0 \<or> max_u64 < i then Inl (ValueError (name @ '' must be between 0 and '' @ show_int max_u64)) else Inr i)"

record timing_plan_result =
  tp_now :: int
  tp_target :: int
  tp_fixed :: int
  tp_jitter :: int
  tp_lookahead :: int
  tp_margin :: int
  tp_timestamped :: bool

definition jitter_margin :: "timing_plan_result \<Rightarrow> int" where
  "jitter_margin t = min max_u64 (tp_jitter t * tp_margin t)"

definition tp_reserve :: "timing_plan_result \<Rightarrow> int" where
  "tp_reserve t = max (min max_u64 (tp_fixed t + jitter_margin t)) (tp_lookahead t)"

definition tp_dispatch :: "timing_plan_result \<Rightarrow> int" where
  "tp_dispatch t = (if tp_reserve t < tp_target t then tp_target t - tp_reserve t else 0)"

definition tp_late :: "timing_plan_result \<Rightarrow> bool" where
  "tp_late t = (tp_dispatch t < tp_now t)"

definition timing_plan :: "pydict \<Rightarrow> pyerr + timing_plan_result" where
  "timing_plan data =
     ebind (u64 (dgetd data ''nowNs'' (PInt 0)) ''nowNs'') (\<lambda>now.
     ebind (u64 (dgetn data ''targetNs'') ''targetNs'') (\<lambda>target.
     ebind (u64 (dgetd data ''fixedLatencyNs'' (PInt 0)) ''fixedLatencyNs'') (\<lambda>fixed.
     ebind (u64 (dgetd data ''jitterNs'' (PInt 0)) ''jitterNs'') (\<lambda>jitter.
     ebind (u64 (dgetd data ''minimumLookaheadNs'' (PInt 0)) ''minimumLookaheadNs'') (\<lambda>lookahead.
     ebind (get_int data ''jitterMarginMultiplier'' (PInt 2)) (\<lambda>margin.
     ebind (eguard (0 \<le> margin \<and> margin \<le> 16) (ValueError ''jitterMarginMultiplier must be between 0 and 16'')) (\<lambda>_.
     Inr \<lparr>tp_now = now, tp_target = target, tp_fixed = fixed, tp_jitter = jitter, tp_lookahead = lookahead, tp_margin = margin,
          tp_timestamped = truthy (dgetd data ''timestamped'' (PBool True))\<rparr>)))))))"

definition timing_plan_dict :: "timing_plan_result \<Rightarrow> pydict" where
  "timing_plan_dict t =
     [(''nowNs'', PInt (tp_now t)), (''targetNs'', PInt (tp_target t)), (''dispatchNs'', PInt (tp_dispatch t)), (''reserveNs'', PInt (tp_reserve t)),
      (''late'', PBool (tp_late t)), (''timestamped'', PBool (tp_timestamped t)),
      (''profile'', PDict [(''fixedLatencyNs'', PInt (tp_fixed t)), (''jitterNs'', PInt (tp_jitter t)),
         (''minimumLookaheadNs'', PInt (tp_lookahead t)), (''jitterMarginMultiplier'', PInt (tp_margin t))])]"

lemma u64_range: "u64 v name = Inr i \<Longrightarrow> 0 \<le> i \<and> i \<le> max_u64"
  by (auto simp: u64_def ebind_eq_Inr split: if_splits)

text \<open>
  A timing plan stays within unsigned 64-bit nanoseconds, whatever is requested, and leaves the
  path its time: the dispatch is never after the target, a cue dispatched at its time and not
  clipped at zero reaches the target with exactly the reserve left, and the reserve is the largest
  of the look-ahead and the fixed latency with its jitter margin, saturated at the largest value.
\<close>

theorem timing_plan_bounds:
  assumes "timing_plan data = Inr t"
  shows "0 \<le> tp_dispatch t \<and> tp_dispatch t \<le> tp_target t \<and> tp_target t \<le> max_u64 \<and> 0 \<le> tp_reserve t \<and> tp_reserve t \<le> max_u64 \<and>
    (0 < tp_dispatch t \<longrightarrow> tp_dispatch t + tp_reserve t = tp_target t) \<and> (tp_dispatch t = 0 \<longrightarrow> tp_target t \<le> tp_reserve t) \<and>
    tp_lookahead t \<le> tp_reserve t \<and> (tp_fixed t + tp_jitter t * tp_margin t \<le> max_u64 \<longrightarrow> tp_fixed t + tp_jitter t * tp_margin t \<le> tp_reserve t)"
proof -
  from assms have r: "0 \<le> tp_target t" "tp_target t \<le> max_u64" "0 \<le> tp_fixed t" "0 \<le> tp_jitter t" "0 \<le> tp_lookahead t" "tp_lookahead t \<le> max_u64"
    and m: "0 \<le> tp_margin t"
    by (auto simp: timing_plan_def ebind_eq_Inr dest!: u64_range)
  have j: "0 \<le> tp_jitter t * tp_margin t" using r(4) m by simp
  have "(0 :: int) \<le> max_u64" by (simp add: max_u64_def)
  with r j show ?thesis
    unfolding tp_dispatch_def tp_reserve_def jitter_margin_def by auto
qed

theorem timing_plan_bounds_witness:
  "\<exists>t. timing_plan [(''targetNs'', PInt 1000), (''fixedLatencyNs'', PInt 300), (''jitterNs'', PInt 50)] = Inr t \<and>
     tp_dispatch t = 600 \<and> tp_dispatch t + tp_reserve t = tp_target t"
proof -
  let ?d = "[(''targetNs'', PInt 1000), (''fixedLatencyNs'', PInt 300), (''jitterNs'', PInt 50)]"
  have "\<not> isl (timing_plan ?d)" by code_simp
  then have t: "timing_plan ?d = Inr (projr (timing_plan ?d))" by simp
  have "tp_dispatch (projr (timing_plan ?d)) = 600" by code_simp
  with timing_plan_bounds [OF t] t show ?thesis by auto
qed

section \<open>Plugin latency\<close>

definition plain_int :: "pyval \<Rightarrow> int option" where
  \<comment> \<open>\<open>isinstance(v, int) and not isinstance(v, bool)\<close>\<close>
  "plain_int v = (case v of PInt i \<Rightarrow> Some i | _ \<Rightarrow> None)"

record latency_path =
  lp_id :: string
  lp_latency :: int
  lp_slot :: "int option"

definition path_slot :: "pydict \<Rightarrow> latency_path list \<Rightarrow> pyerr + int option" where
  "path_slot raw seen =
     (if \<not> din ''outputSlot'' raw then Inr None
      else (case plain_int (dgetn raw ''outputSlot'') of
        Some s \<Rightarrow>
          if \<not> (0 \<le> s \<and> s \<le> 15) then Inl (ValueError ''plugin output slot must be an integer from 0 through 15'')
          else if Some s \<in> set (map lp_slot seen) then Inl (ValueError ''duplicate plugin output slot'') else Inr (Some s)
      | None \<Rightarrow> Inl (ValueError ''plugin output slot must be an integer from 0 through 15'')))"

definition path_id :: "pydict \<Rightarrow> pyerr + string" where
  "path_id raw =
     (case dgetd raw ''pathId'' (PStr []) of
        PStr s \<Rightarrow> if strip s = [] \<or> 128 < length s then Inl (ValueError ''plugin path id must contain 1..128 characters'') else Inr s
      | _ \<Rightarrow> Inl (ValueError ''plugin path id must contain 1..128 characters''))"

definition latency_step :: "int \<Rightarrow> pyval \<Rightarrow> latency_path list \<Rightarrow> pyerr + latency_path list" where
  "latency_step maximum_delay v seen =
     (case v of
        PDict raw \<Rightarrow>
          (case plain_int (dgetd raw ''latencyFrames'' (PInt 0)) of
             None \<Rightarrow> Inl (ValueError ''plugin latency must be an integer frame count'')
           | Some latency \<Rightarrow>
               if latency < 0 \<or> maximum_delay < latency then Inl (ValueError ''plugin path latency exceeds compensation capacity'')
               else
                 ebind (path_id raw) (\<lambda>i.
                 if i \<in> set (map lp_id seen) then Inl (ValueError ''duplicate plugin path id'')
                 else ebind (path_slot raw seen) (\<lambda>slot. Inr (seen @ [\<lparr>lp_id = i, lp_latency = latency, lp_slot = slot\<rparr>]))))
      | _ \<Rightarrow> Inl (ValueError ''plugin path must be an object''))"

definition maximum_latency :: "latency_path list \<Rightarrow> int" where
  "maximum_latency ps = fold (\<lambda>p m. max m (lp_latency p)) ps 0"

definition compensation :: "latency_path list \<Rightarrow> latency_path \<Rightarrow> int" where
  "compensation ps p = maximum_latency ps - lp_latency p"

definition latency_compensation_plan :: "int \<Rightarrow> pyval list \<Rightarrow> pyerr + latency_path list" where
  "latency_compensation_plan maximum_delay paths =
     (if paths = [] then Inl (ValueError ''latency plan requires at least one path'')
      else if 64 < length paths then Inl (ValueError ''latency plan supports at most 64 paths'')
      else efold (latency_step maximum_delay) paths [])"

definition latency_path_dict :: "latency_path list \<Rightarrow> latency_path \<Rightarrow> pydict" where
  "latency_path_dict ps p =
     [(''pathId'', PStr (lp_id p)), (''latencyFrames'', PInt (lp_latency p))] @
     (case lp_slot p of Some s \<Rightarrow> [(''outputSlot'', PInt s)] | None \<Rightarrow> []) @ [(''compensationFrames'', PInt (compensation ps p))]"

definition latency_plan_dict :: "latency_path list \<Rightarrow> pydict" where
  "latency_plan_dict ps =
     [(''documentType'', PStr ''org.upp.daw.plugin-delay-plan''), (''schemaVersion'', PInt 1),
      (''paths'', PList (map (PDict \<circ> latency_path_dict ps) ps)), (''maximumLatencyFrames'', PInt (maximum_latency ps)),
      (''latencyAligned'', PBool True), (''physicalOutputsArmed'', PBool False)]"

definition paths_ok :: "int \<Rightarrow> latency_path list \<Rightarrow> bool" where
  "paths_ok maximum_delay ps = (distinct (map lp_id ps) \<and> list_all (\<lambda>p. 0 \<le> lp_latency p \<and> lp_latency p \<le> maximum_delay) ps)"

lemma latency_step_ok: "paths_ok d ps \<Longrightarrow> latency_step d v ps = Inr ps' \<Longrightarrow> paths_ok d ps'"
  by (auto simp: paths_ok_def latency_step_def ebind_eq_Inr split: pyval.splits option.splits if_splits)

lemma fold_max_ge: "m \<le> fold (\<lambda>p m. max m (lp_latency p)) ps m"
proof (induction ps arbitrary: m)
  case (Cons a ps)
  show ?case using Cons [of "max m (lp_latency a)"] by simp
qed simp

lemma fold_max_upper: "p \<in> set ps \<Longrightarrow> lp_latency p \<le> fold (\<lambda>p m. max m (lp_latency p)) ps m"
proof (induction ps arbitrary: m)
  case (Cons a ps)
  then show ?case using fold_max_ge [of "max m (lp_latency a)" ps] by auto
qed simp

lemma fold_max_least: "m \<le> d \<Longrightarrow> list_all (\<lambda>p. lp_latency p \<le> d) ps \<Longrightarrow> fold (\<lambda>p m. max m (lp_latency p)) ps m \<le> d"
  by (induction ps arbitrary: m) simp_all

lemma maximum_latency_bounds:
  assumes "paths_ok d ps" and "0 \<le> d" and "p \<in> set ps"
  shows "lp_latency p \<le> maximum_latency ps" and "maximum_latency ps \<le> d"
  using assms fold_max_upper [of p ps 0] fold_max_least [of 0 d ps]
  by (auto simp: maximum_latency_def paths_ok_def list_all_iff)

text \<open>Every accepted plan aligns its paths: latency and compensation add up to the same delay, and no
  compensation is negative or above the capacity of the delay lines.\<close>

lemma latency_plan_aligned:
  assumes "latency_compensation_plan d paths = Inr ps" and "0 \<le> d" and "p \<in> set ps"
  shows "lp_latency p + compensation ps p = maximum_latency ps" and "0 \<le> compensation ps p" and "compensation ps p \<le> d"
proof -
  from assms(1) have "efold (latency_step d) paths [] = Inr ps" by (auto simp: latency_compensation_plan_def split: if_splits)
  moreover have "paths_ok d []" by (simp add: paths_ok_def)
  ultimately have ok: "paths_ok d ps" using latency_step_ok by (rule efold_invariant)
  show "lp_latency p + compensation ps p = maximum_latency ps" by (simp add: compensation_def)
  from maximum_latency_bounds [OF ok assms(2,3)] ok assms(3) show "0 \<le> compensation ps p" "compensation ps p \<le> d"
    by (auto simp: compensation_def paths_ok_def list_all_iff)
qed

section \<open>Overload shedding\<close>

record effect_class =
  ec_id :: int
  ec_slot :: int
  ec_safety :: string
  ec_mode :: string
  ec_priority :: int

definition overload_level :: "pyval \<Rightarrow> pyerr + int" where
  "overload_level v =
     ebind (as_dict v) (\<lambda>raw.
     case plain_int (dgetd raw ''overloadLevel'' (PInt 0)) of
       Some i \<Rightarrow> if 0 \<le> i \<and> i \<le> 2 then Inr i else Inl (ValueError ''overload level must be an integer from 0 through 2'')
     | None \<Rightarrow> Inl (ValueError ''overload level must be an integer from 0 through 2''))"

definition checked_int :: "(int \<Rightarrow> bool) \<Rightarrow> string \<Rightarrow> pyval \<Rightarrow> pyerr + int" where
  "checked_int ok message v =
     (case plain_int v of Some i \<Rightarrow> if ok i then Inr i else Inl (ValueError message) | None \<Rightarrow> Inl (ValueError message))"

definition effect_step :: "pyval \<Rightarrow> effect_class list \<Rightarrow> pyerr + effect_class list" where
  "effect_step v seen =
     (case v of
        PDict raw \<Rightarrow>
          (let safety = py_str (dgetd raw ''safetyClass'' (PStr [])); mode = py_str (dgetd raw ''bypassMode'' (PStr [])) in
           ebind (checked_int (\<lambda>i. 0 < i \<and> i \<notin> set (map ec_id seen)) ''effectId must be a unique positive integer'' (dgetn raw ''effectId'')) (\<lambda>i.
           ebind (checked_int (\<lambda>s. 0 \<le> s \<and> s \<le> 3) ''effect outputSlot must be 0..3'' (dgetn raw ''outputSlot'')) (\<lambda>slot.
           ebind (eguard (safety \<in> {''essential'', ''optional''}) (ValueError ''effect safetyClass must be essential or optional'')) (\<lambda>_.
           ebind (eguard (mode \<in> {''never'', ''latency-preserving''}) (ValueError ''effect bypassMode must be never or latency-preserving'')) (\<lambda>_.
           ebind (checked_int (\<lambda>p. 0 \<le> p \<and> p \<le> 1000) ''shedPriority must be an integer from 0 through 1000'' (dgetd raw ''shedPriority'' (PInt 0))) (\<lambda>priority.
           Inr (seen @ [\<lparr>ec_id = i, ec_slot = slot, ec_safety = safety, ec_mode = mode, ec_priority = priority\<rparr>])))))))
      | _ \<Rightarrow> Inl (ValueError ''effect classification must be an object''))"

definition sheddable :: "effect_class \<Rightarrow> bool" where
  "sheddable e = (ec_safety e = ''optional'' \<and> ec_mode e = ''latency-preserving'')"

text \<open>Highest priority first, then by output slot and identifier: three stable sorts, the last one decides.\<close>

definition shed_order :: "effect_class list \<Rightarrow> effect_class list" where
  "shed_order es = sort_key (\<lambda>e. - ec_priority e) (sort_key ec_slot (sort_key ec_id es))"

definition prior_step :: "effect_class list \<Rightarrow> pyval \<Rightarrow> int list \<Rightarrow> pyerr + int list" where
  "prior_step es v prior =
     ebind (checked_int (\<lambda>i. i \<in> set (map ec_id es)) ''policyBypassedEffectIds must reference classified effects'' v) (\<lambda>i.
     Inr (if i \<in> set prior then prior else prior @ [i]))"

record shedding_plan =
  sp_level :: int
  sp_effects :: "effect_class list"
  sp_bypass :: "int list"
  sp_restore :: "int list"

definition overload_shedding_plan :: "pyval list \<Rightarrow> pyval list \<Rightarrow> pyval list \<Rightarrow> pyerr + shedding_plan" where
  "overload_shedding_plan outputs effects bypassed =
     ebind (emap overload_level outputs) (\<lambda>levels.
     ebind (efold effect_step effects []) (\<lambda>es.
     ebind (efold (prior_step es) bypassed []) (\<lambda>prior.
     let level = fold max levels 0; eligible = shed_order (filter sheddable es) in
     Inr \<lparr>sp_level = level, sp_effects = es,
          sp_bypass = (if level = 0 then [] else if level = 1 \<and> eligible \<noteq> [] then [ec_id (hd eligible)] else map ec_id eligible),
          sp_restore = (if level = 0 then sort prior else [])\<rparr>)))"

definition shedding_dict :: "shedding_plan \<Rightarrow> pydict" where
  "shedding_dict p =
     [(''documentType'', PStr ''org.upp.audio.overload-shedding-plan''), (''schemaVersion'', PInt 1), (''overloadLevel'', PInt (sp_level p)),
      (''action'', PStr (if sp_restore p \<noteq> [] then ''restore'' else if sp_bypass p \<noteq> [] then ''shed'' else ''hold'')),
      (''recommendedBypassEffectIds'', ints (sp_bypass p)), (''recommendedRestoreEffectIds'', ints (sp_restore p)),
      (''blockedOptionalEffectIds'', ints (map ec_id (filter (\<lambda>e. ec_safety e = ''optional'' \<and> ec_mode e \<noteq> ''latency-preserving'') (sp_effects p)))),
      (''essentialEffectIds'', ints (map ec_id (filter (\<lambda>e. ec_safety e = ''essential'') (sp_effects p)))),
      (''deterministicOrder'', PStr ''priority-descending-output-slot-effect-id''),
      (''requiresPreparedDelayGraph'', PBool (sp_bypass p \<noteq> [] \<or> sp_restore p \<noteq> [])), (''automaticApply'', PBool False),
      (''latencyPreservingOnly'', PBool True), (''physicalOutputsArmed'', PBool False)]"

text \<open>An essential effect, or one whose bypass would change the latency, is never shed.\<close>

lemma only_sheddable_bypassed:
  assumes "overload_shedding_plan outputs effects bypassed = Inr p" and "i \<in> set (sp_bypass p)"
  shows "\<exists>e \<in> set (sp_effects p). ec_id e = i \<and> sheddable e"
proof -
  from assms obtain es where es: "sp_effects p = es" and i: "i \<in> set (map ec_id (shed_order (filter sheddable es)))"
    by (auto simp: overload_shedding_plan_def ebind_eq_Inr Let_def split: if_splits)
  then show ?thesis by (auto simp: shed_order_def)
qed

section \<open>Audio conversion\<close>

definition audio_formats :: "string list" where
  "audio_formats = [''FLOAT_LE'', ''S32_LE'', ''S24_3LE'', ''S16_LE'']"

record audio_device =
  ad_rate :: int
  ad_channels :: int
  ad_format :: string

definition read_device :: "pydict \<Rightarrow> pyerr + audio_device" where
  "read_device d =
     ebind (ecatch is_key_type_or_value
       (ebind (ebind (dindex d ''sampleRate'') py_int) (\<lambda>rate.
        ebind (ebind (dindex d ''channels'') py_int) (\<lambda>channels.
        ebind (dindex d ''format'') (\<lambda>f. Inr \<lparr>ad_rate = rate, ad_channels = channels, ad_format = py_str f\<rparr>))))
       (Inl (ValueError ''device parameters require sampleRate, channels and format''))) (\<lambda>x.
     if 8000 \<le> ad_rate x \<and> ad_rate x \<le> 384000 \<and> 1 \<le> ad_channels x \<and> ad_channels x \<le> 32 \<and> ad_format x \<in> set audio_formats then Inr x
     else Inl (ValueError ''invalid device audio parameters''))"

definition conversion_dict :: "string \<Rightarrow> bool \<Rightarrow> pyval \<Rightarrow> pyval \<Rightarrow> string \<Rightarrow> pydict" where
  \<comment> \<open>from the device when capturing, to it when playing\<close>
  "conversion_dict kind capture device engine algorithm =
     [(''kind'', PStr kind), (''from'', if capture then device else engine), (''to'', if capture then engine else device),
      (''algorithm'', PStr algorithm)]"

definition required_channels :: "bool \<Rightarrow> int \<Rightarrow> string" where
  "required_channels capture channels =
     (if capture \<and> channels = 1 then ''mono-to-stereo'' else if \<not> capture \<and> channels = 1 then ''stereo-to-mono'' else ''explicit-matrix'')"

definition channel_matrix :: "string \<Rightarrow> pydict" where
  "channel_matrix required =
     (if required = ''explicit-matrix'' then
        [(''canonicalLeft'', PInt 0), (''canonicalRight'', PInt 1), (''additionalDeviceChannels'', PStr ''silence-on-playback-ignore-on-capture'')]
      else if required = ''stereo-to-mono'' then [(''mono'', PStr ''0.5*left+0.5*right'')]
      else [(''left'', PStr ''mono''), (''right'', PStr ''mono'')])"

definition approved :: "pydict \<Rightarrow> string \<Rightarrow> string \<Rightarrow> string \<Rightarrow> pyerr + unit" where
  "approved policy k required message = eguard (dgetn policy k = PStr required) (ValueError (message @ '' conversion requires conversionPolicy.'' @ k @ ''='' @ required))"

definition rate_conversion :: "bool \<Rightarrow> pydict \<Rightarrow> audio_device \<Rightarrow> pyerr + pydict list" where
  "rate_conversion capture policy x =
     (if ad_rate x = 192000 then Inr []
      else ebind (approved policy ''sampleRate'' ''bounded-sinc'' ''sample-rate'') (\<lambda>_.
        Inr [conversion_dict ''sample-rate'' capture (PInt (ad_rate x)) (PInt 192000) ''bounded-sinc'']))"

definition format_conversion :: "bool \<Rightarrow> pydict \<Rightarrow> audio_device \<Rightarrow> pyerr + pydict list" where
  "format_conversion capture policy x =
     (if ad_format x = ''FLOAT_LE'' then Inr []
      else ebind (approved policy ''sampleFormat'' ''normalize-integer'' ''integer PCM'') (\<lambda>_.
        Inr [conversion_dict ''sample-format'' capture (PStr (ad_format x)) (PStr ''FLOAT_LE'') ''signed-normalization'']))"

definition channel_conversion :: "bool \<Rightarrow> pydict \<Rightarrow> audio_device \<Rightarrow> pyerr + pydict list" where
  "channel_conversion capture policy x =
     (if ad_channels x = 2 then Inr []
      else (let required = required_channels capture (ad_channels x) in
        ebind (approved policy ''channels'' required ''channel'') (\<lambda>_.
        Inr [conversion_dict ''channels'' capture (PInt (ad_channels x)) (PInt 2) required @ [(''matrix'', PDict (channel_matrix required))]])))"

record conversion_plan =
  cp_capture :: bool
  cp_device :: audio_device
  cp_conversions :: "pydict list"
  cp_flags :: int

definition audio_conversion_plan :: "pydict \<Rightarrow> pyval \<Rightarrow> string \<Rightarrow> pyerr + conversion_plan" where
  "audio_conversion_plan device policy0 direction =
     ebind (eguard (direction \<in> {''playback'', ''capture''}) (ValueError ''conversion direction must be playback or capture'')) (\<lambda>_.
     ebind (read_device device) (\<lambda>x.
     ebind (case policy0 of PNone \<Rightarrow> Inr [] | PDict d \<Rightarrow> Inr d | _ \<Rightarrow> Inl (ValueError ''conversionPolicy must be an object'')) (\<lambda>policy.
     let capture = (direction = ''capture'') in
     ebind (rate_conversion capture policy x) (\<lambda>a.
     ebind (format_conversion capture policy x) (\<lambda>b.
     ebind (channel_conversion capture policy x) (\<lambda>c.
     Inr \<lparr>cp_capture = capture, cp_device = x, cp_conversions = a @ b @ c,
          cp_flags = (if a = [] then 0 else 1) + (if b = [] then 0 else 4) + (if c = [] then 0 else 2)\<rparr>))))))"

definition conversion_plan_dict :: "conversion_plan \<Rightarrow> pydict" where
  "conversion_plan_dict p =
     (let x = cp_device p in
      [(''documentType'', PStr ''org.upp.audio-conversion-plan''), (''schemaVersion'', PInt 1),
       (''direction'', PStr (if cp_capture p then ''capture'' else ''playback'')),
       (''canonical'', PDict [(''sampleRate'', PInt 192000), (''format'', PStr ''FLOAT_LE''), (''channels'', PInt 2)]),
       (''device'', PDict [(''sampleRate'', PInt (ad_rate x)), (''format'', PStr (ad_format x)), (''channels'', PInt (ad_channels x))]),
       (''requiresConversion'', PBool (cp_conversions p \<noteq> [])), (''conversions'', PList (map PDict (cp_conversions p))),
       (''nativeConversionFlags'', PInt (cp_flags p)), (''upscalingRestoresMissingBandwidth'', PBool False), (''approved'', PBool True),
       (''physicalOutputsArmed'', PBool False)])"

text \<open>No conversion happens silently: without a policy only the canonical device is accepted.\<close>

lemma conversion_needs_policy:
  assumes "audio_conversion_plan device PNone direction = Inr p"
  shows "cp_device p = \<lparr>ad_rate = 192000, ad_channels = 2, ad_format = ''FLOAT_LE''\<rparr> \<and> cp_conversions p = [] \<and> cp_flags p = 0"
proof -
  have no: "approved [] k r m = Inr u \<longleftrightarrow> False" for k r m u
    by (simp add: approved_def eguard_def dgetn_def dgetd_def)
  from assms obtain x where x: "cp_device p = x" "ad_rate x = 192000" "ad_channels x = 2" "ad_format x = ''FLOAT_LE''"
      "cp_conversions p = []" "cp_flags p = 0"
    by (auto simp: audio_conversion_plan_def rate_conversion_def format_conversion_def channel_conversion_def Let_def ebind_eq_Inr no
        split: if_splits)
  then show ?thesis by simp
qed

end
