(* ===== verification/Http_Authorization.thy ===== *)
theory Http_Authorization
  imports Py_Monad
begin

text \<open>
  \<^verbatim>\<open>src/backend/http_authorization.py\<close>: the policy of roles per user, the classification of a route into an
  action and a target, and the decision on a request that changes the show.  The private policy file is read
  by a function that is a parameter: what it gives is an argument, an exception or a JSON value.
\<close>

section \<open>Roles and routes\<close>

definition role_names :: "string list" where
  "role_names = [''observer'', ''performer'', ''operator'', ''authority'', ''admin'']"

definition mutating_methods :: "string list" where
  "mutating_methods = [''POST'', ''PATCH'', ''PUT'', ''DELETE'']"

definition specialized_exact :: "(string \<times> string) list" where
  "specialized_exact =
     [(''POST'', ''/api/v1/handoff/execution/shadow''), (''POST'', ''/api/v1/handoff/execution/live''),
      (''POST'', ''/api/v1/venue/reconciliation/report''), (''POST'', ''/api/v1/le-uwb/observations/uwb''),
      (''POST'', ''/api/v1/le-uwb/observations/le''), (''POST'', ''/api/v1/venue/profile''),
      (''POST'', ''/api/v1/replication/apply''), (''POST'', ''/api/v1/handoff/planned/peer-ready''),
      (''POST'', ''/api/v1/community/accounts''), (''POST'', ''/api/v1/community/proposals''),
      (''POST'', ''/api/v1/community/vote''), (''POST'', ''/api/v1/community/session''),
      (''POST'', ''/api/v1/community/session/revoke''), (''POST'', ''/api/v1/community/public-record/reconcile''),
      (''POST'', ''/api/v1/public-record/witness''), (''POST'', ''/api/v1/technology/conformance-receipt''),
      (''PATCH'', ''/api/v1/community/policy'')]"

definition authority_exact :: "string list" where
  "authority_exact = [''/api/v1/witness/recover'', ''/api/v1/node/role'', ''/api/v1/failover/promote'']"

definition authority_prefixes :: "string list" where
  "authority_prefixes = [''/api/v1/handoff/planned/'', ''/api/v1/venue/authority/'']"

definition player_suffix_actions :: "(string \<times> string) list" where
  "player_suffix_actions =
     [(''/monitor'', ''player.monitor.write''), (''/midi/input'', ''player.midi.write''), (''/notation/note'', ''player.notation.write''),
      (''/notation/clear'', ''player.notation.write''), (''/notation/settings'', ''player.notation.write'')]"

record authorization_decision =
  ad_allowed :: bool
  ad_actor :: "string option"
  ad_roles :: "string list"
  ad_action :: string
  ad_target :: "string option"
  ad_reason :: string

section \<open>The policy\<close>

definition valid_identifier :: "pyval \<Rightarrow> bool" where
  "valid_identifier v = (case v of
     PStr s \<Rightarrow> s = strip s \<and> 0 < length s \<and> length s \<le> 128 \<and> list_all (\<lambda>c. 32 \<le> ord_of c \<and> ord_of c \<noteq> 127) s
   | _ \<Rightarrow> False)"

record user_record =
  ur_roles :: "string list"
  ur_players :: "string list"

type_synonym http_policy = "(string \<times> user_record) list"

definition str_of :: "pyval \<Rightarrow> string" where
  "str_of v = (case v of PStr s \<Rightarrow> s | _ \<Rightarrow> [])"

definition roles_ok :: "pyval \<Rightarrow> bool" where
  "roles_ok v = (case v of
     PList rs \<Rightarrow> 1 \<le> length rs \<and> length rs \<le> length role_names \<and>
       list_all (\<lambda>r. case r of PStr s \<Rightarrow> s \<in> set role_names | _ \<Rightarrow> False) rs \<and> distinct rs
   | _ \<Rightarrow> False)"

definition players_ok :: "pyval \<Rightarrow> bool" where
  "players_ok v = (case v of
     PList ps \<Rightarrow> length ps \<le> 32 \<and> list_all valid_identifier ps \<and> distinct ps
   | _ \<Rightarrow> False)"

definition read_user :: "string \<times> pyval \<Rightarrow> http_policy \<Rightarrow> pyerr + http_policy" where
  "read_user x acc =
     (let (actor, rec0) = x; d = dict_of rec0; roles = dgetn d ''roles''; players = dgetd d ''players'' (PList []) in
      ebind (eguard (valid_identifier (PStr actor)) (ValueError ''invalid actor'')) (\<lambda>_.
      ebind (eguard (is_dict rec0 \<and> set (dkeys d) \<subseteq> {''roles'', ''players''}) (ValueError ''invalid user record'')) (\<lambda>_.
      ebind (eguard (roles_ok roles) (ValueError ''invalid roles'')) (\<lambda>_.
      ebind (eguard (players_ok players) (ValueError ''invalid players'')) (\<lambda>_.
      Inr (dset acc actor \<lparr>ur_roles = sort (map str_of (list_of roles)), ur_players = map str_of (list_of players)\<rparr>))))))"

definition is_policy_error :: "pyerr \<Rightarrow> bool" where
  "is_policy_error e = (case e of OSError \<Rightarrow> True | ValueError _ \<Rightarrow> True | AttributeError \<Rightarrow> True | _ \<Rightarrow> False)"

definition authorization_policy :: "(pyerr + pyval) option \<Rightarrow> pyerr + http_policy option" where
  "authorization_policy file0 =
     (case file0 of
        None \<Rightarrow> Inr None
      | Some r \<Rightarrow>
          ecatch is_policy_error
            (ebind r (\<lambda>v.
             let d = dict_of v; users = dgetn d ''users'' in
             ebind (eguard (is_dict v \<and> set (dkeys d) = {''version'', ''users''} \<and> veq (dgetn d ''version'') (PInt 1)) (ValueError ''invalid policy root'')) (\<lambda>_.
             ebind (eguard (is_dict users \<and> length (dict_of users) \<le> 1024) (ValueError ''invalid users'')) (\<lambda>_.
             ebind (efold read_user (dict_of users) []) (\<lambda>us. Inr (Some us))))))
            (Inl (PermissionError ''HTTP authorization file unavailable or invalid'')))"

section \<open>Classification\<close>

definition upper_char :: "char \<Rightarrow> char" where
  "upper_char c = (if 97 \<le> ord_of c \<and> ord_of c \<le> 122 then char_of (ord_of c - 32) else c)"

definition py_upper :: "string \<Rightarrow> string" where
  \<comment> \<open>of a method token, which is ASCII\<close>
  "py_upper s = map upper_char s"

definition specialized_authorization_route :: "string \<Rightarrow> string \<Rightarrow> bool" where
  "specialized_authorization_route verb path =
     (let m = py_upper verb in
      (m, path) \<in> set specialized_exact \<or> m \<in> set mutating_methods \<and> startswith path ''/api/v1/community/proposals/'')"

definition player_prefix :: string where
  "player_prefix = ''/api/v1/players/''"

definition cut_suffix :: "string \<Rightarrow> string \<Rightarrow> string" where
  \<comment> \<open>\<open>s[:-len(suffix)]\<close> of a text that ends with the non-empty suffix\<close>
  "cut_suffix s suffix = take (length s - length suffix) s"

fun player_suffix :: "string \<Rightarrow> (string \<times> string) list \<Rightarrow> (string \<times> string) option" where
  "player_suffix tail [] = None"
| "player_suffix tail ((suffix, action) # rest) =
     (let player = strip_char (CHR ''/'') (cut_suffix tail suffix) in
      if endswith tail suffix \<and> player \<noteq> [] \<and> CHR ''/'' \<notin> set player then Some (action, player) else player_suffix tail rest)"

definition player_action :: "string \<Rightarrow> (string \<times> string) option" where
  "player_action path =
     (if startswith path player_prefix then player_suffix (drop (length player_prefix) path) player_suffix_actions else None)"

definition classify_control_action :: "string \<Rightarrow> string \<times> string option \<times> bool" where
  "classify_control_action path =
     (let tail = drop (length ''/api/v1/'') path in
      case player_action path of
        Some (action, player) \<Rightarrow> (action, Some player, False)
      | None \<Rightarrow>
          if path \<in> set authority_exact \<or> list_ex (startswith path) authority_prefixes
          then (''authority.'' @ map (\<lambda>c. if c = CHR ''/'' then CHR ''.'' else c) tail, None, True)
          else if path = ''/api/v1/handoff'' then (''authority.handoff.policy'', None, True)
          else if startswith path ''/api/v1/''
          then (let domain = takeWhile (\<lambda>c. c \<noteq> CHR ''/'') tail in ((if domain = [] then ''api'' else domain) @ ''.control'', None, False))
          else (''http.control'', None, False))"

section \<open>The decision\<close>

definition decide_for :: "string \<Rightarrow> user_record \<Rightarrow> string \<times> string option \<times> bool \<Rightarrow> authorization_decision" where
  "decide_for actor u x =
     (let (action, target, sensitive) = x; roles = ur_roles u;
          answer = (\<lambda>allowed reason. \<lparr>ad_allowed = allowed, ad_actor = Some actor, ad_roles = roles, ad_action = action, ad_target = target, ad_reason = reason\<rparr>) in
      if ''admin'' \<in> set roles then answer True ''admin-role''
      else if sensitive then
        (if ''authority'' \<in> set roles then answer True ''authority-role'' else answer False ''authority-role-required'')
      else
        (case target of
           Some player \<Rightarrow>
             if ''operator'' \<in> set roles then answer True ''operator-role''
             else if ''performer'' \<in> set roles \<and> player \<in> set (ur_players u) then answer True ''assigned-performer''
             else answer False ''player-control-not-authorized''
         | None \<Rightarrow> if ''operator'' \<in> set roles then answer True ''operator-role'' else answer False ''operator-role-required''))"

definition authorize_control_request :: "http_policy option \<Rightarrow> string option \<Rightarrow> string \<Rightarrow> string \<Rightarrow> authorization_decision option" where
  "authorize_control_request policy actor0 verb path =
     (case policy of
        None \<Rightarrow> None
      | Some users \<Rightarrow>
          if py_upper verb \<notin> set mutating_methods \<or> \<not> startswith path ''/api/v1/'' \<or> specialized_authorization_route verb path then None
          else
            (let x = classify_control_action path;
                 refuse = (\<lambda>who reason. \<lparr>ad_allowed = False, ad_actor = who, ad_roles = [], ad_action = fst x, ad_target = fst (snd x), ad_reason = reason\<rparr>) in
             Some (case actor0 of
                None \<Rightarrow> refuse None ''authenticated-user-required''
              | Some actor \<Rightarrow>
                  if actor = [] then refuse None ''authenticated-user-required''
                  else (case dget users actor of
                     None \<Rightarrow> refuse (Some actor) ''user-not-authorized''
                   | Some u \<Rightarrow> decide_for actor u x))))"

section \<open>Who may do what\<close>

text \<open>The routes of one player, and the routes that move authority, as the sets of paths they are.\<close>

definition player_route :: "string \<Rightarrow> string \<Rightarrow> bool" where
  "player_route path player =
     (player \<noteq> [] \<and> CHR ''/'' \<notin> set player \<and>
      (\<exists>suffix \<in> fst ` set player_suffix_actions. \<exists>a b.
         path = player_prefix @ replicate a (CHR ''/'') @ player @ replicate b (CHR ''/'') @ suffix))"

definition authority_route :: "string \<Rightarrow> bool" where
  "authority_route path =
     (path \<in> set authority_exact \<or> path = ''/api/v1/handoff'' \<or> (\<exists>prefix \<in> set authority_prefixes. \<exists>rest. path = prefix @ rest))"

lemma dropWhile_replicate: "\<exists>a. s = replicate a c @ dropWhile (\<lambda>x. x = c) s"
proof (induction s)
  case (Cons x s)
  then obtain a where "s = replicate a c @ dropWhile (\<lambda>x. x = c) s" by blast
  then show ?case by (cases "x = c") (auto intro: exI [of _ "Suc a"] exI [of _ 0])
qed simp

lemma strip_char_around: "\<exists>a b. s = replicate a c @ strip_char c s @ replicate b c"
proof -
  define t where "t = dropWhile (\<lambda>x. x = c) s"
  define u where "u = dropWhile (\<lambda>x. x = c) (rev t)"
  obtain a where a: "s = replicate a c @ t" unfolding t_def using dropWhile_replicate [of s c] ..
  obtain b where "rev t = replicate b c @ u" unfolding u_def using dropWhile_replicate [of "rev t" c] ..
  then have "rev (rev t) = rev u @ replicate b c" by simp
  then have "s = replicate a c @ rev u @ replicate b c" using a by simp
  moreover have "strip_char c s = rev u" by (simp add: strip_char_def rstrip_char_def t_def u_def)
  ultimately show ?thesis by metis
qed

lemma strip_char_inner:
  assumes "p \<noteq> []" and "c \<notin> set p"
  shows "strip_char c (replicate a c @ p @ replicate b c) = p"
proof -
  have h: "dropWhile (\<lambda>x. x = c) (replicate n c @ q @ r) = q @ r" if "q \<noteq> []" "c \<notin> set q" for n and q r :: string
    using that by (induction n) (cases q; auto)+
  have "dropWhile (\<lambda>x. x = c) (replicate b c @ rev p) = rev p"
    using h [of "rev p" b "[]"] assms by simp
  then show ?thesis using h [OF assms, of a "replicate b c"] by (simp add: strip_char_def rstrip_char_def)
qed

lemma startswith_iff: "startswith s p \<longleftrightarrow> (\<exists>r. s = p @ r)"
  by (auto simp: startswith_def intro: exI [of _ "drop (length p) s"] dest: sym) (metis append_take_drop_id)

lemma endswith_iff: "endswith s p \<longleftrightarrow> (\<exists>r. s = r @ p)"
  by (auto simp: endswith_def) (metis append_take_drop_id)

lemma cut_suffix_append [simp]: "cut_suffix (r @ p) p = r"
  by (simp add: cut_suffix_def)

lemma player_suffix_sound:
  "player_suffix tail xs = Some (action, player) \<Longrightarrow>
   player \<noteq> [] \<and> CHR ''/'' \<notin> set player \<and>
   (\<exists>suffix. (suffix, action) \<in> set xs \<and> (\<exists>a b. tail = replicate a (CHR ''/'') @ player @ replicate b (CHR ''/'') @ suffix))"
proof (induction tail xs rule: player_suffix.induct)
  case (2 tail suffix act rest)
  let ?p = "strip_char (CHR ''/'') (cut_suffix tail suffix)"
  show ?case
  proof (cases "endswith tail suffix \<and> ?p \<noteq> [] \<and> CHR ''/'' \<notin> set ?p")
    case True
    with "2.prems" have p: "player = ?p" "action = act" by (auto simp: Let_def)
    from True obtain r where r: "tail = r @ suffix" by (auto simp: endswith_iff)
    obtain a b where "r = replicate a (CHR ''/'') @ ?p @ replicate b (CHR ''/'')"
      using strip_char_around [of r "CHR ''/''"] by (auto simp: r)
    with True p r show ?thesis by (metis append_assoc list.set_intros(1))
  next
    case False
    with 2 show ?thesis by (auto simp: Let_def)
  qed
qed simp

definition last_six :: "string \<Rightarrow> string" where
  "last_six s = drop (length s - 6) s"

lemma last_six_append: "6 \<le> length s \<Longrightarrow> last_six (r @ s) = last_six s"
  by (simp add: last_six_def)

lemma player_suffix_complete:
  assumes "(suffix, action) \<in> set xs" and "tail = replicate a (CHR ''/'') @ player @ replicate b (CHR ''/'') @ suffix"
    and "player \<noteq> []" and "CHR ''/'' \<notin> set player"
    and "\<forall>x \<in> set xs. 6 \<le> length (fst x)" and "distinct (map (last_six \<circ> fst) xs)"
  shows "player_suffix tail xs = Some (action, player)"
  using assms
proof (induction tail xs rule: player_suffix.induct)
  case (2 tail suf act rest)
  have "tail = (replicate a (CHR ''/'') @ player @ replicate b (CHR ''/'')) @ suffix" using "2.prems"(2) by simp
  then have cut: "cut_suffix tail suffix = replicate a (CHR ''/'') @ player @ replicate b (CHR ''/'')" "endswith tail suffix"
    by (simp_all add: endswith_iff del: append_assoc)
  show ?case
  proof (cases "suf = suffix")
    case True
    have "act = action"
      using "2.prems"(1,6) True by (auto simp: rev_image_eqI)
    with True cut show ?thesis using "2.prems"(3,4) by (simp add: strip_char_inner)
  next
    case False
    with "2.prems"(1) have rest: "(suffix, action) \<in> set rest" by auto
    have "last_six suf \<noteq> last_six suffix" using rest "2.prems"(6) by (force simp: image_iff)
    moreover have "last_six tail = last_six suffix" using "2.prems"(1,2,5) by (auto simp: last_six_append)
    moreover have "last_six tail = last_six suf" if "endswith tail suf" using that "2.prems"(5) by (auto simp: endswith_iff last_six_append)
    ultimately have "\<not> endswith tail suf" by auto
    with rest "2.IH" "2.prems" show ?thesis by (auto simp: Let_def)
  qed
qed simp

lemma player_action_iff: "(\<exists>action. player_action path = Some (action, player)) \<longleftrightarrow> player_route path player"
proof
  assume "\<exists>action. player_action path = Some (action, player)"
  then obtain action where a: "startswith path player_prefix" "player_suffix (drop (length player_prefix) path) player_suffix_actions = Some (action, player)"
    by (auto simp: player_action_def split: if_splits)
  from a(1) obtain tail where t: "path = player_prefix @ tail" by (auto simp: startswith_iff)
  from player_suffix_sound [OF a(2)] show "player_route path player" unfolding player_route_def t by (force simp: image_iff)
next
  assume r: "player_route path player"
  then obtain suffix action a b where s: "(suffix, action) \<in> set player_suffix_actions"
    "path = player_prefix @ replicate a (CHR ''/'') @ player @ replicate b (CHR ''/'') @ suffix" by (auto simp: player_route_def)
  have "\<forall>x \<in> set player_suffix_actions. 6 \<le> length (fst x)" "distinct (map (last_six \<circ> fst) player_suffix_actions)" by code_simp+
  with player_suffix_complete [OF s(1) refl] r have "player_suffix (replicate a (CHR ''/'') @ player @ replicate b (CHR ''/'') @ suffix) player_suffix_actions = Some (action, player)"
    by (simp add: player_route_def)
  then have "player_action path = Some (action, player)" by (simp add: player_action_def s(2) startswith_iff)
  then show "\<exists>action. player_action path = Some (action, player)" ..
qed

lemma authority_route_iff:
  "authority_route path \<longleftrightarrow> path \<in> set authority_exact \<or> list_ex (startswith path) authority_prefixes \<or> path = ''/api/v1/handoff''"
  by (auto simp: authority_route_def startswith_iff list_ex_iff)

lemma player_not_authority:
  assumes "player_route path player"
  shows "\<not> authority_route path"
proof -
  have "path ! 8 = CHR ''p''" using assms by (auto simp: player_route_def player_prefix_def)
  moreover have "path ! 8 \<noteq> CHR ''p''" if "authority_route path"
    using that by (auto simp: authority_route_def authority_exact_def authority_prefixes_def)
  ultimately show ?thesis by blast
qed

lemma classify_cases:
  "classify_control_action path = (action, target, sensitive) \<Longrightarrow>
   sensitive = authority_route path \<and> (\<forall>player. target = Some player \<longleftrightarrow> player_route path player)"
proof (cases "player_action path")
  case None
  assume c: "classify_control_action path = (action, target, sensitive)"
  have n: "\<not> player_route path player" for player using None player_action_iff [of path player] by auto
  from c None have "target = None \<and> sensitive = authority_route path"
    unfolding classify_control_action_def authority_route_iff Let_def by (auto split: if_splits)
  with n show ?thesis by simp
next
  case (Some x)
  assume c: "classify_control_action path = (action, target, sensitive)"
  obtain act p where x: "x = (act, p)" by (cases x)
  have t: "target = Some p" "\<not> sensitive" using c Some by (auto simp: classify_control_action_def Let_def x)
  have p: "player_route path q \<longleftrightarrow> q = p" for q using player_action_iff [of path q] Some by (auto simp: x)
  then have "player_route path p" by simp
  from player_not_authority [OF this] t p show ?thesis by auto
qed

lemma allowed_iff:
  assumes "authorize_control_request (Some users) actor0 verb path = Some d"
  shows "ad_allowed d \<longleftrightarrow>
    (\<exists>actor u. actor0 = Some actor \<and> actor \<noteq> [] \<and> dget users actor = Some u \<and>
      (''admin'' \<in> set (ur_roles u) \<or> authority_route path \<and> ''authority'' \<in> set (ur_roles u) \<or>
       \<not> authority_route path \<and> ''operator'' \<in> set (ur_roles u) \<or>
       ''performer'' \<in> set (ur_roles u) \<and> (\<exists>player \<in> set (ur_players u). player_route path player)))"
proof -
  obtain action target sensitive where c: "classify_control_action path = (action, target, sensitive)" by (cases "classify_control_action path") auto
  have route: "player_route path q \<longleftrightarrow> target = Some q" "authority_route path \<longleftrightarrow> sensitive" for q using classify_cases [OF c] by simp_all
  have plain: "target = Some q \<Longrightarrow> \<not> sensitive" for q using player_not_authority [of path q] by (simp add: route)
  have allowed: "ad_allowed (decide_for actor u (action, target, sensitive)) \<longleftrightarrow>
      ''admin'' \<in> set (ur_roles u) \<or> authority_route path \<and> ''authority'' \<in> set (ur_roles u) \<or>
       \<not> authority_route path \<and> ''operator'' \<in> set (ur_roles u) \<or>
       ''performer'' \<in> set (ur_roles u) \<and> (\<exists>player \<in> set (ur_players u). player_route path player)" for actor u
    using plain by (cases target) (auto simp: decide_for_def Let_def route)
  have d: "ad_allowed d \<longleftrightarrow> (\<exists>actor u. actor0 = Some actor \<and> actor \<noteq> [] \<and> dget users actor = Some u \<and> ad_allowed (decide_for actor u (action, target, sensitive)))"
    using assms c by (cases actor0) (auto simp: authorize_control_request_def Let_def split: if_splits option.splits)
  show ?thesis unfolding d allowed by blast
qed

text \<open>
  C24. A control request is allowed exactly when its authenticated user is an administrator, has the authority role
  on a route that moves authority, the operator role on any other, or the performer role on a route of a player
  assigned to it, where the routes are given as sets of paths; nobody else is.
\<close>

theorem control_allowed_iff:
  assumes "authorize_control_request (Some users) actor0 verb path = Some d"
  shows "ad_allowed d \<longleftrightarrow>
    (\<exists>actor u. actor0 = Some actor \<and> actor \<noteq> [] \<and> dget users actor = Some u \<and>
      (''admin'' \<in> set (ur_roles u) \<or> authority_route path \<and> ''authority'' \<in> set (ur_roles u) \<or>
       \<not> authority_route path \<and> ''operator'' \<in> set (ur_roles u) \<or>
       ''performer'' \<in> set (ur_roles u) \<and> (\<exists>player \<in> set (ur_players u). player_route path player)))"
  using assms by (rule allowed_iff)

definition band_policy :: http_policy where
  "band_policy = [(''ada'', \<lparr>ur_roles = [''performer''], ur_players = [''p1'']\<rparr>), (''bo'', \<lparr>ur_roles = [''operator''], ur_players = []\<rparr>)]"

theorem control_allowed_iff_witness:
  "\<exists>d. authorize_control_request (Some band_policy) (Some ''ada'') ''PATCH'' ''/api/v1/players/p1/monitor'' = Some d \<and> ad_allowed d"
proof -
  have "specialized_authorization_route ''PATCH'' ''/api/v1/players/p1/monitor'' = False" "py_upper ''PATCH'' \<in> set mutating_methods"
    "startswith ''/api/v1/players/p1/monitor'' ''/api/v1/''" by code_simp+
  then obtain d where d: "authorize_control_request (Some band_policy) (Some ''ada'') ''PATCH'' ''/api/v1/players/p1/monitor'' = Some d"
    by (simp add: authorize_control_request_def Let_def)
  have "player_route ''/api/v1/players/p1/monitor'' ''p1''"
    unfolding player_route_def player_suffix_actions_def player_prefix_def by (auto intro: exI [of _ 0])
  then have "ad_allowed d" unfolding control_allowed_iff [OF d] by (auto simp: band_policy_def)
  with d show ?thesis by blast
qed

end
