(* ===== verification/Http_Limits.thy ===== *)
theory Http_Limits
  imports Py_Monad
begin

text \<open>
  Admission of HTTP requests (\<^verbatim>\<open>src/backend/dev_server.py\<close>): token buckets per peer and for all peers, and the
  capacity of expensive operations per class.  Readings of the monotonic clock are arguments; each call holds
  the lock of its object.  Arithmetic on floats is exact.
\<close>

section \<open>Token buckets\<close>

type_synonym bucket = "rat \<times> rat"

record rate_limiter =
  rl_peer_rate :: rat
  rl_peer_burst :: rat
  rl_total_rate :: rat
  rl_total_burst :: rat
  rl_max_peers :: nat
  rl_peers :: "(string \<times> bucket) list"
  rl_total :: bucket

definition open_limiter :: "rat \<Rightarrow> rate_limiter" where
  "open_limiter now = \<lparr>rl_peer_rate = 100, rl_peer_burst = 200, rl_total_rate = 200, rl_total_burst = 400, rl_max_peers = 1024,
     rl_peers = [], rl_total = (400, now)\<rparr>"

definition level :: "rat \<Rightarrow> rat \<Rightarrow> bucket \<Rightarrow> rat" where
  \<comment> \<open>\<open>tokens + max(0, now - stamp) * rate\<close>\<close>
  "level rate now b = fst b + max 0 (now - snd b) * rate"

definition refill :: "rat \<Rightarrow> rat \<Rightarrow> rat \<Rightarrow> bucket \<Rightarrow> rat" where
  "refill burst rate now b = min burst (level rate now b)"

definition forget_refilled :: "rat \<Rightarrow> rate_limiter \<Rightarrow> (string \<times> bucket) list" where
  "forget_refilled now s = filter (\<lambda>x. level (rl_peer_rate s) now (snd x) < rl_peer_burst s) (rl_peers s)"

definition available :: "string \<Rightarrow> rat \<Rightarrow> rate_limiter \<Rightarrow> rat" where
  "available peer now s = refill (rl_peer_burst s) (rl_peer_rate s) now (dgetd (rl_peers s) peer (rl_peer_burst s, now))"

definition take_token :: "string \<Rightarrow> rat \<Rightarrow> rat \<Rightarrow> rate_limiter \<Rightarrow> bool \<times> rate_limiter" where
  "take_token peer now pool s =
     (let a = available peer now s in
      if pool < 1 \<or> a < 1 then (False, s\<lparr>rl_peers := dset (rl_peers s) peer (a, now)\<rparr>)
      else (True, s\<lparr>rl_total := (pool - 1, now), rl_peers := dset (rl_peers s) peer (a - 1, now)\<rparr>))"

definition allow :: "string \<Rightarrow> rat \<Rightarrow> rate_limiter \<Rightarrow> bool \<times> rate_limiter" where
  "allow peer now s =
     (let pool = refill (rl_total_burst s) (rl_total_rate s) now (rl_total s); s1 = s\<lparr>rl_total := (pool, now)\<rparr> in
      if \<not> din peer (rl_peers s) \<and> rl_max_peers s \<le> length (rl_peers s)
      then (let s2 = s1\<lparr>rl_peers := forget_refilled now s\<rparr> in
            if rl_max_peers s \<le> length (rl_peers s2) then (False, s2) else take_token peer now pool s2)
      else take_token peer now pool s1)"

section \<open>Capacity of expensive operations\<close>

record cost_limiter =
  cl_total_limit :: int
  cl_limits :: "(string \<times> int) list"
  cl_free :: int
  cl_free_in :: "(string \<times> int) list"
  cl_active :: "(string \<times> int) list"
  cl_rejected :: "(string \<times> int) list"

definition default_class_limits :: "(string \<times> int) list" where
  "default_class_limits = [(''maintenance'', 1), (''discovery'', 2), (''planning'', 3), (''storage'', 2), (''external'', 2)]"

definition open_cost_limiter :: "int \<Rightarrow> (string \<times> int) list \<Rightarrow> cost_limiter" where
  "open_cost_limiter pool limits0 =
     (let limits = map (\<lambda>(k, n). (k, max 1 n)) limits0; zero = map (\<lambda>(k, n). (k, 0)) limits0 in
      \<lparr>cl_total_limit = max 1 pool, cl_limits = limits, cl_free = max 1 pool, cl_free_in = limits, cl_active = zero, cl_rejected = zero\<rparr>)"

definition bump :: "string \<Rightarrow> int \<Rightarrow> (string \<times> int) list \<Rightarrow> (string \<times> int) list" where
  "bump k i d = dset d k (dgetd d k 0 + i)"

text \<open>\<open>semaphore.acquire(blocking=False)\<close> takes a permit when there is one; a refusal by the class gives the
  permit of the total back.\<close>

definition cost_acquire :: "string \<Rightarrow> (cost_limiter, bool) pymethod" where
  "cost_acquire kind =
     sbind (sgets id) (\<lambda>s.
     sthen (sguard (din kind (cl_limits s)) (ValueError ''unknown operation cost class''))
    (if cl_free s \<le> 0 then sthen (smodify (\<lambda>s. s\<lparr>cl_rejected := bump kind 1 (cl_rejected s)\<rparr>)) (sreturn False)
     else if dgetd (cl_free_in s) kind 0 \<le> 0 then sthen (smodify (\<lambda>s. s\<lparr>cl_rejected := bump kind 1 (cl_rejected s)\<rparr>)) (sreturn False)
     else sthen (smodify (\<lambda>s. s\<lparr>cl_free := cl_free s - 1, cl_free_in := bump kind (- 1) (cl_free_in s), cl_active := bump kind 1 (cl_active s)\<rparr>))
                (sreturn True)))"

definition cost_release :: "string \<Rightarrow> (cost_limiter, unit) pymethod" where
  "cost_release kind =
     sbind (sgets id) (\<lambda>s.
     sthen (sguard (din kind (cl_limits s)) (KeyError kind))
    (sthen (sguard (0 < dgetd (cl_active s) kind 0) (RuntimeError ''operation cost slot released without acquisition''))
     (smodify (\<lambda>s. s\<lparr>cl_active := bump kind (- 1) (cl_active s), cl_free_in := bump kind 1 (cl_free_in s), cl_free := cl_free s + 1\<rparr>))))"

definition int_map :: "(string \<times> int) list \<Rightarrow> pyval" where
  "int_map d = PDict (map (map_prod id PInt) d)"

definition cost_status :: "cost_limiter \<Rightarrow> pydict" where
  "cost_status s = [(''totalLimit'', PInt (cl_total_limit s)), (''classLimits'', int_map (cl_limits s)), (''active'', int_map (cl_active s)),
     (''rejected'', int_map (cl_rejected s))]"

section \<open>The rate of admitted requests is bounded\<close>

fun rate_run :: "(string \<times> rat) list \<Rightarrow> rate_limiter \<Rightarrow> (string \<times> rat) list \<times> rate_limiter" where
  \<comment> \<open>the admitted calls and the state after a list of calls\<close>
  "rate_run [] s = ([], s)"
| "rate_run ((peer, now) # calls) s =
     (let (ok, s1) = allow peer now s; (admitted, s2) = rate_run calls s1 in (if ok then (peer, now) # admitted else admitted, s2))"

definition limiter_ok :: "rat \<Rightarrow> rate_limiter \<Rightarrow> bool" where
  "limiter_ok now s =
     (0 \<le> rl_peer_rate s \<and> 0 \<le> rl_total_rate s \<and> 0 \<le> rl_peer_burst s \<and> dwf (rl_peers s) \<and> length (rl_peers s) \<le> rl_max_peers s \<and>
      (\<forall>(k, t, st) \<in> set (rl_peers s). 0 \<le> t \<and> t \<le> rl_peer_burst s \<and> st \<le> now) \<and>
      0 \<le> fst (rl_total s) \<and> fst (rl_total s) \<le> rl_total_burst s \<and> snd (rl_total s) \<le> now)"

definition total_level :: "rat \<Rightarrow> rate_limiter \<Rightarrow> rat" where
  "total_level now s = refill (rl_total_burst s) (rl_total_rate s) now (rl_total s)"

lemma refill_later: "snd b \<le> now \<Longrightarrow> now \<le> now' \<Longrightarrow> 0 \<le> rate \<Longrightarrow> refill burst rate now' b \<le> refill burst rate now b + (now' - now) * rate"
proof -
  assume a: "snd b \<le> now" "now \<le> now'" "0 \<le> rate"
  then have "level rate now' b = level rate now b + (now' - now) * rate" by (simp add: level_def algebra_simps)
  moreover have "0 \<le> (now' - now) * rate" using a by simp
  ultimately show ?thesis by (simp add: refill_def min_def)
qed

lemma refill_now: "0 \<le> t \<Longrightarrow> t \<le> burst \<Longrightarrow> refill burst rate now (t, now) = t"
  by (simp add: refill_def level_def)

lemma refill_range: "0 \<le> fst b \<Longrightarrow> 0 \<le> burst \<Longrightarrow> 0 \<le> rate \<Longrightarrow> 0 \<le> refill burst rate now b \<and> refill burst rate now b \<le> burst"
  by (simp add: refill_def level_def)

lemma peer_entry: "limiter_ok now s \<Longrightarrow> dget (rl_peers s) p = Some (t, st) \<Longrightarrow> 0 \<le> t \<and> t \<le> rl_peer_burst s \<and> st \<le> now"
  unfolding limiter_ok_def dget_def by (auto dest: map_of_SomeD)

lemma available_range: "limiter_ok now s \<Longrightarrow> 0 \<le> available p now' s \<and> available p now' s \<le> rl_peer_burst s"
  unfolding available_def
proof (rule refill_range)
  assume ok: "limiter_ok now s"
  show "0 \<le> fst (dgetd (rl_peers s) p (rl_peer_burst s, now'))"
    using ok peer_entry [OF ok, of p] by (cases "dget (rl_peers s) p") (auto simp: dgetd_def limiter_ok_def)
qed (simp_all add: limiter_ok_def)

lemma available_later:
  assumes "limiter_ok now s" and "now \<le> now'"
  shows "available p now' s \<le> available p now s + (now' - now) * rl_peer_rate s"
proof (cases "dget (rl_peers s) p")
  case None
  then show ?thesis using assms by (simp add: available_def dgetd_def refill_def level_def limiter_ok_def)
next
  case (Some b)
  with peer_entry [OF assms(1), of p "fst b" "snd b"] assms show ?thesis
    by (simp add: available_def dgetd_def limiter_ok_def refill_later)
qed

lemma available_set:
  assumes "0 \<le> a" and "a \<le> rl_peer_burst s"
  shows "available q now (s\<lparr>rl_peers := dset (rl_peers s) p (a, now)\<rparr>) = (if q = p then a else available q now s)"
  using assms by (simp add: available_def dgetd_def refill_now)

lemma dget_filter: "dwf d \<Longrightarrow> dget (filter (\<lambda>x. P (snd x)) d) q = (case dget d q of None \<Rightarrow> None | Some b \<Rightarrow> if P b then Some b else None)"
proof (induction d)
  case (Cons x d)
  obtain k b where x: "x = (k, b)" by (cases x)
  from Cons.prems have "dwf d" "dget d k = None" by (auto simp: x dwf_def dkeys_def dget_def map_of_eq_None_iff)
  with Cons.IH show ?case by (auto simp: x split: option.split)
qed simp

lemma available_forget:
  assumes "limiter_ok now0 s"
  shows "available q now (s\<lparr>rl_peers := forget_refilled now s\<rparr>) = available q now s"
proof -
  have w: "dwf (rl_peers s)" "0 \<le> rl_peer_rate s" using assms by (simp_all add: limiter_ok_def)
  have g: "dget (forget_refilled now s) q =
      (case dget (rl_peers s) q of None \<Rightarrow> None | Some b \<Rightarrow> if level (rl_peer_rate s) now b < rl_peer_burst s then Some b else None)"
    unfolding forget_refilled_def by (rule dget_filter [OF w(1)])
  have "refill (rl_peer_burst s) (rl_peer_rate s) now b = rl_peer_burst s" if "\<not> level (rl_peer_rate s) now b < rl_peer_burst s" for b
    using that by (simp add: refill_def)
  moreover have "refill (rl_peer_burst s) (rl_peer_rate s) now (rl_peer_burst s, now) = rl_peer_burst s"
    by (simp add: refill_def level_def)
  ultimately show ?thesis unfolding available_def dgetd_def by (simp add: g split: option.split)
qed

definition same_limits :: "rate_limiter \<Rightarrow> rate_limiter \<Rightarrow> bool" where
  "same_limits s s' = (rl_peer_rate s' = rl_peer_rate s \<and> rl_peer_burst s' = rl_peer_burst s \<and> rl_total_rate s' = rl_total_rate s \<and>
     rl_total_burst s' = rl_total_burst s \<and> rl_max_peers s' = rl_max_peers s)"

lemma set_dset_peers: "set (dset d k v) \<subseteq> insert (k, v) (set d)"
  by (induction d k v rule: dset.induct) auto

lemma length_dset_le: "length (dset d k v) = length d + (if din k d then 0 else 1)"
  by (induction d k v rule: dset.induct) auto

lemma limiter_ok_set:
  assumes "limiter_ok now s" and "0 \<le> a" and "a \<le> rl_peer_burst s" and "din p (rl_peers s) \<or> length (rl_peers s) < rl_max_peers s"
  shows "limiter_ok now (s\<lparr>rl_peers := dset (rl_peers s) p (a, now)\<rparr>)"
  using assms set_dset_peers [of "rl_peers s" p "(a, now)"] unfolding limiter_ok_def by (auto simp: length_dset_le split: if_splits)

lemma take_token_step:
  assumes ok: "limiter_ok now s" and pool: "0 \<le> pool" "rl_total s = (pool, now)" and run: "take_token p now pool s = (b, s')"
    and room: "din p (rl_peers s) \<or> length (rl_peers s) < rl_max_peers s"
  shows "limiter_ok now s' \<and> same_limits s s' \<and> (\<forall>q. available q now s' + (if b \<and> q = p then 1 else 0) = available q now s) \<and>
    total_level now s' + (if b then 1 else 0) = total_level now s"
proof -
  let ?a = "available p now s"
  note a = available_range [OF ok, of p now]
  have t: "pool \<le> rl_total_burst s" using ok pool by (simp add: limiter_ok_def)
  show ?thesis
  proof (cases "pool < 1 \<or> ?a < 1")
    case True
    then have "b = False" "s' = s\<lparr>rl_peers := dset (rl_peers s) p (?a, now)\<rparr>" using run by (auto simp: take_token_def Let_def)
    with limiter_ok_set [OF ok _ _ room] a show ?thesis by (simp add: same_limits_def available_set total_level_def)
  next
    case False
    let ?s1 = "s\<lparr>rl_total := (pool - 1, now)\<rparr>"
    from False have s': "b = True" "s' = ?s1\<lparr>rl_peers := dset (rl_peers ?s1) p (?a - 1, now)\<rparr>" using run by (auto simp: take_token_def Let_def)
    have ok1: "limiter_ok now ?s1" using ok False t by (auto simp: limiter_ok_def)
    have av: "available q now ?s1 = available q now s" for q by (simp add: available_def)
    have "available q now s' = (if q = p then ?a - 1 else available q now s)" for q
      unfolding s'(2) using available_set [of "?a - 1" ?s1 q now p] False a av by simp
    moreover have "limiter_ok now s'" unfolding s'(2) using False a room by (intro limiter_ok_set [OF ok1]) auto
    moreover have "total_level now s' + 1 = total_level now s"
      using pool t False by (simp add: s'(2) total_level_def refill_now)
    ultimately show ?thesis using s' by (simp add: same_limits_def)
  qed
qed

lemma allow_step:
  assumes ok0: "limiter_ok now0 s" and later: "now0 \<le> now" and run: "allow p now s = (b, s')"
  shows "limiter_ok now s' \<and> same_limits s s' \<and> (\<forall>q. available q now s' + (if b \<and> q = p then 1 else 0) = available q now s) \<and>
    total_level now s' + (if b then 1 else 0) = total_level now s"
proof -
  let ?pool = "refill (rl_total_burst s) (rl_total_rate s) now (rl_total s)"
  let ?s1 = "s\<lparr>rl_total := (?pool, now)\<rparr>"
  have burst: "0 \<le> rl_total_burst s" using ok0 by (auto simp: limiter_ok_def)
  have pool: "0 \<le> ?pool" "?pool \<le> rl_total_burst s" using ok0 refill_range [of "rl_total s" "rl_total_burst s" "rl_total_rate s" now] burst by (auto simp: limiter_ok_def)
  have ok1: "limiter_ok now ?s1" using ok0 later pool by (force simp: limiter_ok_def)
  have t1: "total_level now ?s1 = total_level now s" using pool by (simp add: total_level_def refill_now)
  have av1: "available q now ?s1 = available q now s" for q by (simp add: available_def)
  show ?thesis
  proof (cases "\<not> din p (rl_peers s) \<and> rl_max_peers s \<le> length (rl_peers s)")
    case False
    then have "take_token p now ?pool ?s1 = (b, s')" using run by (auto simp: allow_def Let_def)
    from take_token_step [OF ok1 pool(1) _ this] False show ?thesis by (auto simp: av1 t1 same_limits_def not_le)
  next
    case True
    let ?s2 = "?s1\<lparr>rl_peers := forget_refilled now s\<rparr>"
    have f: "forget_refilled now ?s1 = forget_refilled now s" by (simp add: forget_refilled_def)
    have av2: "available q now ?s2 = available q now s" for q using available_forget [OF ok1, of q now] av1 by (simp add: f)
    have ok2: "limiter_ok now ?s2"
    proof -
      have "set (forget_refilled now s) \<subseteq> set (rl_peers s)" "length (forget_refilled now s) \<le> length (rl_peers s)" "dwf (forget_refilled now s)"
        using ok1 by (auto simp: forget_refilled_def limiter_ok_def dwf_def dkeys_def distinct_map_filter)
      then show ?thesis using ok1 by (auto simp: limiter_ok_def)
    qed
    have t2: "total_level now ?s2 = total_level now s" using t1 by (simp add: total_level_def)
    show ?thesis
    proof (cases "rl_max_peers s \<le> length (forget_refilled now s)")
      case full: True
      then have "b = False" "s' = ?s2" using run True by (auto simp: allow_def Let_def)
      with ok2 av2 t2 show ?thesis by (simp add: same_limits_def)
    next
      case room: False
      then have "take_token p now ?pool ?s2 = (b, s')" using run True by (auto simp: allow_def Let_def)
      from take_token_step [OF ok2 pool(1) _ this] room show ?thesis by (auto simp: av2 t2 same_limits_def not_le)
    qed
  qed
qed

lemma rate_run_bound:
  assumes "limiter_ok now0 s" and "sorted (now0 # map snd calls)" and "rate_run calls s = (admitted, s')"
  shows "limiter_ok (last (now0 # map snd calls)) s' \<and> same_limits s s' \<and>
    of_nat (length (filter (\<lambda>x. fst x = q) admitted)) + available q (last (now0 # map snd calls)) s' \<le> available q now0 s + (last (now0 # map snd calls) - now0) * rl_peer_rate s \<and>
    of_nat (length admitted) + total_level (last (now0 # map snd calls)) s' \<le> total_level now0 s + (last (now0 # map snd calls) - now0) * rl_total_rate s"
  using assms
proof (induction calls arbitrary: s now0 admitted s')
  case Nil
  then show ?case by (simp add: same_limits_def)
next
  case (Cons x calls)
  obtain p now where x: "x = (p, now)" by (cases x)
  obtain b s1 where s1: "allow p now s = (b, s1)" by fastforce
  obtain adm2 s2 where s2: "rate_run calls s1 = (adm2, s2)" by fastforce
  have later: "now0 \<le> now" "sorted (now # map snd calls)" using Cons.prems(2) by (simp_all add: x)
  have out: "admitted = (if b then (p, now) # adm2 else adm2)" "s' = s2" using Cons.prems(3) by (auto simp: x s1 s2)
  note step = allow_step [OF Cons.prems(1) later(1) s1]
  note ih = Cons.IH [OF conjunct1 [OF step] later(2) s2]
  have "total_level now s \<le> total_level now0 s + (now - now0) * rl_total_rate s"
    using Cons.prems(1) later(1) unfolding total_level_def by (intro refill_later) (auto simp: limiter_ok_def)
  moreover have "available q now s \<le> available q now0 s + (now - now0) * rl_peer_rate s"
    using available_later [OF Cons.prems(1) later(1)] .
  ultimately show ?case using ih step later(1) by (auto simp: x out same_limits_def algebra_simps split: if_splits)
qed

text \<open>
  C25. Admission is bounded: among any requests at non-decreasing times, at most 200 requests of one peer plus 100
  per second are admitted, at most 400 plus 200 per second of all peers together, and at most 1024 peers
  are remembered, although buckets of idle peers are forgotten.
\<close>

theorem request_rate_bounded:
  assumes "sorted (start # map snd calls)" and "rate_run calls (open_limiter start) = (admitted, s)"
  shows "of_nat (length (filter (\<lambda>x. fst x = peer) admitted)) \<le> 200 + 100 * (last (start # map snd calls) - start) \<and>
    of_nat (length admitted) \<le> 400 + 200 * (last (start # map snd calls) - start) \<and> length (rl_peers s) \<le> 1024"
proof -
  have ok: "limiter_ok start (open_limiter start)" by (simp add: limiter_ok_def open_limiter_def)
  note b = rate_run_bound [OF ok assms, of peer]
  have "available peer start (open_limiter start) = 200" "total_level start (open_limiter start) = 400"
    by (simp_all add: available_def total_level_def open_limiter_def dgetd_def refill_now)
  moreover have "0 \<le> available peer (last (start # map snd calls)) s" using available_range b by blast
  moreover have "0 \<le> total_level (last (start # map snd calls)) s"
    using b refill_range [of "rl_total s" "rl_total_burst s" "rl_total_rate s"] unfolding total_level_def limiter_ok_def by fastforce
  ultimately show ?thesis using b by (simp add: open_limiter_def limiter_ok_def same_limits_def algebra_simps)
qed

theorem request_rate_bounded_witness:
  "\<exists>admitted s. rate_run [(''a'', 0), (''b'', 1), (''a'', 2)] (open_limiter 0) = (admitted, s) \<and>
    of_nat (length (filter (\<lambda>x. fst x = ''a'') admitted)) \<le> (400 :: rat) \<and> of_nat (length admitted) \<le> (800 :: rat) \<and> length (rl_peers s) \<le> 1024"
proof -
  obtain admitted s where r: "rate_run [(''a'', 0), (''b'', 1), (''a'', 2)] (open_limiter 0) = (admitted, s)" by fastforce
  with request_rate_bounded [OF _ r, of "''a''"] show ?thesis by simp
qed

section \<open>Expensive operations stay within their capacity\<close>

definition capacity_ok :: "cost_limiter \<Rightarrow> bool" where
  "capacity_ok s =
     (0 \<le> cl_free s \<and> cl_free s + sum_list (map snd (cl_active s)) = cl_total_limit s \<and> dwf (cl_active s) \<and>
      (\<forall>k. din k (cl_limits s) \<longrightarrow> 0 \<le> dgetd (cl_free_in s) k 0 \<and> 0 \<le> dgetd (cl_active s) k 0 \<and>
         dgetd (cl_free_in s) k 0 + dgetd (cl_active s) k 0 = dgetd (cl_limits s) k 0))"

lemma dgetd_bump [simp]: "dgetd (bump k i d) q 0 = dgetd d q 0 + (if q = k then i else 0)"
  by (simp add: bump_def dgetd_def)

lemma sum_dset: "dwf d \<Longrightarrow> sum_list (map snd (dset d k (v :: int))) = sum_list (map snd d) + v - dgetd d k 0"
proof (induction d)
  case (Cons x d)
  obtain k' w where x: "x = (k', w)" by (cases x)
  with Cons show ?case by (auto simp: dgetd_def dwf_def dkeys_def split: option.splits)
qed (simp add: dgetd_def)

lemma sum_bump: "dwf d \<Longrightarrow> sum_list (map snd (bump k i d)) = sum_list (map snd d) + i"
  by (simp add: bump_def sum_dset)

lemma dwf_bump [simp]: "dwf d \<Longrightarrow> dwf (bump k i d)"
  by (simp add: bump_def)

lemma capacity_kept: "keeps capacity_ok (cost_acquire kind)" "keeps capacity_ok (cost_release kind)"
  by (rule keepsI; auto simp: cost_acquire_def cost_release_def method_run capacity_ok_def sum_bump)+

lemma capacity_open: "dwf limits \<Longrightarrow> capacity_ok (open_cost_limiter n limits)"
proof -
  assume w: "dwf limits"
  have z: "sum_list (map snd (map (\<lambda>(k, n). (k, 0 :: int)) limits)) = 0" by (induction limits) auto
  have g: "dgetd (map (\<lambda>(k, n). (k, max 1 n)) limits) k 0 = (case dget limits k of None \<Rightarrow> 0 | Some n \<Rightarrow> max 1 n)"
    "dgetd (map (\<lambda>(k, n). (k, 0 :: int)) limits) k 0 = 0" for k
    by (induction limits) (auto simp: dgetd_def)
  show ?thesis using w by (auto simp: capacity_ok_def open_cost_limiter_def Let_def z g dwf_def dkeys_def comp_def split_beta split: option.split)
qed

end
