(* ===== verification/Command_Runtime.thy ===== *)
theory Command_Runtime
  imports Show_History Audit_Log
begin

text \<open>
  The command path of \<open>StageForgeRuntime\<close> (\<^verbatim>\<open>src/backend/runtime.py\<close>): a request that changes the show runs under
  the authority of the node, its events and the checkpoint are persisted, and its result is kept under the
  client's command id for retries.  It joins the show state (\<open>Show_Ops\<close>) and the repository (\<open>Audit_Log\<close>).
  The native engine is outside: the journal records drained from it are an argument.
\<close>

record control_node =
  cn_show :: show_state
  cn_repo :: repository
  cn_persisted :: int
  cn_results :: "(string \<times> pydict) list"

definition on_show :: "(show_state, 'a) pymethod \<Rightarrow> (control_node, 'a) pymethod" where
  "on_show m = (\<lambda>s. case m (cn_show s) of (r, t) \<Rightarrow> (r, s\<lparr>cn_show := t\<rparr>))"

definition on_repo :: "(repository, 'a) pymethod \<Rightarrow> (control_node, 'a) pymethod" where
  "on_repo m = (\<lambda>s. case m (cn_repo s) of (r, t) \<Rightarrow> (r, s\<lparr>cn_repo := t\<rparr>))"

text \<open>The outcomes of the writes of one call: the append of the event with a given number, the checkpoint, and
  the journal of the native engine.\<close>

record command_io =
  ci_event :: "nat \<Rightarrow> line_write"
  ci_snapshot :: append_outcome
  ci_now :: rat
  ci_journal :: "pydict list"

definition has_authority :: "bool \<Rightarrow> bool \<Rightarrow> bool \<Rightarrow> bool \<Rightarrow> bool" where
  "has_authority primary suspended configured valid = (primary \<and> \<not> suspended \<and> (\<not> configured \<or> valid))"

definition persist_event :: "command_io \<Rightarrow> nat \<times> pydict \<Rightarrow> unit \<Rightarrow> (control_node, unit) pymethod" where
  "persist_event io x u =
     sthen (on_repo (append_event (ci_event io (fst x)) 1 (int (fst x)) (snd x)))
    (sbind (slift (get_int (snd x) ''eventId'' (PInt 0))) (\<lambda>n.
     smodify (\<lambda>s. s\<lparr>cn_persisted := max (cn_persisted s) n\<rparr>)))"

definition persist_new_events :: "command_io \<Rightarrow> (control_node, unit) pymethod" where
  "persist_new_events io =
     sbind (sgete (\<lambda>s. events_since (cn_persisted s) (cn_show s))) (\<lambda>events. sfold (persist_event io) (enumerate 0 events) ())"

definition persist_core_journal :: "command_io \<Rightarrow> (control_node, unit) pymethod" where
  "persist_core_journal io =
     sfold (\<lambda>x u. sthen (on_repo (append_event (ci_event io (fst x)) 1 (int (fst x)) (snd x))) (sreturn ())) (enumerate 100 (take 512 (ci_journal io))) ()"

definition after_mutation :: "command_io \<Rightarrow> pydict \<Rightarrow> (control_node, pydict) pymethod" where
  "after_mutation io result =
     sthen (persist_new_events io)
    (sbind (sgete (\<lambda>s. persistence_snapshot (ci_now io) (cn_show s))) (\<lambda>snapshot.
     sthen (on_repo (save_snapshot (ci_snapshot io) snapshot))
    (sthen (persist_core_journal io) (sreturn result))))"

definition move_to_end :: "(string \<times> 'v) list \<Rightarrow> string \<Rightarrow> (string \<times> 'v) list" where
  "move_to_end d k = (case dget d k of None \<Rightarrow> d | Some v \<Rightarrow> ddel d k @ [(k, v)])"

definition command_key :: "string option \<Rightarrow> string" where
  \<comment> \<open>the empty string when there is no command id\<close>
  "command_key command_id = (case command_id of None \<Rightarrow> [] | Some c \<Rightarrow> take 128 (strip c))"

text \<open>The two critical sections of \<open>mutate\<close>: the lookup under the lock of the results, and the execution under
  the lock of mutations.\<close>

definition mutate_lookup :: "string \<Rightarrow> (control_node, pydict option) pymethod" where
  "mutate_lookup key =
     sbind (sgets (\<lambda>s. if key = [] then None else dget (cn_results s) key)) (\<lambda>found.
     case found of
       None \<Rightarrow> sreturn None
     | Some cached \<Rightarrow> sthen (smodify (\<lambda>s. s\<lparr>cn_results := move_to_end (cn_results s) key\<rparr>)) (sreturn (Some cached)))"

definition keep_result :: "string \<Rightarrow> pydict \<Rightarrow> (string \<times> pydict) list \<Rightarrow> (string \<times> pydict) list" where
  "keep_result key result d = (let d' = move_to_end (dset d key result) key in drop (length d' - 256) d')"

definition mutate_run :: "command_io \<Rightarrow> string \<Rightarrow> (show_state, pydict) pymethod \<Rightarrow> (control_node, pydict) pymethod" where
  "mutate_run io key operation =
     sbind (sgets (\<lambda>s. sh_revision (cn_show s))) (\<lambda>before.
     sbind (on_show operation) (\<lambda>result.
     sbind (slift (dindex result ''revision'')) (\<lambda>revision.
     sbind (if veq revision (PInt before) then sreturn result else after_mutation io result) (\<lambda>result'.
     sthen (swhen (key \<noteq> []) (smodify (\<lambda>s. s\<lparr>cn_results := keep_result key result' (cn_results s)\<rparr>)))
           (sreturn result')))))"

definition mutate :: "command_io \<Rightarrow> bool \<Rightarrow> bool \<Rightarrow> string option \<Rightarrow> (show_state, pydict) pymethod \<Rightarrow> (control_node, pydict \<times> bool) pymethod" where
  "mutate io authority primary command_id operation =
     sthen (sguard authority (RuntimeError (if primary then ''primary node lacks witness quorum lease''
        else ''standby node is read-only; apply replicated state or promote authority first'')))
    (sbind (mutate_lookup (command_key command_id)) (\<lambda>found.
     case found of
       Some cached \<Rightarrow> sreturn (cached, True)
     | None \<Rightarrow> sbind (mutate_run io (command_key command_id) operation) (\<lambda>result. sreturn (result, False))))"

section \<open>What the parts of a call leave alone\<close>

lemma frame_on_show: "frame cn_results (on_show m)" "frame cn_repo (on_show m)"
  by (auto simp: frame_def keeps_def on_show_def split: prod.split)

lemma frame_on_repo: "frame cn_results (on_repo m)" "frame cn_show (on_repo m)"
  by (auto simp: frame_def keeps_def on_repo_def split: prod.split)

lemma frame_keeps: "frame g m \<Longrightarrow> keeps (\<lambda>s. g s = p) m"
  by (simp add: frame_def)

lemma after_mutation_frame: "frame cn_results (after_mutation io result)" "frame cn_show (after_mutation io result)"
  unfolding after_mutation_def persist_new_events_def persist_core_journal_def persist_event_def
  by (intro frameI keeps_intro keeps_modify frame_keeps [OF frame_on_repo(1)] frame_keeps [OF frame_on_repo(2)]; simp)+

lemma on_show_run: "operation (cn_show s) = (r, t) \<Longrightarrow> on_show operation s = (r, s\<lparr>cn_show := t\<rparr>)"
  by (simp add: on_show_def)

lemma run_show: "cn_show (snd (mutate_run io key operation s)) = sexec operation (cn_show s)"
proof -
  obtain r t where o: "operation (cn_show s) = (r, t)" by fastforce
  let ?tail = "\<lambda>result. sbind (slift (dindex result ''revision'')) (\<lambda>revision.
     sbind (if veq revision (PInt (sh_revision (cn_show s))) then sreturn result else after_mutation io result) (\<lambda>result'.
     sthen (swhen (key \<noteq> []) (smodify (\<lambda>s. s\<lparr>cn_results := keep_result key result' (cn_results s)\<rparr>)))
           (sreturn result')))"
  have "keeps (\<lambda>s. cn_show s = t) (?tail result)" for result
    by (intro keeps_intro keeps_modify frame_keeps [OF after_mutation_frame(2)]) simp
  from keepsD [OF this, of "s\<lparr>cn_show := t\<rparr>"] o show ?thesis
    by (cases r) (simp_all add: mutate_run_def sbind_run [of "sgets _"] sbind_run [of "on_show _"] on_show_run sexec_def)
qed

lemma lookup_run:
  "mutate_lookup key s =
     (case (if key = [] then None else dget (cn_results s) key) of
        None \<Rightarrow> (Inr None, s) | Some v \<Rightarrow> (Inr (Some v), s\<lparr>cn_results := move_to_end (cn_results s) key\<rparr>))"
  by (simp add: mutate_lookup_def method_run split: option.split)

lemma run_results:
  assumes "mutate_run io key operation s = (r, t)"
  shows "cn_results t = (case r of Inl _ \<Rightarrow> cn_results s | Inr result \<Rightarrow> if key = [] then cn_results s else keep_result key result (cn_results s))"
proof -
  obtain r1 u where o: "operation (cn_show s) = (r1, u)" by fastforce
  show ?thesis
  proof (cases "\<exists>result revision. r1 = Inr result \<and> dindex result ''revision'' = Inr revision")
    case False
    then show ?thesis using assms o by (cases r1; cases "dindex (projr r1) ''revision''") (auto simp: mutate_run_def sbind_run on_show_run)
  next
    case True
    then obtain result revision where rr: "r1 = Inr result" "dindex result ''revision'' = Inr revision" by blast
    let ?s = "s\<lparr>cn_show := u\<rparr>"
    let ?m = "if veq revision (PInt (sh_revision (cn_show s))) then sreturn result else after_mutation io result"
    obtain r2 s2 where m: "?m ?s = (r2, s2)" by fastforce
    have "keeps (\<lambda>x. cn_results x = cn_results s) ?m"
      by (intro keeps_intro frame_keeps [OF after_mutation_frame(1)])
    from keepsD [OF this, of ?s] m have res: "cn_results s2 = cn_results s" by simp
    have "(r, t) = (case r2 of Inl e \<Rightarrow> (Inl e, s2) | Inr result' \<Rightarrow>
        (Inr result', if key = [] then s2 else s2\<lparr>cn_results := keep_result key result' (cn_results s2)\<rparr>))"
      using assms o rr m by (cases r2) (auto simp: mutate_run_def sbind_run on_show_run sthen_run swhen_run)
    with res show ?thesis by (auto split: sum.splits if_splits)
  qed
qed

lemma mutate_refused: "\<not> authority \<Longrightarrow> \<exists>e. mutate io authority primary cid operation s = (Inl e, s)"
  by (simp add: mutate_def sthen_sguard)

lemma mutate_fresh:
  assumes "authority" and "command_key cid = [] \<or> dget (cn_results s) (command_key cid) = None" and "mutate_run io (command_key cid) operation s = (r, t)"
  shows "mutate io authority primary cid operation s = (case r of Inl e \<Rightarrow> (Inl e, t) | Inr result \<Rightarrow> (Inr (result, False), t))"
proof -
  have "mutate_lookup (command_key cid) s = (Inr None, s)" using assms(2) by (auto simp: lookup_run)
  with assms show ?thesis by (simp add: mutate_def sthen_sguard sbind_run split: sum.split)
qed

lemma mutate_cached:
  assumes "authority" and "command_key cid \<noteq> []" and "dget (cn_results s) (command_key cid) = Some v"
  shows "mutate io authority primary cid operation s = (Inr (v, True), s\<lparr>cn_results := move_to_end (cn_results s) (command_key cid)\<rparr>)"
  using assms by (simp add: mutate_def sthen_sguard sbind_run lookup_run)

section \<open>The results kept for retries\<close>

definition results_ok :: "control_node \<Rightarrow> bool" where
  "results_ok s = (dwf (cn_results s) \<and> length (cn_results s) \<le> 256)"

text \<open>A result is kept, with at most a given number of others used after it.\<close>

definition kept :: "string \<Rightarrow> pydict \<Rightarrow> nat \<Rightarrow> (string \<times> pydict) list \<Rightarrow> bool" where
  "kept k v n d = (dwf d \<and> length d \<le> 256 \<and> (\<exists>xs ys. d = xs @ (k, v) # ys \<and> length ys \<le> n))"

lemma dwf_split: "dwf (xs @ (k, v) # ys) \<Longrightarrow> dget (xs @ (k, v) # ys) k = Some v"
proof -
  assume "dwf (xs @ (k, v) # ys)"
  then have "\<not> din k xs" by (auto simp: dwf_def dkeys_def din_iff)
  then show "dget (xs @ (k, v) # ys) k = Some v" by (simp add: dget_append din_def)
qed

lemma kept_dget: "kept k v n d \<Longrightarrow> dget d k = Some v"
  using dwf_split [of _ k v] by (auto simp: kept_def)

lemma ddel_split: "ddel (xs @ ys) k = ddel xs k @ ddel ys k"
  by (simp add: ddel_def)

lemma length_ddel: "dwf d \<Longrightarrow> length (ddel d k) = length d - (if din k d then 1 else 0)"
proof (induction d)
  case (Cons x d)
  obtain k' v where x: "x = (k', v)" by (cases x)
  from Cons.prems have d: "dwf d" "\<not> din k' d" by (auto simp: x dwf_def dkeys_def din_iff)
  have same: "ddel d k' = d" unfolding ddel_def by (rule filter_True) (use d(2) in \<open>force simp: din_iff dkeys_def\<close>)
  show ?case
  proof (cases "k' = k")
    case True
    with same show ?thesis by (simp add: x ddel_def)
  next
    case False
    with Cons.IH [OF d(1)] have "length (ddel (x # d) k) = Suc (length d - (if din k d then 1 else 0))" by (simp add: x ddel_def)
    moreover have "0 < length d" if "din k d" using that by (cases d) auto
    ultimately show ?thesis using False by (auto simp: x)
  qed
qed (simp add: ddel_def)

lemma dwf_move: "dwf d \<Longrightarrow> dwf (move_to_end d k) \<and> length (move_to_end d k) = length d"
proof (cases "dget d k")
  case (Some v)
  assume d: "dwf d"
  have "din k d" "d \<noteq> []" using Some by (auto simp: din_def)
  moreover have "dwf (ddel d k @ [(k, v)])" using dwf_ddel [OF d] by (auto simp: dwf_def dkeys_def ddel_def)
  ultimately show ?thesis using d Some by (simp add: move_to_end_def length_ddel)
qed (simp add: move_to_end_def)

lemma length_dset_din: "length (dset d k v) = length d + (if din k d then 0 else 1)"
  by (induction d k v rule: dset.induct) auto

lemma results_kept: "dwf d \<Longrightarrow> length d \<le> 256 \<Longrightarrow> dwf (keep_result k v d) \<and> length (keep_result k v d) \<le> 256"
proof -
  assume d: "dwf d" "length d \<le> 256"
  have "dwf (drop n e)" if "dwf e" for n and e :: "(string \<times> pydict) list"
    using that by (simp add: dwf_def dkeys_def drop_map [symmetric])
  then show ?thesis using dwf_move [OF dwf_dset [OF d(1), of k v], of k] d(2) by (simp add: keep_result_def Let_def)
qed

lemma kept_new: "dwf d \<Longrightarrow> length d \<le> 256 \<Longrightarrow> kept k v 0 (keep_result k v d)"
proof -
  assume d: "dwf d" "length d \<le> 256"
  let ?e = "ddel (dset d k v) k"
  have e: "keep_result k v d = drop (length ?e + 1 - 256) (?e @ [(k, v)])" by (simp add: keep_result_def Let_def move_to_end_def)
  have "length (move_to_end (dset d k v) k) = length (dset d k v)" using dwf_move [OF dwf_dset [OF d(1)]] by blast
  moreover have "length (move_to_end (dset d k v) k) = length ?e + 1" by (simp add: move_to_end_def)
  moreover have "length (dset d k v) \<le> 257" using d(2) by (simp add: length_dset_din)
  ultimately have "length ?e + 1 \<le> 257" by linarith
  then have "keep_result k v d = drop (length ?e + 1 - 256) ?e @ (k, v) # []" unfolding e by simp
  with results_kept [OF d, of k v] show ?thesis
    unfolding kept_def by (intro conjI exI [of _ "drop (length ?e + 1 - 256) ?e"] exI [of _ "[]"]) simp_all
qed

lemma kept_move:
  assumes "kept k v n d"
  shows "kept k v (n + 1) (move_to_end d k')"
proof -
  from assms obtain xs ys where d: "d = xs @ (k, v) # ys" "length ys \<le> n" "dwf d" "length d \<le> 256" by (auto simp: kept_def)
  have ok: "dwf (move_to_end d k')" "length (move_to_end d k') \<le> 256" using dwf_move [OF d(3)] d(4) by simp_all
  have "\<exists>xs ys. move_to_end d k' = xs @ (k, v) # ys \<and> length ys \<le> n + 1"
  proof (cases "k' = k")
    case True
    then have "move_to_end d k' = ddel d k @ (k, v) # []" using dwf_split [of xs k v ys] d(1,3) by (simp add: move_to_end_def)
    then show ?thesis by (intro exI [of _ "ddel d k"] exI [of _ "[]"]) simp
  next
    case False
    show ?thesis
    proof (cases "dget d k'")
      case None
      then have "move_to_end d k' = xs @ (k, v) # ys" by (simp add: move_to_end_def d(1))
      with d(2) show ?thesis by (intro exI [of _ xs] exI [of _ ys]) simp
    next
      case (Some w)
      have "length (ddel ys k') \<le> length ys" by (simp add: ddel_def)
      moreover have "move_to_end d k' = ddel xs k' @ (k, v) # (ddel ys k' @ [(k', w)])"
        using Some False by (simp add: move_to_end_def d(1) ddel_split) (simp add: ddel_def)
      ultimately show ?thesis using d(2) by (intro exI [of _ "ddel xs k'"] exI [of _ "ddel ys k' @ [(k', w)]"]) simp
    qed
  qed
  with ok show ?thesis by (simp add: kept_def)
qed

lemma kept_result:
  assumes "kept k v n d" and "n < 255" and "k' \<noteq> k"
  shows "kept k v (n + 1) (keep_result k' w d)"
proof -
  from assms(1) obtain xs ys where d: "d = xs @ (k, v) # ys" "length ys \<le> n" "dwf d" "length d \<le> 256" by (auto simp: kept_def)
  let ?e = "ddel (dset d k' w) k'"
  have del: "?e = ddel xs k' @ (k, v) # ddel ys k'"
  proof -
    have "ddel (dset d k' w) k' = ddel d k'" by (induction d k' w rule: dset.induct) (auto simp: ddel_def)
    then show ?thesis using assms(3) by (simp add: d(1) ddel_split) (simp add: ddel_def)
  qed
  have len: "length (ddel ys k') \<le> n" using d(2) by (metis ddel_def le_trans length_filter_le)
  have e: "keep_result k' w d = drop (length ?e + 1 - 256) (?e @ [(k', w)])" by (simp add: keep_result_def Let_def move_to_end_def)
  have "length (move_to_end (dset d k' w) k') = length (dset d k' w)" using dwf_move [OF dwf_dset [OF d(3)]] by blast
  moreover have "length (move_to_end (dset d k' w) k') = length ?e + 1" by (simp add: move_to_end_def)
  moreover have "length (dset d k' w) \<le> 257" using d(4) by (simp add: length_dset_din)
  ultimately have "length ?e + 1 \<le> 257" by linarith
  then have "length ?e + 1 - 256 \<le> 1" by simp
  moreover have "length ?e + 1 - 256 \<le> length (ddel xs k')"
    using calculation len assms(2) unfolding del by (cases "ddel xs k'") auto
  ultimately have "keep_result k' w d = drop (length ?e + 1 - 256) (ddel xs k') @ (k, v) # (ddel ys k' @ [(k', w)])"
    unfolding e by (simp add: del)
  with results_kept [OF d(3,4), of k' w] len show ?thesis
    unfolding kept_def by (intro conjI exI [of _ "drop (length ?e + 1 - 256) (ddel xs k')"] exI [of _ "ddel ys k' @ [(k', w)]"]) simp_all
qed

text \<open>A call of a client: the outcomes of its writes, authority and role of the node, command id and operation.\<close>

record node_call =
  nc_io :: command_io
  nc_authority :: bool
  nc_primary :: bool
  nc_command :: "string option"
  nc_operation :: "(show_state, pydict) pymethod"

definition run_call :: "node_call \<Rightarrow> control_node \<Rightarrow> (pyerr + pydict \<times> bool) \<times> control_node" where
  "run_call x = mutate (nc_io x) (nc_authority x) (nc_primary x) (nc_command x) (nc_operation x)"

definition run_calls :: "node_call list \<Rightarrow> control_node \<Rightarrow> control_node" where
  "run_calls xs s = fold (\<lambda>x t. snd (run_call x t)) xs s"

lemma mutate_results:
  "cn_results (snd (mutate io authority primary cid operation s)) = cn_results s \<or>
   cn_results (snd (mutate io authority primary cid operation s)) = move_to_end (cn_results s) (command_key cid) \<or>
   (dget (cn_results s) (command_key cid) = None \<and>
    (\<exists>result. cn_results (snd (mutate io authority primary cid operation s)) = keep_result (command_key cid) result (cn_results s)))"
proof (cases authority)
  case False
  from mutate_refused [OF this, of io primary cid operation s] show ?thesis by auto
next
  case True
  show ?thesis
  proof (cases "command_key cid = [] \<or> dget (cn_results s) (command_key cid) = None")
    case fresh: True
    obtain r t where run: "mutate_run io (command_key cid) operation s = (r, t)" by fastforce
    from mutate_fresh [OF True fresh run] run_results [OF run] fresh show ?thesis by (auto split: sum.splits if_splits)
  next
    case False
    with mutate_cached [OF True] show ?thesis by auto
  qed
qed

lemma kept_call:
  assumes "kept k v n (cn_results s)" and "n < 255"
  shows "kept k v (n + 1) (cn_results (snd (run_call x s)))"
proof -
  have more: "kept k v (n + 1) (cn_results s)" using assms(1) unfolding kept_def by (meson le_SucI trans_le_add1)
  have there: "dget (cn_results s) k \<noteq> None" using kept_dget [OF assms(1)] by simp
  from mutate_results [of "nc_io x" "nc_authority x" "nc_primary x" "nc_command x" "nc_operation x" s]
  show ?thesis unfolding run_call_def
    using more kept_move [OF assms(1), of "command_key (nc_command x)"] kept_result [OF assms, of "command_key (nc_command x)"] there by (cases "command_key (nc_command x) = k") auto
qed

lemma kept_calls:
  assumes "kept k v n (cn_results s)" and "n + length xs \<le> 255"
  shows "kept k v (n + length xs) (cn_results (run_calls xs s))"
  using assms
proof (induction xs arbitrary: n s)
  case (Cons x xs)
  have "kept k v (n + 1) (cn_results (snd (run_call x s)))" using Cons.prems by (intro kept_call) auto
  from Cons.IH [OF this] Cons.prems(2) show ?case by (simp add: run_calls_def)
qed (simp add: run_calls_def)

lemma results_call: "results_ok s \<Longrightarrow> results_ok (snd (run_call x s))"
  using mutate_results [of "nc_io x" "nc_authority x" "nc_primary x" "nc_command x" "nc_operation x" s]
    dwf_move [of "cn_results s"] results_kept [of "cn_results s"]
  unfolding run_call_def results_ok_def by force

lemma kept_returned:
  assumes "results_ok s" and "command_key cid \<noteq> []" and run: "mutate io authority primary cid operation s = (Inr (result, d), s1)"
  shows "kept (command_key cid) result 0 (cn_results s1)"
proof -
  have auth: authority using run mutate_refused [of authority io primary cid operation s] by fastforce
  show ?thesis
  proof (cases "dget (cn_results s) (command_key cid)")
    case None
    obtain r t where r: "mutate_run io (command_key cid) operation s = (r, t)" by fastforce
    from mutate_fresh [OF auth disjI2 [OF None] r] run have "r = Inr result" "t = s1" by (auto split: sum.splits)
    with run_results [OF r] assms show ?thesis using kept_new [of "cn_results s"] by (auto simp: results_ok_def)
  next
    case (Some v)
    from mutate_cached [OF auth assms(2) Some] run
    have "result = v" "s1 = s\<lparr>cn_results := move_to_end (cn_results s) (command_key cid)\<rparr>" by auto
    moreover have "dwf (move_to_end (cn_results s) (command_key cid)) \<and> length (move_to_end (cn_results s) (command_key cid)) \<le> 256"
      using dwf_move [of "cn_results s"] assms(1) by (auto simp: results_ok_def)
    ultimately show ?thesis using Some by (auto simp: kept_def move_to_end_def)
  qed
qed


text \<open>
  A command whose persistence fails is executed again by its retry: the call raises, but the show has
  changed and no result was kept, so that the retry runs the operation on the changed show.
\<close>

theorem failed_persistence_repeats:
  assumes "command_key cid \<noteq> []" and "dget (cn_results s) (command_key cid) = None"
    and "operation (cn_show s) = (Inr result, t)" and "dget result ''revision'' = Some v" and "\<not> veq v (PInt (sh_revision (cn_show s)))"
    and "events_since (cn_persisted s) t = Inr (e # es)" and "ci_event io 0 \<noteq> Written"
  shows "\<exists>s1. mutate io True primary cid operation s = (Inl OSError, s1) \<and> cn_show s1 = t \<and>
    (\<forall>io'. cn_show (snd (mutate io' True primary cid operation s1)) = sexec operation t)"
proof -
  let ?s = "s\<lparr>cn_show := t\<rparr>"
  have "\<exists>s1. mutate_run io (command_key cid) operation s = (Inl OSError, s1)"
    using assms by (simp add: mutate_run_def sbind_run on_show_run dindex_def after_mutation_def sthen_run persist_new_events_def persist_event_def
        on_repo_def append_event_def sguard_run)
  then obtain s1 where run: "mutate_run io (command_key cid) operation s = (Inl OSError, s1)" by blast
  have show1: "cn_show s1 = t" using run_show [of io "command_key cid" operation s] by (simp add: run sexec_def assms(3))
  have none: "dget (cn_results s1) (command_key cid) = None" using run_results [OF run] assms(2) by simp
  have "cn_show (snd (mutate io' True primary cid operation s1)) = sexec operation t" for io'
  proof -
    obtain r2 s2 where r2: "mutate_run io' (command_key cid) operation s1 = (r2, s2)" by fastforce
    from mutate_fresh [OF _ disjI2 [OF none] r2] run_show [of io' "command_key cid" operation s1] show ?thesis
      by (auto simp: r2 show1 split: sum.split)
  qed
  moreover have "mutate io True primary cid operation s = (Inl OSError, s1)" using mutate_fresh [OF _ disjI2 [OF assms(2)] run] by simp
  ultimately show ?thesis using show1 by blast
qed

text \<open>A small operation on the show, on a fresh node.\<close>

definition tick_op :: "(show_state, pydict) pymethod" where
  "tick_op = (\<lambda>s. (Inr [(''revision'', PInt (sh_revision s + 1))],
     s\<lparr>sh_revision := sh_revision s + 1, sh_events := [[(''eventId'', PInt 5)]]\<rparr>))"

definition fresh_node :: control_node where
  "fresh_node = \<lparr>cn_show = fresh_state 0, cn_repo = fresh_dir, cn_persisted = 0, cn_results = []\<rparr>"

definition failing_io :: command_io where
  "failing_io = \<lparr>ci_event = (\<lambda>n. Unwritten), ci_snapshot = Durable, ci_now = 0, ci_journal = []\<rparr>"

definition quiet_op :: "(show_state, pydict) pymethod" where
  "quiet_op = sgets (\<lambda>s. [(''revision'', PInt (sh_revision s))])"

lemma retry_key: "command_key (Some ''c1'') = ''c1''"
proof -
  have "strip ''c1'' = ''c1''" by code_simp
  then show ?thesis by (simp add: command_key_def)
qed


theorem failed_persistence_repeats_witness:
  "\<exists>s1. mutate failing_io True True (Some ''c1'') tick_op fresh_node = (Inl OSError, s1) \<and> sh_revision (cn_show s1) = sh_revision (fresh_state 0) + 1 \<and>
    sh_revision (cn_show (snd (mutate failing_io True True (Some ''c1'') tick_op s1))) = sh_revision (fresh_state 0) + 2"
proof -
  let ?t = "snd (tick_op (fresh_state 0))"
  have "events_since 0 ?t = Inr [[(''eventId'', PInt 5)]]"
    by (simp add: tick_op_def events_since_def get_int_def ebind_def dgetd_def)
  then have "\<exists>s1. mutate failing_io True True (Some ''c1'') tick_op fresh_node = (Inl OSError, s1) \<and> cn_show s1 = ?t \<and>
      (\<forall>io'. cn_show (snd (mutate io' True True (Some ''c1'') tick_op s1)) = sexec tick_op ?t)"
    by (intro failed_persistence_repeats [where v = "PInt (sh_revision (fresh_state 0) + 1)" and result = "[(''revision'', PInt (sh_revision (fresh_state 0) + 1))]"]) (simp_all add: retry_key fresh_node_def tick_op_def failing_io_def)
  then show ?thesis by (auto simp: tick_op_def sexec_def)
qed

end
