(* ===== verification/Http_Gate.thy ===== *)
theory Http_Gate
  imports Http_Authorization Http_Limits Command_Runtime
begin

text \<open>
  The HTTP bridge (\<^verbatim>\<open>src/backend/dev_server.py\<close>) in front of the show: the checks on host, origin and tokens, the
  decision on the roles of the user and its audit, the capacity of expensive operations, and the
  requests that patch the show.  URL parsing and the classification of the peer address are parameters; so is
  what the governance store says about policy changes.  Sockets and threads are not modelled.
\<close>

section \<open>Requests and their boundary\<close>

record parsed_url =
  pu_scheme :: string
  pu_hostname :: "string option"
  pu_port :: "pyerr + int option"
  pu_username :: "string option"
  pu_password :: "string option"
  pu_path :: string
  pu_query :: string
  pu_fragment :: string

record http_request =
  rq_verb :: string
  rq_path :: string
  rq_headers :: "(string \<times> string) list"
  rq_peer :: string
  rq_body :: "pyerr + pydict"

record http_config =
  hc_env :: "(string \<times> string) list"
  hc_policy :: "(pyerr + pyval) option"
  hc_urlparse :: "string \<Rightarrow> pyerr + parsed_url"
  hc_loopback :: "string \<Rightarrow> bool"

definition header :: "http_request \<Rightarrow> string \<Rightarrow> string" where
  "header rq name = dgetd (rq_headers rq) name []"

definition env :: "http_config \<Rightarrow> string \<Rightarrow> string" where
  "env cfg name = dgetd (hc_env cfg) name []"

definition token_matches :: "string \<Rightarrow> string \<Rightarrow> bool" where
  "token_matches configured supplied =
     (configured \<noteq> [] \<and> supplied \<noteq> [] \<and> list_all is_ascii configured \<and> list_all is_ascii supplied \<and> configured = supplied)"

definition monitor_read_paths :: "string list" where
  "monitor_read_paths = [''/healthz'', ''/api/v1/native'', ''/api/v1/node'']"

definition is_set :: "string \<Rightarrow> bool" where
  "is_set v = (py_lower (strip v) \<in> set [''1'', ''true'', ''yes'', ''on''])"

definition listed :: "string \<Rightarrow> string list" where
  \<comment> \<open>the non-blank parts of a comma separated setting\<close>
  "listed v = filter (\<lambda>x. x \<noteq> []) (map strip (split_on (CHR '','') v))"

definition bare :: "parsed_url \<Rightarrow> bool" where
  "bare u = (pu_username u = None \<and> pu_password u = None \<and> pu_path u = [] \<and> pu_query u = [] \<and> pu_fragment u = [])"

definition port_or :: "int option \<Rightarrow> int \<Rightarrow> int" where
  "port_or p d = (case p of Some n \<Rightarrow> if n = 0 then d else n | None \<Rightarrow> d)"

definition check_host :: "http_config \<Rightarrow> http_request \<Rightarrow> pyerr + string \<times> int option" where
  "check_host cfg rq =
     (case hc_urlparse cfg (''//'' @ strip (header rq ''Host'')) of
        Inl _ \<Rightarrow> Inl (ValueError ''invalid Host header'')
      | Inr u \<Rightarrow>
          (case pu_port u of
             Inl _ \<Rightarrow> Inl (ValueError ''invalid Host header'')
           | Inr port \<Rightarrow>
               (let hostname = py_lower (case pu_hostname u of Some h \<Rightarrow> h | None \<Rightarrow> []);
                    allowed = [''localhost'', ''127.0.0.1'', ''::1''] @ map (\<lambda>v. rstrip_char (CHR ''.'') (py_lower v)) (listed (env cfg ''STAGEFORGE_ALLOWED_HOSTS'')) in
                if hostname \<noteq> [] \<and> rstrip_char (CHR ''.'') hostname \<in> set allowed \<and> bare u then Inr (hostname, port)
                else Inl (PermissionError ''request Host is not allowed''))))"

definition check_origin :: "http_config \<Rightarrow> http_request \<Rightarrow> string \<times> int option \<Rightarrow> pyerr + unit" where
  "check_origin cfg rq host =
     (let origin = strip (header rq ''Origin''); denied = Inl (PermissionError ''request Origin is not allowed'') in
      if origin = [] then Inr ()
      else ebind (hc_urlparse cfg origin) (\<lambda>u.
        case pu_hostname u of
          None \<Rightarrow> denied
        | Some name \<Rightarrow>
            if pu_scheme u \<notin> set [''http'', ''https''] \<or> name = [] \<or> \<not> bare u then denied
            else
              (let configured = map (rstrip_char (CHR ''/'')) (listed (env cfg ''STAGEFORGE_ALLOWED_ORIGINS''));
                   near = (pu_scheme u = ''http'' \<and> rstrip_char (CHR ''.'') (py_lower name) = rstrip_char (CHR ''.'') (fst host)) in
               ebind (if near then ebind (pu_port u) (\<lambda>p. Inr (port_or p 80 = port_or (snd host) 80)) else Inr False) (\<lambda>same_host.
               if rstrip_char (CHR ''/'') origin \<notin> set configured \<and> \<not> same_host then denied else Inr ()))))"

definition check_tokens :: "http_config \<Rightarrow> http_request \<Rightarrow> pyerr + unit" where
  "check_tokens cfg rq =
     (let loopback = hc_loopback cfg (rq_peer rq); require_token = is_set (env cfg ''STAGEFORGE_REQUIRE_API_TOKEN'');
          supplied = header rq ''X-StageForge-API-Token''; monitor = env cfg ''STAGEFORGE_MONITOR_API_TOKEN''; control = env cfg ''STAGEFORGE_API_TOKEN'';
          monitor_request = token_matches monitor supplied; path = rq_path rq in
      ebind (eguard (\<not> (monitor \<noteq> [] \<and> token_matches monitor control)) (PermissionError ''monitor and control credentials must be distinct'')) (\<lambda>_.
      ebind (eguard (\<not> (monitor_request \<and> (rq_verb rq \<noteq> ''GET'' \<or> path \<notin> set monitor_read_paths))) (PermissionError ''monitor credential is not authorized for this route'')) (\<lambda>_.
      eguard (\<not> ((startswith path ''/api/'' \<or> path = ''/healthz'') \<and> (\<not> loopback \<or> require_token) \<and> \<not> monitor_request \<and> \<not> token_matches control supplied))
        (PermissionError ''remote API authentication failed''))))"

definition check_content :: "http_request \<Rightarrow> pyerr + unit" where
  "check_content rq =
     eguard (\<not> (rq_verb rq \<in> set mutating_methods \<and> startswith (rq_path rq) ''/api/'' \<and>
        py_lower (strip (takeWhile (\<lambda>c. c \<noteq> CHR '';'') (header rq ''Content-Type''))) \<noteq> ''application/json''))
       (ValueError ''API mutations require Content-Type application/json'')"

definition validate_http_boundary :: "http_config \<Rightarrow> http_request \<Rightarrow> pyerr + unit" where
  "validate_http_boundary cfg rq =
     ebind (check_host cfg rq) (\<lambda>host. ebind (check_origin cfg rq host) (\<lambda>_. ebind (check_tokens cfg rq) (\<lambda>_. check_content rq)))"

section \<open>Roles and their audit\<close>

definition authenticated_user_id :: "http_config \<Rightarrow> http_request \<Rightarrow> pyerr + string option" where
  "authenticated_user_id cfg rq =
     (let user_id = strip (header rq ''X-StageForge-Authenticated-User'') in
      ebind (eguard (length user_id \<le> 128) (PermissionError ''authenticated user identity is too long'')) (\<lambda>_.
      ebind (eguard (list_all (\<lambda>c. \<not> (ord_of c < 32 \<or> ord_of c = 127)) user_id) (PermissionError ''authenticated user identity contains control characters'')) (\<lambda>_.
      if user_id = [] then Inr None
      else if token_matches (env cfg ''STAGEFORGE_AUTH_PROXY_TOKEN'') (header rq ''X-StageForge-Auth-Proxy-Token'') then Inr (Some user_id)
      else Inl (PermissionError ''authenticated user identity requires a trusted auth proxy token''))))"

definition actor_value :: "string option \<Rightarrow> pyval" where
  "actor_value x = (case x of None \<Rightarrow> PNone | Some s \<Rightarrow> PStr s)"

definition decision_event :: "int \<Rightarrow> string \<Rightarrow> authorization_decision \<Rightarrow> pydict" where
  "decision_event now verb d =
     [(''type'', PStr ''http-authorization''), (''timestampNs'', PInt now), (''actor'', actor_value (ad_actor d)), (''roles'', PList (map PStr (ad_roles d))),
      (''method'', PStr verb), (''action'', PStr (ad_action d)), (''target'', actor_value (ad_target d)),
      (''decision'', PStr (if ad_allowed d then ''allow'' else ''deny'')), (''reason'', PStr (ad_reason d))]"

definition enforce_control_roles :: "http_config \<Rightarrow> audit_io \<Rightarrow> int \<Rightarrow> http_request \<Rightarrow> (repository, unit) pymethod" where
  "enforce_control_roles cfg io now rq =
     (if rq_verb rq \<notin> set mutating_methods \<or> \<not> startswith (rq_path rq) ''/api/v1/'' \<or> specialized_authorization_route (rq_verb rq) (rq_path rq)
      then sreturn ()
      else
        sbind (slift (authorization_policy (hc_policy cfg))) (\<lambda>policy.
        case policy of
          None \<Rightarrow> sreturn ()
        | Some users \<Rightarrow>
            sbind (slift (authenticated_user_id cfg rq)) (\<lambda>actor.
            case authorize_control_request (Some users) actor (rq_verb rq) (rq_path rq) of
              None \<Rightarrow> sreturn ()
            | Some d \<Rightarrow>
                sthen (append_authorization_audit io (decision_event now (rq_verb rq) d))
                      (sguard (ad_allowed d) (PermissionError ''authenticated user is not authorized for this control action'')))))"

section \<open>Admission\<close>

definition expensive_exact :: "((string \<times> string) \<times> string) list" where
  "expensive_exact =
     [((''POST'', ''/api/v1/checkpoint''), ''maintenance''), ((''POST'', ''/api/v1/daw/temp-resources/cleanup''), ''maintenance''),
      ((''GET'', ''/api/v1/public-record/verify''), ''maintenance''), ((''GET'', ''/api/v1/security/authorization-audit''), ''maintenance''),
      ((''POST'', ''/api/v1/community/public-record/reconcile''), ''maintenance''), ((''POST'', ''/api/v1/audio/scan''), ''discovery''),
      ((''POST'', ''/api/v1/midi/scan''), ''discovery''), ((''GET'', ''/api/v1/hardware/diagnostics''), ''discovery''),
      ((''POST'', ''/api/v1/compatibility/show-plan''), ''planning''), ((''POST'', ''/api/v1/venue/plan''), ''planning''),
      ((''POST'', ''/api/v1/technology/negotiate''), ''planning''), ((''GET'', ''/api/v1/technology/assessment''), ''planning''),
      ((''POST'', ''/api/v1/interoperability/offer''), ''planning''), ((''POST'', ''/api/v1/daw/media/ingest''), ''storage''),
      ((''POST'', ''/api/v1/daw/media/verify''), ''storage''), ((''POST'', ''/api/v1/daw/render''), ''storage''),
      ((''POST'', ''/api/v1/daw/autosave''), ''storage'')]"

definition expensive_operation_class :: "string \<Rightarrow> string \<Rightarrow> string option" where
  "expensive_operation_class verb path =
     (case map_of expensive_exact (py_upper verb, path) of
        Some kind \<Rightarrow> Some kind
      | None \<Rightarrow> if py_upper verb = ''POST'' \<and> startswith path ''/api/v1/community/proposals/'' \<and> endswith path ''/email-voters''
                then Some ''external'' else None)"

record http_gate =
  hg_cost :: cost_limiter
  hg_node :: control_node

definition on_node :: "(control_node, 'a) pymethod \<Rightarrow> (http_gate, 'a) pymethod" where
  "on_node m = (\<lambda>g. case m (hg_node g) of (r, t) \<Rightarrow> (r, g\<lparr>hg_node := t\<rparr>))"

definition on_cost :: "(cost_limiter, 'a) pymethod \<Rightarrow> (http_gate, 'a) pymethod" where
  "on_cost m = (\<lambda>g. case m (hg_cost g) of (r, t) \<Rightarrow> (r, g\<lparr>hg_cost := t\<rparr>))"

text \<open>A request is refused with a status, or admitted with the class whose slot it holds; an exception that is not
  handled ends the connection.\<close>

datatype admission = Refused int | Admitted "string option"

definition guard_status :: "pyerr \<Rightarrow> int option" where
  "guard_status e = (case e of PermissionError _ \<Rightarrow> Some 403 | ValueError _ \<Rightarrow> Some 400 | OSError \<Rightarrow> Some 503 | _ \<Rightarrow> None)"

definition guard_request :: "http_config \<Rightarrow> audit_io \<Rightarrow> int \<Rightarrow> http_request \<Rightarrow> (http_gate, admission) pymethod" where
  "guard_request cfg io now rq =
     (\<lambda>g. case sthen (slift (validate_http_boundary cfg rq)) (on_node (on_repo (enforce_control_roles cfg io now rq))) g of
        (Inl e, g') \<Rightarrow> (case guard_status e of Some n \<Rightarrow> (Inr (Refused n), g') | None \<Rightarrow> (Inl e, g'))
      | (Inr _, g') \<Rightarrow>
          (case expensive_operation_class (rq_verb rq) (rq_path rq) of
             None \<Rightarrow> (Inr (Admitted None), g')
           | Some kind \<Rightarrow> sbind (on_cost (cost_acquire kind)) (\<lambda>ok. sreturn (if ok then Admitted (Some kind) else Refused 503)) g'))"

text \<open>When the request is over its slot is given back.\<close>

definition finish_request :: "admission \<Rightarrow> (http_gate, unit) pymethod" where
  "finish_request a = (case a of Admitted (Some kind) \<Rightarrow> on_cost (cost_release kind) | _ \<Rightarrow> sreturn ())"

section \<open>Patching the show\<close>

definition expected_revision :: "http_request \<Rightarrow> pyerr + int option" where
  "expected_revision rq =
     (let raw0 = header rq ''If-Match'' in
      if raw0 = [] \<or> strip raw0 = ''*'' then Inr None
      else (let raw = strip_char (CHR 0x22) (strip raw0) in
        ebind (parse_int (if startswith raw ''rev-'' then drop 4 raw else raw)) (\<lambda>i. Inr (Some i))))"

definition rpartition :: "char \<Rightarrow> string \<Rightarrow> (string \<times> string) option" where
  "rpartition c s =
     (if c \<notin> set s then None
      else (let after = rev (takeWhile (\<lambda>x. x \<noteq> c) (rev s)) in Some (take (length s - length after - 1) s, after)))"

definition expected_resource_revision :: "http_request \<Rightarrow> string \<Rightarrow> pyerr + int option" where
  "expected_resource_revision rq resource =
     (let raw = header rq ''X-StageForge-Resource-If-Match'' in
      if raw = [] then Inr None
      else (case rpartition (CHR ''@'') (strip_char (CHR 0x22) (strip raw)) of
              None \<Rightarrow> Inl (ValueError ''resource revision format'')
            | Some (key, revision) \<Rightarrow>
                if key \<noteq> resource then Inl (ValueError ''resource revision format'')
                else ebind (parse_int revision) (\<lambda>i. Inr (Some i))))"

definition command_id :: "http_request \<Rightarrow> pyerr + string option" where
  "command_id rq =
     (let v = strip (header rq ''X-StageForge-Command-Id'') in
      if 128 < length v then Inl (ValueError ''command ID must not exceed 128 characters'') else Inr (if v = [] then None else Some v))"

definition route_player :: "string \<Rightarrow> string \<Rightarrow> string" where
  \<comment> \<open>\<open>path[len(prefix):-len(suffix)].strip("/")\<close>\<close>
  "route_player path ending = strip_char (CHR ''/'') (drop (length player_prefix) (take (length path - length ending) path))"

text \<open>What a \<open>PATCH\<close> addresses: the show, the governance store behind its administrator credential (whose answer is not
  modelled here; an empty proposal id ends there as an unknown route), or nothing.\<close>

datatype patch_target = ShowTarget show_request | GovernanceTarget | NoPlayer | NoRoute

definition player_target :: "string \<Rightarrow> string \<Rightarrow> (string \<Rightarrow> show_request) \<Rightarrow> patch_target" where
  "player_target path ending f = (if route_player path ending = [] then NoPlayer else ShowTarget (f (route_player path ending)))"

definition route_patch :: "string \<Rightarrow> pydict \<Rightarrow> patch_target" where
  "route_patch path body =
     (if path = ''/api/v1/community/policy'' then GovernanceTarget
      else if startswith path ''/api/v1/community/proposals/'' then GovernanceTarget
      else if path = ''/api/v1/show'' then ShowTarget (PatchShow body)
      else if path = ''/api/v1/system'' then ShowTarget (PatchSystem body)
      else if path = ''/api/v1/handoff'' then ShowTarget (PatchHandoff body)
      else if path = ''/api/v1/technology'' then ShowTarget (PatchTechnology body)
      else if startswith path player_prefix \<and> endswith path ''/notation/settings'' then player_target path ''/notation/settings'' (\<lambda>p. PatchNotation p body)
      else if startswith path player_prefix \<and> endswith path ''/monitor'' then player_target path ''/monitor'' (\<lambda>p. PatchMonitor p body)
      else NoRoute)"

text \<open>The circumstances of a request: clock, write outcomes, authority of the node, and whether the governance
  store locks the technology policy.\<close>

record patch_context =
  pc_clock :: clock
  pc_io :: command_io
  pc_authority :: bool
  pc_primary :: bool
  pc_locked :: bool

definition policy_locked :: "patch_context \<Rightarrow> show_request \<Rightarrow> bool" where
  "policy_locked x r = (case r of PatchTechnology d \<Rightarrow> din ''policy'' d \<and> pc_locked x | _ \<Rightarrow> False)"

definition patch_show_target :: "patch_context \<Rightarrow> http_request \<Rightarrow> int option \<Rightarrow> show_request \<Rightarrow> (control_node, pydict \<times> bool) pymethod" where
  "patch_show_target x rq expected r =
     sbind (slift (expected_resource_revision rq (request_resource r))) (\<lambda>resource.
     sbind (slift (command_id rq)) (\<lambda>cid.
     sthen (sguard (\<not> policy_locked x r) (PermissionError ''technology openness policy changes require an adopted community proposal''))
           (mutate (pc_io x) (pc_authority x) (pc_primary x) cid (run_request (pc_clock x) expected resource r))))"

datatype http_answer = Answer int "pydict option" | Governance | Dropped pyerr

definition patch_status :: "pyerr \<Rightarrow> int option" where
  "patch_status e = (case e of KeyError _ \<Rightarrow> Some 404 | RevisionConflict _ _ _ \<Rightarrow> Some 409 | PermissionError _ \<Rightarrow> Some 403
     | RuntimeError _ \<Rightarrow> Some 503 | ValueError _ \<Rightarrow> Some 400 | _ \<Rightarrow> None)"

definition answer_patch :: "pyerr + http_answer \<Rightarrow> http_answer" where
  "answer_patch r = (case r of Inr a \<Rightarrow> a | Inl e \<Rightarrow> (case patch_status e of Some n \<Rightarrow> Answer n None | None \<Rightarrow> Dropped e))"

definition patch_body :: "patch_context \<Rightarrow> http_request \<Rightarrow> (control_node, http_answer) pymethod" where
  "patch_body x rq =
     sbind (slift (rq_body rq)) (\<lambda>body.
     sbind (slift (expected_revision rq)) (\<lambda>expected.
     case route_patch (rq_path rq) body of
       ShowTarget r \<Rightarrow> sbind (patch_show_target x rq expected r) (\<lambda>a. sreturn (Answer 200 (Some (fst a))))
     | GovernanceTarget \<Rightarrow> sreturn Governance
     | NoPlayer \<Rightarrow> sraise (ValueError ''player id required'')
     | NoRoute \<Rightarrow> sreturn (Answer 404 None)))"

definition do_PATCH :: "http_config \<Rightarrow> audit_io \<Rightarrow> int \<Rightarrow> patch_context \<Rightarrow> http_request \<Rightarrow> http_gate \<Rightarrow> http_answer \<times> http_gate" where
  "do_PATCH cfg io now x rq g =
     (case guard_request cfg io now rq g of
        (Inl e, g') \<Rightarrow> (Dropped e, g')
      | (Inr (Refused n), g') \<Rightarrow> (Answer n None, g')
      | (Inr (Admitted _), g') \<Rightarrow> (case on_node (patch_body x rq) g' of (r, g'') \<Rightarrow> (answer_patch r, g'')))"

section \<open>What an admitted request has shown\<close>

lemma upper_mutating: "verb \<in> set mutating_methods \<Longrightarrow> py_upper verb = verb"
proof -
  have "\<forall>v \<in> set mutating_methods. py_upper v = v" by code_simp
  then show "verb \<in> set mutating_methods \<Longrightarrow> py_upper verb = verb" by blast
qed

lemma api_prefix: "startswith path ''/api/v1/'' \<Longrightarrow> startswith path ''/api/''"
  by (auto simp: startswith_iff)

lemma guard_admitted:
  assumes "guard_request cfg io now rq g = (Inr (Admitted k), g')"
  shows "validate_http_boundary cfg rq = Inr ()" and "fst (enforce_control_roles cfg io now rq (cn_repo (hg_node g))) = Inr ()"
    and "hg_node g' = (hg_node g)\<lparr>cn_repo := snd (enforce_control_roles cfg io now rq (cn_repo (hg_node g)))\<rparr>"
proof -
  obtain r t where e: "enforce_control_roles cfg io now rq (cn_repo (hg_node g)) = (r, t)" by fastforce
  let ?g = "g\<lparr>hg_node := (hg_node g)\<lparr>cn_repo := t\<rparr>\<rparr>"
  have run: "sthen (slift (validate_http_boundary cfg rq)) (on_node (on_repo (enforce_control_roles cfg io now rq))) g =
      (case validate_http_boundary cfg rq of Inl e \<Rightarrow> (Inl e, g) | Inr _ \<Rightarrow> (r, ?g))"
    by (auto simp: sthen_run on_node_def on_repo_def e split: sum.split)
  have ok: "validate_http_boundary cfg rq = Inr ()" "r = Inr ()"
    using assms unfolding guard_request_def run by (auto split: sum.splits option.splits)
  then show "validate_http_boundary cfg rq = Inr ()" "fst (enforce_control_roles cfg io now rq (cn_repo (hg_node g))) = Inr ()" by (simp_all add: e)
  have "hg_node g' = hg_node ?g"
    using assms ok unfolding guard_request_def run
    by (auto simp: sbind_run on_cost_def split: option.splits prod.splits sum.splits if_splits)
  then show "hg_node g' = (hg_node g)\<lparr>cn_repo := snd (enforce_control_roles cfg io now rq (cn_repo (hg_node g)))\<rparr>" by (simp add: e)
qed

lemma guard_show: "guard_request cfg io now rq g = (r, g') \<Longrightarrow> cn_show (hg_node g') = cn_show (hg_node g)"
  unfolding guard_request_def
  by (auto simp: sthen_run sbind_run on_node_def on_repo_def on_cost_def split: sum.splits option.splits prod.splits if_splits)

lemma enforced:
  assumes "fst (enforce_control_roles cfg io now rq s) = Inr ()" and "rq_verb rq \<in> set mutating_methods" and "startswith (rq_path rq) ''/api/v1/''"
    and "\<not> specialized_authorization_route (rq_verb rq) (rq_path rq)" and "authorization_policy (hc_policy cfg) = Inr (Some users)"
  shows "\<exists>actor d r. authenticated_user_id cfg rq = Inr actor \<and> authorize_control_request (Some users) actor (rq_verb rq) (rq_path rq) = Some d \<and>
    ad_allowed d \<and> fst (append_authorization_audit io (decision_event now (rq_verb rq) d) s) = Inr r"
proof -
  have run: "enforce_control_roles cfg io now rq s =
      sbind (slift (authenticated_user_id cfg rq)) (\<lambda>actor.
            case authorize_control_request (Some users) actor (rq_verb rq) (rq_path rq) of
              None \<Rightarrow> sreturn ()
            | Some d \<Rightarrow>
                sthen (append_authorization_audit io (decision_event now (rq_verb rq) d))
                      (sguard (ad_allowed d) (PermissionError ''authenticated user is not authorized for this control action''))) s"
    using assms(2-5) by (simp add: enforce_control_roles_def sbind_run)
  obtain actor where a: "authenticated_user_id cfg rq = Inr actor"
    using assms(1) unfolding run by (cases "authenticated_user_id cfg rq") (auto simp: sbind_run)
  obtain d where d: "authorize_control_request (Some users) actor (rq_verb rq) (rq_path rq) = Some d"
    using assms(2-4) upper_mutating [OF assms(2)] by (auto simp: authorize_control_request_def Let_def)
  obtain r t where ap: "append_authorization_audit io (decision_event now (rq_verb rq) d) s = (r, t)" by fastforce
  from assms(1) have "isl r = False \<and> ad_allowed d" unfolding run by (cases r) (auto simp: sbind_run a d sthen_run ap sguard_run split: if_splits)
  then show ?thesis using a d ap by (cases r) auto
qed

lemma boundary_token:
  assumes "validate_http_boundary cfg rq = Inr ()" and "rq_verb rq \<in> set mutating_methods" and "startswith (rq_path rq) ''/api/v1/''"
    and "\<not> hc_loopback cfg (rq_peer rq)"
  shows "token_matches (env cfg ''STAGEFORGE_API_TOKEN'') (header rq ''X-StageForge-API-Token'')"
proof -
  have "check_tokens cfg rq = Inr ()" using assms(1) by (auto simp: validate_http_boundary_def ebind_eq_Inr)
  moreover have "rq_verb rq \<noteq> ''GET''" using assms(2) by (auto simp: mutating_methods_def)
  ultimately show ?thesis using assms(4) api_prefix [OF assms(3)] by (auto simp: check_tokens_def Let_def ebind_eq_Inr)
qed

text \<open>
  C22. A role-controlled change is admitted only after its decision is in the audit: when a policy is configured and a
  mutation of an ordinary route is admitted, the user was vouched for by the proxy, the policy allows the
  action, the decision was appended durably to the audit during this call, and a request from another
  host carried the control token.
\<close>

theorem admitted_is_audited:
  assumes "guard_request cfg io now rq g = (Inr (Admitted k), g')" and "authorization_policy (hc_policy cfg) = Inr (Some users)"
    and "rq_verb rq \<in> set mutating_methods" and "startswith (rq_path rq) ''/api/v1/''" and "\<not> specialized_authorization_route (rq_verb rq) (rq_path rq)"
  shows "\<exists>actor d r. authenticated_user_id cfg rq = Inr (Some actor) \<and>
      token_matches (env cfg ''STAGEFORGE_AUTH_PROXY_TOKEN'') (header rq ''X-StageForge-Auth-Proxy-Token'') \<and>
      authorize_control_request (Some users) (Some actor) (rq_verb rq) (rq_path rq) = Some d \<and> ad_allowed d \<and>
      fst (append_authorization_audit io (decision_event now (rq_verb rq) d) (cn_repo (hg_node g))) = Inr r \<and>
      (hc_loopback cfg (rq_peer rq) \<or> token_matches (env cfg ''STAGEFORGE_API_TOKEN'') (header rq ''X-StageForge-API-Token''))"
proof -
  from enforced [OF guard_admitted(2) [OF assms(1)] assms(3,4,5,2)] obtain actor0 d r where
    a: "authenticated_user_id cfg rq = Inr actor0" "authorize_control_request (Some users) actor0 (rq_verb rq) (rq_path rq) = Some d" "ad_allowed d"
      "fst (append_authorization_audit io (decision_event now (rq_verb rq) d) (cn_repo (hg_node g))) = Inr r" by blast
  from allowed_iff [OF a(2)] a(3) obtain actor where "actor0 = Some actor" by blast
  moreover from this a(1) have "token_matches (env cfg ''STAGEFORGE_AUTH_PROXY_TOKEN'') (header rq ''X-StageForge-Auth-Proxy-Token'')"
    by (auto simp: authenticated_user_id_def Let_def ebind_eq_Inr split: if_splits)
  ultimately show ?thesis using a boundary_token [OF guard_admitted(1) [OF assms(1)] assms(3,4)] by blast
qed

section \<open>Performers stay with their players\<close>

lemma mutate_show: "cn_show (snd (mutate io authority primary cid operation s)) = cn_show s \<or> cn_show (snd (mutate io authority primary cid operation s)) = sexec operation (cn_show s)"
proof (cases "authority \<and> (command_key cid = [] \<or> dget (cn_results s) (command_key cid) = None)")
  case True
  obtain r t where run: "mutate_run io (command_key cid) operation s = (r, t)" by fastforce
  have "cn_show t = sexec operation (cn_show s)" using run_show [of io "command_key cid" operation s] by (simp add: run)
  with mutate_fresh [OF _ _ run] True show ?thesis by (auto split: sum.split)
next
  case False
  show ?thesis
  proof (cases authority)
    case True
    with False mutate_cached [OF True] show ?thesis by fastforce
  next
    case no: False
    from mutate_refused [OF no, of io primary cid operation s] show ?thesis by auto
  qed
qed

lemma patch_body_show:
  assumes "patch_body x rq s = (a, s')" and "cn_show s' \<noteq> cn_show s"
  shows "\<exists>body e er r. rq_body rq = Inr body \<and> route_patch (rq_path rq) body = ShowTarget r \<and> cn_show s' = sexec (run_request (pc_clock x) e er r) (cn_show s)"
proof -
  obtain body where b: "rq_body rq = Inr body" using assms by (cases "rq_body rq") (auto simp: patch_body_def sbind_run)
  obtain e where e: "expected_revision rq = Inr e" using assms b by (cases "expected_revision rq") (auto simp: patch_body_def sbind_run)
  have run: "patch_body x rq s = (case route_patch (rq_path rq) body of
       ShowTarget r \<Rightarrow> sbind (patch_show_target x rq e r) (\<lambda>a. sreturn (Answer 200 (Some (fst a))))
     | GovernanceTarget \<Rightarrow> sreturn Governance
     | NoPlayer \<Rightarrow> sraise (ValueError ''player id required'')
     | NoRoute \<Rightarrow> sreturn (Answer 404 None)) s"
    by (simp add: patch_body_def sbind_run b e)
  obtain r where r: "route_patch (rq_path rq) body = ShowTarget r"
    using assms unfolding run by (cases "route_patch (rq_path rq) body") auto
  have s': "s' = snd (patch_show_target x rq e r s)"
    using assms(1) unfolding run r by (auto simp: sbind_run split: prod.splits sum.splits)
  obtain er where er: "expected_resource_revision rq (request_resource r) = Inr er"
    using assms(2) unfolding s' by (cases "expected_resource_revision rq (request_resource r)") (auto simp: patch_show_target_def sbind_run)
  obtain cid where cid: "command_id rq = Inr cid"
    using assms(2) unfolding s' by (cases "command_id rq") (auto simp: patch_show_target_def sbind_run er)
  have free: "\<not> policy_locked x r" using assms(2) unfolding s' by (auto simp: patch_show_target_def sbind_run er cid sthen_run sguard_run)
  have "s' = snd (mutate (pc_io x) (pc_authority x) (pc_primary x) cid (run_request (pc_clock x) e er r) s)"
    unfolding s' by (simp add: patch_show_target_def sbind_run er cid sthen_run sguard_run free)
  with mutate_show [of "pc_io x" "pc_authority x" "pc_primary x" cid "run_request (pc_clock x) e er r" s] assms(2) b r show ?thesis by auto
qed

lemma ends_with_other: "path = r @ s1 \<Longrightarrow> 6 \<le> length s1 \<Longrightarrow> 6 \<le> length s2 \<Longrightarrow> last_six s1 \<noteq> last_six s2 \<Longrightarrow> \<not> endswith path s2"
  by (auto simp: endswith_iff) (metis last_six_append)

lemma route_player_inner:
  assumes "path = player_prefix @ replicate a (CHR ''/'') @ player @ replicate b (CHR ''/'') @ ending" and "player \<noteq> []" and "CHR ''/'' \<notin> set player"
  shows "route_player path ending = player"
  using assms by (simp add: route_player_def strip_char_inner)

lemma route_patch_player:
  assumes "player_route path player"
  shows "route_patch path body \<in> {ShowTarget (PatchNotation player body), ShowTarget (PatchMonitor player body), NoRoute}"
proof -
  from assms obtain ending a b where e: "ending \<in> fst ` set player_suffix_actions"
    and path: "path = player_prefix @ replicate a (CHR ''/'') @ player @ replicate b (CHR ''/'') @ ending"
    and p: "player \<noteq> []" "CHR ''/'' \<notin> set player" by (auto simp: player_route_def)
  have p8: "path ! 8 = CHR ''p''" by (simp add: path player_prefix_def)
  then have exact: "path \<noteq> ''/api/v1/community/policy''" "\<not> startswith path ''/api/v1/community/proposals/''" "path \<noteq> ''/api/v1/show''"
    "path \<noteq> ''/api/v1/system''" "path \<noteq> ''/api/v1/handoff''" "path \<noteq> ''/api/v1/technology''"
    by (auto simp: startswith_iff)
  have pre: "startswith path player_prefix" by (auto simp: path startswith_iff)
  have self: "endswith path ending" unfolding path endswith_iff by (metis append.assoc)
  have inner: "route_player path ending = player" by (rule route_player_inner [OF path p])
  have other: "\<not> endswith path s2" if "last_six ending \<noteq> last_six s2" "6 \<le> length s2" for s2
  proof (rule ends_with_other [OF _ _ that(2,1)])
    show "path = (player_prefix @ replicate a (CHR ''/'') @ player @ replicate b (CHR ''/'')) @ ending" by (simp add: path)
    show "6 \<le> length ending" using e by (auto simp: player_suffix_actions_def)
  qed
  have six: "last_six ''/monitor'' = ''onitor''" "last_six ''/midi/input'' = ''/input''" "last_six ''/notation/note'' = ''n/note''"
    "last_six ''/notation/clear'' = ''/clear''" "last_six ''/notation/settings'' = ''ttings''" by code_simp+
  consider "ending = ''/notation/settings''" | "ending = ''/monitor''" | "ending \<notin> {''/notation/settings'', ''/monitor''}" by blast
  then show ?thesis
  proof cases
    case 1
    with exact pre self inner p show ?thesis by (simp add: route_patch_def player_target_def)
  next
    case 2
    have "\<not> endswith path ''/notation/settings''" by (rule other) (simp_all add: 2 six)
    with 2 exact pre self inner p show ?thesis by (simp add: route_patch_def player_target_def)
  next
    case 3
    have "\<not> endswith path ''/notation/settings''" "\<not> endswith path ''/monitor''"
      by (rule other; use 3 e in \<open>auto simp: six player_suffix_actions_def\<close>)+
    with exact pre show ?thesis by (simp add: route_patch_def)
  qed
qed

lemma route_governed: "specialized_authorization_route ''PATCH'' path \<Longrightarrow> route_patch path body = GovernanceTarget"
proof -
  have "py_upper ''PATCH'' = ''PATCH''" by code_simp
  then show "specialized_authorization_route ''PATCH'' path \<Longrightarrow> route_patch path body = GovernanceTarget"
    by (auto simp: specialized_authorization_route_def specialized_exact_def route_patch_def)
qed

lemma route_api: "\<not> startswith path ''/api/v1/'' \<Longrightarrow> route_patch path body = NoRoute"
  by (auto simp: route_patch_def startswith_iff player_prefix_def)

text \<open>
  C21. A performer changes only its own players: when a policy is configured, a \<open>PATCH\<close> of a user with no role beyond
  performer and observer leaves the show as it is or runs one monitor or notation-settings request for a
  player assigned to that user, on every path, since the player that was authorised is the one the router addresses.
\<close>

theorem performer_confined:
  assumes "authorization_policy (hc_policy cfg) = Inr (Some users)" and "rq_verb rq = ''PATCH''"
    and "authenticated_user_id cfg rq = Inr (Some actor)" and "dget users actor = Some u" and "set (ur_roles u) \<subseteq> {''observer'', ''performer''}"
    and "do_PATCH cfg io now x rq g = (answer, g')"
  shows "cn_show (hg_node g') = cn_show (hg_node g) \<or>
    (\<exists>player \<in> set (ur_players u). \<exists>body e er r. (r = PatchMonitor player body \<or> r = PatchNotation player body) \<and>
      cn_show (hg_node g') = sexec (run_request (pc_clock x) e er r) (cn_show (hg_node g)))"
proof (cases "cn_show (hg_node g') = cn_show (hg_node g)")
  case False
  obtain ad g1 where g1: "guard_request cfg io now rq g = (ad, g1)" by fastforce
  have same: "cn_show (hg_node g1) = cn_show (hg_node g)" by (rule guard_show [OF g1])
  obtain k where ad: "ad = Inr (Admitted k)" using assms(6) False same by (auto simp: do_PATCH_def g1 split: sum.splits admission.splits)
  obtain a s2 where s2: "patch_body x rq (hg_node g1) = (a, s2)" by fastforce
  have "hg_node g' = s2" using assms(6) by (auto simp: do_PATCH_def g1 ad on_node_def s2)
  with patch_body_show [OF s2] False same obtain body e er r where b: "route_patch (rq_path rq) body = ShowTarget r"
    "cn_show (hg_node g') = sexec (run_request (pc_clock x) e er r) (cn_show (hg_node g))" by auto
  have api: "startswith (rq_path rq) ''/api/v1/''" using route_api [of "rq_path rq" body] b(1) by (cases "startswith (rq_path rq) ''/api/v1/''") auto
  have plain: "\<not> specialized_authorization_route (rq_verb rq) (rq_path rq)" using route_governed [of "rq_path rq" body] b(1) by (auto simp: assms(2))
  have verb: "rq_verb rq \<in> set mutating_methods" by (simp add: assms(2) mutating_methods_def)
  from enforced [OF guard_admitted(2) [OF g1 [unfolded ad]] verb api plain assms(1)] obtain d where
    d: "authorize_control_request (Some users) (Some actor) (rq_verb rq) (rq_path rq) = Some d" "ad_allowed d" using assms(3) by auto
  from allowed_iff [OF d(1)] d(2) assms(4,5) obtain player where "player \<in> set (ur_players u)" "player_route (rq_path rq) player" by auto
  with route_patch_player [of "rq_path rq" player body] b show ?thesis by fastforce
qed simp

section \<open>A performer at its monitor\<close>

definition local_url :: parsed_url where
  "local_url = \<lparr>pu_scheme = [], pu_hostname = Some ''localhost'', pu_port = Inr (Some 8787), pu_username = None, pu_password = None,
     pu_path = [], pu_query = [], pu_fragment = []\<rparr>"

definition band_config :: http_config where
  "band_config = \<lparr>hc_env = [(''STAGEFORGE_AUTH_PROXY_TOKEN'', ''proxy'')],
     hc_policy = Some (Inr (PDict [(''version'', PInt 1), (''users'', PDict
       [(''ada'', PDict [(''roles'', PList [PStr ''performer'']), (''players'', PList [PStr ''p1''])]), (''bo'', PDict [(''roles'', PList [PStr ''operator''])])])])),
     hc_urlparse = (\<lambda>_. Inr local_url), hc_loopback = (\<lambda>_. True)\<rparr>"

definition monitor_request :: http_request where
  "monitor_request = \<lparr>rq_verb = ''PATCH'', rq_path = ''/api/v1/players/p1/monitor'',
     rq_headers = [(''Host'', ''localhost:8787''), (''X-StageForge-Authenticated-User'', ''ada''), (''X-StageForge-Auth-Proxy-Token'', ''proxy''),
       (''Content-Type'', ''application/json'')],
     rq_peer = ''127.0.0.1'', rq_body = Inr []\<rparr>"

definition started_gate :: http_gate where
  "started_gate = \<lparr>hg_cost = \<lparr>cl_total_limit = 4, cl_limits = [], cl_free = 4, cl_free_in = [], cl_active = [], cl_rejected = []\<rparr>, hg_node = fresh_node\<rparr>"

definition quiet_context :: patch_context where
  "quiet_context = \<lparr>pc_clock = \<lparr>ck_now = 0, ck_event = 0, ck_wall = 0, ck_snapshot = 0\<rparr>, pc_io = failing_io, pc_authority = True, pc_primary = True, pc_locked = False\<rparr>"

lemma fresh_append:
  assumes "fresh_repository s" and "io_write io = Written" and "length (canonical (PDict e)) \<le> 8192"
  shows "\<exists>r t. append_authorization_audit io e s = (Inr r, t)"
proof -
  have none: "rp_active s = None" "rp_cache s = None" using assms(1) by (simp_all add: fresh_repository_def)
  show ?thesis
    using assms(2,3) ensure_uncached [OF fresh_view [OF assms(1)] none(2)] none
    by (simp add: append_authorization_audit_def method_run Let_def view_cache_def active_size_def write_audit_def write_line_def add_line_def empty_file_def)
qed

lemma band_facts:
  "authorization_policy (hc_policy band_config) = Inr (Some band_policy)"
  "validate_http_boundary band_config monitor_request = Inr ()"
  "authenticated_user_id band_config monitor_request = Inr (Some ''ada'')"
  "specialized_authorization_route ''PATCH'' ''/api/v1/players/p1/monitor'' = False"
  "startswith ''/api/v1/players/p1/monitor'' ''/api/v1/''"
  "expensive_operation_class ''PATCH'' ''/api/v1/players/p1/monitor'' = None"
  "length (canonical (PDict (decision_event 0 ''PATCH'' (the (authorize_control_request (Some band_policy) (Some ''ada'') ''PATCH'' ''/api/v1/players/p1/monitor''))))) \<le> 8192"
  "\<exists>d. authorize_control_request (Some band_policy) (Some ''ada'') ''PATCH'' ''/api/v1/players/p1/monitor'' = Some d \<and> ad_allowed d"
proof -
  show "authorization_policy (hc_policy band_config) = Inr (Some band_policy)" by code_simp
  show "validate_http_boundary band_config monitor_request = Inr ()" by code_simp
  show "authenticated_user_id band_config monitor_request = Inr (Some ''ada'')" by code_simp
  show "specialized_authorization_route ''PATCH'' ''/api/v1/players/p1/monitor'' = False" by code_simp
  show "startswith ''/api/v1/players/p1/monitor'' ''/api/v1/''" by code_simp
  show "expensive_operation_class ''PATCH'' ''/api/v1/players/p1/monitor'' = None" by code_simp
  show "length (canonical (PDict (decision_event 0 ''PATCH'' (the (authorize_control_request (Some band_policy) (Some ''ada'') ''PATCH'' ''/api/v1/players/p1/monitor''))))) \<le> 8192"
    by code_simp
  have "(case authorize_control_request (Some band_policy) (Some ''ada'') ''PATCH'' ''/api/v1/players/p1/monitor'' of Some d \<Rightarrow> ad_allowed d | None \<Rightarrow> False)"
    by code_simp
  then show "\<exists>d. authorize_control_request (Some band_policy) (Some ''ada'') ''PATCH'' ''/api/v1/players/p1/monitor'' = Some d \<and> ad_allowed d"
    by (auto split: option.splits)
qed

lemma monitor_request_simps [simp]: "rq_verb monitor_request = ''PATCH''" "rq_path monitor_request = ''/api/v1/players/p1/monitor''"
  by (simp_all add: monitor_request_def)

lemma monitor_admitted: "\<exists>g'. guard_request band_config plain_io 0 monitor_request started_gate = (Inr (Admitted None), g')"
proof -
  obtain d where d: "authorize_control_request (Some band_policy) (Some ''ada'') ''PATCH'' ''/api/v1/players/p1/monitor'' = Some d" "ad_allowed d"
    using band_facts(8) by blast
  have "fresh_repository fresh_dir" by (simp add: fresh_repository_def fresh_dir_def)
  from fresh_append [OF this, of plain_io "decision_event 0 ''PATCH'' d"] band_facts(7) d(1)
  obtain r t where ap: "append_authorization_audit plain_io (decision_event 0 ''PATCH'' d) fresh_dir = (Inr r, t)" by (auto simp: plain_io_def)
  have "enforce_control_roles band_config plain_io 0 monitor_request fresh_dir = (Inr (), t)"
    using d(2) by (simp add: enforce_control_roles_def band_facts mutating_methods_def sbind_run d(1) sthen_run ap sguard_run)
  then show ?thesis
    by (simp add: guard_request_def sthen_run band_facts on_node_def on_repo_def started_gate_def fresh_node_def)
qed

theorem admitted_is_audited_witness:
  "\<exists>d r. authorize_control_request (Some band_policy) (Some ''ada'') ''PATCH'' ''/api/v1/players/p1/monitor'' = Some d \<and> ad_allowed d \<and>
     fst (append_authorization_audit plain_io (decision_event 0 ''PATCH'' d) (cn_repo (hg_node started_gate))) = Inr r"
proof -
  obtain g' where g: "guard_request band_config plain_io 0 monitor_request started_gate = (Inr (Admitted None), g')" using monitor_admitted by blast
  have "rq_verb monitor_request \<in> set mutating_methods" by (simp add: mutating_methods_def)
  from admitted_is_audited [OF g band_facts(1) this] band_facts(3-5) show ?thesis by auto
qed

theorem performer_confined_witness:
  "\<exists>answer g'. do_PATCH band_config plain_io 0 quiet_context monitor_request started_gate = (answer, g') \<and>
    (cn_show (hg_node g') = fresh_state 0 \<or>
     (\<exists>body e er r. (r = PatchMonitor ''p1'' body \<or> r = PatchNotation ''p1'' body) \<and>
        cn_show (hg_node g') = sexec (run_request (pc_clock quiet_context) e er r) (fresh_state 0)))"
proof -
  obtain answer g' where "do_PATCH band_config plain_io 0 quiet_context monitor_request started_gate = (answer, g')" by fastforce
  moreover from performer_confined [OF band_facts(1) monitor_request_simps(1) band_facts(3) _ _ this, of "\<lparr>ur_roles = [''performer''], ur_players = [''p1'']\<rparr>"]
  have "cn_show (hg_node g') = fresh_state 0 \<or>
     (\<exists>body e er r. (r = PatchMonitor ''p1'' body \<or> r = PatchNotation ''p1'' body) \<and>
        cn_show (hg_node g') = sexec (run_request (pc_clock quiet_context) e er r) (fresh_state 0))"
    by (auto simp: band_policy_def started_gate_def fresh_node_def)
  ultimately show ?thesis by blast
qed

end
