(* ===== verification/Py_Time.thy ===== *)
theory Py_Time
  imports Py_Value
begin

text \<open>
  Aware \<open>datetime\<close> values of Python in UTC: microseconds since the first day of year one, the calendar, and the ISO
  8601 texts in which the stores keep them.  The reader covers the extended form with an optional fraction of
  three or six digits and an optional offset of hours and minutes; the basic form, week dates and other
  fractions, which the stores never write, are answered with the error of a malformed text.
\<close>

section \<open>The calendar\<close>

type_synonym datetime = int

definition leap_year :: "int \<Rightarrow> bool" where
  "leap_year y = (y mod 4 = 0 \<and> (y mod 100 \<noteq> 0 \<or> y mod 400 = 0))"

definition year_days :: "int \<Rightarrow> int" where
  "year_days y = (if leap_year y then 366 else 365)"

definition month_days :: "int \<Rightarrow> int list" where
  "month_days y = [31, if leap_year y then 29 else 28, 31, 30, 31, 30, 31, 31, 30, 31, 30, 31]"

definition days_before_year :: "int \<Rightarrow> int" where
  "days_before_year y = (y - 1) * 365 + (y - 1) div 4 - (y - 1) div 100 + (y - 1) div 400"

definition days_before_month :: "int \<Rightarrow> int \<Rightarrow> int" where
  "days_before_month y m = sum_list (take (nat (m - 1)) (month_days y))"

text \<open>The year of a day and the days of that year before it, by cycles of 400, 100, 4 and 1 years; the last day of a
  leap year falls out of the cycle.\<close>

definition split_year :: "int \<Rightarrow> int \<times> int" where
  "split_year n =
     (let n400 = n div 146097; a = n mod 146097; n100 = a div 36524; b = a mod 36524; n4 = b div 1461; c = b mod 1461; n1 = c div 365; r = c mod 365;
          year = n400 * 400 + 1 + n100 * 100 + n4 * 4 + n1
      in if n1 = 4 \<or> n100 = 4 then (year - 1, 365) else (year, r))"

fun split_month :: "int list \<Rightarrow> int \<Rightarrow> int \<Rightarrow> int \<times> int" where
  "split_month [] m r = (m, r + 1)"
| "split_month (l # ls) m r = (if r < l then (m, r + 1) else split_month ls (m + 1) (r - l))"

definition max_datetime :: datetime where
  "max_datetime = (days_before_year 10000) * 86400000000"

definition in_calendar :: "datetime \<Rightarrow> bool" where
  "in_calendar t = (0 \<le> t \<and> t < max_datetime)"

text \<open>Adding a duration, which may leave the calendar.\<close>

definition dt_add :: "datetime \<Rightarrow> int \<Rightarrow> pyerr + datetime" where
  "dt_add t d = (if in_calendar (t + d) then Inr (t + d) else Inl OverflowError)"

definition of_days :: "int \<Rightarrow> int" where "of_days n = n * 86400000000"

definition of_hours :: "int \<Rightarrow> int" where "of_hours n = n * 3600000000"

section \<open>Texts\<close>

definition dig :: "int \<Rightarrow> char" where "dig i = char_of (48 + i mod 10)"

definition pad2 :: "int \<Rightarrow> string" where "pad2 i = [dig (i div 10), dig i]"

definition pad4 :: "int \<Rightarrow> string" where "pad4 i = pad2 (i div 100) @ pad2 i"

definition pad6 :: "int \<Rightarrow> string" where "pad6 i = pad2 (i div 10000) @ pad2 (i div 100) @ pad2 i"

text \<open>\<open>isoformat\<close> in UTC, its offset written as \<open>Z\<close>.\<close>

definition iso_date :: "int \<Rightarrow> string" where
  "iso_date n = (let (y, r) = split_year n; (m, d) = split_month (month_days y) 1 r in pad4 y @ ''-'' @ pad2 m @ ''-'' @ pad2 d)"

definition iso_clock :: "int \<Rightarrow> string" where
  "iso_clock u =
     (let s = u div 1000000; f = u mod 1000000
      in pad2 (s div 3600) @ '':'' @ pad2 (s div 60 mod 60) @ '':'' @ pad2 (s mod 60) @ (if f = 0 then [] else ''.'' @ pad6 f))"

definition iso :: "datetime \<Rightarrow> string" where
  "iso t = iso_date (t div 86400000000) @ ''T'' @ iso_clock (t mod 86400000000) @ ''Z''"

definition iso_error :: pyerr where
  "iso_error = ValueError ''Invalid isoformat string''"

definition digits_of :: "nat \<Rightarrow> string \<Rightarrow> (int \<times> string) option" where
  \<comment> \<open>a number of exactly \<open>n\<close> digits and what follows it\<close>
  "digits_of n s = (if length (take n s) = n \<and> list_all is_digit_char (take n s) then Some (digits_value (take n s), drop n s) else None)"

definition expect :: "char \<Rightarrow> string \<Rightarrow> string option" where
  "expect c s = (case s of d # t \<Rightarrow> if d = c then Some t else None | [] \<Rightarrow> None)"

definition read_date :: "string \<Rightarrow> (int \<times> string) option" where
  "read_date s =
     Option.bind (digits_of 4 s) (\<lambda>(y, s). Option.bind (expect (CHR ''-'') s) (\<lambda>s.
     Option.bind (digits_of 2 s) (\<lambda>(m, s). Option.bind (expect (CHR ''-'') s) (\<lambda>s.
     Option.bind (digits_of 2 s) (\<lambda>(d, s).
     if 1 \<le> y \<and> 1 \<le> m \<and> m \<le> 12 \<and> 1 \<le> d \<and> d \<le> month_days y ! nat (m - 1)
     then Some (days_before_year y + days_before_month y m + d - 1, s) else None)))))"

text \<open>Three digits of a fraction are milliseconds.\<close>

definition read_fraction :: "string \<Rightarrow> (int \<times> string) option" where
  "read_fraction s =
     (case expect (CHR ''.'') s of
        None \<Rightarrow> Some (0, s)
      | Some t \<Rightarrow> (case digits_of 6 t of Some x \<Rightarrow> Some x | None \<Rightarrow> map_option (map_prod (\<lambda>i. i * 1000) id) (digits_of 3 t)))"

definition read_seconds :: "string \<Rightarrow> (int \<times> string) option" where
  "read_seconds s =
     (case expect (CHR '':'') s of
        None \<Rightarrow> Some (0, s)
      | Some t \<Rightarrow> Option.bind (digits_of 2 t) (\<lambda>(sec, t). Option.bind (read_fraction t) (\<lambda>(f, t).
          if sec < 60 then Some (sec * 1000000 + f, t) else None)))"

definition read_clock :: "string \<Rightarrow> (int \<times> string) option" where
  "read_clock s =
     Option.bind (digits_of 2 s) (\<lambda>(h, s). Option.bind (expect (CHR '':'') s) (\<lambda>s.
     Option.bind (digits_of 2 s) (\<lambda>(mi, s). Option.bind (read_seconds s) (\<lambda>(f, s).
     if h < 24 \<and> mi < 60 then Some ((h * 60 + mi) * 60000000 + f, s) else None))))"

definition read_offset :: "string \<Rightarrow> int option" where
  "read_offset s =
     (case s of
        [] \<Rightarrow> Some 0
      | c # t \<Rightarrow>
          if c = CHR ''+'' \<or> c = CHR ''-'' then
            Option.bind (digits_of 2 t) (\<lambda>(h, t). Option.bind (expect (CHR '':'') t) (\<lambda>t. Option.bind (digits_of 2 t) (\<lambda>(mi, t).
            if t = [] \<and> h < 24 \<and> mi < 60 then Some ((if c = CHR ''+'' then 1 else -1) * (h * 60 + mi) * 60000000) else None)))
          else None)"

definition from_iso :: "string \<Rightarrow> datetime option" where
  "from_iso s =
     Option.bind (read_date s) (\<lambda>(d, s).
     case s of
       [] \<Rightarrow> Some (d * 86400000000)
     | _ # t \<Rightarrow> Option.bind (read_clock t) (\<lambda>(u, t). Option.bind (read_offset t) (\<lambda>off. Some (d * 86400000000 + u - off))))"

text \<open>\<open>_parse_time\<close> of a stored value; a text without offset is read as UTC, and an offset may lead out of the calendar.\<close>

definition parse_time :: "pyval \<Rightarrow> pyerr + datetime" where
  "parse_time v =
     (let text = strip (py_str v);
          text = (if endswith text ''Z'' then take (length text - 1) text @ ''+00:00'' else text)
      in case from_iso text of None \<Rightarrow> Inl iso_error | Some t \<Rightarrow> if in_calendar t then Inr t else Inl OverflowError)"

section \<open>Texts are read back\<close>

lemma div_is: "x = k * q + s \<Longrightarrow> 0 \<le> s \<Longrightarrow> s < k \<Longrightarrow> x div k = (q :: int)"
  by (simp add: div_pos_pos_trivial)

lemma mod_is: "x = k * q + s \<Longrightarrow> 0 \<le> s \<Longrightarrow> s < k \<Longrightarrow> x mod k = (s :: int)"
  by (simp add: mod_pos_pos_trivial)

lemma split_year_correct:
  assumes "split_year n = (y, r)" and "0 \<le> n"
  shows "n = days_before_year y + r" and "0 \<le> r" and "r < year_days y" and "1 \<le> y"
proof -
  define a b c where "a = n mod 146097" and "b = a mod 36524" and "c = b mod 1461"
  define n400 n100 n4 n1 where "n400 = n div 146097" and "n100 = a div 36524" and "n4 = b div 1461" and "n1 = c div 365"
  define rest where "rest = c mod 365"
  have n: "n = 146097 * n400 + a" "0 \<le> a" "a < 146097" "0 \<le> n400" using assms(2) by (simp_all add: a_def n400_def)
  have a: "a = 36524 * n100 + b" "0 \<le> b" "b < 36524" "0 \<le> n100" using n by (simp_all add: b_def n100_def)
  have b: "b = 1461 * n4 + c" "0 \<le> c" "c < 1461" "0 \<le> n4" using a by (simp_all add: c_def n4_def)
  have c: "c = 365 * n1 + rest" "0 \<le> rest" "rest < 365" "0 \<le> n1" using b by (simp_all add: rest_def n1_def)
  have le: "n100 \<le> 4" "n4 \<le> 24" "n1 \<le> 4" using n a b c by linarith+
  have run: "split_year n = (if n1 = 4 \<or> n100 = 4 then (n400 * 400 + 1 + n100 * 100 + n4 * 4 + n1 - 1, 365)
      else (n400 * 400 + 1 + n100 * 100 + n4 * 4 + n1, rest))"
    unfolding split_year_def Let_def by (simp add: a_def b_def c_def n400_def n100_def n4_def n1_def rest_def)
  have all: "n = days_before_year y + r \<and> 0 \<le> r \<and> r < year_days y \<and> 1 \<le> y"
  proof (cases "n1 = 4 \<or> n100 = 4")
    case False
    with le have l: "n100 \<le> 3" "n1 \<le> 3" using a(4) c(4) by auto
    have y: "y = n400 * 400 + 1 + n100 * 100 + n4 * 4 + n1" "r = rest" using assms(1) run False by auto
    have "(y - 1) div 4 = 100 * n400 + 25 * n100 + n4" by (rule div_is [where s = n1]) (use y l c in auto)
    moreover have "(y - 1) div 100 = 4 * n400 + n100" by (rule div_is [where s = "4 * n4 + n1"]) (use y l le b c in auto)
    moreover have "(y - 1) div 400 = n400" by (rule div_is [where s = "100 * n100 + 4 * n4 + n1"]) (use y l le a b c in auto)
    ultimately have "days_before_year y = 146097 * n400 + 36524 * n100 + 1461 * n4 + 365 * n1" unfolding days_before_year_def using y by simp
    moreover have "rest < year_days y" using c(3) by (simp add: year_days_def)
    ultimately show ?thesis using n a b c y by simp
  next
    case True
    have y: "y = n400 * 400 + n100 * 100 + n4 * 4 + n1" "r = 365" using assms(1) run True by auto
    show ?thesis
    proof (cases "n100 = 4")
      case True
      have z: "n4 = 0" "n1 = 0" "rest = 0" using True n a b c by linarith+
      have y': "y = 400 * n400 + 400" using y True z by simp
      have "(y - 1) div 4 = 100 * n400 + 99" by (rule div_is [where s = 3]) (use y' in auto)
      moreover have "(y - 1) div 100 = 4 * n400 + 3" by (rule div_is [where s = 99]) (use y' in auto)
      moreover have "(y - 1) div 400 = n400" by (rule div_is [where s = 399]) (use y' in auto)
      ultimately have "days_before_year y = 146097 * n400 + 145731" unfolding days_before_year_def using y' by simp
      moreover have "leap_year y"
        unfolding leap_year_def using mod_is [of y 4 "100 * n400 + 100" 0] mod_is [of y 400 "n400 + 1" 0] y' by auto
      moreover have "n = 146097 * n400 + 146096" "0 \<le> n400" using n a b c z True by auto
      ultimately show ?thesis using y(2) y' by (simp add: year_days_def)
    next
      case False
      with True le a(4) have l: "n1 = 4" "n100 \<le> 3" by auto
      have z: "rest = 0" using l b c by linarith
      have n4: "n4 \<le> 23" using l z a b c by linarith
      have y': "y = 400 * n400 + 100 * n100 + 4 * n4 + 4" using y l by simp
      have "(y - 1) div 4 = 100 * n400 + 25 * n100 + n4" by (rule div_is [where s = 3]) (use y' in auto)
      moreover have "(y - 1) div 100 = 4 * n400 + n100" by (rule div_is [where s = "4 * n4 + 3"]) (use y' n4 b in auto)
      moreover have "(y - 1) div 400 = n400" by (rule div_is [where s = "100 * n100 + 4 * n4 + 3"]) (use y' n4 a b l in auto)
      ultimately have "days_before_year y = 146097 * n400 + 36524 * n100 + 1461 * n4 + 1095" unfolding days_before_year_def using y' by simp
      moreover have "leap_year y"
        unfolding leap_year_def using mod_is [of y 4 "100 * n400 + 25 * n100 + n4 + 1" 0] mod_is [of y 100 "4 * n400 + n100" "4 * n4 + 4"] y' n4 b(4) by auto
      moreover have "n = 146097 * n400 + 36524 * n100 + 1461 * n4 + 1460" "0 \<le> n400" "0 \<le> n100" "0 \<le> n4" using n a b c z l by auto
      ultimately show ?thesis using y(2) y' by (simp add: year_days_def)
    qed
  qed
  then show "n = days_before_year y + r" "0 \<le> r" "r < year_days y" "1 \<le> y" by auto
qed

lemma split_month_correct:
  assumes "split_month ls m r = (m', d)" and "0 \<le> r" and "r < sum_list ls"
  shows "\<exists>k < length ls. m' = m + int k \<and> r = sum_list (take k ls) + d - 1 \<and> 1 \<le> d \<and> d \<le> ls ! k"
  using assms
proof (induction ls m r rule: split_month.induct)
  case (2 l ls m r)
  show ?case
  proof (cases "r < l")
    case True
    with 2 show ?thesis by (intro exI [of _ 0]) auto
  next
    case False
    with 2 obtain k where "k < length ls" "m' = m + 1 + int k" "r - l = sum_list (take k ls) + d - 1" "1 \<le> d" "d \<le> ls ! k" by auto
    then show ?thesis by (intro exI [of _ "Suc k"]) auto
  qed
qed simp

lemma sum_month_days: "sum_list (month_days y) = year_days y"
  by (simp add: month_days_def year_days_def)

lemma days_before_year_mono: "y \<le> z \<Longrightarrow> days_before_year y \<le> days_before_year z"
proof -
  assume "y \<le> z"
  then obtain k where z: "z = y + int k" using zle_iff_zadd by blast
  have step: "days_before_year x \<le> days_before_year (x + 1)" for x
  proof -
    have "(x - 1) div 4 \<le> x div 4" "(x - 1) div 400 \<le> x div 400" "x div 100 \<le> (x - 1 + 100) div 100" by (intro zdiv_mono1; simp)+
    moreover have "(x - 1 + 100) div 100 = (x - 1) div 100 + 1" by simp
    ultimately show ?thesis unfolding days_before_year_def by simp
  qed
  have "days_before_year y \<le> days_before_year (y + int k)"
  proof (induction k)
    case (Suc k)
    with step [of "y + int k"] show ?case by (simp add: algebra_simps)
  qed simp
  then show ?thesis by (simp add: z)
qed

lemma digit_dig: "is_digit_char (dig i) \<and> int (ord_of (dig i)) = 48 + i mod 10"
proof -
  have "\<forall>k \<in> set [0, 1, 2, 3, 4, 5, 6, 7, 8, 9 :: int]. is_digit_char (char_of (48 + k)) \<and> int (ord_of (char_of (48 + k))) = 48 + k" by code_simp
  moreover have "i mod 10 \<in> set [0, 1, 2, 3, 4, 5, 6, 7, 8, 9]" by simp presburger
  ultimately show ?thesis unfolding dig_def by blast
qed

lemma digits_of_pad2: "0 \<le> i \<Longrightarrow> i < 100 \<Longrightarrow> digits_of 2 (pad2 i @ s) = Some (i, s)"
  using digit_dig [of "i div 10"] digit_dig [of i] by (simp add: digits_of_def pad2_def digits_value_def numeral_2_eq_2) 

lemma digits_of_split:
  "digits_of m (a @ b @ s) = Some (i, b @ s) \<Longrightarrow> digits_of k (b @ s) = Some (j, s) \<Longrightarrow> length a = m \<Longrightarrow> length b = k \<Longrightarrow>
   digits_of (m + k) (a @ b @ s) = Some (i * 10 ^ k + j, s)"
proof -
  have fold: "foldl (\<lambda>a c. 10 * a + (int (ord_of c) - 48)) z b = z * 10 ^ length b + digits_value b" for z b
    unfolding digits_value_def
  proof (induction b arbitrary: z)
    case (Cons c b)
    from Cons [of "10 * z + (int (ord_of c) - 48)"] Cons [of "int (ord_of c) - 48"] show ?case by (simp add: algebra_simps)
  qed simp
  assume *: "digits_of m (a @ b @ s) = Some (i, b @ s)" "digits_of k (b @ s) = Some (j, s)" "length a = m" "length b = k"
  then have "digits_value a = i" "digits_value b = j" "list_all is_digit_char a" "list_all is_digit_char b" by (auto simp: digits_of_def split: if_splits)
  moreover from this have "digits_value (a @ b) = i * 10 ^ k + j" using fold [of "digits_value a" b] *(4) by (simp add: digits_value_def)
  ultimately show ?thesis using *(3,4) by (simp add: digits_of_def)
qed

lemma length_pad [simp]: "length (pad2 i) = 2" "length (pad4 i) = 4" "length (pad6 i) = 6"
  by (simp_all add: pad2_def pad4_def pad6_def)

lemma pad2_mod: "pad2 (i mod 100) = pad2 i"
proof -
  have "i mod 100 = 10 * (i div 10 mod 10) + i mod 10" using zmod_zmult2_eq [of 10 i 10] by simp
  then have "i mod 100 div 10 mod 10 = i div 10 mod 10" "i mod 100 mod 10 = i mod 10" by simp_all
  then show ?thesis by (simp add: pad2_def dig_def)
qed

lemma digits_of_pad4: "0 \<le> i \<Longrightarrow> i < 10000 \<Longrightarrow> digits_of 4 (pad4 i @ s) = Some (i, s)"
  using digits_of_split [OF digits_of_pad2 [of "i div 100"] digits_of_pad2 [of "i mod 100" s]]
  by (simp add: pad4_def pad2_mod)

lemma digits_of_pad6: "0 \<le> i \<Longrightarrow> i < 1000000 \<Longrightarrow> digits_of 6 (pad6 i @ s) = Some (i, s)"
proof -
  assume i: "0 \<le> i" "i < 1000000"
  have "i div 100 div 100 = i div 10000" by simp
  then have p: "pad6 i = pad4 (i div 100) @ pad2 (i mod 100)" by (simp add: pad6_def pad4_def pad2_mod)
  from digits_of_split [OF digits_of_pad4 [of "i div 100"] digits_of_pad2 [of "i mod 100" s]] i show ?thesis by (simp add: p)
qed

lemma length_month_days [simp]: "length (month_days y) = 12"
  by (simp add: month_days_def)

lemma read_iso_date:
  assumes "0 \<le> n" and "n < days_before_year 10000"
  shows "read_date (iso_date n @ s) = Some (n, s)"
proof -
  obtain y r where yr: "split_year n = (y, r)" by fastforce
  note y = split_year_correct [OF yr assms(1)]
  obtain m d where md: "split_month (month_days y) 1 r = (m, d)" by fastforce
  from split_month_correct [OF md y(2)] y(3) obtain k where k: "k < 12" "m = 1 + int k" "r = sum_list (take k (month_days y)) + d - 1" "1 \<le> d" "d \<le> month_days y ! k"
    by (auto simp: sum_month_days)
  have "y < 10000" using days_before_year_mono [of 10000 y] y(1,2) assms(2) by (cases "y < 10000") auto
  then have d4: "digits_of 4 (pad4 y @ t) = Some (y, t)" for t using y(4) by (intro digits_of_pad4) auto
  have "\<forall>l \<in> set (month_days y). l \<le> 31" by (simp add: month_days_def)
  then have "month_days y ! k \<le> 31" using k(1) by (simp add: nth_mem)
  with k(5) have "d \<le> 31" by linarith
  then have d2: "digits_of 2 (pad2 d @ t) = Some (d, t)" "digits_of 2 (pad2 m @ t) = Some (m, t)" for t
    using k by (simp_all add: digits_of_pad2)
  have m: "1 \<le> m" "m \<le> 12" "nat (m - 1) = k" using k(1,2) by simp_all
  have "read_date (iso_date n @ s) = Some (days_before_year y + days_before_month y m + d - 1, s)"
    using m k(4,5) y(4) by (simp add: read_date_def iso_date_def yr md d4 d2 expect_def)
  also have "days_before_year y + days_before_month y m + d - 1 = n" using y(1) k by (simp add: days_before_month_def)
  finally show ?thesis .
qed

lemma read_iso_clock:
  assumes "0 \<le> u" and "u < 86400000000"
  shows "read_clock (iso_clock u @ ''+00:00'') = Some (u, ''+00:00'')"
proof -
  define s f where "s = u div 1000000" and "f = u mod 1000000"
  have u: "u = s * 1000000 + f" "0 \<le> f" "f < 1000000" "0 \<le> s" "s < 86400" using assms by (simp_all add: s_def f_def)
  have "s div 3600 = s div 60 div 60" using zdiv_zmult2_eq [of 60 s 60] by simp
  then have hms: "s = (s div 3600 * 60 + s div 60 mod 60) * 60 + s mod 60" "0 \<le> s div 3600" "s div 3600 < 24"
    using u(4,5) mult_div_mod_eq [of 60 "s div 60"] mult_div_mod_eq [of 60 s] by simp_all
  have rf: "read_fraction ((if f = 0 then [] else ''.'' @ pad6 f) @ ''+00:00'') = Some (f, ''+00:00'')"
    using u digits_of_pad6 [of f "''+00:00''"] by (simp add: read_fraction_def expect_def)
  have rs: "read_seconds ('':'' @ pad2 (s mod 60) @ (if f = 0 then [] else ''.'' @ pad6 f) @ ''+00:00'') = Some (s mod 60 * 1000000 + f, ''+00:00'')"
    using rf by (simp add: read_seconds_def expect_def digits_of_pad2 del: append_assoc) 
  have "read_clock (iso_clock u @ ''+00:00'') = Some ((s div 3600 * 60 + s div 60 mod 60) * 60000000 + (s mod 60 * 1000000 + f), ''+00:00'')"
    using rs hms by (simp add: read_clock_def iso_clock_def Let_def s_def [symmetric] f_def [symmetric] digits_of_pad2 expect_def)
  also have "(s div 3600 * 60 + s div 60 mod 60) * 60000000 + (s mod 60 * 1000000 + f) = u" using u(1) hms(1) by linarith
  finally show ?thesis .
qed

lemma iso_shape: "\<exists>c t. iso t0 = c # t \<and> is_digit_char c"
proof -
  obtain y r where "split_year (t0 div 86400000000) = (y, r)" by fastforce
  moreover obtain m d where "split_month (month_days y) 1 r = (m, d)" by fastforce
  ultimately show ?thesis using digit_dig by (auto simp: iso_def iso_date_def pad4_def pad2_def)
qed

lemma strip_iso: "strip (iso t) = iso t"
proof -
  obtain c r where c: "iso t = c # r" "is_digit_char c" using iso_shape by blast
  have "\<not> is_space c" using c(2) by (auto simp: is_digit_char_def is_space_def Let_def)
  moreover have "last (iso t) = CHR ''Z''" by (simp add: iso_def)
  moreover have "\<not> is_space (CHR ''Z'')" by code_simp
  ultimately show ?thesis using c(1) by (intro strip_fixed) auto
qed

lemma endswith_snoc: "endswith (s @ p) p" "take (length (s @ p) - length p) (s @ p) = s"
  by (simp_all add: endswith_def)

text \<open>
  A stored time is read back as the same instant: what \<open>iso\<close> writes of any time in the calendar, from year one to year
  9999 and to the microsecond, is read by \<open>parse_time\<close> as that time.
\<close>

theorem stored_time_read_back:
  assumes "in_calendar t"
  shows "parse_time (PStr (iso t)) = Inr t"
proof -
  let ?d = "t div 86400000000" and ?u = "t mod 86400000000"
  have d: "0 \<le> ?d" "?d < days_before_year 10000" using assms by (auto simp: in_calendar_def max_datetime_def pos_imp_zdiv_nonneg_iff intro: div_less)
  have u: "0 \<le> ?u" "?u < 86400000000" by simp_all
  let ?b = "iso_date ?d @ ''T'' @ iso_clock ?u"
  have iso: "iso t = ?b @ ''Z''" by (simp add: iso_def)
  have off: "read_offset ''+00:00'' = Some 0" by code_simp
  have "from_iso (?b @ ''+00:00'') = Some (?d * 86400000000 + ?u)"
    using read_iso_date [OF d, of "''T'' @ iso_clock ?u @ ''+00:00''"] read_iso_clock [OF u] off by (simp add: from_iso_def)
  then have "from_iso (?b @ ''+00:00'') = Some t" by simp
  then show ?thesis using endswith_snoc [of ?b "''Z''"] assms by (simp add: parse_time_def py_str_def strip_iso) (simp add: iso)
qed

theorem stored_time_read_back_witness:
  "parse_time (PStr (iso 63936964800123456)) = Inr 63936964800123456"
proof -
  have "in_calendar 63936964800123456" by code_simp
  then show ?thesis by (rule stored_time_read_back)
qed

end
