(* ===== verification/Governance.thy ===== *)
theory Governance
  imports Py_Time Py_Json Py_Monad Py_Crypto
begin

text \<open>
  The community governance store (\<^verbatim>\<open>src/backend/community_governance.py\<close>): accounts, proposals, voting invitations and
  votes, their tallies with the maturing of a proposal, adoption, and the evidence each leaves in the
  public record.  The dictionaries of the store are JSON values as in the source, since its file may hold
  anything.  Readings of the clock are given by number, in the order in which a call makes them; random
  tokens likewise.  The answers of the public record and the outcomes of the writes of the file are queues
  in the state: a call takes the next ones.  The mail server is an argument.
\<close>

section \<open>The store\<close>

record governance =
  gv_policy :: pydict
  gv_accounts :: "(string \<times> pydict) list"
  gv_proposals :: "(string \<times> pydict) list"
  gv_invitations :: "(string \<times> pydict) list"
  gv_votes :: "(string \<times> pydict) list"
  gv_revision :: int
  gv_recorded :: bool
  gv_file :: "pyval option"
  gv_saves :: "bool list"
  gv_answers :: "(pyerr + pydict) list"

definition default_policy :: pydict where
  "default_policy =
     [(''hypeStartValue'', PFloat (Fin 1)), (''hypeDayOne'', PInt 1), (''hypeZeroDay'', PInt 365), (''defaultVoteWindowHours'', PInt 168),
      (''minRawVotes'', PInt 3), (''minApprovalRatio'', PFloat (Fin (60 / 100))), (''minDurableVoteUnits'', PFloat (Fin 3)),
      (''requireAllIssuedWindowsClosedForBinding'', PBool True), (''requireAuthenticatedAccount'', PBool True), (''urgentProvisionalMaxDays'', PInt 30)]"

definition choices :: "string list" where
  \<comment> \<open>a set in the source\<close>
  "choices = [''yes'', ''no'', ''abstain'']"

text \<open>\<open>try: m except Exception: h\<close>, where the assignments of \<open>m\<close> stay.\<close>

definition stry :: "('s, 'a) pymethod \<Rightarrow> (pyerr \<Rightarrow> ('s, 'a) pymethod) \<Rightarrow> ('s, 'a) pymethod" where
  "stry m h = (\<lambda>s. case m s of (Inl e, s') \<Rightarrow> h e s' | (Inr x, s') \<Rightarrow> (Inr x, s'))"

text \<open>\<open>d.get(v)\<close> of a dictionary with string keys and any value as key.\<close>

definition lookup_value :: "(string \<times> 'v) list \<Rightarrow> pyval \<Rightarrow> pyerr + 'v option" where
  "lookup_value d v = (case v of PStr k \<Rightarrow> Inr (dget d k) | PList _ \<Rightarrow> Inl TypeError | PDict _ \<Rightarrow> Inl TypeError | _ \<Rightarrow> Inr None)"

text \<open>Which of the three tables that leave evidence an entry is in.\<close>

datatype gov_table = Proposals | Invitations | Votes

primrec table :: "gov_table \<Rightarrow> governance \<Rightarrow> (string \<times> pydict) list" where
  "table Proposals s = gv_proposals s"
| "table Invitations s = gv_invitations s"
| "table Votes s = gv_votes s"

primrec set_table :: "gov_table \<Rightarrow> (string \<times> pydict) list \<Rightarrow> governance \<Rightarrow> governance" where
  "set_table Proposals d s = s\<lparr>gv_proposals := d\<rparr>"
| "set_table Invitations d s = s\<lparr>gv_invitations := d\<rparr>"
| "set_table Votes d s = s\<lparr>gv_votes := d\<rparr>"

definition entry :: "gov_table \<Rightarrow> string \<Rightarrow> governance \<Rightarrow> pydict" where
  "entry t k s = dgetd (table t s) k []"

definition put_entry :: "gov_table \<Rightarrow> string \<Rightarrow> pydict \<Rightarrow> (governance, unit) pymethod" where
  "put_entry t k d = smodify (\<lambda>s. set_table t (dset (table t s) k d) s)"

text \<open>\<open>item[field] = value\<close> of an entry that is shared with its table; of one that the table does not hold it is lost.\<close>

definition put_field :: "gov_table \<Rightarrow> string \<Rightarrow> string \<Rightarrow> pyval \<Rightarrow> (governance, unit) pymethod" where
  "put_field t k f v = smodify (\<lambda>s. if din k (table t s) then set_table t (dset (table t s) k (dset (entry t k s) f v)) s else s)"

definition put_fields :: "gov_table \<Rightarrow> string \<Rightarrow> pydict \<Rightarrow> (governance, unit) pymethod" where
  "put_fields t k fs = sfold (\<lambda>x u. put_field t k (fst x) (snd x)) fs ()"

section \<open>Proposal changes and maturity\<close>

definition change_record :: "pyval \<Rightarrow> pyerr + pyval" where
  "change_record v =
     (case v of
        PNone \<Rightarrow> Inr PNone
      | PDict d \<Rightarrow>
          (let kind = clean_str 128 (dgetd d ''kind'' (PStr [])); payload = dgetn d ''payload'' in
           if kind = [] \<or> \<not> is_dict payload then Inl (ValueError ''proposal change requires kind and object payload'')
           else Inr (PDict [(''kind'', PStr kind), (''payload'', payload),
             (''hash'', PStr (sha256_hex (canonical (PDict [(''kind'', PStr kind), (''payload'', payload)]))))]))
      | _ \<Rightarrow> Inl (ValueError ''proposal change must be an object''))"

definition elapsed_days :: "datetime \<Rightarrow> datetime \<Rightarrow> rat" where
  "elapsed_days created now = max 0 (of_int (now - created) / 86400000000)"

definition hype_value :: "datetime \<Rightarrow> datetime \<Rightarrow> int \<Rightarrow> pyerr + pyfloat" where
  "hype_value created now zero_day =
     (if elapsed_days created now \<le> 1 then Inr (Fin 1)
      else ebind (py_float (PInt (zero_day - 1))) (\<lambda>f.
        Inr (case fmax (Fin 1) f of
               Fin width \<Rightarrow> fround 9 (Fin (max 0 (min 1 (1 - (elapsed_days created now - 1) / width))))
             | x \<Rightarrow> x)))"

definition durable_of :: "pyfloat \<Rightarrow> pyfloat" where
  "durable_of hype = fround 9 (fsub (Fin 1) hype)"

definition durable_fraction :: "datetime \<Rightarrow> datetime \<Rightarrow> int \<Rightarrow> pyerr + pyfloat" where
  "durable_fraction created now zero_day = ebind (hype_value created now zero_day) (\<lambda>h. Inr (durable_of h))"

definition proposal_hype :: "pydict \<Rightarrow> pydict \<Rightarrow> datetime \<Rightarrow> pyerr + pyfloat \<times> pyfloat" where
  "proposal_hype policy proposal now =
     ebind (dindex proposal ''createdAt'') (\<lambda>created.
     ebind (dindex policy ''hypeZeroDay'') (\<lambda>z. ebind (py_int z) (\<lambda>zero_day.
     ebind (parse_time created) (\<lambda>c. ebind (hype_value c now zero_day) (\<lambda>h. Inr (h, durable_of h))))))"

section \<open>The file\<close>

definition gov_snapshot :: "governance \<Rightarrow> pydict" where
  \<comment> \<open>\<open>_persistence_snapshot\<close>\<close>
  "gov_snapshot s =
     [(''revision'', PInt (gv_revision s)), (''policy'', PDict (gv_policy s)), (''accounts'', PList (map (PDict \<circ> snd) (gv_accounts s))),
      (''proposals'', PList (map (PDict \<circ> snd) (gv_proposals s))), (''invitations'', PList (map (PDict \<circ> snd) (gv_invitations s))),
      (''votes'', PList (map (PDict \<circ> snd) (gv_votes s)))]"

definition gov_save :: "(governance, unit) pymethod" where
  "gov_save = (\<lambda>s.
     (let s' = s\<lparr>gv_saves := tl (gv_saves s)\<rparr> in
      if gv_saves s = [] \<or> hd (gv_saves s) then (Inr (), s'\<lparr>gv_file := Some (json_sorted (PDict (gov_snapshot s)))\<rparr>)
      else (Inl OSError, s')))"

definition gov_changed :: "(governance, unit) pymethod" where
  "gov_changed = sthen (smodify (\<lambda>s. s\<lparr>gv_revision := gv_revision s + 1\<rparr>)) gov_save"

definition by_id :: "pyval \<Rightarrow> pyerr + (string \<times> pydict) list" where
  "by_id v = ebind (py_iter v) (\<lambda>xs.
     Inr (fold (\<lambda>x acc. case x of PDict d \<Rightarrow> if truthy (dgetn d ''id'') then dset acc (py_str (dgetn d ''id'')) d else acc | _ \<Rightarrow> acc) xs []))"

definition empty_governance :: "bool \<Rightarrow> governance" where
  "empty_governance recorded =
     \<lparr>gv_policy = default_policy, gv_accounts = [], gv_proposals = [], gv_invitations = [], gv_votes = [], gv_revision = 1, gv_recorded = recorded,
      gv_file = None, gv_saves = [], gv_answers = []\<rparr>"

text \<open>The constructor: a file that is missing or is not JSON (no value) leaves the store as it was opened.\<close>

definition open_governance :: "bool \<Rightarrow> pyval option \<Rightarrow> pyerr + governance" where
  "open_governance recorded f =
     (let s = (empty_governance recorded)\<lparr>gv_file := f\<rparr> in
      case f of
        Some (PDict d) \<Rightarrow>
          ebind (case por (dgetn d ''policy'') (PDict []) of PDict p \<Rightarrow> Inr (dmerge default_policy p) | _ \<Rightarrow> Inl TypeError) (\<lambda>policy.
          ebind (by_id (dgetd d ''accounts'' (PList []))) (\<lambda>accounts.
          ebind (by_id (dgetd d ''proposals'' (PList []))) (\<lambda>proposals.
          ebind (by_id (dgetd d ''invitations'' (PList []))) (\<lambda>invitations.
          ebind (by_id (dgetd d ''votes'' (PList []))) (\<lambda>votes.
          ebind (as_int (dgetd d ''revision'' (PInt 1)) 1) (\<lambda>revision.
          Inr (s\<lparr>gv_policy := policy, gv_accounts := accounts, gv_proposals := proposals, gv_invitations := invitations, gv_votes := votes,
            gv_revision := max 1 revision\<rparr>)))))))
      | _ \<Rightarrow> Inr s)"

section \<open>Evidence in the public record\<close>

definition record_uri :: "pydict \<Rightarrow> pyerr + string" where
  "record_uri reference =
     (let record_id = strip (py_str (dgetd reference ''recordId'' (PStr []))); record_hash = strip (py_str (dgetd reference ''recordHash'' (PStr []))) in
      if \<not> startswith record_id ''record-'' \<or> length record_hash \<noteq> 64 then Inl (ValueError ''invalid public-record reference'')
      else Inr (''upp-public-record:'' @ record_id @ '':'' @ record_hash))"

text \<open>One call of the record with the payload; the next answer in the queue, an error when there is none.\<close>

definition append_public_record :: "string \<Rightarrow> pydict \<Rightarrow> (governance, pyval) pymethod" where
  "append_public_record record_type payload = (\<lambda>s.
     if \<not> gv_recorded s then (Inr PNone, s)
     else
       (let s' = s\<lparr>gv_answers := tl (gv_answers s)\<rparr> in
        case gv_answers s of
          [] \<Rightarrow> (Inl OSError, s')
        | Inl e # _ \<Rightarrow> (Inl e, s')
        | Inr reference # _ \<Rightarrow> (ebind (record_uri reference) (\<lambda>u. Inr (PStr u)), s')))"

definition text_field :: "pydict \<Rightarrow> string \<Rightarrow> string \<times> pyval" where
  "text_field d k = (k, PStr (py_str (dgetd d k (PStr []))))"

definition proposal_public_payload :: "pydict \<Rightarrow> pyerr + pydict" where
  "proposal_public_payload p =
     ebind (get_int p ''version'' (PInt 1)) (\<lambda>version.
     Inr [(''version'', PInt 1), (''proposalId'', PStr (py_str (dgetd p ''id'' (PStr [])))), (''proposalVersion'', PInt version), text_field p ''title'',
       text_field p ''description'', text_field p ''scope'', (''createdAt'', dgetn p ''createdAt''), (''updatedAt'', dgetn p ''updatedAt''),
       text_field p ''status'', (''provisional'', PBool (get_bool p ''provisional'' False)), (''provisionalExpiresAt'', dgetn p ''provisionalExpiresAt''),
       (''change'', if is_dict (dgetn p ''change'') then dgetn p ''change'' else PNone)])"

definition invitation_public_payload :: "pydict \<Rightarrow> pyerr + pydict" where
  "invitation_public_payload i =
     ebind (get_int i ''proposalVersion'' (PInt 0)) (\<lambda>version. ebind (get_int i ''windowHours'' (PInt 0)) (\<lambda>hours.
     Inr [(''version'', PInt 1), (''invitationId'', PStr (py_str (dgetd i ''id'' (PStr [])))), text_field i ''proposalId'', (''proposalVersion'', PInt version),
       text_field i ''status'', (''windowHours'', PInt hours), (''sentAt'', dgetn i ''sentAt''), (''expiresAt'', dgetn i ''expiresAt''),
       (''deliveryAcceptedAt'', dgetn i ''deliveryAcceptedAt''), (''deliveryMode'', dgetn i ''deliveryMode'')]))"

definition ballot_public_payload :: "pydict \<Rightarrow> pyerr + pydict" where
  "ballot_public_payload v =
     ebind (get_int v ''proposalVersion'' (PInt 0)) (\<lambda>version.
     Inr [(''version'', PInt 1), text_field v ''publicBallotId'', text_field v ''proposalId'', (''proposalVersion'', PInt version), text_field v ''invitationId'',
       (''castAt'', dgetn v ''castAt''), text_field v ''choiceCommitmentSha256'', (''rawVoteUnits'', PFloat (Fin 1))])"

definition choice_material :: "string \<Rightarrow> string \<Rightarrow> int \<Rightarrow> pydict \<Rightarrow> pydict" where
  "choice_material ballot_id salt version v =
     [(''purpose'', PStr ''org.upp.community-ballot-choice/1''), (''publicBallotId'', PStr ballot_id), text_field v ''proposalId'',
      (''proposalVersion'', PInt version), text_field v ''choice'', (''salt'', PStr salt)]"

text \<open>\<open>_ensure_vote_commitment\<close>; the two tokens are those of the ballot and of the salt.\<close>

definition ensure_vote_commitment :: "(nat \<Rightarrow> string) \<Rightarrow> pydict \<Rightarrow> pyerr + pydict" where
  "ensure_vote_commitment rnd v =
     (if truthy (dgetn v ''publicBallotId'') \<and> truthy (dgetn v ''choiceSalt'') \<and> truthy (dgetn v ''choiceCommitmentSha256'') then Inr v
      else ebind (get_int v ''proposalVersion'' (PInt 0)) (\<lambda>version.
        let ballot_id = ''ballot-'' @ rnd 0; salt = rnd 1 in
        Inr (dset (dset (dset v ''publicBallotId'' (PStr ballot_id)) ''choiceSalt'' (PStr salt)) ''choiceCommitmentSha256''
          (PStr (sha256_hex (canonical (PDict (choice_material ballot_id salt version v))))))))"

primrec record_type :: "gov_table \<Rightarrow> string" where
  "record_type Proposals = ''community-proposal-version''"
| "record_type Invitations = ''community-vote-invitation''"
| "record_type Votes = ''community-ballot''"

primrec public_payload :: "gov_table \<Rightarrow> pydict \<Rightarrow> pyerr + pydict" where
  "public_payload Proposals = proposal_public_payload"
| "public_payload Invitations = invitation_public_payload"
| "public_payload Votes = ballot_public_payload"

text \<open>\<open>_record_proposal_version\<close>, \<open>_record_invitation\<close> and, after the commitment, \<open>_record_vote\<close>: the entry is marked as
  pending in the file before the record is asked.\<close>

definition record_entry :: "gov_table \<Rightarrow> string \<Rightarrow> (governance, bool) pymethod" where
  "record_entry t k =
     sbind (sgets gv_recorded) (\<lambda>recorded.
     if \<not> recorded then sreturn True
     else
       sthen (put_field t k ''publicRecordPending'' (PBool True))
      (sthen gov_save
      (stry
        (sbind (sgete (\<lambda>s. public_payload t (entry t k s))) (\<lambda>payload.
         sbind (append_public_record (record_type t) payload) (\<lambda>ref.
         sthen (put_field t k ''publicRecordRef'' ref)
        (sthen (put_field t k ''publicRecordPending'' (PBool False))
        (sthen gov_save (sreturn True))))))
        (\<lambda>_. sthen gov_save (sreturn False)))))"

definition record_vote :: "(nat \<Rightarrow> string) \<Rightarrow> string \<Rightarrow> (governance, bool) pymethod" where
  "record_vote rnd k =
     sbind (sgets gv_recorded) (\<lambda>recorded.
     if \<not> recorded then sreturn True
     else
       sbind (sgete (\<lambda>s. ensure_vote_commitment rnd (entry Votes k s))) (\<lambda>v.
       sthen (put_fields Votes k (map (\<lambda>f. (f, dgetn v f)) [''publicBallotId'', ''choiceSalt'', ''choiceCommitmentSha256''])) (record_entry Votes k)))"

section \<open>Policy and accounts\<close>

definition normalized_policy :: "pydict \<Rightarrow> pyerr + pydict" where
  "normalized_policy k =
     ebind (get_int k ''hypeZeroDay'' (PInt 365)) (\<lambda>zero.
     ebind (get_int k ''defaultVoteWindowHours'' (PInt 168)) (\<lambda>hours.
     ebind (get_int k ''minRawVotes'' (PInt 3)) (\<lambda>raw.
     ebind (get_float k ''minApprovalRatio'' (PFloat (Fin (60 / 100)))) (\<lambda>ratio.
     ebind (get_float k ''minDurableVoteUnits'' (PFloat (Fin 1))) (\<lambda>units.
     ebind (get_int k ''urgentProvisionalMaxDays'' (PInt 30)) (\<lambda>days.
     Inr (dmerge k
       [(''hypeStartValue'', PFloat (Fin 1)), (''hypeDayOne'', PInt 1), (''hypeZeroDay'', PInt (iclamp 2 3650 zero)),
        (''defaultVoteWindowHours'', PInt (iclamp 1 8760 hours)), (''minRawVotes'', PInt (max 1 raw)),
        (''minApprovalRatio'', PFloat (clamp ratio (Fin (1 / 2)) (Fin 1))), (''minDurableVoteUnits'', PFloat (fmax (Fin 0) units)),
        (''requireAllIssuedWindowsClosedForBinding'', PBool (get_bool k ''requireAllIssuedWindowsClosedForBinding'' True)),
        (''requireAuthenticatedAccount'', PBool (get_bool k ''requireAuthenticatedAccount'' True)),
        (''urgentProvisionalMaxDays'', PInt (iclamp 1 365 days))])))))))"

definition patch_policy :: "pydict \<Rightarrow> (governance, unit) pymethod" where
  "patch_policy data =
     sbind (sgete (\<lambda>s. normalized_policy (dmerge (gv_policy s) data))) (\<lambda>known.
     sbind (sgets gv_policy) (\<lambda>policy.
     swhen (\<not> veq (PDict known) (PDict policy))
       (sthen (smodify (\<lambda>s. s\<lparr>gv_policy := known\<rparr>)) gov_changed)))"

definition account_generation :: "pydict \<Rightarrow> pyerr + int" where
  "account_generation a = ebind (get_int a ''authGeneration'' (PInt 1)) (\<lambda>n. Inr (max 1 n))"

definition put_account :: "string \<Rightarrow> pydict \<Rightarrow> (governance, unit) pymethod" where
  "put_account k a = smodify (\<lambda>s. s\<lparr>gv_accounts := dset (gv_accounts s) k a\<rparr>)"

definition account_doc :: "pydict \<Rightarrow> pydict \<Rightarrow> string \<Rightarrow> string \<Rightarrow> pyerr + pydict" where
  "account_doc data existing account_id email =
     ebind (account_generation existing) (\<lambda>generation.
     let display = clean_str 160 (dgetd data ''displayName'' (dgetd existing ''displayName'' (PStr [])));
         active = truthy (dgetd data ''active'' (dgetd existing ''active'' (PBool True)));
         moved = (existing \<noteq> [] \<and> (dgetn existing ''email'' \<noteq> PStr email \<or> \<not> veq (PBool active) (dgetn existing ''active''))) in
     Inr (dmerge existing
       [(''id'', PStr account_id), (''email'', PStr email), (''displayName'', PStr display), (''active'', PBool active),
        (''authGeneration'', PInt (if moved then generation + 1 else generation))]))"

definition upsert_account :: "pydict \<Rightarrow> (governance, pydict) pymethod" where
  "upsert_account data =
     (let account_id = clean_str 128 (dgetd data ''id'' (PStr [])); email = clean_str 320 (dgetd data ''email'' (PStr [])) in
      sthen (sguard (account_id \<noteq> [] \<and> CHR ''@'' \<in> set email) (ValueError ''account id and valid email are required''))
     (sbind (sgete (\<lambda>s. account_doc data (dgetd (gv_accounts s) account_id []) account_id email)) (\<lambda>account.
      sthen (put_account account_id account) (sthen gov_changed (sreturn account)))))"

definition find_account :: "string \<Rightarrow> governance \<Rightarrow> pyerr + pydict" where
  "find_account k s =
     (case dget (gv_accounts s) k of
        Some a \<Rightarrow> if a \<noteq> [] \<and> truthy (dgetn a ''active'') then Inr a else Inl (PermissionError ''active community account not found'')
      | None \<Rightarrow> Inl (PermissionError ''active community account not found''))"

definition authenticated_account :: "string \<Rightarrow> (governance, pydict) pymethod" where
  "authenticated_account account_id =
     sbind (sgete (find_account (strip account_id))) (\<lambda>a.
     if din ''authGeneration'' a then sreturn a
     else (let b = dset a ''authGeneration'' (PInt 1) in sthen (put_account (strip account_id) b) (sthen gov_save (sreturn b))))"

definition revoke_account_sessions :: "string \<Rightarrow> (governance, pydict) pymethod" where
  "revoke_account_sessions account_id =
     sbind (sgete (\<lambda>s. case dget (gv_accounts s) (strip account_id) of
        Some a \<Rightarrow> if a \<noteq> [] then Inr a else Inl (KeyError (strip account_id)) | None \<Rightarrow> Inl (KeyError (strip account_id)))) (\<lambda>a.
     sbind (slift (account_generation a)) (\<lambda>generation.
     let b = dset a ''authGeneration'' (PInt (generation + 1)) in
     sthen (put_account (strip account_id) b) (sthen gov_changed (sreturn (ddel b ''email'')))))"

section \<open>Tallies\<close>

text \<open>\<open>x[k] == proposal_id and int(x['proposalVersion']) == version\<close>: the entries of one proposal version.\<close>

definition of_version :: "string \<Rightarrow> pyerr + int \<Rightarrow> pydict \<Rightarrow> pyerr + bool" where
  "of_version pid version x =
     ebind (dindex x ''proposalId'') (\<lambda>p.
     if p \<noteq> PStr pid then Inr False
     else ebind (dindex x ''proposalVersion'') (\<lambda>v. ebind (py_int v) (\<lambda>n. ebind version (\<lambda>m. Inr (n = m)))))"

fun efilter :: "('a \<Rightarrow> pyerr + bool) \<Rightarrow> 'a list \<Rightarrow> pyerr + 'a list" where
  "efilter f [] = Inr []"
| "efilter f (x # xs) = ebind (f x) (\<lambda>b. ebind (efilter f xs) (\<lambda>ys. Inr (if b then x # ys else ys)))"

definition missing_evidence :: "pydict \<Rightarrow> bool" where
  "missing_evidence x = (truthy (dgetn x ''publicRecordPending'') \<or> \<not> truthy (dgetn x ''publicRecordRef''))"

text \<open>\<open>sent <= now <= expires\<close> of an invitation that has both; the second time is read only when the first has come.\<close>

definition in_window :: "datetime \<Rightarrow> pydict \<Rightarrow> pyerr + bool" where
  "in_window now i =
     (if truthy (dgetn i ''sentAt'') \<and> truthy (dgetn i ''expiresAt'')
      then ebind (parse_time (dgetn i ''sentAt'')) (\<lambda>a.
        if a \<le> now then ebind (parse_time (dgetn i ''expiresAt'')) (\<lambda>b. Inr (now \<le> b)) else Inr False)
      else Inr False)"

definition window_open :: "datetime \<Rightarrow> pydict \<Rightarrow> pyerr + bool" where
  "window_open now i = ebind (in_window now i) (\<lambda>b. Inr (b \<and> dgetn i ''status'' = PStr ''sent''))"

definition window_closed :: "datetime \<Rightarrow> pydict \<Rightarrow> pyerr + bool" where
  "window_closed now i =
     (if dgetn i ''status'' \<in> {PStr ''voted'', PStr ''expired''} then Inr True
      else if truthy (dgetn i ''expiresAt'') then ebind (parse_time (dgetn i ''expiresAt'')) (\<lambda>e. Inr (e < now)) else Inr False)"

fun eall :: "('a \<Rightarrow> pyerr + bool) \<Rightarrow> 'a list \<Rightarrow> pyerr + bool" where
  "eall f [] = Inr True"
| "eall f (x # xs) = ebind (f x) (\<lambda>b. if b then eall f xs else Inr False)"

definition all_windows_closed :: "datetime \<Rightarrow> pydict list \<Rightarrow> pyerr + int \<times> bool" where
  \<comment> \<open>the number of open windows, and whether every issued window is closed\<close>
  "all_windows_closed now invitations =
     ebind (efilter (window_open now) invitations) (\<lambda>opened.
     ebind (if invitations \<noteq> [] \<and> opened = [] then eall (window_closed now) invitations else Inr False) (\<lambda>shut.
     Inr (int (length opened), shut)))"

record gov_tally =
  ty_proposal :: pydict
  ty_at :: datetime
  ty_hype :: pyfloat
  ty_durable :: pyfloat
  ty_raw :: "string \<Rightarrow> nat"
  ty_units :: "string \<Rightarrow> pyfloat"
  ty_votes :: nat
  ty_total :: pyfloat
  ty_ratio :: rat
  ty_invitations :: nat
  ty_open :: int
  ty_closed :: bool
  ty_blockers :: "string list"

definition raw_votes :: "pydict list \<Rightarrow> string \<Rightarrow> pyerr + nat" where
  "raw_votes votes choice =
     ebind (efilter (\<lambda>v. ebind (dindex v ''choice'') (\<lambda>c. Inr (c = PStr choice))) votes) (\<lambda>xs. Inr (length xs))"

definition durable_units :: "pyfloat \<Rightarrow> nat \<Rightarrow> pyfloat" where
  "durable_units durable n = fround 6 (case durable of Fin r \<Rightarrow> Fin (of_nat n * r) | x \<Rightarrow> if n = 0 then NaN else x)"

definition approval_ratio :: "nat \<Rightarrow> nat \<Rightarrow> rat" where
  "approval_ratio yes no = (if yes + no = 0 then 0 else of_nat yes / of_nat (yes + no))"

definition record_blockers :: "bool \<Rightarrow> pydict \<Rightarrow> pydict list \<Rightarrow> pydict list \<Rightarrow> string list" where
  "record_blockers recorded proposal invitations votes =
     (if \<not> recorded then []
      else (if missing_evidence proposal then [''proposal version is missing Public Record evidence''] else []) @
           (if list_ex missing_evidence invitations then [''one or more vote invitations are missing Public Record evidence''] else []) @
           (if list_ex missing_evidence votes then [''one or more ballots are missing Public Record evidence''] else []))"

definition vote_blockers :: "pydict \<Rightarrow> nat \<Rightarrow> nat \<Rightarrow> nat \<Rightarrow> pyfloat \<Rightarrow> bool \<Rightarrow> pyerr + string list" where
  "vote_blockers policy n yes no units shut =
     ebind (dindex policy ''minRawVotes'') (\<lambda>a. ebind (py_int a) (\<lambda>raw.
     ebind (if yes + no = 0 then Inr True
            else ebind (dindex policy ''minApprovalRatio'') (\<lambda>b. ebind (py_float b) (\<lambda>ratio. Inr (flt (Fin (approval_ratio yes no)) ratio)))) (\<lambda>low.
     ebind (dindex policy ''minDurableVoteUnits'') (\<lambda>c. ebind (py_float c) (\<lambda>durable.
     Inr ((if int n < raw then [''raw participation minimum not reached''] else []) @
          (if low then [''approval ratio minimum not reached''] else []) @
          (if flt units durable then [''durable vote-unit minimum not reached while proposal hype remains''] else []) @
          (if get_bool policy ''requireAllIssuedWindowsClosedForBinding'' True \<and> \<not> shut then [''issued voting windows are still open''] else [])))))))"

definition sum_units :: "(string \<Rightarrow> pyfloat) \<Rightarrow> pyfloat" where
  "sum_units u = fround 6 (fold (\<lambda>c acc. fadd acc (u c)) choices (Fin 0))"

definition proposal_tally :: "string \<Rightarrow> datetime \<Rightarrow> governance \<Rightarrow> pyerr + gov_tally" where
  "proposal_tally pid now s =
     (case dget (gv_proposals s) pid of
        None \<Rightarrow> Inl (KeyError pid)
      | Some proposal \<Rightarrow>
          if proposal = [] then Inl (KeyError pid)
          else
            let version = ebind (dindex proposal ''version'') py_int in
            ebind (efilter (of_version pid version) (map snd (gv_votes s))) (\<lambda>votes.
            ebind (efilter (of_version pid version) (map snd (gv_invitations s))) (\<lambda>invitations.
            ebind (raw_votes votes ''yes'') (\<lambda>yes. ebind (raw_votes votes ''no'') (\<lambda>no. ebind (raw_votes votes ''abstain'') (\<lambda>abstain.
            ebind (proposal_hype (gv_policy s) proposal now) (\<lambda>(hype, durable).
            let raw = (\<lambda>c. if c = ''yes'' then yes else if c = ''no'' then no else if c = ''abstain'' then abstain else 0);
                units = durable_units durable \<circ> raw in
            ebind (all_windows_closed now invitations) (\<lambda>(opened, shut).
            ebind (vote_blockers (gv_policy s) (length votes) yes no (sum_units units) shut) (\<lambda>blockers.
            Inr \<lparr>ty_proposal = proposal, ty_at = now, ty_hype = hype, ty_durable = durable, ty_raw = raw, ty_units = units, ty_votes = length votes,
              ty_total = sum_units units, ty_ratio = approval_ratio yes no, ty_invitations = length invitations, ty_open = opened, ty_closed = shut,
              ty_blockers = record_blockers (gv_recorded s) proposal invitations votes @ blockers\<rparr>)))))))))"

definition binding_ready :: "gov_tally \<Rightarrow> bool" where
  "binding_ready t = (ty_blockers t = [])"

section \<open>Proposals\<close>

definition proposal_doc :: "pydict \<Rightarrow> pydict \<Rightarrow> string \<Rightarrow> string \<Rightarrow> datetime \<Rightarrow> pyerr + pydict" where
  "proposal_doc policy data pid title now =
     ebind (if truthy (dgetn data ''provisional'')
            then ebind (dindex policy ''urgentProvisionalMaxDays'') (\<lambda>d. ebind (py_int d) (\<lambda>n. ebind (dt_add now (of_days n)) (\<lambda>t. Inr (PStr (iso t)))))
            else Inr PNone) (\<lambda>expires.
     ebind (change_record (dgetn data ''change'')) (\<lambda>change.
     Inr [(''id'', PStr pid), (''version'', PInt 1), (''title'', PStr title), (''description'', PStr (clean_str 4000 (dgetd data ''description'' (PStr [])))),
       (''scope'', PStr (clean_str 80 (dgetd data ''scope'' (PStr ''platform-change'')))), (''createdAt'', PStr (iso now)), (''status'', PStr ''open''),
       (''provisional'', PBool (get_bool data ''provisional'' False)), (''provisionalExpiresAt'', expires), (''change'', change), (''appliedAt'', PNone)]))"

definition create_proposal :: "(nat \<Rightarrow> datetime) \<Rightarrow> (nat \<Rightarrow> string) \<Rightarrow> pydict \<Rightarrow> (governance, pydict) pymethod" where
  "create_proposal clk rnd data =
     (let pid = clean_str 160 (por (dgetn data ''id'') (PStr (''proposal-'' @ rnd 0))); title = clean_str 240 (dgetd data ''title'' (PStr [])) in
      sthen (sguard (title \<noteq> []) (ValueError ''proposal title is required''))
     (sthen (sbind (sgets (\<lambda>s. din pid (gv_proposals s))) (\<lambda>known. sguard (\<not> known) (ValueError ''proposal id already exists'')))
     (sbind (sgete (\<lambda>s. proposal_doc (gv_policy s) data pid title (clk 0))) (\<lambda>p.
      sthen (put_entry Proposals pid p)
     (sthen gov_changed
     (sthen (record_entry Proposals pid) (sgets (entry Proposals pid))))))))"

definition has_any :: "string list \<Rightarrow> pydict \<Rightarrow> bool" where
  "has_any ks d = list_ex (\<lambda>k. din k d) ks"

definition material_keys :: "string list" where
  "material_keys = [''title'', ''description'', ''scope'', ''change'']"

definition find_proposal :: "string \<Rightarrow> governance \<Rightarrow> pyerr + pydict" where
  "find_proposal pid s = (case dget (gv_proposals s) pid of Some p \<Rightarrow> if p = [] then Inl (KeyError pid) else Inr p | None \<Rightarrow> Inl (KeyError pid))"

definition check_mutable :: "bool \<Rightarrow> pydict \<Rightarrow> pydict \<Rightarrow> pyerr + unit" where
  "check_mutable recorded proposal data =
     ebind (eguard (\<not> (recorded \<and> truthy (dgetn proposal ''publicRecordPending'') \<and> has_any (''status'' # material_keys) data))
       (RuntimeError ''proposal public-record evidence is pending; reconcile before further mutation'')) (\<lambda>_.
     eguard (\<not> (dgetn proposal ''status'' = PStr ''adopted'' \<and>
         (has_any material_keys data \<or> (din ''status'' data \<and> py_lower (strip (py_str (dgetn data ''status''))) \<noteq> ''adopted''))))
       (ValueError ''adopted proposal is immutable; supersede it with a new proposal''))"

text \<open>An invitation that still admits votes keeps a proposal from being closed.\<close>

definition still_voting :: "string \<Rightarrow> pydict \<Rightarrow> datetime \<Rightarrow> pydict \<Rightarrow> pyerr + bool" where
  "still_voting pid proposal now i =
     (if dgetn i ''proposalId'' \<noteq> PStr pid then Inr False
      else ebind (get_int i ''proposalVersion'' (PInt 0)) (\<lambda>a. ebind (get_int proposal ''version'' (PInt 1)) (\<lambda>b.
        if a = b \<and> dgetn i ''status'' = PStr ''sent'' \<and> truthy (dgetn i ''expiresAt'')
        then ebind (parse_time (dgetn i ''expiresAt'')) (\<lambda>e. Inr (now \<le> e)) else Inr False)))"

definition check_closable :: "string \<Rightarrow> pydict \<Rightarrow> datetime \<Rightarrow> governance \<Rightarrow> pyerr + unit" where
  "check_closable pid proposal now s =
     ebind (efilter (still_voting pid proposal now) (map snd (gv_invitations s))) (\<lambda>active.
     eguard (active = []) (ValueError ''proposal status cannot close while emailed voting windows are active''))"

definition evidence_refs :: "string \<Rightarrow> pydict \<Rightarrow> (string \<times> pydict) list \<Rightarrow> pyerr + pyval" where
  "evidence_refs pid proposal items =
     ebind (efilter (\<lambda>i. if dgetn i ''proposalId'' \<noteq> PStr pid then Inr False
         else ebind (get_int i ''proposalVersion'' (PInt 0)) (\<lambda>a. ebind (get_int proposal ''version'' (PInt 1)) (\<lambda>b. Inr (a = b \<and> truthy (dgetn i ''publicRecordRef''))))) (map snd items)) (\<lambda>xs.
     Inr (strs (sort (map (\<lambda>i. py_str (dgetn i ''publicRecordRef'')) xs))))"

definition ratification_payload :: "string \<Rightarrow> pydict \<Rightarrow> gov_tally \<Rightarrow> governance \<Rightarrow> pyerr + pydict" where
  "ratification_payload pid proposal t s =
     ebind (get_int proposal ''version'' (PInt 1)) (\<lambda>version.
     ebind (evidence_refs pid proposal (gv_invitations s)) (\<lambda>irefs.
     ebind (evidence_refs pid proposal (gv_votes s)) (\<lambda>vrefs.
     Inr [(''version'', PInt 1), (''proposalId'', PStr pid), (''proposalVersion'', PInt version), (''proposalRecordRef'', dgetn proposal ''publicRecordRef''),
       (''invitationRecordRefs'', irefs), (''ballotRecordRefs'', vrefs), (''rawVotes'', PDict (map (\<lambda>c. (c, PInt (int (ty_raw t c)))) choices)),
       (''totalRawVotes'', PInt (int (ty_votes t))), (''approvalRatio'', PFloat (fround 6 (Fin (ty_ratio t)))), (''totalDurableVoteUnits'', PFloat (ty_total t)),
       (''evaluatedAt'', PStr (iso (ty_at t))), (''changeHash'', dgetn (dict_of (dgetn proposal ''change'')) ''hash'')])))"

definition proposal_statuses :: "string list" where
  "proposal_statuses = [''open'', ''closed'', ''adopted'', ''rejected'', ''superseded'']"

text \<open>The \<open>status\<close> part of an update; it says whether the status changed.\<close>

definition update_status :: "(nat \<Rightarrow> datetime) \<Rightarrow> string \<Rightarrow> pydict \<Rightarrow> pydict \<Rightarrow> (governance, bool) pymethod" where
  "update_status clk pid proposal data =
     (let status = py_lower (strip (py_str (dgetn data ''status''))); now_status = dgetn proposal ''status'' in
      sthen (sguard (status \<in> set proposal_statuses) (ValueError ''invalid proposal status''))
     (sthen (swhen (now_status \<noteq> PStr status \<and> status \<in> {''closed'', ''rejected'', ''superseded''}) (sgete (check_closable pid proposal (clk 0))))
     (sthen (swhen (status = ''adopted'' \<and> now_status \<noteq> PStr ''adopted'')
        (sbind (sgete (proposal_tally pid (clk 1))) (\<lambda>t.
         sthen (sguard (binding_ready t) (ValueError (''proposal cannot be adopted until community vote is binding-ready: '' @ join ''; '' (ty_blockers t))))
        (sbind (sgets gv_recorded) (\<lambda>recorded.
         swhen recorded
           (sbind (sgete (ratification_payload pid proposal t)) (\<lambda>payload.
            sbind (append_public_record ''community-ratification'' payload) (\<lambda>ref.
            put_field Proposals pid ''ratificationRecordRef'' ref))))))))
     (sbind (slift (dindex proposal ''status'')) (\<lambda>old.
      if old \<noteq> PStr status then sthen (put_field Proposals pid ''status'' (PStr status)) (sreturn True) else sreturn False)))))"

definition put_text :: "string \<Rightarrow> pydict \<Rightarrow> string \<times> nat \<Rightarrow> unit \<Rightarrow> (governance, unit) pymethod" where
  "put_text pid data kl u = swhen (din (fst kl) data) (put_field Proposals pid (fst kl) (PStr (clean_str (snd kl) (dgetn data (fst kl)))))"

text \<open>A material update makes a new version, for which earlier invitations give no vote.\<close>

definition update_material :: "(nat \<Rightarrow> datetime) \<Rightarrow> string \<Rightarrow> pydict \<Rightarrow> (governance, unit) pymethod" where
  "update_material clk pid data =
     sthen (sfold (put_text pid data) [(''title'', 240), (''description'', 4000), (''scope'', 80)] ())
    (sthen (swhen (din ''change'' data)
        (sbind (slift (change_record (dgetn data ''change''))) (\<lambda>c.
         sthen (put_field Proposals pid ''change'' c) (put_field Proposals pid ''appliedAt'' PNone))))
    (sbind (sgete (\<lambda>s. get_int (entry Proposals pid s) ''version'' (PInt 1))) (\<lambda>version.
     sthen (put_field Proposals pid ''version'' (PInt (version + 1)))
           (put_field Proposals pid ''updatedAt'' (PStr (iso (clk 2)))))))"

definition update_proposal :: "(nat \<Rightarrow> datetime) \<Rightarrow> string \<Rightarrow> pydict \<Rightarrow> (governance, pydict) pymethod" where
  "update_proposal clk pid data =
     sbind (sgete (find_proposal pid)) (\<lambda>proposal.
     sbind (sgets gv_recorded) (\<lambda>recorded.
     sthen (slift (check_mutable recorded proposal data))
    (sbind (if din ''status'' data then update_status clk pid proposal data else sreturn False) (\<lambda>moved.
     let material = has_any material_keys data in
     sthen (swhen material (update_material clk pid data))
    (sthen (swhen (moved \<or> material)
        (sthen gov_changed (swhen material (sthen (record_entry Proposals pid) (sreturn ())))))
           (sgets (entry Proposals pid)))))))"

section \<open>Invitations\<close>

definition invite_doc :: "string \<Rightarrow> int \<Rightarrow> pydict \<Rightarrow> int \<Rightarrow> string \<Rightarrow> string \<Rightarrow> pyerr + pydict" where
  "invite_doc pid version account hours invitation_id token =
     ebind (dindex account ''id'') (\<lambda>user. ebind (dindex account ''email'') (\<lambda>email.
     Inr [(''id'', PStr invitation_id), (''proposalId'', PStr pid), (''proposalVersion'', PInt version), (''userId'', user), (''email'', email),
       (''status'', PStr ''pending-send''), (''windowHours'', PInt hours), (''sentAt'', PNone), (''expiresAt'', PNone), (''messageId'', PStr invitation_id),
       (''tokenHash'', PStr (sha256_hex (utf8 token)))]))"

text \<open>One account of the list; an account that is missing stops the call and leaves the invitations made before.\<close>

definition prepare_invite ::
  "(nat \<Rightarrow> string) \<Rightarrow> string \<Rightarrow> pydict \<Rightarrow> int \<Rightarrow> nat \<times> pyval \<Rightarrow> (string \<times> string) list \<Rightarrow> (governance, (string \<times> string) list) pymethod" where
  "prepare_invite rnd pid proposal hours x acc =
     sbind (sgets gv_accounts) (\<lambda>accounts.
     let account = dgetd accounts (py_str (snd x)) []; token = rnd (2 * fst x); invitation_id = ''invite-'' @ rnd (2 * fst x + 1) in
     sthen (sguard (account \<noteq> [] \<and> truthy (dgetn account ''active'')) (ValueError (''active user account not found: '' @ py_str (snd x))))
    (sbind (slift (ebind (ebind (dindex proposal ''version'') py_int) (\<lambda>version. invite_doc pid version account hours invitation_id token))) (\<lambda>i.
     sthen (put_entry Invitations invitation_id i) (sreturn (acc @ [(invitation_id, token)])))))"

definition prepare_invites :: "(nat \<Rightarrow> string) \<Rightarrow> string \<Rightarrow> pyval list \<Rightarrow> int option \<Rightarrow> (governance, (string \<times> string) list) pymethod" where
  \<comment> \<open>the first section of \<open>issue_vote_emails\<close>, under the lock\<close>
  "prepare_invites rnd pid users window_hours =
     sbind (sgete (find_proposal pid)) (\<lambda>proposal.
     sthen (sguard (dgetn proposal ''status'' = PStr ''open'') (ValueError ''proposal is not open for voting''))
    (sbind (sgete (\<lambda>s. case window_hours of Some h \<Rightarrow> Inr h | None \<Rightarrow> ebind (dindex (gv_policy s) ''defaultVoteWindowHours'') py_int)) (\<lambda>hours.
     sbind (sfold (prepare_invite rnd pid proposal (iclamp 1 8760 hours)) (enumerate 0 users) []) (\<lambda>prepared.
     sthen gov_changed (sreturn prepared)))))"

text \<open>The fields of a delivered invitation.\<close>

definition sent_fields :: "datetime \<Rightarrow> datetime \<Rightarrow> pydict \<Rightarrow> pydict" where
  "sent_fields sent_at expires_at delivery =
     [(''status'', PStr ''sent''), (''sentAt'', PStr (iso sent_at)), (''expiresAt'', PStr (iso expires_at)), (''deliveryAcceptedAt'', dgetn delivery ''acceptedAt''),
      (''deliveryMode'', dgetn delivery ''mode'')]"

definition need_entry :: "string \<Rightarrow> (governance, unit) pymethod" where
  "need_entry k = sbind (sgete (\<lambda>s. dindex (gv_invitations s) k)) (\<lambda>_. sreturn ())"

text \<open>What the message is made of, read before it is sent; a missing field raises.\<close>

definition message_parts :: "string \<Rightarrow> governance \<Rightarrow> pyerr + pydict \<times> int" where
  "message_parts k s =
     ebind (dindex (gv_invitations s) k) (\<lambda>i.
     ebind (ebind (dindex i ''proposalId'') (lookup_value (gv_proposals s))) (\<lambda>p. ebind (case p of None \<Rightarrow> Inl (KeyError ''proposalId'') | Some d \<Rightarrow> Inr d) (\<lambda>proposal.
     ebind (ebind (dindex i ''userId'') (lookup_value (gv_accounts s))) (\<lambda>a. ebind (case a of None \<Rightarrow> Inl (KeyError ''userId'') | Some d \<Rightarrow> Inr d) (\<lambda>account.
     ebind (ebind (dindex i ''windowHours'') py_int) (\<lambda>hours.
     ebind (dindex proposal ''title'') (\<lambda>_. ebind (dindex proposal ''id'') (\<lambda>_. ebind (dindex proposal ''version'') (\<lambda>_. ebind (dindex (gv_policy s) ''hypeZeroDay'') (\<lambda>_.
     Inr (account, hours)))))))))))"

text \<open>One mail.  What fails after it was accepted, the write of the file included, counts as a failed delivery; the text of
  the error is not modelled.\<close>

definition deliver_invite :: "(nat \<Rightarrow> datetime) \<Rightarrow> (nat \<Rightarrow> pyval \<Rightarrow> pyerr + pydict) \<Rightarrow> nat \<times> string \<times> string \<Rightarrow> pydict list \<Rightarrow> (governance, pydict list) pymethod" where
  "deliver_invite clk mail x acc =
     (let n = fst x; k = fst (snd x) in
      sbind (sgete (message_parts k)) (\<lambda>(account, hours).
      sbind (slift (dt_add (clk n) (of_hours hours))) (\<lambda>expires_at.
      sbind (stry
        (sbind (slift (ebind (dindex account ''email'') (mail n))) (\<lambda>delivery.
         sthen (need_entry k)
        (sthen (put_fields Invitations k (sent_fields (clk n) expires_at delivery))
        (sthen gov_changed
        (sthen (record_entry Invitations k)
               (sgets (\<lambda>s. ddel (entry Invitations k s) ''tokenHash'')))))))
        (\<lambda>e.
         sthen (need_entry k)
        (sthen (put_fields Invitations k [(''status'', PStr ''delivery-failed''), (''deliveryError'', PStr ''delivery failed'')])
        (sthen gov_changed
        (sthen (record_entry Invitations k)
               (sreturn [(''id'', PStr k), (''status'', PStr ''delivery-failed''), (''error'', PStr ''delivery failed'')]))))))
        (\<lambda>r. sreturn (acc @ [r])))))"

definition issue_vote_emails ::
  "(nat \<Rightarrow> datetime) \<Rightarrow> (nat \<Rightarrow> string) \<Rightarrow> (nat \<Rightarrow> pyval \<Rightarrow> pyerr + pydict) \<Rightarrow> string \<Rightarrow> pyval list \<Rightarrow> int option \<Rightarrow> (governance, pydict) pymethod" where
  "issue_vote_emails clk rnd mail pid users window_hours =
     sbind (prepare_invites rnd pid users window_hours) (\<lambda>prepared.
     sbind (sfold (deliver_invite clk mail) (enumerate 0 prepared) []) (\<lambda>results.
     sreturn [(''proposalId'', PStr pid), (''issued'', PList (map PDict results))]))"

section \<open>Votes\<close>

text \<open>The invitation with the digest of a token; \<open>compare_digest\<close> refuses texts that are not ASCII.\<close>

fun find_invite :: "string \<Rightarrow> (string \<times> pydict) list \<Rightarrow> pyerr + (string \<times> pydict) option" where
  "find_invite h [] = Inr None"
| "find_invite h ((k, i) # xs) =
     (let stored = py_str (dgetd i ''tokenHash'' (PStr [])) in
      if \<not> list_all is_ascii stored then Inl TypeError else if stored = h then Inr (Some (k, i)) else find_invite h xs)"

definition invite_of_token :: "string \<Rightarrow> governance \<Rightarrow> pyerr + string \<times> pydict" where
  "invite_of_token token s =
     ebind (find_invite (sha256_hex (utf8 token)) (gv_invitations s)) (\<lambda>r.
     case r of Some (k, i) \<Rightarrow> if i = [] then Inl (PermissionError ''invalid vote credential'') else Inr (k, i)
             | None \<Rightarrow> Inl (PermissionError ''invalid vote credential''))"

definition vote_context :: "datetime \<Rightarrow> string \<Rightarrow> governance \<Rightarrow> pyerr + pydict" where
  "vote_context now token s =
     ebind (invite_of_token token s) (\<lambda>(k, i).
     ebind (ebind (dindex i ''proposalId'') (lookup_value (gv_proposals s))) (\<lambda>p.
     case p of
       None \<Rightarrow> Inl (PermissionError ''proposal is unavailable'')
     | Some proposal \<Rightarrow>
         if proposal = [] then Inl (PermissionError ''proposal is unavailable'')
         else ebind (proposal_hype (gv_policy s) proposal now) (\<lambda>(hype, durable).
           Inr [(''proposal'', PDict (map (\<lambda>k. (k, dgetn proposal k)) [''id'', ''version'', ''title'', ''description'', ''scope'', ''createdAt'', ''status''])),
             (''invitation'', PDict (map (\<lambda>k. (k, dgetn i k)) [''id'', ''proposalVersion'', ''userId'', ''status'', ''sentAt'', ''expiresAt'', ''windowHours''])),
             (''hype'', PFloat hype), (''durableFraction'', PFloat durable), (''hypeVoteUnits'', PFloat (Fin 0)),
             (''requiresAuthenticatedAccount'', PBool (get_bool (gv_policy s) ''requireAuthenticatedAccount'' True))])))"

definition vote_key :: "string \<Rightarrow> string \<Rightarrow> string \<Rightarrow> string" where
  "vote_key pid user version = ''vote-'' @ pid @ ''-'' @ user @ ''-v'' @ version"

definition vote_doc :: "pydict \<Rightarrow> pyval \<Rightarrow> string \<Rightarrow> datetime \<Rightarrow> pyfloat \<Rightarrow> pyfloat \<Rightarrow> pyerr + pydict" where
  "vote_doc i user choice now hype durable =
     ebind (dindex i ''proposalId'') (\<lambda>pid. ebind (dindex i ''proposalVersion'') (\<lambda>version. ebind (dindex i ''id'') (\<lambda>invitation.
     Inr [(''id'', PStr (vote_key (py_str pid) (py_str user) (py_str version))), (''proposalId'', pid), (''proposalVersion'', version), (''invitationId'', invitation),
       (''userId'', user), (''choice'', PStr choice), (''castAt'', PStr (iso now)), (''hypeAtCast'', PFloat hype), (''durableFractionAtCast'', PFloat durable),
       (''rawVoteUnits'', PFloat (Fin 1)), (''hypeVoteUnits'', PFloat (Fin 0))])))"

definition invite_vote_key :: "pydict \<Rightarrow> pyval \<Rightarrow> pyerr + string" where
  "invite_vote_key i user =
     ebind (dindex i ''proposalId'') (\<lambda>pid. ebind (dindex i ''proposalVersion'') (\<lambda>version. Inr (vote_key (py_str pid) (py_str user) (py_str version))))"

text \<open>The part the two ways of voting share: one vote per account and version, entered with its commitment, the
  invitation used up, the evidence recorded.\<close>

definition enter_vote :: "(nat \<Rightarrow> string) \<Rightarrow> datetime \<Rightarrow> string \<Rightarrow> pydict \<Rightarrow> pyval \<Rightarrow> string \<Rightarrow> pydict \<Rightarrow> pydict \<Rightarrow> (governance, pydict) pymethod" where
  "enter_vote rnd now k i user choice proposal extra =
     sbind (slift (invite_vote_key i user)) (\<lambda>vote_id.
     sthen (sbind (sgets (\<lambda>s. din vote_id (gv_votes s))) (\<lambda>known. sguard (\<not> known) (PermissionError ''this account already voted on this proposal version'')))
    (sbind (sgete (\<lambda>s. proposal_hype (gv_policy s) proposal now)) (\<lambda>(hype, durable).
     sbind (slift (ebind (vote_doc i user choice now hype durable) (\<lambda>d. ensure_vote_commitment rnd (d @ extra)))) (\<lambda>vote.
     sthen (put_entry Votes vote_id vote)
    (sthen (put_fields Invitations k [(''status'', PStr ''voted''), (''votedAt'', PStr (iso now))])
    (sthen gov_changed
    (sthen (record_vote rnd vote_id) (sgets (entry Votes vote_id)))))))))"

text \<open>The proposal of an invitation, as long as it has the version that was mailed.\<close>

definition invited_proposal :: "pydict \<Rightarrow> governance \<Rightarrow> pyerr + pydict" where
  "invited_proposal i s =
     (let stale = PermissionError ''proposal version changed after this email was issued'' in
      ebind (ebind (dindex i ''proposalId'') (lookup_value (gv_proposals s))) (\<lambda>p.
      case p of
        None \<Rightarrow> Inl stale
      | Some proposal \<Rightarrow>
          if proposal = [] then Inl stale
          else ebind (get_int proposal ''version'' (PInt 1)) (\<lambda>a. ebind (get_int i ''proposalVersion'' (PInt 0)) (\<lambda>b. if a = b then Inr proposal else Inl stale))))"

definition same_user :: "string option \<Rightarrow> pyval \<Rightarrow> bool" where
  "same_user user owner = (case user of None \<Rightarrow> False | Some u \<Rightarrow> u \<noteq> [] \<and> PStr u = owner)"

definition cast_invite :: "(nat \<Rightarrow> string) \<Rightarrow> datetime \<Rightarrow> string \<Rightarrow> string option \<Rightarrow> bool \<Rightarrow> string \<Rightarrow> pydict \<Rightarrow> (governance, pydict) pymethod" where
  "cast_invite rnd now choice user allow_token_only k i =
     sthen (sguard (dgetn i ''status'' \<in> {PStr ''sent'', PStr ''voted''}) (PermissionError ''vote invitation is not active''))
    (sthen (sguard (dgetn i ''status'' \<noteq> PStr ''voted'') (PermissionError ''vote credential has already been used''))
    (sbind (sgete (invited_proposal i)) (\<lambda>proposal.
     sthen (sguard (dgetn proposal ''status'' = PStr ''open'') (PermissionError ''proposal is no longer open''))
    (sbind (slift (ebind (dindex i ''sentAt'') parse_time)) (\<lambda>sent_at.
     sbind (slift (ebind (dindex i ''expiresAt'') parse_time)) (\<lambda>expires_at.
     if now < sent_at \<or> expires_at < now
     then sthen (put_field Invitations k ''status'' (PStr ''expired'')) (sthen gov_changed (sraise (PermissionError ''voting window has expired'')))
     else
       sbind (sgets (\<lambda>s. get_bool (gv_policy s) ''requireAuthenticatedAccount'' True \<and> \<not> allow_token_only)) (\<lambda>require_auth.
       sbind (slift (dindex i ''userId'')) (\<lambda>owner.
       sthen (sguard (\<not> (require_auth \<and> \<not> same_user user owner)) (PermissionError ''authenticated user account does not match the emailed invitation''))
             (enter_vote rnd now k i owner choice proposal [])))))))))"

definition cast_vote :: "(nat \<Rightarrow> string) \<Rightarrow> datetime \<Rightarrow> string \<Rightarrow> string \<Rightarrow> string option \<Rightarrow> bool \<Rightarrow> (governance, pydict) pymethod" where
  "cast_vote rnd now token choice user allow_token_only =
     (let choice_n = py_lower (strip choice) in
      sthen (sguard (choice_n \<in> set choices) (ValueError ''choice must be yes, no, or abstain''))
     (sbind (sgete (invite_of_token token)) (\<lambda>(k, i). cast_invite rnd now choice_n user allow_token_only k i)))"

definition candidate_invite :: "string \<Rightarrow> pydict \<Rightarrow> int \<Rightarrow> datetime \<Rightarrow> string \<times> pydict \<Rightarrow> pyerr + bool" where
  "candidate_invite account_id proposal version now x =
     (let i = snd x in
      if \<not> veq (dgetn i ''proposalId'') (dgetn proposal ''id'') \<or> dgetn i ''userId'' \<noteq> PStr account_id then Inr False
      else ebind (get_int i ''proposalVersion'' (PInt 0)) (\<lambda>n.
        if n \<noteq> version \<or> dgetn i ''status'' \<noteq> PStr ''sent'' then Inr False else in_window now i))"

definition open_proposal :: "string \<Rightarrow> governance \<Rightarrow> pyerr + pydict" where
  "open_proposal pid s =
     (case dget (gv_proposals s) pid of
        Some p \<Rightarrow> if p \<noteq> [] \<and> dgetn p ''status'' = PStr ''open'' then Inr p else Inl (PermissionError ''proposal is not open'')
      | None \<Rightarrow> Inl (PermissionError ''proposal is not open''))"

definition sole_invite :: "string \<Rightarrow> pydict \<Rightarrow> datetime \<Rightarrow> governance \<Rightarrow> pyerr + string \<times> pydict" where
  "sole_invite account_id proposal now s =
     ebind (get_int proposal ''version'' (PInt 1)) (\<lambda>version.
     ebind (efilter (candidate_invite account_id proposal version now) (gv_invitations s)) (\<lambda>active.
     case active of
       [] \<Rightarrow> Inl (PermissionError ''no active voting invitation exists for this account and proposal version'')
     | [x] \<Rightarrow> Inr x
     | _ \<Rightarrow> Inl (PermissionError ''multiple active voting invitations exist for this account and proposal version'')))"

definition cast_account_vote :: "(nat \<Rightarrow> string) \<Rightarrow> datetime \<Rightarrow> string \<Rightarrow> string \<Rightarrow> string \<Rightarrow> (governance, pydict) pymethod" where
  "cast_account_vote rnd now pid choice account =
     (let account_id = strip account; choice_n = py_lower (strip choice) in
      sthen (sguard (choice_n \<in> set choices) (ValueError ''choice must be yes, no, or abstain''))
     (sbind (sgete (find_account account_id)) (\<lambda>_.
      sbind (sgete (open_proposal pid)) (\<lambda>proposal.
      sbind (sgete (sole_invite account_id proposal now)) (\<lambda>(k, i).
      enter_vote rnd now k i (PStr account_id) choice_n proposal [(''authMethod'', PStr ''account-session'')])))))"

section \<open>Reconciliation with the public record\<close>

definition belongs :: "pydict \<Rightarrow> int \<Rightarrow> pydict \<Rightarrow> pyerr + bool" where
  "belongs proposal version x =
     (if \<not> veq (dgetn x ''proposalId'') (dgetn proposal ''id'') then Inr False
      else ebind (get_int x ''proposalVersion'' (PInt 0)) (\<lambda>n. Inr (n = version \<and> missing_evidence x)))"

definition reconcile_entry :: "(nat \<Rightarrow> string) \<Rightarrow> gov_table \<Rightarrow> string \<Rightarrow> nat \<Rightarrow> (governance, nat) pymethod" where
  "reconcile_entry rnd t k n =
     sbind (if t = Votes then record_vote rnd k else record_entry t k) (\<lambda>ok. sreturn (if ok then n + 1 else n))"

definition reconcile_step :: "(nat \<Rightarrow> nat \<Rightarrow> string) \<Rightarrow> gov_table \<Rightarrow> pydict \<Rightarrow> int \<Rightarrow> nat \<times> string \<Rightarrow> nat \<Rightarrow> (governance, nat) pymethod" where
  "reconcile_step rnd t proposal version x n =
     sbind (sgete (\<lambda>s. belongs proposal version (entry t (snd x) s))) (\<lambda>b. if b then reconcile_entry (rnd (fst x)) t (snd x) n else sreturn n)"

definition reconcile_proposal :: "(nat \<Rightarrow> nat \<Rightarrow> string) \<Rightarrow> string \<Rightarrow> nat \<Rightarrow> (governance, nat) pymethod" where
  "reconcile_proposal rnd pid n =
     sbind (sgets (entry Proposals pid)) (\<lambda>proposal.
     sbind (slift (get_int proposal ''version'' (PInt 1))) (\<lambda>version.
     sbind (if missing_evidence proposal then reconcile_entry (rnd 0) Proposals pid n else sreturn n) (\<lambda>n.
     sbind (sgets (dkeys \<circ> gv_invitations)) (\<lambda>iks.
     sbind (sfold (reconcile_step rnd Invitations proposal version) (enumerate 0 iks) n) (\<lambda>n.
     sbind (sgets (dkeys \<circ> gv_votes)) (\<lambda>vs. sfold (reconcile_step rnd Votes proposal version) (enumerate 0 vs) n))))))"

definition pending_count :: "string \<Rightarrow> governance \<Rightarrow> pyerr + nat" where
  "pending_count pid s =
     (let proposal = entry Proposals pid s in
      ebind (get_int proposal ''version'' (PInt 1)) (\<lambda>version.
      ebind (efilter (belongs proposal version) (map snd (gv_invitations s))) (\<lambda>iks.
      ebind (efilter (belongs proposal version) (map snd (gv_votes s))) (\<lambda>vs.
      Inr ((if missing_evidence proposal then 1 else 0) + length iks + length vs)))))"

definition reconcile_public_record :: "(nat \<Rightarrow> nat \<Rightarrow> string) \<Rightarrow> string option \<Rightarrow> (governance, bool \<times> nat \<times> nat) pymethod" where
  "reconcile_public_record rnd chosen =
     sbind (sgets gv_recorded) (\<lambda>recorded.
     if \<not> recorded then sreturn (False, 0, 0)
     else
       sbind (sgete (\<lambda>s. case chosen of None \<Rightarrow> Inr (dkeys (gv_proposals s)) | Some p \<Rightarrow> if din p (gv_proposals s) then Inr [p] else Inl (KeyError p))) (\<lambda>pids.
       sbind (sfold (reconcile_proposal rnd) pids 0) (\<lambda>published.
       sbind (sgete (\<lambda>s. emap (\<lambda>p. pending_count p s) pids)) (\<lambda>pending.
       sreturn (True, published, sum_list pending)))))"

section \<open>Adopted changes\<close>

definition bootstrap_policy_mutation_allowed :: "governance \<Rightarrow> bool" where
  "bootstrap_policy_mutation_allowed s = (gv_proposals s = [] \<and> gv_invitations s = [] \<and> gv_votes s = [])"

definition adopted_change :: "string \<Rightarrow> governance \<Rightarrow> pyerr + pydict" where
  "adopted_change pid s =
     ebind (find_proposal pid s) (\<lambda>p.
     ebind (eguard (dgetn p ''status'' = PStr ''adopted'') (ValueError ''proposal is not adopted'')) (\<lambda>_.
     ebind (eguard (\<not> truthy (dgetn p ''appliedAt'')) (ValueError ''proposal change has already been applied'')) (\<lambda>_.
     ebind (eguard (is_dict (dgetn p ''change'')) (ValueError ''proposal has no executable change payload'')) (\<lambda>_.
     ebind (dindex p ''version'') (\<lambda>_. Inr (dict_of (dgetn p ''change'')))))))"

definition mark_proposal_applied :: "datetime \<Rightarrow> string \<Rightarrow> pydict \<Rightarrow> (governance, unit) pymethod" where
  "mark_proposal_applied now pid change =
     sthen (put_field Proposals pid ''appliedAt'' (PStr (iso now)))
    (sthen (put_field Proposals pid ''appliedChangeHash'' (dgetn change ''hash'')) gov_changed)"

definition apply_ratified_governance_policy :: "datetime \<Rightarrow> string \<Rightarrow> (governance, pydict) pymethod" where
  "apply_ratified_governance_policy now pid =
     sbind (sgete (adopted_change pid)) (\<lambda>change.
     sthen (sguard (dgetn change ''kind'' = PStr ''community-governance-policy'') (ValueError ''proposal does not contain a community-governance-policy change''))
    (sbind (slift (case por (dgetn change ''payload'') (PDict []) of PDict d \<Rightarrow> Inr d | _ \<Rightarrow> Inl TypeError)) (\<lambda>payload.
     sthen (patch_policy payload)
    (sthen (mark_proposal_applied now pid change)
           (sgets (\<lambda>s. [(''applied'', PBool True), (''proposalId'', PStr pid), (''changeHash'', dgetn change ''hash''), (''policy'', PDict (gv_policy s))]))))))"

definition mark_change_applied :: "datetime \<Rightarrow> string \<Rightarrow> (governance, pydict) pymethod" where
  "mark_change_applied now pid =
     sbind (sgete (adopted_change pid)) (\<lambda>change. sthen (mark_proposal_applied now pid change) (sgets (entry Proposals pid)))"

section \<open>Reports\<close>

definition monitor_item :: "datetime \<Rightarrow> governance \<Rightarrow> string \<times> pydict \<Rightarrow> pyerr + string \<times> pydict" where
  "monitor_item now s x =
     (let p = snd x in
      ebind (proposal_hype (gv_policy s) p now) (\<lambda>(hype, durable).
      ebind (dindex p ''id'') (\<lambda>pid. ebind (proposal_tally (py_str pid) now s) (\<lambda>t.
      ebind (ebind (dindex p ''createdAt'') parse_time) (\<lambda>created.
      ebind (ebind (dindex (gv_policy s) ''hypeZeroDay'') py_int) (\<lambda>z. ebind (dt_add created (of_days z)) (\<lambda>zero_at.
      ebind (dindex p ''version'') (\<lambda>version. ebind (dindex p ''title'') (\<lambda>title. ebind (dindex p ''status'') (\<lambda>status.
      Inr (py_str pid, [(''id'', pid), (''version'', version), (''title'', title), (''status'', status), (''hype'', PFloat hype), (''durableFraction'', PFloat durable),
        (''hypeZeroAt'', PStr (iso zero_at)), (''totalRawVotes'', PInt (int (ty_votes t))), (''totalDurableVoteUnits'', PFloat (ty_total t)),
        (''bindingChangeReady'', PBool (binding_ready t)), (''bindingBlockers'', strs (ty_blockers t))]))))))))))) "

definition gov_monitor :: "datetime \<Rightarrow> governance \<Rightarrow> pyerr + pydict list" where
  "gov_monitor now s = ebind (emap (monitor_item now s) (gv_proposals s)) (\<lambda>items. Inr (map snd (sort_key fst items)))"

definition gov_status :: "bool \<Rightarrow> pyval \<Rightarrow> governance \<Rightarrow> pydict" where
  \<comment> \<open>\<open>snapshot\<close>; the status of the mailer is an argument\<close>
  "gov_status detail mailer s =
     [(''revision'', PInt (gv_revision s)), (''policy'', PDict (gv_policy s)), (''accountCount'', PInt (int (length (gv_accounts s)))),
      (''proposalCount'', PInt (int (length (gv_proposals s)))), (''invitationCount'', PInt (int (length (gv_invitations s)))),
      (''voteCount'', PInt (int (length (gv_votes s)))), (''mailer'', mailer), (''publicRecordRequired'', PBool (gv_recorded s))] @
     (if detail
      then [(''accounts'', PList (map (PDict \<circ> snd) (gv_accounts s))), (''proposals'', PList (map (PDict \<circ> snd) (gv_proposals s))),
        (''invitations'', PList (map (\<lambda>x. PDict (ddel (snd x) ''tokenHash'')) (gv_invitations s))),
        (''votes'', PList (map (\<lambda>x. PDict (ddel (snd x) ''choiceSalt'')) (gv_votes s)))]
      else [])"

end
