(* ===== verification/Governance_Rules.thy ===== *)
theory Governance_Rules
  imports Governance
begin

text \<open>
  What the community can rely on: histories of the governance store, with failing writes, failing mail, a failing
  public record and restarts; one vote per account and version; what adoption rests on and that it is
  final; the schedule on which support matures; and the two ways in which adoption goes wrong.
\<close>

section \<open>Calls and histories\<close>

datatype gov_call =
    PatchPolicy pydict
  | UpsertAccount pydict
  | AuthenticatedAccount string
  | RevokeSessions string
  | CreateProposal "nat \<Rightarrow> datetime" "nat \<Rightarrow> string" pydict
  | UpdateProposal "nat \<Rightarrow> datetime" string pydict
  | PrepareInvites "nat \<Rightarrow> string" string "pyval list" "int option"
  | DeliverInvite "nat \<Rightarrow> datetime" "nat \<Rightarrow> pyval \<Rightarrow> pyerr + pydict" "nat \<times> string \<times> string"
  | CastVote "nat \<Rightarrow> string" datetime string string "string option" bool
  | CastAccountVote "nat \<Rightarrow> string" datetime string string string
  | ReconcileRecord "nat \<Rightarrow> nat \<Rightarrow> string" "string option"
  | ApplyPolicy datetime string
  | MarkApplied datetime string

definition sdone :: "('s, 'a) pymethod \<Rightarrow> ('s, unit) pymethod" where
  "sdone m = sthen m (sreturn ())"

text \<open>The sections of \<open>issue_vote_emails\<close> that run under the lock are calls of their own, so that others may come between.\<close>

primrec run_gov :: "gov_call \<Rightarrow> (governance, unit) pymethod" where
  "run_gov (PatchPolicy d) = patch_policy d"
| "run_gov (UpsertAccount d) = sdone (upsert_account d)"
| "run_gov (AuthenticatedAccount k) = sdone (authenticated_account k)"
| "run_gov (RevokeSessions k) = sdone (revoke_account_sessions k)"
| "run_gov (CreateProposal clk rnd d) = sdone (create_proposal clk rnd d)"
| "run_gov (UpdateProposal clk pid d) = sdone (update_proposal clk pid d)"
| "run_gov (PrepareInvites rnd pid us h) = sdone (prepare_invites rnd pid us h)"
| "run_gov (DeliverInvite clk mail x) = sdone (deliver_invite clk mail x [])"
| "run_gov (CastVote rnd now token c u b) = sdone (cast_vote rnd now token c u b)"
| "run_gov (CastAccountVote rnd now pid c u) = sdone (cast_account_vote rnd now pid c u)"
| "run_gov (ReconcileRecord rnd p) = sdone (reconcile_public_record rnd p)"
| "run_gov (ApplyPolicy now pid) = sdone (apply_ratified_governance_policy now pid)"
| "run_gov (MarkApplied now pid) = sdone (mark_change_applied now pid)"

text \<open>A call meets some outcomes of the writes and some answers of the record.\<close>

type_synonym gov_fate = "bool list \<times> (pyerr + pydict) list"

definition gov_run :: "gov_call \<times> gov_fate \<Rightarrow> governance \<Rightarrow> governance" where
  "gov_run x s = sexec (run_gov (fst x)) (s\<lparr>gv_saves := fst (snd x), gv_answers := snd (snd x)\<rparr>)"

inductive gov_reachable :: "governance \<Rightarrow> bool" where
  gov_open: "gov_reachable (empty_governance recorded)"
| gov_call: "gov_reachable s \<Longrightarrow> gov_reachable (gov_run x s)"
| gov_restart: "gov_reachable s \<Longrightarrow> open_governance recorded (gv_file s) = Inr s' \<Longrightarrow> gov_reachable s'"

section \<open>The shape of the tables\<close>

definition account_ok :: "string \<Rightarrow> pydict \<Rightarrow> bool" where
  "account_ok k a = (dwf a \<and> dget a ''id'' = Some (PStr k))"

definition invite_ok :: "string \<Rightarrow> pydict \<Rightarrow> bool" where
  "invite_ok k i = (dwf i \<and> dget i ''id'' = Some (PStr k) \<and>
     (\<exists>p n u. dget i ''proposalId'' = Some (PStr p) \<and> dget i ''proposalVersion'' = Some (PInt n) \<and> dget i ''userId'' = Some (PStr u)))"

definition vote_ok :: "string \<Rightarrow> pydict \<Rightarrow> bool" where
  "vote_ok k v = (dwf v \<and> dget v ''id'' = Some (PStr k) \<and>
     (\<exists>p n u c. dget v ''proposalId'' = Some (PStr p) \<and> dget v ''proposalVersion'' = Some (PInt n) \<and> dget v ''userId'' = Some (PStr u) \<and>
        dget v ''choice'' = Some (PStr c) \<and> c \<in> set choices \<and> k = vote_key p u (show_int n)))"

definition entries_ok :: "(string \<Rightarrow> pydict \<Rightarrow> bool) \<Rightarrow> (string \<times> pydict) list \<Rightarrow> bool" where
  "entries_ok P d = (dwf d \<and> (\<forall>k x. dget d k = Some x \<longrightarrow> P k x))"

definition tables_ok :: "governance \<Rightarrow> bool" where
  "tables_ok s = (entries_ok account_ok (gv_accounts s) \<and> entries_ok invite_ok (gv_invitations s) \<and> entries_ok vote_ok (gv_votes s))"

definition gov_ok :: "governance \<Rightarrow> bool" where
  "gov_ok s = (tables_ok s \<and> (\<forall>f. gv_file s = Some f \<longrightarrow> (\<exists>s0. tables_ok s0 \<and> f = json_sorted (PDict (gov_snapshot s0)))))"

definition guarded :: "gov_table \<Rightarrow> string list" where
  "guarded t = (case t of Proposals \<Rightarrow> [] | _ \<Rightarrow> [''id'', ''proposalId'', ''proposalVersion'', ''userId'', ''choice''])"

section \<open>The parts of a call\<close>

lemma keeps_gete: "(\<And>s x. I s \<Longrightarrow> f s = Inr x \<Longrightarrow> I (snd (g x s))) \<Longrightarrow> keeps I (sbind (sgete f) g)"
  by (auto simp: keeps_def sbind_def sgete_def split: sum.splits)

lemma keeps_gets: "(\<And>s. I s \<Longrightarrow> I (snd (g (f s) s))) \<Longrightarrow> keeps I (sbind (sgets f) g)"
  by (auto simp: keeps_def sbind_def sgets_def)

lemma keeps_lift: "(\<And>x. r = Inr x \<Longrightarrow> keeps I (g x)) \<Longrightarrow> keeps I (sbind (slift r) g)"
  by (cases r) (auto simp: keeps_def sbind_def slift_def)

lemma keeps_guard: "(b \<Longrightarrow> keeps I m) \<Longrightarrow> keeps I (sthen (sguard b e) m)"
  by (auto simp: keeps_def sthen_def sbind_def sguard_def sreturn_def sraise_def)

lemma keeps_stry [keeps_intro]: "keeps I m \<Longrightarrow> (\<And>e. keeps I (h e)) \<Longrightarrow> keeps I (stry m h)"
  by (fastforce simp: keeps_def stry_def split: prod.splits sum.splits)

lemma keeps_sdone [keeps_intro]: "keeps I m \<Longrightarrow> keeps I (sdone m)"
  unfolding sdone_def by (intro keeps_intro)

lemma entries_dset: "entries_ok P d \<Longrightarrow> P k x \<Longrightarrow> entries_ok P (dset d k x)"
  by (simp add: entries_ok_def)

lemma ok_save [keeps_intro]: "keeps gov_ok gov_save"
proof (rule keepsI)
  fix s assume s: "gov_ok s"
  then have "tables_ok (s\<lparr>gv_saves := x, gv_file := f\<rparr>)" for x f by (simp add: gov_ok_def tables_ok_def)
  with s show "gov_ok (snd (gov_save s))" by (auto simp: gov_save_def Let_def gov_ok_def tables_ok_def gov_snapshot_def)
qed

lemma ok_changed [keeps_intro]: "keeps gov_ok gov_changed"
  unfolding gov_changed_def by (intro keeps_intro keeps_modify) (simp add: gov_ok_def tables_ok_def gov_snapshot_def)

lemma entries_put: "entries_ok P d \<Longrightarrow> dget d k = Some x \<Longrightarrow> (P k x \<Longrightarrow> P k (dset x f v)) \<Longrightarrow> entries_ok P (dset d k (dset x f v))"
  by (auto simp: entries_ok_def)

lemma ok_put_field:
  assumes "f \<notin> set (guarded t)"
  shows "keeps gov_ok (put_field t k f v)"
  unfolding put_field_def
proof (rule keeps_modify)
  fix s assume s: "gov_ok s"
  show "gov_ok (if din k (table t s) then set_table t (dset (table t s) k (dset (entry t k s) f v)) s else s)"
  proof (cases "dget (table t s) k")
    case None
    with s show ?thesis by (simp add: din_def)
  next
    case (Some x)
    then have e: "entry t k s = x" by (simp add: entry_def dgetd_def)
    have "invite_ok k x \<Longrightarrow> t = Invitations \<Longrightarrow> invite_ok k (dset x f v)" using assms by (auto simp: invite_ok_def guarded_def)
    moreover have "vote_ok k x \<Longrightarrow> t = Votes \<Longrightarrow> vote_ok k (dset x f v)" using assms by (auto simp: vote_ok_def guarded_def)
    ultimately show ?thesis using s Some e
      by (cases t) (auto simp: gov_ok_def tables_ok_def din_def intro: entries_put)
  qed
qed

lemma ok_put_fields: "set (map fst fs) \<inter> set (guarded t) = {} \<Longrightarrow> keeps gov_ok (put_fields t k fs)"
  unfolding put_fields_def by (intro keeps_sfold_set ok_put_field) auto

lemma ok_queue: "gov_ok (s\<lparr>gv_saves := w, gv_answers := a\<rparr>) = gov_ok s" "gov_ok (s\<lparr>gv_answers := a\<rparr>) = gov_ok s"
  by (simp_all add: gov_ok_def tables_ok_def)

lemma ok_append [keeps_intro]: "keeps gov_ok (append_public_record ty p)"
  by (rule keepsI) (simp add: append_public_record_def Let_def ok_queue split: list.split sum.split)

lemma ok_record [keeps_intro]: "keeps gov_ok (record_entry t k)"
  unfolding record_entry_def by (intro keeps_intro ok_put_field) (auto simp: guarded_def split: gov_table.splits)

lemma ok_record_vote [keeps_intro]: "keeps gov_ok (record_vote rnd k)"
  unfolding record_vote_def by (intro keeps_intro ok_put_fields) (auto simp: guarded_def)

lemma ok_patch_policy [keeps_intro]: "keeps gov_ok (patch_policy d)"
  unfolding patch_policy_def by (intro keeps_intro keeps_modify) (simp add: gov_ok_def tables_ok_def)

lemma ok_put_account: "account_ok k a \<Longrightarrow> keeps gov_ok (put_account k a)"
  unfolding put_account_def by (rule keeps_modify) (auto simp: gov_ok_def tables_ok_def intro: entries_dset)

lemma account_ok_dset: "account_ok k a \<Longrightarrow> f \<noteq> ''id'' \<Longrightarrow> account_ok k (dset a f v)"
  by (simp add: account_ok_def)

lemma ok_account: "gov_ok s \<Longrightarrow> dget (gv_accounts s) k = Some a \<Longrightarrow> account_ok k a"
  by (simp add: gov_ok_def tables_ok_def entries_ok_def)

lemma ok_invite: "gov_ok s \<Longrightarrow> dget (gv_invitations s) k = Some i \<Longrightarrow> invite_ok k i"
  by (simp add: gov_ok_def tables_ok_def entries_ok_def)

lemma ok_upsert [keeps_intro]: "keeps gov_ok (upsert_account d)"
proof -
  have doc: "account_ok k a" if "gov_ok s" "account_doc d (dgetd (gv_accounts s) k []) k email = Inr a" for s k email a
  proof -
    have "dwf (dgetd (gv_accounts s) k [])" using ok_account [OF that(1), of k] by (auto simp: dgetd_def account_ok_def split: option.split)
    with that(2) show ?thesis by (auto simp: account_doc_def account_ok_def ebind_eq_Inr Let_def dmerge_def)
  qed
  show ?thesis unfolding upsert_account_def Let_def
  proof (rule keeps_guard, rule keeps_gete)
    fix s :: governance and a
    assume s: "gov_ok s" and a: "account_doc d (dgetd (gv_accounts s) (clean_str 128 (dgetd d ''id'' (PStr []))) []) (clean_str 128 (dgetd d ''id'' (PStr [])))
      (clean_str 320 (dgetd d ''email'' (PStr []))) = Inr a"
    have "keeps gov_ok (sthen (put_account (clean_str 128 (dgetd d ''id'' (PStr []))) a) (sthen gov_changed (sreturn a)))"
      by (intro keeps_intro ok_put_account doc [OF s a])
    then show "gov_ok (snd (sthen (put_account (clean_str 128 (dgetd d ''id'' (PStr []))) a) (sthen gov_changed (sreturn a)) s))" using s by (rule keepsD)
  qed
qed

lemma found_account: "find_account k s = Inr a \<Longrightarrow> dget (gv_accounts s) k = Some a"
  by (auto simp: find_account_def split: option.splits if_splits)

lemma ok_authenticated [keeps_intro]: "keeps gov_ok (authenticated_account k)"
  unfolding authenticated_account_def
proof (rule keeps_gete)
  fix s a assume s: "gov_ok s" and a: "find_account (strip k) s = Inr a"
  have "keeps gov_ok (if din ''authGeneration'' a then sreturn a else (let b = dset a ''authGeneration'' (PInt 1) in sthen (put_account (strip k) b) (sthen gov_save (sreturn b))))"
    unfolding Let_def by (intro keeps_intro ok_put_account account_ok_dset ok_account [OF s found_account [OF a]]) simp
  then show "gov_ok (snd ((if din ''authGeneration'' a then sreturn a else (let b = dset a ''authGeneration'' (PInt 1) in sthen (put_account (strip k) b) (sthen gov_save (sreturn b)))) s))"
    using s by (rule keepsD)
qed

lemma ok_revoke [keeps_intro]: "keeps gov_ok (revoke_account_sessions k)"
  unfolding revoke_account_sessions_def
proof (rule keeps_gete)
  fix s a
  let ?m = "sbind (slift (account_generation a)) (\<lambda>generation.
     let b = dset a ''authGeneration'' (PInt (generation + 1)) in sthen (put_account (strip k) b) (sthen gov_changed (sreturn (ddel b ''email''))))"
  assume s: "gov_ok s" and a: "(case dget (gv_accounts s) (strip k) of None \<Rightarrow> Inl (KeyError (strip k)) | Some a \<Rightarrow> if a \<noteq> [] then Inr a else Inl (KeyError (strip k))) = Inr a"
  then have "dget (gv_accounts s) (strip k) = Some a" by (auto split: option.splits if_splits)
  from ok_account [OF s this] have "keeps gov_ok ?m"
    unfolding Let_def by (intro keeps_intro ok_put_account account_ok_dset) auto
  then show "gov_ok (snd (?m s))" using s by (rule keepsD)
qed

lemma ok_put_proposal [keeps_intro]: "keeps gov_ok (put_entry Proposals k d)"
  unfolding put_entry_def by (rule keeps_modify) (simp add: gov_ok_def tables_ok_def)

lemma ok_put_proposal_field [keeps_intro]: "keeps gov_ok (put_field Proposals k f v)"
  by (rule ok_put_field) (simp add: guarded_def)

lemma ok_create [keeps_intro]: "keeps gov_ok (create_proposal clk rnd d)"
  unfolding create_proposal_def Let_def by (intro keeps_intro)

lemma ok_status [keeps_intro]: "keeps gov_ok (update_status clk pid p d)"
  unfolding update_status_def Let_def by (intro keeps_intro)

lemma ok_material [keeps_intro]: "keeps gov_ok (update_material clk pid d)"
  unfolding update_material_def put_text_def by (intro keeps_intro)

lemma ok_update [keeps_intro]: "keeps gov_ok (update_proposal clk pid d)"
  unfolding update_proposal_def Let_def by (intro keeps_intro)

lemma ok_put_invite: "invite_ok k i \<Longrightarrow> keeps gov_ok (put_entry Invitations k i)"
  unfolding put_entry_def by (rule keeps_modify) (auto simp: gov_ok_def tables_ok_def intro: entries_dset)

lemma ok_prepare_invite [keeps_intro]: "keeps gov_ok (prepare_invite rnd pid p hours x acc)"
  unfolding prepare_invite_def Let_def
proof (rule keeps_gets)
  fix s assume s: "gov_ok s"
  let ?a = "dgetd (gv_accounts s) (py_str (snd x)) []"
  let ?k = "''invite-'' @ rnd (2 * fst x + 1)"
  let ?m = "sthen (sguard (?a \<noteq> [] \<and> truthy (dgetn ?a ''active'')) (ValueError (''active user account not found: '' @ py_str (snd x))))
    (sbind (slift (ebind (ebind (dindex p ''version'') py_int) (\<lambda>version. invite_doc pid version ?a hours ?k (rnd (2 * fst x))))) (\<lambda>i.
     sthen (put_entry Invitations ?k i) (sreturn (acc @ [(?k, rnd (2 * fst x))]))))"
  have "keeps gov_ok ?m"
  proof (rule keeps_guard, rule keeps_lift)
    fix i
    assume a: "?a \<noteq> [] \<and> truthy (dgetn ?a ''active'')"
      and i: "ebind (ebind (dindex p ''version'') py_int) (\<lambda>version. invite_doc pid version ?a hours ?k (rnd (2 * fst x))) = Inr i"
    from a obtain b where b: "dget (gv_accounts s) (py_str (snd x)) = Some b" "?a = b" by (auto simp: dgetd_def split: option.splits)
    from ok_account [OF s b(1)] b(2) have "dget ?a ''id'' = Some (PStr (py_str (snd x)))" by (simp add: account_ok_def)
    with i have "invite_ok ?k i" by (auto simp: invite_doc_def invite_ok_def ebind_eq_Inr dindex_def dwf_def dkeys_def dget_def)
    then show "keeps gov_ok (sthen (put_entry Invitations ?k i) (sreturn (acc @ [(?k, rnd (2 * fst x))])))" by (intro keeps_intro ok_put_invite)
  qed
  then show "gov_ok (snd (?m s))" using s by (rule keepsD)
qed

lemma ok_prepare [keeps_intro]: "keeps gov_ok (prepare_invites rnd pid us h)"
  unfolding prepare_invites_def by (intro keeps_intro)

lemma ok_deliver [keeps_intro]: "keeps gov_ok (deliver_invite clk mail x acc)"
  unfolding deliver_invite_def Let_def case_prod_beta need_entry_def sent_fields_def
  by (intro keeps_intro ok_put_fields) (simp_all add: guarded_def)

lemma commitment_keeps:
  assumes "ensure_vote_commitment rnd v = Inr v'"
  shows "dwf v \<Longrightarrow> dwf v'" and "k \<notin> {''publicBallotId'', ''choiceSalt'', ''choiceCommitmentSha256''} \<Longrightarrow> dget v' k = dget v k"
  using assms by (auto simp: ensure_vote_commitment_def Let_def ebind_eq_Inr split: if_splits)

lemma vote_doc_ok:
  assumes "dget i ''proposalId'' = Some (PStr p)" and "dget i ''proposalVersion'' = Some (PInt n)" and "vote_doc i (PStr u) c now h d = Inr x" and "c \<in> set choices"
    and "extra = [] \<or> (\<exists>v. extra = [(''authMethod'', v)])" and "ensure_vote_commitment rnd (x @ extra) = Inr y"
  shows "vote_ok (vote_key p u (show_int n)) y"
proof -
  from assms(3) obtain iid where x: "x = [(''id'', PStr (vote_key p u (show_int n))), (''proposalId'', PStr p), (''proposalVersion'', PInt n), (''invitationId'', iid),
       (''userId'', PStr u), (''choice'', PStr c), (''castAt'', PStr (iso now)), (''hypeAtCast'', PFloat h), (''durableFractionAtCast'', PFloat d),
       (''rawVoteUnits'', PFloat (Fin 1)), (''hypeVoteUnits'', PFloat (Fin 0))]"
    by (auto simp: vote_doc_def ebind_eq_Inr dindex_def assms(1,2) py_str_def)
  have "dwf (x @ extra)" using assms(5) by (auto simp: x dwf_def dkeys_def)
  then show ?thesis using assms(4) commitment_keeps [OF assms(6)] by (auto simp: vote_ok_def x dget_def)
qed

lemma ok_put_vote: "vote_ok k v \<Longrightarrow> keeps gov_ok (put_entry Votes k v)"
  unfolding put_entry_def by (rule keeps_modify) (auto simp: gov_ok_def tables_ok_def intro: entries_dset)

lemma ok_enter:
  assumes "invite_ok k i" and "c \<in> set choices" and "extra = [] \<or> (\<exists>v. extra = [(''authMethod'', v)])"
  shows "keeps gov_ok (enter_vote rnd now k i (PStr u) c proposal extra)"
proof -
  from assms(1) obtain p n where i: "dget i ''proposalId'' = Some (PStr p)" "dget i ''proposalVersion'' = Some (PInt n)" by (auto simp: invite_ok_def)
  have key: "invite_vote_key i (PStr u) = Inr (vote_key p u (show_int n))" by (simp add: invite_vote_key_def dindex_def i py_str_def ebind_def)
  show ?thesis
    unfolding enter_vote_def case_prod_beta
    by (intro keeps_intro keeps_lift ok_put_vote ok_put_fields)
      (auto simp: key ebind_eq_Inr guarded_def intro: vote_doc_ok [OF i _ assms(2,3)])
qed

lemma found_invite: "find_invite h xs = Inr (Some (k, i)) \<Longrightarrow> (k, i) \<in> set xs"
  by (induction h xs rule: find_invite.induct) (auto simp: Let_def split: if_splits)

lemma token_invite: "gov_ok s \<Longrightarrow> invite_of_token token s = Inr (k, i) \<Longrightarrow> invite_ok k i"
proof -
  assume s: "gov_ok s" and "invite_of_token token s = Inr (k, i)"
  then have "(k, i) \<in> set (gv_invitations s)"
    by (auto simp: invite_of_token_def ebind_eq_Inr split: option.splits if_splits dest: found_invite)
  moreover have "dwf (gv_invitations s)" using s by (simp add: gov_ok_def tables_ok_def entries_ok_def)
  ultimately have "dget (gv_invitations s) k = Some i" by (simp add: dwf_def dkeys_def dget_def)
  with s show "invite_ok k i" by (rule ok_invite)
qed

lemma ok_cast_invite:
  assumes "invite_ok k i" and "c \<in> set choices"
  shows "keeps gov_ok (cast_invite rnd now c u b k i)"
proof -
  have owned: "keeps gov_ok (sbind (slift (dindex i ''userId'')) (\<lambda>owner. sthen (sguard (g owner) e) (enter_vote rnd now k i owner c proposal [])))" for g e proposal
  proof (rule keeps_lift)
    fix owner assume "dindex i ''userId'' = Inr owner"
    with assms(1) obtain v where "owner = PStr v" by (auto simp: invite_ok_def dindex_def)
    then show "keeps gov_ok (sthen (sguard (g owner) e) (enter_vote rnd now k i owner c proposal []))" using assms by (auto intro: keeps_intro ok_enter)
  qed
  have expired: "keeps gov_ok (put_field Invitations k ''status'' v)" for v by (rule ok_put_field) (simp add: guarded_def)
  show ?thesis unfolding cast_invite_def by (rule owned expired keeps_intro)+
qed

lemma keeps_gete_case:
  "(\<And>s k i. I s \<Longrightarrow> f s = Inr (k, i) \<Longrightarrow> keeps I (g k i)) \<Longrightarrow> keeps I (sbind (sgete f) (\<lambda>(k, i). g k i))"
  by (fastforce simp: keeps_def sbind_def sgete_def split: sum.splits)

lemma ok_cast [keeps_intro]: "keeps gov_ok (cast_vote rnd now token c u b)"
  unfolding cast_vote_def Let_def
  by (intro keeps_guard keeps_gete_case ok_cast_invite token_invite) auto

lemma efilter_subset: "efilter f xs = Inr ys \<Longrightarrow> set ys \<subseteq> set xs"
proof (induction xs arbitrary: ys)
  case (Cons x xs)
  then obtain b zs where "efilter f xs = Inr zs" "ys = (if b then x # zs else zs)" by (auto simp: ebind_eq_Inr)
  with Cons.IH show ?case by (cases b) auto
qed simp

lemma sole_invite_ok: "gov_ok s \<Longrightarrow> sole_invite u proposal now s = Inr (k, i) \<Longrightarrow> invite_ok k i"
proof -
  assume s: "gov_ok s" and "sole_invite u proposal now s = Inr (k, i)"
  then obtain v xs where f: "efilter (candidate_invite u proposal v now) (gv_invitations s) = Inr xs"
    and "(case xs of [] \<Rightarrow> Inl (PermissionError ''no active voting invitation exists for this account and proposal version'') | [x] \<Rightarrow> Inr x
      | _ \<Rightarrow> Inl (PermissionError ''multiple active voting invitations exist for this account and proposal version'')) = Inr (k, i)"
    unfolding sole_invite_def ebind_eq_Inr by blast
  then have "xs = [(k, i)]" by (cases xs rule: remdups_adj.cases) auto
  with efilter_subset [OF f] have "(k, i) \<in> set (gv_invitations s)" by simp
  moreover have "dwf (gv_invitations s)" using s by (simp add: gov_ok_def tables_ok_def entries_ok_def)
  ultimately have "dget (gv_invitations s) k = Some i" by (simp add: dwf_def dkeys_def dget_def)
  with s show "invite_ok k i" by (rule ok_invite)
qed

lemma ok_cast_account [keeps_intro]: "keeps gov_ok (cast_account_vote rnd now pid c u)"
  unfolding cast_account_vote_def Let_def
  by (intro keeps_guard keeps_sbind [of _ "sgete (find_account _)"] keeps_sbind [of _ "sgete (open_proposal _)"] keeps_gete_case keeps_pure ok_enter sole_invite_ok) auto

lemma ok_reconcile [keeps_intro]: "keeps gov_ok (reconcile_public_record rnd p)"
  unfolding reconcile_public_record_def reconcile_proposal_def reconcile_step_def reconcile_entry_def by (intro keeps_intro)

lemma ok_mark [keeps_intro]: "keeps gov_ok (mark_proposal_applied now pid c)"
  unfolding mark_proposal_applied_def by (intro keeps_intro)

lemma ok_apply [keeps_intro]: "keeps gov_ok (apply_ratified_governance_policy now pid)" "keeps gov_ok (mark_change_applied now pid)"
  unfolding apply_ratified_governance_policy_def mark_change_applied_def by (intro keeps_intro)+

lemma ok_call: "keeps gov_ok (run_gov c)"
  by (cases c) (simp_all, intro keeps_intro, (intro keeps_intro)+)

lemma ok_run: "gov_ok s \<Longrightarrow> gov_ok (gov_run x s)"
  unfolding gov_run_def sexec_def by (rule keepsD [OF ok_call]) (simp add: gov_ok_def tables_ok_def)

section \<open>Restarts\<close>

lemma entries_member: "entries_ok P d \<Longrightarrow> x \<in> set d \<Longrightarrow> P (fst x) (snd x)"
  by (metis dget_def dkeys_def dwf_def entries_ok_def map_of_eq_Some_iff prod.collapse)

definition key_step :: "pyval \<Rightarrow> (string \<times> pydict) list \<Rightarrow> (string \<times> pydict) list" where
  "key_step x acc = (case x of PDict d \<Rightarrow> if truthy (dgetn d ''id'') then dset acc (py_str (dgetn d ''id'')) d else acc | _ \<Rightarrow> acc)"

lemma keyed_ok:
  assumes "by_id (PList (map PDict ds)) = Inr acc" and "\<And>d. d \<in> set ds \<Longrightarrow> P (py_str (dgetn d ''id'')) d"
  shows "entries_ok P acc"
proof -
  have "entries_ok P (fold key_step (map PDict ds) a)" if "entries_ok P a" "\<forall>d \<in> set ds. P (py_str (dgetn d ''id'')) d" for a ds
    using that
  proof (induction ds arbitrary: a)
    case (Cons d ds)
    then have "entries_ok P (key_step (PDict d) a)" by (simp add: key_step_def entries_dset)
    with Cons show ?case by simp
  qed simp
  from this [of "[]" ds] assms(2) have "entries_ok P (fold key_step (map PDict ds) [])" by (simp add: entries_ok_def)
  moreover have "acc = fold key_step (map PDict ds) []"
    using assms(1) by (simp add: by_id_def py_iter_def ebind_def key_step_def [abs_def])
  ultimately show ?thesis by simp
qed

lemma sorted_tables: "map json_sorted (map (PDict \<circ> snd) xs) = map PDict (map (sorted_dict \<circ> snd) xs)"
  by (simp add: json_sorted_PDict comp_def)

lemma reread_ok:
  assumes "entries_ok P xs" and "by_id (PList (map PDict (map (sorted_dict \<circ> snd) xs))) = Inr acc"
    and "\<And>k x. P k x \<Longrightarrow> dwf x \<and> dget x ''id'' = Some (PStr k) \<and> P k (sorted_dict x)"
  shows "entries_ok P acc"
proof (rule keyed_ok [OF assms(2)])
  fix d assume "d \<in> set (map (sorted_dict \<circ> snd) xs)"
  then obtain k x where x: "(k, x) \<in> set xs" "d = sorted_dict x" by auto
  from entries_member [OF assms(1) x(1)] have "P k x" by simp
  with assms(3) have "dwf x" "dget x ''id'' = Some (PStr k)" "P k (sorted_dict x)" by blast+
  then have "dgetn (sorted_dict x) ''id'' = PStr k" by (simp add: dgetn_sorted_dict) (simp add: dgetn_def dgetd_def)
  with x(2) \<open>P k (sorted_dict x)\<close> show "P (py_str (dgetn d ''id'')) d" by (simp add: py_str_def)
qed

lemma reread_shapes:
  "account_ok k x \<Longrightarrow> dwf x \<and> dget x ''id'' = Some (PStr k) \<and> account_ok k (sorted_dict x)"
  "invite_ok k x \<Longrightarrow> dwf x \<and> dget x ''id'' = Some (PStr k) \<and> invite_ok k (sorted_dict x)"
  "vote_ok k x \<Longrightarrow> dwf x \<and> dget x ''id'' = Some (PStr k) \<and> vote_ok k (sorted_dict x)"
  by (auto simp: account_ok_def invite_ok_def vote_ok_def dwf_sorted_dict dget_sorted_dict)

lemma empty_ok: "tables_ok (empty_governance recorded)"
  by (simp add: tables_ok_def empty_governance_def entries_ok_def)

lemma opened_tables:
  assumes "open_governance recorded (Some (PDict d)) = Inr s'"
  shows "by_id (dgetd d ''accounts'' (PList [])) = Inr (gv_accounts s')" and "by_id (dgetd d ''invitations'' (PList [])) = Inr (gv_invitations s')"
    and "by_id (dgetd d ''votes'' (PList [])) = Inr (gv_votes s')" and "gv_file s' = Some (PDict d)"
  using assms by (auto simp: open_governance_def ebind_eq_Inr Let_def)

lemma ok_open:
  assumes "gov_ok s" and "open_governance recorded (gv_file s) = Inr s'"
  shows "gov_ok s'"
proof (cases "gv_file s")
  case None
  with assms(2) empty_ok [of recorded] show ?thesis by (auto simp: open_governance_def gov_ok_def tables_ok_def empty_governance_def)
next
  case (Some f)
  with assms(1) obtain s0 where s0: "tables_ok s0" "f = json_sorted (PDict (gov_snapshot s0))" by (auto simp: gov_ok_def)
  have w: "dwf (gov_snapshot s0)" by (simp add: gov_snapshot_def dwf_def dkeys_def)
  let ?d = "sorted_dict (gov_snapshot s0)"
  have f: "f = PDict ?d" by (simp add: s0(2) json_sorted_PDict)
  have g: "dget (gov_snapshot s0) ''accounts'' = Some (PList (map (PDict \<circ> snd) (gv_accounts s0)))"
    "dget (gov_snapshot s0) ''invitations'' = Some (PList (map (PDict \<circ> snd) (gv_invitations s0)))"
    "dget (gov_snapshot s0) ''votes'' = Some (PList (map (PDict \<circ> snd) (gv_votes s0)))"
    by (simp_all add: gov_snapshot_def dget_def)
  have t: "dgetd ?d ''accounts'' v = PList (map PDict (map (sorted_dict \<circ> snd) (gv_accounts s0)))"
    "dgetd ?d ''invitations'' v = PList (map PDict (map (sorted_dict \<circ> snd) (gv_invitations s0)))"
    "dgetd ?d ''votes'' v = PList (map PDict (map (sorted_dict \<circ> snd) (gv_votes s0)))" for v
    by (simp_all add: dgetd_def dget_sorted_dict [OF w] g sorted_tables del: map_map)
  note o = opened_tables [OF assms(2) [unfolded Some f]]
  have e: "entries_ok account_ok (gv_accounts s0)" "entries_ok invite_ok (gv_invitations s0)" "entries_ok vote_ok (gv_votes s0)"
    using s0(1) by (simp_all add: tables_ok_def)
  have "entries_ok account_ok (gv_accounts s')" by (rule reread_ok [OF e(1) o(1) [unfolded t] reread_shapes(1)])
  moreover have "entries_ok invite_ok (gv_invitations s')" by (rule reread_ok [OF e(2) o(2) [unfolded t] reread_shapes(2)])
  moreover have "entries_ok vote_ok (gv_votes s')" by (rule reread_ok [OF e(3) o(3) [unfolded t] reread_shapes(3)])
  ultimately show ?thesis using s0 o(4) f by (auto simp: gov_ok_def tables_ok_def)
qed

lemma gov_reachable_ok: "gov_reachable s \<Longrightarrow> gov_ok s"
proof (induction rule: gov_reachable.induct)
  case (gov_open recorded)
  show ?case using empty_ok [of recorded] by (simp add: gov_ok_def empty_governance_def)
next
  case (gov_call s x)
  from ok_run [OF gov_call.IH] show ?case .
next
  case (gov_restart s recorded s')
  from ok_open [OF gov_restart.IH gov_restart.hyps(2)] show ?case .
qed

section \<open>One vote per account and version\<close>

definition vote_of :: "string \<Rightarrow> int \<Rightarrow> string \<Rightarrow> pydict \<Rightarrow> bool" where
  "vote_of p n u v = (dgetn v ''proposalId'' = PStr p \<and> dgetn v ''proposalVersion'' = PInt n \<and> dgetn v ''userId'' = PStr u)"

lemma vote_of_key: "vote_ok k v \<Longrightarrow> vote_of p n u v \<Longrightarrow> k = vote_key p u (show_int n)"
  by (auto simp: vote_ok_def vote_of_def dgetn_def dgetd_def)

lemma filter_single: "distinct (map fst xs) \<Longrightarrow> (\<And>x. x \<in> set xs \<Longrightarrow> Q x \<Longrightarrow> fst x = k) \<Longrightarrow> length (filter Q xs) \<le> 1"
proof (induction xs)
  case (Cons x xs)
  show ?case
  proof (cases "Q x")
    case True
    have "\<not> Q y" if "y \<in> set xs" for y using Cons.prems True that by (metis distinct.simps(2) image_eqI list.set_intros list.set_map list.simps(9))
    then have "filter Q xs = []" by (simp add: filter_empty_conv)
    with True show ?thesis by simp
  next
    case False
    with Cons show ?thesis by simp
  qed
qed simp

lemma one_vote: "tables_ok s \<Longrightarrow> length (filter (vote_of p n u) (map snd (gv_votes s))) \<le> 1"
proof -
  assume t: "tables_ok s"
  then have d: "distinct (map fst (gv_votes s))" by (simp add: tables_ok_def entries_ok_def dwf_def dkeys_def)
  have "fst x = vote_key p u (show_int n)" if "x \<in> set (gv_votes s)" "vote_of p n u (snd x)" for x
    using t that entries_member [of vote_ok "gv_votes s" x] vote_of_key [of "fst x" "snd x"] by (auto simp: tables_ok_def)
  with filter_single [OF d, of "vote_of p n u \<circ> snd" "vote_key p u (show_int n)"] show ?thesis by (simp add: filter_map)
qed

text \<open>
  C26. One account, one vote: in every history of the store, whatever writes, mails and records fail and however
  often it is restarted from its file, an account has at most one vote on a version of a proposal, by mailed
  token and by session together, and every vote is a yes, a no or an abstention.
\<close>

theorem one_vote_each:
  assumes "gov_reachable s"
  shows "length (filter (vote_of p n u) (map snd (gv_votes s))) \<le> 1 \<and>
    list_all (\<lambda>v. dgetn v ''choice'' \<in> PStr ` set choices) (map snd (gv_votes s))"
proof -
  have t: "tables_ok s" using gov_reachable_ok [OF assms] by (simp add: gov_ok_def)
  then have "vote_ok (fst x) (snd x)" if "x \<in> set (gv_votes s)" for x using that entries_member unfolding tables_ok_def by blast
  then have "dgetn (snd x) ''choice'' \<in> PStr ` set choices" if "x \<in> set (gv_votes s)" for x
    using that by (fastforce simp: vote_ok_def dgetn_def dgetd_def)
  with one_vote [OF t] show ?thesis by (simp add: list_all_iff)
qed

definition sample_account :: pydict where
  "sample_account = [(''id'', PStr ''ada''), (''email'', PStr ''ada@example.org'')]"

definition sample_history :: "(gov_call \<times> gov_fate) list" where
  "sample_history =
     [(UpsertAccount sample_account, ([], [])), (CreateProposal (\<lambda>_. 0) (\<lambda>_. ''x'') [(''id'', PStr ''p''), (''title'', PStr ''Tempo'')], ([False], [])),
      (PrepareInvites (\<lambda>_. ''token'') ''p'' [PStr ''ada''] None, ([], [])), (DeliverInvite (\<lambda>_. 5) (\<lambda>_ _. Inr []) (0, ''invite-token'', ''token''), ([], [])),
      (CastVote (\<lambda>_. ''r'') 6 ''token'' ''yes'' (Some ''ada'') False, ([], [])), (CastAccountVote (\<lambda>_. ''r'') 7 ''p'' ''no'' ''ada'', ([], []))]"

lemma reachable_fold: "gov_reachable s \<Longrightarrow> gov_reachable (fold gov_run xs s)"
  by (induction xs arbitrary: s) (auto intro: gov_call)

theorem one_vote_each_witness:
  "length (filter (vote_of ''p'' 1 ''ada'') (map snd (gv_votes (fold gov_run sample_history (empty_governance True))))) \<le> 1"
  using one_vote_each [OF reachable_fold [OF gov_open [of True]], of "''p''" 1 "''ada''" sample_history] by simp

section \<open>Adoption is final\<close>

definition final_keys :: "string list" where
  "final_keys = [''id'', ''version'', ''title'', ''description'', ''scope'', ''createdAt'', ''change'', ''status'']"

definition stands :: "string \<Rightarrow> pydict \<Rightarrow> governance \<Rightarrow> bool" where
  "stands pid p s = (\<exists>q. dget (gv_proposals s) pid = Some q \<and> (\<forall>k \<in> set final_keys. dget q k = dget p k) \<and>
     (truthy (dgetn p ''appliedAt'') \<longrightarrow> dgetn q ''appliedAt'' = dgetn p ''appliedAt''))"

named_theorems stands_intro

lemma stands_frame: "(\<And>s. gv_proposals (u s) = gv_proposals s) \<Longrightarrow> keeps (stands pid p) (smodify u)"
  by (rule keeps_modify) (simp add: stands_def)

lemma stands_save [stands_intro]: "keeps (stands pid p) gov_save"
  by (rule keepsI) (simp add: gov_save_def Let_def stands_def)

lemma stands_changed [stands_intro]: "keeps (stands pid p) gov_changed"
  unfolding gov_changed_def by (intro keeps_intro stands_intro stands_frame) simp

lemma stands_append [stands_intro]: "keeps (stands pid p) (append_public_record ty d)"
  by (rule keepsI) (simp add: append_public_record_def Let_def stands_def split: list.split sum.split)

lemma stands_field:
  assumes "t \<noteq> Proposals \<or> k \<noteq> pid \<or> (f \<notin> set final_keys \<and> (f = ''appliedAt'' \<longrightarrow> \<not> truthy (dgetn p ''appliedAt'')))"
  shows "keeps (stands pid p) (put_field t k f v)"
  unfolding put_field_def
proof (rule keeps_modify)
  fix s assume "stands pid p s"
  with assms show "stands pid p (if din k (table t s) then set_table t (dset (table t s) k (dset (entry t k s) f v)) s else s)"
    by (cases t) (auto simp: stands_def entry_def dgetd_def)
qed

lemma stands_fields: "(\<And>f. f \<in> set (map fst fs) \<Longrightarrow> t \<noteq> Proposals \<or> k \<noteq> pid \<or> (f \<notin> set final_keys \<and> f \<noteq> ''appliedAt'')) \<Longrightarrow> keeps (stands pid p) (put_fields t k fs)"
  unfolding put_fields_def by (intro keeps_sfold_set stands_field) fastforce

lemma stands_entry: "t \<noteq> Proposals \<or> k \<noteq> pid \<Longrightarrow> keeps (stands pid p) (put_entry t k d)"
  unfolding put_entry_def by (rule keeps_modify, cases t) (auto simp: stands_def)

lemma stands_record [stands_intro]: "keeps (stands pid p) (record_entry t k)"
  unfolding record_entry_def by (intro keeps_intro stands_intro stands_field) (simp_all add: final_keys_def)

lemma stands_record_vote [stands_intro]: "keeps (stands pid p) (record_vote rnd k)"
  unfolding record_vote_def by (intro keeps_intro stands_intro stands_fields) simp

lemma stands_accounts [stands_intro]: "keeps (stands pid p) (put_account k a)"
  unfolding put_account_def by (rule stands_frame) simp

lemma stands_policy [stands_intro]: "keeps (stands pid p) (patch_policy d)"
  unfolding patch_policy_def by (intro keeps_intro stands_intro stands_frame) simp

lemma stands_simple [stands_intro]:
  "keeps (stands pid p) (upsert_account d)" "keeps (stands pid p) (authenticated_account u)" "keeps (stands pid p) (revoke_account_sessions u)"
  unfolding upsert_account_def authenticated_account_def revoke_account_sessions_def Let_def by (intro keeps_intro stands_intro)+

lemma stands_prepare [stands_intro]: "keeps (stands pid p) (prepare_invites rnd k us h)"
  unfolding prepare_invites_def prepare_invite_def Let_def by (intro keeps_intro stands_intro stands_entry) simp

lemma stands_deliver [stands_intro]: "keeps (stands pid p) (deliver_invite clk mail x acc)"
  unfolding deliver_invite_def Let_def case_prod_beta need_entry_def by (intro keeps_intro stands_intro stands_fields) simp_all

lemma stands_enter [stands_intro]: "keeps (stands pid p) (enter_vote rnd now k i u c proposal extra)"
  unfolding enter_vote_def case_prod_beta by (intro keeps_intro stands_intro stands_fields stands_entry) simp_all

lemma stands_cast [stands_intro]: "keeps (stands pid p) (cast_vote rnd now token c u b)" "keeps (stands pid p) (cast_account_vote rnd now k c v)"
  unfolding cast_vote_def cast_invite_def cast_account_vote_def Let_def case_prod_beta by (intro keeps_intro stands_intro stands_field; simp)+

lemma stands_reconcile [stands_intro]: "keeps (stands pid p) (reconcile_public_record rnd k)"
  unfolding reconcile_public_record_def reconcile_proposal_def reconcile_step_def reconcile_entry_def by (intro keeps_intro stands_intro)

lemma stands_create [stands_intro]: "keeps (stands pid p) (create_proposal clk rnd d)"
proof (cases "clean_str 160 (por (dgetn d ''id'') (PStr (''proposal-'' @ rnd 0))) = pid")
  case True
  have "din pid (gv_proposals s)" if "stands pid p s" for s using that by (auto simp: stands_def din_def)
  then show ?thesis unfolding create_proposal_def Let_def True by (auto intro!: keepsI simp: sthen_run sbind_run sguard_run)
next
  case False
  then show ?thesis unfolding create_proposal_def Let_def by (intro keeps_intro stands_intro stands_entry) simp
qed

lemma stands_adopted: "stands pid p s \<Longrightarrow> dget p ''status'' = Some (PStr ''adopted'') \<Longrightarrow>
   \<exists>q. find_proposal pid s = Inr q \<and> dget q ''status'' = Some (PStr ''adopted'') \<and> (truthy (dgetn p ''appliedAt'') \<longrightarrow> truthy (dgetn q ''appliedAt''))"
  by (fastforce simp: stands_def find_proposal_def final_keys_def)

lemma adopted_untouched:
  assumes "dget q ''status'' = Some (PStr ''adopted'')" and "find_proposal pid s = Inr q"
  shows "snd (update_proposal clk pid data s) = s"
proof (cases "check_mutable (gv_recorded s) q data")
  case (Inl e)
  then show ?thesis by (simp add: update_proposal_def sbind_run sthen_run assms(2))
next
  case (Inr u)
  have st: "dgetn q ''status'' = PStr ''adopted''" using assms(1) by (simp add: dgetn_def dgetd_def)
  from Inr st have m: "\<not> has_any material_keys data" "din ''status'' data \<Longrightarrow> py_lower (strip (py_str (dgetn data ''status''))) = ''adopted''"
    by (auto simp: check_mutable_def ebind_eq_Inr eguard_def split: if_splits)
  have "update_status clk pid q data s = (Inr False, s)" if "din ''status'' data"
    using m(2) [OF that] assms(1) st
    by (simp add: update_status_def Let_def proposal_statuses_def sthen_run sbind_run sguard_run swhen_run dindex_def)
  then have "(if din ''status'' data then update_status clk pid q data else sreturn False) s = (Inr False, s)" by (simp add: sreturn_def)
  then show ?thesis using m(1) Inr by (simp add: update_proposal_def sbind_run sthen_run swhen_run assms(2) Let_def)
qed

lemma stands_update:
  assumes "dget p ''status'' = Some (PStr ''adopted'')"
  shows "keeps (stands pid p) (update_proposal clk k data)"
proof (cases "k = pid")
  case True
  show ?thesis
  proof (rule keepsI)
    fix s assume s: "stands pid p s"
    from stands_adopted [OF s assms] adopted_untouched [of _ pid s clk data] s show "stands pid p (snd (update_proposal clk k data s))" by (auto simp: True)
  qed
next
  case False
  have f: "keeps (stands pid p) (put_field Proposals k g v)" for g v by (rule stands_field) (simp add: False)
  show ?thesis
    unfolding update_proposal_def update_status_def update_material_def put_text_def Let_def by (intro keeps_intro stands_intro f)
qed

lemma stands_mark: "k \<noteq> pid \<or> \<not> truthy (dgetn p ''appliedAt'') \<Longrightarrow> keeps (stands pid p) (mark_proposal_applied now k c)"
  unfolding mark_proposal_applied_def by (intro keeps_intro stands_intro stands_field) (auto simp: final_keys_def)

lemma stands_apply:
  assumes "dget p ''status'' = Some (PStr ''adopted'')"
  shows "keeps (stands pid p) (apply_ratified_governance_policy now k)" and "keeps (stands pid p) (mark_change_applied now k)"
proof -
  have "keeps (stands pid p) (apply_ratified_governance_policy now k) \<and> keeps (stands pid p) (mark_change_applied now k)"
  proof (cases "k \<noteq> pid \<or> \<not> truthy (dgetn p ''appliedAt'')")
    case True
    then show ?thesis
      unfolding apply_ratified_governance_policy_def mark_change_applied_def by (intro conjI keeps_intro stands_intro stands_mark)
  next
    case False
    then have "\<exists>e. adopted_change k s = Inl e" if "stands pid p s" for s
      using stands_adopted [OF that assms] by (auto simp: adopted_change_def ebind_def eguard_def)
    then show ?thesis
      unfolding apply_ratified_governance_policy_def mark_change_applied_def
      by (intro conjI keepsI) (fastforce simp: sbind_run)+
  qed
  then show "keeps (stands pid p) (apply_ratified_governance_policy now k)" "keeps (stands pid p) (mark_change_applied now k)" by auto
qed

lemma stands_run: "dget p ''status'' = Some (PStr ''adopted'') \<Longrightarrow> stands pid p s \<Longrightarrow> stands pid p (gov_run x s)"
proof -
  assume a: "dget p ''status'' = Some (PStr ''adopted'')" and s: "stands pid p s"
  have "keeps (stands pid p) (run_gov c)" for c
    by (cases c) (simp_all, (intro keeps_intro stands_intro stands_update [OF a] stands_apply [OF a])+)
  then show ?thesis unfolding gov_run_def sexec_def by (rule keepsD) (use s in \<open>simp add: stands_def\<close>)
qed

text \<open>
  C28. Adoption is final: whatever calls follow, with whatever failures, an adopted proposal keeps its identifier,
  version, texts, change and status, and once its change has been applied it is not applied again: the time of its
  application stays.
\<close>

theorem adoption_is_final:
  assumes "dget (gv_proposals s) pid = Some p" and "dget p ''status'' = Some (PStr ''adopted'')"
  shows "stands pid p (fold gov_run calls s)"
proof -
  have "stands pid p s" using assms(1) by (simp add: stands_def)
  then show ?thesis by (induction calls arbitrary: s) (auto intro: stands_run [OF assms(2)])
qed

theorem adoption_is_final_witness:
  "stands ''p'' [(''status'', PStr ''adopted'')]
     (fold gov_run (sample_history @ [(UpdateProposal (\<lambda>_. 9) ''p'' [(''title'', PStr ''Other'')], ([], []))])
       ((empty_governance False)\<lparr>gv_proposals := [(''p'', [(''status'', PStr ''adopted'')])]\<rparr>))"
  by (rule adoption_is_final) (simp_all add: dget_def)

section \<open>What adoption rests on\<close>

definition status_of :: "string \<Rightarrow> governance \<Rightarrow> pyval" where
  "status_of pid s = dgetn (entry Proposals pid s) ''status''"

definition unadopted :: "string \<Rightarrow> governance \<Rightarrow> bool" where
  "unadopted pid s = (status_of pid s \<noteq> PStr ''adopted'')"

named_theorems unadopted_intro

lemma unadopted_frame: "(\<And>s. gv_proposals (u s) = gv_proposals s) \<Longrightarrow> keeps (unadopted pid) (smodify u)"
  by (rule keeps_modify) (simp add: unadopted_def status_of_def entry_def)

lemma unadopted_save [unadopted_intro]: "keeps (unadopted pid) gov_save"
  by (rule keepsI) (simp add: gov_save_def Let_def unadopted_def status_of_def entry_def)

lemma unadopted_changed [unadopted_intro]: "keeps (unadopted pid) gov_changed"
  unfolding gov_changed_def by (intro keeps_intro unadopted_intro unadopted_frame) simp

lemma unadopted_append [unadopted_intro]: "keeps (unadopted pid) (append_public_record ty d)"
  by (rule keepsI) (simp add: append_public_record_def Let_def unadopted_def status_of_def entry_def split: list.split sum.split)

lemma unadopted_field: "f \<noteq> ''status'' \<or> v \<noteq> PStr ''adopted'' \<Longrightarrow> keeps (unadopted pid) (put_field t k f v)"
  unfolding put_field_def
  by (rule keeps_modify, cases t) (auto simp: unadopted_def status_of_def entry_def dgetd_def dgetn_def din_def)

lemma unadopted_record [unadopted_intro]: "keeps (unadopted pid) (record_entry t k)"
  unfolding record_entry_def by (intro keeps_intro unadopted_intro unadopted_field) simp_all

lemma unadopted_material [unadopted_intro]: "keeps (unadopted pid) (update_material clk k d)"
  unfolding update_material_def put_text_def
  by (intro keeps_intro keeps_sfold_set unadopted_intro unadopted_field) auto

lemma status_needs_tally:
  assumes "unadopted pid s" and "dget (gv_proposals s) pid = Some p" and "\<not> unadopted pid (snd (update_status clk pid p data s))"
  shows "\<exists>t. proposal_tally pid (clk 1) s = Inr t \<and> binding_ready t"
proof (cases "py_lower (strip (py_str (dgetn data ''status''))) = ''adopted''")
  case False
  have "keeps (unadopted pid) (update_status clk pid p data)"
    unfolding update_status_def Let_def by (intro keeps_intro unadopted_intro unadopted_field) (simp_all add: False)
  with assms(1,3) show ?thesis by (auto dest: keepsD)
next
  case True
  have p: "dgetn p ''status'' \<noteq> PStr ''adopted''" using assms(1,2) by (simp add: unadopted_def status_of_def entry_def dgetd_def)
  show ?thesis
  proof (cases "\<exists>t. proposal_tally pid (clk 1) s = Inr t \<and> binding_ready t")
    case no: False
    have "snd (update_status clk pid p data s) = s"
      using no p
      by (cases "proposal_tally pid (clk 1) s")
        (auto simp: update_status_def Let_def True proposal_statuses_def sthen_run sbind_run sguard_run swhen_run split: prod.splits sum.splits)
    with assms show ?thesis by simp
  qed
qed

lemma adoption_needs_tally:
  assumes "dget (gv_proposals s) pid = Some p" and "dgetn p ''status'' \<noteq> PStr ''adopted''"
    and "update_proposal clk pid data s = (r, s')" and "status_of pid s' = PStr ''adopted''"
  shows "\<exists>t. proposal_tally pid (clk 1) s = Inr t \<and> binding_ready t"
proof (rule ccontr)
  assume no: "\<not> ?thesis"
  have u: "unadopted pid s" using assms(1,2) by (simp add: unadopted_def status_of_def entry_def dgetd_def)
  let ?m = "if din ''status'' data then update_status clk pid p data else sreturn False"
  have m: "unadopted pid (snd (?m s))" using status_needs_tally [OF u assms(1), of clk data] no u by (cases "din ''status'' data") (auto simp: sreturn_def)
  have "unadopted pid (snd (update_proposal clk pid data s))"
  proof (cases "p = [] \<or> (\<exists>e. check_mutable (gv_recorded s) p data = Inl e)")
    case True
    then show ?thesis using u assms(1) by (auto simp: update_proposal_def find_proposal_def sbind_run sthen_run)
  next
    case False
    then have f: "find_proposal pid s = Inr p" and c: "check_mutable (gv_recorded s) p data = Inr ()"
      using assms(1) by (auto simp: find_proposal_def) (cases "check_mutable (gv_recorded s) p data"; auto)
    obtain b s1 where b: "?m s = (b, s1)" by fastforce
    have run: "update_proposal clk pid data s = sbind ?m (\<lambda>moved.
       let material = has_any material_keys data in
       sthen (swhen material (update_material clk pid data))
      (sthen (swhen (moved \<or> material) (sthen gov_changed (swhen material (sthen (record_entry Proposals pid) (sreturn ())))))
             (sgets (entry Proposals pid)))) s"
      by (simp add: update_proposal_def sbind_run sthen_run f c)
    show ?thesis
    proof (cases b)
      case (Inl e)
      with m b show ?thesis unfolding run by (simp add: sbind_run)
    next
      case (Inr moved)
      have "keeps (unadopted pid) (let material = has_any material_keys data in
       sthen (swhen material (update_material clk pid data))
      (sthen (swhen (moved \<or> material) (sthen gov_changed (swhen material (sthen (record_entry Proposals pid) (sreturn ())))))
             (sgets (entry Proposals pid))))" unfolding Let_def by (intro keeps_intro unadopted_intro)
      from keepsD [OF this, of s1] m b show ?thesis unfolding run by (simp add: sbind_run Inr)
    qed
  qed
  with assms(3,4) show False by (simp add: unadopted_def)
qed

definition ballots :: "string \<Rightarrow> int \<Rightarrow> governance \<Rightarrow> pydict list" where
  "ballots pid n s = filter (\<lambda>v. dgetn v ''proposalId'' = PStr pid \<and> dgetn v ''proposalVersion'' = PInt n) (map snd (gv_votes s))"

definition voters :: "(pydict \<Rightarrow> bool) \<Rightarrow> string \<Rightarrow> int \<Rightarrow> governance \<Rightarrow> nat" where
  \<comment> \<open>how many accounts cast a ballot of a kind on a version\<close>
  "voters P pid n s = card ((\<lambda>v. dgetn v ''userId'') ` set (filter P (ballots pid n s)))"

definition chose :: "string \<Rightarrow> pydict \<Rightarrow> bool" where
  "chose c v = (dgetn v ''choice'' = PStr c)"

lemma efilter_filter: "efilter f xs = Inr ys \<Longrightarrow> ys = filter (\<lambda>x. f x = Inr True) xs"
proof (induction xs arbitrary: ys)
  case (Cons x xs)
  then obtain b zs where "f x = Inr b" "efilter f xs = Inr zs" "ys = (if b then x # zs else zs)" by (auto simp: ebind_eq_Inr)
  with Cons.IH show ?case by auto
qed simp

lemma distinct_counts: "(\<And>x. length (filter (\<lambda>v. f v = x) xs) \<le> 1) \<Longrightarrow> distinct (map f xs)"
proof (induction xs)
  case (Cons y ys)
  have "length (filter (\<lambda>v. f v = x) ys) \<le> 1" for x using Cons.prems [of x] by (auto split: if_splits)
  moreover have "filter (\<lambda>v. f v = f y) ys = []" using Cons.prems [of "f y"] by simp
  ultimately show ?case using Cons.IH by (auto simp: filter_empty_conv)
qed simp

lemma ballots_distinct:
  assumes "tables_ok s"
  shows "distinct (map (\<lambda>v. dgetn v ''userId'') (ballots pid n s))"
proof (rule distinct_counts)
  fix x
  show "length (filter (\<lambda>v. dgetn v ''userId'' = x) (ballots pid n s)) \<le> 1"
  proof (cases "\<exists>u. x = PStr u")
    case True
    then obtain u where "x = PStr u" by blast
    moreover have "filter (\<lambda>v. dgetn v ''userId'' = PStr u) (ballots pid n s) = filter (vote_of pid n u) (map snd (gv_votes s))"
      unfolding ballots_def filter_filter by (rule filter_cong) (auto simp: vote_of_def)
    ultimately show ?thesis using one_vote [OF assms, of pid n u] by simp
  next
    case False
    have "vote_ok (fst y) (snd y)" if "y \<in> set (gv_votes s)" for y using assms that entries_member unfolding tables_ok_def by blast
    then have "dgetn (snd y) ''userId'' \<noteq> x" if "y \<in> set (gv_votes s)" for y using that False by (fastforce simp: vote_ok_def dgetn_def dgetd_def)
    then have "filter (\<lambda>v. dgetn v ''userId'' = x) (ballots pid n s) = []" by (auto simp: ballots_def filter_empty_conv)
    then show ?thesis by simp
  qed
qed

lemma voters_count: "tables_ok s \<Longrightarrow> voters P pid n s = length (filter P (ballots pid n s))"
proof -
  assume "tables_ok s"
  then have "distinct (map (\<lambda>v. dgetn v ''userId'') (filter P (ballots pid n s)))"
    using ballots_distinct distinct_map_filter by blast
  then show ?thesis unfolding voters_def using distinct_card by fastforce
qed

lemma ready_tally:
  assumes "proposal_tally pid now s = Inr t" and "binding_ready t" and "dget (gv_proposals s) pid = Some p"
  shows "\<exists>votes yes no units shut. efilter (of_version pid (ebind (dindex p ''version'') py_int)) (map snd (gv_votes s)) = Inr votes \<and>
     raw_votes votes ''yes'' = Inr yes \<and> raw_votes votes ''no'' = Inr no \<and> vote_blockers (gv_policy s) (length votes) yes no units shut = Inr []"
proof -
  from assms obtain hd dz where "proposal_hype (gv_policy s) p now = Inr (hd, dz)"
    by (auto simp: proposal_tally_def Let_def ebind_eq_Inr split: if_splits)
  with assms show ?thesis
    by (fastforce simp: proposal_tally_def Let_def ebind_eq_Inr binding_ready_def split: if_splits)
qed

lemma no_blockers:
  assumes "vote_blockers policy n yes no units shut = Inr []"
  shows "\<exists>raw ratio. py_int (dgetn policy ''minRawVotes'') = Inr raw \<and> py_float (dgetn policy ''minApprovalRatio'') = Inr ratio \<and>
     raw \<le> int n \<and> 0 < yes + no \<and> \<not> flt (Fin (of_nat yes / of_nat (yes + no))) ratio"
  using assms
  by (auto simp: vote_blockers_def ebind_eq_Inr dindex_def dgetn_def dgetd_def approval_ratio_def split: option.splits if_splits)

lemma raw_votes_count: "raw_votes votes c = Inr k \<Longrightarrow> k = length (filter (chose c) votes)"
proof -
  assume "raw_votes votes c = Inr k"
  then obtain xs where x: "efilter (\<lambda>v. ebind (dindex v ''choice'') (\<lambda>d. Inr (d = PStr c))) votes = Inr xs" "k = length xs"
    by (auto simp: raw_votes_def ebind_eq_Inr)
  have "(ebind (dindex v ''choice'') (\<lambda>d. Inr (d = PStr c)) = Inr True) = chose c v" for v
    by (auto simp: chose_def dindex_def dgetn_def dgetd_def ebind_def split: option.splits)
  with efilter_filter [OF x(1)] x(2) show ?thesis by simp
qed

lemma version_ballots:
  assumes "tables_ok s" and "efilter (of_version pid ver) (map snd (gv_votes s)) = Inr votes" and "votes \<noteq> []"
  shows "\<exists>n. ver = Inr n \<and> votes = ballots pid n s"
proof -
  note f = efilter_filter [OF assms(2)]
  obtain v where "v \<in> set votes" using assms(3) by (cases votes) auto
  then have "of_version pid ver v = Inr True" by (simp add: f)
  then obtain n where n: "ver = Inr n" by (auto simp: of_version_def ebind_eq_Inr split: if_splits)
  have "vote_ok (fst y) (snd y)" if "y \<in> set (gv_votes s)" for y using assms that entries_member unfolding tables_ok_def by blast
  then have "(of_version pid ver (snd y) = Inr True) = (dgetn (snd y) ''proposalId'' = PStr pid \<and> dgetn (snd y) ''proposalVersion'' = PInt n)"
    if "y \<in> set (gv_votes s)" for y
  proof -
    from \<open>\<And>y. y \<in> set (gv_votes s) \<Longrightarrow> vote_ok (fst y) (snd y)\<close> [OF that] obtain a b where
      "dget (snd y) ''proposalId'' = Some (PStr a)" "dget (snd y) ''proposalVersion'' = Some (PInt b)" by (auto simp: vote_ok_def)
    then show ?thesis by (simp add: n of_version_def dindex_def dgetn_def dgetd_def ebind_def)
  qed
  then have "votes = ballots pid n s" unfolding f ballots_def by (intro filter_cong) auto
  with n show ?thesis by blast
qed

text \<open>
  C27. Adoption rests on the accounts that voted: in a store of the shape that every history keeps, an update turns a proposal
  into an adopted one only when as many accounts as the policy demands have voted on its version, some of them decisively, and
  those in favour are the demanded share of the decisive ones.
\<close>

theorem adoption_is_ratified:
  assumes "tables_ok s" and "dget (gv_proposals s) pid = Some p" and "dgetn p ''status'' \<noteq> PStr ''adopted''"
    and "update_proposal clk pid data s = (r, s')" and "status_of pid s' = PStr ''adopted''"
  shows "\<exists>n raw ratio. ebind (dindex p ''version'') py_int = Inr n \<and> py_int (dgetn (gv_policy s) ''minRawVotes'') = Inr raw \<and>
      py_float (dgetn (gv_policy s) ''minApprovalRatio'') = Inr ratio \<and> raw \<le> int (voters (\<lambda>_. True) pid n s) \<and>
      0 < voters (chose ''yes'') pid n s + voters (chose ''no'') pid n s \<and>
      \<not> flt (Fin (of_nat (voters (chose ''yes'') pid n s) / of_nat (voters (chose ''yes'') pid n s + voters (chose ''no'') pid n s))) ratio"
proof -
  note t = assms(1)
  from adoption_needs_tally [OF assms(2-5)] obtain t where "proposal_tally pid (clk 1) s = Inr t" "binding_ready t" by blast
  from ready_tally [OF this assms(2)] obtain votes yes no units shut where
    v: "efilter (of_version pid (ebind (dindex p ''version'') py_int)) (map snd (gv_votes s)) = Inr votes"
    and y: "raw_votes votes ''yes'' = Inr yes" and n: "raw_votes votes ''no'' = Inr no"
    and b: "vote_blockers (gv_policy s) (length votes) yes no units shut = Inr []" by blast
  note yes = raw_votes_count [OF y] and no = raw_votes_count [OF n]
  from no_blockers [OF b] have "votes \<noteq> []" using yes no by auto
  with version_ballots [OF t v] obtain m where m: "ebind (dindex p ''version'') py_int = Inr m" "votes = ballots pid m s" by blast
  from no_blockers [OF b] m show ?thesis by (auto simp: voters_count [OF t] yes no)
qed

section \<open>Two ways in which adoption goes wrong\<close>

lemma dset_neq_Nil: "dset d k v \<noteq> []"
  by (cases d) (auto split: if_splits)

lemma swap_run:
  assumes "find_proposal pid s = Inr p" and "dget p ''status'' = Some (PStr ''open'')" and "proposal_tally pid (clk 1) s = Inr t" and "binding_ready t"
    and "\<not> gv_recorded s" and "gv_saves s = []" and "change_record c = Inr (PDict d)" and "dget p ''version'' = Some (PInt n)"
    and "\<forall>v \<in> set (map snd (gv_votes s)). \<forall>m. dgetn v ''proposalVersion'' = PInt m \<longrightarrow> m \<le> n"
  shows "\<exists>r s'. update_proposal clk pid [(''status'', PStr ''adopted''), (''change'', c)] s = (Inr r, s') \<and>
    dget r ''status'' = Some (PStr ''adopted'') \<and> dget r ''version'' = Some (PInt (n + 1)) \<and> adopted_change pid s' = Inr d \<and> ballots pid (n + 1) s' = [] \<and> status_of pid s' = PStr ''adopted''"
proof -
  let ?data = "[(''status'', PStr ''adopted''), (''change'', c)]"
  have p: "dget (gv_proposals s) pid = Some p" "p \<noteq> []" using assms(1) by (auto simp: find_proposal_def split: option.splits if_splits)
  have low: "py_lower (strip ''adopted'') = ''adopted''" by code_simp
  have st: "dgetn p ''status'' = PStr ''open''" using assms(2) by (simp add: dgetn_def dgetd_def)
  have keys: "din ''status'' ?data" "din ''change'' ?data" "\<not> din ''title'' ?data" "\<not> din ''description'' ?data" "\<not> din ''scope'' ?data"
    "dgetn ?data ''status'' = PStr ''adopted''" "dgetn ?data ''change'' = c" "has_any material_keys ?data"
    by (simp_all add: din_def dget_def dgetn_def dgetd_def has_any_def material_keys_def)
  have mut: "check_mutable False p ?data = Inr ()" using st by (simp add: check_mutable_def eguard_def ebind_def)
  have entry: "entry Proposals pid s = p" using p by (simp add: entry_def dgetd_def)
  let ?p1 = "dset p ''status'' (PStr ''adopted'')" and ?s1 = "s\<lparr>gv_proposals := dset (gv_proposals s) pid (dset p ''status'' (PStr ''adopted''))\<rparr>"
  have s1: "update_status clk pid p ?data s = (Inr True, ?s1)"
    using assms(2-5) st p entry
    by (simp add: update_status_def Let_def keys low py_str_def proposal_statuses_def sthen_run sbind_run sguard_run swhen_run dindex_def put_field_def din_def)
  let ?p2 = "dset (dset ?p1 ''change'' (PDict d)) ''appliedAt'' PNone"
  let ?p3 = "dset (dset ?p2 ''version'' (PInt (n + 1))) ''updatedAt'' (PStr (iso (clk 2)))"
  let ?s3 = "s\<lparr>gv_proposals := dset (gv_proposals s) pid ?p3\<rparr>"
  have s3: "update_material clk pid ?data ?s1 = (Inr (), ?s3)"
    using assms(7,8)
    by (simp add: update_material_def put_text_def keys sthen_run sbind_run swhen_run put_field_def din_def entry_def dgetd_def get_int_def)
  let ?s4 = "?s3\<lparr>gv_revision := gv_revision s + 1\<rparr>"
  let ?s5 = "?s4\<lparr>gv_saves := [], gv_file := Some (json_sorted (PDict (gov_snapshot ?s4)))\<rparr>"
  have s5: "gov_changed ?s3 = (Inr (), ?s5)" using assms(6) by (simp add: gov_changed_def gov_save_def sthen_run sbind_run Let_def)
  have run: "update_proposal clk pid ?data s = (Inr ?p3, ?s5)"
    using assms(5) by (simp add: update_proposal_def sbind_run sthen_run swhen_run assms(1) mut keys s1 s3 s5 Let_def record_entry_def entry_def dgetd_def)
  have "adopted_change pid ?s5 = Inr d"
    by (simp add: adopted_change_def find_proposal_def ebind_def eguard_def dindex_def is_dict_def dict_of_def dset_neq_Nil)
  moreover have "ballots pid (n + 1) ?s5 = []" using assms(9) by (fastforce simp: ballots_def filter_empty_conv)
  ultimately show ?thesis using run by (intro exI [of _ ?p3] exI [of _ ?s5]) (simp add: status_of_def entry_def dgetd_def)
qed

text \<open>
  C29. A proposal can be adopted with a change that nobody voted on: one update that asks for adoption and carries another
  change is checked against the votes on the present version, and then replaces the change, so that the
  adopted version has no vote and its change is the one that is executed.
\<close>

theorem adoption_swaps_change:
  assumes "find_proposal pid s = Inr p" and "dget p ''status'' = Some (PStr ''open'')" and "proposal_tally pid (clk 1) s = Inr t" and "binding_ready t"
    and "\<not> gv_recorded s" and "gv_saves s = []" and "change_record c = Inr (PDict d)" and "dget p ''version'' = Some (PInt n)"
    and "\<forall>v \<in> set (map snd (gv_votes s)). \<forall>m. dgetn v ''proposalVersion'' = PInt m \<longrightarrow> m \<le> n"
  shows "\<exists>r s'. update_proposal clk pid [(''status'', PStr ''adopted''), (''change'', c)] s = (Inr r, s') \<and>
    dget r ''status'' = Some (PStr ''adopted'') \<and> dget r ''version'' = Some (PInt (n + 1)) \<and> adopted_change pid s' = Inr d \<and> ballots pid (n + 1) s' = []"
  using swap_run [where clk = clk, OF assms] by blast

definition cast_yes :: "string \<Rightarrow> string \<times> pydict" where
  "cast_yes u = (vote_key ''p'' u ''1'', [(''id'', PStr (vote_key ''p'' u ''1'')), (''proposalId'', PStr ''p''), (''proposalVersion'', PInt 1), (''userId'', PStr u), (''choice'', PStr ''yes'')])"

definition used_invite :: "string \<Rightarrow> string \<times> pydict" where
  "used_invite u = (u, [(''id'', PStr u), (''proposalId'', PStr ''p''), (''proposalVersion'', PInt 1), (''userId'', PStr u), (''status'', PStr ''voted'')])"

definition carried_store :: governance where
  "carried_store = (empty_governance False)\<lparr>gv_proposals := [(''p'', [(''id'', PStr ''p''), (''version'', PInt 1), (''createdAt'', PStr ''2025-01-01T00:00:00Z''), (''status'', PStr ''open'')])],
     gv_invitations := map used_invite [''a'', ''b'', ''c''], gv_votes := map cast_yes [''a'', ''b'', ''c'']\<rparr>"

definition late :: datetime where "late = of_days 740000"

lemma carried_ready: "\<exists>t. proposal_tally ''p'' late carried_store = Inr t \<and> binding_ready t"
proof -
  define p where "p = [(''id'', PStr ''p''), (''version'', PInt 1), (''createdAt'', PStr ''2025-01-01T00:00:00Z''), (''status'', PStr ''open'')]"
  define vs where "vs = map snd (map cast_yes [''a'', ''b'', ''c''])"
  define us where "us = map snd (map used_invite [''a'', ''b'', ''c''])"
  let ?v = "Inr 1 :: pyerr + int"
  have e: "efilter (of_version ''p'' ?v) vs = Inr vs" "efilter (of_version ''p'' ?v) us = Inr us" "raw_votes vs ''yes'' = Inr 3" "raw_votes vs ''no'' = Inr 0"
    "raw_votes vs ''abstain'' = Inr 0" "all_windows_closed late us = Inr (0, True)" "length vs = 3" unfolding vs_def us_def by code_simp+
  have parse: "parse_time (PStr ''2025-01-01T00:00:00Z'') = Inr 63871286400000000" by code_simp
  have late: "365 \<le> elapsed_days 63871286400000000 late" by (simp add: elapsed_days_def late_def of_days_def)
  have r0: "round_half_even 0 = 0" "round_half_even 1000000000 = 1000000000" "round_half_even 3000000 = 3000000" by (simp_all add: round_half_even_def Let_def)
  have "max 0 (min 1 (1 - (elapsed_days 63871286400000000 late - 1) / 364)) = 0" using late by (simp add: field_simps)
  then have h: "hype_value 63871286400000000 late 365 = Inr (Fin 0)"
    using late by (simp add: hype_value_def ebind_def fmax_def r0 float_limit_def)
  have hype: "proposal_hype default_policy p late = Inr (Fin 0, Fin 1)"
    by (simp add: proposal_hype_def p_def default_policy_def dindex_def dget_def parse h ebind_def durable_of_def fsub_def r0)
  have units: "sum_units (durable_units (Fin 1) \<circ> (\<lambda>c. if c = ''yes'' then 3 else if c = ''no'' then 0 else if c = ''abstain'' then 0 else 0)) = Fin 3"
    by (simp add: sum_units_def choices_def durable_units_def r0)
  have policy: "dindex default_policy ''minRawVotes'' = Inr (PInt 3)" "dindex default_policy ''minApprovalRatio'' = Inr (PFloat (Fin (60 / 100)))"
    "dindex default_policy ''minDurableVoteUnits'' = Inr (PFloat (Fin 3))" by (simp_all add: default_policy_def dindex_def dget_def)
  have blockers: "vote_blockers default_policy 3 3 0 (Fin 3) True = Inr []"
    by (simp add: vote_blockers_def policy ebind_def approval_ratio_def)
  have s: "dget (gv_proposals carried_store) ''p'' = Some p" "map snd (gv_votes carried_store) = vs" "map snd (gv_invitations carried_store) = us"
    "gv_policy carried_store = default_policy" "gv_recorded carried_store = False"
    unfolding carried_store_def p_def vs_def us_def by (simp_all add: dget_def empty_governance_def)
  have version: "ebind (dindex p ''version'') py_int = Inr 1" "p \<noteq> []" by (simp_all add: p_def dindex_def dget_def ebind_def)
  show ?thesis
    unfolding proposal_tally_def s option.case version Let_def
    by (simp add: version e hype units blockers record_blockers_def binding_ready_def)
qed

definition swap_data :: pydict where
  "swap_data = [(''status'', PStr ''adopted''), (''change'', PDict [(''kind'', PStr ''k''), (''payload'', PDict [])])]"

definition carried_proposal :: pydict where
  "carried_proposal = [(''id'', PStr ''p''), (''version'', PInt 1), (''createdAt'', PStr ''2025-01-01T00:00:00Z''), (''status'', PStr ''open'')]"

lemma carried_facts:
  "find_proposal ''p'' carried_store = Inr carried_proposal" "dget (gv_proposals carried_store) ''p'' = Some carried_proposal"
  "dget carried_proposal ''status'' = Some (PStr ''open'')" "dget carried_proposal ''version'' = Some (PInt 1)"
  "\<forall>v \<in> set (map snd (gv_votes carried_store)). \<forall>m. dgetn v ''proposalVersion'' = PInt m \<longrightarrow> m \<le> 1"
  "\<not> gv_recorded carried_store" "gv_saves carried_store = []" "gv_policy carried_store = default_policy"
  by (simp_all add: find_proposal_def carried_store_def carried_proposal_def cast_yes_def dgetn_def dgetd_def dget_def empty_governance_def)

lemma swap_change: "\<exists>d. change_record (PDict [(''kind'', PStr ''k''), (''payload'', PDict [])]) = Inr (PDict d)"
proof -
  have "strip ''k'' = ''k''" by code_simp
  then show ?thesis by (auto simp: change_record_def clean_str_def py_str_def dgetd_def dgetn_def dget_def is_dict_def Let_def)
qed

theorem adoption_swaps_change_witness:
  "\<exists>r s' d. update_proposal (\<lambda>_. late) ''p'' swap_data carried_store = (Inr r, s') \<and>
    dget r ''status'' = Some (PStr ''adopted'') \<and> adopted_change ''p'' s' = Inr d \<and> ballots ''p'' 2 s' = []"
proof -
  obtain t where t: "proposal_tally ''p'' late carried_store = Inr t" "binding_ready t" using carried_ready by blast
  obtain d where d: "change_record (PDict [(''kind'', PStr ''k''), (''payload'', PDict [])]) = Inr (PDict d)" using swap_change by blast
  from adoption_swaps_change [where clk = "\<lambda>_. late", OF carried_facts(1,3) t carried_facts(6,7) d carried_facts(4,5)] show ?thesis by (auto simp: swap_data_def)
qed

lemma carried_tables: "tables_ok carried_store"
proof -
  have "show_int 1 = ''1''" by code_simp
  then show ?thesis
    by (simp add: tables_ok_def carried_store_def empty_governance_def entries_ok_def invite_ok_def vote_ok_def used_invite_def cast_yes_def dwf_def dkeys_def dget_def
        choices_def vote_key_def)
qed

theorem adoption_is_ratified_witness:
  "\<exists>raw n. py_int (dgetn default_policy ''minRawVotes'') = Inr raw \<and> raw \<le> int (voters (\<lambda>_. True) ''p'' n carried_store) \<and>
    0 < voters (chose ''yes'') ''p'' n carried_store + voters (chose ''no'') ''p'' n carried_store"
proof -
  obtain t where t: "proposal_tally ''p'' late carried_store = Inr t" "binding_ready t" using carried_ready by blast
  obtain d where d: "change_record (PDict [(''kind'', PStr ''k''), (''payload'', PDict [])]) = Inr (PDict d)" using swap_change by blast
  from swap_run [where clk = "\<lambda>_. late", OF carried_facts(1,3) t carried_facts(6,7) d carried_facts(4,5)] obtain r s' where
    u: "update_proposal (\<lambda>_. late) ''p'' [(''status'', PStr ''adopted''), (''change'', PDict [(''kind'', PStr ''k''), (''payload'', PDict [])])] carried_store = (Inr r, s')"
      "status_of ''p'' s' = PStr ''adopted''" by blast
  have "dgetn carried_proposal ''status'' \<noteq> PStr ''adopted''" by (simp add: carried_facts(3) dgetn_def dgetd_def)
  from adoption_is_ratified [where clk = "\<lambda>_. late", OF carried_tables carried_facts(2) this u] show ?thesis by (auto simp: carried_facts(8))
qed

lemma eall_False: "eall f xs = Inr b \<Longrightarrow> x \<in> set xs \<Longrightarrow> f x = Inr False \<Longrightarrow> \<not> b"
proof (induction xs)
  case (Cons y ys)
  then obtain c where "f y = Inr c" "(if c then eall f ys else Inr False) = Inr b" by (auto simp: ebind_eq_Inr)
  with Cons show ?case by (cases c) auto
qed simp

lemma tally_windows:
  assumes "proposal_tally pid now s = Inr t" and "dget (gv_proposals s) pid = Some p"
  shows "\<exists>invitations n shut units. efilter (of_version pid (ebind (dindex p ''version'') py_int)) (map snd (gv_invitations s)) = Inr invitations \<and>
     all_windows_closed now invitations = Inr (n, shut) \<and> (binding_ready t \<longrightarrow> (\<exists>a b c. vote_blockers (gv_policy s) a b c units shut = Inr []))"
proof -
  from assms obtain h d where "proposal_hype (gv_policy s) p now = Inr (h, d)" by (auto simp: proposal_tally_def Let_def ebind_eq_Inr split: if_splits)
  with assms show ?thesis by (fastforce simp: proposal_tally_def Let_def ebind_eq_Inr binding_ready_def split: if_splits)
qed

text \<open>
  One mail that was not delivered blocks a proposal for good: an invitation to its version whose delivery failed
  has no window that could close, so under a policy that waits for the issued windows no tally at any time is
  binding, however many votes are cast; and the invitation itself admits no vote that would use it up.
\<close>

theorem undelivered_blocks_adoption:
  assumes "dget (gv_proposals s) pid = Some p" and "dget p ''version'' = Some (PInt n)" and "(k, i) \<in> set (gv_invitations s)"
    and "dget i ''proposalId'' = Some (PStr pid)" and "dget i ''proposalVersion'' = Some (PInt n)" and "dget i ''status'' = Some (PStr ''delivery-failed'')"
    and "\<not> truthy (dgetn i ''expiresAt'')" and "get_bool (gv_policy s) ''requireAllIssuedWindowsClosedForBinding'' True"
  shows "(\<forall>now t. proposal_tally pid now s = Inr t \<longrightarrow> \<not> binding_ready t) \<and>
    (\<forall>rnd now choice user b. \<exists>e. cast_invite rnd now choice user b k i s = (Inl e, s))"
proof (intro conjI allI impI notI)
  fix now t
  assume t: "proposal_tally pid now s = Inr t" and ready: "binding_ready t"
  from tally_windows [OF t assms(1)] ready obtain invitations m shut units a b c where
    f: "efilter (of_version pid (ebind (dindex p ''version'') py_int)) (map snd (gv_invitations s)) = Inr invitations"
    and w: "all_windows_closed now invitations = Inr (m, shut)" and b: "vote_blockers (gv_policy s) a b c units shut = Inr []" by blast
  have "of_version pid (ebind (dindex p ''version'') py_int) i = Inr True" by (simp add: of_version_def dindex_def assms(2,4,5) ebind_def)
  with efilter_filter [OF f] assms(3) have i: "i \<in> set invitations" by force
  have "window_closed now i = Inr False" using assms(6,7) by (auto simp: window_closed_def dgetn_def dgetd_def)
  with w i have "\<not> shut" by (auto simp: all_windows_closed_def ebind_eq_Inr split: if_splits dest: eall_False)
  with b assms(8) show False by (auto simp: vote_blockers_def ebind_eq_Inr split: if_splits)
next
  fix rnd now choice user b
  have "dgetn i ''status'' = PStr ''delivery-failed''" using assms(6) by (simp add: dgetn_def dgetd_def)
  then show "\<exists>e. cast_invite rnd now choice user b k i s = (Inl e, s)" by (simp add: cast_invite_def sthen_run sguard_run)
qed

definition lost_mail :: pydict where
  "lost_mail = [(''proposalId'', PStr ''p''), (''proposalVersion'', PInt 1), (''status'', PStr ''delivery-failed'')]"

theorem undelivered_blocks_adoption_witness:
  "\<not> (\<exists>now t. proposal_tally ''p'' now (carried_store\<lparr>gv_invitations := (''x'', lost_mail) # gv_invitations carried_store\<rparr>) = Inr t \<and> binding_ready t)"
proof -
  let ?s = "carried_store\<lparr>gv_invitations := (''x'', lost_mail) # gv_invitations carried_store\<rparr>"
  have p: "dget (gv_proposals ?s) ''p'' = Some carried_proposal" "dget carried_proposal ''version'' = Some (PInt 1)" by (simp_all add: carried_facts)
  have "get_bool (gv_policy ?s) ''requireAllIssuedWindowsClosedForBinding'' True"
    by (simp add: carried_store_def empty_governance_def default_policy_def get_bool_def dgetd_def dget_def)
  with undelivered_blocks_adoption [OF p, of "''x''" lost_mail] show ?thesis by (auto simp: lost_mail_def dget_def dgetn_def dgetd_def)
qed

section \<open>The schedule of maturity\<close>

lemma round_half_even_mono:
  assumes "x \<le> y"
  shows "round_half_even x \<le> round_half_even y"
proof (cases "\<lfloor>x\<rfloor> < \<lfloor>y\<rfloor>")
  case True
  have "round_half_even x \<le> \<lfloor>x\<rfloor> + 1" "\<lfloor>y\<rfloor> \<le> round_half_even y" by (simp_all add: round_half_even_def Let_def)
  with True show ?thesis by linarith
next
  case False
  with floor_mono [OF assms] have "\<lfloor>y\<rfloor> = \<lfloor>x\<rfloor>" by simp
  then show ?thesis using assms by (auto simp: round_half_even_def Let_def)
qed

lemma round_half_even_int [simp]: "round_half_even (of_int k) = k"
  by (simp add: round_half_even_def)

definition round9 :: "rat \<Rightarrow> rat" where
  "round9 x = of_int (round_half_even (x * 1000000000)) / 1000000000"

lemma round9_mono: "x \<le> y \<Longrightarrow> round9 x \<le> round9 y"
  unfolding round9_def by (intro divide_right_mono) (simp_all add: round_half_even_mono mult_right_mono)

lemma round9_fixed: "round9 (of_int k / 1000000000) = of_int k / 1000000000"
  by (simp add: round9_def)

lemma round9_01: "round9 0 = 0" "round9 1 = 1"
  using round9_fixed [of 0] round9_fixed [of 1000000000] by simp_all

lemma hype_runs:
  assumes "2 \<le> z" and "z \<le> 3650"
  shows "hype_value c t z = Inr (Fin (if elapsed_days c t \<le> 1 then 1 else round9 (max 0 (min 1 (1 - (elapsed_days c t - 1) / of_int (z - 1))))))"
proof -
  have "\<bar>of_int (z - 1)\<bar> < float_limit" using assms by (simp add: float_limit_def)
  then have "py_float (PInt (z - 1)) = Inr (Fin (of_int (z - 1)))" by simp
  moreover have "fmax (Fin 1) (Fin (of_int (z - 1))) = Fin (of_int (z - 1))" using assms by (auto simp: fmax_def)
  ultimately show ?thesis by (simp add: hype_value_def ebind_def round9_def)
qed

definition hype_at :: "datetime \<Rightarrow> datetime \<Rightarrow> int \<Rightarrow> rat" where
  "hype_at c t z = (if elapsed_days c t \<le> 1 then 1 else round9 (max 0 (min 1 (1 - (elapsed_days c t - 1) / of_int (z - 1)))))"

lemma hype_at_range: "0 \<le> hype_at c t z" "hype_at c t z \<le> 1"
  using round9_mono [of 0 "max 0 (min 1 (1 - (elapsed_days c t - 1) / of_int (z - 1)))"] round9_mono [of "max 0 (min 1 (1 - (elapsed_days c t - 1) / of_int (z - 1)))" 1]
  by (auto simp: hype_at_def round9_01)

lemma hype_at_fixed: "\<exists>k. hype_at c t z = of_int k / 1000000000"
proof (cases "elapsed_days c t \<le> 1")
  case True
  then show ?thesis by (intro exI [of _ 1000000000]) (simp add: hype_at_def)
next
  case False
  then show ?thesis by (auto simp: hype_at_def round9_def)
qed

lemma hype_at_antimono:
  assumes "2 \<le> z" and "t \<le> t'"
  shows "hype_at c t' z \<le> hype_at c t z"
proof -
  have "of_int (t - c) / 86400000000 \<le> (of_int (t' - c) / 86400000000 :: rat)" using assms(2) by (intro divide_right_mono) simp_all
  then have e: "elapsed_days c t \<le> elapsed_days c t'" unfolding elapsed_days_def by (rule max.mono [OF order_refl])
  show ?thesis
  proof (cases "elapsed_days c t \<le> 1")
    case True
    then show ?thesis using hype_at_range(2) [of c t' z] by (simp add: hype_at_def)
  next
    case False
    have "(elapsed_days c t - 1) / of_int (z - 1) \<le> (elapsed_days c t' - 1) / of_int (z - 1)" using e assms(1) by (intro divide_right_mono) simp_all
    then have "round9 (max 0 (min 1 (1 - (elapsed_days c t' - 1) / of_int (z - 1)))) \<le> round9 (max 0 (min 1 (1 - (elapsed_days c t - 1) / of_int (z - 1))))"
      by (intro round9_mono) auto
    then show ?thesis using False e by (simp add: hype_at_def)
  qed
qed

text \<open>
  Support matures on schedule: under every policy the store can hold, the hype of a proposal is a fraction that never
  grows, is one through the first day and zero from the last day on, and the weight of its votes is exactly what
  remains to one.
\<close>

theorem hype_schedule:
  assumes "2 \<le> z" and "z \<le> 3650"
  shows "\<exists>h. hype_value c t z = Inr (Fin h) \<and> 0 \<le> h \<and> h \<le> 1 \<and> durable_of (Fin h) = Fin (1 - h) \<and>
    (elapsed_days c t \<le> 1 \<longrightarrow> h = 1) \<and> (of_int z \<le> elapsed_days c t \<longrightarrow> h = 0) \<and>
    (\<forall>t' \<ge> t. \<exists>h'. hype_value c t' z = Inr (Fin h') \<and> h' \<le> h)"
proof -
  have h: "hype_value c x z = Inr (Fin (hype_at c x z))" for x by (simp add: hype_runs [OF assms] hype_at_def)
  obtain k where k: "hype_at c t z = of_int k / 1000000000" using hype_at_fixed by blast
  have rest: "1 - hype_at c t z = of_int (1000000000 - k) / 1000000000" by (simp add: k field_simps)
  have "durable_of (Fin x) = Fin (round9 (1 - x))" for x by (simp add: durable_of_def fsub_def round9_def)
  then have d: "durable_of (Fin (hype_at c t z)) = Fin (1 - hype_at c t z)" unfolding rest by (simp only: rest round9_fixed)
  have "hype_at c t z = 0" if "of_int z \<le> elapsed_days c t"
  proof -
    have "1 \<le> (elapsed_days c t - 1) / of_int (z - 1)" using that assms(1) by (simp add: field_simps)
    then have "max 0 (min 1 (1 - (elapsed_days c t - 1) / of_int (z - 1))) = 0" by simp
    moreover have "\<not> elapsed_days c t \<le> 1" using that assms(1) by linarith
    ultimately show ?thesis by (simp add: hype_at_def round9_01)
  qed
  then show ?thesis using h d hype_at_range [of c t z] hype_at_antimono [OF assms(1), of t _ c] by (intro exI [of _ "hype_at c t z"]) (auto simp: hype_at_def)
qed

theorem hype_schedule_witness:
  "\<exists>h. hype_value 0 (of_days 400) 365 = Inr (Fin h) \<and> h = 0"
proof -
  have "elapsed_days 0 (of_days 400) = 400" by (simp add: elapsed_days_def of_days_def)
  with hype_schedule [of 365 0 "of_days 400"] show ?thesis by auto
qed

section \<open>Identifiers of votes\<close>

text \<open>The identifier of a vote is a text in which the parts are not delimited, so that the vote of one account on one proposal
  can have the identifier of the vote of another account on another proposal, which is then refused.\<close>

lemma vote_keys_collide: "vote_key (p @ ''-'' @ q) u n = vote_key p (q @ ''-'' @ u) n"
  by (simp add: vote_key_def)

lemma collision_refused:
  assumes "invite_vote_key i (PStr u) = Inr (vote_key (p @ ''-'' @ q) u n)" and "din (vote_key p (q @ ''-'' @ u) n) (gv_votes s)"
  shows "enter_vote rnd now k i (PStr u) c proposal extra s = (Inl (PermissionError ''this account already voted on this proposal version''), s)"
  using assms by (simp add: enter_vote_def sbind_run sthen_run sguard_run vote_keys_collide [unfolded append.simps])

end
