(* ===== verification/User_Profiles.thy ===== *)
theory User_Profiles
  imports Py_Json "HOL-Library.AList" "HOL-Library.Product_Lexorder"
begin

text \<open>
  \<^verbatim>\<open>src/backend/user_profiles.py\<close> and \<open>project_profile\<close> of \<^verbatim>\<open>src/backend/interoperability_sessions.py\<close>:
  the preferences of a user, the layer that wins where several set the same preference, the file they are
  kept in, and what a session partner is shown of them.  A saved profile is read back with its
  revision; what is resolved has the highest rank; a user's accessibility preference is not
  overridden.
\<close>

section \<open>Reading a profile\<close>

definition user_profile_type :: string where
  "user_profile_type = ''org.upp.user-profile''"

definition preference_layers :: "(string \<times> int) list" where
  "preference_layers = [(''base'', 0), (''user'', 1), (''role'', 2), (''venue'', 3), (''session'', 4)]"

definition preference_types :: "string list" where
  "preference_types = [''boolean'', ''integer'', ''scalar'', ''token'']"

definition inspect_user_profile :: "pyval \<Rightarrow> pyerr + pydict" where
  "inspect_user_profile profile =
     (case profile of
        PDict d \<Rightarrow>
          if py_str (dgetd d ''documentType'' (PStr user_profile_type)) \<noteq> user_profile_type then
            Inr [(''readable'', PBool False), (''mode'', PStr ''wrong-document-type''),
                 (''reason'', PStr ''unsupported user-profile document type'')]
          else
            (let versions = ebind (py_int (dgetd d ''schemaVersion'' (PInt 1))) (\<lambda>incoming.
                   ebind (py_int (dgetd d ''minimumReaderSchemaVersion'' (PInt incoming))) (\<lambda>minimum.
                   Inr (Some (incoming, minimum))))
             in ebind (ecatch is_type_or_value versions (Inr None)) (\<lambda>found.
             Inr (case found of
                 None \<Rightarrow> [(''readable'', PBool False), (''mode'', PStr ''invalid''),
                          (''reason'', PStr ''profile schema versions must be integers'')]
               | Some (incoming, minimum) \<Rightarrow>
                   if 1 < minimum then
                     [(''readable'', PBool False), (''mode'', PStr ''reader-too-old''),
                      (''reason'', PStr (''profile requires reader schema '' @ show_int minimum)),
                      (''incomingSchemaVersion'', PInt incoming)]
                   else
                     [(''readable'', PBool True),
                      (''mode'', PStr (if incoming = 1 then ''exact'' else ''forward-compatible'')),
                      (''incomingSchemaVersion'', PInt incoming), (''readerSchemaVersion'', PInt 1),
                      (''preserveUnknown'', PBool True)])))
      | _ \<Rightarrow> Inr [(''readable'', PBool False), (''mode'', PStr ''invalid''),
                (''reason'', PStr ''user profile must be an object'')])"

text \<open>A preference is the entry it was read from, with the fields the reader has checked.\<close>

record preference =
  pf_raw :: pydict
  pf_namespace :: string
  pf_key :: string
  pf_layer :: string
  pf_type :: string
  pf_revision :: int
  pf_value :: pyval

definition preference_dict :: "preference \<Rightarrow> pydict" where
  "preference_dict p = dmerge (pf_raw p)
     [(''namespace'', PStr (pf_namespace p)), (''key'', PStr (pf_key p)), (''layer'', PStr (pf_layer p)),
      (''type'', PStr (pf_type p)), (''revision'', PInt (pf_revision p)), (''value'', pf_value p)]"

definition value_problem :: "string \<Rightarrow> pyval \<Rightarrow> string option" where
  "value_problem value_type v =
     (if value_type = ''boolean'' \<and> \<not> is_bool v then Some ''boolean preference requires a boolean value''
      else if value_type = ''integer'' \<and> \<not> is_strict_int v then Some ''integer preference requires an integer value''
      else if value_type = ''scalar'' \<and> \<not> (is_strict_int v \<or> (case v of PFloat _ \<Rightarrow> True | _ \<Rightarrow> False))
        then Some ''scalar preference requires a numeric value''
      else if value_type = ''token'' \<and> \<not> is_str v then Some ''token preference requires a string value''
      else None)"

definition normalize_preference :: "pyval \<Rightarrow> pyerr + preference" where
  "normalize_preference entry =
     (case entry of
        PDict raw \<Rightarrow>
          (let namespace = strip (py_str (dgetd raw ''namespace'' (PStr [])));
               key = strip (py_str (dgetd raw ''key'' (PStr [])));
               layer = py_str (dgetd raw ''layer'' (PStr ''user''));
               value_type = py_str (dgetd raw ''type'' (PStr ''token'')) in
           ebind (py_int (dgetd raw ''revision'' (PInt 0))) (\<lambda>revision.
           if namespace = [] \<or> key = [] \<or> \<not> din layer preference_layers \<or>
              value_type \<notin> set preference_types \<or> revision < 1
           then Inl (ValueError ''invalid preference identity, layer, type, or revision'')
           else
             (let v = dgetn raw ''value'' in
              case value_problem value_type v of
                Some reason \<Rightarrow> Inl (ValueError reason)
              | None \<Rightarrow> Inr \<lparr>pf_raw = raw, pf_namespace = take 128 namespace, pf_key = take 128 key,
                            pf_layer = layer, pf_type = value_type, pf_revision = revision, pf_value = v\<rparr>)))
      | _ \<Rightarrow> Inl (ValueError ''each preference must be an object''))"

record user_profile =
  up_base :: pydict
  up_id :: string
  up_revision :: int
  up_preferences :: "preference list"

definition user_profile_dict :: "user_profile \<Rightarrow> pydict" where
  "user_profile_dict p =
     dset (up_base p) ''preferences'' (PList (map (PDict \<circ> preference_dict) (up_preferences p)))"

definition profile_base :: "pydict \<Rightarrow> string \<Rightarrow> int \<Rightarrow> pydict" where
  "profile_base d i revision =
     dsetdefault (dsetdefault
       (dmerge d [(''documentType'', PStr user_profile_type), (''profileId'', PStr i),
                  (''revision'', PInt revision), (''unknownFieldsPreserved'', PBool True)])
       ''schemaVersion'' (PInt 1)) ''minimumReaderSchemaVersion'' (PInt 1)"

definition normalize_user_profile :: "pyval \<Rightarrow> pyerr + user_profile" where
  "normalize_user_profile profile =
     ebind (inspect_user_profile profile) (\<lambda>report.
     if \<not> truthy (dgetn report ''readable'')
     then Inl (ValueError (py_str (dgetd report ''reason'' (PStr ''user profile is unreadable''))))
     else
       (let d = dict_of profile;
            cleaned = clean_str 128 (dgetd d ''profileId'' (PStr ''default''));
            i = (if cleaned = [] then ''default'' else cleaned) in
        ebind (py_int (dgetd d ''revision'' (PInt 0))) (\<lambda>n.
        let revision = max 0 n in
        case por (dgetn d ''preferences'') (PList []) of
          PList entries \<Rightarrow>
            if 128 < length entries then Inl (ValueError ''preferences must be an array of at most 128 entries'')
            else ebind (emap normalize_preference entries) (\<lambda>prefs.
              Inr \<lparr>up_base = profile_base d i revision, up_id = i, up_revision = revision, up_preferences = prefs\<rparr>)
        | _ \<Rightarrow> Inl (ValueError ''preferences must be an array of at most 128 entries''))))"

section \<open>Resolving preferences\<close>

type_synonym identity = "string \<times> string"

definition pf_identity :: "preference \<Rightarrow> identity" where
  "pf_identity p = (pf_namespace p, pf_key p)"

definition layer_rank :: "string \<Rightarrow> int" where
  "layer_rank layer = dgetd preference_layers layer 0"

text \<open>The loop over the preferences: a preference replaces the one selected for its identity when it
  ranks strictly higher.\<close>

definition select_step ::
    "(preference \<Rightarrow> int \<times> int) \<Rightarrow> preference \<Rightarrow> (identity \<times> preference) list \<Rightarrow> (identity \<times> preference) list" where
  "select_step rank item chosen =
     (case map_of chosen (pf_identity item) of
        None \<Rightarrow> AList.update (pf_identity item) item chosen
      | Some current \<Rightarrow> if rank current < rank item then AList.update (pf_identity item) item chosen else chosen)"

definition select_preferences ::
    "(preference \<Rightarrow> int \<times> int) \<Rightarrow> preference list \<Rightarrow> (identity \<times> preference) list" where
  "select_preferences rank items = fold (select_step rank) items []"

definition plain_rank :: "preference \<Rightarrow> int \<times> int" where
  "plain_rank p = (layer_rank (pf_layer p), pf_revision p)"

record resolution =
  rs_id :: string
  rs_revision :: int
  rs_resolved :: "preference list"

definition resolve_user_preferences :: "pyval \<Rightarrow> pyerr + resolution" where
  "resolve_user_preferences profile =
     ebind (normalize_user_profile profile) (\<lambda>n.
     Inr \<lparr>rs_id = up_id n, rs_revision = up_revision n,
          rs_resolved = sort_key pf_identity (map snd (select_preferences plain_rank (up_preferences n)))\<rparr>)"

definition resolution_dict :: "resolution \<Rightarrow> pydict" where
  "resolution_dict r =
     [(''profileId'', PStr (rs_id r)), (''revision'', PInt (rs_revision r)),
      (''resolved'', PList (map (PDict \<circ> preference_dict) (rs_resolved r))),
      (''physicalOutputsArmed'', PBool False)]"

section \<open>What a session partner is shown\<close>

definition projection_layer_rank :: "preference \<Rightarrow> int" where
  "projection_layer_rank p =
     (if startswith (pf_namespace p) ''org.upp.accessibility'' then
        if pf_layer p = ''user'' then 6 else if pf_layer p = ''venue'' then 2 else layer_rank (pf_layer p)
      else layer_rank (pf_layer p))"

definition projection_rank :: "preference \<Rightarrow> int \<times> int" where
  "projection_rank p = (projection_layer_rank p, pf_revision p)"

definition user_choice :: "preference list \<Rightarrow> identity \<Rightarrow> preference option" where
  "user_choice items i = find (\<lambda>p. pf_identity p = i \<and> pf_layer p = ''user'') items"

definition consent_entry :: "preference list \<Rightarrow> identity \<times> preference \<Rightarrow> pydict list" where
  "consent_entry items entry =
     (let (i, chosen) = entry in
      case user_choice items i of
        None \<Rightarrow> []
      | Some mine \<Rightarrow>
          if pf_layer chosen \<in> {''role'', ''venue'', ''session''} \<and> \<not> veq (pf_value chosen) (pf_value mine)
          then [[(''namespace'', PStr (fst i)), (''key'', PStr (snd i)), (''userValue'', pf_value mine),
                 (''proposedValue'', pf_value chosen), (''sourceLayer'', PStr (pf_layer chosen))]]
          else [])"

record projection =
  pj_id :: string
  pj_revision :: int
  pj_digest :: string
  pj_values :: "preference list"
  pj_consent :: "pydict list"

definition project_profile :: "pyval \<Rightarrow> pyerr + projection" where
  "project_profile profile =
     ebind (normalize_user_profile profile) (\<lambda>n.
     let chosen = select_preferences projection_rank (up_preferences n);
         values = sort_key pf_identity (map snd chosen) in
     Inr \<lparr>pj_id = up_id n, pj_revision = up_revision n,
          pj_digest = digest_of (PList (map (PDict \<circ> preference_dict) values)), pj_values = values,
          pj_consent = concat (map (consent_entry (up_preferences n)) chosen)\<rparr>)"

definition safe_to_apply :: "projection \<Rightarrow> bool" where
  "safe_to_apply p = (pj_consent p = [])"

definition projection_dict :: "projection \<Rightarrow> pydict" where
  "projection_dict p =
     [(''profileId'', PStr (pj_id p)), (''profileRevision'', PInt (pj_revision p)),
      (''projectionDigestSha256'', PStr (pj_digest p)),
      (''values'', PList (map (PDict \<circ> preference_dict) (pj_values p))),
      (''consentRequired'', PList (map PDict (pj_consent p))), (''safeToApply'', PBool (safe_to_apply p)),
      (''physicalOutputsArmed'', PBool False)]"

section \<open>The store\<close>

text \<open>The file is absent, or reading it gives a document or raises.\<close>

record profile_store =
  ps_file :: "(pyerr + pyval) option"

definition is_profile_load_error :: "pyerr \<Rightarrow> bool" where
  "is_profile_load_error e = (e = OSError \<or> is_type_or_value e)"

definition load_user_profile :: "profile_store \<Rightarrow> pyerr + user_profile" where
  "load_user_profile s =
     (case ps_file s of
        None \<Rightarrow> normalize_user_profile (PDict [(''profileId'', PStr ''default''), (''preferences'', PList [])])
      | Some content \<Rightarrow>
          ecatch is_profile_load_error (ebind content normalize_user_profile)
            (normalize_user_profile (PDict [(''profileId'', PStr ''unavailable''), (''preferences'', PList []),
                                           (''loadError'', PBool True)])))"

text \<open>The file is replaced by a complete new one or not at all.\<close>

definition replace_profile_file :: "bool \<Rightarrow> user_profile \<Rightarrow> (profile_store, unit) pymethod" where
  "replace_profile_file writable p =
     (if writable then smodify (\<lambda>s. s\<lparr>ps_file := Some (Inr (json_sorted (PDict (user_profile_dict p))))\<rparr>)
      else sraise OSError)"

definition save_user_profile :: "bool \<Rightarrow> pyval \<Rightarrow> (profile_store, user_profile) pymethod" where
  "save_user_profile writable profile =
     sbind (slift (normalize_user_profile profile)) (\<lambda>n.
     sbind (sgete load_user_profile) (\<lambda>current.
     sthen (sguard (up_revision current < up_revision n) (ValueError ''user profile revision must advance''))
     (sthen (replace_profile_file writable n) (sreturn n))))"

section \<open>The selection\<close>

text \<open>What the loop keeps: one entry for each identity it has seen, which is a preference it has seen
  and ranks at least as high as every other one.\<close>

definition selection_of ::
    "(preference \<Rightarrow> int \<times> int) \<Rightarrow> preference list \<Rightarrow> (identity \<times> preference) list \<Rightarrow> bool" where
  "selection_of rank items chosen =
     (distinct (map fst chosen) \<and>
      (\<forall>(i, c) \<in> set chosen. c \<in> set items \<and> pf_identity c = i) \<and>
      (\<forall>p \<in> set items. \<exists>c. map_of chosen (pf_identity p) = Some c \<and> rank p \<le> rank c))"

lemma set_update_subset: "set (AList.update k v al) \<subseteq> insert (k, v) (set al)"
  by (induction al) auto

lemma select_step_selection:
  assumes "selection_of rank items chosen"
  shows "selection_of rank (items @ [x]) (select_step rank x chosen)"
proof -
  let ?i = "pf_identity x"
  let ?new = "AList.update ?i x chosen"
  from assms have d: "distinct (map fst chosen)"
    and m: "\<And>i c. (i, c) \<in> set chosen \<Longrightarrow> c \<in> set items \<and> pf_identity c = i"
    and r: "\<And>p. p \<in> set items \<Longrightarrow> \<exists>c. map_of chosen (pf_identity p) = Some c \<and> rank p \<le> rank c"
    by (auto simp: selection_of_def)
  have members: "\<forall>(i, c) \<in> set ?new. c \<in> set (items @ [x]) \<and> pf_identity c = i"
    using set_update_subset [of ?i x chosen] m by fastforce
  have new: "selection_of rank (items @ [x]) ?new" if "map_of chosen ?i = None \<or> (\<exists>c. map_of chosen ?i = Some c \<and> rank c \<le> rank x)"
  proof -
    have "\<exists>c. map_of ?new (pf_identity p) = Some c \<and> rank p \<le> rank c" if p: "p \<in> set (items @ [x])" for p
    proof (cases "pf_identity p = ?i")
      case True
      have "rank p \<le> rank x"
        using p r [of p] True \<open>map_of chosen ?i = None \<or> _\<close> by (auto intro: order_trans)
      with True show ?thesis by (simp add: update_conv')
    next
      case False
      with p r [of p] show ?thesis by (auto simp: update_conv')
    qed
    with members d show ?thesis by (auto simp: selection_of_def distinct_update)
  qed
  show ?thesis
  proof (cases "map_of chosen ?i")
    case None
    then show ?thesis using new by (simp add: select_step_def)
  next
    case (Some c)
    show ?thesis
    proof (cases "rank c < rank x")
      case True
      then show ?thesis using Some new by (auto simp: select_step_def)
    next
      case False
      have "selection_of rank (items @ [x]) chosen"
        unfolding selection_of_def using d m r Some False by force
      then show ?thesis using Some False by (simp add: select_step_def)
    qed
  qed
qed

lemma select_preferences_selection: "selection_of rank items (select_preferences rank items)"
proof (induction items rule: rev_induct)
  case Nil
  show ?case by (simp add: selection_of_def select_preferences_def)
next
  case (snoc x items)
  then show ?case using select_step_selection by (simp add: select_preferences_def)
qed

lemma selection_unique:
  assumes s: "selection_of rank items chosen" and p: "p \<in> set items"
  shows "\<exists>c. c \<in> snd ` set chosen \<and> pf_identity c = pf_identity p \<and> rank p \<le> rank c \<and>
    (\<forall>e \<in> snd ` set chosen. pf_identity e = pf_identity p \<longrightarrow> e = c)"
proof -
  from s have d: "distinct (map fst chosen)"
    and m: "\<And>i c. (i, c) \<in> set chosen \<Longrightarrow> c \<in> set items \<and> pf_identity c = i"
    by (auto simp: selection_of_def)
  from s p obtain c where c: "map_of chosen (pf_identity p) = Some c" "rank p \<le> rank c"
    by (auto simp: selection_of_def)
  from c(1) have in_chosen: "(pf_identity p, c) \<in> set chosen" by (rule map_of_SomeD)
  have "e = c" if "e \<in> snd ` set chosen" "pf_identity e = pf_identity p" for e
  proof -
    from that m have "(pf_identity p, e) \<in> set chosen" by fastforce
    with d c(1) show ?thesis by (simp add: map_of_is_SomeI)
  qed
  moreover have "c \<in> snd ` set chosen" using in_chosen by (rule image_eqI [rotated]) simp
  moreover have "pf_identity c = pf_identity p" using m [OF in_chosen] by simp
  ultimately show ?thesis using c(2) by blast
qed

section \<open>Reading back what was written\<close>

text \<open>Sorting an association list by its keys is stable, so lookups are those of the list.\<close>

lemma map_of_insort_key: "map_of (insort_key fst (k, v) xs) = (map_of xs)(k \<mapsto> v)"
  by (induction xs) (auto simp: fun_eq_iff)

lemma dget_sort_key [simp]: "dget (sort_key fst d) k = dget d k"
proof -
  have "map_of (sort_key fst d) = map_of d"
    by (induction d) (auto simp: map_of_insort_key)
  then show ?thesis by (simp add: dget_def)
qed

lemma dgetd_sorted:
  "dgetd (sorted_dict d) k v = (case dget d k of None \<Rightarrow> v | Some w \<Rightarrow> json_sorted w)"
proof -
  have "dget (map (map_prod id json_sorted) d) k = map_option json_sorted (dget d k)"
    by (induction d) auto
  then show ?thesis by (simp add: dgetd_def sorted_dict_def split: option.split)
qed

lemma dget_preference_dict:
  "dget (preference_dict p) ''namespace'' = Some (PStr (pf_namespace p))"
  "dget (preference_dict p) ''key'' = Some (PStr (pf_key p))"
  "dget (preference_dict p) ''layer'' = Some (PStr (pf_layer p))"
  "dget (preference_dict p) ''type'' = Some (PStr (pf_type p))"
  "dget (preference_dict p) ''revision'' = Some (PInt (pf_revision p))"
  "dget (preference_dict p) ''value'' = Some (pf_value p)"
  by (simp_all add: preference_dict_def dget_dmerge dwf_def dkeys_def)

definition preference_ok :: "preference \<Rightarrow> bool" where
  "preference_ok p =
     (strip (pf_namespace p) \<noteq> [] \<and> strip (pf_key p) \<noteq> [] \<and> din (pf_layer p) preference_layers \<and>
      pf_type p \<in> set preference_types \<and> 1 \<le> pf_revision p \<and> value_problem (pf_type p) (pf_value p) = None)"

lemma strip_take_nonempty: "strip s \<noteq> [] \<Longrightarrow> 0 < n \<Longrightarrow> strip (take n (strip s)) \<noteq> []"
proof -
  assume ne: "strip s \<noteq> []" and "0 < n"
  then obtain c t where t: "take n (strip s) = c # t" and "\<not> is_space c"
    using strip_hd [of s] by (cases "strip s"; cases n) auto
  then have "lstrip (c # t) = c # t" "\<exists>x\<in>set (c # t). \<not> is_space x" by (auto simp: lstrip_def)
  then have "strip (c # t) \<noteq> []" by (auto simp: strip_def rstrip_def)
  with t show ?thesis by simp
qed

lemma normalize_preference_ok: "normalize_preference v = Inr p \<Longrightarrow> preference_ok p"
  by (auto simp: normalize_preference_def Let_def ebind_eq_Inr preference_ok_def strip_take_nonempty
      split: pyval.splits if_splits option.splits)

lemma value_problem_sorted: "value_problem t (json_sorted v) = value_problem t v"
  by (cases v) (simp_all add: value_problem_def json_sorted.simps is_bool_def is_strict_int_def is_str_def)

lemma preference_read_back:
  assumes "preference_ok p"
  shows "\<exists>q. normalize_preference (json_sorted (PDict (preference_dict p))) = Inr q"
  using assms
  by (simp add: json_sorted_PDict normalize_preference_def dgetd_sorted dget_preference_dict dgetn_def
      Let_def preference_ok_def value_problem_sorted)

lemma emap_total: "(\<And>x. x \<in> set xs \<Longrightarrow> \<exists>y. f x = Inr y) \<Longrightarrow> \<exists>ys. emap f xs = Inr ys"
  by (induction xs) fastforce+

text \<open>Sorted by identity, every identity has its one entry.\<close>

lemma filter_distinct_key:
  assumes "distinct (map f xs)" and "c \<in> set xs"
  shows "filter (\<lambda>e. f e = f c) xs = [c]"
  using assms
proof (induction xs)
  case (Cons x xs)
  show ?case
  proof (cases "x = c")
    case True
    with Cons.prems have "filter (\<lambda>e. f e = f c) xs = []" by (auto simp: filter_empty_conv image_iff)
    with True show ?thesis by simp
  next
    case False
    with Cons show ?thesis by (auto simp: image_iff)
  qed
qed simp

lemma distinct_sort_key: "distinct (map f xs) \<Longrightarrow> distinct (map f (sort_key f xs))"
  by (auto simp: distinct_map)

lemma selected_once:
  assumes "selection_of rank items chosen" and "c \<in> snd ` set chosen"
  shows "filter (\<lambda>e. pf_identity e = pf_identity c) (sort_key pf_identity (map snd chosen)) = [c]"
proof (rule filter_distinct_key)
  have "map (pf_identity \<circ> snd) chosen = map fst chosen"
    using assms(1) by (auto simp: selection_of_def)
  then have "map pf_identity (map snd chosen) = map fst chosen" by simp
  moreover have "distinct (map fst chosen)" using assms(1) by (simp add: selection_of_def)
  ultimately have "distinct (map pf_identity (map snd chosen))" by (simp only:)
  then show "distinct (map pf_identity (sort_key pf_identity (map snd chosen)))"
    by (rule distinct_sort_key)
  show "c \<in> set (sort_key pf_identity (map snd chosen))" using assms(2) by auto
qed

lemma py_int_sorted [simp]: "py_int (json_sorted v) = py_int v"
  by (cases v) (simp_all add: json_sorted.simps)

lemma inspect_readable:
  assumes "inspect_user_profile (PDict d) = Inr report"
  shows "truthy (dgetn report ''readable'') \<longleftrightarrow>
    py_str (dgetd d ''documentType'' (PStr user_profile_type)) = user_profile_type \<and>
    (\<exists>incoming minimum. py_int (dgetd d ''schemaVersion'' (PInt 1)) = Inr incoming \<and>
       py_int (dgetd d ''minimumReaderSchemaVersion'' (PInt incoming)) = Inr minimum \<and> minimum \<le> 1)"
proof (cases "py_str (dgetd d ''documentType'' (PStr user_profile_type)) = user_profile_type")
  case False
  with assms show ?thesis by (auto simp: inspect_user_profile_def dgetn_def dgetd_def [of "_ # _"])
next
  case True
  show ?thesis
  proof (cases "py_int (dgetd d ''schemaVersion'' (PInt 1))")
    case (Inl e)
    with True assms show ?thesis
      by (auto simp: inspect_user_profile_def Let_def dgetn_def dgetd_def [of "_ # _"] split: if_splits)
  next
    case (Inr incoming)
    with True assms show ?thesis
      by (cases "py_int (dgetd d ''minimumReaderSchemaVersion'' (PInt incoming))")
        (auto simp: inspect_user_profile_def Let_def dgetn_def dgetd_def [of "_ # _"] split: if_splits)
  qed
qed

lemma inspect_readable_intro:
  assumes "py_str (dgetd d ''documentType'' (PStr user_profile_type)) = user_profile_type"
    and "py_int (dgetd d ''schemaVersion'' (PInt 1)) = Inr incoming"
    and "py_int (dgetd d ''minimumReaderSchemaVersion'' (PInt incoming)) = Inr minimum" and "minimum \<le> 1"
  shows "\<exists>report. inspect_user_profile (PDict d) = Inr report \<and> truthy (dgetn report ''readable'')"
  using assms by (simp add: inspect_user_profile_def Let_def dgetn_def dgetd_def [of "_ # _"])

lemma dget_profile_base:
  "dget (profile_base d i n) ''documentType'' = Some (PStr user_profile_type)"
  "dget (profile_base d i n) ''revision'' = Some (PInt n)"
  "dget (profile_base d i n) ''schemaVersion'' = Some (dgetd d ''schemaVersion'' (PInt 1))"
  "dget (profile_base d i n) ''minimumReaderSchemaVersion'' = Some (dgetd d ''minimumReaderSchemaVersion'' (PInt 1))"
  by (auto simp: profile_base_def dget_dsetdefault dget_dmerge dwf_def dkeys_def dgetd_def split: option.splits)

text \<open>A profile is normalised only from a dictionary that this reader can read.\<close>

lemma normalize_user_profile_cases:
  assumes "normalize_user_profile v = Inr n"
  obtains d report m entries where "v = PDict d" "inspect_user_profile v = Inr report" "truthy (dgetn report ''readable'')"
    "py_int (dgetd d ''revision'' (PInt 0)) = Inr m" "up_revision n = max 0 m"
    "por (dgetn d ''preferences'') (PList []) = PList entries" "length entries \<le> 128"
    "emap normalize_preference entries = Inr (up_preferences n)" "up_base n = profile_base d (up_id n) (max 0 m)"
proof -
  from assms obtain report where r: "inspect_user_profile v = Inr report" "truthy (dgetn report ''readable'')"
    by (auto simp: normalize_user_profile_def ebind_eq_Inr split: if_splits)
  then obtain d where v: "v = PDict d"
    by (cases v) (auto simp: inspect_user_profile_def dgetn_def dgetd_def)
  from assms r v obtain m where m: "py_int (dgetd d ''revision'' (PInt 0)) = Inr m"
    by (auto simp: normalize_user_profile_def Let_def ebind_eq_Inr)
  from assms r v m obtain entries where e: "por (dgetn d ''preferences'') (PList []) = PList entries"
    by (auto simp: normalize_user_profile_def Let_def ebind_eq_Inr split: pyval.splits if_splits)
  show thesis
    by (rule that [OF v r m _ e])
      (use assms r v m e in \<open>auto simp: normalize_user_profile_def Let_def ebind_eq_Inr split: if_splits\<close>)
qed

lemma profile_read_back:
  assumes "normalize_user_profile v = Inr n"
  shows "\<exists>q. normalize_user_profile (json_sorted (PDict (user_profile_dict n))) = Inr q \<and> up_revision q = up_revision n"
  using assms
proof (cases rule: normalize_user_profile_cases)
  case (1 d report m entries)
  let ?d = "sorted_dict (user_profile_dict n)"
  let ?prefs = "map (json_sorted \<circ> PDict \<circ> preference_dict) (up_preferences n)"
  have get: "dgetd ?d k x = (case dget (up_base n) k of None \<Rightarrow> x | Some w \<Rightarrow> json_sorted w)" if "k \<noteq> ''preferences''" for k x
    using that by (simp add: dgetd_sorted user_profile_dict_def)
  obtain incoming minimum where vs: "py_int (dgetd d ''schemaVersion'' (PInt 1)) = Inr incoming"
      "py_int (dgetd d ''minimumReaderSchemaVersion'' (PInt incoming)) = Inr minimum" "minimum \<le> 1"
    using inspect_readable [of d report] 1 by auto
  have "\<exists>j \<le> 1. py_int (dgetd d ''minimumReaderSchemaVersion'' (PInt 1)) = Inr j"
    using vs by (auto simp: dgetd_def split: option.splits)
  then obtain j where j: "py_int (dgetd d ''minimumReaderSchemaVersion'' (PInt 1)) = Inr j" "j \<le> 1" by blast
  have "\<exists>r. inspect_user_profile (PDict ?d) = Inr r \<and> truthy (dgetn r ''readable'')"
    by (rule inspect_readable_intro [where incoming = incoming and minimum = j])
      (simp_all add: get 1(9) dget_profile_base vs j py_str_def json_sorted.simps)
  then obtain r where r: "inspect_user_profile (PDict ?d) = Inr r" "truthy (dgetn r ''readable'')" by blast
  have prefs: "dgetn ?d ''preferences'' = PList ?prefs"
    by (simp add: dgetn_def dgetd_sorted user_profile_dict_def comp_assoc)
  have "length ?prefs \<le> 128" using 1(7,8) by (simp add: emap_eq_Inr_length)
  moreover have "list_all preference_ok (up_preferences n)"
    using 1(8) by (auto simp: emap_eq_Inr list_all2_conv_all_nth list_all_length intro: normalize_preference_ok)
  then have "\<exists>qs. emap normalize_preference ?prefs = Inr qs"
    by (intro emap_total) (auto simp: list_all_iff preference_read_back)
  then obtain qs where "emap normalize_preference ?prefs = Inr qs" by blast
  moreover have "por (PList ?prefs) (PList []) = PList ?prefs" by (auto simp: por_def)
  moreover have "dgetd ?d ''revision'' (PInt 0) = PInt (max 0 m)" by (simp add: get 1(9) dget_profile_base json_sorted.simps)
  ultimately show ?thesis
    using r prefs 1(5) by (simp add: json_sorted_PDict normalize_user_profile_def Let_def)
qed

section \<open>What the profiles guarantee\<close>

text \<open>
  C35. Saving a user profile (\<open>UserProfileStore.save\<close>) replaces the profile on disk by a newer one or
  leaves the file as it is: when the call raises, for a profile that cannot be read, whose revision does not advance
  beyond the loaded one, or whose file cannot be written, nothing has changed; when it returns, the
  next load gives a profile of exactly the saved revision, above the one loaded before.
\<close>

theorem saved_profile_advances:
  assumes "load_user_profile s = Inr before"
  shows "case save_user_profile writable v s of
      (Inl e, s') \<Rightarrow> s' = s
    | (Inr n, s') \<Rightarrow> \<exists>after. load_user_profile s' = Inr after \<and> up_revision after = up_revision n \<and>
        up_revision before < up_revision after"
proof (cases "normalize_user_profile v")
  case (Inl e)
  then show ?thesis by (simp add: save_user_profile_def method_run)
next
  case (Inr n)
  have "\<exists>q. load_user_profile (s\<lparr>ps_file := Some (Inr (json_sorted (PDict (user_profile_dict n))))\<rparr>) = Inr q \<and>
      up_revision q = up_revision n"
    using profile_read_back [OF Inr] by (auto simp: load_user_profile_def)
  with Inr assms show ?thesis
    by (auto simp: save_user_profile_def replace_profile_file_def method_run)
qed

text \<open>
  \<open>resolve_user_preferences\<close> is the best choice for every preference: for each preference of the
  profile the result has exactly one entry of the same namespace and key, it is one of the profile's own
  entries, and no entry of the profile for this namespace and key has a higher layer, or the same layer and a higher revision.
\<close>

theorem resolution_is_best:
  assumes "resolve_user_preferences v = Inr r" and "normalize_user_profile v = Inr n" and "p \<in> set (up_preferences n)"
  shows "\<exists>c. filter (\<lambda>e. pf_identity e = pf_identity p) (rs_resolved r) = [c] \<and> c \<in> set (up_preferences n) \<and>
    plain_rank p \<le> plain_rank c"
proof -
  let ?chosen = "select_preferences plain_rank (up_preferences n)"
  have s: "selection_of plain_rank (up_preferences n) ?chosen" by (rule select_preferences_selection)
  obtain c where c: "c \<in> snd ` set ?chosen" "pf_identity c = pf_identity p" "plain_rank p \<le> plain_rank c"
    using selection_unique [OF s assms(3)] by blast
  have "filter (\<lambda>e. pf_identity e = pf_identity p) (rs_resolved r) = [c]"
    using selected_once [OF s c(1)] assms(1,2) c(2) by (auto simp: resolve_user_preferences_def)
  moreover have "c \<in> set (up_preferences n)" using s c(1) by (auto simp: selection_of_def)
  ultimately show ?thesis using c(3) by blast
qed

definition profile_entry :: "string \<Rightarrow> string \<Rightarrow> int \<Rightarrow> string \<Rightarrow> pyval" where
  "profile_entry namespace layer revision v =
     PDict [(''namespace'', PStr namespace), (''key'', PStr ''contrast''), (''layer'', PStr layer),
            (''revision'', PInt revision), (''value'', PStr v)]"

definition profile_of :: "int \<Rightarrow> pyval list \<Rightarrow> pyval" where
  "profile_of revision entries =
     PDict [(''profileId'', PStr ''alex''), (''revision'', PInt revision), (''preferences'', PList entries)]"

definition pref_of :: "string \<Rightarrow> string \<Rightarrow> int \<Rightarrow> string \<Rightarrow> preference" where
  "pref_of namespace layer revision v =
     \<lparr>pf_raw = dict_of (profile_entry namespace layer revision v), pf_namespace = take 128 (strip namespace), pf_key = ''contrast'',
      pf_layer = layer, pf_type = ''token'', pf_revision = revision, pf_value = PStr v\<rparr>"

lemma strip_contrast: "strip ''contrast'' = ''contrast''"
  by code_simp

lemma strip_alex: "clean_str 128 (PStr ''alex'') = ''alex''"
  by code_simp

lemma normalize_entry:
  assumes "strip namespace \<noteq> []" and "din layer preference_layers" and "1 \<le> revision"
  shows "normalize_preference (profile_entry namespace layer revision v) = Inr (pref_of namespace layer revision v)"
  using assms
  by (simp add: normalize_preference_def profile_entry_def pref_of_def dgetd_def dgetn_def Let_def strip_contrast preference_types_def value_problem_def)

lemma normalize_profile_of:
  assumes "emap normalize_preference entries = Inr prefs" and "length entries \<le> 128"
  shows "normalize_user_profile (profile_of revision entries) =
    Inr \<lparr>up_base = profile_base (dict_of (profile_of revision entries)) ''alex'' (max 0 revision), up_id = ''alex'',
         up_revision = max 0 revision, up_preferences = prefs\<rparr>"
  using assms
  by (cases entries)
    (simp_all add: normalize_user_profile_def inspect_user_profile_def profile_of_def dgetd_def dgetn_def Let_def user_profile_type_def
      strip_alex por_def)

theorem saved_profile_advances_witness:
  "\<exists>after. load_user_profile (snd (save_user_profile True (profile_of 3 [profile_entry ''org.ui'' ''user'' 1 ''high'']) \<lparr>ps_file = None\<rparr>)) = Inr after
     \<and> up_revision after = 3"
proof -
  let ?s = "\<lparr>ps_file = None\<rparr>" and ?v = "profile_of 3 [profile_entry ''org.ui'' ''user'' 1 ''high'']"
  have n: "strip ''org.ui'' \<noteq> []" "din ''user'' preference_layers" by code_simp+
  have "strip (take 128 ''default'') \<noteq> []" "clean_str 128 (PStr ''default'') = ''default''" by code_simp+
  then obtain before where before: "load_user_profile ?s = Inr before" "up_revision before = 0"
    by (simp add: load_user_profile_def normalize_user_profile_def inspect_user_profile_def dgetd_def dgetn_def Let_def
        user_profile_type_def por_def)
  obtain n' where v: "normalize_user_profile ?v = Inr n'" "up_revision n' = 3"
    using normalize_profile_of [of "[profile_entry ''org.ui'' ''user'' 1 ''high'']"] normalize_entry [OF n] by simp
  then have "fst (save_user_profile True ?v ?s) = Inr n'"
    using before by (simp add: save_user_profile_def replace_profile_file_def method_run)
  with saved_profile_advances [OF before(1), of True ?v] v show ?thesis by (auto split: prod.splits)
qed

theorem resolution_is_best_witness:
  "\<exists>r c. resolve_user_preferences (profile_of 1 [profile_entry ''org.ui'' ''user'' 1 ''high'', profile_entry ''org.ui'' ''venue'' 1 ''low'']) = Inr r \<and>
     filter (\<lambda>e. pf_identity e = (''org.ui'', ''contrast'')) (rs_resolved r) = [c] \<and> (3, 1) \<le> plain_rank c"
proof -
  let ?es = "[profile_entry ''org.ui'' ''user'' 1 ''high'', profile_entry ''org.ui'' ''venue'' 1 ''low'']"
  let ?p = "pref_of ''org.ui'' ''venue'' 1 ''low''"
  have n: "strip ''org.ui'' \<noteq> []" "din ''user'' preference_layers" "din ''venue'' preference_layers" "take 128 (strip ''org.ui'') = ''org.ui''"
    by code_simp+
  have e: "emap normalize_preference ?es = Inr [pref_of ''org.ui'' ''user'' 1 ''high'', ?p]"
    using normalize_entry [OF n(1)] n by simp
  from normalize_profile_of [OF e] obtain n' where n': "normalize_user_profile (profile_of 1 ?es) = Inr n'"
    "up_preferences n' = [pref_of ''org.ui'' ''user'' 1 ''high'', ?p]" by simp
  then obtain r where r: "resolve_user_preferences (profile_of 1 ?es) = Inr r" by (simp add: resolve_user_preferences_def)
  have "pf_identity ?p = (''org.ui'', ''contrast'')" "plain_rank ?p = (3, 1)"
    by (simp_all add: pf_identity_def pref_of_def n plain_rank_def layer_rank_def preference_layers_def dgetd_def)
  with resolution_is_best [OF r n'(1), of ?p] n'(2) r show ?thesis by (auto simp del: less_eq_prod_simp)
qed




text \<open>
  How a profile of a newer release is lost (\<open>UserProfileStore.save\<close>): a document on disk that declares a newer minimum reader is
  rightly refused by \<open>inspect_user_profile\<close>, but the store then takes it for an empty profile of revision 0, so
  saving any profile with a positive revision succeeds and replaces the newer document, whatever its revision was.
\<close>

theorem newer_profile_is_overwritten:
  assumes "ps_file s = Some (Inr (PDict d))" and "dget d ''documentType'' = None" and "dget d ''schemaVersion'' = Some (PInt i)"
    and "dget d ''minimumReaderSchemaVersion'' = Some (PInt m)" and "1 < m"
    and "normalize_user_profile v = Inr n" and "0 < up_revision n"
  shows "(\<exists>report. inspect_user_profile (PDict d) = Inr report \<and> dgetn report ''mode'' = PStr ''reader-too-old'') \<and>
    save_user_profile True v s = (Inr n, s\<lparr>ps_file := Some (Inr (json_sorted (PDict (user_profile_dict n))))\<rparr>)"
proof -
  have i: "inspect_user_profile (PDict d) = Inr [(''readable'', PBool False), (''mode'', PStr ''reader-too-old''),
      (''reason'', PStr (''profile requires reader schema '' @ show_int m)), (''incomingSchemaVersion'', PInt i)]"
    using assms(2-5) by (simp add: inspect_user_profile_def dgetd_def)
  have "clean_str 128 (PStr ''unavailable'') = ''unavailable''" by code_simp
  with assms(1) i have "\<exists>current. load_user_profile s = Inr current \<and> up_revision current = 0"
    by (simp add: load_user_profile_def normalize_user_profile_def [of "PDict d"] dgetn_def dgetd_def [of "_ # _"] is_profile_load_error_def
        is_type_or_value_def)
      (simp add: normalize_user_profile_def inspect_user_profile_def dgetd_def dgetn_def Let_def user_profile_type_def por_def)
  with assms(6,7) i show ?thesis
    by (auto simp: save_user_profile_def replace_profile_file_def method_run dgetn_def dgetd_def [of "_ # _"])
qed

theorem newer_profile_is_overwritten_witness:
  "\<exists>n. save_user_profile True (profile_of 1 [])
       \<lparr>ps_file = Some (Inr (PDict [(''schemaVersion'', PInt 3), (''minimumReaderSchemaVersion'', PInt 2), (''revision'', PInt 900)]))\<rparr>
     = (Inr n, \<lparr>ps_file = Some (Inr (json_sorted (PDict (user_profile_dict n))))\<rparr>) \<and> up_revision n = 1"
proof -
  let ?d = "[(''schemaVersion'', PInt 3), (''minimumReaderSchemaVersion'', PInt 2), (''revision'', PInt 900)]"
  obtain n where n: "normalize_user_profile (profile_of 1 []) = Inr n" "up_revision n = 1"
    using normalize_profile_of [of "[]" "[]" 1] by simp
  then show ?thesis
    using newer_profile_is_overwritten [of "\<lparr>ps_file = Some (Inr (PDict ?d))\<rparr>" ?d 3 2 "profile_of 1 []" n] by simp
qed

end
