(* ===== verification/Interop_Sessions.thy ===== *)
theory Interop_Sessions
  imports Replication Compatibility User_Profiles
begin

text \<open>
  \<^verbatim>\<open>src/backend/interoperability_sessions.py\<close>: the registry of capabilities and adapters, authenticated
  offers between participants, and the sessions that are negotiated from them, consented to and activated.
  An offer that was made verifies at its target until it expires; no offer is accepted twice; an active
  session was negotiated from an authentic offer, consented to and activated with unchanged inputs.
\<close>

section \<open>The registry\<close>

record capability_registry =
  cg_capabilities :: "(string \<times> pydict) list"
  cg_adapters :: "pydict list"
  cg_revision :: int

definition empty_registry :: capability_registry where
  "empty_registry = \<lparr>cg_capabilities = [], cg_adapters = [], cg_revision = 0\<rparr>"

definition is_hex_char :: "char \<Rightarrow> bool" where
  "is_hex_char c = (c \<in> set ''0123456789abcdef'')"

definition register_capability :: "pydict \<Rightarrow> (capability_registry, pydict) pymethod" where
  "register_capability capability =
     (let name = strip (py_str (dgetd capability ''id'' (PStr [])));
          version = strip (py_str (dgetd capability ''semanticVersion'' (PStr [])));
          schema = py_lower (py_str (dgetd capability ''schemaSha256'' (PStr [])));
          item = dmerge capability
            [(''id'', PStr (take 160 name)), (''semanticVersion'', PStr (take 64 version)), (''schemaSha256'', PStr schema),
             (''provenance'', por (dgetn capability ''provenance'') (PDict [])), (''unknownFieldsPreserved'', PBool True)] in
      sthen (sguard (\<not> (name = [] \<or> CHR ''.'' \<notin> set name \<or> version = [] \<or> length schema \<noteq> 64 \<or> \<not> list_all is_hex_char schema))
        (ValueError ''capability requires namespaced id, semanticVersion and 64-character schemaSha256''))
      (sthen (smodify (\<lambda>s. s\<lparr>cg_capabilities := dset (cg_capabilities s) name item, cg_revision := cg_revision s + 1\<rparr>))
      (sreturn item)))"

definition register_adapter :: "pydict \<Rightarrow> (capability_registry, pydict) pymethod" where
  "register_adapter adapter_data =
     (let source = strip (py_str (dgetd adapter_data ''from'' (PStr [])));
          target = strip (py_str (dgetd adapter_data ''to'' (PStr [])));
          provenance = dgetn adapter_data ''provenance'' in
      sbind (slift (get_int adapter_data ''quality'' (PInt 0))) (\<lambda>quality.
      let item = dmerge adapter_data
            [(''from'', PStr source), (''to'', PStr target), (''quality'', PInt quality), (''explicit'', PBool True),
             (''provenance'', provenance)] in
      sthen (sguard (\<not> (source = [] \<or> target = [] \<or> quality < 1 \<or> 100 < quality \<or> \<not> is_dict provenance \<or> \<not> truthy provenance))
        (ValueError ''adapter requires from, to, quality 1..100 and provenance''))
      (sthen (smodify (\<lambda>s. s\<lparr>cg_adapters := cg_adapters s @ [item], cg_revision := cg_revision s + 1\<rparr>))
      (sreturn item))))"

definition capability_snapshot :: "capability_registry \<Rightarrow> pydict" where
  "capability_snapshot s =
     [(''revision'', PInt (cg_revision s)),
      (''capabilities'', PList (map (\<lambda>k. PDict (dgetd (cg_capabilities s) k [])) (sort (dkeys (cg_capabilities s))))),
      (''adapters'', PList (map PDict (cg_adapters s)))]"

section \<open>Offers\<close>

definition key_fingerprint :: "string \<Rightarrow> string" where
  "key_fingerprint secret = ''sha256:'' @ sha256_hex secret"

definition offer_payload :: "pydict \<Rightarrow> string \<Rightarrow> int \<Rightarrow> int \<Rightarrow> int \<Rightarrow> string \<Rightarrow> int \<Rightarrow> string \<Rightarrow> pydict" where
  "offer_payload local_data remote epoch sequence ttl_ms secret now nonce =
     [(''documentType'', PStr ''org.upp.interoperability-offer''), (''schemaVersion'', PInt 1), (''participant'', PDict local_data),
      (''targetParticipantId'', PStr remote), (''authorityEpoch'', PInt (max 1 epoch)), (''sequence'', PInt (max 1 sequence)),
      (''nonce'', PStr nonce), (''issuedAtUnixMs'', PInt now), (''expiresAtUnixMs'', PInt (now + max 1 (min ttl_ms 300000))),
      (''authentication'', PDict [(''scheme'', PStr ''hmac-sha256''), (''keyFingerprint'', PStr (key_fingerprint secret))])]"

text \<open>The reading of the clock and the random nonce, used when the caller names none, are arguments.\<close>

definition make_authenticated_offer ::
    "string \<Rightarrow> int \<Rightarrow> pydict \<Rightarrow> string \<Rightarrow> int \<Rightarrow> int \<Rightarrow> int \<Rightarrow> string \<Rightarrow> int option \<Rightarrow> string option \<Rightarrow> pyerr + pydict" where
  "make_authenticated_offer rnd clk local_data remote epoch sequence ttl_ms secret now_unix_ms nonce =
     (if strip remote = [] \<or> secret = [] then Inl (ValueError ''target participant and authentication secret are required'')
      else
        (let now = (case now_unix_ms of None \<Rightarrow> clk | Some t \<Rightarrow> t);
             chosen = (case nonce of None \<Rightarrow> rnd | Some n \<Rightarrow> if n = [] then rnd else n);
             payload = offer_payload local_data remote epoch sequence ttl_ms secret now chosen;
             transcript = digest_of (PDict payload);
             signature = hmac_sha256_hex secret transcript
         in Inr (dmerge payload
              [(''transcriptSha256'', PStr transcript),
               (''authentication'', PDict (dmerge (dict_of (dgetn payload ''authentication'')) [(''signature'', PStr signature)]))])))"

text \<open>\<open>dict(v)\<close> of a JSON value: a copy of a dictionary, or a dictionary of the pairs of an iterable; a key that is
  not a text counts as an error.\<close>

definition dict_pair :: "pyval \<Rightarrow> pydict \<Rightarrow> pyerr + pydict" where
  "dict_pair entry d =
     ebind (py_iter entry) (\<lambda>parts.
     case parts of
       [k, v] \<Rightarrow> (case k of PStr key \<Rightarrow> Inr (dset d key v) | _ \<Rightarrow> Inl TypeError)
     | _ \<Rightarrow> Inl (ValueError ''dictionary update sequence element has a length other than 2''))"

definition py_dict :: "pyval \<Rightarrow> pyerr + pydict" where
  "py_dict v = (case v of PDict d \<Rightarrow> Inr d | _ \<Rightarrow> ebind (py_iter v) (\<lambda>entries. efold dict_pair entries []))"

text \<open>The document an offer's transcript is the digest of: the offer without transcript and signature.\<close>

definition offer_unsigned :: "pydict \<Rightarrow> pydict \<Rightarrow> pydict" where
  "offer_unsigned offer auth = dset (ddel offer ''transcriptSha256'') ''authentication'' (PDict (ddel auth ''signature''))"

definition offer_checks :: "pydict \<Rightarrow> pydict \<Rightarrow> int list \<Rightarrow> string \<Rightarrow> string \<Rightarrow> int \<Rightarrow> int \<Rightarrow> pyerr + (bool \<times> string)" where
  "offer_checks offer auth versions expected_target secret now minimum_version =
     (if \<not> veq (dgetn auth ''keyFingerprint'') (PStr (key_fingerprint secret)) then Inr (False, ''identity fingerprint mismatch'')
      else ebind (dindex offer ''targetParticipantId'') (\<lambda>target.
      if py_str target \<noteq> expected_target then Inr (False, ''offer target mismatch'')
      else ebind (ebind (dindex offer ''issuedAtUnixMs'') py_int) (\<lambda>issued.
      ebind (if now < issued then Inr True else ebind (ebind (dindex offer ''expiresAtUnixMs'') py_int) (\<lambda>t. Inr (t < now))) (\<lambda>stale.
      if stale then Inr (False, ''offer expired or not yet valid'')
      else ebind (if \<not> truthy (dgetn offer ''nonce'') then Inr True
             else ebind (ebind (dindex offer ''authorityEpoch'') py_int) (\<lambda>epoch.
               if epoch < 1 then Inr True else ebind (ebind (dindex offer ''sequence'') py_int) (\<lambda>n. Inr (n < 1)))) (\<lambda>unfenced.
      if unfenced then Inr (False, ''invalid replay fence'')
      else if versions = [] \<or> Max (set versions) < minimum_version then Inr (False, ''protocol downgrade detected'')
      else Inr (True, ''ok''))))))"

definition verify_authenticated_offer :: "pydict \<Rightarrow> string \<Rightarrow> string \<Rightarrow> int \<Rightarrow> int \<Rightarrow> pyerr + (bool \<times> string)" where
  "verify_authenticated_offer offer expected_target secret now minimum_version =
     ecatch is_key_type_or_value
       (ebind (ebind (dindex offer ''authentication'') py_dict) (\<lambda>signed_auth.
        ebind (dindex signed_auth ''signature'') (\<lambda>supplied.
        let auth = ddel signed_auth ''signature'';
            transcript = digest_of (PDict (offer_unsigned offer signed_auth));
            expected = hmac_sha256_hex secret transcript in
        ebind (ebind (dindex offer ''participant'') as_dict) (\<lambda>participant.
        ebind (ebind (py_iter (dgetd participant ''apiVersions'' (PList []))) (emap py_int)) (\<lambda>versions.
        ebind (ebind (dindex offer ''transcriptSha256'') (\<lambda>t. compare_digest transcript (py_str t))) (\<lambda>same.
        ebind (if same then compare_digest expected (py_str supplied) else Inr False) (\<lambda>authentic.
        if \<not> authentic then Inr (False, ''transcript authentication failed'')
        else offer_checks offer auth versions expected_target secret now minimum_version)))))))
       (Inr (False, ''malformed authenticated offer''))"

section \<open>Sessions\<close>

datatype interop_state = IOffered | IAuthenticated | INegotiated | IConsented | IActive | IExpired

record interop_session =
  is_id :: string
  is_state :: interop_state
  is_reason :: string
  is_transcript :: pyval
  is_plan :: compat_report
  is_profile_revision :: int
  is_registry_revision :: int
  is_epoch :: int
  is_expires :: int
  is_consent :: "string option"

record session_manager =
  im_local :: string
  im_sessions :: "(string \<times> interop_session) list"
  im_seen :: "((string \<times> int) \<times> int) list"

definition new_manager :: "string \<Rightarrow> session_manager" where
  "new_manager local_id = \<lparr>im_local = local_id, im_sessions = [], im_seen = []\<rparr>"

definition last_seen :: "session_manager \<Rightarrow> string \<times> int \<Rightarrow> int" where
  "last_seen s fence = (case map_of (im_seen s) fence of None \<Rightarrow> 0 | Some n \<Rightarrow> n)"

definition put_session :: "string \<Rightarrow> interop_session \<Rightarrow> session_manager \<Rightarrow> session_manager" where
  "put_session i x s = s\<lparr>im_sessions := dset (im_sessions s) i x\<rparr>"

text \<open>From the fence on: the plan of the two participants and the session it gives.\<close>

definition negotiate_session ::
    "pydict \<Rightarrow> pydict \<Rightarrow> pydict \<Rightarrow> capability_registry \<Rightarrow> int \<Rightarrow> int \<Rightarrow> (session_manager, interop_session) pymethod" where
  "negotiate_session offer participant local_data registry profile_revision epoch =
     (let local_offer = dset local_data ''adapters'' (PList (map PDict (cg_adapters registry))) in
      sbind (slift (compatibility_report local_offer participant)) (\<lambda>plan.
      sbind (slift (ebind (get_int local_offer ''minimumSecureApiVersion'' (PInt 1)) (\<lambda>a.
                    ebind (get_int participant ''minimumSecureApiVersion'' (PInt 1)) (\<lambda>b. Inr (max a b))))) (\<lambda>minimum_secure.
      sthen (sguard (case selected (cr_common plan) of None \<Rightarrow> True | Some v \<Rightarrow> minimum_secure \<le> v) (ValueError ''protocol downgrade detected''))
      (sbind (slift (dindex offer ''transcriptSha256'')) (\<lambda>transcript.
      sbind (sgets im_local) (\<lambda>local_id.
      sbind (slift (ebind (dindex offer ''expiresAtUnixMs'') py_int)) (\<lambda>expires.
      let session_id = take 32 (digest_of (PDict [(''transcript'', transcript), (''local'', PStr local_id)]));
          compatible = (cr_blockers plan = []);
          session = \<lparr>is_id = session_id, is_state = (if compatible then INegotiated else IExpired),
            is_reason = (if compatible then ''ok'' else ''incompatible''), is_transcript = transcript, is_plan = plan,
            is_profile_revision = profile_revision, is_registry_revision = cg_revision registry, is_epoch = epoch,
            is_expires = expires, is_consent = None\<rparr> in
      sthen (smodify (put_session session_id session)) (sreturn session))))))))"

definition authenticate_and_negotiate ::
    "pydict \<Rightarrow> pydict \<Rightarrow> capability_registry \<Rightarrow> string \<Rightarrow> int \<Rightarrow> int \<Rightarrow> int \<Rightarrow> (session_manager, interop_session) pymethod" where
  "authenticate_and_negotiate offer local_data registry secret now profile_revision authority_epoch =
     sbind (sgete (\<lambda>s. verify_authenticated_offer offer (im_local s) secret now 1)) (\<lambda>(valid, reason).
     sthen (sguard valid (ValueError reason))
     (sbind (slift (ebind (dindex offer ''participant'') as_dict)) (\<lambda>participant.
     sbind (slift (ebind (dindex offer ''authorityEpoch'') py_int)) (\<lambda>epoch.
     sbind (slift (ebind (dindex offer ''sequence'') py_int)) (\<lambda>sequence.
     let fence = (py_str (dgetd participant ''id'' (PStr ''remote'')), epoch) in
     sthen (sguard (epoch = authority_epoch) (ValueError ''authority epoch changed''))
     (sbind (sgets (\<lambda>s. last_seen s fence)) (\<lambda>seen.
     sthen (sguard (seen < sequence) (ValueError ''replayed interoperability offer''))
     (sthen (smodify (\<lambda>s. s\<lparr>im_seen := AList.update fence sequence (im_seen s)\<rparr>))
     (negotiate_session offer participant local_data registry profile_revision epoch)))))))))"

definition consent_session :: "string \<Rightarrow> pydict \<Rightarrow> bool \<Rightarrow> (session_manager, interop_session) pymethod" where
  "consent_session session_id projection_data accepted =
     sbind (sgets (\<lambda>s. dget (im_sessions s) session_id)) (\<lambda>found.
     case found of
       None \<Rightarrow> sraise (ValueError ''session is not awaiting consent'')
     | Some session \<Rightarrow>
         sthen (sguard (is_state session = INegotiated) (ValueError ''session is not awaiting consent''))
         (if \<not> accepted then
            (let x = session\<lparr>is_state := IExpired, is_reason := ''user declined profile projection''\<rparr> in
             sthen (smodify (put_session session_id x)) (sreturn x))
          else
            sbind (slift (dindex projection_data ''projectionDigestSha256'')) (\<lambda>digest.
            let x = session\<lparr>is_state := IConsented, is_consent := Some (py_str digest), is_reason := ''consented''\<rparr> in
            sthen (smodify (put_session session_id x)) (sreturn x))))"

definition inputs_changed :: "interop_session \<Rightarrow> int \<Rightarrow> int \<Rightarrow> int \<Rightarrow> int \<Rightarrow> bool" where
  "inputs_changed x now profile_revision registry_revision authority_epoch =
     (is_expires x < now \<or> profile_revision \<noteq> is_profile_revision x \<or> registry_revision \<noteq> is_registry_revision x \<or>
      authority_epoch \<noteq> is_epoch x)"

definition activate_session :: "string \<Rightarrow> int \<Rightarrow> int \<Rightarrow> int \<Rightarrow> int \<Rightarrow> (session_manager, interop_session) pymethod" where
  "activate_session session_id now profile_revision registry_revision authority_epoch =
     sbind (sgets (\<lambda>s. dget (im_sessions s) session_id)) (\<lambda>found.
     case found of
       None \<Rightarrow> sraise (ValueError ''session is not consented'')
     | Some session \<Rightarrow>
         sthen (sguard (is_state session = IConsented) (ValueError ''session is not consented''))
         (let x = (if inputs_changed session now profile_revision registry_revision authority_epoch
                   then session\<lparr>is_state := IExpired, is_reason := ''negotiated inputs changed''\<rparr>
                   else session\<lparr>is_state := IActive, is_reason := ''active''\<rparr>) in
          sthen (smodify (put_session session_id x)) (sreturn x)))"

definition session_status :: "string \<Rightarrow> int option \<Rightarrow> (session_manager, interop_session) pymethod" where
  "session_status session_id now_unix_ms =
     sbind (sgets (\<lambda>s. dget (im_sessions s) session_id)) (\<lambda>found.
     case found of
       None \<Rightarrow> sraise (KeyError session_id)
     | Some session \<Rightarrow>
         (let x = (case now_unix_ms of
                None \<Rightarrow> session
              | Some now \<Rightarrow> if is_expires session < now then session\<lparr>is_state := IExpired, is_reason := ''session expired''\<rparr> else session) in
          sthen (smodify (put_session session_id x)) (sreturn x)))"

definition interop_session_dict :: "interop_session \<Rightarrow> pydict" where
  "interop_session_dict x =
     [(''sessionId'', PStr (is_id x)),
      (''state'', PStr (case is_state x of IOffered \<Rightarrow> ''offered'' | IAuthenticated \<Rightarrow> ''authenticated'' | INegotiated \<Rightarrow> ''negotiated''
         | IConsented \<Rightarrow> ''consented'' | IActive \<Rightarrow> ''active'' | IExpired \<Rightarrow> ''expired'')),
      (''authenticated'', PBool True), (''reason'', PStr (is_reason x)), (''transcriptSha256'', is_transcript x),
      (''plan'', PDict (compat_report_dict (is_plan x))), (''profileRevision'', PInt (is_profile_revision x)),
      (''registryRevision'', PInt (is_registry_revision x)), (''authorityEpoch'', PInt (is_epoch x)),
      (''expiresAtUnixMs'', PInt (is_expires x)),
      (''consentDigestSha256'', (case is_consent x of None \<Rightarrow> PNone | Some d \<Rightarrow> PStr d)), (''physicalOutputsArmed'', PBool False)]"

section \<open>What the methods do\<close>

text \<open>The replay fence of an offer: who made it, under which epoch, and its number.\<close>

definition offer_fence :: "pydict \<Rightarrow> pyerr + ((string \<times> int) \<times> int)" where
  "offer_fence offer =
     ebind (ebind (dindex offer ''participant'') as_dict) (\<lambda>participant.
     ebind (ebind (dindex offer ''authorityEpoch'') py_int) (\<lambda>epoch.
     ebind (ebind (dindex offer ''sequence'') py_int) (\<lambda>sequence.
     Inr ((py_str (dgetd participant ''id'' (PStr ''remote'')), epoch), sequence))))"

text \<open>What a new session records of its negotiation.\<close>

definition negotiated_from :: "interop_session \<Rightarrow> pydict \<Rightarrow> pydict \<Rightarrow> capability_registry \<Rightarrow> int \<Rightarrow> int \<Rightarrow> bool" where
  "negotiated_from x offer local_data registry profile_revision epoch =
     (dindex offer ''transcriptSha256'' = Inr (is_transcript x) \<and>
      (\<exists>participant. dget offer ''participant'' = Some (PDict participant) \<and>
         compatibility_report (dset local_data ''adapters'' (PList (map PDict (cg_adapters registry)))) participant = Inr (is_plan x)) \<and>
      ebind (dindex offer ''expiresAtUnixMs'') py_int = Inr (is_expires x) \<and>
      is_profile_revision x = profile_revision \<and> is_registry_revision x = cg_revision registry \<and> is_epoch x = epoch)"

lemma negotiate_session_run:
  assumes "negotiate_session offer participant local_data registry profile_revision epoch s = (r, s')"
    and "dget offer ''participant'' = Some (PDict participant)"
  shows "case r of Inl e \<Rightarrow> s' = s | Inr x \<Rightarrow> s' = put_session (is_id x) x s \<and>
      is_state x = (if cr_blockers (is_plan x) = [] then INegotiated else IExpired) \<and> is_consent x = None \<and>
      negotiated_from x offer local_data registry profile_revision epoch"
  using assms
  by (auto simp: negotiate_session_def Let_def method_run negotiated_from_def split: sum.splits if_splits option.splits)

lemma authenticate_run:
  assumes "authenticate_and_negotiate offer local_data registry secret now profile_revision authority_epoch s = (r, s')"
  shows "(s' = s \<and> (\<exists>e. r = Inl e)) \<or>
    (\<exists>reason fence n participant. verify_authenticated_offer offer (im_local s) secret now 1 = Inr (True, reason) \<and>
      offer_fence offer = Inr (fence, n) \<and> last_seen s fence < n \<and> snd fence = authority_epoch \<and>
      dget offer ''participant'' = Some (PDict participant) \<and>
      negotiate_session offer participant local_data registry profile_revision authority_epoch
        (s\<lparr>im_seen := AList.update fence n (im_seen s)\<rparr>) = (r, s'))"
proof -
  consider (bad) e where "verify_authenticated_offer offer (im_local s) secret now 1 = Inl e"
    | (refused) reason where "verify_authenticated_offer offer (im_local s) secret now 1 = Inr (False, reason)"
    | (valid) reason where "verify_authenticated_offer offer (im_local s) secret now 1 = Inr (True, reason)"
    by (cases "verify_authenticated_offer offer (im_local s) secret now 1"; auto)
  then show ?thesis
  proof cases
    case valid
    show ?thesis
    proof (cases "offer_fence offer")
      case (Inl e)
      with valid assms show ?thesis
        by (auto simp: authenticate_and_negotiate_def method_run offer_fence_def ebind_eq_Inl)
    next
      case (Inr fn)
      then obtain participant epoch n where p: "dget offer ''participant'' = Some (PDict participant)"
          "ebind (dindex offer ''authorityEpoch'') py_int = Inr epoch" "ebind (dindex offer ''sequence'') py_int = Inr n"
          "fn = ((py_str (dgetd participant ''id'' (PStr ''remote'')), epoch), n)"
        by (auto simp: offer_fence_def ebind_eq_Inr dindex_def as_dict_def split: option.splits pyval.splits)
      then have "ebind (dindex offer ''participant'') as_dict = Inr participant" by (simp add: dindex_def)
      with valid assms p Inr show ?thesis
        by (auto simp: authenticate_and_negotiate_def method_run Let_def split: if_splits)
    qed
  qed (use assms in \<open>auto simp: authenticate_and_negotiate_def method_run\<close>)
qed

lemma last_seen_update: "last_seen (s\<lparr>im_seen := AList.update f n (im_seen s)\<rparr>) g = (if g = f then n else last_seen s g)"
  by (simp add: last_seen_def update_conv')

lemma seen_put [simp]: "last_seen (put_session i x s) = last_seen s" "im_local (put_session i x s) = im_local s"
  by (auto simp: last_seen_def put_session_def fun_eq_iff)

lemma local_seen [simp]: "im_local (s\<lparr>im_seen := q\<rparr>) = im_local s" "im_sessions (s\<lparr>im_seen := q\<rparr>) = im_sessions s"
  by simp_all

lemma authenticate_seen:
  assumes "authenticate_and_negotiate offer local_data registry secret now profile_revision authority_epoch s = (r, s')"
  shows "last_seen s g \<le> last_seen s' g"
    and "r = Inr x \<Longrightarrow> \<exists>fence n. offer_fence offer = Inr (fence, n) \<and> last_seen s fence < n \<and> last_seen s' fence = n"
    and "im_local s' = im_local s"
  using authenticate_run [OF assms]
  by (auto dest!: negotiate_session_run simp: last_seen_update split: sum.splits)

lemma consent_session_run:
  assumes "consent_session i projection_data accepted s = (r, s')"
  shows "s' = s \<or> (\<exists>x y. dget (im_sessions s) i = Some x \<and> s' = put_session i y s \<and> is_state x = INegotiated \<and>
    (is_state y = IExpired \<or> (accepted \<and> (\<exists>d. dindex projection_data ''projectionDigestSha256'' = Inr d \<and>
        y = x\<lparr>is_state := IConsented, is_consent := Some (py_str d), is_reason := ''consented''\<rparr>))))"
  using assms
  by (auto simp: consent_session_def method_run Let_def split: option.splits if_splits sum.splits)

lemma activate_session_run:
  assumes "activate_session i now pr rr ep s = (r, s')"
  shows "s' = s \<or> (\<exists>x y. dget (im_sessions s) i = Some x \<and> s' = put_session i y s \<and> is_state x = IConsented \<and>
    (is_state y = IExpired \<or> (\<not> inputs_changed x now pr rr ep \<and> y = x\<lparr>is_state := IActive, is_reason := ''active''\<rparr>)))"
  using assms
  by (auto simp: activate_session_def method_run Let_def split: option.splits if_splits)

lemma session_status_run:
  assumes "session_status i now s = (r, s')"
  shows "s' = s \<or> (\<exists>x y. dget (im_sessions s) i = Some x \<and> s' = put_session i y s \<and> (is_state y = IExpired \<or> y = x))"
proof (cases "dget (im_sessions s) i")
  case None
  with assms show ?thesis by (simp add: session_status_def method_run)
next
  case (Some x)
  let ?y = "case now of None \<Rightarrow> x
    | Some t \<Rightarrow> if is_expires x < t then x\<lparr>is_state := IExpired, is_reason := ''session expired''\<rparr> else x"
  from assms Some have "s' = put_session i ?y s" by (simp add: session_status_def method_run Let_def)
  moreover have "is_state ?y = IExpired \<or> ?y = x" by (simp split: option.split)
  ultimately show ?thesis using Some by blast
qed

section \<open>Histories\<close>

text \<open>A node with its manager and its registry, and the calls it answers.\<close>

record interop_node =
  nd_manager :: session_manager
  nd_registry :: capability_registry

definition new_interop_node :: "string \<Rightarrow> interop_node" where
  "new_interop_node local_id = \<lparr>nd_manager = new_manager local_id, nd_registry = empty_registry\<rparr>"

datatype interop_event =
    EvNegotiate pydict pydict string int int int
  | EvConsent string pydict bool
  | EvActivate string int int int int
  | EvStatus string "int option"
  | EvCapability pydict
  | EvAdapter pydict

text \<open>Whether the call returned, and the node after it.\<close>

definition manager_call :: "(session_manager, 'a) pymethod \<Rightarrow> interop_node \<Rightarrow> bool \<times> interop_node" where
  "manager_call m node = (case m (nd_manager node) of (r, s') \<Rightarrow> (\<not> (\<exists>e. r = Inl e), node\<lparr>nd_manager := s'\<rparr>))"

definition registry_call :: "(capability_registry, 'a) pymethod \<Rightarrow> interop_node \<Rightarrow> bool \<times> interop_node" where
  "registry_call m node = (case m (nd_registry node) of (r, s') \<Rightarrow> (\<not> (\<exists>e. r = Inl e), node\<lparr>nd_registry := s'\<rparr>))"

fun interop_step :: "interop_event \<Rightarrow> interop_node \<Rightarrow> bool \<times> interop_node" where
  "interop_step (EvNegotiate offer local_data secret now pr ep) node =
     manager_call (authenticate_and_negotiate offer local_data (nd_registry node) secret now pr ep) node"
| "interop_step (EvConsent i projection_data accepted) node = manager_call (consent_session i projection_data accepted) node"
| "interop_step (EvActivate i now pr rr ep) node = manager_call (activate_session i now pr rr ep) node"
| "interop_step (EvStatus i now) node = manager_call (session_status i now) node"
| "interop_step (EvCapability c) node = registry_call (register_capability c) node"
| "interop_step (EvAdapter a) node = registry_call (register_adapter a) node"

definition interop_run :: "interop_event list \<Rightarrow> interop_node \<Rightarrow> interop_node" where
  "interop_run es node = fold (\<lambda>e n. snd (interop_step e n)) es node"

text \<open>The offers a history has accepted, oldest first.\<close>

fun accepted_offers :: "interop_event list \<Rightarrow> interop_node \<Rightarrow> pydict list" where
  "accepted_offers [] node = []"
| "accepted_offers (e # es) node =
     (case e of EvNegotiate offer _ _ _ _ _ \<Rightarrow> if fst (interop_step e node) then [offer] else [] | _ \<Rightarrow> []) @
     accepted_offers es (snd (interop_step e node))"

lemma put_session_seen [simp]: "im_seen (put_session i x s) = im_seen s"
  by (simp add: put_session_def)

lemma manager_call_step:
  "nd_manager (snd (manager_call m node)) = snd (m (nd_manager node))"
  "nd_registry (snd (manager_call m node)) = nd_registry node"
  "fst (manager_call m node) \<longleftrightarrow> (\<exists>x. fst (m (nd_manager node)) = Inr x)"
  by (auto simp: manager_call_def split: prod.splits) (metis old.sum.exhaust)

lemma registry_call_step: "nd_manager (snd (registry_call m node)) = nd_manager node"
  by (simp add: registry_call_def split: prod.splits)

lemma last_seen_step: "last_seen (nd_manager node) g \<le> last_seen (nd_manager (snd (interop_step e node))) g"
proof (cases e)
  case (EvNegotiate offer local_data secret now pr ep)
  then show ?thesis by (simp add: manager_call_step) (metis authenticate_seen(1) prod.collapse)
next
  case (EvConsent i p a)
  have "last_seen (snd (consent_session i p a (nd_manager node))) = last_seen (nd_manager node)"
    using consent_session_run [of i p a "nd_manager node", OF prod.collapse [symmetric]] by auto
  with EvConsent show ?thesis by (simp add: manager_call_step)
next
  case (EvActivate i now pr rr ep)
  have "last_seen (snd (activate_session i now pr rr ep (nd_manager node))) = last_seen (nd_manager node)"
    using activate_session_run [of i now pr rr ep "nd_manager node", OF prod.collapse [symmetric]] by auto
  with EvActivate show ?thesis by (simp add: manager_call_step)
next
  case (EvStatus i now)
  have "last_seen (snd (session_status i now (nd_manager node))) = last_seen (nd_manager node)"
    using session_status_run [of i now "nd_manager node", OF prod.collapse [symmetric]] by auto
  with EvStatus show ?thesis by (simp add: manager_call_step)
qed (simp_all add: registry_call_step)

lemma accepted_step:
  assumes "e = EvNegotiate offer local_data secret now pr ep" and "fst (interop_step e node)"
  obtains fence n where "offer_fence offer = Inr (fence, n)" "last_seen (nd_manager node) fence < n"
    "last_seen (nd_manager (snd (interop_step e node))) fence = n"
proof -
  let ?m = "authenticate_and_negotiate offer local_data (nd_registry node) secret now pr ep"
  from assms obtain x where "fst (?m (nd_manager node)) = Inr x" by (auto simp: manager_call_step)
  with authenticate_seen(2) [of offer local_data "nd_registry node" secret now pr ep "nd_manager node", OF prod.collapse [symmetric]]
  show thesis using that assms(1) by (auto simp: manager_call_step)
qed

text \<open>Every offer accepted from a state on has a number above what its fence had seen there.\<close>

lemma accepted_above:
  "offer \<in> set (accepted_offers es node) \<Longrightarrow>
   \<exists>fence n. offer_fence offer = Inr (fence, n) \<and> last_seen (nd_manager node) fence < n"
proof (induction es arbitrary: node)
  case (Cons e es)
  show ?case
  proof (cases "offer \<in> set (accepted_offers es (snd (interop_step e node)))")
    case True
    with Cons.IH obtain fence n where "offer_fence offer = Inr (fence, n)"
        "last_seen (nd_manager (snd (interop_step e node))) fence < n" by blast
    with last_seen_step [of node fence e] show ?thesis by force
  next
    case False
    with Cons.prems obtain l k w p q where e: "e = EvNegotiate offer l k w p q" "fst (interop_step e node)"
      by (auto split: interop_event.splits if_splits)
    from accepted_step [OF e] show ?thesis by metis
  qed
qed simp

lemma accepted_distinct: "distinct (map offer_fence (accepted_offers es node))"
proof (induction es arbitrary: node)
  case (Cons e es)
  let ?node = "snd (interop_step e node)"
  have "offer_fence offer \<notin> offer_fence ` set (accepted_offers es ?node)"
    if e: "e = EvNegotiate offer l k w p q" "fst (interop_step e node)" for offer l k w p q
  proof
    assume "offer_fence offer \<in> offer_fence ` set (accepted_offers es ?node)"
    then obtain again where "again \<in> set (accepted_offers es ?node)" "offer_fence again = offer_fence offer" by auto
    with accepted_above [of again es ?node] obtain fence n where "offer_fence offer = Inr (fence, n)" "last_seen (nd_manager ?node) fence < n"
      by auto
    with accepted_step [OF e] show False by (metis less_irrefl old.prod.inject sum.inject(2))
  qed
  with Cons.IH show ?case by (auto split: interop_event.split)
qed simp

text \<open>
  C31. No interoperability offer is accepted twice: over every history of calls of a node (negotiations, consents,
  activations, queries, registrations, in any order, whether they return or raise), the offers from which
  \<open>authenticate_and_negotiate\<close> made a session have pairwise different replay fences, that is, different
  participants, authority epochs or sequence numbers.
\<close>

theorem no_offer_accepted_twice: "distinct (map offer_fence (accepted_offers es (new_interop_node local_id)))"
  by (rule accepted_distinct)

text \<open>How a session came to be in its state: the calls that led there, in the order in which they were made.\<close>

definition negotiated_in :: "interop_event list \<Rightarrow> interop_node \<Rightarrow> interop_session \<Rightarrow> bool" where
  "negotiated_in es start x =
     (\<exists>before offer local_data secret now pr ep after reason.
        es = before @ EvNegotiate offer local_data secret now pr ep # after \<and>
        verify_authenticated_offer offer (im_local (nd_manager start)) secret now 1 = Inr (True, reason) \<and>
        negotiated_from x offer local_data (nd_registry (interop_run before start)) pr ep \<and> cr_blockers (is_plan x) = [])"

definition consented_in :: "interop_event list \<Rightarrow> interop_node \<Rightarrow> string \<Rightarrow> interop_session \<Rightarrow> bool" where
  "consented_in es start i x =
     (\<exists>before projection_data after d. es = before @ EvConsent i projection_data True # after \<and> negotiated_in before start x \<and>
        dindex projection_data ''projectionDigestSha256'' = Inr d \<and> is_consent x = Some (py_str d))"

definition activated_in :: "interop_event list \<Rightarrow> interop_node \<Rightarrow> string \<Rightarrow> interop_session \<Rightarrow> bool" where
  "activated_in es start i x =
     (\<exists>before now pr rr ep after. es = before @ EvActivate i now pr rr ep # after \<and> consented_in before start i x \<and>
        \<not> inputs_changed x now pr rr ep)"

definition session_earned :: "interop_event list \<Rightarrow> interop_node \<Rightarrow> string \<Rightarrow> interop_session \<Rightarrow> bool" where
  "session_earned es start i x = (case is_state x of
      INegotiated \<Rightarrow> negotiated_in es start x
    | IConsented \<Rightarrow> consented_in es start i x
    | IActive \<Rightarrow> activated_in es start i x
    | _ \<Rightarrow> True)"

lemma negotiated_in_mono: "negotiated_in es start x \<Longrightarrow> negotiated_in (es @ fs) start x"
  unfolding negotiated_in_def by (metis append_Cons append_assoc)

lemma consented_in_mono: "consented_in es start i x \<Longrightarrow> consented_in (es @ fs) start i x"
  unfolding consented_in_def by (metis append_Cons append_assoc)

lemma activated_in_mono: "activated_in es start i x \<Longrightarrow> activated_in (es @ fs) start i x"
  unfolding activated_in_def by (metis append_Cons append_assoc)

lemma session_earned_mono: "session_earned es start i x \<Longrightarrow> session_earned (es @ fs) start i x"
  by (auto simp: session_earned_def negotiated_in_mono consented_in_mono activated_in_mono split: interop_state.splits)

lemma negotiated_from_update [simp]:
  "negotiated_from (x\<lparr>is_state := st\<rparr>) = negotiated_from x" "negotiated_from (x\<lparr>is_reason := re\<rparr>) = negotiated_from x"
  "negotiated_from (x\<lparr>is_consent := c\<rparr>) = negotiated_from x"
  by (simp_all add: negotiated_from_def fun_eq_iff)

lemma negotiated_in_update [simp]:
  "negotiated_in es start (x\<lparr>is_state := st\<rparr>) = negotiated_in es start x"
  "negotiated_in es start (x\<lparr>is_reason := re\<rparr>) = negotiated_in es start x"
  "negotiated_in es start (x\<lparr>is_consent := c\<rparr>) = negotiated_in es start x"
  by (simp_all add: negotiated_in_def)

lemma consented_in_update [simp]:
  "consented_in es start i (x\<lparr>is_state := st\<rparr>) = consented_in es start i x"
  "consented_in es start i (x\<lparr>is_reason := re\<rparr>) = consented_in es start i x"
  by (simp_all add: consented_in_def)

definition all_earned :: "interop_event list \<Rightarrow> interop_node \<Rightarrow> session_manager \<Rightarrow> bool" where
  "all_earned es start s =
     (im_local s = im_local (nd_manager start) \<and> (\<forall>i x. dget (im_sessions s) i = Some x \<longrightarrow> session_earned es start i x))"

lemma all_earned_mono: "all_earned es start s \<Longrightarrow> all_earned (es @ fs) start s"
  by (auto simp: all_earned_def session_earned_mono)

lemma all_earned_put:
  "all_earned es start s \<Longrightarrow> session_earned es start i y \<Longrightarrow> all_earned es start (put_session i y s)"
  by (auto simp: all_earned_def put_session_def)

lemma run_snoc: "interop_run (es @ [e]) start = snd (interop_step e (interop_run es start))"
  by (simp add: interop_run_def)

lemma negotiate_earned:
  assumes "all_earned es start s" and "s = nd_manager (interop_run es start)"
    and "authenticate_and_negotiate offer local_data (nd_registry (interop_run es start)) secret now pr ep s = (r, s')"
  shows "all_earned (es @ [EvNegotiate offer local_data secret now pr ep]) start s'"
proof -
  let ?es = "es @ [EvNegotiate offer local_data secret now pr ep]"
  note kept = all_earned_mono [OF assms(1), of "[EvNegotiate offer local_data secret now pr ep]"]
  show ?thesis
  proof (cases "s' = s")
    case True
    with kept show ?thesis by simp
  next
    case False
    from authenticate_run [OF assms(3)] False obtain reason fence n participant
      where v: "verify_authenticated_offer offer (im_local s) secret now 1 = Inr (True, reason)"
        and p: "dget offer ''participant'' = Some (PDict participant)"
        and run: "negotiate_session offer participant local_data (nd_registry (interop_run es start)) pr ep
          (s\<lparr>im_seen := AList.update fence n (im_seen s)\<rparr>) = (r, s')" by blast
    have seen: "all_earned ?es start (s\<lparr>im_seen := q\<rparr>)" for q using kept by (simp add: all_earned_def)
    show ?thesis
    proof (cases r)
      case (Inl err)
      with negotiate_session_run [OF run p] seen show ?thesis by simp
    next
      case (Inr x)
      with negotiate_session_run [OF run p] have x: "s' = put_session (is_id x) x (s\<lparr>im_seen := AList.update fence n (im_seen s)\<rparr>)"
          "is_state x = (if cr_blockers (is_plan x) = [] then INegotiated else IExpired)"
          "negotiated_from x offer local_data (nd_registry (interop_run es start)) pr ep" by auto
      have "negotiated_in ?es start x" if "cr_blockers (is_plan x) = []"
        using v x(3) that assms(1) unfolding negotiated_in_def all_earned_def by metis
      then have "session_earned ?es start (is_id x) x" by (auto simp: session_earned_def x(2))
      then show ?thesis unfolding x(1) by (intro all_earned_put seen)
    qed
  qed
qed

lemma consent_earned:
  assumes "all_earned es start s" and "consent_session i projection_data accepted s = (r, s')"
  shows "all_earned (es @ [EvConsent i projection_data accepted]) start s'"
  using consent_session_run [OF assms(2)]
proof (elim disjE exE conjE)
  fix x y assume x: "dget (im_sessions s) i = Some x" "is_state x = INegotiated" "s' = put_session i y s"
  then have n: "negotiated_in es start x" using assms(1) by (auto simp: all_earned_def session_earned_def split: interop_state.splits)
  have put: "all_earned (es @ [EvConsent i projection_data accepted]) start s'"
    if "session_earned (es @ [EvConsent i projection_data accepted]) start i y"
    unfolding x(3) using that by (intro all_earned_put all_earned_mono assms(1))
  show ?thesis if "is_state y = IExpired" using put that by (simp add: session_earned_def)
  fix d assume "accepted" "dindex projection_data ''projectionDigestSha256'' = Inr d"
    "y = x\<lparr>is_state := IConsented, is_consent := Some (py_str d), is_reason := ''consented''\<rparr>"
  then show ?thesis using n by (intro put) (auto simp: session_earned_def consented_in_def)
qed (simp add: all_earned_mono assms(1))

lemma activate_earned:
  assumes "all_earned es start s" and "activate_session i now pr rr ep s = (r, s')"
  shows "all_earned (es @ [EvActivate i now pr rr ep]) start s'"
  using activate_session_run [OF assms(2)]
proof (elim disjE exE conjE)
  fix x y assume x: "dget (im_sessions s) i = Some x" "is_state x = IConsented" "s' = put_session i y s"
  then have n: "consented_in es start i x" using assms(1) by (auto simp: all_earned_def session_earned_def split: interop_state.splits)
  have put: "all_earned (es @ [EvActivate i now pr rr ep]) start s'" if "session_earned (es @ [EvActivate i now pr rr ep]) start i y"
    unfolding x(3) using that by (intro all_earned_put all_earned_mono assms(1))
  show ?thesis if "is_state y = IExpired" using put that by (simp add: session_earned_def)
  assume "\<not> inputs_changed x now pr rr ep" "y = x\<lparr>is_state := IActive, is_reason := ''active''\<rparr>"
  then show ?thesis using n by (intro put) (auto simp: session_earned_def activated_in_def inputs_changed_def)
qed (simp add: all_earned_mono assms(1))

lemma status_earned:
  assumes "all_earned es start s" and "session_status i now s = (r, s')"
  shows "all_earned (es @ [EvStatus i now]) start s'"
  using session_status_run [OF assms(2)]
proof (elim disjE exE conjE)
  fix x y assume x: "dget (im_sessions s) i = Some x" "s' = put_session i y s"
  have put: "all_earned (es @ [EvStatus i now]) start s'" if "session_earned (es @ [EvStatus i now]) start i y"
    unfolding x(2) using that by (intro all_earned_put all_earned_mono assms(1))
  show ?thesis if "is_state y = IExpired" using put that by (simp add: session_earned_def)
  show ?thesis if "y = x" using put that x(1) assms(1) by (auto simp: all_earned_def session_earned_mono)
qed (simp add: all_earned_mono assms(1))

lemma history_earned: "all_earned es (new_interop_node local_id) (nd_manager (interop_run es (new_interop_node local_id)))"
proof (induction es rule: rev_induct)
  case Nil
  show ?case by (simp add: interop_run_def all_earned_def new_interop_node_def new_manager_def)
next
  case (snoc e es)
  let ?node = "interop_run es (new_interop_node local_id)"
  show ?case
  proof (cases e)
    case (EvNegotiate offer local_data secret now pr ep)
    then show ?thesis using negotiate_earned [OF snoc refl prod.collapse [symmetric]] by (simp add: run_snoc manager_call_step)
  next
    case (EvConsent i pd a)
    then show ?thesis using consent_earned [OF snoc prod.collapse [symmetric]] by (simp add: run_snoc manager_call_step)
  next
    case (EvActivate i now pr rr ep)
    then show ?thesis using activate_earned [OF snoc prod.collapse [symmetric]] by (simp add: run_snoc manager_call_step)
  next
    case (EvStatus i now)
    then show ?thesis using status_earned [OF snoc prod.collapse [symmetric]] by (simp add: run_snoc manager_call_step)
  qed (use snoc in \<open>simp_all add: run_snoc registry_call_step all_earned_mono\<close>)
qed

text \<open>
  C30. An active interoperability session has been earned: in every history of a node, a session that is active was
  negotiated from an offer that verified for this participant and from whose participant and the registry's adapters of
  that moment the compatibility report has no blocker; \<^emph>\<open>after\<close> that it was consented to with the digest it
  records; and \<^emph>\<open>after\<close> that it was activated before its expiry, under the profile revision, registry revision and authority epoch of
  its negotiation.
\<close>

theorem active_session_is_earned:
  assumes "dget (im_sessions (nd_manager (interop_run es (new_interop_node local_id)))) i = Some x" and "is_state x = IActive"
  shows "activated_in es (new_interop_node local_id) i x"
  using history_earned [of es local_id] assms by (auto simp: all_earned_def session_earned_def split: interop_state.splits)

section \<open>Offers\<close>

definition offer_time :: "int \<Rightarrow> int option \<Rightarrow> int" where
  "offer_time clk now_unix_ms = (case now_unix_ms of None \<Rightarrow> clk | Some t \<Rightarrow> t)"

lemma emap_py_int_ints: "emap py_int (map PInt vs) = Inr vs"
  by (induction vs) simp_all

lemma made_offer_document:
  assumes "make_authenticated_offer rnd clk local_data remote epoch sequence ttl_ms secret now_unix_ms nonce = Inr offer"
    and "rnd \<noteq> []"
  shows "\<exists>chosen. chosen \<noteq> [] \<and>
    (let payload = offer_payload local_data remote epoch sequence ttl_ms secret (offer_time clk now_unix_ms) chosen;
         transcript = digest_of (PDict payload) in
     offer = dset payload ''authentication''
       (PDict [(''scheme'', PStr ''hmac-sha256''), (''keyFingerprint'', PStr (key_fingerprint secret)),
               (''signature'', PStr (hmac_sha256_hex secret transcript))]) @ [(''transcriptSha256'', PStr transcript)])"
proof -
  let ?chosen = "case nonce of None \<Rightarrow> rnd | Some n \<Rightarrow> if n = [] then rnd else n"
  have "?chosen \<noteq> []" using assms(2) by (simp split: option.split)
  with assms(1) show ?thesis
    by (intro exI [of _ ?chosen])
      (simp add: make_authenticated_offer_def offer_time_def Let_def offer_payload_def dmerge_def dgetn_def dgetd_def split: if_splits)
qed

lemma made_offer_verifies_at:
  assumes "make_authenticated_offer rnd clk local_data remote epoch sequence ttl_ms secret now_unix_ms nonce = Inr offer"
    and "rnd \<noteq> []" and "dget local_data ''apiVersions'' = Some (ints vs)" and "vs \<noteq> []" and "minimum_version \<le> Max (set vs)"
    and "offer_time clk now_unix_ms \<le> now" and "now \<le> offer_time clk now_unix_ms + max 1 (min ttl_ms 300000)"
  shows "verify_authenticated_offer offer remote secret now minimum_version = Inr (True, ''ok'')"
proof -
  obtain chosen where c: "chosen \<noteq> []" and offer: "offer = dset (offer_payload local_data remote epoch sequence ttl_ms secret (offer_time clk now_unix_ms) chosen)
      ''authentication'' (PDict [(''scheme'', PStr ''hmac-sha256''), (''keyFingerprint'', PStr (key_fingerprint secret)),
        (''signature'', PStr (hmac_sha256_hex secret (digest_of (PDict (offer_payload local_data remote epoch sequence ttl_ms secret (offer_time clk now_unix_ms) chosen)))))])
      @ [(''transcriptSha256'', PStr (digest_of (PDict (offer_payload local_data remote epoch sequence ttl_ms secret (offer_time clk now_unix_ms) chosen))))]"
    using made_offer_document [OF assms(1,2)] by (auto simp: Let_def)
  let ?payload = "offer_payload local_data remote epoch sequence ttl_ms secret (offer_time clk now_unix_ms) chosen"
  let ?auth = "[(''scheme'', PStr ''hmac-sha256''), (''keyFingerprint'', PStr (key_fingerprint secret)),
        (''signature'', PStr (hmac_sha256_hex secret (digest_of (PDict ?payload))))]"
  have auth: "dget offer ''authentication'' = Some (PDict ?auth)"
    unfolding offer by (simp add: offer_payload_def)
  have unsigned: "offer_unsigned offer ?auth = ?payload"
    unfolding offer by (simp add: offer_payload_def offer_unsigned_def ddel_def)
  have fields: "dget offer ''participant'' = Some (PDict local_data)" "dget offer ''targetParticipantId'' = Some (PStr remote)"
    "dget offer ''authorityEpoch'' = Some (PInt (max 1 epoch))" "dget offer ''sequence'' = Some (PInt (max 1 sequence))"
    "dget offer ''nonce'' = Some (PStr chosen)" "dget offer ''issuedAtUnixMs'' = Some (PInt (offer_time clk now_unix_ms))"
    "dget offer ''expiresAtUnixMs'' = Some (PInt (offer_time clk now_unix_ms + max 1 (min ttl_ms 300000)))"
    "dget offer ''transcriptSha256'' = Some (PStr (digest_of (PDict ?payload)))"
    unfolding offer by (simp_all add: offer_payload_def)
  have "offer_checks offer (ddel ?auth ''signature'') vs remote secret now minimum_version = Inr (True, ''ok'')"
    using assms(4-7) c by (simp add: offer_checks_def ddel_def dgetn_def dgetd_def dindex_def fields del: Max_less_iff)
  moreover have "ebind (py_iter (dgetd local_data ''apiVersions'' (PList []))) (emap py_int) = Inr vs"
    by (simp add: dgetd_def assms(3) ints_def py_iter_def emap_py_int_ints)
  ultimately show ?thesis
    by (simp add: verify_authenticated_offer_def dindex_def auth py_dict_def fields unsigned Let_def)
qed

text \<open>
  C36. An offer reaches its target: what \<open>make_authenticated_offer\<close> signs for a participant is accepted by
  \<open>verify_authenticated_offer\<close> at that participant with the same key, at every time from its issue to its expiry,
  provided the offer's participant speaks some API version the target still admits; whatever unknown fields the participant's
  description carries, and whether the nonce was given or drawn.
\<close>

theorem made_offer_verifies:
  assumes "make_authenticated_offer rnd clk local_data remote epoch sequence ttl_ms secret now_unix_ms nonce = Inr offer"
    and "rnd \<noteq> []" and "dget local_data ''apiVersions'' = Some (ints vs)" and "vs \<noteq> []" and "minimum_version \<le> Max (set vs)"
    and "offer_time clk now_unix_ms \<le> now" and "now \<le> offer_time clk now_unix_ms + max 1 (min ttl_ms 300000)"
  shows "verify_authenticated_offer offer remote secret now minimum_version = Inr (True, ''ok'')"
  by (rule made_offer_verifies_at [OF assms])

definition plain_participant :: "string \<Rightarrow> pydict" where
  "plain_participant i = [(''id'', PStr i), (''apiVersions'', ints [1])]"

lemma plain_offer:
  obtains offer where
    "make_authenticated_offer ''n'' 1000 (plain_participant ''r'') ''l'' 7 1 60000 ''k'' None None = Inr offer"
    "offer = dset (offer_payload (plain_participant ''r'') ''l'' 7 1 60000 ''k'' 1000 ''n'') ''authentication''
       (PDict [(''scheme'', PStr ''hmac-sha256''), (''keyFingerprint'', PStr (key_fingerprint ''k'')),
               (''signature'', PStr (hmac_sha256_hex ''k'' (digest_of (PDict (offer_payload (plain_participant ''r'') ''l'' 7 1 60000 ''k'' 1000 ''n'')))))])
       @ [(''transcriptSha256'', PStr (digest_of (PDict (offer_payload (plain_participant ''r'') ''l'' 7 1 60000 ''k'' 1000 ''n''))))]"
proof -
  have "strip ''l'' = ''l''" by code_simp
  then show thesis
    by (intro that [OF _ refl])
      (simp add: make_authenticated_offer_def Let_def offer_payload_def dmerge_def dgetn_def dgetd_def)
qed

theorem made_offer_verifies_witness:
  "\<exists>offer. make_authenticated_offer ''n'' 1000 (plain_participant ''r'') ''l'' 7 1 60000 ''k'' None None = Inr offer \<and>
     verify_authenticated_offer offer ''l'' ''k'' 1500 1 = Inr (True, ''ok'')"
proof -
  obtain offer where o: "make_authenticated_offer ''n'' 1000 (plain_participant ''r'') ''l'' 7 1 60000 ''k'' None None = Inr offer"
    by (rule plain_offer)
  have "verify_authenticated_offer offer ''l'' ''k'' 1500 1 = Inr (True, ''ok'')"
    by (rule made_offer_verifies [OF o, of "[1]"]) (simp_all add: plain_participant_def offer_time_def)
  with o show ?thesis by blast
qed

section \<open>A session from offer to activation\<close>

lemma normalize_plain:
  "normalize_participant (plain_participant ''r'') =
    Inr \<lparr>pt_raw = plain_participant ''r'', pt_id = ''r'', pt_api = [1], pt_schemas = [(show_state_type, [1])], pt_capabilities = [],
         pt_required = [], pt_adapters = [], pt_preserves = True, pt_offline = True\<rparr>"
proof -
  have "clean_str 128 (PStr ''r'') = ''r''" by code_simp
  then show ?thesis
    by (simp add: normalize_participant_def plain_participant_def normalize_versions_def ints_def dgetn_def dgetd_def por_def
        capability_set_def py_iter_def sorted_set_def normalize_adapters_def list_of_def dsetdefault_def version_step_def Let_def)
qed

lemma normalize_plain_local:
  "normalize_participant (dset (plain_participant ''l'') ''adapters'' (PList [])) =
    Inr \<lparr>pt_raw = dset (plain_participant ''l'') ''adapters'' (PList []), pt_id = ''l'', pt_api = [1], pt_schemas = [(show_state_type, [1])],
         pt_capabilities = [], pt_required = [], pt_adapters = [], pt_preserves = True, pt_offline = True\<rparr>"
proof -
  have "clean_str 128 (PStr ''l'') = ''l''" by code_simp
  then show ?thesis
    by (simp add: normalize_participant_def plain_participant_def normalize_versions_def ints_def dgetn_def dgetd_def por_def
        capability_set_def py_iter_def sorted_set_def normalize_adapters_def list_of_def dsetdefault_def version_step_def Let_def)
qed

lemma plain_report:
  obtains plan where "compatibility_report (dset (plain_participant ''l'') ''adapters'' (PList [])) (plain_participant ''r'') = Inr plan"
    "cr_blockers plan = []" "cr_common plan = [1]"
  by (rule that, simp add: compatibility_report_def normalize_plain normalize_plain_local)
    (simp_all add: participants_report_def Let_def common_ints_def report_blockers_def selected_def minus_sorted_def sorted_set_def
      translated_local_def translated_remote_def schema_versions_def dgetd_def)

lemma plain_session:
  obtains offer x where
    "make_authenticated_offer ''n'' 1000 (plain_participant ''r'') ''l'' 7 1 60000 ''k'' None None = Inr offer"
    "authenticate_and_negotiate offer (plain_participant ''l'') empty_registry ''k'' 1500 3 7 (new_manager ''l'')
       = (Inr x, put_session (is_id x) x ((new_manager ''l'')\<lparr>im_seen := [((''r'', 7), 1)]\<rparr>))"
    "is_state x = INegotiated" "is_expires x = 61000" "is_profile_revision x = 3" "is_registry_revision x = 0" "is_epoch x = 7"
proof -
  obtain offer where o: "make_authenticated_offer ''n'' 1000 (plain_participant ''r'') ''l'' 7 1 60000 ''k'' None None = Inr offer"
    and d: "offer = dset (offer_payload (plain_participant ''r'') ''l'' 7 1 60000 ''k'' 1000 ''n'') ''authentication''
       (PDict [(''scheme'', PStr ''hmac-sha256''), (''keyFingerprint'', PStr (key_fingerprint ''k'')),
               (''signature'', PStr (hmac_sha256_hex ''k'' (digest_of (PDict (offer_payload (plain_participant ''r'') ''l'' 7 1 60000 ''k'' 1000 ''n'')))))])
       @ [(''transcriptSha256'', PStr (digest_of (PDict (offer_payload (plain_participant ''r'') ''l'' 7 1 60000 ''k'' 1000 ''n''))))]"
    by (rule plain_offer)
  have v: "verify_authenticated_offer offer ''l'' ''k'' 1500 1 = Inr (True, ''ok'')"
    by (rule made_offer_verifies_at [OF o, of "[1]"]) (simp_all add: plain_participant_def offer_time_def)
  obtain plan where plan: "compatibility_report (dset (plain_participant ''l'') ''adapters'' (PList [])) (plain_participant ''r'') = Inr plan"
    "cr_blockers plan = []" "cr_common plan = [1]" by (rule plain_report)
  have fields: "dget offer ''participant'' = Some (PDict (plain_participant ''r''))" "dget offer ''authorityEpoch'' = Some (PInt 7)"
    "dget offer ''sequence'' = Some (PInt 1)" "dget offer ''expiresAtUnixMs'' = Some (PInt 61000)"
    "dget offer ''transcriptSha256'' = Some (PStr (digest_of (PDict (offer_payload (plain_participant ''r'') ''l'' 7 1 60000 ''k'' 1000 ''n''))))"
    unfolding d by (simp_all add: offer_payload_def)
  have r: "py_str (dgetd (plain_participant ''r'') ''id'' (PStr ''remote'')) = ''r''"
    "get_int (plain_participant ''r'') ''minimumSecureApiVersion'' (PInt 1) = Inr 1"
    "get_int (dset (plain_participant ''l'') ''adapters'' (PList [])) ''minimumSecureApiVersion'' (PInt 1) = Inr 1"
    by (simp_all add: plain_participant_def dgetd_def get_int_def)
  let ?t = "PStr (digest_of (PDict (offer_payload (plain_participant ''r'') ''l'' 7 1 60000 ''k'' 1000 ''n'')))"
  let ?x = "\<lparr>is_id = take 32 (digest_of (PDict [(''transcript'', ?t), (''local'', PStr ''l'')])), is_state = INegotiated, is_reason = ''ok'',
    is_transcript = ?t, is_plan = plan, is_profile_revision = 3, is_registry_revision = 0, is_epoch = 7, is_expires = 61000,
    is_consent = None\<rparr>"
  have run: "authenticate_and_negotiate offer (plain_participant ''l'') empty_registry ''k'' 1500 3 7 (new_manager ''l'')
      = (Inr ?x, put_session (is_id ?x) ?x ((new_manager ''l'')\<lparr>im_seen := [((''r'', 7), 1)]\<rparr>))"
    by (simp add: authenticate_and_negotiate_def method_run v new_manager_def dindex_def fields r last_seen_def Let_def negotiate_session_def
        plan empty_registry_def selected_def)
  show thesis by (rule that [OF o run]) simp_all
qed

theorem active_session_is_earned_witness:
  "\<exists>es i x. dget (im_sessions (nd_manager (interop_run es (new_interop_node ''l'')))) i = Some x \<and> is_state x = IActive \<and>
     activated_in es (new_interop_node ''l'') i x \<and> length es = 3"
proof -
  obtain offer x where o: "make_authenticated_offer ''n'' 1000 (plain_participant ''r'') ''l'' 7 1 60000 ''k'' None None = Inr offer"
    and n: "authenticate_and_negotiate offer (plain_participant ''l'') empty_registry ''k'' 1500 3 7 (new_manager ''l'')
       = (Inr x, put_session (is_id x) x ((new_manager ''l'')\<lparr>im_seen := [((''r'', 7), 1)]\<rparr>))"
    and x: "is_state x = INegotiated" "is_expires x = 61000" "is_profile_revision x = 3" "is_registry_revision x = 0" "is_epoch x = 7"
    by (rule plain_session)
  let ?pd = "[(''projectionDigestSha256'', PStr ''d'')]"
  let ?es = "[EvNegotiate offer (plain_participant ''l'') ''k'' 1500 3 7, EvConsent (is_id x) ?pd True, EvActivate (is_id x) 1600 3 0 7]"
  let ?y = "x\<lparr>is_consent := Some ''d'', is_state := IActive, is_reason := ''active''\<rparr>"
  let ?s = "put_session (is_id x) x ((new_manager ''l'')\<lparr>im_seen := [((''r'', 7), 1)]\<rparr>)"
  have get: "dget (im_sessions (put_session i z s)) i = Some z" for i z s by (simp add: put_session_def)
  have start: "nd_manager (new_interop_node ''l'') = new_manager ''l''" "nd_registry (new_interop_node ''l'') = empty_registry"
    by (simp_all add: new_interop_node_def)
  have two: "snd (consent_session (is_id x) ?pd True ?s) = put_session (is_id x)
      (x\<lparr>is_state := IConsented, is_consent := Some ''d'', is_reason := ''consented''\<rparr>) ?s"
    by (simp add: consent_session_def method_run get x dindex_def Let_def)
  have three: "snd (activate_session (is_id x) 1600 3 0 7 (put_session (is_id x)
      (x\<lparr>is_state := IConsented, is_consent := Some ''d'', is_reason := ''consented''\<rparr>) ?s)) = put_session (is_id x) ?y
      (put_session (is_id x) (x\<lparr>is_state := IConsented, is_consent := Some ''d'', is_reason := ''consented''\<rparr>) ?s)"
    by (simp add: activate_session_def method_run get x inputs_changed_def Let_def)
  have found: "dget (im_sessions (nd_manager (interop_run ?es (new_interop_node ''l'')))) (is_id x) = Some ?y"
    by (simp add: interop_run_def manager_call_step start n two three get)
  have active: "is_state ?y = IActive" by simp
  from found active have "activated_in ?es (new_interop_node ''l'') (is_id x) ?y" by (rule active_session_is_earned)
  with found active show ?thesis by (intro exI [of _ ?es] exI [of _ "is_id x"] exI [of _ ?y]) simp
qed

text \<open>A number the fence has passed is refused, and nothing changes: also that of a fresh offer of a participant which lost its
  counter.\<close>

lemma stale_sequence_refused:
  assumes "offer_fence offer = Inr (fence, n)" and "n \<le> last_seen s fence"
  shows "\<exists>e. authenticate_and_negotiate offer local_data registry secret now profile_revision authority_epoch s = (Inl e, s)"
proof -
  obtain r s' where run: "authenticate_and_negotiate offer local_data registry secret now profile_revision authority_epoch s = (r, s')"
    by fastforce
  from authenticate_run [OF run] assms show ?thesis by (auto simp: run)
qed

text \<open>
  An offer that is not even authentic can break its verifier: \<open>verify_authenticated_offer\<close> is written to report every
  malformed offer as \<open>(False, reason)\<close>, but when the participant of an offer is not an object, it raises
  \<open>AttributeError\<close>, before any digest or signature is compared, for every key and every time; \<open>authenticate_and_negotiate\<close>
  passes the exception on, where a malformed offer is meant to be a \<open>ValueError\<close>.
\<close>

theorem malformed_participant_escapes:
  assumes "dget offer ''authentication'' = Some (PDict auth)" and "din ''signature'' auth"
    and "dget offer ''participant'' = Some v" and "\<not> is_dict v"
  shows "verify_authenticated_offer offer target secret now minimum_version = Inl AttributeError \<and>
    authenticate_and_negotiate offer local_data registry secret now pr ep s = (Inl AttributeError, s)"
proof -
  from assms(2) obtain sig where sig: "dget auth ''signature'' = Some sig" by (auto simp: din_def)
  have "as_dict v = Inl AttributeError" using assms(4) by (cases v) (auto simp: as_dict_def)
  then have v: "verify_authenticated_offer offer t secret now m = Inl AttributeError" for t m
    using assms(1,3) sig
    by (simp add: verify_authenticated_offer_def dindex_def py_dict_def Let_def is_key_type_or_value_def is_type_or_value_def)
  then show ?thesis by (simp add: authenticate_and_negotiate_def method_run)
qed

theorem malformed_participant_escapes_witness:
  "verify_authenticated_offer [(''participant'', PStr ''x''), (''authentication'', PDict [(''signature'', PStr ''y'')])] ''l'' ''k'' 0 1
     = Inl AttributeError"
  using malformed_participant_escapes [of "[(''participant'', PStr ''x''), (''authentication'', PDict [(''signature'', PStr ''y'')])]"
      "[(''signature'', PStr ''y'')]" "PStr ''x''"] by simp

section \<open>The quality of a registered adapter\<close>

lemma number_is_no_quality:
  assumes "1 \<le> q" and "q \<le> 100"
  shows "known_quality ''acceptable'' (py_lower (strip (show_int q))) = ''acceptable''"
proof -
  have "list_all (\<lambda>i. known_quality ''acceptable'' (py_lower (strip (show_int i))) = ''acceptable'') [1..100]" by code_simp
  with assms show ?thesis by (simp add: list_all_iff)
qed

text \<open>
  The declared quality of a registered adapter is lost: \<open>CapabilityRegistry.register_adapter\<close> requires a number from 1 to
  100, but the compatibility report reads the quality of an adapter as one of the names \<open>direct\<close>, \<open>equivalent\<close>,
  \<open>acceptable\<close> and so on.  Every adapter that the registry accepts, whether declared with quality 1 or with 100, therefore
  counts as \<open>acceptable\<close> with score 80 when a session is negotiated.
\<close>

theorem registered_quality_is_lost:
  assumes "register_adapter a g = (Inr item, g')"
  shows "\<exists>x. normalize_adapters (PList [PDict item]) = [x] \<and> ad_quality x = ''acceptable'' \<and> ad_score x = 80 \<and> last (cg_adapters g') = item"
proof -
  let ?source = "strip (py_str (dgetd a ''from'' (PStr [])))" and ?target = "strip (py_str (dgetd a ''to'' (PStr [])))"
  from assms obtain q where q: "get_int a ''quality'' (PInt 0) = Inr q" "1 \<le> q" "q \<le> 100" "?source \<noteq> []" "?target \<noteq> []"
    and i: "item = dmerge a [(''from'', PStr ?source), (''to'', PStr ?target), (''quality'', PInt q), (''explicit'', PBool True),
             (''provenance'', dgetn a ''provenance'')]" and g: "g' = g\<lparr>cg_adapters := cg_adapters g @ [item], cg_revision := cg_revision g + 1\<rparr>"
    by (cases "get_int a ''quality'' (PInt 0)") (auto simp: register_adapter_def Let_def method_run split: if_splits)
  have "dgetd item ''from'' (PStr []) = PStr ?source" "dgetd item ''to'' (PStr []) = PStr ?target"
    "dgetd item ''quality'' (PStr ''acceptable'') = PInt q"
    by (simp_all add: i dgetd_def dget_dmerge dwf_def dkeys_def)
  moreover have "py_str (PInt q) = show_int q" by (simp add: py_str_def)
  moreover have "quality_score ''acceptable'' = 80" by (simp add: quality_score_def quality_order_def)
  ultimately show ?thesis
    using q g by (simp add: normalize_adapters_def list_of_def Let_def number_is_no_quality ad_score_def)
qed

theorem registered_quality_is_lost_witness:
  "\<exists>item x. fst (register_adapter [(''from'', PStr ''a''), (''to'', PStr ''b''), (''quality'', PInt 1), (''provenance'', PDict [(''by'', PStr ''c'')])]
      empty_registry) = Inr item \<and> normalize_adapters (PList [PDict item]) = [x] \<and> ad_score x = 80"
proof -
  let ?a = "[(''from'', PStr ''a''), (''to'', PStr ''b''), (''quality'', PInt 1), (''provenance'', PDict [(''by'', PStr ''c'')])]"
  have "strip ''a'' = ''a''" "strip ''b'' = ''b''" by code_simp+
  then obtain item g' where r: "register_adapter ?a empty_registry = (Inr item, g')"
    by (simp add: register_adapter_def Let_def method_run get_int_def dgetd_def dgetn_def)
  then show ?thesis using registered_quality_is_lost [OF r] by auto
qed

end
