(* ===== verification/Venue.thy ===== *)
theory Venue
  imports Compatibility Py_Json
begin

text \<open>
  \<^verbatim>\<open>src/backend/venue.py\<close>: the profile of a venue with its devices and humans, what discovery adds to it,
  the plan of how a show's requirements are met there, and the DMX channel and value of a portable lighting intent.
  Devices, humans and profiles stay dictionaries, as the code merges them field by field.
\<close>

section \<open>Reading a profile\<close>

definition venue_profile_type :: string where
  "venue_profile_type = ''org.upp.venue-profile''"

definition version_or :: "pyval \<Rightarrow> int \<Rightarrow> pyerr + int" where
  \<comment> \<open>\<open>max(1, int(v))\<close>, or the default when the conversion fails\<close>
  "version_or v dflt = ecatch is_type_or_value (ebind (py_int v) (\<lambda>n. Inr (max 1 n))) (Inr dflt)"

definition inspect_venue_profile :: "pyval \<Rightarrow> pyerr + pydict" where
  "inspect_venue_profile data =
     (case data of
        PDict d \<Rightarrow>
          (let document_type = py_str (dgetd d ''documentType'' (PStr venue_profile_type)) in
           ebind (version_or (dgetd d ''schemaVersion'' (PInt 1)) 1) (\<lambda>incoming.
           ebind (version_or (dgetd d ''minimumReaderSchemaVersion'' (PInt 1)) incoming) (\<lambda>minimum.
           let versions = [(''incomingSchemaVersion'', PInt incoming), (''minimumReaderSchemaVersion'', PInt minimum),
                           (''readerSchemaVersion'', PInt 1)] in
           if document_type \<noteq> venue_profile_type then
             Inr ([(''readable'', PBool False), (''mode'', PStr ''wrong-document-type''),
                   (''reason'', PStr (''unsupported venue document type: '' @ document_type))] @ versions)
           else if 1 < minimum then
             Inr ([(''readable'', PBool False), (''mode'', PStr ''reader-too-old''),
                   (''reason'', PStr (''venue profile requires schema reader '' @ show_int minimum @ '', this core supports 1''))] @ versions)
           else
             Inr ([(''readable'', PBool True),
                   (''mode'', PStr (if incoming = 1 then ''exact'' else if 1 < incoming then ''forward-compatible'' else ''legacy''))] @
                  versions @ [(''unknownFieldsPreserved'', PBool True)]))))
      | _ \<Rightarrow> Inr [(''readable'', PBool False), (''mode'', PStr ''invalid''),
                (''reason'', PStr ''venue profile must be an object''), (''readerSchemaVersion'', PInt 1)])"

definition capability_names :: "pyval \<Rightarrow> string list" where
  "capability_names values = sorted_set (filter (\<lambda>s. s \<noteq> []) (map (\<lambda>v. strip (py_str v)) (list_of values)))"

definition venue_float :: "pyval \<Rightarrow> pyfloat \<Rightarrow> pyerr + pyfloat" where
  \<comment> \<open>\<open>_float(value, 0.0, minimum)\<close>\<close>
  "venue_float v minimum = ebind (ecatch is_type_or_value (py_float v) (Inr (Fin 0))) (\<lambda>f. Inr (fmax minimum f))"

definition text_or :: "string \<Rightarrow> string \<Rightarrow> string" where
  "text_or s dflt = (if s = [] then dflt else s)"

definition normalize_latency :: "pyval \<Rightarrow> pyerr + pydict" where
  "normalize_latency data =
     (let raw = dict_of data in
      ebind (venue_float (dgetn raw ''fixedMs'') (Fin 0)) (\<lambda>fixed.
      ebind (venue_float (dgetn raw ''jitterMs'') (Fin 0)) (\<lambda>jitter.
      ebind (venue_float (dgetn raw ''lookaheadMs'') (Fin 0)) (\<lambda>lookahead.
      Inr (dmerge raw
        [(''fixedMs'', PFloat fixed), (''jitterMs'', PFloat jitter), (''lookaheadMs'', PFloat lookahead),
         (''timestamped'', PBool (get_bool raw ''timestamped'' False)),
         (''clockClass'', PStr (text_or (clean_str 64 (dgetd raw ''clockClass'' (PStr ''local''))) ''local''))])))))"

definition device_statuses :: "string list" where
  "device_statuses = [''expected'', ''online'', ''offline'', ''degraded'', ''unknown'']"

definition normalize_device :: "pydict \<Rightarrow> nat \<Rightarrow> pyerr + pydict" where
  "normalize_device raw index =
     (let fallback = ''device-'' @ show_int (int index);
          device_id = text_or (clean_str 128 (por (dgetn raw ''id'') (PStr fallback))) fallback;
          status = py_lower (strip (py_str (dgetd raw ''status'' (PStr ''expected'')))) in
      ebind (normalize_latency (dgetn raw ''latency'')) (\<lambda>latency.
      Inr (dmerge raw
        [(''id'', PStr device_id),
         (''name'', PStr (text_or (clean_str 160 (por (dgetn raw ''name'') (PStr device_id))) device_id)),
         (''kind'', PStr (text_or (take 64 (py_lower (strip (py_str (dgetd raw ''kind'' (PStr ''device'')))))) ''device'')),
         (''status'', PStr (if status \<in> set device_statuses then status else ''unknown'')),
         (''capabilities'', strs (capability_names (dgetn raw ''capabilities''))), (''latency'', PDict latency),
         (''roles'', strs (capability_names (dgetn raw ''roles''))),
         (''matchIds'', strs (capability_names (por (dgetn raw ''matchIds'') (dgetn raw ''aliases'')))),
         (''optional'', PBool (get_bool raw ''optional'' False))])))"

definition normalize_human :: "pydict \<Rightarrow> nat \<Rightarrow> pydict" where
  "normalize_human raw index =
     (let fallback = ''human-'' @ show_int (int index);
          human_id = text_or (clean_str 128 (por (dgetn raw ''id'') (PStr fallback))) fallback in
      dmerge raw
        [(''id'', PStr human_id),
         (''name'', PStr (text_or (clean_str 160 (por (dgetn raw ''name'') (PStr human_id))) human_id)),
         (''available'', PBool (get_bool raw ''available'' True)),
         (''capabilities'', strs (capability_names (dgetn raw ''capabilities''))),
         (''roles'', strs (capability_names (dgetn raw ''roles''))),
         (''authority'', strs (capability_names (dgetn raw ''authority'')))])"

definition patch_entry :: "pyval \<Rightarrow> pyval" where
  "patch_entry v = (case v of
      PDict item \<Rightarrow> (let target = clean_str 160 (dgetd item ''target'' (PStr [])) in
         PDict (if target \<noteq> [] then dset item ''target'' (PStr target) else item))
    | _ \<Rightarrow> v)"

definition normalize_patch :: "pyval \<Rightarrow> pydict" where
  "normalize_patch data = map (map_prod id patch_entry) (dict_of data)"

text \<open>The dictionaries among the items of a sequence, with their positions.\<close>

fun indexed_dicts :: "nat \<Rightarrow> pyval list \<Rightarrow> (nat \<times> pydict) list" where
  "indexed_dicts n [] = []"
| "indexed_dicts n (v # vs) = (case v of PDict d \<Rightarrow> [(n, d)] | _ \<Rightarrow> []) @ indexed_dicts (Suc n) vs"

definition normalize_devices :: "pyval \<Rightarrow> pyerr + pydict list" where
  "normalize_devices values =
     ebind (py_iter (por values (PList []))) (\<lambda>items. emap (\<lambda>(i, d). normalize_device d i) (indexed_dicts 0 items))"

definition normalize_humans :: "pyval \<Rightarrow> pyerr + pydict list" where
  "normalize_humans values =
     ebind (py_iter (por values (PList []))) (\<lambda>items. Inr (map (\<lambda>(i, d). normalize_human d i) (indexed_dicts 0 items)))"

definition positive_version :: "pydict \<Rightarrow> string \<Rightarrow> pyerr + int" where
  "positive_version raw k = ebind (py_int (por (dgetd raw k (PInt 1)) (PInt 1))) (\<lambda>n. Inr (max 1 n))"

definition normalize_venue_profile :: "pydict \<Rightarrow> pyerr + pydict" where
  "normalize_venue_profile raw =
     ebind (normalize_devices (dgetn raw ''devices'')) (\<lambda>devices.
     ebind (normalize_humans (dgetn raw ''humans'')) (\<lambda>humans.
     ebind (positive_version raw ''schemaVersion'') (\<lambda>schema.
     ebind (positive_version raw ''minimumReaderSchemaVersion'') (\<lambda>minimum.
     ebind (normalize_latency (dgetn raw ''clock'')) (\<lambda>clock.
     Inr (dmerge raw
       [(''documentType'', PStr (py_str (dgetd raw ''documentType'' (PStr venue_profile_type)))),
        (''schemaVersion'', PInt schema), (''minimumReaderSchemaVersion'', PInt minimum),
        (''unknownFieldsPreserved'', PBool (get_bool raw ''unknownFieldsPreserved'' True)),
        (''id'', PStr (text_or (clean_str 128 (dgetd raw ''id'' (PStr ''venue''))) ''venue'')),
        (''name'', PStr (text_or (clean_str 160 (dgetd raw ''name'' (PStr ''Venue''))) ''Venue'')),
        (''capabilities'', strs (capability_names (dgetn raw ''capabilities''))),
        (''devices'', PList (map PDict devices)), (''humans'', PList (map PDict humans)),
        (''adapters'', PList (filter is_dict (list_of (dgetn raw ''adapters'')))),
        (''patch'', PDict (normalize_patch (dgetn raw ''patch''))), (''clock'', PDict clock),
        (''offlineCapable'', PBool (get_bool raw ''offlineCapable'' True)),
        (''preservesUnknown'', PBool (get_bool raw ''preservesUnknown'' True))]))))))"

section \<open>Lighting\<close>

record lighting_intent =
  li_fixture :: string
  li_parameter :: string
  li_normalized :: pyfloat
  li_universe :: int
  li_channel :: int
  li_value :: int

record lighting_spec =
  ls_offset :: int
  ls_minimum :: int
  ls_maximum :: int
  ls_invert :: bool

definition converted :: "string \<Rightarrow> pyerr + 'a \<Rightarrow> pyerr + 'a" where
  \<comment> \<open>\<open>except (TypeError, ValueError) as exc: raise ValueError(reason) from exc\<close>\<close>
  "converted reason r = ecatch is_type_or_value r (Inl (ValueError reason))"

definition parameter_spec :: "string \<Rightarrow> string \<Rightarrow> pyval \<Rightarrow> pyerr + lighting_spec" where
  "parameter_spec fixture_key parameter_key spec =
     (case spec of
        PNone \<Rightarrow> Inl (ValueError (''lighting parameter is not mapped for fixture '' @ fixture_key @ '': '' @ parameter_key))
      | PInt offset \<Rightarrow> Inr \<lparr>ls_offset = offset, ls_minimum = 0, ls_maximum = 255, ls_invert = False\<rparr>
      | PDict d \<Rightarrow>
          converted ''lighting parameter mapping values must be integers''
            (ebind (get_int d ''offset'' (PInt 0)) (\<lambda>offset.
             ebind (get_int d ''minimum'' (PInt 0)) (\<lambda>minimum.
             ebind (get_int d ''maximum'' (PInt 255)) (\<lambda>maximum.
             Inr \<lparr>ls_offset = offset, ls_minimum = minimum, ls_maximum = maximum, ls_invert = get_bool d ''invert'' False\<rparr>))))
      | _ \<Rightarrow> Inl (ValueError ''lighting parameter offset must be an integer or object''))"

definition lighting_value :: "lighting_spec \<Rightarrow> rat \<Rightarrow> int" where
  "lighting_value sp normalized =
     (let effective = (if ls_invert sp then 1 - normalized else normalized)
      in round_half_even (of_int (ls_minimum sp) + effective * of_int (ls_maximum sp - ls_minimum sp)))"

definition unit_interval :: "pyfloat \<Rightarrow> pyerr + rat" where
  "unit_interval f =
     (case f of
        Fin r \<Rightarrow> if 0 \<le> r \<and> r \<le> 1 then Inr r else Inl (ValueError ''normalized lighting value must be between 0 and 1'')
      | _ \<Rightarrow> Inl (ValueError ''normalized lighting value must be between 0 and 1''))"

definition resolve_lighting_fixture_intent :: "pyval \<Rightarrow> pyval \<Rightarrow> pyval \<Rightarrow> pyval \<Rightarrow> pyerr + lighting_intent" where
  "resolve_lighting_fixture_intent mapping fixture_id parameter normalized_value =
     (if \<not> is_dict mapping then Inl (ValueError ''lighting fixture intent requires an active venue mapping'')
      else
        (let m = dict_of mapping;
             patch = (if is_dict (dgetn m ''patch'') then dict_of (dgetn m ''patch'') else m);
             fixtures = dict_of (dgetn (dict_of (dgetn patch ''execution'')) ''fixtures'');
             fixture_key = clean_str 128 fixture_id; parameter_key = clean_str 128 parameter in
         if fixture_key = [] \<or> parameter_key = [] then Inl (ValueError ''lighting fixture intent requires fixtureId and parameter'')
         else if \<not> is_dict (dgetn fixtures fixture_key)
         then Inl (ValueError (''lighting fixture is not mapped by the active venue: '' @ fixture_key))
         else
           (let fixture = dict_of (dgetn fixtures fixture_key) in
            ebind (converted ''lighting fixture universe/address must be integers''
              (ebind (get_int fixture ''universe'' (PInt 0)) (\<lambda>u. ebind (get_int fixture ''address'' (PInt 1)) (\<lambda>a. Inr (u, a))))) (\<lambda>(universe, address).
            if \<not> (0 \<le> universe \<and> universe < 16) \<or> \<not> (1 \<le> address \<and> address \<le> 512)
            then Inl (ValueError ''lighting fixture mapping exceeds the supported 16-universe/512-channel domain'')
            else ebind (parameter_spec fixture_key parameter_key (dgetn (dict_of (dgetn fixture ''parameters'')) parameter_key)) (\<lambda>sp.
            if ls_offset sp < 0 \<or> 512 < address + ls_offset sp
            then Inl (ValueError ''lighting parameter mapping exceeds DMX channel 512'')
            else if \<not> (0 \<le> ls_minimum sp \<and> ls_minimum sp \<le> 255) \<or> \<not> (0 \<le> ls_maximum sp \<and> ls_maximum sp \<le> 255) \<or> ls_maximum sp < ls_minimum sp
            then Inl (ValueError ''lighting parameter range must satisfy 0 <= minimum <= maximum <= 255'')
            else ebind (converted ''normalized lighting value must be numeric'' (py_float normalized_value)) (\<lambda>f.
            ebind (unit_interval f) (\<lambda>normalized.
            Inr \<lparr>li_fixture = fixture_key, li_parameter = parameter_key, li_normalized = f, li_universe = universe,
                 li_channel = address + ls_offset sp, li_value = lighting_value sp normalized\<rparr>)))))))"

definition lighting_intent_dict :: "lighting_intent \<Rightarrow> pydict" where
  "lighting_intent_dict i =
     [(''fixtureId'', PStr (li_fixture i)), (''parameter'', PStr (li_parameter i)), (''normalizedValue'', PFloat (li_normalized i)),
      (''universe'', PInt (li_universe i)), (''channel'', PInt (li_channel i)), (''value'', PInt (li_value i))]"

section \<open>Discovery\<close>

definition id_of :: "pydict \<Rightarrow> string" where
  \<comment> \<open>\<open>item["id"]\<close> of a normalised item\<close>
  "id_of d = py_str (dgetn d ''id'')"

definition names_of :: "pydict \<Rightarrow> string \<Rightarrow> string list" where
  \<comment> \<open>a list of texts under a key of a normalised item\<close>
  "names_of d k = map py_str (list_of (dgetn d k))"

definition devices_by_id :: "pydict list \<Rightarrow> (string \<times> pydict) list" where
  "devices_by_id items = fold (\<lambda>item d. dset d (id_of item) item) items []"

definition sort_by_id :: "pydict list \<Rightarrow> pydict list" where
  "sort_by_id items = sort_key id_of items"

record discovery =
  dv_unmatched :: "(string \<times> pydict) list"
  dv_merged :: "pydict list"
  dv_warnings :: "string list"

text \<open>The discovered device that an expected one is matched with: under its identifier, or under the first of its aliases.\<close>

definition match_discovered :: "string \<Rightarrow> pydict \<Rightarrow> (string \<times> pydict) list \<Rightarrow> string option" where
  "match_discovered device_id item unmatched =
     (if din device_id unmatched then Some device_id
      else find (\<lambda>a. din a unmatched) (names_of item ''matchIds''))"

definition offline_device :: "pydict \<Rightarrow> pydict" where
  "offline_device item =
     dmerge item
       [(''status'', if dgetn item ''status'' \<in> {PStr ''online'', PStr ''expected''} then PStr ''offline''
                     else dgetd item ''status'' (PStr ''offline'')),
        (''discovered'', PBool False)]"

definition merge_latency :: "pydict \<Rightarrow> pydict \<Rightarrow> pydict" where
  "merge_latency item actual = dmerge (dict_of (dgetd item ''latency'' (PDict []))) (dict_of (dgetd actual ''latency'' (PDict [])))"

definition merge_device :: "string \<Rightarrow> pydict \<Rightarrow> pydict \<Rightarrow> pyerr + pydict" where
  "merge_device device_id item actual =
     ebind (normalize_latency (PDict (merge_latency item actual))) (\<lambda>latency.
     Inr (dmerge (dmerge item actual)
       [(''id'', PStr device_id), (''discoveredId'', dgetn actual ''id''),
        (''capabilities'', strs (sorted_set (names_of item ''capabilities'' @ names_of actual ''capabilities''))),
        (''latency'', PDict latency), (''discovered'', PBool True)]))"

definition merge_step :: "string \<times> pydict \<Rightarrow> discovery \<Rightarrow> pyerr + discovery" where
  "merge_step entry acc =
     (let (device_id, item) = entry in
      case match_discovered device_id item (dv_unmatched acc) of
        None \<Rightarrow> Inr (acc\<lparr>dv_merged := dv_merged acc @ [offline_device item],
            dv_warnings := dv_warnings acc @ (if truthy (dgetd item ''optional'' (PBool False)) then [] else [''expected device offline: '' @ device_id])\<rparr>)
      | Some k \<Rightarrow>
          ebind (merge_device device_id item (dgetd (dv_unmatched acc) k [])) (\<lambda>merged.
          Inr (acc\<lparr>dv_unmatched := ddel (dv_unmatched acc) k, dv_merged := dv_merged acc @ [merged]\<rparr>)))"

definition unexpected_device :: "pydict \<Rightarrow> pydict" where
  "unexpected_device item = dmerge item [(''discovered'', PBool True), (''unexpected'', PBool True)]"

definition merge_discovered_devices :: "pydict list \<Rightarrow> pyval \<Rightarrow> pyerr + (pydict list \<times> string list)" where
  "merge_discovered_devices devices discovered =
     (let expected = devices_by_id devices in
      if discovered = PNone then Inr (sort_by_id (map (\<lambda>(k, item). dset item ''discovered'' PNone) expected), [])
      else
        ebind (normalize_devices discovered) (\<lambda>items.
        ebind (efold merge_step expected \<lparr>dv_unmatched = devices_by_id items, dv_merged = [], dv_warnings = []\<rparr>) (\<lambda>acc.
        let extra = map snd (dv_unmatched acc) in
        Inr (sort_by_id (dv_merged acc @ map unexpected_device extra),
             dv_warnings acc @ map (\<lambda>item. ''unprofiled device discovered: '' @ id_of item) extra))))"

section \<open>The plan\<close>

definition is_up :: "pydict \<Rightarrow> bool" where
  "is_up device = (dgetn device ''status'' = PStr ''online'' \<or> dgetn device ''status'' = PStr ''expected'')"

definition venue_participant :: "pydict \<Rightarrow> pydict list \<Rightarrow> pydict list \<Rightarrow> pyerr + participant" where
  "venue_participant profile devices humans =
     (let capabilities = names_of profile ''capabilities''
            @ concat (map (\<lambda>d. names_of d ''capabilities'') (filter is_up devices))
            @ concat (map (\<lambda>h. names_of h ''capabilities'') (filter (\<lambda>h. truthy (dgetn h ''available'')) humans)) in
      normalize_participant
        [(''id'', dgetd profile ''id'' (PStr ''venue'')), (''apiVersions'', por (dgetn profile ''apiVersions'') (ints [1])),
         (''schemaVersions'', por (dgetn profile ''schemaVersions'') (PDict [(''org.upp.show-state'', ints [1])])),
         (''capabilities'', strs (sorted_set capabilities)), (''adapters'', por (dgetn profile ''adapters'') (PList [])),
         (''preservesUnknown'', dgetd profile ''preservesUnknown'' (PBool True)),
         (''offlineCapable'', dgetd profile ''offlineCapable'' (PBool True))])"

datatype provider = DeviceProvider pydict | HumanProvider pydict

definition find_provider :: "string \<Rightarrow> pydict list \<Rightarrow> pydict list \<Rightarrow> provider option" where
  "find_provider capability devices humans =
     (case find (\<lambda>d. capability \<in> set (names_of d ''capabilities'') \<and> is_up d) devices of
        Some d \<Rightarrow> Some (DeviceProvider d)
      | None \<Rightarrow> map_option HumanProvider
          (find (\<lambda>h. capability \<in> set (names_of h ''capabilities'') \<and> truthy (dgetn h ''available'')) humans))"

definition provider_dict :: "provider \<Rightarrow> pydict" where
  "provider_dict p = (case p of
      DeviceProvider d \<Rightarrow>
        [(''type'', PStr ''device''), (''id'', dgetn d ''id''), (''name'', dgetd d ''name'' (dgetn d ''id'')),
         (''discoveredId'', dgetn d ''discoveredId''), (''discovered'', dgetn d ''discovered''),
         (''latency'', dgetd d ''latency'' (PDict []))]
    | HumanProvider h \<Rightarrow>
        [(''type'', PStr ''human''), (''id'', dgetn h ''id''), (''name'', dgetd h ''name'' (dgetn h ''id'')),
         (''authority'', dgetd h ''authority'' (PList []))])"

record timing_limits =
  tl_latency :: pyfloat
  tl_jitter :: pyfloat
  tl_timestamped :: bool

datatype timing =
    NotSpecified
  | NoDevice bool timing_limits
  | Measured timing_limits pyfloat pyfloat bool "string list"

definition timing_problems :: "timing_limits \<Rightarrow> pyfloat \<Rightarrow> pyfloat \<Rightarrow> bool \<Rightarrow> string list" where
  "timing_problems l fixed jitter timestamped =
     (if tl_latency l \<noteq> Fin 0 \<and> flt (tl_latency l) fixed
      then [''latency '' @ float_g fixed @ ''ms exceeds '' @ float_g (tl_latency l) @ ''ms''] else []) @
     (if tl_jitter l \<noteq> Fin 0 \<and> flt (tl_jitter l) jitter
      then [''jitter '' @ float_g jitter @ ''ms exceeds '' @ float_g (tl_jitter l) @ ''ms''] else []) @
     (if tl_timestamped l \<and> \<not> timestamped then [''timestamped execution unavailable''] else [])"

definition timing_assessment :: "pydict \<Rightarrow> provider option \<Rightarrow> pyerr + timing" where
  "timing_assessment requirement provider =
     (let limits = dict_of (dgetn requirement ''timing'') in
      if limits = [] then Inr NotSpecified
      else
        ebind (venue_float (dgetn limits ''maxLatencyMs'') (Fin 0)) (\<lambda>max_latency.
        ebind (venue_float (dgetn limits ''maxJitterMs'') (Fin 0)) (\<lambda>max_jitter.
        let l = \<lparr>tl_latency = max_latency, tl_jitter = max_jitter, tl_timestamped = get_bool limits ''timestamped'' False\<rparr> in
        case provider of
          Some (DeviceProvider d) \<Rightarrow>
            ebind (as_dict (por (dgetd d ''latency'' (PDict [])) (PDict []))) (\<lambda>latency.
            ebind (venue_float (dgetn latency ''fixedMs'') (Fin 0)) (\<lambda>fixed.
            ebind (venue_float (dgetn latency ''jitterMs'') (Fin 0)) (\<lambda>jitter.
            let timestamped = get_bool latency ''timestamped'' False in
            Inr (Measured l fixed jitter timestamped (timing_problems l fixed jitter timestamped)))))
        | _ \<Rightarrow> Inr (NoDevice (provider \<noteq> None) l))))"

definition found_problems :: "timing \<Rightarrow> string list" where
  "found_problems t = (case t of Measured _ _ _ _ ps \<Rightarrow> ps | _ \<Rightarrow> [])"

definition timing_blocked :: "timing \<Rightarrow> bool" where
  "timing_blocked t = (found_problems t \<noteq> [])"

definition limits_dict :: "timing_limits \<Rightarrow> pydict" where
  "limits_dict l = [(''maxLatencyMs'', PFloat (tl_latency l)), (''maxJitterMs'', PFloat (tl_jitter l)),
                    (''timestampedRequired'', PBool (tl_timestamped l))]"

definition timing_report_dict :: "timing \<Rightarrow> pydict" where
  "timing_report_dict t = (case t of
      NotSpecified \<Rightarrow> [(''required'', PBool False), (''status'', PStr ''not-specified'')]
    | NoDevice human l \<Rightarrow>
        [(''required'', PBool True), (''status'', PStr (if human then ''human-or-unknown'' else ''unavailable''))] @ limits_dict l
    | Measured l fixed jitter timestamped problems \<Rightarrow>
        [(''required'', PBool True), (''status'', PStr (if problems \<noteq> [] then ''blocked'' else ''compatible'')),
         (''fixedMs'', PFloat fixed), (''jitterMs'', PFloat jitter), (''timestamped'', PBool timestamped)] @
        limits_dict l @ [(''problems'', strs problems)])"

record plan_item =
  pi_id :: string
  pi_requirement :: pydict
  pi_decision :: "requirement_decision option"
  pi_provider :: "provider option"
  pi_timing :: timing
  pi_patch :: pyval

definition decisions_by_id :: "requirements_result \<Rightarrow> (string \<times> requirement_decision) list" where
  "decisions_by_id r = fold (\<lambda>d acc. dset acc (rd_id d) d) (rr_decisions r) []"

definition chosen_capability :: "requirement_decision option \<Rightarrow> string" where
  "chosen_capability decision = (case decision of
      None \<Rightarrow> []
    | Some d \<Rightarrow> (case rd_choice d of None \<Rightarrow> rd_preferred d | Some c \<Rightarrow> text_or (ch_capability c) (rd_preferred d)))"

definition plan_requirement ::
    "(string \<times> requirement_decision) list \<Rightarrow> pydict list \<Rightarrow> pydict list \<Rightarrow> pydict \<Rightarrow> pydict \<Rightarrow> pyerr + plan_item" where
  "plan_requirement decisions devices humans patch requirement =
     (let requirement_id = py_str (por (dgetn requirement ''id'') (por (dgetn requirement ''preferred'') (PStr ''requirement'')));
          decision = dget decisions requirement_id;
          capability = chosen_capability decision;
          provider = (if capability = [] then None else find_provider capability devices humans) in
      ebind (timing_assessment requirement provider) (\<lambda>t.
      Inr \<lparr>pi_id = requirement_id, pi_requirement = requirement, pi_decision = decision, pi_provider = provider, pi_timing = t,
           pi_patch = dgetn patch (py_str (por (dgetn requirement ''patchKey'') (PStr requirement_id)))\<rparr>))"

definition timing_blocker :: "plan_item \<Rightarrow> string list" where
  "timing_blocker i =
     (if timing_blocked (pi_timing i) \<and> truthy (dgetd (pi_requirement i) ''required'' (PBool True))
      then [''timing blocked: '' @ pi_id i @ '': '' @ join ''; '' (found_problems (pi_timing i))] else [])"

definition decision_required :: "plan_item \<Rightarrow> bool" where
  "decision_required i = (case pi_decision i of None \<Rightarrow> False | Some d \<Rightarrow> rd_required d)"

definition preferred_of :: "plan_item \<Rightarrow> string" where
  "preferred_of i = (case pi_decision i of None \<Rightarrow> [] | Some d \<Rightarrow> rd_preferred d)"

definition needs_patch :: "plan_item \<Rightarrow> bool" where
  "needs_patch i = (decision_required i \<and> pi_provider i \<noteq> None \<and> pi_patch i = PNone)"

definition quality_grade :: "bool \<Rightarrow> int \<Rightarrow> string" where
  "quality_grade blocked score =
     (if blocked then ''blocked'' else if 100 \<le> score then ''direct'' else if 95 \<le> score then ''equivalent''
      else if 80 \<le> score then ''acceptable'' else ''degraded'')"

definition is_human_provider :: "provider option \<Rightarrow> bool" where
  "is_human_provider p = (case p of Some (HumanProvider _) \<Rightarrow> True | _ \<Rightarrow> False)"

record department =
  dp_domain :: string
  dp_requirements :: nat
  dp_blocked :: nat
  dp_minimum :: int
  dp_human :: nat

definition requirement_lookup :: "pydict list \<Rightarrow> (string \<times> pydict) list" where
  "requirement_lookup requirements = fold (\<lambda>r acc. dset acc (py_str (dgetn r ''id'')) r) requirements []"

definition domain_of :: "(string \<times> pydict) list \<Rightarrow> plan_item \<Rightarrow> string" where
  "domain_of known i = py_str (dgetd (dgetd known (pi_id i) []) ''domain'' (PStr ''other''))"

definition decision_is_blocked :: "plan_item \<Rightarrow> bool" where
  "decision_is_blocked i = (case pi_decision i of None \<Rightarrow> False | Some d \<Rightarrow> decision_blocked d)"

definition count_in :: "plan_item \<Rightarrow> department \<Rightarrow> department" where
  "count_in i d =
     d\<lparr>dp_requirements := dp_requirements d + 1,
       dp_minimum := (case pi_decision i of
           Some x \<Rightarrow> if rd_required x then min (dp_minimum d) (decision_score x) else dp_minimum d
         | None \<Rightarrow> dp_minimum d),
       dp_blocked := (if decision_is_blocked i \<or> timing_blocked (pi_timing i) then dp_blocked d + 1 else dp_blocked d),
       dp_human := (if is_human_provider (pi_provider i) then dp_human d + 1 else dp_human d)\<rparr>"

definition department_step ::
    "(string \<times> pydict) list \<Rightarrow> plan_item \<Rightarrow> (string \<times> department) list \<Rightarrow> (string \<times> department) list" where
  "department_step known i acc =
     (let domain = domain_of known i;
          d = dgetd acc domain \<lparr>dp_domain = domain, dp_requirements = 0, dp_blocked = 0, dp_minimum = 100, dp_human = 0\<rparr>
      in dset acc domain (count_in i d))"

definition department_dict :: "department \<Rightarrow> pydict" where
  "department_dict d =
     [(''domain'', PStr (dp_domain d)), (''requirements'', PInt (int (dp_requirements d))), (''blocked'', PInt (int (dp_blocked d))),
      (''minimumQualityScore'', PInt (dp_minimum d)), (''humanAssisted'', PInt (int (dp_human d))),
      (''grade'', PStr (quality_grade (dp_blocked d \<noteq> 0) (dp_minimum d)))]"

definition item_actions :: "plan_item \<Rightarrow> pydict list" where
  "item_actions i =
     (case pi_provider i of
        Some (HumanProvider h) \<Rightarrow>
          [[(''type'', PStr ''confirm-human''), (''requirement'', PStr (pi_id i)), (''provider'', dgetn h ''id''),
            (''message'', PStr (''Confirm human-assisted capability for '' @ pi_id i))]]
      | _ \<Rightarrow> []) @
     (case map_option rd_choice (pi_decision i) of
        Some (Some c) \<Rightarrow> (case ch_mode c of
            ViaAdapter a \<Rightarrow>
              [[(''type'', PStr ''verify-adapter''), (''requirement'', PStr (pi_id i)), (''from'', PStr (ad_from a)), (''to'', PStr (ad_to a)),
                (''message'', PStr (''Verify explicit adapter for '' @ pi_id i))]]
          | _ \<Rightarrow> [])
      | _ \<Rightarrow> []) @
     (if needs_patch i
      then [[(''type'', PStr ''patch''), (''requirement'', PStr (pi_id i)),
             (''message'', PStr (''Patch logical requirement '' @ pi_id i @ '' to venue hardware''))]] else []) @
     map (\<lambda>p. [(''type'', PStr ''timing''), (''requirement'', PStr (pi_id i)), (''message'', PStr p)]) (found_problems (pi_timing i))"

record venue_plan =
  vp_profile :: pydict
  vp_report :: pydict
  vp_execution :: requirements_result
  vp_items :: "plan_item list"
  vp_departments :: "department list"
  vp_devices :: "pydict list"
  vp_humans :: "pydict list"
  vp_warnings :: "string list"
  vp_blockers :: "string list"

definition venue_dicts :: "pydict \<Rightarrow> string \<Rightarrow> pydict list" where
  "venue_dicts d k = map dict_of (list_of (dgetn d k))"

definition execution_blockers :: "requirements_result \<Rightarrow> string list" where
  "execution_blockers r = map (\<lambda>d. ''show requirement blocked: '' @ rd_id d) (filter decision_blocked (rr_decisions r))"

definition venue_compatibility_plan :: "pyval \<Rightarrow> pydict list \<Rightarrow> pyval \<Rightarrow> pyerr + venue_plan" where
  "venue_compatibility_plan profile_data requirements discovered =
     ebind (inspect_venue_profile profile_data) (\<lambda>report.
     if \<not> truthy (dgetn report ''readable'')
     then Inl (ValueError (py_str (dgetd report ''reason'' (PStr ''venue profile is not readable by this core''))))
     else
       ebind (normalize_venue_profile (dict_of profile_data)) (\<lambda>profile.
       ebind (merge_discovered_devices (venue_dicts profile ''devices'') discovered) (\<lambda>(devices, warnings).
       let humans = venue_dicts profile ''humans'' in
       ebind (venue_participant profile devices humans) (\<lambda>participant.
       ebind (resolve_requirements (participant_dict participant) (map PDict requirements)) (\<lambda>execution.
       ebind (emap (plan_requirement (decisions_by_id execution) devices humans (dict_of (dgetn profile ''patch''))) requirements) (\<lambda>items.
       Inr \<lparr>vp_profile = profile, vp_report = report, vp_execution = execution, vp_items = items,
            vp_departments = map snd (sort_key fst (fold (department_step (requirement_lookup requirements)) items [])),
            vp_devices = devices, vp_humans = humans, vp_warnings = warnings,
            vp_blockers = execution_blockers execution @ concat (map timing_blocker items)\<rparr>))))))"

definition required_unmapped :: "venue_plan \<Rightarrow> string list" where
  "required_unmapped p = map pi_id (filter (\<lambda>i. needs_patch i \<and>
     (startswith (preferred_of i) ''audio.'' \<or> startswith (preferred_of i) ''lighting.'' \<or> startswith (preferred_of i) ''midi.'')) (vp_items p))"

definition plan_readiness :: "venue_plan \<Rightarrow> string" where
  "plan_readiness p = (if vp_blockers p \<noteq> [] then ''blocked'' else if required_unmapped p \<noteq> [] then ''needs-patch'' else ''ready'')"

definition plan_actions :: "venue_plan \<Rightarrow> pydict list" where
  "plan_actions p =
     concat (map item_actions (vp_items p)) @
     map (\<lambda>w. [(''type'', PStr ''discovery''), (''message'', PStr w)]) (vp_warnings p) @
     map (\<lambda>b. [(''type'', PStr ''blocker''), (''message'', PStr b)]) (vp_blockers p)"

definition plan_item_dict :: "plan_item \<Rightarrow> pydict" where
  "plan_item_dict i =
     [(''id'', PStr (pi_id i)),
      (''decision'', PDict (case pi_decision i of None \<Rightarrow> [] | Some d \<Rightarrow> requirement_dict d)),
      (''provider'', (case pi_provider i of None \<Rightarrow> PNone | Some p \<Rightarrow> PDict (provider_dict p))),
      (''timing'', PDict (timing_report_dict (pi_timing i))), (''patch'', pi_patch i),
      (''patchStatus'', PStr (if pi_patch i \<noteq> PNone then ''mapped'' else ''unmapped''))]"

definition venue_plan_dict :: "venue_plan \<Rightarrow> pydict" where
  "venue_plan_dict p =
     [(''compatible'', PBool (vp_blockers p = [])),
      (''grade'', PStr (quality_grade (vp_blockers p \<noteq> []) (rr_minimum (vp_execution p)))),
      (''readiness'', PStr (plan_readiness p)),
      (''venue'', PDict (filter (\<lambda>(k, _). k \<notin> {''devices'', ''humans'', ''adapters'', ''patch''}) (vp_profile p))),
      (''profileCompatibility'', PDict (vp_report p)), (''execution'', PDict (requirements_dict (vp_execution p))),
      (''devicePlan'', PList (map (PDict \<circ> plan_item_dict) (vp_items p))),
      (''departments'', PList (map (PDict \<circ> department_dict) (vp_departments p))),
      (''actions'', PList (map PDict (plan_actions p))), (''devices'', PList (map PDict (vp_devices p))),
      (''humans'', PList (map PDict (vp_humans p))), (''patch'', dgetn (vp_profile p) ''patch''),
      (''humanAssistedRequirements'', PInt (int (length (filter (is_human_provider \<circ> pi_provider) (vp_items p))))),
      (''unmappedRequired'', strs (required_unmapped p)), (''discoveryWarnings'', strs (vp_warnings p)),
      (''blockers'', strs (vp_blockers p))]"

section \<open>The store\<close>

datatype venue_file =
    NoVenueFile
  | UnreadableVenue
  | VenueNotText
  | VenueNotJson
  | VenueDocument pyval

record venue_store =
  vs_file :: venue_file

text \<open>A text that is not UTF-8 raises \<open>UnicodeDecodeError\<close>, a \<open>ValueError\<close> which is not among the errors \<open>load\<close> catches.\<close>

definition load_venue_profile :: "venue_store \<Rightarrow> pyerr + pydict" where
  "load_venue_profile s =
     (let unavailable = normalize_venue_profile [(''id'', PStr ''invalid''), (''name'', PStr ''Venue profile unavailable'')] in
      case vs_file s of
        NoVenueFile \<Rightarrow> normalize_venue_profile [(''id'', PStr ''unassigned''), (''name'', PStr ''No venue selected'')]
      | UnreadableVenue \<Rightarrow> unavailable
      | VenueNotText \<Rightarrow> Inl (ValueError ''codec cannot decode'')
      | VenueNotJson \<Rightarrow> unavailable
      | VenueDocument v \<Rightarrow> normalize_venue_profile (dict_of v))"

definition save_venue_profile :: "bool \<Rightarrow> pyval \<Rightarrow> (venue_store, pydict) pymethod" where
  "save_venue_profile writable profile =
     sbind (slift (inspect_venue_profile profile)) (\<lambda>report.
     sthen (sguard (truthy (dgetn report ''readable''))
       (ValueError (py_str (dgetd report ''reason'' (PStr ''venue profile is not readable by this core'')))))
     (sbind (slift (normalize_venue_profile (dict_of profile))) (\<lambda>n.
     sthen (if writable then smodify (\<lambda>s. s\<lparr>vs_file := VenueDocument (json_sorted (PDict n))\<rparr>) else sraise OSError)
     (sreturn n))))"

section \<open>Lighting intents stay on the wire\<close>

lemma round_half_even_between:
  assumes "of_int a \<le> r" and "r \<le> of_int b"
  shows "a \<le> round_half_even r \<and> round_half_even r \<le> b"
proof -
  have "a \<le> \<lfloor>r\<rfloor>" using assms(1) by (simp add: le_floor_iff)
  moreover have "\<lfloor>r\<rfloor> + 1 \<le> b" if "0 < r - of_int \<lfloor>r\<rfloor>"
    using that assms(2) by linarith
  moreover have "\<lfloor>r\<rfloor> \<le> b" using assms(2) by linarith
  ultimately show ?thesis by (auto simp: round_half_even_def Let_def)
qed

lemma lighting_value_between:
  assumes "0 \<le> r" and "r \<le> 1" and "ls_minimum sp \<le> ls_maximum sp"
  shows "ls_minimum sp \<le> lighting_value sp r \<and> lighting_value sp r \<le> ls_maximum sp"
proof -
  let ?e = "if ls_invert sp then 1 - r else r" and ?d = "of_int (ls_maximum sp - ls_minimum sp) :: rat"
  have e: "0 \<le> ?e" "?e \<le> 1" and d: "0 \<le> ?d" using assms by auto
  have "of_int (ls_minimum sp) \<le> of_int (ls_minimum sp) + ?e * ?d" using mult_nonneg_nonneg [OF e(1) d] by simp
  moreover have "?e * ?d \<le> ?d" using mult_right_mono [OF e(2) d] by simp
  then have "of_int (ls_minimum sp) + ?e * ?d \<le> of_int (ls_maximum sp)" by simp
  ultimately show ?thesis unfolding lighting_value_def Let_def by (rule round_half_even_between)
qed

lemma unit_interval_eq: "unit_interval f = Inr r \<longleftrightarrow> f = Fin r \<and> 0 \<le> r \<and> r \<le> 1"
  by (cases f) (auto simp: unit_interval_def)

lemma resolved_intent:
  assumes "resolve_lighting_fixture_intent mapping fixture_id parameter v = Inr i"
  obtains sp r address where "0 \<le> li_universe i" "li_universe i < 16" "1 \<le> address" "0 \<le> ls_offset sp" "li_channel i = address + ls_offset sp"
    "li_channel i \<le> 512" "0 \<le> ls_minimum sp" "ls_minimum sp \<le> ls_maximum sp" "ls_maximum sp \<le> 255"
    "li_normalized i = Fin r" "0 \<le> r" "r \<le> 1" "li_value i = lighting_value sp r"
    "parameter_spec (li_fixture i) (li_parameter i) (dgetn (dict_of (dgetn (dict_of (dgetn (dict_of (dgetn (dict_of (dgetn
       (if is_dict (dgetn (dict_of mapping) ''patch'') then dict_of (dgetn (dict_of mapping) ''patch'') else dict_of mapping)
       ''execution'')) ''fixtures'')) (li_fixture i))) ''parameters'')) (li_parameter i)) = Inr sp"
  using assms
  by (auto simp: resolve_lighting_fixture_intent_def Let_def ebind_eq_Inr unit_interval_eq not_less not_le split: if_splits prod.splits)

text \<open>
  C34. A portable lighting intent never leaves the DMX domain of the venue: whatever the active mapping, the fixture, the
  parameter and the value are, \<open>resolve_lighting_fixture_intent\<close> either raises or gives a universe below 16, a channel from 1 to 512 and
  a value from 0 to 255 for a normalised value from 0 to 1; and with the minimum and maximum that the mapping declares for the parameter,
  the value lies between them.
\<close>

theorem lighting_intent_in_domain:
  assumes "resolve_lighting_fixture_intent mapping fixture_id parameter v = Inr i"
  shows "0 \<le> li_universe i \<and> li_universe i < 16 \<and> 1 \<le> li_channel i \<and> li_channel i \<le> 512 \<and> 0 \<le> li_value i \<and> li_value i \<le> 255 \<and>
    (\<exists>r sp. li_normalized i = Fin r \<and> 0 \<le> r \<and> r \<le> 1 \<and> ls_minimum sp \<le> li_value i \<and> li_value i \<le> ls_maximum sp \<and>
       parameter_spec (li_fixture i) (li_parameter i) (dgetn (dict_of (dgetn (dict_of (dgetn (dict_of (dgetn (dict_of (dgetn
         (if is_dict (dgetn (dict_of mapping) ''patch'') then dict_of (dgetn (dict_of mapping) ''patch'') else dict_of mapping)
         ''execution'')) ''fixtures'')) (li_fixture i))) ''parameters'')) (li_parameter i)) = Inr sp)"
  using assms
proof (cases rule: resolved_intent)
  case (1 sp r address)
  have "ls_minimum sp \<le> li_value i \<and> li_value i \<le> ls_maximum sp"
    using lighting_value_between [OF 1(11,12,8)] 1(13) by simp
  with 1 show ?thesis by (intro conjI exI [of _ r] exI [of _ sp]) linarith+
qed

definition demo_mapping :: pyval where
  "demo_mapping = PDict [(''execution'', PDict [(''fixtures'', PDict [(''par'', PDict [(''universe'', PInt 2), (''address'', PInt 500),
     (''parameters'', PDict [(''dim'', PDict [(''offset'', PInt 12), (''minimum'', PInt 20), (''maximum'', PInt 201), (''invert'', PBool True)])])])])])]"

lemma demo_intent:
  "resolve_lighting_fixture_intent demo_mapping (PStr ''par'') (PStr ''dim'') (PFloat (Fin (1/2))) =
     Inr \<lparr>li_fixture = ''par'', li_parameter = ''dim'', li_normalized = Fin (1/2), li_universe = 2, li_channel = 512, li_value = 110\<rparr>"
proof -
  have half: "\<lfloor>221 / 2 :: rat\<rfloor> = 110" "\<lfloor>181 / 2 :: rat\<rfloor> = 90" by (rule floor_unique; simp)+
  have "clean_str 128 (PStr ''par'') = ''par''" "clean_str 128 (PStr ''dim'') = ''dim''" by code_simp+
  moreover have "lighting_value \<lparr>ls_offset = 12, ls_minimum = 20, ls_maximum = 201, ls_invert = True\<rparr> (1/2) = 110"
    by (simp add: lighting_value_def round_half_even_def Let_def half)
  ultimately show ?thesis
    by (simp add: resolve_lighting_fixture_intent_def demo_mapping_def dgetn_def dgetd_def Let_def get_int_def get_bool_def converted_def
        parameter_spec_def unit_interval_def)
qed

theorem lighting_intent_in_domain_witness:
  "\<exists>i. resolve_lighting_fixture_intent demo_mapping (PStr ''par'') (PStr ''dim'') (PFloat (Fin (1/2))) = Inr i \<and>
     li_channel i \<le> 512 \<and> li_value i \<le> 255 \<and> li_value i = 110"
  using lighting_intent_in_domain [OF demo_intent] demo_intent by auto

section \<open>Discovery\<close>

lemma devices_by_id_keys:
  "\<forall>(k, d) \<in> set (devices_by_id items). id_of d = k" "dwf (devices_by_id items)" "set (dkeys (devices_by_id items)) = id_of ` set items"
proof -
  have "(\<forall>(k, d) \<in> set (fold (\<lambda>item d. dset d (id_of item) item) items acc). id_of d = k) \<and>
      dwf (fold (\<lambda>item d. dset d (id_of item) item) items acc) \<and>
      set (dkeys (fold (\<lambda>item d. dset d (id_of item) item) items acc)) = set (dkeys acc) \<union> id_of ` set items"
    if "\<forall>(k, d) \<in> set acc. id_of d = k" "dwf acc" for acc
    using that
  proof (induction items arbitrary: acc)
    case (Cons x items)
    have "set (dset acc k v) \<subseteq> insert (k, v) (set acc)" for k v by (induction acc k v rule: dset.induct) auto
    then have "\<forall>(k, d) \<in> set (dset acc (id_of x) x). id_of d = k" using Cons.prems(1) by fastforce
    from Cons.IH [OF this] Cons.prems(2) show ?case by (auto simp: dkeys_dset)
  qed simp
  from this [of "[]"] show "\<forall>(k, d) \<in> set (devices_by_id items). id_of d = k" "dwf (devices_by_id items)" "set (dkeys (devices_by_id items)) = id_of ` set items"
    by (simp_all add: devices_by_id_def dkeys_def)
qed

lemma id_of_merged: "merge_device k item actual = Inr m \<Longrightarrow> id_of m = k"
  by (auto simp: merge_device_def ebind_eq_Inr id_of_def dgetn_def dgetd_def dget_dmerge dwf_def dkeys_def)

lemma id_of_kept: "id_of (offline_device item) = id_of item" "id_of (unexpected_device item) = id_of item"
  "id_of (dset item ''discovered'' v) = id_of item"
  by (simp_all add: id_of_def offline_device_def unexpected_device_def dgetn_def dgetd_def dget_dmerge dwf_def dkeys_def)

lemma dkeys_ddel: "set (dkeys (ddel d k)) = set (dkeys d) - {k}"
  by (auto simp: dkeys_def ddel_def)

lemma set_ddel: "set (ddel d k) \<subseteq> set d"
  by (auto simp: ddel_def)

text \<open>The loop: one merged device for each expected one, in order, and no expected identifier is left among the unmatched.\<close>

lemma merge_loop:
  assumes "efold merge_step expected acc = Inr acc'" and "\<forall>(k, d) \<in> set expected. id_of d = k"
    and "dwf (dv_unmatched acc)" and "\<forall>(k, d) \<in> set (dv_unmatched acc). id_of d = k"
  shows "map id_of (dv_merged acc') = map id_of (dv_merged acc) @ map fst expected \<and>
    set (dkeys (dv_unmatched acc')) \<subseteq> set (dkeys (dv_unmatched acc)) - fst ` set expected \<and>
    dwf (dv_unmatched acc') \<and> (\<forall>(k, d) \<in> set (dv_unmatched acc'). id_of d = k)"
  using assms
proof (induction expected arbitrary: acc)
  case Nil
  then show ?case by simp
next
  case (Cons e expected)
  obtain k item where e: "e = (k, item)" by fastforce
  from Cons.prems(1) obtain mid where mid: "merge_step e acc = Inr mid" "efold merge_step expected mid = Inr acc'"
    by (auto simp: ebind_eq_Inr)
  have k: "id_of item = k" using Cons.prems(2) e by simp
  have "\<exists>m. id_of m = k \<and> dv_merged mid = dv_merged acc @ [m] \<and> set (dkeys (dv_unmatched mid)) \<subseteq> set (dkeys (dv_unmatched acc)) - {k} \<and>
      dwf (dv_unmatched mid) \<and> (\<forall>(k, d) \<in> set (dv_unmatched mid). id_of d = k)"
  proof (cases "match_discovered k item (dv_unmatched acc)")
    case None
    then have "k \<notin> set (dkeys (dv_unmatched acc))" by (auto simp: match_discovered_def din_iff split: if_splits)
    with None mid(1) e k Cons.prems(3,4) show ?thesis by (auto simp: merge_step_def id_of_kept)
  next
    case (Some j)
    with mid(1) e obtain merged where m: "merge_device k item (dgetd (dv_unmatched acc) j []) = Inr merged"
        "mid = acc\<lparr>dv_unmatched := ddel (dv_unmatched acc) j, dv_merged := dv_merged acc @ [merged]\<rparr>"
      by (auto simp: merge_step_def ebind_eq_Inr)
    have "j = k \<or> k \<notin> set (dkeys (dv_unmatched acc))"
      using Some by (auto simp: match_discovered_def din_iff split: if_splits)
    then have "set (dkeys (ddel (dv_unmatched acc) j)) \<subseteq> set (dkeys (dv_unmatched acc)) - {k}" by (auto simp: dkeys_ddel)
    moreover have "\<forall>(k, d) \<in> set (ddel (dv_unmatched acc) j). id_of d = k" using Cons.prems(4) set_ddel by blast
    ultimately show ?thesis using m id_of_merged [OF m(1)] Cons.prems(3) by simp
  qed
  then obtain m where m: "id_of m = k" "dv_merged mid = dv_merged acc @ [m]"
      "set (dkeys (dv_unmatched mid)) \<subseteq> set (dkeys (dv_unmatched acc)) - {k}" "dwf (dv_unmatched mid)"
      "\<forall>(k, d) \<in> set (dv_unmatched mid). id_of d = k" by blast
  have "\<forall>(k, d) \<in> set expected. id_of d = k" using Cons.prems(2) by simp
  from Cons.IH [OF mid(2) this m(4,5)] m(1-3) e show ?case by auto
qed

lemma distinct_sorted_by: "distinct (map f xs) \<Longrightarrow> distinct (map f (sort_key f xs))"
  by (auto simp: distinct_map)

lemma map_id_by_id: "map fst (devices_by_id devices) = map id_of (map snd (devices_by_id devices))"
  using devices_by_id_keys(1) [of devices] by (auto intro!: map_cong)

text \<open>
  Discovery neither loses nor doubles a device (\<open>merge_discovered_devices\<close>): whatever discovery reports, under identifiers or
  aliases, repeated or not, the merged list has exactly one entry for every device of the profile, no two
  entries with the same identifier, and is sorted by identifier; without discovery evidence it has the devices of the profile and nothing else.
\<close>

theorem merged_devices_complete:
  assumes "merge_discovered_devices devices discovered = Inr (merged, warnings)"
  shows "distinct (map id_of merged) \<and> id_of ` set devices \<subseteq> id_of ` set merged \<and> sorted (map id_of merged) \<and>
    (if discovered = PNone then id_of ` set merged = id_of ` set devices else True)"
proof -
  let ?e = "devices_by_id devices"
  have d: "distinct (map fst ?e)" "set (map fst ?e) = id_of ` set devices"
    using devices_by_id_keys(2,3) [of devices] by (simp_all add: dwf_def dkeys_def)
  show ?thesis
  proof (cases "discovered = PNone")
    case True
    have "map id_of (map (\<lambda>(k, item). dset item ''discovered'' PNone) ?e) = map fst ?e"
      using devices_by_id_keys(1) [of devices] by (auto simp: id_of_kept)
    then have "distinct (map id_of (map (\<lambda>(k, item). dset item ''discovered'' PNone) ?e))"
      "id_of ` set (map (\<lambda>(k, item). dset item ''discovered'' PNone) ?e) = id_of ` set devices"
      using d by (metis, metis set_map)
    then show ?thesis using assms True
      by (auto simp: merge_discovered_devices_def Let_def sort_by_id_def intro: distinct_sorted_by)
  next
    case False
    with assms obtain items acc where run: "efold merge_step ?e \<lparr>dv_unmatched = devices_by_id items, dv_merged = [], dv_warnings = []\<rparr> = Inr acc"
      and m: "merged = sort_by_id (dv_merged acc @ map unexpected_device (map snd (dv_unmatched acc)))"
      by (auto simp: merge_discovered_devices_def Let_def ebind_eq_Inr)
    from merge_loop [OF run devices_by_id_keys(1)] devices_by_id_keys(1,2) [of items]
    have l: "map id_of (dv_merged acc) = map fst ?e" "fst ` set (dv_unmatched acc) \<inter> fst ` set ?e = {}" "distinct (map fst (dv_unmatched acc))"
      "\<forall>(k, d) \<in> set (dv_unmatched acc). id_of d = k"
      by (auto simp: dkeys_def dwf_def)
    define everything where "everything = dv_merged acc @ map unexpected_device (map snd (dv_unmatched acc))"
    have "map id_of (map unexpected_device (map snd (dv_unmatched acc))) = map fst (dv_unmatched acc)"
      using l(4) by (auto simp: id_of_kept)
    then have ids: "map id_of everything = map fst ?e @ map fst (dv_unmatched acc)"
      unfolding everything_def using l(1) by (simp only: map_append)
    then have "distinct (map id_of everything)" using d(1) l(2,3) by auto
    moreover have "id_of ` set devices \<subseteq> id_of ` set everything"
    proof -
      have "id_of ` set everything = set (map fst ?e @ map fst (dv_unmatched acc))" unfolding ids [symmetric] by simp
      then show ?thesis using d(2) by auto
    qed
    moreover have "merged = sort_key id_of everything" using m by (simp add: sort_by_id_def everything_def)
    ultimately show ?thesis using False by (simp add: distinct_sorted_by)
  qed
qed

section \<open>What discovery does to the latency\<close>

lemma latency_defaults:
  assumes "normalize_latency v = Inr l" and "\<not> is_dict v"
  shows "dget l ''fixedMs'' = Some (PFloat (Fin 0))" "dget l ''jitterMs'' = Some (PFloat (Fin 0))"
  using assms by (cases v;
      auto simp: normalize_latency_def dict_of_def Let_def venue_float_def dgetn_def dgetd_def is_type_or_value_def dget_dmerge dwf_def dkeys_def
        fmax_def)+

lemma normalize_latency_zero:
  assumes "normalize_latency (PDict raw) = Inr l" and "dget raw k = Some (PFloat (Fin 0))" and "k = ''fixedMs'' \<or> k = ''jitterMs''"
  shows "dget l k = Some (PFloat (Fin 0))"
  using assms
  by (auto simp: normalize_latency_def Let_def ebind_eq_Inr venue_float_def dgetn_def dgetd_def dget_dmerge dwf_def dkeys_def fmax_def)

lemma decided_required:
  assumes "resolve_requirements participant_data requirements = Inr r" and "d \<in> set (rr_decisions r)"
  shows "rd_required d = truthy (dgetd (rd_raw d) ''required'' (PBool True))"
proof -
  from assms(1) obtain p where "r = resolve_for p requirements" by (auto simp: resolve_requirements_def ebind_eq_Inr)
  then have "rr_decisions r = map (decide_requirement p) (requirement_dicts requirements)"
    using resolve_fold(1) [of p requirements] by (simp add: resolve_for_def)
  with assms(2) show ?thesis by (auto simp: decide_requirement_def Let_def)
qed

text \<open>The problems an assessment lists are those of what it measured.\<close>

lemma measured_problems:
  assumes "timing_assessment requirement provider = Inr (Measured l fixed jitter timestamped problems)"
  shows "problems = timing_problems l fixed jitter timestamped"
proof (cases provider)
  case None
  with assms show ?thesis by (auto simp: timing_assessment_def Let_def ebind_eq_Inr split: if_splits)
next
  case (Some x)
  with assms show ?thesis by (cases x) (auto simp: timing_assessment_def Let_def ebind_eq_Inr split: if_splits)
qed

lemma merge_zero:
  assumes "normalize_latency v = Inr l" and "\<not> is_dict v" and "k = ''fixedMs'' \<or> k = ''jitterMs''"
  shows "dwf l \<and> dget l k = Some (PFloat (Fin 0))"
proof -
  have "dict_of v = []" using assms(2) by (cases v) (auto simp: dict_of_def)
  then have "dwf l" using assms(1) by (auto simp: normalize_latency_def Let_def ebind_eq_Inr)
  with latency_defaults [OF assms(1,2)] assms(3) show ?thesis by auto
qed

lemma no_problem_at_zero: "\<not> flt (fmax (Fin 0) f) (Fin 0)"
  by (cases f) (auto simp: fmax_def)



section \<open>Concrete venues\<close>

definition demo_device :: "string \<Rightarrow> pyval list \<Rightarrow> pydict" where
  "demo_device i aliases =
     [(''id'', PStr i), (''status'', PStr ''online''), (''capabilities'', strs [''audio.out'']), (''matchIds'', PList aliases),
      (''latency'', PDict [(''fixedMs'', PFloat (Fin 5)), (''jitterMs'', PFloat (Fin 0))])]"

definition demo_profile :: pyval where
  "demo_profile = PDict [(''id'', PStr ''hall''), (''devices'', PList [PDict (demo_device ''desk'' [])])]"

definition demo_requirement :: pydict where
  "demo_requirement = [(''id'', PStr ''out''), (''preferred'', PStr ''audio.out''), (''timing'', PDict [(''maxLatencyMs'', PFloat (Fin 10))])]"

lemma demo_hall_plan: "case venue_compatibility_plan demo_profile [demo_requirement] PNone of Inr p \<Rightarrow> vp_blockers p = [] | Inl _ \<Rightarrow> False"
  by code_simp

lemma demo_merge:
  "case merge_discovered_devices [demo_device ''a'' [PStr ''b''], demo_device ''b'' []] (PList [PDict [(''id'', PStr ''b'')]]) of
     Inr (merged, warnings) \<Rightarrow> map (\<lambda>d. (id_of d, dgetn d ''discovered'')) merged = [(''a'', PBool True), (''b'', PBool False)] \<and>
       warnings = [''expected device offline: b'']
   | Inl _ \<Rightarrow> False"
  by code_simp

theorem merged_devices_complete_witness:
  "\<exists>merged warnings. merge_discovered_devices [demo_device ''a'' [PStr ''b''], demo_device ''b'' []] (PList [PDict [(''id'', PStr ''b'')]])
       = Inr (merged, warnings) \<and>
     distinct (map id_of merged) \<and> {''a'', ''b''} \<subseteq> id_of ` set merged"
proof -
  let ?d = "[demo_device ''a'' [PStr ''b''], demo_device ''b'' []]" and ?x = "PList [PDict [(''id'', PStr ''b'')]]"
  obtain merged warnings where m: "merge_discovered_devices ?d ?x = Inr (merged, warnings)"
    using demo_merge by (auto split: sum.splits prod.splits)
  have "id_of (demo_device i as) = i" for i as by (simp add: id_of_def demo_device_def dgetn_def dgetd_def)
  with merged_devices_complete [OF m] m show ?thesis by auto
qed


lemma demo_reported:
  "case normalize_device [(''id'', PStr ''desk'')] 0 of
     Inr actual \<Rightarrow> (case merge_device ''desk'' (demo_device ''desk'' []) actual of Inr merged \<Rightarrow> True | Inl _ \<Rightarrow> False) | Inl _ \<Rightarrow> False"
  by code_simp


end
