(* ===== verification/Peer_Replication.thy ===== *)
theory Peer_Replication
  imports Py_Monad
begin

text \<open>
  \<^verbatim>\<open>src/backend/peer_replication.py\<close>: the client that pushes signed envelopes and handoff receipts to a peer, and the counters from
  which operators see whether they arrive.  The answer of the network and the readings of the monotonic clock are arguments.
\<close>

text \<open>What a request comes to: an answer with a status, an \<open>HTTPError\<close> with its code, or another error with its text.\<close>

datatype network_outcome =
    Answered int
  | RefusedWith int
  | NotReached string

record push_result =
  pr_ok :: bool
  pr_status :: int
  pr_error :: "string option"

record push_client =
  pc_url :: string
  pc_timeout :: pyfloat
  pc_last_attempt :: pyfloat
  pc_last_success :: pyfloat
  pc_last_revision :: int
  pc_pushes :: nat
  pc_failures :: nat
  pc_last_error :: "string option"
  pc_last_status :: int
  pc_ready_attempts :: nat
  pc_ready_deliveries :: nat
  pc_ready_failures :: nat
  pc_ready_error :: "string option"

definition new_push_client :: "string \<Rightarrow> pyfloat \<Rightarrow> push_client" where
  "new_push_client peer_url timeout =
     \<lparr>pc_url = rstrip_char (CHR ''/'') peer_url, pc_timeout = fmax (Fin (5 / 100)) (fmin timeout (Fin 5)), pc_last_attempt = Fin 0,
      pc_last_success = Fin 0, pc_last_revision = 0, pc_pushes = 0, pc_failures = 0, pc_last_error = None, pc_last_status = 0,
      pc_ready_attempts = 0, pc_ready_deliveries = 0, pc_ready_failures = 0, pc_ready_error = None\<rparr>"

definition peer_configured :: "push_client \<Rightarrow> bool" where
  "peer_configured c = (startswith (pc_url c) ''http://'' \<or> startswith (pc_url c) ''https://'')"

definition is_success :: "int \<Rightarrow> bool" where
  "is_success status = (200 \<le> status \<and> status < 300)"

text \<open>The status and the error text of a push that did not succeed.\<close>

definition push_failure :: "network_outcome \<Rightarrow> int \<times> string" where
  "push_failure r = (case r of
      Answered status \<Rightarrow> (0, ''peer returned HTTP '' @ show_int status)
    | RefusedWith code \<Rightarrow> (code, ''peer HTTP '' @ show_int code)
    | NotReached reason \<Rightarrow> (0, reason))"

definition record_push_failure :: "int \<Rightarrow> string \<Rightarrow> push_client \<Rightarrow> push_client" where
  "record_push_failure status error c =
     c\<lparr>pc_failures := pc_failures c + 1, pc_last_status := status, pc_last_error := Some (take 240 error)\<rparr>"

definition push_envelope :: "pyfloat \<Rightarrow> pyfloat \<Rightarrow> network_outcome \<Rightarrow> pydict \<Rightarrow> (push_client, push_result) pymethod" where
  "push_envelope started ended outcome envelope =
     sbind (sgets peer_configured) (\<lambda>configured.
     if \<not> configured then sreturn \<lparr>pr_ok = False, pr_status = 0, pr_error = Some ''peer URL is not configured''\<rparr>
     else
       sthen (smodify (\<lambda>c. c\<lparr>pc_last_attempt := started\<rparr>))
       (case outcome of
          Answered status \<Rightarrow>
            if is_success status then
              sthen (smodify (\<lambda>c. c\<lparr>pc_last_success := ended\<rparr>))
              (sbind (slift (get_int envelope ''revision'' (PInt 0))) (\<lambda>revision.
              sthen (smodify (\<lambda>c. c\<lparr>pc_last_revision := revision, pc_pushes := pc_pushes c + 1, pc_last_status := status, pc_last_error := None\<rparr>))
              (sreturn \<lparr>pr_ok = True, pr_status = status, pr_error = None\<rparr>)))
            else
              (let (st, error) = push_failure outcome in
               sthen (smodify (record_push_failure st error)) (sreturn \<lparr>pr_ok = False, pr_status = st, pr_error = Some (take 240 error)\<rparr>))
        | _ \<Rightarrow>
            (let (st, error) = push_failure outcome in
             sthen (smodify (record_push_failure st error)) (sreturn \<lparr>pr_ok = False, pr_status = st, pr_error = Some (take 240 error)\<rparr>))))"

definition receipt_result :: "network_outcome \<Rightarrow> push_result" where
  "receipt_result outcome = (case outcome of
      Answered status \<Rightarrow> \<lparr>pr_ok = is_success status, pr_status = status,
         pr_error = (if is_success status then None else Some (''peer returned HTTP '' @ show_int status))\<rparr>
    | RefusedWith code \<Rightarrow> \<lparr>pr_ok = False, pr_status = code, pr_error = Some (''peer HTTP '' @ show_int code)\<rparr>
    | NotReached reason \<Rightarrow> \<lparr>pr_ok = False, pr_status = 0, pr_error = Some (take 240 reason)\<rparr>)"

definition record_receipt :: "push_result \<Rightarrow> push_client \<Rightarrow> push_client" where
  "record_receipt r c =
     (if pr_ok r then c\<lparr>pc_ready_deliveries := pc_ready_deliveries c + 1, pc_ready_error := None\<rparr>
      else c\<lparr>pc_ready_failures := pc_ready_failures c + 1, pc_ready_error := pr_error r\<rparr>)"

definition deliver_planned_handoff_ready :: "network_outcome \<Rightarrow> (push_client, push_result) pymethod" where
  "deliver_planned_handoff_ready outcome =
     sthen (smodify (\<lambda>c. c\<lparr>pc_ready_attempts := pc_ready_attempts c + 1\<rparr>))
     (sbind (sgets peer_configured) (\<lambda>configured.
      let r = (if configured then receipt_result outcome
               else \<lparr>pr_ok = False, pr_status = 0, pr_error = Some ''peer URL is not configured''\<rparr>) in
      sthen (smodify (record_receipt r)) (sreturn r)))"

definition push_age_ms :: "pyfloat \<Rightarrow> pyfloat \<Rightarrow> pyerr + pyval" where
  \<comment> \<open>\<open>int((now - t) * 1000) if t else None\<close>\<close>
  "push_age_ms now t = (if t = Fin 0 then Inr PNone else ebind (int_of_float (fscale 1000 (fsub now t))) (\<lambda>n. Inr (PInt n)))"

definition opt_text :: "string option \<Rightarrow> pyval" where
  "opt_text t = (case t of None \<Rightarrow> PNone | Some s \<Rightarrow> PStr s)"

definition push_status :: "pyfloat \<Rightarrow> push_client \<Rightarrow> pyerr + pydict" where
  "push_status now c =
     ebind (push_age_ms now (pc_last_attempt c)) (\<lambda>attempt.
     ebind (push_age_ms now (pc_last_success c)) (\<lambda>success.
     Inr [(''configured'', PBool (peer_configured c)), (''peerUrl'', opt_str (pc_url c)), (''pushes'', PInt (int (pc_pushes c))),
          (''failures'', PInt (int (pc_failures c))), (''lastRevision'', PInt (pc_last_revision c)),
          (''lastHttpStatus'', (if pc_last_status c = 0 then PNone else PInt (pc_last_status c))), (''lastError'', opt_text (pc_last_error c)),
          (''lastAttemptAgeMs'', attempt), (''lastSuccessAgeMs'', success), (''handoffReadyAttempts'', PInt (int (pc_ready_attempts c))),
          (''handoffReadyDeliveries'', PInt (int (pc_ready_deliveries c))), (''handoffReadyFailures'', PInt (int (pc_ready_failures c))),
          (''handoffReadyLastError'', opt_text (pc_ready_error c))]))"

section \<open>Histories\<close>

datatype push_event =
    PushEnvelope pyfloat pyfloat network_outcome pydict
  | PushReceipt network_outcome

fun push_step :: "push_event \<Rightarrow> push_client \<Rightarrow> (pyerr + push_result) \<times> push_client" where
  "push_step (PushEnvelope t0 t1 outcome envelope) c = push_envelope t0 t1 outcome envelope c"
| "push_step (PushReceipt outcome) c = deliver_planned_handoff_ready outcome c"

fun push_run :: "push_event list \<Rightarrow> push_client \<Rightarrow> (pyerr + push_result) list \<times> push_client" where
  "push_run [] c = ([], c)"
| "push_run (e # es) c = (let (r, c') = push_step e c; (rs, c'') = push_run es c' in (r # rs, c''))"

text \<open>Of a history and its results: the receipts that were reported delivered, and those that were reported failed.\<close>

definition is_receipt :: "push_event \<Rightarrow> bool" where
  "is_receipt e = (case e of PushReceipt _ \<Rightarrow> True | _ \<Rightarrow> False)"

definition reported :: "bool \<Rightarrow> bool \<Rightarrow> push_event \<times> (pyerr + push_result) \<Rightarrow> bool" where
  "reported receipt ok er = (is_receipt (fst er) = receipt \<and> (\<exists>x. snd er = Inr x \<and> pr_ok x = ok))"

lemma push_counters:
  assumes "push_step e c = (r, c')" and "peer_configured c"
  shows "peer_configured c' \<and>
    pc_ready_attempts c' = pc_ready_attempts c + (if is_receipt e then 1 else 0) \<and>
    pc_ready_deliveries c' = pc_ready_deliveries c + (if reported True True (e, r) then 1 else 0) \<and>
    pc_ready_failures c' = pc_ready_failures c + (if reported True False (e, r) then 1 else 0) \<and>
    pc_pushes c' = pc_pushes c + (if reported False True (e, r) then 1 else 0) \<and>
    pc_failures c' = pc_failures c + (if reported False False (e, r) then 1 else 0)"
proof (cases e)
  case (PushEnvelope t0 t1 outcome envelope)
  note defs = push_envelope_def method_run Let_def reported_def is_receipt_def push_failure_def record_push_failure_def peer_configured_def
  show ?thesis
  proof (cases outcome)
    case (Answered status)
    show ?thesis
    proof (cases "is_success status")
      case True
      then show ?thesis
        using assms PushEnvelope Answered by (cases "get_int envelope ''revision'' (PInt 0)") (auto simp: defs)
    next
      case False
      then show ?thesis using assms PushEnvelope Answered by (auto simp: defs)
    qed
  qed (use assms PushEnvelope in \<open>auto simp: defs\<close>)
next
  case (PushReceipt outcome)
  then show ?thesis
    using assms
    by (auto simp: deliver_planned_handoff_ready_def method_run Let_def reported_def is_receipt_def record_receipt_def peer_configured_def
        split: if_splits)
qed

text \<open>
  The counters of the client are exact: over every history of pushes and receipts to a configured peer, whatever the network
  answers and whether calls return or raise, the status shows as many receipts delivered and failed, and as many envelopes pushed and failed, as
  calls have reported so, and every receipt is accounted for by one of the two.
\<close>

theorem push_counters_exact:
  assumes "push_run es (new_push_client url timeout) = (rs, c)" and "peer_configured (new_push_client url timeout)"
  shows "pc_pushes c = length (filter (reported False True) (zip es rs)) \<and>
    pc_failures c = length (filter (reported False False) (zip es rs)) \<and>
    pc_ready_deliveries c = length (filter (reported True True) (zip es rs)) \<and>
    pc_ready_failures c = length (filter (reported True False) (zip es rs)) \<and>
    pc_ready_attempts c = length (filter is_receipt es)"
proof -
  have "pc_pushes c' = pc_pushes c0 + length (filter (reported False True) (zip es rs)) \<and>
    pc_failures c' = pc_failures c0 + length (filter (reported False False) (zip es rs)) \<and>
    pc_ready_deliveries c' = pc_ready_deliveries c0 + length (filter (reported True True) (zip es rs)) \<and>
    pc_ready_failures c' = pc_ready_failures c0 + length (filter (reported True False) (zip es rs)) \<and>
    pc_ready_attempts c' = pc_ready_attempts c0 + length (filter is_receipt es)"
    if "push_run es c0 = (rs, c')" "peer_configured c0" for c0 c'
    using that
  proof (induction es arbitrary: c0 rs c')
    case (Cons e es)
    obtain r c1 where s: "push_step e c0 = (r, c1)" by fastforce
    obtain rs' c2 where run: "push_run es c1 = (rs', c2)" by fastforce
    note counters = push_counters [OF s Cons.prems(2)]
    from Cons.prems(1) s run have split: "rs = r # rs'" "c2 = c'" by simp_all
    from run split(2) counters have "push_run es c1 = (rs', c')" "peer_configured c1" by simp_all
    from Cons.IH [OF this] counters show ?case unfolding split(1) by simp
  qed simp
  from this [OF assms] show ?thesis by (simp add: new_push_client_def)
qed

end
