(* ===== verification/Spec2Isabelle.thy ===== *)
theory Spec2Isabelle
  imports Witness_Cluster Planned_Handoff Session_Channel Punch_Capture Show_History
    Authority_Leases Adaptation Public_Record Audit_Log Planners Http_Gate Governance_Rules
    Interop_Sessions Venue Peer_Replication
begin

text \<open>
  A verification development of the control plane of StageForge (\<^verbatim>\<open>src/backend\<close>): the show state and
  its revisions, the replication of it to standby nodes, the witnesses that decide which node is
  primary, the handoff of a running program between nodes, and the documents these parts exchange.

  \<^bold>\<open>The program.\<close>  A node holds a \<open>ShowState\<close> (\<^verbatim>\<open>state.py\<close>), which clients change by
  requests that carry an expected revision.  A primary exports signed envelopes with snapshots of it, a
  standby verifies and applies them (\<^verbatim>\<open>replication.py\<close>, \<open>apply_replica\<close> of \<^verbatim>\<open>runtime.py\<close>).  A node may act
  as primary only while it holds a lease of a quorum of witnesses (\<^verbatim>\<open>witness.py\<close>,
  \<^verbatim>\<open>witness_server.py\<close>), which are keyed by rotating keyrings (\<^verbatim>\<open>cluster_secrets.py\<close>).  Whether a
  standby can take over the running program is decided from execution evidence (\<^verbatim>\<open>handoff.py\<close>), and a
  planned handoff exchanges signed offers and receipts (\<^verbatim>\<open>planned_handoff.py\<close>).  Documents of other
  versions are inspected, migrated and merged without loss (\<^verbatim>\<open>compatibility.py\<close>); extensions are assessed
  against an openness policy (\<^verbatim>\<open>technology.py\<close>); played notes are captured and exported
  (\<^verbatim>\<open>notation.py\<close>); participants exchange authenticated frames (\<^verbatim>\<open>session_channel.py\<close>), and recordings are
  gated by punch and loop ranges (\<^verbatim>\<open>punch_capture.py\<close>).  Operators own parts of a venue by leases
  (\<^verbatim>\<open>authority_leases.py\<close>), and what the venue's adapters report is compared with the committed patch
  and its owners (\<^verbatim>\<open>reconciliation.py\<close>); the patch itself is proposed, validated, committed at a musical
  boundary and rolled back by transactions (\<^verbatim>\<open>adaptation.py\<close>).  Operations are entered in a signed,
  hash-linked record that outside witnesses attest (\<^verbatim>\<open>public_record.py\<close>), and decisions on requests in an audit
  that is rotated and pruned (\<^verbatim>\<open>persistence.py\<close>).  Requests pass a bridge that checks hosts, origins and
  tokens, decides on the roles of the user, limits rates and expensive work (\<^verbatim>\<open>dev_server.py\<close>,
  \<^verbatim>\<open>http_authorization.py\<close>), and reach the show through a command path that answers a repeated command from its first
  result and persists every change (\<open>mutate\<close> of \<^verbatim>\<open>runtime.py\<close>).  Changes of policy are proposed, voted on by invited accounts and
  adopted in the community store (\<^verbatim>\<open>community_governance.py\<close>).  Participants agree on sessions through authenticated offers
  and consent to what a session shows of a user's profile (\<^verbatim>\<open>interoperability_sessions.py\<close>, \<^verbatim>\<open>user_profiles.py\<close>);
  a show is planned for a venue from the profile of its devices and what discovery finds there (\<^verbatim>\<open>venue.py\<close>); envelopes and receipts
  are delivered by a counting client (\<^verbatim>\<open>peer_replication.py\<close>).  Planners without state decide dispatch times, delay compensation,
  effect shedding and format conversions (\<^verbatim>\<open>timing.py\<close>, \<^verbatim>\<open>plugin_latency.py\<close>, \<^verbatim>\<open>overload_policy.py\<close>,
  \<^verbatim>\<open>audio_conversion.py\<close>).

  \<^bold>\<open>The language.\<close>  \<open>Py_Prelude\<close> and \<open>Py_Value\<close> model what the code uses of Python: JSON values with
  insertion-ordered dictionaries, exceptions as values, \<open>int\<close>, \<open>float\<close> and \<open>str\<close> conversions, clamping,
  stripping, formatting.  A float is a rational, an infinity or NaN: arithmetic is exact, so the rounding of
  single operations is not modelled, while overflow to infinity on conversion and the comparisons with
  NaN are.  Characters are those of Isabelle's \<open>char\<close>.  \<open>Py_Monad\<close> is the state and exception monad
  of methods, in which assignments survive a raise, with the invariant logic \<open>keeps\<close> and the locale
  \<open>normalizer\<close>; \<open>Py_Crypto\<close> writes out SHA-256 and HMAC on octet strings, so that every digest is a
  closed term; no property assumes more of them than that they are functions.

  \<^bold>\<open>The theories.\<close>
  \<^item> \<open>Cluster_Secrets\<close>: keyring documents, key selection and resolution.
  \<^item> \<open>Replication\<close>: envelopes, the tracker and its roles and epochs; what is exported verifies, accepted
    envelopes are authentic, exports increase, applied envelopes are not applied again when an epoch has
    one source, and the counterexample with two.
  \<^item> \<open>Witness_Protocol\<close>, \<open>Witness_Store\<close>, \<open>Witness_Server\<close>, \<open>Witness_Client\<close>: signed requests and answers,
    the lease store with its file, the request handler and the quorum client.  The store refines an
    abstract lease; a request that is not authentic changes nothing.
  \<^item> \<open>Witness_Cluster\<close>: clients, witnesses, clocks and messages as one step relation; no two nodes hold a
    valid quorum lease at the same time.
  \<^item> \<open>Handoff\<close>, \<open>Planned_Handoff\<close>: normalised configuration, the registry of execution evidence, the
    decision, offers and receipts.
  \<^item> \<open>Session_Channel\<close>: key derivation, packed frames, rotation and checkpoints of a session; streams arrive
    as sent and no frame is accepted twice.
  \<^item> \<open>Punch_Capture\<close>: the gate that cuts captured blocks at punch and loop boundaries; its loop ends and
    tiles the window.
  \<^item> \<open>Compatibility\<close>: inspection, migration and merging of documents, negotiation between participants,
    resolution of requirements.
  \<^item> \<open>Technology\<close>: policies, extensions, evidence digests, assessment and the registry report.
  \<^item> \<open>Notation\<close>: capture, quantisation, spelling, snapshots and MusicXML.
  \<^item> \<open>Show_State\<close>, \<open>Show_Ops\<close>, \<open>Show_Audio\<close>, \<open>Show_Recovery\<close>: the fields of \<open>ShowState\<close>, one definition per
    method, the audio patch, and recovery from persisted and replicated documents.
  \<^item> \<open>Show_Invariants\<close>, \<open>Show_History\<close>: the bounds of every field, kept by every operation whether it
    returns or raises; reachable states; stale requests; the audit log; the transport clock; what a
    refused request leaves behind.

  \<^item> \<open>Authority_Leases\<close>: the registry of operator leases and its histories; a scope has one owner.
  \<^item> \<open>Reconciliation\<close>: the evidence registry and the evaluation of the active patch; realized means proven,
    and which reports of an unhealthy adapter are masked.
  \<^item> \<open>Adaptation\<close>: venue adaptation transactions, the manager with its file, its histories; the live layer is
    that of a validated transaction, commits scheduled for a bar happen, a rollback restores the layer before,
    and how a repeated commit request takes the rollback away.
  \<^item> \<open>Public_Record\<close>: the record and witness ledgers; what the store writes verifies, records with the same head
    have the same contents unless SHA-256 collides, and witnessed means attested by a quorum.  \<open>Py_Json\<close> holds
    what the ledgers and the adaptation file share: dictionaries written with sorted keys.
  \<^item> \<open>Audit_Log\<close>: the repository of checkpoint, event ledger and authorisation audit; rotation and pruning keep
    the commitment to every accepted decision under any failure but a torn write.
  \<^item> \<open>Command_Runtime\<close>: commands on a node with its show and repository; a command runs once, unless its
    persistence failed.
  \<^item> \<open>Http_Authorization\<close>: the role policy and the decision on a route, against a table of who may do what.
  \<^item> \<open>Http_Limits\<close>: token buckets and slots of expensive operations with their bounds.
  \<^item> \<open>Http_Gate\<close>: admission of a request and the routes that patch the show; what was admitted is in the
    audit, and a performer reaches only its own players.
  \<^item> \<open>Governance\<close>, \<open>Governance_Rules\<close>: accounts, proposals, invitations, votes and tallies, and what they guarantee; one
    vote per account and version, adoption rests on the accounts that voted and is final, and two ways in which
    it goes wrong.  \<open>Py_Time\<close> holds the calendar and the texts in which times are stored.
  \<^item> \<open>Planners\<close>: timing, latency compensation, overload shedding and conversion plans with their bounds.

  \<^bold>\<open>Correspondence.\<close>  An object is a record with the source's attributes, a method a definition in the
  monad over it, in the order of the source's statements; a loop body is a definition of its own.  Clock
  readings, random identifiers, network answers and the outcome of file operations are arguments.  A
  method that holds its lock throughout is one step.  All recursion is structural or over a list, except
  the loop of the punch gate, a partial function proved to return; no fuel is needed.

  \<^bold>\<open>Locales.\<close>  \<open>normalizer\<close> (a configuration reader gives valid values and reads back what it wrote) is
  interpreted by the three handoff normalisers; \<open>sealed_document\<close> (a document with a digest and a tag is
  accepted only with its own facts) by offers and receipts; \<open>lease_cell\<close> and \<open>durable_lease_cell\<close> (the
  abstract lease a witness keeps, across restarts) by the witness store; \<open>quorum_system\<close> (two quorums meet)
  by the majorities of the configured witnesses; \<open>commitment_log\<close> (a log that commits to what it accepted) by the
  authorisation audit; \<open>slot_bank\<close> (four slots with a validity) by the audio
  inputs and outputs.

  \<^bold>\<open>Not modelled.\<close>  Sockets, threads and the \<open>GET\<close> and \<open>POST\<close> routes of \<^verbatim>\<open>dev_server.py\<close>, the wiring of the runtime to the
  native engine, the C++ engine, plug-in hosts, audio and MIDI devices, operating-system services, hardware
  qualification and the file protocols: I/O around the logic above.  Clip fades use trigonometric functions
  on floats.  Also not modelled: mapping and identity of MIDI and audio devices, the recording and playback sessions of the audio
  workstation, accounts and mail, deployment and ownership files, and the review of qualification evidence; they check documents and files of their
  own and touch the parts above only through the runtime.
\<close>

end
